(* ===== verification/Rust_Base.thy ===== *)
theory Rust_Base
  imports Main "HOL-Library.Word" "HOL-Library.Monad_Syntax" "HOL-Library.Signed_Division"
begin

text \<open>
  Shared ground of the development: the names of Rust's machine integers, results that
  may be an error or a panic, the byte orders of \<open>to_le_bytes\<close> and \<open>to_be_bytes\<close>, and the
  two interfaces (locales) that several components provide: a wire format whose decoder
  consumes exactly what its encoder wrote, and a store of cells read and written by index.

  Arithmetic follows the release profile of the workspace's \<open>Cargo.toml\<close>: integer overflow
  wraps, and a panic aborts the process.
\<close>

unbundle bit_operations_syntax

named_theorems wire_simps \<open>evaluation rules of the byte encoders and decoders\<close>
named_theorems panic_free \<open>facts that an operation returns a value\<close>

section \<open>Machine integers\<close>

text \<open>
  A signed and an unsigned integer of the same width are the same bit pattern; a signed
  reading is \<open>sint\<close>, an unsigned one \<open>uint\<close> or \<open>unat\<close>. A \<open>usize\<close> that only counts or
  indexes in memory is a \<open>nat\<close>.
\<close>

type_synonym u8 = "8 word"
type_synonym u16 = "16 word"
type_synonym u32 = "32 word"
type_synonym u64 = "64 word"
type_synonym u128 = "128 word"
type_synonym i8 = "8 word"
type_synonym i16 = "16 word"
type_synonym i32 = "32 word"
type_synonym i64 = "64 word"
type_synonym bytes = "u8 list"

text \<open>Rust's \<open>i32 as usize\<close> on a 64-bit target: sign extension, then an unsigned reading.\<close>

definition i32_as_usize :: "i32 \<Rightarrow> nat" where
  "i32_as_usize v = unat (scast v :: u64)"

text \<open>Rust's \<open>usize as i32\<close>: the low 32 bits.\<close>

definition usize_as_i32 :: "nat \<Rightarrow> i32" where
  "usize_as_i32 n = word_of_nat n"

lemma uint_scast_i64: "uint (scast (v :: i32) :: u64) = sint v mod 2 ^ 64"
  by (simp only: scast_eq uint_word_of_int) simp

lemma uint_eq_sint_nonneg:
  assumes "0 \<le> sint (v :: 'a::len word)"
  shows "uint v = sint v"
proof -
  have "sint v < 2 ^ LENGTH('a)"
    using sint_lt [of v] by (rule less_le_trans) simp
  with assms show ?thesis
    by (simp only: uint_sint take_bit_int_eq_self)
qed

lemma sint_of_small:
  assumes "uint (v :: 'a::len word) < 2 ^ (LENGTH('a) - 1)"
  shows "sint v = uint v"
proof -
  obtain n where n: "LENGTH('a) = Suc n"
    using len_gt_0 [where 'a = 'a] by (cases "LENGTH('a)") auto
  have "- (2 ^ n) \<le> uint v"
    by (rule order_trans [of _ 0]) simp_all
  then show ?thesis
    using assms by (simp add: sint_uint n signed_take_bit_int_eq_self_iff)
qed

lemma i32_as_usize_nonneg:
  assumes "0 \<le> sint v"
  shows "i32_as_usize v = unat v"
proof -
  have sv: "uint v = sint v"
    using assms by (rule uint_eq_sint_nonneg)
  have "sint v < 2 ^ 64"
    using sint_lt [of v] by simp
  with assms have "uint (scast v :: u64) = uint v"
    by (simp add: uint_scast_i64 sv)
  then show ?thesis
    by (simp add: i32_as_usize_def flip: nat_uint_eq)
qed

lemma i32_as_usize_neg:
  assumes "sint v < 0"
  shows "i32_as_usize v = nat (sint v + 2 ^ 64)"
proof -
  have ge: "- (2 ^ 31) \<le> sint v"
    using sint_ge [of v] by simp
  have "sint v mod 2 ^ 64 = (sint v + 2 ^ 64) mod 2 ^ 64"
    by (rule mod_add_self2 [symmetric])
  also have "\<dots> = sint v + 2 ^ 64"
    using assms ge by (intro mod_pos_pos_trivial) simp_all
  finally show ?thesis
    by (simp only: i32_as_usize_def nat_uint_eq [symmetric] uint_scast_i64)
qed

lemma unat_usize_as_i32: "n < 2 ^ 32 \<Longrightarrow> unat (usize_as_i32 n) = n"
  by (simp add: usize_as_i32_def unat_of_nat)

lemma uint_usize_as_i32: "n < 2 ^ 32 \<Longrightarrow> uint (usize_as_i32 n) = int n"
  by (simp only: uint_nat unat_usize_as_i32)

lemma sint_usize_as_i32: "n < 2 ^ 31 \<Longrightarrow> sint (usize_as_i32 n) = int n"
  by (subst sint_of_small) (simp_all add: uint_usize_as_i32)

lemma usize_i32_roundtrip [simp]: "n < 2 ^ 31 \<Longrightarrow> i32_as_usize (usize_as_i32 n) = n"
  by (simp add: i32_as_usize_nonneg sint_usize_as_i32 unat_usize_as_i32)

text \<open>Decimal, as \<open>{}\<close> formats an unsigned integer.\<close>

fun show_nat :: "nat \<Rightarrow> string" where
  "show_nat n = (if n < 10 then [char_of (48 + n)] else show_nat (n div 10) @ [char_of (48 + n mod 10)])"

declare show_nat.simps [simp del]

definition saturating_sub8 :: "u8 \<Rightarrow> u8 \<Rightarrow> u8" where
  "saturating_sub8 a b = (if b \<le> a then a - b else 0)"

lemma saturating_sub8_le: "saturating_sub8 a b \<le> a"
  by (auto simp: saturating_sub8_def word_le_nat_alt unat_sub)

definition saturating_sub32 :: "u32 \<Rightarrow> u32 \<Rightarrow> u32" where
  "saturating_sub32 a b = (if a < b then 0 else a - b)"

definition saturating_inc32 :: "u32 \<Rightarrow> u32" where
  "saturating_inc32 n = (if n = - 1 then n else n + 1)"

lemma saturating_sub32_unat: "unat (saturating_sub32 a b) = unat a - unat b"
  by (simp add: saturating_sub32_def word_less_nat_alt unat_sub word_le_nat_alt)

text \<open>Signed division truncates towards zero; the divisors of the code are positive constants.\<close>

definition i32_div :: "i32 \<Rightarrow> int \<Rightarrow> i32" where
  "i32_div a b = word_of_int (sint a sdiv b)"

lemma sint_add_inside:
  fixes a b :: i32
  assumes "- (2 ^ 31) \<le> sint a + sint b" and "sint a + sint b < 2 ^ 31"
  shows "sint (a + b) = sint a + sint b"
  using assms by (simp add: sint_word_ariths signed_take_bit_int_eq_self)

lemma sint_diff_inside:
  fixes a b :: i32
  assumes "- (2 ^ 31) \<le> sint a - sint b" and "sint a - sint b < 2 ^ 31"
  shows "sint (a - b) = sint a - sint b"
  using assms by (simp add: sint_word_ariths signed_take_bit_int_eq_self)

section \<open>Results and panics\<close>

text \<open>
  A Rust function that returns \<open>Result<T, E>\<close> ends in one of three ways: \<open>Ok\<close>, \<open>Err\<close>, or
  a panic (an out-of-range slice, say). A function without a \<open>Result\<close> that may panic returns
  an \<open>option\<close>, with \<open>None\<close> for the panic.
\<close>

datatype ('e, 'a) outcome = Ok 'a | Err 'e | Panic

fun and_then :: "('e, 'a) outcome \<Rightarrow> ('a \<Rightarrow> ('e, 'b) outcome) \<Rightarrow> ('e, 'b) outcome" where
  "and_then (Ok a) f = f a"
| "and_then (Err e) f = Err e"
| "and_then Panic f = Panic"

fun map_err :: "('e \<Rightarrow> 'f) \<Rightarrow> ('e, 'a) outcome \<Rightarrow> ('f, 'a) outcome" where
  "map_err g (Ok a) = Ok a"
| "map_err g (Err e) = Err (g e)"
| "map_err g Panic = Panic"

lemma and_then_eq_Ok: "and_then m f = Ok b \<longleftrightarrow> (\<exists>a. m = Ok a \<and> f a = Ok b)"
  by (cases m) auto

lemma and_then_eq_Panic: "and_then m f = Panic \<longleftrightarrow> m = Panic \<or> (\<exists>a. m = Ok a \<and> f a = Panic)"
  by (cases m) auto

lemma map_err_eq_Panic [simp]: "map_err g m = Panic \<longleftrightarrow> m = Panic"
  by (cases m) auto

text \<open>The slice \<open>&data[a..b]\<close>: panics unless \<open>a \<le> b \<le> data.len()\<close>.\<close>

definition slice :: "'a list \<Rightarrow> nat \<Rightarrow> nat \<Rightarrow> 'a list option" where
  "slice xs a b = (if a \<le> b \<and> b \<le> length xs then Some (take (b - a) (drop a xs)) else None)"

definition nth_opt :: "'a list \<Rightarrow> nat \<Rightarrow> 'a option" where
  "nth_opt xs i = (if i < length xs then Some (xs ! i) else None)"

definition upd_opt :: "'a list \<Rightarrow> nat \<Rightarrow> 'a \<Rightarrow> 'a list option" where
  "upd_opt xs i x = (if i < length xs then Some (xs[i := x]) else None)"

lemma slice_prefix [simp]: "slice (xs @ ys) 0 (length xs) = Some xs"
  by (simp add: slice_def)

lemma nth_opt_eq_Some: "nth_opt xs i = Some x \<longleftrightarrow> i < length xs \<and> xs ! i = x"
  by (auto simp: nth_opt_def)

lemma upd_opt_eq_Some: "upd_opt xs i x = Some ys \<longleftrightarrow> i < length xs \<and> ys = xs[i := x]"
  by (auto simp: upd_opt_def)

section \<open>Byte orders\<close>

text \<open>
  \<open>le_bytes n w\<close> is \<open>w.to_le_bytes()\<close> of an \<open>n\<close>-byte integer, \<open>be_bytes n w\<close> its
  \<open>to_be_bytes()\<close>; \<open>from_le\<close> and \<open>from_be\<close> are the readers.
\<close>

definition le_bytes :: "nat \<Rightarrow> 'a::len word \<Rightarrow> bytes" where
  "le_bytes n w = map (\<lambda>i. ucast (drop_bit (8 * i) w)) [0..<n]"

definition be_bytes :: "nat \<Rightarrow> 'a::len word \<Rightarrow> bytes" where
  "be_bytes n w = rev (le_bytes n w)"

primrec from_le :: "bytes \<Rightarrow> 'a::len word" where
  "from_le [] = 0"
| "from_le (b # bs) = ucast b OR push_bit 8 (from_le bs)"

definition from_be :: "bytes \<Rightarrow> 'a::len word" where
  "from_be bs = from_le (rev bs)"

lemma length_le_bytes [simp]: "length (le_bytes n w) = n"
  by (simp add: le_bytes_def)

lemma length_be_bytes [simp]: "length (be_bytes n w) = n"
  by (simp add: be_bytes_def)

lemma bit_from_le:
  "bit (from_le bs :: 'a::len word) i \<longleftrightarrow>
     i < LENGTH('a) \<and> i < 8 * length bs \<and> bit (bs ! (i div 8)) (i mod 8)"
proof (induction bs arbitrary: i)
  case Nil
  then show ?case by simp
next
  case (Cons b bs)
  show ?case
  proof (cases "i < 8")
    case True
    then show ?thesis
      by (auto simp: bit_or_iff bit_push_bit_iff bit_ucast_iff)
  next
    case False
    then obtain j where j: "i = j + 8"
      by (metis add.commute le_Suc_ex not_less)
    have "\<not> bit b i"
      using False by (auto dest!: bit_imp_le_length)
    moreover have "(j + 8) div 8 = Suc (j div 8)" and "(j + 8) mod 8 = j mod 8"
      by simp_all
    ultimately show ?thesis
      by (auto simp: j bit_or_iff bit_push_bit_iff bit_ucast_iff Cons.IH)
  qed
qed

lemma bit_le_bytes:
  "k < n \<Longrightarrow> bit (le_bytes n (w :: 'a::len word) ! k) i \<longleftrightarrow> i < 8 \<and> bit w (8 * k + i)"
  by (auto simp: le_bytes_def bit_ucast_iff bit_drop_bit_eq)

lemma from_le_le_bytes [simp]:
  assumes "LENGTH('a::len) \<le> 8 * n"
  shows "from_le (le_bytes n w) = (w :: 'a word)"
proof (rule bit_word_eqI)
  fix i assume i: "i < LENGTH('a)"
  then have "i div 8 < n"
    using assms by simp
  then have "bit (le_bytes n w ! (i div 8)) (i mod 8) \<longleftrightarrow> bit w (8 * (i div 8) + i mod 8)"
    by (simp add: bit_le_bytes)
  also have "8 * (i div 8) + i mod 8 = i"
    by simp
  finally show "bit (from_le (le_bytes n w) :: 'a word) i \<longleftrightarrow> bit w i"
    using i assms by (simp add: bit_from_le)
qed

lemma from_be_be_bytes [simp]:
  "LENGTH('a::len) \<le> 8 * n \<Longrightarrow> from_be (be_bytes n w) = (w :: 'a word)"
  by (simp add: from_be_def be_bytes_def)

lemma le_bytes_from_le:
  assumes "length bs = n" and "8 * n \<le> LENGTH('a::len)"
  shows "le_bytes n (from_le bs :: 'a word) = bs"
proof (rule nth_equalityI)
  show "length (le_bytes n (from_le bs :: 'a word)) = length bs"
    using assms by simp
  fix k assume "k < length (le_bytes n (from_le bs :: 'a word))"
  then have k: "k < n" by simp
  show "le_bytes n (from_le bs :: 'a word) ! k = bs ! k"
  proof (rule bit_word_eqI)
    fix i assume i: "i < LENGTH(8)"
    then have lt: "8 * k + i < 8 * n"
      using k by simp
    with assms have "8 * k + i < LENGTH('a)" by linarith
    with i lt k assms(1) show "bit (le_bytes n (from_le bs :: 'a word) ! k) i \<longleftrightarrow> bit (bs ! k) i"
      by (simp add: bit_le_bytes bit_from_le)
  qed
qed

lemma be_bytes_from_be:
  "length bs = n \<Longrightarrow> 8 * n \<le> LENGTH('a::len) \<Longrightarrow> be_bytes n (from_be bs :: 'a word) = bs"
  by (simp add: from_be_def be_bytes_def le_bytes_from_le)

text \<open>Readers that advance an offset: what is read at an offset, and where the next field is.\<close>

lemma drop_prefix: "drop off data = xs @ rest \<Longrightarrow> drop (off + length xs) data = rest"
  by (metis append_eq_conv_conj add.commute drop_drop)

lemma drop_nonempty: "drop off data = xs @ rest \<Longrightarrow> xs \<noteq> [] \<Longrightarrow> off + length xs \<le> length data"
  by (metis append_is_Nil_conv drop_eq_Nil le_add_diff_inverse length_append length_drop linorder_le_cases
      nat_add_left_cancel_le le_add1)

lemma drop_room: "drop pos data = xs @ rest \<Longrightarrow> 0 < length xs \<Longrightarrow> \<not> length data < pos + length xs"
  using drop_nonempty [of pos data xs rest] by auto

section \<open>Wire formats\<close>

text \<open>
  A wire format is an encoder and a decoder that returns the value and the number of bytes
  it consumed; on the values the format can carry, decoding what was written gives the value
  back and stops at its end, whatever follows.
\<close>

primrec read_many :: "(bytes \<Rightarrow> ('e, 'a \<times> nat) outcome) \<Rightarrow> nat \<Rightarrow> bytes \<Rightarrow> ('e, 'a list \<times> nat) outcome" where
  "read_many dec 0 data = Ok ([], 0)"
| "read_many dec (Suc n) data =
     and_then (dec data) (\<lambda>(x, k). and_then (read_many dec n (drop k data)) (\<lambda>(xs, m). Ok (x # xs, k + m)))"

locale wire_format =
  fixes enc :: "'a \<Rightarrow> bytes"
    and dec :: "bytes \<Rightarrow> ('e, 'a \<times> nat) outcome"
    and ok :: "'a \<Rightarrow> bool"
  assumes dec_enc: "ok x \<Longrightarrow> dec (enc x @ rest) = Ok (x, length (enc x))"
begin

lemma dec_enc_whole: "ok x \<Longrightarrow> dec (enc x) = Ok (x, length (enc x))"
  using dec_enc [of x "[]"] by simp

lemma unique_parse:
  assumes "ok x" and "ok y" and "enc x @ r = enc y @ s"
  shows "x = y \<and> r = s"
proof -
  have "Ok (x, length (enc x)) = (Ok (y, length (enc y)) :: ('e, 'a \<times> nat) outcome)"
    using dec_enc [OF assms(1), of r] dec_enc [OF assms(2), of s] assms(3) by simp
  then show ?thesis
    using assms(3) by simp
qed

lemma read_many_enc:
  "(\<And>x. x \<in> set xs \<Longrightarrow> ok x) \<Longrightarrow>
   read_many dec (length xs) (concat (map enc xs) @ rest) = Ok (xs, length (concat (map enc xs)))"
  by (induction xs) (simp_all add: dec_enc)

end

section \<open>Stores of cells\<close>

text \<open>
  A cell store is a state read and written by index. \<open>inv\<close> is its invariant, \<open>ix\<close> the valid
  indices and \<open>ok\<close> the values a cell can hold. Under these no access panics, a read returns the
  last value written to its cell, and a write leaves every other cell alone.
\<close>

primrec put_all :: "('s \<Rightarrow> 'i \<Rightarrow> 'v \<Rightarrow> 's option) \<Rightarrow> 's \<Rightarrow> ('i \<times> 'v) list \<Rightarrow> 's option" where
  "put_all put s [] = Some s"
| "put_all put s (w # ws) = Option.bind (put s (fst w) (snd w)) (\<lambda>s'. put_all put s' ws)"

primrec last_write :: "('i \<times> 'v) list \<Rightarrow> 'i \<Rightarrow> 'v option" where
  "last_write [] j = None"
| "last_write (w # ws) j =
     (case last_write ws j of Some v \<Rightarrow> Some v | None \<Rightarrow> if fst w = j then Some (snd w) else None)"

lemma last_write_map:
  "distinct is \<Longrightarrow> last_write (map (\<lambda>i. (i, f i)) is) j = (if j \<in> set is then Some (f j) else None)"
  by (induction "is") (auto split: if_splits)

text \<open>A loop that copies cells one by one: read from \<open>rd\<close>, write with \<open>put\<close>.\<close>

primrec copy_loop :: "('i \<Rightarrow> 'v option) \<Rightarrow> ('s \<Rightarrow> 'i \<Rightarrow> 'v \<Rightarrow> 's option) \<Rightarrow> 'i list \<Rightarrow> 's \<Rightarrow> 's option" where
  "copy_loop rd put [] s = Some s"
| "copy_loop rd put (i # is) s =
     Option.bind (rd i) (\<lambda>v. Option.bind (put s i v) (\<lambda>s'. copy_loop rd put is s'))"

lemma copy_loop_put_all:
  "(\<And>i. i \<in> set is \<Longrightarrow> rd i = Some (f i)) \<Longrightarrow>
   copy_loop rd put is s = put_all put s (map (\<lambda>i. (i, f i)) is)"
  by (induction "is" arbitrary: s) auto

locale cell_store =
  fixes inv :: "'s \<Rightarrow> bool"
    and ix :: "'i \<Rightarrow> bool"
    and ok :: "'v \<Rightarrow> bool"
    and get :: "'s \<Rightarrow> 'i \<Rightarrow> 'v option"
    and put :: "'s \<Rightarrow> 'i \<Rightarrow> 'v \<Rightarrow> 's option"
  assumes get_total: "inv s \<Longrightarrow> ix i \<Longrightarrow> \<exists>v. get s i = Some v \<and> ok v"
    and put_total: "inv s \<Longrightarrow> ix i \<Longrightarrow> ok v \<Longrightarrow> \<exists>s'. put s i v = Some s' \<and> inv s'"
    and get_put_same: "inv s \<Longrightarrow> ix i \<Longrightarrow> ok v \<Longrightarrow> put s i v = Some s' \<Longrightarrow> get s' i = Some v"
    and get_put_other:
      "inv s \<Longrightarrow> ix i \<Longrightarrow> ok v \<Longrightarrow> put s i v = Some s' \<Longrightarrow> ix j \<Longrightarrow> j \<noteq> i \<Longrightarrow> get s' j = get s j"
begin

lemma put_inv: "inv s \<Longrightarrow> ix i \<Longrightarrow> ok v \<Longrightarrow> put s i v = Some s' \<Longrightarrow> inv s'"
  using put_total by fastforce

lemma put_all_total:
  assumes "inv s" and "\<And>i v. (i, v) \<in> set ws \<Longrightarrow> ix i \<and> ok v"
  shows "\<exists>s'. put_all put s ws = Some s' \<and> inv s' \<and>
    (\<forall>j. ix j \<longrightarrow> get s' j = (case last_write ws j of Some v \<Rightarrow> Some v | None \<Rightarrow> get s j))"
  using assms
proof (induction ws arbitrary: s)
  case Nil
  then show ?case by simp
next
  case (Cons w ws)
  obtain i v where w: "w = (i, v)" by (cases w)
  with Cons.prems(2) have iv: "ix i" "ok v" by auto
  then obtain s1 where s1: "put s i v = Some s1" "inv s1"
    using put_total Cons.prems(1) by blast
  have "\<And>i v. (i, v) \<in> set ws \<Longrightarrow> ix i \<and> ok v"
    using Cons.prems(2) by auto
  from Cons.IH [OF s1(2) this] obtain s2 where s2: "put_all put s1 ws = Some s2" "inv s2"
    and g: "\<And>j. ix j \<Longrightarrow> get s2 j = (case last_write ws j of Some v \<Rightarrow> Some v | None \<Rightarrow> get s1 j)"
    by blast
  have "get s1 j = (if i = j then Some v else get s j)" if "ix j" for j
    using that get_put_same [OF Cons.prems(1) iv s1(1)] get_put_other [OF Cons.prems(1) iv s1(1)] by auto
  then show ?case
    using s1 s2 g by (auto simp: w split: option.splits)
qed

lemma put_all_fill:
  assumes "inv s" and "distinct is" and "\<And>i. i \<in> set is \<Longrightarrow> ix i \<and> ok (f i)"
  shows "\<exists>s'. put_all put s (map (\<lambda>i. (i, f i)) is) = Some s' \<and> inv s' \<and>
    (\<forall>j. ix j \<longrightarrow> get s' j = (if j \<in> set is then Some (f j) else get s j))"
proof -
  have "\<exists>s'. put_all put s (map (\<lambda>i. (i, f i)) is) = Some s' \<and> inv s' \<and>
    (\<forall>j. ix j \<longrightarrow> get s' j =
      (case last_write (map (\<lambda>i. (i, f i)) is) j of Some v \<Rightarrow> Some v | None \<Rightarrow> get s j))"
    by (rule put_all_total [OF assms(1)]) (use assms(3) in auto)
  then show ?thesis
    by (simp add: last_write_map [OF assms(2)] if_distrib [of "case_option _ _"] cong: if_cong)
qed

end

end
