(* ===== verification/Varint.thy ===== *)
theory Varint
  imports Rust_Base
begin

text \<open>
  \<open>mc-protocol/src/varint.rs\<close>: the variable-length integers of the protocol. The 32-bit and
  the 64-bit loops of the source are the same text at two widths, so one loop over
  \<open>'a word\<close> models both; \<open>read_varint\<close>, \<open>write_varint\<close> and their 64-bit twins are its
  instances. Shown: reading undoes writing whatever follows, every error has exactly one
  cause, reading never consumes more bytes than the width allows, and \<open>varint_size\<close> is the
  length of the encoding.
\<close>

datatype VarIntError = Incomplete | TooLarge

section \<open>The loops\<close>

fun read_loop :: "bytes \<Rightarrow> 'a::len word \<Rightarrow> nat \<Rightarrow> nat \<Rightarrow> (VarIntError, 'a word \<times> nat) outcome" where
  "read_loop [] value shift bytes_read = Err Incomplete"
| "read_loop (byte # bs) value shift bytes_read =
     (let bytes_read = bytes_read + 1;
          value = value OR push_bit shift (ucast (byte AND 0x7F))
      in if byte AND 0x80 = 0 then Ok (value, bytes_read)
         else let shift = shift + 7
              in if shift \<ge> LENGTH('a) then Err TooLarge
                 else read_loop bs value shift bytes_read)"

function write_loop :: "'a::len word \<Rightarrow> bytes \<Rightarrow> bytes" where
  "write_loop v buf =
     (let byte = ucast (v AND 0x7F);
          v' = drop_bit 7 v;
          byte = (if v' \<noteq> 0 then byte OR 0x80 else byte);
          buf = buf @ [byte]
      in if v' = 0 then buf else write_loop v' buf)"
  by pat_completeness auto

lemma unat_drop_bit_less: "drop_bit 7 v \<noteq> 0 \<Longrightarrow> unat (drop_bit 7 v) < unat (v :: 'a::len word)"
proof -
  assume nz: "drop_bit 7 v \<noteq> 0"
  have eq: "unat (drop_bit 7 v) = unat v div 128"
    by (subst unat_drop_bit_eq) (simp add: drop_bit_eq_div)
  have "unat v \<noteq> 0"
    using nz by (metis drop_bit_of_0 unat_eq_zero)
  then show ?thesis
    by (simp add: eq)
qed

termination write_loop
  by (relation "measure (\<lambda>(v, buf). unat v)") (auto simp: unat_drop_bit_less)

declare write_loop.simps [simp del]

definition read_varint :: "bytes \<Rightarrow> (VarIntError, i32 \<times> nat) outcome" where
  "read_varint buf = read_loop buf 0 0 0"

definition write_varint_to :: "i32 \<Rightarrow> bytes \<Rightarrow> bytes" where
  "write_varint_to value buf = write_loop value buf"

definition write_varint :: "i32 \<Rightarrow> bytes" where
  "write_varint value = write_varint_to value []"

definition read_varlong :: "bytes \<Rightarrow> (VarIntError, i64 \<times> nat) outcome" where
  "read_varlong buf = read_loop buf 0 0 0"

definition write_varlong :: "i64 \<Rightarrow> bytes" where
  "write_varlong value = write_loop value []"

text \<open>Rust's \<open>leading_zeros\<close>, counting down from the highest bit.\<close>

primrec zeros_below :: "'a::len word \<Rightarrow> nat \<Rightarrow> nat" where
  "zeros_below w 0 = 0"
| "zeros_below w (Suc n) = (if bit w n then 0 else Suc (zeros_below w n))"

definition leading_zeros :: "'a::len word \<Rightarrow> nat" where
  "leading_zeros w = zeros_below w LENGTH('a)"

definition varint_size :: "i32 \<Rightarrow> nat" where
  "varint_size v =
     (if v = 0 then 1
      else let bits = 32 - leading_zeros v in (bits + 6) div 7)"

section \<open>Writing\<close>

lemma write_loop_append: "write_loop v buf = buf @ write_loop v []"
proof (induction "unat v" arbitrary: v buf rule: less_induct)
  case less
  show ?case
  proof (cases "drop_bit 7 v = 0")
    case True
    then show ?thesis
      by (simp add: write_loop.simps [of v])
  next
    case False
    then have IH: "write_loop (drop_bit 7 v) xs = xs @ write_loop (drop_bit 7 v) []" for xs
      by (intro less unat_drop_bit_less)
    let ?b = "ucast (v AND 0x7F) OR 0x80 :: u8"
    have "write_loop v buf = buf @ [?b] @ write_loop (drop_bit 7 v) []"
      using False IH [of "buf @ [?b]"] by (simp add: write_loop.simps [of v])
    moreover have "write_loop v [] = [?b] @ write_loop (drop_bit 7 v) []"
      using False IH [of "[?b]"] by (simp add: write_loop.simps [of v])
    ultimately show ?thesis by simp
  qed
qed

lemma write_loop_Nil:
  "write_loop v [] =
     (if drop_bit 7 v = 0 then [ucast (v AND 0x7F)]
      else (ucast (v AND 0x7F) OR 0x80) # write_loop (drop_bit 7 v) [])"
  using write_loop_append [of "drop_bit 7 v" "[ucast (v AND 0x7F) OR 0x80]"]
  by (simp add: write_loop.simps [of v])

lemma write_varint_to_append: "write_varint_to v buf = buf @ write_varint v"
  by (simp add: write_varint_to_def write_varint_def write_loop_append [of v buf])


section \<open>Reading what was written\<close>

lemma bit_0x7F: "bit (0x7F :: int) i \<longleftrightarrow> i < 7"
  using bit_mask_iff [where 'a = int, of 7 i] by (simp add: mask_eq_exp_minus_1)

lemma bit_0x80: "bit (0x80 :: int) i \<longleftrightarrow> i = 7"
  using bit_exp_iff [where 'a = int, of 7 i] by auto

lemma byte_payload:
  "ucast ((ucast ((v :: 'a::len word) AND 0x7F) :: u8) AND 0x7F) = v AND 0x7F"
  "ucast (((ucast (v AND 0x7F) :: u8) OR 0x80) AND 0x7F) = v AND 0x7F"
proof -
  show "ucast ((ucast (v AND 0x7F) :: u8) AND 0x7F) = v AND 0x7F"
    by (rule bit_word_eqI) (auto simp: bit_and_iff bit_ucast_iff bit_0x7F)
  show "ucast (((ucast (v AND 0x7F) :: u8) OR 0x80) AND 0x7F) = v AND 0x7F"
    by (rule bit_word_eqI) (auto simp: bit_and_iff bit_or_iff bit_ucast_iff bit_0x7F bit_0x80)
qed

lemma byte_flag:
  "(ucast ((v :: 'a::len word) AND 0x7F) :: u8) AND 0x80 = 0"
  "((ucast (v AND 0x7F) :: u8) OR 0x80) AND 0x80 \<noteq> 0"
proof -
  show "(ucast (v AND 0x7F) :: u8) AND 0x80 = 0"
    by (rule bit_word_eqI) (auto simp: bit_and_iff bit_ucast_iff bit_0x7F bit_0x80)
  have "bit (((ucast (v AND 0x7F) :: u8) OR 0x80) AND 0x80) 7"
    by (simp add: bit_and_iff bit_or_iff bit_0x80)
  then show "((ucast (v AND 0x7F) :: u8) OR 0x80) AND 0x80 \<noteq> 0"
    by (metis bit_0_eq bot_apply bot_bool_def)
qed

lemma split_low7:
  "push_bit s (v :: 'a::len word) = push_bit s (v AND 0x7F) OR push_bit (s + 7) (drop_bit 7 v)"
proof (rule bit_word_eqI)
  fix i assume i: "i < LENGTH('a)"
  show "bit (push_bit s v) i \<longleftrightarrow> bit (push_bit s (v AND 0x7F) OR push_bit (s + 7) (drop_bit 7 v)) i"
  proof (cases "s + 7 \<le> i")
    case True
    then have "7 + (i - (s + 7)) = i - s" by simp
    with i True show ?thesis
      by (auto simp: bit_or_iff bit_push_bit_iff bit_and_iff bit_drop_bit_eq bit_0x7F)
  next
    case False
    with i show ?thesis
      by (auto simp: bit_or_iff bit_push_bit_iff bit_and_iff bit_drop_bit_eq bit_0x7F)
  qed
qed

lemma read_write_loop:
  "s < LENGTH('a) \<Longrightarrow> drop_bit (LENGTH('a) - s) v = 0 \<Longrightarrow>
   read_loop (write_loop v [] @ rest) acc s n = Ok (acc OR push_bit s v, n + length (write_loop (v :: 'a::len word) []))"
proof (induction "unat v" arbitrary: v s acc n rule: less_induct)
  case less
  show ?case
  proof (cases "drop_bit 7 v = 0")
    case True
    have "push_bit s (v AND 0x7F) = push_bit s v"
      using True split_low7 [of s v] by simp
    with True show ?thesis
      by (simp add: write_loop_Nil [of v] byte_payload byte_flag)
  next
    case False
    have "s + 7 < LENGTH('a)"
    proof (rule ccontr)
      assume "\<not> s + 7 < LENGTH('a)"
      then have "7 = LENGTH('a) - s + (7 - (LENGTH('a) - s))" by simp
      then have "drop_bit 7 v = drop_bit (7 - (LENGTH('a) - s)) (drop_bit (LENGTH('a) - s) v)"
        by (metis add.commute drop_bit_drop_bit)
      with less.prems(2) False show False by simp
    qed
    moreover have "drop_bit (LENGTH('a) - (s + 7)) (drop_bit 7 v) = 0"
      using less.prems(2) calculation by (simp add: drop_bit_drop_bit)
    ultimately have "read_loop (write_loop (drop_bit 7 v) [] @ rest) acc' (s + 7) k =
        Ok (acc' OR push_bit (s + 7) (drop_bit 7 v), k + length (write_loop (drop_bit 7 v) []))" for acc' k
      using less.hyps [OF unat_drop_bit_less [OF False]] by blast
    moreover note \<open>s + 7 < LENGTH('a)\<close>
    ultimately show ?thesis
      using False split_low7 [of s v]
      by (simp add: write_loop_Nil [of v] byte_payload byte_flag Let_def or.assoc)
  qed
qed

interpretation varint: wire_format write_varint read_varint "\<lambda>_. True"
  by unfold_locales
    (simp add: write_varint_def write_varint_to_def read_varint_def read_write_loop)

interpretation varlong: wire_format write_varlong read_varlong "\<lambda>_. True"
  by unfold_locales (simp add: write_varlong_def read_varlong_def read_write_loop)


text \<open>Reading a VarInt or a VarLong that was written gives the value back and consumes
  exactly the bytes written, whatever bytes follow; appending to a buffer
  (\<open>write_varint_to\<close>) writes the same bytes.\<close>

theorem varint_roundtrip:
  "read_varint (drop (length buf) (write_varint_to v buf) @ rest) = Ok (v, length (write_varint v))
   \<and> read_varlong (write_varlong w @ rest) = Ok (w, length (write_varlong w))"
  by (simp add: write_varint_to_append varint.dec_enc varlong.dec_enc)

section \<open>Which input gives which result\<close>

text \<open>A byte whose high bit announces another one.\<close>

definition continues :: "u8 \<Rightarrow> bool" where
  "continues b \<longleftrightarrow> b AND 0x80 \<noteq> 0"

definition n_continues :: "bytes \<Rightarrow> nat" where
  "n_continues buf = length (takeWhile continues buf)"

lemma n_continues_simps [simp]:
  "n_continues [] = 0"
  "n_continues (b # bs) = (if continues b then Suc (n_continues bs) else 0)"
  by (simp_all add: n_continues_def)

lemma n_continues_le: "n_continues buf \<le> length buf"
  by (simp add: n_continues_def length_takeWhile_le)

lemma read_loop_cases:
  "m < 5 \<Longrightarrow>
   (if 5 - m \<le> n_continues buf then read_loop buf (acc :: i32) (7 * m) n = Err TooLarge
    else if n_continues buf = length buf then read_loop buf acc (7 * m) n = Err Incomplete
    else \<exists>v. read_loop buf acc (7 * m) n = Ok (v, n + n_continues buf + 1))"
proof (induction buf arbitrary: m acc n)
  case Nil
  then show ?case by simp
next
  case (Cons b bs)
  show ?case
  proof (cases "continues b")
    case False
    then show ?thesis
      using Cons.prems by (simp add: continues_def)
  next
    case True
    show ?thesis
    proof (cases "m = 4")
      case True
      with \<open>continues b\<close> show ?thesis
        by (simp add: continues_def)
    next
      case False
      with Cons.prems have m: "Suc m < 5" by simp
      have eq: "read_loop (b # bs) acc (7 * m) n =
        read_loop bs (acc OR push_bit (7 * m) (ucast (b AND 0x7F))) (7 * Suc m) (n + 1)"
        using \<open>continues b\<close> m by (simp add: continues_def add.commute)
      show ?thesis
        using Cons.IH [OF m, of "acc OR push_bit (7 * m) (ucast (b AND 0x7F))" "n + 1"] m
        by (simp only: eq n_continues_simps \<open>continues b\<close> if_True length_Cons) (auto split: if_splits)
    qed
  qed
qed

lemma read_varint_cases:
  "if 5 \<le> n_continues buf then read_varint buf = Err TooLarge
   else if n_continues buf = length buf then read_varint buf = Err Incomplete
   else \<exists>v. read_varint buf = Ok (v, n_continues buf + 1)"
  using read_loop_cases [OF zero_less_numeral, of buf 0 0]
  unfolding read_varint_def diff_zero mult_0_right add_0 .

lemma read_varint_not_Panic [simp, panic_free]: "read_varint buf \<noteq> Panic"
  using read_varint_cases [of buf] by (auto split: if_splits)

lemma read_varint_consumed: "read_varint buf = Ok (v, n) \<Longrightarrow> 0 < n \<and> n \<le> 5 \<and> n \<le> length buf"
  using read_varint_cases [of buf] n_continues_le [of buf] by (auto split: if_splits)

text \<open>\<open>read_varint\<close> classifies every buffer: it reports \<open>TooLarge\<close> exactly when the first
  five bytes all announce another one, \<open>Incomplete\<close> exactly when fewer than five bytes are
  there and all announce another one, and otherwise succeeds, consuming the bytes up to and
  including the first one that does not. It never panics.\<close>

theorem read_varint_classified:
  "(read_varint buf = Err TooLarge) = (5 \<le> n_continues buf)
   \<and> (read_varint buf = Err Incomplete) = (n_continues buf < 5 \<and> n_continues buf = length buf)
   \<and> (\<exists>v. read_varint buf = Ok (v, n)) = (n = n_continues buf + 1 \<and> n \<le> 5 \<and> n \<le> length buf)
   \<and> read_varint buf \<noteq> Panic"
  using read_varint_cases [of buf] n_continues_le [of buf]
  by (auto split: if_splits)

section \<open>The size of an encoding\<close>

lemma zeros_below_le: "zeros_below w n \<le> n"
  by (induction n) auto

lemma zeros_below_clear: "n - zeros_below w n \<le> i \<Longrightarrow> i < n \<Longrightarrow> \<not> bit w i"
  by (induction n) (auto simp: Suc_diff_le less_Suc_eq zeros_below_le split: if_splits)

lemma zeros_below_top: "zeros_below w n < n \<Longrightarrow> bit w (n - zeros_below w n - 1)"
  by (induction n) (auto split: if_splits)

definition bit_length :: "'a::len word \<Rightarrow> nat" where
  "bit_length w = LENGTH('a) - leading_zeros w"

lemma bit_length_clear: "bit_length w \<le> i \<Longrightarrow> \<not> bit w i"
  using zeros_below_clear [of "LENGTH('a)" w i] bit_imp_le_length [of w i]
  by (auto simp: bit_length_def leading_zeros_def)

lemma bit_length_top: "0 < bit_length w \<Longrightarrow> bit w (bit_length w - 1)"
  using zeros_below_top [of w "LENGTH('a)"] by (auto simp: bit_length_def leading_zeros_def)

lemma bit_length_le: "bit_length (w :: 'a::len word) \<le> LENGTH('a)"
  by (simp add: bit_length_def)

lemma bit_length_unique:
  assumes "\<And>i. n \<le> i \<Longrightarrow> \<not> bit w i" and "0 < n \<Longrightarrow> bit w (n - 1)"
  shows "bit_length w = n"
proof (rule antisym)
  show "bit_length w \<le> n"
  proof (rule ccontr)
    assume "\<not> bit_length w \<le> n"
    then have "0 < bit_length w" and "n \<le> bit_length w - 1" by auto
    then show False
      using bit_length_top [of w] assms(1) [of "bit_length w - 1"] by blast
  qed
  show "n \<le> bit_length w"
    using bit_length_clear [of w "n - 1"] assms(2) by (cases n) (auto simp: not_less_eq_eq [symmetric])
qed

lemma bit_length_eq_0: "bit_length w = 0 \<longleftrightarrow> w = 0"
proof
  assume "bit_length w = 0"
  then show "w = 0"
    using bit_length_clear [of w] by (intro bit_word_eqI) simp
next
  assume "w = 0"
  then show "bit_length w = 0"
    by (intro bit_length_unique) auto
qed

lemma bit_length_drop: "bit_length (drop_bit 7 w) = bit_length w - 7"
proof (rule bit_length_unique)
  fix i assume "bit_length w - 7 \<le> i"
  then show "\<not> bit (drop_bit 7 w) i"
    by (simp add: bit_drop_bit_eq bit_length_clear)
next
  assume "0 < bit_length w - 7"
  moreover have "7 + (bit_length w - 7 - 1) = bit_length w - 1"
    using calculation by simp
  ultimately show "bit (drop_bit 7 w) (bit_length w - 7 - 1)"
    using bit_length_top [of w] by (simp add: bit_drop_bit_eq)
qed

lemma length_write_loop:
  "length (write_loop w []) = (if w = 0 then 1 else (bit_length w + 6) div 7)"
proof (induction "unat w" arbitrary: w rule: less_induct)
  case less
  show ?case
  proof (cases "drop_bit 7 w = 0")
    case True
    then have "bit_length w \<le> 7"
      using bit_length_drop [of w] by (simp add: bit_length_eq_0 [THEN iffD2])
    moreover have "0 < bit_length w" if "w \<noteq> 0"
      using that bit_length_eq_0 [of w] by simp
    ultimately have "(bit_length w + 6) div 7 = 1" if "w \<noteq> 0"
      using that by (simp add: div_nat_eqI)
    with True show ?thesis
      by (simp add: write_loop_Nil [of w])
  next
    case False
    then have "w \<noteq> 0" by auto
    have gt: "7 < bit_length w"
      using False bit_length_drop [of w] bit_length_eq_0 [of "drop_bit 7 w"] by simp
    have "length (write_loop w []) = Suc ((bit_length w - 7 + 6) div 7)"
      using less [OF unat_drop_bit_less [OF False]] False
      by (simp add: write_loop_Nil [of w] bit_length_drop)
    also have "\<dots> = (bit_length w + 6) div 7"
      using gt by simp
    finally show ?thesis
      using \<open>w \<noteq> 0\<close> by simp
  qed
qed

lemma length_write_varint_le: "length (write_varint v) \<le> 5"
  using bit_length_le [of v] div_le_mono [of "bit_length v + 6" 38 7]
  by (simp add: write_varint_def write_varint_to_def length_write_loop)

lemma length_write_varint_pos: "0 < length (write_varint v)"
  using bit_length_eq_0 [of v]
  by (cases "bit_length v") (simp_all add: write_varint_def write_varint_to_def length_write_loop div_greater_zero_iff)

lemma varint_size_eq: "varint_size v = length (write_varint v)"
  by (simp add: varint_size_def write_varint_def write_varint_to_def length_write_loop bit_length_def)

text \<open>\<open>varint_size\<close> computes the length of the encoding without writing it, and that length
  is between one and five bytes.\<close>

theorem varint_size_is_length:
  "varint_size v = length (write_varint v) \<and> 1 \<le> varint_size v \<and> varint_size v \<le> 5"
  using length_write_varint_le [of v] length_write_varint_pos [of v]
  by (simp add: varint_size_eq Suc_le_eq)

text \<open>The bytes of a VarInt all announce another one, except the last.\<close>

lemma write_loop_flags: "\<exists>init b. write_loop v [] = init @ [b] \<and> (\<forall>x \<in> set init. x AND 0x80 \<noteq> 0) \<and> b AND 0x80 = 0"
proof (induction "unat v" arbitrary: v rule: less_induct)
  case less
  show ?case
  proof (cases "drop_bit 7 v = 0")
    case True
    then show ?thesis
      by (intro exI [of _ "[]"]) (auto simp: write_loop_Nil [of v] byte_flag)
  next
    case False
    obtain init b where "write_loop (drop_bit 7 v) [] = init @ [b]" "\<forall>x \<in> set init. x AND 0x80 \<noteq> 0" "b AND 0x80 = 0"
      using less [OF unat_drop_bit_less [OF False]] by blast
    then show ?thesis
      using False byte_flag(2) [of v]
      by (intro exI [of _ "(ucast (v AND 0x7F) OR 0x80) # init"] exI [of _ b]) (simp add: write_loop_Nil [of v])
  qed
qed

end
