(* ===== verification/Codec.thy ===== *)
theory Codec
  imports Varint
begin

text \<open>
  \<open>mc-protocol/src/codec.rs\<close>: the field codecs (strings, fixed-width integers, booleans,
  UUIDs) and the packet framing of \<open>MinecraftCodec\<close>. The deflate coder is the crate
  \<open>flate2\<close>: its two directions are the parameters \<open>deflate\<close> and \<open>inflate\<close>, and the round-trip
  property names what the code relies on. A floating-point number only passes through here as
  its bit pattern, and a string as its UTF-8 bytes.

  Shown: every field codec is a wire format; \<open>read_string\<close> panics exactly on declared lengths
  from -5 to -1; a frame decodes to the packet it was encoded from, compressed or not; and with
  compression on, the packet parser the connection uses reads every small packet as packet 0.
\<close>

type_synonym f64 = "64 word"
type_synonym f32 = "32 word"
type_synonym uuid = "128 word"

datatype CodecError =
    Io string
  | VarInt VarIntError
  | InvalidPacketId i32 i32
  | Malformed string

text \<open>Addition on \<open>usize\<close> in the release profile.\<close>

definition usize_add :: "nat \<Rightarrow> nat \<Rightarrow> nat" where
  "usize_add a b = (a + b) mod 2 ^ 64"

section \<open>UTF-8\<close>

text \<open>\<open>std::str::from_utf8\<close> accepts exactly the well-formed byte sequences of the Unicode
  standard (no overlong forms, no surrogates, nothing above \<open>U+10FFFF\<close>).\<close>

definition in_range :: "u8 \<Rightarrow> u8 \<Rightarrow> u8 \<Rightarrow> bool" where
  "in_range lo hi b \<longleftrightarrow> lo \<le> b \<and> b \<le> hi"

definition utf8_tail :: "u8 \<Rightarrow> bool" where
  "utf8_tail b = in_range 0x80 0xBF b"

text \<open>The length of the character a first byte opens, with the range of its second byte.\<close>

definition utf8_lead :: "u8 \<Rightarrow> (nat \<times> u8 \<times> u8) option" where
  "utf8_lead b =
     (if b < 0x80 then Some (1, 0x80, 0xBF)
      else if in_range 0xC2 0xDF b then Some (2, 0x80, 0xBF)
      else if b = 0xE0 then Some (3, 0xA0, 0xBF)
      else if in_range 0xE1 0xEC b \<or> in_range 0xEE 0xEF b then Some (3, 0x80, 0xBF)
      else if b = 0xED then Some (3, 0x80, 0x9F)
      else if b = 0xF0 then Some (4, 0x90, 0xBF)
      else if in_range 0xF1 0xF3 b then Some (4, 0x80, 0xBF)
      else if b = 0xF4 then Some (4, 0x80, 0x8F)
      else None)"

function utf8_valid :: "bytes \<Rightarrow> bool" where
  "utf8_valid [] = True"
| "utf8_valid (b # bs) =
     (case utf8_lead b of
        None \<Rightarrow> False
      | Some (n, lo, hi) \<Rightarrow>
          n - 1 \<le> length bs
          \<and> (n \<ge> 2 \<longrightarrow> in_range lo hi (bs ! 0))
          \<and> list_all utf8_tail (take (n - 2) (drop 1 bs))
          \<and> utf8_valid (drop (n - 1) bs))"
  by pat_completeness auto
termination
  by (relation "measure length") auto

section \<open>Field codecs\<close>

definition read_string :: "bytes \<Rightarrow> (CodecError, bytes \<times> nat) outcome" where
  "read_string data =
     and_then (map_err VarInt (read_varint data)) (\<lambda>(len, len_bytes).
       let end = usize_add len_bytes (i32_as_usize len)
       in if end > length data then Err (Malformed ''string data too short'')
          else case slice data len_bytes end of
                 None \<Rightarrow> Panic
               | Some s \<Rightarrow>
                   if utf8_valid s then Ok (s, end)
                   else Err (Malformed ''invalid UTF-8''))"

definition write_string :: "bytes \<Rightarrow> bytes" where
  "write_string s = write_varint (usize_as_i32 (length s)) @ s"

definition read_i16 :: "bytes \<Rightarrow> (CodecError, i16 \<times> nat) outcome" where
  "read_i16 data =
     (if length data < 2 then Err (Malformed ''i16 too short'')
      else Ok (from_be [data ! 0, data ! 1], 2))"

definition write_i16 :: "i16 \<Rightarrow> bytes" where
  "write_i16 v = be_bytes 2 v"

definition read_u16 :: "bytes \<Rightarrow> (CodecError, u16 \<times> nat) outcome" where
  "read_u16 data =
     (if length data < 2 then Err (Malformed ''u16 too short'')
      else Ok (from_be [data ! 0, data ! 1], 2))"

definition write_u16 :: "u16 \<Rightarrow> bytes" where
  "write_u16 v = be_bytes 2 v"

definition read_i64 :: "bytes \<Rightarrow> (CodecError, i64 \<times> nat) outcome" where
  "read_i64 data =
     (if length data < 8 then Err (Malformed ''i64 too short'')
      else Ok (from_be (take 8 data), 8))"

definition write_i64 :: "i64 \<Rightarrow> bytes" where
  "write_i64 v = be_bytes 8 v"

definition read_f64 :: "bytes \<Rightarrow> (CodecError, f64 \<times> nat) outcome" where
  "read_f64 data =
     and_then (read_i64 data) (\<lambda>(bits, n). Ok (from_be (be_bytes 8 bits), n))"

definition write_f64 :: "f64 \<Rightarrow> bytes" where
  "write_f64 v = be_bytes 8 v"

definition read_double :: "bytes \<Rightarrow> (CodecError, f64 \<times> nat) outcome" where
  "read_double data = read_f64 data"

definition write_double :: "f64 \<Rightarrow> bytes" where
  "write_double v = be_bytes 8 v"

definition read_bool :: "bytes \<Rightarrow> (CodecError, bool \<times> nat) outcome" where
  "read_bool data =
     (if data = [] then Err (Malformed ''bool too short'') else Ok (data ! 0 \<noteq> 0, 1))"

definition write_bool :: "bool \<Rightarrow> bytes" where
  "write_bool v = [of_bool v]"

definition read_uuid :: "bytes \<Rightarrow> (CodecError, uuid \<times> nat) outcome" where
  "read_uuid data =
     (if length data < 16 then Err (Malformed ''UUID too short'')
      else Ok (from_be (take 16 data), 16))"

definition write_uuid :: "uuid \<Rightarrow> bytes" where
  "write_uuid u = be_bytes 16 u"

definition read_varint_enum :: "bytes \<Rightarrow> (CodecError, i32 \<times> nat) outcome" where
  "read_varint_enum data = map_err VarInt (read_varint data)"

definition write_varint_bytes :: "i32 \<Rightarrow> bytes" where
  "write_varint_bytes v = write_varint v"

section \<open>Every field codec is a wire format\<close>

definition storable_string :: "bytes \<Rightarrow> bool" where
  "storable_string s \<longleftrightarrow> utf8_valid s \<and> length s < 2 ^ 31"

lemma read_write_string:
  assumes "storable_string s"
  shows "read_string (write_string s @ rest) = Ok (s, length (write_string s))"
proof -
  let ?l = "usize_as_i32 (length s)"
  have len: "length s < 2 ^ 31" and val: "utf8_valid s"
    using assms by (auto simp: storable_string_def)
  have k: "length (write_varint ?l) \<le> 5"
    by (rule length_write_varint_le)
  have e: "usize_add (length (write_varint ?l)) (i32_as_usize ?l) = length (write_varint ?l) + length s"
    using len k by (simp add: usize_add_def)
  show ?thesis
    using val by (simp add: read_string_def write_string_def varint.dec_enc e slice_def)
qed

lemma from_be_two: "from_be [be_bytes 2 v ! 0, be_bytes 2 v ! Suc 0] = (v :: 16 word)"
proof -
  have "[be_bytes 2 v ! 0, be_bytes 2 v ! Suc 0] = be_bytes 2 v"
    by (rule nth_equalityI) (auto simp: less_Suc_eq numeral_2_eq_2)
  then show ?thesis by simp
qed

interpretation string_wire: wire_format write_string read_string storable_string
  by unfold_locales (rule read_write_string)

interpretation i16_wire: wire_format write_i16 read_i16 "\<lambda>_. True"
  by unfold_locales (simp add: write_i16_def read_i16_def nth_append from_be_two)

interpretation u16_wire: wire_format write_u16 read_u16 "\<lambda>_. True"
  by unfold_locales (simp add: write_u16_def read_u16_def nth_append from_be_two)

interpretation i64_wire: wire_format write_i64 read_i64 "\<lambda>_. True"
  by unfold_locales (simp add: write_i64_def read_i64_def)

interpretation f64_wire: wire_format write_f64 read_f64 "\<lambda>_. True"
  by unfold_locales (simp add: write_f64_def read_f64_def read_i64_def)

interpretation double_wire: wire_format write_double read_double "\<lambda>_. True"
  by unfold_locales (simp add: write_double_def read_double_def read_f64_def read_i64_def)

interpretation bool_wire: wire_format write_bool read_bool "\<lambda>_. True"
  by unfold_locales (simp add: write_bool_def read_bool_def)

interpretation uuid_wire: wire_format write_uuid read_uuid "\<lambda>_. True"
  by unfold_locales (simp add: write_uuid_def read_uuid_def)

interpretation varint_wire: wire_format write_varint_bytes read_varint_enum "\<lambda>_. True"
  by unfold_locales (simp add: write_varint_bytes_def read_varint_enum_def varint.dec_enc)

lemma length_fields [simp]:
  "length (write_i16 a) = 2" "length (write_u16 b) = 2" "length (write_i64 c) = 8"
  "length (write_double d) = 8" "length (write_bool p) = 1" "length (write_uuid u) = 16"
  "length (write_varint_bytes v) = varint_size v"
  by (simp_all add: write_i16_def write_u16_def write_i64_def write_double_def write_bool_def
      write_uuid_def write_varint_bytes_def varint_size_eq)

lemmas field_roundtrips =
  string_wire.dec_enc i16_wire.dec_enc u16_wire.dec_enc i64_wire.dec_enc f64_wire.dec_enc
  double_wire.dec_enc bool_wire.dec_enc uuid_wire.dec_enc varint_wire.dec_enc

text \<open>Every field codec gives back the value that was written and stops where it ends,
  whatever follows: strings (valid UTF-8 shorter than \<open>2^31\<close> bytes), 16- and 64-bit integers,
  doubles, booleans, UUIDs and VarInts.\<close>

theorem fields_roundtrip:
  assumes "storable_string s"
  shows "read_string (write_string s @ r) = Ok (s, length (write_string s))
    \<and> read_i16 (write_i16 a @ r) = Ok (a, 2)
    \<and> read_u16 (write_u16 b @ r) = Ok (b, 2)
    \<and> read_i64 (write_i64 c @ r) = Ok (c, 8)
    \<and> read_double (write_double d @ r) = Ok (d, 8)
    \<and> read_bool (write_bool p @ r) = Ok (p, 1)
    \<and> read_uuid (write_uuid u @ r) = Ok (u, 16)
    \<and> read_varint_enum (write_varint_bytes v @ r) = Ok (v, varint_size v)"
  using assms
  by (simp add: field_roundtrips)

theorem fields_roundtrip_witness:
  "storable_string [0x68, 0x69] \<and>
   read_string (write_string [0x68, 0x69] @ [7]) = Ok ([0x68, 0x69], length (write_string [0x68, 0x69]))"
proof -
  have h: "storable_string [0x68, 0x69]"
    by (simp add: storable_string_def utf8_lead_def)
  show ?thesis
    using h fields_roundtrip [OF h, of "[7]"] by blast
qed


section \<open>A string with a negative length\<close>

lemma read_varint_sint_bounds: "sint (v :: i32) < 2 ^ 31 \<and> - (2 ^ 31) \<le> sint v"
  using sint_lt [of v] sint_ge [of v] by simp

lemma usize_add_negative:
  assumes "sint (len :: i32) < 0" and "k \<le> 5"
  shows "usize_add k (i32_as_usize len) =
    (if 0 \<le> int k + sint len then nat (int k + sint len) else nat (int k + sint len + 2 ^ 64))"
proof -
  have b: "- (2 ^ 31) \<le> sint len"
    using read_varint_sint_bounds by blast
  have "int (k + i32_as_usize len) = int k + sint len + 2 ^ 64"
    using assms b by (simp add: i32_as_usize_neg)
  moreover have "int (usize_add k (i32_as_usize len)) = int (k + i32_as_usize len) mod 2 ^ 64"
    by (simp add: usize_add_def zmod_int)
  ultimately have i: "int (usize_add k (i32_as_usize len)) = (int k + sint len + 2 ^ 64) mod 2 ^ 64"
    by (simp only:)
  show ?thesis
  proof (cases "0 \<le> int k + sint len")
    case True
    then have "(int k + sint len) mod 2 ^ 64 = int k + sint len"
      using assms by (intro mod_pos_pos_trivial) simp_all
    then have "int (usize_add k (i32_as_usize len)) = int k + sint len"
      using i by (simp only: mod_add_self2)
    with True show ?thesis by simp
  next
    case False
    then have "int (usize_add k (i32_as_usize len)) = int k + sint len + 2 ^ 64"
      using i b by (subst (asm) mod_pos_pos_trivial) simp_all
    with False show ?thesis by simp
  qed
qed

text \<open>\<open>read_string\<close> panics exactly when the declared length is negative and not below minus
  the number of bytes of its own prefix: the sum wraps to an end before the start of the slice.
  Every other input returns a value or an error.\<close>

theorem read_string_panics_iff:
  assumes "length data < 2 ^ 63"
  shows "read_string data = Panic \<longleftrightarrow>
    (\<exists>len k. read_varint data = Ok (len, k) \<and> sint len < 0 \<and> 0 \<le> int k + sint len)"
proof (cases "read_varint data")
  case (Ok r)
  obtain len k where r: "r = (len, k)" by (cases r)
  have k: "k \<le> 5" "k \<le> length data"
    using read_varint_consumed Ok r by auto
  let ?stop = "usize_add k (i32_as_usize len)"
  have panic: "read_string data = Panic \<longleftrightarrow> ?stop \<le> length data \<and> ?stop < k"
    using k by (auto simp: read_string_def Ok r Let_def slice_def split: if_splits)
  show ?thesis
  proof (cases "sint len < 0")
    case True
    then show ?thesis
      using usize_add_negative [OF True k(1)] assms k read_varint_sint_bounds [of len]
      by (auto simp: panic Ok r)
  next
    case False
    then have "i32_as_usize len < 2 ^ 32"
      using unsigned_less [where 'a = nat, of len] by (simp add: i32_as_usize_nonneg)
    then have "?stop = k + i32_as_usize len"
      using k by (simp add: usize_add_def)
    with False show ?thesis
      by (simp add: panic Ok r)
  qed
qed (simp_all add: read_string_def)

theorem read_string_panics_iff_witness:
  "read_string [0xFF, 0xFF, 0xFF, 0xFF, 0x0F] = Panic"
proof -
  have v: "read_varint [0xFF, 0xFF, 0xFF, 0xFF, 0x0F] = Ok (- 1, 5)"
    by (simp add: read_varint_def)
  show ?thesis
    by (subst read_string_panics_iff) (simp_all add: v)
qed


section \<open>Packets and frames\<close>

text \<open>What the trait \<open>PacketEncoder\<close> gives of a packet, and what \<open>PacketDecoder\<close> expects.\<close>

record packet_encoder =
  packet_id :: i32
  encode_payload :: bytes

record 'p packet_decoder =
  expected_id :: i32
  decode_payload :: "bytes \<Rightarrow> (CodecError, 'p) outcome"

record MinecraftCodec =
  compression_threshold :: u32

definition new_codec :: "u32 \<Rightarrow> MinecraftCodec" where
  "new_codec t = \<lparr>compression_threshold = t\<rparr>"

definition packet_data :: "packet_encoder \<Rightarrow> bytes" where
  "packet_data p = write_varint_to (packet_id p) [] @ encode_payload p"

text \<open>\<open>deflate\<close> is \<open>ZlibEncoder\<close> over a vector (\<open>Inl\<close> an I/O error).\<close>

definition encode_frame ::
  "(bytes \<Rightarrow> string + bytes) \<Rightarrow> MinecraftCodec \<Rightarrow> packet_encoder \<Rightarrow> (CodecError, bytes) outcome" where
  "encode_frame deflate codec p =
     (let packet_data = packet_data p
      in if compression_threshold codec > 0 then
           and_then
             (if length packet_data \<ge> unat (compression_threshold codec)
              then case deflate packet_data of
                     Inl e \<Rightarrow> Err (Io e)
                   | Inr compressed \<Rightarrow> Ok (write_varint (usize_as_i32 (length packet_data)), compressed)
              else Ok (write_varint 0, packet_data))
             (\<lambda>(data_len_varint, body).
                Ok (write_varint_to (usize_as_i32 (length data_len_varint + length body)) []
                    @ data_len_varint @ body))
         else Ok (write_varint_to (usize_as_i32 (length packet_data)) [] @ packet_data))"

definition parse_packet_id_and_payload :: "MinecraftCodec \<Rightarrow> bytes \<Rightarrow> (CodecError, i32 \<times> bytes) outcome" where
  "parse_packet_id_and_payload codec data =
     and_then (map_err VarInt (read_varint data)) (\<lambda>(packet_id, id_bytes).
       case slice data id_bytes (length data) of
         None \<Rightarrow> Panic
       | Some payload \<Rightarrow> Ok (packet_id, payload))"

text \<open>\<open>inflate\<close> is \<open>ZlibDecoder::read_to_end\<close>. Reserving more than \<open>isize::MAX\<close> bytes with
  \<open>Vec::with_capacity\<close> panics.\<close>

definition decode_frame ::
  "(bytes \<Rightarrow> string + bytes) \<Rightarrow> MinecraftCodec \<Rightarrow> bytes \<Rightarrow> (CodecError, i32 \<times> bytes) outcome" where
  "decode_frame inflate codec frame =
     and_then (map_err VarInt (read_varint frame)) (\<lambda>(total_len, header_bytes).
       let remaining = drop header_bytes frame
       in if length remaining < i32_as_usize total_len then Err (Malformed ''frame too short'')
          else let packet_data = take (i32_as_usize total_len) remaining
            in if compression_threshold codec > 0 then
                 and_then (map_err VarInt (read_varint packet_data)) (\<lambda>(data_len, dl_bytes).
                   let payload = drop dl_bytes packet_data
                   in if data_len = 0 then parse_packet_id_and_payload codec payload
                      else if i32_as_usize data_len \<ge> 2 ^ 63 then Panic
                      else case inflate payload of
                             Inl e \<Rightarrow> Err (Io e)
                           | Inr decompressed \<Rightarrow> parse_packet_id_and_payload codec decompressed)
               else parse_packet_id_and_payload codec packet_data)"

definition decode_packet :: "MinecraftCodec \<Rightarrow> 'p packet_decoder \<Rightarrow> bytes \<Rightarrow> (CodecError, 'p) outcome" where
  "decode_packet codec d frame =
     and_then (parse_packet_id_and_payload codec frame) (\<lambda>(packet_id, payload).
       if packet_id \<noteq> expected_id d then Err (InvalidPacketId (expected_id d) packet_id)
       else decode_payload d payload)"

lemma parse_packet_data: "parse_packet_id_and_payload codec (packet_data p) = Ok (packet_id p, encode_payload p)"
  by (simp add: parse_packet_id_and_payload_def packet_data_def write_varint_to_append varint.dec_enc slice_def)

lemma write_varint_0: "write_varint 0 = [0]"
  by (simp add: write_varint_def write_varint_to_def write_loop.simps)

text \<open>A frame encoded by the codec decodes to the identifier and payload of its packet,
  with compression off or on, whatever bytes follow, as long as the deflate coder gives back
  what it was given and no length reaches \<open>2^31\<close>.\<close>

theorem frame_roundtrip:
  assumes inflate: "\<And>d z. deflate d = Inr z \<Longrightarrow> inflate z = Inr d"
    and small: "length (packet_data p) + 5 < 2 ^ 31"
    and small_z: "\<And>z. deflate (packet_data p) = Inr z \<Longrightarrow> length z + 5 < 2 ^ 31"
    and enc: "encode_frame deflate codec p = Ok frame"
  shows "decode_frame inflate codec (frame @ rest) = Ok (packet_id p, encode_payload p)"
proof (cases "compression_threshold codec > 0")
  case False
  with enc have f: "frame = write_varint (usize_as_i32 (length (packet_data p))) @ packet_data p"
    by (simp add: encode_frame_def write_varint_to_append Let_def)
  show ?thesis
    using small False by (simp add: f decode_frame_def varint.dec_enc parse_packet_data Let_def)
next
  case True
  have wrapped: "decode_frame inflate codec
      (write_varint (usize_as_i32 (length (write_varint n) + length body)) @ write_varint n @ body @ rest) =
      (if n = 0 then parse_packet_id_and_payload codec body
       else if i32_as_usize n \<ge> 2 ^ 63 then Panic
       else case inflate body of
              Inl e \<Rightarrow> Err (Io e)
            | Inr d \<Rightarrow> parse_packet_id_and_payload codec d)"
    if "length body + 5 < 2 ^ 31" for n body
    using that True length_write_varint_le [of n]
    by (simp add: decode_frame_def varint.dec_enc Let_def)
  show ?thesis
  proof (cases "length (packet_data p) \<ge> unat (compression_threshold codec)")
    case False
    with enc True have "frame = write_varint (usize_as_i32 (length (write_varint 0) + length (packet_data p)))
        @ write_varint 0 @ packet_data p"
      by (simp add: encode_frame_def write_varint_to_append Let_def)
    then show ?thesis
      using wrapped [OF small, of 0] by (simp add: parse_packet_data)
  next
    case big: True
    let ?n = "usize_as_i32 (length (packet_data p))"
    obtain z where z: "deflate (packet_data p) = Inr z"
      and f: "frame = write_varint (usize_as_i32 (length (write_varint ?n) + length z)) @ write_varint ?n @ z"
      using enc True big by (auto simp: encode_frame_def write_varint_to_append Let_def split: sum.splits)
    have "0 < length (packet_data p)"
      using length_write_varint_pos by (simp add: packet_data_def write_varint_to_append)
    then have "?n \<noteq> 0"
      using small unat_usize_as_i32 [of "length (packet_data p)"] by auto
    then show ?thesis
      using wrapped [OF small_z [OF z], of ?n] small inflate [OF z]
      by (simp add: f parse_packet_data)
  qed
qed

theorem frame_roundtrip_witness:
  "decode_frame Inr (new_codec 0) ([2, 7, 9] @ [1]) = Ok (7, [9])"
proof -
  let ?p = "\<lparr>packet_id = 7, encode_payload = [9]\<rparr>"
  have d: "packet_data ?p = [7, 9]"
    by (simp add: packet_data_def write_varint_to_def write_loop.simps)
  have e: "encode_frame Inr (new_codec 0) ?p = Ok [2, 7, 9]"
    by (simp add: encode_frame_def d new_codec_def write_varint_to_def usize_as_i32_def write_loop.simps)
  show ?thesis
    using frame_roundtrip [of Inr Inr ?p, OF _ _ _ e, of "[1]"] by (simp add: d)
qed

text \<open>The connection reads every incoming packet with \<open>parse_packet_id_and_payload\<close> on the
  frame's body, without the step that strips the data length of the compressed format: once
  compression is on, every packet below the threshold is read as packet 0, with the real
  identifier left inside its payload.\<close>

theorem compressed_body_misread:
  assumes "compression_threshold codec > 0"
    and "length (packet_data p) < unat (compression_threshold codec)"
    and "length (packet_data p) + 5 < 2 ^ 31"
  shows "\<exists>prefix body. encode_frame deflate codec p = Ok (prefix @ body)
    \<and> read_varint (prefix @ body) = Ok (usize_as_i32 (length body), length prefix)
    \<and> parse_packet_id_and_payload codec body = Ok (0, packet_data p)"
proof -
  let ?body = "write_varint 0 @ packet_data p"
  let ?prefix = "write_varint (usize_as_i32 (length ?body))"
  have "encode_frame deflate codec p = Ok (?prefix @ ?body)"
    using assms by (simp add: encode_frame_def write_varint_to_append Let_def)
  moreover have "parse_packet_id_and_payload codec ?body = Ok (0, packet_data p)"
    by (simp add: parse_packet_id_and_payload_def varint.dec_enc slice_def)
  ultimately show ?thesis
    using varint.dec_enc by blast
qed

theorem compressed_body_misread_witness:
  "\<exists>prefix body. encode_frame Inr (new_codec 256) \<lparr>packet_id = 0x1D, encode_payload = [9]\<rparr> = Ok (prefix @ body)
    \<and> read_varint (prefix @ body) = Ok (usize_as_i32 (length body), length prefix)
    \<and> parse_packet_id_and_payload (new_codec 256) body = Ok (0, packet_data \<lparr>packet_id = 0x1D, encode_payload = [9]\<rparr>)"
  by (rule compressed_body_misread)
    (simp_all add: new_codec_def packet_data_def write_varint_to_def write_loop.simps)

end
