(* ===== verification/Geometry.thy ===== *)
theory Geometry
  imports Rust_Base
begin

text \<open>
  \<open>mc-core/src/types.rs\<close> and \<open>mc-core/src/position.rs\<close>: game modes, difficulties and
  dimensions with their wire numbers, and the integer coordinates of blocks, chunks and
  sections. Block coordinates are \<open>i32\<close>. The code splits them in two ways, with Euclidean
  division (\<open>BlockPos\<close>) and with shifts and masks (every caller that looks a block up); the
  lemmas show that the two agree and that the split loses nothing. Positions of entities are
  floating-point and are not modelled.
\<close>

section \<open>Modes\<close>

datatype GameMode = Survival | Creative | Adventure | Spectator

fun gamemode_id :: "GameMode \<Rightarrow> u8" where
  "gamemode_id Survival = 0"
| "gamemode_id Creative = 1"
| "gamemode_id Adventure = 2"
| "gamemode_id Spectator = 3"

definition gamemode_from_id :: "u8 \<Rightarrow> GameMode option" where
  "gamemode_from_id i =
     (if i = 0 then Some Survival
      else if i = 1 then Some Creative
      else if i = 2 then Some Adventure
      else if i = 3 then Some Spectator
      else None)"

datatype Difficulty = Peaceful | Easy | Normal | Hard

fun difficulty_id :: "Difficulty \<Rightarrow> u8" where
  "difficulty_id Peaceful = 0"
| "difficulty_id Easy = 1"
| "difficulty_id Normal = 2"
| "difficulty_id Hard = 3"

datatype Dimension = Overworld | Nether | TheEnd

fun dimension_id :: "Dimension \<Rightarrow> i32" where
  "dimension_id Overworld = 0"
| "dimension_id Nether = - 1"
| "dimension_id TheEnd = 1"

fun dimension_name :: "Dimension \<Rightarrow> string" where
  "dimension_name Overworld = ''minecraft:overworld''"
| "dimension_name Nether = ''minecraft:the_nether''"
| "dimension_name TheEnd = ''minecraft:the_end''"

definition can_fly :: "GameMode \<Rightarrow> bool" where
  "can_fly m \<longleftrightarrow> m = Creative \<or> m = Spectator"

definition is_invulnerable :: "GameMode \<Rightarrow> bool" where
  "is_invulnerable m \<longleftrightarrow> m = Creative \<or> m = Spectator"

definition can_build :: "GameMode \<Rightarrow> bool" where
  "can_build m \<longleftrightarrow> m = Survival \<or> m = Creative"

lemma gamemode_from_id_id [simp]: "gamemode_from_id (gamemode_id m) = Some m"
  by (cases m) (simp_all add: gamemode_from_id_def)

lemma gamemode_from_id_eq_Some: "gamemode_from_id i = Some m \<longleftrightarrow> i = gamemode_id m"
  by (cases m) (auto simp: gamemode_from_id_def)

section \<open>Coordinates\<close>

record BlockPos =
  bp_x :: i32
  bp_y :: i32
  bp_z :: i32

record ChunkPos =
  cp_x :: i32
  cp_z :: i32

record SectionPos =
  sp_chunk :: ChunkPos
  sp_y :: i32

definition chunk_pos :: "i32 \<Rightarrow> i32 \<Rightarrow> ChunkPos" where
  "chunk_pos x z = \<lparr>cp_x = x, cp_z = z\<rparr>"

definition block_pos :: "i32 \<Rightarrow> i32 \<Rightarrow> i32 \<Rightarrow> BlockPos" where
  "block_pos x y z = \<lparr>bp_x = x, bp_y = y, bp_z = z\<rparr>"

definition SECTIONS_PER_CHUNK :: nat where "SECTIONS_PER_CHUNK = 24"
definition MIN_SECTION_Y :: i32 where "MIN_SECTION_Y = - 4"
definition WORLD_MAX_Y :: i32 where "WORLD_MAX_Y = 320"
definition WORLD_MIN_Y :: i32 where "WORLD_MIN_Y = - 64"

text \<open>\<open>i32::div_euclid\<close> and \<open>i32::rem_euclid\<close> for the divisor 16: on a positive divisor
  they round down, as \<open>div\<close> and \<open>mod\<close> on \<open>int\<close> do.\<close>

definition div_euclid16 :: "i32 \<Rightarrow> i32" where
  "div_euclid16 x = word_of_int (sint x div 16)"

definition rem_euclid16 :: "i32 \<Rightarrow> nat" where
  "rem_euclid16 x = nat (sint x mod 16)"

definition to_chunk_pos :: "BlockPos \<Rightarrow> ChunkPos" where
  "to_chunk_pos p = \<lparr>cp_x = div_euclid16 (bp_x p), cp_z = div_euclid16 (bp_z p)\<rparr>"

definition chunk_relative :: "BlockPos \<Rightarrow> nat \<times> nat" where
  "chunk_relative p = (rem_euclid16 (bp_x p), rem_euclid16 (bp_z p))"

definition section_y :: "BlockPos \<Rightarrow> i32" where
  "section_y p = div_euclid16 (bp_y p)"

definition section_relative_y :: "BlockPos \<Rightarrow> nat" where
  "section_relative_y p = rem_euclid16 (bp_y p)"

text \<open>The shifts and masks of the callers: \<open>x >> 4\<close> on an \<open>i32\<close> and \<open>(x & 0xF) as usize\<close>.\<close>

definition shr4 :: "i32 \<Rightarrow> i32" where
  "shr4 x = signed_drop_bit 4 x"

definition low4 :: "i32 \<Rightarrow> nat" where
  "low4 x = i32_as_usize (x AND 0xF)"

definition chunk_of :: "i32 \<Rightarrow> i32 \<Rightarrow> ChunkPos" where
  "chunk_of x z = chunk_pos (shr4 x) (shr4 z)"

lemma sint_shr4: "sint (shr4 x) = sint x div 16"
  by (simp add: shr4_def sint_signed_drop_bit_eq drop_bit_eq_div)

lemma shr4_eq_div_euclid16: "shr4 x = div_euclid16 x"
  by (simp add: div_euclid16_def flip: sint_shr4)

lemma unat_and_15: "unat (x AND 0xF :: i32) = unat x mod 16"
proof -
  have "x AND 0xF = x mod 16"
    using take_bit_eq_mask [of 4 x] by (simp add: take_bit_eq_mod mask_eq_exp_minus_1)
  then show ?thesis
    by (simp add: unat_mod_distrib)
qed

lemma sint_mod_16: "sint (x :: i32) mod 16 = uint x mod 16"
proof -
  have "sint x mod 16 = sint x mod 2 ^ 32 mod 16"
    by (simp add: mod_mod_cancel)
  also have "sint x mod 2 ^ 32 = uint x"
    by (simp add: uint_sint take_bit_eq_mod)
  finally show ?thesis .
qed

lemma low4_eq_rem_euclid16: "low4 x = rem_euclid16 x"
proof -
  have "uint (x AND 0xF) = uint x mod 16"
    using unat_and_15 [of x] by (simp only: uint_nat zmod_int) simp
  then have "uint (x AND 0xF) < 2 ^ (LENGTH(32) - 1)"
    by (simp add: order_less_le_trans [OF pos_mod_bound])
  then have "sint (x AND 0xF) = uint (x AND 0xF)"
    by (rule sint_of_small)
  then have "0 \<le> sint (x AND 0xF)"
    by (simp only:) simp
  then have "low4 x = unat x mod 16"
    by (simp only: low4_def i32_as_usize_nonneg unat_and_15)
  also have "\<dots> = nat (uint x mod 16)"
    by (simp only: nat_uint_eq [symmetric]) (simp add: nat_mod_distrib)
  finally show ?thesis
    by (simp only: rem_euclid16_def sint_mod_16)
qed

lemma rem_euclid16_less [simp]: "rem_euclid16 x < 16"
  by (simp add: rem_euclid16_def nat_less_iff)

lemma low4_less [simp]: "low4 x < 16"
  by (simp add: low4_eq_rem_euclid16)

lemma split16_unique: "shr4 x = shr4 y \<Longrightarrow> low4 x = low4 y \<Longrightarrow> x = y"
proof -
  assume "shr4 x = shr4 y" and l: "low4 x = low4 y"
  then have "sint x div 16 = sint y div 16"
    by (metis sint_shr4)
  moreover have "sint x mod 16 = sint y mod 16"
    using l by (simp add: low4_eq_rem_euclid16 rem_euclid16_def)
  ultimately have "sint x = sint y"
    by (metis div_mult_mod_eq)
  then show "x = y"
    by (metis of_int_sint scast_id)
qed

text \<open>The two ways the code splits a block coordinate agree: Euclidean division by 16 and
  the arithmetic shift by four give the same chunk, the Euclidean remainder and the low four
  bits the same offset, the offset is below 16, and the coordinate is 16 times the chunk plus
  the offset, negative coordinates included.\<close>

theorem coordinate_split:
  "to_chunk_pos p = chunk_of (bp_x p) (bp_z p)
   \<and> chunk_relative p = (low4 (bp_x p), low4 (bp_z p))
   \<and> section_relative_y p = low4 (bp_y p) \<and> section_y p = shr4 (bp_y p)
   \<and> low4 x < 16 \<and> sint x = 16 * sint (shr4 x) + int (low4 x)"
  by (simp add: to_chunk_pos_def chunk_of_def chunk_pos_def chunk_relative_def section_y_def
      section_relative_y_def shr4_eq_div_euclid16 [symmetric] low4_eq_rem_euclid16 sint_shr4)
    (simp add: rem_euclid16_def)

end
