(* ===== verification/Constants.thy ===== *)
theory Constants
  imports Geometry
begin

text \<open>
  \<open>mc-core/src/constants.rs\<close>: the numbers of entity types, and of the blocks and items that the
  program names, and the groups of entity types.
\<close>

section \<open>Entity types\<close>

text \<open>Passive mobs\<close>

definition ET_COW :: i32 where [simp]: "ET_COW = 30"
definition ET_PIG :: i32 where [simp]: "ET_PIG = 100"
definition ET_CHICKEN :: i32 where [simp]: "ET_CHICKEN = 26"
definition ET_SHEEP :: i32 where [simp]: "ET_SHEEP = 111"
definition ET_RABBIT :: i32 where [simp]: "ET_RABBIT = 108"
definition ET_BAT :: i32 where [simp]: "ET_BAT = 10"
definition ET_SQUID :: i32 where [simp]: "ET_SQUID = 127"
definition ET_DOLPHIN :: i32 where [simp]: "ET_DOLPHIN = 35"
definition ET_TURTLE :: i32 where [simp]: "ET_TURTLE = 138"
definition ET_PUFFERFISH :: i32 where [simp]: "ET_PUFFERFISH = 107"
definition ET_TROPICAL_FISH :: i32 where [simp]: "ET_TROPICAL_FISH = 137"
definition ET_COD :: i32 where [simp]: "ET_COD = 27"
definition ET_SALMON :: i32 where [simp]: "ET_SALMON = 110"
definition ET_GLOW_SQUID :: i32 where [simp]: "ET_GLOW_SQUID = 61"
definition ET_POLAR_BEAR :: i32 where [simp]: "ET_POLAR_BEAR = 104"
definition ET_PANDA :: i32 where [simp]: "ET_PANDA = 96"
definition ET_FOX :: i32 where [simp]: "ET_FOX = 54"
definition ET_BEE :: i32 where [simp]: "ET_BEE = 11"
definition ET_CAMEL :: i32 where [simp]: "ET_CAMEL = 19"
definition ET_SNIFFER :: i32 where [simp]: "ET_SNIFFER = 119"
definition ET_ARMADILLO :: i32 where [simp]: "ET_ARMADILLO = 4"
definition ET_WOLF :: i32 where [simp]: "ET_WOLF = 149"
definition ET_CAT :: i32 where [simp]: "ET_CAT = 21"
definition ET_OCELOT :: i32 where [simp]: "ET_OCELOT = 91"
definition ET_PARROT :: i32 where [simp]: "ET_PARROT = 98"
definition ET_HORSE :: i32 where [simp]: "ET_HORSE = 66"
definition ET_DONKEY :: i32 where [simp]: "ET_DONKEY = 36"
definition ET_MOOSHROOM :: i32 where [simp]: "ET_MOOSHROOM = 86"
definition ET_GOAT :: i32 where [simp]: "ET_GOAT = 62"
definition ET_AXOLOTL :: i32 where [simp]: "ET_AXOLOTL = 7"
definition ET_FROG :: i32 where [simp]: "ET_FROG = 55"
definition ET_TADPOLE :: i32 where [simp]: "ET_TADPOLE = 131"
definition ET_STRIDER :: i32 where [simp]: "ET_STRIDER = 129"
definition ET_CREAKING :: i32 where [simp]: "ET_CREAKING = 31"

text \<open>Hostile\<close>

definition ET_CREEPER :: i32 where [simp]: "ET_CREEPER = 32"
definition ET_SLIME :: i32 where [simp]: "ET_SLIME = 117"
definition ET_SPIDER :: i32 where [simp]: "ET_SPIDER = 124"
definition ET_ZOMBIE :: i32 where [simp]: "ET_ZOMBIE = 151"
definition ET_SKELETON :: i32 where [simp]: "ET_SKELETON = 115"
definition ET_ENDERMAN :: i32 where [simp]: "ET_ENDERMAN = 41"
definition ET_BLAZE :: i32 where [simp]: "ET_BLAZE = 14"
definition ET_DROWNED :: i32 where [simp]: "ET_DROWNED = 38"
definition ET_CAVE_SPIDER :: i32 where [simp]: "ET_CAVE_SPIDER = 22"
definition ET_SILVERFISH :: i32 where [simp]: "ET_SILVERFISH = 114"
definition ET_WITCH :: i32 where [simp]: "ET_WITCH = 145"
definition ET_WITHER_SKELETON :: i32 where [simp]: "ET_WITHER_SKELETON = 147"
definition ET_ZOMBIE_VILLAGER :: i32 where [simp]: "ET_ZOMBIE_VILLAGER = 154"
definition ET_VINDICATOR :: i32 where [simp]: "ET_VINDICATOR = 141"
definition ET_EVOKER :: i32 where [simp]: "ET_EVOKER = 46"
definition ET_ENDER_DRAGON :: i32 where [simp]: "ET_ENDER_DRAGON = 43"
definition ET_MAGMA_CUBE :: i32 where [simp]: "ET_MAGMA_CUBE = 80"
definition ET_GHAST :: i32 where [simp]: "ET_GHAST = 57"
definition ET_ZOMBIFIED_PIGLIN :: i32 where [simp]: "ET_ZOMBIFIED_PIGLIN = 155"
definition ET_HOGLIN :: i32 where [simp]: "ET_HOGLIN = 64"
definition ET_PIGLIN :: i32 where [simp]: "ET_PIGLIN = 101"
definition ET_PIGLIN_BRUTE :: i32 where [simp]: "ET_PIGLIN_BRUTE = 102"
definition ET_RAVAGER :: i32 where [simp]: "ET_RAVAGER = 109"
definition ET_SHULKER :: i32 where [simp]: "ET_SHULKER = 112"
definition ET_WARDEN :: i32 where [simp]: "ET_WARDEN = 143"
definition ET_BREEZE :: i32 where [simp]: "ET_BREEZE = 17"
definition ET_BOGGED :: i32 where [simp]: "ET_BOGGED = 16"
definition ET_HUSK :: i32 where [simp]: "ET_HUSK = 67"
definition ET_STRAY :: i32 where [simp]: "ET_STRAY = 128"
definition ET_VEX :: i32 where [simp]: "ET_VEX = 139"
definition ET_GUARDIAN :: i32 where [simp]: "ET_GUARDIAN = 63"
definition ET_ELDER_GUARDIAN :: i32 where [simp]: "ET_ELDER_GUARDIAN = 40"
definition ET_PHANTOM :: i32 where [simp]: "ET_PHANTOM = 99"
definition ET_ENDERMITE :: i32 where [simp]: "ET_ENDERMITE = 42"
definition ET_ZOGLIN :: i32 where [simp]: "ET_ZOGLIN = 150"
definition ET_ILLUSIONER :: i32 where [simp]: "ET_ILLUSIONER = 68"
definition ET_WITHER :: i32 where [simp]: "ET_WITHER = 146"
definition ET_PARCHED :: i32 where [simp]: "ET_PARCHED = 97"

text \<open>Vehicles\<close>

definition ET_MINECART :: i32 where [simp]: "ET_MINECART = 85"
definition ET_CHEST_MINECART :: i32 where [simp]: "ET_CHEST_MINECART = 25"
definition ET_FURNACE_MINECART :: i32 where [simp]: "ET_FURNACE_MINECART = 56"
definition ET_HOPPER_MINECART :: i32 where [simp]: "ET_HOPPER_MINECART = 65"
definition ET_TNT_MINECART :: i32 where [simp]: "ET_TNT_MINECART = 134"
definition ET_SPAWNER_MINECART :: i32 where [simp]: "ET_SPAWNER_MINECART = 122"
definition ET_COMMAND_BLOCK_MINECART :: i32 where [simp]: "ET_COMMAND_BLOCK_MINECART = 29"
definition ET_OAK_BOAT :: i32 where [simp]: "ET_OAK_BOAT = 89"
definition ET_SPRUCE_BOAT :: i32 where [simp]: "ET_SPRUCE_BOAT = 125"
definition ET_BIRCH_BOAT :: i32 where [simp]: "ET_BIRCH_BOAT = 12"
definition ET_JUNGLE_BOAT :: i32 where [simp]: "ET_JUNGLE_BOAT = 74"
definition ET_ACACIA_BOAT :: i32 where [simp]: "ET_ACACIA_BOAT = 0"
definition ET_CHERRY_BOAT :: i32 where [simp]: "ET_CHERRY_BOAT = 23"
definition ET_DARK_OAK_BOAT :: i32 where [simp]: "ET_DARK_OAK_BOAT = 33"
definition ET_MANGROVE_BOAT :: i32 where [simp]: "ET_MANGROVE_BOAT = 81"
definition ET_BAMBOO_RAFT :: i32 where [simp]: "ET_BAMBOO_RAFT = 9"
definition ET_PALE_OAK_BOAT :: i32 where [simp]: "ET_PALE_OAK_BOAT = 94"
definition ET_OAK_CHEST_BOAT :: i32 where [simp]: "ET_OAK_CHEST_BOAT = 90"
definition ET_SPRUCE_CHEST_BOAT :: i32 where [simp]: "ET_SPRUCE_CHEST_BOAT = 126"
definition ET_BIRCH_CHEST_BOAT :: i32 where [simp]: "ET_BIRCH_CHEST_BOAT = 13"
definition ET_JUNGLE_CHEST_BOAT :: i32 where [simp]: "ET_JUNGLE_CHEST_BOAT = 75"
definition ET_ACACIA_CHEST_BOAT :: i32 where [simp]: "ET_ACACIA_CHEST_BOAT = 1"
definition ET_CHERRY_CHEST_BOAT :: i32 where [simp]: "ET_CHERRY_CHEST_BOAT = 24"
definition ET_DARK_OAK_CHEST_BOAT :: i32 where [simp]: "ET_DARK_OAK_CHEST_BOAT = 34"
definition ET_MANGROVE_CHEST_BOAT :: i32 where [simp]: "ET_MANGROVE_CHEST_BOAT = 82"
definition ET_BAMBOO_CHEST_RAFT :: i32 where [simp]: "ET_BAMBOO_CHEST_RAFT = 8"
definition ET_PALE_OAK_CHEST_BOAT :: i32 where [simp]: "ET_PALE_OAK_CHEST_BOAT = 95"

text \<open>Projectiles\<close>

definition ET_ARROW :: i32 where [simp]: "ET_ARROW = 6"
definition ET_SPECTRAL_ARROW :: i32 where [simp]: "ET_SPECTRAL_ARROW = 123"
definition ET_DRAGON_FIREBALL :: i32 where [simp]: "ET_DRAGON_FIREBALL = 37"
definition ET_FIREBALL :: i32 where [simp]: "ET_FIREBALL = 52"
definition ET_SMALL_FIREBALL :: i32 where [simp]: "ET_SMALL_FIREBALL = 118"
definition ET_WITHER_SKULL :: i32 where [simp]: "ET_WITHER_SKULL = 148"
definition ET_SHULKER_BULLET :: i32 where [simp]: "ET_SHULKER_BULLET = 113"
definition ET_WIND_CHARGE :: i32 where [simp]: "ET_WIND_CHARGE = 144"
definition ET_BREEZE_WIND_CHARGE :: i32 where [simp]: "ET_BREEZE_WIND_CHARGE = 18"
definition ET_SNOWBALL :: i32 where [simp]: "ET_SNOWBALL = 120"
definition ET_EGG :: i32 where [simp]: "ET_EGG = 39"
definition ET_ENDER_PEARL :: i32 where [simp]: "ET_ENDER_PEARL = 44"
definition ET_EYE_OF_ENDER :: i32 where [simp]: "ET_EYE_OF_ENDER = 50"
definition ET_EXPERIENCE_BOTTLE :: i32 where [simp]: "ET_EXPERIENCE_BOTTLE = 48"
definition ET_SPLASH_POTION :: i32 where [simp]: "ET_SPLASH_POTION = 105"
definition ET_LINGERING_POTION :: i32 where [simp]: "ET_LINGERING_POTION = 106"
definition ET_TRIDENT :: i32 where [simp]: "ET_TRIDENT = 136"
definition ET_FIREWORK_ROCKET :: i32 where [simp]: "ET_FIREWORK_ROCKET = 53"
definition ET_LLAMA_SPIT :: i32 where [simp]: "ET_LLAMA_SPIT = 79"

text \<open>Utility/Display\<close>

definition ET_VILLAGER :: i32 where [simp]: "ET_VILLAGER = 140"
definition ET_WANDERING_TRADER :: i32 where [simp]: "ET_WANDERING_TRADER = 142"
definition ET_IRON_GOLEM :: i32 where [simp]: "ET_IRON_GOLEM = 70"
definition ET_SNOW_GOLEM :: i32 where [simp]: "ET_SNOW_GOLEM = 121"
definition ET_ALLAY :: i32 where [simp]: "ET_ALLAY = 2"
definition ET_TRADER_LLAMA :: i32 where [simp]: "ET_TRADER_LLAMA = 135"
definition ET_LLAMA :: i32 where [simp]: "ET_LLAMA = 78"
definition ET_MULE :: i32 where [simp]: "ET_MULE = 87"
definition ET_SKELETON_HORSE :: i32 where [simp]: "ET_SKELETON_HORSE = 116"
definition ET_ZOMBIE_HORSE :: i32 where [simp]: "ET_ZOMBIE_HORSE = 152"
definition ET_CAMEL_HUSK :: i32 where [simp]: "ET_CAMEL_HUSK = 20"
definition ET_ARMOR_STAND :: i32 where [simp]: "ET_ARMOR_STAND = 5"
definition ET_ITEM_FRAME :: i32 where [simp]: "ET_ITEM_FRAME = 73"
definition ET_GLOW_ITEM_FRAME :: i32 where [simp]: "ET_GLOW_ITEM_FRAME = 60"
definition ET_PAINTING :: i32 where [simp]: "ET_PAINTING = 93"
definition ET_ITEM :: i32 where [simp]: "ET_ITEM = 71"
definition ET_EXPERIENCE_ORB :: i32 where [simp]: "ET_EXPERIENCE_ORB = 49"
definition ET_AREA_EFFECT_CLOUD :: i32 where [simp]: "ET_AREA_EFFECT_CLOUD = 3"
definition ET_FALLING_BLOCK :: i32 where [simp]: "ET_FALLING_BLOCK = 51"
definition ET_TNT :: i32 where [simp]: "ET_TNT = 133"
definition ET_END_CRYSTAL :: i32 where [simp]: "ET_END_CRYSTAL = 45"
definition ET_LIGHTNING_BOLT :: i32 where [simp]: "ET_LIGHTNING_BOLT = 77"
definition ET_FISHING_BOBBER :: i32 where [simp]: "ET_FISHING_BOBBER = 157"
definition ET_LEASH_KNOT :: i32 where [simp]: "ET_LEASH_KNOT = 76"
definition ET_MARKER :: i32 where [simp]: "ET_MARKER = 84"
definition ET_INTERACTION :: i32 where [simp]: "ET_INTERACTION = 69"
definition ET_ITEM_DISPLAY :: i32 where [simp]: "ET_ITEM_DISPLAY = 72"
definition ET_BLOCK_DISPLAY :: i32 where [simp]: "ET_BLOCK_DISPLAY = 15"
definition ET_TEXT_DISPLAY :: i32 where [simp]: "ET_TEXT_DISPLAY = 132"
definition ET_MANNEQUIN :: i32 where [simp]: "ET_MANNEQUIN = 83"
definition ET_COPPER_GOLEM :: i32 where [simp]: "ET_COPPER_GOLEM = 28"
definition ET_OMINOUS_ITEM_SPAWNER :: i32 where [simp]: "ET_OMINOUS_ITEM_SPAWNER = 92"

text \<open>Chaos Cubed\<close>

definition ET_SULFUR_CUBE :: i32 where [simp]: "ET_SULFUR_CUBE = 130"

text \<open>Aquatic\<close>

definition ET_NAUTILUS :: i32 where [simp]: "ET_NAUTILUS = 88"
definition ET_ZOMBIE_NAUTILUS :: i32 where [simp]: "ET_ZOMBIE_NAUTILUS = 153"
definition ET_HAPPY_GHAST :: i32 where [simp]: "ET_HAPPY_GHAST = 58"

text \<open>Misc\<close>

definition ET_PLAYER :: i32 where [simp]: "ET_PLAYER = 156"

definition is_hostile :: "i32 \<Rightarrow> bool" where
  "is_hostile t = (t \<in> {ET_CREEPER, ET_SLIME, ET_SPIDER, ET_ZOMBIE, ET_SKELETON, ET_ENDERMAN,
     ET_BLAZE, ET_DROWNED, ET_CAVE_SPIDER, ET_SILVERFISH, ET_WITCH, ET_WITHER_SKELETON,
     ET_ZOMBIE_VILLAGER, ET_VINDICATOR, ET_EVOKER, ET_ENDER_DRAGON, ET_MAGMA_CUBE, ET_GHAST,
     ET_ZOMBIFIED_PIGLIN, ET_HOGLIN, ET_PIGLIN, ET_PIGLIN_BRUTE, ET_RAVAGER, ET_SHULKER, ET_WARDEN,
     ET_BREEZE, ET_BOGGED, ET_HUSK, ET_STRAY, ET_VEX, ET_GUARDIAN, ET_ELDER_GUARDIAN, ET_PHANTOM,
     ET_ENDERMITE, ET_ZOGLIN, ET_ILLUSIONER, ET_WITHER, ET_PARCHED})"

definition is_undead :: "i32 \<Rightarrow> bool" where
  "is_undead t = (t \<in> {ET_ZOMBIE, ET_SKELETON, ET_DROWNED, ET_WITHER_SKELETON,
     ET_ZOMBIE_VILLAGER, ET_WITHER, ET_BOGGED, ET_ZOMBIFIED_PIGLIN, ET_HUSK, ET_STRAY,
     ET_SKELETON_HORSE, ET_ZOMBIE_HORSE, ET_ZOGLIN, ET_ZOMBIE_NAUTILUS, ET_PARCHED})"

definition is_arthropod :: "i32 \<Rightarrow> bool" where
  "is_arthropod t = (t \<in> {ET_SPIDER, ET_CAVE_SPIDER, ET_SILVERFISH, ET_ENDERMAN, ET_BEE,
     ET_ENDERMITE})"

section \<open>Blocks\<close>

definition BLOCK_AIR :: u32 where [simp]: "BLOCK_AIR = 0"
definition BLOCK_STONE :: u32 where [simp]: "BLOCK_STONE = 1"
definition BLOCK_GRASS :: u32 where [simp]: "BLOCK_GRASS = 8"
definition BLOCK_SAND :: u32 where [simp]: "BLOCK_SAND = 37"
definition BLOCK_GRAVEL :: u32 where [simp]: "BLOCK_GRAVEL = 40"
definition BLOCK_GLASS :: u32 where [simp]: "BLOCK_GLASS = 101"
definition BLOCK_DISPENSER :: u32 where [simp]: "BLOCK_DISPENSER = 105"
definition BLOCK_TNT :: u32 where [simp]: "BLOCK_TNT = 177"
definition BLOCK_POWERED_RAIL :: u32 where [simp]: "BLOCK_POWERED_RAIL = 126"
definition BLOCK_OAK_LOG :: u32 where [simp]: "BLOCK_OAK_LOG = 49"
definition BLOCK_BOOKSHELF :: u32 where [simp]: "BLOCK_BOOKSHELF = 178"
definition BLOCK_OBSIDIAN :: u32 where [simp]: "BLOCK_OBSIDIAN = 193"
definition BLOCK_TORCH :: u32 where [simp]: "BLOCK_TORCH = 194"
definition BLOCK_FIRE :: u32 where [simp]: "BLOCK_FIRE = 196"
definition BLOCK_CHEST :: u32 where [simp]: "BLOCK_CHEST = 201"
definition BLOCK_FURNACE :: u32 where [simp]: "BLOCK_FURNACE = 209"
definition BLOCK_CRAFTING_TABLE :: u32 where [simp]: "BLOCK_CRAFTING_TABLE = 206"
definition BLOCK_ENCHANTING_TABLE :: u32 where [simp]: "BLOCK_ENCHANTING_TABLE = 385"
definition BLOCK_BREWING_STAND :: u32 where [simp]: "BLOCK_BREWING_STAND = 386"
definition BLOCK_BEACON :: u32 where [simp]: "BLOCK_BEACON = 408"
definition BLOCK_GRINDSTONE :: u32 where [simp]: "BLOCK_GRINDSTONE = 844"
definition BLOCK_SMITHING_TABLE :: u32 where [simp]: "BLOCK_SMITHING_TABLE = 846"
definition BLOCK_STONECUTTER :: u32 where [simp]: "BLOCK_STONECUTTER = 847"
definition BLOCK_LOOM :: u32 where [simp]: "BLOCK_LOOM = 838"
definition BLOCK_CARTOGRAPHY_TABLE :: u32 where [simp]: "BLOCK_CARTOGRAPHY_TABLE = 842"
definition BLOCK_LECTERN :: u32 where [simp]: "BLOCK_LECTERN = 845"
definition BLOCK_CRAFTER :: u32 where [simp]: "BLOCK_CRAFTER = 1184"
definition BLOCK_HOPPER :: u32 where [simp]: "BLOCK_HOPPER = 477"
definition BLOCK_NOTE_BLOCK :: u32 where [simp]: "BLOCK_NOTE_BLOCK = 109"
definition BLOCK_JUKEBOX :: u32 where [simp]: "BLOCK_JUKEBOX = 283"
definition BLOCK_PISTON :: u32 where [simp]: "BLOCK_PISTON = 138"
definition BLOCK_STICKY_PISTON :: u32 where [simp]: "BLOCK_STICKY_PISTON = 128"
definition BLOCK_OBSERVER :: u32 where [simp]: "BLOCK_OBSERVER = 676"
definition BLOCK_COMPARATOR :: u32 where [simp]: "BLOCK_COMPARATOR = 473"
definition BLOCK_REDSTONE_WIRE :: u32 where [simp]: "BLOCK_REDSTONE_WIRE = 202"
definition BLOCK_REDSTONE_TORCH :: u32 where [simp]: "BLOCK_REDSTONE_TORCH = 273"
definition BLOCK_REDSTONE_BLOCK :: u32 where [simp]: "BLOCK_REDSTONE_BLOCK = 475"
definition BLOCK_WATER :: u32 where [simp]: "BLOCK_WATER = 35"
definition BLOCK_LAVA :: u32 where [simp]: "BLOCK_LAVA = 36"
definition BLOCK_NETHER_PORTAL :: u32 where [simp]: "BLOCK_NETHER_PORTAL = 295"
definition BLOCK_BEDROCK :: u32 where [simp]: "BLOCK_BEDROCK = 34"
definition BLOCK_SOUL_SAND :: u32 where [simp]: "BLOCK_SOUL_SAND = 286"
definition BLOCK_MAGMA_BLOCK :: u32 where [simp]: "BLOCK_MAGMA_BLOCK = 671"
definition BLOCK_ICE :: u32 where [simp]: "BLOCK_ICE = 277"
definition BLOCK_CACTUS :: u32 where [simp]: "BLOCK_CACTUS = 279"
definition BLOCK_SUGAR_CANE :: u32 where [simp]: "BLOCK_SUGAR_CANE = 282"
definition BLOCK_MELON :: u32 where [simp]: "BLOCK_MELON = 361"
definition BLOCK_WHEAT :: u32 where [simp]: "BLOCK_WHEAT = 207"
definition BLOCK_CARROTS :: u32 where [simp]: "BLOCK_CARROTS = 441"
definition BLOCK_POTATOES :: u32 where [simp]: "BLOCK_POTATOES = 442"
definition BLOCK_BEETROOTS :: u32 where [simp]: "BLOCK_BEETROOTS = 665"
definition BLOCK_SULFUR_BLOCK :: u32 where [simp]: "BLOCK_SULFUR_BLOCK = 998"
definition BLOCK_POTENT_SULFUR :: u32 where [simp]: "BLOCK_POTENT_SULFUR = 999"
definition BLOCK_SULFUR_SPIKE :: u32 where [simp]: "BLOCK_SULFUR_SPIKE = 1134"
definition BLOCK_CINNABAR_BLOCK :: u32 where [simp]: "BLOCK_CINNABAR_BLOCK = 1012"

section \<open>Items\<close>

definition ITEM_STICK :: u32 where [simp]: "ITEM_STICK = 974"
definition ITEM_SHIELD :: u32 where [simp]: "ITEM_SHIELD = 1325"
definition ITEM_FISHING_ROD :: u32 where [simp]: "ITEM_FISHING_ROD = 1082"
definition ITEM_BOW :: u32 where [simp]: "ITEM_BOW = 922"
definition ITEM_ARROW :: u32 where [simp]: "ITEM_ARROW = 923"
definition ITEM_LEAD :: u32 where [simp]: "ITEM_LEAD = 1291"
definition ITEM_SHEARS :: u32 where [simp]: "ITEM_SHEARS = 1134"
definition ITEM_ENCHANTED_BOOK :: u32 where [simp]: "ITEM_ENCHANTED_BOOK = 1274"
definition ITEM_LAPIS_LAZULI :: u32 where [simp]: "ITEM_LAPIS_LAZULI = 928"
definition ITEM_PAPER :: u32 where [simp]: "ITEM_PAPER = 1057"
definition ITEM_GLASS_PANE :: u32 where [simp]: "ITEM_GLASS_PANE = 436"
definition ITEM_WOODEN_SWORD :: u32 where [simp]: "ITEM_WOODEN_SWORD = 939"
definition ITEM_STONE_SWORD :: u32 where [simp]: "ITEM_STONE_SWORD = 949"
definition ITEM_IRON_SWORD :: u32 where [simp]: "ITEM_IRON_SWORD = 959"
definition ITEM_DIAMOND_SWORD :: u32 where [simp]: "ITEM_DIAMOND_SWORD = 964"
definition ITEM_WOODEN_AXE :: u32 where [simp]: "ITEM_WOODEN_AXE = 942"
definition ITEM_STONE_AXE :: u32 where [simp]: "ITEM_STONE_AXE = 952"
definition ITEM_IRON_AXE :: u32 where [simp]: "ITEM_IRON_AXE = 962"
definition ITEM_DIAMOND_AXE :: u32 where [simp]: "ITEM_DIAMOND_AXE = 967"
definition ITEM_DIAMOND_PICKAXE :: u32 where [simp]: "ITEM_DIAMOND_PICKAXE = 966"
definition ITEM_GOLDEN_APPLE :: u32 where [simp]: "ITEM_GOLDEN_APPLE = 1014"
definition ITEM_ENCHANTED_GOLDEN_APPLE :: u32 where [simp]: "ITEM_ENCHANTED_GOLDEN_APPLE = 1015"
definition ITEM_BUCKET :: u32 where [simp]: "ITEM_BUCKET = 1040"
definition ITEM_WATER_BUCKET :: u32 where [simp]: "ITEM_WATER_BUCKET = 1041"
definition ITEM_LAVA_BUCKET :: u32 where [simp]: "ITEM_LAVA_BUCKET = 1042"
definition ITEM_MILK_BUCKET :: u32 where [simp]: "ITEM_MILK_BUCKET = 1046"
definition ITEM_BREAD :: u32 where [simp]: "ITEM_BREAD = 981"
definition ITEM_COOKED_BEEF :: u32 where [simp]: "ITEM_COOKED_BEEF = 1140"
definition ITEM_CROSSBOW :: u32 where [simp]: "ITEM_CROSSBOW = 1370"
definition ITEM_TRIDENT :: u32 where [simp]: "ITEM_TRIDENT = 1362"
definition ITEM_SADDLE :: u32 where [simp]: "ITEM_SADDLE = 865"
definition ITEM_NAME_TAG :: u32 where [simp]: "ITEM_NAME_TAG = 1292"
definition ITEM_ENDER_PEARL :: u32 where [simp]: "ITEM_ENDER_PEARL = 1144"
definition ITEM_MUSIC_DISC_BOUNCE :: u32 where [simp]: "ITEM_MUSIC_DISC_BOUNCE = 1342"
definition ITEM_SULFUR_CUBE_SPAWN_EGG :: u32 where [simp]: "ITEM_SULFUR_CUBE_SPAWN_EGG = 1195"
definition ITEM_BUCKET_OF_SULFUR_CUBE :: u32 where [simp]: "ITEM_BUCKET_OF_SULFUR_CUBE = 1052"

end
