(* ===== verification/Blocks.thy ===== *)
theory Blocks
  imports Geometry
begin

text \<open>
  \<open>mc-core/src/block.rs\<close>: a block state is a type identifier and sixteen property bits.
  The lemmas show that each property is a field of its own: its setter is read back by its
  getter and leaves the other properties and the identifier alone. The registry hands out
  consecutive identifiers.
\<close>

record BlockState =
  bs_id :: u32
  bs_props :: u16

definition AIR :: BlockState where
  "AIR = \<lparr>bs_id = 0, bs_props = 0\<rparr>"

definition block :: "u32 \<Rightarrow> BlockState" where
  "block i = \<lparr>bs_id = i, bs_props = 0\<rparr>"

definition with_props :: "u32 \<Rightarrow> u16 \<Rightarrow> BlockState" where
  "with_props i p = \<lparr>bs_id = i, bs_props = p\<rparr>"

definition is_air :: "BlockState \<Rightarrow> bool" where
  "is_air b \<longleftrightarrow> bs_id b = 0"

definition waterlogged :: "BlockState \<Rightarrow> bool" where
  "waterlogged b \<longleftrightarrow> bs_props b AND 0x0001 \<noteq> 0"

definition set_waterlogged :: "bool \<Rightarrow> BlockState \<Rightarrow> BlockState" where
  "set_waterlogged wl b =
     (if wl then b\<lparr>bs_props := bs_props b OR 0x0001\<rparr> else b\<lparr>bs_props := bs_props b AND NOT 0x0001\<rparr>)"

definition facing :: "BlockState \<Rightarrow> u8" where
  "facing b = ucast (drop_bit 1 (bs_props b) AND 0x07)"

definition set_facing :: "u8 \<Rightarrow> BlockState \<Rightarrow> BlockState" where
  "set_facing dir b =
     b\<lparr>bs_props := (bs_props b AND NOT 0x000E) OR push_bit 1 (ucast (dir AND 0x07))\<rparr>"

definition upper_half :: "BlockState \<Rightarrow> bool" where
  "upper_half b \<longleftrightarrow> bs_props b AND 0x0010 \<noteq> 0"

definition set_upper_half :: "bool \<Rightarrow> BlockState \<Rightarrow> BlockState" where
  "set_upper_half up b =
     (if up then b\<lparr>bs_props := bs_props b OR 0x0010\<rparr> else b\<lparr>bs_props := bs_props b AND NOT 0x0010\<rparr>)"

definition axis :: "BlockState \<Rightarrow> u8" where
  "axis b = ucast (drop_bit 5 (bs_props b) AND 0x03)"

definition set_axis :: "u8 \<Rightarrow> BlockState \<Rightarrow> BlockState" where
  "set_axis ax b =
     b\<lparr>bs_props := (bs_props b AND NOT 0x0060) OR push_bit 5 (ucast (ax AND 0x03))\<rparr>"

definition powered :: "BlockState \<Rightarrow> bool" where
  "powered b \<longleftrightarrow> bs_props b AND 0x0080 \<noteq> 0"

definition set_powered :: "bool \<Rightarrow> BlockState \<Rightarrow> BlockState" where
  "set_powered p b =
     (if p then b\<lparr>bs_props := bs_props b OR 0x0080\<rparr> else b\<lparr>bs_props := bs_props b AND NOT 0x0080\<rparr>)"

definition age :: "BlockState \<Rightarrow> u8" where
  "age b = ucast (drop_bit 8 (bs_props b) AND 0x07)"

definition set_age :: "u8 \<Rightarrow> BlockState \<Rightarrow> BlockState" where
  "set_age a b =
     b\<lparr>bs_props := (bs_props b AND NOT 0x0700) OR push_bit 8 (ucast (a AND 0x07))\<rparr>"

definition passable_ids :: "u32 list" where
  "passable_ids =
     [31, 32, 37, 38, 39, 40, 51, 55, 59, 63,
      64, 65, 66, 67, 68, 69, 70, 71, 75, 76,
      77, 78, 83, 93, 94, 96, 97, 98, 99, 100,
      101, 102, 103, 104, 131, 132, 143, 144, 175, 176]"

definition is_solid :: "BlockState \<Rightarrow> bool" where
  "is_solid b =
     (if bs_id b = 0 then False
      else if waterlogged b then False
      else if bs_id b = 267 \<or> bs_id b = 268 then False
      else bs_id b \<notin> set passable_ids)"

section \<open>Properties as bit fields\<close>

text \<open>A field of \<open>n\<close> bits at position \<open>k\<close>.\<close>

definition field :: "nat \<Rightarrow> nat \<Rightarrow> u16 \<Rightarrow> u16" where
  "field k n p = take_bit n (drop_bit k p)"

definition set_field :: "nat \<Rightarrow> nat \<Rightarrow> u16 \<Rightarrow> u16 \<Rightarrow> u16" where
  "set_field k n v p = (p AND NOT (push_bit k (mask n))) OR push_bit k (take_bit n v)"

lemma bit_field: "bit (field k n p) i \<longleftrightarrow> i < n \<and> bit p (k + i)"
  by (auto simp: field_def bit_take_bit_iff bit_drop_bit_eq)

lemma bit_set_field:
  "bit (set_field k n v p) i \<longleftrightarrow>
     i < 16 \<and> (if k \<le> i \<and> i < k + n then bit v (i - k) else bit p i)"
  by (auto simp: set_field_def bit_or_iff bit_and_iff bit_not_iff bit_push_bit_iff bit_take_bit_iff
      bit_mask_iff dest: bit_imp_le_length)

lemma field_set_same: "k + n \<le> 16 \<Longrightarrow> field k n (set_field k n v p) = take_bit n v"
  by (rule bit_word_eqI) (auto simp: bit_field bit_set_field bit_take_bit_iff)

lemma field_set_other:
  "k + n \<le> j \<or> j + m \<le> k \<Longrightarrow> field j m (set_field k n v p) = field j m p"
  by (rule bit_word_eqI) (auto simp: bit_field bit_set_field dest: bit_imp_le_length)

lemma field_1: "field k (Suc 0) p = (if bit p k then 1 else 0)"
  by (rule bit_word_eqI) (auto simp: bit_field bit_1_iff)

lemma flag_iff: "(p :: u16) AND push_bit k 1 \<noteq> 0 \<longleftrightarrow> field k 1 p = 1"
proof -
  have "p AND push_bit k 1 = 0 \<longleftrightarrow> \<not> bit p k"
    by (metis and_exp_eq_0_iff_not_bit push_bit_of_1)
  then show ?thesis
    by (simp add: field_1)
qed

lemma flag_set: "k < 16 \<Longrightarrow> (p :: u16) OR push_bit k 1 = set_field k 1 1 p"
  by (rule bit_word_eqI) (auto simp: bit_set_field bit_or_iff bit_exp_iff bit_1_iff)

lemma flag_clear: "k < 16 \<Longrightarrow> (p :: u16) AND NOT (push_bit k 1) = set_field k 1 0 p"
  by (rule bit_word_eqI) (auto simp: bit_set_field bit_and_iff bit_not_iff bit_exp_iff)

text \<open>The accessors of the code, read as fields.\<close>

lemma getters_as_fields:
  "waterlogged b \<longleftrightarrow> field 0 1 (bs_props b) = 1"
  "upper_half b \<longleftrightarrow> field 4 1 (bs_props b) = 1"
  "powered b \<longleftrightarrow> field 7 1 (bs_props b) = 1"
  "facing b = ucast (field 1 3 (bs_props b))"
  "axis b = ucast (field 5 2 (bs_props b))"
  "age b = ucast (field 8 3 (bs_props b))"
  using flag_iff [of "bs_props b" 0] flag_iff [of "bs_props b" 4] flag_iff [of "bs_props b" 7]
  by (simp_all add: waterlogged_def upper_half_def powered_def facing_def axis_def age_def field_def
      take_bit_eq_mask mask_eq_exp_minus_1 push_bit_eq_mult)

lemma set_field_literal:
  "set_field (Suc 0) 3 v p = (p AND NOT 0x000E) OR push_bit 1 (v AND 0x07)"
  "set_field 5 2 v p = (p AND NOT 0x0060) OR push_bit 5 (v AND 0x03)"
  "set_field 8 3 v p = (p AND NOT 0x0700) OR push_bit 8 (v AND 0x07)"
  by (simp_all add: set_field_def take_bit_eq_mask mask_eq_exp_minus_1 push_bit_eq_mult)

lemma ucast_and:
  "(ucast ((v :: u8) AND 0x07) :: u16) = ucast v AND 0x07"
  "(ucast (v AND 0x03) :: u16) = ucast v AND 0x03"
  by (simp_all add: unsigned_and_eq)

lemma setters_as_fields:
  "set_waterlogged wl b = b\<lparr>bs_props := set_field 0 1 (of_bool wl) (bs_props b)\<rparr>"
  "set_upper_half wl b = b\<lparr>bs_props := set_field 4 1 (of_bool wl) (bs_props b)\<rparr>"
  "set_powered wl b = b\<lparr>bs_props := set_field 7 1 (of_bool wl) (bs_props b)\<rparr>"
  "set_facing v b = b\<lparr>bs_props := set_field 1 3 (ucast v) (bs_props b)\<rparr>"
  "set_axis v b = b\<lparr>bs_props := set_field 5 2 (ucast v) (bs_props b)\<rparr>"
  "set_age v b = b\<lparr>bs_props := set_field 8 3 (ucast v) (bs_props b)\<rparr>"
  using flag_set [of 0] flag_set [of 4] flag_set [of 7] flag_clear [of 0] flag_clear [of 4] flag_clear [of 7]
  by (simp_all add: set_waterlogged_def set_upper_half_def set_powered_def set_facing_def set_axis_def
      set_age_def set_field_literal ucast_and push_bit_eq_mult)


definition props_view :: "BlockState \<Rightarrow> u32 \<times> bool \<times> u8 \<times> bool \<times> u8 \<times> bool \<times> u8" where
  "props_view b = (bs_id b, waterlogged b, facing b, upper_half b, axis b, powered b, age b)"

lemma ucast_u16_u8: "ucast (ucast v :: u16) = (v :: u8)"
  by (rule bit_word_eqI) (simp add: bit_ucast_iff)

lemma ucast_field:
  "ucast (take_bit 3 (ucast v :: u16)) = (v :: u8) AND 7"
  "ucast (take_bit 2 (ucast v :: u16)) = v AND 3"
  by (simp_all add: take_bit_eq_mask mask_eq_exp_minus_1 unsigned_and_eq ucast_u16_u8)

text \<open>Each property of a block state is a field of its own: after a setter, its getter reads
  back what was set (masked to the width of the field) and every other getter, and the block
  identifier, read what they read before.\<close>

theorem block_properties_independent:
  "props_view (set_waterlogged wl b) = (bs_id b, wl, facing b, upper_half b, axis b, powered b, age b)
   \<and> props_view (set_facing v b) = (bs_id b, waterlogged b, v AND 7, upper_half b, axis b, powered b, age b)
   \<and> props_view (set_upper_half wl b) = (bs_id b, waterlogged b, facing b, wl, axis b, powered b, age b)
   \<and> props_view (set_axis v b) = (bs_id b, waterlogged b, facing b, upper_half b, v AND 3, powered b, age b)
   \<and> props_view (set_powered wl b) = (bs_id b, waterlogged b, facing b, upper_half b, axis b, wl, age b)
   \<and> props_view (set_age v b) = (bs_id b, waterlogged b, facing b, upper_half b, axis b, powered b, v AND 7)"
  by (simp add: props_view_def getters_as_fields setters_as_fields field_set_same field_set_other ucast_field)

section \<open>The registry\<close>

record BlockRegistry =
  br_states :: "BlockState list"
  br_default_state :: BlockState

definition new_registry :: BlockRegistry where
  "new_registry = \<lparr>br_states = [AIR], br_default_state = AIR\<rparr>"

definition registry_get :: "BlockRegistry \<Rightarrow> u32 \<Rightarrow> BlockState option" where
  "registry_get r i = nth_opt (br_states r) (unat i)"

definition registry_len :: "BlockRegistry \<Rightarrow> nat" where
  "registry_len r = length (br_states r)"

definition registry_is_empty :: "BlockRegistry \<Rightarrow> bool" where
  "registry_is_empty r \<longleftrightarrow> br_states r = []"

definition register :: "BlockRegistry \<Rightarrow> BlockState \<times> BlockRegistry" where
  "register r =
     (let i = word_of_nat (length (br_states r));
          state = block i
      in (state, r\<lparr>br_states := br_states r @ [state]\<rparr>))"

definition registry_ok :: "BlockRegistry \<Rightarrow> bool" where
  "registry_ok r \<longleftrightarrow> br_states r = map (\<lambda>n. block (word_of_nat n)) [0..<length (br_states r)]"

lemma new_registry_ok: "registry_ok new_registry"
  by (simp add: registry_ok_def new_registry_def AIR_def block_def)

lemma register_ok: "registry_ok r \<Longrightarrow> registry_ok (snd (register r))"
  by (simp add: registry_ok_def register_def Let_def)

lemma registry_get_register:
  assumes "registry_len r < 2 ^ 32"
  shows "registry_get (snd (register r)) (bs_id (fst (register r))) = Some (fst (register r))"
  using assms
  by (simp add: registry_get_def register_def Let_def nth_opt_def block_def registry_len_def unat_of_nat)

end
