(* ===== verification/ItemRegistry.thy ===== *)
theory ItemRegistry
  imports Blocks
begin

text \<open>
  \<open>mc-core/src/item.rs\<close> and its generated table \<open>item_registry.in.rs\<close>: the numbers of block and
  item names. The table is a hash map filled in the order of the rows, so the last row of a name
  counts. Names are ASCII strings; \<open>to_lowercase\<close> is written out for them.

  Shown: blocks and items are numbered from 0 each, in one map, so that many names share their number
  with another thing.
\<close>

type_synonym item_row_list = "(string \<times> nat) list"

definition block_rows_1 :: item_row_list where
  "block_rows_1 = [(''acacia_button'', 447), (''acacia_door'', 649), (''acacia_fence'', 640),
     (''acacia_fence_gate'', 631), (''acacia_hanging_sign'', 237), (''acacia_leaves'', 92),
     (''acacia_log'', 53), (''acacia_planks'', 17), (''acacia_pressure_plate'', 265),
     (''acacia_sapling'', 29), (''acacia_shelf'', 180), (''acacia_sign'', 213), (''acacia_slab'', 603),
     (''acacia_stairs'', 516), (''acacia_trapdoor'', 320), (''acacia_wall_hanging_sign'', 249),
     (''acacia_wall_sign'', 227), (''acacia_wood'', 75), (''activator_rail'', 482), (''air'', 0),
     (''allium'', 162), (''amethyst_block'', 978), (''amethyst_cluster'', 980),
     (''ancient_debris'', 916), (''andesite'', 6), (''andesite_slab'', 820), (''andesite_stairs'', 807),
     (''andesite_wall'', 832), (''anvil'', 467), (''attached_melon_stem'', 363),
     (''attached_pumpkin_stem'', 362), (''azalea'', 1138), (''azalea_leaves'', 97),
     (''azure_bluet'', 163), (''bamboo'', 792), (''bamboo_block'', 60), (''bamboo_button'', 452),
     (''bamboo_door'', 654), (''bamboo_fence'', 645), (''bamboo_fence_gate'', 636),
     (''bamboo_hanging_sign'', 245), (''bamboo_mosaic'', 24), (''bamboo_mosaic_slab'', 609),
     (''bamboo_mosaic_stairs'', 522), (''bamboo_planks'', 23), (''bamboo_pressure_plate'', 270),
     (''bamboo_sapling'', 791), (''bamboo_shelf'', 181), (''bamboo_sign'', 219), (''bamboo_slab'', 608),
     (''bamboo_stairs'', 521), (''bamboo_trapdoor'', 325), (''bamboo_wall_hanging_sign'', 257),
     (''bamboo_wall_sign'', 233), (''barrel'', 839), (''barrier'', 524), (''basalt'', 288),
     (''beacon'', 408), (''bedrock'', 34), (''bee_nest'', 911), (''beehive'', 912),
     (''beetroots'', 665), (''bell'', 848), (''big_dripleaf'', 1145), (''big_dripleaf_stem'', 1146),
     (''birch_button'', 445), (''birch_door'', 647), (''birch_fence'', 638),
     (''birch_fence_gate'', 629), (''birch_hanging_sign'', 236), (''birch_leaves'', 90),
     (''birch_log'', 51), (''birch_planks'', 15), (''birch_pressure_plate'', 263),
     (''birch_sapling'', 27), (''birch_shelf'', 182), (''birch_sign'', 212), (''birch_slab'', 601),
     (''birch_stairs'', 405), (''birch_trapdoor'', 318), (''birch_wall_hanging_sign'', 248),
     (''birch_wall_sign'', 226), (''birch_wood'', 73), (''black_banner'', 578), (''black_bed'', 125),
     (''black_candle'', 960), (''black_candle_cake'', 977), (''black_carpet'', 553),
     (''black_concrete'', 725), (''black_concrete_powder'', 741), (''black_glazed_terracotta'', 709),
     (''black_shulker_box'', 693), (''black_stained_glass'', 315), (''black_stained_glass_pane'', 515),
     (''black_terracotta'', 499), (''black_wall_banner'', 594), (''black_wool'', 155),
     (''blackstone'', 924), (''blackstone_slab'', 927), (''blackstone_stairs'', 925),
     (''blackstone_wall'', 926), (''blast_furnace'', 841), (''blue_banner'', 574), (''blue_bed'', 121),
     (''blue_candle'', 956), (''blue_candle_cake'', 973), (''blue_carpet'', 549),
     (''blue_concrete'', 721), (''blue_concrete_powder'', 737), (''blue_glazed_terracotta'', 705),
     (''blue_ice'', 789), (''blue_orchid'', 161), (''blue_shulker_box'', 689),
     (''blue_stained_glass'', 311), (''blue_stained_glass_pane'', 511), (''blue_terracotta'', 495),
     (''blue_wall_banner'', 590), (''blue_wool'', 151), (''bone_block'', 674), (''bookshelf'', 178),
     (''brain_coral'', 764), (''brain_coral_block'', 754), (''brain_coral_fan'', 774),
     (''brain_coral_wall_fan'', 784), (''brewing_stand'', 386), (''brick_slab'', 616),
     (''brick_stairs'', 370), (''brick_wall'', 824), (''bricks'', 176), (''brown_banner'', 575),
     (''brown_bed'', 122), (''brown_candle'', 957), (''brown_candle_cake'', 974),
     (''brown_carpet'', 550), (''brown_concrete'', 722), (''brown_concrete_powder'', 738),
     (''brown_glazed_terracotta'', 706), (''brown_mushroom'', 172), (''brown_mushroom_block'', 338),
     (''brown_shulker_box'', 690), (''brown_stained_glass'', 312), (''brown_stained_glass_pane'', 512),
     (''brown_terracotta'', 496), (''brown_wall_banner'', 591), (''brown_wool'', 152),
     (''bubble_column'', 796), (''bubble_coral'', 765), (''bubble_coral_block'', 755),
     (''bubble_coral_fan'', 775), (''bubble_coral_wall_fan'', 785)]"

definition block_rows_2 :: item_row_list where
  "block_rows_2 = [(''budding_amethyst'', 979), (''bush'', 133), (''cactus'', 279),
     (''cactus_flower'', 280), (''cake'', 298), (''calcite'', 1025),
     (''calibrated_sculk_sensor'', 1029), (''campfire'', 859), (''candle'', 944),
     (''candle_cake'', 961), (''carrots'', 441), (''cartography_table'', 842),
     (''carved_pumpkin'', 296), (''cauldron'', 387), (''cave_air'', 795), (''cave_vines'', 1135),
     (''cave_vines_plant'', 1136), (''chain_command_block'', 669), (''cherry_button'', 448),
     (''cherry_door'', 650), (''cherry_fence'', 641), (''cherry_fence_gate'', 632),
     (''cherry_hanging_sign'', 238), (''cherry_leaves'', 93), (''cherry_log'', 54),
     (''cherry_planks'', 18), (''cherry_pressure_plate'', 266), (''cherry_sapling'', 30),
     (''cherry_shelf'', 183), (''cherry_sign'', 214), (''cherry_slab'', 604), (''cherry_stairs'', 517),
     (''cherry_trapdoor'', 321), (''cherry_wall_hanging_sign'', 250), (''cherry_wall_sign'', 228),
     (''cherry_wood'', 76), (''chest'', 201), (''chipped_anvil'', 468), (''chiseled_bookshelf'', 179),
     (''chiseled_cinnabar'', 1024), (''chiseled_copper'', 1052), (''chiseled_deepslate'', 1168),
     (''chiseled_nether_bricks'', 941), (''chiseled_polished_blackstone'', 931),
     (''chiseled_quartz_block'', 479), (''chiseled_red_sandstone'', 596),
     (''chiseled_resin_bricks'', 380), (''chiseled_sandstone'', 107), (''chiseled_stone_bricks'', 329),
     (''chiseled_sulfur'', 1011), (''chiseled_tuff'', 992), (''chiseled_tuff_bricks'', 997),
     (''chorus_flower'', 657), (''chorus_plant'', 656), (''cinnabar'', 1012),
     (''cinnabar_brick_slab'', 1021), (''cinnabar_brick_stairs'', 1022),
     (''cinnabar_brick_wall'', 1023), (''cinnabar_bricks'', 1020), (''cinnabar_slab'', 1013),
     (''cinnabar_stairs'', 1014), (''cinnabar_wall'', 1015), (''clay'', 281),
     (''closed_eyeblossom'', 1192), (''coal_block'', 555), (''coal_ore'', 46), (''coarse_dirt'', 10),
     (''cobbled_deepslate'', 1152), (''cobbled_deepslate_slab'', 1154),
     (''cobbled_deepslate_stairs'', 1153), (''cobbled_deepslate_wall'', 1155), (''cobblestone'', 12),
     (''cobblestone_slab'', 615), (''cobblestone_stairs'', 223), (''cobblestone_wall'', 409),
     (''cobweb'', 129), (''cocoa'', 396), (''command_block'', 407), (''comparator'', 473),
     (''composter'', 909), (''conduit'', 790), (''copper_bars'', 342), (''copper_block'', 1034),
     (''copper_bulb'', 1100), (''copper_chain'', 351), (''copper_chest'', 1108),
     (''copper_door'', 1076), (''copper_golem_statue'', 1116), (''copper_grate'', 1092),
     (''copper_lantern'', 851), (''copper_ore'', 1042), (''copper_torch'', 292),
     (''copper_trapdoor'', 1084), (''copper_wall_torch'', 293), (''cornflower'', 169),
     (''cracked_deepslate_bricks'', 1169), (''cracked_deepslate_tiles'', 1170),
     (''cracked_nether_bricks'', 942), (''cracked_polished_blackstone_bricks'', 930),
     (''cracked_stone_bricks'', 328), (''crafter'', 1184), (''crafting_table'', 206),
     (''creaking_heart'', 199), (''creeper_head'', 461), (''creeper_wall_head'', 462),
     (''crimson_button'', 897), (''crimson_door'', 899), (''crimson_fence'', 889),
     (''crimson_fence_gate'', 893), (''crimson_fungus'', 876), (''crimson_hanging_sign'', 242),
     (''crimson_hyphae'', 873), (''crimson_nylium'', 875), (''crimson_planks'', 883),
     (''crimson_pressure_plate'', 887), (''crimson_roots'', 882), (''crimson_shelf'', 184),
     (''crimson_sign'', 901), (''crimson_slab'', 885), (''crimson_stairs'', 895),
     (''crimson_stem'', 871), (''crimson_trapdoor'', 891), (''crimson_wall_hanging_sign'', 255),
     (''crimson_wall_sign'', 903), (''crying_obsidian'', 917), (''cut_copper'', 1044),
     (''cut_copper_slab'', 1068), (''cut_copper_stairs'', 1060), (''cut_red_sandstone'', 597),
     (''cut_red_sandstone_slab'', 622), (''cut_sandstone'', 108), (''cut_sandstone_slab'', 613),
     (''cyan_banner'', 572), (''cyan_bed'', 119), (''cyan_candle'', 954), (''cyan_candle_cake'', 971),
     (''cyan_carpet'', 547), (''cyan_concrete'', 719), (''cyan_concrete_powder'', 735),
     (''cyan_glazed_terracotta'', 703), (''cyan_shulker_box'', 687), (''cyan_stained_glass'', 309),
     (''cyan_stained_glass_pane'', 509), (''cyan_terracotta'', 493), (''cyan_wall_banner'', 588),
     (''cyan_wool'', 149), (''damaged_anvil'', 469), (''dandelion'', 157), (''dark_oak_button'', 449),
     (''dark_oak_door'', 651)]"

definition block_rows_3 :: item_row_list where
  "block_rows_3 = [(''dark_oak_fence'', 642), (''dark_oak_fence_gate'', 633),
     (''dark_oak_hanging_sign'', 240), (''dark_oak_leaves'', 94), (''dark_oak_log'', 55),
     (''dark_oak_planks'', 19), (''dark_oak_pressure_plate'', 267), (''dark_oak_sapling'', 31),
     (''dark_oak_shelf'', 185), (''dark_oak_sign'', 216), (''dark_oak_slab'', 605),
     (''dark_oak_stairs'', 518), (''dark_oak_trapdoor'', 322), (''dark_oak_wall_hanging_sign'', 252),
     (''dark_oak_wall_sign'', 230), (''dark_oak_wood'', 77), (''dark_prismarine'', 529),
     (''dark_prismarine_slab'', 535), (''dark_prismarine_stairs'', 532), (''daylight_detector'', 474),
     (''dead_brain_coral'', 759), (''dead_brain_coral_block'', 749), (''dead_brain_coral_fan'', 769),
     (''dead_brain_coral_wall_fan'', 779), (''dead_bubble_coral'', 760),
     (''dead_bubble_coral_block'', 750), (''dead_bubble_coral_fan'', 770),
     (''dead_bubble_coral_wall_fan'', 780), (''dead_bush'', 132), (''dead_fire_coral'', 761),
     (''dead_fire_coral_block'', 751), (''dead_fire_coral_fan'', 771),
     (''dead_fire_coral_wall_fan'', 781), (''dead_horn_coral'', 762), (''dead_horn_coral_block'', 752),
     (''dead_horn_coral_fan'', 772), (''dead_horn_coral_wall_fan'', 782), (''dead_tube_coral'', 758),
     (''dead_tube_coral_block'', 748), (''dead_tube_coral_fan'', 768),
     (''dead_tube_coral_wall_fan'', 778), (''decorated_pot'', 1183), (''deepslate'', 1151),
     (''deepslate_brick_slab'', 1166), (''deepslate_brick_stairs'', 1165),
     (''deepslate_brick_wall'', 1167), (''deepslate_bricks'', 1164), (''deepslate_coal_ore'', 47),
     (''deepslate_copper_ore'', 1043), (''deepslate_diamond_ore'', 204),
     (''deepslate_emerald_ore'', 399), (''deepslate_gold_ore'', 43), (''deepslate_iron_ore'', 45),
     (''deepslate_lapis_ore'', 103), (''deepslate_redstone_ore'', 272), (''deepslate_tile_slab'', 1162),
     (''deepslate_tile_stairs'', 1161), (''deepslate_tile_wall'', 1163), (''deepslate_tiles'', 1160),
     (''detector_rail'', 127), (''diamond_block'', 205), (''diamond_ore'', 203), (''diorite'', 4),
     (''diorite_slab'', 823), (''diorite_stairs'', 810), (''diorite_wall'', 836), (''dirt'', 9),
     (''dirt_path'', 666), (''dispenser'', 105), (''dragon_egg'', 394), (''dragon_head'', 463),
     (''dragon_wall_head'', 464), (''dried_ghast'', 747), (''dried_kelp_block'', 744),
     (''dripstone_block'', 1132), (''dropper'', 483), (''emerald_block'', 403), (''emerald_ore'', 398),
     (''enchanting_table'', 385), (''end_gateway'', 667), (''end_portal'', 391),
     (''end_portal_frame'', 392), (''end_rod'', 655), (''end_stone'', 393),
     (''end_stone_brick_slab'', 816), (''end_stone_brick_stairs'', 802),
     (''end_stone_brick_wall'', 835), (''end_stone_bricks'', 661), (''ender_chest'', 400),
     (''exposed_chiseled_copper'', 1053), (''exposed_copper'', 1035), (''exposed_copper_bars'', 343),
     (''exposed_copper_bulb'', 1101), (''exposed_copper_chain'', 352), (''exposed_copper_chest'', 1109),
     (''exposed_copper_door'', 1077), (''exposed_copper_golem_statue'', 1117),
     (''exposed_copper_grate'', 1093), (''exposed_copper_lantern'', 852),
     (''exposed_copper_trapdoor'', 1085), (''exposed_cut_copper'', 1045),
     (''exposed_cut_copper_slab'', 1069), (''exposed_cut_copper_stairs'', 1061),
     (''exposed_lightning_rod'', 1125), (''farmland'', 208), (''fern'', 131), (''fire'', 196),
     (''fire_coral'', 766), (''fire_coral_block'', 756), (''fire_coral_fan'', 776),
     (''fire_coral_wall_fan'', 786), (''firefly_bush'', 1195), (''fletching_table'', 843),
     (''flower_pot'', 411), (''flowering_azalea'', 1139), (''flowering_azalea_leaves'', 98),
     (''frogspawn'', 1181), (''frosted_ice'', 670), (''furnace'', 209), (''gilded_blackstone'', 935),
     (''glass'', 101), (''glass_pane'', 359), (''glow_lichen'', 367), (''glowstone'', 294),
     (''gold_block'', 174), (''gold_ore'', 42), (''golden_dandelion'', 158), (''granite'', 2),
     (''granite_slab'', 819), (''granite_stairs'', 806), (''granite_wall'', 828), (''grass_block'', 8),
     (''gravel'', 40), (''gray_banner'', 570), (''gray_bed'', 117), (''gray_candle'', 952),
     (''gray_candle_cake'', 969), (''gray_carpet'', 545), (''gray_concrete'', 717),
     (''gray_concrete_powder'', 733), (''gray_glazed_terracotta'', 701), (''gray_shulker_box'', 685),
     (''gray_stained_glass'', 307), (''gray_stained_glass_pane'', 507), (''gray_terracotta'', 491),
     (''gray_wall_banner'', 586), (''gray_wool'', 147), (''green_banner'', 576), (''green_bed'', 123),
     (''green_candle'', 958)]"

definition block_rows_4 :: item_row_list where
  "block_rows_4 = [(''green_candle_cake'', 975), (''green_carpet'', 551), (''green_concrete'', 723),
     (''green_concrete_powder'', 739), (''green_glazed_terracotta'', 707), (''green_shulker_box'', 691),
     (''green_stained_glass'', 313), (''green_stained_glass_pane'', 513), (''green_terracotta'', 497),
     (''green_wall_banner'', 592), (''green_wool'', 153), (''grindstone'', 844),
     (''hanging_roots'', 1148), (''hay_block'', 537), (''heavy_core'', 1187),
     (''heavy_weighted_pressure_plate'', 472), (''honey_block'', 913), (''honeycomb_block'', 914),
     (''hopper'', 477), (''horn_coral'', 767), (''horn_coral_block'', 757), (''horn_coral_fan'', 777),
     (''horn_coral_wall_fan'', 787), (''ice'', 277), (''infested_chiseled_stone_bricks'', 337),
     (''infested_cobblestone'', 333), (''infested_cracked_stone_bricks'', 336),
     (''infested_deepslate'', 1171), (''infested_mossy_stone_bricks'', 335), (''infested_stone'', 332),
     (''infested_stone_bricks'', 334), (''iron_bars'', 341), (''iron_block'', 175),
     (''iron_chain'', 350), (''iron_door'', 260), (''iron_ore'', 44), (''iron_trapdoor'', 526),
     (''jack_o_lantern'', 297), (''jigsaw'', 906), (''jukebox'', 283), (''jungle_button'', 446),
     (''jungle_door'', 648), (''jungle_fence'', 639), (''jungle_fence_gate'', 630),
     (''jungle_hanging_sign'', 239), (''jungle_leaves'', 91), (''jungle_log'', 52),
     (''jungle_planks'', 16), (''jungle_pressure_plate'', 264), (''jungle_sapling'', 28),
     (''jungle_shelf'', 186), (''jungle_sign'', 215), (''jungle_slab'', 602), (''jungle_stairs'', 406),
     (''jungle_trapdoor'', 319), (''jungle_wall_hanging_sign'', 251), (''jungle_wall_sign'', 229),
     (''jungle_wood'', 74), (''kelp'', 742), (''kelp_plant'', 743), (''ladder'', 221),
     (''lantern'', 849), (''lapis_block'', 104), (''lapis_ore'', 102), (''large_amethyst_bud'', 981),
     (''large_fern'', 562), (''lava'', 36), (''lava_cauldron'', 389), (''leaf_litter'', 1143),
     (''lectern'', 845), (''lever'', 258), (''light'', 525), (''light_blue_banner'', 566),
     (''light_blue_bed'', 113), (''light_blue_candle'', 948), (''light_blue_candle_cake'', 965),
     (''light_blue_carpet'', 541), (''light_blue_concrete'', 713),
     (''light_blue_concrete_powder'', 729), (''light_blue_glazed_terracotta'', 697),
     (''light_blue_shulker_box'', 681), (''light_blue_stained_glass'', 303),
     (''light_blue_stained_glass_pane'', 503), (''light_blue_terracotta'', 487),
     (''light_blue_wall_banner'', 582), (''light_blue_wool'', 143), (''light_gray_banner'', 571),
     (''light_gray_bed'', 118), (''light_gray_candle'', 953), (''light_gray_candle_cake'', 970),
     (''light_gray_carpet'', 546), (''light_gray_concrete'', 718),
     (''light_gray_concrete_powder'', 734), (''light_gray_glazed_terracotta'', 702),
     (''light_gray_shulker_box'', 686), (''light_gray_stained_glass'', 308),
     (''light_gray_stained_glass_pane'', 508), (''light_gray_terracotta'', 492),
     (''light_gray_wall_banner'', 587), (''light_gray_wool'', 148),
     (''light_weighted_pressure_plate'', 471), (''lightning_rod'', 1124), (''lilac'', 558),
     (''lily_of_the_valley'', 171), (''lily_pad'', 374), (''lime_banner'', 568), (''lime_bed'', 115),
     (''lime_candle'', 950), (''lime_candle_cake'', 967), (''lime_carpet'', 543),
     (''lime_concrete'', 715), (''lime_concrete_powder'', 731), (''lime_glazed_terracotta'', 699),
     (''lime_shulker_box'', 683), (''lime_stained_glass'', 305), (''lime_stained_glass_pane'', 505),
     (''lime_terracotta'', 489), (''lime_wall_banner'', 584), (''lime_wool'', 145),
     (''lodestone'', 923), (''loom'', 838), (''magenta_banner'', 565), (''magenta_bed'', 112),
     (''magenta_candle'', 947), (''magenta_candle_cake'', 964), (''magenta_carpet'', 540),
     (''magenta_concrete'', 712), (''magenta_concrete_powder'', 728),
     (''magenta_glazed_terracotta'', 696), (''magenta_shulker_box'', 680),
     (''magenta_stained_glass'', 302), (''magenta_stained_glass_pane'', 502),
     (''magenta_terracotta'', 486), (''magenta_wall_banner'', 581), (''magenta_wool'', 142),
     (''magma_block'', 671), (''mangrove_button'', 451), (''mangrove_door'', 653),
     (''mangrove_fence'', 644), (''mangrove_fence_gate'', 635), (''mangrove_hanging_sign'', 244),
     (''mangrove_leaves'', 96), (''mangrove_log'', 57), (''mangrove_planks'', 22),
     (''mangrove_pressure_plate'', 269), (''mangrove_propagule'', 33), (''mangrove_roots'', 58),
     (''mangrove_shelf'', 187), (''mangrove_sign'', 218), (''mangrove_slab'', 607)]"

definition block_rows_5 :: item_row_list where
  "block_rows_5 = [(''mangrove_stairs'', 520), (''mangrove_trapdoor'', 324),
     (''mangrove_wall_hanging_sign'', 254), (''mangrove_wall_sign'', 232), (''mangrove_wood'', 78),
     (''medium_amethyst_bud'', 982), (''melon'', 361), (''melon_stem'', 365), (''moss_block'', 1144),
     (''moss_carpet'', 1140), (''mossy_cobblestone'', 192), (''mossy_cobblestone_slab'', 815),
     (''mossy_cobblestone_stairs'', 801), (''mossy_cobblestone_wall'', 410),
     (''mossy_stone_brick_slab'', 813), (''mossy_stone_brick_stairs'', 799),
     (''mossy_stone_brick_wall'', 827), (''mossy_stone_bricks'', 327), (''moving_piston'', 156),
     (''mud'', 1150), (''mud_brick_slab'', 618), (''mud_brick_stairs'', 372), (''mud_brick_wall'', 830),
     (''mud_bricks'', 331), (''muddy_mangrove_roots'', 59), (''mushroom_stem'', 340),
     (''mycelium'', 373), (''nether_brick_fence'', 382), (''nether_brick_slab'', 619),
     (''nether_brick_stairs'', 383), (''nether_brick_wall'', 831), (''nether_bricks'', 381),
     (''nether_gold_ore'', 48), (''nether_portal'', 295), (''nether_quartz_ore'', 476),
     (''nether_sprouts'', 870), (''nether_wart'', 384), (''nether_wart_block'', 672),
     (''netherite_block'', 915), (''netherrack'', 285), (''note_block'', 109), (''oak_button'', 443),
     (''oak_door'', 220), (''oak_fence'', 284), (''oak_fence_gate'', 369), (''oak_hanging_sign'', 234),
     (''oak_leaves'', 88), (''oak_log'', 49), (''oak_planks'', 13), (''oak_pressure_plate'', 261),
     (''oak_sapling'', 25), (''oak_shelf'', 188), (''oak_sign'', 210), (''oak_slab'', 599),
     (''oak_stairs'', 200), (''oak_trapdoor'', 316), (''oak_wall_hanging_sign'', 246),
     (''oak_wall_sign'', 224), (''oak_wood'', 71), (''observer'', 676), (''obsidian'', 193),
     (''ochre_froglight'', 1178), (''open_eyeblossom'', 1191), (''orange_banner'', 564),
     (''orange_bed'', 111), (''orange_candle'', 946), (''orange_candle_cake'', 963),
     (''orange_carpet'', 539), (''orange_concrete'', 711), (''orange_concrete_powder'', 727),
     (''orange_glazed_terracotta'', 695), (''orange_shulker_box'', 679),
     (''orange_stained_glass'', 301), (''orange_stained_glass_pane'', 501),
     (''orange_terracotta'', 485), (''orange_tulip'', 165), (''orange_wall_banner'', 580),
     (''orange_wool'', 141), (''oxeye_daisy'', 168), (''oxidized_chiseled_copper'', 1055),
     (''oxidized_copper'', 1037), (''oxidized_copper_bars'', 345), (''oxidized_copper_bulb'', 1103),
     (''oxidized_copper_chain'', 354), (''oxidized_copper_chest'', 1111),
     (''oxidized_copper_door'', 1079), (''oxidized_copper_golem_statue'', 1119),
     (''oxidized_copper_grate'', 1095), (''oxidized_copper_lantern'', 854),
     (''oxidized_copper_trapdoor'', 1087), (''oxidized_cut_copper'', 1047),
     (''oxidized_cut_copper_slab'', 1071), (''oxidized_cut_copper_stairs'', 1063),
     (''oxidized_lightning_rod'', 1127), (''packed_ice'', 556), (''packed_mud'', 330),
     (''pale_hanging_moss'', 1190), (''pale_moss_block'', 1188), (''pale_moss_carpet'', 1189),
     (''pale_oak_button'', 450), (''pale_oak_door'', 652), (''pale_oak_fence'', 643),
     (''pale_oak_fence_gate'', 634), (''pale_oak_hanging_sign'', 241), (''pale_oak_leaves'', 95),
     (''pale_oak_log'', 56), (''pale_oak_planks'', 21), (''pale_oak_pressure_plate'', 268),
     (''pale_oak_sapling'', 32), (''pale_oak_shelf'', 189), (''pale_oak_sign'', 217),
     (''pale_oak_slab'', 606), (''pale_oak_stairs'', 519), (''pale_oak_trapdoor'', 323),
     (''pale_oak_wall_hanging_sign'', 253), (''pale_oak_wall_sign'', 231), (''pale_oak_wood'', 20),
     (''pearlescent_froglight'', 1180), (''peony'', 560), (''petrified_oak_slab'', 614),
     (''piglin_head'', 465), (''piglin_wall_head'', 466), (''pink_banner'', 569), (''pink_bed'', 116),
     (''pink_candle'', 951), (''pink_candle_cake'', 968), (''pink_carpet'', 544),
     (''pink_concrete'', 716), (''pink_concrete_powder'', 732), (''pink_glazed_terracotta'', 700),
     (''pink_petals'', 1141), (''pink_shulker_box'', 684), (''pink_stained_glass'', 306),
     (''pink_stained_glass_pane'', 506), (''pink_terracotta'', 490), (''pink_tulip'', 167),
     (''pink_wall_banner'', 585), (''pink_wool'', 146), (''piston'', 138), (''piston_head'', 139),
     (''pitcher_crop'', 663), (''pitcher_plant'', 664), (''player_head'', 459),
     (''player_wall_head'', 460), (''podzol'', 11), (''pointed_dripstone'', 1133),
     (''polished_andesite'', 7), (''polished_andesite_slab'', 822), (''polished_andesite_stairs'', 809),
     (''polished_basalt'', 289)]"

definition block_rows_6 :: item_row_list where
  "block_rows_6 = [(''polished_blackstone'', 928), (''polished_blackstone_brick_slab'', 932),
     (''polished_blackstone_brick_stairs'', 933), (''polished_blackstone_brick_wall'', 934),
     (''polished_blackstone_bricks'', 929), (''polished_blackstone_button'', 939),
     (''polished_blackstone_pressure_plate'', 938), (''polished_blackstone_slab'', 937),
     (''polished_blackstone_stairs'', 936), (''polished_blackstone_wall'', 940),
     (''polished_cinnabar'', 1016), (''polished_cinnabar_slab'', 1017),
     (''polished_cinnabar_stairs'', 1018), (''polished_cinnabar_wall'', 1019),
     (''polished_deepslate'', 1156), (''polished_deepslate_slab'', 1158),
     (''polished_deepslate_stairs'', 1157), (''polished_deepslate_wall'', 1159),
     (''polished_diorite'', 5), (''polished_diorite_slab'', 814), (''polished_diorite_stairs'', 800),
     (''polished_granite'', 3), (''polished_granite_slab'', 811), (''polished_granite_stairs'', 797),
     (''polished_sulfur'', 1003), (''polished_sulfur_slab'', 1004), (''polished_sulfur_stairs'', 1005),
     (''polished_sulfur_wall'', 1006), (''polished_tuff'', 988), (''polished_tuff_slab'', 989),
     (''polished_tuff_stairs'', 990), (''polished_tuff_wall'', 991), (''poppy'', 160),
     (''potatoes'', 442), (''potent_sulfur'', 999), (''potted_acacia_sapling'', 417),
     (''potted_allium'', 427), (''potted_azalea_bush'', 1176), (''potted_azure_bluet'', 428),
     (''potted_bamboo'', 793), (''potted_birch_sapling'', 415), (''potted_blue_orchid'', 426),
     (''potted_brown_mushroom'', 438), (''potted_cactus'', 440), (''potted_cherry_sapling'', 418),
     (''potted_closed_eyeblossom'', 1194), (''potted_cornflower'', 434),
     (''potted_crimson_fungus'', 919), (''potted_crimson_roots'', 921), (''potted_dandelion'', 423),
     (''potted_dark_oak_sapling'', 419), (''potted_dead_bush'', 439), (''potted_fern'', 422),
     (''potted_flowering_azalea_bush'', 1177), (''potted_golden_dandelion'', 424),
     (''potted_jungle_sapling'', 416), (''potted_lily_of_the_valley'', 435),
     (''potted_mangrove_propagule'', 421), (''potted_oak_sapling'', 413),
     (''potted_open_eyeblossom'', 1193), (''potted_orange_tulip'', 430), (''potted_oxeye_daisy'', 433),
     (''potted_pale_oak_sapling'', 420), (''potted_pink_tulip'', 432), (''potted_poppy'', 425),
     (''potted_red_mushroom'', 437), (''potted_red_tulip'', 429), (''potted_spruce_sapling'', 414),
     (''potted_torchflower'', 412), (''potted_warped_fungus'', 920), (''potted_warped_roots'', 922),
     (''potted_white_tulip'', 431), (''potted_wither_rose'', 436), (''powder_snow'', 1027),
     (''powder_snow_cauldron'', 390), (''powered_rail'', 126), (''prismarine'', 527),
     (''prismarine_brick_slab'', 534), (''prismarine_brick_stairs'', 531), (''prismarine_bricks'', 528),
     (''prismarine_slab'', 533), (''prismarine_stairs'', 530), (''prismarine_wall'', 825),
     (''pumpkin'', 360), (''pumpkin_stem'', 364), (''purple_banner'', 573), (''purple_bed'', 120),
     (''purple_candle'', 955), (''purple_candle_cake'', 972), (''purple_carpet'', 548),
     (''purple_concrete'', 720), (''purple_concrete_powder'', 736), (''purple_glazed_terracotta'', 704),
     (''purple_shulker_box'', 688), (''purple_stained_glass'', 310),
     (''purple_stained_glass_pane'', 510), (''purple_terracotta'', 494), (''purple_wall_banner'', 589),
     (''purple_wool'', 150), (''purpur_block'', 658), (''purpur_pillar'', 659), (''purpur_slab'', 623),
     (''purpur_stairs'', 660), (''quartz_block'', 478), (''quartz_bricks'', 943),
     (''quartz_pillar'', 480), (''quartz_slab'', 620), (''quartz_stairs'', 481), (''rail'', 222),
     (''raw_copper_block'', 1174), (''raw_gold_block'', 1175), (''raw_iron_block'', 1173),
     (''red_banner'', 577), (''red_bed'', 124), (''red_candle'', 959), (''red_candle_cake'', 976),
     (''red_carpet'', 552), (''red_concrete'', 724), (''red_concrete_powder'', 740),
     (''red_glazed_terracotta'', 708), (''red_mushroom'', 173), (''red_mushroom_block'', 339),
     (''red_nether_brick_slab'', 821), (''red_nether_brick_stairs'', 808),
     (''red_nether_brick_wall'', 833), (''red_nether_bricks'', 673), (''red_sand'', 39),
     (''red_sandstone'', 595), (''red_sandstone_slab'', 621), (''red_sandstone_stairs'', 598),
     (''red_sandstone_wall'', 826), (''red_shulker_box'', 692), (''red_stained_glass'', 314),
     (''red_stained_glass_pane'', 514), (''red_terracotta'', 498), (''red_tulip'', 164),
     (''red_wall_banner'', 593), (''red_wool'', 154), (''redstone_block'', 475),
     (''redstone_lamp'', 395), (''redstone_ore'', 271), (''redstone_torch'', 273),
     (''redstone_wall_torch'', 274), (''redstone_wire'', 202), (''reinforced_deepslate'', 1182),
     (''repeater'', 299), (''repeating_command_block'', 668), (''resin_block'', 375),
     (''resin_brick_slab'', 378), (''resin_brick_stairs'', 377)]"

definition block_rows_7 :: item_row_list where
  "block_rows_7 = [(''resin_brick_wall'', 379), (''resin_bricks'', 376), (''resin_clump'', 368),
     (''respawn_anchor'', 918), (''rooted_dirt'', 1149), (''rose_bush'', 559), (''sand'', 37),
     (''sandstone'', 106), (''sandstone_slab'', 612), (''sandstone_stairs'', 397),
     (''sandstone_wall'', 834), (''scaffolding'', 837), (''sculk'', 1030), (''sculk_catalyst'', 1032),
     (''sculk_sensor'', 1028), (''sculk_shrieker'', 1033), (''sculk_vein'', 1031),
     (''sea_lantern'', 536), (''sea_pickle'', 788), (''seagrass'', 136), (''short_dry_grass'', 134),
     (''short_grass'', 130), (''shroomlight'', 877), (''shulker_box'', 677), (''skeleton_skull'', 453),
     (''skeleton_wall_skull'', 454), (''slime_block'', 523), (''small_amethyst_bud'', 983),
     (''small_dripleaf'', 1147), (''smithing_table'', 846), (''smoker'', 840),
     (''smooth_basalt'', 1172), (''smooth_quartz'', 626), (''smooth_quartz_slab'', 818),
     (''smooth_quartz_stairs'', 805), (''smooth_red_sandstone'', 627),
     (''smooth_red_sandstone_slab'', 812), (''smooth_red_sandstone_stairs'', 798),
     (''smooth_sandstone'', 625), (''smooth_sandstone_slab'', 817), (''smooth_sandstone_stairs'', 804),
     (''smooth_stone'', 624), (''smooth_stone_slab'', 611), (''sniffer_egg'', 746), (''snow'', 276),
     (''snow_block'', 278), (''soul_campfire'', 860), (''soul_fire'', 197), (''soul_lantern'', 850),
     (''soul_sand'', 286), (''soul_soil'', 287), (''soul_torch'', 290), (''soul_wall_torch'', 291),
     (''spawner'', 198), (''sponge'', 99), (''spore_blossom'', 1137), (''spruce_button'', 444),
     (''spruce_door'', 646), (''spruce_fence'', 637), (''spruce_fence_gate'', 628),
     (''spruce_hanging_sign'', 235), (''spruce_leaves'', 89), (''spruce_log'', 50),
     (''spruce_planks'', 14), (''spruce_pressure_plate'', 262), (''spruce_sapling'', 26),
     (''spruce_shelf'', 190), (''spruce_sign'', 211), (''spruce_slab'', 600), (''spruce_stairs'', 404),
     (''spruce_trapdoor'', 317), (''spruce_wall_hanging_sign'', 247), (''spruce_wall_sign'', 225),
     (''spruce_wood'', 72), (''sticky_piston'', 128), (''stone'', 1), (''stone_brick_slab'', 617),
     (''stone_brick_stairs'', 371), (''stone_brick_wall'', 829), (''stone_bricks'', 326),
     (''stone_button'', 275), (''stone_pressure_plate'', 259), (''stone_slab'', 610),
     (''stone_stairs'', 803), (''stonecutter'', 847), (''stripped_acacia_log'', 64),
     (''stripped_acacia_wood'', 83), (''stripped_bamboo_block'', 70), (''stripped_birch_log'', 62),
     (''stripped_birch_wood'', 81), (''stripped_cherry_log'', 65), (''stripped_cherry_wood'', 84),
     (''stripped_crimson_hyphae'', 874), (''stripped_crimson_stem'', 872),
     (''stripped_dark_oak_log'', 66), (''stripped_dark_oak_wood'', 85), (''stripped_jungle_log'', 63),
     (''stripped_jungle_wood'', 82), (''stripped_mangrove_log'', 69), (''stripped_mangrove_wood'', 87),
     (''stripped_oak_log'', 68), (''stripped_oak_wood'', 79), (''stripped_pale_oak_log'', 67),
     (''stripped_pale_oak_wood'', 86), (''stripped_spruce_log'', 61), (''stripped_spruce_wood'', 80),
     (''stripped_warped_hyphae'', 865), (''stripped_warped_stem'', 863), (''structure_block'', 905),
     (''structure_void'', 675), (''sugar_cane'', 282), (''sulfur'', 998), (''sulfur_brick_slab'', 1008),
     (''sulfur_brick_stairs'', 1009), (''sulfur_brick_wall'', 1010), (''sulfur_bricks'', 1007),
     (''sulfur_slab'', 1000), (''sulfur_spike'', 1134), (''sulfur_stairs'', 1001),
     (''sulfur_wall'', 1002), (''sunflower'', 557), (''suspicious_gravel'', 41),
     (''suspicious_sand'', 38), (''sweet_berry_bush'', 861), (''tall_dry_grass'', 135),
     (''tall_grass'', 561), (''tall_seagrass'', 137), (''target'', 910), (''terracotta'', 554),
     (''test_block'', 907), (''test_instance_block'', 908), (''tinted_glass'', 1026), (''tnt'', 177),
     (''torch'', 194), (''torchflower'', 159), (''torchflower_crop'', 662), (''trapped_chest'', 470),
     (''trial_spawner'', 1185), (''tripwire'', 402), (''tripwire_hook'', 401), (''tube_coral'', 763),
     (''tube_coral_block'', 753), (''tube_coral_fan'', 773), (''tube_coral_wall_fan'', 783),
     (''tuff'', 984), (''tuff_brick_slab'', 994), (''tuff_brick_stairs'', 995),
     (''tuff_brick_wall'', 996), (''tuff_bricks'', 993), (''tuff_slab'', 985)]"

definition block_rows_8 :: item_row_list where
  "block_rows_8 = [(''tuff_stairs'', 986), (''tuff_wall'', 987), (''turtle_egg'', 745),
     (''twisting_vines'', 880), (''twisting_vines_plant'', 881), (''vault'', 1186),
     (''verdant_froglight'', 1179), (''vine'', 366), (''void_air'', 794), (''wall_torch'', 195),
     (''warped_button'', 898), (''warped_door'', 900), (''warped_fence'', 890),
     (''warped_fence_gate'', 894), (''warped_fungus'', 867), (''warped_hanging_sign'', 243),
     (''warped_hyphae'', 864), (''warped_nylium'', 866), (''warped_planks'', 884),
     (''warped_pressure_plate'', 888), (''warped_roots'', 869), (''warped_shelf'', 191),
     (''warped_sign'', 902), (''warped_slab'', 886), (''warped_stairs'', 896), (''warped_stem'', 862),
     (''warped_trapdoor'', 892), (''warped_wall_hanging_sign'', 256), (''warped_wall_sign'', 904),
     (''warped_wart_block'', 868), (''water'', 35), (''water_cauldron'', 388),
     (''waxed_chiseled_copper'', 1056), (''waxed_copper_bars'', 346), (''waxed_copper_block'', 1038),
     (''waxed_copper_bulb'', 1104), (''waxed_copper_chain'', 355), (''waxed_copper_chest'', 1112),
     (''waxed_copper_door'', 1080), (''waxed_copper_golem_statue'', 1120),
     (''waxed_copper_grate'', 1096), (''waxed_copper_lantern'', 855), (''waxed_copper_trapdoor'', 1088),
     (''waxed_cut_copper'', 1048), (''waxed_cut_copper_slab'', 1072),
     (''waxed_cut_copper_stairs'', 1064), (''waxed_exposed_chiseled_copper'', 1057),
     (''waxed_exposed_copper'', 1039), (''waxed_exposed_copper_bars'', 347),
     (''waxed_exposed_copper_bulb'', 1105), (''waxed_exposed_copper_chain'', 356),
     (''waxed_exposed_copper_chest'', 1113), (''waxed_exposed_copper_door'', 1081),
     (''waxed_exposed_copper_golem_statue'', 1121), (''waxed_exposed_copper_grate'', 1097),
     (''waxed_exposed_copper_lantern'', 856), (''waxed_exposed_copper_trapdoor'', 1089),
     (''waxed_exposed_cut_copper'', 1049), (''waxed_exposed_cut_copper_slab'', 1073),
     (''waxed_exposed_cut_copper_stairs'', 1065), (''waxed_exposed_lightning_rod'', 1129),
     (''waxed_lightning_rod'', 1128), (''waxed_oxidized_chiseled_copper'', 1059),
     (''waxed_oxidized_copper'', 1041), (''waxed_oxidized_copper_bars'', 349),
     (''waxed_oxidized_copper_bulb'', 1107), (''waxed_oxidized_copper_chain'', 358),
     (''waxed_oxidized_copper_chest'', 1115), (''waxed_oxidized_copper_door'', 1083),
     (''waxed_oxidized_copper_golem_statue'', 1123), (''waxed_oxidized_copper_grate'', 1099),
     (''waxed_oxidized_copper_lantern'', 858), (''waxed_oxidized_copper_trapdoor'', 1091),
     (''waxed_oxidized_cut_copper'', 1051), (''waxed_oxidized_cut_copper_slab'', 1075),
     (''waxed_oxidized_cut_copper_stairs'', 1067), (''waxed_oxidized_lightning_rod'', 1131),
     (''waxed_weathered_chiseled_copper'', 1058), (''waxed_weathered_copper'', 1040),
     (''waxed_weathered_copper_bars'', 348), (''waxed_weathered_copper_bulb'', 1106),
     (''waxed_weathered_copper_chain'', 357), (''waxed_weathered_copper_chest'', 1114),
     (''waxed_weathered_copper_door'', 1082), (''waxed_weathered_copper_golem_statue'', 1122),
     (''waxed_weathered_copper_grate'', 1098), (''waxed_weathered_copper_lantern'', 857),
     (''waxed_weathered_copper_trapdoor'', 1090), (''waxed_weathered_cut_copper'', 1050),
     (''waxed_weathered_cut_copper_slab'', 1074), (''waxed_weathered_cut_copper_stairs'', 1066),
     (''waxed_weathered_lightning_rod'', 1130), (''weathered_chiseled_copper'', 1054),
     (''weathered_copper'', 1036), (''weathered_copper_bars'', 344), (''weathered_copper_bulb'', 1102),
     (''weathered_copper_chain'', 353), (''weathered_copper_chest'', 1110),
     (''weathered_copper_door'', 1078), (''weathered_copper_golem_statue'', 1118),
     (''weathered_copper_grate'', 1094), (''weathered_copper_lantern'', 853),
     (''weathered_copper_trapdoor'', 1086), (''weathered_cut_copper'', 1046),
     (''weathered_cut_copper_slab'', 1070), (''weathered_cut_copper_stairs'', 1062),
     (''weathered_lightning_rod'', 1126), (''weeping_vines'', 878), (''weeping_vines_plant'', 879),
     (''wet_sponge'', 100), (''wheat'', 207), (''white_banner'', 563), (''white_bed'', 110),
     (''white_candle'', 945), (''white_candle_cake'', 962), (''white_carpet'', 538),
     (''white_concrete'', 710), (''white_concrete_powder'', 726), (''white_glazed_terracotta'', 694),
     (''white_shulker_box'', 678), (''white_stained_glass'', 300), (''white_stained_glass_pane'', 500),
     (''white_terracotta'', 484), (''white_tulip'', 166), (''white_wall_banner'', 579),
     (''white_wool'', 140), (''wildflowers'', 1142), (''wither_rose'', 170),
     (''wither_skeleton_skull'', 455), (''wither_skeleton_wall_skull'', 456), (''yellow_banner'', 567),
     (''yellow_bed'', 114), (''yellow_candle'', 949), (''yellow_candle_cake'', 966),
     (''yellow_carpet'', 542), (''yellow_concrete'', 714), (''yellow_concrete_powder'', 730),
     (''yellow_glazed_terracotta'', 698), (''yellow_shulker_box'', 682),
     (''yellow_stained_glass'', 304), (''yellow_stained_glass_pane'', 504),
     (''yellow_terracotta'', 488), (''yellow_wall_banner'', 583), (''yellow_wool'', 144),
     (''zombie_head'', 457), (''zombie_wall_head'', 458)]"

definition item_rows_1 :: item_row_list where
  "item_rows_1 = [(''acacia_boat'', 899), (''acacia_chest_boat'', 900), (''allay_spawn_egg'', 1192),
     (''amethyst_shard'', 930), (''angler_pottery_sherd'', 1477), (''apple'', 921),
     (''archer_pottery_sherd'', 1478), (''armadillo_scute'', 917), (''armadillo_spawn_egg'', 1170),
     (''armor_stand'', 1284), (''arms_up_pottery_sherd'', 1479), (''arrow'', 923),
     (''axolotl_bucket'', 1051), (''axolotl_spawn_egg'', 1180), (''baked_potato'', 1259),
     (''bamboo_chest_raft'', 910), (''bamboo_raft'', 909), (''bat_spawn_egg'', 1171),
     (''bee_spawn_egg'', 1172), (''beef'', 1139), (''beetroot'', 1317), (''beetroot_seeds'', 1318),
     (''beetroot_soup'', 1319), (''birch_boat'', 895), (''birch_chest_boat'', 896),
     (''black_bundle'', 1081), (''black_dye'', 1110), (''black_harness'', 881),
     (''blade_pottery_sherd'', 1480), (''blaze_powder'', 1153), (''blaze_rod'', 1145),
     (''blaze_spawn_egg'', 1233), (''blue_bundle'', 1077), (''blue_dye'', 1106), (''blue_egg'', 1061),
     (''blue_harness'', 877), (''bogged_spawn_egg'', 1202),
     (''bolt_armor_trim_smithing_template'', 1476), (''bone'', 1112), (''bone_meal'', 1111),
     (''book'', 1058), (''bordure_indented_banner_pattern'', 1382), (''bow'', 922), (''bowl'', 920),
     (''bread'', 981), (''breeze_rod'', 1252), (''breeze_spawn_egg'', 1218),
     (''brewer_pottery_sherd'', 1481), (''brick'', 1054), (''brown_bundle'', 1078),
     (''brown_dye'', 1107), (''brown_egg'', 1062), (''brown_harness'', 878), (''brush'', 1457),
     (''bucket'', 1040), (''bundle'', 1065), (''burn_pottery_sherd'', 1482),
     (''camel_husk_spawn_egg'', 1203), (''camel_spawn_egg'', 1163), (''carrot'', 1257),
     (''carrot_on_a_stick'', 887), (''cat_spawn_egg'', 1167), (''cave_spider_spawn_egg'', 1216),
     (''chainmail_boots'', 993), (''chainmail_chestplate'', 991), (''chainmail_helmet'', 990),
     (''chainmail_leggings'', 992), (''charcoal'', 925), (''cherry_boat'', 901),
     (''cherry_chest_boat'', 902), (''chest_minecart'', 883), (''chicken'', 1141),
     (''chicken_spawn_egg'', 1159), (''chorus_fruit'', 1313), (''clay_ball'', 1055), (''clock'', 1083),
     (''coal'', 924), (''coast_armor_trim_smithing_template'', 1461), (''cocoa_beans'', 1094),
     (''cod'', 1086), (''cod_bucket'', 1049), (''cod_spawn_egg'', 1181),
     (''command_block_minecart'', 1293), (''compass'', 1063), (''cooked_beef'', 1140),
     (''cooked_chicken'', 1142), (''cooked_cod'', 1090), (''cooked_mutton'', 1295),
     (''cooked_porkchop'', 1012), (''cooked_rabbit'', 1280), (''cooked_salmon'', 1091),
     (''cookie'', 1131), (''copper_axe'', 947), (''copper_boots'', 989), (''copper_chestplate'', 987),
     (''copper_golem_spawn_egg'', 1196), (''copper_helmet'', 986), (''copper_hoe'', 948),
     (''copper_horse_armor'', 1285), (''copper_ingot'', 934), (''copper_leggings'', 988),
     (''copper_nautilus_armor'', 1368), (''copper_nugget'', 1336), (''copper_pickaxe'', 946),
     (''copper_shovel'', 945), (''copper_spear'', 1328), (''copper_sword'', 944),
     (''cow_spawn_egg'', 1160), (''creaking_spawn_egg'', 1219), (''creeper_banner_pattern'', 1374),
     (''creeper_spawn_egg'', 1220), (''crossbow'', 1370), (''cyan_bundle'', 1075), (''cyan_dye'', 1104),
     (''cyan_harness'', 875), (''danger_pottery_sherd'', 1483), (''dark_oak_boat'', 903),
     (''dark_oak_chest_boat'', 904), (''debug_stick'', 1338), (''diamond'', 926),
     (''diamond_axe'', 967), (''diamond_boots'', 1001), (''diamond_chestplate'', 999),
     (''diamond_helmet'', 998), (''diamond_hoe'', 968), (''diamond_horse_armor'', 1288),
     (''diamond_leggings'', 1000), (''diamond_nautilus_armor'', 1366), (''diamond_pickaxe'', 966),
     (''diamond_shovel'', 965), (''diamond_spear'', 1331), (''diamond_sword'', 964),
     (''disc_fragment_5'', 1361), (''dolphin_spawn_egg'', 1182), (''donkey_spawn_egg'', 1164),
     (''dragon_breath'', 1320), (''dried_kelp'', 1136), (''drowned_spawn_egg'', 1204),
     (''dune_armor_trim_smithing_template'', 1460), (''echo_shard'', 1456), (''egg'', 1060),
     (''elder_guardian_spawn_egg'', 1221), (''elytra'', 890), (''emerald'', 927),
     (''enchanted_book'', 1274), (''enchanted_golden_apple'', 1015), (''end_crystal'', 1312),
     (''ender_dragon_spawn_egg'', 1243), (''ender_eye'', 1157), (''ender_pearl'', 1144)]"

definition item_rows_2 :: item_row_list where
  "item_rows_2 = [(''enderman_spawn_egg'', 1244), (''endermite_spawn_egg'', 1245),
     (''evoker_spawn_egg'', 1228), (''experience_bottle'', 1247), (''explorer_pottery_sherd'', 1484),
     (''eye_armor_trim_smithing_template'', 1464), (''feather'', 977), (''fermented_spider_eye'', 1152),
     (''field_masoned_banner_pattern'', 1381), (''filled_map'', 1133), (''fire_charge'', 1248),
     (''firework_rocket'', 1272), (''firework_star'', 1273), (''fishing_rod'', 1082), (''flint'', 1010),
     (''flint_and_steel'', 919), (''flow_armor_trim_smithing_template'', 1475),
     (''flow_banner_pattern'', 1379), (''flow_pottery_sherd'', 1485), (''flower_banner_pattern'', 1373),
     (''fox_spawn_egg'', 1173), (''friend_pottery_sherd'', 1486), (''frog_spawn_egg'', 1183),
     (''furnace_minecart'', 884), (''ghast_spawn_egg'', 1234), (''ghast_tear'', 1146),
     (''glass_bottle'', 1149), (''glistering_melon_slice'', 1158), (''globe_banner_pattern'', 1377),
     (''glow_berries'', 1405), (''glow_ink_sac'', 1093), (''glow_item_frame'', 1255),
     (''glow_squid_spawn_egg'', 1184), (''glowstone_dust'', 1085), (''goat_horn'', 1383),
     (''goat_spawn_egg'', 1174), (''gold_ingot'', 936), (''gold_nugget'', 1147),
     (''golden_apple'', 1014), (''golden_axe'', 957), (''golden_boots'', 1005),
     (''golden_carrot'', 1262), (''golden_chestplate'', 1003), (''golden_helmet'', 1002),
     (''golden_hoe'', 958), (''golden_horse_armor'', 1287), (''golden_leggings'', 1004),
     (''golden_nautilus_armor'', 1365), (''golden_pickaxe'', 956), (''golden_shovel'', 955),
     (''golden_spear'', 1330), (''golden_sword'', 954), (''gray_bundle'', 1073), (''gray_dye'', 1102),
     (''gray_harness'', 873), (''green_bundle'', 1079), (''green_dye'', 1108), (''green_harness'', 879),
     (''guardian_spawn_egg'', 1222), (''gunpowder'', 978), (''guster_banner_pattern'', 1380),
     (''guster_pottery_sherd'', 1487), (''happy_ghast_spawn_egg'', 1235), (''heart_of_the_sea'', 1369),
     (''heart_pottery_sherd'', 1488), (''heartbreak_pottery_sherd'', 1489),
     (''hoglin_spawn_egg'', 1236), (''honey_bottle'', 1412), (''honeycomb'', 1409),
     (''hopper_minecart'', 886), (''horse_spawn_egg'', 1165),
     (''host_armor_trim_smithing_template'', 1474), (''howl_pottery_sherd'', 1490),
     (''husk_spawn_egg'', 1205), (''ink_sac'', 1092), (''iron_axe'', 962), (''iron_boots'', 997),
     (''iron_chestplate'', 995), (''iron_golem_spawn_egg'', 1197), (''iron_helmet'', 994),
     (''iron_hoe'', 963), (''iron_horse_armor'', 1286), (''iron_ingot'', 932), (''iron_leggings'', 996),
     (''iron_nautilus_armor'', 1364), (''iron_nugget'', 1335), (''iron_pickaxe'', 961),
     (''iron_shovel'', 960), (''iron_spear'', 1329), (''iron_sword'', 959), (''item_frame'', 1254),
     (''jungle_boat'', 897), (''jungle_chest_boat'', 898), (''knowledge_book'', 1337),
     (''lapis_lazuli'', 928), (''lava_bucket'', 1042), (''lead'', 1291), (''leather'', 1045),
     (''leather_boots'', 985), (''leather_chestplate'', 983), (''leather_helmet'', 982),
     (''leather_horse_armor'', 1290), (''leather_leggings'', 984), (''light_blue_bundle'', 1069),
     (''light_blue_dye'', 1098), (''light_blue_harness'', 869), (''light_gray_bundle'', 1074),
     (''light_gray_dye'', 1103), (''light_gray_harness'', 874), (''lime_bundle'', 1071),
     (''lime_dye'', 1100), (''lime_harness'', 871), (''lingering_potion'', 1324),
     (''llama_spawn_egg'', 1175), (''mace'', 1253), (''magenta_bundle'', 1068), (''magenta_dye'', 1097),
     (''magenta_harness'', 868), (''magma_cream'', 1154), (''magma_cube_spawn_egg'', 1237),
     (''mangrove_boat'', 907), (''mangrove_chest_boat'', 908), (''map'', 1261), (''melon_seeds'', 1138),
     (''melon_slice'', 1135), (''milk_bucket'', 1046), (''minecart'', 882),
     (''miner_pottery_sherd'', 1491), (''mojang_banner_pattern'', 1376),
     (''mooshroom_spawn_egg'', 1193), (''mourner_pottery_sherd'', 1492), (''mule_spawn_egg'', 1166),
     (''mushroom_stew'', 975), (''music_disc_11'', 1353), (''music_disc_13'', 1339),
     (''music_disc_5'', 1357), (''music_disc_blocks'', 1341), (''music_disc_bounce'', 1342),
     (''music_disc_cat'', 1340), (''music_disc_chirp'', 1343), (''music_disc_creator'', 1344),
     (''music_disc_creator_music_box'', 1345), (''music_disc_far'', 1346),
     (''music_disc_lava_chicken'', 1347), (''music_disc_mall'', 1348), (''music_disc_mellohi'', 1349),
     (''music_disc_otherside'', 1355), (''music_disc_pigstep'', 1358), (''music_disc_precipice'', 1359),
     (''music_disc_relic'', 1356)]"

definition item_rows_3 :: item_row_list where
  "item_rows_3 = [(''music_disc_stal'', 1350), (''music_disc_strad'', 1351),
     (''music_disc_tears'', 1360), (''music_disc_wait'', 1354), (''music_disc_ward'', 1352),
     (''mutton'', 1294), (''name_tag'', 1292), (''nautilus_shell'', 1363),
     (''nautilus_spawn_egg'', 1185), (''nether_brick'', 1275), (''nether_star'', 1270),
     (''netherite_axe'', 972), (''netherite_boots'', 1009), (''netherite_chestplate'', 1007),
     (''netherite_helmet'', 1006), (''netherite_hoe'', 973), (''netherite_horse_armor'', 1289),
     (''netherite_ingot'', 937), (''netherite_leggings'', 1008), (''netherite_nautilus_armor'', 1367),
     (''netherite_pickaxe'', 971), (''netherite_scrap'', 938), (''netherite_shovel'', 970),
     (''netherite_spear'', 1332), (''netherite_sword'', 969),
     (''netherite_upgrade_smithing_template'', 1458), (''oak_boat'', 891), (''oak_chest_boat'', 892),
     (''ocelot_spawn_egg'', 1176), (''ominous_bottle'', 1536), (''ominous_trial_key'', 1534),
     (''orange_bundle'', 1067), (''orange_dye'', 1096), (''orange_harness'', 867), (''painting'', 1013),
     (''pale_oak_boat'', 905), (''pale_oak_chest_boat'', 906), (''panda_spawn_egg'', 1177),
     (''paper'', 1057), (''parched_spawn_egg'', 1206), (''parrot_spawn_egg'', 1168),
     (''phantom_membrane'', 889), (''phantom_spawn_egg'', 1223), (''pig_spawn_egg'', 1161),
     (''piglin_banner_pattern'', 1378), (''piglin_brute_spawn_egg'', 1239),
     (''piglin_spawn_egg'', 1238), (''pillager_spawn_egg'', 1229), (''pink_bundle'', 1072),
     (''pink_dye'', 1101), (''pink_harness'', 872), (''pitcher_pod'', 1316),
     (''plenty_pottery_sherd'', 1493), (''poisonous_potato'', 1260), (''polar_bear_spawn_egg'', 1178),
     (''popped_chorus_fruit'', 1314), (''porkchop'', 1011), (''potato'', 1258), (''potion'', 1150),
     (''powder_snow_bucket'', 1043), (''prismarine_crystals'', 1278), (''prismarine_shard'', 1277),
     (''prize_pottery_sherd'', 1494), (''pufferfish'', 1089), (''pufferfish_bucket'', 1047),
     (''pufferfish_spawn_egg'', 1186), (''pumpkin_pie'', 1271), (''pumpkin_seeds'', 1137),
     (''purple_bundle'', 1076), (''purple_dye'', 1105), (''purple_harness'', 876), (''quartz'', 929),
     (''rabbit'', 1279), (''rabbit_foot'', 1282), (''rabbit_hide'', 1283), (''rabbit_spawn_egg'', 1179),
     (''rabbit_stew'', 1281), (''raiser_armor_trim_smithing_template'', 1473),
     (''ravager_spawn_egg'', 1230), (''raw_copper'', 933), (''raw_gold'', 935), (''raw_iron'', 931),
     (''recovery_compass'', 1064), (''red_bundle'', 1080), (''red_dye'', 1109), (''red_harness'', 880),
     (''redstone'', 745), (''resin_brick'', 1276), (''rib_armor_trim_smithing_template'', 1468),
     (''rotten_flesh'', 1143), (''saddle'', 865), (''salmon'', 1087), (''salmon_bucket'', 1048),
     (''salmon_spawn_egg'', 1187), (''scrape_pottery_sherd'', 1495),
     (''sentry_armor_trim_smithing_template'', 1459), (''shaper_armor_trim_smithing_template'', 1471),
     (''sheaf_pottery_sherd'', 1496), (''shears'', 1134), (''sheep_spawn_egg'', 1162),
     (''shelter_pottery_sherd'', 1497), (''shield'', 1325), (''shulker_shell'', 1334),
     (''shulker_spawn_egg'', 1246), (''silence_armor_trim_smithing_template'', 1472),
     (''silverfish_spawn_egg'', 1224), (''skeleton_horse_spawn_egg'', 1208),
     (''skeleton_spawn_egg'', 1207), (''skull_banner_pattern'', 1375), (''skull_pottery_sherd'', 1498),
     (''slime_ball'', 1059), (''slime_spawn_egg'', 1225), (''sniffer_spawn_egg'', 1194),
     (''snort_pottery_sherd'', 1499), (''snout_armor_trim_smithing_template'', 1467),
     (''snow_golem_spawn_egg'', 1198), (''snowball'', 1044), (''spectral_arrow'', 1322),
     (''spider_eye'', 1151), (''spider_spawn_egg'', 1217),
     (''spire_armor_trim_smithing_template'', 1469), (''splash_potion'', 1321), (''spruce_boat'', 893),
     (''spruce_chest_boat'', 894), (''spyglass'', 1084), (''squid_spawn_egg'', 1188), (''stick'', 974),
     (''stone_axe'', 952), (''stone_hoe'', 953), (''stone_pickaxe'', 951), (''stone_shovel'', 950),
     (''stone_spear'', 1327), (''stone_sword'', 949), (''stray_spawn_egg'', 1209),
     (''strider_spawn_egg'', 1240), (''string'', 976), (''sugar'', 1113),
     (''sulfur_cube_bucket'', 1052), (''sulfur_cube_spawn_egg'', 1195), (''suspicious_stew'', 1371),
     (''sweet_berries'', 1404), (''tadpole_bucket'', 1053), (''tadpole_spawn_egg'', 1189),
     (''tide_armor_trim_smithing_template'', 1466), (''tipped_arrow'', 1323), (''tnt_minecart'', 885),
     (''torchflower_seeds'', 1315), (''totem_of_undying'', 1333), (''trader_llama_spawn_egg'', 1199),
     (''trial_key'', 1533)]"

definition item_rows_4 :: item_row_list where
  "item_rows_4 = [(''trident'', 1362), (''tropical_fish'', 1088), (''tropical_fish_bucket'', 1050),
     (''tropical_fish_spawn_egg'', 1190), (''turtle_helmet'', 915), (''turtle_scute'', 916),
     (''turtle_spawn_egg'', 1191), (''vex_armor_trim_smithing_template'', 1465),
     (''vex_spawn_egg'', 1232), (''villager_spawn_egg'', 1200), (''vindicator_spawn_egg'', 1231),
     (''wandering_trader_spawn_egg'', 1201), (''ward_armor_trim_smithing_template'', 1463),
     (''warden_spawn_egg'', 1226), (''warped_fungus_on_a_stick'', 888), (''water_bucket'', 1041),
     (''wayfinder_armor_trim_smithing_template'', 1470), (''wheat_seeds'', 979),
     (''white_bundle'', 1066), (''white_dye'', 1095), (''white_harness'', 866),
     (''wild_armor_trim_smithing_template'', 1462), (''wind_charge'', 1249),
     (''witch_spawn_egg'', 1227), (''wither_skeleton_spawn_egg'', 1211), (''wither_spawn_egg'', 1210),
     (''wolf_armor'', 918), (''wolf_spawn_egg'', 1169), (''wooden_axe'', 942), (''wooden_hoe'', 943),
     (''wooden_pickaxe'', 941), (''wooden_shovel'', 940), (''wooden_spear'', 1326),
     (''wooden_sword'', 939), (''writable_book'', 1250), (''written_book'', 1251),
     (''yellow_bundle'', 1070), (''yellow_dye'', 1099), (''yellow_harness'', 870),
     (''zoglin_spawn_egg'', 1241), (''zombie_horse_spawn_egg'', 1213),
     (''zombie_nautilus_spawn_egg'', 1214), (''zombie_spawn_egg'', 1212),
     (''zombie_villager_spawn_egg'', 1215), (''zombified_piglin_spawn_egg'', 1242)]"

definition alias_rows :: item_row_list where
  "alias_rows = [(''cinnabar_block'', 1012), (''music_disc_bounce'', 1342), (''sulfur_block'', 998)]"

definition registry_rows :: item_row_list where
  "registry_rows = block_rows_1 @ block_rows_2 @ block_rows_3 @ block_rows_4 @ block_rows_5 @ block_rows_6 @ block_rows_7 @ block_rows_8 @ item_rows_1 @ item_rows_2 @ item_rows_3 @ item_rows_4 @ alias_rows"

definition item_registry :: "string \<Rightarrow> nat option" where
  "item_registry = map_of (rev registry_rows)"

section \<open>Looking names up\<close>

definition lowercase :: "string \<Rightarrow> string" where
  "lowercase = map (\<lambda>c. let n = of_char c in if 65 \<le> n \<and> n \<le> (90::nat) then char_of (n + 32) else c)"

definition strip_namespace :: "string \<Rightarrow> string" where
  "strip_namespace s = (if take 10 s = ''minecraft:'' then drop 10 s else s)"

definition resolve_item :: "string \<Rightarrow> BlockState option" where
  "resolve_item name = map_option (\<lambda>i. block (of_nat i)) (item_registry (strip_namespace (lowercase name)))"

definition resolve_item_id :: "string \<Rightarrow> u32" where
  "resolve_item_id name =
     (case item_registry (strip_namespace (lowercase name)) of Some i \<Rightarrow> of_nat i | None \<Rightarrow> 0)"

definition item_count :: nat where
  "item_count = length (remdups (map fst registry_rows))"

definition is_known_id :: "u32 \<Rightarrow> bool" where
  "is_known_id i = (\<exists>r \<in> set registry_rows. item_registry (fst r) = Some (unat i))"

definition known_item_ids :: "u32 set" where
  "known_item_ids = (\<lambda>r. of_nat (the (item_registry (fst r)))) ` set registry_rows"

section \<open>Rows of a name\<close>

definition none_of :: "string list \<Rightarrow> item_row_list \<Rightarrow> bool" where
  "none_of names rows = list_all (\<lambda>r. list_all (\<lambda>n. n \<noteq> fst r) names) rows"

lemma none_of_lookup: "none_of names rows \<Longrightarrow> n \<in> set names \<Longrightarrow> map_of (rev rows) n = None"
  by (fastforce simp: none_of_def list_all_iff map_of_eq_None_iff)

lemma absent_block_rows_1: "none_of [''diamond'', ''stick'', ''shears'', ''sulfur_spike''] block_rows_1"
  by (simp add: none_of_def block_rows_1_def)

lemma absent_block_rows_2: "none_of [''diamond'', ''blackstone_wall'', ''stick'', ''brown_candle_cake'', ''shears'', ''sulfur_spike''] block_rows_2"
  by (simp add: none_of_def block_rows_2_def)

lemma absent_block_rows_3: "none_of [''diamond'', ''blackstone_wall'', ''stick'', ''brown_candle_cake'', ''shears'', ''sulfur_spike''] block_rows_3"
  by (simp add: none_of_def block_rows_3_def)

lemma absent_block_rows_4: "none_of [''diamond'', ''blackstone_wall'', ''stick'', ''brown_candle_cake'', ''shears'', ''sulfur_spike''] block_rows_4"
  by (simp add: none_of_def block_rows_4_def)

lemma absent_block_rows_5: "none_of [''diamond'', ''blackstone_wall'', ''stick'', ''brown_candle_cake'', ''shears'', ''sulfur_spike''] block_rows_5"
  by (simp add: none_of_def block_rows_5_def)

lemma absent_block_rows_6: "none_of [''diamond'', ''blackstone_wall'', ''stick'', ''brown_candle_cake'', ''shears'', ''sulfur_spike''] block_rows_6"
  by (simp add: none_of_def block_rows_6_def)

lemma absent_block_rows_7: "none_of [''diamond'', ''blackstone_wall'', ''stick'', ''brown_candle_cake'', ''shears''] block_rows_7"
  by (simp add: none_of_def block_rows_7_def)

lemma absent_block_rows_8: "none_of [''diamond'', ''blackstone_wall'', ''stick'', ''brown_candle_cake'', ''shears'', ''sulfur_spike''] block_rows_8"
  by (simp add: none_of_def block_rows_8_def)

lemma absent_item_rows_1: "none_of [''blackstone_wall'', ''stick'', ''brown_candle_cake'', ''shears'', ''sulfur_spike''] item_rows_1"
  by (simp add: none_of_def item_rows_1_def)

lemma absent_item_rows_2: "none_of [''diamond'', ''blackstone_wall'', ''stick'', ''brown_candle_cake'', ''shears'', ''sulfur_spike''] item_rows_2"
  by (simp add: none_of_def item_rows_2_def)

lemma absent_item_rows_3: "none_of [''diamond'', ''blackstone_wall'', ''brown_candle_cake'', ''sulfur_spike''] item_rows_3"
  by (simp add: none_of_def item_rows_3_def)

lemma absent_item_rows_4: "none_of [''diamond'', ''blackstone_wall'', ''stick'', ''brown_candle_cake'', ''shears'', ''sulfur_spike''] item_rows_4"
  by (simp add: none_of_def item_rows_4_def)

lemma absent_alias_rows: "none_of [''diamond'', ''blackstone_wall'', ''stick'', ''brown_candle_cake'', ''shears'', ''sulfur_spike''] alias_rows"
  by (simp add: none_of_def alias_rows_def)


lemma registry_lookup:
  "item_registry n = (case map_of (rev alias_rows) n of Some i \<Rightarrow> Some i
     | None \<Rightarrow> (case map_of (rev item_rows_4) n of Some i \<Rightarrow> Some i
     | None \<Rightarrow> (case map_of (rev item_rows_3) n of Some i \<Rightarrow> Some i
     | None \<Rightarrow> (case map_of (rev item_rows_2) n of Some i \<Rightarrow> Some i
     | None \<Rightarrow> (case map_of (rev item_rows_1) n of Some i \<Rightarrow> Some i
     | None \<Rightarrow> (case map_of (rev block_rows_8) n of Some i \<Rightarrow> Some i
     | None \<Rightarrow> (case map_of (rev block_rows_7) n of Some i \<Rightarrow> Some i
     | None \<Rightarrow> (case map_of (rev block_rows_6) n of Some i \<Rightarrow> Some i
     | None \<Rightarrow> (case map_of (rev block_rows_5) n of Some i \<Rightarrow> Some i
     | None \<Rightarrow> (case map_of (rev block_rows_4) n of Some i \<Rightarrow> Some i
     | None \<Rightarrow> (case map_of (rev block_rows_3) n of Some i \<Rightarrow> Some i
     | None \<Rightarrow> (case map_of (rev block_rows_2) n of Some i \<Rightarrow> Some i
     | None \<Rightarrow> (map_of (rev block_rows_1) n)))))))))))))"
  by (simp add: item_registry_def registry_rows_def map_add_def split: option.splits)

lemma row_diamond: "item_registry ''diamond'' = Some 926"
proof -
  have "map_of (rev item_rows_1) ''diamond'' = Some 926"
    by (simp add: item_rows_1_def)
  then show ?thesis
    by (simp add: registry_lookup none_of_lookup [OF absent_item_rows_2] none_of_lookup [OF absent_item_rows_3] none_of_lookup [OF absent_item_rows_4] none_of_lookup [OF absent_alias_rows])
qed

lemma row_blackstone_wall: "item_registry ''blackstone_wall'' = Some 926"
proof -
  have "map_of (rev block_rows_1) ''blackstone_wall'' = Some 926"
    by (simp add: block_rows_1_def)
  then show ?thesis
    by (simp add: registry_lookup none_of_lookup [OF absent_block_rows_2] none_of_lookup [OF absent_block_rows_3] none_of_lookup [OF absent_block_rows_4] none_of_lookup [OF absent_block_rows_5] none_of_lookup [OF absent_block_rows_6] none_of_lookup [OF absent_block_rows_7] none_of_lookup [OF absent_block_rows_8] none_of_lookup [OF absent_item_rows_1] none_of_lookup [OF absent_item_rows_2] none_of_lookup [OF absent_item_rows_3] none_of_lookup [OF absent_item_rows_4] none_of_lookup [OF absent_alias_rows])
qed

lemma row_stick: "item_registry ''stick'' = Some 974"
proof -
  have "map_of (rev item_rows_3) ''stick'' = Some 974"
    by (simp add: item_rows_3_def)
  then show ?thesis
    by (simp add: registry_lookup none_of_lookup [OF absent_item_rows_4] none_of_lookup [OF absent_alias_rows])
qed

lemma row_brown_candle_cake: "item_registry ''brown_candle_cake'' = Some 974"
proof -
  have "map_of (rev block_rows_1) ''brown_candle_cake'' = Some 974"
    by (simp add: block_rows_1_def)
  then show ?thesis
    by (simp add: registry_lookup none_of_lookup [OF absent_block_rows_2] none_of_lookup [OF absent_block_rows_3] none_of_lookup [OF absent_block_rows_4] none_of_lookup [OF absent_block_rows_5] none_of_lookup [OF absent_block_rows_6] none_of_lookup [OF absent_block_rows_7] none_of_lookup [OF absent_block_rows_8] none_of_lookup [OF absent_item_rows_1] none_of_lookup [OF absent_item_rows_2] none_of_lookup [OF absent_item_rows_3] none_of_lookup [OF absent_item_rows_4] none_of_lookup [OF absent_alias_rows])
qed

lemma row_shears: "item_registry ''shears'' = Some 1134"
proof -
  have "map_of (rev item_rows_3) ''shears'' = Some 1134"
    by (simp add: item_rows_3_def)
  then show ?thesis
    by (simp add: registry_lookup none_of_lookup [OF absent_item_rows_4] none_of_lookup [OF absent_alias_rows])
qed

lemma row_sulfur_spike: "item_registry ''sulfur_spike'' = Some 1134"
proof -
  have "map_of (rev block_rows_7) ''sulfur_spike'' = Some 1134"
    by (simp add: block_rows_7_def)
  then show ?thesis
    by (simp add: registry_lookup none_of_lookup [OF absent_block_rows_8] none_of_lookup [OF absent_item_rows_1] none_of_lookup [OF absent_item_rows_2] none_of_lookup [OF absent_item_rows_3] none_of_lookup [OF absent_item_rows_4] none_of_lookup [OF absent_alias_rows])
qed


section \<open>Two things with one number\<close>

text \<open>A name of an item and the name of an unrelated block resolve to the same number, so in an
inventory (which keeps the number only) a diamond is a wall of blackstone, a stick is a brown
candle cake, and a pair of shears is a spike of sulfur.\<close>

theorem item_numbers_collide:
  "resolve_item_id ''minecraft:diamond'' = 926 \<and> resolve_item_id ''blackstone_wall'' = 926 \<and>
   resolve_item_id ''Stick'' = 974 \<and> resolve_item_id ''brown_candle_cake'' = 974 \<and>
   resolve_item_id ''shears'' = 1134 \<and> resolve_item_id ''sulfur_spike'' = 1134"
proof -
  have names: "strip_namespace (lowercase ''minecraft:diamond'') = ''diamond''"
      "strip_namespace (lowercase ''blackstone_wall'') = ''blackstone_wall''"
      "strip_namespace (lowercase ''Stick'') = ''stick''"
      "strip_namespace (lowercase ''brown_candle_cake'') = ''brown_candle_cake''"
      "strip_namespace (lowercase ''shears'') = ''shears''"
      "strip_namespace (lowercase ''sulfur_spike'') = ''sulfur_spike''"
    by code_simp+
  show ?thesis
    unfolding resolve_item_id_def names row_diamond row_blackstone_wall row_stick row_brown_candle_cake row_shears row_sulfur_spike by simp
qed

end
