(* ===== verification/Packed.thy ===== *)
theory Packed
  imports Varint
begin

text \<open>
  The packed arrays of \<open>mc-world/src/paletted.rs\<close>: entries of \<open>bits\<close> bits each, laid out one
  after the other over a vector of \<open>u64\<close>, an entry straddling two words where it must. Reading
  and writing are modelled with the code's own word arithmetic; a word index out of range is a
  panic. The array is then shown to be a cell store by describing both operations bit by bit.
\<close>

text \<open>Shifts of a \<open>u64\<close> in the release profile: the amount is taken modulo 64.\<close>

definition shl64 :: "u64 \<Rightarrow> nat \<Rightarrow> u64" where
  "shl64 x n = push_bit (n mod 64) x"

definition shr64 :: "u64 \<Rightarrow> nat \<Rightarrow> u64" where
  "shr64 x n = drop_bit (n mod 64) x"

definition packed_words :: "nat \<Rightarrow> u8 \<Rightarrow> nat" where
  "packed_words count bits =
     (if bits = 0 then 0 else (count * unat bits + 63) div 64)"

definition new_packed :: "nat \<Rightarrow> u8 \<Rightarrow> u64 list" where
  "new_packed count bits = replicate (packed_words count bits) 0"

definition read_packed :: "u64 list \<Rightarrow> nat \<Rightarrow> u8 \<Rightarrow> u64 option" where
  "read_packed data index bits =
     (if bits = 0 then Some 0
      else
        let bits_u = unat bits;
            bit_index = index * bits_u;
            word_index = bit_index div 64;
            bit_offset = bit_index mod 64
        in do {
          w \<leftarrow> nth_opt data word_index;
          let value = shr64 w bit_offset;
          if bit_offset + bits_u > 64 then do {
            let next_bits = bit_offset + bits_u - 64;
            w' \<leftarrow> nth_opt data (word_index + 1);
            Some (value OR shl64 (w' AND (shl64 1 next_bits - 1)) (bits_u - next_bits))
          } else Some (value AND (shl64 1 bits_u - 1))
        })"

definition write_packed :: "u8 \<Rightarrow> u64 list \<Rightarrow> nat \<Rightarrow> u64 \<Rightarrow> u64 list option" where
  "write_packed bits data index value =
     (if bits = 0 then Some data
      else
        let bits_u = unat bits;
            mask = shl64 1 bits_u - 1;
            value = value AND mask;
            bit_index = index * bits_u;
            word_index = bit_index div 64;
            bit_offset = bit_index mod 64
        in do {
          w \<leftarrow> nth_opt data word_index;
          data \<leftarrow> upd_opt data word_index ((w AND NOT (shl64 mask bit_offset)) OR shl64 value bit_offset);
          if bit_offset + bits_u > 64 then do {
            let next_bits = bit_offset + bits_u - 64;
            let next_mask = shl64 1 next_bits - 1;
            w' \<leftarrow> nth_opt data (word_index + 1);
            upd_opt data (word_index + 1) ((w' AND NOT next_mask) OR shr64 value (bits_u - next_bits))
          } else Some data
        })"

section \<open>Bit by bit\<close>

definition bit_at :: "u64 list \<Rightarrow> nat \<Rightarrow> bool" where
  "bit_at data k = bit (data ! (k div 64)) (k mod 64)"

lemma mask64: "n < 64 \<Longrightarrow> shl64 1 n - 1 = mask n"
  by (simp add: shl64_def mask_eq_exp_minus_1)

lemma bit_mask64: "n < 64 \<Longrightarrow> bit (shl64 1 n - 1) i \<longleftrightarrow> i < n"
  by (auto simp: mask64 bit_mask_iff)

lemma bit_shl64: "n < 64 \<Longrightarrow> bit (shl64 x n) i \<longleftrightarrow> n \<le> i \<and> i < 64 \<and> bit x (i - n)"
  by (auto simp: shl64_def bit_push_bit_iff)

lemma bit_shr64: "n < 64 \<Longrightarrow> bit (shr64 x n) i \<longleftrightarrow> bit x (n + i)"
  by (simp add: shr64_def bit_drop_bit_eq)

text \<open>Position \<open>i * b + j\<close> in terms of the word the entry starts in.\<close>

lemma bit_at_lo: "k < 64 \<Longrightarrow> bit_at data (64 * w + k) = bit (data ! w) k"
  by (simp add: bit_at_def)

lemma bit_at_hi:
  assumes "64 \<le> k" and "k < 128"
  shows "bit_at data (64 * w + k) = bit (data ! Suc w) (k - 64)"
proof -
  have "64 * w + k = 64 * Suc w + (k - 64)"
    using assms by simp
  then show ?thesis
    using assms by (simp only: bit_at_lo [of "k - 64" data "Suc w"])
qed

lemma read_packed_bits:
  assumes b: "0 < unat bits" "unat bits < 64"
    and room: "Suc i * unat bits \<le> 64 * length data"
  shows "\<exists>v. read_packed data i bits = Some v \<and>
    (\<forall>j. bit v j \<longleftrightarrow> j < unat bits \<and> bit_at data (i * unat bits + j))"
proof -
  let ?b = "unat bits"
  define w where "w = i * ?b div 64"
  define off where "off = i * ?b mod 64"
  have split: "i * ?b = 64 * w + off"
    by (simp add: w_def off_def)
  have off: "off < 64"
    by (simp add: off_def)
  have nz: "bits \<noteq> 0"
    using b by auto
  have end_le: "64 * w + off + ?b \<le> 64 * length data"
    using room split by simp
  have w: "w < length data"
    using end_le b off by linarith
  have at: "bit_at data (i * ?b + j) =
      (if off + j < 64 then bit (data ! w) (off + j) else bit (data ! (w + 1)) (off + j - 64))"
    if "j < ?b" for j
    using that off b bit_at_lo [of "off + j" data w] bit_at_hi [of "off + j" data w]
    by (auto simp: split add.assoc)
  show ?thesis
  proof (cases "off + ?b > 64")
    case False
    have "read_packed data i bits = Some (shr64 (data ! w) off AND (shl64 1 ?b - 1))"
      using nz w False by (simp add: read_packed_def w_def [symmetric] off_def [symmetric] nth_opt_def Let_def)
    then show ?thesis
      using False b at off by (auto simp: bit_and_iff bit_mask64 bit_shr64)
  next
    case True
    then have w1: "w + 1 < length data"
      using end_le b by linarith
    let ?n = "off + ?b - 64"
    have n: "?n < 64" "?b - ?n = 64 - off" "64 - off < 64"
      using True b off by auto
    have "read_packed data i bits =
        Some (shr64 (data ! w) off OR shl64 (data ! (w + 1) AND (shl64 1 ?n - 1)) (64 - off))"
      using nz w w1 True n by (simp add: read_packed_def w_def [symmetric] off_def [symmetric] nth_opt_def Let_def)
    moreover have "bit (shr64 (data ! w) off OR shl64 (data ! (w + 1) AND (shl64 1 ?n - 1)) (64 - off)) j \<longleftrightarrow>
        j < ?b \<and> bit_at data (i * ?b + j)" for j
    proof (cases "off + j < 64")
      case inside: True
      then show ?thesis
        using True n off by (auto simp: bit_or_iff bit_and_iff bit_mask64 bit_shr64 bit_shl64 at)
    next
      case False
      then have "bit (shr64 (data ! w) off) j \<longleftrightarrow> False"
        using off by (auto simp: bit_shr64 dest: bit_imp_le_length)
      moreover have "j - (64 - off) = off + j - 64" and "j - (64 - off) < ?n \<longleftrightarrow> j < ?b"
        using False True off by auto
      ultimately show ?thesis
        using False True n off b by (auto simp: bit_or_iff bit_and_iff bit_mask64 bit_shl64 at)
    qed
    ultimately show ?thesis by blast
  qed
qed


lemma write_packed_bits:
  assumes b: "0 < unat bits" "unat bits < 64"
    and room: "Suc i * unat bits \<le> 64 * length data"
  shows "\<exists>data'. write_packed bits data i v = Some data' \<and> length data' = length data \<and>
    (\<forall>k < 64 * length data. bit_at data' k \<longleftrightarrow>
      (if i * unat bits \<le> k \<and> k < Suc i * unat bits then bit v (k - i * unat bits) else bit_at data k))"
proof -
  let ?b = "unat bits"
  define w where "w = i * ?b div 64"
  define off where "off = i * ?b mod 64"
  have split: "i * ?b = 64 * w + off"
    by (simp add: w_def off_def)
  have off: "off < 64"
    by (simp add: off_def)
  have nz: "bits \<noteq> 0"
    using b by auto
  have end_le: "64 * w + off + ?b \<le> 64 * length data"
    using room split by simp
  have w: "w < length data"
    using end_le b off by linarith
  define val where "val = v AND (shl64 1 ?b - 1)"
  have val: "bit val j \<longleftrightarrow> j < ?b \<and> bit v j" for j
    using b by (auto simp: val_def bit_and_iff bit_mask64)
  define lo where "lo = (data ! w AND NOT (shl64 (shl64 1 ?b - 1) off)) OR shl64 val off"
  have lo: "bit lo j \<longleftrightarrow> (if off \<le> j \<and> j < off + ?b then bit v (j - off) else bit (data ! w) j)"
    if "j < 64" for j
    using that b off by (auto simp: lo_def bit_or_iff bit_and_iff bit_not_iff bit_shl64 bit_mask64 val)
  have pos: "k = 64 * (k div 64) + k mod 64" for k :: nat
    by simp
  show ?thesis
  proof (cases "off + ?b > 64")
    case False
    have res: "write_packed bits data i v = Some (data[w := lo])"
      using nz w False
      by (simp add: write_packed_def w_def [symmetric] off_def [symmetric] val_def [symmetric]
          lo_def nth_opt_def upd_opt_def Let_def)
    have "bit_at (data[w := lo]) k \<longleftrightarrow>
        (if i * ?b \<le> k \<and> k < Suc i * ?b then bit v (k - i * ?b) else bit_at data k)"
      if k: "k < 64 * length data" for k
    proof (cases "k div 64 = w")
      case True
      then have "k = 64 * w + k mod 64"
        by (metis pos)
      then obtain j where j: "k = 64 * w + j" "j < 64"
        by (metis mod_less_divisor zero_less_numeral)
      show ?thesis
        using w False lo [of j] j split by (auto simp: bit_at_lo)
    next
      case other: False
      have "\<not> (i * ?b \<le> k \<and> k < Suc i * ?b)"
      proof
        assume "i * ?b \<le> k \<and> k < Suc i * ?b"
        then have "64 * w \<le> k" and "k < 64 * w + 64"
          using split False by auto
        then have "k div 64 = w"
          by (intro div_nat_eqI) auto
        with other show False by simp
      qed
      then show ?thesis
        using other by (auto simp: bit_at_def)
    qed
    then show ?thesis
      using res by auto
  next
    case True
    then have w1: "Suc w < length data"
      using end_le by linarith
    let ?n = "off + ?b - 64"
    have n: "?n < 64" "?b - ?n = 64 - off" "64 - off < 64"
      using True b off by auto
    define hi where "hi = (data ! Suc w AND NOT (shl64 1 ?n - 1)) OR shr64 val (64 - off)"
    have hi: "bit hi j \<longleftrightarrow> (if j < ?n then bit v (64 - off + j) else bit (data ! Suc w) j)"
      if "j < 64" for j
      using that b off n
      by (auto simp: hi_def bit_or_iff bit_and_iff bit_not_iff bit_shr64 bit_mask64 val)
    have res: "write_packed bits data i v = Some (data[w := lo, Suc w := hi])"
      using nz w w1 True n
      by (simp add: write_packed_def w_def [symmetric] off_def [symmetric] val_def [symmetric]
          lo_def hi_def nth_opt_def upd_opt_def Let_def)
    have "bit_at (data[w := lo, Suc w := hi]) k \<longleftrightarrow>
        (if i * ?b \<le> k \<and> k < Suc i * ?b then bit v (k - i * ?b) else bit_at data k)"
      if k: "k < 64 * length data" for k
    proof -
      obtain u j where j: "k = 64 * u + j" "j < 64"
        by (metis mod_less_divisor pos zero_less_numeral)
      consider "u = w" | "u = Suc w" | "u \<noteq> w" "u \<noteq> Suc w" by blast
      then show ?thesis
      proof cases
        case 1
        then show ?thesis
          using w w1 True lo [of j] j split off by (auto simp: bit_at_lo)
      next
        case 2
        then have pos: "k - i * ?b = 64 - off + j" "i * ?b \<le> k" "k < Suc i * ?b \<longleftrightarrow> j < ?n"
          using j split off True by auto
        have old: "bit_at data k = bit (data ! Suc w) j"
          using j(2) unfolding j(1) 2 by (rule bit_at_lo)
        have new: "bit_at (data[w := lo, Suc w := hi]) k = bit hi j"
          using j(2) w1 unfolding j(1) 2 by (subst bit_at_lo) simp_all
        show ?thesis
          using hi [OF j(2)] unfolding pos old new by (simp only: pos simp_thms)
      next
        case 3
        then have "\<not> (i * ?b \<le> k \<and> k < Suc i * ?b)"
          using j split off b by (auto simp: not_le not_less)
        with 3 show ?thesis
          using j by (auto simp: bit_at_lo)
      qed
    qed
    then show ?thesis
      using res by auto
  qed
qed


section \<open>A packed array is a cell store\<close>

text \<open>The width and the length the code keeps, for \<open>n\<close> entries.\<close>

definition packed_ok :: "u8 \<Rightarrow> nat \<Rightarrow> u64 list \<Rightarrow> bool" where
  "packed_ok bits n data \<longleftrightarrow> 0 < unat bits \<and> unat bits < 64 \<and> length data = packed_words n bits"

definition fits :: "u8 \<Rightarrow> u64 \<Rightarrow> bool" where
  "fits bits v \<longleftrightarrow> (\<forall>j. bit v j \<longrightarrow> j < unat bits)"

lemma fits_iff: "unat bits < 64 \<Longrightarrow> fits bits v \<longleftrightarrow> unat v < 2 ^ unat bits"
proof -
  assume b: "unat bits < 64"
  have "fits bits v \<longleftrightarrow> take_bit (unat bits) v = v"
    by (simp add: fits_def bit_eq_iff bit_take_bit_iff) (use bit_imp_le_length [of v] in fastforce)
  also have "\<dots> \<longleftrightarrow> take_bit (unat bits) (unat v) = unat v"
    by (simp only: word_unat_eq_iff unsigned_take_bit_eq)
  also have "\<dots> \<longleftrightarrow> unat v < 2 ^ unat bits"
    by (simp add: take_bit_nat_eq_self_iff)
  finally show ?thesis .
qed

lemma packed_room:
  assumes "packed_ok bits n data" and "i < n"
  shows "Suc i * unat bits \<le> 64 * length data"
proof -
  have "Suc i * unat bits \<le> n * unat bits"
    using assms(2) by (intro mult_le_mono1) simp
  also have "\<dots> \<le> 64 * ((n * unat bits + 63) div 64)"
    by linarith
  finally show ?thesis
    using assms(1) by (auto simp: packed_ok_def packed_words_def split: if_splits)
qed

lemma read_packed_val:
  assumes "packed_ok bits n data" and "i < n"
  obtains v where "read_packed data i bits = Some v"
    and "\<And>j. bit v j \<longleftrightarrow> j < unat bits \<and> bit_at data (i * unat bits + j)"
  using read_packed_bits [of bits i data] packed_room [OF assms] assms(1)
  by (auto simp: packed_ok_def)

lemma entries_disjoint:
  assumes "j \<noteq> i" and "k < (b :: nat)"
  shows "\<not> (i * b \<le> j * b + k \<and> j * b + k < Suc i * b)"
proof
  assume h: "i * b \<le> j * b + k \<and> j * b + k < Suc i * b"
  then have "(j * b + k) div b = i"
    by (intro div_nat_eqI) (auto simp: mult.commute)
  moreover have "(j * b + k) div b = j"
    using assms(2) by simp
  ultimately show False
    using assms(1) by simp
qed

lemma write_packed_reads:
  assumes ok: "packed_ok bits n data" and i: "i < n" and v: "fits bits v"
    and wr: "write_packed bits data i v = Some data'"
  shows "packed_ok bits n data'" and "read_packed data' i bits = Some v"
    and "j < n \<Longrightarrow> j \<noteq> i \<Longrightarrow> read_packed data' j bits = read_packed data j bits"
proof -
  let ?b = "unat bits"
  obtain d where d: "write_packed bits data i v = Some d" "length d = length data"
    and bits: "\<And>k. k < 64 * length data \<Longrightarrow> bit_at d k \<longleftrightarrow>
      (if i * ?b \<le> k \<and> k < Suc i * ?b then bit v (k - i * ?b) else bit_at data k)"
    using write_packed_bits [of bits i data v] packed_room [OF ok i] ok by (auto simp: packed_ok_def)
  have eq: "d = data'"
    using d(1) wr by simp
  show ok': "packed_ok bits n data'"
    using ok d(2) by (simp add: packed_ok_def eq)
  have inside: "j * ?b + k < 64 * length data" if "j < n" "k < ?b" for j k
    using packed_room [OF ok that(1)] that(2) by simp
  obtain u where u: "read_packed data' i bits = Some u"
    and ub: "\<And>k. bit u k \<longleftrightarrow> k < ?b \<and> bit_at data' (i * ?b + k)"
    by (rule read_packed_val [OF ok' i]) blast
  have "u = v"
  proof (rule bit_word_eqI)
    fix k
    show "bit u k \<longleftrightarrow> bit v k"
      using ub [of k] v bits [OF inside [OF i], of k] by (auto simp: eq fits_def)
  qed
  with u show "read_packed data' i bits = Some v" by simp
  assume j: "j < n" "j \<noteq> i"
  obtain x where x: "read_packed data' j bits = Some x"
    and xb: "\<And>k. bit x k \<longleftrightarrow> k < ?b \<and> bit_at data' (j * ?b + k)"
    by (rule read_packed_val [OF ok' j(1)]) blast
  obtain y where y: "read_packed data j bits = Some y"
    and yb: "\<And>k. bit y k \<longleftrightarrow> k < ?b \<and> bit_at data (j * ?b + k)"
    by (rule read_packed_val [OF ok j(1)]) blast
  have "x = y"
  proof (rule bit_word_eqI)
    fix k
    show "bit x k \<longleftrightarrow> bit y k"
      using xb [of k] yb [of k] bits [OF inside [OF j(1)], of k] entries_disjoint [OF j(2), of k ?b]
      by (auto simp: eq)
  qed
  with x y show "read_packed data' j bits = read_packed data j bits" by simp
qed

lemma write_packed_total:
  assumes "packed_ok bits n data" and "i < n"
  shows "\<exists>data'. write_packed bits data i v = Some data'"
  using write_packed_bits [of bits i data v] packed_room [OF assms] assms(1)
  by (auto simp: packed_ok_def)

interpretation packed: cell_store "packed_ok bits n" "\<lambda>i. i < n" "fits bits"
    "\<lambda>data i. read_packed data i bits" "write_packed bits" for bits n
proof
  fix s i assume h: "packed_ok bits n s" "i < n"
  show "\<exists>v. read_packed s i bits = Some v \<and> fits bits v"
    by (rule read_packed_val [OF h]) (auto simp: fits_def)
next
  fix s i and v :: u64
  assume h: "packed_ok bits n s" "i < n" "fits bits v"
  then show "\<exists>s'. write_packed bits s i v = Some s' \<and> packed_ok bits n s'"
    using write_packed_total write_packed_reads(1) by blast
qed (auto intro: write_packed_reads)

lemma new_packed_ok: "0 < unat bits \<Longrightarrow> unat bits < 64 \<Longrightarrow> packed_ok bits n (new_packed n bits)"
  by (simp add: packed_ok_def new_packed_def)

lemma read_new_packed:
  assumes "0 < unat bits" and "unat bits < 64" and "i < n"
  shows "read_packed (new_packed n bits) i bits = Some 0"
proof -
  obtain v where v: "read_packed (new_packed n bits) i bits = Some v"
    and b: "\<And>j. bit v j \<longleftrightarrow> j < unat bits \<and> bit_at (new_packed n bits) (i * unat bits + j)"
    by (rule read_packed_val [OF new_packed_ok [OF assms(1,2)] assms(3)]) blast
  have "\<not> bit v j" for j
    using packed_room [OF new_packed_ok [OF assms(1,2)] assms(3)]
    by (auto simp: b bit_at_def new_packed_def)
  then have "v = 0"
    by (intro bit_word_eqI) simp
  with v show ?thesis by simp
qed

text \<open>Packed arrays of any width below 64 bits: writing entry \<open>i\<close> does not panic, keeps the
  array's length, makes entry \<open>i\<close> read back the value written, and leaves every other entry
  reading what it read before, entries that straddle two words included.\<close>

theorem packed_write_read:
  assumes "packed_ok bits n data" and "i < n" and "fits bits v"
  shows "\<exists>data'. write_packed bits data i v = Some data' \<and> length data' = length data
    \<and> read_packed data' i bits = Some v
    \<and> (\<forall>j < n. j \<noteq> i \<longrightarrow> read_packed data' j bits = read_packed data j bits)"
proof -
  obtain d where d: "write_packed bits data i v = Some d" "packed_ok bits n d"
    using packed.put_total [OF assms] by blast
  have "length d = length data"
    using d(2) assms(1) by (simp add: packed_ok_def)
  then show ?thesis
    using d packed.get_put_same [OF assms d(1)] packed.get_put_other [OF assms d(1)] by blast
qed

theorem packed_write_read_witness:
  "\<exists>data'. write_packed 5 (new_packed 4096 5) 12 17 = Some data'
    \<and> length data' = length (new_packed 4096 5) \<and> read_packed data' 12 5 = Some 17
    \<and> (\<forall>j < 4096. j \<noteq> 12 \<longrightarrow> read_packed data' j 5 = read_packed (new_packed 4096 5) j 5)"
  by (rule packed_write_read) (simp_all add: new_packed_ok fits_iff)

end
