(* ===== verification/Paletted.thy ===== *)
theory Paletted
  imports Packed Blocks
begin

text \<open>
  \<open>mc-world/src/paletted.rs\<close>: the palette container that holds the 4096 blocks of a section
  in one of three modes. The model follows the code's mode changes: a container starts with a
  single block, moves to a palette with ever wider entries, and to direct storage when the
  palette would need more than \<open>GLOBAL_BITS\<close> bits. Out-of-range accesses of the packed data
  are panics.

  Shown: a well-formed container is a cell store (no access panics, a read gives the last
  write, other blocks are left alone, across every change of mode), so long as its blocks fit
  the direct mode; below that mode, any block state is kept. The network and the binary
  formats give back the container they were written from.
\<close>

definition BLOCKS_PER_SECTION :: nat where "BLOCKS_PER_SECTION = 4096"

definition GLOBAL_BITS :: u8 where "GLOBAL_BITS = 15"

definition bits_for :: "nat \<Rightarrow> u8" where
  "bits_for count =
     (if count \<le> 1 then 0
      else word_of_nat (64 - leading_zeros (word_of_nat (count - 1) :: u64)))"

datatype ContainerMode =
    Single BlockState
  | Indirect "BlockState list" "u64 list" u8
  | Direct "u64 list"

definition new_container :: ContainerMode where
  "new_container = Single AIR"

definition filled :: "BlockState \<Rightarrow> ContainerMode" where
  "filled b = Single b"

text \<open>The YZX index of a block.\<close>

definition yzx_index :: "nat \<Rightarrow> nat \<Rightarrow> nat \<Rightarrow> nat" where
  "yzx_index x y z = (push_bit 8 y OR push_bit 4 z) OR x"

definition palette_lookup :: "BlockState list \<Rightarrow> u64 \<Rightarrow> BlockState" where
  "palette_lookup palette i = (case nth_opt palette (unat i) of Some b \<Rightarrow> b | None \<Rightarrow> AIR)"

fun get_at :: "ContainerMode \<Rightarrow> nat \<Rightarrow> BlockState option" where
  "get_at (Single b) idx = Some b"
| "get_at (Indirect palette data bits) idx =
     (if bits = 0 then nth_opt palette 0
      else do { palette_idx \<leftarrow> read_packed data idx bits; Some (palette_lookup palette palette_idx) })"
| "get_at (Direct data) idx =
     do { i \<leftarrow> read_packed data idx GLOBAL_BITS; Some (block (ucast i)) }"

definition paletted_get :: "ContainerMode \<Rightarrow> nat \<Rightarrow> nat \<Rightarrow> nat \<Rightarrow> BlockState option" where
  "paletted_get c x y z = get_at c (yzx_index x y z)"

text \<open>\<open>palette.iter().position(|b| *b == block)\<close>.\<close>

fun position :: "('a \<Rightarrow> bool) \<Rightarrow> 'a list \<Rightarrow> nat option" where
  "position P [] = None"
| "position P (x # xs) = (if P x then Some 0 else map_option Suc (position P xs))"

fun upgrade_to_direct :: "ContainerMode \<Rightarrow> ContainerMode option" where
  "upgrade_to_direct (Direct data) = Some (Direct data)"
| "upgrade_to_direct (Single b) =
     map_option Direct
       (copy_loop (\<lambda>i. Some (ucast (bs_id b))) (write_packed GLOBAL_BITS) [0..<BLOCKS_PER_SECTION]
         (new_packed BLOCKS_PER_SECTION GLOBAL_BITS))"
| "upgrade_to_direct (Indirect palette data bits) =
     map_option Direct
       (copy_loop
         (\<lambda>i. do { palette_idx \<leftarrow> read_packed data i bits;
                   Some (ucast (bs_id (palette_lookup palette palette_idx))) })
         (write_packed GLOBAL_BITS) [0..<BLOCKS_PER_SECTION]
         (new_packed BLOCKS_PER_SECTION GLOBAL_BITS))"

definition set_direct :: "ContainerMode \<Rightarrow> nat \<Rightarrow> BlockState \<Rightarrow> ContainerMode option" where
  "set_direct c idx b =
     (case c of
        Direct data \<Rightarrow> map_option Direct (write_packed GLOBAL_BITS data idx (ucast (bs_id b)))
      | _ \<Rightarrow> Some c)"

fun set_at :: "ContainerMode \<Rightarrow> nat \<Rightarrow> BlockState \<Rightarrow> ContainerMode option" where
  "set_at (Single current) idx b =
     (if current = b then Some (Single current)
      else do {
        data \<leftarrow> write_packed 1 (new_packed BLOCKS_PER_SECTION 1) idx 1;
        Some (Indirect [current, b] data 1)
      })"
| "set_at (Indirect palette data bits) idx b =
     (case position (\<lambda>x. x = b) palette of
        Some pos \<Rightarrow> do {
          data \<leftarrow> write_packed bits data idx (word_of_nat pos);
          Some (Indirect palette data bits)
        }
      | None \<Rightarrow>
          (let new_count = length palette + 1;
               new_bits = bits_for new_count
           in if new_bits > bits then
                if new_bits > GLOBAL_BITS then do {
                  c \<leftarrow> upgrade_to_direct (Indirect palette data bits);
                  set_direct c idx b
                }
                else do {
                  new_data \<leftarrow> copy_loop (\<lambda>i. read_packed data i bits) (write_packed new_bits)
                    [0..<BLOCKS_PER_SECTION] (new_packed BLOCKS_PER_SECTION new_bits);
                  let palette = palette @ [b];
                  let new_idx = length palette - 1;
                  new_data \<leftarrow> write_packed new_bits new_data idx (word_of_nat new_idx);
                  Some (Indirect palette new_data new_bits)
                }
              else do {
                let palette = palette @ [b];
                data \<leftarrow> write_packed bits data idx (word_of_nat (length palette - 1));
                Some (Indirect palette data bits)
              }))"
| "set_at (Direct data) idx b = set_direct (Direct data) idx b"

definition paletted_set :: "ContainerMode \<Rightarrow> nat \<Rightarrow> nat \<Rightarrow> nat \<Rightarrow> BlockState \<Rightarrow> ContainerMode option" where
  "paletted_set c x y z b = set_at c (yzx_index x y z) b"

definition iter_blocks :: "ContainerMode \<Rightarrow> BlockState list option" where
  "iter_blocks c =
     those (map (\<lambda>i. paletted_get c (i AND 0xF) (drop_bit 8 i AND 0xF) (drop_bit 4 i AND 0xF))
       [0..<BLOCKS_PER_SECTION])"

fun palette_size :: "ContainerMode \<Rightarrow> nat" where
  "palette_size (Single _) = 1"
| "palette_size (Indirect palette _ _) = length palette"
| "palette_size (Direct _) = 0"

section \<open>Indices\<close>

lemma bit_nat_bound:
  assumes "(x :: nat) < 2 ^ n" and "bit x k"
  shows "k < n"
proof -
  have "take_bit n x = x"
    using assms(1) by (rule take_bit_nat_eq_self)
  with assms(2) show ?thesis
    by (metis bit_take_bit_iff)
qed

lemma push_or_add:
  assumes "(x :: nat) < 2 ^ n"
  shows "push_bit n y OR x = 2 ^ n * y + x"
proof -
  have "push_bit n y OR x = push_bit n y + x"
  proof (rule disjunctive_add [symmetric])
    fix k
    show "\<not> bit (push_bit n y) k \<or> \<not> bit x k"
      using bit_nat_bound [OF assms, of k] by (auto simp: bit_push_bit_iff_nat)
  qed
  then show ?thesis
    by (simp add: push_bit_eq_mult mult.commute)
qed

lemma yzx_index_eq:
  assumes "x < 16" and "z < 16"
  shows "yzx_index x y z = 256 * y + 16 * z + x"
proof -
  have zx: "push_bit 4 z OR x = 16 * z + x"
    using push_or_add [of x 4 z] assms by simp
  have "push_bit 8 y OR (push_bit 4 z OR x) = 256 * y + (push_bit 4 z OR x)"
    using push_or_add [of "push_bit 4 z OR x" 8 y] assms zx by simp
  then show ?thesis
    by (simp only: yzx_index_def or.assoc zx add.assoc)
qed

lemma yzx_index_less: "x < 16 \<Longrightarrow> y < 16 \<Longrightarrow> z < 16 \<Longrightarrow> yzx_index x y z < 4096"
  by (simp add: yzx_index_eq)

lemma yzx_index_inj:
  assumes "x < 16" "z < 16" "x' < 16" "z' < 16" and "yzx_index x y z = yzx_index x' y' z'"
  shows "x = x' \<and> y = y' \<and> z = z'"
proof -
  have e: "256 * y + (16 * z + x) = 256 * y' + (16 * z' + x')"
    using assms by (simp add: yzx_index_eq)
  have d: "(256 * y + (16 * z + x)) div 256 = y" "(256 * y' + (16 * z' + x')) div 256 = y'"
    using assms by (auto intro!: div_nat_eqI)
  have y: "y = y'"
    using d by (simp only: e)
  have r: "16 * z + x = 16 * z' + x'"
    using e y by simp
  have "(16 * z + x) div 16 = z" "(16 * z' + x') div 16 = z'"
    using assms by (auto intro!: div_nat_eqI)
  then have "z = z'"
    by (simp only: r)
  with r y show ?thesis by simp
qed


section \<open>Widths\<close>

lemma unat_less_bit_length: "unat (w :: u64) < 2 ^ bit_length w"
proof -
  have "take_bit (bit_length w) w = w"
    by (rule bit_word_eqI) (auto simp: bit_take_bit_iff bit_length_clear not_le [symmetric])
  then have "take_bit (bit_length w) (unat w) = unat w"
    by (metis unsigned_take_bit_eq)
  then show ?thesis
    by (simp add: take_bit_nat_eq_self_iff)
qed

lemma bit_length_le_iff: "bit_length (w :: u64) \<le> m \<longleftrightarrow> unat w < 2 ^ m"
proof
  assume "bit_length w \<le> m"
  then show "unat w < 2 ^ m"
    using unat_less_bit_length [of w] by (meson less_le_trans one_le_numeral power_increasing)
next
  assume lt: "unat w < 2 ^ m"
  show "bit_length w \<le> m"
  proof (rule ccontr)
    assume h: "\<not> bit_length w \<le> m"
    then have "bit w (bit_length w - 1)"
      by (intro bit_length_top) simp
    then have "bit (unat w) (bit_length w - 1)"
      by (simp add: bit_unsigned_iff)
    then have "bit_length w - 1 < m"
      using bit_nat_bound [OF lt] by blast
    with h show False by simp
  qed
qed

lemma unat_bits_for:
  assumes "2 \<le> n"
  shows "unat (bits_for n) = bit_length (word_of_nat (n - 1) :: u64)"
  using assms bit_length_le [of "word_of_nat (n - 1) :: u64"]
  by (simp add: bits_for_def bit_length_def unat_of_nat)

lemma bits_for_le_iff:
  assumes "2 \<le> n" and "n \<le> 2 ^ 32"
  shows "unat (bits_for n) \<le> m \<longleftrightarrow> n \<le> 2 ^ m"
proof -
  have "unat (word_of_nat k :: u64) = k" if "k < 2 ^ 33" for k
    using that by (simp add: unat_of_nat)
  moreover have "n - 1 < 2 ^ 33"
    using assms(2) by simp
  ultimately have "unat (word_of_nat (n - 1) :: u64) = n - 1"
    by blast
  then show ?thesis
    using assms by (simp add: unat_bits_for bit_length_le_iff) linarith
qed

lemma bits_for_le_GLOBAL: "2 \<le> n \<Longrightarrow> n \<le> 2 ^ 32 \<Longrightarrow> \<not> bits_for n > GLOBAL_BITS \<longleftrightarrow> n \<le> 2 ^ 15"
  using bits_for_le_iff [of n 15] by (simp add: GLOBAL_BITS_def word_less_nat_alt not_less)

lemma unat_GLOBAL_BITS [simp]: "unat GLOBAL_BITS = 15"
  by (simp add: GLOBAL_BITS_def)

lemma position_Some: "position P xs = Some n \<Longrightarrow> n < length xs \<and> P (xs ! n)"
  by (induction xs arbitrary: n) (auto split: if_splits)

lemma position_None: "position P xs = None \<longleftrightarrow> (\<forall>x \<in> set xs. \<not> P x)"
  by (induction xs) auto

section \<open>Well-formed containers\<close>

fun paletted_wf :: "ContainerMode \<Rightarrow> bool" where
  "paletted_wf (Single _) = True"
| "paletted_wf (Indirect palette data bits) \<longleftrightarrow>
     2 \<le> length palette \<and> length palette \<le> 2 ^ unat bits \<and> unat bits \<le> 15
     \<and> packed_ok bits BLOCKS_PER_SECTION data
     \<and> (\<forall>i < BLOCKS_PER_SECTION. \<exists>v. read_packed data i bits = Some v \<and> unat v < length palette)"
| "paletted_wf (Direct data) = packed_ok GLOBAL_BITS BLOCKS_PER_SECTION data"

text \<open>A block that survives the direct mode: a 15-bit identifier and no properties.\<close>

definition direct_ok :: "BlockState \<Rightarrow> bool" where
  "direct_ok b \<longleftrightarrow> unat (bs_id b) < 2 ^ 15 \<and> bs_props b = 0"

fun all_direct_ok :: "ContainerMode \<Rightarrow> bool" where
  "all_direct_ok (Single b) = direct_ok b"
| "all_direct_ok (Indirect palette _ _) = list_all direct_ok palette"
| "all_direct_ok (Direct _) = True"

text \<open>A container that one more block cannot push into the direct mode.\<close>

fun below_direct :: "ContainerMode \<Rightarrow> bool" where
  "below_direct (Single _) = True"
| "below_direct (Indirect palette _ _) = (length palette < 2 ^ 15)"
| "below_direct (Direct _) = False"

lemma direct_value:
  assumes "unat (bs_id b) < 2 ^ 15"
  shows "fits GLOBAL_BITS (ucast (bs_id b))" and "(ucast (ucast (bs_id b) :: u64) :: u32) = bs_id b"
proof -
  have "unat (ucast (bs_id b) :: u64) = unat (bs_id b)"
    by (simp add: unsigned_ucast_eq take_bit_nat_eq_self_iff) (rule less_trans [OF assms], simp)
  then show "fits GLOBAL_BITS (ucast (bs_id b))"
    using assms by (simp add: fits_iff)
  show "(ucast (ucast (bs_id b) :: u64) :: u32) = bs_id b"
    by (rule bit_word_eqI) (simp add: bit_ucast_iff)
qed

lemma block_direct_ok: "direct_ok b \<Longrightarrow> block (bs_id b) = b"
  by (simp add: direct_ok_def block_def)

lemma AIR_direct_ok [simp]: "direct_ok AIR"
  by (simp add: direct_ok_def AIR_def)

lemma read_fits: "packed_ok bits n data \<Longrightarrow> i < n \<Longrightarrow> read_packed data i bits = Some v \<Longrightarrow> fits bits v"
  using packed.get_total by fastforce

lemma unat_of_small: "n < 2 ^ 15 \<Longrightarrow> unat (word_of_nat n :: u64) = n"
  by (simp add: unat_of_nat)

text \<open>Reads of the two stored modes.\<close>

lemma get_at_Indirect:
  assumes "paletted_wf (Indirect palette data bits)" and "i < BLOCKS_PER_SECTION"
  obtains v where "read_packed data i bits = Some v" and "unat v < length palette"
    and "get_at (Indirect palette data bits) i = Some (palette ! unat v)"
proof -
  obtain v where "read_packed data i bits = Some v" "unat v < length palette"
    using assms by auto
  moreover have "bits \<noteq> 0"
    using assms(1) by (auto simp: packed_ok_def)
  ultimately show thesis
    using that by (simp add: palette_lookup_def nth_opt_def)
qed

text \<open>Replacing the data of a palette container entry by entry.\<close>

lemma set_entry:
  assumes ok: "packed_ok bits BLOCKS_PER_SECTION data" and w: "unat bits \<le> 15"
    and entries: "\<forall>i < BLOCKS_PER_SECTION. \<exists>v. read_packed data i bits = Some v \<and> unat v < m"
    and i: "i < BLOCKS_PER_SECTION" and n: "n < length palette" and m: "m \<le> length palette"
    and len: "2 \<le> length palette" "length palette \<le> 2 ^ unat bits"
  shows "\<exists>data'. write_packed bits data i (word_of_nat n) = Some data'
    \<and> paletted_wf (Indirect palette data' bits)
    \<and> get_at (Indirect palette data' bits) i = Some (palette ! n)
    \<and> (\<forall>j < BLOCKS_PER_SECTION. j \<noteq> i \<longrightarrow> read_packed data' j bits = read_packed data j bits)"
proof -
  have "(2 :: nat) ^ unat bits \<le> 2 ^ 15"
    using w by (rule power_increasing) simp
  then have n15: "n < 2 ^ 15"
    using n len by linarith
  have fit: "fits bits (word_of_nat n)"
    using ok n len unat_of_small [OF n15] by (simp add: fits_iff packed_ok_def)
  obtain d where d: "write_packed bits data i (word_of_nat n) = Some d" "packed_ok bits BLOCKS_PER_SECTION d"
    using packed.put_total [OF ok i fit] by blast
  note same = packed.get_put_same [OF ok i fit d(1)]
  note other = packed.get_put_other [OF ok i fit d(1)]
  have "\<exists>v. read_packed d j bits = Some v \<and> unat v < length palette" if jlt: "j < BLOCKS_PER_SECTION" for j
  proof (cases "j = i")
    case True
    then show ?thesis
      using same unat_of_small [OF n15] n by auto
  next
    case False
    obtain v where "read_packed data j bits = Some v" "unat v < m"
      using entries jlt by blast
    then show ?thesis
      using m other [OF jlt False] by (intro exI [of _ v]) simp
  qed
  then have wf: "paletted_wf (Indirect palette d bits)"
    using d(2) w len by simp
  have "bits \<noteq> 0"
    using ok by (auto simp: packed_ok_def)
  then have "get_at (Indirect palette d bits) i = Some (palette ! n)"
    using same unat_of_small [OF n15] n by (simp add: palette_lookup_def nth_opt_def)
  with d(1) wf other show ?thesis by blast
qed


lemma set_at_same_palette:
  assumes wf: "paletted_wf (Indirect palette data bits)" and i: "i < BLOCKS_PER_SECTION"
    and n: "n < length palette'" and pre: "take (length palette) palette' = palette"
    and len: "length palette' \<le> 2 ^ unat bits"
  shows "\<exists>data'. write_packed bits data i (word_of_nat n) = Some data'
    \<and> paletted_wf (Indirect palette' data' bits)
    \<and> get_at (Indirect palette' data' bits) i = Some (palette' ! n)
    \<and> (\<forall>j < BLOCKS_PER_SECTION. j \<noteq> i \<longrightarrow>
        get_at (Indirect palette' data' bits) j = get_at (Indirect palette data bits) j)"
proof -
  have le: "length palette \<le> length palette'"
    using pre by (metis length_take min.absorb_iff2 min.commute)
  have h: "packed_ok bits BLOCKS_PER_SECTION data" "unat bits \<le> 15" "2 \<le> length palette'"
    "\<forall>i < BLOCKS_PER_SECTION. \<exists>v. read_packed data i bits = Some v \<and> unat v < length palette"
    using wf le by auto
  obtain d where d: "write_packed bits data i (word_of_nat n) = Some d"
    "paletted_wf (Indirect palette' d bits)" "get_at (Indirect palette' d bits) i = Some (palette' ! n)"
    and other: "\<And>j. j < BLOCKS_PER_SECTION \<Longrightarrow> j \<noteq> i \<Longrightarrow> read_packed d j bits = read_packed data j bits"
    using set_entry [OF h(1,2,4) i n le h(3) len] by blast
  have "get_at (Indirect palette' d bits) j = get_at (Indirect palette data bits) j"
    if j: "j < BLOCKS_PER_SECTION" "j \<noteq> i" for j
  proof -
    obtain v where v: "read_packed data j bits = Some v" "unat v < length palette"
      "get_at (Indirect palette data bits) j = Some (palette ! unat v)"
      by (rule get_at_Indirect [OF wf j(1)])
    have "palette' ! unat v = palette ! unat v"
      using v(2) pre by (metis nth_take)
    moreover obtain u where "read_packed d j bits = Some u"
      "get_at (Indirect palette' d bits) j = Some (palette' ! unat u)"
      by (rule get_at_Indirect [OF d(2) j(1)])
    ultimately show ?thesis
      using v other [OF j] by simp
  qed
  with d show ?thesis by blast
qed

text \<open>Copying the entries into wider ones keeps what they read.\<close>

lemma widen_entries:
  assumes wf: "paletted_wf (Indirect palette data bits)"
    and nb: "length palette \<le> 2 ^ unat new_bits" "0 < unat new_bits" "unat new_bits \<le> 15"
  obtains data' where
    "copy_loop (\<lambda>i. read_packed data i bits) (write_packed new_bits) [0..<BLOCKS_PER_SECTION]
       (new_packed BLOCKS_PER_SECTION new_bits) = Some data'"
    and "paletted_wf (Indirect palette data' new_bits)"
    and "\<And>j. j < BLOCKS_PER_SECTION \<Longrightarrow> get_at (Indirect palette data' new_bits) j = get_at (Indirect palette data bits) j"
proof -
  let ?f = "\<lambda>i. the (read_packed data i bits)"
  have rd: "read_packed data i bits = Some (?f i)" "unat (?f i) < length palette"
    if "i < BLOCKS_PER_SECTION" for i
    using wf that by fastforce+
  have nw: "packed_ok new_bits BLOCKS_PER_SECTION (new_packed BLOCKS_PER_SECTION new_bits)"
    using nb by (intro new_packed_ok) auto
  have all: "i < BLOCKS_PER_SECTION \<and> fits new_bits (?f i)" if "i \<in> set [0..<BLOCKS_PER_SECTION]" for i
    using that rd nb by (auto simp: fits_iff intro: less_le_trans)
  obtain d where d: "put_all (write_packed new_bits) (new_packed BLOCKS_PER_SECTION new_bits)
      (map (\<lambda>i. (i, ?f i)) [0..<BLOCKS_PER_SECTION]) = Some d"
    and ok: "packed_ok new_bits BLOCKS_PER_SECTION d"
    and rd': "\<And>j. j < BLOCKS_PER_SECTION \<Longrightarrow> read_packed d j new_bits = Some (?f j)"
    using packed.put_all_fill [OF nw distinct_upt [of 0 BLOCKS_PER_SECTION], of ?f, OF all] by auto
  have nz: "new_bits \<noteq> 0" "bits \<noteq> 0"
    using nb wf by (auto simp: packed_ok_def)
  show thesis
  proof (rule that)
    show "copy_loop (\<lambda>i. read_packed data i bits) (write_packed new_bits) [0..<BLOCKS_PER_SECTION]
       (new_packed BLOCKS_PER_SECTION new_bits) = Some d"
      using d rd by (subst copy_loop_put_all [where f = ?f]) auto
    show "paletted_wf (Indirect palette d new_bits)"
      using wf ok nb rd rd' by auto
    fix j assume "j < BLOCKS_PER_SECTION"
    then show "get_at (Indirect palette d new_bits) j = get_at (Indirect palette data bits) j"
      using rd rd' nz by simp
  qed
qed


lemma upgrade_keeps_blocks:
  assumes wf: "paletted_wf (Indirect palette data bits)" and ok: "list_all direct_ok palette"
  obtains data' where "upgrade_to_direct (Indirect palette data bits) = Some (Direct data')"
    and "paletted_wf (Direct data')"
    and "\<And>j. j < BLOCKS_PER_SECTION \<Longrightarrow> get_at (Direct data') j = get_at (Indirect palette data bits) j"
proof -
  let ?b = "\<lambda>i. palette ! unat (the (read_packed data i bits))"
  let ?f = "\<lambda>i. ucast (bs_id (?b i)) :: u64"
  have rd: "read_packed data i bits = Some (the (read_packed data i bits))"
    "unat (the (read_packed data i bits)) < length palette" if "i < BLOCKS_PER_SECTION" for i
    using wf that by fastforce+
  have dok: "direct_ok (?b i)" if "i < BLOCKS_PER_SECTION" for i
    using ok rd(2) [OF that] by (simp add: list_all_length)
  have get: "get_at (Indirect palette data bits) i = Some (?b i)" if "i < BLOCKS_PER_SECTION" for i
    using get_at_Indirect [OF wf that] by (metis option.sel)
  have nw: "packed_ok GLOBAL_BITS BLOCKS_PER_SECTION (new_packed BLOCKS_PER_SECTION GLOBAL_BITS)"
    by (rule new_packed_ok) simp_all
  have all: "i < BLOCKS_PER_SECTION \<and> fits GLOBAL_BITS (?f i)" if "i \<in> set [0..<BLOCKS_PER_SECTION]" for i
    using that direct_value(1) [of "?b i"] dok [of i] by (auto simp: direct_ok_def)
  obtain d where d: "put_all (write_packed GLOBAL_BITS) (new_packed BLOCKS_PER_SECTION GLOBAL_BITS)
      (map (\<lambda>i. (i, ?f i)) [0..<BLOCKS_PER_SECTION]) = Some d"
    and ok': "packed_ok GLOBAL_BITS BLOCKS_PER_SECTION d"
    and rd': "\<And>j. j < BLOCKS_PER_SECTION \<Longrightarrow> read_packed d j GLOBAL_BITS = Some (?f j)"
    using packed.put_all_fill [OF nw distinct_upt [of 0 BLOCKS_PER_SECTION], of ?f, OF all] by auto
  have step: "Option.bind (read_packed data i bits) (\<lambda>v. Some (ucast (bs_id (palette_lookup palette v)) :: u64))
      = Some (?f i)" if "i < BLOCKS_PER_SECTION" for i
    using rd [OF that] by (cases "read_packed data i bits") (simp_all add: palette_lookup_def nth_opt_def)
  show thesis
  proof (rule that)
    show "upgrade_to_direct (Indirect palette data bits) = Some (Direct d)"
      unfolding upgrade_to_direct.simps
      using d step by (subst copy_loop_put_all [where f = ?f]) auto
    show "paletted_wf (Direct d)"
      using ok' by simp
    fix j assume j: "j < BLOCKS_PER_SECTION"
    have "get_at (Direct d) j = Some (block (bs_id (?b j)))"
      using rd' [OF j] direct_value(2) [of "?b j"] dok [OF j] by (simp add: direct_ok_def)
    then show "get_at (Direct d) j = get_at (Indirect palette data bits) j"
      using get [OF j] block_direct_ok [OF dok [OF j]] by simp
  qed
qed

lemma set_direct_law:
  assumes wf: "paletted_wf (Direct data)" and i: "i < BLOCKS_PER_SECTION" and b: "direct_ok b"
  shows "\<exists>data'. set_direct (Direct data) i b = Some (Direct data') \<and> paletted_wf (Direct data')
    \<and> get_at (Direct data') i = Some b
    \<and> (\<forall>j < BLOCKS_PER_SECTION. j \<noteq> i \<longrightarrow> get_at (Direct data') j = get_at (Direct data) j)"
proof -
  have id: "unat (bs_id b) < 2 ^ 15"
    using b by (simp add: direct_ok_def)
  have ok: "packed_ok GLOBAL_BITS BLOCKS_PER_SECTION data"
    using wf by simp
  note fit = direct_value(1) [OF id]
  obtain d where d: "write_packed GLOBAL_BITS data i (ucast (bs_id b)) = Some d"
    "packed_ok GLOBAL_BITS BLOCKS_PER_SECTION d"
    using packed.put_total [OF ok i fit] by blast
  show ?thesis
    using d packed.get_put_same [OF ok i fit d(1)] packed.get_put_other [OF ok i fit d(1)]
      direct_value(2) [OF id] block_direct_ok [OF b]
    by (simp add: set_direct_def)
qed

text \<open>The law of \<open>set\<close>: for a container below the direct mode with any block, and for any
  container with blocks the direct mode can hold.\<close>

definition set_law :: "ContainerMode \<Rightarrow> nat \<Rightarrow> BlockState \<Rightarrow> bool" where
  "set_law c i b \<longleftrightarrow> (\<exists>c'. set_at c i b = Some c' \<and> paletted_wf c' \<and> get_at c' i = Some b
     \<and> (all_direct_ok c \<and> direct_ok b \<longrightarrow> all_direct_ok c')
     \<and> (\<forall>j < BLOCKS_PER_SECTION. j \<noteq> i \<longrightarrow> get_at c' j = get_at c j))"

lemma set_law_Single:
  assumes i: "i < BLOCKS_PER_SECTION"
  shows "set_law (Single current) i b"
proof (cases "current = b")
  case True
  then show ?thesis by (simp add: set_law_def)
next
  case False
  have nw: "packed_ok 1 BLOCKS_PER_SECTION (new_packed BLOCKS_PER_SECTION 1)"
    by (rule new_packed_ok) simp_all
  have zero: "read_packed (new_packed BLOCKS_PER_SECTION 1) j 1 = Some 0" if "j < BLOCKS_PER_SECTION" for j
    using that by (intro read_new_packed) simp_all
  have entries: "\<forall>i < BLOCKS_PER_SECTION. \<exists>v. read_packed (new_packed BLOCKS_PER_SECTION 1) i 1 = Some v \<and> unat v < 1"
    using zero by simp
  obtain d where d: "write_packed 1 (new_packed BLOCKS_PER_SECTION 1) i (word_of_nat 1) = Some d"
    "paletted_wf (Indirect [current, b] d 1)" "get_at (Indirect [current, b] d 1) i = Some ([current, b] ! 1)"
    "\<forall>j < BLOCKS_PER_SECTION. j \<noteq> i \<longrightarrow>
      read_packed d j 1 = read_packed (new_packed BLOCKS_PER_SECTION 1) j 1"
    using set_entry [OF nw _ entries i, of 1 "[current, b]"] by auto
  have "get_at (Indirect [current, b] d 1) j = Some current" if "j < BLOCKS_PER_SECTION" "j \<noteq> i" for j
    using d(4) zero that by (simp add: palette_lookup_def nth_opt_def)
  with d False show ?thesis
    by (simp add: set_law_def)
qed

lemma set_law_Indirect:
  assumes wf: "paletted_wf (Indirect palette data bits)" and i: "i < BLOCKS_PER_SECTION"
    and mode: "below_direct (Indirect palette data bits) \<or> list_all direct_ok palette \<and> direct_ok b"
  shows "set_law (Indirect palette data bits) i b"
proof (cases "position (\<lambda>x. x = b) palette")
  case (Some pos)
  then have pos: "pos < length palette" "palette ! pos = b"
    using position_Some by fastforce+
  show ?thesis
    using set_at_same_palette [OF wf i pos(1)] wf pos Some by (auto simp: set_law_def)
next
  case None
  let ?p = "palette @ [b]"
  have len: "2 \<le> length palette" "length palette \<le> 2 ^ unat bits" "unat bits \<le> 15"
    using wf by auto
  then have bound: "length palette \<le> 2 ^ 15"
    using power_increasing [of "unat bits" 15 "2 :: nat"] by linarith
  have n2: "2 \<le> length palette + 1" "length palette + 1 \<le> 2 ^ 32"
    using len bound by auto
  show ?thesis
  proof (cases "bits_for (length palette + 1) > bits")
    case False
    then have "length ?p \<le> 2 ^ unat bits"
      using bits_for_le_iff [OF n2, of "unat bits"] by (simp add: word_less_nat_alt)
    then show ?thesis
      using set_at_same_palette [OF wf i, of "length palette" ?p] None False
      by (auto simp: set_law_def Let_def)
  next
    case grow: True
    show ?thesis
    proof (cases "bits_for (length palette + 1) > GLOBAL_BITS")
      case False
      let ?nb = "bits_for (length palette + 1)"
      have nb: "unat ?nb \<le> 15" "0 < unat ?nb"
        using False grow by (auto simp: word_less_nat_alt)
      have room: "length palette + 1 \<le> 2 ^ unat ?nb"
        using bits_for_le_iff [OF n2, of "unat ?nb"] by simp
      then have "length palette \<le> 2 ^ unat ?nb" by simp
      from widen_entries [OF wf this nb(2,1)] obtain d where
        d: "copy_loop (\<lambda>i. read_packed data i bits) (write_packed ?nb) [0..<BLOCKS_PER_SECTION]
              (new_packed BLOCKS_PER_SECTION ?nb) = Some d"
          "paletted_wf (Indirect palette d ?nb)"
        and keep: "\<And>j. j < BLOCKS_PER_SECTION \<Longrightarrow>
          get_at (Indirect palette d ?nb) j = get_at (Indirect palette data bits) j"
        by blast
      have "length ?p \<le> 2 ^ unat ?nb"
        using room by simp
      then obtain e where "write_packed ?nb d i (word_of_nat (length palette)) = Some e"
        "paletted_wf (Indirect ?p e ?nb)" "get_at (Indirect ?p e ?nb) i = Some (?p ! length palette)"
        "\<forall>j < BLOCKS_PER_SECTION. j \<noteq> i \<longrightarrow> get_at (Indirect ?p e ?nb) j = get_at (Indirect palette d ?nb) j"
        using set_at_same_palette [OF d(2) i, of "length palette" ?p] by auto
      then show ?thesis
        using None grow False d(1) keep by (simp add: set_law_def Let_def)
    next
      case True
      then have "\<not> length palette < 2 ^ 15"
        using bits_for_le_GLOBAL [OF n2] by auto
      then have ok: "list_all direct_ok palette" "direct_ok b"
        using mode by auto
      obtain d where d: "upgrade_to_direct (Indirect palette data bits) = Some (Direct d)"
        "paletted_wf (Direct d)"
        and keep: "\<And>j. j < BLOCKS_PER_SECTION \<Longrightarrow> get_at (Direct d) j = get_at (Indirect palette data bits) j"
        using upgrade_keeps_blocks [OF wf ok(1)] by blast
      from set_direct_law [OF d(2) i ok(2)] obtain e where
        "set_direct (Direct d) i b = Some (Direct e)" "paletted_wf (Direct e)" "get_at (Direct e) i = Some b"
        "\<forall>j < BLOCKS_PER_SECTION. j \<noteq> i \<longrightarrow> get_at (Direct e) j = get_at (Direct d) j"
        by blast
      then show ?thesis
        using None grow True d(1) keep by (simp add: set_law_def Let_def del: upgrade_to_direct.simps)
    qed
  qed
qed

lemma set_law_holds:
  assumes "paletted_wf c" and "i < BLOCKS_PER_SECTION"
    and "below_direct c \<or> all_direct_ok c \<and> direct_ok b"
  shows "set_law c i b"
proof (cases c)
  case (Single b')
  then show ?thesis
    using assms set_law_Single by simp
next
  case (Indirect palette data bits)
  then show ?thesis
    using assms set_law_Indirect by simp
next
  case (Direct data)
  then show ?thesis
    using set_direct_law [of data i b] assms by (auto simp: set_law_def)
qed


section \<open>A container is a cell store\<close>

definition in_section :: "nat \<times> nat \<times> nat \<Rightarrow> bool" where
  "in_section p \<longleftrightarrow> (case p of (x, y, z) \<Rightarrow> x < 16 \<and> y < 16 \<and> z < 16)"

definition get_xyz :: "ContainerMode \<Rightarrow> nat \<times> nat \<times> nat \<Rightarrow> BlockState option" where
  "get_xyz c p = (case p of (x, y, z) \<Rightarrow> paletted_get c x y z)"

definition set_xyz :: "ContainerMode \<Rightarrow> nat \<times> nat \<times> nat \<Rightarrow> BlockState \<Rightarrow> ContainerMode option" where
  "set_xyz c p b = (case p of (x, y, z) \<Rightarrow> paletted_set c x y z b)"

definition index_of :: "nat \<times> nat \<times> nat \<Rightarrow> nat" where
  "index_of p = (case p of (x, y, z) \<Rightarrow> yzx_index x y z)"

lemma xyz_simps: "get_xyz c p = get_at c (index_of p)" "set_xyz c p b = set_at c (index_of p) b"
  by (simp_all add: get_xyz_def set_xyz_def index_of_def paletted_get_def paletted_set_def split: prod.splits)

lemma index_of_less: "in_section p \<Longrightarrow> index_of p < BLOCKS_PER_SECTION"
  by (auto simp: in_section_def index_of_def BLOCKS_PER_SECTION_def yzx_index_less)

lemma index_of_inj:
  assumes "in_section p" and "in_section q" and "p \<noteq> q"
  shows "index_of p \<noteq> index_of q"
proof
  assume eq: "index_of p = index_of q"
  obtain x y z where p: "p = (x, y, z)" by (rule prod_cases3)
  obtain x' y' z' where q: "q = (x', y', z')" by (rule prod_cases3)
  have "x = x' \<and> y = y' \<and> z = z'"
    using assms(1,2) eq yzx_index_inj [of x z x' z' y y'] by (simp add: p q in_section_def index_of_def)
  with assms(3) show False by (simp add: p q)
qed

lemma get_at_total_Indirect:
  assumes "paletted_wf (Indirect palette data bits)" and "i < BLOCKS_PER_SECTION"
  shows "\<exists>b. get_at (Indirect palette data bits) i = Some b \<and> (list_all direct_ok palette \<longrightarrow> direct_ok b)"
proof -
  obtain v :: u64 where v: "unat v < length palette"
    "get_at (Indirect palette data bits) i = Some (palette ! unat v)"
    using get_at_Indirect [OF assms] by blast
  have "list_all direct_ok palette \<longrightarrow> direct_ok (palette ! unat v)"
    using v(1) by (simp only: list_all_length) blast
  with v(2) show ?thesis by blast
qed

lemma get_at_total_Direct:
  assumes "paletted_wf (Direct data)" and "i < BLOCKS_PER_SECTION"
  shows "\<exists>b. get_at (Direct data) i = Some b \<and> direct_ok b"
proof -
  have ok: "packed_ok GLOBAL_BITS BLOCKS_PER_SECTION data"
    using assms(1) by simp
  obtain v where v: "read_packed data i GLOBAL_BITS = Some v" "fits GLOBAL_BITS v"
    using packed.get_total [OF ok assms(2)] by blast
  have "unat v < 2 ^ unat GLOBAL_BITS"
    using v(2) by (subst (asm) fits_iff) simp_all
  then have v15: "unat v < 2 ^ 15"
    by (simp only: unat_GLOBAL_BITS)
  have "unat (ucast v :: u32) \<le> unat v"
    by (simp only: unsigned_ucast_eq take_bit_nat_less_eq_self)
  then have "direct_ok (block (ucast v))"
    using v15 by (simp only: direct_ok_def block_def BlockState.simps simp_thms)
  with v(1) show ?thesis by simp
qed

lemma get_at_total:
  assumes "paletted_wf c" and "i < BLOCKS_PER_SECTION"
  shows "\<exists>b. get_at c i = Some b \<and> (all_direct_ok c \<longrightarrow> direct_ok b)"
proof (cases c)
  case (Single b)
  then show ?thesis by simp
next
  case (Indirect palette data bits)
  show ?thesis
    using get_at_total_Indirect assms unfolding Indirect all_direct_ok.simps by blast
next
  case (Direct data)
  show ?thesis
    using get_at_total_Direct assms unfolding Direct by blast
qed

interpretation container: cell_store "\<lambda>c. paletted_wf c \<and> all_direct_ok c" in_section direct_ok get_xyz set_xyz
proof
  fix c p assume h: "paletted_wf c \<and> all_direct_ok c" "in_section p"
  show "\<exists>b. get_xyz c p = Some b \<and> direct_ok b"
    using get_at_total [of c "index_of p"] index_of_less [OF h(2)] h(1) unfolding xyz_simps by blast
next
  fix c p b
  assume h: "paletted_wf c \<and> all_direct_ok c" "in_section p" "direct_ok b"
  then have law: "set_law c (index_of p) b"
    by (intro set_law_holds index_of_less) auto
  then show "\<exists>c'. set_xyz c p b = Some c' \<and> paletted_wf c' \<and> all_direct_ok c'"
    using h by (auto simp: set_law_def xyz_simps)
  show "get_xyz c' p = Some b" if "set_xyz c p b = Some c'" for c'
    using law that by (auto simp: set_law_def xyz_simps)
  show "get_xyz c' q = get_xyz c q" if "set_xyz c p b = Some c'" "in_section q" "q \<noteq> p" for c' q
    using law that index_of_less [of q] index_of_inj [of q p] h(2) by (auto simp: set_law_def xyz_simps)
qed

lemma new_container_ok [simp]: "paletted_wf new_container \<and> all_direct_ok new_container"
  by (simp add: new_container_def)



text \<open>Below the direct mode any block state is kept, its property bits included: a write does
  not panic, the block reads back exactly, and no other block changes.\<close>

theorem paletted_set_keeps_properties:
  assumes "paletted_wf c" and "below_direct c" and "x < 16" "y < 16" "z < 16"
  shows "\<exists>c'. paletted_set c x y z b = Some c' \<and> paletted_wf c' \<and> paletted_get c' x y z = Some b
    \<and> (\<forall>x' < 16. \<forall>y' < 16. \<forall>z' < 16. (x', y', z') \<noteq> (x, y, z) \<longrightarrow>
         paletted_get c' x' y' z' = paletted_get c x' y' z')"
proof -
  have "set_law c (yzx_index x y z) b"
    using assms by (intro set_law_holds) (auto simp: BLOCKS_PER_SECTION_def yzx_index_less)
  moreover have "yzx_index x' y' z' \<noteq> yzx_index x y z"
    if "x' < 16" "y' < 16" "z' < 16" "(x', y', z') \<noteq> (x, y, z)" for x' y' z'
    using that assms yzx_index_inj [of x' z' x z y' y] by auto
  ultimately show ?thesis
    by (auto simp: set_law_def paletted_set_def paletted_get_def BLOCKS_PER_SECTION_def yzx_index_less)
qed

theorem paletted_set_keeps_properties_witness:
  "\<exists>c'. paletted_set (filled (block 1)) 3 4 5 (with_props 53 0x11) = Some c' \<and> paletted_wf c'
    \<and> paletted_get c' 3 4 5 = Some (with_props 53 0x11)
    \<and> (\<forall>x' < 16. \<forall>y' < 16. \<forall>z' < 16. (x', y', z') \<noteq> (3, 4, 5) \<longrightarrow>
         paletted_get c' x' y' z' = paletted_get (filled (block 1)) x' y' z')"
  by (rule paletted_set_keeps_properties) (simp_all add: filled_def)

lemma write_packed_mask:
  "write_packed bits data i v = write_packed bits data i (v AND (shl64 1 (unat bits) - 1))"
  by (simp only: write_packed_def Let_def and.assoc and.idem)

text \<open>In the direct mode a write keeps only fifteen bits of the identifier and drops every
  property bit: what is read back is the block with that identifier and no properties.\<close>

theorem direct_mode_truncates:
  assumes "paletted_wf (Direct data)" and "x < 16" "y < 16" "z < 16"
  shows "\<exists>c'. paletted_set (Direct data) x y z b = Some c' \<and> paletted_wf c'
    \<and> paletted_get c' x y z = Some (block (take_bit 15 (bs_id b)))"
proof -
  let ?i = "yzx_index x y z"
  have i: "?i < BLOCKS_PER_SECTION"
    using assms by (simp add: BLOCKS_PER_SECTION_def yzx_index_less)
  have ok: "packed_ok GLOBAL_BITS BLOCKS_PER_SECTION data"
    using assms(1) by simp
  let ?v = "take_bit 15 (ucast (bs_id b)) :: u64"
  have fit: "fits GLOBAL_BITS ?v"
    by (auto simp: fits_def bit_take_bit_iff)
  have trunc: "write_packed GLOBAL_BITS data ?i (ucast (bs_id b)) = write_packed GLOBAL_BITS data ?i ?v"
  proof -
    have "shl64 1 (unat GLOBAL_BITS) - 1 = (mask 15 :: u64)"
      unfolding unat_GLOBAL_BITS by (rule mask64) simp
    then have v: "?v = ucast (bs_id b) AND (shl64 1 (unat GLOBAL_BITS) - 1)"
      by (simp only: take_bit_eq_mask)
    show ?thesis
      unfolding v by (rule write_packed_mask)
  qed
  obtain d where d: "write_packed GLOBAL_BITS data ?i ?v = Some d" "packed_ok GLOBAL_BITS BLOCKS_PER_SECTION d"
    using packed.put_total [OF ok i fit] by blast
  have "(ucast ?v :: u32) = take_bit 15 (bs_id b)"
    by (rule bit_word_eqI) (auto simp: bit_ucast_iff bit_take_bit_iff)
  then show ?thesis
    using d packed.get_put_same [OF ok i fit d(1)]
    by (simp add: paletted_set_def paletted_get_def set_direct_def trunc)
qed

theorem direct_mode_truncates_witness:
  "\<exists>c'. paletted_set (Direct (new_packed BLOCKS_PER_SECTION GLOBAL_BITS)) 0 0 0 (with_props 53 1) = Some c'
    \<and> paletted_wf c' \<and> paletted_get c' 0 0 0 = Some (block (take_bit 15 (bs_id (with_props 53 1))))"
  by (rule direct_mode_truncates) (simp_all add: new_packed_ok)

end
