(* ===== verification/PalettedFormat.thy ===== *)
theory PalettedFormat
  imports Paletted
begin

text \<open>
  \<open>mc-world/src/paletted.rs\<close>, the serialised containers: the network format
  (\<open>encode_network\<close>, \<open>decode_network\<close>), the binary format of the chunk store
  (\<open>encode_binary\<close>, \<open>decode_binary\<close>) and the batch routines of its last section. A decoder
  either returns the new mode of the container, reports an error that leaves the container as
  it was, or panics (the capacity overflow of \<open>Vec::with_capacity\<close> on a negative length).

  Shown: both formats give back the container up to the property bits of its blocks, which
  neither carries; truncated binary data is accepted; the batch routines agree with
  \<open>read_packed\<close> and \<open>write_packed\<close>, the four-bit fast path included.
\<close>

fun show_varint_error :: "VarIntError \<Rightarrow> string" where
  "show_varint_error Incomplete = ''incomplete VarInt''"
| "show_varint_error TooLarge = ''VarInt too large''"

text \<open>\<open>Vec::with_capacity(n)\<close> for elements of eight bytes panics above \<open>isize::MAX\<close> bytes.\<close>

definition with_capacity8 :: "nat \<Rightarrow> (string, unit) outcome" where
  "with_capacity8 n = (if n * 8 < 2 ^ 63 then Ok () else Panic)"

text \<open>\<open>read_varint(&data[offset..])\<close>, its error reported with a prefix.\<close>

definition varint_at :: "string \<Rightarrow> bytes \<Rightarrow> nat \<Rightarrow> (string, i32 \<times> nat) outcome" where
  "varint_at msg data offset =
     (if offset \<le> length data then map_err (\<lambda>e. msg @ show_varint_error e) (read_varint (drop offset data))
      else Panic)"

section \<open>The network format\<close>

definition encode_network :: "ContainerMode \<Rightarrow> bytes" where
  "encode_network c =
     (case c of
        Single b \<Rightarrow> [0] @ write_varint 1 @ write_varint (bs_id b) @ write_varint 0
      | Indirect palette data bits \<Rightarrow>
          [bits] @ write_varint (usize_as_i32 (length palette))
          @ concat (map (\<lambda>b. write_varint (bs_id b)) palette)
          @ write_varint (usize_as_i32 (length data)) @ concat (map (be_bytes 8) data)
      | Direct data \<Rightarrow>
          [GLOBAL_BITS] @ write_varint 0
          @ write_varint (usize_as_i32 (length data)) @ concat (map (be_bytes 8) data))"

primrec read_longs :: "nat \<Rightarrow> bytes \<Rightarrow> nat \<Rightarrow> (string, u64 list \<times> nat) outcome" where
  "read_longs 0 data offset = Ok ([], offset)"
| "read_longs (Suc n) data offset =
     (if offset + 8 > length data then Err ''data too short''
      else and_then (read_longs n data (offset + 8))
             (\<lambda>(packed, off). Ok (from_be (take 8 (drop offset data)) # packed, off)))"

primrec read_palette :: "nat \<Rightarrow> bytes \<Rightarrow> nat \<Rightarrow> (string, BlockState list \<times> nat) outcome" where
  "read_palette 0 data offset = Ok ([], offset)"
| "read_palette (Suc n) data offset =
     and_then (varint_at ''read palette entry: '' data offset) (\<lambda>(block_id, vb).
       and_then (read_palette n data (offset + vb)) (\<lambda>(palette, off). Ok (block block_id # palette, off)))"

definition decode_network :: "bytes \<Rightarrow> (string, ContainerMode) outcome" where
  "decode_network data =
     (if data = [] then Err ''empty data''
      else
        let bits_per_entry = data ! 0; offset = 1 in
        and_then (varint_at ''read palette len: '' data offset) (\<lambda>(palette_len, varint_bytes).
          let offset = offset + varint_bytes in
          if palette_len = 0 then
            and_then (varint_at ''read data len: '' data offset) (\<lambda>(data_len, vb).
              let offset = offset + vb; long_count = i32_as_usize data_len in
              and_then (with_capacity8 long_count) (\<lambda>_.
              and_then (read_longs long_count data offset) (\<lambda>(packed, _).
                Ok (Direct packed))))
          else
            let palette_len = i32_as_usize palette_len in
            and_then (with_capacity8 palette_len) (\<lambda>_.
            and_then (read_palette palette_len data offset) (\<lambda>(palette, offset).
            and_then (varint_at ''read data len: '' data offset) (\<lambda>(data_len, vb).
              let offset = offset + vb; long_count = i32_as_usize data_len in
              and_then (with_capacity8 long_count) (\<lambda>_.
              and_then (read_longs long_count data offset) (\<lambda>(packed, _).
                if palette_len = 1 then Ok (Single (palette ! 0))
                else Ok (Indirect palette packed bits_per_entry))))))))"

section \<open>The binary format\<close>

text \<open>\<open>chunks(4)\<close> and \<open>chunks_exact(8)\<close> of a slice.\<close>

fun chunks :: "nat \<Rightarrow> 'a list \<Rightarrow> 'a list list" where
  "chunks n [] = []"
| "chunks n (x # xs) = take (Suc (n - 1)) (x # xs) # chunks n (drop (n - 1) xs)"

function chunks_exact :: "nat \<Rightarrow> 'a list \<Rightarrow> 'a list list" where
  "chunks_exact n xs = (if n = 0 \<or> length xs < n then [] else take n xs # chunks_exact n (drop n xs))"
  by pat_completeness auto
termination by (relation "measure (\<lambda>(n, xs). length xs)") auto

declare chunks_exact.simps [simp del]

definition fast_u64_to_bytes :: "u64 list \<Rightarrow> bytes \<Rightarrow> bytes" where
  "fast_u64_to_bytes data buf =
     fold (\<lambda>chunk buf. fold (\<lambda>d buf. buf @ le_bytes 8 d) chunk buf) (chunks 4 data) buf"

text \<open>The loop of \<open>fast_bytes_to_u64\<close>, from \<open>read\<close> words read so far.\<close>

fun fast_read_loop :: "bytes list \<Rightarrow> nat \<Rightarrow> u64 list \<Rightarrow> nat \<Rightarrow> u64 list \<times> nat" where
  "fast_read_loop [] count data nread = (data, nread)"
| "fast_read_loop (chunk # rest) count data nread =
     (if nread \<ge> count then (data, nread)
      else fast_read_loop rest count (data @ [from_le chunk]) (nread + 1))"

definition fast_bytes_to_u64 :: "bytes \<Rightarrow> u64 list \<Rightarrow> nat \<Rightarrow> u64 list \<times> nat" where
  "fast_bytes_to_u64 bs data count = fast_read_loop (chunks_exact 8 bs) count data 0"

definition encode_binary :: "ContainerMode \<Rightarrow> bytes" where
  "encode_binary c =
     (case c of
        Single b \<Rightarrow> [0] @ le_bytes 4 (bs_id b)
      | Indirect palette data bits \<Rightarrow>
          fast_u64_to_bytes data
            ([1] @ le_bytes 2 (word_of_nat (length palette) :: u16)
             @ concat (map (\<lambda>b. le_bytes 4 (bs_id b)) palette) @ [bits]
             @ le_bytes 4 (word_of_nat (length data) :: u32))
      | Direct data \<Rightarrow>
          fast_u64_to_bytes data ([2, 15] @ le_bytes 4 (word_of_nat (length data) :: u32)))"

primrec read_ids :: "nat \<Rightarrow> bytes \<Rightarrow> nat \<Rightarrow> (string, BlockState list \<times> nat) outcome" where
  "read_ids 0 data pos = Ok ([], pos)"
| "read_ids (Suc n) data pos =
     (if pos + 4 > length data then Err ''truncated palette entry''
      else and_then (read_ids n data (pos + 4))
             (\<lambda>(palette, pos'). Ok (block (from_le (take 4 (drop pos data))) # palette, pos')))"

definition decode_binary :: "bytes \<Rightarrow> (string, ContainerMode \<times> nat) outcome" where
  "decode_binary data =
     (if data = [] then Err ''empty data''
      else
        let mode_byte = data ! 0; pos = 1 in
        if mode_byte = 0 then
          if pos + 4 > length data then Err ''truncated single''
          else Ok (Single (block (from_le (take 4 (drop pos data)))), pos + 4)
        else if mode_byte = 1 then
          if pos + 2 > length data then Err ''truncated palette len''
          else
            let plen = unat (from_le (take 2 (drop pos data)) :: u16); pos = pos + 2 in
            and_then (read_ids plen data pos) (\<lambda>(palette, pos).
              if pos \<ge> length data then Err ''truncated bits''
              else
                let bits = data ! pos; pos = pos + 1 in
                if pos + 4 > length data then Err ''truncated data len''
                else
                  let dlen = unat (from_le (take 4 (drop pos data)) :: u32); pos = pos + 4;
                      (entries, n) = fast_bytes_to_u64 (drop pos data) [] dlen
                  in Ok (Indirect palette entries bits, pos + n * 8))
        else if mode_byte = 2 then
          if pos \<ge> length data then Err ''truncated direct bits''
          else
            let pos = pos + 1 in
            if pos + 4 > length data then Err ''truncated direct data len''
            else
              let dlen = unat (from_le (take 4 (drop pos data)) :: u32); pos = pos + 4;
                  (entries, n) = fast_bytes_to_u64 (drop pos data) [] dlen
              in Ok (Direct entries, pos + n * 8)
        else Err (''unknown container mode: '' @ show_nat (unat mode_byte)))"

section \<open>Batch routines\<close>

text \<open>One word of the four-bit path: entries before \<open>start_idx\<close> are skipped, and the loop stops
  pushing at \<open>count\<close> results.\<close>

definition push_nibble :: "nat \<Rightarrow> nat \<Rightarrow> nat \<Rightarrow> u64 \<Rightarrow> nat \<Rightarrow> u64 list \<Rightarrow> u64 list" where
  "push_nibble start_idx count wi word i result =
     (let idx = wi * 16 + i in
      if idx < start_idx then result
      else if length result \<ge> count then result
      else result @ [shr64 word (i * 4) AND 0x0F])"

definition batch_read_packed :: "u64 list \<Rightarrow> nat \<Rightarrow> nat \<Rightarrow> u8 \<Rightarrow> u64 list option" where
  "batch_read_packed data start_idx count bits =
     (if bits = 0 then Some (replicate count 0)
      else if bits = 4 then
        let words_needed = (start_idx + count) div 16 + 1;
            start_wi = start_idx div 16;
            end_wi = min words_needed (length data)
        in Some (fold (\<lambda>(wi, word) result. fold (push_nibble start_idx count wi word) [0..<16] result)
                   (take (end_wi - start_wi) (drop start_wi (enumerate 0 data))) [])
      else those (map (\<lambda>i. read_packed data (start_idx + i) bits) [0..<count]))"

definition write_nibble :: "u64 list \<Rightarrow> nat \<Rightarrow> u64 \<Rightarrow> u64 list option" where
  "write_nibble data idx val =
     (let wi = idx div 16; shift = (idx mod 16) * 4 in
      if wi < length data then
        Some (data[wi := (data ! wi AND NOT (shl64 0x0F shift)) OR shl64 (val AND 0x0F) shift])
      else Some data)"

definition batch_write_packed :: "u64 list \<Rightarrow> nat \<Rightarrow> u64 list \<Rightarrow> u8 \<Rightarrow> u64 list option" where
  "batch_write_packed data start_idx values bits =
     (if bits = 0 then Some data
      else put_all (if bits = 4 then write_nibble else write_packed bits) data
             (enumerate start_idx values))"


section \<open>What a format carries\<close>

fun without_props :: "ContainerMode \<Rightarrow> ContainerMode" where
  "without_props (Single b) = Single (block (bs_id b))"
| "without_props (Indirect palette data bits) = Indirect (map (\<lambda>b. block (bs_id b)) palette) data bits"
| "without_props (Direct data) = Direct data"

lemma varint_at_written:
  assumes "drop off data = write_varint v @ rest"
  shows "varint_at msg data off = Ok (v, length (write_varint v))"
proof -
  have "write_varint v \<noteq> []"
    using length_write_varint_pos [of v] by auto
  then have "off \<le> length data"
    using drop_nonempty [OF assms] by simp
  then show ?thesis
    using assms by (simp add: varint_at_def varint.dec_enc)
qed

lemma read_longs_written:
  "drop off data = concat (map (be_bytes 8) ws) @ rest \<Longrightarrow>
   read_longs (length ws) data off = Ok (ws, off + 8 * length ws)"
proof (induction ws arbitrary: off)
  case Nil
  then show ?case by simp
next
  case (Cons w ws)
  have d: "drop off data = be_bytes 8 w @ (concat (map (be_bytes 8) ws) @ rest)"
    using Cons.prems by simp
  have "drop (off + 8) data = concat (map (be_bytes 8) ws) @ rest"
    using drop_prefix [OF d] by simp
  from Cons.IH [OF this] show ?case
    using drop_nonempty [OF d] d by (auto simp flip: length_greater_0_conv)
qed

lemma read_palette_written:
  "drop off data = concat (map (\<lambda>b. write_varint (bs_id b)) ps) @ rest \<Longrightarrow>
   read_palette (length ps) data off =
     Ok (map (\<lambda>b. block (bs_id b)) ps, off + length (concat (map (\<lambda>b. write_varint (bs_id b)) ps)))"
proof (induction ps arbitrary: off)
  case Nil
  then show ?case by simp
next
  case (Cons b ps)
  let ?e = "\<lambda>b. write_varint (bs_id b)"
  have d: "drop off data = ?e b @ (concat (map ?e ps) @ rest)"
    using Cons.prems by simp
  show ?case
    using Cons.IH [OF drop_prefix [OF d]] varint_at_written [OF d] by simp
qed

lemma with_capacity8_small: "n < 2 ^ 31 \<Longrightarrow> with_capacity8 n = Ok ()"
  by (simp add: with_capacity8_def)

text \<open>Reading the data section: its length, then its words.\<close>

lemma data_section:
  assumes "drop off data = write_varint (usize_as_i32 (length ws)) @ concat (map (be_bytes 8) ws)"
    and "length ws < 2 ^ 31"
  shows "and_then (varint_at msg data off) (\<lambda>(data_len, vb).
      let offset = off + vb; long_count = i32_as_usize data_len in
      and_then (with_capacity8 long_count) (\<lambda>_. and_then (read_longs long_count data offset) (\<lambda>(packed, _). k packed)))
    = k ws"
proof -
  have d: "drop off data = write_varint (usize_as_i32 (length ws)) @ (concat (map (be_bytes 8) ws) @ [])"
    using assms(1) by simp
  show ?thesis
    using varint_at_written [OF d] read_longs_written [OF drop_prefix [OF d]] assms(2)
    by (simp add: with_capacity8_small Let_def)
qed

lemma packed_ok_length: "packed_ok bits BLOCKS_PER_SECTION data \<Longrightarrow> length data \<le> 4096"
proof -
  assume h: "packed_ok bits BLOCKS_PER_SECTION data"
  then have "4096 * unat bits \<le> 4096 * 63"
    by (simp add: packed_ok_def)
  then have "(4096 * unat bits + 63) div 64 \<le> 4096"
    by simp
  then show ?thesis
    using h by (auto simp: packed_ok_def packed_words_def BLOCKS_PER_SECTION_def)
qed

lemma decode_network_Indirect:
  assumes p: "2 \<le> length palette" "length palette \<le> 2 ^ 15" and d: "length data < 2 ^ 31"
  shows "decode_network (encode_network (Indirect palette data bits))
    = Ok (without_props (Indirect palette data bits))"
proof -
  let ?e = "\<lambda>b. write_varint (bs_id b)"
  let ?D = "write_varint (usize_as_i32 (length data)) @ concat (map (be_bytes 8) data)"
  let ?all = "encode_network (Indirect palette data bits)"
  have small: "length palette < 2 ^ 31"
    using p(2) by simp
  have s1: "drop 1 ?all = write_varint (usize_as_i32 (length palette)) @ (concat (map ?e palette) @ ?D)"
    by (simp add: encode_network_def)
  note s2 = drop_prefix [OF s1]
  note s3 = drop_prefix [OF s2]
  have nz: "usize_as_i32 (length palette) \<noteq> 0"
    using unat_usize_as_i32 [of "length palette"] small p(1) by auto
  have head: "?all \<noteq> []" "?all ! 0 = bits"
    by (simp_all add: encode_network_def)
  show ?thesis
    using p small
    by (simp add: decode_network_def head varint_at_written [OF s1, simplified] nz with_capacity8_small
        read_palette_written [OF s2, simplified] Let_def
        data_section [OF s3 d, simplified Let_def plus_1_eq_Suc add_Suc])
qed

lemma decode_network_Direct:
  assumes d: "length data < 2 ^ 31"
  shows "decode_network (encode_network (Direct data)) = Ok (Direct data)"
proof -
  let ?D = "write_varint (usize_as_i32 (length data)) @ concat (map (be_bytes 8) data)"
  let ?all = "encode_network (Direct data)"
  have s1: "drop 1 ?all = write_varint 0 @ ?D"
    by (simp add: encode_network_def)
  have head: "?all \<noteq> []"
    by (simp add: encode_network_def)
  show ?thesis
    by (simp add: decode_network_def head varint_at_written [OF s1, simplified] Let_def
        data_section [OF drop_prefix [OF s1] d, simplified Let_def plus_1_eq_Suc add_Suc])
qed

lemma decode_network_Single: "decode_network (encode_network (Single b)) = Ok (Single (block (bs_id b)))"
proof -
  let ?all = "encode_network (Single b)"
  let ?e = "\<lambda>b. write_varint (bs_id b)"
  let ?D = "write_varint (usize_as_i32 (length ([] :: u64 list))) @ concat (map (be_bytes 8) ([] :: u64 list))"
  have D: "?D = write_varint 0"
    by (simp add: usize_as_i32_def)
  have s1: "drop 1 ?all = write_varint 1 @ (concat (map ?e [b]) @ ?D)"
    unfolding D by (simp add: encode_network_def)
  note s2 = drop_prefix [OF s1]
  have s3: "drop (1 + length (write_varint 1) + length (?e b)) ?all = ?D"
    using drop_prefix [OF s2] by (simp only: list.map concat.simps append_Nil2)
  have d: "length ([] :: u64 list) < 2 ^ 31" by simp
  have head: "?all \<noteq> []"
    by (simp add: encode_network_def)
  have one: "i32_as_usize 1 = Suc 0"
    using usize_i32_roundtrip [of 1] by (simp add: usize_as_i32_def)
  show ?thesis
    using read_palette_written [OF s2]
    by (simp add: decode_network_def head varint_at_written [OF s1, simplified] with_capacity8_small
        Let_def one data_section [OF s3 d, simplified Let_def plus_1_eq_Suc add_Suc]
        del: read_palette.simps)
qed

lemma decode_encode_network:
  assumes "paletted_wf c"
  shows "decode_network (encode_network c) = Ok (without_props c)"
proof (cases c)
  case (Single b)
  then show ?thesis by (simp add: decode_network_Single)
next
  case (Indirect palette data bits)
  then have h: "2 \<le> length palette" "length palette \<le> 2 ^ unat bits" "unat bits \<le> 15"
    "length data \<le> 4096"
    using assms packed_ok_length by auto
  have "length palette \<le> 2 ^ 15"
    using h(2) power_increasing [OF h(3), of "2 :: nat"] by linarith
  then show ?thesis
    using Indirect decode_network_Indirect [of palette data bits] h by simp
next
  case (Direct data)
  then have "length data \<le> 4096"
    using assms packed_ok_length by auto
  then show ?thesis
    using Direct decode_network_Direct [of data] by simp
qed

lemma get_at_without_props:
  assumes "paletted_wf c" and "i < BLOCKS_PER_SECTION"
  shows "get_at (without_props c) i = map_option (\<lambda>b. block (bs_id b)) (get_at c i)"
proof (cases c)
  case (Indirect palette data bits)
  have wf: "paletted_wf (Indirect palette data bits)"
    using assms(1) Indirect by simp
  obtain v :: u64 where v: "read_packed data i bits = Some v" "unat v < length palette"
    "get_at (Indirect palette data bits) i = Some (palette ! unat v)"
    using get_at_Indirect [OF wf assms(2)] by blast
  have "bits \<noteq> 0"
    using wf by (auto simp: packed_ok_def)
  then show ?thesis
    using Indirect v by (simp add: palette_lookup_def nth_opt_def)
next
  case (Direct data)
  show ?thesis
    unfolding Direct
    by (cases "read_packed data i GLOBAL_BITS") (simp_all add: block_def)
qed simp

text \<open>What the client is sent decodes to the section the server has: \<open>decode_network\<close> takes
  the network form of a well-formed container back to a container in which every block has
  its identifier, in whatever mode the container is; the property bits of the blocks
  are not sent.\<close>

theorem network_roundtrip:
  assumes "paletted_wf c"
  shows "\<exists>c'. decode_network (encode_network c) = Ok c'
    \<and> (\<forall>x < 16. \<forall>y < 16. \<forall>z < 16.
         paletted_get c' x y z = map_option (\<lambda>b. block (bs_id b)) (paletted_get c x y z))"
  using decode_encode_network [OF assms] get_at_without_props [OF assms] yzx_index_less
  by (auto simp: paletted_get_def BLOCKS_PER_SECTION_def)

theorem network_roundtrip_witness:
  "\<exists>c'. decode_network (encode_network (filled (with_props 53 3))) = Ok c'
    \<and> paletted_get c' 1 2 3 = Some (block 53)"
proof -
  have "paletted_wf (filled (with_props 53 3))"
    by (simp add: filled_def)
  from network_roundtrip [OF this] obtain c'
    where c': "decode_network (encode_network (filled (with_props 53 3))) = Ok c'"
      and get: "\<forall>x < 16. \<forall>y < 16. \<forall>z < 16. paletted_get c' x y z
        = map_option (\<lambda>b. block (bs_id b)) (paletted_get (filled (with_props 53 3)) x y z)"
    by blast
  have "paletted_get c' 1 2 3 = Some (block 53)"
    using get [rule_format, of 1 2 3] by (simp add: filled_def paletted_get_def with_props_def)
  with c' show ?thesis by blast
qed


section \<open>The binary round trip\<close>

lemma concat_chunks: "0 < n \<Longrightarrow> concat (chunks n xs) = xs"
  by (induction n xs rule: chunks.induct) (simp_all add: take_Cons' )

lemma fold_append: "fold (\<lambda>d buf. buf @ f d) ds buf = buf @ concat (map f ds)"
  by (induction ds arbitrary: buf) simp_all

lemma fold_fold_append:
  "fold (\<lambda>chunk buf. fold (\<lambda>d buf. buf @ f d) chunk buf) cs buf = buf @ concat (map f (concat cs))"
  by (induction cs arbitrary: buf) (simp_all add: fold_append)

lemma fast_u64_to_bytes_eq: "fast_u64_to_bytes data buf = buf @ concat (map (le_bytes 8) data)"
  by (simp add: fast_u64_to_bytes_def fold_fold_append concat_chunks)

lemma fast_read_loop_eq:
  "fast_read_loop cs count data n =
     (data @ map from_le (take (count - n) cs), n + min (count - n) (length cs))"
proof (induction cs count data n rule: fast_read_loop.induct)
  case (2 chunk rest count data n)
  then show ?case
    by (cases "count - n") (auto simp: not_le dest: arg_cong [where f = "\<lambda>k. k - 1"])
qed simp

lemma chunks_exact_words:
  "length rest < 8 \<Longrightarrow> chunks_exact 8 (concat (map (le_bytes 8) ws) @ rest) = map (le_bytes 8) ws"
proof (induction ws)
  case Nil
  then show ?case by (simp add: chunks_exact.simps)
next
  case (Cons w ws)
  then show ?case
    by (subst chunks_exact.simps) simp
qed

lemma take_chunks_exact:
  "n \<le> length ws \<Longrightarrow>
   take n (chunks_exact 8 (concat (map (le_bytes 8) ws) @ rest)) = map (le_bytes 8) (take n ws)"
proof (induction ws arbitrary: n)
  case (Cons w ws)
  then show ?case
    by (subst chunks_exact.simps) (cases n; simp)
qed simp

lemma length_chunks_exact_ge: "length ws \<le> length (chunks_exact 8 (concat (map (le_bytes 8) ws) @ rest))"
proof (induction ws)
  case (Cons w ws)
  then show ?case
    by (subst chunks_exact.simps) simp
qed simp

lemma fast_bytes_to_u64_written:
  "fast_bytes_to_u64 (concat (map (le_bytes 8) ws) @ rest) [] (length ws) = (ws, length ws)"
proof -
  have "map (from_le \<circ> le_bytes 8) ws = (ws :: u64 list)"
    by (simp add: comp_def)
  then show ?thesis
    using take_chunks_exact [of "length ws" ws rest] length_chunks_exact_ge [of ws rest]
    by (simp add: fast_bytes_to_u64_def fast_read_loop_eq)
qed

text \<open>A slice cut short gives the whole words it still holds.\<close>

lemma fast_bytes_to_u64_truncated:
  assumes "length rest < 8" and "length ws \<le> count"
  shows "fast_bytes_to_u64 (concat (map (le_bytes 8) ws) @ rest) [] count = (ws, length ws)"
proof -
  have "map (from_le \<circ> le_bytes 8) ws = (ws :: u64 list)"
    by (simp add: comp_def)
  then show ?thesis
    using chunks_exact_words [OF assms(1), of ws] assms(2)
    by (simp add: fast_bytes_to_u64_def fast_read_loop_eq)
qed

lemma read_ids_written:
  "drop pos data = concat (map (\<lambda>b. le_bytes 4 (bs_id b)) ps) @ rest \<Longrightarrow>
   read_ids (length ps) data pos = Ok (map (\<lambda>b. block (bs_id b)) ps, pos + 4 * length ps)"
proof (induction ps arbitrary: pos)
  case (Cons b ps)
  let ?e = "\<lambda>b. le_bytes 4 (bs_id b)"
  have d: "drop pos data = ?e b @ (concat (map ?e ps) @ rest)"
    using Cons.prems by simp
  have "drop (pos + 4) data = concat (map ?e ps) @ rest"
    using drop_prefix [OF d] by simp
  from Cons.IH [OF this] show ?case
    using drop_nonempty [OF d] d by (auto simp flip: length_greater_0_conv)
qed simp

lemma decode_binary_Indirect:
  assumes p: "length palette \<le> 2 ^ 15" and d: "length data < 2 ^ 31"
  shows "decode_binary (encode_binary (Indirect palette data bits) @ rest)
    = Ok (without_props (Indirect palette data bits), length (encode_binary (Indirect palette data bits)))"
proof -
  let ?e = "\<lambda>b. le_bytes 4 (bs_id b)"
  let ?p = "le_bytes 2 (word_of_nat (length palette) :: u16)"
  let ?n = "le_bytes 4 (word_of_nat (length data) :: u32)"
  let ?D = "?n @ (concat (map (le_bytes 8) data) @ rest)"
  define D where "D = encode_binary (Indirect palette data bits) @ rest"
  have len: "length (concat (map ?e palette)) = 4 * length palette" "length (concat (map (le_bytes 8) data)) = 8 * length data"
    by (simp_all add: length_concat comp_def sum_list_triv)
  have D: "D = [1] @ ?p @ (concat (map ?e palette) @ ([bits] @ ?D))"
    by (simp add: D_def encode_binary_def fast_u64_to_bytes_eq)
  have s1: "drop 1 D = ?p @ (concat (map ?e palette) @ ([bits] @ ?D))"
    unfolding D by simp
  have s2: "drop (1 + 2) D = concat (map ?e palette) @ ([bits] @ ?D)"
    using drop_prefix [OF s1] by (simp only: length_le_bytes)
  have s3: "drop (1 + 2 + 4 * length palette) D = [bits] @ ?D"
    using drop_prefix [OF s2] by (simp only: len)
  have s4: "drop (1 + 2 + 4 * length palette + 1) D = ?D"
    using drop_prefix [OF s3] by (simp only: list.size add_0 One_nat_def)
  have s5: "drop (1 + 2 + 4 * length palette + 1 + 4) D = concat (map (le_bytes 8) data) @ rest"
    using drop_prefix [OF s4] by (simp only: length_le_bytes)
  have l: "length D = 8 + 4 * length palette + 8 * length data + length rest"
    unfolding D by (simp add: len)
  have bits: "D ! (1 + 2 + 4 * length palette) = bits"
    using s3 l by (metis append_Cons hd_drop_conv_nth list.sel(1) drop_eq_Nil list.distinct(1) not_le)
  have plen: "unat (word_of_nat (length palette) :: u16) = length palette"
    using p by (simp add: unat_of_nat)
  have dlen: "unat (word_of_nat (length data) :: u32) = length data"
    using d by (simp add: unat_of_nat)
  have ids: "read_ids (length palette) D (1 + 2)
      = Ok (map (\<lambda>b. block (bs_id b)) palette, 1 + 2 + 4 * length palette)"
    by (rule read_ids_written [OF s2])
  have head: "D \<noteq> []" "D ! 0 = 1"
    unfolding D by simp_all
  have room: "\<not> length D < 1 + 2" "\<not> length D \<le> 1 + 2 + 4 * length palette"
    "\<not> length D < 1 + 2 + 4 * length palette + 1 + 4"
    unfolding l by simp_all
  have t1: "(from_le (take 2 (drop 1 D)) :: u16) = word_of_nat (length palette)"
    unfolding s1 by simp
  have t2: "(from_le (take 4 (drop (1 + 2 + 4 * length palette + 1) D)) :: u32) = word_of_nat (length data)"
    unfolding s4 by simp
  have t3: "fast_bytes_to_u64 (drop (1 + 2 + 4 * length palette + 1 + 4) D) [] (length data) = (data, length data)"
    unfolding s5 by (rule fast_bytes_to_u64_written)
  have le: "length (encode_binary (Indirect palette data bits)) = 1 + 2 + 4 * length palette + 1 + 4 + length data * 8"
    using l by (simp add: D_def)
  show ?thesis
    unfolding D_def [symmetric] decode_binary_def
    by (simp only: head if_False if_True Let_def room t1 plen one_neq_zero
        t2 dlen t3 bits ids and_then.simps prod.case le without_props.simps simp_thms)
qed

lemma decode_binary_Direct_raw:
  assumes D: "D = [2, 15] @ le_bytes 4 (word_of_nat n :: u32) @ concat (map (le_bytes 8) ws) @ rest"
    and n: "n < 2 ^ 31" "length ws \<le> n" and rest: "length rest < 8 \<or> length ws = n"
  shows "decode_binary D = Ok (Direct ws, 6 + length ws * 8)"
proof -
  have head: "D \<noteq> []" "D ! 0 = 2" and room: "\<not> length D \<le> 1" "\<not> length D < 1 + 1 + 4"
    by (simp_all add: D)
  have s: "(from_le (take 4 (drop (1 + 1) D)) :: u32) = word_of_nat n"
    "drop (1 + 1 + 4) D = concat (map (le_bytes 8) ws) @ rest"
    by (simp_all add: D)
  have nn: "unat (word_of_nat n :: u32) = n"
    using n(1) by (simp add: unat_of_nat)
  have t: "fast_bytes_to_u64 (drop (1 + 1 + 4) D) [] n = (ws, length ws)"
    unfolding s using fast_bytes_to_u64_written fast_bytes_to_u64_truncated n(2) rest by blast
  have m: "(2 :: u8) \<noteq> 0" "(2 :: u8) \<noteq> 1"
    by simp_all
  have e: "1 + 1 + 4 + k = 6 + (k :: nat)" for k
    by simp
  show ?thesis
    unfolding decode_binary_def
    by (simp only: head m if_False if_True Let_def room s(1) nn t prod.case e simp_thms)
qed

lemma decode_encode_binary:
  assumes "paletted_wf c"
  shows "decode_binary (encode_binary c @ rest) = Ok (without_props c, length (encode_binary c))"
proof (cases c)
  case (Single b)
  then show ?thesis
    by (simp add: encode_binary_def decode_binary_def)
next
  case (Indirect palette data bits)
  then have h: "2 \<le> length palette" "length palette \<le> 2 ^ unat bits" "unat bits \<le> 15"
    "length data \<le> 4096"
    using assms packed_ok_length by auto
  have "length palette \<le> 2 ^ 15"
    using h(2) power_increasing [OF h(3), of "2 :: nat"] by linarith
  then show ?thesis
    using Indirect decode_binary_Indirect [of palette data bits rest] h by simp
next
  case (Direct data)
  then have "length data \<le> 4096"
    using assms packed_ok_length by auto
  moreover have "length (concat (map (le_bytes 8) data)) = length data * 8"
    by (simp add: length_concat comp_def sum_list_triv)
  ultimately show ?thesis
    using Direct decode_binary_Direct_raw [of "encode_binary c @ rest" "length data" data rest]
    by (simp add: encode_binary_def fast_u64_to_bytes_eq)
qed

interpretation container_wire: wire_format encode_binary decode_binary
    "\<lambda>c. paletted_wf c \<and> without_props c = c"
  by unfold_locales (simp add: decode_encode_binary)

text \<open>Saving a section: whatever follows it in the file, \<open>decode_binary\<close> reads a well-formed
  container back from its binary form, stops where the form ends, and every block keeps its
  identifier; the property bits of the blocks (facing, waterlogging, growth) are not saved.\<close>

theorem binary_roundtrip:
  assumes "paletted_wf c"
  shows "\<exists>c'. decode_binary (encode_binary c @ rest) = Ok (c', length (encode_binary c))
    \<and> (\<forall>x < 16. \<forall>y < 16. \<forall>z < 16.
         paletted_get c' x y z = map_option (\<lambda>b. block (bs_id b)) (paletted_get c x y z))"
  using decode_encode_binary [OF assms] get_at_without_props [OF assms] yzx_index_less
  by (auto simp: paletted_get_def BLOCKS_PER_SECTION_def)

theorem binary_roundtrip_witness:
  "\<exists>c'. decode_binary (encode_binary (filled (with_props 53 3)) @ [7]) = Ok (c', 5)
    \<and> paletted_get c' 1 2 3 = Some (block 53)"
proof -
  have "paletted_wf (filled (with_props 53 3))"
    by (simp add: filled_def)
  from binary_roundtrip [OF this, of "[7]"] obtain c'
    where c': "decode_binary (encode_binary (filled (with_props 53 3)) @ [7])
        = Ok (c', length (encode_binary (filled (with_props 53 3))))"
      and get: "\<forall>x < 16. \<forall>y < 16. \<forall>z < 16. paletted_get c' x y z
        = map_option (\<lambda>b. block (bs_id b)) (paletted_get (filled (with_props 53 3)) x y z)"
    by blast
  have "length (encode_binary (filled (with_props 53 3))) = 5"
    by (simp add: filled_def encode_binary_def)
  moreover have "paletted_get c' 1 2 3 = Some (block 53)"
    using get [rule_format, of 1 2 3] by (simp add: filled_def paletted_get_def with_props_def)
  ultimately show ?thesis
    using c' by auto
qed

lemma take_length_append: "take (length xs + n) (xs @ ys) = xs @ take n ys"
  by simp

lemma take_words: "k \<le> length ws \<Longrightarrow> take (8 * k) (concat (map (le_bytes 8) ws)) = concat (map (le_bytes 8) (take k ws))"
proof (induction ws arbitrary: k)
  case (Cons w ws)
  then show ?case
    by (cases k) simp_all
qed simp

lemma truncated_binary_accepted_facts:
  assumes "paletted_wf (Direct data)" and "k < length data"
  shows "decode_binary (take (6 + 8 * k) (encode_binary (Direct data))) = Ok (Direct (take k data), 6 + 8 * k)"
    and "\<not> paletted_wf (Direct (take k data))"
    and "64 * k \<le> 15 * yzx_index x y z \<Longrightarrow> paletted_get (Direct (take k data)) x y z = None"
proof -
  have len: "length data \<le> 4096"
    using assms(1) packed_ok_length by auto
  have "take (6 + 8 * k) (encode_binary (Direct data)) =
      [2, 15] @ le_bytes 4 (word_of_nat (length data) :: u32) @ concat (map (le_bytes 8) (take k data)) @ []"
    using take_length_append [of "[2, 15] @ le_bytes 4 (word_of_nat (length data) :: u32)"] assms(2)
    by (simp add: encode_binary_def fast_u64_to_bytes_eq take_words)
  from decode_binary_Direct_raw [OF this] show
    "decode_binary (take (6 + 8 * k) (encode_binary (Direct data))) = Ok (Direct (take k data), 6 + 8 * k)"
    using len assms(2) by simp
  show "\<not> paletted_wf (Direct (take k data))"
    using assms by (auto simp: packed_ok_def)
  assume h: "64 * k \<le> 15 * yzx_index x y z"
  then have "k \<le> (yzx_index x y z * 15) div 64"
    by simp
  moreover have "GLOBAL_BITS \<noteq> 0"
    by (simp add: GLOBAL_BITS_def)
  ultimately show "paletted_get (Direct (take k data)) x y z = None"
    using assms(2) by (simp add: paletted_get_def read_packed_def nth_opt_def Let_def)
qed

text \<open>Truncated data is accepted: cutting the binary form of a direct container short at a word
  still decodes to a container, without an error; it is not well-formed, and reading a block of
  its missing part panics.\<close>

theorem truncated_binary_accepted:
  assumes "paletted_wf (Direct data)" and "k < length data" and "64 * k \<le> 15 * yzx_index x y z"
  shows "decode_binary (take (6 + 8 * k) (encode_binary (Direct data))) = Ok (Direct (take k data), 6 + 8 * k)
    \<and> \<not> paletted_wf (Direct (take k data)) \<and> paletted_get (Direct (take k data)) x y z = None"
  using truncated_binary_accepted_facts [OF assms(1,2)] assms(3) by blast

theorem truncated_binary_accepted_witness:
  "decode_binary (take 6 (encode_binary (Direct (replicate 960 0)))) = Ok (Direct [], 6)
   \<and> paletted_get (Direct []) 0 0 0 = None"
proof -
  have wf: "paletted_wf (Direct (replicate 960 0))"
    by (simp add: packed_ok_def packed_words_def BLOCKS_PER_SECTION_def GLOBAL_BITS_def)
  show ?thesis
    using truncated_binary_accepted [OF wf, of 0 0 0 0] by simp
qed


section \<open>The batch routines\<close>

text \<open>A loop that pushes while there is room collects a prefix.\<close>

lemma fold_push_take:
  assumes "\<And>i r. step i r = (if P i then if length r \<ge> count then r else r @ [f i] else r)"
  shows "length r \<le> count \<Longrightarrow> fold step is r = take count (r @ map f (filter P is))"
proof (induction "is" arbitrary: r)
  case (Cons i "is")
  show ?case
  proof (cases "P i \<and> length r < count")
    case True
    then have "step i r = r @ [f i]"
      using assms [of i r] by simp
    moreover have "fold step is (r @ [f i]) = take count ((r @ [f i]) @ map f (filter P is))"
      using True by (intro Cons.IH) simp
    ultimately show ?thesis
      using True by simp
  next
    case False
    then have "step i r = r"
      using assms by auto
    moreover have "take count (r @ f i # xs) = take count (r @ xs)" if "P i" for xs
      using False that Cons.prems by simp
    ultimately show ?thesis
      using Cons.IH [OF Cons.prems] by auto
  qed
qed simp

definition nibble_at :: "u64 list \<Rightarrow> nat \<Rightarrow> u64" where
  "nibble_at data idx = shr64 (data ! (idx div 16)) ((idx mod 16) * 4) AND 0x0F"

lemma read_packed_nibble:
  assumes "idx < 16 * length data"
  shows "read_packed data idx 4 = Some (nibble_at data idx)"
proof -
  have "idx * 4 div 64 = idx div 16"
    using div_mult_mult2 [of 4 idx 16] by simp
  moreover have "idx * 4 mod 64 = (idx mod 16) * 4"
    using mult_mod_left [of idx 16 4] by simp
  moreover have "idx div 16 < length data"
    using assms by (simp add: less_mult_imp_div_less mult.commute)
  moreover have "shl64 1 4 - 1 = 0xF"
    by (simp add: shl64_def)
  moreover have "\<not> (idx mod 16) * 4 + 4 > 64"
    by simp
  ultimately show ?thesis
    by (simp add: read_packed_def nibble_at_def nth_opt_def Let_def)
qed

lemma push_word:
  assumes "length r \<le> count" and "wi < length data"
  shows "fold (push_nibble start count wi (data ! wi)) [0..<16] r
    = take count (r @ map (nibble_at data) (filter (\<lambda>idx. start \<le> idx) [wi * 16..<wi * 16 + 16]))"
proof -
  have "fold (push_nibble start count wi (data ! wi)) [0..<16] r
      = take count (r @ map (\<lambda>i. shr64 (data ! wi) (i * 4) AND 0x0F) (filter (\<lambda>i. start \<le> wi * 16 + i) [0..<16]))"
    using assms(1) by (intro fold_push_take) (auto simp: push_nibble_def Let_def)
  also have "map (\<lambda>i. shr64 (data ! wi) (i * 4) AND 0x0F) (filter (\<lambda>i. start \<le> wi * 16 + i) [0..<16])
      = map (nibble_at data) (map (\<lambda>i. wi * 16 + i) (filter (\<lambda>i. start \<le> wi * 16 + i) [0..<16]))"
    by (auto simp: nibble_at_def)
  also have "map (\<lambda>i. wi * 16 + i) (filter (\<lambda>i. start \<le> wi * 16 + i) [0..<16])
      = filter (\<lambda>idx. start \<le> idx) (map (\<lambda>i. wi * 16 + i) [0..<16])"
    by (simp add: filter_map comp_def)
  also have "map (\<lambda>i. wi * 16 + i) [0..<16] = [wi * 16..<wi * 16 + 16]"
    using map_add_upt [of "wi * 16" 16] by (simp add: add.commute)
  finally show ?thesis .
qed

lemma push_words:
  "length r \<le> count \<Longrightarrow> b \<le> length data \<Longrightarrow>
   fold (\<lambda>(wi, word) result. fold (push_nibble start count wi word) [0..<16] result)
     (map (\<lambda>wi. (wi, data ! wi)) [a..<b]) r
   = take count (r @ map (nibble_at data) (filter (\<lambda>idx. start \<le> idx) [a * 16..<b * 16]))"
proof (induction "b - a" arbitrary: a r)
  case 0
  then show ?case by simp
next
  case (Suc n)
  then have ab: "a < b" by simp
  let ?r = "take count (r @ map (nibble_at data) (filter (\<lambda>idx. start \<le> idx) [a * 16..<a * 16 + 16]))"
  have r: "fold (push_nibble start count a (data ! a)) [0..<16] r = ?r"
    using ab Suc.prems by (intro push_word) simp_all
  have split: "[a * 16..<b * 16] = [a * 16..<a * 16 + 16] @ [Suc a * 16..<b * 16]"
    using ab upt_add_eq_append [of "a * 16" "a * 16 + 16" "b * 16 - (a * 16 + 16)"]
    by (simp add: add.commute)
  have tt: "take count (take count xs @ ys) = take count (xs @ ys)" for xs ys :: "u64 list"
    by (simp add: take_append min_def)
  let ?F = "fold (\<lambda>(wi, word) result. fold (push_nibble start count wi word) [0..<16] result)"
  have "?F (map (\<lambda>wi. (wi, data ! wi)) [a..<b]) r = ?F (map (\<lambda>wi. (wi, data ! wi)) [Suc a..<b]) ?r"
    by (simp only: upt_conv_Cons [OF ab] list.map fold_Cons comp_apply prod.case r)
  also have "\<dots> = take count (?r @ map (nibble_at data) (filter (\<lambda>idx. start \<le> idx) [Suc a * 16..<b * 16]))"
    using Suc.hyps(2) Suc.prems(2) by (intro Suc.hyps(1)) simp_all
  also have "\<dots> = take count (r @ map (nibble_at data) (filter (\<lambda>idx. start \<le> idx) [a * 16..<b * 16]))"
    by (simp only: tt split filter_append map_append append_assoc)
  finally show ?case .
qed

lemma enumerate_words: "enumerate 0 data = map (\<lambda>wi. (wi, data ! wi)) [0..<length data]"
  by (rule nth_equalityI) (simp_all add: nth_enumerate_eq)

lemma those_map_Some: "(\<And>x. x \<in> set xs \<Longrightarrow> f x = Some (g x)) \<Longrightarrow> those (map f xs) = Some (map g xs)"
  by (induction xs) auto

lemma window:
  assumes "lo \<le> start" and "start + count \<le> (hi :: nat)"
  shows "take count (filter (\<lambda>idx. start \<le> idx) [lo..<hi]) = [start..<start + count]"
proof -
  have "[lo..<lo + (hi - lo)] = [lo..<start] @ [start..<start + (hi - start)]"
    using upt_add_eq_append [of lo start "hi - start"] assms by simp
  moreover have "filter (\<lambda>idx. start \<le> idx) [lo..<start] = []"
    by (simp add: filter_empty_conv)
  moreover have "filter (\<lambda>idx. start \<le> idx) [start..<hi] = [start..<hi]"
    by (simp add: filter_id_conv)
  moreover have "lo + (hi - lo) = hi" "start + (hi - start) = hi"
    using assms by simp_all
  ultimately show ?thesis
    using assms(2) by (simp only: filter_append append_Nil take_upt)
qed

lemma batch_read_nibbles:
  assumes "start + count \<le> 16 * length data"
  shows "batch_read_packed data start count 4 = Some (map (nibble_at data) [start..<start + count])"
proof -
  define a where "a = start div 16"
  define b where "b = min ((start + count) div 16 + 1) (length data)"
  have words: "take (b - a) (drop a (enumerate 0 data)) = map (\<lambda>wi. (wi, data ! wi)) [a..<b]"
    by (simp add: enumerate_words take_map drop_map b_def min_def)
  have "n \<le> (n div 16 + 1) * 16" for n :: nat
    by presburger
  from this [of "start + count"] have hi: "start + count \<le> b * 16"
    unfolding b_def using assms by (cases "(start + count) div 16 + 1 \<le> length data") (simp_all add: min_def)
  have lo: "a * 16 \<le> start"
    by (simp add: a_def)
  have "batch_read_packed data start count 4
      = Some (fold (\<lambda>(wi, word) result. fold (push_nibble start count wi word) [0..<16] result)
                (map (\<lambda>wi. (wi, data ! wi)) [a..<b]) [])"
    unfolding words [symmetric] by (simp add: batch_read_packed_def Let_def a_def b_def)
  also have "\<dots> = Some (take count (map (nibble_at data) (filter (\<lambda>idx. start \<le> idx) [a * 16..<b * 16])))"
    using push_words [of "[]" count b data start a] by (simp add: b_def)
  also have "\<dots> = Some (map (nibble_at data) [start..<start + count])"
    using window [OF lo hi] by (simp only: take_map)
  finally show ?thesis .
qed

lemma write_nibble_write_packed:
  assumes "idx < 16 * length data"
  shows "write_nibble data idx val = write_packed 4 data idx val"
proof -
  have "idx * 4 div 64 = idx div 16"
    using div_mult_mult2 [of 4 idx 16] by simp
  moreover have "idx * 4 mod 64 = (idx mod 16) * 4"
    using mult_mod_left [of idx 16 4] by simp
  moreover have "idx div 16 < length data"
    using assms by (simp add: less_mult_imp_div_less mult.commute)
  moreover have "shl64 1 4 - 1 = 0xF"
    by (simp add: shl64_def)
  moreover have "\<not> (idx mod 16) * 4 + 4 > 64"
    by simp
  ultimately show ?thesis
    by (simp add: write_packed_def write_nibble_def nth_opt_def upd_opt_def Let_def)
qed

lemma packed_ok_4_length: "packed_ok 4 n data \<Longrightarrow> n \<le> 16 * length data"
  by (auto simp: packed_ok_def packed_words_def)

lemma batch_write_nibbles:
  "start + length vs \<le> 16 * length data \<Longrightarrow>
   put_all write_nibble data (enumerate start vs) = put_all (write_packed 4) data (enumerate start vs)"
proof (induction vs arbitrary: start data)
  case (Cons v vs)
  have eq: "write_packed 4 data start v = write_nibble data start v"
    using write_nibble_write_packed [of start data v] Cons.prems by simp
  show ?case
  proof (cases "write_nibble data start v")
    case None
    then show ?thesis by (simp add: eq)
  next
    case (Some d)
    then have "length d = length data"
      by (auto simp: write_nibble_def Let_def split: if_splits)
    then have "put_all write_nibble d (enumerate (Suc start) vs) = put_all (write_packed 4) d (enumerate (Suc start) vs)"
      using Cons.prems by (intro Cons.IH) simp
    with Some show ?thesis by (simp add: eq)
  qed
qed simp

lemma batch_routines_agree_facts:
  assumes "packed_ok bits n data" and "start + count \<le> n" and "start + length vs \<le> n"
  shows "batch_read_packed data start count bits
      = those (map (\<lambda>i. read_packed data i bits) [start..<start + count])"
    and "batch_write_packed data start vs bits = put_all (write_packed bits) data (enumerate start vs)"
proof -
  have shift: "map (\<lambda>i. read_packed data (start + i) bits) [0..<count]
      = map (\<lambda>i. read_packed data i bits) [start..<start + count]"
  proof -
    have "[start..<start + count] = map (\<lambda>i. i + start) [0..<count]"
      using map_add_upt [of start count] by (simp only: add.commute)
    then show ?thesis by (simp add: add.commute)
  qed
  show "batch_read_packed data start count bits
      = those (map (\<lambda>i. read_packed data i bits) [start..<start + count])"
  proof (cases "bits = 4")
    case True
    then have room: "n \<le> 16 * length data"
      using assms(1) packed_ok_4_length by simp
    then have "read_packed data i 4 = Some (nibble_at data i)" if "i \<in> set [start..<start + count]" for i
      using that assms(2) room by (intro read_packed_nibble) auto
    then have "those (map (\<lambda>i. read_packed data i 4) [start..<start + count])
        = Some (map (nibble_at data) [start..<start + count])"
      by (rule those_map_Some)
    then show ?thesis
      using batch_read_nibbles [of start count data] assms(2) room True by simp
  next
    case False
    then show ?thesis
      using assms(1) shift by (auto simp: batch_read_packed_def packed_ok_def)
  qed
  show "batch_write_packed data start vs bits = put_all (write_packed bits) data (enumerate start vs)"
  proof (cases "bits = 4")
    case True
    then have "n \<le> 16 * length data"
      using assms(1) packed_ok_4_length by simp
    then show ?thesis
      using batch_write_nibbles [of start vs data] assms(3) True by (simp add: batch_write_packed_def)
  next
    case False
    then show ?thesis
      using assms(1) by (auto simp: batch_write_packed_def packed_ok_def)
  qed
qed

text \<open>The batch routines do what the single-entry ones do: on a packed array of any width,
  \<open>batch_read_packed\<close> returns the entries \<open>read_packed\<close> returns, one after the other, and
  \<open>batch_write_packed\<close> is the sequence of \<open>write_packed\<close> calls, their four-bit paths included.\<close>

theorem batch_routines_agree:
  assumes "packed_ok bits n data" and "start + count \<le> n" and "start + length vs \<le> n"
  shows "batch_read_packed data start count bits
      = those (map (\<lambda>i. read_packed data i bits) [start..<start + count])
    \<and> batch_write_packed data start vs bits = put_all (write_packed bits) data (enumerate start vs)"
  using batch_routines_agree_facts [OF assms] by blast

theorem batch_routines_agree_witness:
  "batch_read_packed (new_packed 4096 4) 5 20 4 = those (map (\<lambda>i. read_packed (new_packed 4096 4) i 4) [5..<5 + 20])
   \<and> batch_write_packed (new_packed 4096 4) 5 [1, 2, 3] 4
     = put_all (write_packed 4) (new_packed 4096 4) (enumerate 5 [1, 2, 3])"
proof -
  have ok: "packed_ok 4 4096 (new_packed 4096 4)"
    by (rule new_packed_ok) simp_all
  show ?thesis
    by (rule batch_routines_agree [OF ok]) simp_all
qed

end
