(* ===== verification/Chunks.thy ===== *)
theory Chunks
  imports PalettedFormat
begin

text \<open>
  \<open>mc-world/src/chunk.rs\<close>: the light arrays, a section and a chunk of twenty-four sections.
  The global \<open>LRU_COUNTER\<close> is threaded through the operations that draw from it. \<open>None\<close> is a
  panic (an index out of an array).

  Shown: a light array and a chunk are cell stores; \<open>set_block\<close> panics exactly outside the
  world's height, where \<open>get_block\<close> answers air; \<open>height_at\<close> is the top of the column;
  \<open>count_non_air\<close> counts the non-air blocks of a section.
\<close>

section \<open>Light\<close>

definition light_index :: "nat \<Rightarrow> nat \<Rightarrow> nat \<Rightarrow> nat" where
  "light_index x y z = (push_bit 8 y OR push_bit 4 z) OR x"

definition get_light_nibble :: "bytes \<Rightarrow> nat \<Rightarrow> nat \<Rightarrow> nat \<Rightarrow> u8 option" where
  "get_light_nibble light x y z =
     (let idx = light_index x y z in
      if idx mod 2 = 0 then map_option (\<lambda>b. b AND 0x0F) (nth_opt light (idx div 2))
      else map_option (\<lambda>b. drop_bit 4 b) (nth_opt light (idx div 2)))"

definition set_light_nibble :: "bytes \<Rightarrow> nat \<Rightarrow> nat \<Rightarrow> nat \<Rightarrow> u8 \<Rightarrow> bytes option" where
  "set_light_nibble light x y z value =
     (let idx = light_index x y z; v = value AND 0x0F in do {
        b \<leftarrow> nth_opt light (idx div 2);
        if idx mod 2 = 0 then upd_opt light (idx div 2) ((b AND 0xF0) OR v)
        else upd_opt light (idx div 2) ((b AND 0x0F) OR push_bit 4 v)
      })"

section \<open>Sections\<close>

record Section =
  sec_position :: SectionPos
  sec_blocks :: ContainerMode
  sec_biomes :: ContainerMode
  sec_sky :: bytes
  sec_light :: bytes

definition new_section :: "SectionPos \<Rightarrow> Section" where
  "new_section pos =
     \<lparr>sec_position = pos, sec_blocks = new_container, sec_biomes = filled (block 0),
      sec_sky = replicate 2048 0xFF, sec_light = replicate 2048 0\<rparr>"

definition section_get_block :: "Section \<Rightarrow> nat \<Rightarrow> nat \<Rightarrow> nat \<Rightarrow> BlockState option" where
  "section_get_block s x y z = paletted_get (sec_blocks s) x y z"

definition section_set_block :: "Section \<Rightarrow> nat \<Rightarrow> nat \<Rightarrow> nat \<Rightarrow> BlockState \<Rightarrow> Section option" where
  "section_set_block s x y z b =
     map_option (\<lambda>c. s\<lparr>sec_blocks := c\<rparr>) (paletted_set (sec_blocks s) x y z b)"

definition get_sky_light :: "Section \<Rightarrow> nat \<Rightarrow> nat \<Rightarrow> nat \<Rightarrow> u8 option" where
  "get_sky_light s x y z = get_light_nibble (sec_sky s) x y z"

definition set_sky_light :: "Section \<Rightarrow> nat \<Rightarrow> nat \<Rightarrow> nat \<Rightarrow> u8 \<Rightarrow> Section option" where
  "set_sky_light s x y z value =
     map_option (\<lambda>l. s\<lparr>sec_sky := l\<rparr>) (set_light_nibble (sec_sky s) x y z value)"

definition get_block_light :: "Section \<Rightarrow> nat \<Rightarrow> nat \<Rightarrow> nat \<Rightarrow> u8 option" where
  "get_block_light s x y z = get_light_nibble (sec_light s) x y z"

definition set_block_light :: "Section \<Rightarrow> nat \<Rightarrow> nat \<Rightarrow> nat \<Rightarrow> u8 \<Rightarrow> Section option" where
  "set_block_light s x y z value =
     map_option (\<lambda>l. s\<lparr>sec_light := l\<rparr>) (set_light_nibble (sec_light s) x y z value)"

definition fill_sky_light :: "u8 \<Rightarrow> Section \<Rightarrow> Section" where
  "fill_sky_light value s =
     (let v = value AND 0x0F in s\<lparr>sec_sky := replicate 2048 (v OR push_bit 4 v)\<rparr>)"

text \<open>The three nested loops of \<open>count_non_air\<close>, in their order.\<close>

definition section_cells :: "(nat \<times> nat \<times> nat) list" where
  "section_cells = [(x, y, z). x \<leftarrow> [0..<16], y \<leftarrow> [0..<16], z \<leftarrow> [0..<16]]"

primrec count_loop :: "ContainerMode \<Rightarrow> (nat \<times> nat \<times> nat) list \<Rightarrow> nat \<Rightarrow> nat option" where
  "count_loop c [] count = Some count"
| "count_loop c (p # ps) count =
     Option.bind (get_xyz c p) (\<lambda>b. count_loop c ps (if is_air b then count else count + 1))"

definition count_non_air :: "Section \<Rightarrow> nat option" where
  "count_non_air s = count_loop (sec_blocks s) section_cells 0"

section \<open>Chunks\<close>

datatype BlockEntityType = Chest | Furnace | Sign | Beacon | Lectern

fun block_entity_id :: "BlockEntityType \<Rightarrow> string" where
  "block_entity_id Chest = ''minecraft:chest''"
| "block_entity_id Furnace = ''minecraft:furnace''"
| "block_entity_id Sign = ''minecraft:sign''"
| "block_entity_id Beacon = ''minecraft:beacon''"
| "block_entity_id Lectern = ''minecraft:lectern''"

record BlockEntity =
  be_pos :: BlockPos
  be_nbt :: bytes
  be_type :: BlockEntityType

record Chunk =
  ck_position :: ChunkPos
  ck_sections :: "Section option list"
  ck_entities :: "BlockEntity list"
  ck_dirty :: bool
  ck_lru :: u64
  ck_cached :: "bytes option"

definition invalidate_cache :: "Chunk \<Rightarrow> Chunk" where
  "invalidate_cache c = c\<lparr>ck_cached := None\<rparr>"

definition set_cached_bytes :: "bytes \<Rightarrow> Chunk \<Rightarrow> Chunk" where
  "set_cached_bytes data c = c\<lparr>ck_cached := Some data\<rparr>"

text \<open>\<open>LRU_COUNTER.fetch_add(1)\<close> wraps.\<close>

definition new_chunk :: "u64 \<Rightarrow> ChunkPos \<Rightarrow> u64 \<times> Chunk" where
  "new_chunk lru pos =
     (lru + 1,
      \<lparr>ck_position = pos, ck_sections = replicate SECTIONS_PER_CHUNK None, ck_entities = [],
       ck_dirty = True, ck_lru = lru, ck_cached = None\<rparr>)"

definition touch :: "u64 \<Rightarrow> Chunk \<Rightarrow> u64 \<times> Chunk" where
  "touch lru c = (lru + 1, c\<lparr>ck_lru := lru\<rparr>)"

definition section_index :: "i32 \<Rightarrow> nat" where
  "section_index y = i32_as_usize (div_euclid16 y - MIN_SECTION_Y)"

definition section_index_from_section_y :: "i32 \<Rightarrow> nat" where
  "section_index_from_section_y sy = i32_as_usize (sy - MIN_SECTION_Y)"

definition get_block :: "Chunk \<Rightarrow> nat \<Rightarrow> i32 \<Rightarrow> nat \<Rightarrow> BlockState option" where
  "get_block c x y z =
     (case nth_opt (ck_sections c) (section_index y) of
        Some (Some s) \<Rightarrow> section_get_block s x (rem_euclid16 y) z
      | _ \<Rightarrow> Some AIR)"

definition section_or_new :: "Section option \<Rightarrow> SectionPos \<Rightarrow> Section" where
  "section_or_new s pos = (case s of Some s \<Rightarrow> s | None \<Rightarrow> new_section pos)"

definition set_block :: "u64 \<Rightarrow> Chunk \<Rightarrow> nat \<Rightarrow> i32 \<Rightarrow> nat \<Rightarrow> BlockState \<Rightarrow> (u64 \<times> Chunk) option" where
  "set_block lru c x y z b =
     (let (lru, c) = touch lru c; c = invalidate_cache c; section_idx = section_index y in do {
        slot \<leftarrow> nth_opt (ck_sections c) section_idx;
        let s = section_or_new slot \<lparr>sp_chunk = ck_position c, sp_y = MIN_SECTION_Y + word_of_nat section_idx\<rparr>;
        s \<leftarrow> section_set_block s x (rem_euclid16 y) z b;
        Some (lru, c\<lparr>ck_sections := (ck_sections c)[section_idx := Some s], ck_dirty := True\<rparr>)
      })"

definition get_or_create_section :: "Chunk \<Rightarrow> i32 \<Rightarrow> (Chunk \<times> Section) option" where
  "get_or_create_section c sy =
     (let idx = section_index_from_section_y sy in do {
        slot \<leftarrow> nth_opt (ck_sections c) idx;
        let s = section_or_new slot \<lparr>sp_chunk = ck_position c, sp_y = sy\<rparr>;
        Some (c\<lparr>ck_sections := (ck_sections c)[idx := Some s]\<rparr>, s)
      })"

text \<open>\<open>height_at\<close> scans the \<open>n\<close> lowest blocks of a column from the top down.\<close>

primrec height_scan :: "Chunk \<Rightarrow> nat \<Rightarrow> nat \<Rightarrow> nat \<Rightarrow> i32 option" where
  "height_scan c x z 0 = Some (MIN_SECTION_Y * 16)"
| "height_scan c x z (Suc n) =
     (let world_y = MIN_SECTION_Y * 16 + word_of_nat n in
      Option.bind (get_block c x world_y z)
        (\<lambda>b. if \<not> is_air b then Some (world_y + 1) else height_scan c x z n))"

definition height_at :: "Chunk \<Rightarrow> nat \<Rightarrow> nat \<Rightarrow> i32 option" where
  "height_at c x z = height_scan c x z 384"

definition combined_light :: "Chunk \<Rightarrow> nat \<Rightarrow> i32 \<Rightarrow> nat \<Rightarrow> u8 option" where
  "combined_light c x y z =
     (case nth_opt (ck_sections c) (section_index y) of
        Some (Some s) \<Rightarrow> do {
          let ly = rem_euclid16 y;
          sky \<leftarrow> get_sky_light s x ly z;
          blk \<leftarrow> get_block_light s x ly z;
          Some (max sky blk)
        }
      | _ \<Rightarrow> Some 0)"

definition is_spawn_surface :: "Chunk \<Rightarrow> nat \<Rightarrow> i32 \<Rightarrow> nat \<Rightarrow> bool option" where
  "is_spawn_surface c x y z =
     map_option (\<lambda>b. \<not> is_air b \<and> bs_id b \<in> {8, 9, 10, 11, 24, 25, 26, 1, 12, 87, 121, 88})
       (get_block c x y z)"

section \<open>A light array is a cell store\<close>

lemma light_index_eq: "light_index x y z = yzx_index x y z"
  by (simp add: light_index_def yzx_index_def)

definition light_ok :: "bytes \<Rightarrow> bool" where
  "light_ok l \<longleftrightarrow> length l = 2048"

definition nibble :: "u8 \<Rightarrow> bool" where
  "nibble v \<longleftrightarrow> v AND 0x0F = v"

definition get_light :: "bytes \<Rightarrow> nat \<times> nat \<times> nat \<Rightarrow> u8 option" where
  "get_light l p = (case p of (x, y, z) \<Rightarrow> get_light_nibble l x y z)"

definition set_light :: "bytes \<Rightarrow> nat \<times> nat \<times> nat \<Rightarrow> u8 \<Rightarrow> bytes option" where
  "set_light l p v = (case p of (x, y, z) \<Rightarrow> set_light_nibble l x y z v)"

definition low_nibble :: "nat \<Rightarrow> u8 \<Rightarrow> u8" where
  "low_nibble i b = (if i mod 2 = 0 then b AND 0x0F else drop_bit 4 b)"

definition with_nibble :: "nat \<Rightarrow> u8 \<Rightarrow> u8 \<Rightarrow> u8" where
  "with_nibble i b v = (if i mod 2 = 0 then (b AND 0xF0) OR v else (b AND 0x0F) OR push_bit 4 v)"

lemma light_simps:
  "get_light l p = map_option (low_nibble (index_of p)) (nth_opt l (index_of p div 2))"
  "set_light l p v = (case nth_opt l (index_of p div 2) of None \<Rightarrow> None
     | Some b \<Rightarrow> upd_opt l (index_of p div 2) (with_nibble (index_of p) b (v AND 0x0F)))"
  by (auto simp: get_light_def set_light_def get_light_nibble_def set_light_nibble_def index_of_def
      light_index_eq low_nibble_def with_nibble_def Let_def
      intro!: map_option_cong split: prod.splits option.splits)

lemma bit_masks8: "bit (0x0F :: int) i \<longleftrightarrow> i < 4" "bit (0xF0 :: int) i \<longleftrightarrow> 4 \<le> i \<and> i < 8"
proof -
  have "bit (mask 4 :: int) i \<longleftrightarrow> i < 4"
    by (simp add: bit_mask_iff)
  then show "bit (0x0F :: int) i \<longleftrightarrow> i < 4"
    by (simp add: mask_eq_exp_minus_1)
  have "bit (push_bit 4 (mask 4) :: int) i \<longleftrightarrow> 4 \<le> i \<and> i < 8"
    by (auto simp: bit_push_bit_iff bit_mask_iff)
  then show "bit (0xF0 :: int) i \<longleftrightarrow> 4 \<le> i \<and> i < 8"
    by (simp add: mask_eq_exp_minus_1 push_bit_eq_mult)
qed

lemma nibble_bits: "nibble v \<Longrightarrow> bit v i \<Longrightarrow> i < 4"
proof -
  assume "nibble v" "bit v i"
  then have "bit (v AND 0x0F) i"
    by (simp add: nibble_def)
  then show "i < 4"
    by (simp add: bit_and_iff bit_masks8)
qed

lemma low_with_nibble: "nibble v \<Longrightarrow> low_nibble i (with_nibble i b v) = v"
  by (rule bit_word_eqI)
    (auto simp: low_nibble_def with_nibble_def bit_and_iff bit_or_iff bit_drop_bit_eq bit_push_bit_iff
      bit_masks8 simp del: and_numerals dest: nibble_bits bit_imp_le_length)

lemma low_with_other:
  "nibble v \<Longrightarrow> i mod 2 \<noteq> j mod 2 \<Longrightarrow> low_nibble j (with_nibble i b v) = low_nibble j b"
  by (rule bit_word_eqI)
    (auto simp: low_nibble_def with_nibble_def bit_and_iff bit_or_iff bit_drop_bit_eq bit_push_bit_iff
      bit_masks8 simp del: and_numerals dest: nibble_bits bit_imp_le_length)

lemma light_byte:
  assumes "light_ok l" and "in_section p"
  shows "nth_opt l (index_of p div 2) = Some (l ! (index_of p div 2))" and "index_of p div 2 < length l"
  using index_of_less [OF assms(2)] assms(1)
  by (simp_all add: light_ok_def nth_opt_def BLOCKS_PER_SECTION_def)

lemma nibble_and: "nibble (v AND 0x0F)"
  by (simp add: nibble_def and.assoc)

lemma nibble_low: "nibble (low_nibble i b)"
  unfolding nibble_def
  by (rule bit_word_eqI) (auto simp: low_nibble_def bit_and_iff bit_drop_bit_eq bit_masks8 dest: bit_imp_le_length)

lemma set_light_total:
  assumes "light_ok l" and "in_section p"
  shows "set_light l p v = Some (l[index_of p div 2 :=
    with_nibble (index_of p) (l ! (index_of p div 2)) (v AND 0x0F)])"
  using light_byte [OF assms] by (simp add: light_simps upd_opt_def)

lemma get_light_set_light:
  assumes l: "light_ok l" and p: "in_section p" and q: "in_section q"
    and s: "set_light l p v = Some l'"
  shows "get_light l' q = (if q = p then Some (v AND 0x0F) else get_light l q)"
proof -
  let ?i = "index_of p" and ?j = "index_of q"
  have l': "l' = l[?i div 2 := with_nibble ?i (l ! (?i div 2)) (v AND 0x0F)]"
    using s set_light_total [OF l p, of v] by simp
  have len: "length l' = length l"
    by (simp add: l')
  have get: "get_light l' q = Some (low_nibble ?j (l' ! (?j div 2)))"
    using light_byte [of l' q] l q len by (simp add: light_simps light_ok_def)
  have get0: "get_light l q = Some (low_nibble ?j (l ! (?j div 2)))"
    using light_byte [of l q] l q by (simp add: light_simps)
  show ?thesis
  proof (cases "?j div 2 = ?i div 2")
    case False
    then have "q \<noteq> p" by auto
    then show ?thesis
      using False get get0 by (simp add: l')
  next
    case True
    show ?thesis
    proof (cases "q = p")
      case True
      then show ?thesis
        using get light_byte(2) [OF l p] by (simp add: l' low_with_nibble [OF nibble_and])
    next
      case other: False
      have "?j mod 2 \<noteq> ?i mod 2"
      proof
        assume "?j mod 2 = ?i mod 2"
        then have "?j = ?i"
          using True by (metis div_mult_mod_eq)
        then show False
          using index_of_inj [OF q p other] by simp
      qed
      then show ?thesis
        using True other get get0 light_byte(2) [OF l q]
        by (simp add: l' low_with_other [OF nibble_and])
    qed
  qed
qed

interpretation light: cell_store light_ok in_section nibble get_light set_light
proof
  fix l p assume "light_ok l" "in_section p"
  from light_byte(1) [OF this] show "\<exists>v. get_light l p = Some v \<and> nibble v"
    by (simp add: light_simps nibble_low)
next
  fix l p v assume h: "light_ok l" "in_section p" "nibble v"
  then show "\<exists>l'. set_light l p v = Some l' \<and> light_ok l'"
    using set_light_total [OF h(1,2)] by (simp add: light_ok_def)
  show "get_light l' p = Some v" if "set_light l p v = Some l'" for l'
    using get_light_set_light [OF h(1,2,2) that] h(3) by (simp add: nibble_def)
  show "get_light l' q = get_light l q" if "set_light l p v = Some l'" "in_section q" "q \<noteq> p" for l' q
    using get_light_set_light [OF h(1,2) that(2,1)] that(3) by simp
qed

text \<open>The light of a section: whatever levels are set, in whatever order, each block reads the
  low four bits of the last level set for it and no write disturbs the neighbour that shares
  its byte.\<close>

theorem light_writes_read_back:
  assumes "light_ok l" and "\<And>p v. (p, v) \<in> set ws \<Longrightarrow> in_section p \<and> v < 16"
  shows "\<exists>l'. put_all set_light l ws = Some l' \<and> light_ok l'
    \<and> (\<forall>p. in_section p \<longrightarrow> get_light l' p =
         (case last_write ws p of Some v \<Rightarrow> Some v | None \<Rightarrow> get_light l p))"
proof (rule light.put_all_total)
  show "light_ok l" by (rule assms(1))
  fix p v assume "(p, v) \<in> set ws"
  then have h: "in_section p" "v < 16"
    using assms(2) by auto
  have "v AND mask 4 = v"
    using h(2) by (simp add: word_less_nat_alt flip: take_bit_eq_mask)
      (simp add: word_unat_eq_iff unsigned_take_bit_eq take_bit_nat_eq_self_iff)
  then show "in_section p \<and> nibble v"
    using h(1) by (simp add: nibble_def mask_eq_exp_minus_1)
qed

theorem light_writes_read_back_witness:
  "\<exists>l'. put_all set_light (replicate 2048 0xFF) [((2, 0, 0), 3), ((3, 0, 0), 9)] = Some l'
    \<and> get_light l' (2, 0, 0) = Some 3 \<and> get_light l' (3, 0, 0) = Some 9"
proof -
  have ok: "light_ok (replicate 2048 0xFF)"
    by (simp add: light_ok_def)
  have ws: "in_section p \<and> v < 16"
    if "(p, v) \<in> set [((2, 0, 0), 3), ((3, 0, 0), 9)]" for p and v :: u8
    using that by (auto simp: in_section_def)
  from light_writes_read_back [OF ok, of "[((2, 0, 0), 3), ((3, 0, 0), 9)]", OF ws] obtain l'
    where l': "put_all set_light (replicate 2048 0xFF) [((2, 0, 0), 3), ((3, 0, 0), 9)] = Some l'"
      and get: "\<forall>p. in_section p \<longrightarrow> get_light l' p =
         (case last_write [((2, 0, 0), 3), ((3, 0, 0), 9)] p of Some v \<Rightarrow> Some v
          | None \<Rightarrow> get_light (replicate 2048 0xFF) p)"
    by blast
  have "get_light l' (2, 0, 0) = Some 3" "get_light l' (3, 0, 0) = Some 9"
    using get [rule_format, of "(2, 0, 0)"] get [rule_format, of "(3, 0, 0)"]
    by (simp_all add: in_section_def)
  with l' show ?thesis by blast
qed

section \<open>Section indices\<close>

lemma sint_section_offset: "sint (div_euclid16 y - MIN_SECTION_Y) = sint y div 16 + 4"
proof -
  have b: "- (2 ^ 31) \<le> sint y" "sint y < 2 ^ 31"
    using sint_ge [of y] sint_lt [of y] by simp_all
  have "div_euclid16 y - MIN_SECTION_Y = word_of_int (sint y div 16 + 4)"
    by (simp add: div_euclid16_def MIN_SECTION_Y_def)
  moreover have "signed_take_bit 31 (sint y div 16 + 4) = sint y div 16 + 4"
    using b by (intro signed_take_bit_int_eq_self; simp; linarith)
  ultimately show ?thesis
    by (simp only: signed_of_int) simp
qed

lemma section_index_inside:
  assumes "- 64 \<le> sint y" and "sint y < 320"
  shows "section_index y = nat (sint y div 16 + 4)" and "section_index y < 24"
proof -
  have b: "0 \<le> sint y div 16 + 4" "sint y div 16 + 4 < 24"
    using assms by linarith+
  then have "uint (div_euclid16 y - MIN_SECTION_Y) = sint y div 16 + 4"
    using sint_section_offset [of y] by (simp add: uint_eq_sint_nonneg)
  then show "section_index y = nat (sint y div 16 + 4)"
    using b by (simp add: section_index_def i32_as_usize_nonneg sint_section_offset flip: nat_uint_eq)
  then show "section_index y < 24"
    using b by linarith
qed

lemma section_index_outside:
  assumes "\<not> (- 64 \<le> sint y \<and> sint y < 320)"
  shows "24 \<le> section_index y"
proof (cases "sint y < - 64")
  case True
  then have neg: "sint (div_euclid16 y - MIN_SECTION_Y) < 0"
    unfolding sint_section_offset by linarith
  have "- (2 ^ 31) \<le> sint (div_euclid16 y - MIN_SECTION_Y)"
    using sint_ge [of "div_euclid16 y - MIN_SECTION_Y"] by simp
  then show ?thesis
    using neg by (simp add: section_index_def i32_as_usize_neg)
next
  case False
  then have "24 \<le> sint y div 16 + 4"
    using assms by linarith
  then show ?thesis
    using sint_section_offset [of y]
    by (simp add: section_index_def i32_as_usize_nonneg uint_eq_sint_nonneg flip: nat_uint_eq)
qed

lemma block_of_parts:
  assumes "section_index y = section_index y'" and "rem_euclid16 y = rem_euclid16 y'"
    and "- 64 \<le> sint y" "sint y < 320" "- 64 \<le> sint y'" "sint y' < 320"
  shows "y = y'"
proof (rule split16_unique)
  have "0 \<le> sint y div 16 + 4" "0 \<le> sint y' div 16 + 4"
    using assms(3-6) by linarith+
  then have "sint y div 16 = sint y' div 16"
    using assms(1) section_index_inside(1) [OF assms(3,4)] section_index_inside(1) [OF assms(5,6)]
    by (simp add: eq_nat_nat_iff)
  then show "shr4 y = shr4 y'"
    by (simp add: shr4_eq_div_euclid16 div_euclid16_def)
  show "low4 y = low4 y'"
    using assms(2) by (simp add: low4_eq_rem_euclid16)
qed

section \<open>A chunk is a cell store\<close>

definition section_ok :: "Section \<Rightarrow> bool" where
  "section_ok s \<longleftrightarrow> paletted_wf (sec_blocks s) \<and> all_direct_ok (sec_blocks s)
     \<and> paletted_wf (sec_biomes s) \<and> all_direct_ok (sec_biomes s)
     \<and> light_ok (sec_sky s) \<and> light_ok (sec_light s)"

definition chunk_ok :: "Chunk \<Rightarrow> bool" where
  "chunk_ok c \<longleftrightarrow> length (ck_sections c) = SECTIONS_PER_CHUNK
     \<and> (\<forall>s. Some s \<in> set (ck_sections c) \<longrightarrow> section_ok s)"

definition in_chunk :: "nat \<times> i32 \<times> nat \<Rightarrow> bool" where
  "in_chunk p \<longleftrightarrow> (case p of (x, y, z) \<Rightarrow> x < 16 \<and> - 64 \<le> sint y \<and> sint y < 320 \<and> z < 16)"

definition chunk_get :: "u64 \<times> Chunk \<Rightarrow> nat \<times> i32 \<times> nat \<Rightarrow> BlockState option" where
  "chunk_get lc p = (case p of (x, y, z) \<Rightarrow> get_block (snd lc) x y z)"

definition chunk_set :: "u64 \<times> Chunk \<Rightarrow> nat \<times> i32 \<times> nat \<Rightarrow> BlockState \<Rightarrow> (u64 \<times> Chunk) option" where
  "chunk_set lc p b = (case p of (x, y, z) \<Rightarrow> set_block (fst lc) (snd lc) x y z b)"

lemma new_section_ok [simp]: "section_ok (new_section pos)"
  by (simp add: section_ok_def new_section_def new_container_def filled_def light_ok_def direct_ok_def block_def AIR_def)

lemma new_chunk_ok [simp]: "chunk_ok (snd (new_chunk lru pos))"
  by (simp add: chunk_ok_def new_chunk_def)

lemma section_or_new_ok: "(\<And>s'. slot = Some s' \<Longrightarrow> section_ok s') \<Longrightarrow> section_ok (section_or_new slot pos)"
  by (simp add: section_or_new_def split: option.split)

text \<open>A slot as the section it stands for: an empty slot reads as air.\<close>

lemma get_block_slot:
  assumes "length (ck_sections c) = 24" and "section_index y < 24"
  shows "get_block c x y z
    = get_xyz (sec_blocks (section_or_new (ck_sections c ! section_index y) pos)) (x, rem_euclid16 y, z)"
proof -
  have "nth_opt (ck_sections c) (section_index y) = Some (ck_sections c ! section_index y)"
    using assms by (simp add: nth_opt_def)
  moreover have "paletted_get (sec_blocks (new_section pos)) x y z = Some AIR" for x y z
    by (simp add: new_section_def new_container_def paletted_get_def)
  ultimately show ?thesis
    by (simp add: get_block_def section_get_block_def get_xyz_def section_or_new_def split: option.split)
qed

lemma chunk_slot_ok:
  assumes "chunk_ok c" and "i < 24"
  shows "section_ok (section_or_new (ck_sections c ! i) pos)"
proof (rule section_or_new_ok)
  fix s' assume "ck_sections c ! i = Some s'"
  moreover have "ck_sections c ! i \<in> set (ck_sections c)"
    using assms by (simp add: chunk_ok_def SECTIONS_PER_CHUNK_def)
  ultimately show "section_ok s'"
    using assms(1) by (simp add: chunk_ok_def)
qed

text \<open>
  Whatever the sections promise of their block containers as cell stores, the chunk promises of
  itself. The laws are those of \<open>cell_store\<close>, once for the containers and once for the chunk.
\<close>

definition chunk_all :: "(ContainerMode \<Rightarrow> bool) \<Rightarrow> Chunk \<Rightarrow> bool" where
  "chunk_all P c \<longleftrightarrow> length (ck_sections c) = 24 \<and> (\<forall>s. Some s \<in> set (ck_sections c) \<longrightarrow> P (sec_blocks s))"

lemma section_or_new_pos:
  "sec_blocks (section_or_new slot p1) = sec_blocks (section_or_new slot p2)"
  by (simp add: section_or_new_def new_section_def split: option.split)

locale section_store = cell_store P in_section ok get_xyz set_xyz
  for P :: "ContainerMode \<Rightarrow> bool" and ok :: "BlockState \<Rightarrow> bool" +
  assumes new_container_ok: "P new_container"
begin

lemma slot_ok:
  assumes "chunk_all P c" and "i < 24"
  shows "P (sec_blocks (section_or_new (ck_sections c ! i) pos))"
proof (cases "ck_sections c ! i")
  case None
  then show ?thesis
    using new_container_ok by (simp add: section_or_new_def new_section_def)
next
  case (Some s)
  moreover have "ck_sections c ! i \<in> set (ck_sections c)"
    using assms by (simp add: chunk_all_def)
  ultimately show ?thesis
    using assms(1) by (simp add: chunk_all_def section_or_new_def)
qed

lemma set_inside:
  assumes c: "chunk_all P c" and p: "in_chunk (x, y, z)" and b: "ok b"
  obtains d where "set_xyz (sec_blocks (section_or_new (ck_sections c ! section_index y) pos)) (x, rem_euclid16 y, z) b
      = Some d" and "P d"
    and "\<And>lru. set_block lru c x y z b = Some (lru + 1, c\<lparr>ck_lru := lru, ck_cached := None,
          ck_sections := (ck_sections c)[section_index y := Some
            (section_or_new (ck_sections c ! section_index y)
              \<lparr>sp_chunk = ck_position c, sp_y = MIN_SECTION_Y + word_of_nat (section_index y)\<rparr>\<lparr>sec_blocks := d\<rparr>)],
          ck_dirty := True\<rparr>)"
proof -
  have i: "section_index y < 24"
    using p section_index_inside(2) by (simp add: in_chunk_def)
  let ?s = "section_or_new (ck_sections c ! section_index y)
    \<lparr>sp_chunk = ck_position c, sp_y = MIN_SECTION_Y + word_of_nat (section_index y)\<rparr>"
  have q: "in_section (x, rem_euclid16 y, z)"
    using p by (simp add: in_chunk_def in_section_def)
  obtain d where d: "set_xyz (sec_blocks ?s) (x, rem_euclid16 y, z) b = Some d" "P d"
    using put_total [OF slot_ok [OF c i] q b] by blast
  have "nth_opt (ck_sections c) (section_index y) = Some (ck_sections c ! section_index y)"
    using c i by (simp add: chunk_all_def nth_opt_def)
  with d show thesis
    by (intro that [of d])
      (simp_all add: set_block_def touch_def invalidate_cache_def section_set_block_def set_xyz_def Let_def
        section_or_new_pos [of _ pos "\<lparr>sp_chunk = ck_position c, sp_y = MIN_SECTION_Y + word_of_nat (section_index y)\<rparr>"])
qed

lemma chunk_cell_store: "cell_store (\<lambda>lc. chunk_all P (snd lc)) in_chunk ok chunk_get chunk_set"
proof
  fix lc :: "u64 \<times> Chunk" and p assume h: "chunk_all P (snd lc)" "in_chunk p"
  obtain x y z where p: "p = (x, y, z)" by (rule prod_cases3)
  have i: "section_index y < 24" and q: "in_section (x, rem_euclid16 y, z)"
    using h(2) section_index_inside(2) by (simp_all add: p in_chunk_def in_section_def)
  show "\<exists>v. chunk_get lc p = Some v \<and> ok v"
    using get_total [OF slot_ok [OF h(1) i] q] get_block_slot [OF _ i, of "snd lc"] h(1)
    by (simp add: chunk_get_def p chunk_all_def)
next
  fix lc :: "u64 \<times> Chunk" and p b assume h: "chunk_all P (snd lc)" "in_chunk p" "ok b"
  obtain x y z where p: "p = (x, y, z)" by (rule prod_cases3)
  have i: "section_index y < 24" and q: "in_section (x, rem_euclid16 y, z)"
    using h(2) section_index_inside(2) by (simp_all add: p in_chunk_def in_section_def)
  have len: "length (ck_sections (snd lc)) = 24"
    using h(1) by (simp add: chunk_all_def)
  let ?s = "section_or_new (ck_sections (snd lc) ! section_index y) undefined"
  note inv = slot_ok [OF h(1) i, of undefined]
  obtain d where d: "set_xyz (sec_blocks ?s) (x, rem_euclid16 y, z) b = Some d" "P d"
    and set: "\<And>lru. \<exists>c' s'. set_block lru (snd lc) x y z b = Some (lru + 1, c')
      \<and> ck_sections c' = (ck_sections (snd lc))[section_index y := Some s'] \<and> sec_blocks s' = d"
    by (rule set_inside [OF h(1) h(2) [unfolded p] h(3), of undefined]) force
  obtain c' s' where
    c': "chunk_set lc p b = Some (fst lc + 1, c')"
      "ck_sections c' = (ck_sections (snd lc))[section_index y := Some s']" "sec_blocks s' = d"
    using set [of "fst lc"] by (auto simp: chunk_set_def p)
  have ok': "chunk_all P c'"
    using h(1) c'(2,3) d(2) by (auto simp: chunk_all_def dest!: subsetD [OF set_update_subset_insert])
  then show "\<exists>s'. chunk_set lc p b = Some s' \<and> chunk_all P (snd s')"
    using c'(1) by simp
  have len': "length (ck_sections c') = 24"
    using ok' by (simp add: chunk_all_def)
  have new: "sec_blocks (section_or_new (ck_sections c' ! section_index y) undefined) = d"
    using i len c'(3) by (simp add: c'(2) section_or_new_def)
  fix lc' assume "chunk_set lc p b = Some lc'"
  then have lc': "lc' = (fst lc + 1, c')"
    using c'(1) by simp
  show "chunk_get lc' p = Some b"
    using get_put_same [OF inv q h(3) d(1)] get_block_slot [OF len' i, of x z undefined]
    by (simp add: chunk_get_def p lc' new)
  fix p' assume p': "in_chunk p'" "p' \<noteq> p"
  obtain x' y' z' where p'_eq: "p' = (x', y', z')" by (rule prod_cases3)
  have i': "section_index y' < 24" and q': "in_section (x', rem_euclid16 y', z')"
    using p'(1) section_index_inside(2) by (simp_all add: p'_eq in_chunk_def in_section_def)
  show "chunk_get lc' p' = chunk_get lc p'"
  proof (cases "section_index y' = section_index y")
    case False
    then have "ck_sections c' ! section_index y' = ck_sections (snd lc) ! section_index y'"
      by (simp add: c'(2))
    then show ?thesis
      using get_block_slot [OF len' i', of x' z' undefined] get_block_slot [OF len i', of x' z' undefined]
      by (simp add: chunk_get_def p'_eq lc')
  next
    case True
    have "(x', rem_euclid16 y', z') \<noteq> (x, rem_euclid16 y, z)"
      using p' h(2) True block_of_parts [of y' y] by (auto simp: p p'_eq in_chunk_def)
    then show ?thesis
      using get_put_other [OF inv q h(3) d(1) q'] get_block_slot [OF len' i', of x' z' undefined]
        get_block_slot [OF len i', of x' z' undefined]
      by (simp add: chunk_get_def p'_eq lc' True new)
  qed
qed

end

interpretation direct_sections: section_store "\<lambda>c. paletted_wf c \<and> all_direct_ok c" direct_ok
  by unfold_locales (simp_all add: new_container_def filled_def)

interpretation direct_chunk: cell_store
  "\<lambda>lc. chunk_all (\<lambda>c. paletted_wf c \<and> all_direct_ok c) (snd lc)" in_chunk direct_ok chunk_get chunk_set
  by (rule direct_sections.chunk_cell_store)

lemma chunk_ok_all: "chunk_ok c \<Longrightarrow> chunk_all (\<lambda>c. paletted_wf c \<and> all_direct_ok c) c"
  by (simp add: chunk_ok_def chunk_all_def section_ok_def SECTIONS_PER_CHUNK_def)

lemma set_block_inside:
  assumes c: "chunk_ok c" and p: "in_chunk (x, y, z)" and b: "direct_ok b"
  obtains c' s' where "set_block lru c x y z b = Some (lru + 1, c')"
    and "ck_sections c' = (ck_sections c)[section_index y := Some s']" and "section_ok s'"
proof -
  have i: "section_index y < 24"
    using p section_index_inside(2) by (simp add: in_chunk_def)
  let ?s = "section_or_new (ck_sections c ! section_index y)
    \<lparr>sp_chunk = ck_position c, sp_y = MIN_SECTION_Y + word_of_nat (section_index y)\<rparr>"
  show thesis
  proof (rule direct_sections.set_inside [OF chunk_ok_all [OF c] p b])
    fix d assume "paletted_wf d \<and> all_direct_ok d"
      and set: "\<And>lru. set_block lru c x y z b = Some (lru + 1, c\<lparr>ck_lru := lru, ck_cached := None,
        ck_sections := (ck_sections c)[section_index y := Some (?s\<lparr>sec_blocks := d\<rparr>)], ck_dirty := True\<rparr>)"
    then have "section_ok (?s\<lparr>sec_blocks := d\<rparr>)"
      using chunk_slot_ok [OF c i] by (simp add: section_ok_def)
    with set show thesis
      by (intro that) auto
  qed
qed

interpretation chunk: cell_store "\<lambda>lc :: u64 \<times> Chunk. chunk_ok (snd lc)" in_chunk direct_ok chunk_get chunk_set
proof
  fix lc :: "u64 \<times> Chunk" and p b assume h: "chunk_ok (snd lc)" "in_chunk p" "direct_ok b"
  obtain x y z where p: "p = (x, y, z)" by (rule prod_cases3)
  obtain c' s' where "set_block (fst lc) (snd lc) x y z b = Some (fst lc + 1, c')"
    and sec: "ck_sections c' = (ck_sections (snd lc))[section_index y := Some s']" and "section_ok s'"
    by (rule set_block_inside [OF h(1) h(2) [unfolded p] h(3)])
  moreover from this have "chunk_ok c'"
    using h(1) by (auto simp: chunk_ok_def dest!: subsetD [OF set_update_subset_insert])
  ultimately show "\<exists>s'. chunk_set lc p b = Some s' \<and> chunk_ok (snd s')"
    by (simp add: chunk_set_def p)
qed (use direct_chunk.get_total direct_chunk.get_put_same direct_chunk.get_put_other chunk_ok_all in blast)+

lemma get_block_outside:
  assumes "chunk_ok c" and "\<not> (- 64 \<le> sint y \<and> sint y < 320)"
  shows "get_block c x y z = Some AIR" and "set_block lru c x y z b = None"
  using section_index_outside [OF assms(2)] assms(1)
  by (simp_all add: get_block_def set_block_def touch_def invalidate_cache_def nth_opt_def chunk_ok_def
      SECTIONS_PER_CHUNK_def)

lemma get_new_chunk: "get_block (snd (new_chunk lru pos)) x y z = Some AIR"
  by (simp add: get_block_def new_chunk_def nth_opt_def)



lemma set_block_panics_iff_facts:
  assumes "chunk_ok c" and "x < 16" and "z < 16" and "direct_ok b"
  shows "set_block lru c x y z b = None \<longleftrightarrow> sint y < - 64 \<or> 320 \<le> sint y"
    and "sint y < - 64 \<or> 320 \<le> sint y \<Longrightarrow> get_block c x y z = Some AIR"
proof -
  show "set_block lru c x y z b = None \<longleftrightarrow> sint y < - 64 \<or> 320 \<le> sint y"
  proof (cases "- 64 \<le> sint y \<and> sint y < 320")
    case True
    then have "in_chunk (x, y, z)"
      using assms by (simp add: in_chunk_def)
    then show ?thesis
      using chunk.put_total [of "(lru, c)" "(x, y, z)" b] assms True by (auto simp: chunk_set_def)
  next
    case False
    then show ?thesis
      using get_block_outside(2) [OF assms(1)] by auto
  qed
  show "get_block c x y z = Some AIR" if "sint y < - 64 \<or> 320 \<le> sint y"
    using that by (intro get_block_outside(1) [OF assms(1)]) auto
qed

text \<open>The height limits: on a well-formed chunk \<open>set_block\<close> panics exactly for a height outside
  -64 to 319, while \<open>get_block\<close> answers air there.\<close>

theorem set_block_panics_iff:
  assumes "chunk_ok c" and "x < 16" and "z < 16" and "direct_ok b"
  shows "(set_block lru c x y z b = None \<longleftrightarrow> sint y < - 64 \<or> 320 \<le> sint y)
    \<and> (sint y < - 64 \<or> 320 \<le> sint y \<longrightarrow> get_block c x y z = Some AIR)"
  using set_block_panics_iff_facts [OF assms] by blast

theorem set_block_panics_iff_witness:
  "set_block 0 (snd (new_chunk 0 (chunk_pos 0 0))) 1 320 1 (block 5) = None
   \<and> get_block (snd (new_chunk 0 (chunk_pos 0 0))) 1 320 1 = Some AIR"
  using set_block_panics_iff [OF new_chunk_ok [of 0 "chunk_pos 0 0"], of 1 1 "block 5" 0 320]
  by (simp add: direct_ok_def block_def)

section \<open>Scans\<close>

lemma count_loop_filter:
  "(\<And>p. p \<in> set ps \<Longrightarrow> \<exists>b. get_xyz c p = Some b) \<Longrightarrow>
   count_loop c ps n = Some (n + length (filter (\<lambda>p. \<exists>b. get_xyz c p = Some b \<and> \<not> is_air b) ps))"
proof (induction ps arbitrary: n)
  case (Cons p ps)
  obtain b where "get_xyz c p = Some b"
    using Cons.prems by fastforce
  then show ?case
    using Cons by simp
qed simp

lemma section_cells_product: "section_cells = List.product [0..<16] (List.product [0..<16] [0..<16])"
  by (simp add: section_cells_def product_concat_map map_concat comp_def)

lemma set_section_cells: "p \<in> set section_cells \<longleftrightarrow> in_section p"
  by (cases p) (simp add: section_cells_product in_section_def)

lemma distinct_section_cells: "distinct section_cells"
  unfolding section_cells_product by (intro distinct_product) simp_all

lemma count_non_air_correct_facts:
  assumes "section_ok s"
  shows "count_non_air s
      = Some (card {p. in_section p \<and> (\<exists>b. get_xyz (sec_blocks s) p = Some b \<and> \<not> is_air b)})"
    and "card {p. in_section p \<and> (\<exists>b. get_xyz (sec_blocks s) p = Some b \<and> \<not> is_air b)} \<le> 4096"
proof -
  let ?P = "\<lambda>p. \<exists>b. get_xyz (sec_blocks s) p = Some b \<and> \<not> is_air b"
  have inv: "paletted_wf (sec_blocks s) \<and> all_direct_ok (sec_blocks s)"
    using assms by (simp add: section_ok_def)
  have eq: "length (filter ?P section_cells) = card {p. in_section p \<and> ?P p}"
    using distinct_card [of "filter ?P section_cells"] distinct_section_cells
    by (simp add: set_section_cells)
  show "count_non_air s = Some (card {p. in_section p \<and> ?P p})"
    unfolding count_non_air_def eq [symmetric]
    by (subst count_loop_filter) (use container.get_total [OF inv] set_section_cells in blast, simp)
  have "length section_cells = 4096"
    by (simp add: section_cells_def length_concat comp_def sum_list_triv)
  then show "card {p. in_section p \<and> ?P p} \<le> 4096"
    unfolding eq [symmetric] by (metis length_filter_le)
qed

text \<open>\<open>count_non_air\<close> does not panic on a well-formed section and returns the number of its
  blocks that are not air, which is at most 4096 and so fits the \<open>i16\<close> it is sent as.\<close>

theorem count_non_air_correct:
  assumes "section_ok s"
  shows "\<exists>n. count_non_air s = Some n \<and> n \<le> 4096
    \<and> n = card {p. in_section p \<and> (\<exists>b. get_xyz (sec_blocks s) p = Some b \<and> \<not> is_air b)}"
  using count_non_air_correct_facts [OF assms] by blast

theorem count_non_air_correct_witness:
  "count_non_air (new_section \<lparr>sp_chunk = chunk_pos 0 0, sp_y = 0\<rparr>)
    = Some (card {p. in_section p \<and> (\<exists>b. get_xyz new_container p = Some b \<and> \<not> is_air b)})"
  using count_non_air_correct [OF new_section_ok [of "\<lparr>sp_chunk = chunk_pos 0 0, sp_y = 0\<rparr>"]]
  by (auto simp: new_section_def)

text \<open>The block at height \<open>-64 + n\<close>.\<close>

lemma sint_world_y:
  assumes "n \<le> 384"
  shows "sint (MIN_SECTION_Y * 16 + word_of_nat n) = int n - 64"
proof -
  have "MIN_SECTION_Y * 16 + word_of_nat n = (word_of_int (int n - 64) :: i32)"
    by (simp add: MIN_SECTION_Y_def)
  moreover have "signed_take_bit 31 (int n - 64) = int n - 64"
    using assms by (intro signed_take_bit_int_eq_self; simp)
  ultimately show ?thesis
    by (simp only: signed_of_int) simp
qed

lemma height_scan_correct:
  assumes c: "chunk_ok c" and "x < 16" and "z < 16" and n: "n \<le> 384"
  shows "\<exists>h. height_scan c x z n = Some (MIN_SECTION_Y * 16 + word_of_nat h) \<and> h \<le> n
    \<and> (\<forall>k < n. h \<le> k \<longrightarrow> get_block c x (MIN_SECTION_Y * 16 + word_of_nat k) z
          \<in> Some ` {b. is_air b})
    \<and> (0 < h \<longrightarrow> get_block c x (MIN_SECTION_Y * 16 + word_of_nat (h - 1)) z
          \<in> Some ` {b. \<not> is_air b})"
  using n
proof (induction n)
  case 0
  then show ?case by auto
next
  case (Suc n)
  let ?y = "MIN_SECTION_Y * 16 + word_of_nat n :: i32"
  have "in_chunk (x, ?y, z)"
    using assms(2,3) Suc.prems sint_world_y [of n] by (simp add: in_chunk_def)
  then obtain b where b: "get_block c x ?y z = Some b"
    using chunk.get_total [of "(0, c)" "(x, ?y, z)"] c by (auto simp: chunk_get_def)
  show ?case
  proof (cases "is_air b")
    case False
    then have "height_scan c x z (Suc n) = Some (MIN_SECTION_Y * 16 + word_of_nat (Suc n))"
      using b by (simp add: add.assoc)
    then show ?thesis
      using b False by (intro exI [of _ "Suc n"]) auto
  next
    case True
    obtain h where "height_scan c x z n = Some (MIN_SECTION_Y * 16 + word_of_nat h)" "h \<le> n"
      "\<forall>k < n. h \<le> k \<longrightarrow> get_block c x (MIN_SECTION_Y * 16 + word_of_nat k) z \<in> Some ` {b. is_air b}"
      "0 < h \<longrightarrow> get_block c x (MIN_SECTION_Y * 16 + word_of_nat (h - 1)) z \<in> Some ` {b. \<not> is_air b}"
      using Suc by auto
    moreover have "height_scan c x z (Suc n) = height_scan c x z n"
      using b True by simp
    ultimately show ?thesis
      using b True by (intro exI [of _ h]) (auto simp: less_Suc_eq)
  qed
qed

text \<open>\<open>height_at\<close> does not panic on a well-formed chunk and returns the top of the column: every
  block from the height it returns up to the world's top is air, and unless it is the
  world's bottom, the block just below it is not air.\<close>

theorem height_at_is_top:
  assumes "chunk_ok c" and "x < 16" and "z < 16"
  shows "\<exists>h. height_at c x z = Some h \<and> - 64 \<le> sint h \<and> sint h \<le> 320
    \<and> (\<forall>y. sint h \<le> sint y \<and> sint y < 320 \<longrightarrow> (\<exists>b. get_block c x y z = Some b \<and> is_air b))
    \<and> (- 64 < sint h \<longrightarrow> (\<exists>b. get_block c x (h - 1) z = Some b \<and> \<not> is_air b))"
proof -
  from height_scan_correct [OF assms, of 384] obtain n where
    n: "height_at c x z = Some (MIN_SECTION_Y * 16 + word_of_nat n)" "n \<le> 384"
    and above: "\<And>k. k < 384 \<Longrightarrow> n \<le> k \<Longrightarrow>
      get_block c x (MIN_SECTION_Y * 16 + word_of_nat k) z \<in> Some ` {b. is_air b}"
    and top: "0 < n \<Longrightarrow> get_block c x (MIN_SECTION_Y * 16 + word_of_nat (n - 1)) z \<in> Some ` {b. \<not> is_air b}"
    by (auto simp: height_at_def)
  let ?h = "MIN_SECTION_Y * 16 + word_of_nat n :: i32"
  have h: "sint ?h = int n - 64"
    by (rule sint_world_y [OF n(2)])
  have "\<exists>b. get_block c x y z = Some b \<and> is_air b" if y: "sint ?h \<le> sint y" "sint y < 320" for y
  proof -
    define k where "k = nat (sint y + 64)"
    have k: "n \<le> k" "k < 384"
      using y h by (auto simp: k_def)
    then have "sint (MIN_SECTION_Y * 16 + word_of_nat k :: i32) = sint y"
      using sint_world_y [of k] y h by (simp add: k_def)
    then have "MIN_SECTION_Y * 16 + word_of_nat k = y"
      by (metis of_int_sint scast_id)
    then show ?thesis
      using above [OF k(2,1)] by auto
  qed
  moreover have "\<exists>b. get_block c x (?h - 1) z = Some b \<and> \<not> is_air b" if "- 64 < sint ?h"
  proof -
    have "0 < n"
      using that h by simp
    then have eq: "MIN_SECTION_Y * 16 + word_of_nat (n - 1) = ?h - 1"
      by (simp add: of_nat_diff add_diff_eq)
    show ?thesis
      using top [OF \<open>0 < n\<close>] unfolding eq by blast
  qed
  ultimately show ?thesis
    using n h by (intro exI [of _ ?h]) auto
qed

theorem height_at_is_top_witness:
  "\<exists>h. height_at (snd (new_chunk 0 (chunk_pos 0 0))) 3 4 = Some h \<and> - 64 \<le> sint h \<and> sint h \<le> 320"
  using height_at_is_top [OF new_chunk_ok [of 0 "chunk_pos 0 0"], of 3 4] by auto

end
