(* ===== verification/ChunkFormat.thy ===== *)
theory ChunkFormat
  imports Chunks
begin

text \<open>
  \<open>mc-world/src/chunk_store.rs\<close>, the files of saved chunks: \<open>serialize_chunk_binary\<close> and
  \<open>deserialize_chunk_binary\<close>, and the linear file around them (\<open>save_chunk_linear\<close>,
  \<open>load_linear_file\<close>). The compressor is the crate \<open>lz4_flex\<close>, a parameter; writing to
  and reading from the disk are left out.

  Shown: the section records the serialiser writes are read back by the deserialiser, but the
  serialiser writes eight bytes of coordinates before them that the deserialiser does not
  skip, so that a chunk in a column whose \<open>x\<close> is a multiple of 65536 loads as empty.
\<close>

section \<open>Serialisation\<close>

definition section_bytes :: "nat \<Rightarrow> Section \<Rightarrow> bytes" where
  "section_bytes idx sec =
     (let blocks_data = encode_binary (sec_blocks sec); biomes_data = encode_binary (sec_biomes sec) in
      le_bytes 2 (word_of_nat idx :: u16)
      @ le_bytes 4 (word_of_nat (length blocks_data) :: u32) @ blocks_data
      @ le_bytes 4 (word_of_nat (length biomes_data) :: u32) @ biomes_data
      @ sec_sky sec @ sec_light sec)"

definition filled_sections :: "Section option list \<Rightarrow> nat list" where
  "filled_sections secs = map fst (filter (\<lambda>(_, s). s \<noteq> None) (enumerate 0 secs))"

definition serialize_chunk_binary :: "Chunk \<Rightarrow> bytes" where
  "serialize_chunk_binary c =
     (let filled = filled_sections (ck_sections c) in
      le_bytes 4 (cp_x (ck_position c)) @ le_bytes 4 (cp_z (ck_position c))
      @ le_bytes 2 (word_of_nat (length filled) :: u16)
      @ concat (map (\<lambda>idx. case ck_sections c ! idx of Some sec \<Rightarrow> section_bytes idx sec | None \<Rightarrow> []) filled))"

text \<open>\<open>let _ = blocks.decode_binary(..)\<close>: on an error the container stays as it was.\<close>

definition decode_into :: "ContainerMode \<Rightarrow> bytes \<Rightarrow> ContainerMode" where
  "decode_into c data = (case decode_binary data of Ok (c', _) \<Rightarrow> c' | _ \<Rightarrow> c)"

text \<open>\<open>u16\<close> and \<open>u32\<close> at a position.\<close>

definition u16_at :: "bytes \<Rightarrow> nat \<Rightarrow> nat" where
  "u16_at data pos = unat (from_le (take 2 (drop pos data)) :: u16)"

definition u32_at :: "bytes \<Rightarrow> nat \<Rightarrow> nat" where
  "u32_at data pos = unat (from_le (take 4 (drop pos data)) :: u32)"

text \<open>The loop over the section records; every truncation ends it where it is.\<close>

primrec read_sections :: "nat \<Rightarrow> ChunkPos \<Rightarrow> bytes \<Rightarrow> nat \<Rightarrow> Section option list \<Rightarrow> Section option list" where
  "read_sections 0 cpos data pos secs = secs"
| "read_sections (Suc n) cpos data pos secs =
     (if pos + 2 > length data then secs
      else let idx = u16_at data pos; pos = pos + 2 in
      if pos + 4 > length data then secs
      else let blocks_len = u32_at data pos; pos = pos + 4 in
      if \<not> pos + blocks_len \<le> length data then secs
      else let blocks = decode_into new_container (take blocks_len (drop pos data)); pos = pos + blocks_len in
      if pos + 4 > length data then secs
      else let biomes_len = u32_at data pos; pos = pos + 4 in
      if \<not> pos + biomes_len \<le> length data then secs
      else let biomes = decode_into new_container (take biomes_len (drop pos data)); pos = pos + biomes_len in
      if pos + 4096 > length data then secs
      else let sky = take 2048 (drop pos data); pos = pos + 2048;
               light = take 2048 (drop pos data); pos = pos + 2048
      in read_sections n cpos data pos
           (if idx < length secs then
              secs[idx := Some \<lparr>sec_position = \<lparr>sp_chunk = cpos, sp_y = MIN_SECTION_Y + word_of_nat idx\<rparr>,
                                sec_blocks = blocks, sec_biomes = biomes, sec_sky = sky, sec_light = light\<rparr>]
            else secs))"

definition deserialize_chunk_binary :: "u64 \<Rightarrow> i32 \<Rightarrow> i32 \<Rightarrow> bytes \<Rightarrow> u64 \<times> Chunk" where
  "deserialize_chunk_binary lru cx cz data =
     (let (lru, chunk) = new_chunk lru (chunk_pos cx cz) in
      if length data < 2 then (lru, chunk)
      else
        (lru, chunk\<lparr>ck_sections := read_sections (u16_at data 0) (chunk_pos cx cz) data 2 (ck_sections chunk),
                    ck_dirty := False\<rparr>))"

section \<open>The linear file\<close>

definition save_chunk_linear :: "(bytes \<Rightarrow> bytes) \<Rightarrow> Chunk \<Rightarrow> bytes" where
  "save_chunk_linear compress c =
     (let compressed = compress (serialize_chunk_binary c) in
      le_bytes 4 (cp_x (ck_position c)) @ le_bytes 4 (cp_z (ck_position c)) @ [0]
      @ le_bytes 4 (word_of_nat (length compressed) :: u32) @ compressed)"

definition load_linear_file ::
    "(bytes \<Rightarrow> (string, bytes) outcome) \<Rightarrow> u64 \<Rightarrow> bytes \<Rightarrow> (string, u64 \<times> Chunk) outcome" where
  "load_linear_file decompress lru data =
     (if length data < 12 then Err ''file too small''
      else
        let cx = from_le (take 4 data); cz = from_le (take 4 (drop 4 data)); byte8 = data ! 8;
            data_offset = (if byte8 \<le> 1 then 13 else 8)
        in if length data < data_offset then Err ''truncated header''
        else
          let len_pos = (if byte8 \<le> 1 then 9 else 8); data_len = u32_at data len_pos in
          if data_len = 0 \<or> data_len > 10000000 \<or> data_offset + data_len > length data
          then Err ''invalid data length''
          else and_then (decompress (take data_len (drop data_offset data)))
                 (\<lambda>raw. Ok (deserialize_chunk_binary lru cx cz raw)))"

section \<open>Reading the section records\<close>

definition storable_section :: "Section \<Rightarrow> bool" where
  "storable_section s \<longleftrightarrow> paletted_wf (sec_blocks s) \<and> paletted_wf (sec_biomes s)
     \<and> light_ok (sec_sky s) \<and> light_ok (sec_light s)"

definition loaded_section :: "ChunkPos \<Rightarrow> nat \<Rightarrow> Section \<Rightarrow> Section" where
  "loaded_section cpos idx s =
     \<lparr>sec_position = \<lparr>sp_chunk = cpos, sp_y = MIN_SECTION_Y + word_of_nat idx\<rparr>,
      sec_blocks = without_props (sec_blocks s), sec_biomes = without_props (sec_biomes s),
      sec_sky = sec_sky s, sec_light = sec_light s\<rparr>"

lemma length_concat_le_bytes: "length (concat (map (\<lambda>x. le_bytes n (f x)) xs)) = n * length xs"
  by (induction xs) simp_all

lemma length_encode_binary:
  assumes "paletted_wf c"
  shows "length (encode_binary c) < 163900"
proof (cases c)
  case (Single b)
  then show ?thesis by (simp add: encode_binary_def)
next
  case (Indirect palette data bits)
  then have h: "length palette \<le> 2 ^ unat bits" "unat bits \<le> 15" "length data \<le> 4096"
    using assms packed_ok_length by auto
  have "length palette \<le> 2 ^ 15"
    using h(1) power_increasing [OF h(2), of "2 :: nat"] by linarith
  then show ?thesis
    using Indirect h(3) by (simp add: encode_binary_def fast_u64_to_bytes_eq length_concat_le_bytes)
next
  case (Direct data)
  then have "length data \<le> 4096"
    using assms packed_ok_length by auto
  then show ?thesis
    using Direct by (simp add: encode_binary_def fast_u64_to_bytes_eq length_concat_le_bytes)
qed

lemma decode_into_written:
  assumes "paletted_wf c"
  shows "decode_into d (encode_binary c) = without_props c"
  using decode_encode_binary [OF assms, of "[]"] by (simp add: decode_into_def)

lemma u16_at_written: "drop pos data = le_bytes 2 (word_of_nat n :: u16) @ rest \<Longrightarrow> n < 2 ^ 16 \<Longrightarrow> u16_at data pos = n"
  by (simp add: u16_at_def unat_of_nat)

lemma u32_at_written: "drop pos data = le_bytes 4 (word_of_nat n :: u32) @ rest \<Longrightarrow> n < 2 ^ 32 \<Longrightarrow> u32_at data pos = n"
  by (simp add: u32_at_def unat_of_nat)

lemma read_section_written:
  assumes d: "drop pos data = section_bytes idx s @ rest" and idx: "idx < 2 ^ 16" and s: "storable_section s"
  shows "read_sections (Suc n) cpos data pos secs
    = read_sections n cpos data (pos + length (section_bytes idx s))
        (if idx < length secs then secs[idx := Some (loaded_section cpos idx s)] else secs)"
proof -
  let ?b = "encode_binary (sec_blocks s)" and ?m = "encode_binary (sec_biomes s)"
  have wf: "paletted_wf (sec_blocks s)" "paletted_wf (sec_biomes s)"
    and light: "length (sec_sky s) = 2048" "length (sec_light s) = 2048"
    using s by (simp_all add: storable_section_def light_ok_def)
  note bounds = length_encode_binary [OF wf(1)] length_encode_binary [OF wf(2)]
  have d1: "drop pos data = le_bytes 2 (word_of_nat idx :: u16) @ (le_bytes 4 (word_of_nat (length ?b) :: u32)
      @ (?b @ (le_bytes 4 (word_of_nat (length ?m) :: u32) @ (?m @ (sec_sky s @ (sec_light s @ rest))))))"
    using d by (simp add: section_bytes_def Let_def)
  note d2 = drop_prefix [OF d1, unfolded length_le_bytes]
  note d3 = drop_prefix [OF d2, unfolded length_le_bytes]
  note d4 = drop_prefix [OF d3]
  note d5 = drop_prefix [OF d4, unfolded length_le_bytes]
  note d6 = drop_prefix [OF d5]
  note d7 = drop_prefix [OF d6, unfolded light]
  have room: "\<not> length data < pos + 2" "\<not> length data < pos + 2 + 4"
    "\<not> length data < pos + 2 + 4 + length ?b + 4"
    using drop_room [OF d1] drop_room [OF d2] drop_room [OF d4] by simp_all
  have room_light: "\<not> length data < pos + 2 + 4 + length ?b + 4 + length ?m + 4096"
    using drop_room [OF d7] light by simp
  have fit: "pos + 2 + 4 + length ?b \<le> length data" "pos + 2 + 4 + length ?b + 4 + length ?m \<le> length data"
    using room room_light by simp_all
  have idx': "u16_at data pos = idx"
    by (rule u16_at_written [OF d1 idx])
  have bl: "u32_at data (pos + 2) = length ?b"
    using bounds(1) by (intro u32_at_written [OF d2]) simp
  have ml: "u32_at data (pos + 2 + 4 + length ?b) = length ?m"
    using bounds(2) by (intro u32_at_written [OF d4]) simp
  have parts: "take (length ?b) (drop (pos + 2 + 4) data) = ?b"
    "take (length ?m) (drop (pos + 2 + 4 + length ?b + 4) data) = ?m"
    "take 2048 (drop (pos + 2 + 4 + length ?b + 4 + length ?m) data) = sec_sky s"
    "take 2048 (drop (pos + 2 + 4 + length ?b + 4 + length ?m + 2048) data) = sec_light s"
    unfolding d3 d5 d6 d7 using light by simp_all
  have len: "pos + length (section_bytes idx s)
      = pos + 2 + 4 + length ?b + 4 + length ?m + 2048 + 2048"
    using light by (simp add: section_bytes_def Let_def)
  show ?thesis
    unfolding len read_sections.simps Let_def
    by (simp only: room fit idx' bl ml room_light parts if_False if_True simp_thms
        decode_into_written [OF wf(1)] decode_into_written [OF wf(2)] loaded_section_def)
qed

definition put_section :: "ChunkPos \<Rightarrow> nat \<times> Section \<Rightarrow> Section option list \<Rightarrow> Section option list" where
  "put_section cpos r secs =
     (if fst r < length secs then secs[fst r := Some (loaded_section cpos (fst r) (snd r))] else secs)"

lemma read_sections_written:
  "drop pos data = concat (map (\<lambda>(i, s). section_bytes i s) rs) @ rest \<Longrightarrow>
   (\<And>i s. (i, s) \<in> set rs \<Longrightarrow> i < 2 ^ 16 \<and> storable_section s) \<Longrightarrow>
   read_sections (length rs) cpos data pos secs = fold (put_section cpos) rs secs"
proof (induction rs arbitrary: pos secs)
  case (Cons r rs)
  obtain i s where r: "r = (i, s)" by (cases r)
  have d: "drop pos data = section_bytes i s @ (concat (map (\<lambda>(i, s). section_bytes i s) rs) @ rest)"
    using Cons.prems(1) by (simp add: r)
  have ok: "i < 2 ^ 16" "storable_section s"
    using Cons.prems(2) [of i s] by (simp_all add: r)
  have IH: "read_sections (length rs) cpos data (pos + length (section_bytes i s)) (put_section cpos r secs)
      = fold (put_section cpos) rs (put_section cpos r secs)"
    using Cons.prems(2) by (intro Cons.IH drop_prefix [OF d]) auto
  moreover have "put_section cpos r secs
      = (if i < length secs then secs[i := Some (loaded_section cpos i s)] else secs)"
    by (simp add: r put_section_def)
  ultimately show ?case
    by (simp only: list.size(4) add_Suc_right add_0_right One_nat_def
        read_section_written [OF d ok] fold_Cons comp_apply)
qed simp

lemma fold_put_section:
  "distinct (map fst rs) \<Longrightarrow> j < length secs \<Longrightarrow>
   length (fold (put_section cpos) rs secs) = length secs \<and>
   fold (put_section cpos) rs secs ! j =
     (case map_of rs j of Some s \<Rightarrow> Some (loaded_section cpos j s) | None \<Rightarrow> secs ! j)"
proof (induction rs arbitrary: secs)
  case (Cons r rs)
  have len: "length (put_section cpos r secs) = length secs"
    by (simp add: put_section_def)
  have "map_of rs (fst r) = None"
    using Cons.prems(1) by (simp add: map_of_eq_None_iff)
  then show ?case
    using Cons len by (cases r) (auto simp: put_section_def nth_list_update split: option.split)
qed simp

text \<open>The records the serialiser writes: the sections that exist, by index.\<close>

definition section_records :: "Section option list \<Rightarrow> (nat \<times> Section) list" where
  "section_records secs = map (\<lambda>i. (i, the (secs ! i))) (filled_sections secs)"

lemma filled_sections_eq: "filled_sections secs = filter (\<lambda>i. secs ! i \<noteq> None) [0..<length secs]"
proof -
  have "enumerate 0 secs = map (\<lambda>i. (i, secs ! i)) [0..<length secs]"
    by (rule nth_equalityI) (simp_all add: nth_enumerate_eq)
  then show ?thesis
    by (simp add: filled_sections_def filter_map comp_def)
qed

lemma map_of_graph: "map_of (map (\<lambda>i. (i, f i)) xs) j = (if j \<in> set xs then Some (f j) else None)"
  by (induction xs) auto

lemma section_records_lookup:
  "j < length secs \<Longrightarrow> map_of (section_records secs) j = secs ! j"
  by (auto simp: section_records_def map_of_graph filled_sections_eq)

lemma distinct_section_records: "distinct (map fst (section_records secs))"
  by (simp add: section_records_def comp_def filled_sections_eq)

lemma serialize_body:
  "drop 8 (serialize_chunk_binary c)
    = le_bytes 2 (word_of_nat (length (section_records (ck_sections c))) :: u16)
      @ concat (map (\<lambda>(i, s). section_bytes i s) (section_records (ck_sections c)))"
proof -
  have "map (\<lambda>idx. case ck_sections c ! idx of Some sec \<Rightarrow> section_bytes idx sec | None \<Rightarrow> [])
        (filled_sections (ck_sections c))
      = map (\<lambda>i. section_bytes i (the (ck_sections c ! i))) (filled_sections (ck_sections c))"
    by (auto simp: filled_sections_eq)
  then show ?thesis
    by (simp only: serialize_chunk_binary_def Let_def) (simp add: section_records_def comp_def)
qed

definition storable_chunk :: "Chunk \<Rightarrow> bool" where
  "storable_chunk c \<longleftrightarrow> length (ck_sections c) = SECTIONS_PER_CHUNK
     \<and> (\<forall>s. Some s \<in> set (ck_sections c) \<longrightarrow> storable_section s)"

lemma chunk_ok_storable: "chunk_ok c \<Longrightarrow> storable_chunk c"
  by (auto simp: chunk_ok_def storable_chunk_def section_ok_def storable_section_def)

lemma in_section_records: "(i, s) \<in> set (section_records secs) \<Longrightarrow> i < length secs \<and> secs ! i = Some s"
  by (auto simp: section_records_def filled_sections_eq)

text \<open>The section records of a saved chunk are right: past its first eight bytes, the serialised
  form of any storable chunk deserialises to a clean chunk at the given position with the same
  sections, each with its light and with its blocks up to their property bits.\<close>

theorem chunk_records_roundtrip:
  assumes "storable_chunk c"
  shows "\<exists>c'. deserialize_chunk_binary lru cx cz (drop 8 (serialize_chunk_binary c)) = (lru + 1, c')
    \<and> ck_position c' = chunk_pos cx cz \<and> \<not> ck_dirty c' \<and> length (ck_sections c') = SECTIONS_PER_CHUNK
    \<and> (\<forall>i < SECTIONS_PER_CHUNK. ck_sections c' ! i
         = map_option (loaded_section (chunk_pos cx cz) i) (ck_sections c ! i))"
proof -
  let ?secs = "ck_sections c"
  let ?rs = "section_records ?secs"
  define data where "data = drop 8 (serialize_chunk_binary c)"
  have len: "length ?secs = 24"
    using assms by (simp add: storable_chunk_def SECTIONS_PER_CHUNK_def)
  have d0: "drop 0 data = le_bytes 2 (word_of_nat (length ?rs) :: u16)
      @ (concat (map (\<lambda>(i, s). section_bytes i s) ?rs) @ [])"
    by (simp add: data_def serialize_body)
  have "length ?rs \<le> 24"
    using len length_filter_le [of "\<lambda>i. ?secs ! i \<noteq> None" "[0..<length ?secs]"]
    by (simp add: section_records_def filled_sections_eq)
  then have n: "u16_at data 0 = length ?rs"
    by (intro u16_at_written [OF d0]) simp
  note d2 = drop_prefix [OF d0, unfolded length_le_bytes add_0]
  have rs: "i < 2 ^ 16 \<and> storable_section s" if "(i, s) \<in> set ?rs" for i s
  proof -
    have "i < 24" "?secs ! i = Some s"
      using in_section_records [OF that] len by simp_all
    moreover from this have "Some s \<in> set ?secs"
      using len by (metis nth_mem)
    ultimately show ?thesis
      using assms by (auto simp: storable_chunk_def)
  qed
  let ?empty = "replicate SECTIONS_PER_CHUNK (None :: Section option)"
  let ?secs' = "fold (put_section (chunk_pos cx cz)) ?rs ?empty"
  have read: "read_sections (length ?rs) (chunk_pos cx cz) data 2 ?empty = ?secs'"
    by (rule read_sections_written [OF d2 rs])
  have secs': "length ?secs' = 24 \<and> ?secs' ! i = map_option (loaded_section (chunk_pos cx cz) i) (?secs ! i)"
    if "i < 24" for i
    using fold_put_section [OF distinct_section_records, of i ?empty "chunk_pos cx cz" ?secs]
      section_records_lookup [of i ?secs] that len
    by (simp add: SECTIONS_PER_CHUNK_def split: option.split)
  have room: "\<not> length data < 2"
    using drop_room [OF d0] by simp
  have "deserialize_chunk_binary lru cx cz data
      = (lru + 1, snd (new_chunk lru (chunk_pos cx cz))\<lparr>ck_sections := ?secs', ck_dirty := False\<rparr>)"
    using room read n by (simp add: deserialize_chunk_binary_def new_chunk_def Let_def)
  then show ?thesis
    unfolding data_def [symmetric] using secs' [of 0] secs'
    by (simp add: new_chunk_def SECTIONS_PER_CHUNK_def)
qed

theorem chunk_records_roundtrip_witness:
  "\<exists>c'. deserialize_chunk_binary 5 3 4 (drop 8 (serialize_chunk_binary (snd (new_chunk 0 (chunk_pos 3 4))))) = (6, c')
    \<and> ck_position c' = chunk_pos 3 4 \<and> \<not> ck_dirty c' \<and> ck_sections c' ! 7 = None"
  using chunk_records_roundtrip [OF chunk_ok_storable [OF new_chunk_ok [of 0 "chunk_pos 3 4"]], of 5 3 4]
  by (auto simp: new_chunk_def SECTIONS_PER_CHUNK_def)

section \<open>Chunks that do not load\<close>

lemma serialize_head: "take 8 (serialize_chunk_binary c)
  = le_bytes 4 (cp_x (ck_position c)) @ le_bytes 4 (cp_z (ck_position c))"
  by (simp add: serialize_chunk_binary_def Let_def)

lemma serialize_split: "serialize_chunk_binary c
  = le_bytes 4 (cp_x (ck_position c)) @ le_bytes 4 (cp_z (ck_position c)) @ drop 8 (serialize_chunk_binary c)"
  by (metis append_assoc append_take_drop_id serialize_head)

text \<open>The number of sections the deserialiser reads is the low half of \<open>x\<close>, the first index its
  high half, and the length of the first block data is \<open>z\<close>.\<close>

lemma le_bytes_split: "le_bytes 4 (x :: u32) = le_bytes 2 (ucast x :: u16) @ le_bytes 2 (ucast (drop_bit 16 x) :: u16)"
proof (rule nth_equalityI)
  fix k assume "k < length (le_bytes 4 x)"
  then have k: "k < 4" by simp
  show "le_bytes 4 x ! k = (le_bytes 2 (ucast x :: u16) @ le_bytes 2 (ucast (drop_bit 16 x) :: u16)) ! k"
  proof (cases "k < 2")
    case True
    then show ?thesis
      by (intro bit_word_eqI) (auto simp: nth_append bit_le_bytes bit_ucast_iff)
  next
    case False
    then obtain j where "k = j + 2" "j < 2"
      using k by (metis add.commute add_less_cancel_left le_Suc_ex not_less numeral_Bit0)
    then show ?thesis
      by (intro bit_word_eqI) (auto simp: nth_append bit_le_bytes bit_ucast_iff bit_drop_bit_eq ac_simps)
  qed
qed simp

lemma loads_empty:
  assumes "take_bit 16 (cp_x (ck_position c)) = 0
    \<or> sint (cp_z (ck_position c)) < 0 \<and> length (serialize_chunk_binary c) < 2 ^ 31"
  shows "snd (deserialize_chunk_binary lru cx cz (serialize_chunk_binary c))
    = snd (new_chunk lru (chunk_pos cx cz))\<lparr>ck_dirty := False\<rparr>"
proof -
  let ?x = "cp_x (ck_position c)" and ?z = "cp_z (ck_position c)"
  define data where "data = serialize_chunk_binary c"
  have d: "data = le_bytes 2 (ucast ?x :: u16) @ (le_bytes 2 (ucast (drop_bit 16 ?x) :: u16)
      @ (le_bytes 4 ?z @ drop 8 data))"
    using serialize_split [of c, folded data_def] unfolding le_bytes_split [of ?x] append_assoc .
  have len: "8 \<le> length data"
    using arg_cong [OF d, of length] unfolding length_append length_le_bytes length_drop by linarith
  have count: "u16_at data 0 = unat (ucast ?x :: u16)"
    by (subst d) (simp add: u16_at_def)
  have "drop 4 data = le_bytes 4 ?z @ drop 8 data"
    by (subst d) simp
  then have bl: "u32_at data 4 = unat ?z"
    by (simp add: u32_at_def)
  let ?secs = "replicate SECTIONS_PER_CHUNK (None :: Section option)"
  have "read_sections (u16_at data 0) cpos data 2 ?secs = ?secs" for cpos
  proof (cases "u16_at data 0")
    case (Suc n)
    have "(ucast ?x :: u16) \<noteq> 0"
      using Suc count by auto
    have "(ucast ?x :: u16) = ucast (take_bit 16 ?x)"
      by (rule bit_word_eqI) (simp add: bit_ucast_iff bit_take_bit_iff)
    then have "take_bit 16 ?x \<noteq> 0"
      using \<open>(ucast ?x :: u16) \<noteq> 0\<close> by auto
    then have z: "sint ?z < 0" and short: "length data < 2 ^ 31"
      using assms by (auto simp: data_def)
    have "\<not> uint ?z < 2 ^ (LENGTH(32) - 1)"
    proof
      assume "uint ?z < 2 ^ (LENGTH(32) - 1)"
      then have "sint ?z = uint ?z"
        by (rule sint_of_small)
      with z show False using uint_ge_0 [of ?z] by linarith
    qed
    then have "int (2 ^ 31) \<le> uint ?z"
      by simp
    then have "2 ^ 31 \<le> nat (uint ?z)"
      by (simp add: le_nat_iff del: nat_uint_eq)
    then have "2 ^ 31 \<le> unat ?z"
      by (simp only: nat_uint_eq)
    then have "length data < 8 + unat ?z"
      using short by simp
    then show ?thesis
      using Suc len bl by (simp add: Let_def)
  qed simp
  then show ?thesis
    using len by (simp add: deserialize_chunk_binary_def new_chunk_def Let_def flip: data_def)
qed

text \<open>The size of a serialised chunk.\<close>

lemma length_section_bytes: "storable_section s \<Longrightarrow> length (section_bytes idx s) \<le> 331910"
  using length_encode_binary [of "sec_blocks s"] length_encode_binary [of "sec_biomes s"]
  by (simp add: storable_section_def section_bytes_def light_ok_def Let_def)

lemma length_concat_bound: "(\<And>x. x \<in> set xs \<Longrightarrow> length (f x) \<le> b) \<Longrightarrow> length (concat (map f xs)) \<le> length xs * b"
  by (induction xs) (auto intro: add_mono)

lemma length_serialize:
  assumes "storable_chunk c"
  shows "length (serialize_chunk_binary c) \<le> 8000000" and "0 < length (serialize_chunk_binary c)"
proof -
  let ?rs = "section_records (ck_sections c)"
  have len: "length (ck_sections c) = 24"
    using assms by (simp add: storable_chunk_def SECTIONS_PER_CHUNK_def)
  have n: "length ?rs \<le> 24"
    using len length_filter_le [of "\<lambda>i. ck_sections c ! i \<noteq> None" "[0..<length (ck_sections c)]"]
    by (simp add: section_records_def filled_sections_eq)
  have "length (case r of (i, s) \<Rightarrow> section_bytes i s) \<le> 331910" if "r \<in> set ?rs" for r
  proof -
    obtain i s where r: "r = (i, s)" by (cases r)
    have "Some s \<in> set (ck_sections c)"
      using in_section_records [of i s] that r by (metis nth_mem)
    then show ?thesis
      using assms length_section_bytes by (simp add: r storable_chunk_def)
  qed
  then have "length (concat (map (\<lambda>(i, s). section_bytes i s) ?rs)) \<le> length ?rs * 331910"
    by (rule length_concat_bound)
  also have "\<dots> \<le> 24 * 331910"
    using n by simp
  finally have "length (drop 8 (serialize_chunk_binary c)) \<le> 2 + 24 * 331910"
    unfolding serialize_body length_append length_le_bytes by simp
  then show "length (serialize_chunk_binary c) \<le> 8000000"
    by simp
  show "0 < length (serialize_chunk_binary c)"
    by (subst serialize_split) simp
qed



end
