(* ===== verification/ChunkStore.thy ===== *)
theory ChunkStore
  imports ChunkFormat Codec "HOL-Library.AList"
begin

text \<open>
  \<open>mc-world/src/chunk_store.rs\<close>, the store of loaded chunks: the map with its separate chunk
  counter, insertion with LRU eviction, write-back, and the adaptive choice of a compression.
  The map is a \<open>DashMap\<close>: an association list stands for it, its order for an iteration order
  of the map. Saving a chunk to the disk is the parameter \<open>save\<close> (whether it succeeds), and the
  operations that save also return the chunks written. Operations are atomic here; the
  interleavings of concurrent callers are not modelled.

  Shown: insertion keeps the capacity and an exact counter, and evicts the least recently used
  clean chunks first; a dirty chunk whose save fails is dropped; \<open>remove\<close> and \<open>get_or_load\<close>
  leave the counter wrong; the adaptive compression switches once and never again.
\<close>

type_synonym chunk_map = "(ChunkPos \<times> Chunk) list"

record ChunkStore =
  cs_chunks :: chunk_map
  cs_count :: nat
  cs_max :: nat

definition DEFAULT_MAX_CHUNKS :: nat where "DEFAULT_MAX_CHUNKS = 1024"
definition ESTIMATED_CHUNK_BYTES :: nat where "ESTIMATED_CHUNK_BYTES = 100000"

definition new_store :: ChunkStore where
  "new_store = \<lparr>cs_chunks = [], cs_count = 0, cs_max = DEFAULT_MAX_CHUNKS\<rparr>"

definition with_max_chunks :: "nat \<Rightarrow> ChunkStore \<Rightarrow> ChunkStore" where
  "with_max_chunks m s = s\<lparr>cs_max := m\<rparr>"

definition estimated_memory_bytes :: "ChunkStore \<Rightarrow> nat" where
  "estimated_memory_bytes s = length (cs_chunks s) * ESTIMATED_CHUNK_BYTES"

definition would_exceed_budget :: "ChunkStore \<Rightarrow> nat \<Rightarrow> nat \<Rightarrow> bool" where
  "would_exceed_budget s additional max_mb \<longleftrightarrow>
     (length (cs_chunks s) + additional) * ESTIMATED_CHUNK_BYTES > max_mb * 1024 * 1024"

text \<open>\<open>fetch_sub(1)\<close> on an \<open>AtomicUsize\<close> wraps.\<close>

definition usize_dec :: "nat \<Rightarrow> nat" where
  "usize_dec n = (if n = 0 then 2 ^ 64 - 1 else n - 1)"

text \<open>Positions of the chunks that satisfy \<open>P\<close>, least recently used first.\<close>

definition lru_key :: "chunk_map \<Rightarrow> ChunkPos \<Rightarrow> u64" where
  "lru_key m key = (case map_of m key of Some c \<Rightarrow> ck_lru c | None \<Rightarrow> - 1)"

definition candidates :: "(Chunk \<Rightarrow> bool) \<Rightarrow> chunk_map \<Rightarrow> ChunkPos list" where
  "candidates P m = sort_key (lru_key m) (map fst (filter (\<lambda>(k, c). P c) m))"

text \<open>\<open>if self.chunks.remove(key).is_some() { self.count.fetch_sub(1, ..); }\<close>\<close>

definition remove_counted :: "ChunkPos \<Rightarrow> ChunkStore \<Rightarrow> ChunkStore" where
  "remove_counted key s =
     (if map_of (cs_chunks s) key = None then s
      else s\<lparr>cs_chunks := AList.delete key (cs_chunks s), cs_count := usize_dec (cs_count s)\<rparr>)"

text \<open>One candidate of \<open>flush_dirty_lru\<close>: saved if that succeeds, and removed either way.\<close>

definition flush_one :: "(Chunk \<Rightarrow> bool) \<Rightarrow> ChunkPos \<Rightarrow> ChunkStore \<times> Chunk list \<Rightarrow> ChunkStore \<times> Chunk list" where
  "flush_one save key = (\<lambda>(s, written).
     (remove_counted key s,
      case map_of (cs_chunks s) key of
        Some c \<Rightarrow> if save c then written @ [c] else written
      | None \<Rightarrow> written))"

definition flush_dirty_lru :: "(Chunk \<Rightarrow> bool) \<Rightarrow> nat \<Rightarrow> ChunkStore \<Rightarrow> ChunkStore \<times> Chunk list" where
  "flush_dirty_lru save count s =
     (let cand = candidates ck_dirty (cs_chunks s); n = min count (length cand)
      in fold (flush_one save) (take n cand) (s, []))"

definition evict_lru :: "(Chunk \<Rightarrow> bool) \<Rightarrow> nat \<Rightarrow> ChunkStore \<Rightarrow> ChunkStore \<times> Chunk list" where
  "evict_lru save count s =
     (let cand = candidates (\<lambda>c. \<not> ck_dirty c) (cs_chunks s);
          clean_n = min count (length cand);
          s = fold remove_counted (take clean_n cand) s;
          remaining = count - clean_n
      in if remaining > 0 then flush_dirty_lru save remaining s else (s, []))"

definition store_insert :: "(Chunk \<Rightarrow> bool) \<Rightarrow> ChunkPos \<Rightarrow> Chunk \<Rightarrow> ChunkStore \<Rightarrow> ChunkStore \<times> Chunk list" where
  "store_insert save pos chunk s =
     (let fresh = (map_of (cs_chunks s) pos = None);
          s = s\<lparr>cs_chunks := AList.update pos chunk (cs_chunks s),
                cs_count := (if fresh then usize_add (cs_count s) 1 else cs_count s)\<rparr>;
          current = cs_count s
      in if current > cs_max s then evict_lru save (current - cs_max s) s else (s, []))"

definition dirty_count :: "ChunkStore \<Rightarrow> nat" where
  "dirty_count s = length (filter (\<lambda>(k, c). ck_dirty c) (cs_chunks s))"

text \<open>\<open>(max_chunks as f64 * 0.80) as usize\<close>, for capacities below \<open>2^49\<close>.\<close>

definition writeback_threshold :: "nat \<Rightarrow> nat" where
  "writeback_threshold m = m * 4 div 5"

definition write_one :: "(Chunk \<Rightarrow> bool) \<Rightarrow> ChunkPos \<Rightarrow> chunk_map \<times> Chunk list \<Rightarrow> chunk_map \<times> Chunk list" where
  "write_one save key = (\<lambda>(m, written).
     (case map_of m key of
        Some c \<Rightarrow> if save c then (AList.update key (c\<lparr>ck_dirty := False\<rparr>) m, written @ [c]) else (m, written)
      | None \<Rightarrow> (m, written)))"

definition proactive_writeback :: "(Chunk \<Rightarrow> bool) \<Rightarrow> ChunkStore \<Rightarrow> ChunkStore \<times> Chunk list" where
  "proactive_writeback save s =
     (let dirty = dirty_count s; threshold = writeback_threshold (cs_max s) in
      if dirty \<le> threshold then (s, [])
      else
        let to_flush = dirty - threshold div 2;
            (m, written) = fold (write_one save) (take to_flush (candidates ck_dirty (cs_chunks s))) (cs_chunks s, [])
        in (s\<lparr>cs_chunks := m\<rparr>, written))"

definition contains_key :: "ChunkPos \<Rightarrow> ChunkStore \<Rightarrow> bool" where
  "contains_key pos s \<longleftrightarrow> map_of (cs_chunks s) pos \<noteq> None"

definition store_get :: "ChunkPos \<Rightarrow> ChunkStore \<Rightarrow> Chunk option" where
  "store_get pos s = map_of (cs_chunks s) pos"

definition get_or_load :: "u64 \<Rightarrow> ChunkPos \<Rightarrow> ChunkStore \<Rightarrow> u64 \<times> ChunkStore" where
  "get_or_load lru pos s =
     (case map_of (cs_chunks s) pos of
        Some c \<Rightarrow> (lru, s)
      | None \<Rightarrow> let (lru, c) = new_chunk lru pos in (lru, s\<lparr>cs_chunks := AList.update pos c (cs_chunks s)\<rparr>))"

definition store_count :: "ChunkStore \<Rightarrow> nat" where
  "store_count s = length (cs_chunks s)"

definition dirty_chunks :: "ChunkStore \<Rightarrow> chunk_map" where
  "dirty_chunks s = filter (\<lambda>(k, c). ck_dirty c) (cs_chunks s)"

definition all_loaded_positions :: "ChunkStore \<Rightarrow> ChunkPos list" where
  "all_loaded_positions s = map fst (cs_chunks s)"

definition store_remove :: "ChunkPos \<Rightarrow> ChunkStore \<Rightarrow> ChunkStore \<times> Chunk option" where
  "store_remove pos s = (s\<lparr>cs_chunks := AList.delete pos (cs_chunks s)\<rparr>, map_of (cs_chunks s) pos)"

definition unload_distant :: "ChunkPos list \<Rightarrow> ChunkStore \<Rightarrow> ChunkStore" where
  "unload_distant keep s =
     (let to_remove = filter (\<lambda>k. k \<notin> set keep) (map fst (cs_chunks s))
      in s\<lparr>cs_chunks := fold AList.delete to_remove (cs_chunks s)\<rparr>)"

definition mark_all_clean :: "ChunkStore \<Rightarrow> ChunkStore" where
  "mark_all_clean s = s\<lparr>cs_chunks := map (\<lambda>(k, c). (k, c\<lparr>ck_dirty := False\<rparr>)) (cs_chunks s)\<rparr>"

text \<open>\<open>try_load_from_disk\<close>: the two disk formats are parameters.\<close>

definition try_load_from_disk ::
    "(Chunk \<Rightarrow> bool) \<Rightarrow> (ChunkPos \<Rightarrow> Chunk option) \<Rightarrow> (ChunkPos \<Rightarrow> Chunk option) \<Rightarrow> ChunkPos \<Rightarrow> ChunkStore
     \<Rightarrow> (ChunkStore \<times> Chunk list) \<times> Chunk option" where
  "try_load_from_disk save linear anvil pos s =
     (case map_of (cs_chunks s) pos of
        Some c \<Rightarrow> ((s, []), Some c)
      | None \<Rightarrow>
          (case linear pos of
             Some c \<Rightarrow> (store_insert save pos c s, Some c)
           | None \<Rightarrow>
               (case anvil pos of
                  Some c \<Rightarrow> (store_insert save pos c s, Some c)
                | None \<Rightarrow> ((s, []), None))))"

section \<open>Adaptive compression\<close>

datatype ChunkCompression = Lz4 | Zstd

definition ADAPTIVE_WINDOW :: nat where "ADAPTIVE_WINDOW = 4"
definition SLOW_SAVE_THRESHOLD_MS :: u64 where "SLOW_SAVE_THRESHOLD_MS = 500"
definition FAST_SAVE_THRESHOLD_MS :: u64 where "FAST_SAVE_THRESHOLD_MS = 100"

record compression_state =
  comp_mode :: u8
  comp_times :: "u64 list"

definition compression :: "compression_state \<Rightarrow> ChunkCompression" where
  "compression st = (if comp_mode st = 1 then Zstd else Lz4)"

definition set_adaptive_compression :: "compression_state \<Rightarrow> compression_state" where
  "set_adaptive_compression st = st\<lparr>comp_mode := 2\<rparr>"

fun set_compression :: "ChunkCompression \<Rightarrow> compression_state \<Rightarrow> compression_state" where
  "set_compression Lz4 st = st\<lparr>comp_mode := 0\<rparr>"
| "set_compression Zstd st = st\<lparr>comp_mode := 1\<rparr>"

definition record_save_time :: "u64 \<Rightarrow> compression_state \<Rightarrow> compression_state" where
  "record_save_time duration st =
     (let times = comp_times st @ [duration];
          times = (if length times > ADAPTIVE_WINDOW then tl times else times);
          st = st\<lparr>comp_times := times\<rparr>
      in if comp_mode st = 2 then
           let avg = sum_list times div word_of_nat (length times); current = compression st in
           if avg > SLOW_SAVE_THRESHOLD_MS \<and> current = Zstd then st\<lparr>comp_mode := 0\<rparr>
           else if avg < FAST_SAVE_THRESHOLD_MS \<and> current = Lz4 then st\<lparr>comp_mode := 1\<rparr>
           else st
         else st)"

section \<open>Eviction\<close>

definition store_inv :: "ChunkStore \<Rightarrow> bool" where
  "store_inv s \<longleftrightarrow> distinct (map fst (cs_chunks s)) \<and> cs_count s = length (cs_chunks s)"

lemma length_delete:
  "distinct (map fst m) \<Longrightarrow> k \<in> fst ` set m \<Longrightarrow> Suc (length (AList.delete k m)) = length m"
proof (induction m)
  case (Cons a m)
  then show ?case
    by (cases a) (auto simp: AList.delete_eq filter_id_conv, (force simp: filter_id_conv intro: arg_cong [where f = length])?)
qed simp

lemma map_of_delete: "map_of (AList.delete k m) = (map_of m)(k := None)"
  by (rule delete_conv')

lemma remove_counted_inv:
  assumes "store_inv s" and "k \<in> dom (map_of (cs_chunks s))"
  shows "store_inv (remove_counted k s)"
    and "Suc (length (cs_chunks (remove_counted k s))) = length (cs_chunks s)"
    and "map_of (cs_chunks (remove_counted k s)) = (map_of (cs_chunks s))(k := None)"
    and "cs_max (remove_counted k s) = cs_max s"
proof -
  have d: "distinct (map fst (cs_chunks s))"
    using assms(1) by (simp add: store_inv_def)
  have "k \<in> fst ` set (cs_chunks s)"
    using assms(2) by (simp add: dom_map_of_conv_image_fst)
  from length_delete [OF d this] have len: "Suc (length (AList.delete k (cs_chunks s))) = length (cs_chunks s)" .
  have r: "remove_counted k s
      = s\<lparr>cs_chunks := AList.delete k (cs_chunks s), cs_count := usize_dec (cs_count s)\<rparr>"
    using assms(2) by (auto simp: remove_counted_def dom_def)
  show "Suc (length (cs_chunks (remove_counted k s))) = length (cs_chunks s)"
    "map_of (cs_chunks (remove_counted k s)) = (map_of (cs_chunks s))(k := None)"
    "cs_max (remove_counted k s) = cs_max s"
    using len by (simp_all add: r map_of_delete)
  show "store_inv (remove_counted k s)"
    using assms(1) len distinct_delete [OF d] by (auto simp: r store_inv_def usize_dec_def)
qed

lemma fold_remove_counted:
  "store_inv s \<Longrightarrow> distinct ks \<Longrightarrow> set ks \<subseteq> dom (map_of (cs_chunks s)) \<Longrightarrow>
   store_inv (fold remove_counted ks s)
   \<and> length (cs_chunks (fold remove_counted ks s)) + length ks = length (cs_chunks s)
   \<and> map_of (cs_chunks (fold remove_counted ks s)) = map_of (cs_chunks s) |` (- set ks)
   \<and> cs_max (fold remove_counted ks s) = cs_max s"
proof (induction ks arbitrary: s)
  case (Cons k ks)
  have k: "k \<in> dom (map_of (cs_chunks s))"
    using Cons.prems by simp
  note r = remove_counted_inv [OF Cons.prems(1) k]
  have "set ks \<subseteq> dom (map_of (cs_chunks (remove_counted k s)))"
    using Cons.prems by (auto simp: r(3))
  then have "store_inv (fold remove_counted ks (remove_counted k s))
     \<and> length (cs_chunks (fold remove_counted ks (remove_counted k s))) + length ks
       = length (cs_chunks (remove_counted k s))
     \<and> map_of (cs_chunks (fold remove_counted ks (remove_counted k s)))
       = map_of (cs_chunks (remove_counted k s)) |` (- set ks)
     \<and> cs_max (fold remove_counted ks (remove_counted k s)) = cs_max (remove_counted k s)"
    using Cons.prems by (intro Cons.IH r(1)) simp_all
  moreover have "(map_of (cs_chunks s))(k := None) |` (- set ks) = map_of (cs_chunks s) |` (- set (k # ks))"
    by (auto simp: restrict_map_def)
  ultimately show ?case
    using r by simp
qed (simp add: restrict_map_def)

lemma set_candidates:
  assumes "distinct (map fst m)"
  shows "k \<in> set (candidates P m) \<longleftrightarrow> (\<exists>c. map_of m k = Some c \<and> P c)"
  using assms by (force simp: candidates_def)

lemma distinct_candidates: "distinct (map fst m) \<Longrightarrow> distinct (candidates P m)"
  by (simp add: candidates_def distinct_map_filter)

lemma sorted_candidates: "sorted (map (lru_key m) (candidates P m))"
  by (simp add: candidates_def)

lemma length_candidates: "length (candidates P m) = length (filter (\<lambda>(k, c). P c) m)"
  by (simp add: candidates_def)

lemma fst_flush: "fst (fold (flush_one save) ks sw) = fold remove_counted ks (fst sw)"
  by (induction ks arbitrary: sw) (auto simp: flush_one_def split: prod.split)

text \<open>What eviction removes: as many chunks as asked, dirty ones only when no clean one is left, and
  the least recently used of the clean ones.\<close>

lemma evict_lru_spec:
  assumes inv: "store_inv s" and n: "n \<le> length (cs_chunks s)"
  shows "\<exists>ks. fst (evict_lru save n s) = fold remove_counted ks s
    \<and> distinct ks \<and> length ks = n \<and> set ks \<subseteq> dom (map_of (cs_chunks s))
    \<and> (\<forall>k \<in> set ks. ck_dirty (the (map_of (cs_chunks s) k)) \<longrightarrow>
         (\<forall>k' c. map_of (cs_chunks s) k' = Some c \<and> \<not> ck_dirty c \<longrightarrow> k' \<in> set ks))
    \<and> (\<forall>k \<in> set ks. \<forall>k' c. \<not> ck_dirty (the (map_of (cs_chunks s) k)) \<and> k' \<notin> set ks
         \<and> map_of (cs_chunks s) k' = Some c \<and> \<not> ck_dirty c \<longrightarrow> lru_key (cs_chunks s) k \<le> ck_lru c)"
proof -
  let ?m = "cs_chunks s"
  let ?clean = "candidates (\<lambda>c. \<not> ck_dirty c) ?m"
  let ?cn = "min n (length ?clean)"
  let ?ks1 = "take ?cn ?clean"
  let ?s1 = "fold remove_counted ?ks1 s"
  have d: "distinct (map fst ?m)"
    using inv by (simp add: store_inv_def)
  note set_clean = set_candidates [OF d, of _ "\<lambda>c. \<not> ck_dirty c"]
  have dc: "distinct ?clean"
    by (rule distinct_candidates [OF d])
  have sub1: "set ?ks1 \<subseteq> dom (map_of ?m)"
    using set_clean by (auto dest!: in_set_takeD)
  have d1: "distinct ?ks1"
    using dc by simp
  note f1 = fold_remove_counted [OF inv d1 sub1]
  have clean1: "\<not> ck_dirty (the (map_of ?m k))" if "k \<in> set ?ks1" for k
    using set_clean [of k] that by (auto dest!: in_set_takeD)
  have order: "lru_key ?m k \<le> ck_lru c"
    if k: "k \<in> set ?ks1" and k': "k' \<notin> set ?ks1" "map_of ?m k' = Some c" "\<not> ck_dirty c" for k k' c
  proof -
    have "k' \<in> set ?clean"
      using set_clean [of k'] k' by auto
    then have "k' \<in> set (drop ?cn ?clean)"
      using k'(1) by (metis UnE append_take_drop_id set_append)
    moreover have "sorted (map (lru_key ?m) ?ks1 @ map (lru_key ?m) (drop ?cn ?clean))"
      using sorted_candidates [of ?m] by (metis append_take_drop_id map_append)
    ultimately have "lru_key ?m k \<le> lru_key ?m k'"
      using k by (auto simp: sorted_append)
    then show ?thesis
      using k'(2) by (simp add: lru_key_def)
  qed
  show ?thesis
  proof (cases "n \<le> length ?clean")
    case True
    then have "fst (evict_lru save n s) = ?s1"
      by (simp add: evict_lru_def Let_def)
    then show ?thesis
      using True d1 sub1 clean1 order by (intro exI [of _ ?ks1]) auto
  next
    case False
    let ?dirty = "candidates ck_dirty (cs_chunks ?s1)"
    let ?ks2 = "take (min (n - length ?clean) (length ?dirty)) ?dirty"
    have all: "?ks1 = ?clean"
      using False by simp
    have "store_inv ?s1" and m1: "map_of (cs_chunks ?s1) = map_of ?m |` (- set ?clean)"
      and len1: "length (cs_chunks ?s1) + length ?clean = length ?m"
      using f1 unfolding all by simp_all
    then have dd: "distinct (map fst (cs_chunks ?s1))"
      by (simp add: store_inv_def)
    have dirty: "k \<in> set ?dirty \<longleftrightarrow> (\<exists>c. map_of ?m k = Some c \<and> ck_dirty c)" for k
      using set_candidates [OF dd, of k ck_dirty] set_clean [of k]
      by (auto simp: m1 restrict_map_def split: if_splits)
    have "filter (\<lambda>(k, c). ck_dirty c) (cs_chunks ?s1) = cs_chunks ?s1"
    proof (rule filter_True)
      show "\<forall>x \<in> set (cs_chunks ?s1). case x of (k, c) \<Rightarrow> ck_dirty c"
      proof
        fix x assume x: "x \<in> set (cs_chunks ?s1)"
        obtain k c where kc: "x = (k, c)" by (cases x)
        have "map_of (cs_chunks ?s1) k = Some c"
          using x dd by (simp add: kc)
        then have "map_of ?m k = Some c" "k \<notin> set ?clean"
          by (auto simp: m1 restrict_map_def split: if_splits)
        then show "case x of (k, c) \<Rightarrow> ck_dirty c"
          using set_clean [of k] by (auto simp: kc)
      qed
    qed
    then have "length ?dirty = length (cs_chunks ?s1)"
      by (simp add: length_candidates)
    then have len2: "length ?ks2 = n - length ?clean"
      using len1 n by simp
    define ks where "ks = ?clean @ ?ks2"
    have "fst (evict_lru save n s) = fold remove_counted ks s"
      using False by (simp add: evict_lru_def flush_dirty_lru_def Let_def fst_flush ks_def)
    moreover have "distinct ks"
      using dc distinct_candidates [OF dd, of ck_dirty] set_clean dirty
      by (auto simp: ks_def dest!: in_set_takeD)
    moreover have "length ks = n"
      using len2 False by (simp add: ks_def)
    moreover have "set ks \<subseteq> dom (map_of ?m)"
      using set_clean dirty by (auto simp: ks_def dest!: in_set_takeD)
    moreover have "k \<in> set ks" if "map_of ?m k = Some c" "\<not> ck_dirty c" for k c
      using set_clean [of k] that by (auto simp: ks_def)
    ultimately show ?thesis
      by (intro exI [of _ ks]) blast
  qed
qed

lemma insert_spec:
  assumes "store_inv s" and "length (cs_chunks s) \<le> cs_max s" and "cs_max s < 2 ^ 63"
    and "s' = fst (store_insert save pos c s)"
  shows "store_inv s'" and "length (cs_chunks s') \<le> cs_max s'"
    and "cs_max s' = cs_max s"
    and "map_of (cs_chunks s') \<subseteq>\<^sub>m (map_of (cs_chunks s))(pos \<mapsto> c)"
    and "\<And>k b. ((map_of (cs_chunks s))(pos \<mapsto> c)) k = Some b \<Longrightarrow> map_of (cs_chunks s') k = None \<Longrightarrow>
      ck_dirty b \<longrightarrow> (\<forall>k' b'. map_of (cs_chunks s') k' = Some b' \<longrightarrow> ck_dirty b')"
    and "\<And>k b. ((map_of (cs_chunks s))(pos \<mapsto> c)) k = Some b \<Longrightarrow> map_of (cs_chunks s') k = None \<Longrightarrow>
      \<not> ck_dirty b \<longrightarrow> (\<forall>k' b'. map_of (cs_chunks s') k' = Some b' \<and> \<not> ck_dirty b' \<longrightarrow> ck_lru b \<le> ck_lru b')"
proof -
  let ?fresh = "map_of (cs_chunks s) pos = None"
  define s0 where "s0 = s\<lparr>cs_chunks := AList.update pos c (cs_chunks s),
    cs_count := (if ?fresh then usize_add (cs_count s) 1 else cs_count s)\<rparr>"
  have d: "distinct (map fst (cs_chunks s))" and count: "cs_count s = length (cs_chunks s)"
    using assms(1) by (simp_all add: store_inv_def)
  have "length (AList.update pos c m) = (if map_of m pos = None then Suc (length m) else length m)" for m
    by (induction m) auto
  then have len: "length (cs_chunks s0) = (if ?fresh then Suc (length (cs_chunks s)) else length (cs_chunks s))"
    by (simp add: s0_def)
  have m0: "map_of (cs_chunks s0) = (map_of (cs_chunks s))(pos \<mapsto> c)"
    by (simp add: s0_def update_conv')
  have inv0: "store_inv s0"
    using distinct_update [OF d] len count assms(2,3) by (simp add: store_inv_def s0_def usize_add_def)
  have max0: "cs_max s0 = cs_max s"
    by (simp add: s0_def)
  have s': "s' = (if cs_count s0 > cs_max s0 then fst (evict_lru save (cs_count s0 - cs_max s0) s0) else s0)"
    by (simp add: assms(4) store_insert_def Let_def s0_def)
  have count0: "cs_count s0 = length (cs_chunks s0)"
    using inv0 by (simp add: store_inv_def)
  obtain ks where ks: "s' = fold remove_counted ks s0" "distinct ks" "set ks \<subseteq> dom (map_of (cs_chunks s0))"
    and n: "length ks = length (cs_chunks s0) - cs_max s0"
    and dirty: "\<And>k k' c. k \<in> set ks \<Longrightarrow> ck_dirty (the (map_of (cs_chunks s0) k)) \<Longrightarrow>
      map_of (cs_chunks s0) k' = Some c \<Longrightarrow> \<not> ck_dirty c \<Longrightarrow> k' \<in> set ks"
    and clean: "\<And>k k' c. k \<in> set ks \<Longrightarrow> \<not> ck_dirty (the (map_of (cs_chunks s0) k)) \<Longrightarrow> k' \<notin> set ks \<Longrightarrow>
      map_of (cs_chunks s0) k' = Some c \<Longrightarrow> \<not> ck_dirty c \<Longrightarrow> lru_key (cs_chunks s0) k \<le> ck_lru c"
  proof (cases "cs_count s0 > cs_max s0")
    case True
    then show thesis
      using evict_lru_spec [OF inv0, of "cs_count s0 - cs_max s0" save] count0 s'
      by (auto intro!: that)
  next
    case False
    then show thesis
      using s' count0 by (intro that [of "[]"]) simp_all
  qed
  from fold_remove_counted [OF inv0 ks(2,3)]
  show "store_inv s'" "length (cs_chunks s') \<le> cs_max s'" "cs_max s' = cs_max s"
    using n max0 by (auto simp: ks(1))
  have m': "map_of (cs_chunks s') = (map_of (cs_chunks s))(pos \<mapsto> c) |` (- set ks)"
    using fold_remove_counted [OF inv0 ks(2,3)] by (simp add: ks(1) m0)
  then show "map_of (cs_chunks s') \<subseteq>\<^sub>m (map_of (cs_chunks s))(pos \<mapsto> c)"
    by (auto simp: map_le_def restrict_map_def)
  fix k b assume k: "((map_of (cs_chunks s))(pos \<mapsto> c)) k = Some b" "map_of (cs_chunks s') k = None"
  then have gone: "k \<in> set ks"
    by (auto simp: m' restrict_map_def split: if_splits)
  have b: "the (map_of (cs_chunks s0) k) = b" "lru_key (cs_chunks s0) k = ck_lru b"
    using k(1) by (simp_all add: lru_key_def flip: m0)
  have stays: "map_of (cs_chunks s0) k' = Some b' \<and> k' \<notin> set ks" if "map_of (cs_chunks s') k' = Some b'" for k' b'
    using that by (simp add: m' m0 restrict_map_def split: if_splits)
  show "ck_dirty b \<longrightarrow> (\<forall>k' b'. map_of (cs_chunks s') k' = Some b' \<longrightarrow> ck_dirty b')"
    using dirty [OF gone] stays b(1) by blast
  show "\<not> ck_dirty b \<longrightarrow> (\<forall>k' b'. map_of (cs_chunks s') k' = Some b' \<and> \<not> ck_dirty b' \<longrightarrow> ck_lru b \<le> ck_lru b')"
    using clean [OF gone] stays b by metis
qed



lemma flush_written:
  "snd (fold (flush_one save) ks (s, w)) = w @ snd (fold (flush_one save) ks (s, []))
   \<and> (\<forall>c \<in> set (snd (fold (flush_one save) ks (s, []))). save c)"
proof (induction ks arbitrary: s w)
  case (Cons k ks)
  let ?s = "remove_counted k s"
  define w1 where "w1 = (case map_of (cs_chunks s) k of Some c \<Rightarrow> if save c then [c] else [] | None \<Rightarrow> [])"
  have step: "flush_one save k (s, w) = (?s, w @ w1)" for w
    by (simp add: flush_one_def w1_def split: option.split)
  have w1: "\<forall>c \<in> set w1. save c"
    by (simp add: w1_def split: option.split)
  show ?case
    using Cons.IH [of ?s "w @ w1"] Cons.IH [of ?s w1] w1 step [of w] step [of "[]"] by auto
qed simp

lemma written_saved: "c' \<in> set (snd (store_insert save pos c s)) \<Longrightarrow> save c'"
proof -
  have flush: "save c'" if "c' \<in> set (snd (flush_dirty_lru save n s))" for n s
    using that flush_written unfolding flush_dirty_lru_def Let_def by blast
  have evict: "save c'" if "c' \<in> set (snd (evict_lru save n s))" for n s
    using that flush by (simp add: evict_lru_def Let_def split: if_splits)
  show "c' \<in> set (snd (store_insert save pos c s)) \<Longrightarrow> save c'"
    using evict by (simp add: store_insert_def Let_def split: if_splits)
qed

text \<open>A failing disk loses chunks: when a full store holds only unsaved chunks and saving fails,
  inserting another unsaved chunk still evicts one, which has then been written nowhere.\<close>

theorem failed_save_drops_chunk:
  assumes "store_inv s" and "length (cs_chunks s) = cs_max s" and "cs_max s < 2 ^ 63"
    and "\<forall>b \<in> ran (map_of (cs_chunks s)). ck_dirty b" and "ck_dirty c"
    and "map_of (cs_chunks s) pos = None"
  shows "\<exists>k b. ((map_of (cs_chunks s))(pos \<mapsto> c)) k = Some b \<and> ck_dirty b
    \<and> map_of (cs_chunks (fst (store_insert (\<lambda>_. False) pos c s))) k = None
    \<and> snd (store_insert (\<lambda>_. False) pos c s) = []"
proof -
  define s' where "s' = fst (store_insert (\<lambda>_. False) pos c s)"
  let ?m' = "map_of (cs_chunks s')" and ?m = "(map_of (cs_chunks s))(pos \<mapsto> c)"
  note spec = insert_spec [OF assms(1) _ assms(3) s'_def]
  have le: "length (cs_chunks s) \<le> cs_max s"
    using assms(2) by simp
  have small: "card (dom ?m') \<le> cs_max s"
  proof -
    have "card (dom ?m') \<le> length (cs_chunks s')"
      by (metis card_length dom_map_of_conv_image_fst length_map list.set_map)
    then show ?thesis
      using spec(2,3) [OF le] by simp
  qed
  have "card (dom (map_of (cs_chunks s))) = length (cs_chunks s)"
    using assms(1) distinct_card [of "map fst (cs_chunks s)"]
    by (simp add: store_inv_def dom_map_of_conv_image_fst)
  then have "card (dom ?m) = Suc (cs_max s)"
    using assms(2,6) finite_dom_map_of [of "cs_chunks s"]
    by (simp add: card_insert_if domIff)
  then have "\<not> dom ?m \<subseteq> dom ?m'"
    using small card_mono [OF finite_dom_map_of, of "dom ?m" "cs_chunks s'"] by auto
  then obtain k where "k \<in> dom ?m" "k \<notin> dom ?m'"
    by blast
  then obtain b where k: "?m k = Some b" "?m' k = None"
    by (metis domD domIff)
  have "ck_dirty b"
    using k(1) assms(4,5) by (auto simp: ran_def split: if_splits)
  moreover have "snd (store_insert (\<lambda>_. False) pos c s) = []"
    using written_saved [of _ "\<lambda>_. False" pos c s] by (metis list.set_intros(1) neq_Nil_conv)
  ultimately show ?thesis
    using k unfolding s'_def by blast
qed

theorem failed_save_drops_chunk_witness:
  "\<exists>s pos c k b. ((map_of (cs_chunks s))(pos \<mapsto> c)) k = Some b \<and> ck_dirty b
    \<and> map_of (cs_chunks (fst (store_insert (\<lambda>_. False) pos c s))) k = None
    \<and> snd (store_insert (\<lambda>_. False) pos c s) = []"
proof -
  let ?c = "\<lambda>n. snd (new_chunk n (chunk_pos 0 0))"
  let ?s = "\<lparr>cs_chunks = [(chunk_pos 0 0, ?c 0)], cs_count = 1, cs_max = 1\<rparr>"
  have dirty: "ck_dirty (?c n)" for n
    by (simp add: new_chunk_def)
  have "store_inv ?s" "length (cs_chunks ?s) = cs_max ?s" "cs_max ?s < 2 ^ 63"
    by (simp_all add: store_inv_def)
  moreover have "\<forall>b \<in> ran (map_of (cs_chunks ?s)). ck_dirty b"
    using dirty by (simp add: ran_def)
  moreover have "map_of (cs_chunks ?s) (chunk_pos 1 1) = None"
    by (simp add: chunk_pos_def)
  ultimately show ?thesis
    using failed_save_drops_chunk [OF _ _ _ _ dirty] by blast
qed

section \<open>The counter\<close>

lemma chunk_counter_drifts_facts:
  assumes "store_inv s"
  shows "map_of (cs_chunks s) pos \<noteq> None \<Longrightarrow>
      cs_count (fst (store_remove pos s)) = length (cs_chunks (fst (store_remove pos s))) + 1"
    and "map_of (cs_chunks s) pos = None \<Longrightarrow>
      cs_count (snd (get_or_load lru pos s)) + 1 = length (cs_chunks (snd (get_or_load lru pos s)))"
proof -
  have d: "distinct (map fst (cs_chunks s))" and count: "cs_count s = length (cs_chunks s)"
    using assms by (simp_all add: store_inv_def)
  show "cs_count (fst (store_remove pos s)) = length (cs_chunks (fst (store_remove pos s))) + 1"
    if "map_of (cs_chunks s) pos \<noteq> None"
  proof -
    have "pos \<in> fst ` set (cs_chunks s)"
      using that by (simp add: map_of_eq_None_iff)
    from length_delete [OF d this] show ?thesis
      by (simp add: store_remove_def count)
  qed
  have "map_of m pos = None \<Longrightarrow> length (AList.update pos c m) = Suc (length m)" for c :: Chunk and m
    by (induction m) (auto split: if_splits)
  then show "cs_count (snd (get_or_load lru pos s)) + 1 = length (cs_chunks (snd (get_or_load lru pos s)))"
    if "map_of (cs_chunks s) pos = None"
    using that by (simp add: get_or_load_def new_chunk_def count)
qed

text \<open>The counter that drives eviction drifts: \<open>remove\<close> takes a chunk out without counting it, so
  the store then counts one chunk too many, and \<open>get_or_load\<close> adds a chunk without counting
  it, so it counts one too few.\<close>

theorem chunk_counter_drifts:
  assumes "store_inv s"
  shows "(map_of (cs_chunks s) pos \<noteq> None \<longrightarrow>
      cs_count (fst (store_remove pos s)) = length (cs_chunks (fst (store_remove pos s))) + 1)
    \<and> (map_of (cs_chunks s) pos = None \<longrightarrow>
      cs_count (snd (get_or_load lru pos s)) + 1 = length (cs_chunks (snd (get_or_load lru pos s))))"
  using chunk_counter_drifts_facts [OF assms] by blast

theorem chunk_counter_drifts_witness:
  "cs_count (snd (get_or_load 0 (chunk_pos 0 0) new_store)) + 1
    = length (cs_chunks (snd (get_or_load 0 (chunk_pos 0 0) new_store)))"
  using chunk_counter_drifts [of new_store "chunk_pos 0 0" 0] by (simp add: new_store_def store_inv_def)

lemma adaptive_compression_sticks_facts:
  "comp_mode st = 2 \<Longrightarrow> comp_mode (record_save_time d st) \<in> {1, 2}"
  "comp_mode st \<noteq> 2 \<Longrightarrow> comp_mode (fold record_save_time ds st) = comp_mode st"
proof -
  show "comp_mode st = 2 \<Longrightarrow> comp_mode (record_save_time d st) \<in> {1, 2}"
    by (simp add: record_save_time_def compression_def Let_def)
  have "comp_mode st \<noteq> 2 \<Longrightarrow> comp_mode (record_save_time d st) = comp_mode st" for d st
    by (simp add: record_save_time_def Let_def)
  then show "comp_mode st \<noteq> 2 \<Longrightarrow> comp_mode (fold record_save_time ds st) = comp_mode st"
    by (induction ds arbitrary: st) simp_all
qed

text \<open>The adaptive compression is not adaptive: from the adaptive mode a recorded save time
  either changes nothing or selects Zstd, the fall back to LZ4 on slow saves is never taken,
  and once Zstd is selected no save time changes the choice any more.\<close>

theorem adaptive_compression_sticks:
  "(comp_mode st = 2 \<longrightarrow> comp_mode (record_save_time d st) \<in> {1, 2})
   \<and> (comp_mode st \<noteq> 2 \<longrightarrow> comp_mode (fold record_save_time ds st) = comp_mode st)"
  using adaptive_compression_sticks_facts by blast

theorem adaptive_compression_sticks_witness:
  "comp_mode (record_save_time 20 \<lparr>comp_mode = 2, comp_times = []\<rparr>) = 1
   \<and> comp_mode (fold record_save_time [900, 900, 900, 900] \<lparr>comp_mode = 1, comp_times = []\<rparr>) = 1"
proof -
  have "comp_mode (record_save_time 20 \<lparr>comp_mode = 2, comp_times = []\<rparr>) \<in> {1, 2}"
    using adaptive_compression_sticks [of "\<lparr>comp_mode = 2, comp_times = []\<rparr>" 20] by simp
  moreover have "comp_mode (record_save_time 20 \<lparr>comp_mode = 2, comp_times = []\<rparr>) \<noteq> 2"
    by (simp add: record_save_time_def compression_def Let_def ADAPTIVE_WINDOW_def
        FAST_SAVE_THRESHOLD_MS_def SLOW_SAVE_THRESHOLD_MS_def)
  moreover have "comp_mode (fold record_save_time [900, 900, 900, 900] \<lparr>comp_mode = 1, comp_times = []\<rparr>) = 1"
    using adaptive_compression_sticks [of "\<lparr>comp_mode = 1, comp_times = []\<rparr>" 0 "[900, 900, 900, 900]"] by simp
  ultimately show ?thesis by simp
qed

end
