(* ===== verification/WorldBlocks.thy ===== *)
theory WorldBlocks
  imports ChunkStore
begin

text \<open>
  Block reads and writes by world coordinates, as the world's engines do them
  (\<open>mc-world/src/fluid.rs\<close>, \<open>physics.rs\<close>, \<open>crops.rs\<close>, \<open>redstone.rs\<close>: each has its own copy of
  the same two functions). A read or write of a height outside the world or of a chunk that is
  not loaded does nothing.

  The loaded chunks refine a map from coordinates to blocks: \<open>cells\<close> is the abstraction, and
  under \<open>world_in\<close> a read looks the map up and a write updates it. The engines are verified
  over the map.
\<close>

section \<open>Coordinates and loaded chunks\<close>

type_synonym pos = "i32 \<times> i32 \<times> i32"

definition shift :: "pos \<Rightarrow> i32 \<times> i32 \<times> i32 \<Rightarrow> pos" where
  "shift p d = (case (p, d) of ((x, y, z), (dx, dy, dz)) \<Rightarrow> (x + dx, y + dy, z + dz))"

text \<open>The four neighbours on a level.\<close>

definition sides :: "(i32 \<times> i32 \<times> i32) list" where
  "sides = [(1, 0, 0), (- 1, 0, 0), (0, 0, 1), (0, 0, - 1)]"

definition y_of :: "pos \<Rightarrow> i32" where "y_of p = fst (snd p)"
definition chunk_of_pos :: "pos \<Rightarrow> ChunkPos" where "chunk_of_pos p = chunk_of (fst p) (snd (snd p))"

text \<open>The loaded chunks, with the LRU counter a block write draws from.\<close>

record world =
  w_lru :: u64
  w_chunks :: chunk_map

text \<open>\<open>Err Blocked\<close> is a thread that waits for a lock it holds itself; \<open>Panic\<close> is a panic.\<close>

datatype blocked = Blocked

type_synonym 'a effect = "(blocked, 'a) outcome"

definition of_option :: "'a option \<Rightarrow> 'a effect" where
  "of_option r = (case r of Some a \<Rightarrow> Ok a | None \<Rightarrow> Panic)"

definition in_world :: "i32 \<Rightarrow> bool" where
  "in_world y \<longleftrightarrow> - 64 \<le> sint y \<and> sint y \<le> 319"

definition chunk_at :: "world \<Rightarrow> i32 \<Rightarrow> i32 \<Rightarrow> Chunk option" where
  "chunk_at w x z = map_of (w_chunks w) (chunk_of x z)"

text \<open>\<open>chunk.get_block((x & 0xF) as usize, y, (z & 0xF) as usize)\<close> and the matching write.\<close>

definition block_in :: "Chunk \<Rightarrow> pos \<Rightarrow> BlockState effect" where
  "block_in c p = (case p of (x, y, z) \<Rightarrow> of_option (get_block c (low4 x) y (low4 z)))"

definition write_in :: "ChunkPos \<Rightarrow> pos \<Rightarrow> BlockState \<Rightarrow> world \<Rightarrow> world effect" where
  "write_in cp p b w =
     (case p of (x, y, z) \<Rightarrow>
        (case map_of (w_chunks w) cp of
           None \<Rightarrow> Ok w
         | Some c \<Rightarrow>
             and_then (of_option (set_block (w_lru w) c (low4 x) y (low4 z) b))
               (\<lambda>(lru, c). Ok (w\<lparr>w_lru := lru, w_chunks := AList.update cp c (w_chunks w)\<rparr>))))"

definition world_get :: "pos \<Rightarrow> world \<Rightarrow> BlockState option effect" where
  "world_get p w =
     (case p of (x, y, z) \<Rightarrow>
        if \<not> in_world y then Ok None
        else (case chunk_at w x z of
                None \<Rightarrow> Ok None
              | Some c \<Rightarrow> and_then (block_in c p) (\<lambda>b. Ok (Some b))))"

definition world_set :: "pos \<Rightarrow> BlockState \<Rightarrow> world \<Rightarrow> world effect" where
  "world_set p b w =
     (case p of (x, y, z) \<Rightarrow> if \<not> in_world y then Ok w else write_in (chunk_of x z) p b w)"

section \<open>The blocks of a world\<close>

text \<open>
  The block states in use: a finite set below the size that would push a section into the
  direct mode. Then no write loses anything.
\<close>

definition universe :: "BlockState set \<Rightarrow> bool" where
  "universe U \<longleftrightarrow> finite U \<and> card U < 2 ^ 15 \<and> AIR \<in> U"

fun palette_in :: "BlockState set \<Rightarrow> ContainerMode \<Rightarrow> bool" where
  "palette_in U (Single b) \<longleftrightarrow> b \<in> U"
| "palette_in U (Indirect palette data bits) \<longleftrightarrow> distinct palette \<and> set palette \<subseteq> U"
| "palette_in U (Direct data) \<longleftrightarrow> False"

definition container_in :: "BlockState set \<Rightarrow> ContainerMode \<Rightarrow> bool" where
  "container_in U c \<longleftrightarrow> paletted_wf c \<and> palette_in U c"

definition world_in :: "BlockState set \<Rightarrow> world \<Rightarrow> bool" where
  "world_in U w \<longleftrightarrow> (\<forall>p c. map_of (w_chunks w) p = Some c \<longrightarrow> chunk_all (container_in U) c)"

text \<open>The map the loaded chunks stand for.\<close>

definition cell_of :: "pos \<Rightarrow> nat \<times> i32 \<times> nat" where
  "cell_of p = (case p of (x, y, z) \<Rightarrow> (low4 x, y, low4 z))"

definition cells :: "world \<Rightarrow> pos \<rightharpoonup> BlockState" where
  "cells w p =
     (if in_world (y_of p) then
        (case map_of (w_chunks w) (chunk_of_pos p) of None \<Rightarrow> None | Some c \<Rightarrow> chunk_get (0, c) (cell_of p))
      else None)"

lemma palette_in_length:
  assumes "universe U" and "distinct palette" and "set palette \<subseteq> U"
  shows "length palette < 2 ^ 15"
proof -
  have "length palette = card (set palette)"
    using assms(2) by (simp add: distinct_card)
  also have "\<dots> \<le> card U"
    using assms by (auto intro: card_mono simp: universe_def)
  finally show ?thesis
    using assms(1) by (simp add: universe_def)
qed

lemma palette_in_below_direct: "universe U \<Longrightarrow> palette_in U c \<Longrightarrow> below_direct c"
  by (cases c) (auto dest: palette_in_length)

lemma palette_position_None: "position P xs = None \<longleftrightarrow> (\<forall>x \<in> set xs. \<not> P x)"
  by (induction xs) auto

lemma set_at_palette_in:
  assumes U: "universe U" and wf: "paletted_wf c" and c: "palette_in U c" and b: "b \<in> U" and set: "set_at c i b = Some c'"
  shows "palette_in U c'"
proof (cases c)
  case (Single b')
  then show ?thesis
    using c b set by (auto split: if_splits Option.bind_splits)
next
  case (Indirect palette data bits)
  have small: "length palette < 2 ^ 15"
    using palette_in_length [OF U] c Indirect by simp
  have "\<not> bits_for (length palette + 1) > GLOBAL_BITS"
    using bits_for_le_GLOBAL [of "length palette + 1"] small wf by (simp add: Indirect)
  then show ?thesis
    using c b set Indirect
    by (auto simp: Let_def palette_position_None split: if_splits Option.bind_splits option.splits)
qed (use c in simp)

lemma get_at_in:
  assumes "container_in U c" and "i < BLOCKS_PER_SECTION"
  shows "\<exists>b. get_at c i = Some b \<and> b \<in> U"
proof (cases c)
  case (Indirect palette data bits)
  have wf: "paletted_wf (Indirect palette data bits)" and sub: "set palette \<subseteq> U"
    using assms(1) by (simp_all only: container_in_def Indirect palette_in.simps)
  obtain v :: u64 where v: "unat v < length palette" "get_at (Indirect palette data bits) i = Some (palette ! unat v)"
    by (rule get_at_Indirect [OF wf assms(2)]) (rule that)
  show ?thesis
    unfolding Indirect using v(2) subsetD [OF sub nth_mem [OF v(1)]] by blast
next
  case (Single b)
  then show ?thesis
    using assms(1) by (simp add: container_in_def)
next
  case (Direct data)
  then show ?thesis
    using assms(1) by (simp add: container_in_def)
qed

locale block_universe =
  fixes U :: "BlockState set"
  assumes universe: "universe U"
begin

lemma air_in [simp, intro]: "AIR \<in> U"
  using universe by (simp add: universe_def)

lemma container_set_law: "container_in U c \<Longrightarrow> i < BLOCKS_PER_SECTION \<Longrightarrow> set_law c i b"
  using palette_in_below_direct [OF universe] by (simp add: container_in_def set_law_holds)

lemma set_at_in: "container_in U c \<Longrightarrow> i < BLOCKS_PER_SECTION \<Longrightarrow> b \<in> U \<Longrightarrow>
    set_at c i b = Some c' \<Longrightarrow> container_in U c'"
  using container_set_law [of c i b] set_at_palette_in [OF universe]
  by (auto simp: container_in_def set_law_def)

end

sublocale block_universe \<subseteq> sections: section_store "container_in U" "\<lambda>b. b \<in> U"
proof
  show "container_in U new_container"
    by (simp add: container_in_def new_container_def filled_def)
next
  fix c p assume h: "container_in U c" "in_section p"
  show "\<exists>v. get_xyz c p = Some v \<and> v \<in> U"
    using get_at_in [OF h(1) index_of_less [OF h(2)]] by (simp add: xyz_simps)
next
  fix c p b assume h: "container_in U c" "in_section p" "b \<in> U"
  note law = container_set_law [OF h(1) index_of_less [OF h(2)], of b]
  show "\<exists>c'. set_xyz c p b = Some c' \<and> container_in U c'"
    using law set_at_in [OF h(1) index_of_less [OF h(2)] h(3)] by (auto simp: set_law_def xyz_simps)
  fix c' assume c': "set_xyz c p b = Some c'"
  then show "get_xyz c' p = Some b"
    using law by (auto simp: set_law_def xyz_simps)
  fix q assume q: "in_section q" "q \<noteq> p"
  then show "get_xyz c' q = get_xyz c q"
    using law c' index_of_less [OF q(1)] index_of_inj [OF q(1) h(2) q(2)] by (auto simp: set_law_def xyz_simps)
qed

sublocale block_universe \<subseteq> chunks:
    cell_store "\<lambda>lc. chunk_all (container_in U) (snd lc)" in_chunk "\<lambda>b. b \<in> U" chunk_get chunk_set
  by (rule sections.chunk_cell_store)

section \<open>The world refines a map\<close>

lemma cell_of_in_chunk: "in_world (y_of p) \<Longrightarrow> in_chunk (cell_of p)"
  by (auto simp: in_world_def y_of_def in_chunk_def cell_of_def split: prod.splits)

lemma pos_unique: "chunk_of_pos p = chunk_of_pos q \<Longrightarrow> cell_of p = cell_of q \<Longrightarrow> p = q"
  by (cases p; cases q) (auto simp: chunk_of_pos_def chunk_of_def chunk_pos_def cell_of_def intro: split16_unique)

lemma cells_eq:
  "in_world (y_of p) \<Longrightarrow> cells w p =
    (case map_of (w_chunks w) (chunk_of_pos p) of None \<Rightarrow> None | Some c \<Rightarrow> chunk_get (lru, c) (cell_of p))"
  by (simp add: cells_def chunk_get_def split: option.split prod.split)

lemma cells_outside: "\<not> in_world (y_of p) \<Longrightarrow> cells w p = None"
  by (simp add: cells_def)

lemma chunk_get_lru: "chunk_get (l, c) p = chunk_get (m, c) p"
  by (simp add: chunk_get_def split: prod.split)

definition refines :: "BlockState set \<Rightarrow> world \<Rightarrow> (pos \<rightharpoonup> BlockState) \<Rightarrow> world \<Rightarrow> bool" where
  "refines U w m w' \<longleftrightarrow> world_in U w' \<and> cells w' = m \<and> map fst (w_chunks w') = map fst (w_chunks w)"

text \<open>A write to a map of cells: nothing where there is no cell.\<close>

definition put_cell :: "pos \<Rightarrow> BlockState \<Rightarrow> (pos \<rightharpoonup> BlockState) \<Rightarrow> (pos \<rightharpoonup> BlockState)" where
  "put_cell p b m = (if m p = None then m else m(p \<mapsto> b))"

lemma put_cell_apply: "put_cell p b m q = (if q = p \<and> m p \<noteq> None then Some b else m q)"
  by (simp add: put_cell_def)

lemma dom_put_cell [simp]: "dom (put_cell p b m) = dom m"
  by (auto simp: put_cell_def)

context block_universe begin

lemma chunk_cell:
  assumes "in_world (y_of p)" and "chunk_all (container_in U) c"
  shows "\<exists>b. chunk_get (lru, c) (cell_of p) = Some b \<and> b \<in> U"
  using chunks.get_total [of "(lru, c)" "cell_of p"] assms cell_of_in_chunk [OF assms(1)] by simp

lemma cells_in:
  assumes "world_in U w" and "cells w p = Some b"
  shows "b \<in> U"
proof -
  have y: "in_world (y_of p)"
    using assms(2) by (simp add: cells_def split: if_splits)
  then obtain c where "map_of (w_chunks w) (chunk_of_pos p) = Some c" "chunk_get (0, c) (cell_of p) = Some b"
    using assms(2) by (auto simp: cells_def split: option.splits)
  then show ?thesis
    using chunk_cell [OF y, of c 0] assms(1) by (auto simp: world_in_def)
qed

lemma world_get_cells:
  assumes "world_in U w"
  shows "world_get p w = Ok (cells w p)"
proof (cases "in_world (y_of p)")
  case True
  obtain x y z where p: "p = (x, y, z)" by (rule prod_cases3)
  show ?thesis
  proof (cases "map_of (w_chunks w) (chunk_of_pos p)")
    case (Some c)
    then obtain b where "chunk_get (0, c) (cell_of p) = Some b"
      using chunk_cell [OF True, of c 0] assms by (auto simp: world_in_def)
    then show ?thesis
      using True Some by (simp add: world_get_def cells_def p y_of_def chunk_at_def chunk_of_pos_def block_in_def
          of_option_def chunk_get_def cell_of_def)
  qed (use True in \<open>simp add: world_get_def cells_def p y_of_def chunk_at_def chunk_of_pos_def\<close>)
next
  case False
  then show ?thesis
    by (cases p) (simp add: world_get_def cells_def y_of_def)
qed

lemma world_set_cells:
  assumes w: "world_in U w" and b: "b \<in> U"
  obtains w' where "world_set p b w = Ok w'" and "refines U w (put_cell p b (cells w)) w'"
proof (cases "cells w p")
  case None
  have "world_set p b w = Ok w"
  proof (cases "in_world (y_of p)")
    case True
    have "map_of (w_chunks w) (chunk_of_pos p) = None"
    proof (rule ccontr)
      assume "map_of (w_chunks w) (chunk_of_pos p) \<noteq> None"
      then obtain c where c: "map_of (w_chunks w) (chunk_of_pos p) = Some c" by blast
      then obtain b where "chunk_get (0, c) (cell_of p) = Some b"
        using chunk_cell [OF True, of c 0] w by (auto simp: world_in_def)
      then show False
        using None c True by (simp add: cells_def)
    qed
    with True show ?thesis
      by (cases p) (simp add: world_set_def y_of_def write_in_def chunk_of_pos_def)
  qed (cases p, simp add: world_set_def y_of_def)
  with None w show ?thesis
    by (intro that) (simp_all add: refines_def put_cell_def)
next
  case (Some old)
  have y: "in_world (y_of p)"
    using Some by (simp add: cells_def split: if_splits)
  obtain x y z where p: "p = (x, y, z)" by (rule prod_cases3)
  obtain c where c: "map_of (w_chunks w) (chunk_of_pos p) = Some c"
    using Some y by (auto simp: cells_def split: option.splits)
  have ok: "chunk_all (container_in U) (snd (w_lru w, c))"
    using w c by (simp add: world_in_def)
  note ix = cell_of_in_chunk [OF y]
  from chunks.put_total [OF ok ix b] obtain lru c' where
    set: "chunk_set (w_lru w, c) (cell_of p) b = Some (lru, c')" and ok': "chunk_all (container_in U) c'"
    by auto
  let ?w = "w\<lparr>w_lru := lru, w_chunks := AList.update (chunk_of_pos p) c' (w_chunks w)\<rparr>"
  have eq: "world_set p b w = Ok ?w"
    using set y c by (simp add: world_set_def write_in_def p y_of_def chunk_of_pos_def of_option_def chunk_set_def cell_of_def)
  have inv: "world_in U ?w"
    using w ok' by (auto simp: world_in_def update_conv' split: if_splits)
  have "cells ?w q = put_cell p b (cells w) q" for q
  proof (cases "in_world (y_of q)")
    case True
    note ixq = cell_of_in_chunk [OF True]
    show ?thesis
    proof (cases "chunk_of_pos q = chunk_of_pos p")
      case same: True
      show ?thesis
      proof (cases "q = p")
        case True
        then show ?thesis
          using chunks.get_put_same [OF ok ix b set] Some y
          by (simp add: cells_eq [of p _ lru] put_cell_apply update_conv')
      next
        case False
        then have "cell_of q \<noteq> cell_of p"
          using pos_unique same by blast
        then show ?thesis
          using chunks.get_put_other [OF ok ix b set ixq] False True c same
          by (simp add: cells_eq [of q _ lru] put_cell_apply update_conv' chunk_get_lru [of "w_lru w" c _ lru])
      qed
    qed (use True in \<open>auto simp: cells_def put_cell_apply update_conv'\<close>)
  qed (auto simp: cells_outside put_cell_apply)
  moreover have "map fst (AList.update (chunk_of_pos p) c' (w_chunks w)) = map fst (w_chunks w)"
    using c by (simp add: update_keys map_of_eq_None_iff weak_map_of_SomeI) (metis fst_conv imageI map_of_SomeD)
  ultimately have "refines U w (put_cell p b (cells w)) ?w"
    using inv by (auto simp: refines_def)
  with eq show ?thesis by (rule that)
qed

end

text \<open>The blocks of the registry, plain or waterlogged, are such a universe.\<close>

definition registry_blocks :: "BlockState set" where
  "registry_blocks = {b. unat (bs_id b) < 2 ^ 13 \<and> bs_props b \<in> {0, 1}}"

lemma registry_universe: "universe registry_blocks"
proof -
  define S where "S = {..<(2 :: nat) ^ 13} \<times> {0 :: u16, 1}"
  define f where "f = (\<lambda>(i, p). \<lparr>bs_id = word_of_nat i :: u32, bs_props = p :: u16\<rparr>)"
  have sub: "registry_blocks \<subseteq> f ` S"
  proof
    fix b assume b: "b \<in> registry_blocks"
    have "b = f (unat (bs_id b), bs_props b)"
      by (simp add: f_def)
    moreover have "(unat (bs_id b), bs_props b) \<in> S"
      using b by (simp add: registry_blocks_def S_def)
    ultimately show "b \<in> f ` S" by blast
  qed
  have fin: "finite S"
    unfolding S_def by (intro finite_cartesian_product) simp_all
  have "card registry_blocks \<le> card (f ` S)"
    by (rule card_mono [OF finite_imageI [OF fin] sub])
  also have "\<dots> \<le> card S"
    by (rule card_image_le [OF fin])
  also have "card S = 2 ^ 14"
    unfolding S_def card_cartesian_product by simp
  finally show ?thesis
    using finite_subset [OF sub finite_imageI [OF fin]] by (simp add: universe_def registry_blocks_def AIR_def)
qed

interpretation registry: block_universe registry_blocks
  by unfold_locales (rule registry_universe)

lemma in_registry [simp]: "unat i < 2 ^ 13 \<Longrightarrow> block i \<in> registry_blocks"
  by (simp add: registry_blocks_def block_def)

lemma block_universeI: "universe U \<Longrightarrow> block_universe U"
  by (rule block_universe.intro)

text \<open>C7. Reads and writes of blocks by world coordinates refine a map from coordinates to blocks.
  In a world whose sections hold blocks of a universe too small for the direct mode, a read
  never panics and returns the map's cell; a write of a block of the universe never panics,
  stays in such a world and updates exactly the cell it names, or nothing if the height is
  outside the world or the chunk is not loaded.\<close>

theorem world_refines_cells:
  assumes "universe U" and "world_in U w" and "b \<in> U"
  shows "world_get p w = Ok (cells w p)
    \<and> (\<exists>w'. world_set p b w = Ok w' \<and> world_in U w'
        \<and> cells w' = (if cells w p = None then cells w else (cells w)(p \<mapsto> b)))"
proof -
  note U = block_universeI [OF assms(1)]
  obtain w' where "world_set p b w = Ok w'" "refines U w (put_cell p b (cells w)) w'"
    by (rule block_universe.world_set_cells [OF U assms(2,3)])
  then show ?thesis
    using block_universe.world_get_cells [OF U assms(2)] by (simp add: refines_def put_cell_def)
qed

text \<open>A world of one new chunk.\<close>

definition one_chunk_world :: world where
  "one_chunk_world = \<lparr>w_lru = 1, w_chunks = [(chunk_pos 0 0, snd (new_chunk 0 (chunk_pos 0 0)))]\<rparr>"

lemma one_chunk_world_in: "universe U \<Longrightarrow> world_in U one_chunk_world"
  by (auto simp: world_in_def one_chunk_world_def chunk_all_def new_chunk_def SECTIONS_PER_CHUNK_def split: if_splits)

lemma one_chunk_cells:
  "cells one_chunk_world p = (if in_world (y_of p) \<and> chunk_of_pos p = chunk_pos 0 0 then Some AIR else None)"
  by (simp add: cells_def one_chunk_world_def chunk_get_def get_new_chunk split: prod.split)

theorem world_refines_cells_witness:
  "world_get (3, 70, 5) one_chunk_world = Ok (Some AIR)
    \<and> (\<exists>w'. world_set (3, 70, 5) (block 1) one_chunk_world = Ok w' \<and> cells w' (3, 70, 5) = Some (block 1))"
proof -
  have "in_world (y_of (3, 70, 5)) \<and> chunk_of_pos (3, 70, 5) = chunk_pos 0 0"
    by code_simp
  then show ?thesis
    using world_refines_cells [OF registry_universe one_chunk_world_in [OF registry_universe], of "block 1" "(3, 70, 5)"]
    by (auto simp: one_chunk_cells)
qed

end
