(* ===== verification/Fluid.thy ===== *)
theory Fluid
  imports WorldBlocks Complex_Main
begin

text \<open>
  \<open>mc-world/src/fluid.rs\<close>: the queue of flowing fluids and its tick, the infinite water check,
  the queries about a player's position, and the scan for potent sulfur. Each queued entry is a
  place, a fluid and a level; a tick takes the whole queue and queues what flowed.

  Shown: the tick never panics and leaves every block alone that is not air, a fluid, blue ice or
  a block that can be waterlogged; whatever is queued, the fluids come to rest within 3072 ticks
  after the next one.
\<close>

definition WATER_ID :: u32 where "WATER_ID = 267"
definition LAVA_ID :: u32 where "LAVA_ID = 268"
definition SOUL_SAND_ID :: u32 where "SOUL_SAND_ID = 85"
definition MAGMA_BLOCK_ID :: u32 where "MAGMA_BLOCK_ID = 213"

definition is_waterloggable :: "u32 \<Rightarrow> bool" where
  "is_waterloggable i \<longleftrightarrow>
     i \<in> {44, 126, 127, 128, 129, 130, 131, 182, 183, 184, 185, 186, 187,
          53, 67, 108, 109, 110, 111, 112, 134, 135, 136,
          85, 188, 189, 190, 191, 192,
          63, 68, 96, 147, 148, 355, 356, 357, 358, 359,
          25, 26}"

type_synonym flow = "pos \<times> u32 \<times> u8"

definition on_place :: "pos \<Rightarrow> u32 \<Rightarrow> flow list \<Rightarrow> flow list" where
  "on_place p fluid q = q @ [(p, fluid, 7)]"

section \<open>One entry of the queue\<close>

text \<open>The fluid enters a place that holds \<open>b\<close>: air is replaced, a block that can be waterlogged
  takes water in.\<close>

definition flow_into :: "pos \<Rightarrow> u32 \<Rightarrow> u8 \<Rightarrow> BlockState \<Rightarrow> world \<times> flow list \<Rightarrow> (world \<times> flow list) effect" where
  "flow_into n fluid level b wq =
     (case wq of (w, q) \<Rightarrow>
        if is_air b then
          and_then (world_set n (block fluid) w) (\<lambda>w. Ok (w, q @ [(n, fluid, level)]))
        else if is_waterloggable (bs_id b) \<and> fluid = WATER_ID then
          and_then (world_set n (set_waterlogged True b) w) (\<lambda>w. Ok (w, q @ [(n, fluid, level)]))
        else Ok (w, q))"

definition flow_down :: "pos \<Rightarrow> u32 \<Rightarrow> world \<times> flow list \<Rightarrow> (world \<times> flow list) effect" where
  "flow_down p fluid wq =
     (let below = shift p (0, - 1, 0) in
      and_then (world_get below (fst wq)) (\<lambda>r.
        case r of None \<Rightarrow> Ok wq | Some b \<Rightarrow> flow_into below fluid 7 b wq))"

text \<open>Lava and water that meet turn to stone.\<close>

definition mix :: "pos \<Rightarrow> u32 \<Rightarrow> u8 \<Rightarrow> BlockState \<Rightarrow> world \<Rightarrow> world effect" where
  "mix n fluid level b w =
     and_then (if fluid = LAVA_ID \<and> bs_id b = WATER_ID then world_set n (block 1) w else Ok w) (\<lambda>w.
     and_then (if fluid = WATER_ID \<and> bs_id b = LAVA_ID
               then let result = if level \<ge> 5 then 49 else 1 in world_set n (block result) w else Ok w) (\<lambda>w.
     if fluid = LAVA_ID \<and> bs_id b = 174 then world_set n (block 213) w else Ok w))"

definition flow_side :: "pos \<Rightarrow> u32 \<Rightarrow> u8 \<Rightarrow> u8 \<Rightarrow> world \<times> flow list \<Rightarrow> (world \<times> flow list) effect" where
  "flow_side n fluid level remaining wq =
     and_then (world_get n (fst wq)) (\<lambda>r.
       case r of
         None \<Rightarrow> Ok wq
       | Some b \<Rightarrow>
           and_then (flow_into n fluid remaining b wq) (\<lambda>(w, q).
           and_then (mix n fluid level b w) (\<lambda>w. Ok (w, q))))"

primrec flow_sides ::
  "pos \<Rightarrow> u32 \<Rightarrow> u8 \<Rightarrow> u8 \<Rightarrow> (i32 \<times> i32 \<times> i32) list \<Rightarrow> world \<times> flow list \<Rightarrow> (world \<times> flow list) effect" where
  "flow_sides p fluid level remaining [] wq = Ok wq"
| "flow_sides p fluid level remaining (d # ds) wq =
     and_then (flow_side (shift p d) fluid level remaining wq) (flow_sides p fluid level remaining ds)"

definition flow_entry :: "flow \<Rightarrow> world \<times> flow list \<Rightarrow> (world \<times> flow list) effect" where
  "flow_entry e wq =
     (case e of (p, fluid, level) \<Rightarrow>
        if level = 0 then Ok wq
        else
          and_then (flow_down p fluid wq) (\<lambda>wq.
            let next_level = level - 1 in
            if next_level > 0 then
              let max_spread = if fluid = LAVA_ID then 3 else 7;
                  remaining = min next_level max_spread
              in flow_sides p fluid level remaining sides wq
            else Ok wq))"

primrec flow_batch :: "flow list \<Rightarrow> world \<times> flow list \<Rightarrow> (world \<times> flow list) effect" where
  "flow_batch [] wq = Ok wq"
| "flow_batch (e # es) wq = and_then (flow_entry e wq) (flow_batch es)"

section \<open>The infinite water check\<close>

definition or_air :: "BlockState option \<Rightarrow> BlockState" where
  "or_air r = (case r of Some b \<Rightarrow> b | None \<Rightarrow> AIR)"

primrec count_sources :: "pos \<Rightarrow> (i32 \<times> i32 \<times> i32) list \<Rightarrow> u8 \<Rightarrow> world \<Rightarrow> u8 effect" where
  "count_sources n [] k w = Ok k"
| "count_sources n (d # ds) k w =
     and_then (world_get (shift n d) w) (\<lambda>nb.
       count_sources n ds (if bs_id (or_air nb) = WATER_ID then k + 1 else k) w)"

definition fill_source :: "pos \<Rightarrow> world \<Rightarrow> world effect" where
  "fill_source n w =
     and_then (world_get n w) (\<lambda>r.
       let b = or_air r in
       if is_air b \<or> is_waterloggable (bs_id b) then
         and_then (count_sources n sides 0 w) (\<lambda>source_count.
         and_then (world_get (shift n (0, - 1, 0)) w) (\<lambda>r.
           let floor = or_air r;
               has_solid_floor = \<not> is_air floor \<and> \<not> is_waterloggable (bs_id floor) \<and> bs_id floor \<noteq> WATER_ID
           in if source_count \<ge> 2 \<and> has_solid_floor then
                if is_air b then world_set n (block WATER_ID) w
                else world_set n (set_waterlogged True b) w
              else Ok w))
       else Ok w)"

primrec check_sides :: "pos \<Rightarrow> (i32 \<times> i32 \<times> i32) list \<Rightarrow> world \<Rightarrow> world effect" where
  "check_sides p [] w = Ok w"
| "check_sides p (d # ds) w = and_then (fill_source (shift p d) w) (check_sides p ds)"

definition check_infinite_water_at :: "pos \<Rightarrow> world \<Rightarrow> world effect" where
  "check_infinite_water_at p w = check_sides p sides w"

primrec check_batch :: "flow list \<Rightarrow> world \<Rightarrow> world effect" where
  "check_batch [] w = Ok w"
| "check_batch (e # es) w =
     (case e of (p, fluid, level) \<Rightarrow>
        if fluid \<noteq> WATER_ID then check_batch es w
        else and_then (check_infinite_water_at p w) (check_batch es))"

definition fluid_tick :: "world \<times> flow list \<Rightarrow> (world \<times> flow list) effect" where
  "fluid_tick wq =
     (case wq of (w, batch) \<Rightarrow>
        if batch = [] then Ok (w, [])
        else and_then (check_batch batch w) (\<lambda>w. flow_batch batch (w, [])))"

primrec fluid_ticks :: "nat \<Rightarrow> world \<times> flow list \<Rightarrow> (world \<times> flow list) effect" where
  "fluid_ticks 0 wq = Ok wq"
| "fluid_ticks (Suc n) wq = and_then (fluid_tick wq) (fluid_ticks n)"

section \<open>Queries\<close>

text \<open>A position is given by its block coordinates: \<open>x as i32\<close> truncates the player's.\<close>

definition get_bubble_column :: "pos \<Rightarrow> world \<Rightarrow> bool option effect" where
  "get_bubble_column p w =
     and_then (world_get (shift p (0, - 1, 0)) w) (\<lambda>below.
       case below of
         None \<Rightarrow> Ok None
       | Some below \<Rightarrow>
           if bs_id below = WATER_ID then
             and_then (world_get (shift p (0, - 2, 0)) w) (\<lambda>fl.
               case fl of
                 None \<Rightarrow> Ok None
               | Some fl \<Rightarrow>
                   if bs_id fl = SOUL_SAND_ID then Ok (Some True)
                   else if bs_id fl = MAGMA_BLOCK_ID then Ok (Some False)
                   else Ok None)
           else Ok None)"

definition is_in_water :: "pos \<Rightarrow> world \<Rightarrow> bool effect" where
  "is_in_water p w =
     and_then (world_get p w) (\<lambda>r.
       Ok (case r of Some b \<Rightarrow> bs_id b = WATER_ID \<or> is_waterloggable (bs_id b) \<and> waterlogged b | None \<Rightarrow> False))"

definition is_in_lava :: "pos \<Rightarrow> world \<Rightarrow> bool effect" where
  "is_in_lava p w =
     and_then (world_get p w) (\<lambda>r. Ok (case r of Some b \<Rightarrow> bs_id b = LAVA_ID | None \<Rightarrow> False))"
section \<open>Potent sulfur\<close>

definition POTENT_SULFUR_ID :: u32 where "POTENT_SULFUR_ID = 1252"
definition GEYSER_MAX_WATER :: i32 where "GEYSER_MAX_WATER = 4"

datatype GeyserType = MagmaRandom | Continuous

text \<open>The coordinates are exact: a 32-bit integer and a half fit an \<open>f64\<close>.\<close>

datatype PotentSulfurEvent =
    NauseaCloud rat rat rat rat
  | BubbleColumn rat rat rat i32
  | Geyser rat rat rat i32 GeyserType

definition get_block_id :: "pos \<Rightarrow> world \<Rightarrow> u32 effect" where
  "get_block_id p w =
     (case map_of (w_chunks w) (chunk_of_pos p) of
        Some c \<Rightarrow> and_then (block_in c p) (\<lambda>b. Ok (bs_id b))
      | None \<Rightarrow> Ok 0)"

primrec count_water :: "pos \<Rightarrow> i32 list \<Rightarrow> i32 \<Rightarrow> world \<Rightarrow> i32 effect" where
  "count_water p [] k w = Ok k"
| "count_water p (dy # dys) k w =
     and_then (get_block_id (shift p (0, dy, 0)) w) (\<lambda>i.
       if i = WATER_ID then count_water p dys (k + 1) w else Ok k)"

definition coord :: "i32 \<Rightarrow> rat" where "coord x = of_int (sint x)"

definition sulfur_events :: "pos \<Rightarrow> world \<Rightarrow> PotentSulfurEvent list effect" where
  "sulfur_events p w =
     (case p of (wx, wy, wz) \<Rightarrow>
        and_then (get_block_id (shift p (0, 1, 0)) w) (\<lambda>above_id.
        and_then (get_block_id (shift p (0, - 1, 0)) w) (\<lambda>below_id.
          let is_underwater = above_id = WATER_ID;
              is_on_magma = below_id = MAGMA_BLOCK_ID;
              is_on_lava = below_id = LAVA_ID in
          and_then (if is_on_magma \<or> is_on_lava then count_water p [1, 2, 3, GEYSER_MAX_WATER] 0 w else Ok 0) (\<lambda>water_count.
          and_then
            (if is_underwater then
               and_then (count_water p [1, 2, 3, 4] 0 w) (\<lambda>bubbles.
                 Ok (NauseaCloud (coord wx + 1 / 2) (coord (wy + 1)) (coord wz + 1 / 2) 3
                   # (if 0 <s bubbles then [BubbleColumn (coord wx + 1 / 2) (coord wy) (coord wz + 1 / 2) bubbles] else [])))
             else Ok []) (\<lambda>events.
          Ok (events
              @ (if 0 <s water_count \<and> (is_on_magma \<or> is_on_lava)
                 then [Geyser (coord wx + 1 / 2) (coord wy + 1) (coord wz + 1 / 2) water_count
                         (if is_on_lava then Continuous else MagmaRandom)]
                 else [])))))))"

text \<open>The scan: the chunks, and in each the heights from -64 to 63, x and z.\<close>

definition scanned :: "(i32 \<times> nat \<times> nat) list" where
  "scanned = List.product (map word_of_int [-64..63]) (List.product [0..<16] [0..<16])"

primrec scan_chunk :: "ChunkPos \<Rightarrow> Chunk \<Rightarrow> (i32 \<times> nat \<times> nat) list \<Rightarrow> world \<Rightarrow> PotentSulfurEvent list effect" where
  "scan_chunk cp c [] w = Ok []"
| "scan_chunk cp c (i # is) w =
     (case i of (y, lx, lz) \<Rightarrow>
        and_then (of_option (get_block c lx y lz)) (\<lambda>b.
        and_then
          (if bs_id b \<noteq> POTENT_SULFUR_ID then Ok []
           else sulfur_events (cp_x cp * 16 + word_of_nat lx, y, cp_z cp * 16 + word_of_nat lz) w) (\<lambda>events.
        and_then (scan_chunk cp c is w) (\<lambda>rest. Ok (events @ rest)))))"

primrec scan_chunks :: "chunk_map \<Rightarrow> world \<Rightarrow> PotentSulfurEvent list effect" where
  "scan_chunks [] w = Ok []"
| "scan_chunks (pc # pcs) w =
     and_then (scan_chunk (fst pc) (snd pc) scanned w) (\<lambda>events.
     and_then (scan_chunks pcs w) (\<lambda>rest. Ok (events @ rest)))"

definition tick_potent_sulfur :: "world \<Rightarrow> PotentSulfurEvent list effect" where
  "tick_potent_sulfur w = scan_chunks (w_chunks w) w"

section \<open>What a tick changes\<close>

text \<open>The blocks a fluid may change.\<close>

definition fluid_open :: "BlockState \<Rightarrow> bool" where
  "fluid_open b \<longleftrightarrow> is_air b \<or> is_waterloggable (bs_id b) \<or> bs_id b \<in> {WATER_ID, LAVA_ID, 174}"

definition flows_from :: "(pos \<rightharpoonup> BlockState) \<Rightarrow> (pos \<rightharpoonup> BlockState) \<Rightarrow> bool" where
  "flows_from m m' \<longleftrightarrow> dom m' = dom m \<and> (\<forall>p b. m p = Some b \<and> \<not> fluid_open b \<longrightarrow> m' p = Some b)"

lemma flows_from_refl [simp]: "flows_from m m"
  by (simp add: flows_from_def)

lemma flows_from_trans: "flows_from m m' \<Longrightarrow> flows_from m' m'' \<Longrightarrow> flows_from m m''"
  by (auto simp: flows_from_def)

lemma flows_from_put: "(\<And>b. m p = Some b \<Longrightarrow> fluid_open b) \<Longrightarrow> flows_from m (put_cell p v m)"
  by (auto simp: flows_from_def put_cell_def)

text \<open>The rank of an entry: below it everything is smaller, and so is a lower level.\<close>

definition flow_rank :: "flow \<Rightarrow> nat" where
  "flow_rank e = (case e of (p, fluid, level) \<Rightarrow> nat (8 * (sint (y_of p) + 64) + int (unat level)))"

definition entry_ok :: "BlockState set \<Rightarrow> nat \<Rightarrow> flow \<Rightarrow> bool" where
  "entry_ok U r e \<longleftrightarrow> (case e of (p, fluid, level) \<Rightarrow>
     in_world (y_of p) \<and> block fluid \<in> U \<and> 0 < level \<and> level \<le> 7 \<and> flow_rank e < r)"

definition flow_ok :: "BlockState set \<Rightarrow> nat \<Rightarrow> world \<times> flow list \<Rightarrow> world \<times> flow list \<Rightarrow> bool" where
  "flow_ok U r wq wq' \<longleftrightarrow> world_in U (fst wq') \<and> flows_from (cells (fst wq)) (cells (fst wq'))
     \<and> (\<exists>new. snd wq' = snd wq @ new \<and> (\<forall>e \<in> set new. entry_ok U r e))"

lemma flow_ok_refl: "world_in U (fst wq) \<Longrightarrow> flow_ok U r wq wq"
  by (simp add: flow_ok_def)

lemma flow_ok_trans: "flow_ok U r a b \<Longrightarrow> flow_ok U r b c \<Longrightarrow> flow_ok U r a c"
  by (auto simp: flow_ok_def intro: flows_from_trans)

lemma flow_ok_mono: "flow_ok U r a b \<Longrightarrow> r \<le> s \<Longrightarrow> flow_ok U s a b"
  by (force simp: flow_ok_def entry_ok_def)

lemma flow_ok_in: "flow_ok U r a b \<Longrightarrow> world_in U (fst b)"
  by (simp add: flow_ok_def)

locale fluid_universe = block_universe +
  assumes stones_in: "{block WATER_ID, block 1, block 49, block 213} \<subseteq> U"
    and waterlogged_in: "b \<in> U \<Longrightarrow> set_waterlogged True b \<in> U"
begin

lemma world_set_flow:
  assumes "world_in U w" and "v \<in> U" and "\<And>b. cells w n = Some b \<Longrightarrow> fluid_open b"
  shows "\<exists>w'. world_set n v w = Ok w' \<and> world_in U w' \<and> cells w' = put_cell n v (cells w)
    \<and> flows_from (cells w) (cells w')"
  using world_set_cells [OF assms(1,2)] flows_from_put [OF assms(3)] by (metis refines_def)

lemma flow_into_ok:
  assumes "world_in U (fst wq)" and "cells (fst wq) n = Some b" and "block fluid \<in> U"
    and "0 < level" "level \<le> 7" "flow_rank (n, fluid, level) < r"
  shows "\<exists>wq'. flow_into n fluid level b wq = Ok wq' \<and> flow_ok U r wq wq'
    \<and> (\<not> is_air b \<and> \<not> is_waterloggable (bs_id b) \<longrightarrow> wq' = wq)"
proof -
  obtain w q where wq: "wq = (w, q)" by (cases wq)
  have n: "in_world (y_of n)"
    using assms(2) by (auto simp: cells_def split: if_splits)
  have put: "\<exists>w'. world_set n v w = Ok w' \<and> flow_ok U r wq (w', q @ [(n, fluid, level)])"
    if "v \<in> U" "is_air b \<or> is_waterloggable (bs_id b)" for v
    using world_set_flow [of w v n] that assms n
    by (fastforce simp: wq flow_ok_def fluid_open_def entry_ok_def)
  have "b \<in> U"
    using cells_in assms(1,2) by blast
  then show ?thesis
    using put [of "block fluid"] put [of "set_waterlogged True b"] assms(1,3) waterlogged_in [of b]
    by (auto simp: flow_into_def wq flow_ok_refl)
qed

lemma mix_nothing:
  "is_air b \<or> is_waterloggable (bs_id b) \<Longrightarrow> mix n fluid level b w = Ok w"
  by (auto simp: mix_def is_air_def is_waterloggable_def WATER_ID_def LAVA_ID_def)

lemma mix_ok:
  assumes "world_in U w" and "cells w n = Some b"
  shows "\<exists>w'. mix n fluid level b w = Ok w' \<and> world_in U w' \<and> flows_from (cells w) (cells w')"
proof -
  have "\<exists>w'. world_set n v w = Ok w' \<and> world_in U w' \<and> flows_from (cells w) (cells w')"
    if "v \<in> U" "bs_id b \<in> {WATER_ID, LAVA_ID, 174}" for v
    using world_set_flow [of w v n] that assms by (auto simp: fluid_open_def)
  from this [of "block 1"] this [of "block 49"] this [of "block 213"] show ?thesis
    using stones_in assms(1) by (auto simp: mix_def Let_def WATER_ID_def LAVA_ID_def)
qed

lemma flow_side_ok:
  assumes "world_in U (fst wq)" and "block fluid \<in> U"
    and "0 < remaining" "remaining \<le> 7" and rank: "in_world (y_of n) \<Longrightarrow> flow_rank (n, fluid, remaining) < r"
  shows "\<exists>wq'. flow_side n fluid level remaining wq = Ok wq' \<and> flow_ok U r wq wq'"
proof (cases "cells (fst wq) n")
  case None
  then show ?thesis
    using assms(1) by (simp add: flow_side_def world_get_cells flow_ok_refl)
next
  case (Some b)
  obtain w q where wq: "wq = (w, q)" by (cases wq)
  have "flow_rank (n, fluid, remaining) < r"
    using Some by (intro rank) (auto simp: cells_def split: if_splits)
  then obtain w1 q1 where into: "flow_into n fluid remaining b wq = Ok (w1, q1)" "flow_ok U r wq (w1, q1)"
    "\<not> is_air b \<and> \<not> is_waterloggable (bs_id b) \<Longrightarrow> (w1, q1) = wq"
    using flow_into_ok [OF assms(1) Some assms(2-4)] by (metis surj_pair)
  have get: "flow_side n fluid level remaining wq
    = and_then (mix n fluid level b w1) (\<lambda>w. Ok (w, q1))"
    using assms(1) Some into(1) by (simp add: flow_side_def world_get_cells)
  show ?thesis
  proof (cases "is_air b \<or> is_waterloggable (bs_id b)")
    case True
    then show ?thesis
      using get into(2) by (simp add: mix_nothing)
  next
    case False
    then have eq: "w1 = w" "q1 = q"
      using into(3) by (simp_all add: wq)
    obtain w2 where "mix n fluid level b w = Ok w2" "world_in U w2" "flows_from (cells w) (cells w2)"
      using mix_ok [of w n b] assms(1) Some by (auto simp: wq)
    then show ?thesis
      using get by (simp add: eq wq flow_ok_def)
  qed
qed

lemma flow_sides_ok:
  assumes "world_in U (fst wq)" and "block fluid \<in> U" and "0 < remaining" "remaining \<le> 7"
    and "\<And>d. d \<in> set ds \<Longrightarrow> in_world (y_of (shift p d)) \<Longrightarrow> flow_rank (shift p d, fluid, remaining) < r"
  shows "\<exists>wq'. flow_sides p fluid level remaining ds wq = Ok wq' \<and> flow_ok U r wq wq'"
  using assms(1,5)
proof (induction ds arbitrary: wq)
  case Nil
  then show ?case by (simp add: flow_ok_refl)
next
  case (Cons d ds)
  have "in_world (y_of (shift p d)) \<Longrightarrow> flow_rank (shift p d, fluid, remaining) < r"
    using Cons.prems(2) by simp
  from flow_side_ok [OF Cons.prems(1) assms(2-4) this] obtain wq1
    where 1: "flow_side (shift p d) fluid level remaining wq = Ok wq1" "flow_ok U r wq wq1"
    by blast
  have "\<exists>wq'. flow_sides p fluid level remaining ds wq1 = Ok wq' \<and> flow_ok U r wq1 wq'"
    by (rule Cons.IH [OF flow_ok_in [OF 1(2)]]) (use Cons.prems(2) in simp)
  then obtain wq2 where 2: "flow_sides p fluid level remaining ds wq1 = Ok wq2" "flow_ok U r wq1 wq2"
    by blast
  then show ?case
    using 1(1) flow_ok_trans [OF 1(2) 2(2)] by simp
qed

lemma flow_down_ok:
  assumes "world_in U (fst wq)" and "block fluid \<in> U"
    and "in_world (y_of (shift p (0, - 1, 0))) \<Longrightarrow> flow_rank (shift p (0, - 1, 0), fluid, 7) < r"
  shows "\<exists>wq'. flow_down p fluid wq = Ok wq' \<and> flow_ok U r wq wq'"
proof (cases "cells (fst wq) (shift p (0, - 1, 0))")
  case None
  then show ?thesis
    using assms(1) by (simp add: flow_down_def world_get_cells flow_ok_refl)
next
  case (Some b)
  then have "flow_rank (shift p (0, - 1, 0), fluid, 7) < r"
    by (intro assms(3)) (auto simp: cells_def split: if_splits)
  from flow_into_ok [OF assms(1) Some assms(2) _ _ this] obtain wq'
    where "flow_into (shift p (0, - 1, 0)) fluid 7 b wq = Ok wq'" "flow_ok U r wq wq'"
    by auto
  then show ?thesis
    using assms(1) Some by (simp add: flow_down_def world_get_cells)
qed

lemma flow_entry_ok:
  assumes "world_in U (fst wq)" and "block fluid \<in> U"
    and down: "level \<noteq> 0 \<Longrightarrow> in_world (y_of (shift p (0, - 1, 0))) \<Longrightarrow> flow_rank (shift p (0, - 1, 0), fluid, 7) < r"
    and side: "\<And>l d. 0 < l \<Longrightarrow> l < level \<Longrightarrow> l \<le> 7 \<Longrightarrow> d \<in> set sides \<Longrightarrow> in_world (y_of (shift p d))
      \<Longrightarrow> flow_rank (shift p d, fluid, l) < r"
  shows "\<exists>wq'. flow_entry (p, fluid, level) wq = Ok wq' \<and> flow_ok U r wq wq'"
proof (cases "level = 0")
  case True
  then show ?thesis
    using assms(1) by (simp add: flow_entry_def flow_ok_refl)
next
  case False
  let ?l = "min (level - 1) (if fluid = LAVA_ID then 3 else 7)"
  obtain wq1 where 1: "flow_down p fluid wq = Ok wq1" "flow_ok U r wq wq1"
    using flow_down_ok [OF assms(1,2) down [OF False]] by blast
  show ?thesis
  proof (cases "level - 1 > 0")
    case True
    have "level - 1 < level"
      using False unat_gt_0 [of level] by (simp add: word_less_nat_alt unat_minus_one)
    then have l: "0 < ?l" "?l < level" "?l \<le> 7"
      using True by (auto simp: min_def not_le intro: less_trans order_trans [of _ 3 7])
    obtain wq2 where 2: "flow_sides p fluid level ?l sides wq1 = Ok wq2" "flow_ok U r wq1 wq2"
      using flow_sides_ok [OF flow_ok_in [OF 1(2)] assms(2) l(1,3) side [OF l]] by blast
    then show ?thesis
      using 1(1) False True flow_ok_trans [OF 1(2) 2(2)] by (simp add: flow_entry_def Let_def)
  next
    case no: False
    then show ?thesis
      using 1 False by (simp add: flow_entry_def Let_def)
  qed
qed

lemma flow_batch_ok:
  assumes "world_in U (fst wq)"
    and "\<And>e wq. e \<in> set es \<Longrightarrow> world_in U (fst wq) \<Longrightarrow> \<exists>wq'. flow_entry e wq = Ok wq' \<and> flow_ok U r wq wq'"
  shows "\<exists>wq'. flow_batch es wq = Ok wq' \<and> flow_ok U r wq wq'"
  using assms
proof (induction es arbitrary: wq)
  case Nil
  then show ?case by (simp add: flow_ok_refl)
next
  case (Cons e es)
  obtain wq1 where 1: "flow_entry e wq = Ok wq1" "flow_ok U r wq wq1"
    using Cons.prems(2) [of e wq] Cons.prems(1) by auto
  obtain wq2 where 2: "flow_batch es wq1 = Ok wq2" "flow_ok U r wq1 wq2"
    using Cons.IH [OF flow_ok_in [OF 1(2)]] Cons.prems(2) by force
  then show ?case
    using 1(1) flow_ok_trans [OF 1(2) 2(2)] by simp
qed

text \<open>The infinite water check.\<close>

lemma count_sources_ok: "world_in U w \<Longrightarrow> \<exists>k'. count_sources n ds k w = Ok k'"
  by (induction ds arbitrary: k) (simp_all add: world_get_cells)

lemma fill_source_ok:
  assumes "world_in U w"
  shows "\<exists>w'. fill_source n w = Ok w' \<and> world_in U w' \<and> flows_from (cells w) (cells w')"
proof -
  obtain k where k: "count_sources n sides 0 w = Ok k"
    using count_sources_ok [OF assms] by blast
  let ?b = "or_air (cells w n)"
  have put: "\<exists>w'. world_set n v w = Ok w' \<and> world_in U w' \<and> flows_from (cells w) (cells w')"
    if "v \<in> U" "is_air ?b \<or> is_waterloggable (bs_id ?b)" for v
    using world_set_flow [of w v n] that assms by (force simp: fluid_open_def or_air_def)
  have "?b \<in> U"
    using cells_in [OF assms, of n] by (auto simp: or_air_def split: option.split)
  then show ?thesis
    using put [of "block WATER_ID"] put [of "set_waterlogged True ?b"] k stones_in waterlogged_in [of ?b] assms
    by (auto simp: fill_source_def world_get_cells Let_def)
qed

lemma check_sides_ok:
  "world_in U w \<Longrightarrow> \<exists>w'. check_sides p ds w = Ok w' \<and> world_in U w' \<and> flows_from (cells w) (cells w')"
proof (induction ds arbitrary: w)
  case (Cons d ds)
  obtain w1 where 1: "fill_source (shift p d) w = Ok w1" "world_in U w1" "flows_from (cells w) (cells w1)"
    using fill_source_ok [OF Cons.prems] by blast
  obtain w2 where "check_sides p ds w1 = Ok w2" "world_in U w2" "flows_from (cells w1) (cells w2)"
    using Cons.IH [OF 1(2)] by blast
  then show ?case
    using 1(1) flows_from_trans [OF 1(3)] by simp
qed simp

lemma check_batch_ok:
  "world_in U w \<Longrightarrow> \<exists>w'. check_batch es w = Ok w' \<and> world_in U w' \<and> flows_from (cells w) (cells w')"
proof (induction es arbitrary: w)
  case (Cons e es)
  obtain p fluid level where e: "e = (p, fluid, level)" by (rule prod_cases3)
  show ?case
  proof (cases "fluid = WATER_ID")
    case True
    obtain w1 where 1: "check_sides p sides w = Ok w1" "world_in U w1" "flows_from (cells w) (cells w1)"
      using check_sides_ok [OF Cons.prems] by blast
    obtain w2 where "check_batch es w1 = Ok w2" "world_in U w2" "flows_from (cells w1) (cells w2)"
      using Cons.IH [OF 1(2)] by blast
    then show ?thesis
      using 1(1) True flows_from_trans [OF 1(3)] by (simp add: e check_infinite_water_at_def)
  qed (use Cons in \<open>simp add: e\<close>)
qed simp

lemma fluid_tick_ok:
  assumes "world_in U w"
    and "\<And>e wq. e \<in> set q \<Longrightarrow> world_in U (fst wq) \<Longrightarrow> \<exists>wq'. flow_entry e wq = Ok wq' \<and> flow_ok U r wq wq'"
  shows "\<exists>w' q'. fluid_tick (w, q) = Ok (w', q') \<and> world_in U w' \<and> flows_from (cells w) (cells w')
    \<and> (\<forall>e \<in> set q'. entry_ok U r e)"
proof (cases "q = []")
  case False
  obtain w1 where 1: "check_batch q w = Ok w1" "world_in U w1" "flows_from (cells w) (cells w1)"
    using check_batch_ok [OF assms(1)] by blast
  obtain w2 q2 where "flow_batch q (w1, []) = Ok (w2, q2)" "flow_ok U r (w1, []) (w2, q2)"
    using flow_batch_ok [of "(w1, [])" q r] assms(2) 1(2) by force
  then show ?thesis
    using False 1(1) flows_from_trans [OF 1(3)] by (auto simp: fluid_tick_def flow_ok_def)
qed (use assms(1) in \<open>simp add: fluid_tick_def\<close>)

lemma rank_in_world: "in_world (y_of p) \<Longrightarrow> l \<le> 7 \<Longrightarrow> flow_rank (p, fluid, l) < 3072"
  by (auto simp: flow_rank_def in_world_def word_le_def)

text \<open>Entries of any kind queue only entries of a rank below 3072, and entries of the rank \<open>r\<close>
  only entries of a smaller one.\<close>

lemma first_tick:
  assumes "world_in U w" and "\<forall>(p, fluid, level) \<in> set q. block fluid \<in> U"
  shows "\<exists>w' q'. fluid_tick (w, q) = Ok (w', q') \<and> world_in U w' \<and> flows_from (cells w) (cells w')
    \<and> (\<forall>e \<in> set q'. entry_ok U 3072 e)"
proof (rule fluid_tick_ok [OF assms(1)])
  fix e and wq :: "world \<times> flow list" assume "e \<in> set q" "world_in U (fst wq)"
  moreover obtain p fluid level where e: "e = (p, fluid, level)" by (rule prod_cases3)
  ultimately have "block fluid \<in> U"
    using assms(2) by auto
  then show "\<exists>wq'. flow_entry e wq = Ok wq' \<and> flow_ok U 3072 wq wq'"
    unfolding e by (intro flow_entry_ok \<open>world_in U (fst wq)\<close> rank_in_world) simp_all
qed

lemma later_rank:
  assumes "in_world (y_of p)" and "0 < level"
  shows "in_world (y_of (shift p (0, - 1, 0))) \<Longrightarrow> flow_rank (shift p (0, - 1, 0), fluid, 7) < flow_rank (p, fluid, level)"
    and "l < level \<Longrightarrow> d \<in> set sides \<Longrightarrow> flow_rank (shift p d, fluid, l) < flow_rank (p, fluid, level)"
proof -
  obtain x y z where p: "p = (x, y, z)" by (rule prod_cases3)
  have y: "- 64 \<le> sint y" "sint y \<le> 319"
    using assms(1) by (simp_all add: p y_of_def in_world_def)
  have "sint (y - 1) = sint y - 1"
    using y sint_diff_inside [of y 1] by simp
  moreover have lv: "0 < uint level"
    using assms(2) by (simp add: word_less_def)
  ultimately show "in_world (y_of (shift p (0, - 1, 0))) \<Longrightarrow>
      flow_rank (shift p (0, - 1, 0), fluid, 7) < flow_rank (p, fluid, level)"
    using y by (simp add: p shift_def flow_rank_def y_of_def in_world_def)
  show "l < level \<Longrightarrow> d \<in> set sides \<Longrightarrow> flow_rank (shift p d, fluid, l) < flow_rank (p, fluid, level)"
    using y lv by (auto simp: p shift_def flow_rank_def y_of_def sides_def word_less_def)
qed

lemma later_tick:
  assumes "world_in U w" and "\<forall>e \<in> set q. entry_ok U (Suc r) e"
  shows "\<exists>w' q'. fluid_tick (w, q) = Ok (w', q') \<and> world_in U w' \<and> flows_from (cells w) (cells w')
    \<and> (\<forall>e \<in> set q'. entry_ok U r e)"
proof (rule fluid_tick_ok [OF assms(1)])
  fix e and wq :: "world \<times> flow list" assume e: "e \<in> set q" "world_in U (fst wq)"
  obtain p fluid level where eq: "e = (p, fluid, level)" by (rule prod_cases3)
  have ok: "in_world (y_of p)" "block fluid \<in> U" "0 < level" "flow_rank (p, fluid, level) \<le> r"
    using assms(2) e(1) by (auto simp: entry_ok_def eq)
  show "\<exists>wq'. flow_entry e wq = Ok wq' \<and> flow_ok U r wq wq'"
    unfolding eq
    by (rule flow_entry_ok [OF e(2) ok(2)]) (use later_rank [OF ok(1,3)] ok(4) less_le_trans in blast)+
qed

lemma fluids_settle:
  assumes "world_in U w" and "\<forall>e \<in> set q. entry_ok U n e"
  shows "\<exists>w'. fluid_ticks n (w, q) = Ok (w', []) \<and> world_in U w' \<and> flows_from (cells w) (cells w')"
  using assms
proof (induction n arbitrary: w q)
  case 0
  have "\<not> entry_ok U 0 e" for e
    by (simp add: entry_ok_def split: prod.split)
  then have "q = []"
    using 0(2) list.set_intros(1) by (metis list.exhaust)
  with 0 show ?case by simp
next
  case (Suc n)
  obtain w1 q1 where 1: "fluid_tick (w, q) = Ok (w1, q1)" "world_in U w1" "flows_from (cells w) (cells w1)"
    "\<forall>e \<in> set q1. entry_ok U n e"
    using later_tick [OF Suc.prems] by blast
  obtain w2 where "fluid_ticks n (w1, q1) = Ok (w2, [])" "world_in U w2" "flows_from (cells w1) (cells w2)"
    using Suc.IH [OF 1(2,4)] by blast
  then show ?case
    using 1(1) flows_from_trans [OF 1(3)] by simp
qed

end

interpretation registry_fluids: fluid_universe registry_blocks
  by unfold_locales (auto simp: set_waterlogged_def registry_blocks_def block_def WATER_ID_def)

section \<open>Fluids come to rest\<close>

text \<open>C23. Whatever is queued, the fluids come to rest: after the next tick and at most 3072 more the
  queue is empty. None of the ticks panics, and no block has changed that was not air, a fluid,
  blue ice or a block that can be waterlogged. The world holds blocks of the registry, plain or
  waterlogged.\<close>

theorem fluids_come_to_rest:
  assumes "world_in registry_blocks w" and "\<And>p fluid level. (p, fluid, level) \<in> set q \<Longrightarrow> unat fluid < 2 ^ 13"
  shows "\<exists>w'. fluid_ticks 3073 (w, q) = Ok (w', []) \<and> world_in registry_blocks w' \<and> dom (cells w') = dom (cells w)
    \<and> (\<forall>p b. cells w p = Some b \<and> \<not> fluid_open b \<longrightarrow> cells w' p = Some b)"
proof -
  have "\<forall>(p, fluid, level) \<in> set q. block fluid \<in> registry_blocks"
    using assms(2) by fastforce
  from registry_fluids.first_tick [OF assms(1) this] obtain w1 q1 where 1: "fluid_tick (w, q) = Ok (w1, q1)"
    "world_in registry_blocks w1" "flows_from (cells w) (cells w1)" "\<forall>e \<in> set q1. entry_ok registry_blocks 3072 e"
    by blast
  obtain w2 where 2: "fluid_ticks 3072 (w1, q1) = Ok (w2, [])" "world_in registry_blocks w2"
    "flows_from (cells w1) (cells w2)"
    using registry_fluids.fluids_settle [OF 1(2,4)] by blast
  have "fluid_ticks (Suc 3072) (w, q) = Ok (w2, [])"
    using 1(1) 2(1) by (simp only: fluid_ticks.simps and_then.simps)
  then show ?thesis
    using 2(2) flows_from_trans [OF 1(3) 2(3)] by (auto simp: flows_from_def)
qed

theorem fluids_come_to_rest_witness:
  "\<exists>w'. fluid_ticks 3073 (one_chunk_world, on_place (8, 100, 8) WATER_ID []) = Ok (w', [])
    \<and> dom (cells w') = dom (cells one_chunk_world)"
  using fluids_come_to_rest [OF one_chunk_world_in [OF registry_universe], of "on_place (8, 100, 8) WATER_ID []"]
  by (auto simp: on_place_def WATER_ID_def)

end
