(* ===== verification/Lighting.thy ===== *)
theory Lighting
  imports WorldBlocks
begin

text \<open>
  \<open>mc-world/src/lighting.rs\<close>: which blocks let light through and which give it, the sky light of
  a chunk and its update when a block is removed or placed, the breadth-first spread of block
  light, and its continuation into neighbouring chunks. The bitmap of visited cells, 1536 words
  of 64 bits, is the set of the bits that are set.

  Shown: the sky light of a generated chunk counts the opaque blocks above; placing a block
  darkens the column above it and not below; the spread of block light ends, never panics, only
  raises levels and leaves the light sources themselves dark.
\<close>

section \<open>Blocks and light\<close>

definition MAX_LIGHT :: u8 where "MAX_LIGHT = 15"

definition is_transparent :: "BlockState \<Rightarrow> bool" where
  "is_transparent b \<longleftrightarrow>
     (if waterlogged b then False
      else if is_air b then True
      else bs_id b \<in>
       {267, 268,
        66, 67, 68, 69, 70,
        56, 57, 58, 59, 60, 61,
        79, 80, 119, 120, 174, 250,
        44, 45, 46, 47, 48, 126, 127,
        85, 86, 87, 88, 89, 113, 188, 189, 190, 191, 192,
        64, 65, 71, 96, 97, 98, 99, 100, 101, 102, 103, 104,
        193, 194, 195, 196, 197, 198, 199,
        31, 32, 37, 38, 39, 40, 51, 59, 83,
        105, 106, 107, 175, 176,
        55, 75, 76, 93, 94, 131, 132, 143, 144,
        148, 149, 150, 151, 152, 178,
        57, 58, 59, 60, 61, 62, 63,
        26, 27, 28, 29, 30, 169, 170, 171, 172, 173,
        23, 33, 34, 218, 317})"

definition is_opaque :: "BlockState \<Rightarrow> bool" where
  "is_opaque b \<longleftrightarrow> \<not> is_transparent b"

definition light_emission :: "BlockState \<Rightarrow> u8" where
  "light_emission b =
     (let i = bs_id b in
      if i \<in> {130, 131, 268, 176, 177, 180, 152, 50, 91} then 15
      else if i \<in> {108, 169} then 14
      else if i = 90 then 13
      else if i \<in> {92, 93, 94} then 12
      else if i \<in> {167, 178, 179, 181, 38, 37} then 7
      else if i = 71 then 4
      else if i = 72 then 3
      else if i \<in> {73, 74} then 1
      else 0)"

definition store_section :: "nat \<Rightarrow> Section \<Rightarrow> Chunk \<Rightarrow> Chunk" where
  "store_section si s c = c\<lparr>ck_sections := (ck_sections c)[si := Some s]\<rparr>"

section \<open>Sky light\<close>

text \<open>A column from the top: the sections 23 to 0, and in each the blocks 15 to 0.\<close>

definition column :: "(nat \<times> nat) list" where
  "column = List.product (rev [0..<24]) (rev [0..<16])"

primrec sky_column :: "nat \<Rightarrow> nat \<Rightarrow> (nat \<times> nat) list \<Rightarrow> u8 \<Rightarrow> Chunk \<Rightarrow> Chunk option" where
  "sky_column x z [] light c = Some c"
| "sky_column x z (p # ps) light c =
     (case p of (si, by) \<Rightarrow> do {
        slot \<leftarrow> nth_opt (ck_sections c) si;
        (case slot of
           None \<Rightarrow> sky_column x z ps light c
         | Some s \<Rightarrow>
             let wy = sp_y (sec_position s) * 16 + word_of_nat by in
             if \<not> (- 64 \<le>s wy \<and> wy \<le>s 319) then sky_column x z ps light c
             else do {
               b \<leftarrow> section_get_block s x by z;
               s \<leftarrow> set_sky_light s x by z light;
               sky_column x z ps (if is_opaque b then saturating_sub8 light 1 else light) (store_section si s c)
             })
      })"

primrec sky_columns :: "(nat \<times> nat) list \<Rightarrow> Chunk \<Rightarrow> Chunk option" where
  "sky_columns [] c = Some c"
| "sky_columns (p # ps) c =
     (case p of (x, z) \<Rightarrow> Option.bind (sky_column x z column MAX_LIGHT c) (sky_columns ps))"

definition compute_sky_light :: "Chunk \<Rightarrow> Chunk option" where
  "compute_sky_light c = sky_columns (List.product [0..<16] [0..<16]) c"

text \<open>The heights \<open>a..=b\<close> of a loop over an \<open>i32\<close>.\<close>

definition heights :: "i32 \<Rightarrow> int \<Rightarrow> i32 list" where
  "heights y hi = map word_of_int [sint y..hi]"

primrec light_above :: "nat \<Rightarrow> i32 \<Rightarrow> nat \<Rightarrow> i32 list \<Rightarrow> Chunk \<Rightarrow> u8 option" where
  "light_above x y z [] c = Some MAX_LIGHT"
| "light_above x y z (check_y # ys) c =
     (if check_y = y then light_above x y z ys c
      else
        let si = section_index check_y; by = rem_euclid16 check_y in
        if si \<ge> 24 then light_above x y z ys c
        else do {
          slot \<leftarrow> nth_opt (ck_sections c) si;
          (case slot of
             None \<Rightarrow> light_above x y z ys c
           | Some s \<Rightarrow> do {
               b \<leftarrow> section_get_block s x by z;
               if is_opaque b then map_option (\<lambda>l. saturating_sub8 l 1) (get_sky_light s x by z)
               else light_above x y z ys c
             })
        })"

text \<open>The loop both updates share: it writes the light and loses one level at an opaque block.
  When a block is placed, its own cell is dark and not looked at.\<close>

primrec relight :: "i32 option \<Rightarrow> nat \<Rightarrow> nat \<Rightarrow> i32 list \<Rightarrow> u8 \<Rightarrow> Chunk \<Rightarrow> Chunk option" where
  "relight own x z [] light c = Some c"
| "relight own x z (check_y # ys) light c =
     (let si = section_index check_y; by = rem_euclid16 check_y in
      if si \<ge> 24 then Some c
      else do {
        slot \<leftarrow> nth_opt (ck_sections c) si;
        (case slot of
           None \<Rightarrow> relight own x z ys light c
         | Some s \<Rightarrow>
             if own = Some check_y then do {
               s \<leftarrow> set_sky_light s x by z 0;
               relight own x z ys light (store_section si s c)
             }
             else do {
               s \<leftarrow> set_sky_light s x by z light;
               let c = store_section si s c;
               b \<leftarrow> section_get_block s x by z;
               if is_opaque b then
                 let light = saturating_sub8 light 1 in
                 if light = 0 then Some c else relight own x z ys light c
               else relight own x z ys light c
             })
      })"

definition recalc_sky_light_on_remove :: "Chunk \<Rightarrow> nat \<Rightarrow> i32 \<Rightarrow> nat \<Rightarrow> Chunk option" where
  "recalc_sky_light_on_remove c x y z = do {
     light \<leftarrow> light_above x y z (rev (heights y 319)) c;
     relight None x z (heights y 319) light c
   }"

definition recalc_sky_light_on_place :: "Chunk \<Rightarrow> nat \<Rightarrow> i32 \<Rightarrow> nat \<Rightarrow> Chunk option" where
  "recalc_sky_light_on_place c x y z = relight (Some y) x z (heights y 319) 0 c"

section \<open>Block light\<close>

record LightNode =
  ln_x :: nat
  ln_y :: i32
  ln_z :: nat
  ln_level :: u8

definition bit_index :: "nat \<Rightarrow> i32 \<Rightarrow> nat \<Rightarrow> nat" where
  "bit_index x y z = x + z * 16 + i32_as_usize (y + 64) * 256"

text \<open>The seeds: every block that gives light, in the order x, z, section, y.\<close>

definition seed_order :: "(nat \<times> nat \<times> i32 \<times> nat) list" where
  "seed_order = List.product [0..<16] (List.product [0..<16]
     (List.product (map word_of_int [-4..19]) [0..<16]))"

primrec seed :: "(nat \<times> nat \<times> i32 \<times> nat) list \<Rightarrow> Chunk \<Rightarrow> LightNode list \<times> nat set \<Rightarrow> (LightNode list \<times> nat set) option" where
  "seed [] c qv = Some qv"
| "seed (p # ps) c qv =
     (case p of (x, z, sy, by) \<Rightarrow> do {
        slot \<leftarrow> nth_opt (ck_sections c) (section_index_from_section_y sy);
        (case slot of
           None \<Rightarrow> seed ps c qv
         | Some s \<Rightarrow> do {
             let wy = sy * 16 + word_of_nat by;
             b \<leftarrow> section_get_block s x by z;
             let emission = light_emission b;
             seed ps c
               (if emission > 0 then
                  (fst qv @ [\<lparr>ln_x = x, ln_y = wy, ln_z = z, ln_level = emission\<rparr>], insert (bit_index x wy z) (snd qv))
                else qv)
           })
      })"

definition light_neighbours :: "LightNode \<Rightarrow> (int \<times> i32 \<times> int) list" where
  "light_neighbours n =
     (let x = int (ln_x n); y = ln_y n; z = int (ln_z n) in
      [(x - 1, y, z), (x + 1, y, z), (x, y - 1, z), (x, y + 1, z), (x, y, z - 1), (x, y, z + 1)])"

type_synonym spread = "LightNode list \<times> nat set \<times> Chunk"

definition light_cell :: "u8 \<Rightarrow> int \<times> i32 \<times> int \<Rightarrow> spread \<Rightarrow> spread option" where
  "light_cell level p st =
     (case p of (nx, ny, nz) \<Rightarrow> case st of (queue, visited, c) \<Rightarrow>
        if nx < 0 \<or> nx \<ge> 16 \<or> nz < 0 \<or> nz \<ge> 16 \<or> ny <s - 64 \<or> 319 <s ny then Some st
        else
          let idx = bit_index (nat nx) ny (nat nz) in
          if idx div 64 \<ge> 1536 \<or> idx \<in> visited then Some st
          else
            let visited = insert idx visited; si = section_index ny; by = rem_euclid16 ny in do {
              slot \<leftarrow> nth_opt (ck_sections c) si;
              (case slot of
                 None \<Rightarrow> Some (queue, visited, c)
               | Some s \<Rightarrow> do {
                   b \<leftarrow> section_get_block s (nat nx) by (nat nz);
                   if is_opaque b then Some (queue, visited, c)
                   else do {
                     current \<leftarrow> get_block_light s (nat nx) by (nat nz);
                     if level > current then do {
                       s \<leftarrow> set_block_light s (nat nx) by (nat nz) level;
                       Some (queue @ [\<lparr>ln_x = nat nx, ln_y = ny, ln_z = nat nz, ln_level = level\<rparr>], visited, store_section si s c)
                     }
                     else Some (queue, visited, c)
                   }
                 })
            })"

primrec light_cells :: "u8 \<Rightarrow> (int \<times> i32 \<times> int) list \<Rightarrow> spread \<Rightarrow> spread option" where
  "light_cells level [] st = Some st"
| "light_cells level (p # ps) st = Option.bind (light_cell level p st) (light_cells level ps)"

text \<open>Each cell is visited once, so the loop ends: a cell enters the queue when its bit is set.\<close>

definition unvisited :: "nat set \<Rightarrow> nat" where
  "unvisited v = card ({..<98304} - v)"

definition work :: "spread \<Rightarrow> nat" where
  "work st = (case st of (queue, visited, c) \<Rightarrow> 2 * unvisited visited + length queue)"

lemma unvisited_insert: "i < 98304 \<Longrightarrow> i \<notin> v \<Longrightarrow> unvisited v = Suc (unvisited (insert i v))"
proof -
  assume i: "i < 98304" "i \<notin> v"
  then have "{..<98304} - v = insert i ({..<98304} - insert i v)"
    by auto
  then show ?thesis
    unfolding unvisited_def by (metis DiffE card_insert_disjoint finite_Diff finite_lessThan insertI1)
qed

lemma light_cell_work:
  assumes "light_cell level p st = Some st'"
  shows "work st' \<le> work st"
proof -
  obtain nx ny nz where p: "p = (nx, ny, nz)" by (rule prod_cases3)
  obtain q v c where st: "st = (q, v, c)" by (rule prod_cases3)
  let ?i = "bit_index (nat nx) ny (nat nz)"
  show ?thesis
  proof (cases "?i < 98304 \<and> ?i \<notin> v")
    case True
    have "work st' \<le> 2 * unvisited (insert ?i v) + length q + 1 \<or> st' = st"
      using assms
      by (auto simp: light_cell_def p st work_def Let_def split: if_splits option.splits Option.bind_splits)
    then show ?thesis
      using unvisited_insert [of ?i v] True by (auto simp: st work_def)
  next
    case False
    then have "st' = st"
      using assms by (auto simp: light_cell_def p st Let_def split: if_splits)
    then show ?thesis by simp
  qed
qed

lemma light_cells_work: "light_cells level ps st = Some st' \<Longrightarrow> work st' \<le> work st"
proof (induction ps arbitrary: st)
  case (Cons p ps)
  then obtain s1 where "light_cell level p st = Some s1" "light_cells level ps s1 = Some st'"
    by (auto split: Option.bind_splits)
  then show ?case
    using Cons.IH light_cell_work le_trans by blast
qed simp

function light_loop :: "spread \<Rightarrow> Chunk option" where
  "light_loop st =
     (case st of (queue, visited, c) \<Rightarrow>
        (case queue of
           [] \<Rightarrow> Some c
         | n # queue \<Rightarrow>
             if ln_level n \<le> 1 then light_loop (queue, visited, c)
             else
               (case light_cells (ln_level n - 1) (light_neighbours n) (queue, visited, c) of
                  None \<Rightarrow> None
                | Some st \<Rightarrow> light_loop st)))"
  by pat_completeness auto
termination
proof (relation "measure work")
  fix st st2 :: spread and queue rest :: "LightNode list" and visited :: "nat set" and c :: Chunk and n st1
  assume st: "(queue, st1) = st" "(visited, c) = st1" "queue = n # rest"
  show "((rest, visited, c), st) \<in> measure work"
    using st by (auto simp: work_def)
  assume "light_cells (ln_level n - 1) (light_neighbours n) (rest, visited, c) = Some st2"
  from light_cells_work [OF this] show "(st2, st) \<in> measure work"
    using st by (auto simp: work_def)
qed simp

declare light_loop.simps [simp del]

definition propagate_block_light :: "Chunk \<Rightarrow> Chunk option" where
  "propagate_block_light c =
     Option.bind (seed seed_order c ([], {})) (\<lambda>(queue, visited). light_loop (queue, visited, c))"

definition dark_section :: "Section \<Rightarrow> Section" where
  "dark_section s = (fill_sky_light MAX_LIGHT s)\<lparr>sec_light := replicate 2048 0\<rparr>"

definition init_chunk_lighting :: "Chunk \<Rightarrow> Chunk option" where
  "init_chunk_lighting c = do {
     c \<leftarrow> compute_sky_light (c\<lparr>ck_sections := map (map_option dark_section) (ck_sections c)\<rparr>);
     propagate_block_light c
   }"

section \<open>Chunks as light stores\<close>

text \<open>A cell is named by its column and its height above the bottom, 0 to 383.\<close>

definition lit_chunk :: "Chunk \<Rightarrow> bool" where
  "lit_chunk c \<longleftrightarrow> length (ck_sections c) = 24 \<and> (\<forall>s. Some s \<in> set (ck_sections c) \<longrightarrow>
     paletted_wf (sec_blocks s) \<and> light_ok (sec_sky s) \<and> light_ok (sec_light s))"

definition in_column :: "nat \<times> nat \<times> nat \<Rightarrow> bool" where
  "in_column p \<longleftrightarrow> (case p of (x, k, z) \<Rightarrow> x < 16 \<and> k < 384 \<and> z < 16)"

definition sec_at :: "Chunk \<Rightarrow> nat \<Rightarrow> Section option" where
  "sec_at c k = ck_sections c ! (k div 16)"

definition in_sec :: "nat \<times> nat \<times> nat \<Rightarrow> nat \<times> nat \<times> nat" where
  "in_sec p = (case p of (x, k, z) \<Rightarrow> (x, k mod 16, z))"

definition height_of :: "nat \<times> nat \<times> nat \<Rightarrow> nat" where
  "height_of p = fst (snd p)"

definition sky_at :: "Chunk \<Rightarrow> nat \<times> nat \<times> nat \<Rightarrow> u8 option" where
  "sky_at c p = Option.bind (sec_at c (height_of p)) (\<lambda>s. get_light (sec_sky s) (in_sec p))"

definition glow_at :: "Chunk \<Rightarrow> nat \<times> nat \<times> nat \<Rightarrow> u8 option" where
  "glow_at c p = Option.bind (sec_at c (height_of p)) (\<lambda>s. get_light (sec_light s) (in_sec p))"

definition block_of :: "Chunk \<Rightarrow> nat \<times> nat \<times> nat \<Rightarrow> BlockState option" where
  "block_of c p = Option.bind (sec_at c (height_of p)) (\<lambda>s. get_xyz (sec_blocks s) (in_sec p))"

text \<open>Two chunks that differ in their light alone.\<close>

definition same_blocks :: "Chunk \<Rightarrow> Chunk \<Rightarrow> bool" where
  "same_blocks c c' \<longleftrightarrow> map (map_option (\<lambda>s. (sec_position s, sec_blocks s))) (ck_sections c')
     = map (map_option (\<lambda>s. (sec_position s, sec_blocks s))) (ck_sections c)"

lemma same_blocks_refl [simp]: "same_blocks c c"
  by (simp add: same_blocks_def)

lemma same_blocks_trans: "same_blocks c c' \<Longrightarrow> same_blocks c' c'' \<Longrightarrow> same_blocks c c''"
  by (simp add: same_blocks_def)

lemma same_blocks_nth:
  assumes "same_blocks c c'" and "i < length (ck_sections c)"
  shows "map_option (\<lambda>s. (sec_position s, sec_blocks s)) (ck_sections c' ! i)
    = map_option (\<lambda>s. (sec_position s, sec_blocks s)) (ck_sections c ! i)"
proof -
  have "length (ck_sections c') = length (ck_sections c)"
    using assms(1) unfolding same_blocks_def by (metis length_map)
  then show ?thesis
    using arg_cong [OF assms(1) [unfolded same_blocks_def], of "\<lambda>l. l ! i"] assms(2) by simp
qed

lemma lit_length: "lit_chunk c \<Longrightarrow> length (ck_sections c) = 24"
  by (simp add: lit_chunk_def)

lemma lit_slot: "lit_chunk c \<Longrightarrow> i < 24 \<Longrightarrow> nth_opt (ck_sections c) i = Some (ck_sections c ! i)"
  by (simp add: lit_chunk_def nth_opt_def)

lemma lit_section:
  assumes "lit_chunk c" and "i < 24" and "ck_sections c ! i = Some s"
  shows "paletted_wf (sec_blocks s)" "light_ok (sec_sky s)" "light_ok (sec_light s)"
  using assms nth_mem [of i "ck_sections c"] by (auto simp: lit_chunk_def)

lemma same_blocks_block_of:
  assumes "same_blocks c c'" and "lit_chunk c" and "in_column p"
  shows "block_of c' p = block_of c p"
proof -
  have "height_of p div 16 < 24"
    using assms(3) by (auto simp: in_column_def height_of_def)
  with same_blocks_nth [OF assms(1), of "height_of p div 16"] show ?thesis
    using lit_length [OF assms(2)]
    by (auto simp: block_of_def sec_at_def map_option_case split: option.splits)
qed

lemma wf_block: "paletted_wf c \<Longrightarrow> in_section p \<Longrightarrow> \<exists>b. get_xyz c p = Some b"
proof (cases c)
  case (Indirect palette data bits)
  assume "paletted_wf c" "in_section p"
  then show ?thesis
    using get_at_Indirect [of palette data bits "index_of p"] index_of_less unfolding Indirect xyz_simps by metis
next
  case (Direct data)
  assume "paletted_wf c" "in_section p"
  then show ?thesis
    using packed.get_total [of GLOBAL_BITS BLOCKS_PER_SECTION data "index_of p"] index_of_less [of p]
    by (auto simp: xyz_simps Direct)
qed (simp add: xyz_simps)

lemma in_sec_in_section: "in_column p \<Longrightarrow> in_section (in_sec p)"
  by (auto simp: in_column_def in_section_def in_sec_def)

lemma in_sec_unique:
  assumes "height_of p div 16 = height_of q div 16" and "in_sec p = in_sec q"
  shows "p = q"
proof -
  obtain x k z where p: "p = (x, k, z)" by (rule prod_cases3)
  obtain x' k' z' where q: "q = (x', k', z')" by (rule prod_cases3)
  have "k = k'"
    using assms by (simp add: p q height_of_def in_sec_def) (metis div_mult_mod_eq)
  with assms show ?thesis
    by (simp add: p q in_sec_def)
qed

text \<open>Writing one level.\<close>

lemma put_light:
  assumes c: "lit_chunk c" and p: "in_column p" and s: "sec_at c (height_of p) = Some s"
    and s': "sec_position s' = sec_position s" "sec_blocks s' = sec_blocks s" "light_ok (sec_sky s')" "light_ok (sec_light s')"
  defines "c' \<equiv> store_section (height_of p div 16) s' c"
  shows "lit_chunk c'" and "same_blocks c c'"
    and "in_column q \<Longrightarrow> sec_at c' (height_of q) =
      (if height_of q div 16 = height_of p div 16 then Some s' else sec_at c (height_of q))"
proof -
  have i: "height_of p div 16 < 24"
    using p by (auto simp: in_column_def height_of_def)
  have len: "length (ck_sections c) = 24"
    by (rule lit_length [OF c])
  show "lit_chunk c'"
    using c lit_section(1) [OF c i s [unfolded sec_at_def]] s'
    by (auto simp: c'_def lit_chunk_def store_section_def dest!: subsetD [OF set_update_subset_insert])
  show "same_blocks c c'"
    using s i len s'
    by (auto simp: c'_def same_blocks_def store_section_def sec_at_def map_update intro!: list_update_same_conv [THEN iffD2])
  show "in_column q \<Longrightarrow> sec_at c' (height_of q) =
      (if height_of q div 16 = height_of p div 16 then Some s' else sec_at c (height_of q))"
    using i len by (simp add: c'_def sec_at_def store_section_def)
qed

lemma sky_write:
  assumes c: "lit_chunk c" and p: "in_column p" and s: "sec_at c (height_of p) = Some s"
  obtains l where "set_light (sec_sky s) (in_sec p) v = Some l"
    and "let c' = store_section (height_of p div 16) (s\<lparr>sec_sky := l\<rparr>) c in
      lit_chunk c' \<and> same_blocks c c'
      \<and> (\<forall>q. in_column q \<longrightarrow> sky_at c' q = (if q = p then Some (v AND 0x0F) else sky_at c q) \<and> glow_at c' q = glow_at c q)"
proof -
  have i: "height_of p div 16 < 24"
    using p by (auto simp: in_column_def height_of_def)
  note ok = lit_section [OF c i s [unfolded sec_at_def]]
  obtain l where l: "set_light (sec_sky s) (in_sec p) v = Some l"
    using set_light_total [OF ok(2) in_sec_in_section [OF p]] by blast
  have "light_ok l"
    using set_light_total [OF ok(2) in_sec_in_section [OF p], of v] l ok(2) by (auto simp: light_ok_def)
  note put = put_light [OF c p s, of "s\<lparr>sec_sky := l\<rparr>", simplified, OF this ok(3)]
  have "sky_at (store_section (height_of p div 16) (s\<lparr>sec_sky := l\<rparr>) c) q = (if q = p then Some (v AND 0x0F) else sky_at c q)
      \<and> glow_at (store_section (height_of p div 16) (s\<lparr>sec_sky := l\<rparr>) c) q = glow_at c q" if q: "in_column q" for q
    using put(3) [OF q] get_light_set_light [OF ok(2) in_sec_in_section [OF p] in_sec_in_section [OF q] l]
      in_sec_unique [of q p] s by (auto simp: sky_at_def glow_at_def sec_at_def)
  then show thesis
    using that [OF l] put(1,2) by (simp add: Let_def)
qed

lemma glow_write:
  assumes c: "lit_chunk c" and p: "in_column p" and s: "sec_at c (height_of p) = Some s"
  obtains l where "set_light (sec_light s) (in_sec p) v = Some l"
    and "let c' = store_section (height_of p div 16) (s\<lparr>sec_light := l\<rparr>) c in
      lit_chunk c' \<and> same_blocks c c'
      \<and> (\<forall>q. in_column q \<longrightarrow> glow_at c' q = (if q = p then Some (v AND 0x0F) else glow_at c q) \<and> sky_at c' q = sky_at c q)"
proof -
  have i: "height_of p div 16 < 24"
    using p by (auto simp: in_column_def height_of_def)
  note ok = lit_section [OF c i s [unfolded sec_at_def]]
  obtain l where l: "set_light (sec_light s) (in_sec p) v = Some l"
    using set_light_total [OF ok(3) in_sec_in_section [OF p]] by blast
  have "light_ok l"
    using set_light_total [OF ok(3) in_sec_in_section [OF p], of v] l ok(3) by (auto simp: light_ok_def)
  note put = put_light [OF c p s, of "s\<lparr>sec_light := l\<rparr>", simplified, OF ok(2) this]
  have "glow_at (store_section (height_of p div 16) (s\<lparr>sec_light := l\<rparr>) c) q = (if q = p then Some (v AND 0x0F) else glow_at c q)
      \<and> sky_at (store_section (height_of p div 16) (s\<lparr>sec_light := l\<rparr>) c) q = sky_at c q" if q: "in_column q" for q
    using put(3) [OF q] get_light_set_light [OF ok(3) in_sec_in_section [OF p] in_sec_in_section [OF q] l]
      in_sec_unique [of q p] s by (auto simp: sky_at_def glow_at_def sec_at_def)
  then show thesis
    using that [OF l] put(1,2) by (simp add: Let_def)
qed

section \<open>The sky light of a chunk\<close>

definition placed :: "Chunk \<Rightarrow> bool" where
  "placed c \<longleftrightarrow> (\<forall>i < 24. \<forall>s. ck_sections c ! i = Some s \<longrightarrow> sp_y (sec_position s) = MIN_SECTION_Y + word_of_nat i)"

definition opaque_at :: "Chunk \<Rightarrow> nat \<times> nat \<times> nat \<Rightarrow> bool" where
  "opaque_at c p \<longleftrightarrow> (case block_of c p of Some b \<Rightarrow> is_opaque b | None \<Rightarrow> False)"

text \<open>The opaque blocks of a column above a cell and below the height \<open>n\<close>.\<close>

definition opaque_above :: "Chunk \<Rightarrow> nat \<times> nat \<times> nat \<Rightarrow> nat \<Rightarrow> nat" where
  "opaque_above c p n = (case p of (x, k, z) \<Rightarrow> card {j. k < j \<and> j < n \<and> opaque_at c (x, j, z)})"

lemma opaque_above_Suc:
  assumes "k < n"
  shows "opaque_above c (x, k, z) (Suc n) = opaque_above c (x, k, z) n + (if opaque_at c (x, n, z) then 1 else 0)"
proof -
  let ?S = "{j. k < j \<and> j < n \<and> opaque_at c (x, j, z)}"
  have "{j. k < j \<and> j < Suc n \<and> opaque_at c (x, j, z)} = (if opaque_at c (x, n, z) then insert n ?S else ?S)"
    using assms by (auto simp: less_Suc_eq)
  moreover have "finite ?S" "n \<notin> ?S" by auto
  ultimately show ?thesis
    by (simp add: opaque_above_def)
qed

lemma opaque_above_top: "opaque_above c (x, n, z) (Suc n) = 0"
proof -
  have "{j. n < j \<and> j < Suc n \<and> opaque_at c (x, j, z)} = {}" by auto
  then show ?thesis by (simp only: opaque_above_def prod.case card.empty)
qed

lemma opaque_same:
  assumes "same_blocks c c'" and "lit_chunk c" and "x < 16" "z < 16"
  shows "j < 384 \<Longrightarrow> opaque_at c' (x, j, z) = opaque_at c (x, j, z)"
    and "n \<le> 384 \<Longrightarrow> opaque_above c' (x, k, z) n = opaque_above c (x, k, z) n"
proof -
  show *: "j < 384 \<Longrightarrow> opaque_at c' (x, j, z) = opaque_at c (x, j, z)" for j
    using same_blocks_block_of [OF assms(1,2), of "(x, j, z)"] assms(3,4) by (simp add: opaque_at_def in_column_def)
  show "n \<le> 384 \<Longrightarrow> opaque_above c' (x, k, z) n = opaque_above c (x, k, z) n"
    unfolding opaque_above_def prod.case using * by (intro arg_cong [of _ _ card]) auto
qed

lemma same_present:
  assumes "same_blocks c c'" and "lit_chunk c" and "k < 384"
  shows "sec_at c' k = None \<longleftrightarrow> sec_at c k = None"
proof -
  have "k div 16 < length (ck_sections c)"
    using lit_length [OF assms(2)] assms(3) by simp
  from same_blocks_nth [OF assms(1) this] show ?thesis
    by (cases "ck_sections c' ! (k div 16)"; cases "ck_sections c ! (k div 16)") (simp_all add: sec_at_def)
qed

lemma same_placed:
  assumes "same_blocks c c'" and "lit_chunk c" and "placed c"
  shows "placed c'"
  unfolding placed_def
proof (intro allI impI)
  fix i s assume "i < (24 :: nat)" "ck_sections c' ! i = Some s"
  with same_blocks_nth [OF assms(1), of i] lit_length [OF assms(2)]
  obtain s0 where "ck_sections c ! i = Some s0" "sec_position s = sec_position s0"
    by (auto simp: map_option_case split: option.splits)
  with assms(3) \<open>i < 24\<close> show "sp_y (sec_position s) = MIN_SECTION_Y + word_of_nat i"
    by (simp add: placed_def)
qed

lemma placed_height:
  assumes "placed c" and "k < 384" and "sec_at c k = Some s"
  shows "sint (sp_y (sec_position s) * 16 + word_of_nat (k mod 16)) = int k - 64"
proof -
  have k: "k = k div 16 * 16 + k mod 16" by simp
  have "sp_y (sec_position s) = MIN_SECTION_Y + word_of_nat (k div 16)"
    using assms by (simp add: placed_def sec_at_def)
  then have "sp_y (sec_position s) * 16 + word_of_nat (k mod 16)
      = MIN_SECTION_Y * 16 + word_of_nat (k div 16 * 16 + k mod 16)"
    by (simp only: of_nat_add of_nat_mult) (simp add: algebra_simps)
  then show ?thesis
    using sint_world_y [of k] assms(2) k by simp
qed

lemma and_15: "v \<le> 15 \<Longrightarrow> v AND 0x0F = (v :: u8)"
proof -
  assume "v \<le> 15"
  then have "v AND mask 4 = v"
    by (simp add: word_le_nat_alt flip: take_bit_eq_mask)
      (simp add: word_unat_eq_iff unsigned_take_bit_eq take_bit_nat_eq_self_iff)
  then show ?thesis
    by (simp add: mask_eq_exp_minus_1)
qed

lemma small_level: "l \<le> 15 \<Longrightarrow> (word_of_nat l :: u8) \<le> 15"
  by (simp add: word_le_nat_alt unat_of_nat)

lemma saturating_level: "l \<le> 15 \<Longrightarrow> saturating_sub8 (word_of_nat l) 1 = word_of_nat (l - 1)"
proof (cases "l = 0")
  case False
  assume "l \<le> 15"
  then have "1 \<le> (word_of_nat l :: u8)"
    using False by (simp add: word_le_nat_alt unat_of_nat)
  with False show ?thesis
    by (simp add: saturating_sub8_def of_nat_diff)
qed (simp add: saturating_sub8_def)

definition cell_index :: "nat \<Rightarrow> nat \<times> nat" where
  "cell_index k = (k div 16, k mod 16)"

lemma column_cells: "column = map cell_index (rev [0..<384])"
  by code_simp

lemma sky_column_ok:
  assumes "lit_chunk c" and "placed c" and "x < 16" "z < 16" and "n \<le> 384" "l \<le> 15"
  shows "\<exists>c'. sky_column x z (map cell_index (rev [0..<n])) (word_of_nat l) c = Some c' \<and> lit_chunk c' \<and> same_blocks c c'
    \<and> (\<forall>q. in_column q \<longrightarrow> glow_at c' q = glow_at c q \<and> sky_at c' q =
        (if fst q = x \<and> snd (snd q) = z \<and> height_of q < n \<and> sec_at c (height_of q) \<noteq> None
         then Some (word_of_nat (l - opaque_above c q n)) else sky_at c q))"
  using assms(1,2,5,6)
proof (induction n arbitrary: c l)
  case 0
  then show ?case by simp
next
  case (Suc n)
  have n: "n < 384" and p: "in_column (x, n, z)"
    using Suc.prems(3) assms(3,4) by (simp_all add: in_column_def)
  have i: "n div 16 < 24"
    using n by simp
  have slot: "nth_opt (ck_sections c) (n div 16) = Some (sec_at c n)"
    using lit_slot [OF Suc.prems(1) i] by (simp add: sec_at_def)
  show ?case
  proof (cases "sec_at c n")
    case None
    have "\<not> opaque_at c (x, n, z)"
      by (simp add: opaque_at_def block_of_def height_of_def None)
    then have above: "height_of q < n \<Longrightarrow> fst q = x \<Longrightarrow> snd (snd q) = z \<Longrightarrow>
        opaque_above c q (Suc n) = opaque_above c q n" for q
      using opaque_above_Suc [of "height_of q" n c x z] by (cases q) (simp add: height_of_def)
    obtain c' where c': "sky_column x z (map cell_index (rev [0..<n])) (word_of_nat l) c = Some c'" "lit_chunk c'"
      "same_blocks c c'" "\<forall>q. in_column q \<longrightarrow> glow_at c' q = glow_at c q \<and> sky_at c' q =
        (if fst q = x \<and> snd (snd q) = z \<and> height_of q < n \<and> sec_at c (height_of q) \<noteq> None
         then Some (word_of_nat (l - opaque_above c q n)) else sky_at c q)"
      using Suc.IH [OF Suc.prems(1,2) _ Suc.prems(4)] n by auto
    have "sky_column x z (map cell_index (rev [0..<Suc n])) (word_of_nat l) c = Some c'"
      using c'(1) slot None by (simp add: cell_index_def)
    moreover have "height_of q < Suc n \<and> sec_at c (height_of q) \<noteq> None \<longleftrightarrow> height_of q < n \<and> sec_at c (height_of q) \<noteq> None" for q
      using None by (auto simp: less_Suc_eq)
    ultimately show ?thesis
      using c'(2-4) above by (intro exI [of _ c']) (auto simp: less_Suc_eq)
  next
    case (Some s)
    have h: "height_of (x, n, z) = n" "in_sec (x, n, z) = (x, n mod 16, z)"
      by (simp_all add: height_of_def in_sec_def)
    obtain sl where sl: "set_light (sec_sky s) (x, n mod 16, z) (word_of_nat l) = Some sl"
      and w: "let c' = store_section (n div 16) (s\<lparr>sec_sky := sl\<rparr>) c in
        lit_chunk c' \<and> same_blocks c c' \<and> (\<forall>q. in_column q \<longrightarrow> sky_at c' q =
          (if q = (x, n, z) then Some (word_of_nat l AND 0x0F) else sky_at c q) \<and> glow_at c' q = glow_at c q)"
      using sky_write [OF Suc.prems(1) p, of s "word_of_nat l"] Some by (auto simp: h)
    let ?c = "store_section (n div 16) (s\<lparr>sec_sky := sl\<rparr>) c"
    note w = w [unfolded Let_def]
    have sb: "same_blocks c ?c" and lc: "lit_chunk ?c"
      using w by simp_all
    obtain b where b: "get_xyz (sec_blocks s) (x, n mod 16, z) = Some b"
      using wf_block [of "sec_blocks s" "(x, n mod 16, z)"] lit_section(1) [OF Suc.prems(1) i Some [unfolded sec_at_def]]
        assms(3,4) by (auto simp: in_section_def)
    have op: "opaque_at c (x, n, z) = is_opaque b"
      using b Some by (simp add: opaque_at_def block_of_def h)
    let ?l = "if is_opaque b then l - 1 else l"
    have "?l \<le> 15"
      using Suc.prems(4) by auto
    from Suc.IH [OF lc same_placed [OF sb Suc.prems(1,2)] _ this] n obtain c' where
      c': "sky_column x z (map cell_index (rev [0..<n])) (word_of_nat ?l) ?c = Some c'" "lit_chunk c'" "same_blocks ?c c'"
      and lights: "\<And>q. in_column q \<Longrightarrow> glow_at c' q = glow_at ?c q \<and> sky_at c' q =
        (if fst q = x \<and> snd (snd q) = z \<and> height_of q < n \<and> sec_at ?c (height_of q) \<noteq> None
         then Some (word_of_nat (?l - opaque_above ?c q n)) else sky_at ?c q)"
      by auto
    have "sky_column x z (map cell_index (rev [0..<Suc n])) (word_of_nat l) c = Some c'"
      using c'(1) slot Some b sl placed_height [OF Suc.prems(2) n Some] n
      by (simp add: cell_index_def section_get_block_def get_xyz_def set_sky_light_def set_light_def
          saturating_level [OF Suc.prems(4)] word_sle_eq store_section_def if_distrib [of word_of_nat] cong: if_cong)
    moreover have "glow_at c' q = glow_at c q \<and> sky_at c' q =
        (if fst q = x \<and> snd (snd q) = z \<and> height_of q < Suc n \<and> sec_at c (height_of q) \<noteq> None
         then Some (word_of_nat (l - opaque_above c q (Suc n))) else sky_at c q)" if q: "in_column q" for q
    proof -
      obtain x' k z' where qe: "q = (x', k, z')" by (rule prod_cases3)
      have k: "k < 384" using q by (simp add: qe in_column_def)
      have pres: "sec_at ?c k = None \<longleftrightarrow> sec_at c k = None"
        by (rule same_present [OF sb Suc.prems(1) k])
      have lvl: "word_of_nat l AND 0x0F = (word_of_nat l :: u8)"
        by (rule and_15 [OF small_level [OF Suc.prems(4)]])
      consider "x' = x" "z' = z" "k = n" | "x' = x" "z' = z" "k < n" | "x' \<noteq> x \<or> z' \<noteq> z \<or> n < k"
        by linarith
      then show ?thesis
      proof cases
        case 1
        then show ?thesis
          using lights [OF q] w Some lvl q opaque_above_top [of c x n z] by (simp add: qe height_of_def)
      next
        case 2
        then have "opaque_above ?c q n = opaque_above c q n"
          using opaque_same(2) [OF sb Suc.prems(1) assms(3,4), of n k] n by (simp add: qe)
        then show ?thesis
          using 2 lights [OF q] w q opaque_above_Suc [of k n c x z] op pres by (auto simp: qe height_of_def)
      next
        case 3
        then show ?thesis
          using lights [OF q] w q by (auto simp: qe height_of_def)
      qed
    qed
    ultimately show ?thesis
      using c'(2) same_blocks_trans [OF sb c'(3)] by blast
  qed
qed

lemma sky_columns_ok:
  assumes "lit_chunk c" and "placed c" and "\<And>x z. (x, z) \<in> set ps \<Longrightarrow> x < 16 \<and> z < 16" and "distinct ps"
  shows "\<exists>c'. sky_columns ps c = Some c' \<and> lit_chunk c' \<and> same_blocks c c'
    \<and> (\<forall>q. in_column q \<longrightarrow> glow_at c' q = glow_at c q \<and> sky_at c' q =
        (if (fst q, snd (snd q)) \<in> set ps \<and> sec_at c (height_of q) \<noteq> None
         then Some (word_of_nat (15 - opaque_above c q 384)) else sky_at c q))"
  using assms
proof (induction ps arbitrary: c)
  case Nil
  then show ?case by simp
next
  case (Cons p ps)
  obtain x z where p: "p = (x, z)" by (cases p)
  have xz: "x < 16" "z < 16"
    using Cons.prems(3) by (auto simp: p)
  obtain c1 where c1: "sky_column x z column MAX_LIGHT c = Some c1" "lit_chunk c1" "same_blocks c c1"
    and l1: "\<And>q. in_column q \<Longrightarrow> glow_at c1 q = glow_at c q \<and> sky_at c1 q =
        (if fst q = x \<and> snd (snd q) = z \<and> height_of q < 384 \<and> sec_at c (height_of q) \<noteq> None
         then Some (word_of_nat (15 - opaque_above c q 384)) else sky_at c q)"
    using sky_column_ok [OF Cons.prems(1,2) xz, of 384 15] by (auto simp: column_cells MAX_LIGHT_def)
  obtain c2 where c2: "sky_columns ps c1 = Some c2" "lit_chunk c2" "same_blocks c1 c2"
    and l2: "\<And>q. in_column q \<Longrightarrow> glow_at c2 q = glow_at c1 q \<and> sky_at c2 q =
        (if (fst q, snd (snd q)) \<in> set ps \<and> sec_at c1 (height_of q) \<noteq> None
         then Some (word_of_nat (15 - opaque_above c1 q 384)) else sky_at c1 q)"
  proof -
    have "\<And>x z. (x, z) \<in> set ps \<Longrightarrow> x < 16 \<and> z < 16" "distinct ps"
      using Cons.prems(3,4) by auto
    from Cons.IH [OF c1(2) same_placed [OF c1(3) Cons.prems(1,2)] this] show thesis
      using that by blast
  qed
  have "glow_at c2 q = glow_at c q \<and> sky_at c2 q =
        (if (fst q, snd (snd q)) \<in> set (p # ps) \<and> sec_at c (height_of q) \<noteq> None
         then Some (word_of_nat (15 - opaque_above c q 384)) else sky_at c q)" if q: "in_column q" for q
  proof -
    obtain x' k z' where qe: "q = (x', k, z')" by (rule prod_cases3)
    have k: "k < 384" "x' < 16" "z' < 16" using q by (auto simp: qe in_column_def)
    show ?thesis
      using l1 [OF q] l2 [OF q] k Cons.prems(4) same_present [OF c1(3) Cons.prems(1) k(1)]
        opaque_same(2) [OF c1(3) Cons.prems(1) k(2,3), of 384 k]
      by (auto simp: qe p height_of_def)
  qed
  then show ?case
    using c1(1) c2 same_blocks_trans [OF c1(3) c2(3)] by (auto simp: p)
qed

text \<open>C24. The sky light of a chunk: whatever levels were there before, computing it never panics,
  leaves blocks and block light alone, and gives every block of a section that exists the full
  level less one for each opaque block above it in its column, not below zero.\<close>

theorem sky_light_counts_opaque:
  assumes "lit_chunk c" and "placed c"
  shows "\<exists>c'. compute_sky_light c = Some c' \<and> same_blocks c c'
    \<and> (\<forall>x < 16. \<forall>k < 384. \<forall>z < 16. glow_at c' (x, k, z) = glow_at c (x, k, z)
      \<and> (sec_at c k \<noteq> None \<longrightarrow>
          sky_at c' (x, k, z) = Some (word_of_nat (15 - card {j. k < j \<and> j < 384 \<and> opaque_at c (x, j, z)}))))"
proof -
  have "distinct (List.product [0..<16 :: nat] [0..<16 :: nat])"
    by (rule distinct_product) simp_all
  from sky_columns_ok [OF assms _ this] obtain c' where "compute_sky_light c = Some c'" "same_blocks c c'"
    and l: "\<And>q. in_column q \<Longrightarrow> glow_at c' q = glow_at c q \<and> sky_at c' q =
        (if (fst q, snd (snd q)) \<in> set (List.product [0..<16] [0..<16]) \<and> sec_at c (height_of q) \<noteq> None
         then Some (word_of_nat (15 - opaque_above c q 384)) else sky_at c q)"
    by (auto simp: compute_sky_light_def)
  then show ?thesis
    using l by (intro exI [of _ c']) (simp add: in_column_def height_of_def opaque_above_def)
qed

text \<open>A chunk with one section, full of one block.\<close>

definition one_section :: "BlockState \<Rightarrow> Chunk" where
  "one_section b = (snd (new_chunk 0 (chunk_pos 0 0)))\<lparr>ck_sections :=
     replicate 8 None @ Some ((new_section \<lparr>sp_chunk = chunk_pos 0 0, sp_y = 4\<rparr>)\<lparr>sec_blocks := Single b\<rparr>) # replicate 15 None\<rparr>"

lemma one_section_nth: "i < 24 \<Longrightarrow> ck_sections (one_section b) ! i =
    (if i = 8 then Some ((new_section \<lparr>sp_chunk = chunk_pos 0 0, sp_y = 4\<rparr>)\<lparr>sec_blocks := Single b\<rparr>) else None)"
  by (auto simp: one_section_def nth_append nth_Cons split: nat.split)

lemma one_section_lit: "lit_chunk (one_section b)"
  by (auto simp: lit_chunk_def one_section_def new_section_def light_ok_def)

lemma one_section_placed: "placed (one_section b)"
  by (simp add: placed_def one_section_nth new_section_def MIN_SECTION_Y_def)

lemma one_section_cells:
  assumes "in_column p"
  shows "block_of (one_section b) p = (if height_of p div 16 = 8 then Some b else None)"
    and "sec_at (one_section b) (height_of p) = None \<longleftrightarrow> height_of p div 16 \<noteq> 8"
proof -
  have i: "height_of p div 16 < 24"
    using assms by (auto simp: in_column_def height_of_def)
  show "block_of (one_section b) p = (if height_of p div 16 = 8 then Some b else None)"
    by (simp add: block_of_def sec_at_def one_section_nth [OF i] xyz_simps)
  show "sec_at (one_section b) (height_of p) = None \<longleftrightarrow> height_of p div 16 \<noteq> 8"
    by (simp add: sec_at_def one_section_nth [OF i])
qed

theorem sky_light_counts_opaque_witness:
  "\<exists>c'. compute_sky_light (one_section (block 1)) = Some c' \<and> sky_at c' (3, 141, 5) = Some 13"
proof -
  have "{j. 141 < j \<and> j < 384 \<and> opaque_at (one_section (block 1)) (3, j, 5)} = {142, 143}"
    using one_section_cells(1) [of "(3, _, 5)" "block 1"]
    by (auto simp: opaque_at_def in_column_def height_of_def is_opaque_def is_transparent_def waterlogged_def is_air_def block_def
        split: if_splits)
  moreover have "sec_at (one_section (block 1)) 141 \<noteq> None"
    using one_section_cells(2) [of "(3, 141, 5)" "block 1"] by (simp add: in_column_def height_of_def)
  ultimately show ?thesis
    using sky_light_counts_opaque [OF one_section_lit one_section_placed, of "block 1"] by fastforce
qed

section \<open>The update of the sky light\<close>

definition world_height :: "nat \<Rightarrow> i32" where
  "world_height k = word_of_int (int k - 64)"

lemma sint_world_height: "k < 384 \<Longrightarrow> sint (world_height k) = int k - 64"
proof -
  assume "k < 384"
  then have "signed_take_bit 31 (int k - 64) = int k - 64"
    by (intro signed_take_bit_int_eq_self; simp)
  then show ?thesis
    unfolding world_height_def by (simp only: signed_of_int) simp
qed

lemma world_height_index:
  assumes "k < 384"
  shows "section_index (world_height k) = k div 16" and "rem_euclid16 (world_height k) = k mod 16"
proof -
  have "(int k - 64) div 16 + 4 = int (k div 16)"
    by (simp add: zdiv_int)
  then show "section_index (world_height k) = k div 16"
    using section_index_inside(1) [of "world_height k"] sint_world_height [OF assms] assms by simp
  have "(int k - 64) mod 16 = int (k mod 16)"
    using mod_diff_right_eq [of "int k" 64 16] by (simp add: zmod_int)
  then show "rem_euclid16 (world_height k) = k mod 16"
    by (simp add: rem_euclid16_def sint_world_height [OF assms])
qed

lemma world_height_inj: "k < 384 \<Longrightarrow> j < 384 \<Longrightarrow> world_height k = world_height j \<longleftrightarrow> k = j"
  by (metis add_diff_cancel_right' diff_add_cancel of_nat_eq_iff sint_world_height)

lemma heights_up: "k < 384 \<Longrightarrow> heights (world_height k) 319 = map world_height [k..<384]"
proof -
  assume k: "k < 384"
  have upto: "[int k - 64..319] = map (\<lambda>j. int j - 64) [k..<384]"
    by (rule nth_equalityI) auto
  show ?thesis
    unfolding heights_def sint_world_height [OF k] upto by (simp add: world_height_def)
qed

lemma relight_step:
  assumes "lit_chunk c" and "x < 16" "z < 16" "k < 384"
  shows "sec_at c k = None \<Longrightarrow> relight own x z (world_height k # ys) light c = relight own x z ys light c"
    and "sec_at c k \<noteq> None \<Longrightarrow> v = (if own = Some (world_height k) then 0 else light) \<Longrightarrow>
      \<exists>c1. lit_chunk c1 \<and> same_blocks c c1
      \<and> (\<forall>q. in_column q \<longrightarrow> glow_at c1 q = glow_at c q \<and> sky_at c1 q = (if q = (x, k, z) then Some (v AND 0x0F) else sky_at c q))
      \<and> relight own x z (world_height k # ys) light c =
          (if own = Some (world_height k) \<or> \<not> opaque_at c (x, k, z) then relight own x z ys light c1
           else if saturating_sub8 light 1 = 0 then Some c1 else relight own x z ys (saturating_sub8 light 1) c1)"
proof -
  have p: "in_column (x, k, z)" and i: "k div 16 < 24"
    using assms by (simp_all add: in_column_def)
  have h: "height_of (x, k, z) = k" "in_sec (x, k, z) = (x, k mod 16, z)"
    by (simp_all add: height_of_def in_sec_def)
  have slot: "nth_opt (ck_sections c) (section_index (world_height k)) = Some (sec_at c k)"
    using lit_slot [OF assms(1) i] by (simp add: sec_at_def world_height_index [OF assms(4)])
  note ix = world_height_index [OF assms(4)]
  show "sec_at c k = None \<Longrightarrow> relight own x z (world_height k # ys) light c = relight own x z ys light c"
    using slot i ix by simp
  assume "sec_at c k \<noteq> None" and v: "v = (if own = Some (world_height k) then 0 else light)"
  then obtain s where s: "sec_at c k = Some s" by blast
  obtain sl where sl: "set_light (sec_sky s) (x, k mod 16, z) v = Some sl"
    and w: "let c' = store_section (k div 16) (s\<lparr>sec_sky := sl\<rparr>) c in
      lit_chunk c' \<and> same_blocks c c' \<and> (\<forall>q. in_column q \<longrightarrow> sky_at c' q =
        (if q = (x, k, z) then Some (v AND 0x0F) else sky_at c q) \<and> glow_at c' q = glow_at c q)"
    using sky_write [OF assms(1) p, of s v] s by (auto simp: h)
  obtain b where b: "get_xyz (sec_blocks s) (x, k mod 16, z) = Some b"
    using wf_block [of "sec_blocks s" "(x, k mod 16, z)"] lit_section(1) [OF assms(1) i s [unfolded sec_at_def]]
      assms(2,3) by (auto simp: in_section_def)
  have "opaque_at c (x, k, z) = is_opaque b"
    using b s by (simp add: opaque_at_def block_of_def h)
  then show "\<exists>c1. lit_chunk c1 \<and> same_blocks c c1
      \<and> (\<forall>q. in_column q \<longrightarrow> glow_at c1 q = glow_at c q \<and> sky_at c1 q = (if q = (x, k, z) then Some (v AND 0x0F) else sky_at c q))
      \<and> relight own x z (world_height k # ys) light c =
          (if own = Some (world_height k) \<or> \<not> opaque_at c (x, k, z) then relight own x z ys light c1
           else if saturating_sub8 light 1 = 0 then Some c1 else relight own x z ys (saturating_sub8 light 1) c1)"
    using w slot i s sl b v
    by (intro exI [of _ "store_section (k div 16) (s\<lparr>sec_sky := sl\<rparr>) c"])
      (auto simp: Let_def ix section_get_block_def get_xyz_def set_sky_light_def set_light_def)
qed

definition lights_kept :: "(nat \<times> nat \<times> nat \<Rightarrow> bool) \<Rightarrow> Chunk \<Rightarrow> Chunk \<Rightarrow> bool" where
  "lights_kept P c c' \<longleftrightarrow> (\<forall>q. in_column q \<longrightarrow> glow_at c' q = glow_at c q \<and> (P q \<longrightarrow> sky_at c' q = sky_at c q))"

text \<open>Whatever the light, only cells of the column from the first height up change.\<close>

lemma relight_up:
  assumes "lit_chunk c" and "x < 16" "z < 16" "k \<le> 384"
  shows "\<exists>c'. relight own x z (map world_height [k..<384]) light c = Some c' \<and> lit_chunk c' \<and> same_blocks c c'
    \<and> lights_kept (\<lambda>q. fst q \<noteq> x \<or> snd (snd q) \<noteq> z \<or> height_of q < k) c c'"
  using assms(1,4)
proof (induction "384 - k" arbitrary: k c light)
  case 0
  then show ?case by (simp add: lights_kept_def)
next
  case (Suc n)
  then have k: "k < 384" by simp
  then have upt: "[k..<384] = k # [Suc k..<384]"
    by (simp add: upt_conv_Cons)
  have IH: "\<exists>c'. relight own x z (map world_height [Suc k..<384]) l c = Some c' \<and> lit_chunk c' \<and> same_blocks c c'
    \<and> lights_kept (\<lambda>q. fst q \<noteq> x \<or> snd (snd q) \<noteq> z \<or> height_of q < Suc k) c c'" if "lit_chunk c" for l c
    using Suc.hyps that k by simp
  show ?case
  proof (cases "sec_at c k")
    case None
    then show ?thesis
      using relight_step(1) [OF Suc.prems(1) assms(2,3) k, where own = own and ys = "map world_height [Suc k..<384]" and light = light]
        IH [OF Suc.prems(1), of light] by (auto simp: upt lights_kept_def less_Suc_eq)
  next
    case (Some s)
    obtain v c1 where c1: "lit_chunk c1" "same_blocks c c1"
      "\<forall>q. in_column q \<longrightarrow> glow_at c1 q = glow_at c q \<and> sky_at c1 q = (if q = (x, k, z) then Some v else sky_at c q)"
      and eq: "relight own x z (map world_height [k..<384]) light c =
          (if own = Some (world_height k) \<or> \<not> opaque_at c (x, k, z) then relight own x z (map world_height [Suc k..<384]) light c1
           else if saturating_sub8 light 1 = 0 then Some c1
           else relight own x z (map world_height [Suc k..<384]) (saturating_sub8 light 1) c1)"
      using relight_step(2) [OF Suc.prems(1) assms(2,3) k _ refl, where own = own and ys = "map world_height [Suc k..<384]" and light = light] Some
      by (auto simp: upt)
    have kept: "lights_kept (\<lambda>q. fst q \<noteq> x \<or> snd (snd q) \<noteq> z \<or> height_of q < k) c c1"
      using c1(3) by (auto simp: lights_kept_def height_of_def)
    have "\<exists>c'. relight own x z (map world_height [Suc k..<384]) l c1 = Some c' \<and> lit_chunk c' \<and> same_blocks c c'
      \<and> lights_kept (\<lambda>q. fst q \<noteq> x \<or> snd (snd q) \<noteq> z \<or> height_of q < k) c c'" for l
      using IH [OF c1(1), of l] kept same_blocks_trans [OF c1(2)] by (fastforce simp: lights_kept_def)
    then show ?thesis
      using eq kept c1(1,2) by auto
  qed
qed

text \<open>With no light left the loop darkens cell after cell, up to the first opaque block.\<close>

lemma relight_dark:
  assumes "lit_chunk c" and "x < 16" "z < 16" "k \<le> 384" and "own \<notin> Some ` world_height ` {k..<384}"
  shows "\<exists>c'. relight own x z (map world_height [k..<384]) 0 c = Some c'
    \<and> (\<forall>q. in_column q \<longrightarrow> sky_at c' q =
        (if fst q = x \<and> snd (snd q) = z \<and> k \<le> height_of q \<and> sec_at c (height_of q) \<noteq> None
            \<and> (\<forall>j. k \<le> j \<and> j < height_of q \<longrightarrow> \<not> opaque_at c (x, j, z))
         then Some 0 else sky_at c q))"
  using assms(1,4,5)
proof (induction "384 - k" arbitrary: k c)
  case 0
  then show ?case by (auto simp: in_column_def height_of_def)
next
  case (Suc n)
  then have k: "k < 384" by simp
  then have upt: "[k..<384] = k # [Suc k..<384]"
    by (simp add: upt_conv_Cons)
  have own: "own \<noteq> Some (world_height k)" "own \<notin> Some ` world_height ` {Suc k..<384}"
    using Suc.prems(3) k by auto
  have IH: "\<exists>c'. relight own x z (map world_height [Suc k..<384]) 0 c = Some c'
    \<and> (\<forall>q. in_column q \<longrightarrow> sky_at c' q =
        (if fst q = x \<and> snd (snd q) = z \<and> Suc k \<le> height_of q \<and> sec_at c (height_of q) \<noteq> None
            \<and> (\<forall>j. Suc k \<le> j \<and> j < height_of q \<longrightarrow> \<not> opaque_at c (x, j, z))
         then Some 0 else sky_at c q))" if "lit_chunk c" for c
    using Suc.hyps that k own(2) by simp
  have split: "(\<forall>j. k \<le> j \<and> j < m \<longrightarrow> P j) \<longleftrightarrow> (k < m \<longrightarrow> P k) \<and> (\<forall>j. Suc k \<le> j \<and> j < m \<longrightarrow> P j)" for m P
    by (metis Suc_leD Suc_leI le_eq_less_or_eq)
  show ?case
  proof (cases "sec_at c k")
    case None
    have no: "\<not> opaque_at c (x, k, z)"
      by (simp add: opaque_at_def block_of_def height_of_def None)
    obtain c' where c': "relight own x z (map world_height [Suc k..<384]) 0 c = Some c'"
      "\<And>q. in_column q \<Longrightarrow> sky_at c' q =
        (if fst q = x \<and> snd (snd q) = z \<and> Suc k \<le> height_of q \<and> sec_at c (height_of q) \<noteq> None
            \<and> (\<forall>j. Suc k \<le> j \<and> j < height_of q \<longrightarrow> \<not> opaque_at c (x, j, z))
         then Some 0 else sky_at c q)"
      using IH [OF Suc.prems(1)] by blast
    have "(k \<le> height_of q \<and> sec_at c (height_of q) \<noteq> None) = (Suc k \<le> height_of q \<and> sec_at c (height_of q) \<noteq> None)" for q
      using None by (auto simp: Suc_le_eq le_less)
    then show ?thesis
      using relight_step(1) [OF Suc.prems(1) assms(2,3) k None, where own = own and ys = "map world_height [Suc k..<384]" and light = 0] c' no
      by (intro exI [of _ c']) (auto simp: upt split)
  next
    case (Some s)
    obtain c1 where c1: "lit_chunk c1" "same_blocks c c1"
      and l1: "\<And>q. in_column q \<Longrightarrow> sky_at c1 q = (if q = (x, k, z) then Some 0 else sky_at c q)"
      and eq: "relight own x z (map world_height [k..<384]) 0 c =
          (if opaque_at c (x, k, z) then Some c1 else relight own x z (map world_height [Suc k..<384]) 0 c1)"
      using relight_step(2) [OF Suc.prems(1) assms(2,3) k _ refl, where own = own and ys = "map world_height [Suc k..<384]" and light = 0] Some own(1)
      by (auto simp: upt saturating_sub8_def)
    have only: "fst q = x \<and> snd (snd q) = z \<and> height_of q = k \<longleftrightarrow> q = (x, k, z)" for q
      by (cases q) (auto simp: height_of_def)
    show ?thesis
    proof (cases "opaque_at c (x, k, z)")
      case True
      have "sky_at c1 q =
        (if fst q = x \<and> snd (snd q) = z \<and> k \<le> height_of q \<and> sec_at c (height_of q) \<noteq> None
            \<and> (\<forall>j. k \<le> j \<and> j < height_of q \<longrightarrow> \<not> opaque_at c (x, j, z))
         then Some 0 else sky_at c q)" if "in_column q" for q
        using l1 [OF that] True only [of q] Some by (auto simp: split le_less height_of_def)
      then show ?thesis
        using eq True by simp
    next
      case False
      obtain c' where c': "relight own x z (map world_height [Suc k..<384]) 0 c1 = Some c'"
        "\<And>q. in_column q \<Longrightarrow> sky_at c' q =
          (if fst q = x \<and> snd (snd q) = z \<and> Suc k \<le> height_of q \<and> sec_at c1 (height_of q) \<noteq> None
              \<and> (\<forall>j. Suc k \<le> j \<and> j < height_of q \<longrightarrow> \<not> opaque_at c1 (x, j, z))
           then Some 0 else sky_at c1 q)"
        using IH [OF c1(1)] by blast
      have "sky_at c' q =
        (if fst q = x \<and> snd (snd q) = z \<and> k \<le> height_of q \<and> sec_at c (height_of q) \<noteq> None
            \<and> (\<forall>j. k \<le> j \<and> j < height_of q \<longrightarrow> \<not> opaque_at c (x, j, z))
         then Some 0 else sky_at c q)" if q: "in_column q" for q
      proof -
        have m: "height_of q < 384"
          using q by (auto simp: in_column_def height_of_def)
        have "sec_at c1 (height_of q) = None \<longleftrightarrow> sec_at c (height_of q) = None"
          by (rule same_present [OF c1(2) Suc.prems(1) m])
        moreover have "(\<forall>j. Suc k \<le> j \<and> j < height_of q \<longrightarrow> \<not> opaque_at c1 (x, j, z))
            = (\<forall>j. Suc k \<le> j \<and> j < height_of q \<longrightarrow> \<not> opaque_at c (x, j, z))"
          using opaque_same(1) [OF c1(2) Suc.prems(1) assms(2,3)] m by auto
        ultimately have dark: "sky_at c' q =
          (if fst q = x \<and> snd (snd q) = z \<and> Suc k \<le> height_of q \<and> sec_at c (height_of q) \<noteq> None
              \<and> (\<forall>j. Suc k \<le> j \<and> j < height_of q \<longrightarrow> \<not> opaque_at c (x, j, z))
           then Some 0 else sky_at c1 q)"
          using c'(2) [OF q] by simp
        consider "q = (x, k, z)" | "height_of q = k" "q \<noteq> (x, k, z)" | "height_of q < k" | "k < height_of q"
          by linarith
        then show ?thesis
        proof cases
          case 1
          then show ?thesis
            using dark l1 [OF q] Some by (auto simp: height_of_def)
        next
          case 2
          then have "\<not> (fst q = x \<and> snd (snd q) = z)"
            using only [of q] by blast
          then show ?thesis
            using dark l1 [OF q] 2 by auto
        next
          case 3
          then show ?thesis
            using dark l1 [OF q] by (auto simp: height_of_def)
        next
          case 4
          then have "q \<noteq> (x, k, z)" "k \<le> height_of q" "Suc k \<le> height_of q"
            by (auto simp: height_of_def)
          then show ?thesis
            unfolding dark l1 [OF q] split using 4 False by auto
        qed
      qed
      then show ?thesis
        using eq False c'(1) by simp
    qed
  qed
qed

lemma light_above_total:
  assumes "lit_chunk c" and "x < 16" "z < 16" and "\<forall>k \<in> set ks. k < 384"
  shows "\<exists>l. light_above x y z (map world_height ks) c = Some l"
  using assms(4)
proof (induction ks)
  case (Cons k ks)
  then have k: "k < 384" by simp
  then have i: "k div 16 < 24" by simp
  note ix = world_height_index [OF k]
  show ?case
  proof (cases "sec_at c k")
    case None
    then show ?thesis
      using Cons lit_slot [OF assms(1) i] ix by (simp add: sec_at_def Let_def)
  next
    case (Some s)
    note ok = lit_section [OF assms(1) i Some [unfolded sec_at_def]]
    have p: "in_section (x, k mod 16, z)"
      using assms(2,3) by (simp add: in_section_def)
    obtain b l where "section_get_block s x (k mod 16) z = Some b" "get_sky_light s x (k mod 16) z = Some l"
      using wf_block [OF ok(1) p] light.get_total [OF ok(2) p]
      by (auto simp: section_get_block_def get_xyz_def get_sky_light_def get_light_def)
    then show ?thesis
      using Cons lit_slot [OF assms(1) i] ix Some by (simp add: sec_at_def Let_def)
  qed
qed simp

text \<open>The updates of the sky light when a block changes go up, not down. When a block is placed,
  every block above it loses its sky light, up to and including the first opaque one, and no
  block below changes, although it is there that the light no longer falls. When a block is
  removed, nothing below it is lit. Neither update panics.\<close>

theorem sky_updates_go_up:
  assumes "lit_chunk c" and "x < 16" "z < 16" "k < 384"
  shows "(\<exists>c'. recalc_sky_light_on_place c x (world_height k) z = Some c' \<and> same_blocks c c'
      \<and> (\<forall>q. in_column q \<longrightarrow> sky_at c' q =
          (if fst q = x \<and> snd (snd q) = z \<and> k \<le> height_of q \<and> sec_at c (height_of q) \<noteq> None
              \<and> (\<forall>j. k < j \<and> j < height_of q \<longrightarrow> \<not> opaque_at c (x, j, z))
           then Some 0 else sky_at c q)))
    \<and> (\<exists>c'. recalc_sky_light_on_remove c x (world_height k) z = Some c' \<and> same_blocks c c'
      \<and> (\<forall>q. in_column q \<and> height_of q < k \<longrightarrow> sky_at c' q = sky_at c q))"
proof
  have upt: "[k..<384] = k # [Suc k..<384]"
    using assms(4) by (simp add: upt_conv_Cons)
  let ?own = "Some (world_height k)"
  have own: "?own \<notin> Some ` world_height ` {Suc k..<384}"
  proof
    assume "?own \<in> Some ` world_height ` {Suc k..<384}"
    then obtain j where j: "Suc k \<le> j" "j < 384" "world_height k = world_height j" by auto
    with world_height_inj [OF assms(4) j(2)] show False by simp
  qed
  have dark: "\<exists>c'. relight ?own x z (map world_height [Suc k..<384]) 0 c1 = Some c' \<and> same_blocks c1 c'
    \<and> (\<forall>q. in_column q \<longrightarrow> sky_at c' q =
        (if fst q = x \<and> snd (snd q) = z \<and> Suc k \<le> height_of q \<and> sec_at c1 (height_of q) \<noteq> None
            \<and> (\<forall>j. Suc k \<le> j \<and> j < height_of q \<longrightarrow> \<not> opaque_at c1 (x, j, z))
         then Some 0 else sky_at c1 q))" if "lit_chunk c1" for c1
    using relight_dark [OF that assms(2,3) _ own] relight_up [OF that assms(2,3), of "Suc k" ?own 0] assms(4) by force
  obtain c1 where c1: "lit_chunk c1" "same_blocks c c1"
    and l1: "\<And>q. in_column q \<Longrightarrow> sky_at c1 q = (if q = (x, k, z) \<and> sec_at c k \<noteq> None then Some 0 else sky_at c q)"
    and eq: "recalc_sky_light_on_place c x (world_height k) z = relight ?own x z (map world_height [Suc k..<384]) 0 c1"
  proof (cases "sec_at c k")
    case None
    then show thesis
      using that [OF assms(1)] relight_step(1) [OF assms None, where own = ?own and ys = "map world_height [Suc k..<384]" and light = 0]
      by (simp add: recalc_sky_light_on_place_def heights_up [OF assms(4)] upt)
  next
    case (Some s)
    then obtain c2 where c2: "lit_chunk c2" "same_blocks c c2"
      "\<forall>q. in_column q \<longrightarrow> glow_at c2 q = glow_at c q \<and> sky_at c2 q = (if q = (x, k, z) then Some (0 AND 0x0F) else sky_at c q)"
      "relight ?own x z (world_height k # map world_height [Suc k..<384]) 0 c
        = relight ?own x z (map world_height [Suc k..<384]) 0 c2"
      using relight_step(2) [OF assms, where own = ?own and ys = "map world_height [Suc k..<384]" and light = 0 and v = 0]
      by auto
    show thesis
    proof (rule that [OF c2(1,2)])
      show "sky_at c2 q = (if q = (x, k, z) \<and> sec_at c k \<noteq> None then Some 0 else sky_at c q)" if "in_column q" for q
        using c2(3) that Some by (cases q) auto
      show "recalc_sky_light_on_place c x (world_height k) z = relight ?own x z (map world_height [Suc k..<384]) 0 c2"
        using c2(4) by (simp add: recalc_sky_light_on_place_def heights_up [OF assms(4)] upt)
    qed
  qed
  obtain c' where c': "relight ?own x z (map world_height [Suc k..<384]) 0 c1 = Some c'" "same_blocks c1 c'"
    and l': "\<And>q. in_column q \<Longrightarrow> sky_at c' q =
        (if fst q = x \<and> snd (snd q) = z \<and> Suc k \<le> height_of q \<and> sec_at c1 (height_of q) \<noteq> None
            \<and> (\<forall>j. Suc k \<le> j \<and> j < height_of q \<longrightarrow> \<not> opaque_at c1 (x, j, z))
         then Some 0 else sky_at c1 q)"
    using dark [OF c1(1)] by blast
  have "sky_at c' q =
      (if fst q = x \<and> snd (snd q) = z \<and> k \<le> height_of q \<and> sec_at c (height_of q) \<noteq> None
          \<and> (\<forall>j. k < j \<and> j < height_of q \<longrightarrow> \<not> opaque_at c (x, j, z))
       then Some 0 else sky_at c q)" if q: "in_column q" for q
  proof -
    obtain x' m z' where qe: "q = (x', m, z')" by (rule prod_cases3)
    have m: "m < 384" using q by (simp add: qe in_column_def)
    have "sec_at c1 m = None \<longleftrightarrow> sec_at c m = None"
      by (rule same_present [OF c1(2) assms(1) m])
    moreover have "(\<forall>j. Suc k \<le> j \<and> j < m \<longrightarrow> \<not> opaque_at c1 (x, j, z))
        = (\<forall>j. k < j \<and> j < m \<longrightarrow> \<not> opaque_at c (x, j, z))"
      using opaque_same(1) [OF c1(2) assms(1-3)] m by (auto simp: Suc_le_eq)
    ultimately show ?thesis
      using l' [OF q] l1 [OF q] by (cases m k rule: linorder_cases) (auto simp: qe height_of_def)
  qed
  then show "\<exists>c'. recalc_sky_light_on_place c x (world_height k) z = Some c' \<and> same_blocks c c'
      \<and> (\<forall>q. in_column q \<longrightarrow> sky_at c' q =
          (if fst q = x \<and> snd (snd q) = z \<and> k \<le> height_of q \<and> sec_at c (height_of q) \<noteq> None
              \<and> (\<forall>j. k < j \<and> j < height_of q \<longrightarrow> \<not> opaque_at c (x, j, z))
           then Some 0 else sky_at c q))"
    using eq c' same_blocks_trans [OF c1(2)] by auto
  obtain l where "light_above x (world_height k) z (rev (heights (world_height k) 319)) c = Some l"
    using light_above_total [OF assms(1-3), of "rev [k..<384]"] by (auto simp: heights_up [OF assms(4)] rev_map)
  then show "\<exists>c'. recalc_sky_light_on_remove c x (world_height k) z = Some c' \<and> same_blocks c c'
      \<and> (\<forall>q. in_column q \<and> height_of q < k \<longrightarrow> sky_at c' q = sky_at c q)"
    using relight_up [OF assms(1-3), of k None l] assms(4)
    by (force simp: recalc_sky_light_on_remove_def heights_up [OF assms(4)] lights_kept_def)
qed

theorem sky_updates_go_up_witness:
  "\<exists>c'. recalc_sky_light_on_place (one_section (block 267)) 3 (world_height 130) 5 = Some c'
    \<and> sky_at c' (3, 140, 5) = Some 0"
proof -
  have "\<not> opaque_at (one_section (block 267)) (3, j, 5)" if "j < 140" for j
    using that one_section_cells(1) [of "(3, j, 5)" "block 267"]
    by (simp add: opaque_at_def in_column_def height_of_def is_opaque_def is_transparent_def waterlogged_def block_def)
  moreover have "sec_at (one_section (block 267)) 140 \<noteq> None"
    using one_section_cells(2) [of "(3, 140, 5)" "block 267"] by (simp add: in_column_def height_of_def)
  moreover have "in_column (3, 140, 5)"
    by (simp add: in_column_def)
  moreover obtain c' where "recalc_sky_light_on_place (one_section (block 267)) 3 (world_height 130) 5 = Some c'"
    "\<forall>q. in_column q \<longrightarrow> sky_at c' q =
      (if fst q = 3 \<and> snd (snd q) = 5 \<and> 130 \<le> height_of q \<and> sec_at (one_section (block 267)) (height_of q) \<noteq> None
          \<and> (\<forall>j. 130 < j \<and> j < height_of q \<longrightarrow> \<not> opaque_at (one_section (block 267)) (3, j, 5))
       then Some 0 else sky_at (one_section (block 267)) q)"
    using sky_updates_go_up [OF one_section_lit, of 3 5 130 "block 267"] by auto
  ultimately show ?thesis
    by (intro exI [of _ c']) (simp add: height_of_def)
qed

section \<open>The spread of block light\<close>

definition bit_of :: "nat \<times> nat \<times> nat \<Rightarrow> nat" where
  "bit_of p = (case p of (x, k, z) \<Rightarrow> x + z * 16 + k * 256)"

lemma bit_of_inj:
  assumes "in_column p" and "in_column q"
  shows "bit_of p = bit_of q \<longleftrightarrow> p = q"
proof
  assume eq: "bit_of p = bit_of q"
  have parts: "bit_of (x, k, z) = x + 16 * (z + 16 * k)" for x k z
    by (simp add: bit_of_def)
  obtain x k z where p: "p = (x, k, z)" by (rule prod_cases3)
  obtain x' k' z' where q: "q = (x', k', z')" by (rule prod_cases3)
  have less: "x < 16" "x' < 16" "z < 16" "z' < 16"
    using assms by (simp_all add: p q in_column_def)
  have e: "x + 16 * (z + 16 * k) = x' + 16 * (z' + 16 * k')"
    using eq by (simp only: p q parts)
  have digits: "a = b \<and> u = v" if "a + 16 * u = b + 16 * v" "a < 16" "b < 16" for a b u v :: nat
    using that by presburger
  from digits [OF e less(1,2)] have "x = x'" "z + 16 * k = z' + 16 * k'"
    by blast+
  moreover from digits [OF this(2) less(3,4)] have "z = z'" "k = k'"
    by blast+
  ultimately show "p = q"
    by (simp add: p q)
qed simp

lemma bit_of_less: "in_column p \<Longrightarrow> bit_of p < 98304"
  by (auto simp: in_column_def bit_of_def)

lemma bit_index_height: "k < 384 \<Longrightarrow> bit_index x (world_height k) z = bit_of (x, k, z)"
proof -
  assume k: "k < 384"
  have "world_height k + 64 = word_of_nat k"
    by (simp add: world_height_def)
  moreover have "i32_as_usize (word_of_nat k) = k"
    using k sint_of_small [of "word_of_nat k :: i32"] i32_as_usize_nonneg [of "word_of_nat k"]
    by (simp add: unat_of_nat uint_nat)
  ultimately show ?thesis
    by (simp add: bit_index_def bit_of_def)
qed

text \<open>What a stretch of the spread may do, the bits \<open>V\<close> being set at its start.\<close>

definition spreads :: "nat set \<Rightarrow> Chunk \<Rightarrow> Chunk \<Rightarrow> bool" where
  "spreads V c c' \<longleftrightarrow> lit_chunk c' \<and> same_blocks c c' \<and> (\<forall>q. in_column q \<longrightarrow> sky_at c' q = sky_at c q
     \<and> (glow_at c' q = glow_at c q \<or>
        bit_of q \<notin> V \<and> \<not> opaque_at c q \<and> (\<exists>a b. glow_at c q = Some a \<and> glow_at c' q = Some b \<and> a < b \<and> b \<le> 14)))"

lemma spreads_refl: "lit_chunk c \<Longrightarrow> spreads V c c"
  by (simp add: spreads_def)

lemma spreads_trans:
  assumes "lit_chunk c" and "spreads V c c'" and "spreads V' c' c''" and "V \<subseteq> V'"
  shows "spreads V c c''"
  unfolding spreads_def
proof (intro conjI allI impI)
  show "lit_chunk c''" "same_blocks c c''"
    using assms same_blocks_trans by (auto simp: spreads_def)
  fix q assume q: "in_column q"
  obtain x k z where qe: "q = (x, k, z)" by (rule prod_cases3)
  have op: "opaque_at c' q = opaque_at c q"
    using opaque_same(1) [of c c' x z k] assms(1,2) q by (simp add: qe in_column_def spreads_def)
  show "sky_at c'' q = sky_at c q"
    using assms(2,3) q unfolding spreads_def by metis
  let ?up = "\<lambda>c c'. \<exists>a b. glow_at c q = Some a \<and> glow_at c' q = Some b \<and> a < b \<and> b \<le> 14"
  have 1: "glow_at c' q = glow_at c q \<or> bit_of q \<notin> V \<and> \<not> opaque_at c q \<and> ?up c c'"
    using assms(2) q by (simp only: spreads_def)
  have 2: "glow_at c'' q = glow_at c' q \<or> bit_of q \<notin> V \<and> \<not> opaque_at c q \<and> ?up c' c''"
    using assms(3,4) q op by (auto simp only: spreads_def)
  have "?up c c' \<Longrightarrow> ?up c' c'' \<Longrightarrow> ?up c c''"
    using less_trans by fastforce
  with 1 2 show "glow_at c'' q = glow_at c q \<or> bit_of q \<notin> V \<and> \<not> opaque_at c q \<and> ?up c c''"
    by (metis (no_types, lifting))
qed

lemma light_cell_ok:
  assumes c: "lit_chunk c" and level: "level \<le> 14"
  shows "\<exists>queue' visited' c'. light_cell level p (queue, visited, c) = Some (queue', visited', c')
    \<and> visited \<subseteq> visited' \<and> spreads visited c c'
    \<and> (\<forall>n \<in> set queue'. n \<in> set queue \<or> ln_level n \<le> 14)"
proof -
  obtain nx ny nz where p: "p = (nx, ny, nz)" by (rule prod_cases3)
  let ?x = "nat nx" and ?z = "nat nz"
  show ?thesis
  proof (cases "nx < 0 \<or> nx \<ge> 16 \<or> nz < 0 \<or> nz \<ge> 16 \<or> ny <s - 64 \<or> 319 <s ny")
    case True
    then show ?thesis
      using spreads_refl [OF c] by (auto simp: light_cell_def p)
  next
    case inside: False
    define k where "k = nat (sint ny + 64)"
    have y: "- 64 \<le> sint ny" "sint ny \<le> 319"
      using inside by (auto simp: word_sless_alt)
    then have k: "k < 384" and int_k: "int k = sint ny + 64"
      by (simp_all add: k_def)
    have ny: "ny = world_height k"
      by (simp add: world_height_def int_k)
    have xz: "?x < 16" "?z < 16"
      using inside by auto
    let ?q = "(?x, k, ?z)"
    have q: "in_column ?q"
      using xz k by (simp add: in_column_def)
    have h: "height_of ?q = k" "in_sec ?q = (?x, k mod 16, ?z)"
      by (simp_all add: height_of_def in_sec_def)
    have idx: "bit_index ?x ny ?z = bit_of ?q"
      unfolding ny by (rule bit_index_height [OF k])
    have small: "\<not> bit_of ?q div 64 \<ge> 1536"
      using bit_of_less [OF q] by simp
    have i: "k div 16 < 24"
      using k by simp
    have slot: "nth_opt (ck_sections c) (k div 16) = Some (sec_at c k)"
      using lit_slot [OF c i] by (simp add: sec_at_def)
    have by_k: "rem_euclid16 ny = k mod 16" "section_index ny = k div 16"
      by (simp_all add: ny world_height_index [OF k])
    note unfold = light_cell_def p inside idx small slot by_k Let_def
    show ?thesis
    proof (cases "bit_of ?q \<in> visited")
      case True
      then show ?thesis
        using spreads_refl [OF c] by (auto simp: unfold)
    next
      case new: False
      show ?thesis
      proof (cases "sec_at c k")
        case None
        then show ?thesis
          using new spreads_refl [OF c] by (auto simp: unfold)
      next
        case (Some s)
        note ok = lit_section [OF c i Some [unfolded sec_at_def]]
        have sec: "in_section (?x, k mod 16, ?z)"
          using xz by (simp add: in_section_def)
        obtain b where b: "section_get_block s ?x (k mod 16) ?z = Some b" "opaque_at c ?q = is_opaque b"
          using wf_block [OF ok(1) sec] Some
          by (auto simp: section_get_block_def get_xyz_def opaque_at_def block_of_def h)
        obtain cur where cur: "get_block_light s ?x (k mod 16) ?z = Some cur" "glow_at c ?q = Some cur"
          using light.get_total [OF ok(3) sec] Some
          by (auto simp: get_block_light_def get_light_def glow_at_def h)
        obtain l where l: "set_light (sec_light s) (?x, k mod 16, ?z) level = Some l"
          and w: "let c' = store_section (k div 16) (s\<lparr>sec_light := l\<rparr>) c in lit_chunk c' \<and> same_blocks c c'
            \<and> (\<forall>q. in_column q \<longrightarrow> glow_at c' q = (if q = ?q then Some (level AND 0x0F) else glow_at c q) \<and> sky_at c' q = sky_at c q)"
          using glow_write [OF c q, of s level] Some by (auto simp: h)
        have lvl: "level AND 0x0F = level"
          using level by (intro and_15) (auto intro: order_trans [of _ 14])
        show ?thesis
        proof (cases "is_opaque b \<or> \<not> level > cur")
          case True
          then show ?thesis
            using new Some b cur spreads_refl [OF c] by (auto simp: unfold)
        next
          case False
          let ?c = "store_section (k div 16) (s\<lparr>sec_light := l\<rparr>) c"
          have "spreads visited c ?c"
            using w False b(2) cur(2) new level
            by (auto simp: spreads_def Let_def lvl)
          moreover have "set_block_light s ?x (k mod 16) ?z level = Some (s\<lparr>sec_light := l\<rparr>)"
            using l by (simp add: set_block_light_def set_light_def)
          ultimately show ?thesis
            using new Some b cur False level by (auto simp: unfold)
        qed
      qed
    qed
  qed
qed

lemma light_cells_ok:
  assumes "lit_chunk c" and "level \<le> 14"
  shows "\<exists>queue' visited' c'. light_cells level ps (queue, visited, c) = Some (queue', visited', c')
    \<and> visited \<subseteq> visited' \<and> spreads visited c c' \<and> (\<forall>n \<in> set queue'. n \<in> set queue \<or> ln_level n \<le> 14)"
  using assms(1)
proof (induction ps arbitrary: queue visited c)
  case Nil
  then show ?case by (simp add: spreads_refl)
next
  case (Cons p ps)
  obtain q1 v1 c1 where 1: "light_cell level p (queue, visited, c) = Some (q1, v1, c1)" "visited \<subseteq> v1"
    "spreads visited c c1" "\<forall>n \<in> set q1. n \<in> set queue \<or> ln_level n \<le> 14"
    using light_cell_ok [OF Cons.prems assms(2)] by blast
  have "lit_chunk c1"
    using 1(3) by (simp add: spreads_def)
  from Cons.IH [OF this, of q1 v1] obtain q2 v2 c2 where 2: "light_cells level ps (q1, v1, c1) = Some (q2, v2, c2)"
    "v1 \<subseteq> v2" "spreads v1 c1 c2" "\<forall>n \<in> set q2. n \<in> set q1 \<or> ln_level n \<le> 14"
    by blast
  then show ?case
    using 1 spreads_trans [OF Cons.prems 1(3) 2(3) 1(2)] by auto
qed

lemma light_loop_ok:
  assumes "lit_chunk c" and "\<forall>n \<in> set queue. ln_level n \<le> 15"
  shows "\<exists>c'. light_loop (queue, visited, c) = Some c' \<and> spreads visited c c'"
  using assms
proof (induction "work (queue, visited, c)" arbitrary: queue visited c rule: less_induct)
  case less
  show ?case
  proof (cases queue)
    case Nil
    then show ?thesis
      using spreads_refl [OF less.prems(1)] by (simp add: light_loop.simps)
  next
    case (Cons n rest)
    show ?thesis
    proof (cases "ln_level n \<le> 1")
      case True
      have "\<exists>c'. light_loop (rest, visited, c) = Some c' \<and> spreads visited c c'"
        using less.prems by (intro less.hyps) (auto simp: Cons work_def)
      then show ?thesis
        using True by (subst light_loop.simps) (simp add: Cons)
    next
      case False
      have level: "ln_level n - 1 \<le> 14"
      proof -
        have "ln_level n \<noteq> 0" "unat (ln_level n) \<le> 15"
          using False less.prems(2) by (auto simp: Cons word_le_nat_alt)
        then show ?thesis
          by (simp add: word_le_nat_alt unat_minus_one)
      qed
      obtain q1 v1 c1 where 1: "light_cells (ln_level n - 1) (light_neighbours n) (rest, visited, c) = Some (q1, v1, c1)"
        "visited \<subseteq> v1" "spreads visited c c1" "\<forall>n \<in> set q1. n \<in> set rest \<or> ln_level n \<le> 14"
        using light_cells_ok [OF less.prems(1) level] by blast
      have lit: "lit_chunk c1"
        using 1(3) by (simp add: spreads_def)
      have "work (q1, v1, c1) < work (queue, visited, c)"
        using light_cells_work [OF 1(1)] by (simp add: work_def Cons)
      moreover have "\<forall>n \<in> set q1. ln_level n \<le> 15"
        using 1(4) less.prems(2) order_trans [of _ "14 :: u8" 15] by (fastforce simp: Cons)
      ultimately obtain c2 where 2: "light_loop (q1, v1, c1) = Some c2" "spreads v1 c1 c2"
        using less.hyps lit by blast
      then show ?thesis
        using False 1 spreads_trans [OF less.prems(1) 1(3) 2(2) 1(2)] by (subst light_loop.simps) (simp add: Cons)
    qed
  qed
qed

lemma emission_le: "light_emission b \<le> 15"
  by (simp add: light_emission_def Let_def)

definition source_at :: "Chunk \<Rightarrow> nat \<times> nat \<times> nat \<Rightarrow> bool" where
  "source_at c p \<longleftrightarrow> (case block_of c p of Some b \<Rightarrow> light_emission b > 0 | None \<Rightarrow> False)"

definition section_height :: "nat \<Rightarrow> i32" where
  "section_height i = word_of_int (int i - 4)"

lemma section_height_index:
  assumes "i < 24"
  shows "section_index_from_section_y (section_height i) = i"
proof -
  have "section_height i - MIN_SECTION_Y = word_of_nat i"
    by (simp add: section_height_def MIN_SECTION_Y_def)
  moreover have "i32_as_usize (word_of_nat i) = i"
    using assms sint_of_small [of "word_of_nat i :: i32"] i32_as_usize_nonneg [of "word_of_nat i"]
    by (simp add: unat_of_nat uint_nat)
  ultimately show ?thesis
    by (simp only: section_index_from_section_y_def)
qed

lemma section_height_world: "section_height (k div 16) * 16 + word_of_nat (k mod 16) = world_height k"
proof -
  have k: "int k = int (k div 16) * 16 + int (k mod 16)"
    by (metis div_mult_mod_eq of_nat_add of_nat_mult of_nat_numeral)
  have "section_height (k div 16) * 16 + word_of_nat (k mod 16)
      = (word_of_int ((int (k div 16) - 4) * 16 + int (k mod 16)) :: i32)"
    by (simp add: section_height_def)
  also have "(int (k div 16) - 4) * 16 + int (k mod 16) = int k - 64"
    using k by simp
  finally show ?thesis
    by (simp only: world_height_def)
qed

lemma section_heights: "map word_of_int [-4..19] = map section_height [0..<24]"
  by code_simp

text \<open>An entry of the seed order, and its cell.\<close>

definition seed_entry :: "nat \<times> nat \<times> nat \<Rightarrow> nat \<times> nat \<times> i32 \<times> nat" where
  "seed_entry p = (case p of (x, k, z) \<Rightarrow> (x, z, section_height (k div 16), k mod 16))"

lemma seed_order_entries: "set seed_order = seed_entry ` {p. in_column p}"
proof -
  have "(x, z, section_height i, by) \<in> seed_entry ` {p. in_column p}"
    if "x < 16" "z < 16" "i < 24" "by < 16" for x z i "by"
  proof -
    have "seed_entry (x, i * 16 + by, z) = (x, z, section_height i, by)" "in_column (x, i * 16 + by, z)"
      using that by (simp_all add: seed_entry_def in_column_def)
    then show ?thesis
      by (metis image_eqI mem_Collect_eq)
  qed
  moreover have "set seed_order = {..<16} \<times> {..<16} \<times> section_height ` {..<24} \<times> {..<16}"
    unfolding seed_order_def section_heights by (simp only: set_product set_map set_upt atLeast0LessThan)
  ultimately show ?thesis
    by (auto simp: seed_entry_def in_column_def)
qed

lemma seed_ok:
  assumes "lit_chunk c" and "\<forall>e \<in> set es. \<exists>p. in_column p \<and> e = seed_entry p" and "\<forall>n \<in> set (fst qv). ln_level n \<le> 15"
  shows "\<exists>qv'. seed es c qv = Some qv' \<and> (\<forall>n \<in> set (fst qv'). ln_level n \<le> 15) \<and> snd qv \<subseteq> snd qv'
    \<and> (\<forall>p. in_column p \<and> seed_entry p \<in> set es \<and> source_at c p \<longrightarrow> bit_of p \<in> snd qv')"
  using assms(2,3)
proof (induction es arbitrary: qv)
  case Nil
  then show ?case by simp
next
  case (Cons e es)
  obtain x k z where p: "in_column (x, k, z)" and e: "e = seed_entry (x, k, z)"
    using Cons.prems(1) by auto
  have k: "k < 384" and xz: "x < 16" "z < 16"
    using p by (simp_all add: in_column_def)
  then have i: "k div 16 < 24" by simp
  have h: "height_of (x, k, z) = k" "in_sec (x, k, z) = (x, k mod 16, z)"
    by (simp_all add: height_of_def in_sec_def)
  have unique: "p = (x, k, z)" if "in_column p" "seed_entry p = e" for p
  proof -
    obtain x' k' z' where p': "p = (x', k', z')" by (rule prod_cases3)
    have k': "k' < 384" using that(1) by (simp add: p' in_column_def)
    have eq: "x' = x" "z' = z" "section_height (k' div 16) = section_height (k div 16)" "k' mod 16 = k mod 16"
      using that(2) by (simp_all add: e p' seed_entry_def)
    have "k' div 16 = k div 16"
      using section_height_index [of "k div 16"] section_height_index [of "k' div 16"] eq(3) k k' by simp
    with eq show ?thesis
      by (metis p' div_mult_mod_eq)
  qed
  note slot = lit_slot [OF assms(1) i, folded sec_at_def]
  show ?case
  proof (cases "sec_at c k")
    case None
    obtain qv' where "seed es c qv = Some qv'" "\<forall>n \<in> set (fst qv'). ln_level n \<le> 15" "snd qv \<subseteq> snd qv'"
      "\<forall>p. in_column p \<and> seed_entry p \<in> set es \<and> source_at c p \<longrightarrow> bit_of p \<in> snd qv'"
      using Cons.IH [of qv] Cons.prems by auto
    moreover have "\<not> source_at c (x, k, z)"
      by (simp add: source_at_def block_of_def h None)
    ultimately show ?thesis
      using slot None unique by (auto simp: e seed_entry_def section_height_index [OF i])
  next
    case (Some s)
    obtain b where b: "section_get_block s x (k mod 16) z = Some b" "block_of c (x, k, z) = Some b"
      using wf_block [of "sec_blocks s" "(x, k mod 16, z)"] lit_section(1) [OF assms(1) i Some [unfolded sec_at_def]] xz Some
      by (auto simp: in_section_def section_get_block_def get_xyz_def block_of_def h)
    define qv1 where "qv1 = (if light_emission b > 0 then
        (fst qv @ [\<lparr>ln_x = x, ln_y = world_height k, ln_z = z, ln_level = light_emission b\<rparr>],
         insert (bit_of (x, k, z)) (snd qv)) else qv)"
    have "\<forall>n \<in> set (fst qv1). ln_level n \<le> 15"
      using Cons.prems(2) emission_le by (auto simp: qv1_def)
    then obtain qv' where qv': "seed es c qv1 = Some qv'" "\<forall>n \<in> set (fst qv'). ln_level n \<le> 15" "snd qv1 \<subseteq> snd qv'"
      "\<forall>p. in_column p \<and> seed_entry p \<in> set es \<and> source_at c p \<longrightarrow> bit_of p \<in> snd qv'"
      using Cons.IH [of qv1] Cons.prems(1) by auto
    have step: "seed (e # es) c qv = seed es c qv1"
      using slot Some b(1)
      by (simp add: e seed_entry_def section_height_index [OF i] section_height_world qv1_def bit_index_height [OF k] Let_def)
    have "snd qv \<subseteq> snd qv1" "source_at c (x, k, z) \<Longrightarrow> bit_of (x, k, z) \<in> snd qv1"
      using b(2) by (auto simp: qv1_def source_at_def)
    then have "bit_of p \<in> snd qv'" if "in_column p" "seed_entry p \<in> set (e # es)" "source_at c p" for p
    proof (cases "seed_entry p = e")
      case True
      then have "p = (x, k, z)"
        using unique that(1) by blast
      then show ?thesis
        using \<open>source_at c (x, k, z) \<Longrightarrow> bit_of (x, k, z) \<in> snd qv1\<close> qv'(3) that(3) by blast
    next
      case False
      then have "seed_entry p \<in> set es"
        using that(2) by simp
      then show ?thesis
        using qv'(4) that(1,3) by blast
    qed
    moreover have "seed (e # es) c qv = Some qv'"
      using step qv'(1) by (rule trans)
    moreover have "snd qv \<subseteq> snd qv'"
      using \<open>snd qv \<subseteq> snd qv1\<close> qv'(3) by (rule subset_trans)
    ultimately show ?thesis
      using qv'(2) by blast
  qed
qed

lemma propagate_light_ok:
  assumes "lit_chunk c"
  obtains c' V where "propagate_block_light c = Some c'" and "spreads V c c'"
    and "\<And>p. in_column p \<Longrightarrow> source_at c p \<Longrightarrow> bit_of p \<in> V"
proof -
  have "\<forall>e \<in> set seed_order. \<exists>p. in_column p \<and> e = seed_entry p"
    by (auto simp: seed_order_entries)
  from seed_ok [OF assms this, of "([], {})"] obtain q V where
    qv: "seed seed_order c ([], {}) = Some (q, V)" "\<forall>n \<in> set q. ln_level n \<le> 15"
    and V: "\<forall>p. in_column p \<and> seed_entry p \<in> set seed_order \<and> source_at c p \<longrightarrow> bit_of p \<in> V"
    by auto
  obtain c' where "light_loop (q, V, c) = Some c'" "spreads V c c'"
    using light_loop_ok [OF assms qv(2)] by blast
  then show thesis
    using that qv(1) V by (auto simp: propagate_block_light_def seed_order_entries)
qed

text \<open>The spread of block light always ends, never panics and only ever raises a level: a cell
  keeps its level or is raised to at most 14, and only a cell that lets light through and gives
  none is raised. Blocks and sky light stay. So the light a removed source gave stays too, and
  no light source is lit itself.\<close>

theorem block_light_only_grows:
  assumes "lit_chunk c"
  shows "\<exists>c'. propagate_block_light c = Some c' \<and> lit_chunk c' \<and> same_blocks c c'
    \<and> (\<forall>p. in_column p \<longrightarrow> sky_at c' p = sky_at c p
      \<and> (glow_at c' p = glow_at c p \<or> \<not> opaque_at c p \<and> \<not> source_at c p
          \<and> (\<exists>a b. glow_at c p = Some a \<and> glow_at c' p = Some b \<and> a < b \<and> b \<le> 14)))"
proof -
  obtain c' V where "propagate_block_light c = Some c'" "spreads V c c'"
    "\<And>p. in_column p \<Longrightarrow> source_at c p \<Longrightarrow> bit_of p \<in> V"
    using propagate_light_ok [OF assms] by metis
  then show ?thesis
    unfolding spreads_def by blast
qed

theorem block_light_only_grows_witness:
  "\<exists>c'. propagate_block_light (one_section (block 130)) = Some c'
    \<and> glow_at c' (3, 130, 5) = glow_at (one_section (block 130)) (3, 130, 5)"
proof -
  have "source_at (one_section (block 130)) (3, 130, 5)"
    using one_section_cells(1) [of "(3, 130, 5)" "block 130"]
    by (simp add: source_at_def in_column_def height_of_def light_emission_def block_def)
  moreover have "in_column (3, 130, 5)"
    by (simp add: in_column_def)
  ultimately show ?thesis
    using block_light_only_grows [OF one_section_lit, of "block 130"] by blast
qed

text \<open>No light source of a generated chunk is lit: once the lighting of a chunk is set up, every
  block that gives light, on which the spread starts, reads block light 0 itself. Setting up
  never panics.\<close>

theorem light_sources_stay_dark:
  assumes "lit_chunk c" and "placed c"
  shows "\<exists>c'. init_chunk_lighting c = Some c' \<and> same_blocks c c'
    \<and> (\<forall>p. in_column p \<and> source_at c p \<longrightarrow> glow_at c' p = Some 0)"
proof -
  let ?c = "c\<lparr>ck_sections := map (map_option dark_section) (ck_sections c)\<rparr>"
  have dark: "sec_position (dark_section s) = sec_position s" "sec_blocks (dark_section s) = sec_blocks s"
    "sec_light (dark_section s) = replicate 2048 0" "light_ok (sec_sky (dark_section s))" for s
    by (simp_all add: dark_section_def fill_sky_light_def Let_def light_ok_def)
  have lit: "lit_chunk ?c"
    using assms(1) dark
    by (fastforce simp: lit_chunk_def light_ok_def map_option_case split: option.splits)
  have same: "same_blocks c ?c"
    by (simp add: same_blocks_def option.map_comp o_def dark)
  have zero: "glow_at ?c p = (if sec_at c (height_of p) = None then None else Some 0)" if p: "in_column p" for p
  proof -
    have i: "height_of p div 16 < 24"
      using p by (auto simp: in_column_def height_of_def)
    have "get_light (replicate 2048 0) (in_sec p) = Some 0"
      using light_byte [of "replicate 2048 0" "in_sec p"] in_sec_in_section [OF p]
      by (simp add: light_simps light_ok_def low_nibble_def)
    then show ?thesis
      using i lit_length [OF assms(1)] by (cases "ck_sections c ! (height_of p div 16)") (simp_all add: glow_at_def sec_at_def dark)
  qed
  obtain c1 where c1: "compute_sky_light ?c = Some c1" "lit_chunk c1" "same_blocks ?c c1"
    and l1: "\<And>p. in_column p \<Longrightarrow> glow_at c1 p = glow_at ?c p"
  proof -
    have "distinct (List.product [0..<16 :: nat] [0..<16 :: nat])"
      by (rule distinct_product) simp_all
    from sky_columns_ok [OF lit same_placed [OF same assms] _ this] show thesis
      using that by (auto simp: compute_sky_light_def)
  qed
  obtain c2 V where c2: "propagate_block_light c1 = Some c2" "spreads V c1 c2"
    and V: "\<And>p. in_column p \<Longrightarrow> source_at c1 p \<Longrightarrow> bit_of p \<in> V"
    using propagate_light_ok [OF c1(2)] by metis
  have all: "same_blocks c c1"
    by (rule same_blocks_trans [OF same c1(3)])
  have "glow_at c2 p = Some 0" if p: "in_column p" "source_at c p" for p
  proof -
    have "source_at c1 p"
      using p(2) same_blocks_block_of [OF all assms(1) p(1)] by (simp add: source_at_def)
    then have "glow_at c2 p = glow_at c1 p"
      using c2(2) V [OF p(1)] p(1) unfolding spreads_def by blast
    moreover have "sec_at c (height_of p) \<noteq> None"
      using p(2) by (auto simp: source_at_def block_of_def split: option.splits Option.bind_splits)
    ultimately show ?thesis
      using l1 [OF p(1)] zero [OF p(1)] by simp
  qed
  then show ?thesis
    using c1(1) c2 same_blocks_trans [OF all] by (auto simp: init_chunk_lighting_def spreads_def)
qed

theorem light_sources_stay_dark_witness:
  "\<exists>c'. init_chunk_lighting (one_section (block 130)) = Some c' \<and> glow_at c' (3, 130, 5) = Some 0"
proof -
  have "source_at (one_section (block 130)) (3, 130, 5)"
    using one_section_cells(1) [of "(3, 130, 5)" "block 130"]
    by (simp add: source_at_def in_column_def height_of_def light_emission_def block_def)
  then show ?thesis
    using light_sources_stay_dark [OF one_section_lit one_section_placed, of "block 130"] by (fastforce simp: in_column_def)
qed

section \<open>Neighbouring chunks\<close>

text \<open>\<open>get_mut\<close> on the store: the change of a loaded chunk, nothing for one that is not.\<close>

definition modify_chunk :: "(Chunk \<Rightarrow> Chunk option) \<Rightarrow> ChunkPos \<Rightarrow> world \<Rightarrow> world option" where
  "modify_chunk f cp w =
     (case map_of (w_chunks w) cp of
        None \<Rightarrow> Some w
      | Some c \<Rightarrow> map_option (\<lambda>c. w\<lparr>w_chunks := AList.update cp c (w_chunks w)\<rparr>) (f c))"

definition relight_border :: "bool \<Rightarrow> nat \<Rightarrow> i32 \<Rightarrow> nat \<Rightarrow> Chunk \<Rightarrow> Chunk option" where
  "relight_border is_remove x y z c =
     Option.bind
       (if is_remove then recalc_sky_light_on_remove c x y z else recalc_sky_light_on_place c x y z)
       propagate_block_light"

definition propagate_lighting_cross_chunk :: "ChunkPos \<Rightarrow> nat \<Rightarrow> i32 \<Rightarrow> nat \<Rightarrow> bool \<Rightarrow> world \<Rightarrow> world option" where
  "propagate_lighting_cross_chunk cp x y z is_remove w =
     (let needs_neighbor_x = x = 0 \<or> x = 15; needs_neighbor_z = z = 0 \<or> z = 15 in
      if \<not> needs_neighbor_x \<and> \<not> needs_neighbor_z then Some w
      else do {
        w \<leftarrow> (if x = 0 then modify_chunk (relight_border is_remove 15 y z) (chunk_pos (cp_x cp - 1) (cp_z cp)) w else Some w);
        w \<leftarrow> (if x = 15 then modify_chunk (relight_border is_remove 0 y z) (chunk_pos (cp_x cp + 1) (cp_z cp)) w else Some w);
        w \<leftarrow> (if z = 0 then modify_chunk (relight_border is_remove x y 15) (chunk_pos (cp_x cp) (cp_z cp - 1)) w else Some w);
        (if z = 15 then modify_chunk (relight_border is_remove x y 0) (chunk_pos (cp_x cp) (cp_z cp + 1)) w else Some w)
      })"

text \<open>The light at one byte of the array of each section decides whether a neighbour is visited.\<close>

primrec edge_lit :: "nat \<Rightarrow> nat list \<Rightarrow> Chunk \<Rightarrow> bool option" where
  "edge_lit idx [] c = Some False"
| "edge_lit idx (sy # sys) c = do {
     slot \<leftarrow> nth_opt (ck_sections c) sy;
     (case slot of
        None \<Rightarrow> edge_lit idx sys c
      | Some s \<Rightarrow> do {
          byte \<leftarrow> nth_opt (sec_light s) idx;
          if byte AND 0x0F > 3 \<or> drop_bit 4 byte > 3 then Some True else edge_lit idx sys c
        })
   }"

primrec lit_neighbours :: "ChunkPos \<Rightarrow> ChunkPos set \<Rightarrow> (i32 \<times> i32 \<times> nat \<times> nat) list \<Rightarrow> Chunk \<Rightarrow> ChunkPos list option" where
  "lit_neighbours cp visited [] c = Some []"
| "lit_neighbours cp visited (n # ns) c =
     (case n of (dcx, dcz, edge_x, edge_z) \<Rightarrow>
        let ncp = chunk_pos (cp_x cp + dcx) (cp_z cp + dcz) in
        if ncp \<in> visited then lit_neighbours cp visited ns c
        else do {
          has_light \<leftarrow> edge_lit (edge_z * 16 + edge_x) [0..<24] c;
          rest \<leftarrow> lit_neighbours cp visited ns c;
          Some (if has_light then ncp # rest else rest)
        })"

definition chunk_edges :: "(i32 \<times> i32 \<times> nat \<times> nat) list" where
  "chunk_edges = [(- 1, 0, 0, 8), (1, 0, 15, 8), (0, - 1, 8, 0), (0, 1, 8, 15)]"

primrec propagate_each :: "ChunkPos list \<Rightarrow> world \<Rightarrow> world option" where
  "propagate_each [] w = Some w"
| "propagate_each (ncp # ncps) w = Option.bind (modify_chunk propagate_block_light ncp w) (propagate_each ncps)"

lemma lit_neighbours_length: "lit_neighbours cp v ns c = Some ncps \<Longrightarrow> length ncps \<le> length ns"
  by (induction ns arbitrary: ncps) (force simp: Let_def split: prod.splits if_splits Option.bind_splits)+

text \<open>The chunks still to visit, with their depth below 3: a chunk of depth \<open>d\<close> queues at most four of
  depth \<open>d + 1\<close>, so the sum of \<open>5 ^ (3 - d)\<close> falls.\<close>

function across_loop :: "(ChunkPos \<times> nat) list \<Rightarrow> ChunkPos set \<Rightarrow> world \<Rightarrow> world option" where
  "across_loop [] visited w = Some w"
| "across_loop ((cp, depth) # pending) visited w =
     (if depth \<ge> 3 then across_loop pending visited w
      else
        (case modify_chunk propagate_block_light cp w of
           None \<Rightarrow> None
         | Some w \<Rightarrow>
             (case (case map_of (w_chunks w) cp of
                      None \<Rightarrow> Some []
                    | Some c \<Rightarrow> lit_neighbours cp visited chunk_edges c) of
                None \<Rightarrow> None
              | Some ncps \<Rightarrow>
                  (case propagate_each ncps w of
                     None \<Rightarrow> None
                   | Some w \<Rightarrow>
                       across_loop (pending @ map (\<lambda>ncp. (ncp, depth + 1)) ncps) (visited \<union> set ncps) w))))"
  by pat_completeness auto
termination
proof (relation "measure (\<lambda>(pending, visited, w). \<Sum>(cp, d) \<leftarrow> pending. 5 ^ (3 - d))", goal_cases)
  case (3 cp depth pending visited w w1 ncps w2)
  have "length ncps \<le> 4"
    using 3(3) lit_neighbours_length [of cp visited chunk_edges]
    by (force simp: chunk_edges_def split: option.splits)
  moreover have "(\<Sum>(cp, d) \<leftarrow> map (\<lambda>ncp. (ncp, Suc depth)) ncps. (5 :: nat) ^ (3 - d)) = length ncps * 5 ^ (3 - Suc depth)"
    by (simp add: o_def sum_list_triv)
  moreover have "(5 :: nat) ^ (3 - depth) = 5 * 5 ^ (3 - Suc depth)"
    using 3(1) by (simp add: Suc_diff_Suc flip: power_Suc)
  ultimately show ?case by simp
qed auto

definition propagate_lighting_across_chunks :: "ChunkPos \<Rightarrow> world \<Rightarrow> world option" where
  "propagate_lighting_across_chunks start_cp w = across_loop [(start_cp, 0)] {start_cp} w"

end
