(* ===== verification/Inventory.thy ===== *)
theory Inventory
  imports Blocks
begin

text \<open>
  \<open>mc-player/src/inventory.rs\<close>: item stacks, the player inventory of 36 slots, an offhand slot and
  four armour slots, and its byte format for the player database. The \<open>u32\<close> counters of the
  loops only decrease from the argument, so they are natural numbers below \<open>2^32\<close>; the count
  of a stack is the \<open>u8\<close> it is. Armour points are small whole numbers, exact in an \<open>f32\<close>,
  and are given as such.

  Shown: adding and removing items conserves their number and touches no other item; what is
  left over is left over only when the inventory is full; the byte format gives the inventory
  back except for a plain item in the very last slot, the boots, which is always lost.
\<close>

section \<open>Item stacks\<close>

definition max_durability :: "u32 \<Rightarrow> u16 option" where
  "max_durability i =
     (if i \<in> {781, 782, 783, 784, 804} then Some 59
      else if i \<in> {785, 786, 787, 788, 805} then Some 131
      else if i \<in> {780, 768, 769, 770, 806} then Some 250
      else if 789 \<le> i \<and> i \<le> 793 then Some 1561
      else if i = 819 then Some 165 else if i = 820 then Some 240
      else if i = 821 then Some 225 else if i = 822 then Some 195
      else if i = 823 then Some 363 else if i = 824 then Some 528
      else if i = 825 then Some 495 else if i = 826 then Some 429
      else if i = 773 then Some 384 else if i = 844 then Some 64
      else if i = 845 then Some 238 else if i = 995 then Some 64
      else None)"

definition stack_size :: "u32 \<Rightarrow> u8" where
  "stack_size i =
     (if max_durability i \<noteq> None then 1
      else if 790 \<le> i \<and> i \<le> 797 then 1
      else if 870 \<le> i \<and> i \<le> 874 then 16
      else if 909 \<le> i \<and> i \<le> 926 then 16
      else if 683 \<le> i \<and> i \<le> 733 then 1
      else if 969 \<le> i \<and> i \<le> 984 then 1
      else if i = 879 then 16
      else if i = 880 then 16
      else if i = 890 then 16
      else if i = 887 then 64
      else if i = 888 then 64
      else 64)"

definition armor_points_for_item :: "u32 \<Rightarrow> nat" where
  "armor_points_for_item i =
     (if i = 811 then 1 else if i = 812 then 3 else if i = 813 then 2 else if i = 814 then 1
      else if i = 815 then 2 else if i = 816 then 5 else if i = 817 then 5 else if i = 818 then 2
      else if i = 819 then 3 else if i = 820 then 6 else if i = 821 then 5 else if i = 822 then 2
      else if i = 823 then 3 else if i = 824 then 8 else if i = 825 then 6 else if i = 826 then 3
      else if i = 827 then 2 else if i = 828 then 6 else if i = 829 then 5 else if i = 830 then 2
      else if i = 831 then 3 else if i = 832 then 8 else if i = 833 then 6 else if i = 834 then 3
      else if i = 842 then 3
      else 0)"

definition armor_toughness_for_item :: "u32 \<Rightarrow> nat" where
  "armor_toughness_for_item i =
     (if 831 \<le> i \<and> i \<le> 834 then 3 else if 823 \<le> i \<and> i \<le> 826 then 2 else 0)"

record ItemStack =
  it_item :: BlockState
  it_count :: u8
  it_max :: u8
  it_nbt :: "bytes option"
  it_durability :: "u16 option"

definition new_stack :: "BlockState \<Rightarrow> u8 \<Rightarrow> ItemStack" where
  "new_stack item count =
     (let dur = max_durability (bs_id item);
          m = (if dur \<noteq> None then 1 else stack_size (bs_id item))
      in \<lparr>it_item = item, it_count = count, it_max = m, it_nbt = None, it_durability = dur\<rparr>)"

section \<open>The inventory\<close>

record Inventory =
  inv_items :: "ItemStack option list"
  inv_offhand :: "ItemStack option"
  inv_armor :: "ItemStack option list"
  inv_selected :: u8

definition new_inventory :: Inventory where
  "new_inventory = \<lparr>inv_items = replicate 36 None, inv_offhand = None, inv_armor = replicate 4 None,
     inv_selected = 0\<rparr>"

text \<open>The first loop of \<open>add_item\<close>: onto stacks of the same item below 64.\<close>

fun stack_onto :: "BlockState \<Rightarrow> nat \<Rightarrow> ItemStack option list \<Rightarrow> ItemStack option list \<times> nat" where
  "stack_onto item remaining [] = ([], remaining)"
| "stack_onto item remaining (None # slots) =
     (let (slots, remaining) = stack_onto item remaining slots in (None # slots, remaining))"
| "stack_onto item remaining (Some slot # slots) =
     (if remaining = 0 then (Some slot # slots, remaining)
      else if it_item slot = item \<and> unat (it_count slot) < 64 then
        let space = 64 - unat (it_count slot);
            add = min remaining space;
            slot = slot\<lparr>it_count := it_count slot + word_of_nat add\<rparr>;
            (slots, remaining) = stack_onto item (remaining - add) slots
        in (Some slot # slots, remaining)
      else let (slots, remaining) = stack_onto item remaining slots in (Some slot # slots, remaining))"

text \<open>The second loop: into empty slots.\<close>

fun fill_empty :: "BlockState \<Rightarrow> nat \<Rightarrow> ItemStack option list \<Rightarrow> ItemStack option list \<times> nat" where
  "fill_empty item remaining [] = ([], remaining)"
| "fill_empty item remaining (slot # slots) =
     (if remaining = 0 then (slot # slots, remaining)
      else if slot = None then
        let add = min remaining 64;
            (slots, remaining) = fill_empty item (remaining - add) slots
        in (Some (new_stack item (word_of_nat add)) # slots, remaining)
      else let (slots, remaining) = fill_empty item remaining slots in (slot # slots, remaining))"

definition add_item :: "BlockState \<Rightarrow> nat \<Rightarrow> Inventory \<Rightarrow> Inventory \<times> nat" where
  "add_item item count bag =
     (let (items, remaining) = stack_onto item count (inv_items bag);
          (items, remaining) = (if remaining > 0 then fill_empty item remaining items else (items, remaining))
      in (bag\<lparr>inv_items := items\<rparr>, remaining))"

definition slot_count :: "BlockState \<Rightarrow> ItemStack option \<Rightarrow> nat" where
  "slot_count item slot = (case slot of Some st \<Rightarrow> if it_item st = item then unat (it_count st) else 0 | None \<Rightarrow> 0)"

definition count_item :: "BlockState \<Rightarrow> Inventory \<Rightarrow> nat" where
  "count_item item bag = sum_list (map (slot_count item) (inv_items bag))"

fun take_from :: "BlockState \<Rightarrow> nat \<Rightarrow> ItemStack option list \<Rightarrow> ItemStack option list \<times> nat" where
  "take_from item remaining [] = ([], remaining)"
| "take_from item remaining (None # slots) =
     (let (slots, remaining) = take_from item remaining slots in (None # slots, remaining))"
| "take_from item remaining (Some slot # slots) =
     (if it_item slot = item then
        let k = min remaining (unat (it_count slot));
            slot = slot\<lparr>it_count := it_count slot - word_of_nat k\<rparr>;
            remaining = remaining - k
        in if remaining = 0 then (Some slot # slots, remaining)
           else let (slots, remaining) = take_from item remaining slots in (Some slot # slots, remaining)
      else let (slots, remaining) = take_from item remaining slots in (Some slot # slots, remaining))"

definition clear_empty :: "ItemStack option \<Rightarrow> ItemStack option" where
  "clear_empty slot = (case slot of Some st \<Rightarrow> if it_count st = 0 then None else Some st | None \<Rightarrow> None)"

definition remove_item :: "BlockState \<Rightarrow> nat \<Rightarrow> Inventory \<Rightarrow> Inventory \<times> nat" where
  "remove_item item count bag =
     (let (items, remaining) = take_from item count (inv_items bag)
      in (bag\<lparr>inv_items := map clear_empty items\<rparr>, count - remaining))"

definition total_armor_points :: "Inventory \<Rightarrow> nat" where
  "total_armor_points bag =
     sum_list (map (\<lambda>s. case s of Some st \<Rightarrow> armor_points_for_item (bs_id (it_item st)) | None \<Rightarrow> 0) (inv_armor bag))"

definition total_armor_toughness :: "Inventory \<Rightarrow> nat" where
  "total_armor_toughness bag =
     sum_list (map (\<lambda>s. case s of Some st \<Rightarrow> armor_toughness_for_item (bs_id (it_item st)) | None \<Rightarrow> 0) (inv_armor bag))"

section \<open>The byte format\<close>

definition write_slot :: "ItemStack option \<Rightarrow> bytes" where
  "write_slot slot =
     (case slot of
        Some st \<Rightarrow>
          [1] @ le_bytes 4 (bs_id (it_item st)) @ [it_count st]
          @ (case it_nbt st of
               Some nbt \<Rightarrow> le_bytes 2 (word_of_nat (length nbt) :: u16) @ nbt
             | None \<Rightarrow> le_bytes 2 (0 :: u16))
          @ (case it_durability st of Some d \<Rightarrow> le_bytes 2 d | None \<Rightarrow> le_bytes 2 (0 :: u16))
      | None \<Rightarrow> [0])"

definition inv_serialize :: "Inventory \<Rightarrow> bytes" where
  "inv_serialize bag =
     [2, 41] @ concat (map write_slot (inv_items bag)) @ write_slot (inv_offhand bag)
     @ concat (map write_slot (inv_armor bag))"

definition read_slot :: "bytes \<Rightarrow> nat \<Rightarrow> ItemStack option \<times> nat" where
  "read_slot data pos =
     (if pos \<ge> length data then (None, pos)
      else
        let present = data ! pos; pos = pos + 1 in
        if present \<noteq> 0 \<and> pos + 10 \<le> length data then
          let i = (from_le (take 4 (drop pos data)) :: u32); pos = pos + 4;
              cnt = data ! pos; pos = pos + 1;
              nbt_len = unat (from_le (take 2 (drop pos data)) :: u16); pos = pos + 2;
              (nbt, pos) =
                (if nbt_len > 0 \<and> pos + nbt_len \<le> length data
                 then (Some (take nbt_len (drop pos data)), pos + nbt_len) else (None, pos));
              (dur, pos) =
                (if pos + 2 \<le> length data
                 then let d = (from_le (take 2 (drop pos data)) :: u16)
                      in (if d > 0 then Some d else None, pos + 2)
                 else (None, pos));
              st = new_stack (block i) cnt
          in (Some (st\<lparr>it_nbt := nbt,
                      it_durability := (case dur of Some d \<Rightarrow> Some d | None \<Rightarrow> max_durability i)\<rparr>), pos)
        else (None, pos))"

primrec read_slots :: "nat \<Rightarrow> nat \<Rightarrow> bytes \<Rightarrow> nat \<Rightarrow> ItemStack option list \<Rightarrow> ItemStack option list \<times> nat" where
  "read_slots 0 i data pos slots = (slots, pos)"
| "read_slots (Suc n) i data pos slots =
     (if pos \<ge> length data then (slots, pos)
      else let (s, pos) = read_slot data pos in read_slots n (i + 1) data pos (slots[i := s]))"

definition inv_deserialize :: "bytes \<Rightarrow> Inventory option" where
  "inv_deserialize data =
     (if data = [] then None
      else
        let version = data ! 0 in
        if version = 2 \<and> 1 \<ge> length data then None
        else
          let (count, pos) = (if version = 2 then (unat (data ! 1), 2) else (unat (data ! 0), 1));
              bag = new_inventory;
              (items, pos) = read_slots (min count 36) 0 data pos (inv_items bag);
              (offhand, pos) =
                (if version = 2 \<and> count \<ge> 37 \<and> pos < length data then read_slot data pos
                 else (inv_offhand bag, pos));
              (armor, pos) =
                (if version = 2 \<and> count \<ge> 41 then read_slots 4 0 data pos (inv_armor bag)
                 else (inv_armor bag, pos))
          in Some (bag\<lparr>inv_items := items, inv_offhand := offhand, inv_armor := armor\<rparr>))"

section \<open>Conservation\<close>

lemma unat_plus_nat: "unat (w :: u8) + n < 256 \<Longrightarrow> unat (w + word_of_nat n) = unat w + n"
  by (simp add: unat_word_ariths unat_of_nat)

lemma unat_minus_nat: "n \<le> unat (w :: u8) \<Longrightarrow> unat (w - word_of_nat n) = unat w - n"
proof -
  assume n: "n \<le> unat w"
  then have "n < 256"
    using unsigned_less [where 'a = nat, of w] by simp
  then have "unat (word_of_nat n :: u8) = n"
    by (simp add: unat_of_nat)
  then show ?thesis
    using n by (simp add: unat_sub word_le_nat_alt)
qed

lemma unat_new_stack: "n \<le> 64 \<Longrightarrow> unat (word_of_nat n :: u8) = n"
  by (simp add: unat_of_nat)

lemma new_stack_simps [simp]:
  "it_item (new_stack item n) = item" "it_count (new_stack item n) = n"
  by (simp_all add: new_stack_def Let_def)

definition slots_count :: "BlockState \<Rightarrow> ItemStack option list \<Rightarrow> nat" where
  "slots_count item slots = sum_list (map (slot_count item) slots)"

lemma slots_count_simps [simp]:
  "slots_count item [] = 0"
  "slots_count item (s # ss) = slot_count item s + slots_count item ss"
  by (simp_all add: slots_count_def)

lemma slot_count_simps [simp]:
  "slot_count item None = 0"
  "slot_count item (Some st) = (if it_item st = item then unat (it_count st) else 0)"
  by (simp_all add: slot_count_def)

lemma stack_onto_count:
  "stack_onto item n slots = (slots', left) \<Longrightarrow>
   slots_count item slots' + left = slots_count item slots + n
   \<and> (\<forall>other. other \<noteq> item \<longrightarrow> slots_count other slots' = slots_count other slots)
   \<and> left \<le> n \<and> length slots' = length slots
   \<and> (0 < left \<longrightarrow> (\<forall>st. Some st \<in> set slots' \<and> it_item st = item \<longrightarrow> 64 \<le> unat (it_count st)))"
proof (induction item n slots arbitrary: slots' left rule: stack_onto.induct)
  case (2 item n slots)
  then show ?case
    by (auto split: prod.splits)
next
  case (3 item n slot slots)
  show ?case
  proof (cases "n = 0")
    case True
    then show ?thesis
      using "3.prems" by auto
  next
    case n: False
    show ?thesis
    proof (cases "it_item slot = item \<and> unat (it_count slot) < 64")
      case True
      let ?add = "min n (64 - unat (it_count slot))"
      obtain ss l where rest: "stack_onto item (n - ?add) slots = (ss, l)"
        by (cases "stack_onto item (n - ?add) slots")
      have c: "unat (it_count slot + word_of_nat ?add) = unat (it_count slot) + ?add"
        using True by (intro unat_plus_nat) linarith
      have eq: "slots' = Some (slot\<lparr>it_count := it_count slot + word_of_nat ?add\<rparr>) # ss" "left = l"
        using "3.prems" n True rest by (auto simp: Let_def)
      note IH = "3.IH"(1) [OF n True refl refl refl rest]
      have "l \<le> n - ?add"
        using IH by blast
      then have "64 \<le> unat (it_count slot) + ?add" if "0 < l"
        using that by linarith
      then show ?thesis
        using IH c True by (auto simp: eq split: if_splits)
    next
      case False
      obtain ss l where rest: "stack_onto item n slots = (ss, l)"
        by (cases "stack_onto item n slots")
      have eq: "slots' = Some slot # ss" "left = l"
        using "3.prems" n False rest by auto
      show ?thesis
        using "3.IH"(2) [OF n False rest] False by (auto simp: eq)
    qed
  qed
qed simp

lemma fill_empty_count:
  "fill_empty item n slots = (slots', left) \<Longrightarrow>
   slots_count item slots' + left = slots_count item slots + n
   \<and> (\<forall>other. other \<noteq> item \<longrightarrow> slots_count other slots' = slots_count other slots)
   \<and> left \<le> n \<and> length slots' = length slots
   \<and> (0 < left \<longrightarrow> None \<notin> set slots')
   \<and> (\<forall>st. Some st \<in> set slots' \<longrightarrow> Some st \<in> set slots
        \<or> (\<exists>k. st = new_stack item k \<and> (0 < left \<longrightarrow> k = 64)))"
proof (induction item n slots arbitrary: slots' left rule: fill_empty.induct)
  case (2 item n slot slots)
  show ?case
  proof (cases "n = 0")
    case True
    then show ?thesis
      using "2.prems" by auto
  next
    case n: False
    show ?thesis
    proof (cases "slot = None")
      case True
      let ?add = "min n 64"
      obtain ss l where rest: "fill_empty item (n - ?add) slots = (ss, l)"
        by (cases "fill_empty item (n - ?add) slots")
      have eq: "slots' = Some (new_stack item (word_of_nat ?add)) # ss" "left = l"
        using "2.prems" n True rest by (auto simp: Let_def)
      note IH = "2.IH"(1) [OF n True refl rest]
      have c: "unat (word_of_nat ?add :: u8) = ?add"
        by (rule unat_new_stack) simp
      have "l \<le> n - ?add"
        using IH by blast
      then have "?add = 64" if "0 < l"
        using that by linarith
      then have "word_of_nat ?add = (64 :: u8)" if "0 < l"
        using that by simp
      then show ?thesis
        using IH c True by (auto simp: eq)
    next
      case False
      obtain ss l where rest: "fill_empty item n slots = (ss, l)"
        by (cases "fill_empty item n slots")
      have eq: "slots' = slot # ss" "left = l"
        using "2.prems" n False rest by auto
      show ?thesis
        using "2.IH"(2) [OF n False rest] False by (auto simp: eq)
    qed
  qed
qed simp

lemma take_from_count:
  "take_from item n slots = (slots', left) \<Longrightarrow>
   slots_count item slots' + (n - left) = slots_count item slots
   \<and> (\<forall>other. other \<noteq> item \<longrightarrow> slots_count other slots' = slots_count other slots)
   \<and> left = n - slots_count item slots \<and> length slots' = length slots"
proof (induction item n slots arbitrary: slots' left rule: take_from.induct)
  case (2 item n slots)
  then show ?case
    by (auto split: prod.splits)
next
  case (3 item n slot slots)
  show ?case
  proof (cases "it_item slot = item")
    case True
    let ?k = "min n (unat (it_count slot))"
    have c: "unat (it_count slot - word_of_nat ?k) = unat (it_count slot) - ?k"
      by (rule unat_minus_nat) simp
    show ?thesis
    proof (cases "n - ?k = 0")
      case zero: True
      then have "slots' = Some (slot\<lparr>it_count := it_count slot - word_of_nat ?k\<rparr>) # slots" "left = 0"
        using "3.prems" True by (auto simp: Let_def)
      then show ?thesis
        using c zero True by auto
    next
      case False
      obtain ss l where rest: "take_from item (n - ?k) slots = (ss, l)"
        by (cases "take_from item (n - ?k) slots")
      have "slots' = Some (slot\<lparr>it_count := it_count slot - word_of_nat ?k\<rparr>) # ss" "left = l"
        using "3.prems" True False rest by (auto simp: Let_def)
      then show ?thesis
        using "3.IH"(1) [OF True refl refl refl False rest] c True False by auto
    qed
  next
    case False
    obtain ss l where rest: "take_from item n slots = (ss, l)"
      by (cases "take_from item n slots")
    have "slots' = Some slot # ss" "left = l"
      using "3.prems" False rest by auto
    then show ?thesis
      using "3.IH"(2) [OF False rest] False by auto
  qed
qed simp

lemma slots_count_clear [simp]: "slots_count item (map clear_empty slots) = slots_count item slots"
  by (induction slots) (auto simp: clear_empty_def split: option.split)

lemma add_item_conserves_facts:
  assumes "add_item item n bag = (bag', left)"
  shows "count_item item bag' + left = count_item item bag + n"
    and "other \<noteq> item \<Longrightarrow> count_item other bag' = count_item other bag"
    and "length (inv_items bag') = length (inv_items bag)"
    and "0 < left \<Longrightarrow> None \<notin> set (inv_items bag') \<and>
      (\<forall>st. Some st \<in> set (inv_items bag') \<and> it_item st = item \<longrightarrow> 64 \<le> unat (it_count st))"
proof -
  have cnt: "count_item i b = slots_count i (inv_items b)" for i b
    by (simp add: count_item_def slots_count_def)
  obtain ss l where s: "stack_onto item n (inv_items bag) = (ss, l)"
    by (cases "stack_onto item n (inv_items bag)")
  note S = stack_onto_count [OF s]
  obtain fs r where f: "(if l > 0 then fill_empty item l ss else (ss, l)) = (fs, r)"
    by (cases "if l > 0 then fill_empty item l ss else (ss, l)")
  have r: "bag' = bag\<lparr>inv_items := fs\<rparr>" "left = r"
    using assms s f by (auto simp: add_item_def)
  have F: "slots_count item fs + r = slots_count item ss + l"
    "\<forall>other. other \<noteq> item \<longrightarrow> slots_count other fs = slots_count other ss" "length fs = length ss"
    using f fill_empty_count [of item l ss fs r] by (auto split: if_splits)
  show "count_item item bag' + left = count_item item bag + n"
    "other \<noteq> item \<Longrightarrow> count_item other bag' = count_item other bag"
    "length (inv_items bag') = length (inv_items bag)"
    using S F r by (auto simp: cnt)
  assume "0 < left"
  then have pos: "0 < r" "0 < l" and fe: "fill_empty item l ss = (fs, r)"
    using f r by (auto split: if_splits)
  note E = fill_empty_count [OF fe]
  have "64 \<le> unat (it_count st)" if st: "Some st \<in> set fs" "it_item st = item" for st
  proof -
    consider "Some st \<in> set ss" | "st = new_stack item 64"
      using E pos st(1) by blast
    then show ?thesis
      using S pos st(2) by cases auto
  qed
  then show "None \<notin> set (inv_items bag') \<and>
      (\<forall>st. Some st \<in> set (inv_items bag') \<and> it_item st = item \<longrightarrow> 64 \<le> unat (it_count st))"
    using E pos r by auto
qed

text \<open>Adding items conserves them: what the inventory gains of the item and what is returned as
  left over add up to what was given, no other item's count changes, no slot is lost, and items are
  left over only if no slot is empty and no stack of the item is below 64.\<close>

theorem add_item_conserves:
  assumes "add_item item n bag = (bag', left)"
  shows "count_item item bag' + left = count_item item bag + n
    \<and> (other = item \<or> count_item other bag' = count_item other bag)
    \<and> length (inv_items bag') = length (inv_items bag)
    \<and> (0 < left \<longrightarrow> None \<notin> set (inv_items bag') \<and>
      (\<forall>st. Some st \<in> set (inv_items bag') \<and> it_item st = item \<longrightarrow> 64 \<le> unat (it_count st)))"
  using add_item_conserves_facts [OF assms] by blast

theorem add_item_conserves_witness:
  "count_item (block 1) (fst (add_item (block 1) 80 new_inventory)) + snd (add_item (block 1) 80 new_inventory) = 80"
proof -
  have "count_item (block 1) new_inventory = 0"
    by (simp add: count_item_def new_inventory_def slot_count_def)
  then show ?thesis
    using add_item_conserves [of "block 1" 80 new_inventory
        "fst (add_item (block 1) 80 new_inventory)" "snd (add_item (block 1) 80 new_inventory)"]
    by simp
qed

text \<open>Removing items conserves them: exactly the number returned is gone, it is the smaller of
  what was asked and what was there, and no other item's count changes.\<close>

theorem remove_item_conserves:
  "count_item item (fst (remove_item item n bag)) + snd (remove_item item n bag) = count_item item bag
   \<and> snd (remove_item item n bag) = min n (count_item item bag)
   \<and> (other = item \<or> count_item other (fst (remove_item item n bag)) = count_item other bag)"
proof -
  have cnt: "count_item i b = slots_count i (inv_items b)" for i b
    by (simp add: count_item_def slots_count_def)
  obtain ss l where s: "take_from item n (inv_items bag) = (ss, l)"
    by (cases "take_from item n (inv_items bag)")
  show ?thesis
    using take_from_count [OF s] by (auto simp: remove_item_def s cnt)
qed

section \<open>Saving and loading\<close>

text \<open>A stack as it comes back: without the property bits of its item, without an empty NBT, and
  with a full durability where there was none.\<close>

definition restored :: "ItemStack \<Rightarrow> ItemStack" where
  "restored st =
     (new_stack (block (bs_id (it_item st))) (it_count st))
       \<lparr>it_nbt := (if it_nbt st = Some [] then None else it_nbt st),
        it_durability := (case it_durability st of
            Some d \<Rightarrow> if d > 0 then Some d else max_durability (bs_id (it_item st))
          | None \<Rightarrow> max_durability (bs_id (it_item st)))\<rparr>"

definition nbt_fits :: "ItemStack option \<Rightarrow> bool" where
  "nbt_fits slot \<longleftrightarrow> (\<forall>st nbt. slot = Some st \<and> it_nbt st = Some nbt \<longrightarrow> length nbt < 2 ^ 16)"

definition slot_nbt :: "ItemStack \<Rightarrow> bytes" where
  "slot_nbt st = (case it_nbt st of Some nbt \<Rightarrow> nbt | None \<Rightarrow> [])"

definition slot_dur :: "ItemStack \<Rightarrow> u16" where
  "slot_dur st = (case it_durability st of Some d \<Rightarrow> d | None \<Rightarrow> 0)"

lemma write_slot_Some:
  "write_slot (Some st) = [1] @ (le_bytes 4 (bs_id (it_item st)) @ ([it_count st]
     @ (le_bytes 2 (word_of_nat (length (slot_nbt st)) :: u16) @ (slot_nbt st @ le_bytes 2 (slot_dur st)))))"
  by (simp add: write_slot_def slot_nbt_def slot_dur_def split: option.split)

lemma write_slot_nonempty [simp]: "write_slot slot \<noteq> []" "0 < length (write_slot slot)"
  by (simp_all add: write_slot_def split: option.split)

text \<open>A plain item at the very end of the data is not read: the reader asks for one byte more than
  the item has.\<close>

definition readable :: "ItemStack option \<Rightarrow> bytes \<Rightarrow> bool" where
  "readable slot rest \<longleftrightarrow> (case slot of Some st \<Rightarrow> rest \<noteq> [] \<or> slot_nbt st \<noteq> [] | None \<Rightarrow> True)"

lemma read_slot_empty:
  assumes "drop pos data = write_slot None @ rest"
  shows "read_slot data pos = (None, pos + length (write_slot None))"
proof -
  have "drop pos data = 0 # rest"
    using assms by (simp add: write_slot_def)
  then have "pos < length data" "data ! pos = 0"
    by (metis drop_all list.distinct(1) not_le, metis hd_drop_conv_nth list.sel(1) drop_all list.distinct(1) not_le)
  then show ?thesis
    by (simp add: read_slot_def write_slot_def)
qed

lemma drop_Cons_nth: "drop pos data = x # rest \<Longrightarrow> pos < length data \<and> data ! pos = x"
  by (metis drop_all hd_drop_conv_nth list.distinct(1) list.sel(1) not_le)

lemma read_slot_written:
  assumes d: "drop pos data = write_slot slot @ rest" and fit: "nbt_fits slot" and r: "readable slot rest"
  shows "read_slot data pos = (map_option restored slot, pos + length (write_slot slot))"
proof (cases slot)
  case None
  then show ?thesis
    using read_slot_empty d by simp
next
  case (Some st)
  let ?i = "bs_id (it_item st)"
  have d1: "drop pos data = [1] @ (le_bytes 4 ?i @ ([it_count st]
     @ (le_bytes 2 (word_of_nat (length (slot_nbt st)) :: u16) @ (slot_nbt st @ (le_bytes 2 (slot_dur st) @ rest)))))"
    using d by (simp add: Some write_slot_Some)
  note d2 = drop_prefix [OF d1, unfolded list.size add_0 One_nat_def [symmetric]]
  note d3 = drop_prefix [OF d2, unfolded length_le_bytes]
  note d4 = drop_prefix [OF d3, unfolded list.size add_0 One_nat_def [symmetric]]
  note d5 = drop_prefix [OF d4, unfolded length_le_bytes]
  note d6 = drop_prefix [OF d5]
  have nb: "length (slot_nbt st) < 2 ^ 16"
    using fit by (auto simp: nbt_fits_def Some slot_nbt_def split: option.split)
  have len: "length data = pos + 10 + length (slot_nbt st) + length rest"
  proof -
    have "length data - pos = 10 + length (slot_nbt st) + length rest"
      using arg_cong [OF d1, of length] unfolding length_drop by simp
    then show ?thesis by simp
  qed
  have room: "\<not> length data \<le> pos" "pos + 1 + 10 \<le> length data"
    using len r by (cases rest; cases "slot_nbt st"; simp add: readable_def Some)+
  have head: "data ! pos = 1" "data ! (pos + 1 + 4) = it_count st"
    using d1 d3 drop_Cons_nth by fastforce+
  have i: "(from_le (take 4 (drop (pos + 1) data)) :: u32) = ?i"
    unfolding d2 by simp
  have n: "unat (from_le (take 2 (drop (pos + 1 + 4 + 1) data)) :: u16) = length (slot_nbt st)"
    unfolding d4 using nb by (simp add: unat_of_nat)
  have nbt: "take (length (slot_nbt st)) (drop (pos + 1 + 4 + 1 + 2) data) = slot_nbt st"
    unfolding d5 by simp
  have dur: "(from_le (take 2 (drop (pos + 1 + 4 + 1 + 2 + length (slot_nbt st)) data)) :: u16) = slot_dur st"
    unfolding d6 by simp
  have fits: "pos + 1 + 4 + 1 + 2 + length (slot_nbt st) \<le> length data"
    "pos + 1 + 4 + 1 + 2 + length (slot_nbt st) + 2 \<le> length data"
    using len by simp_all
  have wlen: "length (write_slot (Some st)) = 10 + length (slot_nbt st)"
    by (simp add: write_slot_Some)
  have rest_eq: "restored st = (new_stack (block ?i) (it_count st))
     \<lparr>it_nbt := (if 0 < length (slot_nbt st) then Some (slot_nbt st) else None),
      it_durability := (case if slot_dur st > 0 then Some (slot_dur st) else None of
          Some d \<Rightarrow> Some d | None \<Rightarrow> max_durability ?i)\<rparr>"
    by (auto simp: restored_def slot_nbt_def slot_dur_def split: option.splits)
  show ?thesis
  proof (cases "slot_nbt st = []")
    case True
    then show ?thesis
      using room head i n dur fits wlen rest_eq by (simp add: Some read_slot_def Let_def)
  next
    case False
    then show ?thesis
      using room head i n nbt dur fits wlen rest_eq by (simp add: Some read_slot_def Let_def)
  qed
qed

lemma read_slots_written:
  "drop pos data = concat (map write_slot ss) @ rest \<Longrightarrow> i + length ss \<le> length slots \<Longrightarrow>
   (\<And>s. s \<in> set ss \<Longrightarrow> nbt_fits s) \<Longrightarrow> rest \<noteq> [] \<or> ss = [] \<or> readable (last ss) [] \<Longrightarrow>
   read_slots (length ss) i data pos slots
     = (take i slots @ map (map_option restored) ss @ drop (i + length ss) slots,
        pos + length (concat (map write_slot ss)))"
proof (induction ss arbitrary: pos i slots)
  case (Cons s ss)
  have d: "drop pos data = write_slot s @ (concat (map write_slot ss) @ rest)"
    using Cons.prems(1) by simp
  have "readable s (concat (map write_slot ss) @ rest)"
    using Cons.prems(4) by (cases ss) (auto simp: readable_def split: option.split)
  with Cons.prems(3) [of s] have r: "read_slot data pos = (map_option restored s, pos + length (write_slot s))"
    by (intro read_slot_written [OF d]) simp_all
  have room: "\<not> length data \<le> pos"
    using drop_room [OF d write_slot_nonempty(2)] write_slot_nonempty(2) [of s] by linarith
  have last: "rest \<noteq> [] \<or> ss = [] \<or> readable (last ss) []"
    using Cons.prems(4) by (auto split: if_splits)
  have IH: "read_slots (length ss) (i + 1) data (pos + length (write_slot s)) (slots[i := map_option restored s])
     = (take (i + 1) (slots[i := map_option restored s]) @ map (map_option restored) ss
          @ drop (i + 1 + length ss) (slots[i := map_option restored s]),
        pos + length (write_slot s) + length (concat (map write_slot ss)))"
    using Cons.prems(2,3) last by (intro Cons.IH drop_prefix [OF d]) simp_all
  have "take (i + 1) (slots[i := map_option restored s]) = take i slots @ [map_option restored s]"
    using Cons.prems(2) by (simp add: take_Suc_conv_app_nth)
  then show ?case
    using r room IH by simp
qed simp

text \<open>The inventories the code builds.\<close>

definition inventory_ok :: "Inventory \<Rightarrow> bool" where
  "inventory_ok bag \<longleftrightarrow> length (inv_items bag) = 36 \<and> length (inv_armor bag) = 4
     \<and> (\<forall>s \<in> set (inv_items bag) \<union> {inv_offhand bag} \<union> set (inv_armor bag). nbt_fits s)"

definition restored_inventory :: "Inventory \<Rightarrow> Inventory" where
  "restored_inventory bag =
     \<lparr>inv_items = map (map_option restored) (inv_items bag),
      inv_offhand = map_option restored (inv_offhand bag),
      inv_armor = map (map_option restored) (inv_armor bag), inv_selected = 0\<rparr>"

text \<open>Loading up to the armour slots.\<close>

lemma deserialize_upto_armor:
  assumes ok: "inventory_ok bag"
  obtains pos where
    "drop pos (inv_serialize bag) = concat (map write_slot (inv_armor bag))"
    and "inv_deserialize (inv_serialize bag)
      = Some (restored_inventory bag\<lparr>inv_armor := fst (read_slots 4 0 (inv_serialize bag) pos (replicate 4 None))\<rparr>)"
proof -
  define data where "data = inv_serialize bag"
  let ?I = "concat (map write_slot (inv_items bag))" and ?O = "write_slot (inv_offhand bag)"
    and ?A = "concat (map write_slot (inv_armor bag))"
  have d1: "drop 2 data = ?I @ (?O @ ?A)"
    by (simp add: data_def inv_serialize_def)
  note d2 = drop_prefix [OF d1]
  note d3 = drop_prefix [OF d2]
  have len: "length (inv_items bag) = 36" "length (inv_armor bag) = 4"
    using ok by (simp_all add: inventory_ok_def)
  have A: "?A \<noteq> []"
    using len by (cases "inv_armor bag") auto
  have items: "read_slots 36 0 data 2 (replicate 36 None)
      = (map (map_option restored) (inv_items bag), 2 + length ?I)"
    using read_slots_written [OF d1, of 0 "replicate 36 None"] ok len
    by (auto simp: inventory_ok_def)
  have "readable (inv_offhand bag) ?A"
    using A by (simp add: readable_def split: option.split)
  then have off: "read_slot data (2 + length ?I) = (map_option restored (inv_offhand bag), 2 + length ?I + length ?O)"
    using ok by (intro read_slot_written [OF d2]) (auto simp: inventory_ok_def)
  have room: "2 + length ?I < length data"
    using drop_room [OF d2 write_slot_nonempty(2)] write_slot_nonempty(2) [of "inv_offhand bag"] by linarith
  have head: "data \<noteq> []" "data ! 0 = 2" "data ! 1 = 41" "\<not> length data \<le> 1"
    by (simp_all add: data_def inv_serialize_def)
  obtain armor q where armor: "read_slots 4 0 data (2 + length ?I + length ?O) (replicate 4 None) = (armor, q)"
    by (cases "read_slots 4 0 data (2 + length ?I + length ?O) (replicate 4 None)")
  have n: "unat (41 :: u8) = 41"
    by simp
  have "inv_deserialize data = Some (restored_inventory bag\<lparr>inv_armor := armor\<rparr>)"
    unfolding inv_deserialize_def Let_def head
    using head room items off armor
    by (simp add: new_inventory_def restored_inventory_def)
  then show thesis
    using d3 armor by (intro that [of "2 + length ?I + length ?O"]) (simp_all add: data_def)
qed

text \<open>Saving and loading an inventory: every stack comes back in its slot with its item, its
  count, its NBT and its durability, provided the last armour slot is empty or holds an item with
  NBT; property bits of the items are dropped and the selected slot is reset.\<close>

theorem inventory_roundtrip:
  assumes "inventory_ok bag" and "readable (inv_armor bag ! 3) []"
  shows "inv_deserialize (inv_serialize bag) = Some (restored_inventory bag)"
proof -
  obtain pos where d: "drop pos (inv_serialize bag) = concat (map write_slot (inv_armor bag))"
    and r: "inv_deserialize (inv_serialize bag)
      = Some (restored_inventory bag\<lparr>inv_armor := fst (read_slots 4 0 (inv_serialize bag) pos (replicate 4 None))\<rparr>)"
    by (rule deserialize_upto_armor [OF assms(1)])
  have len: "length (inv_armor bag) = 4"
    using assms(1) by (simp add: inventory_ok_def)
  then have "last (inv_armor bag) = inv_armor bag ! 3"
    by (subst last_conv_nth) auto
  then have "read_slots 4 0 (inv_serialize bag) pos (replicate 4 None)
      = (map (map_option restored) (inv_armor bag), pos + length (concat (map write_slot (inv_armor bag))))"
    using read_slots_written [of pos "inv_serialize bag" "inv_armor bag" "[]" 0 "replicate 4 None"] d len assms
    by (auto simp: inventory_ok_def)
  then show ?thesis
    using r by (simp add: restored_inventory_def)
qed

theorem inventory_roundtrip_witness:
  "inv_deserialize (inv_serialize (new_inventory\<lparr>inv_items := Some (new_stack (block 1) 5) # replicate 35 None\<rparr>))
    = Some (restored_inventory (new_inventory\<lparr>inv_items := Some (new_stack (block 1) 5) # replicate 35 None\<rparr>))"
  by (rule inventory_roundtrip)
    (simp_all add: inventory_ok_def new_inventory_def nbt_fits_def readable_def new_stack_def Let_def)

text \<open>Boots are lost: an item without NBT in the last armour slot is saved but never loaded. The
  reader wants ten bytes after the presence byte where the item has nine, so it takes the slot
  for empty; the rest of the inventory comes back.\<close>

theorem boots_are_lost:
  assumes "inventory_ok bag" and "inv_armor bag ! 3 = Some st" and "slot_nbt st = []"
  shows "inv_deserialize (inv_serialize bag)
    = Some (restored_inventory (bag\<lparr>inv_armor := (inv_armor bag)[3 := None]\<rparr>))"
proof -
  let ?A = "inv_armor bag"
  obtain pos where d: "drop pos (inv_serialize bag) = concat (map write_slot ?A)"
    and r: "inv_deserialize (inv_serialize bag)
      = Some (restored_inventory bag\<lparr>inv_armor := fst (read_slots 4 0 (inv_serialize bag) pos (replicate 4 None))\<rparr>)"
    by (rule deserialize_upto_armor [OF assms(1)])
  define data where "data = inv_serialize bag"
  obtain a b c where A: "?A = [a, b, c, Some st]"
    using assms(1,2) by (auto simp: inventory_ok_def length_Suc_conv eval_nat_numeral)
  have d3: "drop pos data = concat (map write_slot [a, b, c]) @ write_slot (Some st)"
    using d by (simp add: data_def A)
  have three: "read_slots 3 0 data pos (replicate 4 None)
      = ([map_option restored a, map_option restored b, map_option restored c, None],
         pos + length (concat (map write_slot [a, b, c])))"
  proof -
    have nbt: "nbt_fits s" if "s \<in> set [a, b, c]" for s
      using that assms(1) by (auto simp: inventory_ok_def A)
    have "read_slots (length [a, b, c]) 0 data pos (replicate 4 None)
        = (take 0 (replicate 4 None) @ map (map_option restored) [a, b, c] @ drop (0 + length [a, b, c]) (replicate 4 None),
           pos + length (concat (map write_slot [a, b, c])))"
      by (rule read_slots_written [OF d3 _ nbt]) simp_all
    then show ?thesis
      by (simp add: numeral_eq_Suc del: read_slots.simps)
  qed
  let ?p = "pos + length (concat (map write_slot [a, b, c]))"
  have last: "drop ?p data = write_slot (Some st)"
    by (rule drop_prefix [OF d3])
  have w: "write_slot (Some st) = 1 # le_bytes 4 (bs_id (it_item st)) @ it_count st # le_bytes 2 (0 :: u16)
      @ le_bytes 2 (slot_dur st)"
    using assms(3) by (simp add: write_slot_Some)
  have "length data - ?p = 10"
    using arg_cong [OF last, of length] unfolding length_drop by (simp add: w)
  then have len: "length data = ?p + 10"
    by simp
  then have "read_slot data ?p = (None, ?p + 1)"
    by (simp add: read_slot_def Let_def)
  moreover have "read_slots 4 0 data pos slots
      = (let (slots, p) = read_slots 3 0 data pos slots in read_slots 1 3 data p slots)" for slots
    by (auto simp: eval_nat_numeral split: prod.split)
  ultimately have "fst (read_slots 4 0 data pos (replicate 4 None))
      = [map_option restored a, map_option restored b, map_option restored c, None]"
    using three len by simp
  then show ?thesis
    using r by (simp add: restored_inventory_def A data_def)
qed

theorem boots_are_lost_witness:
  "inv_deserialize (inv_serialize (new_inventory\<lparr>inv_armor := [None, None, None, Some (new_stack (block 822) 1)]\<rparr>))
    = Some (restored_inventory new_inventory)"
proof -
  let ?boots = "new_stack (block 822) 1"
  let ?bag = "new_inventory\<lparr>inv_armor := [None, None, None, Some ?boots]\<rparr>"
  have "nbt_fits (Some ?boots)" "slot_nbt ?boots = []"
    by (simp_all add: nbt_fits_def slot_nbt_def new_stack_def Let_def)
  moreover have "nbt_fits None"
    by (simp add: nbt_fits_def)
  ultimately have "inventory_ok ?bag"
    by (simp add: inventory_ok_def new_inventory_def)
  moreover have "inv_armor ?bag ! 3 = Some ?boots"
    by (simp add: numeral_3_eq_3)
  moreover have "?bag\<lparr>inv_armor := (inv_armor ?bag)[3 := None]\<rparr> = new_inventory"
    by (simp add: new_inventory_def numeral_eq_Suc)
  ultimately show ?thesis
    using boots_are_lost [of ?bag ?boots] \<open>slot_nbt ?boots = []\<close> by simp
qed

text \<open>Tools stack: \<open>add_item\<close> fills every stack up to 64 whatever the item's own limit, so that
  adding several tools to a new inventory makes one stack above its own \<open>max_count\<close> of 1.\<close>

theorem add_item_overstacks_tools:
  assumes "max_durability (bs_id item) \<noteq> None" and "1 < n" and "n \<le> 64"
  shows "\<exists>st. inv_items (fst (add_item item n new_inventory)) ! 0 = Some st
    \<and> it_max st = 1 \<and> unat (it_count st) = n"
proof -
  have "stack_onto item n (replicate k None) = (replicate k None, n)" for k
    by (induction k) simp_all
  moreover have "fill_empty item n (replicate 36 None) =
      (Some (new_stack item (word_of_nat n)) # replicate 35 None, 0)"
  proof -
    have "fill_empty item 0 xs = (xs, 0)" for xs
      by (cases xs) simp_all
    moreover have "replicate 36 None = None # replicate 35 (None :: ItemStack option)"
      by (simp add: numeral_eq_Suc)
    ultimately show ?thesis
      using assms(2,3) by simp
  qed
  ultimately have "inv_items (fst (add_item item n new_inventory)) ! 0 = Some (new_stack item (word_of_nat n))"
    using assms(2) by (simp add: add_item_def new_inventory_def)
  moreover have "it_max (new_stack item (word_of_nat n)) = 1"
    using assms(1) by (simp add: new_stack_def Let_def)
  ultimately show ?thesis
    using assms(3) by (simp add: unat_new_stack)
qed

theorem add_item_overstacks_tools_witness:
  "\<exists>st. inv_items (fst (add_item (block 780) 5 new_inventory)) ! 0 = Some st \<and> it_max st = 1 \<and> unat (it_count st) = 5"
  by (rule add_item_overstacks_tools) (simp_all add: max_durability_def block_def)

end
