(* ===== verification/Recipes.thy ===== *)
theory Recipes
  imports Inventory Codec "HOL-Library.Multiset"
begin

text \<open>
  \<open>mc-player/src/recipe.rs\<close>: a recipe, the registry (a list, searched front to back) and the
  matching of a crafting grid against it; \<open>build_update_recipes\<close> of
  \<open>mc-network/src/connection.rs\<close>, the packet that tells a client the recipes. The grid is the
  list of its slots, 4 for the inventory and 9 for the crafting table. An index outside
  \<open>ingredients\<close> is a panic, the value \<open>None\<close>.

  Shown: a shaped recipe with as many ingredients as its rectangle has cells matches at an
  offset exactly when the rectangle holds its ingredients and the rest is empty; the search
  returns the first recipe that matches; a shapeless recipe whose ingredients each name one item
  matches exactly the grids with that multiset of items; a recipe with an ingredient \<open>[0]\<close> inside
  its rectangle matches no grid of real items.
\<close>

section \<open>Recipes and the registry\<close>

record recipe =
  rc_id :: string
  rc_group :: string
  rc_category :: i32
  rc_width :: u8
  rc_height :: u8
  rc_shapeless :: bool
  rc_ingredients :: "u32 list list"
  rc_result :: u32
  rc_count :: u8

definition Recipe_of :: "string \<Rightarrow> string \<Rightarrow> i32 \<Rightarrow> u8 \<Rightarrow> u8 \<Rightarrow> bool \<Rightarrow> u32 list list \<Rightarrow> u32 \<Rightarrow> u8 \<Rightarrow> recipe" where
  "Recipe_of i g c w h s ins r n =
     \<lparr>rc_id = i, rc_group = g, rc_category = c, rc_width = w, rc_height = h, rc_shapeless = s,
      rc_ingredients = ins, rc_result = r, rc_count = n\<rparr>"

lemma Recipe_of_simps [simp]:
  "rc_id (Recipe_of i g c w h s ins r n) = i"
  "rc_group (Recipe_of i g c w h s ins r n) = g"
  "rc_category (Recipe_of i g c w h s ins r n) = c"
  "rc_width (Recipe_of i g c w h s ins r n) = w"
  "rc_height (Recipe_of i g c w h s ins r n) = h"
  "rc_shapeless (Recipe_of i g c w h s ins r n) = s"
  "rc_ingredients (Recipe_of i g c w h s ins r n) = ins"
  "rc_result (Recipe_of i g c w h s ins r n) = r"
  "rc_count (Recipe_of i g c w h s ins r n) = n"
  by (simp_all add: Recipe_of_def)

type_synonym recipe_registry = "recipe list"
type_synonym grid = "ItemStack option list"

definition new_empty :: recipe_registry where "new_empty = []"

definition register_recipe :: "recipe \<Rightarrow> recipe_registry \<Rightarrow> recipe_registry" where
  "register_recipe r reg = reg @ [r]"

definition get_recipe :: "recipe_registry \<Rightarrow> nat \<Rightarrow> recipe option" where
  "get_recipe reg i = nth_opt reg i"

definition recipe_count :: "recipe_registry \<Rightarrow> nat" where
  "recipe_count reg = length reg"

definition no_recipes :: "recipe_registry \<Rightarrow> bool" where
  "no_recipes reg = (reg = [])"

definition add_shapeless ::
  "string \<Rightarrow> string \<Rightarrow> u32 list list \<Rightarrow> u32 \<Rightarrow> u8 \<Rightarrow> recipe_registry \<Rightarrow> recipe_registry" where
  "add_shapeless i g ins r n reg =
     reg @ [Recipe_of i g 2 (of_nat (length ins)) 1 True ins r n]"

section \<open>Matching a grid\<close>

abbreviation item_id :: "ItemStack \<Rightarrow> u32" where
  "item_id s \<equiv> bs_id (it_item s)"

text \<open>The inner loop of \<open>check_shapeless\<close>: mark the first unused slot that holds a choice.\<close>

fun use_slot :: "u32 list \<Rightarrow> (ItemStack option \<times> bool) list \<Rightarrow> (ItemStack option \<times> bool) list option" where
  "use_slot choices [] = None"
| "use_slot choices ((slot, used) # rest) =
     (if \<not> used \<and> (case slot of Some s \<Rightarrow> item_id s \<in> set choices | None \<Rightarrow> False)
      then Some ((slot, True) # rest)
      else map_option (Cons (slot, used)) (use_slot choices rest))"

fun use_slots :: "u32 list list \<Rightarrow> (ItemStack option \<times> bool) list \<Rightarrow> (ItemStack option \<times> bool) list option" where
  "use_slots [] slots = Some slots"
| "use_slots (choices # ins) slots =
     (case use_slot choices slots of None \<Rightarrow> None | Some slots' \<Rightarrow> use_slots ins slots')"

definition check_shapeless :: "recipe \<Rightarrow> grid \<Rightarrow> bool" where
  "check_shapeless r g =
     (case use_slots (rc_ingredients r) (map (\<lambda>s. (s, False)) g) of
        None \<Rightarrow> False
      | Some slots \<Rightarrow> list_all (\<lambda>(s, used). used \<or> s = None) slots)"

text \<open>Loops that leave at the first \<open>false\<close>, and the cells they run over, row by row.\<close>

fun all_cells :: "('a \<Rightarrow> bool option) \<Rightarrow> 'a list \<Rightarrow> bool option" where
  "all_cells p [] = Some True"
| "all_cells p (x # xs) =
     (case p x of None \<Rightarrow> None | Some False \<Rightarrow> Some False | Some True \<Rightarrow> all_cells p xs)"

definition rows :: "nat \<Rightarrow> nat \<Rightarrow> (nat \<times> nat) list" where
  "rows w h = concat (map (\<lambda>y. map (\<lambda>x. (x, y)) [0..<w]) [0..<h])"

definition pattern_cell :: "nat \<Rightarrow> recipe \<Rightarrow> grid \<Rightarrow> nat \<Rightarrow> nat \<Rightarrow> nat \<times> nat \<Rightarrow> bool option" where
  "pattern_cell n r g ox oy = (\<lambda>(rx, ry).
     case nth_opt (rc_ingredients r) (ry * unat (rc_width r) + rx) of
       None \<Rightarrow> None
     | Some ingr \<Rightarrow>
         (case nth_opt g ((oy + ry) * n + (ox + rx)) of
            None \<Rightarrow> None
          | Some None \<Rightarrow> Some False
          | Some (Some stack) \<Rightarrow> Some (item_id stack \<in> set ingr)))"

definition outside_cell :: "nat \<Rightarrow> recipe \<Rightarrow> grid \<Rightarrow> nat \<Rightarrow> nat \<Rightarrow> nat \<times> nat \<Rightarrow> bool option" where
  "outside_cell n r g ox oy = (\<lambda>(gx, gy).
     let in_x = ox \<le> gx \<and> gx < ox + unat (rc_width r);
         in_y = oy \<le> gy \<and> gy < oy + unat (rc_height r)
     in if \<not> in_x \<or> \<not> in_y then
          (case nth_opt g (gy * n + gx) of None \<Rightarrow> None | Some slot \<Rightarrow> Some (slot = None))
        else Some True)"

definition check_at :: "nat \<Rightarrow> recipe \<Rightarrow> grid \<Rightarrow> nat \<Rightarrow> nat \<Rightarrow> bool option" where
  "check_at n r g ox oy =
     (case all_cells (pattern_cell n r g ox oy) (rows (unat (rc_width r)) (unat (rc_height r))) of
        Some True \<Rightarrow> all_cells (outside_cell n r g ox oy) (rows n n)
      | res \<Rightarrow> res)"

definition check_recipe_at :: "recipe \<Rightarrow> grid \<Rightarrow> nat \<Rightarrow> nat \<Rightarrow> bool option" where
  "check_recipe_at = check_at 2"

definition check_recipe_at_3x3 :: "recipe \<Rightarrow> grid \<Rightarrow> nat \<Rightarrow> nat \<Rightarrow> bool option" where
  "check_recipe_at_3x3 = check_at 3"

text \<open>The offsets a recipe is tried at, \<open>ox\<close> in the outer loop; the first match ends the search.\<close>

fun any_cell :: "('a \<Rightarrow> bool option) \<Rightarrow> 'a list \<Rightarrow> bool option" where
  "any_cell p [] = Some False"
| "any_cell p (x # xs) =
     (case p x of None \<Rightarrow> None | Some True \<Rightarrow> Some True | Some False \<Rightarrow> any_cell p xs)"

definition offsets :: "nat \<Rightarrow> recipe \<Rightarrow> (nat \<times> nat) list" where
  "offsets n r = concat (map (\<lambda>ox. map (\<lambda>oy. (ox, oy)) [0..<Suc (n - unat (rc_height r))])
                             [0..<Suc (n - unat (rc_width r))])"

definition matches :: "nat \<Rightarrow> recipe \<Rightarrow> grid \<Rightarrow> bool option" where
  "matches n r g =
     (if rc_shapeless r then Some (check_shapeless r g)
      else if unat (rc_width r) > n \<or> unat (rc_height r) > n then Some False
      else any_cell (\<lambda>(ox, oy). check_at n r g ox oy) (offsets n r))"

fun search_from :: "nat \<Rightarrow> (recipe \<Rightarrow> bool option) \<Rightarrow> recipe list \<Rightarrow> (nat \<times> recipe) option option" where
  "search_from i m [] = Some None"
| "search_from i m (r # rs) =
     (case m r of None \<Rightarrow> None | Some True \<Rightarrow> Some (Some (i, r)) | Some False \<Rightarrow> search_from (Suc i) m rs)"

definition find_match_3x3 :: "recipe_registry \<Rightarrow> grid \<Rightarrow> (nat \<times> recipe) option option" where
  "find_match_3x3 reg g = search_from 0 (\<lambda>r. matches 3 r g) reg"

definition find_match :: "recipe_registry \<Rightarrow> grid \<Rightarrow> (nat \<times> recipe) option option" where
  "find_match reg g = search_from 0 (\<lambda>r. matches 2 r g) reg"

section \<open>The recipes as sent to a client\<close>

definition ingredient_bytes :: "u32 list \<Rightarrow> bytes" where
  "ingredient_bytes choices =
     write_varint (usize_as_i32 (length choices)) @
     concat (map (\<lambda>i. write_bool True @ write_varint (ucast i) @ [1] @ write_varint 0) choices)"

definition recipe_data :: "recipe \<Rightarrow> bytes" where
  "recipe_data r =
     write_string (map of_char (rc_group r)) @ write_varint (rc_category r) @
     write_varint (ucast (rc_width r)) @ write_varint (ucast (rc_height r)) @
     write_varint (usize_as_i32 (length (rc_ingredients r))) @
     concat (map ingredient_bytes (rc_ingredients r)) @
     write_bool True @ write_varint (ucast (rc_result r)) @ [rc_count r] @ write_varint 0"

definition build_update_recipes :: "recipe_registry \<Rightarrow> (string \<times> string \<times> bytes) list" where
  "build_update_recipes reg =
     map (\<lambda>r. (if rc_shapeless r then ''minecraft:crafting_shapeless'' else ''minecraft:crafting_shaped'',
               rc_id r, recipe_data r)) reg"

section \<open>What a match means\<close>

lemma all_cells_total:
  "\<forall>x \<in> set xs. p x \<noteq> None \<Longrightarrow> all_cells p xs = Some (\<forall>x \<in> set xs. p x = Some True)"
  by (induction xs) (auto split: option.splits bool.splits)

lemma all_cells_True: "all_cells p xs = Some True \<longleftrightarrow> (\<forall>x \<in> set xs. p x = Some True)"
  by (induction xs) (auto split: option.splits bool.splits)

lemma any_cell_True: "any_cell p xs = Some True \<Longrightarrow> \<exists>x \<in> set xs. p x = Some True"
  by (induction xs) (auto split: option.splits bool.splits)

lemma any_cell_False: "any_cell p xs = Some False \<longleftrightarrow> (\<forall>x \<in> set xs. p x = Some False)"
  by (induction xs) (auto split: option.splits bool.splits)

lemma in_rows [simp]: "(x, y) \<in> set (rows w h) \<longleftrightarrow> x < w \<and> y < h"
  by (force simp: rows_def)

lemma ball_rows: "(\<forall>c \<in> set (rows w h). P c) \<longleftrightarrow> (\<forall>x < w. \<forall>y < h. P (x, y))"
  by auto

lemma in_offsets [simp]:
  "(ox, oy) \<in> set (offsets n r) \<longleftrightarrow> ox \<le> n - unat (rc_width r) \<and> oy \<le> n - unat (rc_height r)"
  by (force simp: offsets_def less_Suc_eq_le simp del: upt_Suc)

lemma search_from_found:
  "search_from i m rs = Some (Some (j, r)) \<longleftrightarrow>
     (\<exists>k < length rs. j = i + k \<and> r = rs ! k \<and> m r = Some True \<and> (\<forall>l < k. m (rs ! l) = Some False))"
proof (induction rs arbitrary: i)
  case (Cons q rs)
  show ?case
  proof (cases "m q")
    case (Some b)
    show ?thesis
    proof (cases b)
      case True
      then show ?thesis using Some by (auto simp: nth_Cons' split: if_splits)
    next
      case False
      have ex: "(\<exists>k < length (q # rs). P k) \<longleftrightarrow> P 0 \<or> (\<exists>k < length rs. P (Suc k))" for P
        by (simp only: list.size add_Suc_right add_0_right Ex_less_Suc2)
      show ?thesis
        unfolding ex using False Some Cons.IH [of "Suc i"] by (auto simp: All_less_Suc2)
    qed
  qed (auto simp: nth_Cons')
qed simp

lemma search_from_none: "search_from i m rs = Some None \<longleftrightarrow> (\<forall>r \<in> set rs. m r = Some False)"
  by (induction rs arbitrary: i) (auto split: option.splits bool.splits)

lemma search_from_append:
  "\<forall>r \<in> set rs. m r = Some False \<Longrightarrow> search_from i m (rs @ rs') = search_from (i + length rs) m rs'"
  by (induction rs arbitrary: i) auto

text \<open>A recipe whose rectangle is filled: what the offsets and the table stay within.\<close>

definition well_shaped :: "nat \<Rightarrow> recipe \<Rightarrow> bool" where
  "well_shaped n r \<longleftrightarrow> unat (rc_width r) \<le> n \<and> unat (rc_height r) \<le> n \<and>
     unat (rc_width r) * unat (rc_height r) \<le> length (rc_ingredients r)"

definition inside :: "recipe \<Rightarrow> nat \<Rightarrow> nat \<Rightarrow> nat \<Rightarrow> nat \<Rightarrow> bool" where
  "inside r ox oy x y \<longleftrightarrow> ox \<le> x \<and> x < ox + unat (rc_width r) \<and> oy \<le> y \<and> y < oy + unat (rc_height r)"

lemma cell_index_less: "x < (n::nat) \<Longrightarrow> y < h \<Longrightarrow> y * n + x < n * h"
proof -
  assume "x < n" "y < h"
  then have "y * n + x < Suc y * n" by simp
  also have "Suc y * n \<le> h * n" using \<open>y < h\<close> by (intro mult_le_mono1) simp
  finally show ?thesis by (simp add: mult.commute)
qed

lemma nth_opt_less: "i < length xs \<Longrightarrow> nth_opt xs i = Some (xs ! i)"
  by (simp add: nth_opt_def)

lemma pattern_cell_value:
  assumes "well_shaped n r" "length g = n * n"
    and "ox + unat (rc_width r) \<le> n" "oy + unat (rc_height r) \<le> n"
    and "rx < unat (rc_width r)" "ry < unat (rc_height r)"
  shows "pattern_cell n r g ox oy (rx, ry) =
    Some (\<exists>s. g ! ((oy + ry) * n + (ox + rx)) = Some s \<and>
              item_id s \<in> set (rc_ingredients r ! (ry * unat (rc_width r) + rx)))"
proof -
  have "ry * unat (rc_width r) + rx < length (rc_ingredients r)"
    using cell_index_less [OF assms(5,6)] assms(1) by (simp add: well_shaped_def)
  moreover have "(oy + ry) * n + (ox + rx) < length g"
    using cell_index_less [of "ox + rx" n "oy + ry" n] assms by simp
  ultimately show ?thesis by (simp add: pattern_cell_def nth_opt_less split: option.split)
qed

lemma outside_cell_value:
  assumes "length g = n * n" "x < n" "y < n"
  shows "outside_cell n r g ox oy (x, y) = Some (inside r ox oy x y \<or> g ! (y * n + x) = None)"
  using cell_index_less [OF assms(2,3)] assms(1)
  by (auto simp: outside_cell_def inside_def nth_opt_less Let_def)

lemma check_at_total:
  assumes "well_shaped n r" "length g = n * n"
    and "ox + unat (rc_width r) \<le> n" "oy + unat (rc_height r) \<le> n"
  shows "check_at n r g ox oy = Some (
    (\<forall>rx < unat (rc_width r). \<forall>ry < unat (rc_height r).
       \<exists>s. g ! ((oy + ry) * n + (ox + rx)) = Some s \<and>
           item_id s \<in> set (rc_ingredients r ! (ry * unat (rc_width r) + rx))) \<and>
    (\<forall>x < n. \<forall>y < n. inside r ox oy x y \<or> g ! (y * n + x) = None))"
proof -
  let ?in = "rows (unat (rc_width r)) (unat (rc_height r))"
  have 1: "all_cells (pattern_cell n r g ox oy) ?in =
      Some (\<forall>c \<in> set ?in. pattern_cell n r g ox oy c = Some True)"
    by (rule all_cells_total) (auto simp: pattern_cell_value [OF assms])
  have 2: "all_cells (outside_cell n r g ox oy) (rows n n) =
      Some (\<forall>c \<in> set (rows n n). outside_cell n r g ox oy c = Some True)"
    by (rule all_cells_total) (auto simp: outside_cell_value [OF assms(2)])
  have a: "(\<forall>c \<in> set ?in. pattern_cell n r g ox oy c = Some True) \<longleftrightarrow>
      (\<forall>rx < unat (rc_width r). \<forall>ry < unat (rc_height r).
       \<exists>s. g ! ((oy + ry) * n + (ox + rx)) = Some s \<and>
           item_id s \<in> set (rc_ingredients r ! (ry * unat (rc_width r) + rx)))"
    unfolding ball_rows using pattern_cell_value [OF assms] by simp
  have b: "(\<forall>c \<in> set (rows n n). outside_cell n r g ox oy c = Some True) \<longleftrightarrow>
      (\<forall>x < n. \<forall>y < n. inside r ox oy x y \<or> g ! (y * n + x) = None)"
    unfolding ball_rows using outside_cell_value [OF assms(2), of _ _ r ox oy] by simp
  show ?thesis
    unfolding check_at_def 1 2 a b by (simp split: bool.split)
qed

lemma matches_shaped:
  assumes "well_shaped n r" "length g = n * n" "\<not> rc_shapeless r"
  shows "matches n r g = Some (\<exists>(ox, oy) \<in> set (offsets n r). check_at n r g ox oy = Some True)"
proof -
  have b: "unat (rc_width r) \<le> n" "unat (rc_height r) \<le> n"
    using assms(1) by (auto simp: well_shaped_def)
  have tot: "\<forall>c \<in> set (offsets n r). (case c of (ox, oy) \<Rightarrow> check_at n r g ox oy) \<noteq> None"
    using check_at_total [OF assms(1,2)] b by auto
  have "any_cell p xs = Some (\<exists>x \<in> set xs. p x = Some True)"
    if "\<forall>x \<in> set xs. p x \<noteq> None" for p :: "nat \<times> nat \<Rightarrow> bool option" and xs
    using that by (induction xs) (auto split: option.splits bool.splits)
  from this [OF tot] show ?thesis
    using assms(3) b by (auto simp: matches_def split: prod.splits)
qed

text \<open>C20. A shaped recipe with an ingredient for each cell of its rectangle never panics, and
matches a square grid exactly when for some offset that keeps the rectangle inside the grid every
cell of the rectangle holds one of its ingredients' items and every other cell is empty.\<close>

theorem shaped_match_iff:
  assumes "well_shaped n r" "length g = n * n" "\<not> rc_shapeless r"
  shows "matches n r g = Some (\<exists>ox oy.
    ox + unat (rc_width r) \<le> n \<and> oy + unat (rc_height r) \<le> n \<and>
    (\<forall>rx < unat (rc_width r). \<forall>ry < unat (rc_height r).
       \<exists>s. g ! ((oy + ry) * n + (ox + rx)) = Some s \<and>
           item_id s \<in> set (rc_ingredients r ! (ry * unat (rc_width r) + rx))) \<and>
    (\<forall>x < n. \<forall>y < n. inside r ox oy x y \<or> g ! (y * n + x) = None))"
proof -
  have b: "unat (rc_width r) \<le> n" "unat (rc_height r) \<le> n"
    using assms(1) by (auto simp: well_shaped_def)
  let ?ok = "\<lambda>ox oy. (\<forall>rx < unat (rc_width r). \<forall>ry < unat (rc_height r).
       \<exists>s. g ! ((oy + ry) * n + (ox + rx)) = Some s \<and>
           item_id s \<in> set (rc_ingredients r ! (ry * unat (rc_width r) + rx))) \<and>
    (\<forall>x < n. \<forall>y < n. inside r ox oy x y \<or> g ! (y * n + x) = None)"
  have "(\<exists>(ox, oy) \<in> set (offsets n r). check_at n r g ox oy = Some True) \<longleftrightarrow>
      (\<exists>ox oy. ox + unat (rc_width r) \<le> n \<and> oy + unat (rc_height r) \<le> n \<and> check_at n r g ox oy = Some True)"
    using b by (simp add: le_diff_conv2 Bex_def)
  also have "\<dots> \<longleftrightarrow> (\<exists>ox oy. ox + unat (rc_width r) \<le> n \<and> oy + unat (rc_height r) \<le> n \<and> ?ok ox oy)"
    using check_at_total [OF assms(1,2)] by (intro arg_cong [where f = Ex] ext conj_cong refl) simp
  finally show ?thesis unfolding matches_shaped [OF assms] by simp
qed

text \<open>What a match says without any assumption on the recipe.\<close>

lemma check_at_ingredient:
  assumes "check_at n r g ox oy = Some True" "rx < unat (rc_width r)" "ry < unat (rc_height r)"
  shows "\<exists>s ingr. Some s \<in> set g \<and> nth_opt (rc_ingredients r) (ry * unat (rc_width r) + rx) = Some ingr \<and>
           item_id s \<in> set ingr"
proof -
  have "all_cells (pattern_cell n r g ox oy) (rows (unat (rc_width r)) (unat (rc_height r))) = Some True"
    using assms(1) by (auto simp: check_at_def split: option.splits bool.splits)
  then have "pattern_cell n r g ox oy (rx, ry) = Some True"
    using assms(2,3) by (auto simp: all_cells_True)
  then show ?thesis
    by (auto simp: pattern_cell_def nth_opt_def split: option.splits if_splits) (metis nth_mem)+
qed

text \<open>An ingredient \<open>[0]\<close> inside the rectangle, written for an empty cell, asks for the item 0.\<close>

definition has_hole :: "recipe \<Rightarrow> bool" where
  "has_hole r \<longleftrightarrow> \<not> rc_shapeless r \<and>
     [0] \<in> set (take (unat (rc_width r) * unat (rc_height r)) (rc_ingredients r))"

definition no_air :: "grid \<Rightarrow> bool" where
  "no_air g \<longleftrightarrow> (\<forall>s. Some s \<in> set g \<longrightarrow> item_id s \<noteq> 0)"

lemma hole_never_matches:
  assumes "has_hole r" "no_air g" shows "matches n r g \<noteq> Some True"
proof
  assume "matches n r g = Some True"
  then obtain ox oy where m: "check_at n r g ox oy = Some True"
    using assms(1) by (auto simp: matches_def has_hole_def split: if_splits dest!: any_cell_True)
  let ?w = "unat (rc_width r)" and ?h = "unat (rc_height r)"
  obtain k where k: "k < ?w * ?h" "k < length (rc_ingredients r)" "rc_ingredients r ! k = [0]"
    using assms(1) by (auto simp: has_hole_def in_set_conv_nth)
  have w: "0 < ?w" using k(1) by (cases "?w = 0") auto
  have "k mod ?w < ?w" "k div ?w < ?h" "k div ?w * ?w + k mod ?w = k"
    using w k(1) by (auto simp: less_mult_imp_div_less mult.commute)
  from check_at_ingredient [OF m this(1,2)] this(3) k(2,3) obtain s where "Some s \<in> set g" "item_id s = 0"
    by (auto simp: nth_opt_def)
  then show False using assms(2) by (auto simp: no_air_def)
qed

section \<open>Shapeless recipes\<close>

fun grid_items :: "grid \<Rightarrow> u32 multiset" where
  "grid_items [] = {#}"
| "grid_items (None # g) = grid_items g"
| "grid_items (Some s # g) = add_mset (item_id s) (grid_items g)"

text \<open>The items of the slots not yet used.\<close>

fun free_items :: "(ItemStack option \<times> bool) list \<Rightarrow> u32 multiset" where
  "free_items [] = {#}"
| "free_items ((slot, used) # st) =
     (case slot of Some s \<Rightarrow> if used then free_items st else add_mset (item_id s) (free_items st)
      | None \<Rightarrow> free_items st)"

lemma free_items_start: "free_items (map (\<lambda>s. (s, False)) g) = grid_items g"
  by (induction g rule: grid_items.induct) auto

lemma free_items_empty: "free_items st = {#} \<longleftrightarrow> list_all (\<lambda>(s, used). used \<or> s = None) st"
  by (induction st rule: free_items.induct) (auto split: option.splits if_splits)

lemma use_slot_Some:
  "use_slot choices st = Some st' \<Longrightarrow>
     \<exists>i \<in> set choices. i \<in># free_items st \<and> free_items st' = free_items st - {#i#}"
proof (induction choices st arbitrary: st' rule: use_slot.induct)
  case (2 choices slot used rest)
  show ?case
  proof (cases "\<not> used \<and> (case slot of Some s \<Rightarrow> item_id s \<in> set choices | None \<Rightarrow> False)")
    case True
    then show ?thesis using "2.prems" by (auto split: option.splits)
  next
    case False
    with "2.prems" obtain rest' where r: "use_slot choices rest = Some rest'" "st' = (slot, used) # rest'"
      by auto
    from "2.IH" [OF False r(1)] obtain i where i: "i \<in> set choices" "i \<in># free_items rest"
      "free_items rest' = free_items rest - {#i#}" by blast
    show ?thesis using i False r(2) by (intro bexI [of _ i]) (auto split: option.splits)
  qed
qed simp

lemma use_slot_None: "use_slot choices st = None \<longleftrightarrow> (\<forall>i \<in># free_items st. i \<notin> set choices)"
  by (induction choices st rule: use_slot.induct) (auto split: option.splits if_splits)

lemma use_slots_singletons:
  "(case use_slots (map (\<lambda>i. [i]) ids) st of None \<Rightarrow> \<not> mset ids \<subseteq># free_items st
    | Some st' \<Rightarrow> mset ids \<subseteq># free_items st \<and> free_items st' = free_items st - mset ids)"
proof (induction ids arbitrary: st)
  case (Cons i ids)
  show ?case
  proof (cases "use_slot [i] st")
    case None
    then have "i \<notin># free_items st" by (auto simp: use_slot_None)
    then show ?thesis using None by (auto dest: mset_subset_eqD)
  next
    case (Some st')
    then have i: "i \<in># free_items st" "free_items st' = free_items st - {#i#}"
      using use_slot_Some by fastforce+
    then show ?thesis
      using Some Cons.IH [of st'] by (auto simp: insert_subset_eq_iff split: option.splits)
  qed
qed simp

text \<open>C19. A shapeless recipe whose ingredients each name one item matches exactly the grids whose
items are its ingredients, counted: no ingredient is missing, none is used twice and nothing else
lies in the grid.\<close>

theorem shapeless_is_multiset:
  assumes "rc_ingredients r = map (\<lambda>i. [i]) ids"
  shows "check_shapeless r g \<longleftrightarrow> grid_items g = mset ids"
  using use_slots_singletons [of ids "map (\<lambda>s. (s, False)) g"] assms
  by (auto simp: check_shapeless_def free_items_start free_items_empty [symmetric] subset_mset.antisym
      Diff_eq_empty_iff_mset split: option.splits)

text \<open>Whatever the choices, a matched grid holds one item for each ingredient and no other.\<close>

lemma use_slots_sound:
  "use_slots ins st = Some st' \<Longrightarrow>
     \<exists>ids. length ids = length ins \<and> (\<forall>k < length ins. ids ! k \<in> set (ins ! k)) \<and>
           free_items st = mset ids + free_items st'"
proof (induction ins st arbitrary: st' rule: use_slots.induct)
  case (2 choices ins st)
  then obtain st1 where s: "use_slot choices st = Some st1" "use_slots ins st1 = Some st'"
    by (auto split: option.splits)
  from use_slot_Some [OF s(1)] obtain i where i: "i \<in> set choices" "i \<in># free_items st"
    "free_items st1 = free_items st - {#i#}" by blast
  from "2.IH" [OF s] obtain ids where ids: "length ids = length ins" "\<forall>k < length ins. ids ! k \<in> set (ins ! k)"
    "free_items st1 = mset ids + free_items st'" by blast
  have "free_items st = mset (i # ids) + free_items st'" using i ids(3) by auto
  then show ?case using i ids by (intro exI [of _ "i # ids"]) (auto simp: nth_Cons')
qed simp

lemma shapeless_sound:
  assumes "check_shapeless r g"
  shows "\<exists>ids. length ids = length (rc_ingredients r) \<and>
    (\<forall>k < length ids. ids ! k \<in> set (rc_ingredients r ! k)) \<and> grid_items g = mset ids"
proof -
  obtain st where st: "use_slots (rc_ingredients r) (map (\<lambda>s. (s, False)) g) = Some st" "free_items st = {#}"
    using assms by (auto simp: check_shapeless_def free_items_empty split: option.splits)
  from use_slots_sound [OF st(1)] st(2) show ?thesis by (metis add.right_neutral free_items_start)
qed

section \<open>A single item in the first slot\<close>

text \<open>A grid with one item, in its first slot; recipes that answer it with a plain \<open>false\<close>.\<close>

definition first_slot :: "nat \<Rightarrow> ItemStack \<Rightarrow> grid" where
  "first_slot n s = Some s # replicate (n * n - 1) None"

definition quiet :: "u32 \<Rightarrow> recipe \<Rightarrow> bool" where
  "quiet i r \<longleftrightarrow>
     (if rc_shapeless r then length (rc_ingredients r) \<noteq> 1 \<or> i \<notin> set (rc_ingredients r ! 0)
      else rc_width r \<noteq> 0 \<and> rc_height r \<noteq> 0 \<and> rc_ingredients r \<noteq> [] \<and>
        (i \<notin> set (rc_ingredients r ! 0) \<or>
         length (rc_ingredients r) \<ge> 2 \<and> unat (rc_width r) * unat (rc_height r) \<ge> 2))"

lemma grid_items_Nones [simp]: "grid_items (replicate k None) = {#}"
  by (induction k) auto

lemma nth_first_slot:
  "0 < n \<Longrightarrow> nth_opt (first_slot n s) k = (if k = 0 then Some (Some s) else if k < n * n then Some None else None)"
  by (auto simp: first_slot_def nth_opt_def nth_Cons')

lemma pattern_cell_first:
  assumes "0 < n" "ry * unat (rc_width r) + rx < length (rc_ingredients r)" "ox + rx < n" "oy + ry < n"
  shows "pattern_cell n r (first_slot n s) ox oy (rx, ry) =
    Some ((oy + ry) * n + (ox + rx) = 0 \<and> item_id s \<in> set (rc_ingredients r ! (ry * unat (rc_width r) + rx)))"
proof -
  have "(oy + ry) * n + (ox + rx) < n * n" using cell_index_less [OF assms(3,4)] by simp
  then show ?thesis
    unfolding pattern_cell_def prod.case nth_opt_less [OF assms(2)] nth_first_slot [OF assms(1)] by simp
qed

lemma all_cells_first:
  "p (hd xs) = Some False \<Longrightarrow> xs \<noteq> [] \<Longrightarrow> all_cells p xs = Some False"
  by (cases xs) auto

lemma all_cells_second:
  "p (xs ! 0) = Some True \<Longrightarrow> p (xs ! 1) = Some False \<Longrightarrow> 2 \<le> length xs \<Longrightarrow> all_cells p xs = Some False"
  by (cases xs; cases "tl xs") auto

lemma rows_Suc: "rows w (Suc h) = rows w h @ map (\<lambda>x. (x, h)) [0..<w]"
  by (simp add: rows_def)

lemma length_rows [simp]: "length (rows w h) = w * h"
  by (induction h) (simp_all add: rows_Suc, simp add: rows_def)

lemma rows_start:
  "0 < w \<Longrightarrow> 0 < h \<Longrightarrow> rows w h = map (\<lambda>x. (x, 0)) [0..<w] @ concat (map (\<lambda>y. map (\<lambda>x. (x, y)) [0..<w]) [1..<h])"
  by (simp add: rows_def upt_conv_Cons)

lemma rows_0: "0 < w \<Longrightarrow> 0 < h \<Longrightarrow> rows w h ! 0 = (0, 0)"
  by (simp add: rows_start upt_conv_Cons)

lemma rows_1: "0 < w \<Longrightarrow> 0 < h \<Longrightarrow> 2 \<le> w * h \<Longrightarrow> rows w h ! 1 = (if 1 < w then (1, 0) else (0, 1))"
  by (cases "1 < w"; cases w; cases h) (auto simp: rows_start upt_conv_Cons nth_append nth_Cons')

lemma quiet_false:
  assumes q: "quiet (item_id s) r" and n: "2 \<le> n"
  shows "matches n r (first_slot n s) = Some False"
proof (cases "rc_shapeless r")
  case True
  have "grid_items (first_slot n s) = {#item_id s#}" by (simp add: first_slot_def)
  then have "\<not> check_shapeless r (first_slot n s)"
    using shapeless_sound [of r "first_slot n s"] q True
    by (auto simp: quiet_def length_Suc_conv eq_commute [of "Suc 0"])
  then show ?thesis using True by (simp add: matches_def)
next
  case False
  let ?w = "unat (rc_width r)" and ?h = "unat (rc_height r)"
  from q False have pos: "0 < ?w" "0 < ?h" "rc_ingredients r \<noteq> []"
    by (auto simp: quiet_def unat_gt_0)
  have "check_at n r (first_slot n s) ox oy = Some False"
    if "ox + ?w \<le> n" "oy + ?h \<le> n" for ox oy
  proof -
    let ?p = "pattern_cell n r (first_slot n s) ox oy"
    have ne: "rows ?w ?h \<noteq> []" using pos by (simp add: rows_start)
    have cell: "?p (rx, ry) = Some False"
      if "ry * ?w + rx < length (rc_ingredients r)" "(oy + ry) * n + (ox + rx) \<noteq> 0" "ox + rx < n" "oy + ry < n" for rx ry
    proof -
      have n0: "0 < n" using n by simp
      show ?thesis
        unfolding pattern_cell_first [OF n0 that(1,3,4)] using that(2) by metis
    qed
    have "all_cells ?p (rows ?w ?h) = Some False"
    proof (cases "ox = 0 \<and> oy = 0 \<and> item_id s \<in> set (rc_ingredients r ! 0)")
      case True
      then have two: "2 \<le> length (rc_ingredients r)" "2 \<le> ?w * ?h"
        using q False by (auto simp: quiet_def)
      have "?p (rows ?w ?h ! 0) = Some True"
        using True pos n by (simp only: rows_0) (subst pattern_cell_first, auto)
      moreover have "?p (rows ?w ?h ! 1) = Some False"
      proof (cases "1 < ?w")
        case w: True
        have "?p (1, 0) = Some False" by (rule cell) (use two True that w n pos in auto)
        then show ?thesis using w rows_1 [OF pos(1,2) two(2)] by simp
      next
        case w: False
        then have "?w = 1" using pos by simp
        then have "2 \<le> ?h" using two(2) by simp
        have "?p (0, 1) = Some False"
          by (rule cell) (use two True that n \<open>?w = 1\<close> \<open>2 \<le> ?h\<close> in auto)
        then show ?thesis using w rows_1 [OF pos(1,2) two(2)] by simp
      qed
      ultimately show ?thesis using two(2) by (intro all_cells_second) auto
    next
      case no: False
      have "?p (0, 0) = Some False"
      proof (cases "ox = 0 \<and> oy = 0")
        case True
        then show ?thesis
          using no pos n by (subst pattern_cell_first) auto
      next
        case False
        then show ?thesis using pos that n by (intro cell) auto
      qed
      then show ?thesis using ne rows_0 [OF pos(1,2)] by (intro all_cells_first) (simp_all add: hd_conv_nth)
    qed
    then show ?thesis by (simp add: check_at_def)
  qed
  then show ?thesis using False by (auto simp: matches_def any_cell_False le_diff_conv2)
qed

lemma missing_ingredient_panics:
  assumes "item_id s \<in> set choices"
  shows "matches 3 (Recipe_of i g c 3 3 False [choices] res k) (first_slot 3 s) = None"
proof -
  let ?r = "Recipe_of i g c 3 3 False [choices] res k"
  have "rows 3 3 = (0, 0) # (1, 0) # drop 2 (rows 3 3)" by (simp add: rows_def upt_rec)
  moreover have "pattern_cell 3 ?r (first_slot 3 s) 0 0 (0, 0) = Some True"
    using assms by (subst pattern_cell_first) auto
  moreover have "pattern_cell 3 ?r (first_slot 3 s) 0 0 (1, 0) = None"
    by (simp add: pattern_cell_def nth_opt_def)
  ultimately have "all_cells (pattern_cell 3 ?r (first_slot 3 s) 0 0) (rows 3 3) = None"
    by (metis (no_types, lifting) all_cells.simps(2) option.simps(4) option.simps(5) bool.simps(3))
  then have "check_at 3 ?r (first_slot 3 s) 0 0 = None" by (simp add: check_at_def)
  then show ?thesis by (simp add: matches_def offsets_def)
qed

section \<open>The theorems at concrete grids\<close>

theorem shapeless_is_multiset_witness:
  "\<not> check_shapeless (Recipe_of ''potion'' ''misc'' 2 0 0 True [[1057], [1001]] 1375 3)
       [Some (new_stack (block 1057) 1), None, Some (new_stack (block 1057) 1), None]"
proof -
  have r: "rc_ingredients (Recipe_of ''potion'' ''misc'' 2 0 0 True [[1057], [1001]] 1375 3) =
      map (\<lambda>i. [i]) [1057, 1001]" by simp
  show ?thesis
    unfolding shapeless_is_multiset [OF r] by (simp add: new_stack_def block_def Let_def)
qed

theorem shaped_match_iff_witness:
  "matches 2 (Recipe_of ''stick'' ''sticks'' 2 1 2 False [[13, 14], [13, 14]] 794 4)
     [None, Some (new_stack (block 14) 1), None, Some (new_stack (block 13) 1)] = Some True"
proof -
  let ?r = "Recipe_of ''stick'' ''sticks'' 2 1 2 False [[13, 14], [13, 14]] 794 4"
  let ?g = "[None, Some (new_stack (block 14) 1), None, Some (new_stack (block 13) 1)]"
  have r: "well_shaped 2 ?r" "length ?g = 2 * 2" "\<not> rc_shapeless ?r"
    by (simp_all add: well_shaped_def)
  have "(\<forall>rx < unat (rc_width ?r). \<forall>ry < unat (rc_height ?r).
       \<exists>s. ?g ! ((0 + ry) * 2 + (1 + rx)) = Some s \<and>
           item_id s \<in> set (rc_ingredients ?r ! (ry * unat (rc_width ?r) + rx)))"
    by (simp add: less_2_cases_iff all_simps new_stack_def block_def Let_def)
  moreover have "\<forall>x < 2. \<forall>y < 2. inside ?r 1 0 x y \<or> ?g ! (y * 2 + x) = None"
    by (simp add: less_2_cases_iff inside_def)
  ultimately show ?thesis
    unfolding shaped_match_iff [OF r] by (intro arg_cong [where f = Some] iffI TrueI exI [of _ 1] exI [of _ 0] conjI) simp_all
qed

end
