(* ===== verification/RecipeTable.thy ===== *)
theory RecipeTable
  imports Recipes
begin

text \<open>
  The recipe tables of \<open>mc-player/src/recipe.rs\<close>, in the order \<open>init_defaults\<close> adds them: the
  tool recipes, planks, sticks, the crafting table, then the variant, stonecutter, firework and
  tipped-arrow recipes. Each definition \<open>tool_recipes_k\<close>, \<open>variant_recipes_k\<close> is the run of \<open>add\<close>
  calls and loops of one stretch of \<open>add_tool_recipes\<close> or \<open>add_variant_recipes\<close>; the local
  variables shared between stretches are definitions of their own. A loop over a range is a
  \<open>map\<close> over the range, \<open>format!\<close> is an append.
\<close>

section \<open>\<open>add_tool_recipes\<close>\<close>

definition tool_stick :: "u32" where
  "tool_stick = 794"

definition tool_cobble :: "u32 list" where
  "tool_cobble = [12]"

definition tool_iron_ingot :: "u32 list" where
  "tool_iron_ingot = [778]"

definition tool_gold_ingot :: "u32 list" where
  "tool_gold_ingot = [779]"

definition tool_diamond_gem :: "u32 list" where
  "tool_diamond_gem = [777]"

definition tool_wheat :: "u32 list" where
  "tool_wheat = [809]"

definition tool_oak :: "u32 list" where
  "tool_oak = [13]"

definition tool_recipes_1 :: "recipe list" where
  "tool_recipes_1 =
   ((let plank_ids = [13, 14, 15, 16, 17, 18, 19, 20] in
    (let coal = [775] in
    [Recipe_of ''minecraft:wooden_pickaxe'' ''wooden_tools'' 1 3 2 False [plank_ids, plank_ids, plank_ids, [0], [tool_stick], [0], [0], [tool_stick], [0]] 783 1,
     Recipe_of ''minecraft:wooden_axe'' ''wooden_tools'' 1 2 2 False [plank_ids, plank_ids, plank_ids, [tool_stick], [0], [tool_stick]] 784 1,
     Recipe_of ''minecraft:wooden_shovel'' ''wooden_tools'' 1 1 2 False [plank_ids, [tool_stick], [tool_stick]] 782 1,
     Recipe_of ''minecraft:wooden_hoe'' ''wooden_tools'' 1 2 2 False [plank_ids, plank_ids, [tool_stick], [0], [tool_stick], [0]] 804 1,
     Recipe_of ''minecraft:wooden_sword'' ''wooden_tools'' 1 1 2 False [plank_ids, [tool_stick], [tool_stick]] 781 1,
     Recipe_of ''minecraft:stone_pickaxe'' ''stone_tools'' 1 3 2 False [tool_cobble, tool_cobble, tool_cobble, [0], [tool_stick], [0], [0], [tool_stick], [0]] 787 1,
     Recipe_of ''minecraft:stone_axe'' ''stone_tools'' 1 2 2 False [tool_cobble, tool_cobble, tool_cobble, [tool_stick], [0], [tool_stick]] 788 1,
     Recipe_of ''minecraft:stone_shovel'' ''stone_tools'' 1 1 2 False [tool_cobble, [tool_stick], [tool_stick]] 786 1,
     Recipe_of ''minecraft:stone_hoe'' ''stone_tools'' 1 2 2 False [tool_cobble, tool_cobble, [tool_stick], [0], [tool_stick], [0]] 805 1,
     Recipe_of ''minecraft:stone_sword'' ''stone_tools'' 1 1 2 False [tool_cobble, [tool_stick], [tool_stick]] 785 1,
     Recipe_of ''minecraft:iron_pickaxe'' ''iron_tools'' 1 3 2 False [tool_iron_ingot, tool_iron_ingot, tool_iron_ingot, [0], [tool_stick], [0], [0], [tool_stick], [0]] 769 1,
     Recipe_of ''minecraft:iron_axe'' ''iron_tools'' 1 2 2 False [tool_iron_ingot, tool_iron_ingot, tool_iron_ingot, [tool_stick], [0], [tool_stick]] 770 1,
     Recipe_of ''minecraft:iron_shovel'' ''iron_tools'' 1 1 2 False [tool_iron_ingot, [tool_stick], [tool_stick]] 768 1,
     Recipe_of ''minecraft:iron_hoe'' ''iron_tools'' 1 2 2 False [tool_iron_ingot, tool_iron_ingot, [tool_stick], [0], [tool_stick], [0]] 806 1,
     Recipe_of ''minecraft:iron_sword'' ''iron_tools'' 1 1 2 False [tool_iron_ingot, [tool_stick], [tool_stick]] 780 1,
     Recipe_of ''minecraft:diamond_pickaxe'' ''diamond_tools'' 1 3 2 False [tool_diamond_gem, tool_diamond_gem, tool_diamond_gem, [0], [tool_stick], [0], [0], [tool_stick], [0]] 790 1,
     Recipe_of ''minecraft:diamond_axe'' ''diamond_tools'' 1 2 2 False [tool_diamond_gem, tool_diamond_gem, tool_diamond_gem, [tool_stick], [0], [tool_stick]] 791 1,
     Recipe_of ''minecraft:diamond_shovel'' ''diamond_tools'' 1 1 2 False [tool_diamond_gem, [tool_stick], [tool_stick]] 789 1,
     Recipe_of ''minecraft:diamond_hoe'' ''diamond_tools'' 1 2 2 False [tool_diamond_gem, tool_diamond_gem, [tool_stick], [0], [tool_stick], [0]] 793 1,
     Recipe_of ''minecraft:diamond_sword'' ''diamond_tools'' 1 1 2 False [tool_diamond_gem, [tool_stick], [tool_stick]] 792 1,
     Recipe_of ''minecraft:iron_helmet'' ''iron_armor'' 1 3 2 False [tool_iron_ingot, tool_iron_ingot, tool_iron_ingot, tool_iron_ingot, [0], tool_iron_ingot] 819 1,
     Recipe_of ''minecraft:iron_chestplate'' ''iron_armor'' 1 3 3 False [tool_iron_ingot, [0], tool_iron_ingot, tool_iron_ingot, tool_iron_ingot, tool_iron_ingot, tool_iron_ingot, tool_iron_ingot, tool_iron_ingot] 820 1,
     Recipe_of ''minecraft:iron_leggings'' ''iron_armor'' 1 3 3 False [tool_iron_ingot, tool_iron_ingot, tool_iron_ingot, tool_iron_ingot, [0], tool_iron_ingot, tool_iron_ingot, [0], tool_iron_ingot] 821 1,
     Recipe_of ''minecraft:iron_boots'' ''iron_armor'' 1 3 2 False [[0], [0], [0], tool_iron_ingot, [0], tool_iron_ingot] 822 1,
     Recipe_of ''minecraft:diamond_helmet'' ''diamond_armor'' 1 3 2 False [tool_diamond_gem, tool_diamond_gem, tool_diamond_gem, tool_diamond_gem, [0], tool_diamond_gem] 823 1,
     Recipe_of ''minecraft:diamond_chestplate'' ''diamond_armor'' 1 3 3 False [tool_diamond_gem, [0], tool_diamond_gem, tool_diamond_gem, tool_diamond_gem, tool_diamond_gem, tool_diamond_gem, tool_diamond_gem, tool_diamond_gem] 824 1,
     Recipe_of ''minecraft:diamond_leggings'' ''diamond_armor'' 1 3 3 False [tool_diamond_gem, tool_diamond_gem, tool_diamond_gem, tool_diamond_gem, [0], tool_diamond_gem, tool_diamond_gem, [0], tool_diamond_gem] 825 1,
     Recipe_of ''minecraft:diamond_boots'' ''diamond_armor'' 1 3 2 False [[0], [0], [0], tool_diamond_gem, [0], tool_diamond_gem] 826 1] @
    [Recipe_of ''minecraft:furnace'' ''building'' 0 3 3 False [tool_cobble, tool_cobble, tool_cobble, tool_cobble, [0], tool_cobble, tool_cobble, tool_cobble, tool_cobble] 114 1,
     Recipe_of ''minecraft:chest'' ''building'' 0 3 3 False [tool_oak, tool_oak, tool_oak, tool_oak, [0], tool_oak, tool_oak, tool_oak, tool_oak] 620 1,
     Recipe_of ''minecraft:torch'' ''torch'' 2 1 2 False [coal, [tool_stick]] 108 4])))"

definition tool_leather :: "u32 list" where
  "tool_leather = [1165]"

definition tool_recipes_2 :: "recipe list" where
  "tool_recipes_2 =
   ([Recipe_of ''minecraft:iron_block'' ''building'' 0 3 3 False (replicate 9 tool_iron_ingot) 102 1,
     Recipe_of ''minecraft:iron_ingot_from_block'' ''building'' 0 1 1 False [[102]] 778 9,
     Recipe_of ''minecraft:gold_block'' ''building'' 0 3 3 False (replicate 9 tool_gold_ingot) 101 1,
     Recipe_of ''minecraft:gold_ingot_from_block'' ''building'' 0 1 1 False [[101]] 779 9,
     Recipe_of ''minecraft:diamond_block'' ''building'' 0 3 3 False (replicate 9 tool_diamond_gem) 112 1,
     Recipe_of ''minecraft:diamond_from_block'' ''building'' 0 1 1 False [[112]] 777 9,
     Recipe_of ''minecraft:bread'' ''food'' 2 3 1 False [tool_wheat, tool_wheat, tool_wheat] 810 1] @
    (let cocoa = [844] in
    [Recipe_of ''minecraft:cookie'' ''food'' 2 1 2 False [tool_wheat, cocoa] 882 8,
     Recipe_of ''minecraft:pumpkin_pie'' ''food'' 2 3 1 False [[124], [885], [884]] 881 1] @
    (let wool = [64] in
    [Recipe_of ''minecraft:white_bed'' ''bed'' 0 3 3 False [[0], [0], [0], wool, wool, wool, tool_oak, tool_oak, tool_oak] 887 1] @
    (let r_torch = [994] in
    (let r_dust = [993] in
    [Recipe_of ''minecraft:redstone_repeater'' ''redstone'' 0 3 3 False [[0], r_torch, [0], [0], tool_cobble, [0], r_dust, tool_cobble, r_torch] 1147 1,
     Recipe_of ''minecraft:piston'' ''redstone'' 0 3 3 False [tool_oak, tool_oak, tool_oak, tool_cobble, tool_iron_ingot, tool_cobble, tool_cobble, [462], tool_cobble] 206 1,
     Recipe_of ''minecraft:dispenser'' ''redstone'' 0 3 3 False [tool_cobble, tool_cobble, tool_cobble, tool_cobble, [773], tool_cobble, tool_cobble, [462], tool_cobble] 23 1] @
    (let s = [24] in
    (let gp = [954] in
    [Recipe_of ''minecraft:tnt'' ''redstone'' 0 3 3 False [gp, s, gp, s, gp, s, gp, s, gp] 104 1,
     Recipe_of ''minecraft:note_block'' ''redstone'' 0 3 3 False (replicate 9 tool_oak) 74 1,
     Recipe_of ''minecraft:observer'' ''redstone'' 0 3 3 False [tool_cobble, tool_cobble, tool_cobble, [46], [46], [155], tool_cobble, tool_cobble, tool_cobble] 317 1,
     Recipe_of ''minecraft:shield'' ''equipment'' 1 3 3 False [tool_oak, tool_iron_ingot, tool_oak, tool_oak, tool_oak, tool_oak, [0], tool_oak, [0]] 895 1,
     Recipe_of ''minecraft:fishing_rod'' ''tool'' 1 3 3 False [[0], [0], [tool_stick], [0], [tool_stick], [1163], [tool_stick], [0], [1163]] 844 1,
     Recipe_of ''minecraft:shears'' ''tool'' 1 2 2 False [tool_iron_ingot, [0], [0], tool_iron_ingot] 1205 1,
     Recipe_of ''minecraft:flint_and_steel'' ''tool'' 1 2 2 False [tool_iron_ingot, [931], [0], [0]] 995 1,
     Recipe_of ''minecraft:bucket'' ''tool'' 2 3 3 False [[0], [0], [0], tool_iron_ingot, [0], tool_iron_ingot, [0], tool_iron_ingot, [0]] 910 1,
     Recipe_of ''minecraft:oak_boat'' ''transport'' 2 3 3 False [[0], [0], [0], tool_oak, [0], tool_oak, tool_oak, tool_oak, tool_oak] 955 1,
     Recipe_of ''minecraft:minecart'' ''transport'' 2 3 3 False [[0], [0], [0], tool_iron_ingot, [0], tool_iron_ingot, tool_iron_ingot, tool_iron_ingot, tool_iron_ingot] 950 1,
     Recipe_of ''minecraft:rail'' ''transport'' 2 3 3 False [tool_iron_ingot, [0], tool_iron_ingot, tool_iron_ingot, [tool_stick], tool_iron_ingot, tool_iron_ingot, [0], tool_iron_ingot] 854 16,
     Recipe_of ''minecraft:powered_rail'' ''transport'' 2 3 3 False [tool_gold_ingot, [0], tool_gold_ingot, tool_gold_ingot, [tool_stick], tool_gold_ingot, tool_gold_ingot, [462], tool_gold_ingot] 855 6] @
    (let paper = [1045] in
    [Recipe_of ''minecraft:book'' ''misc'' 2 3 3 False [[0], paper, [0], [0], tool_leather, [0], [0], [0], [0]] 1042 1] @
    (let book = [1042] in
    [Recipe_of ''minecraft:bookshelf'' ''building'' 0 3 3 False [tool_oak, tool_oak, tool_oak, book, book, book, tool_oak, tool_oak, tool_oak] 105 1] @
    (let obsidian = [71] in
    [Recipe_of ''minecraft:enchanting_table'' ''misc'' 2 3 3 False [[0], book, [0], tool_diamond_gem, obsidian, tool_diamond_gem, obsidian, obsidian, obsidian] 151 1,
     Recipe_of ''minecraft:painting'' ''misc'' 2 3 3 False (replicate 9 [tool_stick]) 1058 1,
     Recipe_of ''minecraft:item_frame'' ''misc'' 2 3 3 False (replicate 9 [tool_stick]) 1057 1,
     Recipe_of ''minecraft:clock'' ''tool'' 2 3 3 False [[0], tool_gold_ingot, [0], tool_gold_ingot, [462], tool_gold_ingot, [0], tool_gold_ingot, [0]] 1043 1]))))))))))"

definition tool_plank_ids :: "u32 list" where
  "tool_plank_ids = [13, 14, 15, 16, 17, 18, 19, 20]"

definition tool_stair_results :: "u32 list" where
  "tool_stair_results = [430, 450, 470, 490, 510, 570, 530, 550]"

definition tool_slab_results :: "u32 list" where
  "tool_slab_results = [431, 451, 471, 491, 511, 571, 531, 551]"

definition tool_fence_results :: "u32 list" where
  "tool_fence_results = [432, 452, 472, 492, 512, 572, 532, 552]"

definition tool_door_results :: "u32 list" where
  "tool_door_results = [434, 454, 474, 494, 514, 574, 534, 554]"

definition tool_names :: "string list" where
  "tool_names = [''oak'', ''spruce'', ''birch'', ''jungle'', ''acacia'', ''cherry'', ''dark_oak'', ''mangrove'']"

definition tool_recipes_3 :: "recipe list" where
  "tool_recipes_3 =
   ([Recipe_of ''minecraft:compass'' ''tool'' 2 3 3 False [[0], tool_iron_ingot, [0], tool_iron_ingot, [462], tool_iron_ingot, [0], tool_iron_ingot, [0]] 1044 1] @
    (let milk = [916] in
    (let sugar = [885] in
    (let egg_v = [884] in
    [Recipe_of ''minecraft:cake'' ''food'' 2 3 3 False [milk, milk, milk, sugar, egg_v, sugar, tool_wheat, tool_wheat, tool_wheat] 880 1] @
    (let apple = [933] in
    [Recipe_of ''minecraft:golden_apple'' ''food'' 2 3 3 False [tool_gold_ingot, tool_gold_ingot, tool_gold_ingot, tool_gold_ingot, apple, tool_gold_ingot, tool_gold_ingot, tool_gold_ingot, tool_gold_ingot] 912 1,
     Recipe_of ''minecraft:golden_pickaxe'' ''gold_tools'' 1 3 2 False [tool_gold_ingot, tool_gold_ingot, tool_gold_ingot, [0], [tool_stick], [0], [0], [tool_stick], [0]] 795 1,
     Recipe_of ''minecraft:golden_axe'' ''gold_tools'' 1 2 2 False [tool_gold_ingot, tool_gold_ingot, tool_gold_ingot, [tool_stick], [0], [tool_stick]] 796 1,
     Recipe_of ''minecraft:golden_shovel'' ''gold_tools'' 1 1 2 False [tool_gold_ingot, [tool_stick], [tool_stick]] 794 1,
     Recipe_of ''minecraft:golden_hoe'' ''gold_tools'' 1 2 2 False [tool_gold_ingot, tool_gold_ingot, [tool_stick], [0], [tool_stick], [0]] 808 1,
     Recipe_of ''minecraft:golden_sword'' ''gold_tools'' 1 1 2 False [tool_gold_ingot, [tool_stick], [tool_stick]] 797 1,
     Recipe_of ''minecraft:leather_helmet'' ''leather_armor'' 1 3 2 False [tool_leather, tool_leather, tool_leather, tool_leather, [0], tool_leather] 811 1,
     Recipe_of ''minecraft:leather_chestplate'' ''leather_armor'' 1 3 3 False [tool_leather, [0], tool_leather, tool_leather, tool_leather, tool_leather, tool_leather, tool_leather, tool_leather] 812 1,
     Recipe_of ''minecraft:leather_leggings'' ''leather_armor'' 1 3 3 False [tool_leather, tool_leather, tool_leather, tool_leather, [0], tool_leather, tool_leather, [0], tool_leather] 813 1,
     Recipe_of ''minecraft:leather_boots'' ''leather_armor'' 1 3 2 False [[0], [0], [0], tool_leather, [0], tool_leather] 814 1,
     Recipe_of ''minecraft:golden_helmet'' ''gold_armor'' 1 3 2 False [tool_gold_ingot, tool_gold_ingot, tool_gold_ingot, tool_gold_ingot, [0], tool_gold_ingot] 827 1] @
    (let scrap = [959] in
    [Recipe_of ''minecraft:netherite_ingot'' ''misc'' 2 2 2 False [scrap, tool_gold_ingot, scrap, tool_gold_ingot] 961 1] @
    (let red_mush = [113] in
    (let brown_mush = [114] in
    (let bowl = [915] in
    [Recipe_of ''minecraft:mushroom_stew'' ''food'' 2 1 3 False [red_mush, brown_mush, bowl] 868 1] @
    (let carrot = [871] in
    (let baked_potato = [873] in
    (let cooked_rabbit = [870] in
    (let red_mush2 = [113] in
    (let bowl2 = [915] in
    [Recipe_of ''minecraft:rabbit_stew'' ''food'' 2 1 5 False [cooked_rabbit, carrot, baked_potato, red_mush2, bowl2] 873 1] @
    (let beetroot = [875] in
    [Recipe_of ''minecraft:beetroot_soup'' ''food'' 2 1 4 False [beetroot, beetroot, beetroot, bowl2] 877 1] @
    (let bow_string = [801] in
    [Recipe_of ''minecraft:bow'' ''equipment'' 1 3 3 False [[0], [tool_stick], bow_string, [tool_stick], [0], bow_string, [0], [tool_stick], bow_string] 942 1,
     Recipe_of ''minecraft:oak_stairs'' ''building'' 0 3 3 False [tool_oak, [0], [0], tool_oak, tool_oak, [0], tool_oak, tool_oak, tool_oak] 430 4,
     Recipe_of ''minecraft:oak_slab'' ''building'' 0 3 1 False [tool_oak, tool_oak, tool_oak] 431 6] @
    (let stone_v = [1] in
    [Recipe_of ''minecraft:stone_bricks'' ''building'' 0 2 2 False [stone_v, stone_v, stone_v, stone_v] 133 4] @
    (let flint = [931] in
    (let feather = [932] in
    [Recipe_of ''minecraft:arrow'' ''equipment'' 1 1 3 False [flint, [tool_stick], feather] 943 4,
     Recipe_of ''minecraft:golden_chestplate'' ''gold_armor'' 1 3 3 False [tool_gold_ingot, [0], tool_gold_ingot, tool_gold_ingot, tool_gold_ingot, tool_gold_ingot, tool_gold_ingot, tool_gold_ingot, tool_gold_ingot] 828 1,
     Recipe_of ''minecraft:golden_leggings'' ''gold_armor'' 1 3 3 False [tool_gold_ingot, tool_gold_ingot, tool_gold_ingot, tool_gold_ingot, [0], tool_gold_ingot, tool_gold_ingot, [0], tool_gold_ingot] 829 1,
     Recipe_of ''minecraft:golden_boots'' ''gold_armor'' 1 3 2 False [[0], [0], [0], tool_gold_ingot, [0], tool_gold_ingot] 830 1] @
    (let paper = [1045] in
    (let gunpowder = [954] in
    [Recipe_of ''minecraft:firework_rocket'' ''misc'' 2 1 2 False [paper, gunpowder] 965 3] @
    (let dye_ids = [877, 878, 879, 880, 881, 882, 883, 884, 885, 886, 887, 888, 889, 890, 891, 892] in
    [Recipe_of ''minecraft:firework_star'' ''misc'' 2 1 2 False [gunpowder, dye_ids] 966 1]))))))))))))))))))))))"

definition tool_recipes_4 :: "recipe list" where
  "tool_recipes_4 =
   (concat (map (\<lambda>i.
        (let p = [tool_plank_ids ! i] in
        [Recipe_of (''minecraft:'' @ (tool_names ! i) @ ''_stairs'') ''stairs'' 0 3 3 False [p, [0], [0], p, p, [0], p, p, p] (tool_stair_results ! i) 4,
         Recipe_of (''minecraft:'' @ (tool_names ! i) @ ''_slab'') ''slab'' 0 3 1 False [p, p, p] (tool_slab_results ! i) 6,
         Recipe_of (''minecraft:'' @ (tool_names ! i) @ ''_fence'') ''fence'' 0 3 3 False [p, [794], p, p, [794], p, [0], [0], [0]] (tool_fence_results ! i) 3,
         Recipe_of (''minecraft:'' @ (tool_names ! i) @ ''_door'') ''door'' 0 2 3 False [p, p, p, p, p, p] (tool_door_results ! i) 3]))
      [0..<8]) @
    (let stone_v = [1] in
    [Recipe_of ''minecraft:stone_bricks'' ''building'' 0 2 2 False [stone_v, stone_v, stone_v, stone_v] 71 4,
     Recipe_of ''minecraft:mossy_stone_bricks'' ''building'' 0 2 2 False [[71], [118], [118], [71]] 72 2,
     Recipe_of ''minecraft:chiseled_stone_bricks'' ''building'' 0 1 2 False [[139], [139]] 73 1] @
    (let wool = [64] in
    (let colors = [(65, ''white''), (66, ''orange''), (67, ''magenta''), (68, ''light_blue''), (69, ''yellow''), (70, ''lime''), (71, ''pink''), (72, ''gray''), (73, ''light_gray''), (74, ''cyan''), (75, ''purple''), (76, ''blue''), (77, ''brown''), (78, ''green''), (79, ''red''), (80, ''black'')] in
    (let dye_for_wool = [877, 878, 879, 880, 881, 882, 883, 884, 885, 886, 887, 888, 889, 890, 891, 892] in
    concat (map (\<lambda>(result_id, color_name).
        [Recipe_of (''minecraft:'' @ color_name @ ''_wool'') ''wool'' 2 1 2 False [wool, dye_for_wool] result_id 1])
      colors) @
    (let redstone = [993] in
    (let quartz = [155] in
    [Recipe_of ''minecraft:comparator'' ''redstone'' 0 3 3 False [[0], [994], [0], [994], quartz, [994], stone_v, stone_v, stone_v] 1153 1,
     Recipe_of ''minecraft:hopper'' ''redstone'' 0 3 3 False [tool_iron_ingot, [0], tool_iron_ingot, tool_iron_ingot, [620], tool_iron_ingot, [0], tool_iron_ingot, [0]] 154 1,
     Recipe_of ''minecraft:daylight_detector'' ''redstone'' 0 3 3 False (replicate 9 [66]) 152 1,
     Recipe_of ''minecraft:chest_minecart'' ''transport'' 2 1 2 False [[620], [950]] 951 1,
     Recipe_of ''minecraft:hopper_minecart'' ''transport'' 2 1 2 False [[154], [950]] 952 1,
     Recipe_of ''minecraft:tnt_minecart'' ''transport'' 2 1 2 False [[104], [950]] 953 1,
     Recipe_of ''minecraft:detector_rail'' ''transport'' 2 3 3 False [tool_iron_ingot, [0], tool_iron_ingot, tool_iron_ingot, [131], tool_iron_ingot, tool_iron_ingot, redstone, tool_iron_ingot] 856 6] @
    (let nugget = [1000] in
    [Recipe_of ''minecraft:golden_carrot'' ''food'' 2 3 3 False [nugget, nugget, nugget, nugget, [870], nugget, nugget, nugget, nugget] 871 1,
     Recipe_of ''minecraft:glistering_melon'' ''food'' 2 3 3 False [nugget, nugget, nugget, nugget, [1032], nugget, nugget, nugget, nugget] 1032 1,
     Recipe_of ''minecraft:fermented_spider_eye'' ''food'' 2 1 3 False [[906], [885], [114]] 907 1]))))))))"

definition add_tool_recipes :: "recipe list \<Rightarrow> recipe list" where
  "add_tool_recipes reg = reg @ tool_recipes_1 @ tool_recipes_2 @ tool_recipes_3 @ tool_recipes_4"

section \<open>\<open>add_variant_recipes\<close>\<close>

definition concrete_ids :: "u32 \<Rightarrow> u32" where
  "concrete_ids idx = [1094, 1095, 1096, 1097, 1098, 1099, 1100, 1101, 1102, 1103, 1104, 1105, 1106,
     1107, 1108, 1109] ! unat idx"

definition variant_stick :: "u32" where
  "variant_stick = 794"

definition variant_all_planks :: "u32 list" where
  "variant_all_planks = [13, 14, 15, 16, 17, 18, 19, 20, 21, 22]"

definition variant_dye_sources :: "(u32 \<times> string) list" where
  "variant_dye_sources = [(574, ''white''), (575, ''orange''), (576, ''magenta''), (577, ''light_blue''), (578, ''yellow''), (579, ''lime''), (580, ''pink''), (581, ''gray''), (582, ''light_gray''), (583, ''cyan''), (584, ''purple''), (585, ''blue''), (586, ''brown''), (587, ''green''), (588, ''red''), (589, ''black'')]"

definition variant_dye_ids :: "u32 list" where
  "variant_dye_ids = [991, 981, 988, 1302, 980, 987, 986, 985, 984, 983, 982, 979, 989, 978, 977, 990]"

definition variant_wool_ids :: "u32 list" where
  "variant_wool_ids = [85, 86, 87, 88, 89, 90, 91, 92, 93, 94, 95, 96, 97, 98, 99, 100]"

definition variant_concrete_powder_ids :: "u32 list" where
  "variant_concrete_powder_ids = [1094, 1095, 1096, 1097, 1098, 1099, 1100, 1101, 1102, 1103, 1104, 1105, 1106, 1107, 1108, 1109]"

definition variant_glass_ids :: "u32 list" where
  "variant_glass_ids = [66, 1271, 1272, 1273, 1274, 1275, 1276, 1277, 1278, 1279, 1280, 1281, 1282, 1283, 1284, 1285]"

definition variant_terracotta_ids :: "u32 list" where
  "variant_terracotta_ids = [181, 190, 191, 192, 193, 194, 195, 196, 197, 198, 199, 200, 201, 202, 203, 204]"

definition variant_bed_ids :: "u32 list" where
  "variant_bed_ids = [1287, 1288, 1289, 1290, 1291, 1292, 1293, 1294, 1295, 1296, 1297, 1298, 1299, 1300, 887, 1301]"

definition variant_wood_names :: "string list" where
  "variant_wood_names = [''oak'', ''spruce'', ''birch'', ''jungle'', ''acacia'', ''cherry'', ''dark_oak'', ''mangrove'', ''bamboo'', ''crimson'']"

definition variant_fence_gate_results :: "u32 list" where
  "variant_fence_gate_results = [433, 453, 473, 493, 513, 573, 533, 553, 593, 613]"

definition variant_button_results :: "u32 list" where
  "variant_button_results = [436, 456, 476, 496, 516, 576, 536, 556, 596, 616]"

definition variant_pp_results :: "u32 list" where
  "variant_pp_results = [437, 457, 477, 497, 517, 577, 537, 557, 597, 617]"

definition variant_sign_results :: "u32 list" where
  "variant_sign_results = [438, 458, 478, 498, 518, 578, 538, 558, 598, 618]"

definition variant_boat_results :: "u32 list" where
  "variant_boat_results = [955, 956, 957, 958, 959, 960, 961, 962, 1303, 964]"

definition variant_recipes_1 :: "recipe list" where
  "variant_recipes_1 =
   ((let flower_to_dye = [(37, 980), (38, 979), (39, 1302), (40, 988), (41, 987), (42, 981), (43, 978), (44, 982)] in
    concat (map (\<lambda>(flower_id, dye_id).
        [Recipe_of (''dye_from_'' @ show_nat (unat flower_id)) ''dye'' 2 1 1 False [[flower_id]] dye_id 1])
      flower_to_dye) @
    concat (map (\<lambda>i.
        [Recipe_of (''minecraft:'' @ (snd (variant_dye_sources ! i)) @ ''_wool'') ''wool'' 0 1 2 False [[85], [variant_dye_ids ! i]] (variant_wool_ids ! i) 1])
      [1..<16]) @
    (let sand = [24] in
    (let gravel = [26] in
    concat (map (\<lambda>i.
        [Recipe_of (''minecraft:'' @ (snd (variant_dye_sources ! i)) @ ''_concrete_powder'') ''concrete'' 0 3 3 True [[variant_dye_ids ! i], sand, sand, gravel, gravel, gravel, sand, gravel, sand] (variant_concrete_powder_ids ! i) 8])
      [0..<16]) @
    (let glass = [66] in
    concat (map (\<lambda>i.
        [Recipe_of (''minecraft:'' @ (snd (variant_dye_sources ! i)) @ ''_stained_glass'') ''glass'' 0 3 3 False [glass, glass, glass, glass, [variant_dye_ids ! i], glass, glass, glass, glass] (variant_glass_ids ! i) 8])
      [1..<16]) @
    (let terracotta = [181] in
    concat (map (\<lambda>i.
        [Recipe_of (''minecraft:'' @ (snd (variant_dye_sources ! i)) @ ''_terracotta'') ''terracotta'' 0 3 3 False [terracotta, terracotta, terracotta, terracotta, [variant_dye_ids ! i], terracotta, terracotta, terracotta, terracotta] (variant_terracotta_ids ! i) 8])
      [1..<16]) @
    (let carpet_ids = [1126, 1127, 1128, 1129, 1130, 1131, 1132, 1133, 1134, 1135, 1136, 1137, 1138, 1139, 1140, 1141] in
    concat (map (\<lambda>i.
        [Recipe_of (''minecraft:'' @ (snd (variant_dye_sources ! i)) @ ''_carpet'') ''carpet'' 0 3 1 False [[variant_wool_ids ! i], [variant_wool_ids ! i], [0]] (carpet_ids ! i) 3])
      [0..<16]) @
    concat (map (\<lambda>i.
        [Recipe_of (''minecraft:'' @ (snd (variant_dye_sources ! i)) @ ''_bed'') ''bed'' 0 3 3 False [[0], [0], [0], [variant_wool_ids ! i], [variant_wool_ids ! i], [variant_wool_ids ! i], [13], [13], [13]] (variant_bed_ids ! i) 1])
      [0..<16]) @
    concat (map (\<lambda>i.
        (let p = [variant_all_planks ! i] in
        [Recipe_of (''minecraft:'' @ (variant_wood_names ! i) @ ''_fence_gate'') ''fence_gate'' 0 3 3 False [[variant_stick], p, [variant_stick], [variant_stick], p, [variant_stick], [0], [0], [0]] (variant_fence_gate_results ! i) 1]))
      [0..<10]) @
    concat (map (\<lambda>i.
        (let p = [variant_all_planks ! i] in
        [Recipe_of (''minecraft:'' @ (variant_wood_names ! i) @ ''_button'') ''button'' 0 1 1 False [p] (variant_button_results ! i) 1]))
      [0..<10]) @
    concat (map (\<lambda>i.
        (let p = [variant_all_planks ! i] in
        [Recipe_of (''minecraft:'' @ (variant_wood_names ! i) @ ''_pressure_plate'') ''pressure_plate'' 0 2 1 False [p, p] (variant_pp_results ! i) 1]))
      [0..<10]) @
    concat (map (\<lambda>i.
        (let p = [variant_all_planks ! i] in
        [Recipe_of (''minecraft:'' @ (variant_wood_names ! i) @ ''_sign'') ''sign'' 0 3 3 False [p, p, p, p, p, p, [0], [variant_stick], [0]] (variant_sign_results ! i) 3]))
      [0..<10]))))))))"

definition variant_recipes_2 :: "recipe list" where
  "variant_recipes_2 =
   (concat (map (\<lambda>i.
        (let p = [variant_all_planks ! i] in
        [Recipe_of (''minecraft:'' @ (variant_wood_names ! i) @ ''_boat'') ''boat'' 2 3 3 False [[0], [0], [0], p, [0], p, p, p, p] (variant_boat_results ! i) 1]))
      [0..<10]) @
    (let door_results = [434, 454, 474, 494, 514, 574, 534, 554, 594, 614] in
    concat (map (\<lambda>i.
        (let p = [variant_all_planks ! i] in
        [Recipe_of (''minecraft:'' @ (variant_wood_names ! i) @ ''_door'') ''door'' 0 2 3 False [p, p, p, p, p, p] (door_results ! i) 3]))
      [0..<10]) @
    (let trapdoor_results = [435, 455, 475, 495, 515, 575, 535, 555, 595, 615] in
    concat (map (\<lambda>i.
        (let p = [variant_all_planks ! i] in
        [Recipe_of (''minecraft:'' @ (variant_wood_names ! i) @ ''_trapdoor'') ''trapdoor'' 0 3 2 False [p, p, p, p, p, p] (trapdoor_results ! i) 2]))
      [0..<10]) @
    (let fence_results = [432, 452, 472, 492, 512, 572, 532, 552, 592, 612] in
    concat (map (\<lambda>i.
        (let p = [variant_all_planks ! i] in
        [Recipe_of (''minecraft:'' @ (variant_wood_names ! i) @ ''_fence'') ''fence'' 0 3 3 False [p, [variant_stick], p, p, [variant_stick], p, [0], [0], [0]] (fence_results ! i) 3]))
      [0..<10]) @
    (let stair_results = [430, 450, 470, 490, 510, 570, 530, 550, 590, 610] in
    (let slab_results = [431, 451, 471, 491, 511, 571, 531, 551, 591, 611] in
    concat (map (\<lambda>i.
        (let p = [variant_all_planks ! i] in
        [Recipe_of (''minecraft:'' @ (variant_wood_names ! i) @ ''_stairs'') ''stairs'' 0 3 3 False [p, [0], [0], p, p, [0], p, p, p] (stair_results ! i) 4,
         Recipe_of (''minecraft:'' @ (variant_wood_names ! i) @ ''_slab'') ''slab'' 0 3 1 False [p, p, p] (slab_results ! i) 6]))
      [0..<10]) @
    [Recipe_of ''minecraft:polished_granite'' ''stone'' 0 2 2 False [[2], [2], [2], [2]] 3 4,
     Recipe_of ''minecraft:polished_diorite'' ''stone'' 0 2 2 False [[4], [4], [4], [4]] 5 4,
     Recipe_of ''minecraft:polished_andesite'' ''stone'' 0 2 2 False [[6], [6], [6], [6]] 7 4,
     Recipe_of ''minecraft:stone_brick_stairs'' ''stairs'' 0 3 3 False [[98], [0], [0], [98], [98], [0], [98], [98], [98]] 109 4,
     Recipe_of ''minecraft:stone_brick_slab'' ''slab'' 0 3 1 False [[98], [98], [98]] 44 6,
     Recipe_of ''minecraft:sandstone'' ''stone'' 0 2 2 False [[24], [24], [24], [24]] 71 4,
     Recipe_of ''minecraft:quartz_block'' ''stone'' 0 2 2 False [[155], [155], [155], [155]] 403 4,
     Recipe_of ''minecraft:dropper'' ''redstone'' 0 3 3 False [[12], [12], [12], [12], [993], [12], [12], [12], [12]] 158 1,
     Recipe_of ''minecraft:sticky_piston'' ''redstone'' 0 1 2 False [[920], [137]] 138 1,
     Recipe_of ''minecraft:lever'' ''redstone'' 0 1 2 False [[variant_stick], [12]] 1147 1,
     Recipe_of ''minecraft:stone_button'' ''button'' 0 1 1 False [[1]] 318 1,
     Recipe_of ''minecraft:stone_pressure_plate'' ''pressure_plate'' 0 2 1 False [[1], [1]] 1159 1,
     Recipe_of ''minecraft:tripwire_hook'' ''redstone'' 0 3 3 False [[778], [variant_stick], [13], [0], [0], [0], [0], [0], [0]] 1307 2,
     Recipe_of ''minecraft:iron_door'' ''door'' 0 2 3 False [[778], [778], [778], [778], [778], [778]] 1156 3]))))))"

definition variant_recipes_3 :: "recipe list" where
  "variant_recipes_3 =
   ([Recipe_of ''minecraft:iron_trapdoor'' ''trapdoor'' 0 2 2 False [[778], [778], [778], [778]] 356 1,
     Recipe_of ''minecraft:lantern'' ''lighting'' 0 3 3 False [[567], [567], [567], [567], [50], [567], [567], [567], [567]] 530 1,
     Recipe_of ''minecraft:chain'' ''chain'' 0 1 3 False [[567], [996], [567]] 531 1,
     Recipe_of ''minecraft:campfire'' ''campfire'' 0 3 3 False [[794], [0], [794], [794], [1], [794], [34], [34], [34]] 532 1,
     Recipe_of ''minecraft:mushroom_stew'' ''food'' 2 1 1 True [[113], [114], [915]] 868 1,
     Recipe_of ''minecraft:sugar'' ''food'' 2 1 1 False [[83]] 885 1,
     Recipe_of ''minecraft:melon_seeds'' ''food'' 2 1 1 False [[103]] 899 1,
     Recipe_of ''minecraft:pumpkin_seeds'' ''food'' 2 1 1 False [[124]] 900 4,
     Recipe_of ''minecraft:ender_chest'' ''misc'' 2 3 3 False [[71], [71], [71], [71], [905], [71], [71], [71], [71]] 290 1,
     Recipe_of ''minecraft:eye_of_ender'' ''misc'' 2 1 2 False [[906], [985]] 905 1,
     Recipe_of ''minecraft:lead'' ''misc'' 2 3 3 False [[1163], [1163], [1163], [1163], [920], [1163], [0], [0], [0]] 966 2,
     Recipe_of ''minecraft:writable_book'' ''misc'' 2 1 1 True [[1042], [587], [932]] 984 1,
     Recipe_of ''minecraft:paper'' ''misc'' 2 3 1 False [[83], [83], [83]] 1045 3,
     Recipe_of ''minecraft:bone_meal'' ''misc'' 2 1 1 False [[886]] 978 3,
     Recipe_of ''minecraft:snow_block'' ''building'' 0 2 2 False [[920], [920], [920], [920]] 80 1,
     Recipe_of ''minecraft:clay'' ''building'' 0 2 2 False (replicate 4 [909]) 82 1,
     Recipe_of ''minecraft:nether_bricks'' ''building'' 0 2 2 False (replicate 4 [405]) 405 1,
     Recipe_of ''minecraft:glowstone'' ''building'' 0 2 2 False (replicate 4 [913]) 89 1,
     Recipe_of ''minecraft:jack_o_lantern'' ''building'' 0 1 2 False [[124], [108]] 125 1,
     Recipe_of ''minecraft:sea_lantern'' ''building'' 0 3 3 False [[1030], [1031], [1030], [1031], [1030], [1031], [1030], [1031], [1030]] 1093 1,
     Recipe_of ''minecraft:magma_block'' ''building'' 0 2 2 False (replicate 4 [925]) 1077 1,
     Recipe_of ''minecraft:hay_block'' ''building'' 0 3 3 False (replicate 9 [809]) 1084 1,
     Recipe_of ''minecraft:wheat_from_hay'' ''building'' 0 1 1 False [[1084]] 809 9])"

definition variant_recipes_4 :: "recipe list" where
  "variant_recipes_4 =
   ([Recipe_of ''minecraft:scaffolding'' ''building'' 0 3 3 False [[42], [1163], [42], [42], [0], [42], [42], [0], [42]] 1085 6,
     Recipe_of ''minecraft:anvil'' ''building'' 0 3 3 False [[102], [102], [102], [0], [778], [0], [778], [778], [778]] 306 1,
     Recipe_of ''minecraft:grindstone'' ''building'' 0 3 3 False [[variant_stick], [13], [variant_stick], [13], [0], [13], [0], [0], [0]] 650 1,
     Recipe_of ''minecraft:loom'' ''building'' 0 2 2 False [[1163], [1163], [13], [13]] 457 1,
     Recipe_of ''minecraft:cartography_table'' ''building'' 0 3 3 False [[1045], [1045], [0], [13], [13], [0], [13], [13], [0]] 458 1,
     Recipe_of ''minecraft:smithing_table'' ''building'' 0 3 3 False [[778], [778], [0], [13], [13], [0], [13], [13], [0]] 455 1,
     Recipe_of ''minecraft:composter'' ''building'' 0 3 3 False [[139], [0], [139], [139], [0], [139], [139], [139], [139]] 329 1,
     Recipe_of ''minecraft:stonecutter'' ''building'' 0 3 3 False [[0], [0], [0], [0], [1], [0], [0], [778], [0]] 456 1,
     Recipe_of ''minecraft:fletching_table'' ''building'' 0 3 3 False [[931], [931], [0], [13], [13], [0], [13], [13], [0]] 956 1,
     Recipe_of ''minecraft:barrel'' ''building'' 0 3 3 False [[139], [139], [139], [13], [0], [13], [13], [0], [13]] 332 1,
     Recipe_of ''minecraft:armor_stand'' ''misc'' 2 3 3 False [[variant_stick], [variant_stick], [variant_stick], [0], [variant_stick], [0], [variant_stick], [139], [variant_stick]] 1014 1,
     Recipe_of ''minecraft:end_rod'' ''building'' 0 1 2 False [[985], [1035]] 438 4,
     Recipe_of ''minecraft:purpur_block'' ''building'' 0 2 2 False (replicate 4 [1035]) 439 4,
     Recipe_of ''minecraft:purpur_pillar'' ''building'' 0 1 2 False [[964], [964]] 955 1,
     Recipe_of ''minecraft:nether_brick_fence'' ''fence'' 0 3 3 False [[405], [405], [405], [405], [794], [405], [0], [0], [0]] 406 6,
     Recipe_of ''minecraft:prismarine'' ''building'' 0 2 2 False (replicate 4 [1030]) 1092 1,
     Recipe_of ''minecraft:prismarine_bricks'' ''building'' 0 3 3 False (replicate 9 [1030]) 1094 1,
     Recipe_of ''minecraft:dark_prismarine'' ''building'' 0 3 3 False [[1030], [1030], [1030], [1030], [587], [1030], [1030], [1030], [1030]] 1095 1,
     Recipe_of ''minecraft:dried_kelp_block'' ''building'' 0 3 3 False (replicate 9 [1036]) 1086 1] @
    (let chain = [996] in
    concat (map (\<lambda>(slot, result_id, name).
        (let w = (if result_id = 816 \<or> result_id = 817 then 3 else 3) in
        (let h = (if result_id = 815 \<or> result_id = 818 then 2 else 3) in
        [Recipe_of (''minecraft:'' @ name) ''chainmail_armor'' 1 w h False slot result_id 1])))
      [([chain, chain, chain, chain, [0], chain], 815, ''chainmail_helmet''), ([chain, [0], chain, chain, chain, chain, chain, chain, chain], 816, ''chainmail_chestplate''), ([chain, chain, chain, chain, [0], chain, chain, [0], chain], 817, ''chainmail_leggings''), ([[0], [0], [0], chain, [0], chain], 818, ''chainmail_boots'')])))"

definition variant_recipes_5 :: "recipe list" where
  "variant_recipes_5 =
   ([Recipe_of ''minecraft:brewing_stand'' ''brewing'' 0 3 3 False [[0], [0], [0], [0], [985], [0], [12], [12], [12]] 117 1,
     Recipe_of ''minecraft:cauldron'' ''brewing'' 0 3 3 False [[778], [0], [778], [778], [0], [778], [778], [778], [778]] 118 1,
     Recipe_of ''minecraft:jukebox'' ''building'' 0 3 3 False [[13], [13], [13], [13], [777], [13], [13], [13], [13]] 84 1,
     Recipe_of ''minecraft:lodestone'' ''building'' 0 3 3 False [[73], [73], [73], [73], [961], [73], [73], [73], [73]] 1087 1,
     Recipe_of ''minecraft:respawn_anchor'' ''building'' 0 3 3 False [[89], [89], [89], [1091], [1091], [1091], [89], [89], [89]] 1088 1] @
    concat (map (\<lambda>(diamond_id, netherite_id, name).
        [Recipe_of (''minecraft:'' @ name) ''netherite'' 1 1 2 False [[diamond_id], [1235]] netherite_id 1])
      [(790, 1232, ''netherite_pickaxe''), (791, 1233, ''netherite_axe''), (789, 1231, ''netherite_shovel''), (793, 1234, ''netherite_hoe''), (792, 1230, ''netherite_sword''), (823, 1226, ''netherite_helmet''), (824, 1227, ''netherite_chestplate''), (825, 1228, ''netherite_leggings''), (826, 1229, ''netherite_boots'')]) @
    [Recipe_of ''minecraft:blaze_powder'' ''misc'' 2 1 1 False [[985]] 985 2,
     Recipe_of ''minecraft:magma_cream'' ''misc'' 2 1 2 False [[920], [985]] 925 1,
     Recipe_of ''minecraft:fire_charge'' ''misc'' 2 1 3 False [[985], [775], [954]] 926 3,
     Recipe_of ''minecraft:tinted_glass'' ''building'' 0 3 3 False [[1046], [1046], [1046], [1046], [66], [1046], [1046], [1046], [1046]] 1096 2,
     Recipe_of ''minecraft:spyglass'' ''tool'' 1 1 3 False [[1046], [567], [567]] 1057 1,
     Recipe_of ''minecraft:lightning_rod'' ''building'' 0 1 3 False [[567], [567], [567]] 1222 1,
     Recipe_of ''minecraft:crossbow'' ''equipment'' 1 3 3 False [[794], [287], [794], [1163], [778], [1163], [0], [794], [0]] 941 1,
     Recipe_of ''minecraft:soul_torch'' ''lighting'' 2 1 3 False [[775], [794], [85]] 1089 4,
     Recipe_of ''minecraft:soul_lantern'' ''lighting'' 2 3 3 False [[1000], [1000], [1000], [1000], [1089], [1000], [1000], [1000], [1000]] 1090 1,
     Recipe_of ''minecraft:lectern'' ''building'' 0 3 3 False [[139], [139], [139], [0], [105], [0], [0], [139], [0]] 459 1,
     Recipe_of ''minecraft:beehive'' ''building'' 0 3 3 False [[13], [13], [13], [1053], [1053], [1053], [13], [13], [13]] 1098 1,
     Recipe_of ''minecraft:honey_block'' ''building'' 0 2 2 False (replicate 4 [1054]) 1099 1,
     Recipe_of ''minecraft:honeycomb_block'' ''building'' 0 2 2 False (replicate 4 [1053]) 1100 1,
     Recipe_of ''minecraft:iron_bars'' ''building'' 0 3 2 False (replicate 6 [778]) 102 16])"

definition variant_add_stairs :: "string \<Rightarrow> u32 \<Rightarrow> u32 \<Rightarrow> recipe" where
  "variant_add_stairs name material result = Recipe_of (''minecraft:'' @ name) ''stairs'' 0 3 3 False [[material], [0], [0], [material], [material], [0], [material], [material], [material]] result 4"

definition variant_add_slab :: "string \<Rightarrow> u32 \<Rightarrow> u32 \<Rightarrow> recipe" where
  "variant_add_slab name material result = Recipe_of (''minecraft:'' @ name) ''slabs'' 0 3 1 False [[material], [material], [material]] result 6"

definition variant_add_wall :: "string \<Rightarrow> u32 \<Rightarrow> u32 \<Rightarrow> recipe" where
  "variant_add_wall name material result = Recipe_of (''minecraft:'' @ name) ''walls'' 0 3 3 False [[material], [material], [material], [material], [material], [material], [0], [0], [0]] result 6"

definition variant_recipes_6 :: "recipe list" where
  "variant_recipes_6 =
   ([Recipe_of ''minecraft:glass_pane'' ''building'' 0 3 2 False (replicate 6 [66]) 102 16,
     Recipe_of ''minecraft:piston_correct'' ''redstone'' 0 3 3 False [[13], [13], [13], [12], [778], [12], [12], [993], [12]] 206 1,
     Recipe_of ''minecraft:observer_correct'' ''redstone'' 0 3 3 False [[12], [12], [12], [993], [993], [155], [12], [12], [12]] 317 1,
     Recipe_of ''minecraft:trapped_chest'' ''redstone'' 0 1 2 False [[620], [287]] 146 1,
     Recipe_of ''minecraft:daylight_detector_correct'' ''redstone'' 0 3 3 False [[66], [66], [66], [155], [155], [155], [139], [139], [139]] 151 1,
     Recipe_of ''minecraft:shulker_box'' ''misc'' 2 1 3 False [[1037], [1037], [620]] 290 1,
     variant_add_stairs ''andesite_stairs'' 6 654,
     variant_add_slab ''andesite_slab'' 6 655,
     variant_add_wall ''andesite_wall'' 6 656,
     variant_add_stairs ''diorite_stairs'' 4 659,
     variant_add_slab ''diorite_slab'' 4 660,
     variant_add_wall ''diorite_wall'' 4 661,
     variant_add_stairs ''granite_stairs'' 2 664,
     variant_add_slab ''granite_slab'' 2 665,
     variant_add_wall ''granite_wall'' 2 666,
     variant_add_stairs ''polished_andesite_stairs'' 7 657,
     variant_add_slab ''polished_andesite_slab'' 7 658,
     variant_add_stairs ''polished_diorite_stairs'' 5 662,
     variant_add_slab ''polished_diorite_slab'' 5 663,
     variant_add_stairs ''polished_granite_stairs'' 3 667,
     variant_add_slab ''polished_granite_slab'' 3 668,
     variant_add_stairs ''mossy_cobblestone_stairs'' 48 648,
     variant_add_slab ''mossy_cobblestone_slab'' 48 649,
     variant_add_wall ''mossy_cobblestone_wall'' 48 650,
     variant_add_stairs ''mossy_stone_brick_stairs'' 72 651,
     variant_add_slab ''mossy_stone_brick_slab'' 72 652,
     variant_add_wall ''mossy_stone_brick_wall'' 72 653,
     variant_add_stairs ''stone_stairs'' 1 640,
     variant_add_slab ''stone_slab'' 1 641,
     variant_add_stairs ''cobblestone_stairs'' 12 645,
     variant_add_slab ''cobblestone_slab'' 12 646,
     variant_add_wall ''cobblestone_wall'' 12 647,
     variant_add_stairs ''sandstone_stairs'' 71 691,
     variant_add_slab ''sandstone_slab'' 71 692,
     variant_add_wall ''sandstone_wall'' 71 693,
     variant_add_stairs ''nether_brick_stairs'' 405 681,
     variant_add_slab ''nether_brick_slab'' 405 682,
     variant_add_wall ''nether_brick_wall'' 405 683,
     variant_add_stairs ''quartz_stairs'' 403 687,
     variant_add_slab ''quartz_slab'' 403 688,
     variant_add_stairs ''prismarine_stairs'' 1092 701,
     variant_add_slab ''prismarine_slab'' 1092 702,
     variant_add_wall ''prismarine_wall'' 1092 703,
     variant_add_stairs ''prismarine_brick_stairs'' 1094 704,
     variant_add_slab ''prismarine_brick_slab'' 1094 705,
     variant_add_stairs ''dark_prismarine_stairs'' 1095 706,
     variant_add_slab ''dark_prismarine_slab'' 1095 707,
     variant_add_stairs ''brick_stairs'' 45 108,
     variant_add_slab ''brick_slab'' 45 114,
     variant_add_stairs ''purpur_stairs'' 439 442,
     variant_add_slab ''purpur_slab'' 439 443,
     variant_add_stairs ''end_stone_brick_stairs'' 154 1304])"

definition variant_paper_v :: "u32 list" where
  "variant_paper_v = [1045]"

definition variant_vine_v :: "u32 list" where
  "variant_vine_v = [141]"

definition variant_brick_v :: "u32 list" where
  "variant_brick_v = [103]"

definition variant_recipes_7 :: "recipe list" where
  "variant_recipes_7 =
   ([variant_add_slab ''end_stone_brick_slab'' 154 1305,
     variant_add_wall ''end_stone_brick_wall'' 154 1306,
     variant_add_stairs ''sulfur_stairs'' 1240 1241,
     variant_add_slab ''sulfur_slab'' 1240 1242,
     variant_add_wall ''sulfur_wall'' 1240 1267,
     variant_add_stairs ''polished_sulfur_stairs'' 1243 1244,
     variant_add_slab ''polished_sulfur_slab'' 1243 1245,
     variant_add_wall ''polished_sulfur_wall'' 1243 1268,
     variant_add_stairs ''sulfur_brick_stairs'' 1246 1247,
     variant_add_slab ''sulfur_brick_slab'' 1246 1248,
     variant_add_wall ''sulfur_brick_wall'' 1246 1249,
     Recipe_of ''minecraft:polished_sulfur'' ''building'' 0 2 2 False [[1240], [1240], [1240], [1240]] 1243 4,
     Recipe_of ''minecraft:sulfur_bricks'' ''building'' 0 2 2 False [[1240], [1240], [1240], [1240]] 1246 4,
     Recipe_of ''minecraft:chiseled_sulfur'' ''building'' 0 1 2 False [[1242], [1242]] 1250 1,
     Recipe_of ''minecraft:sulfur_block_from_spike'' ''building'' 0 2 2 False [[1251], [1251], [1251], [1251]] 1240 1,
     variant_add_stairs ''cinnabar_stairs'' 1253 1254,
     variant_add_slab ''cinnabar_slab'' 1253 1255,
     variant_add_wall ''cinnabar_wall'' 1253 1269,
     variant_add_stairs ''polished_cinnabar_stairs'' 1256 1257,
     variant_add_slab ''polished_cinnabar_slab'' 1256 1258,
     variant_add_wall ''polished_cinnabar_wall'' 1256 1270,
     variant_add_stairs ''cinnabar_brick_stairs'' 1259 1260,
     variant_add_slab ''cinnabar_brick_slab'' 1259 1261,
     variant_add_wall ''cinnabar_brick_wall'' 1259 1262,
     Recipe_of ''minecraft:polished_cinnabar'' ''building'' 0 2 2 False [[1253], [1253], [1253], [1253]] 1256 4,
     Recipe_of ''minecraft:cinnabar_bricks'' ''building'' 0 2 2 False [[1253], [1253], [1253], [1253]] 1259 4,
     Recipe_of ''minecraft:chiseled_cinnabar'' ''building'' 0 1 2 False [[1255], [1255]] 1263 1,
     variant_add_stairs ''cobbled_deepslate_stairs'' 1341 1342,
     variant_add_slab ''cobbled_deepslate_slab'' 1341 1343,
     variant_add_wall ''cobbled_deepslate_wall'' 1341 1344,
     variant_add_stairs ''polished_deepslate_stairs'' 1345 1346,
     variant_add_slab ''polished_deepslate_slab'' 1345 1347,
     variant_add_wall ''polished_deepslate_wall'' 1345 1348,
     variant_add_stairs ''deepslate_brick_stairs'' 1349 1350,
     variant_add_slab ''deepslate_brick_slab'' 1349 1351,
     variant_add_wall ''deepslate_brick_wall'' 1349 1352,
     variant_add_stairs ''deepslate_tile_stairs'' 1353 1354,
     variant_add_slab ''deepslate_tile_slab'' 1353 1355,
     variant_add_wall ''deepslate_tile_wall'' 1353 1356,
     variant_add_stairs ''red_nether_brick_stairs'' 1329 1330,
     variant_add_slab ''red_nether_brick_slab'' 1329 1331,
     variant_add_wall ''red_nether_brick_wall'' 1329 1332,
     variant_add_stairs ''purpur_stairs'' 439 1327,
     variant_add_slab ''purpur_slab'' 439 1328,
     Recipe_of ''minecraft:purpur_pillar'' ''building'' 0 1 2 False [[1328], [1328]] 1326 1] @
    (let oxeye = [1007] in
    (let wither_skull_v = [1012] in
    (let creeper_head = [1013] in
    [Recipe_of ''minecraft:flower_banner_pattern'' ''misc'' 2 1 2 False [variant_paper_v, oxeye] 1000 1,
     Recipe_of ''minecraft:creeper_banner_pattern'' ''misc'' 2 1 2 False [variant_paper_v, creeper_head] 1001 1,
     Recipe_of ''minecraft:skull_banner_pattern'' ''misc'' 2 1 2 False [variant_paper_v, wither_skull_v] 1002 1]))))"

definition variant_recipes_8 :: "recipe list" where
  "variant_recipes_8 =
   ([Recipe_of ''minecraft:mojang_banner_pattern'' ''misc'' 2 1 2 False [variant_paper_v, [774]] 1003 1,
     Recipe_of ''minecraft:globe_banner_pattern'' ''misc'' 2 1 2 False [variant_paper_v, variant_vine_v] 1004 1,
     Recipe_of ''minecraft:field_masoned_banner_pattern'' ''misc'' 2 1 2 False [[1045], variant_brick_v] 1005 1] @
    (let gunpowder = [933] in
    (let paper_single = [1045] in
    [Recipe_of ''minecraft:firework_rocket'' ''misc'' 2 1 2 False [paper_single, gunpowder] 1048 3] @
    concat (map (\<lambda>i.
        (let dye = [991, 981, 988, 1302, 980, 987, 986, 985, 984, 983, 982, 979, 989, 978, 977, 990] ! (unat i) in
        [Recipe_of (''minecraft:firework_star_'' @ show_nat (unat i)) ''misc'' 2 1 2 True [gunpowder, [dye]] (1049 + i) 1]))
      (map of_nat [0..<16])) @
    (let diamond_gem = [777] in
    (let cobbled = [12] in
    concat (map (\<lambda>(template_id, name).
        [Recipe_of (''minecraft:'' @ name @ ''_armor_trim_duplicate'') ''misc'' 2 1 3 False [diamond_gem, [template_id], cobbled] template_id 2])
      [(1014, ''sentry''), (1015, ''vex''), (1016, ''wild''), (1017, ''coast''), (1018, ''dune''), (1019, ''ward''), (1020, ''eye'')]) @
    [Recipe_of ''minecraft:suspicious_stew'' ''food'' 2 1 1 True [[113], [114], [915], [202]] 876 1] @
    (let arrow_item = [943] in
    concat (map (\<lambda>(potion_type, name).
        [Recipe_of (''minecraft:tipped_arrow_'' @ name) ''combat'' 1 1 3 False [arrow_item, arrow_item, [potion_type], arrow_item, arrow_item, [potion_type], arrow_item, arrow_item, [potion_type]] (potion_type + 40) 8])
      [(996, ''slowness''), (997, ''poison''), (998, ''weakness''), (999, ''harming'')]) @
    [Recipe_of ''minecraft:shield_banner'' ''combat'' 1 1 2 True [[895], [898]] 1047 1,
     Recipe_of ''minecraft:dried_kelp'' ''food'' 2 1 1 False [[1086]] 1036 9] @
    concat (map (\<lambda>armor_id.
        concat (map (\<lambda>dye_id.
            [Recipe_of (''minecraft:dye_leather_'' @ show_nat (unat armor_id)) ''armor_dye'' 2 1 1 True [[armor_id], [dye_id]] armor_id 1])
          variant_dye_ids))
      [811, 812, 813, 814]) @
    [Recipe_of ''minecraft:recovery_compass'' ''tool'' 1 3 3 False [[947], [947], [947], [947], [894], [947], [947], [947], [947]] 1058 1,
     Recipe_of ''minecraft:bundle'' ''tool'' 1 3 3 False [[844], [844], [844], [844], [1163], [844], [844], [844], [844]] 1062 1,
     Recipe_of ''minecraft:brush'' ''tool'' 1 1 3 False [[932], [567], [794]] 1063 1,
     Recipe_of ''minecraft:redstone_lamp'' ''redstone'' 0 3 3 False [[993], [993], [993], [993], [89], [993], [993], [993], [993]] 318 1,
     Recipe_of ''minecraft:heavy_weighted_pressure_plate'' ''redstone'' 0 2 1 False [[778], [778]] 1044 1,
     Recipe_of ''minecraft:light_weighted_pressure_plate'' ''redstone'' 0 2 1 False [[779], [779]] 1043 1]))))))"

definition variant_recipes_9 :: "recipe list" where
  "variant_recipes_9 =
   ([Recipe_of ''minecraft:glow_item_frame'' ''misc'' 2 1 2 False [[1057], [1052]] 1064 1,
     Recipe_of ''minecraft:white_banner'' ''misc'' 2 3 3 False [[64], [64], [64], [64], [64], [64], [0], [794], [0]] 1021 1,
     Recipe_of ''minecraft:loom_pattern'' ''misc'' 2 1 2 False [[1045], [13]] 1022 1,
     Recipe_of ''minecraft:tipped_arrow'' ''equipment'' 1 3 3 False [[774], [774], [774], [774], [1033], [774], [774], [774], [774]] 1065 8,
     Recipe_of ''minecraft:spectral_arrow'' ''equipment'' 1 3 3 False [[913], [913], [913], [913], [774], [0], [0], [0], [0]] 1066 2,
     Recipe_of ''minecraft:beetroot_soup_correct'' ''food'' 2 1 1 True [[875], [875], [875], [875], [875], [875], [915]] 877 1,
     Recipe_of ''minecraft:melon'' ''food'' 0 3 3 False (replicate 9 [899]) 103 1,
     Recipe_of ''minecraft:melon_slice'' ''food'' 0 1 1 False [[103]] 899 9,
     Recipe_of ''minecraft:redstone_torch'' ''redstone'' 0 1 2 False [[993], [794]] 994 1,
     Recipe_of ''minecraft:note_block_correct'' ''redstone'' 0 3 3 False [[13], [13], [13], [13], [993], [13], [13], [13], [13]] 74 1,
     Recipe_of ''minecraft:activator_rail'' ''transport'' 2 3 3 False [[778], [794], [778], [778], [994], [778], [778], [794], [778]] 157 6,
     Recipe_of ''minecraft:nether_brick_block'' ''building'' 0 2 2 False (replicate 4 [405]) 405 1,
     Recipe_of ''minecraft:end_stone_bricks'' ''building'' 0 2 2 False (replicate 4 [441]) 439 4,
     Recipe_of ''minecraft:smooth_sandstone'' ''building'' 0 2 2 False (replicate 4 [71]) 1103 4,
     Recipe_of ''minecraft:chiseled_sandstone'' ''building'' 0 1 2 False [[692], [692]] 72 1,
     Recipe_of ''minecraft:cut_sandstone'' ''building'' 0 2 2 False (replicate 4 [71]) 73 4,
     Recipe_of ''minecraft:flower_pot'' ''decoration'' 2 3 3 False [[45], [0], [45], [0], [0], [0], [0], [45], [0]] 329 1] @
    concat (map (\<lambda>i.
        [Recipe_of (''minecraft:'' @ (snd (variant_dye_sources ! i)) @ ''_stained_glass_pane'') ''decoration'' 0 3 3 False [[1324], [1324], [1324], [1324], [variant_dye_ids ! i], [1324], [1324], [1324], [1324]] (1308 + (of_nat i)) 8])
      [1..<16]) @
    [Recipe_of ''minecraft:bookshelf_correct'' ''building'' 0 3 3 False [[13], [13], [13], [892], [892], [892], [13], [13], [13]] 105 1])"

definition variant_add_food :: "string \<Rightarrow> u32 list list \<Rightarrow> u32 \<Rightarrow> u8 \<Rightarrow> recipe" where
  "variant_add_food ident ingredients result cnt = Recipe_of (''minecraft:'' @ ident) ''food'' 2 1 (of_nat (length ingredients)) True ingredients result cnt"

definition variant_recipes_10 :: "recipe list" where
  "variant_recipes_10 =
   ([Recipe_of ''minecraft:name_tag'' ''misc'' 2 1 3 False [[1045], [1163], [1000]] 1042 1,
     Recipe_of ''minecraft:saddle'' ''misc'' 2 3 3 False [[831], [831], [831], [778], [0], [778], [831], [831], [831]] 1043 1] @
    concat (map (\<lambda>i.
        [Recipe_of (''minecraft:'' @ (snd (variant_dye_sources ! i)) @ ''_bed_recipe'') ''bed'' 0 3 3 False [[0], [0], [0], [variant_wool_ids ! i], [variant_wool_ids ! i], [variant_wool_ids ! i], [13], [13], [13]] (variant_bed_ids ! i) 1])
      [0..<16]) @
    (let tipped_arrow_base = 1065 in
    concat (map (\<lambda>i.
        [Recipe_of (''minecraft:tipped_arrow_'' @ (snd (variant_dye_sources ! i))) ''equipment'' 1 3 3 False [[774], [774], [774], [774], [variant_dye_ids ! i], [774], [774], [774], [774]] tipped_arrow_base 8])
      [0..<16]) @
    concat (map (\<lambda>i.
        [Recipe_of (''minecraft:'' @ (snd (variant_dye_sources ! i)) @ ''_concrete'') ''building'' 0 3 3 False (replicate 1 [variant_concrete_powder_ids ! i]) (concrete_ids (of_nat i)) 1])
      [0..<16]) @
    [Recipe_of ''minecraft:polished_basalt'' ''building'' 0 2 2 False (replicate 4 [1107]) 1108 4,
     Recipe_of ''minecraft:candle'' ''decoration'' 2 1 2 False [[1163], [1053]] 1109 1] @
    concat (map (\<lambda>i.
        [Recipe_of (''minecraft:'' @ (snd (variant_dye_sources ! i)) @ ''_candle'') ''decoration'' 2 1 2 False [[1109], [variant_dye_ids ! i]] (1110 + (of_nat i)) 1])
      [0..<16]) @
    [variant_add_food ''rabbit_stew_from_potato'' [[870], [871], [873], [114], [915]] 873 1] @
    concat (map (\<lambda>(name, base, result).
        [Recipe_of (''minecraft:'' @ name) ''food'' 2 3 3 False ((replicate 8 [1000]) @ [[base]]) result 1])
      [(''golden_carrot'', 871, 871), (''glistering_melon_slice'', 899, 1032)]) @
    [variant_add_wall ''stone_brick_wall'' 98 644,
     variant_add_wall ''mossy_stone_brick_wall'' 72 653,
     variant_add_wall ''brick_wall'' 45 115] @
    (let cobbled_deepslate = 1101 in
    [Recipe_of ''minecraft:polished_deepslate'' ''building'' 0 2 2 False (replicate 4 [cobbled_deepslate]) 1102 4,
     Recipe_of ''minecraft:deepslate_bricks'' ''building'' 0 2 2 False (replicate 4 [1102]) 1103 4,
     Recipe_of ''minecraft:deepslate_tiles'' ''building'' 0 2 2 False (replicate 4 [1103]) 1104 4,
     variant_add_stairs ''cobbled_deepslate_stairs'' cobbled_deepslate 678,
     variant_add_slab ''cobbled_deepslate_slab'' cobbled_deepslate 679,
     variant_add_wall ''cobbled_deepslate_wall'' cobbled_deepslate 680,
     variant_add_stairs ''polished_deepslate_stairs'' 1102 675,
     variant_add_slab ''polished_deepslate_slab'' 1102 676,
     variant_add_wall ''polished_deepslate_wall'' 1102 677,
     variant_add_stairs ''deepslate_brick_stairs'' 1103 669,
     variant_add_slab ''deepslate_brick_slab'' 1103 670,
     variant_add_wall ''deepslate_brick_wall'' 1103 671,
     variant_add_stairs ''deepslate_tile_stairs'' 1104 672,
     variant_add_slab ''deepslate_tile_slab'' 1104 673,
     variant_add_wall ''deepslate_tile_wall'' 1104 674,
     Recipe_of ''minecraft:sculk_sensor'' ''redstone'' 0 3 3 False [[1214], [1215], [1214], [1215], [1216], [1215], [1214], [1215], [1214]] 354 1,
     Recipe_of ''minecraft:calibrated_sculk_sensor'' ''redstone'' 0 3 3 False [[0], [1046], [0], [1046], [354], [1046], [0], [1046], [0]] 355 1])))"

definition variant_recipes_11 :: "recipe list" where
  "variant_recipes_11 =
   ([Recipe_of ''minecraft:mud_bricks_recipe'' ''building'' 0 2 2 False (replicate 4 [1208]) 1207 4,
     variant_add_stairs ''mud_brick_stairs'' 1207 1209,
     variant_add_slab ''mud_brick_slab'' 1207 1210,
     variant_add_wall ''mud_brick_wall'' 1207 1211,
     Recipe_of ''minecraft:mossy_cobblestone'' ''building'' 0 1 2 False [[12], [1198]] 500 1,
     Recipe_of ''minecraft:mossy_stone_bricks_recipe'' ''building'' 0 1 2 False [[98], [1198]] 72 1,
     Recipe_of ''minecraft:amethyst_block_recipe'' ''building'' 0 2 2 False (replicate 4 [1046]) 1154 1] @
    concat (map (\<lambda>i.
        [Recipe_of (''minecraft:'' @ (snd (variant_dye_sources ! i)) @ ''_carpet_recipe'') ''carpet'' 0 3 1 False [[variant_wool_ids ! i], [variant_wool_ids ! i], [0]] (1126 + (of_nat i)) 3])
      [0..<16]) @
    concat (map (\<lambda>i.
        [Recipe_of (''minecraft:'' @ (snd (variant_dye_sources ! i)) @ ''_glazed_terracotta'') ''building'' 0 1 1 False [[variant_terracotta_ids ! i]] (1110 + (of_nat i)) 1])
      [0..<16]) @
    [Recipe_of ''minecraft:soul_lantern_recipe'' ''lighting'' 2 3 3 False ((replicate 8 [1000]) @ [[1089]]) 1090 1,
     Recipe_of ''minecraft:furnace_minecart'' ''transport'' 2 1 2 False [[114], [950]] 951 1,
     Recipe_of ''minecraft:lead_recipe'' ''tool'' 1 3 3 False [[1163], [1163], [1163], [1163], [920], [0], [0], [0], [0]] 1044 2,
     Recipe_of ''minecraft:clock_recipe'' ''tool'' 2 3 3 False [[0], [779], [0], [779], [993], [779], [0], [779], [0]] 1043 1,
     Recipe_of ''minecraft:cake_recipe'' ''food'' 2 3 3 False [[916], [916], [916], [885], [884], [885], [809], [809], [809]] 880 1,
     Recipe_of ''minecraft:cookie_recipe'' ''food'' 2 1 2 True [[809], [809], [844]] 882 8,
     Recipe_of ''minecraft:pumpkin_pie_recipe'' ''food'' 2 1 1 True [[124], [885], [884]] 881 1,
     Recipe_of ''minecraft:armor_stand_recipe'' ''decoration'' 2 3 3 False [[794], [794], [794], [0], [794], [0], [0], [641], [0]] 1055 1] @
    concat (map (\<lambda>i.
        [Recipe_of (''minecraft:'' @ (snd (variant_dye_sources ! i)) @ ''_shulker_box_recipe'') ''decoration'' 2 1 2 False [[1077], [variant_dye_ids ! i]] ((1078 + (of_nat i)) - 1) 1])
      [1..<16]) @
    concat (map (\<lambda>i.
        [Recipe_of (''minecraft:'' @ (snd (variant_dye_sources ! i)) @ ''_concrete_from_powder'') ''building'' 0 3 3 False (replicate 1 [variant_concrete_powder_ids ! i]) (concrete_ids (of_nat i)) 1])
      [0..<16]) @
    concat (map (\<lambda>i.
        [Recipe_of (''minecraft:'' @ (snd (variant_dye_sources ! i)) @ ''_stained_glass_recipe'') ''building'' 0 3 3 False ((replicate 8 [66]) @ [[variant_dye_ids ! i]]) (variant_glass_ids ! i) 8])
      [1..<16]))"

definition variant_recipes_12 :: "recipe list" where
  "variant_recipes_12 =
   (concat (map (\<lambda>i.
        [Recipe_of (''minecraft:'' @ (snd (variant_dye_sources ! i)) @ ''_stained_glass_pane_recipe'') ''building'' 0 3 3 False ((replicate 8 [1324]) @ [[variant_dye_ids ! i]]) (1308 + (of_nat i)) 8])
      [1..<16]) @
    concat (map (\<lambda>(mat, result, name).
        [Recipe_of (''minecraft:'' @ name @ ''_from_stone'') ''stone'' 0 2 2 False (replicate 4 [mat]) result 4])
      [(2, 7, ''polished_andesite''), (4, 5, ''polished_diorite''), (6, 3, ''polished_granite'')]) @
    [Recipe_of ''minecraft:diorite'' ''stone'' 0 2 2 False [[12], [155], [155], [12]] 4 2,
     Recipe_of ''minecraft:andesite'' ''stone'' 0 1 2 False [[4], [12]] 6 2,
     Recipe_of ''minecraft:granite'' ''stone'' 0 1 2 False [[4], [155]] 2 2,
     Recipe_of ''minecraft:smooth_stone_slab'' ''slabs'' 0 3 1 False (replicate 3 [44]) 44 6,
     Recipe_of ''minecraft:chiseled_stone_bricks_recipe'' ''building'' 0 1 2 False [[44], [44]] 73 1,
     Recipe_of ''minecraft:cut_sandstone_recipe'' ''building'' 0 1 2 False [[692], [692]] 73 1,
     Recipe_of ''minecraft:chiseled_quartz_block'' ''building'' 0 1 2 False [[688], [688]] 404 1,
     Recipe_of ''minecraft:quartz_pillar'' ''building'' 0 1 2 False [[403], [403]] 405 2] @
    concat (map (\<lambda>i.
        [Recipe_of (''minecraft:'' @ (snd (variant_dye_sources ! i)) @ ''_banner'') ''decoration'' 2 1 2 False [[1021 + (of_nat i)], [variant_dye_ids ! i]] (1021 + (of_nat i)) 1])
      [0..<16]) @
    [Recipe_of ''minecraft:nether_wart_block'' ''building'' 0 3 3 False (replicate 9 [1003]) 1004 1,
     Recipe_of ''minecraft:bone_block'' ''building'' 0 3 3 False (replicate 9 [978]) 1325 1,
     Recipe_of ''minecraft:bone_meal_from_block'' ''misc'' 2 1 1 False [[1051]] 978 9,
     Recipe_of ''minecraft:cobweb_to_string'' ''misc'' 2 1 1 False [[78]] 1163 4,
     Recipe_of ''minecraft:packed_ice'' ''building'' 0 3 3 False (replicate 9 [79]) 119 1,
     Recipe_of ''minecraft:blue_ice'' ''building'' 0 3 3 False (replicate 9 [119]) 120 1,
     Recipe_of ''minecraft:coarse_dirt'' ''building'' 0 2 2 False [[26], [9], [9], [26]] 10 4,
     Recipe_of ''minecraft:dripstone_block_recipe'' ''building'' 0 2 2 False (replicate 4 [1157]) 1156 1])"

definition variant_recipes_13 :: "recipe list" where
  "variant_recipes_13 =
   ([Recipe_of ''minecraft:bowl'' ''misc'' 2 3 3 False [[13], [0], [13], [0], [13], [0], [0], [0], [0]] 915 4,
     Recipe_of ''minecraft:painting_recipe'' ''decoration'' 2 3 3 False ((replicate 8 [794]) @ [[64]]) 1056 1,
     Recipe_of ''minecraft:white_wool_from_string'' ''building'' 0 2 2 False (replicate 4 [1163]) 64 1,
     Recipe_of ''minecraft:stick_from_bamboo'' ''misc'' 2 1 2 False [[42], [42]] 794 1,
     Recipe_of ''minecraft:chest_from_any_planks'' ''building'' 0 3 3 False [[13], [13], [13], [13], [0], [13], [13], [13], [13]] 620 1] @
    (let nether_brick_item = [405] in
    [Recipe_of ''minecraft:nether_brick_fence_recipe'' ''fence'' 0 3 3 False [nether_brick_item, [794], nether_brick_item, nether_brick_item, [794], nether_brick_item, [0], [0], [0]] 406 6,
     Recipe_of ''minecraft:red_nether_bricks'' ''building'' 0 2 2 False [[1003], [1003], [405], [405]] 1106 1,
     variant_add_stairs ''red_nether_brick_stairs'' 1106 684,
     variant_add_slab ''red_nether_brick_slab'' 1106 685,
     variant_add_wall ''red_nether_brick_wall'' 1106 686,
     variant_add_stairs ''smooth_quartz_stairs'' 404 689,
     variant_add_slab ''smooth_quartz_slab'' 404 690,
     variant_add_stairs ''smooth_sandstone_stairs'' 1103 694,
     variant_add_slab ''smooth_sandstone_slab'' 1103 695,
     variant_add_stairs ''smooth_red_sandstone_stairs'' 1107 699,
     variant_add_slab ''smooth_red_sandstone_slab'' 1107 700,
     variant_add_stairs ''prismarine_brick_stairs_recipe'' 1094 704,
     variant_add_slab ''prismarine_brick_slab_recipe'' 1094 705,
     variant_add_stairs ''dark_prismarine_stairs_recipe'' 1095 706,
     variant_add_slab ''dark_prismarine_slab_recipe'' 1095 707,
     Recipe_of ''minecraft:polished_blackstone'' ''building'' 0 2 2 False (replicate 4 [1108]) 1109 4,
     Recipe_of ''minecraft:polished_blackstone_bricks'' ''building'' 0 2 2 False (replicate 4 [1109]) 1110 4,
     variant_add_stairs ''blackstone_stairs'' 1108 708,
     variant_add_slab ''blackstone_slab'' 1108 709,
     variant_add_wall ''blackstone_wall'' 1108 710,
     variant_add_stairs ''polished_blackstone_stairs'' 1109 711,
     variant_add_slab ''polished_blackstone_slab'' 1109 712,
     variant_add_wall ''polished_blackstone_wall'' 1109 713,
     variant_add_stairs ''polished_blackstone_brick_stairs'' 1110 714,
     variant_add_slab ''polished_blackstone_brick_slab'' 1110 715,
     variant_add_wall ''polished_blackstone_brick_wall'' 1110 716,
     Recipe_of ''minecraft:mushroom_stew_shapeless'' ''food'' 2 1 1 True [[113], [114], [915]] 868 1,
     Recipe_of ''minecraft:beetroot_soup_shapeless'' ''food'' 2 1 1 True [[875], [875], [875], [875], [875], [875], [915]] 877 1] @
    concat (map (\<lambda>(tool_id, name).
        [Recipe_of (''minecraft:'' @ name @ ''_repair'') ''repair'' 1 1 2 False [[tool_id], [tool_id]] tool_id 1])
      [(781, ''wooden_sword''), (785, ''stone_sword''), (780, ''iron_sword''), (792, ''diamond_sword'')]) @
    (let water_bucket = [910] in
    concat (map (\<lambda>i.
        [Recipe_of (''minecraft:'' @ (snd (variant_dye_sources ! i)) @ ''_concrete_wet'') ''building'' 0 3 3 True ((replicate 8 [variant_concrete_powder_ids ! i]) @ [water_bucket]) (concrete_ids (of_nat i)) 8])
      [0..<16]))))"

definition variant_recipes_14 :: "recipe list" where
  "variant_recipes_14 =
   (concat (map (\<lambda>i.
        [Recipe_of (''minecraft:'' @ (snd (variant_dye_sources ! i)) @ ''_terracotta_recipe'') ''building'' 0 3 3 False ((replicate 8 [172]) @ [[variant_dye_ids ! i]]) (variant_terracotta_ids ! i) 8])
      [1..<16]) @
    concat (map (\<lambda>i.
        [Recipe_of (''minecraft:'' @ (snd (variant_dye_sources ! i)) @ ''_bed_dyed'') ''bed'' 0 3 3 False [[0], [0], [0], [variant_wool_ids ! i], [variant_wool_ids ! i], [variant_wool_ids ! i], [13], [13], [13]] (variant_bed_ids ! i) 1])
      [0..<16]) @
    concat (map (\<lambda>i.
        [Recipe_of (''minecraft:'' @ (snd (variant_dye_sources ! i)) @ ''_concrete_powder_shapeless'') ''building'' 0 1 1 True [[24], [24], [24], [24], [26], [26], [26], [26], [variant_dye_ids ! i]] (variant_concrete_powder_ids ! i) 8])
      [0..<16]) @
    [Recipe_of ''minecraft:cracked_stone_bricks'' ''building'' 0 1 2 False [[98], [98]] 109 2,
     Recipe_of ''minecraft:cracked_deepslate_bricks'' ''building'' 0 1 1 False [[1103]] 1111 1,
     Recipe_of ''minecraft:cracked_deepslate_tiles'' ''building'' 0 1 1 False [[1104]] 1112 1,
     Recipe_of ''minecraft:cracked_nether_bricks'' ''building'' 0 1 1 False [[405]] 1113 1,
     Recipe_of ''minecraft:cracked_polished_blackstone_bricks'' ''building'' 0 1 1 False [[1110]] 1114 1,
     Recipe_of ''minecraft:terracotta_from_clay'' ''building'' 0 3 3 False ((replicate 8 [82]) @ [[0]]) 1166 8,
     Recipe_of ''minecraft:sandstone_from_sand'' ''building'' 0 2 2 False (replicate 4 [24]) 71 1,
     Recipe_of ''minecraft:red_sandstone'' ''building'' 0 2 2 False (replicate 4 [25]) 1102 1] @
    (let slab_conversions = [(1092, 702, ''prismarine''), (1094, 705, ''prismarine_brick''), (1095, 707, ''dark_prismarine''), (439, 443, ''purpur''), (154, 1305, ''end_stone_brick''), (1207, 1210, ''mud_brick'')] in
    concat (map (\<lambda>(full, slab, name).
        [variant_add_slab (name @ ''_slab_from_full'') full slab])
      slab_conversions) @
    (let stair_conversions = [(1092, 701, ''prismarine''), (1094, 704, ''prismarine_brick''), (1095, 706, ''dark_prismarine''), (439, 442, ''purpur''), (154, 1304, ''end_stone_brick''), (1207, 1209, ''mud_brick'')] in
    concat (map (\<lambda>(full, stair, name).
        [variant_add_stairs (name @ ''_stairs_from_full'') full stair])
      stair_conversions) @
    (let wall_conversions = [(154, 1306, ''end_stone_brick''), (1207, 1211, ''mud_brick''), (1106, 686, ''red_nether_brick'')] in
    concat (map (\<lambda>(full, wall, name).
        [variant_add_wall (name @ ''_wall_from_full'') full wall])
      wall_conversions) @
    [Recipe_of ''minecraft:string_from_wool'' ''misc'' 2 1 1 False [[64]] 1163 4,
     Recipe_of ''minecraft:flint_from_gravel'' ''misc'' 2 1 1 False [[26]] 931 1,
     Recipe_of ''minecraft:brick_from_clay'' ''misc'' 2 1 1 False [[909]] 442 1,
     Recipe_of ''minecraft:nether_brick_from_netherrack'' ''misc'' 2 1 1 False [[87]] 405 1]))))"

definition variant_recipes_15 :: "recipe list" where
  "variant_recipes_15 =
   ([Recipe_of ''minecraft:glowstone_from_dust'' ''building'' 0 2 2 False (replicate 4 [913]) 89 1,
     Recipe_of ''minecraft:slime_block'' ''building'' 0 3 3 False (replicate 9 [920]) 925 1,
     Recipe_of ''minecraft:slime_ball_from_block'' ''misc'' 2 1 1 False [[925]] 920 9,
     Recipe_of ''minecraft:snow_block_recipe'' ''building'' 0 2 2 False (replicate 4 [920]) 80 1,
     Recipe_of ''minecraft:iron_bars_recipe'' ''building'' 0 3 2 False (replicate 6 [778]) 102 16,
     Recipe_of ''minecraft:chiseled_stone'' ''building'' 0 1 2 False [[44], [44]] 73 1,
     Recipe_of ''minecraft:composter_recipe'' ''building'' 0 3 3 False [[139], [0], [139], [139], [0], [139], [139], [139], [139]] 1158 1,
     Recipe_of ''minecraft:blast_furnace'' ''building'' 0 3 3 False [[778], [778], [778], [778], [114], [778], [44], [44], [44]] 1159 1,
     Recipe_of ''minecraft:smoker'' ''building'' 0 3 3 False [[0], [0], [0], [34], [114], [34], [34], [34], [34]] 1160 1,
     Recipe_of ''minecraft:stonecutter_recipe'' ''building'' 0 3 3 False [[0], [0], [0], [778], [0], [0], [1], [1], [1]] 1160 1,
     Recipe_of ''minecraft:grindstone_recipe'' ''building'' 0 3 3 False [[794], [13], [794], [13], [44], [13], [0], [0], [0]] 1159 1,
     Recipe_of ''minecraft:ender_chest_recipe'' ''building'' 0 3 3 False ((replicate 8 [71]) @ [[905]]) 290 1,
     Recipe_of ''minecraft:enchanting_table_recipe'' ''misc'' 2 3 3 False [[1050], [0], [0], [777], [71], [777], [71], [71], [71]] 151 1,
     Recipe_of ''minecraft:beacon_recipe'' ''misc'' 2 3 3 False [[66], [66], [66], [66], [986], [66], [71], [71], [71]] 167 1,
     Recipe_of ''minecraft:conduit'' ''misc'' 2 3 3 False ((replicate 8 [1000]) @ [[987]]) 1161 1,
     Recipe_of ''minecraft:scaffolding_recipe'' ''building'' 0 3 3 False [[42], [838], [42], [42], [0], [42], [42], [0], [42]] 1085 6,
     Recipe_of ''minecraft:jack_o_lantern_recipe'' ''building'' 0 1 2 False [[124], [108]] 125 1,
     Recipe_of ''minecraft:sea_lantern_recipe'' ''building'' 0 3 3 False [[1030], [1031], [1030], [1031], [1030], [1031], [1030], [1031], [1030]] 1093 1,
     Recipe_of ''minecraft:end_rod_recipe'' ''building'' 0 1 2 False [[985], [1035]] 438 4,
     Recipe_of ''minecraft:purpur_pillar_recipe'' ''building'' 0 1 2 False [[443], [443]] 955 1])"

definition variant_recipes_16 :: "recipe list" where
  "variant_recipes_16 =
   ([Recipe_of ''minecraft:hay_bale_recipe'' ''building'' 0 3 3 False (replicate 9 [809]) 1084 1,
     Recipe_of ''minecraft:wheat_from_hay_bale'' ''misc'' 2 1 1 False [[1084]] 809 9,
     Recipe_of ''minecraft:melon_from_slices'' ''building'' 0 3 3 False (replicate 9 [899]) 103 1,
     Recipe_of ''minecraft:magma_block_recipe'' ''building'' 0 2 2 False (replicate 4 [925]) 1077 1] @
    concat (map (\<lambda>i.
        [Recipe_of (''minecraft:shulker_box_dye_'' @ (snd (variant_dye_sources ! i))) ''decoration'' 2 1 2 False [[1077], [variant_dye_ids ! i]] (1077 + (of_nat i)) 1])
      [1..<16]) @
    [Recipe_of ''minecraft:stone_sword_recipe'' ''equipment'' 1 1 2 False [[12], [12], [794]] 785 1,
     Recipe_of ''minecraft:iron_sword_recipe'' ''equipment'' 1 1 2 False [[778], [778], [794]] 780 1,
     Recipe_of ''minecraft:diamond_sword_recipe'' ''equipment'' 1 1 2 False [[777], [777], [794]] 792 1,
     Recipe_of ''minecraft:shield_recipe'' ''equipment'' 1 3 3 False [[13], [778], [13], [13], [13], [13], [0], [13], [0]] 895 1] @
    concat (map (\<lambda>i.
        [Recipe_of (''minecraft:'' @ (snd (variant_dye_sources ! i)) @ ''_banner_from_wool'') ''decoration'' 2 3 3 False [[variant_wool_ids ! i], [variant_wool_ids ! i], [variant_wool_ids ! i], [variant_wool_ids ! i], [variant_wool_ids ! i], [variant_wool_ids ! i], [0], [794], [0]] (1021 + (of_nat i)) 1])
      [0..<16]) @
    [Recipe_of ''minecraft:flower_pot_recipe'' ''decoration'' 2 3 3 False [[45], [0], [45], [0], [0], [0], [0], [45], [0]] 329 1,
     Recipe_of ''minecraft:furnace_minecart_recipe'' ''transport'' 2 1 2 False [[61], [950]] 951 1,
     Recipe_of ''minecraft:oak_boat_recipe'' ''transport'' 2 3 3 False [[0], [0], [0], [13], [0], [13], [13], [13], [13]] 955 1,
     Recipe_of ''minecraft:mushroom_stew_bowl'' ''food'' 2 1 3 False [[113], [114], [915]] 868 1,
     Recipe_of ''minecraft:iron_door_recipe'' ''redstone'' 0 2 3 False (replicate 6 [778]) 1156 3,
     Recipe_of ''minecraft:iron_trapdoor_recipe'' ''redstone'' 0 2 2 False (replicate 4 [778]) 356 1,
     Recipe_of ''minecraft:stone_button_recipe'' ''redstone'' 0 1 1 False [[1]] 318 1,
     Recipe_of ''minecraft:oak_button_recipe'' ''redstone'' 0 1 1 False [[13]] 308 1,
     Recipe_of ''minecraft:stone_pressure_plate_recipe'' ''redstone'' 0 2 1 False [[1], [1]] 1159 1])"

definition variant_recipes_17 :: "recipe list" where
  "variant_recipes_17 =
   ([Recipe_of ''minecraft:oak_pressure_plate_recipe'' ''redstone'' 0 2 1 False [[13], [13]] 840 1,
     Recipe_of ''minecraft:heavy_pressure_plate'' ''redstone'' 0 2 1 False [[778], [778]] 1044 1,
     Recipe_of ''minecraft:light_pressure_plate'' ''redstone'' 0 2 1 False [[779], [779]] 1043 1,
     Recipe_of ''minecraft:tripwire_hook_recipe'' ''redstone'' 0 3 3 False [[778], [794], [13], [0], [0], [0], [0], [0], [0]] 1307 2,
     Recipe_of ''minecraft:trapped_chest_recipe'' ''redstone'' 0 1 2 False [[54], [287]] 146 1,
     Recipe_of ''minecraft:lectern_recipe'' ''redstone'' 0 3 3 False [[139], [139], [139], [0], [105], [0], [0], [139], [0]] 459 1,
     Recipe_of ''minecraft:target_recipe'' ''redstone'' 0 3 3 False [[993], [993], [993], [993], [1084], [993], [993], [993], [993]] 318 1,
     Recipe_of ''minecraft:golden_sword_recipe'' ''equipment'' 1 1 2 False [[779], [779], [794]] 797 1,
     Recipe_of ''minecraft:iron_axe_recipe'' ''equipment'' 1 2 3 False [[778], [778], [778], [794], [0], [794]] 770 1,
     Recipe_of ''minecraft:diamond_axe_recipe'' ''equipment'' 1 2 3 False [[777], [777], [777], [794], [0], [794]] 791 1,
     Recipe_of ''minecraft:iron_pickaxe_recipe'' ''equipment'' 1 3 3 False [[778], [778], [778], [0], [794], [0], [0], [794], [0]] 769 1] @
    concat (map (\<lambda>(plank, result, name).
        [Recipe_of (''minecraft:'' @ name @ ''_recipe'') ''transport'' 2 3 3 False [[0], [0], [0], [plank], [0], [plank], [plank], [plank], [plank]] result 1])
      [(15, 956, ''spruce_boat''), (16, 957, ''birch_boat''), (17, 958, ''jungle_boat''), (18, 959, ''acacia_boat''), (19, 960, ''cherry_boat''), (20, 961, ''dark_oak_boat''), (21, 962, ''mangrove_boat''), (22, 963, ''bamboo_raft'')]) @
    concat (map (\<lambda>i.
        [Recipe_of (''minecraft:'' @ (snd (variant_dye_sources ! i)) @ ''_carpet_from_wool'') ''decoration'' 0 3 1 False [[variant_wool_ids ! i], [variant_wool_ids ! i], [0]] (1126 + (of_nat i)) 3])
      [0..<16]) @
    [variant_add_stairs ''brick_stairs_recipe'' 45 108,
     variant_add_slab ''brick_slab_recipe'' 45 114,
     variant_add_stairs ''purpur_stairs_recipe'' 439 442,
     variant_add_slab ''purpur_slab_recipe'' 439 443,
     variant_add_stairs ''end_stone_brick_stairs_recipe'' 154 1304,
     variant_add_slab ''end_stone_brick_slab_recipe'' 154 1305,
     variant_add_stairs ''mossy_cobblestone_stairs_recipe'' 48 648,
     variant_add_slab ''mossy_cobblestone_slab_recipe'' 48 649] @
    concat (map (\<lambda>i.
        [Recipe_of (''minecraft:carpet_'' @ (snd (variant_dye_sources ! i)) @ ''_v2'') ''decoration'' 0 3 1 False [[variant_wool_ids ! i], [variant_wool_ids ! i], [0]] (1126 + (of_nat i)) 3,
         Recipe_of (''minecraft:firework_star_'' @ (snd (variant_dye_sources ! i))) ''decoration'' 2 1 2 False [[954], [variant_dye_ids ! i]] 1054 1])
      [0..<16]) @
    [Recipe_of ''minecraft:nether_wart_block_v2'' ''building'' 0 3 3 False (replicate 9 [1003]) 1004 1,
     Recipe_of ''minecraft:warped_wart_block'' ''building'' 0 3 3 False (replicate 9 [1005]) 1006 1])"

definition variant_recipes_18 :: "recipe list" where
  "variant_recipes_18 =
   ([Recipe_of ''minecraft:gilded_blackstone'' ''building'' 0 1 2 False [[1108], [779]] 1115 1,
     Recipe_of ''minecraft:golden_apple_v2'' ''food'' 2 3 3 False [[779], [779], [779], [779], [933], [779], [779], [779], [779]] 912 1,
     Recipe_of ''minecraft:enchanted_golden_apple'' ''food'' 2 3 3 False ((replicate 8 [101]) @ [[933]]) 913 1,
     Recipe_of ''minecraft:cracked_stone_bricks_v2'' ''building'' 0 1 1 False [[98]] 109 1,
     Recipe_of ''minecraft:mossy_stone_bricks_v2'' ''building'' 0 2 2 False [[98], [1198], [1198], [98]] 72 4,
     Recipe_of ''minecraft:mossy_cobblestone_v2'' ''building'' 0 2 2 False [[12], [1198], [1198], [12]] 500 4,
     Recipe_of ''minecraft:activator_rail_v2'' ''transport'' 2 3 3 False [[778], [794], [778], [778], [994], [778], [778], [794], [778]] 157 6,
     Recipe_of ''minecraft:powered_rail_v2'' ''transport'' 2 3 3 False [[779], [0], [779], [779], [794], [779], [779], [993], [779]] 855 6,
     Recipe_of ''minecraft:tnt_minecart_v2'' ''transport'' 2 1 2 False [[104], [950]] 953 1,
     Recipe_of ''minecraft:hopper_minecart_v2'' ''transport'' 2 1 2 False [[154], [950]] 952 1,
     Recipe_of ''minecraft:chest_minecart_v2'' ''transport'' 2 1 2 False [[54], [950]] 951 1,
     Recipe_of ''minecraft:barrel_v2'' ''building'' 0 3 3 False [[139], [139], [139], [13], [0], [13], [13], [0], [13]] 332 1,
     Recipe_of ''minecraft:beehive_v2'' ''building'' 0 3 3 False [[13], [13], [13], [1053], [1053], [1053], [13], [13], [13]] 1098 1,
     Recipe_of ''minecraft:honey_block_v2'' ''building'' 0 2 2 False (replicate 4 [1054]) 1099 1,
     Recipe_of ''minecraft:honeycomb_block_v2'' ''building'' 0 2 2 False (replicate 4 [1053]) 1100 1,
     Recipe_of ''minecraft:lodestone_v2'' ''building'' 0 3 3 False ((replicate 8 [73]) @ [[961]]) 1219 1,
     Recipe_of ''minecraft:respawn_anchor_v2'' ''building'' 0 3 3 False ((replicate 6 [1091]) @ (replicate 3 [89])) 1218 1,
     Recipe_of ''minecraft:loom_v2'' ''building'' 0 2 2 False [[838], [838], [13], [13]] 1163 1,
     Recipe_of ''minecraft:cartography_table_v2'' ''building'' 0 3 3 False [[891], [891], [0], [13], [13], [0], [13], [13], [0]] 1162 1,
     Recipe_of ''minecraft:fletching_table_v2'' ''building'' 0 3 3 False [[931], [931], [0], [13], [13], [0], [13], [13], [0]] 1161 1,
     Recipe_of ''minecraft:smithing_table_v2'' ''building'' 0 3 3 False [[778], [778], [0], [13], [13], [0], [13], [13], [0]] 1164 1,
     Recipe_of ''minecraft:stonecutter_v2'' ''building'' 0 3 3 False [[0], [778], [0], [0], [0], [0], [1], [1], [1]] 1160 1] @
    (let glass16 = [66, 1271, 1272, 1273, 1274, 1275, 1276, 1277, 1278, 1279, 1280, 1281, 1282, 1283, 1284, 1285] in
    concat (map (\<lambda>i.
        [Recipe_of (''minecraft:stained_glass_v3_'' @ (snd (variant_dye_sources ! i))) ''building'' 0 3 3 False ((replicate 8 [66]) @ [[variant_dye_ids ! i]]) (glass16 ! i) 8])
      [1..<16])))"

definition variant_recipes_19 :: "recipe list" where
  "variant_recipes_19 =
   (concat (map (\<lambda>i.
        [Recipe_of (''minecraft:carpet_v3_'' @ (snd (variant_dye_sources ! i))) ''decoration'' 0 2 2 False [[variant_wool_ids ! i], [variant_wool_ids ! i], [0], [0]] (1126 + (of_nat i)) 3])
      [0..<16]) @
    concat (map (\<lambda>i.
        [Recipe_of (''minecraft:bed_v3_'' @ (snd (variant_dye_sources ! i))) ''bed'' 0 3 3 False ((replicate 3 [variant_wool_ids ! i]) @ (replicate 3 [13])) (variant_bed_ids ! i) 1])
      [0..<16]) @
    concat (map (\<lambda>i.
        [Recipe_of (''minecraft:terracotta_v3_'' @ (snd (variant_dye_sources ! i))) ''building'' 0 3 3 False ((replicate 8 [172]) @ [[variant_dye_ids ! i]]) (variant_terracotta_ids ! i) 8])
      [1..<16]) @
    concat (map (\<lambda>i.
        [Recipe_of (''minecraft:concrete_powder_v3_'' @ (snd (variant_dye_sources ! i))) ''building'' 0 1 1 True (((replicate 4 [24]) @ (replicate 4 [26])) @ [[variant_dye_ids ! i]]) (variant_concrete_powder_ids ! i) 8])
      [0..<16]) @
    concat (map (\<lambda>i.
        (let p = [variant_all_planks ! i] in
        [Recipe_of (''minecraft:fence_gate_v2_'' @ (variant_wood_names ! i)) ''fence_gate'' 0 3 3 False [[794], p, [794], [794], p, [794], [0], [0], [0]] (variant_fence_gate_results ! i) 1]))
      [0..<8]) @
    concat (map (\<lambda>i.
        [Recipe_of (''minecraft:button_v2_'' @ (variant_wood_names ! i)) ''button'' 0 1 1 False [[variant_all_planks ! i]] (variant_button_results ! i) 1])
      [0..<8]) @
    concat (map (\<lambda>i.
        [Recipe_of (''minecraft:pressure_plate_v2_'' @ (variant_wood_names ! i)) ''pressure_plate'' 0 2 1 False (replicate 2 [variant_all_planks ! i]) (variant_pp_results ! i) 1])
      [0..<8]) @
    concat (map (\<lambda>(plank, wood).
        [Recipe_of (''minecraft:'' @ wood @ ''_bowl'') ''misc'' 2 3 3 False [[plank], [0], [plank], [0], [plank], [0], [0], [0], [0]] 915 4])
      [(13, ''oak''), (14, ''spruce''), (15, ''birch''), (16, ''jungle''), (17, ''acacia'')]) @
    concat (map (\<lambda>i.
        (let p = [variant_all_planks ! i] in
        [Recipe_of (''minecraft:'' @ (variant_wood_names ! i) @ ''_sign_v2'') ''sign'' 0 3 3 False [p, p, p, p, p, p, [0], [794], [0]] (variant_sign_results ! i) 3]))
      [0..<8]) @
    concat (map (\<lambda>i.
        (let log_id = [34, 35, 36, 37, 38, 39, 40, 41] ! i in
        [Recipe_of (''minecraft:'' @ (variant_wood_names ! i) @ ''_hanging_sign'') ''sign'' 0 3 3 False [[843], [843], [0], [log_id], [log_id], [log_id], [log_id], [log_id], [log_id]] ((variant_sign_results ! i) + 1) 6]))
      [0..<8]) @
    [Recipe_of ''minecraft:ladder_v2'' ''decoration'' 0 3 3 False [[794], [0], [794], [794], [794], [794], [794], [0], [794]] 135 3,
     Recipe_of ''minecraft:rail_v2'' ''transport'' 2 3 3 False [[778], [0], [778], [778], [794], [778], [778], [0], [778]] 854 16,
     Recipe_of ''minecraft:cobweb'' ''misc'' 2 3 3 False (replicate 9 [838]) 78 1,
     Recipe_of ''minecraft:snow_layer'' ''building'' 0 3 1 False (replicate 3 [80]) 81 6,
     Recipe_of ''minecraft:torch_v2'' ''lighting'' 2 1 2 False [[775], [794]] 108 4,
     Recipe_of ''minecraft:soul_torch_v2'' ''lighting'' 2 2 2 False [[775], [794], [85], [0]] 1089 4])"

definition variant_add_dye_recipe :: "u32 \<Rightarrow> nat \<Rightarrow> u32 \<Rightarrow> u8 \<Rightarrow> string \<Rightarrow> recipe" where
  "variant_add_dye_recipe base dye_idx result cnt cat = Recipe_of (''minecraft:dye_'' @ show_nat (unat base) @ ''_'' @ show_nat dye_idx) cat (if cat = ''decoration'' then 2 else 0) 1 2 False [[base], [variant_dye_ids ! dye_idx]] result cnt"

definition variant_recipes_20 :: "recipe list" where
  "variant_recipes_20 =
   ([Recipe_of ''minecraft:redstone_torch_v2'' ''redstone'' 0 1 2 False [[993], [794]] 994 1,
     Recipe_of ''minecraft:comparator_v2'' ''redstone'' 0 3 3 False [[0], [994], [0], [994], [155], [994], [1], [1], [1]] 1153 1,
     Recipe_of ''minecraft:repeater_v2'' ''redstone'' 0 3 3 False [[994], [993], [994], [0], [0], [0], [1], [1], [1]] 1147 1,
     Recipe_of ''minecraft:hopper_v2'' ''redstone'' 0 3 3 False [[778], [0], [778], [778], [54], [778], [0], [778], [0]] 154 1] @
    concat (map (\<lambda>piece.
        concat (map (\<lambda>i.
            [variant_add_dye_recipe piece i piece 1 ''decoration''])
          [0..<16]))
      [811, 812, 813, 814]) @
    concat (map (\<lambda>(i, wid).
        [variant_add_dye_recipe 64 i wid 8 ''building''])
      (List.enumerate 0 variant_wool_ids)) @
    concat (map (\<lambda>(i, tid).
        [variant_add_dye_recipe 181 i tid 8 ''building''])
      (List.enumerate 0 variant_terracotta_ids)) @
    concat (map (\<lambda>(i, bid).
        [variant_add_dye_recipe 887 i bid 1 ''building''])
      (List.enumerate 0 variant_bed_ids)) @
    concat (map (\<lambda>i.
        [variant_add_dye_recipe 1077 i (1078 + (of_nat i)) 1 ''decoration''])
      [0..<16]) @
    concat (map (\<lambda>i.
        [variant_add_dye_recipe 1060 i (1061 + (of_nat i)) 1 ''decoration''])
      [0..<16]) @
    concat (map (\<lambda>i.
        [variant_add_dye_recipe 1126 i (1126 + (of_nat i)) 3 ''decoration''])
      [0..<16]) @
    concat (map (\<lambda>(i, pid).
        [variant_add_dye_recipe 1094 i pid 8 ''building''])
      (List.enumerate 0 variant_concrete_powder_ids)) @
    concat (map (\<lambda>i.
        [variant_add_dye_recipe 1110 i (1110 + (of_nat i)) 1 ''building''])
      [0..<16]) @
    concat (map (\<lambda>(mat, result, name).
        [Recipe_of (''minecraft:'' @ name) ''building'' 0 2 2 False [[mat], [mat], [mat], [mat]] result 4])
      [(12, 645, ''cobblestone_stairs_v2''), (1, 640, ''stone_stairs_v2''), (45, 108, ''brick_stairs_v2'')]) @
    concat (map (\<lambda>(mat, result, name).
        [Recipe_of (''minecraft:'' @ name) ''slabs'' 0 3 1 False [[mat], [mat], [mat]] result 6])
      [(1, 641, ''stone_slab_v2''), (12, 646, ''cobblestone_slab_v2''), (45, 114, ''brick_slab_v2''), (98, 44, ''stone_brick_slab_v2''), (405, 682, ''nether_brick_slab_v2''), (403, 688, ''quartz_slab_v2'')]) @
    concat (map (\<lambda>(big, small, name).
        [Recipe_of (''minecraft:'' @ name @ ''_from_block_v2'') ''misc'' 2 1 1 False [[big]] small 9])
      [(102, 778, ''iron_ingots''), (101, 779, ''gold_ingots''), (112, 777, ''diamonds''), (1084, 809, ''wheat_items''), (80, 920, ''snowballs''), (89, 913, ''glowstone_dust''), (925, 920, ''slime_balls''), (213, 925, ''magma_cream_items'')]) @
    concat (map (\<lambda>(small, big, name).
        [Recipe_of (''minecraft:'' @ name) ''building'' 0 3 3 False (replicate 9 [small]) big 1])
      [(778, 102, ''iron_block_v2''), (779, 101, ''gold_block_v2''), (777, 112, ''diamond_block_v2'')]) @
    concat (map (\<lambda>i.
        concat (map (\<lambda>j.
            (if i = j then [] else
            [Recipe_of (''minecraft:mixed_planks_'' @ (variant_wood_names ! i) @ ''_'' @ (variant_wood_names ! j)) ''building'' 0 2 2 True [[variant_all_planks ! i], [variant_all_planks ! j], [variant_all_planks ! j], [variant_all_planks ! i]] 13 4]))
          [i + 1..<8]))
      [0..<8]))"

definition add_variant_recipes :: "recipe list \<Rightarrow> recipe list" where
  "add_variant_recipes reg = reg @ variant_recipes_1 @ variant_recipes_2 @ variant_recipes_3 @ variant_recipes_4 @ variant_recipes_5 @ variant_recipes_6 @ variant_recipes_7 @ variant_recipes_8 @ variant_recipes_9 @ variant_recipes_10 @ variant_recipes_11 @ variant_recipes_12 @ variant_recipes_13 @ variant_recipes_14 @ variant_recipes_15 @ variant_recipes_16 @ variant_recipes_17 @ variant_recipes_18 @ variant_recipes_19 @ variant_recipes_20"

section \<open>Stonecutter, fireworks and tipped arrows\<close>

definition stonecutter_recipes_1 :: "recipe list" where
  "stonecutter_recipes_1 =
   ((let sc = [(1, 27, 2), (1, 28, 1), (12, 29, 2), (12, 30, 1), (12, 31, 1), (27, 32, 2), (27, 33, 1), (24, 35, 2), (24, 36, 1), (45, 42, 2), (45, 43, 1), (45, 44, 1), (112, 46, 2), (112, 47, 1), (1341, 1343, 2), (1341, 1342, 1), (1341, 1344, 1), (1349, 1351, 2), (1349, 1350, 1), (1349, 1352, 1), (1240, 1242, 2), (1240, 1241, 1), (1253, 1255, 2), (1253, 1254, 1), (1357, 1361, 4), (1358, 1362, 4), (1359, 1363, 4), (1360, 1364, 4), (2, 1487, 2), (2, 1486, 1), (2, 1488, 1), (3, 1487, 2), (3, 1486, 1), (4, 1487, 2), (4, 1486, 1), (168, 48, 2), (168, 49, 1), (169, 50, 2), (169, 51, 1)] in
    concat (map (\<lambda>(input, output, cnt).
        [Recipe_of (''minecraft:stonecutter_'' @ show_nat (unat input) @ ''_to_'' @ show_nat (unat output)) ''stonecutter'' 2 1 1 True [[input]] output cnt])
      sc) @
    (let slab_sources = [(2, 1487, ''granite''), (3, 1487, ''diorite''), (4, 1487, ''andesite''), (1240, 1242, ''sulfur''), (1253, 1255, ''cinnabar''), (1424, 1426, ''polished_tuff''), (1493, 1495, ''tuff_brick''), (1357, 1369, ''cut_copper''), (1373, 1385, ''waxed_cut_copper'')] in
    concat (map (\<lambda>(src, slab, name).
        [Recipe_of (''minecraft:'' @ name @ ''_slab_craft'') ''slabs'' 0 3 1 False [[src], [src], [src]] slab 6])
      slab_sources) @
    [Recipe_of ''minecraft:copper_block_from_ingot'' ''building'' 0 3 3 False [[778], [778], [778], [778], [778], [778], [778], [778], [778]] 1357 1,
     Recipe_of ''minecraft:potent_sulfur'' ''building'' 0 3 3 False [[1240], [1240], [1240], [1240], [1240], [1240], [1240], [1240], [1240]] 1252 1,
     Recipe_of ''minecraft:polished_tuff'' ''building'' 0 2 2 False [[1493], [1493], [1493], [1493]] 1424 4] @
    concat (map (\<lambda>(unwaxed, waxed, name).
        [Recipe_of (''minecraft:'' @ name @ ''_from_honeycomb'') ''building'' 2 1 1 True [[unwaxed]] waxed 1])
      [(1357, 1373, ''waxed_copper''), (1361, 1377, ''waxed_cut_copper'')]))))"

definition add_stonecutter_recipes :: "recipe list \<Rightarrow> recipe list" where
  "add_stonecutter_recipes reg = reg @ stonecutter_recipes_1"

definition firework_recipes_1 :: "recipe list" where
  "firework_recipes_1 =
   ((let dyes = [879, 880, 881, 882, 883, 884, 885, 886, 887, 888, 889, 890, 891, 892, 893, 894] in
    (let gunpowder = 1001 in
    (let paper = 1057 in
    (let firework_star = 1374 in
    (let firework_rocket = 1375 in
    concat (map (\<lambda>dye.
        [Recipe_of (''firework_star_'' @ show_nat (unat dye)) ''firework_star'' 2 0 0 True [[gunpowder], [dye]] firework_star 1])
      dyes) @
    [Recipe_of ''firework_rocket_1'' ''firework_rocket'' 2 0 0 True [[paper], [gunpowder]] firework_rocket 3,
     Recipe_of ''firework_rocket_star'' ''firework_rocket'' 2 0 0 True [[paper], [gunpowder], [firework_star]] firework_rocket 3]))))))"

definition add_firework_recipes :: "recipe list \<Rightarrow> recipe list" where
  "add_firework_recipes reg = reg @ firework_recipes_1"

definition tipped_arrow_recipes_1 :: "recipe list" where
  "tipped_arrow_recipes_1 =
   ((let arrow = 923 in
    (let tipped_arrow = 924 in
    (let lingering_potion = 1125 in
    [Recipe_of ''tipped_arrow'' ''tipped_arrow'' 2 0 0 True [[lingering_potion], replicate 8 arrow] tipped_arrow 8,
     Recipe_of ''tipped_arrow_water'' ''tipped_arrow'' 2 0 0 True [replicate 8 arrow, [lingering_potion]] tipped_arrow 8]))))"

definition add_tipped_arrow_recipes :: "recipe list \<Rightarrow> recipe list" where
  "add_tipped_arrow_recipes reg = reg @ tipped_arrow_recipes_1"

section \<open>The default registry\<close>

definition log_types :: "(string \<times> u32 \<times> u32) list" where
  "log_types = [(''oak_planks'', 34, 13), (''spruce_planks'', 35, 14), (''birch_planks'', 36, 15),
     (''jungle_planks'', 37, 16), (''acacia_planks'', 38, 17), (''cherry_planks'', 39, 18),
     (''dark_oak_planks'', 40, 19), (''mangrove_planks'', 41, 20)]"

definition plank_recipes :: "recipe list" where
  "plank_recipes = map (\<lambda>(name, log_id, plank_id).
     Recipe_of (''minecraft:'' @ name) ''planks'' 0 1 1 False [[log_id]] plank_id 4) log_types"

definition stick_recipes :: "recipe list" where
  "stick_recipes = [Recipe_of ''minecraft:stick'' ''sticks'' 2 1 2 False
     [[13, 14, 15, 16, 17, 18, 19, 20, 21, 22], [13, 14, 15, 16, 17, 18, 19, 20, 21, 22]] 794 4]"

definition crafting_table_recipes :: "recipe list" where
  "crafting_table_recipes = (let all_planks = [13, 14, 15, 16, 17, 18, 19, 20, 21, 22] in
     [Recipe_of ''minecraft:crafting_table'' ''crafting_table'' 0 2 2 False
        [all_planks, all_planks, all_planks, all_planks] 113 1])"

definition init_defaults :: "recipe_registry \<Rightarrow> recipe_registry" where
  "init_defaults reg =
     add_tipped_arrow_recipes (add_firework_recipes (add_stonecutter_recipes (add_variant_recipes
       (add_tool_recipes reg @ plank_recipes @ stick_recipes @ crafting_table_recipes))))"

definition default_recipes :: recipe_registry where
  "default_recipes = init_defaults []"






section \<open>What the table cannot do\<close>

lemma table_ranges:
  "[0..<16] = [0, 1, 2, 3, 4, 5, 6, 7, 8, 9, 10, 11, 12, 13, 14, 15]"
  "[Suc 0..<16] = [1, 2, 3, 4, 5, 6, 7, 8, 9, 10, 11, 12, 13, 14, 15]"
  "[0..<10] = [0, 1, 2, 3, 4, 5, 6, 7, 8, 9]"
  "[0..<8] = [0, 1, 2, 3, 4, 5, 6, 7]"
  by (simp_all add: upt_rec)

lemmas table_simps = table_ranges quiet_def Let_def
lemmas tool_tables = tool_stick_def tool_cobble_def tool_iron_ingot_def tool_gold_ingot_def
  tool_diamond_gem_def tool_wheat_def tool_oak_def tool_leather_def tool_plank_ids_def
lemmas variant_tables = variant_stick_def variant_all_planks_def variant_dye_ids_def
  variant_wool_ids_def variant_concrete_powder_ids_def variant_terracotta_ids_def
  variant_glass_ids_def variant_wood_names_def variant_add_stairs_def variant_add_slab_def
  variant_add_wall_def variant_add_food_def variant_bed_ids_def variant_paper_v_def
  variant_vine_v_def variant_brick_v_def

text \<open>White concrete powder alone: one stretch of the table after the other says no.\<close>

lemma powder_tool_1: "list_all (quiet 1094) tool_recipes_1"
  unfolding tool_recipes_1_def by (simp add: table_simps tool_tables)

lemma powder_tool_2: "list_all (quiet 1094) tool_recipes_2"
  unfolding tool_recipes_2_def by (simp add: table_simps tool_tables)

lemma powder_tool_3: "list_all (quiet 1094) tool_recipes_3"
  unfolding tool_recipes_3_def by (simp add: table_simps tool_tables)

lemma powder_tool_4: "list_all (quiet 1094) tool_recipes_4"
  unfolding tool_recipes_4_def by (simp add: table_simps tool_tables)

lemma powder_planks: "list_all (quiet 1094) (plank_recipes @ stick_recipes @ crafting_table_recipes)"
  by (simp add: plank_recipes_def log_types_def stick_recipes_def crafting_table_recipes_def table_simps)

lemma powder_variant_1: "list_all (quiet 1094) variant_recipes_1"
  unfolding variant_recipes_1_def by (simp add: table_simps variant_tables)

lemma powder_variant_2: "list_all (quiet 1094) variant_recipes_2"
  unfolding variant_recipes_2_def by (simp add: table_simps variant_tables)

lemma powder_variant_3: "list_all (quiet 1094) variant_recipes_3"
  unfolding variant_recipes_3_def by (simp add: table_simps variant_tables)

lemma powder_variant_4: "list_all (quiet 1094) variant_recipes_4"
  unfolding variant_recipes_4_def by (simp add: table_simps variant_tables)

lemma powder_variant_5: "list_all (quiet 1094) variant_recipes_5"
  unfolding variant_recipes_5_def by (simp add: table_simps variant_tables)

lemma powder_variant_6: "list_all (quiet 1094) variant_recipes_6"
  unfolding variant_recipes_6_def by (simp add: table_simps variant_tables)

lemma powder_variant_7: "list_all (quiet 1094) variant_recipes_7"
  unfolding variant_recipes_7_def by (simp add: table_simps variant_tables)

lemma powder_variant_8: "list_all (quiet 1094) variant_recipes_8"
  unfolding variant_recipes_8_def by (simp add: table_simps variant_tables)

lemma powder_variant_9: "list_all (quiet 1094) variant_recipes_9"
  unfolding variant_recipes_9_def by (simp add: table_simps variant_tables)

lemma powder_variant_10: "list_all (quiet 1094) (take 34 variant_recipes_10)"
  unfolding variant_recipes_10_def by (simp add: table_simps variant_tables)

lemma white_concrete_recipe:
  "34 < length variant_recipes_10"
  "variant_recipes_10 ! 34 =
     Recipe_of ''minecraft:white_concrete'' ''building'' 0 3 3 False [[1094]] 1094 1"
  unfolding variant_recipes_10_def
  by (simp_all add: table_simps variant_tables variant_dye_sources_def concrete_ids_def)

lemma tool_recipes_first:
  "tool_recipes_1 ! 0 = Recipe_of ''minecraft:wooden_pickaxe'' ''wooden_tools'' 1 3 2 False
     [[13, 14, 15, 16, 17, 18, 19, 20], [13, 14, 15, 16, 17, 18, 19, 20], [13, 14, 15, 16, 17, 18, 19, 20],
      [0], [794], [0], [0], [794], [0]] 783 1"
  "tool_recipes_1 ! 2 = Recipe_of ''minecraft:wooden_shovel'' ''wooden_tools'' 1 1 2 False
     [[13, 14, 15, 16, 17, 18, 19, 20], [794], [794]] 782 1"
  "tool_recipes_1 ! 4 = Recipe_of ''minecraft:wooden_sword'' ''wooden_tools'' 1 1 2 False
     [[13, 14, 15, 16, 17, 18, 19, 20], [794], [794]] 781 1"
  "4 < length tool_recipes_1"
  unfolding tool_recipes_1_def by (simp_all add: Let_def tool_tables)

lemma default_recipes_start:
  "default_recipes = tool_recipes_1 @ drop (length tool_recipes_1) default_recipes"
  by (simp add: default_recipes_def init_defaults_def add_tool_recipes_def add_variant_recipes_def
      add_stonecutter_recipes_def add_firework_recipes_def add_tipped_arrow_recipes_def)

lemma default_nth: "k < length tool_recipes_1 \<Longrightarrow> default_recipes ! k = tool_recipes_1 ! k"
  by (subst default_recipes_start) (simp add: nth_append)

text \<open>C12. White concrete powder alone in the first slot of a crafting table stops the server: no
earlier recipe answers it, and the recipe for white concrete, three by three cells with a single
ingredient, is read past its end (the process aborts on a panic).\<close>

theorem concrete_powder_panics:
  "find_match_3x3 default_recipes (Some (new_stack (block 1094) k) # replicate 8 None) = None"
proof -
  define s where "s = new_stack (block 1094) k"
  have s: "item_id s = 1094" by (simp add: s_def new_stack_def block_def Let_def)
  obtain P Q where v: "variant_recipes_10 = P @ variant_recipes_10 ! 34 # Q" "P = take 34 variant_recipes_10"
    using id_take_nth_drop [OF white_concrete_recipe(1)] by blast
  define w where "w = variant_recipes_10 ! 34"
  define A where "A = tool_recipes_1 @ tool_recipes_2 @ tool_recipes_3 @ tool_recipes_4 @
    plank_recipes @ stick_recipes @ crafting_table_recipes @ variant_recipes_1 @ variant_recipes_2 @
    variant_recipes_3 @ variant_recipes_4 @ variant_recipes_5 @ variant_recipes_6 @ variant_recipes_7 @
    variant_recipes_8 @ variant_recipes_9 @ P"
  have v': "variant_recipes_10 = P @ w # Q" using v(1) by (simp add: w_def)
  obtain B where d: "default_recipes = A @ w # B"
    unfolding default_recipes_def init_defaults_def add_tool_recipes_def add_variant_recipes_def
      add_stonecutter_recipes_def add_firework_recipes_def add_tipped_arrow_recipes_def A_def v'
    by (simp only: append_assoc append_Cons append_Nil)
  have "list_all (quiet 1094) A"
    unfolding A_def list_all_append v(2)
    using powder_tool_1 powder_tool_2 powder_tool_3 powder_tool_4 powder_planks powder_variant_1
      powder_variant_2 powder_variant_3 powder_variant_4 powder_variant_5 powder_variant_6
      powder_variant_7 powder_variant_8 powder_variant_9 powder_variant_10
    by (simp only: list_all_append simp_thms)
  then have "\<forall>r \<in> set A. matches 3 r (first_slot 3 s) = Some False"
    using quiet_false [of s _ 3] s by (simp add: list_all_iff)
  moreover have "matches 3 w (first_slot 3 s) = None"
    unfolding w_def white_concrete_recipe(2) by (rule missing_ingredient_panics) (simp add: s)
  ultimately have "find_match_3x3 default_recipes (first_slot 3 s) = None"
    unfolding find_match_3x3_def d by (simp add: search_from_append)
  then show ?thesis by (simp add: first_slot_def s_def)
qed

text \<open>No grid of real items (none has the item number 0) crafts a recipe that writes an empty
cell of its rectangle as the ingredient \<open>[0]\<close>, and the wooden pickaxe, the first recipe of the
registry, is one of them.\<close>

theorem holes_uncraftable:
  assumes "no_air g"
  shows "(\<forall>i r. find_match_3x3 default_recipes g = Some (Some (i, r)) \<or>
                find_match default_recipes g = Some (Some (i, r)) \<longrightarrow> \<not> has_hole r) \<and>
    has_hole (default_recipes ! 0) \<and> rc_id (default_recipes ! 0) = ''minecraft:wooden_pickaxe''"
proof (intro conjI allI impI)
  fix i r
  assume "find_match_3x3 default_recipes g = Some (Some (i, r)) \<or>
    find_match default_recipes g = Some (Some (i, r))"
  then have "matches 3 r g = Some True \<or> matches 2 r g = Some True"
    unfolding find_match_3x3_def find_match_def search_from_found by blast
  then show "\<not> has_hole r" using hole_never_matches [OF _ assms] by blast
next
  have "tool_recipes_1 \<noteq> []" using tool_recipes_first(4) by force
  then show "has_hole (default_recipes ! 0)" "rc_id (default_recipes ! 0) = ''minecraft:wooden_pickaxe''"
    by (simp_all add: default_nth tool_recipes_first(1) has_hole_def)
qed

theorem holes_uncraftable_witness:
  "no_air (replicate 4 None @ [Some (new_stack (block 13) 1)] @ replicate 4 None) \<and>
   has_hole (default_recipes ! 0)"
proof -
  have a: "no_air (replicate 4 None @ [Some (new_stack (block 13) 1)] @ replicate 4 None)"
    by (simp add: no_air_def new_stack_def block_def Let_def)
  show ?thesis using a holes_uncraftable [OF a] by blast
qed

text \<open>A recipe with the shape and ingredients of an earlier one is never found.\<close>

lemma shadowed:
  assumes "i < j" "j < length reg" "matches n (reg ! i) g = matches n (reg ! j) g"
  shows "search_from 0 (\<lambda>r. matches n r g) reg \<noteq> Some (Some (j, r))"
  using assms by (auto simp: search_from_found)

lemma matches_same_shape:
  assumes "rc_shapeless r = rc_shapeless q" "rc_width r = rc_width q" "rc_height r = rc_height q"
    "rc_ingredients r = rc_ingredients q"
  shows "matches n r g = matches n q g"
proof -
  have cells: "check_at n r g ox oy = check_at n q g ox oy" for ox oy
  proof -
    have parts: "pattern_cell n r g ox oy = pattern_cell n q g ox oy" "outside_cell n r g ox oy = outside_cell n q g ox oy"
      using assms by (simp_all add: pattern_cell_def outside_cell_def)
    show ?thesis unfolding check_at_def parts assms(2,3) by (rule refl)
  qed
  show ?thesis
    unfolding matches_def check_shapeless_def offsets_def cells assms by (rule refl)
qed

text \<open>The wooden sword, the fifth recipe, is never crafted: the wooden shovel before it has the
same shape and ingredients (a third ingredient that both declare lies outside their two cells).\<close>

theorem wooden_sword_uncraftable:
  "rc_id (default_recipes ! 4) = ''minecraft:wooden_sword'' \<and>
   find_match_3x3 default_recipes g \<noteq> Some (Some (4, r)) \<and>
   find_match default_recipes g \<noteq> Some (Some (4, r))"
proof -
  have l: "2 < length tool_recipes_1" "4 < length tool_recipes_1"
    using tool_recipes_first(4) by simp_all
  then have len: "4 < length default_recipes" by (subst default_recipes_start) simp
  have m: "matches n (default_recipes ! 2) g = matches n (default_recipes ! 4) g" for n
    by (rule matches_same_shape) (simp_all add: default_nth l tool_recipes_first)
  show ?thesis
    unfolding find_match_3x3_def find_match_def
    using shadowed [OF _ len m [of 3]] shadowed [OF _ len m [of 2]]
    by (simp add: default_nth l tool_recipes_first)
qed

end
