(* ===== verification/Container.thy ===== *)
theory Container
  imports Inventory
begin

text \<open>
  \<open>mc-player/src/container.rs\<close>: the open containers, the contents kept per block, and the byte
  format these are saved in. The locks are taken and released within each statement, so an
  operation is a state change. A hash map has no order of its own: where the code iterates over
  one, the keys in the order the map yields them are an argument. \<open>None\<close> is a panic.

  Shown: what a player leaves in a container is what the next one finds; two players with the same
  container open overwrite each other, so a taken item comes back; the byte format gives the
  contents back; a record cut off after an item id panics; saving into a full store may drop the
  entry just saved.
\<close>

section \<open>State\<close>

type_synonym cell_pos = "i32 \<times> i32 \<times> i32"
type_synonym slots = "ItemStack option list"

record ContainerData =
  cd_window :: u8
  cd_pos :: cell_pos
  cd_slots :: slots
  cd_state :: i32

record ContainerManager =
  cm_containers :: "u8 \<rightharpoonup> ContainerData"
  cm_windows :: "u128 \<rightharpoonup> u8"
  cm_next :: u8
  cm_persistent :: "cell_pos \<rightharpoonup> slots"

definition new_manager :: ContainerManager where
  "new_manager = \<lparr>cm_containers = Map.empty, cm_windows = Map.empty, cm_next = 1, cm_persistent = Map.empty\<rparr>"

section \<open>Operations\<close>

definition next_id :: "u8 \<Rightarrow> u8" where
  "next_id n = (if n + 1 = 0 then 1 else n + 1)"

definition open_container :: "u128 \<Rightarrow> cell_pos \<Rightarrow> nat \<Rightarrow> ContainerManager \<Rightarrow> ContainerManager \<times> u8" where
  "open_container player p n cm =
     (let window_id = cm_next cm;
          slots = (case cm_persistent cm p of Some s \<Rightarrow> s | None \<Rightarrow> replicate n None);
          data = \<lparr>cd_window = window_id, cd_pos = p, cd_slots = slots, cd_state = 0\<rparr>
      in (cm\<lparr>cm_next := next_id window_id, cm_containers := (cm_containers cm)(window_id \<mapsto> data),
             cm_windows := (cm_windows cm)(player \<mapsto> window_id)\<rparr>, window_id))"

definition close_container :: "u128 \<Rightarrow> u8 \<Rightarrow> ContainerManager \<Rightarrow> ContainerManager \<times> ContainerData option" where
  "close_container player window_id cm =
     (let cm = cm\<lparr>cm_windows := (cm_windows cm)(player := None)\<rparr> in
      case cm_containers cm window_id of
        None \<Rightarrow> (cm, None)
      | Some c \<Rightarrow>
          (cm\<lparr>cm_containers := (cm_containers cm)(window_id := None),
              cm_persistent := (cm_persistent cm)(cd_pos c \<mapsto> cd_slots c)\<rparr>, Some c))"

definition player_window :: "u128 \<Rightarrow> ContainerManager \<Rightarrow> u8 option" where
  "player_window player cm = cm_windows cm player"

definition get_container :: "u8 \<Rightarrow> ContainerManager \<Rightarrow> ContainerData option" where
  "get_container window_id cm = cm_containers cm window_id"

definition set_slot :: "u8 \<Rightarrow> nat \<Rightarrow> ItemStack option \<Rightarrow> ContainerManager \<Rightarrow> ContainerManager" where
  "set_slot window_id slot item cm =
     (case cm_containers cm window_id of
        Some c \<Rightarrow>
          if slot < length (cd_slots c) then
            cm\<lparr>cm_containers := (cm_containers cm)(window_id \<mapsto>
                 c\<lparr>cd_slots := (cd_slots c)[slot := item], cd_state := cd_state c + 1\<rparr>)\<rparr>
          else cm
      | None \<Rightarrow> cm)"

definition get_state_id :: "u8 \<Rightarrow> ContainerManager \<Rightarrow> i32" where
  "get_state_id window_id cm = (case cm_containers cm window_id of Some c \<Rightarrow> cd_state c | None \<Rightarrow> 0)"

definition get_slot :: "u8 \<Rightarrow> nat \<Rightarrow> ContainerManager \<Rightarrow> ItemStack option" where
  "get_slot window_id slot cm =
     (case cm_containers cm window_id of
        Some c \<Rightarrow> (case nth_opt (cd_slots c) slot of Some s \<Rightarrow> s | None \<Rightarrow> None)
      | None \<Rightarrow> None)"

definition all_slots :: "u8 \<Rightarrow> ContainerManager \<Rightarrow> slots" where
  "all_slots window_id cm = (case cm_containers cm window_id of Some c \<Rightarrow> cd_slots c | None \<Rightarrow> [])"

definition find_window_at :: "u8 list \<Rightarrow> cell_pos \<Rightarrow> ContainerManager \<Rightarrow> u8 option" where
  "find_window_at windows p cm =
     find (\<lambda>i. case cm_containers cm i of Some c \<Rightarrow> cd_pos c = p | None \<Rightarrow> False) windows"

definition get_persistent :: "cell_pos \<Rightarrow> ContainerManager \<Rightarrow> slots" where
  "get_persistent p cm = (case cm_persistent cm p of Some s \<Rightarrow> s | None \<Rightarrow> [])"

definition MAX_PERSISTENT :: nat where "MAX_PERSISTENT = 1024"

definition set_persistent :: "cell_pos list \<Rightarrow> cell_pos \<Rightarrow> slots \<Rightarrow> ContainerManager \<Rightarrow> ContainerManager" where
  "set_persistent keys p slots cm =
     (let m = (cm_persistent cm)(p \<mapsto> slots) in
      if length keys > MAX_PERSISTENT then
        let to_remove = take (length keys - MAX_PERSISTENT + 128) keys
        in cm\<lparr>cm_persistent := fold (\<lambda>k m. m(k := None)) to_remove m\<rparr>
      else cm\<lparr>cm_persistent := m\<rparr>)"

section \<open>The byte format\<close>

definition entry_bytes :: "cell_pos \<times> slots \<Rightarrow> bytes" where
  "entry_bytes entry =
     (case entry of ((x, y, z), slots) \<Rightarrow>
        le_bytes 4 x @ le_bytes 4 y @ le_bytes 4 z @ le_bytes 2 (word_of_nat (length slots) :: u16)
        @ concat (map write_slot slots))"

definition serialize_all :: "cell_pos list \<Rightarrow> ContainerManager \<Rightarrow> bytes" where
  "serialize_all keys cm =
     [2] @ le_bytes 4 (word_of_nat (length keys) :: u32)
     @ concat (map (\<lambda>k. entry_bytes (k, get_persistent k cm)) keys)"

text \<open>NBT and durability of an item in format 2; both are absent in format 1.\<close>

definition read_extras :: "bool \<Rightarrow> u32 \<Rightarrow> bytes \<Rightarrow> nat \<Rightarrow> (bytes option \<times> u16 option) \<times> nat" where
  "read_extras v2 i data pos =
     (if v2 \<and> pos + 4 \<le> length data then
        let nbt_len = unat (from_le (take 2 (drop pos data)) :: u16); pos = pos + 2;
            (nbt, pos) =
              (if nbt_len > 0 \<and> pos + nbt_len \<le> length data
               then (Some (take nbt_len (drop pos data)), pos + nbt_len) else (None, pos));
            (dur, pos) =
              (if pos + 2 \<le> length data
               then let d = (from_le (take 2 (drop pos data)) :: u16)
                    in (if d > 0 then Some d else max_durability i, pos + 2)
               else (None, pos))
        in ((nbt, dur), pos)
      else ((None, max_durability i), pos))"

text \<open>The loop over the slots of an entry. An early \<open>break\<close> keeps the slots read so far.\<close>

primrec read_stored :: "bool \<Rightarrow> nat \<Rightarrow> bytes \<Rightarrow> nat \<Rightarrow> (slots \<times> nat) option" where
  "read_stored v2 0 data pos = Some ([], pos)"
| "read_stored v2 (Suc n) data pos =
     (if pos \<ge> length data then Some ([], pos)
      else if data ! pos = 1 then
        if pos + 5 > length data then Some ([], pos)
        else do {
          let i = (from_le (take 4 (drop (pos + 1) data)) :: u32);
          count \<leftarrow> nth_opt data (pos + 5);
          let ((nbt, dur), pos) = read_extras v2 i data (pos + 6);
          let stack = (new_stack (block i) count)\<lparr>it_nbt := nbt, it_durability := dur\<rparr>;
          (slots, pos) \<leftarrow> read_stored v2 n data pos;
          Some (Some stack # slots, pos)
        }
      else do {
        (slots, pos) \<leftarrow> read_stored v2 n data (pos + 1);
        Some (None # slots, pos)
      })"

primrec read_entries :: "bool \<Rightarrow> nat \<Rightarrow> bytes \<Rightarrow> nat \<Rightarrow> (cell_pos \<rightharpoonup> slots) \<Rightarrow> (cell_pos \<rightharpoonup> slots) option" where
  "read_entries v2 0 data pos m = Some m"
| "read_entries v2 (Suc n) data pos m =
     (if pos + 14 > length data then Some m
      else
        let x = from_le (take 4 (drop pos data)); y = from_le (take 4 (drop (pos + 4) data));
            z = from_le (take 4 (drop (pos + 8) data));
            k = unat (from_le (take 2 (drop (pos + 12) data)) :: u16)
        in do {
          (slots, pos) \<leftarrow> read_stored v2 k data (pos + 14);
          read_entries v2 n data pos (m((x, y, z) \<mapsto> slots))
        })"

definition deserialize_all :: "bytes \<Rightarrow> ContainerManager \<Rightarrow> ContainerManager option" where
  "deserialize_all data cm =
     (if length data < 4 then Some cm
      else
        let v2_format = data ! 0 = 2 in
        if v2_format \<and> length data < 5 then Some cm
        else
          let pos = (if v2_format then 1 else 0);
              count = unat (from_le (take 4 (drop pos data)) :: u32)
          in map_option (\<lambda>m. cm\<lparr>cm_persistent := m\<rparr>)
               (read_entries v2_format count data (pos + 4) (cm_persistent cm)))"

section \<open>Block tables\<close>

definition container_slot_count :: "u32 \<Rightarrow> nat option" where
  "container_slot_count i =
     (if i = 54 \<or> i = 146 then Some 27 else if i = 290 then Some 27
      else if i = 61 \<or> i = 62 then Some 3 else if i = 291 then Some 3
      else if i = 139 then Some 10 else if i = 131 then Some 5
      else if i = 145 \<or> i = 170 \<or> i = 171 then Some 3
      else if i = 151 then Some 2 else if i = 167 then Some 1
      else if i = 27 then Some 9 else if i = 158 then Some 9
      else if i = 154 then Some 5 else if i = 364 then Some 9
      else if i = 455 then Some 3 else if i = 169 then Some 3 else if i = 456 then Some 2
      else if i = 457 then Some 4 else if i = 458 then Some 3 else if i = 459 then Some 1
      else None)"

definition container_window_type :: "u32 \<Rightarrow> i32" where
  "container_window_type i =
     (if i = 201 \<or> i = 1117 then 2 else if i = 839 then 2
      else if i = 209 \<or> i = 852 \<or> i = 853 then 3
      else if i = 206 then 6 else if i = 879 then 10
      else if i = 478 \<or> i = 856 \<or> i = 857 then 13
      else if i = 880 then 7 else if i = 198 then 8
      else if i = 70 \<or> i = 179 then 2 else if i = 832 then 2 else if i = 854 then 6
      else if i = 1366 then 22 else if i = 1367 then 23 else if i = 1368 then 24
      else if i = 1369 then 18 else if i = 1370 then 19 else if i = 1371 then 20
      else 2)"

section \<open>Reading back\<close>

lemma read_extras_written:
  assumes d: "drop pos data = le_bytes 2 (word_of_nat (length (slot_nbt st)) :: u16) @ (slot_nbt st @ (le_bytes 2 (slot_dur st) @ rest))"
    and fit: "nbt_fits (Some st)"
  shows "read_extras True i data pos =
    ((if slot_nbt st = [] then None else Some (slot_nbt st),
      if slot_dur st > 0 then Some (slot_dur st) else max_durability i),
     pos + 4 + length (slot_nbt st))"
proof -
  have nb: "length (slot_nbt st) < 2 ^ 16"
    using fit by (auto simp: nbt_fits_def slot_nbt_def split: option.split)
  note d1 = drop_prefix [OF d, unfolded length_le_bytes]
  note d2 = drop_prefix [OF d1]
  have "pos \<le> length data"
  proof (rule ccontr)
    assume "\<not> pos \<le> length data"
    then have "drop pos data = []"
      by simp
    then show False
      using d by (auto simp flip: length_0_conv)
  qed
  then have len: "length data = pos + 4 + length (slot_nbt st) + length rest"
    using arg_cong [OF d, of length] unfolding length_drop by simp
  have n: "unat (from_le (take 2 (drop pos data)) :: u16) = length (slot_nbt st)"
    unfolding d using nb by (simp add: unat_of_nat)
  have nbt: "take (length (slot_nbt st)) (drop (pos + 2) data) = slot_nbt st"
    unfolding d1 by simp
  have dur: "(from_le (take 2 (drop (pos + 2 + length (slot_nbt st)) data)) :: u16) = slot_dur st"
    unfolding d2 by simp
  show ?thesis
    using n nbt dur len by (cases "slot_nbt st = []") (simp_all add: read_extras_def Let_def)
qed

lemma restored_eq:
  "restored st = (new_stack (block (bs_id (it_item st))) (it_count st))
     \<lparr>it_nbt := (if slot_nbt st = [] then None else Some (slot_nbt st)),
      it_durability := (if slot_dur st > 0 then Some (slot_dur st) else max_durability (bs_id (it_item st)))\<rparr>"
  by (auto simp: restored_def slot_nbt_def slot_dur_def split: option.splits)

lemma write_None: "write_slot None = [0]"
  by (simp add: write_slot_def)

lemma read_stored_written:
  "drop pos data = concat (map write_slot ss) @ rest \<Longrightarrow> (\<And>s. s \<in> set ss \<Longrightarrow> nbt_fits s) \<Longrightarrow>
   read_stored True (length ss) data pos
     = Some (map (map_option restored) ss, pos + length (concat (map write_slot ss)))"
proof (induction ss arbitrary: pos)
  case (Cons s ss)
  have d: "drop pos data = write_slot s @ (concat (map write_slot ss) @ rest)"
    using Cons.prems(1) by simp
  have IH: "read_stored True (length ss) data (pos + length (write_slot s))
      = Some (map (map_option restored) ss, pos + length (write_slot s) + length (concat (map write_slot ss)))"
    using Cons.prems(2) by (intro Cons.IH drop_prefix [OF d]) simp
  show ?case
  proof (cases s)
    case None
    then have "drop pos data = 0 # (concat (map write_slot ss) @ rest)"
      using d by (simp add: write_None)
    from drop_Cons_nth [OF this] show ?thesis
      using IH None by (simp add: write_None)
  next
    case (Some st)
    let ?i = "bs_id (it_item st)" and ?tail = "concat (map write_slot ss) @ rest"
    have d1: "drop pos data = [1] @ (le_bytes 4 ?i @ ([it_count st]
       @ (le_bytes 2 (word_of_nat (length (slot_nbt st)) :: u16) @ (slot_nbt st @ (le_bytes 2 (slot_dur st) @ ?tail)))))"
      using d by (simp add: Some write_slot_Some)
    note d2 = drop_prefix [OF d1, unfolded list.size add_0 One_nat_def [symmetric]]
    note d3 = drop_prefix [OF d2, unfolded length_le_bytes]
    note d4 = drop_prefix [OF d3, unfolded list.size add_0 One_nat_def [symmetric]]
    have head: "pos < length data" "data ! pos = 1" "pos + 5 < length data" "data ! (pos + 5) = it_count st"
      using d1 drop_Cons_nth [OF d3 [simplified]] drop_Cons_nth by (fastforce simp: add.commute)+
    have i: "(from_le (take 4 (drop (pos + 1) data)) :: u32) = ?i"
      unfolding d2 by simp
    have extras: "read_extras True ?i data (pos + 6) =
      ((if slot_nbt st = [] then None else Some (slot_nbt st),
        if slot_dur st > 0 then Some (slot_dur st) else max_durability ?i), pos + 6 + 4 + length (slot_nbt st))"
      using Cons.prems(2) [of s] Some
      by (intro read_extras_written [of _ _ _ ?tail]) (use d4 in \<open>simp_all add: add.commute\<close>)
    have wlen: "length (write_slot s) = 10 + length (slot_nbt st)"
      by (simp add: Some write_slot_Some)
    have IH': "read_stored True (length ss) data (pos + 6 + 4 + length (slot_nbt st))
      = Some (map (map_option restored) ss, pos + length (concat (map write_slot (s # ss))))"
      using IH wlen by (simp add: ac_simps)
    have "read_stored True (Suc (length ss)) data pos
      = Some (Some (restored st) # map (map_option restored) ss, pos + length (concat (map write_slot (s # ss))))"
      using head i IH' unfolding read_stored.simps(2)
      by (cases "slot_nbt st = []") (simp_all add: nth_opt_def extras restored_eq Let_def)
    then show ?thesis
      by (simp add: Some)
  qed
qed simp

lemma concat_entry_length: "length (entry_bytes (k, ss)) = 14 + length (concat (map write_slot ss))"
  by (cases k) (simp add: entry_bytes_def)

definition slots_ok :: "slots \<Rightarrow> bool" where
  "slots_ok ss \<longleftrightarrow> length ss < 2 ^ 16 \<and> list_all nbt_fits ss"

lemma read_entries_written:
  "drop pos data = concat (map (\<lambda>k. entry_bytes (k, f k)) keys) \<Longrightarrow> (\<And>k. k \<in> set keys \<Longrightarrow> slots_ok (f k)) \<Longrightarrow>
   read_entries True (length keys) data pos m
     = Some (fold (\<lambda>k m. m(k \<mapsto> map (map_option restored) (f k))) keys m)"
proof (induction keys arbitrary: pos m)
  case (Cons k keys)
  obtain x y z where k: "k = (x, y, z)"
    by (rule prod_cases3)
  let ?ss = "f k" and ?rest = "concat (map (\<lambda>k. entry_bytes (k, f k)) keys)"
  have ok: "length ?ss < 2 ^ 16" "\<And>s. s \<in> set ?ss \<Longrightarrow> nbt_fits s"
    using Cons.prems(2) [of k] by (auto simp: slots_ok_def list_all_iff)
  have d0: "drop pos data = le_bytes 4 x @ (le_bytes 4 y @ (le_bytes 4 z
      @ (le_bytes 2 (word_of_nat (length ?ss) :: u16) @ (concat (map write_slot ?ss) @ ?rest))))"
    using Cons.prems(1) by (simp add: k entry_bytes_def)
  note d1 = drop_prefix [OF d0, unfolded length_le_bytes]
  note d2 = drop_prefix [OF d1, unfolded length_le_bytes]
  note d3 = drop_prefix [OF d2, unfolded length_le_bytes]
  note d4 = drop_prefix [OF d3, unfolded length_le_bytes]
  have n4: "pos + 4 + 4 = pos + 8" "pos + 8 + 4 = pos + 12" "pos + 12 + 2 = pos + 14"
    by simp_all
  have room: "\<not> pos + 14 > length data"
    using arg_cong [OF d0, of length] unfolding length_drop by simp
  have fields: "(from_le (take 4 (drop pos data)) :: i32) = x" "(from_le (take 4 (drop (pos + 4) data)) :: i32) = y"
    "(from_le (take 4 (drop (pos + 8) data)) :: i32) = z"
    unfolding d0 d1 d2 [unfolded n4] by simp_all
  have count: "unat (from_le (take 2 (drop (pos + 12) data)) :: u16) = length ?ss"
    unfolding d3 [unfolded n4] using ok(1) by (simp add: unat_of_nat)
  have stored: "read_stored True (length ?ss) data (pos + 14)
      = Some (map (map_option restored) ?ss, pos + 14 + length (concat (map write_slot ?ss)))"
    using read_stored_written [OF d4 [unfolded n4]] ok(2) by blast
  have "read_entries True (length keys) data (pos + 14 + length (concat (map write_slot ?ss)))
      (m(k \<mapsto> map (map_option restored) ?ss))
    = Some (fold (\<lambda>k m. m(k \<mapsto> map (map_option restored) (f k))) keys (m(k \<mapsto> map (map_option restored) ?ss)))"
    using drop_prefix [OF d4 [unfolded n4]] Cons.prems(2) by (intro Cons.IH) simp_all
  moreover have "read_entries True (Suc (length keys)) data pos m
      = read_entries True (length keys) data (pos + 14 + length (concat (map write_slot ?ss)))
          (m(k \<mapsto> map (map_option restored) ?ss))"
    using room fields count stored unfolding read_entries.simps(2) Let_def k by simp
  ultimately show ?case
    by (simp only: list.size add_Suc_right add_0_right fold.simps comp_apply)
qed simp

lemma fold_updates: "fold (\<lambda>k m. m(k \<mapsto> g k)) keys m = (\<lambda>k. if k \<in> set keys then Some (g k) else m k)"
  by (induction keys arbitrary: m) (auto simp: fun_eq_iff)

text \<open>The keys of a map in the order the map yields them.\<close>

definition enumerates :: "'k list \<Rightarrow> ('k \<rightharpoonup> 'v) \<Rightarrow> bool" where
  "enumerates keys m \<longleftrightarrow> distinct keys \<and> set keys = dom m"

section \<open>Properties\<close>

text \<open>C17. Saving the container contents and loading them into a fresh manager gives every container
  back under its position, slot by slot, with its items, counts, NBT and durabilities, in
  whatever order the map is iterated; property bits of items are dropped.\<close>

theorem containers_roundtrip:
  assumes "enumerates keys (cm_persistent cm)" and "length keys < 2 ^ 32"
    and "\<forall>ss \<in> ran (cm_persistent cm). slots_ok ss"
  shows "deserialize_all (serialize_all keys cm) new_manager
    = Some (new_manager\<lparr>cm_persistent := map_option (map (map_option restored)) \<circ> cm_persistent cm\<rparr>)"
proof -
  let ?f = "\<lambda>k. get_persistent k cm" and ?data = "serialize_all keys cm"
  have d: "drop 5 ?data = concat (map (\<lambda>k. entry_bytes (k, ?f k)) keys)"
    and d1: "drop 1 ?data = le_bytes 4 (word_of_nat (length keys) :: u32) @ concat (map (\<lambda>k. entry_bytes (k, ?f k)) keys)"
    by (simp_all add: serialize_all_def)
  have count: "unat (from_le (take 4 (drop 1 ?data)) :: u32) = length keys"
    unfolding d1 using assms(2) by (simp add: unat_of_nat)
  have head: "?data ! 0 = 2" "\<not> length ?data < 4" "\<not> length ?data < 5"
    by (simp_all add: serialize_all_def)
  have "slots_ok (?f k)" if "k \<in> set keys" for k
  proof (cases "cm_persistent cm k")
    case (Some ss)
    then show ?thesis
      using assms(3) ranI [of "cm_persistent cm" k ss] by (simp add: get_persistent_def)
  qed (simp add: get_persistent_def slots_ok_def)
  then have "read_entries True (length keys) ?data 5 Map.empty
      = Some (\<lambda>k. if k \<in> set keys then Some (map (map_option restored) (?f k)) else None)"
    using read_entries_written [OF d, of Map.empty] by (simp add: fold_updates)
  moreover have "(\<lambda>k. if k \<in> set keys then Some (map (map_option restored) (?f k)) else None)
      = map_option (map (map_option restored)) \<circ> cm_persistent cm"
    using assms(1) by (auto simp: enumerates_def get_persistent_def fun_eq_iff split: option.split)
  ultimately show ?thesis
    using head count by (simp add: deserialize_all_def new_manager_def)
qed

text \<open>A container keeps what was left in it: after any slots were set and the window was closed,
  whoever opens the same block next sees exactly the slots as they were left.\<close>

theorem reopened_container_keeps_slots:
  assumes "open_container p1 pos n cm = (cm1, w)" and "cm2 = fold (\<lambda>(i, item). set_slot w i item) changes cm1"
    and "cm3 = fst (close_container p1 w cm2)" and "open_container p2 pos m cm3 = (cm4, w2)"
  shows "all_slots w2 cm4 = all_slots w cm2
    \<and> all_slots w cm2 = fold (\<lambda>(i, item) ss. if i < length ss then ss[i := item] else ss) changes (all_slots w cm1)"
proof -
  have run: "\<exists>c'. cm_containers (fold (\<lambda>(i, item). set_slot w i item) changes cm0) w = Some c' \<and> cd_pos c' = cd_pos c
      \<and> cd_slots c' = fold (\<lambda>(i, item) ss. if i < length ss then ss[i := item] else ss) changes (cd_slots c)"
    if "cm_containers cm0 w = Some c" for cm0 c
    using that
  proof (induction changes arbitrary: cm0 c)
    case (Cons ch changes)
    obtain i item where ch: "ch = (i, item)"
      by (cases ch)
    show ?case
      using Cons.IH [of "set_slot w i item cm0"] Cons.prems by (auto simp: ch set_slot_def)
  qed simp
  obtain c where c: "cm_containers cm1 w = Some c" "cd_pos c = pos"
    using assms(1) by (auto simp: open_container_def Let_def)
  obtain c' where c': "cm_containers cm2 w = Some c'" "cd_pos c' = pos"
    "cd_slots c' = fold (\<lambda>(i, item) ss. if i < length ss then ss[i := item] else ss) changes (cd_slots c)"
    using run [OF c(1)] c(2) assms(2) by auto
  have "cm_persistent cm3 pos = Some (cd_slots c')"
    using c' assms(3) by (simp add: close_container_def Let_def)
  then have "all_slots w2 cm4 = cd_slots c'"
    using assms(4) by (auto simp: open_container_def Let_def all_slots_def)
  then show ?thesis
    using c c' by (simp add: all_slots_def)
qed

text \<open>C16. Two players with the same container open work on copies of it: when the first takes the item
  out of a slot and closes, and the second closes later, the container holds the item again, so
  the item is duplicated.\<close>

theorem shared_container_duplicates:
  assumes "cm_persistent cm pos = Some ss" and "i < length ss" and "ss ! i = Some st"
    and "open_container p1 pos n cm = (cm1, w1)" and "open_container p2 pos n cm1 = (cm2, w2)"
    and "cm3 = fst (close_container p1 w1 (set_slot w1 i None cm2))"
    and "cm4 = fst (close_container p2 w2 cm3)"
  shows "get_slot w1 i cm2 = Some st \<and> get_persistent pos cm3 ! i = None \<and> get_persistent pos cm4 ! i = Some st"
proof -
  have w: "w1 = cm_next cm" "w2 = next_id (cm_next cm)"
    using assms(4,5) by (auto simp: open_container_def Let_def)
  have "w2 \<noteq> w1"
    unfolding w next_id_def by (cases "cm_next cm + 1 = 0") (auto simp: eq_neg_iff_add_eq_0)
  then have cs: "cm_containers cm2 w1 = Some \<lparr>cd_window = w1, cd_pos = pos, cd_slots = ss, cd_state = 0\<rparr>"
    "cm_containers cm2 w2 = Some \<lparr>cd_window = w2, cd_pos = pos, cd_slots = ss, cd_state = 0\<rparr>"
    using assms(1,4,5) by (auto simp: open_container_def Let_def)
  then show ?thesis
    using assms(2,3,6,7) \<open>w2 \<noteq> w1\<close>
    by (simp add: set_slot_def close_container_def get_persistent_def get_slot_def nth_opt_def Let_def)
qed

text \<open>A saved container file that ends right after the id of an item panics: the guard asks for
  five bytes where the count is the sixth.\<close>

theorem cut_off_item_panics:
  "deserialize_all ([2] @ le_bytes 4 (1 :: u32) @ le_bytes 4 x @ le_bytes 4 y @ le_bytes 4 z @ le_bytes 2 (1 :: u16)
     @ [1] @ le_bytes 4 (i :: u32)) cm = None"
proof -
  let ?data = "[2] @ le_bytes 4 (1 :: u32) @ le_bytes 4 x @ le_bytes 4 y @ le_bytes 4 z @ le_bytes 2 (1 :: u16)
     @ [1] @ le_bytes 4 (i :: u32)"
  have count: "unat (from_le (take 4 (drop 1 ?data)) :: u32) = 1"
    by simp
  have k: "unat (from_le (take 2 (drop 17 ?data)) :: u16) = 1"
    by simp
  have "read_stored v2 1 ?data 19 = None" for v2
    by (simp add: nth_opt_def nth_append)
  then show ?thesis
    using count k by (simp add: deserialize_all_def)
qed

text \<open>Saving a container into a full store may forget it at once: the entries dropped are the first
  the map yields, whatever their age, and if the new one is among them it is gone.\<close>

theorem full_store_may_forget:
  assumes "enumerates keys ((cm_persistent cm)(p \<mapsto> ss))" and "length keys = 1025" and "p \<in> set (take 129 keys)"
  shows "get_persistent p (set_persistent keys p ss cm) = []
    \<and> card (dom (cm_persistent (set_persistent keys p ss cm))) = 896"
proof -
  have gone: "fold (\<lambda>k m. m(k := None)) ks m = (\<lambda>k. if k \<in> set ks then None else m k)" for ks and m :: "cell_pos \<rightharpoonup> slots"
    by (induction ks arbitrary: m) (auto simp: fun_eq_iff)
  let ?m = "(cm_persistent cm)(p \<mapsto> ss)"
  have m: "cm_persistent (set_persistent keys p ss cm) = (\<lambda>k. if k \<in> set (take 129 keys) then None else ?m k)"
    using assms(2) by (simp add: set_persistent_def MAX_PERSISTENT_def gone Let_def)
  have keys: "distinct keys" "set keys = dom ?m"
    using assms(1) by (auto simp: enumerates_def)
  have "dom (cm_persistent (set_persistent keys p ss cm)) = dom ?m - set (take 129 keys)"
    unfolding m by (auto simp: dom_def)
  also have "\<dots> = set keys - set (take 129 keys)"
    by (simp only: keys)
  also have "\<dots> = set (drop 129 keys)"
    using set_take_disj_set_drop_if_distinct [OF keys(1), of 129 129] set_append [of "take 129 keys" "drop 129 keys"]
    unfolding append_take_drop_id by blast
  finally have "card (dom (cm_persistent (set_persistent keys p ss cm))) = length (drop 129 keys)"
    using distinct_card [of "drop 129 keys"] keys(1) by simp
  then show ?thesis
    using m assms(2,3) by (simp add: get_persistent_def)
qed

section \<open>Witnesses\<close>

definition one_chest :: ContainerManager where
  "one_chest = new_manager\<lparr>cm_persistent := [(0, 64, 0) \<mapsto> [Some (new_stack (block 1) 5), None]]\<rparr>"

theorem containers_roundtrip_witness:
  "deserialize_all (serialize_all [(0, 64, 0)] one_chest) new_manager
    = Some (new_manager\<lparr>cm_persistent := [(0, 64, 0) \<mapsto> [Some (restored (new_stack (block 1) 5)), None]]\<rparr>)"
proof -
  have "\<forall>ss \<in> ran (cm_persistent one_chest). slots_ok ss"
    by (simp add: one_chest_def slots_ok_def nbt_fits_def new_stack_def Let_def)
  moreover have "enumerates [(0, 64, 0)] (cm_persistent one_chest)"
    by (simp add: enumerates_def one_chest_def new_manager_def)
  moreover have "map_option (map (map_option restored)) \<circ> cm_persistent one_chest
      = [(0, 64, 0) \<mapsto> [Some (restored (new_stack (block 1) 5)), None]]"
    by (simp add: one_chest_def new_manager_def fun_eq_iff)
  ultimately show ?thesis
    using containers_roundtrip [of "[(0, 64, 0)]" one_chest] by simp
qed

theorem reopened_container_keeps_slots_witness:
  "let (cm1, w) = open_container 7 (0, 64, 0) 27 new_manager;
       cm2 = fold (\<lambda>(i, item). set_slot w i item) [(3, Some (new_stack (block 1) 5)), (99, None)] cm1;
       (cm4, w2) = open_container 8 (0, 64, 0) 27 (fst (close_container 7 w cm2))
   in all_slots w2 cm4 = (replicate 27 None)[3 := Some (new_stack (block 1) 5)]"
proof -
  obtain cm1 w where o1: "open_container 7 (0, 64, 0) 27 new_manager = (cm1, w)"
    by (cases "open_container 7 (0, 64, 0) 27 new_manager")
  let ?ch = "[(3, Some (new_stack (block 1) 5)), (99, None)]"
  let ?cm2 = "fold (\<lambda>(i, item). set_slot w i item) ?ch cm1"
  obtain cm4 w2 where o2: "open_container 8 (0, 64, 0) 27 (fst (close_container 7 w ?cm2)) = (cm4, w2)"
    by (cases "open_container 8 (0, 64, 0) 27 (fst (close_container 7 w ?cm2))")
  have "all_slots w cm1 = replicate 27 None"
    using o1 by (auto simp: open_container_def new_manager_def all_slots_def Let_def)
  then show ?thesis
    using reopened_container_keeps_slots [OF o1 refl refl o2] o1 o2 by simp
qed

theorem shared_container_duplicates_witness:
  "let (cm1, w1) = open_container 7 (0, 64, 0) 27 one_chest;
       (cm2, w2) = open_container 8 (0, 64, 0) 27 cm1
   in get_persistent (0, 64, 0) (fst (close_container 8 w2 (fst (close_container 7 w1 (set_slot w1 0 None cm2))))) ! 0
      = Some (new_stack (block 1) 5)"
proof -
  obtain cm1 w1 where o1: "open_container 7 (0, 64, 0) 27 one_chest = (cm1, w1)"
    by (cases "open_container 7 (0, 64, 0) 27 one_chest")
  obtain cm2 w2 where o2: "open_container 8 (0, 64, 0) 27 cm1 = (cm2, w2)"
    by (cases "open_container 8 (0, 64, 0) 27 cm1")
  have "cm_persistent one_chest (0, 64, 0) = Some [Some (new_stack (block 1) 5), None]"
    by (simp add: one_chest_def)
  then show ?thesis
    using shared_container_duplicates [OF _ _ _ o1 o2 refl refl, of "[Some (new_stack (block 1) 5), None]" 0] o1 o2 by simp
qed

theorem full_store_may_forget_witness:
  "get_persistent (0, 0, 0) (set_persistent (map (\<lambda>n. (word_of_nat n, 0, 0)) [0..<1025]) (0, 0, 0) [None]
     (new_manager\<lparr>cm_persistent := (\<lambda>k. if k \<in> (\<lambda>n. (word_of_nat n, 0, 0)) ` {0..<1025} then Some [None] else None)\<rparr>)) = []"
proof -
  let ?f = "\<lambda>n. (word_of_nat n, 0, 0) :: cell_pos"
  let ?keys = "map ?f [0..<1025]"
  let ?m = "\<lambda>k. if k \<in> ?f ` {0..<1025} then Some [None] else None"
  have small: "unat (word_of_nat n :: i32) = n" if "n < 1025" for n
    using that by (simp add: unat_of_nat)
  have "inj_on ?f {0..<1025}"
    by (rule inj_onI) (metis small atLeastLessThan_iff prod.inject)
  then have "distinct ?keys"
    by (simp add: distinct_map)
  moreover have zero: "(0, 0, 0) \<in> ?f ` {0..<1025}"
    by (rule image_eqI [of _ _ 0]) simp_all
  then have "set ?keys = dom (?m((0, 0, 0) \<mapsto> [None]))"
    by (auto simp: dom_def)
  moreover have sel: "cm_persistent (new_manager\<lparr>cm_persistent := ?m\<rparr>) = ?m"
    by simp
  ultimately have e: "enumerates ?keys ((cm_persistent (new_manager\<lparr>cm_persistent := ?m\<rparr>))((0, 0, 0) \<mapsto> [None]))"
    unfolding enumerates_def by (simp only: sel)
  have "?keys ! 0 = (0, 0, 0)"
    by simp
  then have t: "(0, 0, 0) \<in> set (take 129 ?keys)"
    by (auto simp: in_set_conv_nth intro!: exI [of _ 0])
  show ?thesis
    by (rule full_store_may_forget [OF e _ t, THEN conjunct1]) simp
qed

end
