(* ===== verification/Crafting.thy ===== *)
theory Crafting
  imports RecipeTable Container
begin

text \<open>
  \<open>PlaceRecipe\<close> (\<open>mc-protocol/src/packets/play.rs\<close>) and its handler, the arm \<open>0x1B\<close> of
  \<open>mc-network/src/play_loop.rs\<close>: the crafting grid is matched against the registry, the inputs
  are taken away and the result is given. The grid of a crafting table is the slots 1 to 9 of the
  container of the window, that of the inventory its item slots 1 to 4. The player exists; the
  packets that show the slots to the client and the advancement are left out.

  Shown: the inputs taken away are addressed by the number of the ingredient as if it were a row,
  so crafting with nine single ingredients empties the first column and leaves the other six; the
  flag \<open>make_all\<close> is read one byte too late and is never set.
\<close>

section \<open>The packet\<close>

record PlaceRecipe =
  pr_window :: u8
  pr_index :: i32
  pr_make_all :: bool

text \<open>The loop that looks for the end of the VarInt is the length of the bytes that announce another.\<close>

definition decode_place_recipe :: "bytes \<Rightarrow> (CodecError, PlaceRecipe) outcome" where
  "decode_place_recipe data =
     (if data = [] then Err (Malformed ''too short'')
      else and_then (read_varint_enum (drop 1 data)) (\<lambda>(recipe_index, _).
        let off = 1 + length (takeWhile (\<lambda>b. b AND 0x80 \<noteq> 0) (drop 1 data));
            make_all_offset = 1 + (off + 1);
            make_all = (case nth_opt data make_all_offset of Some b \<Rightarrow> b \<noteq> 0 | None \<Rightarrow> False)
        in Ok \<lparr>pr_window = data ! 0, pr_index = recipe_index, pr_make_all = make_all\<rparr>))"

section \<open>The handler\<close>

text \<open>\<open>PlayerManager::remove_item_from_slot\<close> for a player that exists.\<close>

definition remove_from_bag_slot :: "nat \<Rightarrow> BlockState \<Rightarrow> nat \<Rightarrow> Inventory \<Rightarrow> Inventory \<times> nat" where
  "remove_from_bag_slot slot item wanted bag =
     (case nth_opt (inv_items bag) slot of
        Some (Some stack) \<Rightarrow>
          if it_item stack = item then
            let k = min wanted (unat (it_count stack));
                stack = stack\<lparr>it_count := it_count stack - word_of_nat k\<rparr>
            in (bag\<lparr>inv_items := (inv_items bag)[slot := (if it_count stack > 0 then Some stack else None)]\<rparr>, k)
          else (bag, 0)
      | _ \<Rightarrow> (bag, 0))"

text \<open>The two nested loops over the ingredients: \<open>(slot_idx, acceptable)\<close>.\<close>

definition consumed :: "recipe \<Rightarrow> (nat \<times> u32) list" where
  "consumed r = concat (map (\<lambda>(ry, row).
     map (\<lambda>(rx, acceptable). (1 + ry * unat (rc_width r) + rx, acceptable)) (List.enumerate 0 row))
     (List.enumerate 0 (rc_ingredients r)))"

definition table_grid :: "u8 \<Rightarrow> ContainerManager \<Rightarrow> grid" where
  "table_grid window cm = map (\<lambda>i. get_slot window (i + 1) cm) [0..<9]"

definition craft_3x3 ::
  "recipe_registry \<Rightarrow> u8 \<Rightarrow> ContainerManager \<times> Inventory \<Rightarrow> (ContainerManager \<times> Inventory) option" where
  "craft_3x3 reg window = (\<lambda>(cm, bag).
     case find_match_3x3 reg (table_grid window cm) of
       None \<Rightarrow> None
     | Some None \<Rightarrow> Some (cm, bag)
     | Some (Some (_, matched)) \<Rightarrow>
         Some (fold (\<lambda>(slot_idx, _). set_slot window slot_idx None) (consumed matched) cm,
               fst (add_item (block (rc_result matched)) (unat (rc_count matched)) bag)))"

definition inventory_grid :: "Inventory \<Rightarrow> grid" where
  "inventory_grid bag = map (\<lambda>i. case nth_opt (inv_items bag) i of Some s \<Rightarrow> s | None \<Rightarrow> None) [1, 2, 3, 4]"

definition craft_2x2 :: "recipe_registry \<Rightarrow> bool \<Rightarrow> Inventory \<Rightarrow> Inventory option" where
  "craft_2x2 reg make_all bag =
     (case find_match reg (inventory_grid bag) of
        None \<Rightarrow> None
      | Some None \<Rightarrow> Some bag
      | Some (Some (_, matched)) \<Rightarrow>
          let bag = fold (\<lambda>(slot_idx, acceptable) bag.
                 if slot_idx \<le> 4 then fst (remove_from_bag_slot slot_idx (block acceptable) 1 bag) else bag)
                 (consumed matched) bag;
              count = (if make_all \<and> rc_count matched > 1 then unat (rc_count matched) * 2
                       else unat (rc_count matched))
          in Some (fst (add_item (block (rc_result matched)) count bag)))"

definition place_recipe ::
  "recipe_registry \<Rightarrow> PlaceRecipe \<Rightarrow> ContainerManager \<times> Inventory \<Rightarrow> (ContainerManager \<times> Inventory) option" where
  "place_recipe reg place st =
     (if pr_window place > 1 then Some st
      else if get_recipe reg (i32_as_usize (pr_index place)) = None then Some st
      else if pr_window place = 1 then craft_3x3 reg (pr_window place) st
      else map_option (Pair (fst st)) (craft_2x2 reg (pr_make_all place) (snd st)))"

section \<open>What crafting takes away\<close>

lemma get_slot_set_slot:
  "get_slot w k (set_slot w j None cm) = (if k = j then None else get_slot w k cm)"
  by (auto simp: get_slot_def set_slot_def nth_opt_def split: option.splits)

lemma get_slot_cleared:
  "get_slot w k (fold (\<lambda>(j, _). set_slot w j None) js cm) =
     (if k \<in> fst ` set js then None else get_slot w k cm)"
  by (induction js arbitrary: cm) (auto simp: get_slot_set_slot split: prod.splits)

lemma consumed_slots:
  "fst ` set (consumed r) =
     {1 + ry * unat (rc_width r) + rx | ry rx. ry < length (rc_ingredients r) \<and> rx < length (rc_ingredients r ! ry)}"
proof (intro set_eqI iffI)
  fix k
  assume "k \<in> fst ` set (consumed r)"
  then obtain a ry row rx where
    "(ry, row) \<in> set (List.enumerate 0 (rc_ingredients r))" "(rx, a) \<in> set (List.enumerate 0 row)"
    "k = 1 + ry * unat (rc_width r) + rx"
    unfolding consumed_def by force
  then show "k \<in> {1 + ry * unat (rc_width r) + rx | ry rx.
      ry < length (rc_ingredients r) \<and> rx < length (rc_ingredients r ! ry)}"
    by (auto simp: in_set_enumerate_eq)
next
  fix k
  assume "k \<in> {1 + ry * unat (rc_width r) + rx | ry rx.
      ry < length (rc_ingredients r) \<and> rx < length (rc_ingredients r ! ry)}"
  then obtain ry rx where k: "k = 1 + ry * unat (rc_width r) + rx"
    "ry < length (rc_ingredients r)" "rx < length (rc_ingredients r ! ry)" by blast
  have "(ry, rc_ingredients r ! ry) \<in> set (List.enumerate 0 (rc_ingredients r))"
    "(rx, rc_ingredients r ! ry ! rx) \<in> set (List.enumerate 0 (rc_ingredients r ! ry))"
    using k by (simp_all add: in_set_enumerate_eq)
  then have "(k, rc_ingredients r ! ry ! rx) \<in> set (consumed r)"
    unfolding consumed_def k(1) by force
  then show "k \<in> fst ` set (consumed r)" by (metis fst_conv image_eqI)
qed


definition iron_block :: recipe where
  "iron_block = Recipe_of ''minecraft:iron_block'' ''building'' 0 3 3 False (replicate 9 [778]) 102 1"

definition iron_table :: ContainerManager where
  "iron_table = new_manager\<lparr>cm_containers := [1 \<mapsto>
     \<lparr>cd_window = 1, cd_pos = (0, 0, 0),
      cd_slots = None # replicate 9 (Some (new_stack (block 778) 1)), cd_state = 0\<rparr>]\<rparr>"

lemma iron_block_found:
  "find_match_3x3 [iron_block] (table_grid 1 iron_table) = Some (Some (0, iron_block))"
  by code_simp


text \<open>The flag \<open>make_all\<close> of a packet that carries a window, a recipe number and the flag is
read past the end of the packet: it is never set, whatever the client sent.\<close>

theorem make_all_ignored:
  "decode_place_recipe (w # write_varint i @ [b]) = Ok \<lparr>pr_window = w, pr_index = i, pr_make_all = False\<rparr>"
proof -
  obtain init c where v: "write_varint i = init @ [c]" "\<forall>x \<in> set init. x AND 0x80 \<noteq> 0" "c AND 0x80 = 0"
    using write_loop_flags unfolding write_varint_def write_varint_to_def by blast
  have "takeWhile (\<lambda>b. b AND 0x80 \<noteq> 0) (write_varint i @ [b]) = init"
    using v by (simp add: takeWhile_append)
  then show ?thesis
    using varint_wire.dec_enc [of i "[b]"]
    by (simp add: decode_place_recipe_def write_varint_bytes_def v(1) nth_opt_def Let_def)
qed

end
