(* ===== verification/Redstone.thy ===== *)
theory Redstone
  imports WorldBlocks
begin

text \<open>
  \<open>mc-world/src/redstone.rs\<close>: the component predicates, the signal of a component, and the
  engine's tick: observers, the breadth-first propagation with its budget of 4096 nodes and the
  side effects of the components it reaches, then the timers of buttons, repeaters, TNT and
  observers. The number of entities on a block is a parameter, as it is a registered callback.

  The chunk map and the observer map are \<open>DashMap\<close>s, whose documentation says that a call
  deadlocks when the caller holds a reference into the shard it needs. The model keeps that:
  \<open>Err Blocked\<close> is a thread that waits for a lock it holds itself. The shard of a chunk
  is a parameter. \<open>Panic\<close> is a panic.

  Shown: signals stay within 15; TNT never explodes and dispensers are never activated; the tick
  stays within its budget and triggers no consumer; it blocks when an observer sees a change, and
  when a piston has to extend into its own chunk.
\<close>

section \<open>Components\<close>

definition is_redstone_component :: "u32 \<Rightarrow> bool" where
  "is_redstone_component i \<longleftrightarrow>
     i \<in> {993, 994, 152, 852, 853, 995, 996, 997, 998, 70, 71, 46, 84, 137, 138, 149, 218, 317, 23, 158, 74, 25,
          146, 364, 319, 151, 354, 355,
          296, 298, 299, 300, 301, 302, 303, 304, 305, 306, 307,
          308, 309, 310, 311, 312, 313, 314, 315, 316, 317,
          318, 287, 356, 1184, 1260, 1261, 1262, 1263, 1264, 1265, 1266, 1267}"

definition STONE_PRESSURE_PLATE_ID :: u32 where "STONE_PRESSURE_PLATE_ID = 296"
definition OAK_PRESSURE_PLATE_ID :: u32 where "OAK_PRESSURE_PLATE_ID = 298"
definition LIGHT_WEIGHTED_PRESSURE_PLATE_ID :: u32 where "LIGHT_WEIGHTED_PRESSURE_PLATE_ID = 1043"
definition HEAVY_WEIGHTED_PRESSURE_PLATE_ID :: u32 where "HEAVY_WEIGHTED_PRESSURE_PLATE_ID = 1044"
definition TRIPWIRE_HOOK_ID :: u32 where "TRIPWIRE_HOOK_ID = 287"
definition TRIPWIRE_ID :: u32 where "TRIPWIRE_ID = 286"
definition TARGET_BLOCK_ID :: u32 where "TARGET_BLOCK_ID = 318"
definition SCULK_SHRIEKER_ID :: u32 where "SCULK_SHRIEKER_ID = 356"
definition POWERED_RAIL_ID :: u32 where "POWERED_RAIL_ID = 27"
definition DETECTOR_RAIL_ID :: u32 where "DETECTOR_RAIL_ID = 28"
definition ACTIVATOR_RAIL_ID :: u32 where "ACTIVATOR_RAIL_ID = 157"

definition is_target_block :: "u32 \<Rightarrow> bool" where
  "is_target_block i \<longleftrightarrow> i = TARGET_BLOCK_ID"

definition is_sculk_shrieker :: "u32 \<Rightarrow> bool" where
  "is_sculk_shrieker i \<longleftrightarrow> i = SCULK_SHRIEKER_ID"

definition is_pressure_plate :: "u32 \<Rightarrow> bool" where
  "is_pressure_plate i \<longleftrightarrow> i = STONE_PRESSURE_PLATE_ID \<or> OAK_PRESSURE_PLATE_ID \<le> i \<and> i \<le> 307
     \<or> i = LIGHT_WEIGHTED_PRESSURE_PLATE_ID \<or> i = HEAVY_WEIGHTED_PRESSURE_PLATE_ID"

definition is_button :: "u32 \<Rightarrow> bool" where
  "is_button i \<longleftrightarrow> 308 \<le> i \<and> i \<le> 318"

definition is_tripwire_component :: "u32 \<Rightarrow> bool" where
  "is_tripwire_component i \<longleftrightarrow> i = TRIPWIRE_HOOK_ID \<or> i = TRIPWIRE_ID"

definition is_rail :: "u32 \<Rightarrow> bool" where
  "is_rail i \<longleftrightarrow> i \<in> {POWERED_RAIL_ID, DETECTOR_RAIL_ID, ACTIVATOR_RAIL_ID, 66, 155, 156}"

definition is_detector_rail :: "u32 \<Rightarrow> bool" where
  "is_detector_rail i \<longleftrightarrow> i = DETECTOR_RAIL_ID"

definition is_activator_rail :: "u32 \<Rightarrow> bool" where
  "is_activator_rail i \<longleftrightarrow> i = ACTIVATOR_RAIL_ID"

definition is_container_block :: "u32 \<Rightarrow> bool" where
  "is_container_block i \<longleftrightarrow> i \<in> {54, 146, 290, 61, 62, 291, 23, 158, 154}"

definition is_constant_source :: "u32 \<Rightarrow> bool" where "is_constant_source i \<longleftrightarrow> i = 152"
definition is_toggle_component :: "u32 \<Rightarrow> bool" where "is_toggle_component i \<longleftrightarrow> i = 852"
definition is_pulse_component :: "u32 \<Rightarrow> bool" where "is_pulse_component i \<longleftrightarrow> i = 853"
definition is_input_component :: "u32 \<Rightarrow> bool" where "is_input_component i \<longleftrightarrow> i \<in> {994, 152, 852, 853}"
definition is_copper_bulb :: "u32 \<Rightarrow> bool" where "is_copper_bulb i \<longleftrightarrow> 1260 \<le> i \<and> i \<le> 1267"

definition component_power :: "u32 \<Rightarrow> bool \<Rightarrow> u8" where
  "component_power i lit =
     (if i = 994 then if lit then 15 else 0
      else if i = 152 then 15
      else if i = 852 then if lit then 15 else 0
      else if i = 853 then 15
      else if i = 993 then 0
      else if 308 \<le> i \<and> i \<le> 318 \<and> lit then 15
      else 0)"

definition note_block_instrument :: "u32 \<Rightarrow> string" where
  "note_block_instrument i =
     (if i \<in> {1, 12, 87} then ''minecraft:block.stone.note_block.basedrum''
      else if 24 \<le> i \<and> i \<le> 26 then ''minecraft:block.sand.note_block.snare''
      else if i \<in> {66, 67} then ''minecraft:block.glass.note_block.click''
      else if 17 \<le> i \<and> i \<le> 23 then ''minecraft:block.wood.note_block.bass''
      else if 9 \<le> i \<and> i \<le> 11 then ''minecraft:block.dirt.note_block.piano''
      else if i = 41 then ''minecraft:block.gold_block.note_block.bell''
      else if i = 78 then ''minecraft:block.ice.note_block.chime''
      else if i = 147 then ''minecraft:block.bone_block.note_block.xylophone''
      else ''minecraft:block.stone.note_block.harp'')"

section \<open>State\<close>

record RedstoneEngine =
  rs_pending :: "pos list"
  rs_processed :: "pos set"
  rs_signal :: "pos \<rightharpoonup> u8"
  rs_pulses :: "(pos \<times> u8) list"
  rs_repeaters :: "(pos \<times> u8 \<times> u8) list"
  rs_fuses :: "(pos \<times> u8) list"
  rs_explosions :: "(pos \<times> nat) list"
  rs_observers :: "(pos \<times> u32) list"
  rs_notes :: "pos \<rightharpoonup> u8"
  rs_dispensers :: "pos list"
  rs_hoppers :: "(pos \<times> u8) list"

definition new_engine :: RedstoneEngine where
  "new_engine = \<lparr>rs_pending = [], rs_processed = {}, rs_signal = Map.empty, rs_pulses = [], rs_repeaters = [],
     rs_fuses = [], rs_explosions = [], rs_observers = [], rs_notes = Map.empty, rs_dispensers = [], rs_hoppers = []\<rparr>"

text \<open>What the engine is given: the entities on a block and the shard of a chunk.\<close>

record surroundings =
  entity_count_on_block :: "pos \<Rightarrow> u8"
  shard_of :: "ChunkPos \<Rightarrow> nat"

definition signal_at :: "RedstoneEngine \<Rightarrow> pos \<Rightarrow> u8" where
  "signal_at e p = (case rs_signal e p of Some v \<Rightarrow> v | None \<Rightarrow> 0)"

text \<open>\<open>get_mut\<close> waits for its shard; \<open>held\<close> are the chunks the caller has references into.\<close>

definition lock_mut :: "surroundings \<Rightarrow> ChunkPos list \<Rightarrow> ChunkPos \<Rightarrow> unit effect" where
  "lock_mut env held cp = (if shard_of env cp \<in> shard_of env ` set held then Err Blocked else Ok ())"

definition entity_component_power :: "surroundings \<Rightarrow> u32 \<Rightarrow> pos \<Rightarrow> u8" where
  "entity_component_power env i p =
     (if \<not> is_pressure_plate i \<and> i \<noteq> TRIPWIRE_ID then 0
      else let count = entity_count_on_block env p in
        if count = 0 then 0
        else if i = STONE_PRESSURE_PLATE_ID then 15
        else if 298 \<le> i \<and> i \<le> 307 then 15
        else if i = LIGHT_WEIGHTED_PRESSURE_PLATE_ID then min count 15
        else if i = HEAVY_WEIGHTED_PRESSURE_PLATE_ID then
          let signal = ucast ((ucast count :: u32) div 10) in if signal > 0 then signal else 1
        else if i = TRIPWIRE_ID then 15
        else 0)"

section \<open>One node of the propagation\<close>

definition neighbours :: "(i32 \<times> i32 \<times> i32) list" where
  "neighbours = [(1, 0, 0), (- 1, 0, 0), (0, 1, 0), (0, - 1, 0), (0, 0, 1), (0, 0, - 1)]"

definition get_back_signal :: "RedstoneEngine \<Rightarrow> pos \<Rightarrow> u8" where
  "get_back_signal e p = signal_at e (shift p (0, 0, - 1))"

definition get_side_signal :: "RedstoneEngine \<Rightarrow> pos \<Rightarrow> u8" where
  "get_side_signal e p = max (signal_at e (shift p (- 1, 0, 0))) (signal_at e (shift p (1, 0, 0)))"

definition is_comparator_subtract :: "RedstoneEngine \<Rightarrow> pos \<Rightarrow> bool" where
  "is_comparator_subtract e p \<longleftrightarrow> signal_at e (shift p (0, 0, 1)) > 0"

definition comparator_power :: "RedstoneEngine \<Rightarrow> pos \<Rightarrow> u8" where
  "comparator_power e p =
     (let back = get_back_signal e p; max_side = max (get_side_signal e p) (get_side_signal e p) in
      if is_comparator_subtract e p then saturating_sub8 back max_side
      else if back > max_side then back else 0)"

definition wire_power :: "RedstoneEngine \<Rightarrow> pos \<Rightarrow> u8" where
  "wire_power e p =
     saturating_sub8
       (fold (\<lambda>d m. max (max (max m (signal_at e (shift p d))) (signal_at e (shift (shift p d) (0, - 1, 0))))
                     (signal_at e (shift (shift p d) (0, 1, 0)))) sides 0) 1"

definition node_power :: "surroundings \<Rightarrow> RedstoneEngine \<Rightarrow> u32 \<Rightarrow> pos \<Rightarrow> u8" where
  "node_power env e i p =
     (if is_constant_source i \<or> is_toggle_component i \<or> is_pulse_component i then 15
      else if is_pressure_plate i \<or> is_tripwire_component i then entity_component_power env i p
      else if i = 149 then comparator_power e p
      else if i = 317 then 0
      else if i = 993 then wire_power e p
      else component_power i True)"

text \<open>Pistons, dispensers and droppers are also powered by a signal one block above.\<close>

definition effective_power :: "surroundings \<Rightarrow> RedstoneEngine \<Rightarrow> u32 \<Rightarrow> pos \<Rightarrow> u8" where
  "effective_power env e i p =
     (let pw = node_power env e i p;
          qc_powered = i \<in> {137, 138, 23, 158} \<and> signal_at e (shift p (0, 1, 0)) > 0
      in if qc_powered then max pw 15 else pw)"

definition detect_piston_facing :: "pos \<Rightarrow> RedstoneEngine \<Rightarrow> i32 \<times> i32 \<times> i32" where
  "detect_piston_facing p e =
     (let dirs = [(1, 0, 0), (- 1, 0, 0), (0, 0, 1), (0, 0, - 1), (0, 1, 0), (0, - 1, 0)];
          back = (\<lambda>(dx, dy, dz). (- dx, - dy, - dz))
      in case find (\<lambda>d. signal_at e (shift p d) > 0) dirs of
           Some d \<Rightarrow> d
         | None \<Rightarrow>
             (case find (\<lambda>d. signal_at e (shift p (back d)) > 0) dirs of Some d \<Rightarrow> d | None \<Rightarrow> (1, 0, 0)))"

text \<open>Queueing the component neighbours that were not processed yet.\<close>

primrec push_neighbours :: "world \<Rightarrow> pos \<Rightarrow> (i32 \<times> i32 \<times> i32) list \<Rightarrow> RedstoneEngine \<Rightarrow> RedstoneEngine effect" where
  "push_neighbours w p [] e = Ok e"
| "push_neighbours w p (d # ds) e =
     (let n = shift p d in
      case n of (nx, ny, nz) \<Rightarrow>
        if \<not> in_world ny then push_neighbours w p ds e
        else
          (case chunk_at w nx nz of
             None \<Rightarrow> push_neighbours w p ds e
           | Some c \<Rightarrow>
               and_then (block_in c n) (\<lambda>nblock.
                 push_neighbours w p ds
                   (if is_redstone_component (bs_id nblock) \<and> n \<notin> rs_processed e
                    then e\<lparr>rs_pending := rs_pending e @ [n]\<rparr> else e))))"

definition BEDROCK_ID :: u32 where "BEDROCK_ID = 266"

text \<open>An extending piston pushes one block, while the reference into the piston's chunk is held.\<close>

definition piston_push :: "surroundings \<Rightarrow> pos \<Rightarrow> RedstoneEngine \<Rightarrow> world \<Rightarrow> world effect" where
  "piston_push env p e w =
     (let d = detect_piston_facing p e; q = shift p d; r = shift q d;
          pcp = chunk_of_pos q; ppcp = chunk_of_pos r
      in if \<not> in_world (y_of q) then Ok w
         else
           and_then (lock_mut env [chunk_of_pos p] pcp) (\<lambda>_.
             case map_of (w_chunks w) pcp of
               None \<Rightarrow> Ok w
             | Some pchunk \<Rightarrow>
                 and_then (block_in pchunk q) (\<lambda>pushed.
                   if \<not> is_air pushed \<and> bs_id pushed \<noteq> BEDROCK_ID \<and> in_world (y_of r) then
                     and_then (lock_mut env [chunk_of_pos p, pcp] ppcp) (\<lambda>_.
                       case map_of (w_chunks w) ppcp of
                         None \<Rightarrow> Ok w
                       | Some ppchunk \<Rightarrow>
                           and_then (block_in ppchunk r) (\<lambda>dest.
                             if is_air dest then
                               and_then (write_in ppcp r pushed w) (\<lambda>w. write_in pcp q AIR w)
                             else Ok w))
                   else Ok w)))"

text \<open>A sticky piston without power pulls the block behind it into its own place.\<close>

definition piston_pull :: "surroundings \<Rightarrow> pos \<Rightarrow> RedstoneEngine \<Rightarrow> world \<Rightarrow> world effect" where
  "piston_pull env p e w =
     (case detect_piston_facing p e of (dx, dy, dz) \<Rightarrow>
        let q = shift p (- dx, - dy, - dz); bcp = chunk_of_pos q in
        if \<not> in_world (y_of q) then Ok w
        else
          and_then (lock_mut env [chunk_of_pos p] bcp) (\<lambda>_.
            case map_of (w_chunks w) bcp of
              None \<Rightarrow> Ok w
            | Some bchunk \<Rightarrow>
                and_then (block_in bchunk q) (\<lambda>behind.
                and_then (block_in bchunk p) (\<lambda>front.
                  if \<not> is_air behind \<and> bs_id behind \<noteq> BEDROCK_ID \<and> is_air front then
                    and_then (write_in bcp p behind w) (\<lambda>w. write_in bcp q AIR w)
                  else Ok w))))"

definition piston_effect :: "surroundings \<Rightarrow> pos \<Rightarrow> u32 \<Rightarrow> u8 \<Rightarrow> RedstoneEngine \<Rightarrow> world \<Rightarrow> world effect" where
  "piston_effect env p i pw e w =
     (if i \<in> {137, 138} then
        and_then (if pw > 0 then piston_push env p e w else Ok w) (\<lambda>w.
          if i = 138 \<and> pw = 0 then piston_pull env p e w else Ok w)
      else Ok w)"

definition ignite_tnt :: "pos \<Rightarrow> RedstoneEngine \<Rightarrow> RedstoneEngine" where
  "ignite_tnt p e = e\<lparr>rs_fuses := rs_fuses e @ [(p, 80)]\<rparr>"

definition increment_note :: "pos \<Rightarrow> RedstoneEngine \<Rightarrow> RedstoneEngine \<times> u8" where
  "increment_note p e =
     (let n = (case rs_notes e p of Some n \<Rightarrow> (n + 1) mod 25 | None \<Rightarrow> 1)
      in (e\<lparr>rs_notes := (rs_notes e)(p \<mapsto> n)\<rparr>, n))"

definition engine_effects :: "pos \<Rightarrow> u32 \<Rightarrow> u8 \<Rightarrow> RedstoneEngine \<Rightarrow> RedstoneEngine" where
  "engine_effects p i pw e =
     (let e = (if i = 25 \<and> pw > 0 then ignite_tnt p e else e);
          e = (if i \<in> {23, 158} \<and> pw > 0 then e\<lparr>rs_dispensers := rs_dispensers e @ [p]\<rparr> else e)
      in if i = 74 \<and> pw > 0 then fst (increment_note p e) else e)"

definition bulb_effect :: "surroundings \<Rightarrow> pos \<Rightarrow> u32 \<Rightarrow> u8 \<Rightarrow> u8 option \<Rightarrow> world \<Rightarrow> world effect" where
  "bulb_effect env p i pw prev w =
     (if is_copper_bulb i \<and> pw > 0 \<and> prev = Some 0 then
        and_then (lock_mut env [chunk_of_pos p] (chunk_of_pos p)) (\<lambda>_.
          write_in (chunk_of_pos p) p (block (if i \<ge> 1264 then i - 4 else i + 4)) w)
      else Ok w)"

text \<open>A node that is not skipped.\<close>

definition process_node :: "surroundings \<Rightarrow> pos \<Rightarrow> RedstoneEngine \<times> world \<Rightarrow> (RedstoneEngine \<times> world) effect" where
  "process_node env p ew =
     (case ew of (e, w) \<Rightarrow>
        (case map_of (w_chunks w) (chunk_of_pos p) of
           None \<Rightarrow> Ok (e, w)
         | Some c \<Rightarrow>
             and_then (block_in c p) (\<lambda>b.
               let i = bs_id b in
               if \<not> is_redstone_component i then Ok (e, w)
               else
                 let pw = effective_power env e i p; prev = rs_signal e p in
                 if prev = Some pw then Ok (e, w)
                 else
                   let e = e\<lparr>rs_signal := (rs_signal e)(p \<mapsto> pw)\<rparr> in
                   and_then (if pw > 0 then push_neighbours w p neighbours e else Ok e) (\<lambda>e.
                   and_then (piston_effect env p i pw e w) (\<lambda>w.
                   let e = engine_effects p i pw e in
                   and_then (bulb_effect env p i pw prev w) (\<lambda>w. Ok (e, w)))))))"

definition MAX_NODES_PER_TICK :: nat where "MAX_NODES_PER_TICK = 4096"

function propagate :: "surroundings \<Rightarrow> nat \<Rightarrow> RedstoneEngine \<times> world \<Rightarrow> (RedstoneEngine \<times> world) effect" where
  "propagate env nodes (e, w) =
     (case rs_pending e of
        [] \<Rightarrow> Ok (e, w)
      | p # rest \<Rightarrow>
          if p \<in> rs_processed e then propagate env nodes (e\<lparr>rs_pending := rest\<rparr>, w)
          else if nodes \<ge> MAX_NODES_PER_TICK then Ok (e\<lparr>rs_pending := rest @ [p]\<rparr>, w)
          else
            (case process_node env p (e\<lparr>rs_pending := rest, rs_processed := insert p (rs_processed e)\<rparr>, w) of
               Ok ew \<Rightarrow> propagate env (nodes + 1) ew
             | Err b \<Rightarrow> Err b
             | Panic \<Rightarrow> Panic))"
  by pat_completeness auto
termination
  by (relation "measures [\<lambda>(env, n, e, w). MAX_NODES_PER_TICK - n, \<lambda>(env, n, e, w). length (rs_pending e)]") auto

declare propagate.simps [simp del]

section \<open>The tick\<close>

text \<open>An observer whose front block changed. \<open>observer_states\<close> is written while the loop holds the
  entry it iterates over, so the write waits for the loop's own lock.\<close>

primrec observe :: "world \<Rightarrow> (pos \<times> u32) list \<Rightarrow> unit effect" where
  "observe w [] = Ok ()"
| "observe w (obs # rest) =
     (case obs of (p, prev_state) \<Rightarrow>
        let f = shift p (0, 0, 1) in
        (case (map_of (w_chunks w) (chunk_of_pos p), map_of (w_chunks w) (chunk_of_pos f)) of
           (Some _, Some fchunk) \<Rightarrow>
             and_then (block_in fchunk f) (\<lambda>front.
               if bs_id front \<noteq> prev_state then Err Blocked else observe w rest)
         | _ \<Rightarrow> observe w rest))"

definition on_block_change :: "pos \<Rightarrow> RedstoneEngine \<Rightarrow> RedstoneEngine" where
  "on_block_change p e = e\<lparr>rs_pending := rs_pending e @ [p]\<rparr>"

text \<open>\<open>retain_mut\<close> with a countdown: what stays, counted down, and what has run out.\<close>

definition button_decay :: "RedstoneEngine \<Rightarrow> RedstoneEngine" where
  "button_decay e =
     (let kept = map (\<lambda>(p, rem). (p, rem - 1)) (filter (\<lambda>(p, rem). rem > 0) (rs_pulses e));
          expired = map fst (filter (\<lambda>(p, rem). \<not> rem > 0) (rs_pulses e))
      in fold on_block_change expired (e\<lparr>rs_pulses := kept\<rparr>))"

definition repeater_delays :: "RedstoneEngine \<Rightarrow> RedstoneEngine" where
  "repeater_delays e =
     (let kept = map (\<lambda>(p, rem, s). (p, rem - 1, s)) (filter (\<lambda>(p, rem, s). rem > 0) (rs_repeaters e));
          ready = map fst (filter (\<lambda>(p, rem, s). \<not> rem > 0) (rs_repeaters e))
      in fold on_block_change ready (e\<lparr>rs_repeaters := kept\<rparr>))"

text \<open>The closure of the TNT fuses keeps those that ran out and drops those it counted down.\<close>

definition tnt_fuses :: "RedstoneEngine \<Rightarrow> RedstoneEngine" where
  "tnt_fuses e =
     (let kept = filter (\<lambda>(p, rem). \<not> rem > 0) (rs_fuses e); detonated = map fst kept
      in e\<lparr>rs_fuses := kept, rs_explosions := rs_explosions e @ map (\<lambda>p. (p, 4)) detonated\<rparr>)"

definition observer_decay :: "RedstoneEngine \<Rightarrow> RedstoneEngine" where
  "observer_decay e =
     fold (\<lambda>p e. e\<lparr>rs_signal := (rs_signal e)(p := None),
                   rs_pending := rs_pending e @ map (shift p) [(1, 0, 0), (- 1, 0, 0), (0, 0, 1), (0, 0, - 1)]\<rparr>)
       (map fst (filter (\<lambda>(p, s). rs_signal e p = Some 15) (rs_observers e))) e"

definition rs_tick :: "surroundings \<Rightarrow> RedstoneEngine \<times> world \<Rightarrow> (RedstoneEngine \<times> world) effect" where
  "rs_tick env ew =
     and_then (observe (snd ew) (rs_observers (fst ew))) (\<lambda>_.
     and_then (propagate env 0 ew) (\<lambda>(e, w).
       let e = observer_decay (tnt_fuses (repeater_delays (button_decay e)))
       in Ok (e\<lparr>rs_processed := {}, rs_dispensers := []\<rparr>, w)))"

section \<open>Other operations\<close>

definition press_button :: "pos \<Rightarrow> RedstoneEngine \<Rightarrow> RedstoneEngine" where
  "press_button p e = on_block_change p (e\<lparr>rs_pulses := rs_pulses e @ [(p, 20)]\<rparr>)"

definition toggle_lever :: "pos \<Rightarrow> RedstoneEngine \<Rightarrow> RedstoneEngine" where
  "toggle_lever p e = on_block_change p e"

definition register_observer :: "world \<Rightarrow> pos \<Rightarrow> RedstoneEngine \<Rightarrow> RedstoneEngine effect" where
  "register_observer w p e =
     (let f = shift p (0, 0, 1) in
      (case (map_of (w_chunks w) (chunk_of_pos p), map_of (w_chunks w) (chunk_of_pos f)) of
         (Some _, Some fchunk) \<Rightarrow>
           and_then (block_in fchunk f) (\<lambda>front. Ok (e\<lparr>rs_observers := AList.update p (bs_id front) (rs_observers e)\<rparr>))
       | _ \<Rightarrow> Ok e))"

definition remove_observer :: "pos \<Rightarrow> RedstoneEngine \<Rightarrow> RedstoneEngine" where
  "remove_observer p e = e\<lparr>rs_observers := AList.delete p (rs_observers e)\<rparr>"

definition get_note :: "pos \<Rightarrow> RedstoneEngine \<Rightarrow> u8" where
  "get_note p e = (case rs_notes e p of Some n \<Rightarrow> n | None \<Rightarrow> 0)"

definition take_dispenser_activations :: "RedstoneEngine \<Rightarrow> RedstoneEngine \<times> pos list" where
  "take_dispenser_activations e = (e\<lparr>rs_dispensers := []\<rparr>, rs_dispensers e)"

definition register_hopper :: "pos \<Rightarrow> RedstoneEngine \<Rightarrow> RedstoneEngine" where
  "register_hopper p e = e\<lparr>rs_hoppers := rs_hoppers e @ [(p, 8)]\<rparr>"

definition remove_hopper :: "pos \<Rightarrow> RedstoneEngine \<Rightarrow> RedstoneEngine" where
  "remove_hopper p e = e\<lparr>rs_hoppers := filter (\<lambda>(q, cd). q \<noteq> p) (rs_hoppers e)\<rparr>"

definition tick_hoppers :: "RedstoneEngine \<Rightarrow> RedstoneEngine" where
  "tick_hoppers e = e\<lparr>rs_hoppers := map (\<lambda>(p, cd). (p, if cd > 0 then cd - 1 else 8)) (rs_hoppers e)\<rparr>"

definition get_ready_hoppers :: "RedstoneEngine \<Rightarrow> pos list" where
  "get_ready_hoppers e = map fst (filter (\<lambda>(p, cd). cd = 0 \<and> \<not> signal_at e p > 0) (rs_hoppers e))"

definition set_repeater_delay :: "pos \<Rightarrow> u8 \<Rightarrow> u8 \<Rightarrow> RedstoneEngine \<Rightarrow> RedstoneEngine" where
  "set_repeater_delay p delay strength e = e\<lparr>rs_repeaters := rs_repeaters e @ [(p, delay, strength)]\<rparr>"

definition has_neighbor_power :: "RedstoneEngine \<Rightarrow> pos \<Rightarrow> bool" where
  "has_neighbor_power e p \<longleftrightarrow> list_ex (\<lambda>d. signal_at e (shift p d) > 0) neighbours"

definition get_signal_strength :: "RedstoneEngine \<Rightarrow> pos \<Rightarrow> u8" where
  "get_signal_strength e p = signal_at e p"

definition copper_bulb_light_level :: "u32 \<Rightarrow> u8" where
  "copper_bulb_light_level i = (if i = 332 then 15 else if i = 333 then 12 else if i = 334 then 8 else if i = 335 then 4 else 0)"

definition oxidize_copper_bulb :: "u32 \<Rightarrow> u32" where
  "oxidize_copper_bulb i = (if i = 332 then 333 else if i = 333 then 334 else if i = 334 then 335 else i)"

definition CRAFTER_ID :: u32 where "CRAFTER_ID = 364"
definition COPPER_BULB_IDS :: "u32 list" where "COPPER_BULB_IDS = [400, 401, 402, 403]"

definition is_special_redstone_component :: "u32 \<Rightarrow> bool" where
  "is_special_redstone_component i \<longleftrightarrow> i = CRAFTER_ID \<or> i \<in> set COPPER_BULB_IDS"

text \<open>The global sets of inverted daylight detectors and of vibrations. The scan for sensors only
  looks; its outcome is dropped.\<close>

definition toggle_daylight_detector :: "pos \<Rightarrow> pos set \<Rightarrow> pos set \<times> bool" where
  "toggle_daylight_detector p inverted =
     (if p \<in> inverted then (inverted - {p}, False) else (insert p inverted, True))"

definition register_vibration :: "pos \<Rightarrow> u8 \<Rightarrow> (pos \<times> u8) set \<Rightarrow> (pos \<times> u8) set" where
  "register_vibration p frequency events = insert (p, frequency) events"

definition tick_sculk_sensors :: "(pos \<times> u8) set \<Rightarrow> (pos \<times> u8) set" where
  "tick_sculk_sensors events = {}"

text \<open>The engine as its callers drive it: any of its operations, and any change of the world by
  someone else.\<close>

inductive engine_step :: "surroundings \<Rightarrow> RedstoneEngine \<times> world \<Rightarrow> RedstoneEngine \<times> world \<Rightarrow> bool" for env where
  step_tick: "rs_tick env (e, w) = Ok (e', w') \<Longrightarrow> engine_step env (e, w) (e', w')"
| step_world: "engine_step env (e, w) (e, w')"
| step_change: "engine_step env (e, w) (on_block_change p e, w)"
| step_button: "engine_step env (e, w) (press_button p e, w)"
| step_ignite: "engine_step env (e, w) (ignite_tnt p e, w)"
| step_repeater: "engine_step env (e, w) (set_repeater_delay p d s e, w)"
| step_observer: "register_observer w p e = Ok e' \<Longrightarrow> engine_step env (e, w) (e', w)"
| step_unobserve: "engine_step env (e, w) (remove_observer p e, w)"
| step_note: "engine_step env (e, w) (fst (increment_note p e), w)"
| step_take: "engine_step env (e, w) (fst (take_dispenser_activations e), w)"
| step_hopper: "engine_step env (e, w) (register_hopper p e, w)"
| step_unhopper: "engine_step env (e, w) (remove_hopper p e, w)"
| step_hoppers: "engine_step env (e, w) (tick_hoppers e, w)"

inductive_cases engine_step_cases: "engine_step env (e, w) ew'"

section \<open>Signals\<close>

definition signals_ok :: "RedstoneEngine \<Rightarrow> bool" where
  "signals_ok e \<longleftrightarrow> (\<forall>p v. rs_signal e p = Some v \<longrightarrow> v \<le> 15)"

lemma signal_at_le:
  assumes "signals_ok e"
  shows "signal_at e p \<le> 15"
proof (cases "rs_signal e p")
  case (Some v)
  then have "v \<le> 15"
    using assms unfolding signals_ok_def by blast
  with Some show ?thesis
    by (simp add: signal_at_def)
qed (simp add: signal_at_def)

lemma entity_component_power_le:
  assumes "i \<noteq> HEAVY_WEIGHTED_PRESSURE_PLATE_ID"
  shows "entity_component_power env i p \<le> 15"
  using assms by (simp add: entity_component_power_def Let_def)

lemma if_le: "(a :: u8) \<le> n \<Longrightarrow> b \<le> n \<Longrightarrow> (if c then a else b) \<le> n"
  by simp

lemma node_power_le:
  assumes ok: "signals_ok e" and i: "is_redstone_component i"
  shows "node_power env e i p \<le> 15"
proof -
  note s = signal_at_le [OF ok]
  have "i \<noteq> HEAVY_WEIGHTED_PRESSURE_PLATE_ID"
    using i by (auto simp: is_redstone_component_def HEAVY_WEIGHTED_PRESSURE_PLATE_ID_def)
  moreover have "comparator_power e p \<le> 15"
  proof -
    let ?b = "get_back_signal e p"
    have b: "?b \<le> 15" "saturating_sub8 ?b m \<le> 15" for m
      unfolding get_back_signal_def using s by (blast intro: order_trans [OF saturating_sub8_le])+
    show ?thesis
      unfolding comparator_power_def Let_def by (intro if_le b) simp
  qed
  moreover have "wire_power e p \<le> 15"
    unfolding wire_power_def sides_def fold.simps comp_apply id_apply
    by (rule order_trans [OF saturating_sub8_le]) (intro max.boundedI s, simp)
  moreover have "component_power i True \<le> 15"
    by (simp add: component_power_def)
  ultimately show ?thesis
    by (simp add: node_power_def entity_component_power_le)
qed

lemma effective_power_le: "signals_ok e \<Longrightarrow> is_redstone_component i \<Longrightarrow> effective_power env e i p \<le> 15"
  using node_power_le by (simp add: effective_power_def Let_def)

text \<open>TNT, note blocks and copper bulbs are consumers, and no rule gives a consumer power.\<close>

lemma unpowered:
  assumes "i = 25 \<or> i = 74 \<or> is_copper_bulb i"
  shows "effective_power env e i p = 0"
proof -
  have far: "\<not> i \<le> 307 \<and> \<not> i \<le> 318" if "is_copper_bulb i"
    using that order_trans [of 1260 i 307] order_trans [of 1260 i 318] by (auto simp: is_copper_bulb_def)
  have "i \<noteq> 152 \<and> i \<noteq> 852 \<and> i \<noteq> 853 \<and> i \<noteq> 994 \<and> i \<noteq> 149 \<and> i \<noteq> 317 \<and> i \<noteq> 993 \<and> i \<notin> {137, 138, 23, 158}"
    using assms by (auto simp: is_copper_bulb_def)
  moreover have "\<not> is_pressure_plate i \<and> \<not> is_tripwire_component i \<and> \<not> (308 \<le> i \<and> i \<le> 318)"
    using assms far by (auto simp: is_copper_bulb_def is_pressure_plate_def is_tripwire_component_def
        STONE_PRESSURE_PLATE_ID_def OAK_PRESSURE_PLATE_ID_def LIGHT_WEIGHTED_PRESSURE_PLATE_ID_def
        HEAVY_WEIGHTED_PRESSURE_PLATE_ID_def TRIPWIRE_HOOK_ID_def TRIPWIRE_ID_def)
  ultimately show ?thesis
    by (simp add: effective_power_def node_power_def is_constant_source_def is_toggle_component_def
        is_pulse_component_def component_power_def Let_def)
qed

section \<open>What every step keeps\<close>

text \<open>The part of the state the propagation leaves alone or only extends.\<close>

definition engine_ok :: "RedstoneEngine \<Rightarrow> bool" where
  "engine_ok e \<longleftrightarrow> signals_ok e \<and> list_all (\<lambda>(p, rem). rem > 0) (rs_fuses e) \<and> rs_explosions e = []"

lemma signals_ok_update: "signals_ok e \<Longrightarrow> v \<le> 15 \<Longrightarrow> signals_ok (e\<lparr>rs_signal := (rs_signal e)(p \<mapsto> v)\<rparr>)"
  unfolding signals_ok_def by (metis RedstoneEngine.select_convs(3) RedstoneEngine.surjective
      RedstoneEngine.update_convs(3) fun_upd_apply option.inject)

lemma engine_ok_simps [simp]:
  "engine_ok (e\<lparr>rs_pending := q\<rparr>) = engine_ok e"
  "engine_ok (e\<lparr>rs_processed := d\<rparr>) = engine_ok e"
  "engine_ok (e\<lparr>rs_pulses := u\<rparr>) = engine_ok e"
  "engine_ok (e\<lparr>rs_repeaters := r\<rparr>) = engine_ok e"
  "engine_ok (e\<lparr>rs_observers := b\<rparr>) = engine_ok e"
  "engine_ok (e\<lparr>rs_notes := m\<rparr>) = engine_ok e"
  "engine_ok (e\<lparr>rs_dispensers := l\<rparr>) = engine_ok e"
  "engine_ok (e\<lparr>rs_hoppers := h\<rparr>) = engine_ok e"
  by (simp_all add: engine_ok_def signals_ok_def)

lemma engine_ok_signal: "engine_ok e \<Longrightarrow> v \<le> 15 \<Longrightarrow> engine_ok (e\<lparr>rs_signal := (rs_signal e)(p \<mapsto> v)\<rparr>)"
  using signals_ok_update by (simp add: engine_ok_def)

lemma engine_ok_forget: "engine_ok e \<Longrightarrow> engine_ok (e\<lparr>rs_signal := (rs_signal e)(p := None)\<rparr>)"
  unfolding engine_ok_def signals_ok_def by (simp del: split_paired_All)

lemma engine_ok_ignite: "engine_ok e \<Longrightarrow> engine_ok (ignite_tnt p e)"
  by (simp add: engine_ok_def ignite_tnt_def signals_ok_def)

lemma engine_ok_change [simp]: "engine_ok (on_block_change p e) = engine_ok e"
  by (simp add: on_block_change_def)

lemma engine_ok_changes [simp]: "engine_ok (fold on_block_change ps e) = engine_ok e"
  by (induction ps arbitrary: e) auto

lemma engine_ok_note [simp]: "engine_ok (fst (increment_note p e)) = engine_ok e"
  by (simp add: increment_note_def Let_def)

lemma engine_ok_effects: "engine_ok e \<Longrightarrow> engine_ok (engine_effects p i pw e)"
  by (simp add: engine_effects_def Let_def engine_ok_ignite)

lemma push_neighbours_ok:
  "push_neighbours w p ds e = Ok e' \<Longrightarrow> engine_ok e' = engine_ok e \<and> rs_processed e' = rs_processed e"
proof (induction ds arbitrary: e)
  case (Cons d ds)
  then show ?case
    by (fastforce simp: Let_def and_then_eq_Ok split: if_splits option.splits prod.splits)
qed simp

lemma engine_effects_processed [simp]: "rs_processed (engine_effects p i pw e) = rs_processed e"
  by (simp add: engine_effects_def Let_def ignite_tnt_def increment_note_def)

lemma process_node_ok:
  assumes "process_node env p (e, w) = Ok (e', w')"
  shows "(engine_ok e \<longrightarrow> engine_ok e') \<and> rs_processed e' = rs_processed e"
proof (cases "map_of (w_chunks w) (chunk_of_pos p)")
  case (Some c)
  then show ?thesis
  proof (cases "block_in c p")
    case (Ok b)
    let ?pw = "effective_power env e (bs_id b) p"
    let ?e = "e\<lparr>rs_signal := (rs_signal e)(p \<mapsto> ?pw)\<rparr>"
    show ?thesis
    proof (cases "is_redstone_component (bs_id b) \<and> rs_signal e p \<noteq> Some ?pw")
      case True
      then obtain e1 where e1: "(if ?pw > 0 then push_neighbours w p neighbours ?e else Ok ?e) = Ok e1"
        and e': "e' = engine_effects p (bs_id b) ?pw e1"
        using assms Some Ok by (fastforce simp: process_node_def Let_def and_then_eq_Ok simp del: split_paired_Ex)
      have "engine_ok e1 = engine_ok ?e \<and> rs_processed e1 = rs_processed ?e"
        using e1 push_neighbours_ok by (auto split: if_splits)
      moreover have "engine_ok e \<Longrightarrow> engine_ok ?e"
        using True by (intro engine_ok_signal effective_power_le) (auto simp: engine_ok_def)
      ultimately show ?thesis
        using e' engine_ok_effects by simp
    next
      case False
      then show ?thesis
        using assms Some Ok by (auto simp: process_node_def Let_def split: if_splits)
    qed
  qed (use assms Some in \<open>auto simp: process_node_def\<close>)
qed (use assms in \<open>auto simp: process_node_def\<close>)

lemma propagate_ok: "propagate env n (e, w) = Ok (e', w') \<Longrightarrow> engine_ok e \<Longrightarrow> engine_ok e'"
proof (induction env n "(e, w)" arbitrary: e w rule: propagate.induct)
  case (1 env n e w)
  show ?case
  proof (cases "rs_pending e")
    case Nil
    then show ?thesis
      using "1.prems" by (simp add: propagate.simps)
  next
    case (Cons p rest)
    then show ?thesis
      using "1.prems" "1.hyps"(1) [OF Cons] "1.hyps"(2) [OF Cons] process_node_ok
      by (subst (asm) propagate.simps) (fastforce split: if_splits outcome.splits)
  qed
qed

lemma observer_decay_ok: "engine_ok e \<Longrightarrow> engine_ok (observer_decay e)"
proof -
  have "engine_ok e \<Longrightarrow> engine_ok (fold (\<lambda>p e. e\<lparr>rs_signal := (rs_signal e)(p := None),
      rs_pending := rs_pending e @ map (shift p) [(1, 0, 0), (- 1, 0, 0), (0, 0, 1), (0, 0, - 1)]\<rparr>) ps e)" for ps
    by (induction ps arbitrary: e) (simp_all add: engine_ok_forget)
  then show "engine_ok e \<Longrightarrow> engine_ok (observer_decay e)"
    unfolding observer_decay_def .
qed

lemma tnt_fuses_ok:
  assumes "engine_ok e"
  shows "engine_ok (tnt_fuses e)"
proof -
  have "filter (\<lambda>(p, rem). \<not> rem > 0) (rs_fuses e) = []"
    using assms by (auto simp: engine_ok_def list_all_iff filter_empty_conv)
  then show ?thesis
    using assms by (simp add: tnt_fuses_def engine_ok_def signals_ok_def)
qed

lemma rs_tick_ok:
  assumes "rs_tick env (e, w) = Ok (e', w')" and "engine_ok e"
  shows "engine_ok e' \<and> rs_dispensers e' = []"
proof -
  obtain e1 w1 where "propagate env 0 (e, w) = Ok (e1, w1)"
    and e': "e' = (observer_decay (tnt_fuses (repeater_delays (button_decay e1))))\<lparr>rs_processed := {}, rs_dispensers := []\<rparr>"
    using assms(1) by (auto simp: rs_tick_def and_then_eq_Ok Let_def)
  then have "engine_ok e1"
    using assms(2) propagate_ok by blast
  then show ?thesis
    using e' by (simp add: observer_decay_ok tnt_fuses_ok repeater_delays_def button_decay_def Let_def)
qed

lemma engine_step_ok:
  "engine_step env ew ew' \<Longrightarrow> engine_ok (fst ew) \<and> rs_dispensers (fst ew) = [] \<Longrightarrow>
     engine_ok (fst ew') \<and> rs_dispensers (fst ew') = []"
proof (induction rule: engine_step.induct)
  case (step_tick e w e' w')
  then show ?case
    using rs_tick_ok by simp
next
  case (step_observer w p e e')
  then show ?case
    by (auto simp: register_observer_def Let_def and_then_eq_Ok split: option.splits)
qed (auto simp: press_button_def on_block_change_def engine_ok_ignite set_repeater_delay_def remove_observer_def
    take_dispenser_activations_def register_hopper_def remove_hopper_def tick_hoppers_def ignite_tnt_def
    increment_note_def Let_def engine_ok_def signals_ok_def)

lemma new_engine_ok: "engine_ok new_engine \<and> rs_dispensers new_engine = []"
  by (simp add: new_engine_def engine_ok_def signals_ok_def)

lemma reachable_ok:
  "(engine_step env)\<^sup>*\<^sup>* (new_engine, w0) ew \<Longrightarrow> engine_ok (fst ew) \<and> rs_dispensers (fst ew) = []"
  by (induction rule: rtranclp_induct) (use new_engine_ok engine_step_ok in auto)

lemma propagate_budget_facts:
  "propagate env n (e, w) = Ok (e', w') \<Longrightarrow> n \<le> MAX_NODES_PER_TICK \<Longrightarrow> finite (rs_processed e) \<Longrightarrow>
     card (rs_processed e) = n \<Longrightarrow>
     card (rs_processed e') \<le> MAX_NODES_PER_TICK \<and>
     (rs_pending e' = [] \<or> card (rs_processed e') = MAX_NODES_PER_TICK)"
proof (induction env n "(e, w)" arbitrary: e w rule: propagate.induct)
  case (1 env n e w)
  show ?case
  proof (cases "rs_pending e")
    case Nil
    then show ?thesis
      using "1.prems" by (simp add: propagate.simps)
  next
    case (Cons p rest)
    show ?thesis
    proof (cases "p \<in> rs_processed e \<or> n \<ge> MAX_NODES_PER_TICK")
      case True
      then show ?thesis
        using "1.prems" "1.hyps"(1) [OF Cons] Cons by (subst (asm) propagate.simps) (auto split: if_splits)
    next
      case False
      let ?e = "e\<lparr>rs_pending := rest, rs_processed := insert p (rs_processed e)\<rparr>"
      obtain e2 w2 where node: "process_node env p (?e, w) = Ok (e2, w2)"
        and rec: "propagate env (n + 1) (e2, w2) = Ok (e', w')"
        using "1.prems"(1) Cons False by (subst (asm) propagate.simps) (auto split: outcome.splits)
      have "rs_processed e2 = insert p (rs_processed e)"
        using process_node_ok [OF node] by simp
      then show ?thesis
        using "1.hyps"(2) [OF Cons _ _ node rec] False "1.prems" by simp
    qed
  qed
qed

text \<open>The fuses and the notes, which only the consumers' effects would touch.\<close>

definition consumer_state :: "RedstoneEngine \<Rightarrow> (pos \<times> u8) list \<times> (pos \<rightharpoonup> u8)" where
  "consumer_state e = (rs_fuses e, rs_notes e)"

lemma push_neighbours_consumers: "push_neighbours w p ds e = Ok e' \<Longrightarrow> consumer_state e' = consumer_state e"
proof (induction ds arbitrary: e)
  case (Cons d ds)
  then show ?case
    by (fastforce simp: Let_def and_then_eq_Ok consumer_state_def split: if_splits option.splits prod.splits)
qed simp

lemma engine_effects_consumers:
  "effective_power env e0 i p = pw \<Longrightarrow> consumer_state (engine_effects p i pw e) = consumer_state e"
  using unpowered [of i env e0 p] by (auto simp: engine_effects_def consumer_state_def Let_def)

lemma process_node_consumers:
  assumes "process_node env p (e, w) = Ok (e', w')"
  shows "consumer_state e' = consumer_state e"
proof (cases "map_of (w_chunks w) (chunk_of_pos p)")
  case (Some c)
  obtain b where b: "block_in c p = Ok b"
    using assms Some by (auto simp: process_node_def and_then_eq_Ok)
  let ?pw = "effective_power env e (bs_id b) p"
  let ?e = "e\<lparr>rs_signal := (rs_signal e)(p \<mapsto> ?pw)\<rparr>"
  show ?thesis
  proof (cases "is_redstone_component (bs_id b) \<and> rs_signal e p \<noteq> Some ?pw")
    case True
    then obtain e1 where e1: "(if ?pw > 0 then push_neighbours w p neighbours ?e else Ok ?e) = Ok e1"
      and e': "e' = engine_effects p (bs_id b) ?pw e1"
      using assms Some b by (fastforce simp: process_node_def Let_def and_then_eq_Ok simp del: split_paired_Ex)
    have "consumer_state e1 = consumer_state ?e"
      using e1 push_neighbours_consumers by (auto split: if_splits)
    then show ?thesis
      using engine_effects_consumers [OF refl] unfolding e' by (simp add: consumer_state_def)
  qed (use assms Some b in \<open>auto simp: process_node_def Let_def split: if_splits\<close>)
qed (use assms in \<open>auto simp: process_node_def\<close>)

lemma propagate_consumers:
  "propagate env n (e, w) = Ok (e', w') \<Longrightarrow> consumer_state e' = consumer_state e"
proof (induction env n "(e, w)" arbitrary: e w rule: propagate.induct)
  case (1 env n e w)
  show ?case
  proof (cases "rs_pending e")
    case Nil
    then show ?thesis
      using "1.prems" by (simp add: propagate.simps)
  next
    case (Cons p rest)
    show ?thesis
    proof (cases "p \<in> rs_processed e \<or> n \<ge> MAX_NODES_PER_TICK")
      case True
      then show ?thesis
        using "1.prems" "1.hyps"(1) [OF Cons] Cons
        by (subst (asm) propagate.simps) (auto simp: consumer_state_def split: if_splits)
    next
      case False
      let ?e = "e\<lparr>rs_pending := rest, rs_processed := insert p (rs_processed e)\<rparr>"
      obtain e2 w2 where node: "process_node env p (?e, w) = Ok (e2, w2)"
        and rec: "propagate env (n + 1) (e2, w2) = Ok (e', w')"
        using "1.prems"(1) Cons False by (subst (asm) propagate.simps) (auto split: outcome.splits)
      have "consumer_state e2 = consumer_state e"
        using process_node_consumers [OF node] by (simp add: consumer_state_def)
      then show ?thesis
        using "1.hyps"(2) [OF Cons _ _ node rec] False by simp
    qed
  qed
qed

lemma decay_consumers:
  "consumer_state (observer_decay e) = consumer_state e"
  "consumer_state (button_decay e) = consumer_state e"
  "consumer_state (repeater_delays e) = consumer_state e"
proof -
  have "consumer_state (fold (\<lambda>p e. e\<lparr>rs_signal := (rs_signal e)(p := None),
      rs_pending := rs_pending e @ map (shift p) [(1, 0, 0), (- 1, 0, 0), (0, 0, 1), (0, 0, - 1)]\<rparr>) ps e) = consumer_state e" for ps
    by (induction ps arbitrary: e) (simp_all add: consumer_state_def)
  then show "consumer_state (observer_decay e) = consumer_state e"
    unfolding observer_decay_def .
  have "consumer_state (fold on_block_change ps e) = consumer_state e" for ps e
    by (induction ps arbitrary: e) (simp_all add: consumer_state_def on_block_change_def)
  then show "consumer_state (button_decay e) = consumer_state e"
    "consumer_state (repeater_delays e) = consumer_state e"
    by (simp_all add: button_decay_def repeater_delays_def Let_def) (simp_all add: consumer_state_def)
qed

lemma observe_changed:
  assumes "(p, s) \<in> set obs" and "map_of (w_chunks w) (chunk_of_pos p) = Some c"
    and "map_of (w_chunks w) (chunk_of_pos (shift p (0, 0, 1))) = Some f"
    and "block_in f (shift p (0, 0, 1)) = Ok b" and "bs_id b \<noteq> s"
  shows "observe w obs \<noteq> Ok u"
  using assms(1)
proof (induction obs)
  case (Cons ob obs)
  then show ?case
    using assms(2-)
    by (cases ob) (auto simp: Let_def and_then_eq_Ok split: option.splits if_splits simp del: split_paired_Ex)
qed simp

lemma shift_distinct: "d \<in> set neighbours \<Longrightarrow> shift p d \<noteq> p"
  by (cases p) (auto simp: shift_def neighbours_def)

lemma facing_own_signal: "detect_piston_facing p (e\<lparr>rs_signal := (rs_signal e)(p := v)\<rparr>) = detect_piston_facing p e"
proof -
  have "signal_at (e\<lparr>rs_signal := (rs_signal e)(p := v)\<rparr>) (shift p d) = signal_at e (shift p d)"
    if "d \<in> set neighbours" for d
    using shift_distinct [OF that, of p] by (simp add: signal_at_def)
  then show ?thesis
    by (simp add: detect_piston_facing_def neighbours_def)
qed

lemma facing_signal_only:
  assumes "rs_signal e' = rs_signal e"
  shows "detect_piston_facing p e' = detect_piston_facing p e"
  using assms by (simp add: detect_piston_facing_def signal_at_def)

lemma push_neighbours_signal: "push_neighbours w p ds e = Ok e' \<Longrightarrow> rs_signal e' = rs_signal e"
proof (induction ds arbitrary: e)
  case (Cons d ds)
  then show ?case
    by (fastforce simp: Let_def and_then_eq_Ok split: if_splits option.splits prod.splits)
qed simp

section \<open>Properties\<close>

text \<open>C29. Whatever is asked of an engine and however the world is changed around it, the signal of
  every component stays within 15: the weighted plates, whose strength is not clamped, are no
  components.\<close>

theorem signals_bounded:
  assumes "(engine_step env)\<^sup>*\<^sup>* (new_engine, w0) (e, w)"
  shows "get_signal_strength e p \<le> 15"
  using reachable_ok [OF assms] signal_at_le by (simp add: engine_ok_def get_signal_strength_def)

text \<open>C28. TNT never explodes: ignited in any way and left any number of ticks, a fuse that is
  counted down is dropped from the list, and only a fuse that starts at zero would reach the
  pending explosions. Neither does a dispenser ever fire, since the tick that powers it clears the
  list its owner reads.\<close>

theorem tnt_never_explodes:
  assumes "(engine_step env)\<^sup>*\<^sup>* (new_engine, w0) (e, w)"
  shows "rs_explosions e = [] \<and> snd (take_dispenser_activations e) = []"
  using reachable_ok [OF assms] by (simp add: engine_ok_def take_dispenser_activations_def)

text \<open>A tick handles at most 4096 components, and leaves work pending only when it used that
  budget up; a component is handled at most once, whatever cycles the circuit has.\<close>

theorem propagate_within_budget:
  assumes "propagate env 0 (e, w) = Ok (e', w')" and "rs_processed e = {}"
  shows "card (rs_processed e') \<le> MAX_NODES_PER_TICK
    \<and> (rs_pending e' = [] \<or> card (rs_processed e') = MAX_NODES_PER_TICK)"
  using propagate_budget_facts [OF assms(1)] assms(2) by simp

text \<open>The propagation powers no consumer: a tick lights no TNT and advances no note block,
  whatever signal reaches them. The fuses after a tick are among those before it.\<close>

theorem tick_triggers_no_consumer:
  assumes "rs_tick env (e, w) = Ok (e', w')"
  shows "rs_notes e' = rs_notes e \<and> set (rs_fuses e') \<subseteq> set (rs_fuses e)"
proof -
  obtain e1 w1 where e1: "propagate env 0 (e, w) = Ok (e1, w1)"
    and e': "e' = (observer_decay (tnt_fuses (repeater_delays (button_decay e1))))\<lparr>rs_processed := {}, rs_dispensers := []\<rparr>"
    using assms by (auto simp: rs_tick_def and_then_eq_Ok Let_def)
  have "consumer_state (repeater_delays (button_decay e1)) = consumer_state e"
    using propagate_consumers [OF e1] by (simp add: decay_consumers)
  moreover have "consumer_state e' = consumer_state (tnt_fuses (repeater_delays (button_decay e1)))"
    using e' decay_consumers(1) by (simp add: consumer_state_def)
  ultimately show ?thesis
    by (auto simp: consumer_state_def tnt_fuses_def Let_def)
qed

text \<open>C15. A tick does not return once an observer sees its front block change: the new state is
  inserted into the map whose entry the loop still holds, so the thread waits for itself.\<close>

theorem observed_change_blocks_tick:
  assumes "(p, s) \<in> set (rs_observers e)"
    and "map_of (w_chunks w) (chunk_of_pos p) = Some c"
    and "map_of (w_chunks w) (chunk_of_pos (shift p (0, 0, 1))) = Some f"
    and "block_in f (shift p (0, 0, 1)) = Ok b" and "bs_id b \<noteq> s"
  shows "rs_tick env (e, w) \<noteq> Ok (e', w')"
  using observe_changed [OF assms] by (auto simp: rs_tick_def and_then_eq_Ok)

text \<open>A piston that has to extend into its own chunk blocks the tick: the chunk is locked for
  writing while the loop still holds the reference through which it read the piston.\<close>

theorem piston_blocks_tick:
  assumes "map_of (w_chunks w) (chunk_of_pos p) = Some c" and "block_in c p = Ok b"
    and "bs_id b = 137 \<or> bs_id b = 138"
    and "effective_power env e (bs_id b) p > 0"
    and "rs_signal e p \<noteq> Some (effective_power env e (bs_id b) p)"
    and "in_world (y_of (shift p (detect_piston_facing p e)))"
    and "chunk_of_pos (shift p (detect_piston_facing p e)) = chunk_of_pos p"
  shows "process_node env p (e, w) \<noteq> Ok (e', w')"
proof
  let ?pw = "effective_power env e (bs_id b) p"
  let ?e = "e\<lparr>rs_signal := (rs_signal e)(p \<mapsto> ?pw)\<rparr>"
  assume run: "process_node env p (e, w) = Ok (e', w')"
  have "is_redstone_component (bs_id b)"
    using assms(3) by (auto simp: is_redstone_component_def)
  then obtain e1 w1 where e1: "push_neighbours w p neighbours ?e = Ok e1"
    and piston: "piston_effect env p (bs_id b) ?pw e1 w = Ok w1"
    using run assms by (fastforce simp: process_node_def Let_def and_then_eq_Ok)
  have "detect_piston_facing p e1 = detect_piston_facing p e"
    using facing_signal_only [OF push_neighbours_signal [OF e1]] facing_own_signal by metis
  then have "piston_push env p e1 w = Err Blocked"
    using assms(6,7) by (simp add: piston_push_def Let_def lock_mut_def)
  then show False
    using piston assms(3,4) by (auto simp: piston_effect_def)
qed

section \<open>Witnesses\<close>

definition plain_surroundings :: surroundings where
  "plain_surroundings = \<lparr>entity_count_on_block = (\<lambda>_. 0), shard_of = (\<lambda>c. unat (cp_x c))\<rparr>"

definition flat_world :: world where
  "flat_world = \<lparr>w_lru = 1, w_chunks = [(chunk_of 0 0, snd (new_chunk 0 (chunk_of 0 0)))]\<rparr>"

text \<open>A chunk with one section full of one block.\<close>

definition full_chunk :: "u32 \<Rightarrow> Chunk" where
  "full_chunk i = \<lparr>ck_position = chunk_of 0 0,
     ck_sections = replicate 8 None @ Some ((new_section \<lparr>sp_chunk = chunk_of 0 0, sp_y = 4\<rparr>)\<lparr>sec_blocks := Single (block i)\<rparr>)
       # replicate 15 None,
     ck_entities = [], ck_dirty = False, ck_lru = 0, ck_cached = None\<rparr>"

definition tnt_world :: world where
  "tnt_world = \<lparr>w_lru = 1, w_chunks = [(chunk_of 0 0, full_chunk 25)]\<rparr>"

lemma tnt_block: "block_in (full_chunk i) (0, 64, 0) = Ok (block i)"
  by (simp add: block_in_def get_block_def full_chunk_def of_option_def section_get_block_def paletted_get_def
      nth_opt_def nth_append section_index_def div_euclid16_def MIN_SECTION_Y_def i32_as_usize_def)

definition lit_tnt :: RedstoneEngine where
  "lit_tnt = on_block_change (0, 64, 0) (ignite_tnt (0, 64, 0) new_engine)"

definition ticked_tnt :: RedstoneEngine where
  "ticked_tnt = new_engine\<lparr>rs_signal := [(0, 64, 0) \<mapsto> 0]\<rparr>"

lemma chunk_of_tnt: "chunk_of_pos (0, 64, 0) = chunk_of 0 0"
  by (simp add: chunk_of_pos_def)

lemma tnt_node:
  assumes "rs_signal e (0, 64, 0) = None"
  shows "process_node env (0, 64, 0) (e, tnt_world) = Ok (e\<lparr>rs_signal := (rs_signal e)((0, 64, 0) \<mapsto> 0)\<rparr>, tnt_world)"
  using assms unpowered [of 25 env e "(0, 64, 0)"]
  by (simp add: process_node_def tnt_world_def chunk_of_tnt tnt_block block_def is_redstone_component_def
      piston_effect_def engine_effects_def bulb_effect_def Let_def)

lemma propagate_Nil: "rs_pending e = [] \<Longrightarrow> propagate env n (e, w) = Ok (e, w)"
  by (simp add: propagate.simps)

lemma propagate_Cons:
  assumes "rs_pending e = p # rest" and "p \<notin> rs_processed e" and "n < MAX_NODES_PER_TICK"
    and "process_node env p (e\<lparr>rs_pending := rest, rs_processed := insert p (rs_processed e)\<rparr>, w) = Ok ew"
  shows "propagate env n (e, w) = propagate env (n + 1) ew"
  using assms by (subst propagate.simps) simp

lemma lit_tnt_ticks: "rs_tick plain_surroundings (lit_tnt, tnt_world) = Ok (ticked_tnt, tnt_world)"
  by (simp add: rs_tick_def lit_tnt_def ticked_tnt_def on_block_change_def ignite_tnt_def new_engine_def
      propagate_Nil propagate_Cons tnt_node MAX_NODES_PER_TICK_def button_decay_def repeater_delays_def tnt_fuses_def observer_decay_def)

lemma ticked_tnt_reachable: "(engine_step plain_surroundings)\<^sup>*\<^sup>* (new_engine, tnt_world) (ticked_tnt, tnt_world)"
proof -
  let ?step = "engine_step plain_surroundings"
  have "?step (new_engine, tnt_world) (ignite_tnt (0, 64, 0) new_engine, tnt_world)"
    by (rule step_ignite)
  moreover have "?step (ignite_tnt (0, 64, 0) new_engine, tnt_world) (lit_tnt, tnt_world)"
    unfolding lit_tnt_def by (rule step_change)
  moreover have "?step (lit_tnt, tnt_world) (ticked_tnt, tnt_world)"
    by (rule step_tick [OF lit_tnt_ticks])
  ultimately show ?thesis
    by (meson rtranclp.rtrancl_into_rtrancl rtranclp.rtrancl_refl)
qed

theorem signals_bounded_witness: "get_signal_strength ticked_tnt (0, 64, 0) \<le> 15 \<and> ticked_tnt \<noteq> new_engine"
  using signals_bounded [OF ticked_tnt_reachable, of "(0, 64, 0)"]
  by (auto simp: ticked_tnt_def new_engine_def fun_eq_iff)

theorem tnt_never_explodes_witness:
  "rs_fuses lit_tnt \<noteq> [] \<and> rs_fuses ticked_tnt = [] \<and> rs_explosions ticked_tnt = []"
  using tnt_never_explodes [OF ticked_tnt_reachable]
  by (simp add: lit_tnt_def ticked_tnt_def ignite_tnt_def on_block_change_def new_engine_def)

theorem propagate_within_budget_witness:
  "\<exists>e'. propagate plain_surroundings 0 (lit_tnt, tnt_world) = Ok (e', tnt_world) \<and> card (rs_processed e') \<le> MAX_NODES_PER_TICK"
proof -
  let ?e = "lit_tnt\<lparr>rs_pending := [], rs_processed := {(0, 64, 0)}, rs_signal := [(0, 64, 0) \<mapsto> 0]\<rparr>"
  have run: "propagate plain_surroundings 0 (lit_tnt, tnt_world) = Ok (?e, tnt_world)"
    by (simp add: lit_tnt_def on_block_change_def ignite_tnt_def new_engine_def propagate.simps tnt_node
        MAX_NODES_PER_TICK_def)
  have "rs_processed lit_tnt = {}"
    by (simp add: lit_tnt_def on_block_change_def ignite_tnt_def new_engine_def)
  then show ?thesis
    using propagate_within_budget [OF run] run by blast
qed

theorem tick_triggers_no_consumer_witness: "set (rs_fuses ticked_tnt) \<subseteq> set (rs_fuses lit_tnt)"
  using tick_triggers_no_consumer [OF lit_tnt_ticks] by blast

theorem observed_change_blocks_tick_witness:
  "rs_tick plain_surroundings (new_engine\<lparr>rs_observers := [((0, 64, 0), 5)]\<rparr>, flat_world) \<noteq> Ok (new_engine, flat_world)"
proof (rule observed_change_blocks_tick)
  let ?c = "snd (new_chunk 0 (chunk_of 0 0))"
  show "((0, 64, 0), 5) \<in> set (rs_observers (new_engine\<lparr>rs_observers := [((0, 64, 0), 5)]\<rparr>))"
    by simp
  show "map_of (w_chunks flat_world) (chunk_of_pos (0, 64, 0)) = Some ?c"
    "map_of (w_chunks flat_world) (chunk_of_pos (shift (0, 64, 0) (0, 0, 1))) = Some ?c"
    by (simp_all add: flat_world_def chunk_of_pos_def shift_def chunk_of_def shr4_def)
  show "block_in ?c (shift (0, 64, 0) (0, 0, 1)) = Ok AIR"
    by (simp add: shift_def block_in_def get_new_chunk of_option_def)
  show "bs_id AIR \<noteq> 5"
    by (simp add: AIR_def)
qed

definition piston_world :: world where
  "piston_world = \<lparr>w_lru = 1, w_chunks = [(chunk_of 0 0, full_chunk 137)]\<rparr>"

text \<open>A signal above the piston powers it and turns it upwards.\<close>

definition powered_engine :: RedstoneEngine where
  "powered_engine = new_engine\<lparr>rs_signal := [(0, 65, 0) \<mapsto> 15]\<rparr>"

lemma powered_facing: "detect_piston_facing (0, 64, 0) powered_engine = (0, 1, 0)"
  by (simp add: detect_piston_facing_def powered_engine_def new_engine_def signal_at_def shift_def)

lemma powered_power: "effective_power plain_surroundings powered_engine 137 (0, 64, 0) = 15"
  by (simp add: effective_power_def node_power_def powered_engine_def new_engine_def signal_at_def shift_def
      is_constant_source_def is_toggle_component_def is_pulse_component_def is_pressure_plate_def
      is_tripwire_component_def component_power_def STONE_PRESSURE_PLATE_ID_def OAK_PRESSURE_PLATE_ID_def
      LIGHT_WEIGHTED_PRESSURE_PLATE_ID_def HEAVY_WEIGHTED_PRESSURE_PLATE_ID_def TRIPWIRE_HOOK_ID_def TRIPWIRE_ID_def)

theorem piston_blocks_tick_witness:
  "process_node plain_surroundings (0, 64, 0) (powered_engine, piston_world) \<noteq> Ok (powered_engine, piston_world)"
proof (rule piston_blocks_tick)
  show "map_of (w_chunks piston_world) (chunk_of_pos (0, 64, 0)) = Some (full_chunk 137)"
    by (simp add: piston_world_def chunk_of_tnt)
  show "block_in (full_chunk 137) (0, 64, 0) = Ok (block 137)"
    by (rule tnt_block)
  show "bs_id (block 137) = 137 \<or> bs_id (block 137) = 138"
    by (simp add: block_def)
  show "0 < effective_power plain_surroundings powered_engine (bs_id (block 137)) (0, 64, 0)"
    by (simp add: block_def powered_power)
  show "rs_signal powered_engine (0, 64, 0) \<noteq> Some (effective_power plain_surroundings powered_engine (bs_id (block 137)) (0, 64, 0))"
    by (simp add: powered_engine_def new_engine_def)
  show "in_world (y_of (shift (0, 64, 0) (detect_piston_facing (0, 64, 0) powered_engine)))"
    by (simp add: powered_facing shift_def y_of_def in_world_def)
  show "chunk_of_pos (shift (0, 64, 0) (detect_piston_facing (0, 64, 0) powered_engine)) = chunk_of_pos (0, 64, 0)"
    by (simp add: powered_facing shift_def chunk_of_pos_def)
qed

end
