(* ===== verification/Furnace.thy ===== *)
theory Furnace
  imports Rust_Base
begin

text \<open>
  \<open>mc-player/src/furnace.rs\<close>: the fuel and smelting tables, the state of a furnace and its tick.
  The furnaces of a manager do not depend on one another, so the tick maps over them whatever the
  order. The progress as a fraction, a float for the client, is left out.

  Shown: the invariant of every furnace a sequence of operations can build, which bounds the
  output at one item; how long an item smelts; that what the output slot held is lost.
\<close>

definition fuel_ticks :: "u32 \<Rightarrow> u32 option" where
  "fuel_ticks i =
     (if i = 775 then Some 1600 else if i = 776 then Some 1600 else
      if 34 \<le> i \<and> i \<le> 40 then Some 300 else if 13 \<le> i \<and> i \<le> 20 then Some 300 else
      if i = 794 then Some 100 else if i = 113 then Some 300 else if i = 105 then Some 300 else
      if i = 85 then Some 100 else if i = 966 then Some 200 else if i = 118 then Some 1600 else
      if i = 119 then Some 16000 else if i = 120 then Some 1600 else if i = 121 then Some 100 else None)"

definition smelt_result :: "u32 \<Rightarrow> (u32 \<times> u8) option" where
  "smelt_result i = map_of
     [(774, (778, 1)), (775, (778, 1)), (776, (779, 1)), (777, (779, 1)), (34, (776, 1)),
      (35, (776, 1)), (36, (776, 1)), (37, (776, 1)), (38, (776, 1)), (32, (33, 1)), (859, (858, 1)),
      (861, (860, 1)), (863, (862, 1)), (865, (864, 1)), (875, (874, 1)), (898, (897, 1)),
      (872, (873, 1)), (839, (840, 1)), (24, (66, 1)), (12, (1, 1)), (71, (72, 1)), (120, (121, 1)),
      (109, (880, 1)), (150, (881, 1)), (59, (882, 1)), (303, (883, 1)), (47, (777, 1)),
      (267, (47, 1)), (873, (874, 1)), (893, (894, 1)), (27, (779, 1)), (29, (778, 1)),
      (31, (775, 1)), (300, (880, 1)), (117, (46, 1)), (337, (778, 1)), (338, (779, 1)),
      (339, (777, 1)), (340, (880, 1)), (341, (46, 1)), (342, (882, 1)), (343, (883, 1))] i"

record FurnaceData =
  fd_input :: "u32 option"
  fd_fuel :: "u32 option"
  fd_output :: "u32 option"
  fd_count :: u8
  fd_burning :: u32
  fd_progress :: u32
  fd_max :: u32

type_synonym furnaces = "i32 \<times> i32 \<times> i32 \<rightharpoonup> FurnaceData"

definition cold_furnace :: FurnaceData where
  "cold_furnace = \<lparr>fd_input = None, fd_fuel = None, fd_output = None, fd_count = 0, fd_burning = 0,
     fd_progress = 0, fd_max = 200\<rparr>"

definition get_or_create :: "i32 \<times> i32 \<times> i32 \<Rightarrow> furnaces \<Rightarrow> FurnaceData" where
  "get_or_create p m = (case m p of Some f \<Rightarrow> f | None \<Rightarrow> cold_furnace)"

definition furnace_set_slot :: "i32 \<times> i32 \<times> i32 \<Rightarrow> nat \<Rightarrow> u32 option \<Rightarrow> furnaces \<Rightarrow> furnaces" where
  "furnace_set_slot p slot item m =
     (let f = get_or_create p m in
      m(p \<mapsto> (if slot = 0 then f\<lparr>fd_input := item\<rparr>
              else if slot = 1 then f\<lparr>fd_fuel := item\<rparr>
              else if slot = 2 then f\<lparr>fd_output := item\<rparr>
              else f)))"

definition furnace_get_slot :: "i32 \<times> i32 \<times> i32 \<Rightarrow> nat \<Rightarrow> furnaces \<Rightarrow> u32 option" where
  "furnace_get_slot p slot m =
     (case m p of
        Some f \<Rightarrow> if slot = 0 then fd_input f else if slot = 1 then fd_fuel f
                  else if slot = 2 then fd_output f else None
      | None \<Rightarrow> None)"

definition furnace_step :: "FurnaceData \<Rightarrow> FurnaceData" where
  "furnace_step f =
     (if fd_burning f > 0 then
        let f = f\<lparr>fd_burning := fd_burning f - 1\<rparr> in
        (case fd_input f of
           Some input \<Rightarrow>
             (case smelt_result input of
                Some (output, count) \<Rightarrow>
                  let f = f\<lparr>fd_progress := fd_progress f + 1\<rparr> in
                  if fd_progress f \<ge> fd_max f
                  then f\<lparr>fd_progress := 0, fd_input := None, fd_output := Some output, fd_count := count\<rparr>
                  else f
              | None \<Rightarrow> f\<lparr>fd_progress := 0\<rparr>)
         | None \<Rightarrow> f\<lparr>fd_progress := 0\<rparr>)
      else if (case fd_input f of Some input \<Rightarrow> smelt_result input \<noteq> None | None \<Rightarrow> False) then
        (case fd_fuel f of
           Some fuel \<Rightarrow>
             (case fuel_ticks fuel of
                Some ft \<Rightarrow> f\<lparr>fd_burning := ft, fd_fuel := None\<rparr>
              | None \<Rightarrow> f)
         | None \<Rightarrow> f)
      else f)"

definition furnace_tick :: "furnaces \<Rightarrow> furnaces" where
  "furnace_tick m = (\<lambda>p. map_option furnace_step (m p))"

definition is_burning :: "i32 \<times> i32 \<times> i32 \<Rightarrow> furnaces \<Rightarrow> bool" where
  "is_burning p m \<longleftrightarrow> (case m p of Some f \<Rightarrow> fd_burning f > 0 | None \<Rightarrow> False)"

text \<open>What the server does with a manager.\<close>

datatype furnace_op = FTick | FSet "i32 \<times> i32 \<times> i32" nat "u32 option"

fun furnace_apply :: "furnace_op \<Rightarrow> furnaces \<Rightarrow> furnaces" where
  "furnace_apply FTick m = furnace_tick m"
| "furnace_apply (FSet p slot item) m = furnace_set_slot p slot item m"

section \<open>The invariant\<close>

definition furnace_ok :: "FurnaceData \<Rightarrow> bool" where
  "furnace_ok f \<longleftrightarrow> fd_max f = 200 \<and> unat (fd_progress f) < 200 \<and> unat (fd_burning f) \<le> 16000 \<and> unat (fd_count f) \<le> 1"

lemma fuel_ticks_le: "fuel_ticks i = Some t \<Longrightarrow> 0 < unat t \<and> unat t \<le> 16000"
  by (auto simp: fuel_ticks_def split: if_splits)

lemma smelt_result_one: "smelt_result i = Some (output, count) \<Longrightarrow> count = 1"
  unfolding smelt_result_def by (drule map_of_SomeD) auto

lemma unat_dec: "w > 0 \<Longrightarrow> unat (w - 1) = unat w - 1" for w :: u32
  by (simp add: unat_minus_one word_gt_0)

lemma unat_inc: "unat w < 200 \<Longrightarrow> unat (w + 1) = unat w + 1" for w :: u32
  by (simp add: unat_word_ariths)

lemma furnace_step_ok:
  assumes "furnace_ok f"
  shows "furnace_ok (furnace_step f)"
proof -
  note ok = assms [unfolded furnace_ok_def]
  show ?thesis
  proof (cases "fd_burning f > 0")
    case True
    then show ?thesis
      using ok unat_dec [OF True] unat_inc [of "fd_progress f"]
      by (auto simp: furnace_step_def furnace_ok_def Let_def word_le_nat_alt dest: smelt_result_one
          split: option.split)
  next
    case False
    then show ?thesis
      using ok by (auto simp: furnace_step_def furnace_ok_def dest: fuel_ticks_le split: option.split)
  qed
qed

definition all_furnaces_ok :: "furnaces \<Rightarrow> bool" where
  "all_furnaces_ok m \<longleftrightarrow> (\<forall>f \<in> ran m. furnace_ok f)"

lemma furnace_apply_ok:
  assumes "all_furnaces_ok m"
  shows "all_furnaces_ok (furnace_apply op m)"
proof (cases op)
  case FTick
  show ?thesis
    using assms furnace_step_ok unfolding FTick all_furnaces_ok_def furnace_apply.simps furnace_tick_def ran_def
    by (auto simp del: split_paired_Ex split_paired_All)
next
  case (FSet p slot item)
  have "furnace_ok (get_or_create p m)"
    using assms unfolding all_furnaces_ok_def get_or_create_def
    by (auto simp: furnace_ok_def cold_furnace_def ranI split: option.split)
  then show ?thesis
    using assms unfolding FSet all_furnaces_ok_def furnace_apply.simps furnace_set_slot_def Let_def
    by (auto simp: furnace_ok_def ran_def split: if_splits simp del: split_paired_Ex split_paired_All)
qed

lemma furnace_run_ok: "all_furnaces_ok m \<Longrightarrow> all_furnaces_ok (fold furnace_apply ops m)"
  by (induction ops arbitrary: m) (auto simp: furnace_apply_ok)

lemma fold_apply_empty: "all_furnaces_ok (fold furnace_apply ops Map.empty)"
  by (rule furnace_run_ok) (simp add: all_furnaces_ok_def)

section \<open>Smelting\<close>

lemma furnace_step_busy:
  assumes "fd_input f = Some i" and "smelt_result i = Some (output, count)" and "fd_max f = 200"
    and "0 < unat (fd_burning f)" and "unat (fd_progress f) + 1 < 200"
  shows "furnace_step f = f\<lparr>fd_burning := fd_burning f - 1, fd_progress := fd_progress f + 1\<rparr>"
proof -
  have "unat (fd_progress f + 1) = unat (fd_progress f) + 1"
    using assms(5) by (intro unat_inc) simp
  then have "\<not> 200 \<le> fd_progress f + 1"
    using assms(5) by (simp add: word_le_nat_alt)
  moreover have "0 < fd_burning f"
    using assms(4) by (simp add: word_less_nat_alt)
  ultimately show ?thesis
    using assms(1-3) by (simp add: furnace_step_def Let_def)
qed

lemma furnace_step_done:
  assumes "fd_input f = Some i" and "smelt_result i = Some (output, count)" and "fd_max f = 200"
    and "0 < unat (fd_burning f)" and "unat (fd_progress f) = 199"
  shows "furnace_step f = f\<lparr>fd_burning := fd_burning f - 1, fd_progress := 0, fd_input := None,
    fd_output := Some output, fd_count := count\<rparr>"
proof -
  have "unat (fd_progress f + 1) = unat (fd_progress f) + 1"
    using assms(5) by (intro unat_inc) simp
  then have "200 \<le> fd_progress f + 1"
    using assms(5) by (simp add: word_le_nat_alt)
  moreover have "0 < fd_burning f"
    using assms(4) by (simp add: word_less_nat_alt)
  ultimately show ?thesis
    using assms(1-3) by (simp add: furnace_step_def Let_def)
qed

lemma furnace_busy_run:
  assumes "fd_input f = Some i" and "smelt_result i = Some (output, count)" and "fd_max f = 200"
  shows "n \<le> unat (fd_burning f) \<Longrightarrow> unat (fd_progress f) + n < 200 \<Longrightarrow>
    (furnace_step ^^ n) f = f\<lparr>fd_burning := fd_burning f - word_of_nat n, fd_progress := fd_progress f + word_of_nat n\<rparr>"
proof (induction n)
  case (Suc n)
  let ?g = "f\<lparr>fd_burning := fd_burning f - word_of_nat n, fd_progress := fd_progress f + word_of_nat n\<rparr>"
  have n: "unat (word_of_nat n :: u32) = n"
    using Suc.prems(2) by (simp add: unat_of_nat)
  have "unat (fd_burning ?g) = unat (fd_burning f) - n" "unat (fd_progress ?g) = unat (fd_progress f) + n"
    using Suc.prems n by (simp_all add: unat_sub word_le_nat_alt unat_word_ariths)
  then have "furnace_step ?g = ?g\<lparr>fd_burning := fd_burning ?g - 1, fd_progress := fd_progress ?g + 1\<rparr>"
    using assms Suc.prems by (intro furnace_step_busy) auto
  then show ?case
    using Suc by (simp add: algebra_simps)
qed simp

text \<open>C25. However furnaces are used, none ever holds more than one smelted item, its progress stays
  below the 200 ticks of a recipe and its fuel below that of the best fuel.\<close>

theorem furnaces_bounded:
  assumes "fold furnace_apply ops Map.empty p = Some f"
  shows "unat (fd_count f) \<le> 1 \<and> unat (fd_progress f) < 200 \<and> unat (fd_burning f) \<le> 16000"
proof -
  have "furnace_ok f"
    using fold_apply_empty assms unfolding all_furnaces_ok_def by (blast intro: ranI)
  then show ?thesis
    by (simp add: furnace_ok_def)
qed

text \<open>C22. A burning furnace with enough fuel finishes its recipe in exactly the ticks that are left:
  nothing shows before the last one, which consumes the input and puts one item of the result in
  the output slot. Whatever the slot held before is gone, so a second item replaces the first.\<close>

theorem smelting_takes_its_time:
  assumes "fd_input f = Some i" and "smelt_result i = Some (output, count)" and "fd_max f = 200"
    and "unat (fd_progress f) + n = 200" and "0 < n" and "n \<le> unat (fd_burning f)" and "k < n"
  shows "(furnace_step ^^ n) f = f\<lparr>fd_burning := fd_burning f - word_of_nat n, fd_progress := 0, fd_input := None,
      fd_output := Some output, fd_count := 1\<rparr>
    \<and> fd_output ((furnace_step ^^ k) f) = fd_output f \<and> fd_input ((furnace_step ^^ k) f) = Some i"
proof
  obtain m where m: "n = Suc m"
    using assms(5) by (cases n) auto
  let ?g = "(furnace_step ^^ m) f"
  have g: "?g = f\<lparr>fd_burning := fd_burning f - word_of_nat m, fd_progress := fd_progress f + word_of_nat m\<rparr>"
    using assms(4,6) m by (intro furnace_busy_run [OF assms(1-3)]) auto
  have u: "unat (word_of_nat m :: u32) = m"
    using assms(4) m by (simp add: unat_of_nat)
  have "unat (fd_burning ?g) = unat (fd_burning f) - m" "unat (fd_progress ?g) = 199"
    using assms(4,6) m u by (simp_all add: g unat_sub word_le_nat_alt unat_word_ariths)
  then have "furnace_step ?g = ?g\<lparr>fd_burning := fd_burning ?g - 1, fd_progress := 0, fd_input := None,
      fd_output := Some output, fd_count := count\<rparr>"
    using assms m g by (intro furnace_step_done) auto
  then show "(furnace_step ^^ n) f = f\<lparr>fd_burning := fd_burning f - word_of_nat n, fd_progress := 0, fd_input := None,
      fd_output := Some output, fd_count := 1\<rparr>"
    using g m smelt_result_one [OF assms(2)] by (simp add: algebra_simps)
  show "fd_output ((furnace_step ^^ k) f) = fd_output f \<and> fd_input ((furnace_step ^^ k) f) = Some i"
    using furnace_busy_run [OF assms(1-3), of k] assms by simp
qed

theorem furnaces_bounded_witness:
  "\<exists>f. fold furnace_apply [FSet (0, 0, 0) 0 (Some 774), FSet (0, 0, 0) 1 (Some 775), FTick] Map.empty (0, 0, 0) = Some f
     \<and> unat (fd_count f) \<le> 1 \<and> fd_burning f = 1600"
proof -
  let ?ops = "[FSet (0, 0, 0) 0 (Some 774), FSet (0, 0, 0) 1 (Some 775), FTick]"
  let ?f = "cold_furnace\<lparr>fd_input := Some 774, fd_burning := 1600\<rparr>"
  have run: "fold furnace_apply ?ops Map.empty (0, 0, 0) = Some ?f"
    by (simp add: furnace_set_slot_def get_or_create_def furnace_tick_def furnace_step_def cold_furnace_def
        smelt_result_def fuel_ticks_def Let_def)
  show ?thesis
    using furnaces_bounded [OF run] run by (simp add: cold_furnace_def)
qed

theorem smelting_takes_its_time_witness:
  "(furnace_step ^^ 200) (cold_furnace\<lparr>fd_input := Some 774, fd_burning := 1600, fd_output := Some 1, fd_count := 1\<rparr>)
    = cold_furnace\<lparr>fd_burning := 1400, fd_output := Some 778, fd_count := 1\<rparr>"
proof -
  let ?f = "cold_furnace\<lparr>fd_input := Some 774, fd_burning := 1600, fd_output := Some 1, fd_count := 1\<rparr>"
  have r: "smelt_result 774 = Some (778, 1)"
    by (simp add: smelt_result_def)
  show ?thesis
    using smelting_takes_its_time [of ?f 774 778 1 200 0] r by (simp add: cold_furnace_def)
qed

end
