(* ===== verification/Encryption.thy ===== *)
theory Encryption
  imports Rust_Base
begin

text \<open>
  \<open>mc-network/src/encryption.rs\<close>: the CFB8 stream cipher of the online mode. The AES block
  function is the crate \<open>aes\<close>, a parameter \<open>aes key block\<close>. The key generation, the RSA
  decryption, the SHA-1 hash and the session request only call libraries and are left out.

  Shown: a cipher of this form is a stream cipher: decryption with a cipher in the same state
  undoes encryption, chunk by chunk, and leaves both in the same state, which is the last sixteen
  bytes of the ciphertext.
\<close>

record AesCfb8 =
  cfb_key :: bytes
  cfb_state :: bytes

definition new_cfb8 :: "bytes \<Rightarrow> AesCfb8" where
  "new_cfb8 key = \<lparr>cfb_key = key, cfb_state = key\<rparr>"

text \<open>\<open>buf.copy_within(1..16, 0); buf[15] = byte\<close>\<close>

definition shift_in :: "bytes \<Rightarrow> u8 \<Rightarrow> bytes" where
  "shift_in buf byte = drop 1 buf @ [byte]"

primrec encrypt_loop :: "(bytes \<Rightarrow> bytes) \<Rightarrow> bytes \<Rightarrow> bytes \<Rightarrow> bytes \<times> bytes" where
  "encrypt_loop blk buf [] = (buf, [])"
| "encrypt_loop blk buf (byte # data) =
     (let keystream = blk buf ! 0;
          byte = byte XOR keystream;
          (buf, data) = encrypt_loop blk (shift_in buf byte) data
      in (buf, byte # data))"

primrec decrypt_loop :: "(bytes \<Rightarrow> bytes) \<Rightarrow> bytes \<Rightarrow> bytes \<Rightarrow> bytes \<times> bytes" where
  "decrypt_loop blk buf [] = (buf, [])"
| "decrypt_loop blk buf (byte # data) =
     (let keystream = blk buf ! 0;
          ciphertext = byte;
          byte = byte XOR keystream;
          (buf, data) = decrypt_loop blk (shift_in buf ciphertext) data
      in (buf, byte # data))"

definition cfb_encrypt :: "(bytes \<Rightarrow> bytes \<Rightarrow> bytes) \<Rightarrow> AesCfb8 \<Rightarrow> bytes \<Rightarrow> AesCfb8 \<times> bytes" where
  "cfb_encrypt aes c data =
     (let (buf, data) = encrypt_loop (aes (cfb_key c)) (cfb_state c) data in (c\<lparr>cfb_state := buf\<rparr>, data))"

definition cfb_decrypt :: "(bytes \<Rightarrow> bytes \<Rightarrow> bytes) \<Rightarrow> AesCfb8 \<Rightarrow> bytes \<Rightarrow> AesCfb8 \<times> bytes" where
  "cfb_decrypt aes c data =
     (let (buf, data) = decrypt_loop (aes (cfb_key c)) (cfb_state c) data in (c\<lparr>cfb_state := buf\<rparr>, data))"

definition cfb_process :: "(bytes \<Rightarrow> bytes \<Rightarrow> bytes) \<Rightarrow> AesCfb8 \<Rightarrow> bytes \<Rightarrow> AesCfb8 \<times> bytes" where
  "cfb_process aes c data = cfb_encrypt aes c data"

section \<open>The interface of a stream cipher\<close>

text \<open>A coder applied to one chunk after the other.\<close>

primrec run_chunks :: "('s \<Rightarrow> 'a \<Rightarrow> 's \<times> 'b) \<Rightarrow> 's \<Rightarrow> 'a list \<Rightarrow> 's \<times> 'b list" where
  "run_chunks f s [] = (s, [])"
| "run_chunks f s (d # ds) = (let (s, c) = f s d; (s, cs) = run_chunks f s ds in (s, c # cs))"

locale stream_cipher =
  fixes enc :: "'s \<Rightarrow> bytes \<Rightarrow> 's \<times> bytes"
    and dec :: "'s \<Rightarrow> bytes \<Rightarrow> 's \<times> bytes"
  assumes dec_enc: "enc s d = (s', c) \<Longrightarrow> dec s c = (s', d)"
    and enc_length: "enc s d = (s', c) \<Longrightarrow> length c = length d"
begin

lemma chunks_dec_enc: "run_chunks enc s ds = (s', cs) \<Longrightarrow> run_chunks dec s cs = (s', ds)"
proof (induction ds arbitrary: s s' cs)
  case (Cons d ds)
  obtain s1 c where c: "enc s d = (s1, c)"
    by (cases "enc s d")
  obtain s2 cs' where cs: "run_chunks enc s1 ds = (s2, cs')"
    by (cases "run_chunks enc s1 ds")
  show ?case
    using Cons.prems Cons.IH [OF cs] dec_enc [OF c] c cs by auto
qed simp

end

lemma xor_cancel [simp]: "((b :: u8) XOR k) XOR k = b"
  by (simp add: xor.assoc)

lemma decrypt_encrypt_loop:
  "encrypt_loop blk buf d = (buf', c) \<Longrightarrow> decrypt_loop blk buf c = (buf', d) \<and> length c = length d"
  by (induction d arbitrary: buf c) (auto simp: Let_def split: prod.splits)

interpretation cfb8: stream_cipher "cfb_encrypt aes" "cfb_decrypt aes" for aes
  by unfold_locales (auto simp: cfb_encrypt_def cfb_decrypt_def dest: decrypt_encrypt_loop split: prod.splits)

section \<open>The state\<close>

lemma encrypt_loop_append:
  "encrypt_loop blk buf (a @ b)
    = (let (buf, x) = encrypt_loop blk buf a; (buf, y) = encrypt_loop blk buf b in (buf, x @ y))"
  by (induction a arbitrary: buf) (auto simp: Let_def split: prod.splits)

lemma cfb_encrypt_append:
  "cfb_encrypt aes c (a @ b)
    = (let (c, x) = cfb_encrypt aes c a; (c, y) = cfb_encrypt aes c b in (c, x @ y))"
  by (simp add: cfb_encrypt_def encrypt_loop_append Let_def split: prod.split)

definition last16 :: "bytes \<Rightarrow> bytes" where
  "last16 bs = drop (length bs - 16) bs"

lemma decrypt_loop_state:
  "length buf = 16 \<Longrightarrow> fst (decrypt_loop blk buf c) = last16 (buf @ c)"
proof (induction c arbitrary: buf)
  case (Cons b c)
  have "length (shift_in buf b) = 16"
    using Cons.prems by (simp add: shift_in_def)
  then show ?case
    using Cons.IH [of "shift_in buf b"] Cons.prems
    by (auto simp: shift_in_def last16_def Let_def split: prod.splits)
qed (simp add: last16_def)

lemma encrypt_loop_state:
  assumes "length buf = 16" and "encrypt_loop blk buf d = (buf', c)"
  shows "buf' = last16 (buf @ c)"
  using decrypt_loop_state [OF assms(1), of blk c] decrypt_encrypt_loop [OF assms(2)] by simp

lemma last16_long: "16 \<le> length c \<Longrightarrow> last16 (buf @ c) = last16 c"
  by (simp add: last16_def)

text \<open>C18. Decrypting undoes encrypting for any sequence of messages: a cipher that starts in the
  state the encrypting one started in gives back every message, whatever the block function, and
  the two end in the same state. Cutting the data into messages does not matter.\<close>

theorem cfb8_roundtrip:
  assumes "run_chunks (cfb_encrypt aes) c messages = (c', encrypted)"
  shows "run_chunks (cfb_decrypt aes) c encrypted = (c', messages)
    \<and> cfb_encrypt aes c (concat messages) = (c', concat encrypted)"
proof
  show "run_chunks (cfb_decrypt aes) c encrypted = (c', messages)"
    by (rule cfb8.chunks_dec_enc [OF assms])
  show "cfb_encrypt aes c (concat messages) = (c', concat encrypted)"
    using assms
  proof (induction messages arbitrary: c c' encrypted)
    case (Cons m ms)
    obtain c1 x where x: "cfb_encrypt aes c m = (c1, x)"
      by (cases "cfb_encrypt aes c m")
    obtain c2 xs where xs: "run_chunks (cfb_encrypt aes) c1 ms = (c2, xs)"
      by (cases "run_chunks (cfb_encrypt aes) c1 ms")
    have IH: "cfb_encrypt aes c1 (concat ms) = (c2, concat xs)"
      by (rule Cons.IH [OF xs])
    show ?case
      using Cons.prems x xs IH by (auto simp: cfb_encrypt_append)
  qed (simp add: cfb_encrypt_def)
qed

theorem cfb8_roundtrip_witness:
  "\<exists>c' e. run_chunks (cfb_encrypt (\<lambda>k b. b)) (new_cfb8 (replicate 16 7)) [[1, 2], [3]] = (c', e) \<and> e \<noteq> [[1, 2], [3]]
    \<and> run_chunks (cfb_decrypt (\<lambda>k b. b)) (new_cfb8 (replicate 16 7)) e = (c', [[1, 2], [3]])"
proof -
  obtain c' e where e: "run_chunks (cfb_encrypt (\<lambda>k b. b)) (new_cfb8 (replicate 16 7)) [[1, 2], [3]] = (c', e)"
    by (cases "run_chunks (cfb_encrypt (\<lambda>k b. b)) (new_cfb8 (replicate 16 7)) [[1, 2], [3]]")
  moreover have "e \<noteq> [[1, 2], [3]]"
    using e by (auto simp: new_cfb8_def cfb_encrypt_def shift_in_def numeral_eq_Suc Let_def)
  ultimately show ?thesis
    using cfb8_roundtrip [OF e] by blast
qed

end
