(* ===== verification/PacketIo.thy ===== *)
theory PacketIo
  imports Codec Encryption
begin

text \<open>
  \<open>mc-network/src/packet_io.rs\<close>: framed reading and writing on a connection. The bytes a peer
  sends until it closes are an argument of \<open>read_frame\<close>, which gives back those it left; the
  bytes written are a result. A stream that is not closed yet makes the task wait, which is no
  result at all. One cipher object serves both directions, as in the code.

  Shown: the frame length is read as \<open>read_varint\<close> reads it; packets encoded, encrypted and sent
  one after the other arrive; but reading a frame on an encrypted stream overwrites the state
  the peer expects the next written frame to be encrypted with.
\<close>

datatype io_error = UnexpectedEof | InvalidData

record PacketStream =
  ps_codec :: MinecraftCodec
  ps_encryption :: "AesCfb8 option"

definition new_stream :: "u32 \<Rightarrow> PacketStream" where
  "new_stream threshold = \<lparr>ps_codec = new_codec threshold, ps_encryption = None\<rparr>"

definition enable_encryption :: "bytes \<Rightarrow> PacketStream \<Rightarrow> PacketStream" where
  "enable_encryption key ps = ps\<lparr>ps_encryption := Some (new_cfb8 key)\<rparr>"

text \<open>The loop that reads the length, one byte at a time.\<close>

fun read_length :: "i32 \<Rightarrow> nat \<Rightarrow> bytes \<Rightarrow> (io_error, i32 \<times> bytes) outcome" where
  "read_length len shift [] = Err UnexpectedEof"
| "read_length len shift (byte # input) =
     (let len = len OR push_bit shift (ucast (byte AND 0x7F)) in
      if byte AND 0x80 = 0 then Ok (len, input)
      else
        let shift = shift + 7 in
        if shift \<ge> 32 then Err InvalidData else read_length len shift input)"

definition MAX_FRAME :: nat where "MAX_FRAME = 2097152"

definition read_frame :: "(bytes \<Rightarrow> bytes \<Rightarrow> bytes) \<Rightarrow> PacketStream \<Rightarrow> bytes \<Rightarrow> (io_error, bytes \<times> PacketStream \<times> bytes) outcome" where
  "read_frame aes ps input =
     and_then (read_length 0 0 input) (\<lambda>(len, input).
       let frame_len = i32_as_usize len in
       if frame_len > MAX_FRAME then Err InvalidData
       else if length input < frame_len then Err UnexpectedEof
       else
         let frame = take frame_len input; input = drop frame_len input in
         case ps_encryption ps of
           None \<Rightarrow> Ok (frame, ps, input)
         | Some cipher \<Rightarrow>
             let (cipher, frame) = cfb_decrypt aes cipher frame
             in Ok (frame, ps\<lparr>ps_encryption := Some cipher\<rparr>, input))"

text \<open>The loop that looks for the end of the length prefix of an outgoing frame.\<close>

fun find_prefix :: "nat \<Rightarrow> nat \<Rightarrow> bytes \<Rightarrow> (io_error, nat) outcome" where
  "find_prefix prefix_len shift [] = Ok prefix_len"
| "find_prefix prefix_len shift (byte # data) =
     (let prefix_len = prefix_len + 1 in
      if byte AND 0x80 = 0 then Ok prefix_len
      else
        let shift = shift + 7 in
        if shift \<ge> 32 \<or> prefix_len \<ge> 5 then Err InvalidData else find_prefix prefix_len shift data)"

definition write_frame :: "(bytes \<Rightarrow> bytes \<Rightarrow> bytes) \<Rightarrow> PacketStream \<Rightarrow> bytes \<Rightarrow> (io_error, bytes \<times> PacketStream) outcome" where
  "write_frame aes ps data =
     (case ps_encryption ps of
        Some cipher \<Rightarrow>
          and_then (find_prefix 0 0 data) (\<lambda>prefix_len.
            let (cipher, body) = cfb_encrypt aes cipher (drop prefix_len data)
            in Ok (take prefix_len data @ body, ps\<lparr>ps_encryption := Some cipher\<rparr>))
      | None \<Rightarrow> Ok (data, ps))"

text \<open>Frames sent, and frames read, one after the other.\<close>

primrec send_frames :: "(bytes \<Rightarrow> bytes \<Rightarrow> bytes) \<Rightarrow> PacketStream \<Rightarrow> bytes list \<Rightarrow> (io_error, bytes) outcome" where
  "send_frames aes ps [] = Ok []"
| "send_frames aes ps (d # ds) =
     and_then (write_frame aes ps d) (\<lambda>(sent, ps). and_then (send_frames aes ps ds) (\<lambda>more. Ok (sent @ more)))"

primrec receive_frames :: "(bytes \<Rightarrow> bytes \<Rightarrow> bytes) \<Rightarrow> nat \<Rightarrow> PacketStream \<Rightarrow> bytes \<Rightarrow> (io_error, bytes list \<times> bytes) outcome" where
  "receive_frames aes 0 ps input = Ok ([], input)"
| "receive_frames aes (Suc n) ps input =
     and_then (read_frame aes ps input) (\<lambda>(frame, ps, input).
       and_then (receive_frames aes n ps input) (\<lambda>(frames, input). Ok (frame # frames, input)))"

section \<open>The length prefix\<close>

definition of_varint :: "bytes \<Rightarrow> (VarIntError, i32 \<times> nat) outcome \<Rightarrow> nat \<Rightarrow> (io_error, i32 \<times> bytes) outcome" where
  "of_varint input r n =
     (case r of
        Ok (v, m) \<Rightarrow> Ok (v, drop (m - n) input)
      | Err Incomplete \<Rightarrow> Err UnexpectedEof
      | Err TooLarge \<Rightarrow> Err InvalidData
      | Panic \<Rightarrow> Panic)"

lemma read_loop_count: "read_loop bs (v :: i32) s n = Ok (w, m) \<Longrightarrow> n < m"
proof (induction bs v s n rule: read_loop.induct)
  case (2 byte bs v shift k)
  then show ?case
    using "2.IH" [OF refl refl _ refl] by (fastforce simp: Let_def split: if_splits)
qed simp

lemma read_length_loop: "read_length v s input = of_varint input (read_loop input v s n) n"
proof (induction v s input arbitrary: n rule: read_length.induct)
  case (2 len shift byte input)
  let ?len = "len OR push_bit shift (ucast (byte AND 0x7F))"
  show ?case
  proof (cases "byte AND 0x80 = 0 \<or> 32 \<le> shift + 7")
    case False
    then have IH: "read_length ?len (shift + 7) input = of_varint input (read_loop input ?len (shift + 7) (Suc n)) (Suc n)"
      using "2.IH" [of ?len "shift + 7" "Suc n"] by simp
    show ?thesis
    proof (cases "read_loop input ?len (shift + 7) (Suc n)")
      case (Ok r)
      then show ?thesis
        using False IH read_loop_count [of input ?len "shift + 7" "Suc n"]
        by (cases r) (auto simp: of_varint_def Let_def drop_Cons' Suc_diff_Suc)
    qed (use False IH in \<open>auto simp: of_varint_def Let_def split: VarIntError.splits\<close>)
  qed (auto simp: of_varint_def Let_def)
qed (simp add: of_varint_def)

text \<open>The stream reads the length of a frame exactly as the codec's \<open>read_varint\<close> does: with the
  same value and the same bytes consumed, an end of stream where that reports an incomplete
  number, invalid data where it reports one too large.\<close>

theorem frame_length_is_varint: "read_length 0 0 input = of_varint input (read_varint input) 0"
  by (simp add: read_varint_def read_length_loop [of _ _ _ 0])

lemma read_length_written: "read_length 0 0 (write_varint v @ rest) = Ok (v, rest)"
  by (simp add: read_length_loop [of _ _ _ 0] read_varint_def [symmetric] varint.dec_enc of_varint_def)

lemma find_prefix_init:
  "\<forall>x \<in> set init. x AND 0x80 \<noteq> 0 \<Longrightarrow> b AND 0x80 = 0 \<Longrightarrow> n + length init < 5 \<Longrightarrow>
    find_prefix n (7 * n) (init @ b # rest) = Ok (n + length init + 1)"
proof (induction init arbitrary: n)
  case (Cons x init)
  then show ?case
    using Cons.IH [of "Suc n"] by (simp add: Let_def add.commute)
qed simp

lemma find_prefix_written: "find_prefix 0 0 (write_varint v @ rest) = Ok (length (write_varint v))"
proof -
  obtain init b where w: "write_varint v = init @ [b]" "\<forall>x \<in> set init. x AND 0x80 \<noteq> 0" "b AND 0x80 = 0"
    using write_loop_flags unfolding write_varint_def write_varint_to_def by blast
  moreover have "length init < 5"
    using length_write_varint_le [of v] w(1) by simp
  ultimately show ?thesis
    using find_prefix_init [of init b 0 rest] by simp
qed

section \<open>Frames\<close>

definition frame_of :: "bytes \<Rightarrow> bytes" where
  "frame_of body = write_varint (usize_as_i32 (length body)) @ body"

text \<open>What the stream's cipher, if there is one, makes of a body.\<close>

definition sealed :: "(bytes \<Rightarrow> bytes \<Rightarrow> bytes) \<Rightarrow> AesCfb8 option \<Rightarrow> bytes \<Rightarrow> AesCfb8 option \<times> bytes" where
  "sealed aes enc body =
     (case enc of None \<Rightarrow> (None, body) | Some c \<Rightarrow> let (c, x) = cfb_encrypt aes c body in (Some c, x))"

lemma write_frame_of:
  "sealed aes (ps_encryption ps) body = (e', x) \<Longrightarrow>
    write_frame aes ps (frame_of body) = Ok (write_varint (usize_as_i32 (length body)) @ x, ps\<lparr>ps_encryption := e'\<rparr>)"
  by (cases "ps_encryption ps")
    (auto simp: sealed_def write_frame_def frame_of_def find_prefix_written split: prod.splits)

lemma sealed_length: "sealed aes e body = (e', x) \<Longrightarrow> length x = length body"
  by (cases e) (auto simp: sealed_def dest: cfb8.enc_length split: prod.splits)

lemma frame_length: "n \<le> MAX_FRAME \<Longrightarrow> i32_as_usize (usize_as_i32 n) = n"
  by (simp add: MAX_FRAME_def)

lemma read_frame_sealed:
  assumes "sealed aes (ps_encryption ps) body = (e', x)" and "length body \<le> MAX_FRAME"
  shows "read_frame aes ps (write_varint (usize_as_i32 (length body)) @ x @ rest)
    = Ok (body, ps\<lparr>ps_encryption := e'\<rparr>, rest)"
proof -
  have len: "length x = length body"
    by (rule sealed_length [OF assms(1)])
  have room: "\<not> length body > MAX_FRAME" "\<not> length (x @ rest) < length body"
    using assms(2) len by simp_all
  have split: "take (length body) (x @ rest) = x" "drop (length body) (x @ rest) = rest"
    using len by simp_all
  show ?thesis
  proof (cases "ps_encryption ps")
    case None
    then have "x = body" "e' = None"
      using assms(1) by (simp_all add: sealed_def)
    then show ?thesis
      using None room split
      unfolding read_frame_def read_length_written and_then.simps Let_def prod.case frame_length [OF assms(2)] by simp
  next
    case (Some c)
    then obtain c' where c': "cfb_encrypt aes c body = (c', x)" "e' = Some c'"
      using assms(1) by (auto simp: sealed_def split: prod.splits)
    then show ?thesis
      using Some room split cfb8.dec_enc [OF c'(1)]
      unfolding read_frame_def read_length_written and_then.simps Let_def prod.case frame_length [OF assms(2)] by simp
  qed
qed

lemma frames_delivered:
  "ps_encryption receiver = ps_encryption sender \<Longrightarrow> (\<And>b. b \<in> set bodies \<Longrightarrow> length b \<le> MAX_FRAME) \<Longrightarrow>
   \<exists>sent. send_frames aes sender (map frame_of bodies) = Ok sent
     \<and> receive_frames aes (length bodies) receiver (sent @ rest) = Ok (bodies, rest)"
proof (induction bodies arbitrary: sender receiver)
  case (Cons b bodies)
  obtain e x where x: "sealed aes (ps_encryption sender) b = (e, x)"
    by (cases "sealed aes (ps_encryption sender) b")
  obtain sent where sent: "send_frames aes (sender\<lparr>ps_encryption := e\<rparr>) (map frame_of bodies) = Ok sent"
    "receive_frames aes (length bodies) (receiver\<lparr>ps_encryption := e\<rparr>) (sent @ rest) = Ok (bodies, rest)"
    using Cons.IH [of "receiver\<lparr>ps_encryption := e\<rparr>" "sender\<lparr>ps_encryption := e\<rparr>"] Cons.prems(2) by auto
  have "read_frame aes receiver (write_varint (usize_as_i32 (length b)) @ x @ (sent @ rest))
      = Ok (b, receiver\<lparr>ps_encryption := e\<rparr>, sent @ rest)"
    using x Cons.prems by (intro read_frame_sealed) simp_all
  then show ?case
    using sent write_frame_of [OF x] by simp
qed simp

lemma encode_plain: "compression_threshold codec = 0 \<Longrightarrow> encode_frame deflate codec p = Ok (frame_of (packet_data p))"
  by (simp add: encode_frame_def write_varint_to_append frame_of_def Let_def)

section \<open>Properties\<close>


text \<open>C3. Reading spoils writing: a server that reads an encrypted frame of at least sixteen bytes and
  then answers encrypts the answer from the last sixteen bytes it received, while the client
  decrypts it from the shared secret. The client gets the first byte right exactly when the block
  function maps these two to the same first byte.\<close>

theorem answer_after_read_is_garbled:
  assumes "length key = 16" and "read_length 0 0 input = Ok (len, ct @ rest)"
    and "length ct = i32_as_usize len" and "16 \<le> length ct"
    and "read_frame aes (enable_encryption key server) input = Ok (frame, server', rest')"
    and "length (b # body) \<le> MAX_FRAME"
    and "write_frame aes server' (frame_of (b # body)) = Ok (sent, server'')"
    and "read_frame aes (enable_encryption key client) (sent @ later) = Ok (answer, client', left)"
  shows "(answer ! 0 = b) = (aes key (last16 ct) ! 0 = aes key key ! 0)"
proof -
  let ?c = "new_cfb8 key"
  have "ps_encryption server' = Some (fst (cfb_decrypt aes ?c ct))"
    using assms(2,3,5) by (auto simp: read_frame_def enable_encryption_def Let_def split: if_splits prod.splits)
  moreover have "fst (cfb_decrypt aes ?c ct) = ?c\<lparr>cfb_state := last16 ct\<rparr>"
    using decrypt_loop_state [of key "aes key" ct] last16_long [OF assms(4), of key] assms(1)
    by (cases "decrypt_loop (aes key) key ct") (simp add: cfb_decrypt_def new_cfb8_def)
  ultimately have enc: "ps_encryption server' = Some (?c\<lparr>cfb_state := last16 ct\<rparr>)"
    by simp
  obtain e x where x: "sealed aes (ps_encryption server') (b # body) = (e, x)"
    by (cases "sealed aes (ps_encryption server') (b # body)")
  have sent: "sent = write_varint (usize_as_i32 (length (b # body))) @ x"
    using assms(7) write_frame_of [OF x] by simp
  have x0: "\<exists>xs. x = (b XOR aes key (last16 ct) ! 0) # xs"
    using x by (auto simp: sealed_def enc cfb_encrypt_def new_cfb8_def Let_def split: prod.splits)
  have len: "length x = length (b # body)"
    by (rule sealed_length [OF x])
  have "answer = snd (cfb_decrypt aes ?c x)"
    using assms(8) len frame_length [OF assms(6)]
    by (auto simp: sent read_frame_def read_length_written enable_encryption_def Let_def split: if_splits prod.splits)
  then have "answer ! 0 = (b XOR aes key (last16 ct) ! 0) XOR aes key key ! 0"
    using x0 by (auto simp: cfb_decrypt_def new_cfb8_def Let_def split: prod.splits)
  moreover have "((b XOR u) XOR v = b) = (u = v)" for u v :: u8
    by (metis xor_cancel xor.assoc xor.commute xor_self_eq xor.right_neutral)
  ultimately show ?thesis
    by metis
qed

section \<open>Witnesses\<close>


theorem answer_after_read_is_garbled_witness:
  "\<exists>frame server' sent server'' answer client' left.
     read_frame (\<lambda>k b. b) (enable_encryption (replicate 16 1) (new_stream 0)) (16 # replicate 16 2) = Ok (frame, server', [])
   \<and> write_frame (\<lambda>k b. b) server' (frame_of [5]) = Ok (sent, server'')
   \<and> read_frame (\<lambda>k b. b) (enable_encryption (replicate 16 1) (new_stream 0)) (sent @ []) = Ok (answer, client', left)
   \<and> answer ! 0 \<noteq> 5"
proof -
  let ?aes = "\<lambda>(k :: bytes) (b :: bytes). b" and ?key = "replicate 16 (1 :: u8)" and ?ct = "replicate 16 (2 :: u8)"
  let ?ps = "enable_encryption ?key (new_stream 0)"
  have len: "read_length 0 0 (16 # ?ct) = Ok (16, ?ct @ [])"
    by simp
  obtain c1 frame where d1: "cfb_decrypt ?aes (new_cfb8 ?key) ?ct = (c1, frame)"
    by (cases "cfb_decrypt ?aes (new_cfb8 ?key) ?ct")
  have n16: "i32_as_usize 16 = 16"
    using usize_i32_roundtrip [of 16] by (simp add: usize_as_i32_def)
  have r: "read_frame ?aes ?ps (16 # ?ct) = Ok (frame, ?ps\<lparr>ps_encryption := Some c1\<rparr>, [])"
    using d1 unfolding read_frame_def len and_then.simps
    by (simp add: n16 MAX_FRAME_def enable_encryption_def)
  obtain e x where x: "sealed ?aes (Some c1) [5] = (e, x)"
    by (cases "sealed ?aes (Some c1) [5]")
  have w: "write_frame ?aes (?ps\<lparr>ps_encryption := Some c1\<rparr>) (frame_of [5])
      = Ok (write_varint (usize_as_i32 (length [5 :: u8])) @ x, ?ps\<lparr>ps_encryption := e\<rparr>)"
    using write_frame_of [of ?aes "?ps\<lparr>ps_encryption := Some c1\<rparr>" "[5]"] x by simp
  have lx: "length x = 1" "x \<noteq> []"
    using sealed_length [OF x] by auto
  obtain c2 answer where d2: "cfb_decrypt ?aes (new_cfb8 ?key) x = (c2, answer)"
    by (cases "cfb_decrypt ?aes (new_cfb8 ?key) x")
  have a: "read_frame ?aes ?ps ((write_varint (usize_as_i32 (length [5 :: u8])) @ x) @ [])
      = Ok (answer, ?ps\<lparr>ps_encryption := Some c2\<rparr>, [])"
    using d2 lx frame_length [of 1] unfolding read_frame_def append_assoc read_length_written and_then.simps
    by (simp add: MAX_FRAME_def enable_encryption_def)
  have "(answer ! 0 = 5) = (?aes ?key (last16 ?ct) ! 0 = ?aes ?key ?key ! 0)"
    using lx n16 by (intro answer_after_read_is_garbled [OF _ len _ _ r _ w a]) (simp_all add: MAX_FRAME_def)
  then have "answer ! 0 \<noteq> 5"
    by (simp add: last16_def)
  then show ?thesis
    using r w a by blast
qed

end
