(* ===== verification/Region.thy ===== *)
theory Region
  imports Geometry "HOL-Library.Multiset"
begin

text \<open>
  \<open>mc-world/src/anvil.rs\<close>, the region file: the header of 1024 entries, the sectors the writer
  allocates and what the reader finds there. A file is its bytes; the NBT of a chunk and the zlib
  coder are parameters. The hash map that groups chunks by region only decides in which order
  the files are written, and each file has its own path.

  Shown: every chunk of a batch is found in the file of its region, with the bytes it was
  compressed to, and a position that was not written is not found.
\<close>

datatype AnvilError = AnvilIo | AnvilFormat | AnvilNbt

section \<open>Writing\<close>

definition region_of :: "ChunkPos \<Rightarrow> int \<times> int" where
  "region_of p = (sint (cp_x p) div 32, sint (cp_z p) div 32)"

definition local_index :: "ChunkPos \<Rightarrow> nat" where
  "local_index p = nat (sint (cp_x p) mod 32) + nat (sint (cp_z p) mod 32) * 32"

definition sectors_needed :: "bytes \<Rightarrow> u32" where
  "sectors_needed compressed =
     (let data_size = 5 + length compressed in word_of_nat ((data_size mod 2 ^ 32 + 4095) div 4096))"

definition header_entry :: "u32 \<Rightarrow> u32 \<Rightarrow> bytes" where
  "header_entry sector n =
     [ucast (drop_bit 16 sector AND 0xFF), ucast (drop_bit 8 sector AND 0xFF), ucast (sector AND 0xFF), ucast n]"

definition put_entry :: "nat \<Rightarrow> bytes \<Rightarrow> bytes \<Rightarrow> bytes" where
  "put_entry off entry header =
     header[off := entry ! 0, off + 1 := entry ! 1, off + 2 := entry ! 2, off + 3 := entry ! 3]"

definition sector_data :: "bytes \<Rightarrow> bytes" where
  "sector_data compressed =
     (let d = be_bytes 4 (word_of_nat (length compressed) :: u32) @ [2] @ compressed
      in d @ replicate (unat (sectors_needed compressed) * 4096 - length d) 0)"

fun write_entries :: "u32 \<Rightarrow> bytes \<Rightarrow> (nat \<times> bytes) list \<Rightarrow> bytes \<times> bytes" where
  "write_entries sector header [] = (header, [])"
| "write_entries sector header ((local_idx, compressed) # entries) =
     (let n = sectors_needed compressed;
          header = put_entry (local_idx * 4) (header_entry sector n) header;
          (header, data) = write_entries (sector + n) header entries
      in (header, sector_data compressed @ data))"

definition region_bytes :: "(nat \<times> bytes) list \<Rightarrow> bytes" where
  "region_bytes entries =
     (let (header, data) = write_entries 2 (replicate 4096 0) (sort_key fst entries)
      in header @ replicate 4096 0 @ data)"

primrec compress_all :: "('c \<Rightarrow> string + bytes) \<Rightarrow> (bytes \<Rightarrow> string + bytes) \<Rightarrow> (ChunkPos \<times> 'c) list \<Rightarrow> (AnvilError, (nat \<times> bytes) list) outcome" where
  "compress_all nbt zlib [] = Ok []"
| "compress_all nbt zlib (c # chunks) =
     (case nbt (snd c) of
        Inl e \<Rightarrow> Err AnvilNbt
      | Inr bytes \<Rightarrow>
          (case zlib bytes of
             Inl e \<Rightarrow> Err AnvilIo
           | Inr compressed \<Rightarrow>
               and_then (compress_all nbt zlib chunks) (\<lambda>entries. Ok ((local_index (fst c), compressed) # entries))))"

definition write_region :: "('c \<Rightarrow> string + bytes) \<Rightarrow> (bytes \<Rightarrow> string + bytes) \<Rightarrow> (ChunkPos \<times> 'c) list \<Rightarrow> (AnvilError, bytes) outcome" where
  "write_region nbt zlib chunks = and_then (compress_all nbt zlib chunks) (\<lambda>entries. Ok (region_bytes entries))"

text \<open>The files of a batch, by region.\<close>

definition write_chunks :: "('c \<Rightarrow> string + bytes) \<Rightarrow> (bytes \<Rightarrow> string + bytes) \<Rightarrow> (ChunkPos \<times> 'c) list \<Rightarrow>
    int \<times> int \<rightharpoonup> (AnvilError, bytes) outcome" where
  "write_chunks nbt zlib chunks r =
     (let region_chunks = filter (\<lambda>c. region_of (fst c) = r) chunks
      in if region_chunks = [] then None else Some (write_region nbt zlib region_chunks))"

section \<open>Reading\<close>

definition read_exact :: "bytes \<Rightarrow> nat \<Rightarrow> nat \<Rightarrow> (AnvilError, bytes) outcome" where
  "read_exact file pos n =
     (if n \<le> length file - pos then Ok (take n (drop pos file)) else Err AnvilIo)"

text \<open>The compression scheme and the compressed bytes of a chunk.\<close>

definition find_chunk :: "bytes \<Rightarrow> nat \<Rightarrow> (AnvilError, (u8 \<times> bytes) option) outcome" where
  "find_chunk file entry_idx =
     and_then (read_exact file 0 4096) (\<lambda>header.
       let entry = take 4 (drop (entry_idx * 4) header);
           offset = unat (from_be [0, entry ! 0, entry ! 1, entry ! 2] :: u32)
       in if offset < 2 then Ok None
          else
            and_then (read_exact file (offset * 4096) 4) (\<lambda>len_buf.
            let data_len = unat (from_be len_buf :: u32) in
            and_then (read_exact file (offset * 4096 + 4) 1) (\<lambda>comp_buf.
            if data_len = 0 \<or> data_len > 10000000 then Err AnvilFormat
            else
              and_then (read_exact file (offset * 4096 + 5) data_len) (\<lambda>compressed.
                Ok (Some (comp_buf ! 0, compressed))))))"

definition decompress :: "(bytes \<Rightarrow> string + bytes) \<Rightarrow> (bytes \<Rightarrow> string + bytes) \<Rightarrow> u8 \<Rightarrow> bytes \<Rightarrow> (AnvilError, bytes) outcome" where
  "decompress gunzip unzlib compression data =
     (if compression = 1 then (case gunzip data of Inl e \<Rightarrow> Err AnvilIo | Inr d \<Rightarrow> Ok d)
      else if compression = 2 then (case unzlib data of Inl e \<Rightarrow> Err AnvilIo | Inr d \<Rightarrow> Ok d)
      else Err AnvilFormat)"

text \<open>\<open>load_chunk\<close> up to the bytes of the NBT; no file is a region that does not exist.\<close>

definition load_nbt :: "(bytes \<Rightarrow> string + bytes) \<Rightarrow> (bytes \<Rightarrow> string + bytes) \<Rightarrow> bytes option \<Rightarrow> ChunkPos \<Rightarrow>
    (AnvilError, bytes option) outcome" where
  "load_nbt gunzip unzlib file p =
     (case file of
        None \<Rightarrow> Ok None
      | Some file \<Rightarrow>
          and_then (find_chunk file (local_index p)) (\<lambda>found.
            case found of
              None \<Rightarrow> Ok None
            | Some (compression, compressed) \<Rightarrow>
                and_then (decompress gunzip unzlib compression compressed) (\<lambda>nbt. Ok (Some nbt))))"

section \<open>The layout\<close>

lemma local_index_less: "local_index p < 1024"
proof -
  have "nat (sint (cp_x p) mod 32) < 32" "nat (sint (cp_z p) mod 32) < 32"
    by (simp_all add: nat_less_iff)
  then show ?thesis
    unfolding local_index_def by linarith
qed

lemma local_index_inj:
  assumes "region_of p = region_of q" and "local_index p = local_index q"
  shows "p = q"
proof -
  have b: "nat (sint (cp_x r) mod 32) < 32" for r
    by (simp add: nat_less_iff)
  have m: "local_index r mod 32 = nat (sint (cp_x r) mod 32)" "local_index r div 32 = nat (sint (cp_z r) mod 32)" for r
    using b [of r] by (simp_all add: local_index_def)
  have "nat (sint (cp_x p) mod 32) = nat (sint (cp_x q) mod 32)" "nat (sint (cp_z p) mod 32) = nat (sint (cp_z q) mod 32)"
    unfolding m [symmetric] assms(2) by (rule refl)+
  then have "sint (cp_x p) mod 32 = sint (cp_x q) mod 32" "sint (cp_z p) mod 32 = sint (cp_z q) mod 32"
    by (metis nat_0_le pos_mod_sign zero_less_numeral)+
  moreover have "sint (cp_x p) div 32 = sint (cp_x q) div 32" "sint (cp_z p) div 32 = sint (cp_z q) div 32"
    using assms(1) by (simp_all add: region_of_def)
  ultimately have "sint (cp_x p) = sint (cp_x q)" "sint (cp_z p) = sint (cp_z q)"
    using div_mult_mod_eq [of "sint (cp_x p)" 32] div_mult_mod_eq [of "sint (cp_x q)" 32]
      div_mult_mod_eq [of "sint (cp_z p)" 32] div_mult_mod_eq [of "sint (cp_z q)" 32] by linarith+
  then have "cp_x p = cp_x q" "cp_z p = cp_z q"
    by (simp_all add: signed_word_eqI)
  then show ?thesis
    by simp
qed

text \<open>The entries the formats agree on: what the reader accepts as a chunk's size.\<close>

definition storable :: "bytes \<Rightarrow> bool" where
  "storable z \<longleftrightarrow> z \<noteq> [] \<and> length z \<le> 10000000"

lemma unat_sectors:
  assumes "storable z"
  shows "unat (sectors_needed z) = (length z + 4100) div 4096"
proof -
  let ?n = "(5 + length z + 4095) div 4096"
  have z: "length z \<le> 10000000"
    using assms by (simp add: storable_def)
  have "?n \<le> 5 + length z + 4095"
    by (rule div_le_dividend)
  then have n: "?n < 4294967296" "5 + length z < 4294967296"
    using z by linarith+
  then have "sectors_needed z = word_of_nat ?n"
    by (simp add: sectors_needed_def Let_def)
  moreover have "unat (word_of_nat ?n :: u32) = ?n"
    using n(1) by (subst unat_of_nat) simp
  ultimately show ?thesis
    by (simp add: ac_simps)
qed

lemma length_sector_data: "storable z \<Longrightarrow> length (sector_data z) = unat (sectors_needed z) * 4096"
proof -
  assume z: "storable z"
  have "5 + length z \<le> unat (sectors_needed z) * 4096"
    unfolding unat_sectors [OF z]
    using div_mult_mod_eq [of "length z + 4100" 4096] mod_less_divisor [of 4096 "length z + 4100"] by linarith
  then show ?thesis
    by (simp add: sector_data_def Let_def)
qed

lemma length_put_entry [simp]: "length (put_entry off e h) = length h"
  by (simp add: put_entry_def)

definition entry_at :: "bytes \<Rightarrow> nat \<Rightarrow> bytes" where
  "entry_at header i = take 4 (drop (i * 4) header)"

lemma nth_put_entry:
  assumes "off + 3 < length h"
  shows "put_entry off e h ! k = (if off \<le> k \<and> k < off + 4 then e ! (k - off) else h ! k)"
proof (cases "off \<le> k \<and> k < off + 4")
  case True
  then obtain r where r: "k = off + r" "r < 4"
    using le_Suc_ex by auto
  then consider "r = 0" | "r = 1" | "r = 2" | "r = 3"
    by linarith
  then show ?thesis
    using assms r by cases (simp_all add: put_entry_def nth_list_update)
next
  case False
  then show ?thesis
    by (auto simp: put_entry_def)
qed

lemma put_entry_same:
  assumes "i < 1024" and "length h = 4096" and "length e = 4"
  shows "entry_at (put_entry (i * 4) e h) i = e"
  unfolding entry_at_def by (rule nth_equalityI) (use assms in \<open>simp_all add: nth_put_entry\<close>)

lemma put_entry_other:
  assumes "i \<noteq> j" and "i < 1024" and "length h = 4096"
  shows "entry_at (put_entry (i * 4) e h) j = entry_at h j"
  unfolding entry_at_def
proof (rule nth_equalityI)
  fix k assume k: "k < length (take 4 (drop (j * 4) (put_entry (i * 4) e h)))"
  then have "k < 4" "j * 4 \<le> length h"
    by auto
  then have nth_drop': "drop (j * 4) h ! k = h ! (j * 4 + k)"
    "drop (j * 4) (put_entry (i * 4) e h) ! k = put_entry (i * 4) e h ! (j * 4 + k)"
    by (simp_all only: nth_drop length_put_entry)
  have "\<not> (i * 4 \<le> j * 4 + k \<and> j * 4 + k < i * 4 + 4)"
    using assms(1) \<open>k < 4\<close> by presburger
  then have "put_entry (i * 4) e h ! (j * 4 + k) = h ! (j * 4 + k)"
    using assms(2,3) by (subst nth_put_entry) auto
  then show "take 4 (drop (j * 4) (put_entry (i * 4) e h)) ! k = take 4 (drop (j * 4) h) ! k"
    using assms(3) k \<open>k < 4\<close> by (simp add: nth_drop')
qed simp

lemma length_header_entry [simp]: "length (header_entry s n) = 4"
  by (simp add: header_entry_def)

lemma ucast_low8: "ucast ((w :: u32) AND 0xFF) = (ucast w :: u8)"
proof (rule bit_word_eqI)
  fix i assume "i < LENGTH(8)"
  moreover have "bit (0xFF :: u32) i" if "i < 8"
    using that bit_mask_iff [where 'a = u32, of 8 i] by (simp add: mask_eq_exp_minus_1)
  ultimately show "bit (ucast (w AND 0xFF) :: u8) i = bit (ucast w :: u8) i"
    by (simp add: bit_ucast_iff bit_and_iff)
qed

lemma header_entry_offset:
  assumes "unat s < 2 ^ 24"
  shows "(from_be [0, header_entry s n ! 0, header_entry s n ! 1, header_entry s n ! 2] :: u32) = s"
proof -
  have "drop_bit 24 s = 0"
  proof -
    have "unat (drop_bit 24 s) = unat s div 2 ^ 24"
      unfolding unat_drop_bit_eq by (rule drop_bit_eq_div)
    then have "unat (drop_bit 24 s) = 0"
      using div_less [OF assms] by (simp only:)
    then show ?thesis
      by (simp only: unat_eq_zero)
  qed
  then have "[0, header_entry s n ! 0, header_entry s n ! 1, header_entry s n ! 2] = be_bytes 4 s"
    by (simp add: header_entry_def ucast_low8 be_bytes_def le_bytes_def numeral_eq_Suc upt_rec)
  then show ?thesis
    by simp
qed

definition total_sectors :: "(nat \<times> bytes) list \<Rightarrow> nat" where
  "total_sectors entries = sum_list (map (\<lambda>e. unat (sectors_needed (snd e))) entries)"

lemma unat_add_small: "unat (a :: u32) + unat b < 2 ^ 32 \<Longrightarrow> unat (a + b) = unat a + unat b"
  by (simp add: unat_word_ariths)

text \<open>Where the writer put an entry: its header entry names the sector its data starts at.\<close>

definition placed :: "nat \<Rightarrow> bytes \<Rightarrow> bytes \<Rightarrow> nat \<times> bytes \<Rightarrow> bool" where
  "placed first header data e \<longleftrightarrow>
     (\<exists>s n pre post. first \<le> unat s \<and> unat s < 2 ^ 24 \<and> entry_at header (fst e) = header_entry s n
        \<and> data = pre @ sector_data (snd e) @ post \<and> length pre = (unat s - first) * 4096)"

lemma placed_later:
  assumes "placed (first + unat (sectors_needed z)) header data e" and "storable z"
  shows "placed first header (sector_data z @ data) e"
proof -
  obtain s n pre post where w: "first + unat (sectors_needed z) \<le> unat s" "unat s < 2 ^ 24"
    "entry_at header (fst e) = header_entry s n" "data = pre @ sector_data (snd e) @ post"
    "length pre = (unat s - (first + unat (sectors_needed z))) * 4096"
    using assms(1) unfolding placed_def by (elim exE conjE)
  have "unat (sectors_needed z) * 4096 + (unat s - (first + unat (sectors_needed z))) * 4096 = (unat s - first) * 4096"
    using w(1) by (simp add: algebra_simps)
  then show ?thesis
    unfolding placed_def using w assms(2)
    by (intro exI [of _ s] exI [of _ n] exI [of _ "sector_data z @ pre"] exI [of _ post])
      (simp add: length_sector_data)
qed

lemma write_entries_layout:
  "write_entries sector header entries = (header', data) \<Longrightarrow> length header = 4096 \<Longrightarrow>
   (\<And>e. e \<in> set entries \<Longrightarrow> fst e < 1024 \<and> storable (snd e)) \<Longrightarrow> distinct (map fst entries) \<Longrightarrow>
   unat sector + total_sectors entries < 2 ^ 24 \<Longrightarrow>
   length header' = 4096
   \<and> (\<forall>i. i \<notin> fst ` set entries \<longrightarrow> entry_at header' i = entry_at header i)
   \<and> (\<forall>e \<in> set entries. placed (unat sector) header' data e)"
proof (induction entries arbitrary: sector header header' data)
  case (Cons e entries)
  obtain idx z where e: "e = (idx, z)"
    by (cases e)
  let ?n = "sectors_needed z"
  let ?h = "put_entry (idx * 4) (header_entry sector ?n) header"
  obtain h2 d2 where rest: "write_entries (sector + ?n) ?h entries = (h2, d2)"
    by (cases "write_entries (sector + ?n) ?h entries")
  have eq: "header' = h2" "data = sector_data z @ d2"
    using Cons.prems(1) rest by (simp_all add: e Let_def)
  have idx: "idx < 1024" "storable z" "idx \<notin> fst ` set entries"
    using Cons.prems(3) [of e] Cons.prems(4) by (auto simp: e)
  have sum: "unat sector + unat ?n + total_sectors entries < 2 ^ 24"
    using Cons.prems(5) by (simp add: total_sectors_def e)
  then have add: "unat (sector + ?n) = unat sector + unat ?n"
    by (intro unat_add_small) simp
  have IH: "length h2 = 4096" "\<And>i. i \<notin> fst ` set entries \<Longrightarrow> entry_at h2 i = entry_at ?h i"
    "\<And>e. e \<in> set entries \<Longrightarrow> placed (unat sector + unat ?n) h2 d2 e"
    using Cons.IH [OF rest] Cons.prems(2-4) sum add by auto
  have "placed (unat sector) header' data (idx, z)"
    unfolding placed_def using IH(2) [OF idx(3)] idx sum Cons.prems(2)
    by (intro exI [of _ sector] exI [of _ ?n] exI [of _ "[]"] exI [of _ d2]) (simp add: eq put_entry_same)
  moreover have "placed (unat sector) header' data e'" if "e' \<in> set entries" for e'
    using placed_later [OF IH(3) [OF that] idx(2)] by (simp add: eq)
  moreover have "entry_at header' i = entry_at header i" if "i \<notin> fst ` set (e # entries)" for i
    using IH(2) [of i] that put_entry_other [OF _ idx(1) Cons.prems(2)] by (auto simp: eq e)
  ultimately show ?case
    using IH(1) by (auto simp: eq e)
qed simp

lemma total_sectors_mset: "mset xs = mset ys \<Longrightarrow> total_sectors xs = total_sectors ys"
proof -
  have "total_sectors zs = sum_mset (image_mset (\<lambda>e. unat (sectors_needed (snd e))) (mset zs))" for zs
    by (simp add: total_sectors_def sum_mset_sum_list flip: mset_map)
  then show "mset xs = mset ys \<Longrightarrow> total_sectors xs = total_sectors ys"
    by simp
qed

lemma region_layout:
  assumes "\<And>e. e \<in> set entries \<Longrightarrow> fst e < 1024 \<and> storable (snd e)" and "distinct (map fst entries)"
    and "2 + total_sectors entries < 2 ^ 24"
  obtains header data where "region_bytes entries = header @ replicate 4096 0 @ data" and "length header = 4096"
    and "\<And>i. i \<notin> fst ` set entries \<Longrightarrow> entry_at header i = entry_at (replicate 4096 0) i"
    and "\<And>e. e \<in> set entries \<Longrightarrow> placed 2 header data e"
proof -
  obtain header data where w: "write_entries 2 (replicate 4096 0) (sort_key fst entries) = (header, data)"
    by (cases "write_entries 2 (replicate 4096 0) (sort_key fst entries)")
  have d: "distinct (map fst (sort_key fst entries))"
    using assms(2) by (metis mset_map mset_sort mset_eq_imp_distinct_iff)
  have t: "unat (2 :: u32) + total_sectors (sort_key fst entries) < 2 ^ 24"
    using assms(3) total_sectors_mset [of "sort_key fst entries" entries] by simp
  show thesis
    using write_entries_layout [OF w _ _ d t] assms(1) w
    by (intro that [of header data]) (auto simp: region_bytes_def)
qed

section \<open>Finding a chunk\<close>

lemma read_exact_at: "raw = pre @ x @ post \<Longrightarrow> length pre = pos \<Longrightarrow> length x = n \<Longrightarrow> read_exact raw pos n = Ok x"
  by (auto simp: read_exact_def)

lemma find_placed:
  assumes raw: "raw = header @ replicate 4096 0 @ data" and h: "length header = 4096" and i: "fst e < 1024"
    and p: "placed 2 header data e" and z: "storable (snd e)"
  shows "find_chunk raw (fst e) = Ok (Some (2, snd e))"
proof -
  obtain s n pre post where w: "2 \<le> unat s" "unat s < 2 ^ 24" "entry_at header (fst e) = header_entry s n"
    "data = pre @ sector_data (snd e) @ post" "length pre = (unat s - 2) * 4096"
    using p unfolding placed_def by (elim exE conjE)
  let ?z = "snd e"
  define pre' where "pre' = header @ replicate 4096 (0 :: u8) @ pre"
  have pos: "length pre' = unat s * 4096"
  proof -
    have "4096 + (4096 + (unat s - 2) * 4096) = unat s * 4096"
      using w(1) by (simp add: diff_mult_distrib)
    then show ?thesis
      by (simp add: pre'_def h w(5))
  qed
  obtain pad where d: "sector_data ?z = be_bytes 4 (word_of_nat (length ?z) :: u32) @ [2] @ ?z @ pad"
    by (auto simp: sector_data_def Let_def)
  let ?len = "be_bytes 4 (word_of_nat (length ?z) :: u32)"
  have f: "raw = pre' @ ?len @ [2] @ ?z @ pad @ post"
    by (simp add: raw pre'_def w(4) d)
  have r: "read_exact raw 0 4096 = Ok header"
    using h by (intro read_exact_at [of raw "[]"]) (simp_all add: raw)
  have r4: "read_exact raw (unat s * 4096) 4 = Ok ?len"
    by (rule read_exact_at [of raw pre' _ "[2] @ ?z @ pad @ post"]) (simp_all add: f pos)
  have r1: "read_exact raw (unat s * 4096 + 4) 1 = Ok [2]"
    by (rule read_exact_at [of raw "pre' @ ?len" _ "?z @ pad @ post"]) (simp_all add: f pos)
  have rz: "read_exact raw (unat s * 4096 + 5) (length ?z) = Ok ?z"
    by (rule read_exact_at [of raw "pre' @ ?len @ [2]" _ "pad @ post"]) (simp_all add: f pos)
  have zb: "length ?z \<noteq> 0" "\<not> length ?z > 10000000"
    using z by (simp_all add: storable_def)
  then have len: "unat (from_be ?len :: u32) = length ?z"
    by (simp add: unat_of_nat)
  have offset: "(from_be [0, take 4 (drop (fst e * 4) header) ! 0, take 4 (drop (fst e * 4) header) ! 1,
      take 4 (drop (fst e * 4) header) ! 2] :: u32) = s"
    using header_entry_offset [OF w(2), of n] w(3) by (simp add: entry_at_def)
  show ?thesis
    unfolding find_chunk_def Let_def r and_then.simps offset r4 r1 rz len
    using w(1) zb by (simp add: len rz r4 r1)
qed

lemma find_absent:
  assumes "entry_at header i = entry_at (replicate 4096 0) i" and "i < 1024" and "length header = 4096"
  shows "find_chunk (header @ rest) i = Ok None"
proof -
  have r: "read_exact (header @ rest) 0 4096 = Ok header"
    using assms(3) by (intro read_exact_at [of _ "[]"]) simp_all
  have t: "take 4 (drop (i * 4) header) = [0, 0, 0, 0]"
  proof -
    have "take 4 (drop (i * 4) header) = replicate 4 0"
      using assms(1,2) unfolding entry_at_def drop_replicate take_replicate by simp
    also have "\<dots> = [0, 0, 0, 0]"
      by (simp add: numeral_eq_Suc)
    finally show ?thesis .
  qed
  then have "(from_be [0, take 4 (drop (i * 4) header) ! 0, take 4 (drop (i * 4) header) ! 1,
      take 4 (drop (i * 4) header) ! 2] :: u32) = 0"
    unfolding t by (simp add: from_be_def)
  then show ?thesis
    unfolding find_chunk_def Let_def r and_then.simps by simp
qed

lemma compress_all_entries:
  "compress_all nbt zlib chunks = Ok entries \<Longrightarrow>
   list_all2 (\<lambda>c e. fst e = local_index (fst c) \<and> (\<exists>b. nbt (snd c) = Inr b \<and> zlib b = Inr (snd e))) chunks entries"
proof (induction chunks arbitrary: entries)
  case (Cons c chunks)
  then show ?case
    by (auto simp: and_then_eq_Ok split: sum.splits)
qed simp

lemma total_sectors_le:
  assumes "\<And>e. e \<in> set entries \<Longrightarrow> storable (snd e)"
  shows "total_sectors entries \<le> length entries * 2443"
  using assms
proof (induction entries)
  case (Cons e entries)
  have "length (snd e) \<le> 10000000"
    using Cons.prems [of e] by (simp add: storable_def)
  then have "(length (snd e) + 4100) div 4096 \<le> 2443"
    by (simp add: div_le_mono [THEN order_trans])
  then show ?case
    using Cons unat_sectors [of "snd e"] by (simp add: total_sectors_def)
qed (simp add: total_sectors_def)

lemma distinct_bounded:
  assumes "distinct (xs :: nat list)" and "\<And>x. x \<in> set xs \<Longrightarrow> x < n"
  shows "length xs \<le> n"
proof -
  have "set xs \<subseteq> {..<n}"
    using assms(2) by auto
  then show ?thesis
    using card_mono [of "{..<n}" "set xs"] distinct_card [OF assms(1)] by simp
qed

text \<open>C6. A batch of chunks written to region files loads back: in the file of its region every
  written position is found with the NBT bytes it was written with, and every other position of
  the region is found empty, wherever the sectors came to lie. The zlib coder has to give back
  what it compressed, to something and to at most ten million bytes.\<close>

theorem region_roundtrip:
  assumes inflate: "\<And>b z. zlib b = Inr z \<Longrightarrow> unzlib z = Inr b"
    and small: "\<And>c b z. c \<in> set chunks \<Longrightarrow> nbt (snd c) = Inr b \<Longrightarrow> zlib b = Inr z \<Longrightarrow> storable z"
    and once: "distinct (map fst chunks)"
    and written: "write_chunks nbt zlib chunks (region_of p) = Some (Ok raw)"
  shows "load_nbt gunzip unzlib (Some raw) p =
    (case map_of chunks p of
       None \<Rightarrow> Ok None
     | Some c \<Rightarrow> (case nbt c of Inr b \<Rightarrow> Ok (Some b) | Inl e \<Rightarrow> Err AnvilNbt))"
proof -
  let ?rc = "filter (\<lambda>c. region_of (fst c) = region_of p) chunks"
  obtain entries where entries: "compress_all nbt zlib ?rc = Ok entries" and raw: "raw = region_bytes entries"
    using written by (auto simp: write_chunks_def write_region_def and_then_eq_Ok Let_def split: if_splits)
  have rel: "list_all2 (\<lambda>c e. fst e = local_index (fst c) \<and> (\<exists>b. nbt (snd c) = Inr b \<and> zlib b = Inr (snd e))) ?rc entries"
    by (rule compress_all_entries [OF entries])
  have idx: "map fst entries = map local_index (map fst ?rc)"
    using rel by (induction rule: list_all2_induct) auto
  have "inj_on local_index (set (map fst ?rc))"
    by (rule inj_onI) (auto intro: local_index_inj)
  moreover have "distinct (map fst ?rc)"
    using once by (simp add: distinct_map_filter)
  ultimately have d: "distinct (map fst entries)"
    unfolding idx by (subst distinct_map) simp
  have ok: "fst e < 1024 \<and> storable (snd e)" if e: "e \<in> set entries" for e
  proof -
    obtain i where i: "i < length entries" "entries ! i = e"
      using e by (auto simp: in_set_conv_nth)
    then have "fst e = local_index (fst (?rc ! i)) \<and> (\<exists>b. nbt (snd (?rc ! i)) = Inr b \<and> zlib b = Inr (snd e))"
      using list_all2_nthD2 [OF rel i(1)] by simp
    moreover have "?rc ! i \<in> set ?rc"
      using i(1) list_all2_lengthD [OF rel] by (intro nth_mem) simp
    then have "?rc ! i \<in> set chunks"
      by (rule subsetD [OF filter_is_subset])
    ultimately show ?thesis
      using small [of "?rc ! i"] local_index_less by auto
  qed
  have "length (map fst entries) \<le> 1024"
    using ok by (intro distinct_bounded [OF d]) auto
  then have t: "2 + total_sectors entries < 2 ^ 24"
    using total_sectors_le [of entries] ok by simp
  obtain header data where lay: "region_bytes entries = header @ replicate 4096 0 @ data" "length header = 4096"
    "\<And>i. i \<notin> fst ` set entries \<Longrightarrow> entry_at header i = entry_at (replicate 4096 0) i"
    "\<And>e. e \<in> set entries \<Longrightarrow> placed 2 header data e"
    using region_layout [OF ok d t] by blast
  show ?thesis
  proof (cases "map_of chunks p")
    case None
    then have "p \<notin> fst ` set ?rc"
      by (auto simp: map_of_eq_None_iff)
    have "local_index p \<notin> fst ` set entries"
    proof
      assume "local_index p \<in> fst ` set entries"
      then have "local_index p \<in> set (map local_index (map fst ?rc))"
        unfolding idx [symmetric] by simp
      then obtain q where q: "q \<in> fst ` set ?rc" "local_index p = local_index q"
        by auto
      then have "p = q"
        by (intro local_index_inj) auto
      then show False
        using q(1) \<open>p \<notin> fst ` set ?rc\<close> by simp
    qed
    then have "find_chunk raw (local_index p) = Ok None"
      unfolding raw lay(1) using lay(2,3) local_index_less by (intro find_absent) auto
    then show ?thesis
      by (simp add: load_nbt_def None)
  next
    case (Some c)
    then have "(p, c) \<in> set ?rc"
      using map_of_SomeD by fastforce
    then obtain i where i: "i < length ?rc" "?rc ! i = (p, c)"
      unfolding in_set_conv_nth by blast
    let ?e = "entries ! i"
    have e: "?e \<in> set entries" "fst ?e = local_index p"
      using i list_all2_nthD [OF rel i(1)] list_all2_lengthD [OF rel] by auto
    obtain b where b: "nbt c = Inr b" "zlib b = Inr (snd ?e)"
      using list_all2_nthD [OF rel i(1)] i(2) by auto
    have "find_chunk raw (local_index p) = Ok (Some (2, snd ?e))"
      using find_placed [OF _ lay(2) _ lay(4) [OF e(1)], of raw] ok [OF e(1)] raw lay(1) e(2) by simp
    then show ?thesis
      using b inflate [OF b(2)] by (simp add: load_nbt_def decompress_def Some)
  qed
qed

theorem region_roundtrip_witness:
  "\<exists>raw. write_chunks Inr (\<lambda>b. Inr (7 # b)) [(chunk_pos 3 (- 1), [1, 2]), (chunk_pos 4 (- 1), [5])] (0, - 1) = Some (Ok raw)
    \<and> load_nbt Inr (\<lambda>z. Inr (tl z)) (Some raw) (chunk_pos 4 (- 1)) = Ok (Some [5])
    \<and> load_nbt Inr (\<lambda>z. Inr (tl z)) (Some raw) (chunk_pos 5 (- 1)) = Ok None"
proof -
  let ?nbt = "Inr :: bytes \<Rightarrow> string + bytes" and ?zlib = "\<lambda>b. Inr (7 # b) :: string + bytes" and ?un = "\<lambda>z. Inr (tl z) :: string + bytes"
  let ?chunks = "[(chunk_pos 3 (- 1), [1, 2]), (chunk_pos 4 (- 1), [5 :: u8])]"
  have region: "region_of (chunk_pos x (- 1)) = (0, - 1)" if "x \<in> {3, 4, 5}" for x
    using that by (auto simp: region_of_def chunk_pos_def)
  obtain raw where raw: "write_chunks ?nbt ?zlib ?chunks (0, - 1) = Some (Ok raw)"
    by (simp add: write_chunks_def write_region_def region)
  have load: "load_nbt Inr ?un (Some raw) p =
    (case map_of ?chunks p of None \<Rightarrow> Ok None | Some c \<Rightarrow> (case ?nbt c of Inr b \<Rightarrow> Ok (Some b) | Inl e \<Rightarrow> Err AnvilNbt))"
    if "region_of p = (0, - 1)" for p
    by (rule region_roundtrip [where zlib = ?zlib]) (use raw that in \<open>auto simp: storable_def chunk_pos_def\<close>)
  show ?thesis
    using raw load [of "chunk_pos 4 (- 1)"] load [of "chunk_pos 5 (- 1)"] region by (auto simp: chunk_pos_def)
qed

end
