(* ===== verification/AnvilChunk.thy ===== *)
theory AnvilChunk
  imports ChunkFormat Region "HOL-Library.AList"
begin

text \<open>
  \<open>mc-world/src/anvil.rs\<close>, the chunk inside a region file: the block names, the packed indices of
  a section, the value the writer hands to the NBT library and what the reader makes of a parsed
  NBT value. The NBT library is not part of the repository; \<open>nbt_value\<close> has the
  constructors of its value type the reader matches on.

  Shown: a section whose index width divides 64 reads back block by block by name; otherwise an
  index that straddles two words loses its high bits; which block names survive.
\<close>

section \<open>Block names\<close>

definition STANDARD_BLOCKS :: "(string \<times> u32) list" where
  "STANDARD_BLOCKS =
     [(''minecraft:air'', 0), (''minecraft:stone'', 1), (''minecraft:granite'', 2), (''minecraft:grass_block'', 9),
      (''minecraft:dirt'', 10), (''minecraft:coarse_dirt'', 11), (''minecraft:sand'', 12), (''minecraft:gravel'', 13),
      (''minecraft:oak_log'', 17), (''minecraft:oak_leaves'', 18), (''minecraft:bedrock'', 33), (''minecraft:water'', 34)]"

definition block_id_to_name :: "u32 \<Rightarrow> string" where
  "block_id_to_name i =
     (if i = 0 then ''minecraft:air'' else if i = 1 then ''minecraft:stone''
      else if i = 2 then ''minecraft:granite'' else if i = 9 then ''minecraft:grass_block''
      else if i = 10 then ''minecraft:dirt'' else if i = 11 then ''minecraft:coarse_dirt''
      else if i = 12 then ''minecraft:sand'' else if i = 13 then ''minecraft:gravel''
      else if i = 17 then ''minecraft:oak_log'' else if i = 18 then ''minecraft:oak_leaves''
      else if i = 33 then ''minecraft:bedrock'' else if i = 34 then ''minecraft:water''
      else if i = 79 then ''minecraft:ice'' else if i = 80 then ''minecraft:snow''
      else if i = 81 then ''minecraft:snow_block'' else if i = 82 then ''minecraft:clay''
      else ''minecraft:stone'')"

record AnvilReader =
  ar_registry :: "(string \<times> BlockState) list"
  ar_next_unknown :: u32

definition new_reader :: AnvilReader where
  "new_reader =
     \<lparr>ar_registry = fold (\<lambda>(name, i). AList.update name (block i)) STANDARD_BLOCKS [], ar_next_unknown = 10000\<rparr>"

text \<open>\<open>name.split('[').next()\<close>\<close>

definition base_name :: "string \<Rightarrow> string" where
  "base_name name = takeWhile (\<lambda>c. c \<noteq> CHR ''['') name"

definition resolve_block :: "string \<Rightarrow> AnvilReader \<Rightarrow> AnvilReader \<times> BlockState" where
  "resolve_block name r =
     (case map_of (ar_registry r) (base_name name) of
        Some b \<Rightarrow> (r, b)
      | None \<Rightarrow>
          let b = block (ar_next_unknown r)
          in (r\<lparr>ar_next_unknown := ar_next_unknown r + 1, ar_registry := AList.update (base_name name) b (ar_registry r)\<rparr>, b))"

section \<open>Packed indices\<close>

text \<open>\<open>max(1, usize::BITS - (n - 1).leading_zeros())\<close>\<close>

definition index_bits :: "nat \<Rightarrow> nat" where
  "index_bits n = max 1 (64 - leading_zeros (word_of_nat n - 1 :: u64))"

definition name_index :: "string list \<Rightarrow> BlockState \<Rightarrow> nat" where
  "name_index names b = (case position (\<lambda>e. e = block_id_to_name (bs_id b)) names of Some i \<Rightarrow> i | None \<Rightarrow> 0)"

primrec pack_indices :: "nat \<Rightarrow> nat \<Rightarrow> nat list \<Rightarrow> u64 list \<Rightarrow> u64 list" where
  "pack_indices bits i [] words = words"
| "pack_indices bits i (idx # idxs) words =
     (let bit_off = i * bits; word_idx = bit_off div 64; bit_pos = bit_off mod 64
      in pack_indices bits (i + 1) idxs
           (words[word_idx := words ! word_idx OR push_bit bit_pos (word_of_nat idx)]))"

definition section_palette :: "BlockState list \<Rightarrow> string list" where
  "section_palette blocks = map block_id_to_name (sorted_list_of_set (bs_id ` set blocks))"

definition section_data :: "string list \<Rightarrow> BlockState list \<Rightarrow> u64 list" where
  "section_data names blocks =
     (if length names > 1 then
        let bits = index_bits (length names); word_count = (4096 * bits + 63) div 64
        in pack_indices bits 0 (map (name_index names) blocks) (replicate word_count 0)
      else [])"

definition unpack_index :: "u64 list \<Rightarrow> nat \<Rightarrow> nat \<Rightarrow> nat option" where
  "unpack_index data bits i =
     (let wi = i * bits div 64; bo = i * bits mod 64
      in if wi < length data
         then Some (unat (drop_bit bo (data ! wi) AND (push_bit (bits mod 64) 1 - 1)))
         else None)"

text \<open>The three nested loops of the reader, over \<open>y\<close>, \<open>z\<close> and \<open>x\<close>.\<close>

definition anvil_cells :: "(nat \<times> nat \<times> nat) list" where
  "anvil_cells = [(x, y, z). y \<leftarrow> [0..<16], z \<leftarrow> [0..<16], x \<leftarrow> [0..<16]]"

primrec unpack_cells :: "BlockState list \<Rightarrow> u64 list \<Rightarrow> nat \<Rightarrow> (nat \<times> nat \<times> nat) list \<Rightarrow> ContainerMode \<Rightarrow> ContainerMode option" where
  "unpack_cells entries data bits [] c = Some c"
| "unpack_cells entries data bits (p # ps) c =
     (case p of (x, y, z) \<Rightarrow>
        let i = y * 256 + z * 16 + x in do {
          c \<leftarrow> (case unpack_index data bits i of
                Some v \<Rightarrow> (case nth_opt entries v of Some b \<Rightarrow> paletted_set c x y z b | None \<Rightarrow> Some c)
              | None \<Rightarrow> Some c);
          unpack_cells entries data bits ps c
        })"

section \<open>The chunk as NBT\<close>

record BlockStatesNbt =
  bn_palette :: "string list"
  bn_data :: "u64 list"

record SectionNbt =
  sn_y :: i8
  sn_blocks :: BlockStatesNbt
  sn_biomes :: "string list"
  sn_sky :: bytes
  sn_light :: bytes

record ChunkNbt =
  cn_version :: i32
  cn_x :: i32
  cn_z :: i32
  cn_sections :: "SectionNbt list"
  cn_light_on :: i8

definition section_nbt :: "nat \<Rightarrow> Section \<Rightarrow> SectionNbt option" where
  "section_nbt i sec =
     (let sy = usize_as_i32 i + MIN_SECTION_Y in do {
        blocks \<leftarrow> iter_blocks (sec_blocks sec);
        let palette = section_palette blocks;
        Some \<lparr>sn_y = ucast sy,
              sn_blocks = \<lparr>bn_palette = palette, bn_data = section_data palette blocks\<rparr>,
              sn_biomes = [''minecraft:plains''], sn_sky = sec_sky sec, sn_light = sec_light sec\<rparr>
      })"

fun sections_nbt :: "nat \<Rightarrow> Section option list \<Rightarrow> SectionNbt list option" where
  "sections_nbt i [] = Some []"
| "sections_nbt i (None # secs) = sections_nbt (i + 1) secs"
| "sections_nbt i (Some sec # secs) = do { s \<leftarrow> section_nbt i sec; ss \<leftarrow> sections_nbt (i + 1) secs; Some (s # ss) }"

definition serialize_chunk_nbt :: "(ChunkNbt \<Rightarrow> string + bytes) \<Rightarrow> Chunk \<Rightarrow> (AnvilError, bytes) outcome" where
  "serialize_chunk_nbt to_bytes c =
     (case sections_nbt 0 (ck_sections c) of
        None \<Rightarrow> Panic
      | Some sections \<Rightarrow>
          (case to_bytes \<lparr>cn_version = 3700, cn_x = cp_x (ck_position c), cn_z = cp_z (ck_position c),
                         cn_sections = sections, cn_light_on = 1\<rparr> of
             Inl e \<Rightarrow> Err AnvilNbt
           | Inr data \<Rightarrow> Ok data))"

text \<open>\<open>fastnbt::Value\<close>: its constructors that the reader tells apart.\<close>

datatype nbt_value =
    Compound "(string \<times> nbt_value) list"
  | NbtList "nbt_value list"
  | NbtByte i8
  | NbtString string
  | LongArray "u64 list"
  | OtherValue

definition palette_entry :: "nbt_value \<Rightarrow> AnvilReader \<Rightarrow> AnvilReader \<times> BlockState" where
  "palette_entry e r =
     (case e of
        Compound c \<Rightarrow> (case map_of c ''Name'' of Some (NbtString s) \<Rightarrow> resolve_block s r | _ \<Rightarrow> (r, AIR))
      | _ \<Rightarrow> (r, AIR))"

primrec palette_entries :: "nbt_value list \<Rightarrow> AnvilReader \<Rightarrow> AnvilReader \<times> BlockState list" where
  "palette_entries [] r = (r, [])"
| "palette_entries (e # es) r =
     (let (r, b) = palette_entry e r; (r, bs) = palette_entries es r in (r, b # bs))"

definition parse_blocks :: "(string \<times> nbt_value) list \<Rightarrow> AnvilReader \<Rightarrow> (AnvilReader \<times> ContainerMode) option" where
  "parse_blocks s r =
     (case map_of s ''block_states'' of
        Some (Compound bs) \<Rightarrow>
          (case map_of bs ''palette'' of
             Some (NbtList pal) \<Rightarrow>
               let (r, entries) = palette_entries pal r in
               if length entries = 1 then Some (r, filled (entries ! 0))
               else
                 (case map_of bs ''data'' of
                    Some (LongArray data) \<Rightarrow>
                      map_option (\<lambda>c. (r, c))
                        (unpack_cells entries data (index_bits (length entries)) anvil_cells new_container)
                  | _ \<Rightarrow> Some (r, new_container))
           | _ \<Rightarrow> Some (r, new_container))
      | _ \<Rightarrow> Some (r, new_container))"

primrec parse_sections :: "nbt_value list \<Rightarrow> AnvilReader \<Rightarrow> Chunk \<Rightarrow> (AnvilReader \<times> Chunk) option" where
  "parse_sections [] r chunk = Some (r, chunk)"
| "parse_sections (sec # secs) r chunk =
     (case sec of
        Compound s \<Rightarrow>
          (case map_of s ''Y'' of
             Some (NbtByte y) \<Rightarrow>
               let sy = (scast y :: i32); idx = section_index_from_section_y sy in
               if idx \<ge> SECTIONS_PER_CHUNK then parse_sections secs r chunk
               else do {
                 (r, blocks) \<leftarrow> parse_blocks s r;
                 let section = \<lparr>sec_position = \<lparr>sp_chunk = ck_position chunk, sp_y = sy\<rparr>, sec_blocks = blocks,
                     sec_biomes = filled (block 0), sec_sky = replicate 2048 0xFF, sec_light = replicate 2048 0\<rparr>;
                 parse_sections secs r (chunk\<lparr>ck_sections := (ck_sections chunk)[idx := Some section]\<rparr>)
               }
           | _ \<Rightarrow> parse_sections secs r chunk)
      | _ \<Rightarrow> parse_sections secs r chunk)"

definition parse_chunk_nbt :: "u64 \<Rightarrow> ChunkPos \<Rightarrow> nbt_value \<Rightarrow> AnvilReader \<Rightarrow>
    (AnvilError, u64 \<times> AnvilReader \<times> Chunk) outcome" where
  "parse_chunk_nbt lru pos nbt r =
     (case nbt of
        Compound c \<Rightarrow>
          and_then (case map_of c ''Level'' of
              Some (Compound l) \<Rightarrow> Ok l
            | Some _ \<Rightarrow> Err AnvilNbt
            | None \<Rightarrow> Ok c) (\<lambda>level.
            let (lru, chunk) = new_chunk lru pos in
            (case (case map_of level ''Sections'' of
                     Some (NbtList sections) \<Rightarrow> parse_sections sections r chunk
                   | _ \<Rightarrow> Some (r, chunk)) of
               None \<Rightarrow> Panic
             | Some (r, chunk) \<Rightarrow> Ok (lru, r, chunk\<lparr>ck_dirty := False\<rparr>)))
      | _ \<Rightarrow> Err AnvilNbt)"

section \<open>What an index reads as\<close>

lemma length_pack_indices [simp]: "length (pack_indices bits i idxs words) = length words"
  by (induction idxs arbitrary: i words) (simp_all add: Let_def)

lemma bit_pack_indices:
  "w < length words \<Longrightarrow> (\<And>j. j < length idxs \<Longrightarrow> (i + j) * bits div 64 < length words) \<Longrightarrow>
   bit (pack_indices bits i idxs words ! w) k \<longleftrightarrow>
     bit (words ! w) k \<or> (\<exists>j < length idxs. (i + j) * bits div 64 = w \<and> (i + j) * bits mod 64 \<le> k \<and> k < 64
        \<and> bit (idxs ! j) (k - (i + j) * bits mod 64))"
proof (induction idxs arbitrary: i words)
  case (Cons idx idxs)
  let ?wi = "i * bits div 64" and ?bp = "i * bits mod 64"
  let ?words = "words[?wi := words ! ?wi OR push_bit ?bp (word_of_nat idx)]"
  have wi: "?wi < length words"
    using Cons.prems(2) [of 0] by simp
  have "(Suc i + j) * bits div 64 < length ?words" if "j < length idxs" for j
    using Cons.prems(2) [of "Suc j"] that by simp
  then have IH: "bit (pack_indices bits (Suc i) idxs ?words ! w) k \<longleftrightarrow>
     bit (?words ! w) k \<or> (\<exists>j < length idxs. (Suc i + j) * bits div 64 = w \<and> (Suc i + j) * bits mod 64 \<le> k \<and> k < 64
        \<and> bit (idxs ! j) (k - (Suc i + j) * bits mod 64))"
    using Cons.prems(1) by (intro Cons.IH) simp_all
  have here: "bit (?words ! w) k \<longleftrightarrow> bit (words ! w) k \<or> ?wi = w \<and> ?bp \<le> k \<and> k < 64 \<and> bit idx (k - ?bp)"
    using wi Cons.prems(1)
    by (cases "w = ?wi") (auto simp: bit_or_iff bit_push_bit_iff bit_of_nat_iff dest: bit_imp_le_length)
  show ?case
    unfolding pack_indices.simps Let_def Suc_eq_plus1 [symmetric] IH here
    by (auto simp: less_Suc_eq_0_disj)
qed simp

definition index_words :: "nat \<Rightarrow> nat list \<Rightarrow> u64 list" where
  "index_words bits idxs = pack_indices bits 0 idxs (replicate ((4096 * bits + 63) div 64) 0)"

lemma index_word_in_range: "(j :: nat) < 4096 \<Longrightarrow> 0 < bits \<Longrightarrow> j * bits div 64 < (4096 * bits + 63) div 64"
proof -
  assume "j < 4096" "0 < bits"
  then have "j * bits + bits \<le> 4096 * bits"
    using mult_le_mono1 [of "Suc j" 4096 bits] by (simp only: Suc_le_eq mult_Suc add.commute)
  then show ?thesis
    using \<open>0 < bits\<close> by linarith
qed

lemma same_index:
  assumes "j * bits div 64 = i * bits div 64" and "j * bits mod 64 \<le> k" and "k < j * bits mod 64 + bits"
    and "i * bits mod 64 \<le> k" and "k < i * bits mod 64 + bits"
  shows "j = (i :: nat)"
proof -
  have "j * bits = i * bits div 64 * 64 + j * bits mod 64" "i * bits = i * bits div 64 * 64 + i * bits mod 64"
    using assms(1) by (metis div_mult_mod_eq)+
  then have "j * bits < i * bits + bits" "i * bits < j * bits + bits"
    using assms(2-5) by linarith+
  then have "j * bits < Suc i * bits" "i * bits < Suc j * bits"
    by simp_all
  then show ?thesis
    by (metis less_Suc_eq_le mult_less_cancel2 le_antisym)
qed

lemma unpack_packed:
  assumes "0 < bits" and "bits < 64" and "length idxs = 4096" and "\<forall>idx \<in> set idxs. idx < 2 ^ bits" and "j < 4096"
  shows "unpack_index (index_words bits idxs) bits j = Some (idxs ! j mod 2 ^ (64 - j * bits mod 64))"
proof -
  let ?words = "index_words bits idxs" and ?bo = "j * bits mod 64" and ?w = "j * bits div 64"
  have len: "length ?words = (4096 * bits + 63) div 64"
    by (simp add: index_words_def)
  have w: "?w < length ?words"
    unfolding len by (rule index_word_in_range [OF assms(5,1)])
  have small: "bit (idxs ! i) k \<Longrightarrow> k < bits" if "i < 4096" for i k
  proof -
    assume b: "bit (idxs ! i) k"
    have "idxs ! i < 2 ^ bits"
      using assms(3,4) that by simp
    then have "take_bit bits (idxs ! i) = idxs ! i"
      by (simp add: take_bit_nat_eq_self)
    then show "k < bits"
      using b by (metis bit_take_bit_iff)
  qed
  have word: "bit (?words ! ?w) (?bo + k) \<longleftrightarrow> ?bo + k < 64 \<and> bit (idxs ! j) k" if k: "k < bits" for k
  proof -
    have "bit (?words ! ?w) (?bo + k) \<longleftrightarrow>
        (\<exists>i < length idxs. (0 + i) * bits div 64 = ?w \<and> (0 + i) * bits mod 64 \<le> ?bo + k \<and> ?bo + k < 64
          \<and> bit (idxs ! i) (?bo + k - (0 + i) * bits mod 64))"
      unfolding index_words_def
      using w len assms(1,3) index_word_in_range
      by (subst bit_pack_indices) auto
    also have "\<dots> \<longleftrightarrow> ?bo + k < 64 \<and> bit (idxs ! j) k"
    proof
      assume "\<exists>i < length idxs. (0 + i) * bits div 64 = ?w \<and> (0 + i) * bits mod 64 \<le> ?bo + k \<and> ?bo + k < 64
          \<and> bit (idxs ! i) (?bo + k - (0 + i) * bits mod 64)"
      then obtain i where i: "i < 4096" "i * bits div 64 = ?w" "i * bits mod 64 \<le> ?bo + k" "?bo + k < 64"
        "bit (idxs ! i) (?bo + k - i * bits mod 64)"
        using assms(3) by auto
      then have "i = j"
        using small [OF i(1) i(5)] k i(3) by (intro same_index [of i bits j "?bo + k"]) (auto simp: less_diff_conv2)
      then show "?bo + k < 64 \<and> bit (idxs ! j) k"
        using i by simp
    next
      assume "?bo + k < 64 \<and> bit (idxs ! j) k"
      then show "\<exists>i < length idxs. (0 + i) * bits div 64 = ?w \<and> (0 + i) * bits mod 64 \<le> ?bo + k \<and> ?bo + k < 64
          \<and> bit (idxs ! i) (?bo + k - (0 + i) * bits mod 64)"
        using assms(3,5) by (intro exI [of _ j]) simp
    qed
    finally show ?thesis .
  qed
  have "drop_bit ?bo (?words ! ?w) AND (push_bit (bits mod 64) 1 - 1)
      = take_bit bits (drop_bit ?bo (?words ! ?w))"
    using assms(2) by (simp add: take_bit_eq_mask mask_eq_exp_minus_1 push_bit_eq_mult)
  moreover have "unat (take_bit bits (drop_bit ?bo (?words ! ?w))) = take_bit (64 - ?bo) (idxs ! j)"
  proof (rule bit_eqI)
    fix k
    show "bit (unat (take_bit bits (drop_bit ?bo (?words ! ?w)))) k \<longleftrightarrow> bit (take_bit (64 - ?bo) (idxs ! j)) k"
      using word [of k] small [OF assms(5), of k]
      by (auto simp: bit_unsigned_iff bit_take_bit_iff bit_drop_bit_eq dest: bit_imp_le_length)
  qed
  ultimately show ?thesis
    using w by (simp add: unpack_index_def Let_def take_bit_eq_mod)
qed

section \<open>Names and indices\<close>

lemma unat_pred: "1 \<le> n \<Longrightarrow> n < 2 ^ 64 \<Longrightarrow> unat (word_of_nat n - 1 :: u64) = n - 1"
  by (cases n) (simp_all add: unat_of_nat)

lemma length_le_index_bits: "1 \<le> n \<Longrightarrow> n < 2 ^ 64 \<Longrightarrow> n \<le> 2 ^ index_bits n"
proof -
  assume n: "1 \<le> n" "n < 2 ^ 64"
  let ?w = "word_of_nat n - 1 :: u64"
  have u: "unat ?w = n - 1"
    by (rule unat_pred [OF n])
  have "unat ?w < 2 ^ bit_length ?w"
    by (rule unat_less_bit_length)
  also have "\<dots> \<le> 2 ^ index_bits n"
    by (rule power_increasing) (simp_all add: index_bits_def bit_length_def)
  finally show ?thesis
    using u n(1) by simp
qed

lemma index_bits_small: "1 \<le> n \<Longrightarrow> n \<le> 4096 \<Longrightarrow> index_bits n \<le> 12"
proof -
  assume n: "1 \<le> n" "n \<le> 4096"
  let ?w = "word_of_nat n - 1 :: u64"
  have "unat ?w < 2 ^ 12"
    using n unat_pred [OF n(1)] by simp
  then have "bit_length ?w \<le> 12"
    by (simp only: bit_length_le_iff)
  then show ?thesis
    by (simp add: index_bits_def bit_length_def)
qed

lemma index_bits_pos: "0 < index_bits n"
  by (simp add: index_bits_def)

lemma name_index_correct:
  assumes "b \<in> set blocks"
  shows "name_index (section_palette blocks) b < length (section_palette blocks)
    \<and> section_palette blocks ! name_index (section_palette blocks) b = block_id_to_name (bs_id b)"
proof -
  have "block_id_to_name (bs_id b) \<in> set (section_palette blocks)"
    using assms by (simp add: section_palette_def)
  then show ?thesis
    by (cases "position (\<lambda>e. e = block_id_to_name (bs_id b)) (section_palette blocks)")
      (auto simp: name_index_def position_None dest: position_Some)
qed

lemma section_palette_length:
  assumes "length blocks = 4096"
  shows "1 \<le> length (section_palette blocks) \<and> length (section_palette blocks) \<le> 4096"
proof -
  have "length (section_palette blocks) = card (bs_id ` set blocks)"
    by (simp add: section_palette_def)
  moreover have "card (bs_id ` set blocks) \<le> 4096"
    using card_image_le [of "set blocks" bs_id] card_length [of blocks] assms by simp
  moreover have "bs_id ` set blocks \<noteq> {}"
    using assms by auto
  ultimately show ?thesis
    by (metis One_nat_def Suc_leI card_gt_0_iff finite_imageI List.finite_set)
qed

lemma section_index_read:
  assumes "length blocks = 4096" and "1 < length (section_palette blocks)" and "j < 4096"
  shows "unpack_index (section_data (section_palette blocks) blocks) (index_bits (length (section_palette blocks))) j
    = Some (name_index (section_palette blocks) (blocks ! j)
        mod 2 ^ (64 - j * index_bits (length (section_palette blocks)) mod 64))"
proof -
  let ?names = "section_palette blocks"
  let ?bits = "index_bits (length ?names)" and ?idxs = "map (name_index ?names) blocks"
  note n = section_palette_length [OF assms(1)]
  have "?bits < 64"
    using index_bits_small [of "length ?names"] n by simp
  moreover have "idx < 2 ^ ?bits" if "idx \<in> set ?idxs" for idx
  proof -
    have "idx < length ?names"
      using that name_index_correct by auto
    then show ?thesis
      using length_le_index_bits [of "length ?names"] n by simp
  qed
  moreover have "section_data ?names blocks = index_words ?bits ?idxs"
    using assms(2) by (simp add: section_data_def index_words_def Let_def)
  ultimately show ?thesis
    using unpack_packed [of ?bits ?idxs j] assms index_bits_pos [of "length ?names"] by simp
qed

definition reader_registry :: "(string \<times> BlockState) list" where
  "reader_registry = map (\<lambda>(n, i). (n, block i)) STANDARD_BLOCKS"

lemma resolve_name:
  "snd (resolve_block (block_id_to_name i) new_reader) =
    (case map_of reader_registry (block_id_to_name i) of Some b \<Rightarrow> b | None \<Rightarrow> block 10000)"
proof -
  have "CHR ''['' \<notin> set (block_id_to_name i)"
    by (simp add: block_id_to_name_def)
  then have "base_name (block_id_to_name i) = block_id_to_name i"
    by (auto simp: base_name_def takeWhile_eq_all_conv)
  moreover have "ar_registry new_reader = reader_registry"
    by (simp add: new_reader_def STANDARD_BLOCKS_def reader_registry_def)
  moreover have "ar_next_unknown new_reader = 10000"
    by (simp add: new_reader_def)
  ultimately show ?thesis
    by (simp add: resolve_block_def Let_def split: option.split)
qed

section \<open>Properties\<close>

text \<open>A block of a saved section is read back by its name, provided its index does not straddle two
  words, which is so for every block when the index width divides 64: up to 2, 4, 16 or 256
  different blocks.\<close>

theorem anvil_section_roundtrip:
  assumes "length blocks = 4096" and "1 < length (section_palette blocks)" and "j < 4096"
    and "j * index_bits (length (section_palette blocks)) mod 64 + index_bits (length (section_palette blocks)) \<le> 64"
  shows "\<exists>v. unpack_index (section_data (section_palette blocks) blocks) (index_bits (length (section_palette blocks))) j = Some v
    \<and> v < length (section_palette blocks) \<and> section_palette blocks ! v = block_id_to_name (bs_id (blocks ! j))"
proof -
  let ?names = "section_palette blocks"
  let ?bits = "index_bits (length ?names)" and ?v = "name_index ?names (blocks ! j)"
  have v: "?v < length ?names" "?names ! ?v = block_id_to_name (bs_id (blocks ! j))"
    using name_index_correct [of "blocks ! j" blocks] assms(1,3) by auto
  have "?v < 2 ^ ?bits"
    using v(1) length_le_index_bits [of "length ?names"] section_palette_length [OF assms(1)] by simp
  also have "\<dots> \<le> 2 ^ (64 - j * ?bits mod 64)"
    using assms(4) by (intro power_increasing) auto
  finally show ?thesis
    using section_index_read [OF assms(1-3)] v by (intro exI [of _ ?v]) simp
qed

text \<open>A straddling index is cut: the writer drops the bits above the word and the reader does not
  look for them, so a block whose index has such a bit comes back as another one. With five to
  eight different blocks, block 21 of the section keeps one bit of its index.\<close>

theorem anvil_straddling_index_cut:
  assumes "length blocks = 4096" and "index_bits (length (section_palette blocks)) = 3" and "1 < length (section_palette blocks)"
  shows "unpack_index (section_data (section_palette blocks) blocks) 3 21
    = Some (name_index (section_palette blocks) (blocks ! 21) mod 2)"
  using section_index_read [OF assms(1,3), of 21] assms(2) by simp

text \<open>Which blocks survive a region file by name: exactly the twelve standard ones. Every other block
  comes back as stone or, for ice, snow and clay, under a made-up identifier.\<close>

theorem anvil_names_survive_iff:
  "snd (resolve_block (block_id_to_name i) new_reader) = block i \<longleftrightarrow> i \<in> snd ` set STANDARD_BLOCKS"
proof (cases "i \<in> snd ` set STANDARD_BLOCKS")
  case True
  then have "map_of reader_registry (block_id_to_name i) = Some (block i)"
    by (simp add: STANDARD_BLOCKS_def reader_registry_def)
      (elim disjE; simp add: block_id_to_name_def)
  then show ?thesis
    using True by (simp add: resolve_name)
next
  case False
  then have i: "i \<noteq> 1" "i \<noteq> 10000 \<or> block_id_to_name i = ''minecraft:stone''"
    by (auto simp: STANDARD_BLOCKS_def block_id_to_name_def)
  have "block_id_to_name i \<in> {''minecraft:stone'', ''minecraft:ice'', ''minecraft:snow'', ''minecraft:snow_block'', ''minecraft:clay''}"
    using False by (simp add: STANDARD_BLOCKS_def block_id_to_name_def)
  then consider "map_of reader_registry (block_id_to_name i) = Some (block 1)"
    | "map_of reader_registry (block_id_to_name i) = None" "block_id_to_name i \<noteq> ''minecraft:stone''"
    unfolding insert_iff empty_iff by (elim disjE) (simp_all add: reader_registry_def STANDARD_BLOCKS_def)
  then show ?thesis
    using False i by cases (auto simp: resolve_name block_def)
qed

section \<open>Witnesses\<close>

definition two_blocks :: "BlockState list" where
  "two_blocks = block 1 # replicate 4095 (block 0)"

definition five_blocks :: "BlockState list" where
  "five_blocks = [block 0, block 1, block 2, block 9] @ replicate 4092 (block 10)"

lemma two_blocks_palette: "section_palette two_blocks = [''minecraft:air'', ''minecraft:stone'']"
  by (simp add: section_palette_def two_blocks_def block_def block_id_to_name_def insert_commute [of _ "0 :: u32"])

lemma five_blocks_palette:
  "section_palette five_blocks
    = [''minecraft:air'', ''minecraft:stone'', ''minecraft:granite'', ''minecraft:grass_block'', ''minecraft:dirt'']"
  by (simp add: section_palette_def five_blocks_def block_def block_id_to_name_def)

lemma index_bits_2: "index_bits 2 = 1"
  using bit_length_le_iff [of 1 1] by (simp add: index_bits_def bit_length_def)

lemma index_bits_5: "index_bits 5 = 3"
  using bit_length_le_iff [of 4 3] bit_length_le_iff [of 4 2] by (simp add: index_bits_def bit_length_def)

theorem anvil_section_roundtrip_witness:
  "\<exists>v. unpack_index (section_data (section_palette two_blocks) two_blocks) 1 0 = Some v
    \<and> section_palette two_blocks ! v = ''minecraft:stone''"
  using anvil_section_roundtrip [of two_blocks 0]
  by (simp add: two_blocks_palette index_bits_2 [unfolded numeral_2_eq_2] numeral_2_eq_2)
    (auto simp: two_blocks_def block_def block_id_to_name_def index_bits_2 [unfolded numeral_2_eq_2])

theorem anvil_straddling_index_cut_witness:
  "block_id_to_name (bs_id (five_blocks ! 21)) = ''minecraft:dirt''
    \<and> unpack_index (section_data (section_palette five_blocks) five_blocks) 3 21 = Some 0
    \<and> section_palette five_blocks ! 0 = ''minecraft:air''"
proof -
  have len: "length five_blocks = 4096"
    by (simp add: five_blocks_def)
  have bits: "index_bits (length (section_palette five_blocks)) = 3"
    using index_bits_5 by (simp add: five_blocks_palette numeral_eq_Suc)
  have b: "five_blocks ! 21 = block 10"
    by (simp add: five_blocks_def nth_append)
  have "name_index (section_palette five_blocks) (block 10) = 4"
    by (simp add: five_blocks_palette name_index_def block_def block_id_to_name_def)
  then show ?thesis
    using anvil_straddling_index_cut [OF len bits] b
    by (simp add: five_blocks_palette block_def block_id_to_name_def)
qed

end
