(* ===== verification/PlayPackets.thy ===== *)
theory PlayPackets
  imports Codec
begin

unbundle bit_operations_syntax

text \<open>
  \<open>mc-protocol/src/packets/play.rs\<close>: the packets of the play state that the server sends. A packet
  is a record with the fields of its struct; \<open>encode_X\<close> is the pair of \<open>packet_id\<close> and
  \<open>encode_payload\<close> of its \<open>PacketEncoder\<close>, \<open>decode_X\<close> its \<open>decode_payload\<close>. A string is its UTF-8
  bytes and an \<open>f32\<close> or \<open>f64\<close> its bit pattern. The angle conversion of \<open>SpawnPlayer\<close> (floating
  point) and the NBT bytes of the default registry codec (the library \<open>fastnbt\<close>) are parameters.

  Shown: a block position survives \<open>write_position\<close> exactly within its 26, 26 and 12 bits; world
  events pack the same coordinates in another order; packets of different types share a number and
  can have the same bytes; a command with subcommands is sent without its name.
\<close>

section \<open>Fields\<close>

definition write_i32 :: "i32 \<Rightarrow> bytes" where
  "write_i32 v = be_bytes 4 v"

definition write_f32 :: "f32 \<Rightarrow> bytes" where
  "write_f32 v = be_bytes 4 v"

definition read_u8 :: "bytes \<Rightarrow> (CodecError, u8 \<times> nat) outcome" where
  "read_u8 data = (if data = [] then Err (Malformed ''u8 too short'') else Ok (data ! 0, 1))"

definition write_byte_array :: "bytes \<Rightarrow> bytes" where
  "write_byte_array data = write_varint_bytes (usize_as_i32 (length data)) @ data"

definition packed_position :: "i32 \<Rightarrow> i32 \<Rightarrow> i32 \<Rightarrow> i64" where
  "packed_position x y z =
     push_bit 38 (scast x AND 0x3FFFFFF) OR push_bit 12 (scast z AND 0x3FFFFFF) OR (scast y AND 0xFFF)"

definition write_position :: "i32 \<Rightarrow> i32 \<Rightarrow> i32 \<Rightarrow> bytes" where
  "write_position x y z = be_bytes 8 (packed_position x y z)"

definition write_light_arrays_776 :: "bytes list \<Rightarrow> bytes" where
  "write_light_arrays_776 arrays =
     write_varint_bytes (usize_as_i32 (length arrays)) @
     concat (map (\<lambda>arr. write_varint_bytes (usize_as_i32 (length arr)) @ arr) arrays)"

section \<open>Packets and their encoders\<close>

record JoinGame =
  jg_entity_id :: i32
  jg_is_hardcore :: bool
  jg_gamemode :: u8
  jg_previous_gamemode :: i8
  jg_dimension_names :: "bytes list"
  jg_registry_codec :: bytes
  jg_dimension_type :: bytes
  jg_dimension_name :: bytes
  jg_hashed_seed :: i64
  jg_max_players :: i32
  jg_view_distance :: i32
  jg_simulation_distance :: i32
  jg_reduced_debug_info :: bool
  jg_enable_respawn_screen :: bool
  jg_is_debug :: bool
  jg_is_flat :: bool
  jg_death_location :: "(bytes \<times> i64) option"
  jg_portal_cooldown :: i32

definition encode_JoinGame :: "bytes \<Rightarrow> JoinGame \<Rightarrow> i32 \<times> bytes" where
  "encode_JoinGame default_registry_codec p =
    (0x2B,
     write_i32 (jg_entity_id p) @
     write_bool (jg_is_hardcore p) @
     [jg_gamemode p] @
     [jg_previous_gamemode p] @
     write_varint_bytes (usize_as_i32 (length (jg_dimension_names p))) @
     concat (map (\<lambda>name. write_string name) (jg_dimension_names p)) @
     (let registry_bytes = (if (jg_registry_codec p) = [] then default_registry_codec else jg_registry_codec p)
      in registry_bytes @ write_string (jg_dimension_type p) @ write_string (jg_dimension_name p) @ write_i64 (jg_hashed_seed p) @ write_varint_bytes (jg_max_players p) @ write_varint_bytes (jg_view_distance p) @ write_varint_bytes (jg_simulation_distance p) @ write_bool (jg_reduced_debug_info p) @ write_bool (jg_enable_respawn_screen p) @ write_bool (jg_is_debug p) @ write_bool (jg_is_flat p) @ (case jg_death_location p of Some (dim, pos) \<Rightarrow> write_bool True @
         write_string dim @
         write_i64 pos
        | _ \<Rightarrow> write_bool False) @ write_varint_bytes (jg_portal_cooldown p)))"

record AcknowledgeBlockChange =
  abc_sequence :: i32

definition encode_AcknowledgeBlockChange :: "AcknowledgeBlockChange \<Rightarrow> i32 \<times> bytes" where
  "encode_AcknowledgeBlockChange p =
    (0x04,
     write_varint_bytes (abc_sequence p))"

record SpawnEntity =
  se_entity_id :: i32
  se_entity_uuid :: uuid
  se_entity_type :: i32
  se_x :: f64
  se_y :: f64
  se_z :: f64
  se_pitch :: u8
  se_yaw :: u8
  se_head_yaw :: u8
  se_data :: i32
  se_vel_x :: i16
  se_vel_y :: i16
  se_vel_z :: i16

definition encode_SpawnEntity :: "SpawnEntity \<Rightarrow> i32 \<times> bytes" where
  "encode_SpawnEntity p =
    (0x01,
     write_varint_bytes (se_entity_id p) @
     write_uuid (se_entity_uuid p) @
     write_varint_bytes (se_entity_type p) @
     write_double (se_x p) @
     write_double (se_y p) @
     write_double (se_z p) @
     [se_pitch p] @
     [se_yaw p] @
     [se_head_yaw p] @
     write_varint_bytes (se_data p) @
     be_bytes 2 (se_vel_x p) @
     be_bytes 2 (se_vel_y p) @
     be_bytes 2 (se_vel_z p))"

record SetEntityVelocity =
  sev_entity_id :: i32
  sev_vel_x :: i16
  sev_vel_y :: i16
  sev_vel_z :: i16

definition encode_SetEntityVelocity :: "SetEntityVelocity \<Rightarrow> i32 \<times> bytes" where
  "encode_SetEntityVelocity p =
    (0x5E,
     write_varint_bytes (sev_entity_id p) @
     be_bytes 2 (sev_vel_x p) @
     be_bytes 2 (sev_vel_y p) @
     be_bytes 2 (sev_vel_z p))"

record UpdateSectionBlocks =
  usb_chunk_x :: i32
  usb_chunk_z :: i32
  usb_section_y :: i32
  usb_blocks :: "(i16 \<times> i32) list"

definition encode_UpdateSectionBlocks :: "UpdateSectionBlocks \<Rightarrow> i32 \<times> bytes" where
  "encode_UpdateSectionBlocks p =
    (0x47,
     (let section_pos = (push_bit 42 ((scast (usb_chunk_x p) :: i64) AND 0x3FFFFF)) OR (push_bit 20 ((scast (usb_chunk_z p) :: i64) AND 0x3FFFFF)) OR ((scast (usb_section_y p) :: i64) AND 0xFFFFF)
      in be_bytes 8 section_pos @ write_bool False @ write_varint_bytes (usize_as_i32 (length (usb_blocks p))) @ concat (map (\<lambda>(idx, state_id). write_varint_bytes (scast idx :: i32) @
       write_varint_bytes state_id) (usb_blocks p))))"

record ServerLink =
  seli_label :: bytes
  seli_url :: bytes

record ServerLinks =
  sl_links :: "ServerLink list"

definition encode_ServerLinks :: "ServerLinks \<Rightarrow> i32 \<times> bytes" where
  "encode_ServerLinks p =
    (0x8A,
     write_varint_bytes 0)"

record SetDefaultSpawnPosition =
  sdsp_x :: i32
  sdsp_y :: i32
  sdsp_z :: i32
  sdsp_angle :: f32

definition encode_SetDefaultSpawnPosition :: "SetDefaultSpawnPosition \<Rightarrow> i32 \<times> bytes" where
  "encode_SetDefaultSpawnPosition p =
    (0x5A,
     write_position (sdsp_x p) (sdsp_y p) (sdsp_z p) @
     write_f32 (sdsp_angle p))"

record PlayerPosition =
  pp_teleport_id :: i32
  pp_x :: f64
  pp_y :: f64
  pp_z :: f64
  pp_dx :: f64
  pp_dy :: f64
  pp_dz :: f64
  pp_yaw :: f32
  pp_pitch :: f32
  pp_flags :: i32

definition encode_PlayerPosition :: "PlayerPosition \<Rightarrow> i32 \<times> bytes" where
  "encode_PlayerPosition p =
    (0x48,
     write_varint_bytes (pp_teleport_id p) @
     write_double (pp_x p) @
     write_double (pp_y p) @
     write_double (pp_z p) @
     write_double (pp_dx p) @
     write_double (pp_dy p) @
     write_double (pp_dz p) @
     write_f32 (pp_yaw p) @
     write_f32 (pp_pitch p) @
     write_i32 (pp_flags p))"

record KeepAlive =
  ka_id :: i64

definition encode_KeepAlive :: "KeepAlive \<Rightarrow> i32 \<times> bytes" where
  "encode_KeepAlive p =
    (0x26,
     write_i64 (ka_id p))"

record SystemChatMessage =
  scm_content :: bytes
  scm_overlay :: bool

definition encode_SystemChatMessage :: "SystemChatMessage \<Rightarrow> i32 \<times> bytes" where
  "encode_SystemChatMessage p =
    (0x72,
     write_string (scm_content p) @
     write_bool (scm_overlay p))"

record PlayDisconnect =
  pd_reason :: bytes

definition encode_PlayDisconnect :: "PlayDisconnect \<Rightarrow> i32 \<times> bytes" where
  "encode_PlayDisconnect p =
    (0x1C,
     write_string (pd_reason p))"

record WorldEvent =
  we_event_id :: i32
  we_position :: "(i32 \<times> i32 \<times> i32)"
  we_data :: i32
  we_disable_relative_volume :: bool

definition encode_WorldEvent :: "WorldEvent \<Rightarrow> i32 \<times> bytes" where
  "encode_WorldEvent p =
    (0x24,
     write_varint_bytes (we_event_id p) @
     (let pos = (push_bit 38 ((scast (fst (we_position p)) :: i64) AND 0x3FFFFFF)) OR (push_bit 26 ((scast (fst (snd (we_position p))) :: i64) AND 0xFFF)) OR ((scast (snd (snd (we_position p))) :: i64) AND 0x3FFFFFF)
      in be_bytes 8 pos @ write_varint_bytes (we_data p) @ [of_bool (we_disable_relative_volume p)]))"

record ClientInformation =
  clin_locale :: bytes
  clin_view_distance :: u8
  clin_chat_mode :: i32
  clin_chat_colors :: bool
  clin_displayed_skin_parts :: u8
  clin_main_hand :: i32
  clin_enable_text_filtering :: bool
  clin_allow_server_listings :: bool

definition encode_ClientInformation :: "ClientInformation \<Rightarrow> i32 \<times> bytes" where
  "encode_ClientInformation p =
    (0x0C,
     [])"

record BlockDestroyStage =
  bds_entity_id :: i32
  bds_location :: "(i32 \<times> i32 \<times> i32)"
  bds_destroy_stage :: u8

definition encode_BlockDestroyStage :: "BlockDestroyStage \<Rightarrow> i32 \<times> bytes" where
  "encode_BlockDestroyStage p =
    (0x05,
     write_varint_bytes (bds_entity_id p) @
     write_position (fst (bds_location p)) (fst (snd (bds_location p))) (snd (snd (bds_location p))) @
     [bds_destroy_stage p])"

record ChunkSectionData =
  csd_block_count :: i16
  csd_blocks :: bytes
  csd_biomes :: bytes

datatype ChunkBatchStart = ChunkBatchStart

definition encode_ChunkBatchStart :: "ChunkBatchStart \<Rightarrow> i32 \<times> bytes" where
  "encode_ChunkBatchStart p =
    (0x0C,
     [])"

record ChunkBatchFinished =
  cbf_batch_size :: i32

definition encode_ChunkBatchFinished :: "ChunkBatchFinished \<Rightarrow> i32 \<times> bytes" where
  "encode_ChunkBatchFinished p =
    (0x0B,
     write_varint_bytes (cbf_batch_size p))"

record ChunkBiomeEntry =
  cbe_chunk_x :: i32
  cbe_chunk_z :: i32
  cbe_biome_data :: bytes

record ChunksBiomes =
  cb_chunk_biomes :: "ChunkBiomeEntry list"

definition encode_ChunksBiomes :: "ChunksBiomes \<Rightarrow> i32 \<times> bytes" where
  "encode_ChunksBiomes p =
    (0x0D,
     write_varint_bytes (usize_as_i32 (length (cb_chunk_biomes p))) @
     concat (map (\<lambda>entry. write_i32 (cbe_chunk_x entry) @
       write_i32 (cbe_chunk_z entry) @
       write_varint_bytes (usize_as_i32 (length (cbe_biome_data entry))) @
       cbe_biome_data entry) (cb_chunk_biomes p)))"

record SetChunkCacheCenter =
  sccc_chunk_x :: i32
  sccc_chunk_z :: i32

definition encode_SetChunkCacheCenter :: "SetChunkCacheCenter \<Rightarrow> i32 \<times> bytes" where
  "encode_SetChunkCacheCenter p =
    (0x5F,
     write_varint_bytes (sccc_chunk_x p) @
     write_varint_bytes (sccc_chunk_z p))"

record SetChunkCacheRadius =
  sccr_radius :: i32

definition encode_SetChunkCacheRadius :: "SetChunkCacheRadius \<Rightarrow> i32 \<times> bytes" where
  "encode_SetChunkCacheRadius p =
    (0x60,
     write_varint_bytes (sccr_radius p))"

record ForgetLevelChunk =
  flc_chunk_x :: i32
  flc_chunk_z :: i32

definition encode_ForgetLevelChunk :: "ForgetLevelChunk \<Rightarrow> i32 \<times> bytes" where
  "encode_ForgetLevelChunk p =
    (0x25,
     write_i32 (flc_chunk_x p) @
     write_i32 (flc_chunk_z p))"

record ChunkData =
  chda_chunk_x :: i32
  chda_chunk_z :: i32
  chda_heightmaps :: bytes
  chda_sections :: "ChunkSectionData list"
  chda_block_entities :: bytes
  chda_sky_light_mask :: "i64 list"
  chda_block_light_mask :: "i64 list"
  chda_empty_sky_light_mask :: "i64 list"
  chda_empty_block_light_mask :: "i64 list"
  chda_sky_light_arrays :: "bytes list"
  chda_block_light_arrays :: "bytes list"

definition encode_ChunkData :: "ChunkData \<Rightarrow> i32 \<times> bytes" where
  "encode_ChunkData p =
    (0x2D,
     write_i32 (chda_chunk_x p) @ write_i32 (chda_chunk_z p) @ write_varint_bytes 0 @
     (let section_buf =
        write_varint_bytes (usize_as_i32 (length (chda_sections p))) @
        concat (map (\<lambda>section. be_bytes 2 (csd_block_count section) @
          write_varint_bytes (usize_as_i32 (length (csd_blocks section))) @
          csd_blocks section @
          write_varint_bytes (usize_as_i32 (length (csd_biomes section))) @
          csd_biomes section) (chda_sections p))
      in write_varint_bytes (usize_as_i32 (length section_buf)) @ section_buf) @
     write_varint_bytes (usize_as_i32 (length (chda_block_entities p))) @
     (if chda_block_entities p \<noteq> [] then chda_block_entities p else []) @
     write_light_arrays_776 (chda_sky_light_arrays p) @
     write_light_arrays_776 (chda_block_light_arrays p))"

record TeleportEntity =
  te_entity_id :: i32
  te_x :: f64
  te_y :: f64
  te_z :: f64
  te_yaw :: f32
  te_pitch :: f32
  te_on_ground :: bool

definition encode_TeleportEntity :: "TeleportEntity \<Rightarrow> i32 \<times> bytes" where
  "encode_TeleportEntity p =
    (0x76,
     write_varint_bytes (te_entity_id p) @
     write_double (te_x p) @
     write_double (te_y p) @
     write_double (te_z p) @
     be_bytes 4 (te_yaw p) @
     be_bytes 4 (te_pitch p) @
     write_bool (te_on_ground p))"

record SpawnPlayer =
  sp_entity_id :: i32
  sp_player_uuid :: uuid
  sp_x :: f64
  sp_y :: f64
  sp_z :: f64
  sp_yaw :: f32
  sp_pitch :: f32

definition encode_SpawnPlayer :: "(f32 \<Rightarrow> u8) \<Rightarrow> SpawnPlayer \<Rightarrow> i32 \<times> bytes" where
  "encode_SpawnPlayer angle_to_byte p =
    (0x03,
     write_varint_bytes (sp_entity_id p) @
     write_uuid (sp_player_uuid p) @
     write_double (sp_x p) @
     write_double (sp_y p) @
     write_double (sp_z p) @
     [angle_to_byte (sp_yaw p)] @
     [angle_to_byte (sp_pitch p)] @
     [angle_to_byte (sp_yaw p)] @
     write_varint_bytes 0)"

record RemoveEntities =
  re_entity_ids :: "i32 list"

definition encode_RemoveEntities :: "RemoveEntities \<Rightarrow> i32 \<times> bytes" where
  "encode_RemoveEntities p =
    (0x46,
     write_varint_bytes (usize_as_i32 (length (re_entity_ids p))) @
     concat (map (\<lambda>ident. write_varint_bytes ident) (re_entity_ids p)))"

record PlayerInfoEntry =
  pie_uuid :: uuid
  pie_username :: bytes
  pie_gamemode :: i32
  pie_ping :: i32
  pie_listed :: bool

record PlayerInfoUpdate =
  piu_actions :: i32
  piu_entries :: "PlayerInfoEntry list"

definition encode_PlayerInfoUpdate :: "PlayerInfoUpdate \<Rightarrow> i32 \<times> bytes" where
  "encode_PlayerInfoUpdate p =
    (0x3F,
     write_varint_bytes (piu_actions p) @
     write_varint_bytes (usize_as_i32 (length (piu_entries p))) @
     concat (map (\<lambda>entry. write_uuid (pie_uuid entry) @
       (if ((piu_actions p) AND 0x01) \<noteq> 0
          then write_string (pie_username entry) @
           write_varint_bytes 0
          else []) @
       (if ((piu_actions p) AND 0x02) \<noteq> 0
          then write_varint_bytes (pie_gamemode entry)
          else []) @
       (if ((piu_actions p) AND 0x04) \<noteq> 0
          then write_bool (pie_listed entry)
          else []) @
       (if ((piu_actions p) AND 0x08) \<noteq> 0
          then write_varint_bytes (pie_ping entry)
          else [])) (piu_entries p)))"

record PlayerInfoRemove =
  pir_uuids :: "uuid list"

definition encode_PlayerInfoRemove :: "PlayerInfoRemove \<Rightarrow> i32 \<times> bytes" where
  "encode_PlayerInfoRemove p =
    (0x42,
     write_varint_bytes (usize_as_i32 (length (pir_uuids p))) @
     concat (map (\<lambda>uuid. write_uuid uuid) (pir_uuids p)))"

record Transfer =
  tr_host :: bytes
  tr_port :: i32

definition encode_Transfer :: "Transfer \<Rightarrow> i32 \<times> bytes" where
  "encode_Transfer p =
    (0x73,
     write_string (tr_host p) @
     write_varint_bytes (tr_port p))"

record TeleportConfirm =
  tc_teleport_id :: i32

definition encode_TeleportConfirm :: "TeleportConfirm \<Rightarrow> i32 \<times> bytes" where
  "encode_TeleportConfirm p =
    (0x00,
     write_varint_bytes (tc_teleport_id p))"

record ChatCommand =
  cc_command :: bytes

definition encode_ChatCommand :: "ChatCommand \<Rightarrow> i32 \<times> bytes" where
  "encode_ChatCommand p =
    (0x05,
     write_string (cc_command p))"

record GameEvent =
  ge_event :: u8
  ge_value :: f32

definition encode_GameEvent :: "GameEvent \<Rightarrow> i32 \<times> bytes" where
  "encode_GameEvent p =
    (0x22,
     [ge_event p] @
     write_f32 (ge_value p))"

record ClientCommand =
  clco_action :: i32

definition encode_ClientCommand :: "ClientCommand \<Rightarrow> i32 \<times> bytes" where
  "encode_ClientCommand p =
    (0x0A,
     write_varint_bytes (clco_action p))"

record PlayerCommand =
  pc_entity_id :: i32
  pc_action :: i32
  pc_data :: i32

definition encode_PlayerCommand :: "PlayerCommand \<Rightarrow> i32 \<times> bytes" where
  "encode_PlayerCommand p =
    (0x1F,
     write_varint_bytes (pc_entity_id p) @
     write_varint_bytes (pc_action p) @
     write_varint_bytes (pc_data p))"

record PlayerInput =
  pi_input_flags :: u32
  pi_move_vector :: "(f32 \<times> f32)"
  pi_is_sprint :: bool
  pi_is_sneak :: bool

definition encode_PlayerInput :: "PlayerInput \<Rightarrow> i32 \<times> bytes" where
  "encode_PlayerInput p =
    (0x29,
     [])"

record SetExperience =
  seex_experience_bar :: f32
  seex_level :: i32
  seex_total_experience :: i32

definition encode_SetExperience :: "SetExperience \<Rightarrow> i32 \<times> bytes" where
  "encode_SetExperience p =
    (0x5F,
     write_f32 (seex_experience_bar p) @
     write_varint_bytes (seex_level p) @
     write_varint_bytes (seex_total_experience p))"

record DamageEvent =
  de_entity_id :: i32
  de_source_type_id :: i32
  de_source_cause_id :: i32
  de_source_direct_id :: i32
  de_source_pos_x :: "f64 option"
  de_source_pos_y :: "f64 option"
  de_source_pos_z :: "f64 option"

definition encode_DamageEvent :: "DamageEvent \<Rightarrow> i32 \<times> bytes" where
  "encode_DamageEvent p =
    (0x1A,
     write_varint_bytes (de_entity_id p) @
     write_varint_bytes (de_source_type_id p) @
     write_varint_bytes (de_source_cause_id p) @
     write_varint_bytes (de_source_direct_id p) @
     (case (de_source_pos_x p, de_source_pos_y p, de_source_pos_z p) of (Some x, Some y, Some z) \<Rightarrow> write_bool True @
         write_double x @
         write_double y @
         write_double z
        | _ \<Rightarrow> write_bool False))"

record SoundEffect =
  soef_sound_id :: i32
  soef_category :: i32
  soef_x :: i32
  soef_y :: i32
  soef_z :: i32
  soef_volume :: f32
  soef_pitch :: f32
  soef_seed :: i64

definition encode_SoundEffect :: "SoundEffect \<Rightarrow> i32 \<times> bytes" where
  "encode_SoundEffect p =
    (0x68,
     write_varint_bytes (soef_sound_id p) @
     write_varint_bytes (soef_category p) @
     write_i32 (soef_x p) @
     write_i32 (soef_y p) @
     write_i32 (soef_z p) @
     write_f32 (soef_volume p) @
     write_f32 (soef_pitch p) @
     write_i64 (soef_seed p))"

record StopSound =
  ss_flags :: u8
  ss_category :: "i32 option"
  ss_sound_name :: "bytes option"

definition encode_StopSound :: "StopSound \<Rightarrow> i32 \<times> bytes" where
  "encode_StopSound p =
    (0x6C,
     [ss_flags p] @
     (if ((ss_flags p) AND 0x01) \<noteq> 0
        then (case ss_category p of Some cat \<Rightarrow> write_varint_bytes cat
        | _ \<Rightarrow> [])
        else []) @
     (if ((ss_flags p) AND 0x02) \<noteq> 0
        then (case ss_sound_name p of Some name \<Rightarrow> write_string name
        | _ \<Rightarrow> [])
        else []))"

record Particle =
  pa_particle_id :: i32
  pa_long_distance :: bool
  pa_x :: f64
  pa_y :: f64
  pa_z :: f64
  pa_offset_x :: f32
  pa_offset_y :: f32
  pa_offset_z :: f32
  pa_max_speed :: f32
  pa_count :: i32

definition encode_Particle :: "Particle \<Rightarrow> i32 \<times> bytes" where
  "encode_Particle p =
    (0x28,
     write_varint_bytes (pa_particle_id p) @
     write_bool (pa_long_distance p) @
     write_double (pa_x p) @
     write_double (pa_y p) @
     write_double (pa_z p) @
     write_f32 (pa_offset_x p) @
     write_f32 (pa_offset_y p) @
     write_f32 (pa_offset_z p) @
     write_f32 (pa_max_speed p) @
     write_varint_bytes (pa_count p))"

record AttributeModifier =
  am_uuid :: uuid
  am_name :: bytes
  am_amount :: f64
  am_operation :: i32

record Attribute =
  att_key :: bytes
  att_value :: f64
  att_modifiers :: "AttributeModifier list"

record UpdateAttributes =
  ua_entity_id :: i32
  ua_attributes :: "Attribute list"

definition encode_UpdateAttributes :: "UpdateAttributes \<Rightarrow> i32 \<times> bytes" where
  "encode_UpdateAttributes p =
    (0x7D,
     write_varint_bytes (ua_entity_id p) @
     write_varint_bytes (usize_as_i32 (length (ua_attributes p))) @
     concat (map (\<lambda>attr. write_string (att_key attr) @
       write_double (att_value attr) @
       write_varint_bytes (usize_as_i32 (length (att_modifiers attr))) @
       concat (map (\<lambda>modif. write_uuid (am_uuid modif) @
         write_double (am_amount modif) @
         write_varint_bytes (am_operation modif) @
         write_string (am_name modif)) (att_modifiers attr))) (ua_attributes p)))"

record SetTitles =
  st_action :: i32
  st_title_text :: "bytes option"
  st_fade_in :: "i32 option"
  st_stay :: "i32 option"
  st_fade_out :: "i32 option"

definition encode_SetTitles :: "SetTitles \<Rightarrow> i32 \<times> bytes" where
  "encode_SetTitles p =
    (0x6B,
     write_varint_bytes (st_action p) @
     (if st_action p \<in> {0, 1, 2} then
        (case st_title_text p of Some text \<Rightarrow> write_string text | None \<Rightarrow> write_string [])
      else if st_action p = 3 then
        write_i32 (case st_fade_in p of Some v \<Rightarrow> v | None \<Rightarrow> 10) @
        write_i32 (case st_stay p of Some v \<Rightarrow> v | None \<Rightarrow> 70) @
        write_i32 (case st_fade_out p of Some v \<Rightarrow> v | None \<Rightarrow> 20)
      else []))"

record BossBar =
  bb_uuid :: uuid
  bb_action :: i32
  bb_title :: "bytes option"
  bb_health :: "f32 option"
  bb_color :: "i32 option"
  bb_division :: "i32 option"
  bb_flags :: "u8 option"

definition encode_BossBar :: "BossBar \<Rightarrow> i32 \<times> bytes" where
  "encode_BossBar p =
    (0x0B,
     (let title = bb_title p;
          health = (case bb_health p of Some v \<Rightarrow> v | None \<Rightarrow> 0x3F800000);
          color = (case bb_color p of Some v \<Rightarrow> v | None \<Rightarrow> 2);
          division = (case bb_division p of Some v \<Rightarrow> v | None \<Rightarrow> 0);
          flags = (case bb_flags p of Some v \<Rightarrow> v | None \<Rightarrow> 0)
      in write_uuid (bb_uuid p) @ write_varint_bytes (bb_action p) @
         (if bb_action p = 0 then
            (case title of Some title \<Rightarrow> write_string title | None \<Rightarrow> write_string []) @
            write_f32 health @ write_varint_bytes color @ write_varint_bytes division @ [flags]
          else if bb_action p = 1 then []
          else if bb_action p = 2 then write_f32 health
          else if bb_action p = 3 then
            (case title of Some title \<Rightarrow> write_string title | None \<Rightarrow> [])
          else if bb_action p = 4 then write_varint_bytes color @ write_varint_bytes division
          else if bb_action p = 5 then [flags]
          else [])))"

record OpenScreen =
  os_window_id :: i32
  os_window_type :: i32
  os_title :: bytes

definition encode_OpenScreen :: "OpenScreen \<Rightarrow> i32 \<times> bytes" where
  "encode_OpenScreen p =
    (0x32,
     write_varint_bytes (os_window_id p) @
     write_varint_bytes (os_window_type p) @
     write_string (os_title p))"

record ContainerSetData =
  coseda_window_id :: u8
  coseda_property :: i16
  coseda_value :: i16

definition encode_ContainerSetData :: "ContainerSetData \<Rightarrow> i32 \<times> bytes" where
  "encode_ContainerSetData p =
    (0x14,
     [coseda_window_id p] @
     be_bytes 2 (coseda_property p) @
     be_bytes 2 (coseda_value p))"

record SlotData =
  slda_item_id :: i32
  slda_count :: u8
  slda_nbt :: "bytes option"

record TradeOffer =
  trof_input_item :: SlotData
  trof_output_item :: SlotData
  trof_second_input :: "SlotData option"
  trof_trade_disabled :: bool
  trof_num_trade_uses :: i32
  trof_max_trade_uses :: i32
  trof_xp :: i32
  trof_special_price :: i32
  trof_price_multiplier :: f32
  trof_demand :: i32

record MerchantOffers =
  mo_window_id :: i32
  mo_trades :: "TradeOffer list"

definition encode_MerchantOffers :: "MerchantOffers \<Rightarrow> i32 \<times> bytes" where
  "encode_MerchantOffers p =
    (0x3A,
     write_varint_bytes (mo_window_id p) @
     write_varint_bytes (usize_as_i32 (length (mo_trades p))) @
     concat (map (\<lambda>trade. [1] @
       write_varint_bytes (slda_item_id (trof_input_item trade)) @
       [slda_count (trof_input_item trade)] @
       (case slda_nbt (trof_input_item trade) of Some nbt \<Rightarrow> nbt
          | _ \<Rightarrow> write_varint_bytes 0) @
       [1] @
       write_varint_bytes (slda_item_id (trof_output_item trade)) @
       [slda_count (trof_output_item trade)] @
       (case slda_nbt (trof_output_item trade) of Some nbt \<Rightarrow> nbt
          | _ \<Rightarrow> write_varint_bytes 0) @
       (case trof_second_input trade of Some second \<Rightarrow> [1] @
           write_varint_bytes (slda_item_id second) @
           [slda_count second] @
           (case slda_nbt second of Some nbt \<Rightarrow> nbt
              | _ \<Rightarrow> write_varint_bytes 0)
          | _ \<Rightarrow> [0]) @
       [of_bool (trof_trade_disabled trade)] @
       write_varint_bytes (trof_num_trade_uses trade) @
       write_varint_bytes (trof_max_trade_uses trade) @
       write_varint_bytes (trof_xp trade) @
       write_varint_bytes (trof_special_price trade) @
       write_f32 (trof_price_multiplier trade) @
       write_varint_bytes (trof_demand trade)) (mo_trades p)))"

record SetContainerSlot =
  scs_window_id :: u8
  scs_state_id :: i32
  scs_slot :: i16
  scs_item :: "SlotData option"

definition encode_SetContainerSlot :: "SetContainerSlot \<Rightarrow> i32 \<times> bytes" where
  "encode_SetContainerSlot p =
    (0x15,
     [scs_window_id p] @
     write_varint_bytes (scs_state_id p) @
     be_bytes 2 (scs_slot p) @
     (case scs_item p of Some item \<Rightarrow> [1] @
         write_varint_bytes (slda_item_id item) @
         [slda_count item] @
         (case slda_nbt item of Some nbt \<Rightarrow> nbt
            | _ \<Rightarrow> write_varint_bytes 0)
        | _ \<Rightarrow> [0]))"

record ContainerClick =
  cocl_window_id :: u8
  cocl_state_id :: i32
  cocl_slot :: i16
  cocl_button :: u8
  cocl_mode :: i32

record ContainerClose =
  conclo_window_id :: u8

record NetworkRecipe =
  nr_recipe_type :: bytes
  nr_recipe_id :: bytes
  nr_data :: bytes

record UpdateRecipes =
  ur_recipes :: "NetworkRecipe list"

definition encode_UpdateRecipes :: "UpdateRecipes \<Rightarrow> i32 \<times> bytes" where
  "encode_UpdateRecipes p =
    (0x7B,
     write_varint_bytes (usize_as_i32 (length (ur_recipes p))) @
     concat (map (\<lambda>recipe. write_string (nr_recipe_type recipe) @
       write_string (nr_recipe_id recipe) @
       nr_data recipe) (ur_recipes p)))"

record SuggestionMatch =
  sm_text :: bytes
  sm_tooltip :: "bytes option"

record CommandSuggestionsResponse =
  csr_transaction_id :: i32
  csr_start :: i32
  csr_length :: i32
  csr_matches :: "SuggestionMatch list"

definition encode_CommandSuggestionsResponse :: "CommandSuggestionsResponse \<Rightarrow> i32 \<times> bytes" where
  "encode_CommandSuggestionsResponse p =
    (0x0F,
     write_varint_bytes (csr_transaction_id p) @
     write_varint_bytes (csr_start p) @
     write_varint_bytes (csr_length p) @
     write_varint_bytes (usize_as_i32 (length (csr_matches p))) @
     concat (map (\<lambda>m. write_string (sm_text m) @
       (case sm_tooltip m of Some tip \<Rightarrow> [1] @
           write_string tip
          | _ \<Rightarrow> [0])) (csr_matches p)))"

record EntityEffect =
  ee_entity_id :: i32
  ee_effect_id :: i32
  ee_amplifier :: u8
  ee_duration :: i32
  ee_flags :: u8

definition encode_EntityEffect :: "EntityEffect \<Rightarrow> i32 \<times> bytes" where
  "encode_EntityEffect p =
    (0x78,
     write_varint_bytes (ee_entity_id p) @
     write_varint_bytes (ee_effect_id p) @
     [ee_amplifier p] @
     write_varint_bytes (ee_duration p) @
     [ee_flags p])"

record RemoveEntityEffect =
  ree_entity_id :: i32
  ree_effect_id :: i32

definition encode_RemoveEntityEffect :: "RemoveEntityEffect \<Rightarrow> i32 \<times> bytes" where
  "encode_RemoveEntityEffect p =
    (0x79,
     write_varint_bytes (ree_entity_id p) @
     write_varint_bytes (ree_effect_id p))"

record Explosion =
  ex_x :: f64
  ex_y :: f64
  ex_z :: f64
  ex_radius :: f32
  ex_player_motion_x :: f32
  ex_player_motion_y :: f32
  ex_player_motion_z :: f32

definition encode_Explosion :: "Explosion \<Rightarrow> i32 \<times> bytes" where
  "encode_Explosion p =
    (0x1D,
     write_double (ex_x p) @
     write_double (ex_y p) @
     write_double (ex_z p) @
     write_f32 (ex_radius p) @
     write_varint_bytes 0 @
     write_f32 (ex_player_motion_x p) @
     write_f32 (ex_player_motion_y p) @
     write_f32 (ex_player_motion_z p))"

record MoveEntityRot =
  mer_entity_id :: i32
  mer_yaw :: u8
  mer_pitch :: u8
  mer_on_ground :: bool

definition encode_MoveEntityRot :: "MoveEntityRot \<Rightarrow> i32 \<times> bytes" where
  "encode_MoveEntityRot p =
    (0x2F,
     write_varint_bytes (mer_entity_id p) @
     [mer_yaw p] @
     [mer_pitch p] @
     [of_bool (mer_on_ground p)])"

record MoveEntityPosRot =
  mepr_entity_id :: i32
  mepr_delta_x :: i16
  mepr_delta_y :: i16
  mepr_delta_z :: i16
  mepr_yaw :: u8
  mepr_pitch :: u8
  mepr_on_ground :: bool

definition encode_MoveEntityPosRot :: "MoveEntityPosRot \<Rightarrow> i32 \<times> bytes" where
  "encode_MoveEntityPosRot p =
    (0x30,
     write_varint_bytes (mepr_entity_id p) @
     be_bytes 2 (mepr_delta_x p) @
     be_bytes 2 (mepr_delta_y p) @
     be_bytes 2 (mepr_delta_z p) @
     [mepr_yaw p] @
     [mepr_pitch p] @
     [of_bool (mepr_on_ground p)])"

record CommandNode =
  cn_flags :: u8
  cn_children :: "i32 list"
  cn_redirect_node :: "i32 option"
  cn_name :: bytes
  cn_parser_id :: "bytes option"
  cn_suggestions_type :: "bytes option"

record DeclareCommands =
  dc_nodes :: "CommandNode list"
  dc_root_index :: i32

definition encode_DeclareCommands :: "DeclareCommands \<Rightarrow> i32 \<times> bytes" where
  "encode_DeclareCommands p =
    (0x10,
     write_varint_bytes (usize_as_i32 (length (dc_nodes p))) @
     concat (map (\<lambda>node. [cn_flags node] @
       write_varint_bytes (usize_as_i32 (length (cn_children node))) @
       concat (map (\<lambda>child. write_varint_bytes child) (cn_children node)) @
       (if ((cn_flags node) AND 0x02) \<noteq> 0
          then write_varint_bytes (case cn_redirect_node node of Some v \<Rightarrow> v | None \<Rightarrow> 0)
          else []) @
       (if (cn_flags node) = 0
          then []
          else write_string (cn_name node)) @
       (if (((cn_flags node) AND 0x01) = 0) \<and> (((cn_flags node) AND 0x04) \<noteq> 0)
          then write_string (case cn_parser_id node of Some v \<Rightarrow> v | None \<Rightarrow> (map of_char ''brigadier:string''))
          else []) @
       (if ((cn_flags node) AND 0x04) \<noteq> 0
          then write_string (case cn_suggestions_type node of Some v \<Rightarrow> v | None \<Rightarrow> (map of_char ''ask_server''))
          else [])) (dc_nodes p)) @
     write_varint_bytes (dc_root_index p))"

record SetHealth =
  sh_health :: f32
  sh_food :: i32
  sh_saturation :: f32

definition encode_SetHealth :: "SetHealth \<Rightarrow> i32 \<times> bytes" where
  "encode_SetHealth p =
    (0x61,
     write_f32 (sh_health p) @
     write_varint_bytes (sh_food p) @
     write_f32 (sh_saturation p))"

record SetEntityMetadata =
  sem_entity_id :: i32
  sem_metadata :: bytes

definition encode_SetEntityMetadata :: "SetEntityMetadata \<Rightarrow> i32 \<times> bytes" where
  "encode_SetEntityMetadata p =
    (0x5C,
     write_varint_bytes (sem_entity_id p) @
     sem_metadata p)"

record Respawn =
  res_dimension_type :: bytes
  res_dimension_name :: bytes
  res_hashed_seed :: i64
  res_gamemode :: u8
  res_previous_gamemode :: i8
  res_is_debug :: bool
  res_is_flat :: bool
  res_death_location :: "(bytes \<times> i64) option"
  res_portal_cooldown :: i32
  res_data_kept :: u8

definition encode_Respawn :: "Respawn \<Rightarrow> i32 \<times> bytes" where
  "encode_Respawn p =
    (0x4B,
     write_string (res_dimension_type p) @
     write_string (res_dimension_name p) @
     write_i64 (res_hashed_seed p) @
     [res_gamemode p] @
     [res_previous_gamemode p] @
     write_bool (res_is_debug p) @
     write_bool (res_is_flat p) @
     (case res_death_location p of Some (dim, pos) \<Rightarrow> write_bool True @
         write_string dim @
         write_i64 pos
        | _ \<Rightarrow> write_bool False) @
     write_varint_bytes (res_portal_cooldown p) @
     [res_data_kept p])"

record BlockUpdate =
  bu_x :: i32
  bu_y :: i32
  bu_z :: i32
  bu_block_id :: i32

definition encode_BlockUpdate :: "BlockUpdate \<Rightarrow> i32 \<times> bytes" where
  "encode_BlockUpdate p =
    (0x08,
     write_position (bu_x p) (bu_y p) (bu_z p) @
     write_varint_bytes (bu_block_id p))"

record BlockEntityData =
  bed_x :: i32
  bed_y :: i32
  bed_z :: i32
  bed_block_entity_type :: i32
  bed_nbt_data :: bytes

definition encode_BlockEntityData :: "BlockEntityData \<Rightarrow> i32 \<times> bytes" where
  "encode_BlockEntityData p =
    (0x07,
     write_position (bed_x p) (bed_y p) (bed_z p) @
     write_varint_bytes (bed_block_entity_type p) @
     bed_nbt_data p)"

record PlayerAbilities =
  plab_flags :: u8
  plab_flying_speed :: f32
  plab_walking_speed :: f32

definition encode_PlayerAbilities :: "PlayerAbilities \<Rightarrow> i32 \<times> bytes" where
  "encode_PlayerAbilities p =
    (0x39,
     [plab_flags p] @
     write_f32 (plab_flying_speed p) @
     write_f32 (plab_walking_speed p))"

record SetHeldItemS2C =
  shisc_slot :: u8

definition encode_SetHeldItemS2C :: "SetHeldItemS2C \<Rightarrow> i32 \<times> bytes" where
  "encode_SetHeldItemS2C p =
    (0x62,
     [shisc_slot p])"

record ContainerSetContent =
  csc_window_id :: u8
  csc_state_id :: i32
  csc_items :: "(SlotData option) list"
  csc_carried_item :: "SlotData option"

definition encode_ContainerSetContent :: "ContainerSetContent \<Rightarrow> i32 \<times> bytes" where
  "encode_ContainerSetContent p =
    (0x12,
     [csc_window_id p] @
     write_varint_bytes (csc_state_id p) @
     write_varint_bytes (usize_as_i32 (length (csc_items p))) @
     concat (map (\<lambda>item. (case item of Some slot \<Rightarrow> [1] @
           write_varint_bytes (slda_item_id slot) @
           [slda_count slot] @
           (case slda_nbt slot of Some nbt \<Rightarrow> nbt
              | _ \<Rightarrow> write_varint_bytes 0)
          | _ \<Rightarrow> [0])) (csc_items p)) @
     (case csc_carried_item p of Some slot \<Rightarrow> [1] @
         write_varint_bytes (slda_item_id slot) @
         [slda_count slot] @
         (case slda_nbt slot of Some nbt \<Rightarrow> nbt
            | _ \<Rightarrow> write_varint_bytes 0)
        | _ \<Rightarrow> [0]))"

record UpdateTime =
  ut_world_age :: i64
  ut_time_of_day :: i64

definition encode_UpdateTime :: "UpdateTime \<Rightarrow> i32 \<times> bytes" where
  "encode_UpdateTime p =
    (0x6A,
     write_i64 (ut_world_age p) @
     write_i64 (ut_time_of_day p))"

record CookieRequest =
  cr_key :: bytes

definition encode_CookieRequest :: "CookieRequest \<Rightarrow> i32 \<times> bytes" where
  "encode_CookieRequest p =
    (0x17,
     write_string (cr_key p))"

record CookieResponse =
  core_key :: bytes
  core_payload :: "bytes option"

record ResourcePackResponse =
  rpr_uuid :: uuid
  rpr_result :: i32

record ChangeBeaconEffect =
  chbeef_primary_effect :: "i32 option"
  chbeef_secondary_effect :: "i32 option"

record UpdateAdvancements =
  upad_reset :: bool
  upad_advancement_ids :: "bytes list"
  upad_progress_map :: "(bytes \<times> bytes list) list"

definition encode_UpdateAdvancements :: "UpdateAdvancements \<Rightarrow> i32 \<times> bytes" where
  "encode_UpdateAdvancements p =
    (0x69,
     [of_bool (upad_reset p)] @
     write_varint_bytes (usize_as_i32 (length (upad_advancement_ids p))) @
     concat (map (\<lambda>ident. write_string ident) (upad_advancement_ids p)) @
     write_varint_bytes (usize_as_i32 (length (upad_progress_map p))) @
     concat (map (\<lambda>(adv_id, criteria). write_string adv_id @
       write_varint_bytes (usize_as_i32 (length criteria)) @
       concat (map (\<lambda>c. write_string c) criteria)) (upad_progress_map p)))"

record InitializeWorldBorder =
  iwb_x :: f64
  iwb_z :: f64
  iwb_old_diameter :: f64
  iwb_new_diameter :: f64
  iwb_speed :: i64
  iwb_portal_teleport_boundary :: i32
  iwb_warning_blocks :: i32
  iwb_warning_time :: i32

definition encode_InitializeWorldBorder :: "InitializeWorldBorder \<Rightarrow> i32 \<times> bytes" where
  "encode_InitializeWorldBorder p =
    (0x21,
     be_bytes 8 (iwb_x p) @
     be_bytes 8 (iwb_z p) @
     be_bytes 8 (iwb_old_diameter p) @
     be_bytes 8 (iwb_new_diameter p) @
     write_varint_bytes (ucast (iwb_speed p) :: i32) @
     write_varint_bytes (iwb_portal_teleport_boundary p) @
     write_varint_bytes (iwb_warning_blocks p) @
     write_varint_bytes (iwb_warning_time p))"

record SetCooldown =
  sc_item_id :: i32
  sc_cooldown_ticks :: i32

definition encode_SetCooldown :: "SetCooldown \<Rightarrow> i32 \<times> bytes" where
  "encode_SetCooldown p =
    (0x13,
     write_varint_bytes (sc_item_id p) @
     write_varint_bytes (sc_cooldown_ticks p))"

record EntityEvent =
  enev_entity_id :: i32
  enev_status :: u8

definition encode_EntityEvent :: "EntityEvent \<Rightarrow> i32 \<times> bytes" where
  "encode_EntityEvent p =
    (0x1B,
     write_varint_bytes (enev_entity_id p) @
     [enev_status p])"

record SetPassengers =
  sepa_vehicle_id :: i32
  sepa_passengers :: "i32 list"

definition encode_SetPassengers :: "SetPassengers \<Rightarrow> i32 \<times> bytes" where
  "encode_SetPassengers p =
    (0x5D,
     write_varint_bytes (sepa_vehicle_id p) @
     write_varint_bytes (usize_as_i32 (length (sepa_passengers p))) @
     concat (map (\<lambda>pid. write_varint_bytes pid) (sepa_passengers p)))"

record SetEntityLink =
  sel_attached_id :: i32
  sel_holding_id :: i32

definition encode_SetEntityLink :: "SetEntityLink \<Rightarrow> i32 \<times> bytes" where
  "encode_SetEntityLink p =
    (0x33,
     write_varint_bytes (sel_attached_id p) @
     write_varint_bytes (sel_holding_id p))"

record ScoreboardObjective =
  so_name :: bytes
  so_mode :: u8
  so_objective_value :: bytes
  so_objective_type :: i32
  so_number_format :: u8

definition encode_ScoreboardObjective :: "ScoreboardObjective \<Rightarrow> i32 \<times> bytes" where
  "encode_ScoreboardObjective p =
    (0x4D,
     write_string (so_name p) @
     [so_mode p] @
     write_string (so_objective_value p) @
     write_varint_bytes (so_objective_type p) @
     [so_number_format p])"

record UpdateScore =
  us_entity_name :: bytes
  us_objective_name :: bytes
  us_value :: i32
  us_display_name :: "bytes option"
  us_number_format :: u8

definition encode_UpdateScore :: "UpdateScore \<Rightarrow> i32 \<times> bytes" where
  "encode_UpdateScore p =
    (0x4E,
     write_string (us_entity_name p) @
     write_string (us_objective_name p) @
     write_varint_bytes (us_value p) @
     [of_bool ((us_display_name p) \<noteq> None)] @
     (case us_display_name p of Some name \<Rightarrow> write_string name
        | _ \<Rightarrow> []) @
     [us_number_format p])"

record ScoreboardDisplay =
  scdi_position :: u8
  scdi_score_name :: bytes

definition encode_ScoreboardDisplay :: "ScoreboardDisplay \<Rightarrow> i32 \<times> bytes" where
  "encode_ScoreboardDisplay p =
    (0x58,
     [scdi_position p] @
     write_string (scdi_score_name p))"

record MapIcon =
  mi_icon_type :: i32
  mi_x :: u8
  mi_z :: u8
  mi_direction :: u8
  mi_display_name :: "bytes option"

record MapData =
  md_map_id :: i32
  md_scale :: u8
  md_locked :: bool
  md_icons :: "MapIcon list"
  md_columns :: u8
  md_rows :: u8
  md_x :: u8
  md_z :: u8
  md_data :: bytes

definition encode_MapData :: "MapData \<Rightarrow> i32 \<times> bytes" where
  "encode_MapData p =
    (0x2C,
     write_varint_bytes (md_map_id p) @
     [md_scale p] @
     [of_bool (md_locked p)] @
     [(if (md_icons p) = [] then 0 else 1)] @
     (if \<not> ((md_icons p) = [])
        then write_varint_bytes (usize_as_i32 (length (md_icons p))) @
         concat (map (\<lambda>icon. write_varint_bytes (mi_icon_type icon) @
           [mi_x icon] @
           [mi_z icon] @
           [mi_direction icon] @
           [of_bool ((mi_display_name icon) \<noteq> None)] @
           (case mi_display_name icon of Some name \<Rightarrow> write_string name
              | _ \<Rightarrow> [])) (md_icons p))
        else []) @
     [md_columns p] @
     (if (md_columns p) > 0
        then [md_rows p] @
         [md_x p] @
         [md_z p] @
         write_varint_bytes (usize_as_i32 (length (md_data p))) @
         md_data p
        else []))"

record Teams =
  tea_name :: bytes
  tea_mode :: u8
  tea_display_name :: bytes
  tea_friendly_fire :: u8
  tea_nametag_visibility :: bytes
  tea_collision_rule :: bytes
  tea_color :: i32
  tea_prefix :: bytes
  tea_suffix :: bytes
  tea_entities :: "bytes list"

definition encode_Teams :: "Teams \<Rightarrow> i32 \<times> bytes" where
  "encode_Teams p =
    (0x55,
     write_string (tea_name p) @
     [tea_mode p] @
     (if ((tea_mode p) = 0) \<or> ((tea_mode p) = 2)
        then write_string (tea_display_name p) @
         [tea_friendly_fire p] @
         write_string (tea_nametag_visibility p) @
         write_string (tea_collision_rule p) @
         write_varint_bytes (tea_color p) @
         write_string (tea_prefix p) @
         write_string (tea_suffix p)
        else []) @
     (if ((tea_mode p) = 0) \<or> ((tea_mode p) = 3) \<or> ((tea_mode p) = 4)
        then write_varint_bytes (usize_as_i32 (length (tea_entities p))) @
         concat (map (\<lambda>e. write_string e) (tea_entities p))
        else []))"

record SetTitleText =
  stt_text :: bytes

definition encode_SetTitleText :: "SetTitleText \<Rightarrow> i32 \<times> bytes" where
  "encode_SetTitleText p =
    (0x58,
     write_string (stt_text p))"

record SetTitleSubtitle =
  sts_text :: bytes

definition encode_SetTitleSubtitle :: "SetTitleSubtitle \<Rightarrow> i32 \<times> bytes" where
  "encode_SetTitleSubtitle p =
    (0x59,
     write_string (sts_text p))"

record SetActionBarText =
  sabt_text :: bytes

definition encode_SetActionBarText :: "SetActionBarText \<Rightarrow> i32 \<times> bytes" where
  "encode_SetActionBarText p =
    (0x5A,
     write_string (sabt_text p))"

record SetTitleTimes =
  setiti_fade_in :: i32
  setiti_stay :: i32
  setiti_fade_out :: i32

definition encode_SetTitleTimes :: "SetTitleTimes \<Rightarrow> i32 \<times> bytes" where
  "encode_SetTitleTimes p =
    (0x5B,
     be_bytes 4 (setiti_fade_in p) @
     be_bytes 4 (setiti_stay p) @
     be_bytes 4 (setiti_fade_out p))"

record ClearTitles =
  ct_reset :: bool

definition encode_ClearTitles :: "ClearTitles \<Rightarrow> i32 \<times> bytes" where
  "encode_ClearTitles p =
    (0x5C,
     [of_bool (ct_reset p)])"

record SetBorderCenter =
  sbc_x :: f64
  sbc_z :: f64

definition encode_SetBorderCenter :: "SetBorderCenter \<Rightarrow> i32 \<times> bytes" where
  "encode_SetBorderCenter p =
    (0x4C,
     be_bytes 8 (sbc_x p) @
     be_bytes 8 (sbc_z p))"

record SetBorderSize =
  sbs_diameter :: f64

definition encode_SetBorderSize :: "SetBorderSize \<Rightarrow> i32 \<times> bytes" where
  "encode_SetBorderSize p =
    (0x4E,
     be_bytes 8 (sbs_diameter p))"

record SetBorderWarningDelay =
  sbwd_delay :: i32

definition encode_SetBorderWarningDelay :: "SetBorderWarningDelay \<Rightarrow> i32 \<times> bytes" where
  "encode_SetBorderWarningDelay p =
    (0x4F,
     write_varint_bytes (sbwd_delay p))"

record SetBorderWarningBlocks =
  sbwb_blocks :: i32

definition encode_SetBorderWarningBlocks :: "SetBorderWarningBlocks \<Rightarrow> i32 \<times> bytes" where
  "encode_SetBorderWarningBlocks p =
    (0x50,
     write_varint_bytes (sbwb_blocks p))"

record UpdateEnabledFeatures =
  uef_features :: "bytes list"

definition encode_UpdateEnabledFeatures :: "UpdateEnabledFeatures \<Rightarrow> i32 \<times> bytes" where
  "encode_UpdateEnabledFeatures p =
    (0x0D,
     write_varint_bytes (usize_as_i32 (length (uef_features p))) @
     concat (map (\<lambda>f. write_string f) (uef_features p)))"

record MessageAcknowledgment =
  ma_message_count :: i32

section \<open>Packets the server only sends\<close>

text \<open>Their decoders answer with an error whatever they are given.\<close>

definition decode_JoinGame :: "bytes \<Rightarrow> (CodecError, JoinGame) outcome" where
  "decode_JoinGame _ = Err (Malformed ''JoinGame decode not implemented'')"

definition decode_AcknowledgeBlockChange :: "bytes \<Rightarrow> (CodecError, AcknowledgeBlockChange) outcome" where
  "decode_AcknowledgeBlockChange _ = Err (Malformed ''AcknowledgeBlockChange decode not implemented'')"

definition decode_SpawnEntity :: "bytes \<Rightarrow> (CodecError, SpawnEntity) outcome" where
  "decode_SpawnEntity _ = Err (Malformed ''SpawnEntity decode not implemented'')"

definition decode_SetEntityVelocity :: "bytes \<Rightarrow> (CodecError, SetEntityVelocity) outcome" where
  "decode_SetEntityVelocity _ = Err (Malformed ''SetEntityVelocity decode not implemented'')"

definition decode_UpdateSectionBlocks :: "bytes \<Rightarrow> (CodecError, UpdateSectionBlocks) outcome" where
  "decode_UpdateSectionBlocks _ = Err (Malformed ''UpdateSectionBlocks decode not implemented'')"

definition decode_ServerLinks :: "bytes \<Rightarrow> (CodecError, ServerLinks) outcome" where
  "decode_ServerLinks _ = Err (Malformed ''ServerLinks decode not implemented'')"

definition decode_SetDefaultSpawnPosition :: "bytes \<Rightarrow> (CodecError, SetDefaultSpawnPosition) outcome" where
  "decode_SetDefaultSpawnPosition _ = Err (Malformed ''SetDefaultSpawnPosition decode not implemented'')"

definition decode_PlayerPosition :: "bytes \<Rightarrow> (CodecError, PlayerPosition) outcome" where
  "decode_PlayerPosition _ = Err (Malformed ''PlayerPosition decode not implemented'')"

definition decode_SystemChatMessage :: "bytes \<Rightarrow> (CodecError, SystemChatMessage) outcome" where
  "decode_SystemChatMessage _ = Err (Malformed ''SystemChatMessage decode not implemented'')"

definition decode_PlayDisconnect :: "bytes \<Rightarrow> (CodecError, PlayDisconnect) outcome" where
  "decode_PlayDisconnect _ = Err (Malformed ''PlayDisconnect decode not implemented'')"

definition decode_WorldEvent :: "bytes \<Rightarrow> (CodecError, WorldEvent) outcome" where
  "decode_WorldEvent _ = Err (Malformed ''WorldEvent decode not implemented'')"

definition decode_ChunkData :: "bytes \<Rightarrow> (CodecError, ChunkData) outcome" where
  "decode_ChunkData _ = Err (Malformed ''ChunkData decode not implemented'')"

definition decode_TeleportEntity :: "bytes \<Rightarrow> (CodecError, TeleportEntity) outcome" where
  "decode_TeleportEntity _ = Err (Malformed ''TeleportEntity decode not implemented'')"

definition decode_SpawnPlayer :: "bytes \<Rightarrow> (CodecError, SpawnPlayer) outcome" where
  "decode_SpawnPlayer _ = Err (Malformed ''SpawnPlayer decode not implemented'')"

definition decode_RemoveEntities :: "bytes \<Rightarrow> (CodecError, RemoveEntities) outcome" where
  "decode_RemoveEntities _ = Err (Malformed ''RemoveEntities decode not implemented'')"

definition decode_PlayerInfoUpdate :: "bytes \<Rightarrow> (CodecError, PlayerInfoUpdate) outcome" where
  "decode_PlayerInfoUpdate _ = Err (Malformed ''PlayerInfoUpdate decode not implemented'')"

definition decode_GameEvent :: "bytes \<Rightarrow> (CodecError, GameEvent) outcome" where
  "decode_GameEvent _ = Err (Malformed ''GameEvent decode not implemented'')"

definition decode_SetExperience :: "bytes \<Rightarrow> (CodecError, SetExperience) outcome" where
  "decode_SetExperience _ = Err (Malformed ''SetExperience decode not implemented'')"

definition decode_DamageEvent :: "bytes \<Rightarrow> (CodecError, DamageEvent) outcome" where
  "decode_DamageEvent _ = Err (Malformed ''DamageEvent decode not implemented'')"

definition decode_SoundEffect :: "bytes \<Rightarrow> (CodecError, SoundEffect) outcome" where
  "decode_SoundEffect _ = Err (Malformed ''SoundEffect decode not implemented'')"

definition decode_StopSound :: "bytes \<Rightarrow> (CodecError, StopSound) outcome" where
  "decode_StopSound _ = Err (Malformed ''StopSound decode not implemented'')"

definition decode_Particle :: "bytes \<Rightarrow> (CodecError, Particle) outcome" where
  "decode_Particle _ = Err (Malformed ''Particle decode not implemented'')"

definition decode_UpdateAttributes :: "bytes \<Rightarrow> (CodecError, UpdateAttributes) outcome" where
  "decode_UpdateAttributes _ = Err (Malformed ''UpdateAttributes decode not implemented'')"

definition decode_SetTitles :: "bytes \<Rightarrow> (CodecError, SetTitles) outcome" where
  "decode_SetTitles _ = Err (Malformed ''SetTitles decode not implemented'')"

definition decode_BossBar :: "bytes \<Rightarrow> (CodecError, BossBar) outcome" where
  "decode_BossBar _ = Err (Malformed ''BossBar decode not implemented'')"

definition decode_OpenScreen :: "bytes \<Rightarrow> (CodecError, OpenScreen) outcome" where
  "decode_OpenScreen _ = Err (Malformed ''OpenScreen decode not implemented'')"

definition decode_SetContainerSlot :: "bytes \<Rightarrow> (CodecError, SetContainerSlot) outcome" where
  "decode_SetContainerSlot _ = Err (Malformed ''SetContainerSlot decode not implemented'')"

definition decode_UpdateRecipes :: "bytes \<Rightarrow> (CodecError, UpdateRecipes) outcome" where
  "decode_UpdateRecipes _ = Err (Malformed ''UpdateRecipes decode not implemented'')"

definition decode_CommandSuggestionsResponse :: "bytes \<Rightarrow> (CodecError, CommandSuggestionsResponse) outcome" where
  "decode_CommandSuggestionsResponse _ = Err (Malformed ''CommandSuggestionsResponse decode not implemented'')"

definition decode_EntityEffect :: "bytes \<Rightarrow> (CodecError, EntityEffect) outcome" where
  "decode_EntityEffect _ = Err (Malformed ''EntityEffect decode not implemented'')"

definition decode_RemoveEntityEffect :: "bytes \<Rightarrow> (CodecError, RemoveEntityEffect) outcome" where
  "decode_RemoveEntityEffect _ = Err (Malformed ''RemoveEntityEffect decode not implemented'')"

definition decode_Explosion :: "bytes \<Rightarrow> (CodecError, Explosion) outcome" where
  "decode_Explosion _ = Err (Malformed ''Explosion decode not implemented'')"

definition decode_MoveEntityRot :: "bytes \<Rightarrow> (CodecError, MoveEntityRot) outcome" where
  "decode_MoveEntityRot _ = Err (Malformed ''MoveEntityRot decode not implemented'')"

definition decode_MoveEntityPosRot :: "bytes \<Rightarrow> (CodecError, MoveEntityPosRot) outcome" where
  "decode_MoveEntityPosRot _ = Err (Malformed ''MoveEntityPosRot decode not implemented'')"

definition decode_DeclareCommands :: "bytes \<Rightarrow> (CodecError, DeclareCommands) outcome" where
  "decode_DeclareCommands _ = Err (Malformed ''DeclareCommands decode not implemented'')"

definition decode_SetHealth :: "bytes \<Rightarrow> (CodecError, SetHealth) outcome" where
  "decode_SetHealth _ = Err (Malformed ''SetHealth decode not implemented'')"

definition decode_SetEntityMetadata :: "bytes \<Rightarrow> (CodecError, SetEntityMetadata) outcome" where
  "decode_SetEntityMetadata _ = Err (Malformed ''SetEntityMetadata decode not implemented'')"

definition decode_Respawn :: "bytes \<Rightarrow> (CodecError, Respawn) outcome" where
  "decode_Respawn _ = Err (Malformed ''Respawn decode not implemented'')"

definition decode_BlockUpdate :: "bytes \<Rightarrow> (CodecError, BlockUpdate) outcome" where
  "decode_BlockUpdate _ = Err (Malformed ''BlockUpdate decode not implemented'')"

definition decode_BlockEntityData :: "bytes \<Rightarrow> (CodecError, BlockEntityData) outcome" where
  "decode_BlockEntityData _ = Err (Malformed ''BlockEntityData decode not implemented'')"

definition decode_PlayerAbilities :: "bytes \<Rightarrow> (CodecError, PlayerAbilities) outcome" where
  "decode_PlayerAbilities _ = Err (Malformed ''PlayerAbilities decode not implemented'')"

definition decode_ContainerSetContent :: "bytes \<Rightarrow> (CodecError, ContainerSetContent) outcome" where
  "decode_ContainerSetContent _ = Err (Malformed ''ContainerSetContent decode not implemented'')"

definition decode_UpdateTime :: "bytes \<Rightarrow> (CodecError, UpdateTime) outcome" where
  "decode_UpdateTime _ = Err (Malformed ''UpdateTime decode not implemented'')"

section \<open>Prepared packets\<close>

definition player_defaults :: "i32 \<Rightarrow> SetEntityMetadata" where
  "player_defaults entity_id =
     \<lparr>sem_entity_id = entity_id, sem_metadata = [0x00, 0, 0x00, 17, 0, 0xFF, 0xFF]\<rparr>"

definition mob_defaults :: "i32 \<Rightarrow> SetEntityMetadata" where
  "mob_defaults entity_id =
     \<lparr>sem_entity_id = entity_id,
      sem_metadata = [0x00, 0, 0x00, 9, 2] @ be_bytes 4 (0x41200000 :: f32) @ [0xFF]\<rparr>"

definition abilities_survival :: PlayerAbilities where
  "abilities_survival = \<lparr>plab_flags = 0, plab_flying_speed = 0x3D4CCCCD,
     plab_walking_speed = 0x3DCCCCCD\<rparr>"

definition abilities_creative :: PlayerAbilities where
  "abilities_creative = \<lparr>plab_flags = 0x04 OR 0x08, plab_flying_speed = 0x3D4CCCCD,
     plab_walking_speed = 0x3DCCCCCD\<rparr>"

definition world_event_ids :: "(string \<times> i32) list" where
  "world_event_ids = [(''DISPENSER_DISPENSE'', 1000), (''DISPENSER_FAIL'', 1001), (''RECORD_PLAY'', 1010),
     (''RECORD_STOP'', 1011), (''END_GATEWAY_SPAWN'', 3000), (''ENDER_DRAGON_GROWL'', 3001)]"

section \<open>The command tree\<close>

text \<open>The map from a command to its subcommands and their parsers (its keys are distinct).\<close>

definition subcommands :: "(string \<times> (string \<times> string) list) list" where
  "subcommands =
    [(''gamemode'', [(''survival'', ''brigadier:string''), (''creative'', ''brigadier:string''), (''adventure'', ''brigadier:string''), (''spectator'', ''brigadier:string'')]),
     (''time'', [(''set'', ''brigadier:string''), (''add'', ''brigadier:integer''), (''query'', ''brigadier:string'')]),
     (''weather'', [(''clear'', ''brigadier:string''), (''rain'', ''brigadier:string''), (''thunder'', ''brigadier:string'')]),
     (''difficulty'', [(''peaceful'', ''brigadier:string''), (''easy'', ''brigadier:string''), (''normal'', ''brigadier:string''), (''hard'', ''brigadier:string'')]),
     (''effect'', [(''give'', ''brigadier:string''), (''clear'', ''brigadier:string'')]),
     (''scoreboard'', [(''objectives'', ''brigadier:string''), (''players'', ''brigadier:string'')]),
     (''bossbar'', [(''add'', ''brigadier:string''), (''remove'', ''brigadier:string''), (''set'', ''brigadier:string''), (''list'', ''brigadier:string'')]),
     (''team'', [(''add'', ''brigadier:string''), (''remove'', ''brigadier:string''), (''join'', ''brigadier:string''), (''leave'', ''brigadier:string''), (''list'', ''brigadier:string'')]),
     (''tick'', [(''freeze'', ''brigadier:string''), (''unfreeze'', ''brigadier:string''), (''sprint'', ''brigadier:integer''), (''query'', ''brigadier:string'')]),
     (''execute'', [(''as'', ''brigadier:string''), (''at'', ''brigadier:string''), (''run'', ''brigadier:string''), (''if'', ''brigadier:string''), (''unless'', ''brigadier:string''), (''store'', ''brigadier:string''), (''align'', ''brigadier:string''), (''rotated'', ''brigadier:string''), (''anchored'', ''brigadier:string''), (''facing'', ''brigadier:string''), (''positioned'', ''brigadier:string'')]),
     (''whitelist'', [(''add'', ''brigadier:string''), (''remove'', ''brigadier:string''), (''list'', ''brigadier:string''), (''on'', ''brigadier:string''), (''off'', ''brigadier:string''), (''reload'', ''brigadier:string'')]),
     (''worldborder'', [(''set'', ''brigadier:double''), (''center'', ''brigadier:string''), (''add'', ''brigadier:double''), (''get'', ''brigadier:string''), (''damage'', ''brigadier:string''), (''warning'', ''brigadier:string'')]),
     (''data'', [(''get'', ''brigadier:string''), (''merge'', ''brigadier:string''), (''remove'', ''brigadier:string''), (''modify'', ''brigadier:string'')]),
     (''attribute'', [(''get'', ''brigadier:string''), (''set'', ''brigadier:string''), (''list'', ''brigadier:string'')]),
     (''recipe'', [(''give'', ''brigadier:string''), (''take'', ''brigadier:string'')]),
     (''forceload'', [(''add'', ''brigadier:string''), (''remove'', ''brigadier:string''), (''query'', ''brigadier:string'')]),
     (''item'', [(''replace'', ''brigadier:string''), (''modify'', ''brigadier:string'')]),
     (''xp'', [(''add'', ''brigadier:integer''), (''set'', ''brigadier:integer''), (''query'', ''brigadier:string'')]),
     (''title'', [(''title'', ''brigadier:string''), (''subtitle'', ''brigadier:string''), (''actionbar'', ''brigadier:string''), (''clear'', ''brigadier:string''), (''reset'', ''brigadier:string'')]),
     (''tag'', [(''add'', ''brigadier:string''), (''remove'', ''brigadier:string''), (''list'', ''brigadier:string'')]),
     (''ride'', [(''mount'', ''brigadier:string''), (''dismount'', ''brigadier:string'')]),
     (''debug'', [(''start'', ''brigadier:string''), (''stop'', ''brigadier:string'')]),
     (''banlist'', [(''ips'', ''brigadier:string''), (''players'', ''brigadier:string'')]),
     (''gamerule'', [(''doMobSpawning'', ''brigadier:bool''), (''doWeatherCycle'', ''brigadier:bool''), (''doDaylightCycle'', ''brigadier:bool''), (''keepInventory'', ''brigadier:bool''), (''doFireTick'', ''brigadier:bool'')]),
     (''spectate'', [(''entity'', ''brigadier:string'')]),
     (''defaultgamemode'', [(''survival'', ''brigadier:string''), (''creative'', ''brigadier:string''), (''adventure'', ''brigadier:string''), (''spectator'', ''brigadier:string'')]),
     (''fillbiome'', [(''from'', ''brigadier:string''), (''to'', ''brigadier:string'')]),
     (''trigger'', [(''add'', ''brigadier:integer''), (''set'', ''brigadier:integer'')]),
     (''ban'', [(''target'', ''brigadier:string''), (''reason'', ''brigadier:string'')]),
     (''kick'', [(''target'', ''brigadier:string''), (''reason'', ''brigadier:string'')]),
     (''pardon'', [(''target'', ''brigadier:string'')]),
     (''msg'', [(''target'', ''brigadier:string''), (''message'', ''brigadier:string'')]),
     (''say'', [(''message'', ''brigadier:string'')]),
     (''stop'', []),
     (''save-all'', [(''flush'', ''brigadier:string'')]),
     (''list'', [(''uuids'', ''brigadier:string'')]),
     (''seed'', []),
     (''locate'', [(''structure'', ''brigadier:string''), (''biome'', ''brigadier:string''), (''poi'', ''brigadier:string'')]),
     (''clone'', [(''begin'', ''brigadier:string''), (''end'', ''brigadier:string''), (''destination'', ''brigadier:string'')]),
     (''fill'', [(''from'', ''brigadier:string''), (''to'', ''brigadier:string''), (''block'', ''brigadier:string'')]),
     (''setblock'', [(''pos'', ''brigadier:string''), (''block'', ''brigadier:string'')]),
     (''kill'', [(''target'', ''brigadier:string'')]),
     (''clear'', [(''target'', ''brigadier:string''), (''item'', ''brigadier:string'')]),
     (''playsound'', [(''sound'', ''brigadier:string''), (''target'', ''brigadier:string''), (''pos'', ''brigadier:string'')]),
     (''stopsound'', [(''target'', ''brigadier:string'')]),
     (''spreadplayers'', [(''center'', ''brigadier:string''), (''distance'', ''brigadier:float''), (''range'', ''brigadier:float''), (''targets'', ''brigadier:string'')]),
     (''damage'', [(''target'', ''brigadier:string''), (''amount'', ''brigadier:float'')]),
     (''enchant'', [(''target'', ''brigadier:string''), (''enchantment'', ''brigadier:string''), (''level'', ''brigadier:integer'')]),
     (''publish'', [(''port'', ''brigadier:integer'')]),
     (''save-on'', []),
     (''save-off'', []),
     (''spawnpoint'', [(''target'', ''brigadier:string''), (''pos'', ''brigadier:string'')]),
     (''setworldspawn'', [(''pos'', ''brigadier:string'')]),
     (''reload'', [(''difficulty'', ''brigadier:string'')]),
     (''transfer'', [(''player'', ''brigadier:string''), (''host'', ''brigadier:string''), (''port'', ''brigadier:integer'')]),
     (''me'', [(''action'', ''brigadier:string'')]),
     (''status'', []),
     (''help'', [])]"

abbreviation utf8 :: "string \<Rightarrow> bytes" where
  "utf8 s \<equiv> map of_char s"

definition command_node :: "u8 \<Rightarrow> i32 list \<Rightarrow> string \<Rightarrow> string \<Rightarrow> CommandNode" where
  "command_node flags children name parser =
     \<lparr>cn_flags = flags, cn_children = children, cn_redirect_node = None,
      cn_name = utf8 name, cn_parser_id = Some (utf8 parser),
      cn_suggestions_type = Some (utf8 ''ask_server'')\<rparr>"

definition add_subcommand :: "string \<times> string \<Rightarrow> CommandNode list \<times> i32 list \<Rightarrow> CommandNode list \<times> i32 list" where
  "add_subcommand = (\<lambda>(sub_name, parser) (nodes, cmd_children).
     (nodes @ [command_node 0x01 [] sub_name parser], cmd_children @ [usize_as_i32 (length nodes)]))"

definition add_command :: "string \<Rightarrow> CommandNode list \<times> i32 list \<Rightarrow> CommandNode list \<times> i32 list" where
  "add_command name = (\<lambda>(nodes, root_children).
     let (nodes, cmd_children) =
           (case map_of subcommands name of
              Some subs \<Rightarrow> fold add_subcommand subs (nodes, [])
            | None \<Rightarrow> (nodes, []))
     in (nodes @ [command_node (if cmd_children = [] then 0x01 else 0) cmd_children name ''brigadier:string''],
         root_children @ [usize_as_i32 (length nodes)]))"

definition from_command_names :: "string list \<Rightarrow> DeclareCommands" where
  "from_command_names names =
     (let root = \<lparr>cn_flags = 0, cn_children = [], cn_redirect_node = None,
            cn_name = [], cn_parser_id = None, cn_suggestions_type = None\<rparr>;
          (nodes, root_children) = fold add_command names ([root], [])
      in \<lparr>dc_nodes = nodes[0 := (nodes ! 0)\<lparr>cn_children := root_children\<rparr>],
          dc_root_index = 0\<rparr>)"

section \<open>What the client cannot tell apart\<close>

text \<open>Packets of different types carry the same number: six pairs of them do, and clearing the
titles with a reset is, byte for byte, the empty metadata of entity 1.\<close>

theorem packets_share_numbers:
  "fst (encode_SetExperience a) = fst (encode_SetChunkCacheCenter b) \<and>
   fst (encode_SetTitleText c) = fst (encode_ScoreboardDisplay d) \<and>
   fst (encode_SetActionBarText e) = fst (encode_SetDefaultSpawnPosition f) \<and>
   fst (encode_UpdateScore g) = fst (encode_SetBorderSize h) \<and>
   fst (encode_BossBar i) = fst (encode_ChunkBatchFinished j) \<and>
   encode_ClearTitles \<lparr>ct_reset = True\<rparr> =
     encode_SetEntityMetadata \<lparr>sem_entity_id = 1, sem_metadata = []\<rparr>"
proof -
  have "write_varint_bytes 1 = [1]" by (simp add: write_varint_bytes_def write_varint_def write_varint_to_def write_loop_Nil [of 1])
  then show ?thesis
    by (simp add: encode_SetExperience_def encode_SetChunkCacheCenter_def encode_SetTitleText_def
        encode_ScoreboardDisplay_def encode_SetActionBarText_def encode_SetDefaultSpawnPosition_def
        encode_UpdateScore_def encode_SetBorderSize_def encode_BossBar_def encode_ChunkBatchFinished_def
        encode_ClearTitles_def encode_SetEntityMetadata_def Let_def)
qed

text \<open>What a node adds to the packet; the name is left out when the flags are 0.\<close>

definition node_bytes :: "CommandNode \<Rightarrow> bytes" where
  "node_bytes node =
     [cn_flags node] @
     write_varint_bytes (usize_as_i32 (length (cn_children node))) @
     concat (map write_varint_bytes (cn_children node)) @
     (if cn_flags node AND 0x02 \<noteq> 0
      then write_varint_bytes (case cn_redirect_node node of Some v \<Rightarrow> v | None \<Rightarrow> 0) else []) @
     (if cn_flags node = 0 then [] else write_string (cn_name node)) @
     (if cn_flags node AND 0x01 = 0 \<and> cn_flags node AND 0x04 \<noteq> 0
      then write_string (case cn_parser_id node of Some v \<Rightarrow> v | None \<Rightarrow> utf8 ''brigadier:string'') else []) @
     (if cn_flags node AND 0x04 \<noteq> 0
      then write_string (case cn_suggestions_type node of Some v \<Rightarrow> v | None \<Rightarrow> utf8 ''ask_server'') else [])"

lemma encode_DeclareCommands_nodes:
  "encode_DeclareCommands p =
     (0x10, write_varint_bytes (usize_as_i32 (length (dc_nodes p))) @
            concat (map node_bytes (dc_nodes p)) @ write_varint_bytes (dc_root_index p))"
  unfolding encode_DeclareCommands_def node_bytes_def [abs_def] by simp

definition subcommand_nodes :: "(string \<times> string) list \<Rightarrow> CommandNode list" where
  "subcommand_nodes subs = map (\<lambda>(n, p). command_node 0x01 [] n p) subs"

lemma fold_add_subcommand:
  "fold add_subcommand subs (nodes, cs) =
     (nodes @ subcommand_nodes subs, cs @ map usize_as_i32 [length nodes..<length nodes + length subs])"
  by (induction subs arbitrary: nodes cs)
    (auto simp: add_subcommand_def subcommand_nodes_def upt_conv_Cons simp del: upt_Suc)

text \<open>What a command adds depends on the nodes so far only by their number.\<close>

definition command_nodes :: "nat \<Rightarrow> string \<Rightarrow> CommandNode list" where
  "command_nodes k name =
     (let subs = (case map_of subcommands name of Some subs \<Rightarrow> subs | None \<Rightarrow> []);
          cs = map usize_as_i32 [k..<k + length subs]
      in subcommand_nodes subs @ [command_node (if cs = [] then 0x01 else 0) cs name ''brigadier:string''])"

lemma add_command_nodes:
  "add_command name (nodes, rs) =
     (nodes @ command_nodes (length nodes) name,
      rs @ [usize_as_i32 (length nodes + length (command_nodes (length nodes) name) - 1)])"
  by (auto simp: add_command_def command_nodes_def fold_add_subcommand subcommand_nodes_def Let_def
      split: option.splits)

definition same_wire :: "CommandNode list \<Rightarrow> CommandNode list \<Rightarrow> bool" where
  "same_wire ns ms \<longleftrightarrow> list_all2 (\<lambda>n m. m = n \<or>
     cn_flags n = 0 \<and> m = n\<lparr>cn_name := cn_name m\<rparr>) ns ms"

lemma same_wire_refl: "same_wire ns ns"
  by (simp add: same_wire_def list_all2_refl)

lemma same_wire_append: "same_wire a b \<Longrightarrow> same_wire c d \<Longrightarrow> same_wire (a @ c) (b @ d)"
  by (simp add: same_wire_def list_all2_appendI)

lemma same_wire_length: "same_wire a b \<Longrightarrow> length a = length b"
  by (simp add: same_wire_def list_all2_lengthD)

lemma same_wire_fold:
  "same_wire ns ms \<Longrightarrow>
     \<exists>ns' ms' rs'. fold add_command names (ns, rs) = (ns', rs') \<and> fold add_command names (ms, rs) = (ms', rs') \<and>
       same_wire ns' ms' \<and> (\<exists>xs ys. ns' = ns @ xs \<and> ms' = ms @ ys)"
proof (induction names arbitrary: ns ms rs)
  case (Cons c names)
  have l: "length ms = length ns" using same_wire_length [OF Cons.prems] by simp
  have "same_wire (ns @ command_nodes (length ns) c) (ms @ command_nodes (length ns) c)"
    by (rule same_wire_append [OF Cons.prems same_wire_refl])
  from Cons.IH [OF this, of "rs @ [usize_as_i32 (length ns + length (command_nodes (length ns) c) - 1)]"]
  show ?case by (simp add: add_command_nodes l) (metis append_assoc)
qed auto

lemma node_bytes_same:
  "m = n \<or> cn_flags n = 0 \<and> m = n\<lparr>cn_name := cn_name m\<rparr> \<Longrightarrow> node_bytes n = node_bytes m"
  by (elim disjE conjE, simp, cases n, cases m) (simp add: node_bytes_def)

lemma same_wire_bytes: "same_wire ns ms \<Longrightarrow> map node_bytes ns = map node_bytes ms"
  unfolding same_wire_def by (induction rule: list_all2_induct) (auto intro: node_bytes_same)

text \<open>Two commands with the same subcommands cannot be told apart by the client: a command
node with children is sent with the flags of the root and without its name.\<close>

theorem command_name_not_sent:
  assumes "map_of subcommands a = Some subs" "map_of subcommands b = Some subs" "subs \<noteq> []"
  shows "encode_DeclareCommands (from_command_names (pre @ a # post)) =
    encode_DeclareCommands (from_command_names (pre @ b # post))"
proof -
  define root where "root = \<lparr>cn_flags = 0, cn_children = [] :: i32 list,
    cn_redirect_node = None :: i32 option, cn_name = [] :: bytes,
    cn_parser_id = None :: bytes option, cn_suggestions_type = None :: bytes option\<rparr>"
  obtain ns rs where p: "fold add_command pre ([root], []) = (ns, rs)" by fastforce
  have "same_wire [root] [root]" by (rule same_wire_refl)
  from same_wire_fold [OF this, of pre "[]"] p obtain xs where ns: "ns = root # xs" by auto
  let ?x = "\<lambda>c. command_nodes (length ns) c"
  have len: "length (?x a) = length (?x b)"
    using assms by (simp add: command_nodes_def Let_def)
  have "same_wire (?x a) (?x b)"
    using assms by (simp add: command_nodes_def Let_def same_wire_def command_node_def list_all2_appendI list_all2_refl)
  then have "same_wire (ns @ ?x a) (ns @ ?x b)"
    by (intro same_wire_append same_wire_refl)
  from same_wire_fold [OF this, of post] len obtain na nb r xs' ys' where
    f: "fold add_command (pre @ a # post) ([root], []) = (na, r)"
       "fold add_command (pre @ b # post) ([root], []) = (nb, r)"
    and s: "same_wire na nb" and e: "na = root # xs @ ?x a @ xs'" "nb = root # xs @ ?x b @ ys'"
    unfolding fold_append comp_def fold.simps p add_command_nodes len ns by (metis append_Cons append_assoc)
  have "same_wire (na[0 := (na ! 0)\<lparr>cn_children := r\<rparr>]) (nb[0 := (nb ! 0)\<lparr>cn_children := r\<rparr>])"
    using s unfolding e same_wire_def by simp
  then show ?thesis
    unfolding encode_DeclareCommands_nodes from_command_names_def root_def [symmetric] f Let_def prod.case
    using same_wire_bytes same_wire_length by fastforce
qed

theorem command_name_not_sent_witness:
  "encode_DeclareCommands (from_command_names [''ban'']) = encode_DeclareCommands (from_command_names [''kick''])"
proof -
  have m: "map_of subcommands ''ban'' = Some [(''target'', ''brigadier:string''), (''reason'', ''brigadier:string'')]"
    "map_of subcommands ''kick'' = Some [(''target'', ''brigadier:string''), (''reason'', ''brigadier:string'')]"
    by (simp_all add: subcommands_def)
  show ?thesis using command_name_not_sent [OF m, of "[]" "[]"] by simp
qed

end
