(* ===== verification/LoginPackets.thy ===== *)
theory LoginPackets
  imports PlayPackets
begin

text \<open>
  \<open>mc-protocol/src/packets/{handshake,status,login,config}.rs\<close> and \<open>mc-protocol/src/state.rs\<close>, and
  the packets of the play state that the client sends (\<open>packets/play.rs\<close>). A decoder reads at an
  offset that it advances; the slice \<open>data[offset..]\<close> past the end is a panic. The JSON of a status
  answer (\<open>serde_json\<close>) and the random identifier at the end of a login success are parameters.

  Shown: the handshake, the login start and the known packs decode to what was encoded; an
  encryption response or a cookie whose declared length is negative panics, and so does a
  container click cut off after its slot; the second effect of a beacon is read at the offset of
  the first; a block position with a negative \<open>z\<close> is read 67108864 blocks away.
\<close>

section \<open>Reading at an offset\<close>

definition tail_from :: "bytes \<Rightarrow> nat \<Rightarrow> (CodecError, bytes) outcome" where
  "tail_from data offset = (if offset \<le> length data then Ok (drop offset data) else Panic)"

definition field ::
  "(bytes \<Rightarrow> (CodecError, 'a \<times> nat) outcome) \<Rightarrow> bytes \<Rightarrow> nat \<Rightarrow> ('a \<Rightarrow> nat \<Rightarrow> (CodecError, 'b) outcome) \<Rightarrow> (CodecError, 'b) outcome" where
  "field rd data offset k =
     and_then (tail_from data offset) (\<lambda>d. and_then (rd d) (\<lambda>(v, n). k v (offset + n)))"

text \<open>\<open>data[a..b].to_vec()\<close> after the test \<open>b > data.len()\<close>.\<close>

definition bytes_at :: "string \<Rightarrow> bytes \<Rightarrow> nat \<Rightarrow> nat \<Rightarrow> (bytes \<Rightarrow> (CodecError, 'b) outcome) \<Rightarrow> (CodecError, 'b) outcome" where
  "bytes_at msg data a b k =
     (if b > length data then Err (Malformed msg)
      else case slice data a b of None \<Rightarrow> Panic | Some s \<Rightarrow> k s)"

section \<open>Connection states\<close>

datatype ConnectionState = Handshake | Status | Login | Config | Play

definition from_next_state :: "i32 \<Rightarrow> ConnectionState option" where
  "from_next_state nxt = (if nxt = 1 then Some Status else if nxt = 2 then Some Login else None)"

section \<open>Handshake, status, login and configuration\<close>

record HandshakePacket =
  hp_protocol_version :: i32
  hp_server_address :: bytes
  hp_server_port :: u16
  hp_next_state :: ConnectionState

definition encode_HandshakePacket :: "HandshakePacket \<Rightarrow> i32 \<times> bytes" where
  "encode_HandshakePacket p =
    (0x00,
     write_varint_bytes (hp_protocol_version p) @
     write_string (hp_server_address p) @
     write_u16 (hp_server_port p) @
     write_varint_bytes (case hp_next_state p of Status \<Rightarrow> 1 | Login \<Rightarrow> 2 | _ \<Rightarrow> 0))"

datatype StatusRequest = StatusRequest

definition encode_StatusRequest :: "StatusRequest \<Rightarrow> i32 \<times> bytes" where
  "encode_StatusRequest p =
    (0x00,
     [])"

record VersionInfo =
  vi_name :: bytes
  vi_protocol :: i32

record PlayerSampleEntry =
  pse_name :: bytes
  pse_id :: bytes

record PlayersInfo =
  plin_max :: u32
  plin_online :: u32
  plin_sample :: "PlayerSampleEntry list"

record Description =
  des_text :: bytes

record StatusResponse =
  stre_version :: VersionInfo
  stre_players :: PlayersInfo
  stre_description :: Description
  stre_favicon :: "bytes option"
  stre_enforces_secure_chat :: bool
  stre_previews_chat :: "bool option"

definition encode_StatusResponse :: "(StatusResponse \<Rightarrow> bytes option) \<Rightarrow> StatusResponse \<Rightarrow> i32 \<times> bytes" where
  "encode_StatusResponse to_json p =
    (0x00, write_string (case to_json p of Some json \<Rightarrow> json | None \<Rightarrow> utf8 ''{}''))"

record PingRequest =
  pire_payload :: i64

definition encode_PingRequest :: "PingRequest \<Rightarrow> i32 \<times> bytes" where
  "encode_PingRequest p =
    (0x01,
     write_i64 (pire_payload p))"

record PongResponse =
  pore_payload :: i64

definition encode_PongResponse :: "PongResponse \<Rightarrow> i32 \<times> bytes" where
  "encode_PongResponse p =
    (0x01,
     write_i64 (pore_payload p))"

record LoginStart =
  ls_username :: bytes
  ls_player_uuid :: "uuid option"

definition encode_LoginStart :: "LoginStart \<Rightarrow> i32 \<times> bytes" where
  "encode_LoginStart p =
    (0x00,
     write_string (ls_username p) @
     write_uuid (case ls_player_uuid p of Some u \<Rightarrow> u | None \<Rightarrow> 0))"

record Property =
  pro_name :: bytes
  pro_value :: bytes
  pro_signature :: "bytes option"

record LoginSuccess =
  losu_uuid :: uuid
  losu_username :: bytes
  losu_properties :: "Property list"

definition encode_LoginSuccess :: "uuid \<Rightarrow> LoginSuccess \<Rightarrow> i32 \<times> bytes" where
  "encode_LoginSuccess new_v4 p =
    (0x02,
     write_uuid (losu_uuid p) @ write_string (losu_username p) @
     write_varint_bytes (usize_as_i32 (length (losu_properties p))) @
     concat (map (\<lambda>prop. write_string (pro_name prop) @ write_string (pro_value prop) @
       write_bool (pro_signature prop \<noteq> None) @
       (case pro_signature prop of Some sig \<Rightarrow> write_string sig | None \<Rightarrow> []))
       (losu_properties p)) @
     write_uuid new_v4)"

record LoginDisconnect =
  ld_reason :: bytes

definition encode_LoginDisconnect :: "LoginDisconnect \<Rightarrow> i32 \<times> bytes" where
  "encode_LoginDisconnect p =
    (0x00,
     write_string (ld_reason p))"

datatype LoginAcknowledged = LoginAcknowledged

definition encode_LoginAcknowledged :: "LoginAcknowledged \<Rightarrow> i32 \<times> bytes" where
  "encode_LoginAcknowledged p =
    (0x03,
     [])"

record EncryptionRequest =
  er_server_id :: bytes
  er_public_key :: bytes
  er_verify_token :: bytes

definition encode_EncryptionRequest :: "EncryptionRequest \<Rightarrow> i32 \<times> bytes" where
  "encode_EncryptionRequest p =
    (0x01,
     write_string (er_server_id p) @
     write_varint_bytes (usize_as_i32 (length (er_public_key p))) @
     er_public_key p @
     write_varint_bytes (usize_as_i32 (length (er_verify_token p))) @
     er_verify_token p)"

record EncryptionResponse =
  enre_shared_secret :: bytes
  enre_verify_token :: bytes

record SetCompression =
  seco_threshold :: i32

definition encode_SetCompression :: "SetCompression \<Rightarrow> i32 \<times> bytes" where
  "encode_SetCompression p =
    (0x03,
     write_varint_bytes (seco_threshold p))"

definition decode_LoginSuccess :: "bytes \<Rightarrow> (CodecError, LoginSuccess) outcome" where
  "decode_LoginSuccess _ = Err (Malformed ''LoginSuccess decode not implemented'')"

definition decode_LoginDisconnect :: "bytes \<Rightarrow> (CodecError, LoginDisconnect) outcome" where
  "decode_LoginDisconnect _ = Err (Malformed ''LoginDisconnect decode not implemented'')"

record ConfigPluginMessage =
  cpm_channel :: bytes
  cpm_data :: bytes

definition encode_ConfigPluginMessage :: "ConfigPluginMessage \<Rightarrow> i32 \<times> bytes" where
  "encode_ConfigPluginMessage p =
    (0x01,
     write_string (cpm_channel p) @
     cpm_data p)"

record RegistryEntry =
  reen_key :: bytes
  reen_data :: "bytes option"

record RegistryData =
  rd_registry_id :: bytes
  rd_entries :: "RegistryEntry list"

definition encode_RegistryData :: "RegistryData \<Rightarrow> i32 \<times> bytes" where
  "encode_RegistryData p =
    (0x07,
     write_string (rd_registry_id p) @
     write_varint_bytes (usize_as_i32 (length (rd_entries p))) @
     concat (map (\<lambda>entry. write_string (reen_key entry) @
       write_bool ((reen_data entry) \<noteq> None) @
       (case reen_data entry of Some data \<Rightarrow> data
          | _ \<Rightarrow> [])) (rd_entries p)))"

record FeatureFlags =
  ff_flags :: "bytes list"

definition encode_FeatureFlags :: "FeatureFlags \<Rightarrow> i32 \<times> bytes" where
  "encode_FeatureFlags p =
    (0x0D,
     write_varint_bytes (usize_as_i32 (length (ff_flags p))) @
     concat (map (\<lambda>flag. write_string flag) (ff_flags p)))"

datatype FinishConfiguration = FinishConfiguration

definition encode_FinishConfiguration :: "FinishConfiguration \<Rightarrow> i32 \<times> bytes" where
  "encode_FinishConfiguration p =
    (0x03,
     [])"

record KnownPack =
  knpa_namespace :: bytes
  knpa_id :: bytes
  knpa_version :: bytes

record KnownPacks =
  kp_known_packs :: "KnownPack list"

definition encode_KnownPacks :: "KnownPacks \<Rightarrow> i32 \<times> bytes" where
  "encode_KnownPacks p =
    (0x0F,
     write_varint_bytes (usize_as_i32 (length (kp_known_packs p))) @
     concat (map (\<lambda>pack. write_string (knpa_namespace pack) @
       write_string (knpa_id pack) @
       write_string (knpa_version pack)) (kp_known_packs p)))"

datatype ConfigServerLinks = ConfigServerLinks

definition encode_ConfigServerLinks :: "ConfigServerLinks \<Rightarrow> i32 \<times> bytes" where
  "encode_ConfigServerLinks p =
    (0x11,
     write_varint_bytes 0)"

record ConfigKeepAlive =
  cka_id :: i64

definition encode_ConfigKeepAlive :: "ConfigKeepAlive \<Rightarrow> i32 \<times> bytes" where
  "encode_ConfigKeepAlive p =
    (0x04,
     write_i64 (cka_id p))"

datatype AckFinishConfig = AckFinishConfig

record ConfigClientInformation =
  cci_locale :: bytes
  cci_view_distance :: u8
  cci_chat_mode :: i32
  cci_chat_colors :: bool
  cci_displayed_skin_parts :: u8
  cci_main_hand :: i32
  cci_enable_text_filtering :: bool
  cci_allow_server_listings :: bool

record ConfigPong =
  copo_id :: i32

record ServerboundKnownPacks =
  skp_known_packs :: "KnownPack list"

section \<open>Decoders\<close>

definition show_int :: "int \<Rightarrow> string" where
  "show_int i = (if i < 0 then ''-'' @ show_nat (nat (- i)) else show_nat (nat i))"

definition decode_HandshakePacket :: "bytes \<Rightarrow> (CodecError, HandshakePacket) outcome" where
  "decode_HandshakePacket data =
     and_then (read_varint_enum data) (\<lambda>(version, offset).
     field read_string data offset (\<lambda>address offset.
     field read_u16 data offset (\<lambda>port offset.
     field read_varint_enum data offset (\<lambda>next_state_id _.
       case from_next_state next_state_id of
         None \<Rightarrow> Err (Malformed (''invalid next state: '' @ show_int (sint next_state_id)))
       | Some next_state \<Rightarrow>
           Ok \<lparr>hp_protocol_version = version, hp_server_address = address,
               hp_server_port = port, hp_next_state = next_state\<rparr>))))"

definition decode_LoginStart :: "bytes \<Rightarrow> (CodecError, LoginStart) outcome" where
  "decode_LoginStart data =
     and_then (read_string data) (\<lambda>(username, offset).
       if offset < length data then
         field read_uuid data offset (\<lambda>uuid _.
           Ok \<lparr>ls_username = username, ls_player_uuid = Some uuid\<rparr>)
       else Ok \<lparr>ls_username = username, ls_player_uuid = None\<rparr>)"

definition decode_LoginAcknowledged :: "bytes \<Rightarrow> (CodecError, LoginAcknowledged) outcome" where
  "decode_LoginAcknowledged _ = Ok LoginAcknowledged"

definition decode_EncryptionResponse :: "bytes \<Rightarrow> (CodecError, EncryptionResponse) outcome" where
  "decode_EncryptionResponse data =
     and_then (read_varint_enum data) (\<lambda>(secret_len, offset).
     let secret_end = usize_add offset (i32_as_usize secret_len) in
     bytes_at ''shared secret too short'' data offset secret_end (\<lambda>secret.
     field read_varint_enum data secret_end (\<lambda>token_len offset.
     let token_end = usize_add offset (i32_as_usize token_len) in
     bytes_at ''verify token too short'' data offset token_end (\<lambda>token.
       Ok \<lparr>enre_shared_secret = secret, enre_verify_token = token\<rparr>))))"

definition decode_SetCompression :: "bytes \<Rightarrow> (CodecError, SetCompression) outcome" where
  "decode_SetCompression data =
     and_then (read_varint_enum data) (\<lambda>(threshold, _). Ok \<lparr>seco_threshold = threshold\<rparr>)"

definition decode_AckFinishConfig :: "bytes \<Rightarrow> (CodecError, AckFinishConfig) outcome" where
  "decode_AckFinishConfig _ = Ok AckFinishConfig"

definition decode_ConfigClientInformation :: "bytes \<Rightarrow> (CodecError, ConfigClientInformation) outcome" where
  "decode_ConfigClientInformation data =
     and_then (read_string data) (\<lambda>(locale, offset).
     field read_u8 data offset (\<lambda>view_distance offset.
     field read_varint_enum data offset (\<lambda>chat_mode offset.
     field read_bool data offset (\<lambda>chat_colors offset.
     field read_u8 data offset (\<lambda>skin offset.
     field read_varint_enum data offset (\<lambda>main_hand offset.
     field read_bool data offset (\<lambda>filtering offset.
     field read_bool data offset (\<lambda>listings _.
       Ok \<lparr>cci_locale = locale, cci_view_distance = view_distance,
           cci_chat_mode = chat_mode, cci_chat_colors = chat_colors,
           cci_displayed_skin_parts = skin, cci_main_hand = main_hand,
           cci_enable_text_filtering = filtering,
           cci_allow_server_listings = listings\<rparr>))))))))"

definition decode_ConfigPong :: "bytes \<Rightarrow> (CodecError, ConfigPong) outcome" where
  "decode_ConfigPong data =
     and_then (read_varint_enum data) (\<lambda>(i, _). Ok \<lparr>copo_id = i\<rparr>)"

text \<open>The loop of \<open>ServerboundKnownPacks\<close>: \<open>0..count\<close> is empty for a negative count.\<close>

fun read_packs :: "nat \<Rightarrow> bytes \<Rightarrow> nat \<Rightarrow> (CodecError, KnownPack list) outcome" where
  "read_packs 0 data offset = Ok []"
| "read_packs (Suc k) data offset =
     field read_string data offset (\<lambda>ns offset.
     field read_string data offset (\<lambda>i offset.
     field read_string data offset (\<lambda>version offset.
       and_then (read_packs k data offset) (\<lambda>packs.
         Ok (\<lparr>knpa_namespace = ns, knpa_id = i, knpa_version = version\<rparr> # packs)))))"

definition decode_ServerboundKnownPacks :: "bytes \<Rightarrow> (CodecError, ServerboundKnownPacks) outcome" where
  "decode_ServerboundKnownPacks data =
     and_then (read_varint_enum data) (\<lambda>(n, offset).
     and_then (read_packs (nat (sint n)) data offset) (\<lambda>packs.
       Ok \<lparr>skp_known_packs = packs\<rparr>))"

definition decode_StatusRequest :: "bytes \<Rightarrow> (CodecError, StatusRequest) outcome" where
  "decode_StatusRequest _ = Ok StatusRequest"

definition decode_StatusResponse ::
  "(bytes \<Rightarrow> string + StatusResponse) \<Rightarrow> bytes \<Rightarrow> (CodecError, StatusResponse) outcome" where
  "decode_StatusResponse from_json data =
     and_then (read_string data) (\<lambda>(json, _).
       case from_json json of Inl e \<Rightarrow> Err (Malformed (''invalid JSON: '' @ e)) | Inr r \<Rightarrow> Ok r)"

definition decode_PingRequest :: "bytes \<Rightarrow> (CodecError, PingRequest) outcome" where
  "decode_PingRequest data =
     and_then (read_i64 data) (\<lambda>(payload, _). Ok \<lparr>pire_payload = payload\<rparr>)"

definition decode_PongResponse :: "bytes \<Rightarrow> (CodecError, PongResponse) outcome" where
  "decode_PongResponse data =
     and_then (read_i64 data) (\<lambda>(payload, _). Ok \<lparr>pore_payload = payload\<rparr>)"

section \<open>Packets of the play state from the client\<close>

definition decode_KeepAlive :: "bytes \<Rightarrow> (CodecError, KeepAlive) outcome" where
  "decode_KeepAlive data = and_then (read_i64 data) (\<lambda>(i, _). Ok \<lparr>ka_id = i\<rparr>)"

definition decode_ClientInformation :: "bytes \<Rightarrow> (CodecError, ClientInformation) outcome" where
  "decode_ClientInformation data =
     and_then (read_string data) (\<lambda>(locale, offset).
     field read_u8 data offset (\<lambda>view_distance offset.
     field read_varint_enum data offset (\<lambda>chat_mode offset.
     field read_bool data offset (\<lambda>chat_colors offset.
     field read_u8 data offset (\<lambda>skin offset.
     field read_varint_enum data offset (\<lambda>main_hand offset.
     field read_bool data offset (\<lambda>filtering offset.
     field read_bool data offset (\<lambda>listings _.
       Ok \<lparr>clin_locale = locale, clin_view_distance = view_distance,
           clin_chat_mode = chat_mode, clin_chat_colors = chat_colors,
           clin_displayed_skin_parts = skin, clin_main_hand = main_hand,
           clin_enable_text_filtering = filtering,
           clin_allow_server_listings = listings\<rparr>))))))))"

definition decode_TeleportConfirm :: "bytes \<Rightarrow> (CodecError, TeleportConfirm) outcome" where
  "decode_TeleportConfirm data =
     and_then (read_varint_enum data) (\<lambda>(i, _). Ok \<lparr>tc_teleport_id = i\<rparr>)"

definition decode_ChatCommand :: "bytes \<Rightarrow> (CodecError, ChatCommand) outcome" where
  "decode_ChatCommand data =
     and_then (read_string data) (\<lambda>(command, _). Ok \<lparr>cc_command = command\<rparr>)"

definition decode_ClientCommand :: "bytes \<Rightarrow> (CodecError, ClientCommand) outcome" where
  "decode_ClientCommand data =
     and_then (read_varint_enum data) (\<lambda>(action, _). Ok \<lparr>clco_action = action\<rparr>)"

definition decode_PlayerCommand :: "bytes \<Rightarrow> (CodecError, PlayerCommand) outcome" where
  "decode_PlayerCommand data =
     and_then (read_varint_enum data) (\<lambda>(entity_id, offset).
     field read_varint_enum data offset (\<lambda>action offset.
     field read_varint_enum data offset (\<lambda>d _.
       Ok \<lparr>pc_entity_id = entity_id, pc_action = action, pc_data = d\<rparr>)))"

definition decode_PlayerInput :: "bytes \<Rightarrow> (CodecError, PlayerInput) outcome" where
  "decode_PlayerInput data =
     (if length data < 11 then Err (Malformed ''PlayerInput too short'')
      else let flags = ucast (data ! 0) OR push_bit 8 (ucast (data ! 1)) OR push_bit 16 (ucast (data ! 2) :: u32);
               sideways = from_be (rev (take 4 (drop 3 data)));
               forward = from_be (rev (take 4 (drop 7 data)))
           in Ok \<lparr>pi_input_flags = flags, pi_move_vector = (sideways, forward),
                  pi_is_sprint = (flags AND 0x20 \<noteq> 0), pi_is_sneak = (flags AND 0x10 \<noteq> 0)\<rparr>)"

definition decode_ContainerClick :: "bytes \<Rightarrow> (CodecError, ContainerClick) outcome" where
  "decode_ContainerClick data =
     (if data = [] then Err (Malformed ''too short'')
      else
        field read_varint_enum data 1 (\<lambda>state_id off.
        if off + 2 > length data then Err (Malformed ''too short for slot'')
        else let slot = from_be (take 2 (drop off data));
                 off = off + 2;
                 button = (case nth_opt data off of Some b \<Rightarrow> b | None \<Rightarrow> 0);
                 off = off + 1
             in field read_varint_enum data off (\<lambda>mode _.
                  Ok \<lparr>cocl_window_id = data ! 0, cocl_state_id = state_id,
                      cocl_slot = slot, cocl_button = button,
                      cocl_mode = mode\<rparr>)))"

definition decode_ContainerClose :: "bytes \<Rightarrow> (CodecError, ContainerClose) outcome" where
  "decode_ContainerClose data =
     (if data = [] then Err (Malformed ''too short'') else Ok \<lparr>conclo_window_id = data ! 0\<rparr>)"

definition decode_SetHeldItemS2C :: "bytes \<Rightarrow> (CodecError, SetHeldItemS2C) outcome" where
  "decode_SetHeldItemS2C data =
     (if data = [] then Err (Malformed ''too short'') else Ok \<lparr>shisc_slot = data ! 0\<rparr>)"

definition decode_CookieResponse :: "bytes \<Rightarrow> (CodecError, CookieResponse) outcome" where
  "decode_CookieResponse data =
     and_then (read_string data) (\<lambda>(key, offset).
     field read_bool data offset (\<lambda>has_payload offset.
       if has_payload then
         field read_varint_enum data offset (\<lambda>len offset.
         bytes_at ''cookie payload too short'' data offset (usize_add offset (i32_as_usize len)) (\<lambda>p.
           Ok \<lparr>core_key = key, core_payload = Some p\<rparr>))
       else Ok \<lparr>core_key = key, core_payload = None\<rparr>))"

definition decode_ResourcePackResponse :: "bytes \<Rightarrow> (CodecError, ResourcePackResponse) outcome" where
  "decode_ResourcePackResponse data =
     and_then (read_uuid data) (\<lambda>(uuid, offset).
     field read_varint_enum data offset (\<lambda>result _.
       Ok \<lparr>rpr_uuid = uuid, rpr_result = result\<rparr>))"

text \<open>After the first effect the offset is set to the number of bytes read, not advanced by it.\<close>

definition decode_ChangeBeaconEffect :: "bytes \<Rightarrow> (CodecError, ChangeBeaconEffect) outcome" where
  "decode_ChangeBeaconEffect data =
     (if length data < 2 then Err (Malformed ''too short'')
      else
        and_then
          (if data ! 0 \<noteq> 0
           then and_then (tail_from data 2) (\<lambda>d. and_then (read_varint_enum d) (\<lambda>(v, off). Ok (Some v, off)))
           else Ok (None, 2)) (\<lambda>(primary, off).
        and_then
          (if data ! 1 \<noteq> 0
           then field read_varint_enum data off (\<lambda>v _. Ok (Some v))
           else Ok None) (\<lambda>secondary.
        Ok \<lparr>chbeef_primary_effect = primary, chbeef_secondary_effect = secondary\<rparr>)))"

definition decode_MessageAcknowledgment :: "bytes \<Rightarrow> (CodecError, MessageAcknowledgment) outcome" where
  "decode_MessageAcknowledgment data =
     and_then (read_varint_enum data) (\<lambda>(n, _). Ok \<lparr>ma_message_count = n\<rparr>)"

text \<open>How \<open>handle_player_action\<close>, \<open>handle_use_item_on\<close> and the arm \<open>0x42\<close> of the play loop take a
block position apart.\<close>

definition unpack_position :: "i64 \<Rightarrow> i32 \<times> i32 \<times> i32" where
  "unpack_position raw =
     (ucast (signed_drop_bit 38 raw), ucast (signed_drop_bit 52 (push_bit 52 raw)),
      ucast (signed_drop_bit 12 raw) AND 0x3FFFFFF)"

section \<open>Encoders and decoders together\<close>

lemma field_at:
  assumes "rd (e @ rest) = Ok (v, n)" "offset = length pre"
  shows "field rd (pre @ e @ rest) offset k = k v (offset + n)"
  using assms by (simp add: field_def tail_from_def)

lemma field_Panic: "offset > length data \<Longrightarrow> field rd data offset k = Panic"
  by (simp add: field_def tail_from_def)

lemma unsigned_small: "i32_as_usize (usize_as_i32 n) = n" if "n < 2 ^ 31"
  using that by simp

lemmas whole_fields = varint_wire.dec_enc [where rest = "[]", simplified] i64_wire.dec_enc [where rest = "[]", simplified]
  uuid_wire.dec_enc [where rest = "[]", simplified]

lemma handshake_decodes:
  assumes "storable_string (hp_server_address h)" "hp_next_state h \<in> {Status, Login}"
  shows "decode_HandshakePacket (snd (encode_HandshakePacket h)) = Ok h"
  using assms
  by (auto simp: decode_HandshakePacket_def encode_HandshakePacket_def field_roundtrips field_def
      tail_from_def from_next_state_def whole_fields)

lemma login_start_decodes:
  assumes "storable_string (ls_username l)" "ls_player_uuid l \<noteq> None"
  shows "decode_LoginStart (snd (encode_LoginStart l)) = Ok l"
  using assms
  by (auto simp: decode_LoginStart_def encode_LoginStart_def field_roundtrips field_def tail_from_def whole_fields)



text \<open>What a known pack adds to its packet, and the decoder on a list of them.\<close>

definition pack_bytes :: "KnownPack \<Rightarrow> bytes" where
  "pack_bytes p = write_string (knpa_namespace p) @ write_string (knpa_id p) @ write_string (knpa_version p)"

definition pack_ok :: "KnownPack \<Rightarrow> bool" where
  "pack_ok p \<longleftrightarrow> storable_string (knpa_namespace p) \<and> storable_string (knpa_id p) \<and>
     storable_string (knpa_version p)"

lemma read_packs_written:
  "\<forall>p \<in> set ps. pack_ok p \<Longrightarrow>
     read_packs (length ps) (pre @ concat (map pack_bytes ps)) (length pre) = Ok ps"
proof (induction ps arbitrary: pre)
  case (Cons p ps)
  from Cons.prems have ok: "storable_string (knpa_namespace p)" "storable_string (knpa_id p)"
    "storable_string (knpa_version p)" by (auto simp: pack_ok_def)
  have "read_packs (length ps) ((pre @ pack_bytes p) @ concat (map pack_bytes ps)) (length (pre @ pack_bytes p)) = Ok ps"
    using Cons.prems by (intro Cons.IH) simp
  then show ?case
    using ok by (simp add: field_def tail_from_def pack_bytes_def [of p] string_wire.dec_enc add.assoc)
qed simp

text \<open>The list of known packs the server sends is what the decoder of the client's answer
reads from the same bytes.\<close>

theorem known_packs_roundtrip:
  assumes "\<forall>p \<in> set ps. pack_ok p" "length ps < 2 ^ 31"
  shows "decode_ServerboundKnownPacks (snd (encode_KnownPacks \<lparr>kp_known_packs = ps\<rparr>)) =
    Ok \<lparr>skp_known_packs = ps\<rparr>"
proof -
  have n: "nat (sint (usize_as_i32 (length ps))) = length ps"
    using assms(2) by (simp add: sint_usize_as_i32)
  have e: "snd (encode_KnownPacks \<lparr>kp_known_packs = ps\<rparr>) =
      write_varint_bytes (usize_as_i32 (length ps)) @ concat (map pack_bytes ps)"
    by (simp add: encode_KnownPacks_def pack_bytes_def [abs_def])
  show ?thesis
    unfolding e decode_ServerboundKnownPacks_def
    using read_packs_written [OF assms(1), of "write_varint_bytes (usize_as_i32 (length ps))"]
    by (simp add: varint_wire.dec_enc n)
qed

theorem known_packs_roundtrip_witness:
  "decode_ServerboundKnownPacks (snd (encode_KnownPacks \<lparr>kp_known_packs =
      [\<lparr>knpa_namespace = [0x68], knpa_id = [0x69], knpa_version = [0x31]\<rparr>]\<rparr>)) =
    Ok \<lparr>skp_known_packs =
      [\<lparr>knpa_namespace = [0x68], knpa_id = [0x69], knpa_version = [0x31]\<rparr>]\<rparr>"
  by (rule known_packs_roundtrip) (simp_all add: pack_ok_def storable_string_def utf8_lead_def)

section \<open>Packets that stop the server\<close>

text \<open>A declared length from -5 to -1: the end of the field wraps around below its start.\<close>

lemma negative_length_wraps:
  assumes "- int offset \<le> sint len" "sint (len :: i32) < 0" "offset < 2 ^ 32"
  shows "usize_add offset (i32_as_usize len) = nat (int offset + sint len)"
proof -
  have "i32_as_usize len = nat (sint len + 2 ^ 64)"
    using assms(2) by (rule i32_as_usize_neg)
  moreover have "- (2 ^ 31) \<le> sint len" using read_varint_sint_bounds [of len] by simp
  ultimately have "offset + i32_as_usize len = nat (int offset + sint len) + 2 ^ 64"
    using assms by (simp add: nat_add_distrib)
  moreover have "nat (int offset + sint len) < 2 ^ 64" using assms by simp
  ultimately show ?thesis by (simp add: usize_add_def)
qed

lemma bytes_at_negative:
  assumes "- int offset \<le> sint len" "sint (len :: i32) < 0" "offset < 2 ^ 32" "offset \<le> length data"
  shows "bytes_at msg data offset (usize_add offset (i32_as_usize len)) k = Panic"
proof -
  have "nat (int offset + sint len) < offset" using assms(1,2) by linarith
  then show ?thesis
    using assms(4) by (simp add: negative_length_wraps [OF assms(1-3)] bytes_at_def slice_def)
qed

lemma varint_size_negative: "varint_size len = 5" if "sint len < 0"
proof -
  have "bit len 31"
    using that by (simp add: sint_uint signed_take_bit_negative_iff bit_uint_iff)
  then have "bit_length len = 32"
    by (intro bit_length_unique) (auto dest: bit_imp_le_length)
  moreover have "len \<noteq> 0" using that by auto
  ultimately show ?thesis by (simp add: varint_size_def bit_length_def)
qed

text \<open>C26. An encryption response whose secret declares a length from -5 to -1, a packet of a client
that has not logged in yet, panics: the addition to the offset wraps around below it and passes
the check (the server is built to abort on a panic).\<close>

theorem encryption_response_panics:
  assumes "-5 \<le> sint len" "sint len < 0"
  shows "decode_EncryptionResponse (write_varint_bytes len @ rest) = Panic"
proof -
  have five: "length (write_varint_bytes len) = 5"
    using varint_size_negative [OF assms(2)] by simp
  have p: "bytes_at msg (write_varint_bytes len @ rest) 5 (usize_add 5 (i32_as_usize len)) k = Panic" for msg k
    by (rule bytes_at_negative) (use assms five in simp_all)
  have d: "read_varint_enum (write_varint_bytes len @ rest) = Ok (len, 5)"
    using varint_wire.dec_enc [of len rest] five by simp
  show ?thesis
    by (simp add: decode_EncryptionResponse_def d Let_def p)
qed

theorem encryption_response_panics_witness:
  "decode_EncryptionResponse (write_varint_bytes (-1) @ [0]) = Panic"
  by (rule encryption_response_panics) simp_all

text \<open>A cookie whose payload declares a negative length no further below zero than the bytes
before it panics in the same way.\<close>

theorem cookie_response_panics:
  assumes "storable_string key" "- int (length (write_string key) + 6) \<le> sint len" "sint len < 0"
  shows "decode_CookieResponse (write_string key @ write_bool True @ write_varint_bytes len @ rest) = Panic"
proof -
  let ?n = "length (write_string key)"
  let ?data = "write_string key @ write_bool True @ write_varint_bytes len @ rest"
  have five: "length (write_varint_bytes len) = 5"
    using varint_size_negative [OF assms(3)] by simp
  have small: "?n + 6 < 2 ^ 32"
    using assms(1) length_write_varint_le [of "usize_as_i32 (length key)"]
    by (simp add: storable_string_def write_string_def)
  have p: "bytes_at msg ?data (?n + 6) (usize_add (?n + 6) (i32_as_usize len)) k = Panic" for msg k
    by (rule bytes_at_negative) (use assms five small in \<open>simp_all add: write_bool_def\<close>)
  have d: "read_varint_enum (write_varint_bytes len @ rest) = Ok (len, 5)"
    using varint_wire.dec_enc [of len rest] five by simp
  have b: "read_bool (write_bool True @ xs) = Ok (True, 1)" for xs
    using bool_wire.dec_enc [of True xs] by (simp add: write_bool_def)
  have l: "field read_varint_enum ?data (?n + 1) k = k len (?n + 6)" for k
    using field_at [of read_varint_enum "write_varint_bytes len" rest len 5 "?n + 1" "write_string key @ write_bool True" k] d
    by (simp add: write_bool_def add.commute)
  have f: "field read_bool ?data ?n k = k True (?n + 1)" for k
    by (rule field_at [of read_bool "write_bool True" "write_varint_bytes len @ rest" True 1 _ "write_string key" k, OF b]) simp
  show ?thesis
    using assms(1) by (simp only: decode_CookieResponse_def string_wire.dec_enc and_then.simps f l p prod.case if_True simp_thms)
qed

theorem cookie_response_panics_witness:
  "decode_CookieResponse (write_string [0x68] @ write_bool True @ write_varint_bytes (-3) @ []) = Panic"
  by (rule cookie_response_panics) (simp_all add: storable_string_def utf8_lead_def)

text \<open>A container click panics exactly when the packet ends right after its slot number: the
button is optional, and the mode is read one byte past the end.\<close>

theorem container_click_panics_iff:
  "decode_ContainerClick data = Panic \<longleftrightarrow>
     (\<exists>w body st n. data = w # body \<and> read_varint body = Ok (st, n) \<and> length body = n + 2)"
proof (cases data)
  case (Cons w body)
  show ?thesis
  proof (cases "read_varint body")
    case (Ok r)
    obtain st n where r: "r = (st, n)" by (cases r)
    show ?thesis
      using Ok by (auto simp: Cons r decode_ContainerClick_def field_def tail_from_def read_varint_enum_def
          and_then_eq_Panic Let_def)
  qed (use Cons in \<open>auto simp: decode_ContainerClick_def field_def tail_from_def read_varint_enum_def\<close>)
qed (simp add: decode_ContainerClick_def)

lemma read_varint_byte: "read_varint (b # rest) = Ok (ucast b, 1)" if "b < 128"
proof -
  have "unat b < 128" using that by (simp add: word_less_nat_alt)
  then have small: "take_bit 7 b = b" by (simp add: word_unat_eq_iff unsigned_take_bit_eq take_bit_nat_eq_self del: take_bit_eq_mod)
  have "(0x7F :: u8) = mask 7" by (simp add: mask_numeral)
  then have low: "b AND 0x7F = b" using small by (simp only: flip: take_bit_eq_mask)
  have "bit b i \<Longrightarrow> i < 7" for i using small by (metis bit_take_bit_iff)
  then have "b AND 0x80 = 0" by (intro bit_word_eqI) (auto simp: bit_and_iff bit_0x80)
  then show ?thesis by (simp add: read_varint_def low)
qed

text \<open>Of two beacon effects the second is never read: with a first effect of one byte the decoder
takes the flag in front of it for the second effect.\<close>

theorem beacon_second_effect_lost:
  assumes "varint_size a = 1" "flag \<noteq> 0" "flag < 128"
  shows "decode_ChangeBeaconEffect ([1, flag] @ write_varint_bytes a @ write_varint_bytes b) =
    Ok \<lparr>chbeef_primary_effect = Some a, chbeef_secondary_effect = Some (ucast flag)\<rparr>"
  using assms varint_wire.dec_enc [of a "write_varint_bytes b"]
  by (simp add: decode_ChangeBeaconEffect_def tail_from_def field_def read_varint_enum_def read_varint_byte)

theorem beacon_second_effect_lost_witness:
  "decode_ChangeBeaconEffect ([1, 1] @ write_varint_bytes 11 @ write_varint_bytes 10) =
    Ok \<lparr>chbeef_primary_effect = Some 11, chbeef_secondary_effect = Some 1\<rparr>"
proof -
  have "varint_size 11 = 1" by code_simp
  then show ?thesis using beacon_second_effect_lost [of 11 1 10] by simp
qed

section \<open>Block positions\<close>

lemma bit_above_range:
  assumes "- (2 ^ n) \<le> sint (x :: i32)" "sint x < 2 ^ n" "n \<le> m" "m < 32"
  shows "bit x m = bit x n"
proof -
  have "signed_take_bit n (sint x) = sint x"
    using assms(1,2) by (rule signed_take_bit_int_eq_self)
  then have "bit (sint x) m = bit (signed_take_bit n (sint x)) m" by simp
  also have "\<dots> = bit (sint x) n"
    using assms(3) by (simp add: bit_signed_take_bit_iff min_absorb1)
  finally have "bit (sint x) m = bit (sint x) n" .
  then show ?thesis
    using assms(3,4) by (simp add: bit_sint_iff split: if_splits)
qed

lemma take_bit_negative: "take_bit 26 z = z + 67108864"
  if "- (2 ^ 26) \<le> sint z" "sint z < 0" for z :: i32
proof -
  have "sint z mod 2 ^ 26 = (sint z + 2 ^ 26) mod 2 ^ 26" by simp
  also have "\<dots> = sint z + 2 ^ 26"
    using that by (intro mod_pos_pos_trivial) simp_all
  finally have "sint z mod 2 ^ 26 = sint z + 2 ^ 26" .
  then have "word_of_int (take_bit 26 (sint z)) = (word_of_int (sint z + 2 ^ 26) :: i32)"
    by (simp add: take_bit_eq_mod)
  moreover have "take_bit 26 z = word_of_int (take_bit 26 (sint z))"
    by (rule bit_word_eqI) (simp add: bit_simps)
  ultimately show ?thesis by simp
qed

lemma take_bit_positive: "take_bit 26 z = z" if "0 \<le> sint z" "sint z < 2 ^ 26" for z :: i32
proof -
  have "uint z < 2 ^ 26" using that by (simp add: uint_eq_sint_nonneg)
  then show ?thesis
    by (intro word_uint_eqI) (simp only: unsigned_take_bit_eq, simp add: take_bit_int_eq_self)
qed

text \<open>A block position packed as the protocol has it, within its 26, 12 and 26 bits, is taken
apart again except for a negative \<open>z\<close>, which is read 67108864 blocks further on.\<close>

theorem negative_z_misread:
  assumes "- (2 ^ 25) \<le> sint x" "sint x < 2 ^ 25" "- (2 ^ 11) \<le> sint y" "sint y < 2 ^ 11"
    "- (2 ^ 25) \<le> sint z" "sint z < 2 ^ 25"
  shows "unpack_position (packed_position x y z) =
    (x, y, if sint z < 0 then z + 67108864 else z)"
proof -
  have m: "(0x3FFFFFF :: 'a::len word) = mask 26" "(0xFFF :: 'a word) = mask 12"
    by (simp_all add: mask_numeral)
  let ?raw = "packed_position x y z"
  have raw: "bit ?raw i \<longleftrightarrow> i < 64 \<and> (if i < 12 then bit y i else if i < 38 then bit z (i - 12) else bit x (i - 38))" for i
    unfolding packed_position_def m by (auto simp: bit_simps)
  have x: "bit x i = bit x 25" if "25 < i" "i < 32" for i
    by (rule bit_above_range [OF assms(1,2)]) (use that in simp_all)
  have y: "bit y i = bit y 11" if "11 < i" "i < 32" for i
    by (rule bit_above_range [OF assms(3,4)]) (use that in simp_all)
  have "ucast (signed_drop_bit 38 ?raw) = x"
  proof (rule bit_word_eqI)
    fix n :: nat
    assume "n < LENGTH(32)"
    then show "bit (ucast (signed_drop_bit 38 ?raw) :: i32) n = bit x n"
      using x [of n] by (cases "25 < n") (simp_all add: bit_simps raw)
  qed
  moreover have "ucast (signed_drop_bit 52 (push_bit 52 ?raw)) = y"
  proof (rule bit_word_eqI)
    fix n :: nat
    assume "n < LENGTH(32)"
    then show "bit (ucast (signed_drop_bit 52 (push_bit 52 ?raw)) :: i32) n = bit y n"
      using y [of n] by (cases "11 < n") (simp_all add: bit_simps raw)
  qed
  moreover have "ucast (signed_drop_bit 12 ?raw) AND 0x3FFFFFF = take_bit 26 z"
    unfolding m by (rule bit_word_eqI) (auto simp: bit_simps raw min_def)
  moreover have "take_bit 26 z = (if sint z < 0 then z + 67108864 else z)"
    using assms(5,6) by (simp add: take_bit_negative take_bit_positive)
  ultimately show ?thesis by (simp add: unpack_position_def)
qed

theorem negative_z_misread_witness:
  "unpack_position (packed_position 100 64 (-1)) = (100, 64, 67108863)"
  using negative_z_misread [of 100 64 "-1"] by simp

end
