(* ===== verification/Floats.thy ===== *)
theory Floats
  imports Rust_Base "HOL-Library.Log_Nat"
begin

text \<open>
  The binary floating-point arithmetic of Rust's \<open>f32\<close> and \<open>f64\<close>, on bit patterns: a number is
  its sign, a natural significand and a power of two, every operation is computed exactly and
  rounded once, to the nearest number with ties to the even significand. The width of the word
  chooses the format. Every NaN result is the canonical one, as the sign and the payload of a NaN are left open
  by the language.

  Shown: nothing is below itself, and \<open>max\<close>, \<open>min\<close> and \<open>clamp\<close> keep their bounds.
\<close>

section \<open>Formats\<close>

text \<open>Bits of the fraction: 23 in an \<open>f32\<close>, 52 in an \<open>f64\<close>.\<close>

definition frac_len :: "'a::len itself \<Rightarrow> nat" where
  "frac_len t = (if LENGTH('a) = 32 then 23 else 52)"

text \<open>The all-ones exponent field, of the infinities and NaNs.\<close>

definition exp_top :: "'a::len itself \<Rightarrow> nat" where
  "exp_top t = 2 ^ (LENGTH('a) - 1 - frac_len t) - 1"

text \<open>The exponent of the last place of the smallest numbers: -149 and -1074.\<close>

definition exp_least :: "'a::len itself \<Rightarrow> int" where
  "exp_least t = 2 - 2 ^ (LENGTH('a) - 2 - frac_len t) - int (frac_len t)"

datatype float_value = NotANumber | Infinite bool | Finite bool nat int

definition float_value :: "'a::len word \<Rightarrow> float_value" where
  "float_value w =
     (let p = frac_len TYPE('a);
          s = bit w (LENGTH('a) - 1);
          m = unat w mod 2 ^ p;
          e = unat w div 2 ^ p mod (exp_top TYPE('a) + 1)
      in if e = exp_top TYPE('a) then (if m = 0 then Infinite s else NotANumber)
         else if e = 0 then Finite s m (exp_least TYPE('a))
         else Finite s (m + 2 ^ p) (exp_least TYPE('a) + int e - 1))"

section \<open>Rounding\<close>

text \<open>The quotient by a power of two, to the nearest integer, ties to even.\<close>

definition round_shift :: "nat \<Rightarrow> nat \<Rightarrow> nat" where
  "round_shift m k =
     (let q = m div 2 ^ k; r = m mod 2 ^ k; h = 2 ^ k div 2
      in if k = 0 then m else if r > h \<or> r = h \<and> odd q then q + 1 else q)"

text \<open>The pattern of the number nearest to \<open>m * 2 ^ e\<close>. The exponent field and the fraction are
  one number, so a significand that rounds up to the next power of two carries into the exponent.\<close>

definition float_pack :: "bool \<Rightarrow> nat \<Rightarrow> int \<Rightarrow> 'a::len word" where
  "float_pack s m e =
     (let p = frac_len TYPE('a);
          last = max (e + bitlen (int m) - int (p + 1)) (exp_least TYPE('a));
          sig = (if last \<le> e then m * 2 ^ nat (e - last) else round_shift m (nat (last - e)));
          pat = nat (last - exp_least TYPE('a)) * 2 ^ p + sig
      in word_of_nat ((if s then 2 ^ (LENGTH('a) - 1) else 0) + min pat (exp_top TYPE('a) * 2 ^ p)))"

definition float_inf :: "bool \<Rightarrow> 'a::len word" where
  "float_inf s = word_of_nat ((if s then 2 ^ (LENGTH('a) - 1) else 0) + exp_top TYPE('a) * 2 ^ frac_len TYPE('a))"

definition float_nan :: "'a::len word" where
  "float_nan = word_of_nat (exp_top TYPE('a) * 2 ^ frac_len TYPE('a) + 2 ^ (frac_len TYPE('a) - 1))"

definition float_zero :: "bool \<Rightarrow> 'a::len word" where
  "float_zero s = (if s then push_bit (LENGTH('a) - 1) 1 else 0)"

section \<open>Arithmetic\<close>

definition signed :: "bool \<Rightarrow> nat \<Rightarrow> int" where
  "signed s m = (if s then - int m else int m)"

fun add_values :: "float_value \<Rightarrow> float_value \<Rightarrow> 'a::len word" where
  "add_values (Finite s m e) (Finite t n f) =
     (if m = 0 then (if n = 0 then float_zero (s \<and> t) else float_pack t n f)
      else if n = 0 then float_pack s m e
      else let g = min e f;
               r = signed s m * 2 ^ nat (e - g) + signed t n * 2 ^ nat (f - g)
           in if r = 0 then float_zero False else float_pack (r < 0) (nat \<bar>r\<bar>) g)"
| "add_values (Infinite s) (Infinite t) = (if s = t then float_inf s else float_nan)"
| "add_values (Infinite s) (Finite _ _ _) = float_inf s"
| "add_values (Finite _ _ _) (Infinite t) = float_inf t"
| "add_values _ _ = float_nan"

fun negate_value :: "float_value \<Rightarrow> float_value" where
  "negate_value NotANumber = NotANumber"
| "negate_value (Infinite s) = Infinite (\<not> s)"
| "negate_value (Finite s m e) = Finite (\<not> s) m e"

fun mult_values :: "float_value \<Rightarrow> float_value \<Rightarrow> 'a::len word" where
  "mult_values (Finite s m e) (Finite t n f) =
     (if m = 0 \<or> n = 0 then float_zero (s \<noteq> t) else float_pack (s \<noteq> t) (m * n) (e + f))"
| "mult_values (Infinite s) (Infinite t) = float_inf (s \<noteq> t)"
| "mult_values (Infinite s) (Finite t n _) = (if n = 0 then float_nan else float_inf (s \<noteq> t))"
| "mult_values (Finite s m _) (Infinite t) = (if m = 0 then float_nan else float_inf (s \<noteq> t))"
| "mult_values _ _ = float_nan"

text \<open>A quotient is computed to more places than the format has; a last bit stands for the rest.\<close>

fun div_values :: "float_value \<Rightarrow> float_value \<Rightarrow> 'a::len word" where
  "div_values (Finite s m e) (Finite t n f) =
     (if n = 0 then (if m = 0 then float_nan else float_inf (s \<noteq> t))
      else if m = 0 then float_zero (s \<noteq> t)
      else let k = frac_len TYPE('a) + 3 + nat (bitlen (int n));
               q = m * 2 ^ k div n;
               rest = (if m * 2 ^ k mod n = 0 then 0 else 1)
           in float_pack (s \<noteq> t) (2 * q + rest) (e - f - int k - 1))"
| "div_values (Infinite s) (Infinite t) = float_nan"
| "div_values (Infinite s) (Finite t _ _) = float_inf (s \<noteq> t)"
| "div_values (Finite s _ _) (Infinite t) = float_zero (s \<noteq> t)"
| "div_values _ _ = float_nan"

definition fadd :: "'a::len word \<Rightarrow> 'a word \<Rightarrow> 'a word" where
  "fadd a b = add_values (float_value a) (float_value b)"

definition fsub :: "'a::len word \<Rightarrow> 'a word \<Rightarrow> 'a word" where
  "fsub a b = add_values (float_value a) (negate_value (float_value b))"

definition fmul :: "'a::len word \<Rightarrow> 'a word \<Rightarrow> 'a word" where
  "fmul a b = mult_values (float_value a) (float_value b)"

definition fdiv :: "'a::len word \<Rightarrow> 'a word \<Rightarrow> 'a word" where
  "fdiv a b = div_values (float_value a) (float_value b)"

text \<open>The integer square root, one binary digit after the other; a square root is computed to more
  places than the format has, with a last bit for the rest.\<close>

primrec isqrt_digits :: "nat \<Rightarrow> nat \<Rightarrow> nat \<Rightarrow> nat" where
  "isqrt_digits n 0 r = r"
| "isqrt_digits n (Suc k) r = isqrt_digits n k (if (r + 2 ^ k) * (r + 2 ^ k) \<le> n then r + 2 ^ k else r)"

definition isqrt :: "nat \<Rightarrow> nat" where
  "isqrt n = isqrt_digits n (nat (bitlen (int n))) 0"

fun sqrt_value :: "float_value \<Rightarrow> 'a::len word" where
  "sqrt_value (Finite s m e) =
     (if m = 0 then float_zero s
      else if s then float_nan
      else let k = 2 * (frac_len TYPE('a) + 3) + (if even e then 0 else 1);
               n = m * 2 ^ k;
               q = isqrt n
           in float_pack False (2 * q + (if q * q = n then 0 else 1)) ((e - int k) div 2 - 1))"
| "sqrt_value (Infinite s) = (if s then float_nan else float_inf False)"
| "sqrt_value NotANumber = float_nan"

definition fsqrt :: "'a::len word \<Rightarrow> 'a word" where
  "fsqrt a = sqrt_value (float_value a)"

definition fabs :: "'a::len word \<Rightarrow> 'a word" where
  "fabs a = take_bit (LENGTH('a) - 1) a"

section \<open>Comparison\<close>

definition value_less :: "bool \<Rightarrow> nat \<Rightarrow> int \<Rightarrow> bool \<Rightarrow> nat \<Rightarrow> int \<Rightarrow> bool" where
  "value_less s m e t n f =
     (if m = 0 then n > 0 \<and> \<not> t
      else if n = 0 then s
      else let g = min e f in signed s m * 2 ^ nat (e - g) < signed t n * 2 ^ nat (f - g))"

fun less_values :: "float_value \<Rightarrow> float_value \<Rightarrow> bool" where
  "less_values (Finite s m e) (Finite t n f) = value_less s m e t n f"
| "less_values (Infinite s) (Infinite t) = (s \<and> \<not> t)"
| "less_values (Infinite s) (Finite _ _ _) = s"
| "less_values (Finite _ _ _) (Infinite t) = (\<not> t)"
| "less_values _ _ = False"

definition is_nan :: "'a::len word \<Rightarrow> bool" where
  "is_nan a = (case float_value a of NotANumber \<Rightarrow> True | _ \<Rightarrow> False)"

definition flt :: "'a::len word \<Rightarrow> 'a word \<Rightarrow> bool" where
  "flt a b = less_values (float_value a) (float_value b)"

definition fle :: "'a::len word \<Rightarrow> 'a word \<Rightarrow> bool" where
  "fle a b = (\<not> is_nan a \<and> \<not> is_nan b \<and> \<not> flt b a)"

definition feq :: "'a::len word \<Rightarrow> 'a word \<Rightarrow> bool" where
  "feq a b = (fle a b \<and> fle b a)"

text \<open>Rust's \<open>max\<close> and \<open>min\<close> return the other argument of a NaN; \<open>clamp\<close> keeps a NaN.\<close>

definition fmax :: "'a::len word \<Rightarrow> 'a word \<Rightarrow> 'a word" where
  "fmax a b = (if is_nan a \<or> flt a b then b else a)"

definition fmin :: "'a::len word \<Rightarrow> 'a word \<Rightarrow> 'a word" where
  "fmin a b = (if is_nan a \<or> flt b a then b else a)"

definition fclamp :: "'a::len word \<Rightarrow> 'a word \<Rightarrow> 'a word \<Rightarrow> 'a word" where
  "fclamp a lo hi = (if flt a lo then lo else if flt hi a then hi else a)"

section \<open>Conversions\<close>

definition float_of_int :: "int \<Rightarrow> 'a::len word" where
  "float_of_int i = (if i = 0 then 0 else float_pack (i < 0) (nat \<bar>i\<bar>) 0)"

text \<open>\<open>i32 as f32\<close> and \<open>u8 as f32\<close> read the bits as signed or unsigned.\<close>

definition float_of_signed :: "'b::len word \<Rightarrow> 'a::len word" where
  "float_of_signed v = float_of_int (sint v)"

definition float_of_unsigned :: "'b::len word \<Rightarrow> 'a::len word" where
  "float_of_unsigned v = float_of_int (uint v)"

text \<open>A decimal literal is the number nearest to its fraction.\<close>

definition flit :: "int \<Rightarrow> int \<Rightarrow> 'a::len word" where
  "flit n d = fdiv (float_of_int n) (float_of_int d)"

text \<open>The integer below, and towards zero, of a finite number.\<close>

definition floor_value :: "bool \<Rightarrow> nat \<Rightarrow> int \<Rightarrow> int" where
  "floor_value s m e = (if e \<ge> 0 then signed s m * 2 ^ nat e else signed s m div 2 ^ nat (- e))"

definition trunc_value :: "bool \<Rightarrow> nat \<Rightarrow> int \<Rightarrow> int" where
  "trunc_value s m e = (if s then - floor_value False m e else floor_value False m e)"

definition saturate :: "int \<Rightarrow> int \<Rightarrow> int \<Rightarrow> int" where
  "saturate lo hi i = max lo (min hi i)"

text \<open>\<open>x.floor() as i32\<close>, \<open>x.ceil() as i32\<close> and \<open>x as i32\<close>: saturating, and 0 for a NaN.\<close>

definition floor_i32 :: "'a::len word \<Rightarrow> i32" where
  "floor_i32 x = (case float_value x of NotANumber \<Rightarrow> 0
     | Infinite s \<Rightarrow> word_of_int (if s then - (2 ^ 31) else 2 ^ 31 - 1)
     | Finite s m e \<Rightarrow> word_of_int (saturate (- (2 ^ 31)) (2 ^ 31 - 1) (floor_value s m e)))"

definition ceil_i32 :: "'a::len word \<Rightarrow> i32" where
  "ceil_i32 x = (case float_value x of NotANumber \<Rightarrow> 0
     | Infinite s \<Rightarrow> word_of_int (if s then - (2 ^ 31) else 2 ^ 31 - 1)
     | Finite s m e \<Rightarrow> word_of_int (saturate (- (2 ^ 31)) (2 ^ 31 - 1) (- floor_value (\<not> s) m e)))"

definition trunc_i32 :: "'a::len word \<Rightarrow> i32" where
  "trunc_i32 x = (case float_value x of NotANumber \<Rightarrow> 0
     | Infinite s \<Rightarrow> word_of_int (if s then - (2 ^ 31) else 2 ^ 31 - 1)
     | Finite s m e \<Rightarrow> word_of_int (saturate (- (2 ^ 31)) (2 ^ 31 - 1) (trunc_value s m e)))"

section \<open>Square roots\<close>

lemma isqrt_digits_bounds:
  assumes "r * r \<le> n" "n < (r + 2 ^ k) * (r + 2 ^ k)"
  shows "isqrt_digits n k r * isqrt_digits n k r \<le> n \<and> n < (isqrt_digits n k r + 1) * (isqrt_digits n k r + 1)"
  using assms
proof (induction k arbitrary: r)
  case (Suc k)
  then show ?case
    by (cases "(r + 2 ^ k) * (r + 2 ^ k) \<le> n") (simp_all add: add.assoc mult_2 not_le)
qed simp

text \<open>The integer square root is exact.\<close>

lemma isqrt_exact: "isqrt n * isqrt n \<le> n \<and> n < (isqrt n + 1) * (isqrt n + 1)"
  unfolding isqrt_def
proof (rule isqrt_digits_bounds)
  have "int n < 2 ^ nat (bitlen (int n))"
    using bitlen_bounds [of "int n"] by (cases "n = 0") (auto simp: bitlen_def)
  then have "n < 2 ^ nat (bitlen (int n))" by (metis of_nat_less_iff of_nat_numeral of_nat_power)
  then show "n < (0 + 2 ^ nat (bitlen (int n))) * (0 + 2 ^ nat (bitlen (int n)))"
    by (rule less_le_trans) simp
qed simp

section \<open>Bounds\<close>

lemma value_less_irrefl: "\<not> value_less s m e s m e"
  by (simp add: value_less_def)

lemma less_values_irrefl [simp]: "\<not> less_values v v"
  by (cases v) (simp_all add: value_less_irrefl)

lemma flt_irrefl [simp]: "\<not> flt a a"
  by (simp add: flt_def)

lemma flt_not_nan: "flt a b \<Longrightarrow> \<not> is_nan a \<and> \<not> is_nan b"
  by (cases "float_value a"; cases "float_value b") (simp_all add: flt_def is_nan_def)

lemma fmax_not_below [simp]: "\<not> flt (fmax a b) b"
  by (simp add: fmax_def)

lemma fmin_not_above [simp]: "\<not> flt b (fmin a b)"
  by (simp add: fmin_def)

lemma fclamp_between: "\<not> flt hi lo \<Longrightarrow> \<not> flt (fclamp a lo hi) lo \<and> \<not> flt hi (fclamp a lo hi)"
  by (simp add: fclamp_def)

end
