(* ===== verification/Effects.thy ===== *)
theory Effects
  imports Blocks
begin

text \<open>
  Status effects, \<open>mc-core/src/effect.rs\<close>: the forty effects, their protocol identifiers, the
  names the commands accept, and an effect that runs on a player.

  Shown: identifiers and effects are in bijection, and every identifier from 40 on is none.
\<close>

datatype EffectType =
  Speed | Slowness | Haste | MiningFatigue | Strength | InstantHealth | InstantDamage |
  JumpBoost | Nausea | Regeneration | Resistance | FireResistance | WaterBreathing |
  Invisibility | Blindness | NightVision | Hunger | Weakness | Poison | Wither | HealthBoost |
  Absorption | Saturation | Glowing | Levitation | Luck | Unluck | SlowFalling | ConduitPower |
  DolphinGrace | BadOmen | HeroOfTheVillage | Darkness | TrialOmen | RaidOmen | WindCharged |
  Weaving | Oozing | Infested | BreathOfTheNautilus

definition effect_ids :: "(EffectType \<times> u8) list" where
  "effect_ids =
    [(Speed, 0), (Slowness, 1), (Haste, 2), (MiningFatigue, 3), (Strength, 4),
     (InstantHealth, 5), (InstantDamage, 6), (JumpBoost, 7), (Nausea, 8), (Regeneration, 9),
     (Resistance, 10), (FireResistance, 11), (WaterBreathing, 12), (Invisibility, 13),
     (Blindness, 14), (NightVision, 15), (Hunger, 16), (Weakness, 17), (Poison, 18),
     (Wither, 19), (HealthBoost, 20), (Absorption, 21), (Saturation, 22), (Glowing, 23),
     (Levitation, 24), (Luck, 25), (Unluck, 26), (SlowFalling, 27), (ConduitPower, 28),
     (DolphinGrace, 29), (BadOmen, 30), (HeroOfTheVillage, 31), (Darkness, 32), (TrialOmen, 33),
     (RaidOmen, 34), (WindCharged, 35), (Weaving, 36), (Oozing, 37), (Infested, 38),
     (BreathOfTheNautilus, 39)]"

definition effect_id :: "EffectType \<Rightarrow> u8" where
  "effect_id e = (case map_of effect_ids e of Some i \<Rightarrow> i | None \<Rightarrow> 0)"

definition effect_codes :: "(u8 \<times> EffectType) list" where
  "effect_codes =
    [(0, Speed), (1, Slowness), (2, Haste), (3, MiningFatigue), (4, Strength),
     (5, InstantHealth), (6, InstantDamage), (7, JumpBoost), (8, Nausea), (9, Regeneration),
     (10, Resistance), (11, FireResistance), (12, WaterBreathing), (13, Invisibility),
     (14, Blindness), (15, NightVision), (16, Hunger), (17, Weakness), (18, Poison),
     (19, Wither), (20, HealthBoost), (21, Absorption), (22, Saturation), (23, Glowing),
     (24, Levitation), (25, Luck), (26, Unluck), (27, SlowFalling), (28, ConduitPower),
     (29, DolphinGrace), (30, BadOmen), (31, HeroOfTheVillage), (32, Darkness), (33, TrialOmen),
     (34, RaidOmen), (35, WindCharged), (36, Weaving), (37, Oozing), (38, Infested),
     (39, BreathOfTheNautilus)]"

definition effect_from_id :: "u8 \<Rightarrow> EffectType option" where
  "effect_from_id i = map_of effect_codes i"

definition is_instant :: "EffectType \<Rightarrow> bool" where
  "is_instant e \<longleftrightarrow> e \<in> {InstantHealth, InstantDamage}"

definition is_beneficial :: "EffectType \<Rightarrow> bool" where
  "is_beneficial e \<longleftrightarrow> e \<notin> {Slowness, MiningFatigue, InstantDamage, Nausea, Blindness, Hunger, Weakness, Poison, Wither,
     Unluck, Darkness, BadOmen, TrialOmen, RaidOmen, WindCharged, Weaving, Oozing, Infested}"

text \<open>The name in lower case; the command line gives ASCII names.\<close>

definition ascii_lower :: "char \<Rightarrow> char" where
  "ascii_lower c =
     (let n = of_char c :: nat in if 65 \<le> n \<and> n \<le> 90 then char_of (n + 32) else c)"

definition resolve_effect :: "string \<Rightarrow> EffectType option" where
  "resolve_effect name = map_of
    [(''speed'', Speed), (''slowness'', Slowness), (''haste'', Haste),
     (''mining_fatigue'', MiningFatigue), (''miningfatigue'', MiningFatigue),
     (''strength'', Strength), (''instant_health'', InstantHealth),
     (''instanthealth'', InstantHealth), (''heal'', InstantHealth),
     (''instant_damage'', InstantDamage), (''instantdamage'', InstantDamage),
     (''harm'', InstantDamage), (''jump_boost'', JumpBoost), (''jumpboost'', JumpBoost),
     (''nausea'', Nausea), (''regeneration'', Regeneration), (''regen'', Regeneration),
     (''resistance'', Resistance), (''fire_resistance'', FireResistance),
     (''fireresistance'', FireResistance), (''water_breathing'', WaterBreathing),
     (''waterbreathing'', WaterBreathing), (''invisibility'', Invisibility),
     (''invis'', Invisibility), (''blindness'', Blindness), (''night_vision'', NightVision),
     (''nightvision'', NightVision), (''hunger'', Hunger), (''weakness'', Weakness),
     (''poison'', Poison), (''wither'', Wither), (''health_boost'', HealthBoost),
     (''healthboost'', HealthBoost), (''absorption'', Absorption), (''saturation'', Saturation),
     (''glowing'', Glowing), (''levitation'', Levitation), (''luck'', Luck),
     (''unluck'', Unluck), (''slow_falling'', SlowFalling), (''slowfalling'', SlowFalling),
     (''conduit_power'', ConduitPower), (''conduitpower'', ConduitPower),
     (''dolphin_grace'', DolphinGrace), (''dolphinsgrace'', DolphinGrace),
     (''bad_omen'', BadOmen), (''badomen'', BadOmen),
     (''hero_of_the_village'', HeroOfTheVillage), (''heroofthevillage'', HeroOfTheVillage),
     (''darkness'', Darkness), (''trial_omen'', TrialOmen), (''raid_omen'', RaidOmen),
     (''wind_charged'', WindCharged), (''weaving'', Weaving), (''oozing'', Oozing),
     (''infested'', Infested), (''breath_of_the_nautilus'', BreathOfTheNautilus)]
    (map ascii_lower name)"

record ActiveEffect =
  ae_effect :: EffectType
  ae_amplifier :: u8
  ae_duration_ticks :: u32

section \<open>Identifiers\<close>

lemma effect_from_id_SomeD: "effect_id e = i" if "effect_from_id i = Some e"
proof -
  have "list_all (\<lambda>(i, e). effect_id e = i) effect_codes" by code_simp
  then show ?thesis
    using that by (auto simp: effect_from_id_def list_all_iff dest: map_of_SomeD)
qed

lemma effect_codes_keys: "map fst effect_codes = map word_of_nat [0..<40]"
  by (simp add: effect_codes_def upt_rec)

text \<open>The identifiers of the effects are a bijection onto 0 to 39.\<close>

theorem effect_ids_bijective:
  "effect_from_id (effect_id e) = Some e \<and> (effect_from_id i = Some e \<longleftrightarrow> i = effect_id e) \<and>
   (effect_from_id i = None \<longleftrightarrow> 40 \<le> i)"
proof (intro conjI)
  show from_id: "effect_from_id (effect_id e) = Some e"
    by (cases e) (simp_all add: effect_from_id_def effect_codes_def effect_id_def effect_ids_def)
  show "effect_from_id i = Some e \<longleftrightarrow> i = effect_id e"
    using effect_from_id_SomeD [of i e] from_id by auto
  have "i \<in> set (map word_of_nat [0..<40]) \<longleftrightarrow> unat i < 40"
  proof
    assume "unat i < 40"
    moreover have "i = word_of_nat (unat i)" by simp
    ultimately show "i \<in> set (map word_of_nat [0..<40])"
      by (metis atLeastLessThan_iff image_eqI set_map set_upt zero_le)
  qed (auto simp: unat_of_nat)
  moreover have "effect_from_id i = None \<longleftrightarrow> i \<notin> set (map word_of_nat [0..<40])"
    unfolding effect_from_id_def effect_codes_keys [symmetric] by (simp add: map_of_eq_None_iff)
  ultimately show "effect_from_id i = None \<longleftrightarrow> 40 \<le> i"
    by (simp add: word_le_nat_alt not_less)
qed

end
