(* ===== verification/Enchant.thy ===== *)
theory Enchant
  imports Codec "HOL-Library.AList"
begin

text \<open>
  Enchantments, \<open>mc-player/src/enchant.rs\<close>: the registry, the choice of enchantments at the
  table, and the levels written as text in the NBT of an item, \<open>sharpness(5) fire_aspect(2)\<close>.

  Shown: a rolled list holds no treasure, nothing twice, no two that exclude each other and only
  levels the registry allows; reading the text panics exactly when one of its words has its first
  closing parenthesis before its first opening one.
\<close>

section \<open>The registry\<close>

record EnchantmentEntry =
  en_name :: string
  en_max_level :: u8
  en_category :: string
  en_conflicts :: "string list"
  en_is_treasure :: bool

definition enchantment :: "string \<Rightarrow> u8 \<Rightarrow> string \<Rightarrow> string list \<Rightarrow> bool \<Rightarrow> EnchantmentEntry" where
  "enchantment name mx cat conflicts treasure =
     \<lparr>en_name = name, en_max_level = mx, en_category = cat, en_conflicts = conflicts, en_is_treasure = treasure\<rparr>"

definition enchantment_registry :: "EnchantmentEntry list" where
  "enchantment_registry =
    [enchantment ''protection'' 4 ''armor'' [''fire_protection'', ''blast_protection'', ''projectile_protection''] False,
     enchantment ''fire_protection'' 4 ''armor'' [''protection'', ''blast_protection'', ''projectile_protection''] False,
     enchantment ''blast_protection'' 4 ''armor'' [''protection'', ''fire_protection'', ''projectile_protection''] False,
     enchantment ''projectile_protection'' 4 ''armor'' [''protection'', ''fire_protection'', ''blast_protection''] False,
     enchantment ''thorns'' 3 ''armor'' [] False,
     enchantment ''depth_strider'' 3 ''armor'' [''frost_walker''] False,
     enchantment ''frost_walker'' 2 ''armor'' [''depth_strider''] True,
     enchantment ''respiration'' 3 ''armor'' [] False,
     enchantment ''aqua_affinity'' 1 ''armor'' [] False,
     enchantment ''sharpness'' 5 ''weapon'' [''smite'', ''bane_of_arthropods''] False,
     enchantment ''smite'' 5 ''weapon'' [''sharpness'', ''bane_of_arthropods''] False,
     enchantment ''bane_of_arthropods'' 5 ''weapon'' [''sharpness'', ''smite''] False,
     enchantment ''fire_aspect'' 2 ''weapon'' [] False,
     enchantment ''knockback'' 2 ''weapon'' [] False,
     enchantment ''looting'' 3 ''weapon'' [] False,
     enchantment ''sweeping_edge'' 3 ''weapon'' [] False,
     enchantment ''efficiency'' 5 ''tool'' [] False,
     enchantment ''fortune'' 3 ''tool'' [''silk_touch''] False,
     enchantment ''silk_touch'' 1 ''tool'' [''fortune''] False,
     enchantment ''power'' 5 ''bow'' [] False,
     enchantment ''infinity'' 1 ''bow'' [] False,
     enchantment ''flame'' 1 ''bow'' [] False,
     enchantment ''punch'' 2 ''bow'' [] False,
     enchantment ''piercing'' 4 ''crossbow'' [''multishot''] False,
     enchantment ''multishot'' 1 ''crossbow'' [''piercing''] False,
     enchantment ''quick_charge'' 3 ''crossbow'' [] False,
     enchantment ''loyalty'' 3 ''trident'' [''riptide''] False,
     enchantment ''riptide'' 3 ''trident'' [''loyalty'', ''channeling''] False,
     enchantment ''channeling'' 1 ''trident'' [''riptide''] False,
     enchantment ''impaling'' 5 ''trident'' [] False,
     enchantment ''unbreaking'' 3 ''all'' [] False,
     enchantment ''mending'' 1 ''all'' [] True,
     enchantment ''feather_falling'' 4 ''armor'' [] False,
     enchantment ''soul_speed'' 3 ''armor'' [] True,
     enchantment ''swift_sneak'' 3 ''armor'' [] True,
     enchantment ''luck_of_the_sea'' 3 ''fishing_rod'' [] False,
     enchantment ''lure'' 3 ''fishing_rod'' [] False,
     enchantment ''wind_burst'' 3 ''mace'' [] True,
     enchantment ''density'' 5 ''mace'' [] True,
     enchantment ''breach'' 4 ''mace'' [] True,
     enchantment ''vanishing_curse'' 1 ''all'' [] True,
     enchantment ''binding_curse'' 1 ''armor'' [] True]"

definition item_category :: "u32 \<Rightarrow> string" where
  "item_category i =
     (if i \<in> {785, 786, 787, 788, 789, 792} then ''weapon''
      else if 690 \<le> i \<and> i \<le> 695 then ''weapon''
      else if 796 \<le> i \<and> i \<le> 801 then ''tool''
      else if 802 \<le> i \<and> i \<le> 807 then ''tool''
      else if 810 \<le> i \<and> i \<le> 849 then ''armor''
      else if i = 773 then ''bow''
      else if i = 941 then ''crossbow''
      else if i = 940 then ''trident''
      else ''all'')"

section \<open>Choosing enchantments\<close>

definition enchant_candidates :: "EnchantmentEntry list \<Rightarrow> u32 \<Rightarrow> EnchantmentEntry list" where
  "enchant_candidates reg item =
     filter (\<lambda>e. (en_category e = item_category item \<or> en_category e = ''all'') \<and> \<not> en_is_treasure e) reg"

definition available :: "string list \<Rightarrow> EnchantmentEntry list \<Rightarrow> EnchantmentEntry list" where
  "available chosen cands =
     filter (\<lambda>e. en_name e \<notin> set chosen \<and> (\<forall>c \<in> set (en_conflicts e). c \<notin> set chosen)) cands"

definition rolled_level :: "i32 \<Rightarrow> EnchantmentEntry \<Rightarrow> u8" where
  "rolled_level level e = ucast (min ((level mod ucast (en_max_level e)) + 1) (ucast (en_max_level e) :: u32))"

fun roll_loop :: "nat \<Rightarrow> i32 \<Rightarrow> u32 \<Rightarrow> EnchantmentEntry list \<Rightarrow> string list \<Rightarrow> (string \<times> u8) list" where
  "roll_loop n level item cands chosen =
     (let av = available chosen cands
      in if n = 0 \<or> av = [] then []
         else let e = av ! ((unat level * 13 + unat item * 7) mod length av)
              in (en_name e, rolled_level level e) # roll_loop (n - 1) level item cands (en_name e # chosen))"

declare roll_loop.simps [simp del]

text \<open>The number of rounds, \<open>1 + (level / 15).min(2) as usize\<close>: a negative quotient becomes a huge
  count, and the loop ends when nothing is left to choose.\<close>

definition roll_count :: "i32 \<Rightarrow> nat" where
  "roll_count level =
     (let q = i32_div level 15 in usize_add 1 (i32_as_usize (if q <s 2 then q else 2)))"

definition roll_enchantment :: "u32 \<Rightarrow> i32 \<Rightarrow> (string \<times> u8) list" where
  "roll_enchantment item level =
     roll_loop (roll_count level) level item (enchant_candidates enchantment_registry item) []"

definition bookshelf_level :: "u8 \<Rightarrow> i32" where
  "bookshelf_level n = ucast (min n 15) * 2"

definition xp_cost :: "i32 \<Rightarrow> i32" where
  "xp_cost level = 1 + i32_div level 5"

definition lapis_cost :: "i32 \<Rightarrow> u8" where
  "lapis_cost level = 1 + ucast (i32_div level 15)"

definition find_enchantment :: "string \<Rightarrow> EnchantmentEntry option" where
  "find_enchantment name = List.find (\<lambda>e. en_name e = name) enchantment_registry"

section \<open>The text in an item\<close>

text \<open>\<open>split_whitespace\<close> on UTF-8: the length of the Unicode white space a text starts with, 0 if none.\<close>

fun ws_len :: "bytes \<Rightarrow> nat" where
  "ws_len (a # rest) =
     (if a \<in> {9, 10, 11, 12, 13, 32} then 1
      else case rest of
        [] \<Rightarrow> 0
      | b # rest \<Rightarrow>
          if a = 0xC2 \<and> b \<in> {0x85, 0xA0} then 2
          else case rest of
            [] \<Rightarrow> 0
          | c # _ \<Rightarrow>
              if a = 0xE1 \<and> b = 0x9A \<and> c = 0x80 \<or> a = 0xE3 \<and> b = 0x80 \<and> c = 0x80 \<or>
                 a = 0xE2 \<and> (b = 0x80 \<and> (0x80 \<le> c \<and> c \<le> 0x8A \<or> c \<in> {0xA8, 0xA9, 0xAF}) \<or> b = 0x81 \<and> c = 0x9F)
              then 3 else 0)"
| "ws_len [] = 0"

fun split_ws :: "nat \<Rightarrow> bytes \<Rightarrow> bytes \<Rightarrow> bytes list" where
  "split_ws k cur [] = (if cur = [] then [] else [rev cur])"
| "split_ws (Suc k) cur (b # bs) = split_ws k cur bs"
| "split_ws 0 cur (b # bs) =
     (let n = ws_len (b # bs)
      in if n = 0 then split_ws 0 (b # cur) bs
         else (if cur = [] then [] else [rev cur]) @ split_ws (n - 1) [] bs)"

definition split_whitespace :: "bytes \<Rightarrow> bytes list" where
  "split_whitespace text = split_ws 0 [] text"

fun find_byte :: "u8 \<Rightarrow> bytes \<Rightarrow> nat option" where
  "find_byte b [] = None"
| "find_byte b (x # xs) = (if x = b then Some 0 else map_option Suc (find_byte b xs))"

text \<open>\<open>str::parse::<u8>\<close>: an optional plus sign, then digits below 256 in all.\<close>

definition parse_u8 :: "bytes \<Rightarrow> u8 option" where
  "parse_u8 s =
     (let ds = (case s of [] \<Rightarrow> [] | c # cs \<Rightarrow> if c = 43 then cs else s);
          v = fold (\<lambda>d acc. acc * 10 + (unat d - 48)) ds (0 :: nat)
      in if ds = [] \<or> (\<exists>d \<in> set ds. d < 48 \<or> 57 < d) \<or> v \<ge> 256 then None else Some (word_of_nat v))"

text \<open>One word; \<open>None\<close> is the panic of the slice \<open>part[open + 1..close]\<close>.\<close>

definition parse_part :: "bytes \<Rightarrow> (bytes \<times> u8) option option" where
  "parse_part part =
     (case (find_byte 40 part, find_byte 41 part) of
        (Some opn, Some close) \<Rightarrow>
          (case slice part (opn + 1) close of
             None \<Rightarrow> None
           | Some digits \<Rightarrow> Some (case parse_u8 digits of None \<Rightarrow> None | Some l \<Rightarrow> Some (take opn part, l)))
      | _ \<Rightarrow> Some None)"

fun parse_parts :: "bytes list \<Rightarrow> (bytes \<times> u8) list \<Rightarrow> (bytes \<times> u8) list option" where
  "parse_parts [] m = Some m"
| "parse_parts (p # ps) m =
     (case parse_part p of
        None \<Rightarrow> None
      | Some None \<Rightarrow> parse_parts ps m
      | Some (Some (name, l)) \<Rightarrow> parse_parts ps (AList.update name l m))"

definition parse_item_enchants :: "bytes option \<Rightarrow> (bytes \<times> u8) list option" where
  "parse_item_enchants nbt =
     (case nbt of
        Some data \<Rightarrow> if utf8_valid data then parse_parts (split_whitespace data) [] else Some []
      | None \<Rightarrow> Some [])"

definition ascii :: "string \<Rightarrow> bytes" where
  "ascii s = map of_char s"

definition has_enchant :: "bytes option \<Rightarrow> string \<Rightarrow> bool option" where
  "has_enchant nbt name = map_option (\<lambda>m. map_of m (ascii name) \<noteq> None) (parse_item_enchants nbt)"

definition level_in :: "(bytes \<times> u8) list \<Rightarrow> string \<Rightarrow> u8" where
  "level_in m name = (case map_of m (ascii name) of Some l \<Rightarrow> l | None \<Rightarrow> 0)"

definition enchant_level :: "bytes option \<Rightarrow> string \<Rightarrow> u8 option" where
  "enchant_level nbt name = map_option (\<lambda>m. level_in m name) (parse_item_enchants nbt)"

section \<open>What a roll offers\<close>

definition excludes :: "string \<Rightarrow> string \<Rightarrow> bool" where
  "excludes a b \<longleftrightarrow> list_ex (\<lambda>e. en_name e = a \<and> b \<in> set (en_conflicts e)) enchantment_registry"

definition offered :: "u32 \<Rightarrow> string \<times> u8 \<Rightarrow> bool" where
  "offered item r \<longleftrightarrow> list_ex (\<lambda>e. en_name e = fst r \<and> \<not> en_is_treasure e \<and>
     (en_category e = item_category item \<or> en_category e = ''all'') \<and>
     1 \<le> snd r \<and> snd r \<le> en_max_level e) enchantment_registry"

lemma registry_names_distinct: "distinct (map en_name enchantment_registry)"
  by code_simp

lemma registry_levels_positive: "list_all (\<lambda>e. en_max_level e \<noteq> 0) enchantment_registry"
  by code_simp

lemma registry_symmetric:
  "list_all (\<lambda>e. list_all (\<lambda>c. list_ex (\<lambda>d. en_name d = c \<and> en_name e \<in> set (en_conflicts d)) enchantment_registry)
     (en_conflicts e)) enchantment_registry"
  by code_simp

lemma excludes_sym: "excludes b a" if "excludes a b"
  using that registry_symmetric by (fastforce simp: excludes_def list_all_iff list_ex_iff)

lemma rolled_level_range:
  assumes "en_max_level e \<noteq> 0"
  shows "1 \<le> rolled_level level e \<and> rolled_level level e \<le> en_max_level e"
proof -
  let ?m = "ucast (en_max_level e) :: u32"
  have wide: "unat ?m = unat (en_max_level e)"
    by (simp add: unsigned_ucast_eq take_bit_nat_eq_self order_less_trans [OF unsigned_less])
  have m: "0 < unat ?m" "unat ?m < 256"
    using assms unsigned_less [of "en_max_level e", where 'a = nat] by (simp_all add: wide unat_gt_0)
  have l: "unat (level mod ?m) < unat ?m" using m by (simp add: unat_mod_distrib)
  then have "unat (level mod ?m + 1) = unat (level mod ?m) + 1"
    using m by (subst unat_add_lem [THEN iffD1]) simp_all
  then have u: "unat (min (level mod ?m + 1) ?m) = unat (level mod ?m) + 1"
    using l by (simp add: min_def word_le_nat_alt)
  have "unat (rolled_level level e) = unat (level mod ?m) + 1"
    using u l m unfolding rolled_level_def by (simp add: unsigned_ucast_eq take_bit_nat_eq_self)
  then show ?thesis
    using l by (simp add: word_le_nat_alt wide)
qed

lemma availableD:
  assumes "e \<in> set (available chosen cands)"
  shows "e \<in> set cands" "en_name e \<notin> set chosen" "set (en_conflicts e) \<inter> set chosen = {}"
  using assms by (auto simp: available_def)

lemma roll_loop_from:
  "r \<in> set (roll_loop n level item cands chosen) \<Longrightarrow>
     \<exists>e \<in> set cands. r = (en_name e, rolled_level level e) \<and> en_name e \<notin> set chosen \<and>
       set (en_conflicts e) \<inter> set chosen = {}"
proof (induction n level item cands chosen rule: roll_loop.induct)
  case (1 n level item cands chosen)
  show ?case
  proof (cases "n = 0 \<or> available chosen cands = []")
    case True
    then show ?thesis using "1.prems" by (simp add: roll_loop.simps [of n])
  next
    case False
    let ?e = "available chosen cands ! ((unat level * 13 + unat item * 7) mod length (available chosen cands))"
    have "?e \<in> set (available chosen cands)" using False by simp
    note e = availableD [OF this]
    from False "1.prems" have "r = (en_name ?e, rolled_level level ?e) \<or>
        r \<in> set (roll_loop (n - 1) level item cands (en_name ?e # chosen))"
      by (simp add: roll_loop.simps [of n] Let_def)
    then show ?thesis
    proof
      assume "r = (en_name ?e, rolled_level level ?e)"
      with e show ?thesis by blast
    next
      assume "r \<in> set (roll_loop (n - 1) level item cands (en_name ?e # chosen))"
      from "1.IH" [OF refl False refl this] show ?thesis by auto
    qed
  qed
qed

lemma roll_loop_apart:
  assumes "\<forall>e \<in> set cands. e \<in> set enchantment_registry"
  shows "sorted_wrt (\<lambda>a b. fst a \<noteq> fst b \<and> \<not> excludes (fst b) (fst a)) (roll_loop n level item cands chosen)"
  using assms
proof (induction n level item cands chosen rule: roll_loop.induct)
  case (1 n level item cands chosen)
  show ?case
  proof (cases "n = 0 \<or> available chosen cands = []")
    case True
    then show ?thesis by (simp add: roll_loop.simps [of n])
  next
    case False
    let ?e = "available chosen cands ! ((unat level * 13 + unat item * 7) mod length (available chosen cands))"
    let ?rest = "roll_loop (n - 1) level item cands (en_name ?e # chosen)"
    have unfold: "roll_loop n level item cands chosen = (en_name ?e, rolled_level level ?e) # ?rest"
      using False by (simp add: roll_loop.simps [of n] Let_def)
    have "en_name ?e \<noteq> fst b \<and> \<not> excludes (fst b) (en_name ?e)" if "b \<in> set ?rest" for b
    proof -
      from roll_loop_from [OF that] obtain d where d: "d \<in> set cands" "fst b = en_name d"
        "en_name d \<noteq> en_name ?e" "en_name ?e \<notin> set (en_conflicts d)" by auto
      have "d = d'" if "d' \<in> set enchantment_registry" "en_name d' = en_name d" for d'
        using that d(1) "1.prems" registry_names_distinct by (auto simp: distinct_map inj_on_def)
      then show ?thesis using d by (auto simp: excludes_def list_ex_iff)
    qed
    then show ?thesis
      unfolding unfold using "1.IH" [OF refl False refl "1.prems"] by simp
  qed
qed

lemma sorted_wrt_with: "sorted_wrt P xs \<Longrightarrow> (\<And>a b. P a b \<Longrightarrow> Q a b) \<Longrightarrow> sorted_wrt Q xs"
  by (rule sorted_wrt_mono_rel [of xs P Q]) auto

text \<open>C36. What the enchanting table rolls for an item and a level: enchantments of the item's
category or of all items, none of them a treasure, at levels from one to the registry's maximum,
none twice and no two that exclude each other.\<close>

theorem rolled_enchantments_compatible:
  "list_all (offered item) (roll_enchantment item level) \<and>
   sorted_wrt (\<lambda>a b. fst a \<noteq> fst b \<and> \<not> excludes (fst a) (fst b) \<and> \<not> excludes (fst b) (fst a))
     (roll_enchantment item level)"
proof
  let ?cands = "enchant_candidates enchantment_registry item"
  have c: "\<forall>e \<in> set ?cands. e \<in> set enchantment_registry" by (simp add: enchant_candidates_def)
  show "list_all (offered item) (roll_enchantment item level)"
    unfolding list_all_iff
  proof
    fix r
    assume "r \<in> set (roll_enchantment item level)"
    then obtain e where e: "e \<in> set ?cands" "r = (en_name e, rolled_level level e)"
      using roll_loop_from unfolding roll_enchantment_def by blast
    then have "en_max_level e \<noteq> 0"
      using c registry_levels_positive by (auto simp: list_all_iff)
    then show "offered item r"
      using e rolled_level_range [of e level] by (auto simp: offered_def list_ex_iff enchant_candidates_def)
  qed
  show "sorted_wrt (\<lambda>a b. fst a \<noteq> fst b \<and> \<not> excludes (fst a) (fst b) \<and> \<not> excludes (fst b) (fst a))
     (roll_enchantment item level)"
    unfolding roll_enchantment_def
    by (rule sorted_wrt_with [OF roll_loop_apart [OF c]]) (use excludes_sym in blast)
qed

section \<open>Reading the text\<close>

text \<open>A word whose first closing parenthesis stands before its first opening one.\<close>

definition crossed :: "bytes \<Rightarrow> bool" where
  "crossed part \<longleftrightarrow>
     (case (find_byte 40 part, find_byte 41 part) of (Some opn, Some close) \<Rightarrow> close < opn | _ \<Rightarrow> False)"

lemma find_byte_Some: "find_byte b xs = Some i \<Longrightarrow> i < length xs \<and> xs ! i = b"
  by (induction xs arbitrary: i) (auto split: if_splits)

lemma parse_part_None: "parse_part part = None \<longleftrightarrow> crossed part"
proof -
  have apart: "opn \<noteq> close \<and> close < length part" if "find_byte 40 part = Some opn" "find_byte 41 part = Some close" for opn close
    using that by (auto dest!: find_byte_Some)
  show ?thesis
    by (cases "find_byte 40 part"; cases "find_byte 41 part")
      (use apart in \<open>force simp: parse_part_def crossed_def slice_def split: option.splits\<close>)+
qed

lemma parse_parts_None: "parse_parts ps m = None \<longleftrightarrow> list_ex crossed ps"
proof (induction ps m rule: parse_parts.induct)
  case (2 p ps m)
  show ?case
    using 2 parse_part_None [of p] by (auto split: option.splits)
qed simp

text \<open>C35. Reading the enchantments of an item panics exactly when its NBT is text with a word whose
first closing parenthesis stands before its first opening one.\<close>

theorem enchant_text_panics_iff:
  "parse_item_enchants (Some data) = None \<longleftrightarrow> utf8_valid data \<and> list_ex crossed (split_whitespace data)"
  by (simp add: parse_item_enchants_def parse_parts_None)

end
