(* ===== verification/Players.thy ===== *)
theory Players
  imports Floats Effects Enchant Inventory Geometry
begin

text \<open>
  The manager of the players that are online, \<open>mc-player/src/player.rs\<close>: the players, the bans and
  the white list, the index from chunks to players, and the messages to the connections. The
  \<open>DashMap\<close> of players is an association list; its iteration order, which is arbitrary, is the
  order of the list. It is split into shards, each under one lock that is not reentrant, so a
  thread that holds a guard and touches a player of the same shard waits for itself. The shard of
  a player is a parameter (it comes from a random hash seed). A broadcast channel is the list of what
  was sent.

  Food values of \<open>mc-player/src/food.rs\<close> come first.
\<close>

section \<open>Food\<close>

definition food_values :: "(u32 \<times> i32 \<times> f32) list" where
  "food_values =
    [(772, 4, flit 24 10), (810, 5, flit 60 10), (858, 8, flit 128 10), (860, 8, flit 128 10),
     (859, 3, flit 18 10), (861, 3, flit 18 10), (862, 6, flit 72 10), (863, 2, flit 12 10),
     (864, 6, flit 96 10), (865, 2, flit 12 10), (866, 5, flit 60 10), (874, 5, flit 60 10),
     (855, 5, flit 60 10), (875, 2, flit 4 10), (873, 5, flit 72 10), (872, 1, flit 6 10),
     (870, 3, flit 36 10), (871, 4, flit 24 10), (773, 4, flit 96 10), (1033, 4, flit 96 10),
     (882, 2, flit 4 10), (881, 8, flit 48 10), (878, 2, flit 12 10), (876, 6, flit 72 10),
     (796, 6, flit 72 10), (867, 10, flit 120 10), (879, 2, flit 4 10), (880, 2, flit 4 10),
     (883, 2, flit 4 10), (894, 2, flit 4 10), (885, 1, flit 4 10), (896, 2, flit 4 10),
     (897, 5, flit 60 10), (898, 2, flit 4 10), (899, 1, flit 2 10)]"

definition get_food_value :: "u32 \<Rightarrow> (i32 \<times> f32) option" where
  "get_food_value item = map_of food_values item"

definition is_food :: "u32 \<Rightarrow> bool" where
  "is_food item \<longleftrightarrow> get_food_value item \<noteq> None"

definition eating_duration_ticks :: "u32 \<Rightarrow> u32" where
  "eating_duration_ticks item = (if item = 894 then 16 else 32)"

section \<open>Messages\<close>

datatype BroadcastType = Chat | System | Join | Leave | Kick uuid bytes | Private uuid bytes

record ChatBroadcast =
  cb_sender_name :: bytes
  cb_message :: bytes
  cb_type :: BroadcastType

datatype EntityEventKind =
    Spawn f64 f64 f64 f32 f32
  | MobSpawn i32 f64 f64 f64
  | Move f64 f64 f64 f32 f32
  | Despawn
  | MobDespawn

record PlayerEntityEvent =
  ee_entity_id :: i32
  ee_uuid :: uuid
  ee_username :: bytes
  ee_kind :: EntityEventKind

datatype PlayerStateEventKind =
    HealthUpdate f32
  | GamemodeUpdate GameMode
  | Teleport f64 f64 f64 f32 f32 i32
  | XpUpdate f32 i32 i32
  | FoodUpdate i32 f32
  | Title i32 bytes
  | PlaySound bytes i32 f32 f32
  | StopSound
  | ClearInventory
  | EnchantHeld bytes i32
  | EffectAdd i32 i32 u8 i32 u8
  | EffectRemove i32 i32
  | VillagerTrade i32 i32
  | SwitchDimension bytes f64 f64 f64
  | ScoreboardObjectiveEvent bytes u8 bytes bytes
  | ScoreboardScore bytes bytes i32 u8
  | ScoreboardDisplay u8 bytes
  | TeamUpdate bytes u8 bytes bytes bytes bytes bool "bytes list"
  | BossBarUpdate bytes u8 bytes f32 i32 i32 u8
  | GameEventGlobal u8 f32
  | TransferPlayer bytes i32

record PlayerStateEvent =
  se_uuid :: uuid
  se_kind :: PlayerStateEventKind

section \<open>Players\<close>

record Position =
  pos_x :: f64
  pos_y :: f64
  pos_z :: f64
  pos_yaw :: f32
  pos_pitch :: f32

record FishingState =
  fs_bobber_entity_id :: i32
  fs_wait_ticks :: u32
  fs_bites :: bool
  fs_x :: f64
  fs_y :: f64
  fs_z :: f64

record Player =
  pl_entity_id :: i32
  pl_uuid :: uuid
  pl_username :: bytes
  pl_position :: Position
  pl_gamemode :: GameMode
  pl_health :: f32
  pl_is_op :: bool
  pl_inventory :: Inventory
  pl_fall_distance :: f32
  pl_last_damage_tick :: u64
  pl_active_effects :: "ActiveEffect list"
  pl_is_sprinting :: bool
  pl_is_sneaking :: bool
  pl_is_blocking :: bool
  pl_speed_multiplier :: f32
  pl_mining_multiplier :: f32
  pl_jump_multiplier :: f32
  pl_fall_damage_multiplier :: f32
  pl_swim_speed_multiplier :: f32
  pl_pending_teleport_id :: "i32 option"
  pl_client_view_distance :: u8
  pl_client_locale :: bytes
  pl_last_acknowledged_count :: i32
  pl_known_recipes :: "u16 set"
  pl_xp_bar :: f32
  pl_xp_level :: i32
  pl_xp_total :: i32
  pl_food_level :: i32
  pl_food_saturation :: f32
  pl_food_exhaustion :: f32
  pl_fishing :: "FishingState option"
  pl_tamed_entities :: "i32 list"
  pl_tags :: "bytes set"
  pl_spawn_position :: "(f64 \<times> f64 \<times> f64 \<times> f32) option"
  pl_eating_item :: "u32 option"
  pl_eating_start_tick :: u64
  pl_dimension :: bytes
  pl_cursor_item :: "ItemStack option"
  pl_is_flying :: bool
  pl_absorption_health :: f32
  pl_ac_last_valid :: "f64 \<times> f64 \<times> f64"
  pl_ac_violations :: u8
  pl_ac_last_violation_tick :: u64
  pl_ac_bypass_until :: u64
  pl_last_input_forward :: f32
  pl_last_input_sideways :: f32
  pl_last_input_jump :: bool

record PlayerManager =
  pm_players :: "(uuid \<times> Player) list"
  pm_next_entity_id :: i32
  pm_chat :: "ChatBroadcast list"
  pm_entity_events :: "PlayerEntityEvent list"
  pm_state_events :: "PlayerStateEvent list"
  pm_player_entities :: "(u32 \<times> uuid) list"
  pm_banned :: "uuid set"
  pm_whitelist :: "bool \<times> uuid set"
  pm_chunk_players :: "i32 \<times> i32 \<Rightarrow> uuid list"

end
