(* ===== verification/PlayerOps.thy ===== *)
theory PlayerOps
  imports Players
begin

text \<open>
  The operations of \<open>PlayerManager\<close> (\<open>mc-player/src/player.rs\<close>) that join, look up, move and change
  players; the periodic ones are in \<open>PlayerTicks\<close>. An operation that returns a \<open>Result\<close> leaves the
  manager as it was when it fails.

  Shown: a second login of the same account leaves the first one's end to remove both; a player whose
  saved position is restored is not found near it; instant effects wait for the lock they hold; the
  access lists decide who may join; broken tools.
\<close>

datatype manager_error = Message string | Deadlock | Divergence

section \<open>Access to the players\<close>

definition find_player :: "PlayerManager \<Rightarrow> uuid \<Rightarrow> Player option" where
  "find_player pm u = map_of (pm_players pm) u"

definition put_player :: "uuid \<Rightarrow> Player \<Rightarrow> PlayerManager \<Rightarrow> PlayerManager" where
  "put_player u p pm = pm\<lparr>pm_players := AList.update u p (pm_players pm)\<rparr>"

definition send_state :: "uuid \<Rightarrow> PlayerStateEventKind \<Rightarrow> PlayerManager \<Rightarrow> PlayerManager" where
  "send_state u kind pm =
     pm\<lparr>pm_state_events := pm_state_events pm @ [\<lparr>se_uuid = u, se_kind = kind\<rparr>]\<rparr>"

text \<open>\<open>if let Some(mut p) = self.players.get_mut(uuid)\<close>, and the match that fails otherwise.\<close>

definition if_player :: "uuid \<Rightarrow> (Player \<Rightarrow> Player) \<Rightarrow> PlayerManager \<Rightarrow> PlayerManager" where
  "if_player u f pm = (case find_player pm u of Some p \<Rightarrow> put_player u (f p) pm | None \<Rightarrow> pm)"

definition not_found :: "(manager_error, 'a) outcome" where
  "not_found = Err (Message ''Player not found'')"

definition try_player ::
  "uuid \<Rightarrow> (Player \<Rightarrow> Player) \<Rightarrow> (Player \<Rightarrow> PlayerStateEventKind list) \<Rightarrow> PlayerManager \<Rightarrow>
   (manager_error, PlayerManager) outcome" where
  "try_player u f events pm =
     (case find_player pm u of
        None \<Rightarrow> not_found
      | Some p \<Rightarrow> Ok (fold (send_state u) (events (f p)) (put_player u (f p) pm)))"

text \<open>Touching a player while the guard of another is held.\<close>

definition while_held :: "(uuid \<Rightarrow> nat) \<Rightarrow> uuid \<Rightarrow> uuid \<Rightarrow> (manager_error, 'a) outcome \<Rightarrow> (manager_error, 'a) outcome" where
  "while_held shard held u k = (if shard u = shard held then Err Deadlock else k)"

section \<open>Joining and leaving\<close>

definition new_player_manager :: PlayerManager where
  "new_player_manager =
     \<lparr>pm_players = [], pm_next_entity_id = 0, pm_chat = [], pm_entity_events = [], pm_state_events = [],
      pm_player_entities = [], pm_banned = {}, pm_whitelist = (False, {}), pm_chunk_players = (\<lambda>_. [])\<rparr>"

definition allocate_entity_id :: "PlayerManager \<Rightarrow> i32 \<times> PlayerManager" where
  "allocate_entity_id pm = (pm_next_entity_id pm, pm\<lparr>pm_next_entity_id := pm_next_entity_id pm + 1\<rparr>)"

definition new_player :: "i32 \<Rightarrow> uuid \<Rightarrow> bytes \<Rightarrow> Player" where
  "new_player entity_id u username =
     \<lparr>pl_entity_id = entity_id, pl_uuid = u, pl_username = username,
      pl_position = \<lparr>pos_x = 0, pos_y = float_of_int 64, pos_z = 0, pos_yaw = 0, pos_pitch = 0\<rparr>,
      pl_gamemode = Survival, pl_health = float_of_int 20, pl_is_op = False, pl_inventory = new_inventory,
      pl_fall_distance = 0, pl_last_damage_tick = 0, pl_active_effects = [], pl_is_sprinting = False,
      pl_is_sneaking = False, pl_is_blocking = False, pl_speed_multiplier = float_of_int 1,
      pl_mining_multiplier = float_of_int 1, pl_jump_multiplier = float_of_int 1,
      pl_fall_damage_multiplier = float_of_int 1, pl_swim_speed_multiplier = float_of_int 1,
      pl_pending_teleport_id = None, pl_client_view_distance = 8, pl_client_locale = [],
      pl_last_acknowledged_count = 0, pl_known_recipes = {}, pl_xp_bar = 0, pl_xp_level = 0, pl_xp_total = 0,
      pl_food_level = 20, pl_food_saturation = float_of_int 5, pl_food_exhaustion = 0, pl_fishing = None,
      pl_tamed_entities = [], pl_tags = {}, pl_spawn_position = None, pl_eating_item = None,
      pl_eating_start_tick = 0, pl_dimension = ascii ''minecraft:overworld'', pl_cursor_item = None,
      pl_is_flying = False, pl_absorption_health = 0, pl_ac_last_valid = (0, float_of_int 64, 0),
      pl_ac_violations = 0, pl_ac_last_violation_tick = 0, pl_ac_bypass_until = 0,
      pl_last_input_forward = 0, pl_last_input_sideways = 0, pl_last_input_jump = False\<rparr>"

text \<open>\<open>(v.floor() as i32).div_euclid(16)\<close>.\<close>

definition chunk_coord :: "f64 \<Rightarrow> i32" where
  "chunk_coord v = signed_drop_bit 4 (floor_i32 v)"

definition player_chunk :: "Position \<Rightarrow> i32 \<times> i32" where
  "player_chunk pos = (chunk_coord (pos_x pos), chunk_coord (pos_z pos))"

definition init_player_chunk :: "uuid \<Rightarrow> i32 \<times> i32 \<Rightarrow> PlayerManager \<Rightarrow> PlayerManager" where
  "init_player_chunk u c pm =
     pm\<lparr>pm_chunk_players := (pm_chunk_players pm)(c := pm_chunk_players pm c @ [u])\<rparr>"

definition remove_player_chunk :: "uuid \<Rightarrow> i32 \<times> i32 \<Rightarrow> PlayerManager \<Rightarrow> PlayerManager" where
  "remove_player_chunk u c pm =
     pm\<lparr>pm_chunk_players := (pm_chunk_players pm)(c := filter (\<lambda>v. v \<noteq> u) (pm_chunk_players pm c))\<rparr>"

definition update_player_chunk :: "uuid \<Rightarrow> i32 \<times> i32 \<Rightarrow> i32 \<times> i32 \<Rightarrow> PlayerManager \<Rightarrow> PlayerManager" where
  "update_player_chunk u old new pm = init_player_chunk u new (remove_player_chunk u old pm)"

definition add_player :: "uuid \<Rightarrow> bytes \<Rightarrow> PlayerManager \<Rightarrow> Player \<times> PlayerManager" where
  "add_player u username pm =
     (let (entity_id, pm) = allocate_entity_id pm;
          player = new_player entity_id u username;
          pm = put_player u player pm
      in (player, init_player_chunk u (player_chunk (pl_position player)) pm))"

definition remove_player :: "uuid \<Rightarrow> PlayerManager \<Rightarrow> Player option \<times> PlayerManager" where
  "remove_player u pm =
     (let pm = (case find_player pm u of
                  Some p \<Rightarrow> remove_player_chunk u (player_chunk (pl_position p)) pm
                | None \<Rightarrow> pm)
      in (find_player pm u, pm\<lparr>pm_players := AList.delete u (pm_players pm)\<rparr>))"

section \<open>Looking up\<close>

definition get_by_name :: "(bytes \<Rightarrow> bytes) \<Rightarrow> bytes \<Rightarrow> PlayerManager \<Rightarrow> Player option" where
  "get_by_name to_lowercase username pm =
     List.find (\<lambda>p. to_lowercase (pl_username p) = to_lowercase username) (map snd (pm_players pm))"

definition online_count :: "PlayerManager \<Rightarrow> nat" where
  "online_count pm = length (pm_players pm)"

definition all_players :: "PlayerManager \<Rightarrow> Player list" where
  "all_players pm = map snd (pm_players pm)"

definition others :: "uuid \<Rightarrow> PlayerManager \<Rightarrow> Player list" where
  "others exclude pm = map snd (filter (\<lambda>(u, _). u \<noteq> exclude) (pm_players pm))"

definition distance_squared :: "Position \<Rightarrow> f64 \<Rightarrow> f64 \<Rightarrow> f64 \<Rightarrow> f64" where
  "distance_squared pos x y z =
     (let dx = fsub (pos_x pos) x; dy = fsub (pos_y pos) y; dz = fsub (pos_z pos) z
      in fadd (fadd (fmul dx dx) (fmul dy dy)) (fmul dz dz))"

text \<open>\<open>min_by\<close> keeps the first of equal or incomparable distances.\<close>

fun nearest_of :: "f64 \<Rightarrow> f64 \<Rightarrow> f64 \<Rightarrow> Player \<Rightarrow> Player list \<Rightarrow> Player" where
  "nearest_of x y z best [] = best"
| "nearest_of x y z best (p # ps) =
     nearest_of x y z
       (if flt (distance_squared (pl_position p) x y z) (distance_squared (pl_position best) x y z) then p else best) ps"

definition nearest_player :: "f64 \<Rightarrow> f64 \<Rightarrow> f64 \<Rightarrow> uuid option \<Rightarrow> PlayerManager \<Rightarrow> Player option" where
  "nearest_player x y z exclude pm =
     (case filter (\<lambda>p. exclude \<noteq> Some (pl_uuid p)) (all_players pm) of
        [] \<Rightarrow> None
      | p # ps \<Rightarrow> Some (nearest_of x y z p ps))"

text \<open>\<open>(radius / 16.0).ceil() as i32\<close>, at least 1.\<close>

definition chunk_radius :: "f64 \<Rightarrow> i32" where
  "chunk_radius radius =
     (let c = ceil_i32 (fdiv radius (float_of_int 16)) in if c <s 1 then 1 else c)"

definition chunk_offsets :: "i32 \<Rightarrow> i32 list" where
  "chunk_offsets r = map word_of_int [- sint r..sint r]"

definition in_range_of :: "f64 \<Rightarrow> f64 \<Rightarrow> f64 \<Rightarrow> f64 \<Rightarrow> PlayerManager \<Rightarrow> uuid \<Rightarrow> (uuid \<times> f64) list" where
  "in_range_of x y z r2 pm u =
     (case find_player pm u of
        None \<Rightarrow> []
      | Some p \<Rightarrow> let d2 = distance_squared (pl_position p) x y z in if fle d2 r2 then [(u, d2)] else [])"

definition players_in_range :: "f64 \<Rightarrow> f64 \<Rightarrow> f64 \<Rightarrow> f64 \<Rightarrow> PlayerManager \<Rightarrow> (uuid \<times> f64) list" where
  "players_in_range x y z radius pm =
     (let r2 = fmul radius radius; cx = chunk_coord x; cz = chunk_coord z; r = chunk_radius radius
      in concat (map (\<lambda>dcx. concat (map (\<lambda>dcz.
           concat (map (in_range_of x y z r2 pm) (pm_chunk_players pm (cx + dcx, cz + dcz))))
           (chunk_offsets r))) (chunk_offsets r)))"

definition get_entity_id :: "uuid \<Rightarrow> PlayerManager \<Rightarrow> i32 option" where
  "get_entity_id u pm = map_option pl_entity_id (find_player pm u)"

section \<open>Changing a player\<close>

definition stop_sound :: "uuid \<Rightarrow> PlayerManager \<Rightarrow> (manager_error, PlayerManager) outcome" where
  "stop_sound u pm = Ok (send_state u StopSound pm)"

definition add_tag :: "uuid \<Rightarrow> bytes \<Rightarrow> PlayerManager \<Rightarrow> bool \<times> PlayerManager" where
  "add_tag u tag pm =
     (case find_player pm u of
        Some p \<Rightarrow> (tag \<notin> pl_tags p, put_player u (p\<lparr>pl_tags := insert tag (pl_tags p)\<rparr>) pm)
      | None \<Rightarrow> (False, pm))"

definition remove_tag :: "uuid \<Rightarrow> bytes \<Rightarrow> PlayerManager \<Rightarrow> bool \<times> PlayerManager" where
  "remove_tag u tag pm =
     (case find_player pm u of
        Some p \<Rightarrow> (tag \<in> pl_tags p, put_player u (p\<lparr>pl_tags := pl_tags p - {tag}\<rparr>) pm)
      | None \<Rightarrow> (False, pm))"

definition list_tags :: "uuid \<Rightarrow> PlayerManager \<Rightarrow> bytes set" where
  "list_tags u pm = (case find_player pm u of Some p \<Rightarrow> pl_tags p | None \<Rightarrow> {})"

definition set_spawn_position ::
  "uuid \<Rightarrow> f64 \<Rightarrow> f64 \<Rightarrow> f64 \<Rightarrow> f32 \<Rightarrow> PlayerManager \<Rightarrow> (manager_error, PlayerManager) outcome" where
  "set_spawn_position u x y z yaw = try_player u (\<lambda>p. p\<lparr>pl_spawn_position := Some (x, y, z, yaw)\<rparr>) (\<lambda>_. [])"

definition signed_min :: "i32 \<Rightarrow> i32 \<Rightarrow> i32" where
  "signed_min a b = (if b <s a then b else a)"

definition signed_max :: "i32 \<Rightarrow> i32 \<Rightarrow> i32" where
  "signed_max a b = (if a <s b then b else a)"

definition add_food :: "uuid \<Rightarrow> i32 \<Rightarrow> f32 \<Rightarrow> PlayerManager \<Rightarrow> (manager_error, PlayerManager) outcome" where
  "add_food u nutrition saturation =
     try_player u
       (\<lambda>p. let level = signed_min (pl_food_level p + nutrition) 20
            in p\<lparr>pl_food_level := level,
                 pl_food_saturation := fmin (fadd (pl_food_saturation p) saturation) (float_of_signed level),
                 pl_eating_item := None, pl_eating_start_tick := 0\<rparr>)
       (\<lambda>p. [FoodUpdate (pl_food_level p) (pl_food_saturation p)])"

definition start_eating :: "uuid \<Rightarrow> u32 \<Rightarrow> u64 \<Rightarrow> PlayerManager \<Rightarrow> (manager_error, PlayerManager) outcome" where
  "start_eating u item tick =
     try_player u (\<lambda>p. p\<lparr>pl_eating_item := Some item, pl_eating_start_tick := tick\<rparr>) (\<lambda>_. [])"

definition cancel_eating :: "uuid \<Rightarrow> PlayerManager \<Rightarrow> PlayerManager" where
  "cancel_eating u = if_player u (\<lambda>p. p\<lparr>pl_eating_item := None, pl_eating_start_tick := 0\<rparr>)"

definition saturating_sub64 :: "u64 \<Rightarrow> u64 \<Rightarrow> u64" where
  "saturating_sub64 a b = (if b \<le> a then a - b else 0)"

definition check_eating_done :: "uuid \<Rightarrow> u64 \<Rightarrow> PlayerManager \<Rightarrow> u32 option" where
  "check_eating_done u tick pm =
     (case find_player pm u of
        None \<Rightarrow> None
      | Some p \<Rightarrow> (case pl_eating_item p of
          None \<Rightarrow> None
        | Some item \<Rightarrow>
            if ucast (eating_duration_ticks item) \<le> saturating_sub64 tick (pl_eating_start_tick p) then Some item
            else None))"

definition set_op :: "uuid \<Rightarrow> bool \<Rightarrow> PlayerManager \<Rightarrow> (manager_error, PlayerManager) outcome" where
  "set_op u b = try_player u (\<lambda>p. p\<lparr>pl_is_op := b\<rparr>) (\<lambda>_. [])"

definition set_gamemode :: "uuid \<Rightarrow> GameMode \<Rightarrow> PlayerManager \<Rightarrow> (manager_error, PlayerManager) outcome" where
  "set_gamemode u gm = try_player u (\<lambda>p. p\<lparr>pl_gamemode := gm\<rparr>) (\<lambda>_. [GamemodeUpdate gm])"

definition ac_update_valid :: "uuid \<Rightarrow> f64 \<Rightarrow> f64 \<Rightarrow> f64 \<Rightarrow> u64 \<Rightarrow> PlayerManager \<Rightarrow> PlayerManager" where
  "ac_update_valid u x y z tick =
     if_player u (\<lambda>p. p\<lparr>pl_ac_violations :=
         (if 20 \<le> tick - pl_ac_last_violation_tick p then saturating_sub8 (pl_ac_violations p) 1 else pl_ac_violations p),
       pl_ac_last_valid := (x, y, z)\<rparr>)"

definition saturating_add8 :: "u8 \<Rightarrow> u8 \<Rightarrow> u8" where
  "saturating_add8 a b = (if unat a + unat b < 256 then a + b else 255)"

definition ac_add_violation :: "uuid \<Rightarrow> u64 \<Rightarrow> PlayerManager \<Rightarrow> (u8 \<times> bool) \<times> PlayerManager" where
  "ac_add_violation u tick pm =
     (case find_player pm u of
        Some p \<Rightarrow>
          let v = saturating_add8 (pl_ac_violations p) 2
          in ((v, 8 \<le> v), put_player u (p\<lparr>pl_ac_violations := v, pl_ac_last_violation_tick := tick\<rparr>) pm)
      | None \<Rightarrow> ((0, False), pm))"

definition ac_valid_position :: "uuid \<Rightarrow> PlayerManager \<Rightarrow> (f64 \<times> f64 \<times> f64) option" where
  "ac_valid_position u pm = map_option pl_ac_last_valid (find_player pm u)"

definition ac_reset_violations :: "uuid \<Rightarrow> PlayerManager \<Rightarrow> PlayerManager" where
  "ac_reset_violations u = if_player u (\<lambda>p. p\<lparr>pl_ac_violations := 0\<rparr>)"

definition set_health :: "uuid \<Rightarrow> f32 \<Rightarrow> PlayerManager \<Rightarrow> (manager_error, PlayerManager) outcome" where
  "set_health u health =
     try_player u (\<lambda>p. p\<lparr>pl_health := fmax health 0\<rparr>) (\<lambda>p. [HealthUpdate (pl_health p)])"

definition update_position :: "uuid \<Rightarrow> f64 \<Rightarrow> f64 \<Rightarrow> f64 \<Rightarrow> PlayerManager \<Rightarrow> (manager_error, PlayerManager) outcome" where
  "update_position u x y z =
     try_player u (\<lambda>p. p\<lparr>pl_position := (pl_position p)\<lparr>pos_x := x, pos_y := y, pos_z := z\<rparr>\<rparr>) (\<lambda>_. [])"

definition update_position_full ::
  "uuid \<Rightarrow> f64 \<Rightarrow> f64 \<Rightarrow> f64 \<Rightarrow> f32 \<Rightarrow> f32 \<Rightarrow> PlayerManager \<Rightarrow> (manager_error, PlayerManager) outcome" where
  "update_position_full u x y z yaw pitch =
     try_player u (\<lambda>p. p\<lparr>pl_position := \<lparr>pos_x = x, pos_y = y, pos_z = z, pos_yaw = yaw, pos_pitch = pitch\<rparr>\<rparr>) (\<lambda>_. [])"

definition set_sprinting :: "uuid \<Rightarrow> bool \<Rightarrow> PlayerManager \<Rightarrow> (manager_error, PlayerManager) outcome" where
  "set_sprinting u b = try_player u (\<lambda>p. p\<lparr>pl_is_sprinting := b\<rparr>) (\<lambda>_. [])"

definition set_sneaking :: "uuid \<Rightarrow> bool \<Rightarrow> PlayerManager \<Rightarrow> (manager_error, PlayerManager) outcome" where
  "set_sneaking u b = try_player u (\<lambda>p. p\<lparr>pl_is_sneaking := b\<rparr>) (\<lambda>_. [])"

definition set_movement_input ::
  "uuid \<Rightarrow> f32 \<Rightarrow> f32 \<Rightarrow> bool \<Rightarrow> PlayerManager \<Rightarrow> (manager_error, PlayerManager) outcome" where
  "set_movement_input u forward sideways jump =
     try_player u (\<lambda>p. p\<lparr>pl_last_input_forward := forward, pl_last_input_sideways := sideways,
       pl_last_input_jump := jump\<rparr>) (\<lambda>_. [])"

definition set_blocking :: "uuid \<Rightarrow> bool \<Rightarrow> PlayerManager \<Rightarrow> (manager_error, PlayerManager) outcome" where
  "set_blocking u b = try_player u (\<lambda>p. p\<lparr>pl_is_blocking := b\<rparr>) (\<lambda>_. [])"

definition set_player_dimension :: "uuid \<Rightarrow> bytes \<Rightarrow> PlayerManager \<Rightarrow> (manager_error, PlayerManager) outcome" where
  "set_player_dimension u d = try_player u (\<lambda>p. p\<lparr>pl_dimension := d\<rparr>) (\<lambda>_. [])"

definition get_player_dimension :: "uuid \<Rightarrow> PlayerManager \<Rightarrow> (manager_error, bytes) outcome" where
  "get_player_dimension u pm = (case find_player pm u of Some p \<Rightarrow> Ok (pl_dimension p) | None \<Rightarrow> not_found)"

definition set_xp :: "uuid \<Rightarrow> f32 \<Rightarrow> i32 \<Rightarrow> i32 \<Rightarrow> PlayerManager \<Rightarrow> (manager_error, PlayerManager) outcome" where
  "set_xp u bar level tot =
     try_player u
       (\<lambda>p. p\<lparr>pl_xp_bar := fclamp bar 0 (float_of_int 1), pl_xp_level := signed_max level 0,
            pl_xp_total := signed_max tot 0\<rparr>)
       (\<lambda>p. [XpUpdate (pl_xp_bar p) (pl_xp_level p) (pl_xp_total p)])"

definition set_food :: "uuid \<Rightarrow> i32 \<Rightarrow> f32 \<Rightarrow> PlayerManager \<Rightarrow> (manager_error, PlayerManager) outcome" where
  "set_food u level saturation =
     try_player u
       (\<lambda>p. p\<lparr>pl_food_level := signed_min (signed_max level 0) 20,
            pl_food_saturation := fclamp saturation 0 (float_of_int 20)\<rparr>) (\<lambda>_. [])"

definition set_fishing :: "uuid \<Rightarrow> FishingState \<Rightarrow> PlayerManager \<Rightarrow> (manager_error, PlayerManager) outcome" where
  "set_fishing u st = try_player u (\<lambda>p. p\<lparr>pl_fishing := Some st\<rparr>) (\<lambda>_. [])"

definition clear_fishing :: "uuid \<Rightarrow> PlayerManager \<Rightarrow> (manager_error, PlayerManager) outcome" where
  "clear_fishing u = try_player u (\<lambda>p. p\<lparr>pl_fishing := None\<rparr>) (\<lambda>_. [])"

definition set_flying :: "uuid \<Rightarrow> bool \<Rightarrow> PlayerManager \<Rightarrow> PlayerManager" where
  "set_flying u flying =
     if_player u (\<lambda>p. p\<lparr>pl_is_flying := flying, pl_fall_distance := (if flying then pl_fall_distance p else 0)\<rparr>)"

definition is_player_flying :: "uuid \<Rightarrow> PlayerManager \<Rightarrow> bool" where
  "is_player_flying u pm = (case find_player pm u of Some p \<Rightarrow> pl_is_flying p | None \<Rightarrow> False)"

definition set_speed_multiplier :: "uuid \<Rightarrow> f32 \<Rightarrow> PlayerManager \<Rightarrow> PlayerManager" where
  "set_speed_multiplier u m = if_player u (\<lambda>p. p\<lparr>pl_speed_multiplier := m\<rparr>)"

definition set_pending_teleport :: "uuid \<Rightarrow> i32 \<Rightarrow> PlayerManager \<Rightarrow> PlayerManager" where
  "set_pending_teleport u i = if_player u (\<lambda>p. p\<lparr>pl_pending_teleport_id := Some i\<rparr>)"

definition clear_pending_teleport :: "uuid \<Rightarrow> PlayerManager \<Rightarrow> PlayerManager" where
  "clear_pending_teleport u = if_player u (\<lambda>p. p\<lparr>pl_pending_teleport_id := None\<rparr>)"

definition set_client_view_distance :: "uuid \<Rightarrow> u8 \<Rightarrow> bytes \<Rightarrow> PlayerManager \<Rightarrow> PlayerManager" where
  "set_client_view_distance u view_distance locale =
     if_player u (\<lambda>p. p\<lparr>pl_client_view_distance := view_distance, pl_client_locale := locale\<rparr>)"

definition set_acknowledged_count :: "uuid \<Rightarrow> i32 \<Rightarrow> PlayerManager \<Rightarrow> PlayerManager" where
  "set_acknowledged_count u n = if_player u (\<lambda>p. p\<lparr>pl_last_acknowledged_count := n\<rparr>)"

definition add_known_recipe :: "uuid \<Rightarrow> u16 \<Rightarrow> PlayerManager \<Rightarrow> PlayerManager" where
  "add_known_recipe u r =
     if_player u (\<lambda>p. if card (pl_known_recipes p) < 500
       then p\<lparr>pl_known_recipes := insert r (pl_known_recipes p)\<rparr> else p)"

section \<open>Messages\<close>

definition send_chat :: "bytes \<Rightarrow> bytes \<Rightarrow> BroadcastType \<Rightarrow> PlayerManager \<Rightarrow> PlayerManager" where
  "send_chat sender message t pm =
     pm\<lparr>pm_chat := pm_chat pm @ [\<lparr>cb_sender_name = sender, cb_message = message, cb_type = t\<rparr>]\<rparr>"

definition broadcast_chat :: "bytes \<Rightarrow> bytes \<Rightarrow> bool \<Rightarrow> PlayerManager \<Rightarrow> PlayerManager" where
  "broadcast_chat sender message is_cmd = send_chat sender message (if is_cmd then System else Chat)"

definition send_private_msg :: "bytes \<Rightarrow> uuid \<Rightarrow> bytes \<Rightarrow> PlayerManager \<Rightarrow> PlayerManager" where
  "send_private_msg sender target message = send_chat sender message (Private target message)"

definition broadcast_join :: "bytes \<Rightarrow> PlayerManager \<Rightarrow> PlayerManager" where
  "broadcast_join username = send_chat (ascii ''Server'') (username @ ascii '' joined the game'') Join"

definition broadcast_leave :: "bytes \<Rightarrow> PlayerManager \<Rightarrow> PlayerManager" where
  "broadcast_leave username = send_chat (ascii ''Server'') (username @ ascii '' left the game'') Leave"

definition kick_player :: "uuid \<Rightarrow> bytes \<Rightarrow> PlayerManager \<Rightarrow> PlayerManager" where
  "kick_player u reason = send_chat (ascii ''Server'') reason (Kick u reason)"

definition send_entity :: "i32 \<Rightarrow> uuid \<Rightarrow> bytes \<Rightarrow> EntityEventKind \<Rightarrow> PlayerManager \<Rightarrow> PlayerManager" where
  "send_entity eid u username kind pm =
     pm\<lparr>pm_entity_events := pm_entity_events pm @
         [\<lparr>ee_entity_id = eid, ee_uuid = u, ee_username = username, ee_kind = kind\<rparr>]\<rparr>"

definition broadcast_entity_spawn ::
  "i32 \<Rightarrow> uuid \<Rightarrow> bytes \<Rightarrow> f64 \<Rightarrow> f64 \<Rightarrow> f64 \<Rightarrow> f32 \<Rightarrow> f32 \<Rightarrow> PlayerManager \<Rightarrow> PlayerManager" where
  "broadcast_entity_spawn eid u username x y z yaw pitch = send_entity eid u username (Spawn x y z yaw pitch)"

definition broadcast_entity_move ::
  "i32 \<Rightarrow> uuid \<Rightarrow> f64 \<Rightarrow> f64 \<Rightarrow> f64 \<Rightarrow> f32 \<Rightarrow> f32 \<Rightarrow> PlayerManager \<Rightarrow> PlayerManager" where
  "broadcast_entity_move eid u x y z yaw pitch = send_entity eid u [] (Move x y z yaw pitch)"

definition broadcast_entity_despawn :: "i32 \<Rightarrow> uuid \<Rightarrow> PlayerManager \<Rightarrow> PlayerManager" where
  "broadcast_entity_despawn eid u = send_entity eid u [] Despawn"

definition broadcast_mob_spawn ::
  "i32 \<Rightarrow> uuid \<Rightarrow> i32 \<Rightarrow> f64 \<Rightarrow> f64 \<Rightarrow> f64 \<Rightarrow> PlayerManager \<Rightarrow> PlayerManager" where
  "broadcast_mob_spawn eid u mob_type x y z = send_entity eid u [] (MobSpawn mob_type x y z)"

definition broadcast_mob_despawn :: "i32 \<Rightarrow> uuid \<Rightarrow> PlayerManager \<Rightarrow> PlayerManager" where
  "broadcast_mob_despawn eid u = send_entity eid u [] MobDespawn"

definition broadcast_player_respawn ::
  "uuid \<Rightarrow> bytes \<Rightarrow> f64 \<Rightarrow> f64 \<Rightarrow> f64 \<Rightarrow> PlayerManager \<Rightarrow> (manager_error, PlayerManager) outcome" where
  "broadcast_player_respawn u dimension x y z pm = Ok (send_state u (SwitchDimension dimension x y z) pm)"

definition broadcast_global :: "PlayerStateEventKind \<Rightarrow> PlayerManager \<Rightarrow> PlayerManager" where
  "broadcast_global kind = send_state 0 kind"

definition if_online :: "string \<Rightarrow> uuid \<Rightarrow> PlayerStateEventKind \<Rightarrow> PlayerManager \<Rightarrow> (manager_error, PlayerManager) outcome" where
  "if_online msg u kind pm = (if find_player pm u \<noteq> None then Ok (send_state u kind pm) else Err (Message msg))"

definition send_transfer :: "uuid \<Rightarrow> bytes \<Rightarrow> i32 \<Rightarrow> PlayerManager \<Rightarrow> (manager_error, PlayerManager) outcome" where
  "send_transfer u host port = if_online ''Player not online'' u (TransferPlayer host port)"

definition send_title :: "uuid \<Rightarrow> i32 \<Rightarrow> bytes \<Rightarrow> PlayerManager \<Rightarrow> (manager_error, PlayerManager) outcome" where
  "send_title u action txt = if_online ''Player not found'' u (Title action txt)"

definition play_sound :: "uuid \<Rightarrow> bytes \<Rightarrow> i32 \<Rightarrow> f32 \<Rightarrow> f32 \<Rightarrow> PlayerManager \<Rightarrow> (manager_error, PlayerManager) outcome" where
  "play_sound u name category volume pitch = if_online ''Player not found'' u (PlaySound name category volume pitch)"

section \<open>Inventories\<close>

definition change_slot :: "nat \<Rightarrow> (ItemStack \<Rightarrow> ItemStack option) \<Rightarrow> Inventory \<Rightarrow> Inventory" where
  "change_slot i f bag =
     (case nth_opt (inv_items bag) i of
        Some (Some st) \<Rightarrow> bag\<lparr>inv_items := (inv_items bag)[i := f st]\<rparr>
      | _ \<Rightarrow> bag)"

definition held_slot :: "Player \<Rightarrow> nat" where
  "held_slot p = unat (inv_selected (pl_inventory p))"

definition stack_at :: "Inventory \<Rightarrow> nat \<Rightarrow> ItemStack option" where
  "stack_at bag i = (case nth_opt (inv_items bag) i of Some (Some st) \<Rightarrow> Some st | _ \<Rightarrow> None)"

definition clear_inventory :: "uuid \<Rightarrow> PlayerManager \<Rightarrow> (manager_error, PlayerManager) outcome" where
  "clear_inventory u = try_player u (\<lambda>p. p\<lparr>pl_inventory := new_inventory\<rparr>) (\<lambda>_. [ClearInventory])"

definition set_inventory :: "uuid \<Rightarrow> Inventory \<Rightarrow> PlayerManager \<Rightarrow> (manager_error, PlayerManager) outcome" where
  "set_inventory u bag = try_player u (\<lambda>p. p\<lparr>pl_inventory := bag\<rparr>) (\<lambda>_. [])"

definition get_held_item :: "uuid \<Rightarrow> PlayerManager \<Rightarrow> ItemStack option" where
  "get_held_item u pm =
     (case find_player pm u of Some p \<Rightarrow> stack_at (pl_inventory p) (held_slot p) | None \<Rightarrow> None)"

definition get_held_slot :: "uuid \<Rightarrow> PlayerManager \<Rightarrow> u8 option" where
  "get_held_slot u pm = map_option (\<lambda>p. inv_selected (pl_inventory p)) (find_player pm u)"

text \<open>Wear on the item in hand; true when it breaks.\<close>

definition damage_held_item :: "uuid \<Rightarrow> u16 \<Rightarrow> PlayerManager \<Rightarrow> bool \<times> PlayerManager" where
  "damage_held_item u amount pm =
     (case find_player pm u of
        None \<Rightarrow> (False, pm)
      | Some p \<Rightarrow>
          let i = held_slot p; bag = pl_inventory p in
          (case stack_at bag i of
             None \<Rightarrow> (False, pm)
           | Some st \<Rightarrow> (case it_durability st of
               None \<Rightarrow> (False, pm)
             | Some dur \<Rightarrow>
                 let breaks = dur \<le> amount;
                     after = (if breaks then None else Some (st\<lparr>it_durability := Some (dur - amount)\<rparr>))
                 in (breaks, put_player u (p\<lparr>pl_inventory := change_slot i (\<lambda>_. after) bag\<rparr>) pm))))"

definition saturating_sub16 :: "u16 \<Rightarrow> u16 \<Rightarrow> u16" where
  "saturating_sub16 a b = (if b \<le> a then a - b else 0)"

definition repair_held_item :: "uuid \<Rightarrow> u16 \<Rightarrow> PlayerManager \<Rightarrow> bool \<times> PlayerManager" where
  "repair_held_item u amount pm =
     (case find_player pm u of
        None \<Rightarrow> (False, pm)
      | Some p \<Rightarrow>
          let i = held_slot p; bag = pl_inventory p in
          (case stack_at bag i of
             None \<Rightarrow> (False, pm)
           | Some st \<Rightarrow> (case it_durability st of
               None \<Rightarrow> (False, pm)
             | Some dur \<Rightarrow>
                 (True, put_player u (p\<lparr>pl_inventory := change_slot i
                    (\<lambda>st. Some (st\<lparr>it_durability := Some (saturating_sub16 dur amount)\<rparr>)) bag\<rparr>) pm))))"

definition update_held_item_nbt :: "uuid \<Rightarrow> bytes option \<Rightarrow> PlayerManager \<Rightarrow> PlayerManager" where
  "update_held_item_nbt u nbt =
     if_player u (\<lambda>p. p\<lparr>pl_inventory := change_slot (held_slot p) (\<lambda>st. Some (st\<lparr>it_nbt := nbt\<rparr>)) (pl_inventory p)\<rparr>)"

definition get_cursor_item :: "uuid \<Rightarrow> PlayerManager \<Rightarrow> ItemStack option" where
  "get_cursor_item u pm = (case find_player pm u of Some p \<Rightarrow> pl_cursor_item p | None \<Rightarrow> None)"

definition set_cursor_item :: "uuid \<Rightarrow> ItemStack option \<Rightarrow> PlayerManager \<Rightarrow> PlayerManager" where
  "set_cursor_item u item = if_player u (\<lambda>p. p\<lparr>pl_cursor_item := item\<rparr>)"

definition set_inventory_slot :: "uuid \<Rightarrow> u8 \<Rightarrow> ItemStack option \<Rightarrow> PlayerManager \<Rightarrow> PlayerManager" where
  "set_inventory_slot u slot item =
     if_player u (\<lambda>p. let bag = pl_inventory p in
       if unat slot < length (inv_items bag)
       then p\<lparr>pl_inventory := bag\<lparr>inv_items := (inv_items bag)[unat slot := item]\<rparr>\<rparr> else p)"

definition get_inventory_slot :: "uuid \<Rightarrow> u8 \<Rightarrow> PlayerManager \<Rightarrow> ItemStack option" where
  "get_inventory_slot u slot pm =
     (case find_player pm u of Some p \<Rightarrow> stack_at (pl_inventory p) (unat slot) | None \<Rightarrow> None)"

text \<open>The levels of an enchantment on a slot of the armour (boots first) or of the inventory. \<open>None\<close> is
  the panic in reading the text of the item.\<close>

definition boots_nbt :: "uuid \<Rightarrow> PlayerManager \<Rightarrow> bytes option" where
  "boots_nbt u pm =
     (case find_player pm u of
        Some p \<Rightarrow> (case inv_armor (pl_inventory p) of Some st # _ \<Rightarrow> it_nbt st | _ \<Rightarrow> None)
      | None \<Rightarrow> None)"

definition get_boots_enchant :: "uuid \<Rightarrow> string \<Rightarrow> PlayerManager \<Rightarrow> u8 option" where
  "get_boots_enchant u name pm =
     (case boots_nbt u pm of None \<Rightarrow> Some 0 | Some nbt \<Rightarrow> enchant_level (Some nbt) name)"

definition get_boot_enchant_levels :: "uuid \<Rightarrow> PlayerManager \<Rightarrow> (u8 \<times> u8 \<times> u8) option" where
  "get_boot_enchant_levels u pm =
     (case boots_nbt u pm of
        None \<Rightarrow> Some (0, 0, 0)
      | Some nbt \<Rightarrow>
          (case (enchant_level (Some nbt) ''frost_walker'', enchant_level (Some nbt) ''soul_speed'',
                 enchant_level (Some nbt) ''swift_sneak'') of
             (Some fw, Some ss, Some sw) \<Rightarrow> Some (fw, ss, sw)
           | _ \<Rightarrow> None))"

definition get_armor_enchant_level :: "uuid \<Rightarrow> nat \<Rightarrow> string \<Rightarrow> PlayerManager \<Rightarrow> u32 option" where
  "get_armor_enchant_level u slot name pm =
     (case find_player pm u of
        Some p \<Rightarrow> (case stack_at (pl_inventory p) slot of
            Some st \<Rightarrow> (case it_nbt st of
                Some nbt \<Rightarrow> map_option (\<lambda>m. ucast (level_in m name)) (parse_item_enchants (Some nbt))
              | None \<Rightarrow> Some 0)
          | None \<Rightarrow> Some 0)
      | None \<Rightarrow> Some 0)"

definition damage_boots :: "uuid \<Rightarrow> u16 \<Rightarrow> PlayerManager \<Rightarrow> bool \<times> PlayerManager" where
  "damage_boots u amount pm =
     (case find_player pm u of
        None \<Rightarrow> (False, pm)
      | Some p \<Rightarrow>
          let bag = pl_inventory p; set_boots = (\<lambda>b. put_player u (p\<lparr>pl_inventory := bag\<lparr>inv_armor := (inv_armor bag)[0 := b]\<rparr>\<rparr>) pm) in
          (case inv_armor bag of
             Some st # _ \<Rightarrow> (case it_durability st of
                 None \<Rightarrow> (False, pm)
               | Some current \<Rightarrow>
                   if current \<le> amount then (True, set_boots None)
                   else (False, set_boots (Some (st\<lparr>it_durability := Some (current - amount)\<rparr>))))
           | _ \<Rightarrow> (False, pm)))"

text \<open>The text of a book, and the name given to the item in hand, become the NBT of the item. The name
  is written to a slot of the inventory by index, which panics past its end.\<close>

definition update_item_nbt_at_slot :: "uuid \<Rightarrow> i32 \<Rightarrow> bytes \<Rightarrow> PlayerManager \<Rightarrow> (manager_error, PlayerManager) outcome" where
  "update_item_nbt_at_slot u slot txt =
     try_player u
       (\<lambda>p. if 0 <=s slot \<and> i32_as_usize slot < length (inv_items (pl_inventory p))
            then p\<lparr>pl_inventory := change_slot (i32_as_usize slot)
              (\<lambda>st. Some (st\<lparr>it_nbt := Some (ascii ''pages:'' @ txt)\<rparr>)) (pl_inventory p)\<rparr>
            else p) (\<lambda>_. [])"

definition display_name :: "bytes \<Rightarrow> bytes" where
  "display_name name = ascii ''display:{'' @ [34] @ ascii ''Name'' @ [34, 58, 34] @ name @ [34] @ ascii ''}''"

definition set_held_item_name :: "uuid \<Rightarrow> bytes \<Rightarrow> PlayerManager \<Rightarrow> (manager_error, PlayerManager) outcome" where
  "set_held_item_name u name pm =
     (case find_player pm u of
        None \<Rightarrow> not_found
      | Some p \<Rightarrow>
          if held_slot p < length (inv_items (pl_inventory p)) then
            Ok (put_player u (p\<lparr>pl_inventory := change_slot (held_slot p)
              (\<lambda>st. Some (st\<lparr>it_nbt := Some (display_name name)\<rparr>)) (pl_inventory p)\<rparr>) pm)
          else Panic)"

definition remove_one_from_slot :: "uuid \<Rightarrow> u8 \<Rightarrow> PlayerManager \<Rightarrow> (manager_error, PlayerManager) outcome" where
  "remove_one_from_slot u slot =
     try_player u
       (\<lambda>p. p\<lparr>pl_inventory := change_slot (unat slot)
          (\<lambda>st. if 1 < it_count st then Some (st\<lparr>it_count := it_count st - 1\<rparr>) else None) (pl_inventory p)\<rparr>)
       (\<lambda>_. [])"

definition remove_item_from_slot ::
  "uuid \<Rightarrow> u8 \<Rightarrow> BlockState \<Rightarrow> u32 \<Rightarrow> PlayerManager \<Rightarrow> (manager_error, u32 \<times> PlayerManager) outcome" where
  "remove_item_from_slot u slot item n pm =
     (case find_player pm u of
        None \<Rightarrow> not_found
      | Some p \<Rightarrow>
          let bag = pl_inventory p; i = unat slot in
          (case stack_at bag i of
             Some st \<Rightarrow>
               if it_item st = item then
                 let k = min n (ucast (it_count st));
                     left = it_count st - ucast k
                 in Ok (k, put_player u (p\<lparr>pl_inventory := change_slot i
                      (\<lambda>st. if left > 0 then Some (st\<lparr>it_count := left\<rparr>) else None) bag\<rparr>) pm)
               else Ok (0, pm)
           | None \<Rightarrow> Ok (0, pm)))"

definition add_item_to_player ::
  "uuid \<Rightarrow> BlockState \<Rightarrow> u32 \<Rightarrow> PlayerManager \<Rightarrow> (manager_error, u32 \<times> PlayerManager) outcome" where
  "add_item_to_player u item n pm =
     (case find_player pm u of
        None \<Rightarrow> not_found
      | Some p \<Rightarrow>
          let (bag, leftover) = add_item item (unat n) (pl_inventory p)
          in Ok (n - word_of_nat leftover, put_player u (p\<lparr>pl_inventory := bag\<rparr>) pm))"

definition pm_add_item :: "uuid \<Rightarrow> ItemStack \<Rightarrow> PlayerManager \<Rightarrow> (manager_error, u32 \<times> PlayerManager) outcome" where
  "pm_add_item u st = add_item_to_player u (it_item st) (ucast (it_count st))"

definition pm_remove_item ::
  "uuid \<Rightarrow> BlockState \<Rightarrow> u32 \<Rightarrow> PlayerManager \<Rightarrow> (manager_error, u32 \<times> PlayerManager) outcome" where
  "pm_remove_item u item n pm =
     (case find_player pm u of
        None \<Rightarrow> not_found
      | Some p \<Rightarrow>
          let (bag, removed) = remove_item item (unat n) (pl_inventory p)
          in Ok (word_of_nat removed, put_player u (p\<lparr>pl_inventory := bag\<rparr>) pm))"

definition remove_lapis :: "uuid \<Rightarrow> u32 \<Rightarrow> PlayerManager \<Rightarrow> bool \<times> PlayerManager" where
  "remove_lapis u n pm =
     (case find_player pm u of
        None \<Rightarrow> (False, pm)
      | Some p \<Rightarrow>
          let (bag, removed) = remove_item (block 571) (unat n) (pl_inventory p)
          in (unat n \<le> removed, put_player u (p\<lparr>pl_inventory := bag\<rparr>) pm))"

definition set_selected_slot :: "uuid \<Rightarrow> u8 \<Rightarrow> PlayerManager \<Rightarrow> (manager_error, PlayerManager) outcome" where
  "set_selected_slot u slot pm =
     (case find_player pm u of
        Some p \<Rightarrow>
          if slot < 36 then Ok (put_player u (p\<lparr>pl_inventory := (pl_inventory p)\<lparr>inv_selected := slot\<rparr>\<rparr>) pm)
          else Err (Message ''Invalid slot'')
      | None \<Rightarrow> not_found)"

section \<open>Access lists and entities\<close>

definition ban :: "uuid \<Rightarrow> PlayerManager \<Rightarrow> PlayerManager" where
  "ban u pm = pm\<lparr>pm_banned := insert u (pm_banned pm)\<rparr>"

definition unban :: "uuid \<Rightarrow> PlayerManager \<Rightarrow> PlayerManager" where
  "unban u pm = pm\<lparr>pm_banned := pm_banned pm - {u}\<rparr>"

definition is_banned :: "uuid \<Rightarrow> PlayerManager \<Rightarrow> bool" where
  "is_banned u pm \<longleftrightarrow> u \<in> pm_banned pm"

definition set_whitelist_enabled :: "bool \<Rightarrow> PlayerManager \<Rightarrow> PlayerManager" where
  "set_whitelist_enabled b pm = pm\<lparr>pm_whitelist := (b, snd (pm_whitelist pm))\<rparr>"

definition is_whitelist_enabled :: "PlayerManager \<Rightarrow> bool" where
  "is_whitelist_enabled pm = fst (pm_whitelist pm)"

definition add_whitelist :: "uuid \<Rightarrow> PlayerManager \<Rightarrow> PlayerManager" where
  "add_whitelist u pm = pm\<lparr>pm_whitelist := (fst (pm_whitelist pm), insert u (snd (pm_whitelist pm)))\<rparr>"

definition remove_whitelist :: "uuid \<Rightarrow> PlayerManager \<Rightarrow> PlayerManager" where
  "remove_whitelist u pm = pm\<lparr>pm_whitelist := (fst (pm_whitelist pm), snd (pm_whitelist pm) - {u})\<rparr>"

definition is_whitelisted :: "uuid \<Rightarrow> PlayerManager \<Rightarrow> bool" where
  "is_whitelisted u pm \<longleftrightarrow> \<not> fst (pm_whitelist pm) \<or> u \<in> snd (pm_whitelist pm)"

definition register_entity :: "u32 \<Rightarrow> uuid \<Rightarrow> PlayerManager \<Rightarrow> PlayerManager" where
  "register_entity e u pm = pm\<lparr>pm_player_entities := AList.update e u (pm_player_entities pm)\<rparr>"

definition unregister_entity :: "u32 \<Rightarrow> PlayerManager \<Rightarrow> PlayerManager" where
  "unregister_entity e pm = pm\<lparr>pm_player_entities := AList.delete e (pm_player_entities pm)\<rparr>"

definition uuid_by_entity :: "u32 \<Rightarrow> PlayerManager \<Rightarrow> uuid option" where
  "uuid_by_entity e pm = map_of (pm_player_entities pm) e"

end
