(* ===== verification/PlayerTicks.thy ===== *)
theory PlayerTicks
  imports PlayerOps "HOL-Library.While_Combinator"
begin

text \<open>
  Damage, status effects, hunger and experience of the players (\<open>mc-player/src/player.rs\<close>), with the
  guards they hold. The random numbers of thorns are arguments, and so are the sine and the
  cosine of the angle of a boat. A loop that may run forever, the drain of the exhaustion, is
  \<open>while_option\<close>.

  Shown: hunger, regeneration, instant effects and boats make a thread wait for a lock it
  holds; what a level of experience costs and what is taken for it; health and food stay in
  their bounds in every reachable state.
\<close>

section \<open>Damage\<close>

definition calculate_armor_reduction :: "f32 \<Rightarrow> f32 \<Rightarrow> f32 \<Rightarrow> f32" where
  "calculate_armor_reduction armor toughness raw =
     (if fle raw 0 then 0
      else let effective = fmin (fmax (fsub armor (fdiv (fmul (float_of_int 4) raw) (fadd toughness (float_of_int 8))))
                                      (fmul armor (flit 2 10))) (float_of_int 20);
               reduction = fsub (float_of_int 1) (fdiv effective (float_of_int 25))
           in fmax (fmul raw reduction) 0)"

definition add_fall_distance :: "uuid \<Rightarrow> f32 \<Rightarrow> PlayerManager \<Rightarrow> PlayerManager" where
  "add_fall_distance u delta =
     if_player u (\<lambda>p. p\<lparr>pl_fall_distance := fadd (pl_fall_distance p)
       (fmul delta (if \<exists>e \<in> set (pl_active_effects p). effect_id (ae_effect e) = 28 then flit 1 2 else float_of_int 1))\<rparr>)"

definition take_fall_distance :: "uuid \<Rightarrow> PlayerManager \<Rightarrow> f32 \<times> PlayerManager" where
  "take_fall_distance u pm =
     (case find_player pm u of
        Some p \<Rightarrow> (pl_fall_distance p, put_player u (p\<lparr>pl_fall_distance := 0\<rparr>) pm)
      | None \<Rightarrow> (0, pm))"

definition can_take_damage :: "uuid \<Rightarrow> u64 \<Rightarrow> PlayerManager \<Rightarrow> bool" where
  "can_take_damage u tick pm =
     (case find_player pm u of Some p \<Rightarrow> 10 \<le> saturating_sub64 tick (pl_last_damage_tick p) | None \<Rightarrow> False)"

definition mark_damage_taken :: "uuid \<Rightarrow> u64 \<Rightarrow> PlayerManager \<Rightarrow> PlayerManager" where
  "mark_damage_taken u tick = if_player u (\<lambda>p. p\<lparr>pl_last_damage_tick := tick\<rparr>)"

definition set_last_attack :: "uuid \<Rightarrow> u64 \<Rightarrow> PlayerManager \<Rightarrow> PlayerManager" where
  "set_last_attack u tick = if_player u (\<lambda>p. p\<lparr>pl_last_damage_tick := tick\<rparr>)"

definition get_attack_cooldown :: "uuid \<Rightarrow> u32 \<Rightarrow> u64 \<Rightarrow> PlayerManager \<Rightarrow> f32" where
  "get_attack_cooldown u item tick pm =
     (let base = (if item \<in> {780, 785, 792} then 32 else if item \<in> {769, 787, 790} then 24 else 20)
      in case find_player pm u of
           Some p \<Rightarrow> fmin (fdiv (float_of_unsigned (tick - pl_last_damage_tick p)) (float_of_int base)) (float_of_int 1)
         | None \<Rightarrow> float_of_int 1)"

definition get_armor_values :: "uuid \<Rightarrow> PlayerManager \<Rightarrow> f32 \<times> f32" where
  "get_armor_values u pm =
     (case find_player pm u of
        Some p \<Rightarrow> (float_of_int (int (total_armor_points (pl_inventory p))),
                   float_of_int (int (total_armor_toughness (pl_inventory p))))
      | None \<Rightarrow> (0, 0))"

text \<open>One above the amplifier, as a byte that wraps; 0 without the effect.\<close>

definition level_of :: "u8 \<Rightarrow> Player \<Rightarrow> u8" where
  "level_of i p =
     (case List.find (\<lambda>e. effect_id (ae_effect e) = i) (pl_active_effects p) of
        Some e \<Rightarrow> ae_amplifier e + 1
      | None \<Rightarrow> 0)"

definition get_effect_level :: "uuid \<Rightarrow> i32 \<Rightarrow> PlayerManager \<Rightarrow> u8" where
  "get_effect_level u i pm = (case find_player pm u of Some p \<Rightarrow> level_of (ucast i) p | None \<Rightarrow> 0)"

definition get_max_health :: "uuid \<Rightarrow> PlayerManager \<Rightarrow> f32" where
  "get_max_health u pm =
     fadd (float_of_int 20) (fmul (float_of_int 4) (float_of_unsigned (get_effect_level u 20 pm)))"

definition sum_levels :: "(bytes \<times> u8) list list \<Rightarrow> string \<Rightarrow> u8" where
  "sum_levels armor name = sum_list (map (\<lambda>m. level_in m name) armor)"

definition effective_damage ::
  "uuid \<Rightarrow> f32 \<Rightarrow> uuid option \<Rightarrow> (bytes \<times> u8) list option \<Rightarrow> (bytes \<times> u8) list list option \<Rightarrow> PlayerManager \<Rightarrow> f32" where
  "effective_damage u raw attacker weapon armor pm =
     (let d = (case attacker of
                 Some a \<Rightarrow>
                   fmax (fsub (fadd raw (fmul (float_of_unsigned (get_effect_level a 4 pm)) (float_of_int 3)))
                              (fmul (float_of_unsigned (get_effect_level a 17 pm)) (float_of_int 4))) 0
               | None \<Rightarrow> raw);
          d = (case weapon of
                 Some m \<Rightarrow> (case map_of m (ascii ''sharpness'') of
                     Some s \<Rightarrow> fadd d (fmul (float_of_unsigned s) (flit 125 100))
                   | None \<Rightarrow> d)
               | None \<Rightarrow> d);
          r = get_effect_level u 10 pm;
          d = (if r > 0
               then fmul d (fmax (fsub (float_of_int 1) (fmul (float_of_unsigned r) (flit 2 10))) 0) else d)
      in case armor of
           Some ms \<Rightarrow>
             let epf = fmin (fadd (fadd (fadd (fmul (float_of_unsigned (sum_levels ms ''protection'')) (float_of_int 4))
                              (fmul (float_of_unsigned (sum_levels ms ''fire_protection'')) (float_of_int 8)))
                              (fmul (float_of_unsigned (sum_levels ms ''blast_protection'')) (float_of_int 8)))
                              (fmul (float_of_unsigned (sum_levels ms ''projectile_protection'')) (float_of_int 8)))
                            (float_of_int 80)
             in fmul d (fsub (float_of_int 1) (fdiv epf (float_of_int 100)))
         | None \<Rightarrow> d)"

text \<open>Thorns, while the guard of the player that was hit is held: \<open>roll\<close> decides, and
  \<open>roll_damage\<close> is the random part of what is reflected.\<close>

definition thorns ::
  "(uuid \<Rightarrow> nat) \<Rightarrow> f32 \<Rightarrow> f32 \<Rightarrow> uuid \<Rightarrow> uuid option \<Rightarrow> (bytes \<times> u8) list list option \<Rightarrow> PlayerManager \<Rightarrow>
   (manager_error, PlayerManager) outcome" where
  "thorns shard roll roll_damage u attacker armor pm =
     (case (attacker, armor) of
        (Some a, Some ms) \<Rightarrow>
          let top = fold max (map (\<lambda>m. level_in m ''thorns'') ms) 0
          in if top > 0 \<and> flt roll (fmul (float_of_unsigned top) (flit 15 100)) then
               while_held shard u a
                 (let dmg = fadd (float_of_int 1) (fmul roll_damage (float_of_int 3))
                  in Ok (case find_player pm a of
                       Some ap \<Rightarrow>
                         let h = fmax (fsub (pl_health ap) dmg) 0
                         in send_state a (HealthUpdate h) (put_player a (ap\<lparr>pl_health := h\<rparr>) pm)
                     | None \<Rightarrow> pm))
             else Ok pm
      | _ \<Rightarrow> Ok pm)"

definition apply_damage_with_enchants ::
  "(uuid \<Rightarrow> nat) \<Rightarrow> f32 \<Rightarrow> f32 \<Rightarrow> uuid \<Rightarrow> f32 \<Rightarrow> u64 \<Rightarrow> uuid option \<Rightarrow> (bytes \<times> u8) list option \<Rightarrow>
   (bytes \<times> u8) list list option \<Rightarrow> PlayerManager \<Rightarrow> (manager_error, f32 \<times> PlayerManager) outcome" where
  "apply_damage_with_enchants shard roll roll_damage u raw tick attacker weapon armor pm =
     (let effective = effective_damage u raw attacker weapon armor pm;
          (points, toughness) = get_armor_values u pm;
          reduced = calculate_armor_reduction points toughness effective
      in case find_player pm u of
           None \<Rightarrow> not_found
         | Some p \<Rightarrow>
             let h = fmax (fsub (pl_health p) reduced) 0;
                 pm = send_state u (HealthUpdate h) (put_player u (p\<lparr>pl_health := h, pl_last_damage_tick := tick\<rparr>) pm)
             in and_then (thorns shard roll roll_damage u attacker armor pm) (\<lambda>pm. Ok (reduced, pm)))"

definition apply_damage :: "uuid \<Rightarrow> f32 \<Rightarrow> u64 \<Rightarrow> PlayerManager \<Rightarrow> (manager_error, f32 \<times> PlayerManager) outcome" where
  "apply_damage u raw tick pm = apply_damage_with_enchants (\<lambda>_. 0) 0 0 u raw tick None None None pm"

text \<open>\<open>let _ = self.apply_damage(..)\<close>.\<close>

definition damage_ignored :: "uuid \<Rightarrow> f32 \<Rightarrow> PlayerManager \<Rightarrow> PlayerManager" where
  "damage_ignored u damage pm =
     (let tick = (case find_player pm u of Some p \<Rightarrow> pl_last_damage_tick p | None \<Rightarrow> 0)
      in case apply_damage u damage (tick + 1) pm of Ok (_, pm) \<Rightarrow> pm | _ \<Rightarrow> pm)"

definition apply_fall_damage :: "uuid \<Rightarrow> f32 \<Rightarrow> u8 \<Rightarrow> PlayerManager \<Rightarrow> PlayerManager" where
  "apply_fall_damage u fall_distance feather_falling pm =
     (if get_effect_level u 27 pm > 0 \<or> \<not> flt (float_of_int 3) fall_distance then pm
      else let d = fmul (fsub fall_distance (float_of_int 3)) (float_of_int 1);
               d = (if feather_falling > 0
                    then fmul d (fmax (fsub (float_of_int 1) (fmul (float_of_unsigned feather_falling) (flit 12 100))) 0)
                    else d)
           in damage_ignored u d pm)"

definition apply_environmental_damage :: "uuid \<Rightarrow> string \<Rightarrow> PlayerManager \<Rightarrow> PlayerManager" where
  "apply_environmental_damage u dmg_type pm =
     (if dmg_type = ''fire'' \<and> get_effect_level u 11 pm > 0 then pm
      else if dmg_type = ''drowning'' \<and> (get_effect_level u 12 pm > 0 \<or> get_effect_level u 28 pm > 0) then pm
      else damage_ignored u (float_of_int
             (if dmg_type = ''void'' then 4 else if dmg_type = ''fire'' then 1 else if dmg_type = ''drowning'' then 2 else 1)) pm)"

section \<open>Status effects\<close>

text \<open>An instant effect reads the health through the map, and sets it, while it holds the player's guard.\<close>

definition add_effect ::
  "(uuid \<Rightarrow> nat) \<Rightarrow> uuid \<Rightarrow> ActiveEffect \<Rightarrow> PlayerManager \<Rightarrow> (manager_error, PlayerManager) outcome" where
  "add_effect shard u effect pm =
     (case find_player pm u of
        None \<Rightarrow> not_found
      | Some p \<Rightarrow>
          let kept = p\<lparr>pl_active_effects := filter (\<lambda>e. ae_effect e \<noteq> ae_effect effect) (pl_active_effects p)\<rparr>;
              pm = put_player u kept pm;
              change = (\<lambda>base k. while_held shard u u
                (set_health u (k (case find_player pm u of Some p \<Rightarrow> pl_health p | None \<Rightarrow> float_of_int 20)
                  (float_of_signed (push_bit (unat (ae_amplifier effect) mod 32) base :: i32))) pm))
          in if is_instant (ae_effect effect) then
               (if ae_effect effect = InstantHealth then change 4 (\<lambda>h d. fmin (fadd h d) (float_of_int 20))
                else change 3 (\<lambda>h d. fmax (fsub h d) 0))
             else
               Ok (send_state u (EffectAdd (pl_entity_id p) (ucast (effect_id (ae_effect effect))) (ae_amplifier effect)
                     (ucast (ae_duration_ticks effect)) 6)
                   (put_player u (kept\<lparr>pl_active_effects := pl_active_effects kept @ [effect]\<rparr>) pm)))"

definition clear_effects :: "uuid \<Rightarrow> PlayerManager \<Rightarrow> (manager_error, PlayerManager) outcome" where
  "clear_effects u = try_player u (\<lambda>p. p\<lparr>pl_active_effects := []\<rparr>) (\<lambda>_. [])"

definition get_effects :: "uuid \<Rightarrow> PlayerManager \<Rightarrow> (manager_error, ActiveEffect list) outcome" where
  "get_effects u pm = (case find_player pm u of Some p \<Rightarrow> Ok (pl_active_effects p) | None \<Rightarrow> not_found)"

definition poison_and_wither :: "u8 \<Rightarrow> u8 \<Rightarrow> f32 \<Rightarrow> f32" where
  "poison_and_wither poison wither h =
     (let h = (if poison > 0 \<and> flt (float_of_int 1) h
               then fmax (fsub h (fmul (float_of_unsigned poison) (flit 1 2))) (float_of_int 1) else h)
      in if wither > 0 then fmax (fsub h (fmul (float_of_unsigned wither) (float_of_int 1))) 0 else h)"

definition tick_effect_damage :: "uuid \<Rightarrow> PlayerManager \<Rightarrow> PlayerManager" where
  "tick_effect_damage u pm =
     (let poison = get_effect_level u 18 pm; wither = get_effect_level u 19 pm
      in if poison > 0 \<or> wither > 0 then
           (case find_player pm u of
              Some p \<Rightarrow>
                let h = poison_and_wither poison wither (pl_health p)
                in send_state u (HealthUpdate h) (put_player u (p\<lparr>pl_health := h\<rparr>) pm)
            | None \<Rightarrow> pm)
         else pm)"

text \<open>The durations, and the effects that run out.\<close>

definition count_down :: "ActiveEffect list \<Rightarrow> ActiveEffect list" where
  "count_down es =
     map (\<lambda>e. if ae_duration_ticks e > 0 then e\<lparr>ae_duration_ticks := ae_duration_ticks e - 1\<rparr> else e) es"

definition running :: "ActiveEffect list \<Rightarrow> ActiveEffect list" where
  "running es = filter (\<lambda>e. ae_duration_ticks e > 0) (count_down es)"

text \<open>The periodic effects on one player, after regeneration and up to levitation: on its food, and on its
  movement, mining and absorption.\<close>

definition food_effects :: "u64 \<Rightarrow> Player \<Rightarrow> Player" where
  "food_effects tick p =
     (let p = (if level_of 17 p > 0 \<and> tick mod 20 = 0
               then p\<lparr>pl_food_exhaustion :=
                 fadd (pl_food_exhaustion p) (fmul (flit 5 1000) (float_of_unsigned (level_of 17 p)))\<rparr> else p)
      in if level_of 23 p > 0 \<and> tick mod 20 = 0
         then p\<lparr>pl_food_saturation := fmin (fadd (pl_food_saturation p) (float_of_unsigned (level_of 23 p))) (float_of_int 20),
                pl_food_level := signed_min (pl_food_level p + ucast (level_of 23 p)) 20\<rparr> else p)"

definition movement_effects :: "Player \<Rightarrow> Player" where
  "movement_effects p =
     (let lvl = (\<lambda>i. float_of_unsigned (level_of i p) :: f32);
          speed = fsub (fadd (float_of_int 1) (fmul (flit 2 10) (lvl 1))) (fmul (flit 15 100) (lvl 2));
          mining = fmax (fsub (float_of_int 1) (fmul (flit 3 10) (lvl 4))) (flit 5 100)
      in p\<lparr>pl_speed_multiplier := (if flt speed (flit 1 10) then flit 1 10 else speed),
           pl_mining_multiplier := fmin (fadd mining (fmul (flit 2 10) (lvl 3))) (float_of_int 5),
           pl_jump_multiplier := fadd (float_of_int 1) (fmul (flit 1 2) (lvl 8)),
           pl_fall_damage_multiplier := (if level_of 28 p > 0 then 0 else float_of_int 1),
           pl_swim_speed_multiplier := fadd (float_of_int 1) (fmul (flit 1 2) (lvl 30)),
           pl_is_sprinting := (if level_of 15 p > 0 \<or> level_of 14 p > 0 then False else pl_is_sprinting p),
           pl_absorption_health := (if level_of 22 p > 0 \<and> fle (pl_absorption_health p) 0
             then fmul (float_of_int 4) (lvl 22) else pl_absorption_health p)\<rparr>)"

definition periodic_effects :: "u64 \<Rightarrow> Player \<Rightarrow> Player" where
  "periodic_effects tick p = movement_effects (food_effects tick p)"

text \<open>One player in \<open>tick_effects\<close>: regeneration asks for the greatest health through the map while the
  guard is held; levitation releases the guard before it sends.\<close>

definition effects_step ::
  "(uuid \<Rightarrow> nat) \<Rightarrow> u64 \<Rightarrow> uuid \<Rightarrow> PlayerManager \<Rightarrow> (manager_error, PlayerManager) outcome" where
  "effects_step shard tick u pm =
     (case find_player pm u of
        None \<Rightarrow> Ok pm
      | Some p \<Rightarrow>
          and_then
            (let regen = level_of 10 p
             in if regen > 0 \<and> unat tick mod max (50 div unat regen) 1 = 0 then
                  while_held shard u u
                    (let h = fmin (fadd (pl_health p) (float_of_int 1)) (get_max_health u pm)
                     in Ok (p\<lparr>pl_health := h\<rparr>, send_state u (HealthUpdate h) pm))
                else Ok (p, pm))
            (\<lambda>(p, pm).
               let p = periodic_effects tick p; lev = level_of 25 p in
               if lev > 0 then
                 let pos = pl_position p;
                     pos = pos\<lparr>pos_y := fmin (fadd (pos_y pos) (fmul (flit 5 100) (float_of_unsigned lev))) (float_of_int 256)\<rparr>;
                     pm = send_state u (Teleport (pos_x pos) (pos_y pos) (pos_z pos) 0 0 (pl_entity_id p)) pm;
                     expired = filter (\<lambda>e. ae_duration_ticks e = 0) (count_down (pl_active_effects p));
                     absorption = (if \<exists>e \<in> set expired. effect_id (ae_effect e) = 22 then 0 else pl_absorption_health p)
                 in Ok (put_player u (p\<lparr>pl_position := pos, pl_absorption_health := absorption,
                          pl_active_effects := running (pl_active_effects p)\<rparr>) pm)
               else Ok (put_player u (p\<lparr>pl_active_effects := running (pl_active_effects p)\<rparr>) pm)))"

fun tick_all ::
  "(uuid \<Rightarrow> PlayerManager \<Rightarrow> (manager_error, PlayerManager) outcome) \<Rightarrow> uuid list \<Rightarrow> PlayerManager \<Rightarrow>
   (manager_error, PlayerManager) outcome" where
  "tick_all step [] pm = Ok pm"
| "tick_all step (u # us) pm = and_then (step u pm) (tick_all step us)"

definition tick_effects :: "(uuid \<Rightarrow> nat) \<Rightarrow> u64 \<Rightarrow> PlayerManager \<Rightarrow> (manager_error, PlayerManager) outcome" where
  "tick_effects shard tick pm = tick_all (effects_step shard tick) (map fst (pm_players pm)) pm"

section \<open>Hunger\<close>

definition activity_exhaustion :: "Player \<Rightarrow> f32" where
  "activity_exhaustion p = (if pl_is_sprinting p then flit 1 10 else if pl_is_sneaking p then flit 5 1000 else flit 1 100)"

definition drain_once :: "Player \<Rightarrow> Player" where
  "drain_once p =
     (let p = p\<lparr>pl_food_exhaustion := fsub (pl_food_exhaustion p) (float_of_int 4)\<rparr>
      in if flt 0 (pl_food_saturation p)
         then p\<lparr>pl_food_saturation := fmax (fsub (pl_food_saturation p) (float_of_int 1)) 0\<rparr>
         else if 0 <s pl_food_level p then p\<lparr>pl_food_level := pl_food_level p - 1\<rparr> else p)"

text \<open>The loop and whether it ran; \<open>None\<close> where it never ends.\<close>

definition drain :: "Player \<Rightarrow> (Player \<times> bool) option" where
  "drain p = while_option (\<lambda>(p, _). fle (float_of_int 4) (pl_food_exhaustion p)) (\<lambda>(p, _). (drain_once p, True)) (p, False)"

text \<open>One player in \<open>tick_hunger\<close>; the flag is the \<open>break\<close> out of the loop over the players, and the events
  are sent at the end.\<close>

definition hunger_step ::
  "(uuid \<Rightarrow> nat) \<Rightarrow> uuid \<Rightarrow> PlayerManager \<Rightarrow>
   (manager_error, PlayerManager \<times> (uuid \<times> PlayerStateEventKind) list \<times> bool) outcome" where
  "hunger_step shard u pm =
     (case find_player pm u of
        None \<Rightarrow> Ok (pm, [], False)
      | Some p \<Rightarrow>
          if pl_gamemode p = Creative \<or> pl_gamemode p = Spectator then Ok (pm, [], False)
          else case drain (p\<lparr>pl_food_exhaustion := fadd (pl_food_exhaustion p) (activity_exhaustion p)\<rparr>) of
            None \<Rightarrow> Err Divergence
          | Some (p, changed) \<Rightarrow>
              let food = (pl_uuid p, FoodUpdate (pl_food_level p) (pl_food_saturation p)) in
              if pl_food_level p = 0 \<and> changed then
                let h = fmax (fsub (pl_health p) (float_of_int 1)) 0
                in Ok (put_player u (p\<lparr>pl_food_exhaustion := 0, pl_health := h\<rparr>) pm, [(pl_uuid p, HealthUpdate h), food], False)
              else if 18 <=s pl_food_level p \<and> flt 0 (pl_food_saturation p) \<and> changed then
                while_held shard u (pl_uuid p)
                  (let max_hp = get_max_health (pl_uuid p) pm
                   in if fle max_hp (pl_health p) then Ok (put_player u p pm, [], True)
                      else let h = fmin (fadd (pl_health p) (float_of_int 1)) max_hp
                           in Ok (put_player u (p\<lparr>pl_food_exhaustion := fadd (pl_food_exhaustion p) (float_of_int 3), pl_health := h\<rparr>) pm,
                                  [(pl_uuid p, HealthUpdate h), food], False))
              else Ok (put_player u p pm, if changed then [food] else [], False))"

fun hunger_loop ::
  "(uuid \<Rightarrow> nat) \<Rightarrow> uuid list \<Rightarrow> PlayerManager \<Rightarrow> (uuid \<times> PlayerStateEventKind) list \<Rightarrow>
   (manager_error, PlayerManager) outcome" where
  "hunger_loop shard [] pm events = Ok (fold (\<lambda>(u, k). send_state u k) events pm)"
| "hunger_loop shard (u # us) pm events =
     and_then (hunger_step shard u pm) (\<lambda>(pm, es, stop).
       if stop then hunger_loop shard [] pm (events @ es) else hunger_loop shard us pm (events @ es))"

definition tick_hunger :: "(uuid \<Rightarrow> nat) \<Rightarrow> PlayerManager \<Rightarrow> (manager_error, PlayerManager) outcome" where
  "tick_hunger shard pm = hunger_loop shard (map fst (pm_players pm)) pm []"

section \<open>Boats\<close>

text \<open>The guard of the lookup is held while the position is written.\<close>

definition apply_boat_paddle ::
  "(uuid \<Rightarrow> nat) \<Rightarrow> (f32 \<Rightarrow> f64 \<times> f64) \<Rightarrow> uuid \<Rightarrow> i32 \<Rightarrow> bool \<Rightarrow> bool \<Rightarrow> PlayerManager \<Rightarrow>
   (manager_error, PlayerManager) outcome" where
  "apply_boat_paddle shard sin_cos u eid left right pm =
     (case find_player pm u of
        None \<Rightarrow> Ok pm
      | Some p \<Rightarrow>
          let mul = (if left \<and> right then flit 15 100 else if left \<or> right then flit 8 100 else 0) :: f64 in
          if flt 0 mul then
            let pos = pl_position p; (sn, cs) = sin_cos (pos_yaw pos);
                x = fadd (pos_x pos) (fmul (fsub (float_zero True) sn) mul); z = fadd (pos_z pos) (fmul cs mul)
            in while_held shard u u
                 (case update_position_full u x (pos_y pos) z (pos_yaw pos) (pos_pitch pos) pm of
                    Ok pm \<Rightarrow> Ok (broadcast_entity_move eid u x (pos_y pos) z (pos_yaw pos) (pos_pitch pos) pm)
                  | r \<Rightarrow> r)
          else Ok pm)"

section \<open>Experience\<close>

definition xp_for_next :: "nat \<Rightarrow> int" where
  "xp_for_next level =
     (if level < 16 then 2 * int level + 7 else if level < 31 then 5 * int level - 38 else 9 * int level - 158)"

lemma xp_for_next_pos: "0 < xp_for_next level"
  by (simp add: xp_for_next_def)

text \<open>The loop of \<open>add_xp\<close>; the level and what remains stay far inside an \<open>i32\<close>.\<close>

function xp_loop :: "nat \<Rightarrow> int \<Rightarrow> nat \<times> int" where
  "xp_loop level remaining =
     (if remaining \<ge> xp_for_next level then xp_loop (level + 1) (remaining - xp_for_next level)
      else (level, remaining))"
  by pat_completeness auto
termination
  by (relation "measure (\<lambda>(_, remaining). nat remaining)") (auto simp: xp_for_next_pos intro: less_le_trans [OF xp_for_next_pos])

declare xp_loop.simps [simp del]

definition add_xp :: "uuid \<Rightarrow> i32 \<Rightarrow> PlayerManager \<Rightarrow> (manager_error, PlayerManager) outcome" where
  "add_xp u amount =
     try_player u
       (\<lambda>p. let tot = pl_xp_total p + amount;
                (level, remaining) = xp_loop 0 (sint tot)
            in p\<lparr>pl_xp_total := tot, pl_xp_level := word_of_nat level,
                 pl_xp_bar := fdiv (float_of_int remaining) (float_of_int (xp_for_next level))\<rparr>)
       (\<lambda>p. [XpUpdate (pl_xp_bar p) (pl_xp_level p) (pl_xp_total p)])"

text \<open>What \<open>remove_xp_levels\<close> takes for each level, counting down, on wrapping integers.\<close>

definition xp_taken :: "i32 \<Rightarrow> i32" where
  "xp_taken lvl =
     (if lvl <=s 16 then 2 * (lvl - 1) + 7 else if lvl <=s 31 then 5 * lvl - 38 else 9 * lvl - 158)"

fun xp_taken_for :: "nat \<Rightarrow> i32 \<Rightarrow> i32" where
  "xp_taken_for 0 lvl = 0"
| "xp_taken_for (Suc n) lvl = xp_taken lvl + xp_taken_for n (lvl - 1)"

definition level_cost :: "i32 \<Rightarrow> i32" where
  "level_cost l = (if l <s 16 then 2 * l + 7 else if l <s 31 then 5 * l - 38 else 9 * l - 158)"

definition xp_bar_of :: "i32 \<Rightarrow> i32 \<Rightarrow> f32" where
  "xp_bar_of level tot =
     (if 0 <s level_cost level then
        let remaining = tot - sum_list (map (\<lambda>l. level_cost (word_of_nat l)) [0..<nat (sint level)])
        in fclamp (fdiv (float_of_signed remaining) (float_of_signed (level_cost level))) 0 (float_of_int 1)
      else 0)"

definition remove_xp_levels :: "uuid \<Rightarrow> i32 \<Rightarrow> PlayerManager \<Rightarrow> (manager_error, PlayerManager) outcome" where
  "remove_xp_levels u levels pm =
     (case find_player pm u of
        None \<Rightarrow> not_found
      | Some p \<Rightarrow>
          if pl_xp_level p <s levels then Err (Message ''Need more levels'')
          else let tot = signed_max (pl_xp_total p - xp_taken_for (nat (sint levels)) (pl_xp_level p)) 0;
                   level = pl_xp_level p - levels;
                   bar = xp_bar_of level tot
               in Ok (send_state u (XpUpdate bar level tot)
                    (put_player u (p\<lparr>pl_xp_total := tot, pl_xp_level := level, pl_xp_bar := bar\<rparr>) pm)))"

end
