(* ===== verification/FloatFacts.thy ===== *)
theory FloatFacts
  imports Floats "HOL-Library.Code_Target_Nat"
begin

text \<open>Values of floating-point expressions of the program, computed by the definitions of \<open>Floats\<close>.\<close>

lemma paddle_strokes: "flt 0 (flit 15 100 :: 64 word)" "flt 0 (flit 8 100 :: 64 word)"
  by code_simp+

lemma exhaustion_reaches_4:
  "fle (float_of_int 4) (fadd (flit 3995 1000) (flit 1 100) :: 32 word)"
  "\<not> fle (float_of_int 4) (fsub (fadd (flit 3995 1000) (flit 1 100)) (float_of_int 4) :: 32 word)"
proof -
  have e: "fadd (flit 3995 1000) (flit 1 100) = (0x408028F6 :: 32 word)" by code_simp
  have d: "fsub 0x408028F6 (float_of_int 4) = (0x3BA3D800 :: 32 word)" by code_simp
  show "fle (float_of_int 4) (fadd (flit 3995 1000) (flit 1 100) :: 32 word)"
    unfolding e by code_simp
  show "\<not> fle (float_of_int 4) (fsub (fadd (flit 3995 1000) (flit 1 100)) (float_of_int 4) :: 32 word)"
    unfolding e d by code_simp
qed

lemma small_integers_positive:
  "flt 0 (float_of_int 1 :: 32 word)" "flt 0 (float_of_int 5 :: 32 word)" "flt 0 (float_of_int 20 :: 32 word)"
  "\<not> flt (float_of_int 20 :: 32 word) 0" "flt 0 (fmax (fsub (float_of_int 5) (float_of_int 1)) 0 :: 32 word)"
  by code_simp+

lemma floor_1000: "floor_i32 (float_of_int 1000 :: 64 word) = 1000"
  by code_simp

lemma ceil_4: "ceil_i32 (fdiv (float_of_int 64) (float_of_int 16) :: 64 word) = 4"
  by code_simp

lemma floor_0: "floor_i32 (0 :: 64 word) = 0"
  by (simp add: floor_i32_def float_value_def Let_def floor_value_def signed_def saturate_def exp_top_def frac_len_def)

lemma far_apart: "\<not> flt (fabs (fsub 0 (float_of_int 1000)) :: 64 word) (flit 1 100)"
proof -
  have "fsub 0 (float_of_int 1000) = (0xC08F400000000000 :: 64 word)" by code_simp
  moreover have "\<not> flt (0x408F400000000000 :: 64 word) (flit 1 100)" by code_simp
  moreover have "fabs (0xC08F400000000000 :: 64 word) = 0x408F400000000000"
    by (simp add: fabs_def)
  ultimately show ?thesis by simp
qed

lemma slime_sizes: "flt (flit 2 1) (flit 4 1 :: 32 word)"
  by code_simp

end
