(* ===== verification/PlayerFacts.thy ===== *)
theory PlayerFacts
  imports PlayerTicks FloatFacts
begin

text \<open>
  What holds of the manager of players (\<open>PlayerOps\<close>, \<open>PlayerTicks\<close>): the calls that wait for a lock
  they hold, logins and the index of chunks, experience, and the bounds of health and food in every
  reachable state.
\<close>

section \<open>Locks\<close>

lemma while_held_self [simp]: "while_held shard u u k = Err Deadlock"
  by (simp add: while_held_def)

text \<open>Drinking a potion of healing or harming, and paddling a boat, never return: the thread holds
the guard of the player while it asks for the same player again.\<close>

theorem held_guard_deadlocks:
  assumes "find_player pm u = Some p"
  shows "(is_instant (ae_effect e) \<longrightarrow> add_effect shard u e pm = Err Deadlock) \<and>
    (left \<or> right \<longrightarrow> apply_boat_paddle shard sin_cos u eid left right pm = Err Deadlock)"
proof -
  have "find_player (put_player u q pm) u = Some q" for q
    by (simp add: find_player_def put_player_def update_Some_unfold)
  then show ?thesis
    using assms paddle_strokes
    by (auto simp: add_effect_def apply_boat_paddle_def Let_def split: prod.split)
qed

theorem held_guard_deadlocks_witness:
  "add_effect (\<lambda>_. 0) 7 \<lparr>ae_effect = InstantHealth, ae_amplifier = 0, ae_duration_ticks = 1\<rparr>
     (snd (add_player 7 [] new_player_manager)) = Err Deadlock"
proof -
  have "find_player (snd (add_player 7 [] new_player_manager)) 7 = Some (new_player 0 7 [])"
    by (simp add: add_player_def allocate_entity_id_def new_player_manager_def find_player_def put_player_def
        init_player_chunk_def Let_def)
  from held_guard_deadlocks [OF this, of "\<lparr>ae_effect = InstantHealth, ae_amplifier = 0, ae_duration_ticks = 1\<rparr>"]
  show ?thesis by (simp add: is_instant_def)
qed

text \<open>C31. A player who is fed, and whose exhaustion reaches 4, stops the tick: natural regeneration asks for the
greatest health through the map of players while the guard of the player is held. (The first
player of the iteration, in survival or adventure mode.)\<close>

theorem natural_regeneration_blocks_tick:
  assumes "pm_players pm = (u, p) # rest" "pl_uuid p = u" "pl_gamemode p \<in> {Survival, Adventure}"
    and "drain (p\<lparr>pl_food_exhaustion := fadd (pl_food_exhaustion p) (activity_exhaustion p)\<rparr>) = Some (q, True)"
    and "18 <=s pl_food_level q" "flt 0 (pl_food_saturation q)" "pl_uuid q = u"
  shows "tick_hunger shard pm = Err Deadlock"
proof -
  have "pl_food_level q \<noteq> 0" using assms(5) by (auto simp: word_sle_eq)
  then show ?thesis
    using assms by (auto simp: tick_hunger_def hunger_step_def find_player_def Let_def)
qed

theorem natural_regeneration_blocks_tick_witness:
  "tick_hunger (\<lambda>_. 0) (new_player_manager\<lparr>pm_players :=
     [(7, (new_player 0 7 [])\<lparr>pl_food_exhaustion := flit 3995 1000\<rparr>)]\<rparr>) = Err Deadlock"
proof (rule natural_regeneration_blocks_tick)
  let ?p = "(new_player 0 7 [])\<lparr>pl_food_exhaustion := flit 3995 1000\<rparr>"
  let ?e = "fadd (flit 3995 1000) (flit 1 100) :: f32"
  note f = exhaustion_reaches_4 small_integers_positive
  show "drain (?p\<lparr>pl_food_exhaustion := fadd (pl_food_exhaustion ?p) (activity_exhaustion ?p)\<rparr>) =
      Some (drain_once (?p\<lparr>pl_food_exhaustion := ?e\<rparr>), True)"
    unfolding drain_def
    by (subst while_option_unfold, subst while_option_unfold)
      (simp add: f drain_once_def activity_exhaustion_def new_player_def Let_def)
  show "flt 0 (pl_food_saturation (drain_once (?p\<lparr>pl_food_exhaustion := ?e\<rparr>)))"
    by (simp add: drain_once_def f new_player_def Let_def)
qed (simp_all add: new_player_def drain_once_def Let_def)
section \<open>Status effects in the tick\<close>

lemma find_put [simp]: "find_player (put_player u q pm) v = (if v = u then Some q else find_player pm v)"
  by (simp add: find_player_def put_player_def update_conv')

lemma find_send_state [simp]: "find_player (send_state u k pm) v = find_player pm v"
  by (simp add: find_player_def send_state_def)

lemma periodic_effects_keeps [simp]:
  "pl_health (periodic_effects tick p) = pl_health p"
  "pl_uuid (periodic_effects tick p) = pl_uuid p"
  by (simp_all add: periodic_effects_def movement_effects_def food_effects_def Let_def)

lemma effects_step_health:
  "effects_step shard tick u pm = Ok pm' \<Longrightarrow>
     map_option pl_health (find_player pm' v) = map_option pl_health (find_player pm v)"
  by (auto simp: effects_step_def Let_def split: option.splits if_splits)

lemma tick_all_effects_health:
  "tick_all (effects_step shard tick) us pm = Ok pm' \<Longrightarrow>
     map_option pl_health (find_player pm' v) = map_option pl_health (find_player pm v)"
proof (induction us arbitrary: pm)
  case (Cons u us)
  then show ?case by (auto simp: and_then_eq_Ok dest!: effects_step_health [where v = v])
qed simp

text \<open>No status effect ever changes the health of a player in the tick of the effects: where
regeneration would, the tick waits for its own lock. The level it reads is that of the effect with
the number 10, resistance; regeneration has the number 9.\<close>

theorem status_effects_never_heal:
  assumes "tick_effects shard tick pm = Ok pm'"
  shows "map_option pl_health (find_player pm' v) = map_option pl_health (find_player pm v)"
  using assms tick_all_effects_health by (simp add: tick_effects_def)

text \<open>The tick of the effects stops at a player who resists damage (the first one in the iteration), at
every tick that the level divides.\<close>

theorem resistance_blocks_tick:
  assumes "pm_players pm = (u, p) # rest" "level_of (effect_id Resistance) p > 0"
    and "unat tick mod max (50 div unat (level_of (effect_id Resistance) p)) 1 = 0"
  shows "tick_effects shard tick pm = Err Deadlock"
proof -
  have "effect_id Resistance = 10" by (simp add: effect_id_def effect_ids_def)
  then show ?thesis
    using assms by (simp add: tick_effects_def effects_step_def find_player_def Let_def)
qed

theorem resistance_blocks_tick_witness:
  "tick_effects (\<lambda>_. 0) 100 (new_player_manager\<lparr>pm_players :=
     [(7, (new_player 0 7 [])\<lparr>pl_active_effects :=
        [\<lparr>ae_effect = Resistance, ae_amplifier = 0, ae_duration_ticks = 200\<rparr>]\<rparr>)]\<rparr>) = Err Deadlock"
proof (rule resistance_blocks_tick)
  let ?p = "(new_player 0 7 [])\<lparr>pl_active_effects :=
        [\<lparr>ae_effect = Resistance, ae_amplifier = 0, ae_duration_ticks = 200\<rparr>]\<rparr>"
  have l: "level_of (effect_id Resistance) ?p = 1" unfolding level_of_def by simp
  show "level_of (effect_id Resistance) ?p > 0" "unat (100 :: u64) mod max (50 div unat (level_of (effect_id Resistance) ?p)) 1 = 0"
    unfolding l by simp_all
qed simp

theorem status_effects_never_heal_witness:
  "map_option pl_health (find_player (snd (add_player 7 [] new_player_manager)) 7) = Some (float_of_int 20)"
proof -
  let ?pm = "snd (add_player 7 [] new_player_manager)"
  have f: "find_player ?pm 7 = Some (new_player 0 7 [])"
    by (simp add: add_player_def allocate_entity_id_def new_player_manager_def init_player_chunk_def Let_def find_player_def put_player_def)
  obtain pm' where t: "tick_effects (\<lambda>_. 0) 1 ?pm = Ok pm'"
    by (simp add: tick_effects_def effects_step_def add_player_def allocate_entity_id_def new_player_manager_def
        init_player_chunk_def Let_def find_player_def put_player_def level_of_def new_player_def periodic_effects_def movement_effects_def food_effects_def)
  from status_effects_never_heal [OF t, of 7] f show ?thesis by (simp add: new_player_def)
qed

section \<open>Logins and the index of chunks\<close>

lemma find_add_player [simp]:
  "find_player (snd (add_player u n pm)) v =
     (if v = u then Some (new_player (pm_next_entity_id pm) u n) else find_player pm v)"
  by (simp add: add_player_def allocate_entity_id_def init_player_chunk_def Let_def find_player_def
      put_player_def update_conv')

lemma find_remove_player [simp]:
  "find_player (snd (remove_player u pm)) v = (if v = u then None else find_player pm v)"
  by (auto simp: remove_player_def Let_def find_player_def remove_player_chunk_def delete_conv' split: option.split)

text \<open>C32. When an account logs in twice, the end of the first session takes the second one off the
players: every later operation on it fails, and it is no longer counted.\<close>

theorem second_login_loses_player:
  "let pm2 = snd (add_player u name2 (snd (add_player u name1 pm)));
       pm3 = snd (remove_player u pm2)
   in find_player pm2 u = Some (new_player (pm_next_entity_id pm + 1) u name2) \<and> find_player pm3 u = None \<and>
      set_health u h pm3 = not_found \<and> update_position_full u x y z yaw pitch pm3 = not_found \<and>
      add_item_to_player u item n pm3 = not_found"
proof -
  have "pm_next_entity_id (snd (add_player u name1 pm)) = pm_next_entity_id pm + 1"
    by (simp add: add_player_def allocate_entity_id_def init_player_chunk_def Let_def put_player_def)
  then show ?thesis
    by (simp add: Let_def set_health_def update_position_full_def add_item_to_player_def try_player_def)
qed

lemma chunk_players_put [simp]: "pm_chunk_players (put_player u p pm) = pm_chunk_players pm"
  by (simp add: put_player_def)

lemma new_player_chunk: "player_chunk (pl_position (new_player e u n)) = (0, 0)"
proof -
  have "chunk_coord 0 = 0"
    by (simp add: chunk_coord_def floor_i32_def float_value_def Let_def frac_len_def exp_top_def floor_value_def
        signed_def saturate_def)
  then show ?thesis by (simp add: player_chunk_def new_player_def)
qed

text \<open>A player who joins and is put back to a saved position is not found by the search for players in
range of that very position, when it lies away from the chunk at the origin: restoring a position leaves
the index of chunks as it was.\<close>

theorem restored_player_not_in_range:
  assumes "\<forall>c. u \<notin> set (pm_chunk_players pm c)"
    and "update_position_full u x y z yaw pitch (snd (add_player u name pm)) = Ok pm'"
    and "0 \<notin> set (map (\<lambda>d. chunk_coord x + d) (chunk_offsets (chunk_radius radius)))"
  shows "find_player pm' u \<noteq> None \<and> u \<notin> fst ` set (players_in_range x y z radius pm')"
proof
  show "find_player pm' u \<noteq> None"
    using assms(2) by (auto simp: update_position_full_def try_player_def)
  have idx: "pm_chunk_players pm' = pm_chunk_players (snd (add_player u name pm))"
    using assms(2) by (auto simp: update_position_full_def try_player_def)
  have "pm_chunk_players pm' = (pm_chunk_players pm)((0, 0) := pm_chunk_players pm (0, 0) @ [u])"
    unfolding idx
    by (simp add: add_player_def allocate_entity_id_def init_player_chunk_def Let_def new_player_chunk)
  then have "u \<notin> set (pm_chunk_players pm' (chunk_coord x + d, e))" if "d \<in> set (chunk_offsets (chunk_radius radius))" for d e
    using that assms(1,3) by auto
  then show "u \<notin> fst ` set (players_in_range x y z radius pm')"
    by (auto simp: players_in_range_def Let_def in_range_of_def split: option.splits if_splits)
qed

theorem restored_player_not_in_range_witness:
  "\<exists>pm'. update_position_full 7 (float_of_int 1000) (float_of_int 64) 0 0 0 (snd (add_player 7 [] new_player_manager)) = Ok pm' \<and>
     7 \<notin> fst ` set (players_in_range (float_of_int 1000) (float_of_int 64) 0 (float_of_int 64) pm')"
proof -
  have r: "chunk_radius (float_of_int 64) = 4" "chunk_coord (float_of_int 1000) = 62"
    by (simp_all add: chunk_radius_def ceil_4 chunk_coord_def floor_1000 word_sless_alt)
  have o: "0 \<notin> set (map (\<lambda>d. chunk_coord (float_of_int 1000) + d) (chunk_offsets (chunk_radius (float_of_int 64))))"
    unfolding r by (simp add: chunk_offsets_def upto.simps)
  obtain pm' where p: "update_position_full 7 (float_of_int 1000) (float_of_int 64) 0 0 0 (snd (add_player 7 [] new_player_manager)) = Ok pm'"
    by (simp add: update_position_full_def try_player_def)
  have "\<forall>c. 7 \<notin> set (pm_chunk_players new_player_manager c)" by (simp add: new_player_manager_def)
  from restored_player_not_in_range [OF this p o] p show ?thesis by blast
qed

section \<open>Experience\<close>

definition xp_to_level :: "nat \<Rightarrow> int" where
  "xp_to_level n = sum_list (map xp_for_next [0..<n])"

lemma xp_to_level_Suc [simp]: "xp_to_level (Suc n) = xp_to_level n + xp_for_next n"
  by (simp add: xp_to_level_def)

lemma xp_to_level_0 [simp]: "xp_to_level 0 = 0"
  by (simp add: xp_to_level_def)

lemma xp_to_level_ge: "7 * int n \<le> xp_to_level n"
  by (induction n) (auto simp: xp_for_next_def)

lemma sint_word_of_nat: "n < 2 ^ 31 \<Longrightarrow> sint (word_of_nat n :: i32) = int n"
  using sint_usize_as_i32 [of n] by (simp add: usize_as_i32_def)

lemma xp_loop_exact:
  "0 \<le> r \<Longrightarrow> xp_loop l r = (l', r') \<Longrightarrow> xp_to_level l' + r' = xp_to_level l + r \<and> 0 \<le> r' \<and> r' < xp_for_next l'"
proof (induction l r rule: xp_loop.induct)
  case (1 l r)
  show ?case
  proof (cases "r \<ge> xp_for_next l")
    case True
    then have "xp_loop (l + 1) (r - xp_for_next l) = (l', r')"
      using "1.prems"(2) by (simp add: xp_loop.simps [of l r])
    from "1.IH" [OF True _ this] True show ?thesis by simp
  next
    case False
    then show ?thesis using "1.prems" by (simp add: xp_loop.simps [of l r])
  qed
qed

lemma add_xp_level:
  assumes "find_player pm u = Some p" "0 \<le> sint (pl_xp_total p + amount)"
  obtains pm' p' level where "add_xp u amount pm = Ok pm'" "find_player pm' u = Some p'"
    "pl_xp_total p' = pl_xp_total p + amount" "sint (pl_xp_level p') = int level"
    "xp_to_level level \<le> sint (pl_xp_total p')" "sint (pl_xp_total p') < xp_to_level (Suc level)"
proof -
  let ?t = "pl_xp_total p + amount"
  obtain level r where l: "xp_loop 0 (sint ?t) = (level, r)" by (cases "xp_loop 0 (sint ?t)")
  from xp_loop_exact [OF assms(2) l] have e: "xp_to_level level + r = sint ?t" "0 \<le> r" "r < xp_for_next level"
    by simp_all
  then have "7 * int level < 2 ^ 31"
    using xp_to_level_ge [of level] sint_lt [of ?t] by simp
  then have s: "sint (word_of_nat level :: i32) = int level"
    by (intro sint_word_of_nat) simp_all
  define q where "q = p\<lparr>pl_xp_total := ?t, pl_xp_level := word_of_nat level,
    pl_xp_bar := fdiv (float_of_int r) (float_of_int (xp_for_next level))\<rparr>"
  have "add_xp u amount pm = Ok (fold (send_state u) [XpUpdate (pl_xp_bar q) (pl_xp_level q) (pl_xp_total q)] (put_player u q pm))"
    using assms(1) l by (simp add: add_xp_def try_player_def Let_def q_def)
  then show ?thesis
    by (rule that [where p' = q and level = level]) (use s e in \<open>simp_all add: q_def\<close>)
qed

text \<open>C33. Experience added to a total that stays positive: the level is the one whose cost the total
covers and the next one's does not.\<close>

theorem xp_level_exact:
  assumes "find_player pm u = Some p" "0 \<le> sint (pl_xp_total p + amount)"
  shows "\<exists>pm' p' level. add_xp u amount pm = Ok pm' \<and> find_player pm' u = Some p' \<and>
    pl_xp_total p' = pl_xp_total p + amount \<and> sint (pl_xp_level p') = int level \<and>
    xp_to_level level \<le> sint (pl_xp_total p') \<and> sint (pl_xp_total p') < xp_to_level (Suc level)"
  by (rule add_xp_level [OF assms]) blast

theorem xp_level_exact_witness:
  "\<exists>pm' p' level. add_xp 7 100 (snd (add_player 7 [] new_player_manager)) = Ok pm' \<and> find_player pm' 7 = Some p' \<and>
    sint (pl_xp_level p') = int level \<and> xp_to_level level \<le> 100 \<and> 100 < xp_to_level (Suc level)"
proof -
  have f: "find_player (snd (add_player 7 [] new_player_manager)) 7 = Some (new_player 0 7 [])"
    by (simp add: new_player_manager_def)
  have "pl_xp_total (new_player 0 7 []) + 100 = 100" by (simp add: new_player_def)
  with xp_level_exact [OF f, of 100] show ?thesis by fastforce
qed

lemma xp_taken_middle:
  assumes "17 \<le> l" "l \<le> 31"
  shows "xp_taken (word_of_nat l) = word_of_int (xp_for_next (l - 1) + 5)"
proof -
  have "sint (word_of_nat l :: i32) = int l"
    using assms by (intro sint_word_of_nat) simp_all
  then have a: "xp_taken (word_of_nat l) = 5 * word_of_nat l - 38"
    using assms by (simp add: xp_taken_def word_sle_eq)
  have b: "xp_for_next (l - 1) + 5 = 5 * int l - 38"
    using assms by (auto simp: xp_for_next_def of_nat_diff)
  show ?thesis unfolding a b by simp
qed

lemma xp_taken_for_middle:
  "16 + n \<le> l \<Longrightarrow> l \<le> 31 \<Longrightarrow>
     xp_taken_for n (word_of_nat l) = word_of_int (xp_to_level l - xp_to_level (l - n) + 5 * int n)"
proof (induction n arbitrary: l)
  case (Suc n)
  have l: "l = Suc (l - 1)" using Suc.prems by simp
  have "word_of_nat l - 1 = (word_of_nat (l - 1) :: i32)" by (subst l) simp
  moreover have "xp_taken_for n (word_of_nat (l - 1)) =
      (word_of_int (xp_to_level (l - 1) - xp_to_level (l - 1 - n) + 5 * int n) :: i32)"
    using Suc.prems by (intro Suc.IH) simp_all
  moreover have "xp_taken (word_of_nat l) = word_of_int (xp_for_next (l - 1) + 5)"
    using Suc.prems by (intro xp_taken_middle) simp_all
  moreover have "xp_to_level l = xp_to_level (l - 1) + xp_for_next (l - 1)"
    by (subst l) (simp only: xp_to_level_Suc)
  ultimately show ?case by (simp add: algebra_simps)
qed simp

lemma xp_to_level_mono: "m \<le> n \<Longrightarrow> xp_to_level m \<le> xp_to_level n"
proof (induction n)
  case (Suc n)
  then show ?case using xp_for_next_pos [of n] by (cases "m = Suc n") auto
qed simp

lemma xp_to_level_inverse: "xp_to_level m \<le> t \<Longrightarrow> t < xp_to_level n \<Longrightarrow> m < n"
  using xp_to_level_mono [of n m] by (cases "m < n") auto

text \<open>Paying levels takes five points too many for each of the levels 17 to 31: a player who is less than
five points per level into the level has lost one more level at the next experience, even
at none.\<close>

theorem paid_levels_cost_more:
  assumes "find_player pm u = Some p" "sint (pl_xp_level p) = int l" "16 + n \<le> l" "l \<le> 31"
    and "sint (pl_xp_total p) = xp_to_level l + r" "0 \<le> r" "r < 5 * int n"
  shows "\<exists>pm1 pm2 p1 p2. remove_xp_levels u (word_of_nat n) pm = Ok pm1 \<and> find_player pm1 u = Some p1 \<and>
    sint (pl_xp_level p1) = int (l - n) \<and> add_xp u 0 pm1 = Ok pm2 \<and> find_player pm2 u = Some p2 \<and>
    sint (pl_xp_level p2) < int (l - n)"
proof -
  have lev: "pl_xp_level p = word_of_nat l"
    using arg_cong [OF assms(2), of "word_of_int :: int \<Rightarrow> i32"] by simp
  have n: "sint (word_of_nat n :: i32) = int n"
    using assms(3,4) by (intro sint_word_of_nat) simp_all
  define t where "t = xp_to_level (l - n) + r - 5 * int n"
  have top: "xp_to_level (l - n) \<le> xp_to_level 31" and low: "xp_to_level 16 \<le> xp_to_level (l - n)"
    using assms(3,4) by (auto intro!: xp_to_level_mono)
  have ends: "xp_to_level 31 = 1507" "xp_to_level 16 = 352" by (simp_all add: xp_to_level_def xp_for_next_def upt_rec)
  have t: "0 \<le> t" "t < 2 ^ 31" using top low ends assms(3,4,6,7) by (simp_all add: t_def)
  have "pl_xp_total p = word_of_int (xp_to_level l + r)"
    using arg_cong [OF assms(5), of "word_of_int :: int \<Rightarrow> i32"] by simp
  then have "pl_xp_total p - xp_taken_for n (pl_xp_level p) = word_of_int t"
    unfolding lev xp_taken_for_middle [OF assms(3,4)] t_def by simp
  moreover have st: "sint (word_of_int t :: i32) = t"
    using t by (simp add: sint_sbintrunc' signed_take_bit_int_eq_self)
  ultimately have tot: "signed_max (pl_xp_total p - xp_taken_for n (pl_xp_level p)) 0 = word_of_int t"
    using t by (simp add: signed_max_def word_sless_alt)
  have lv: "pl_xp_level p - word_of_nat n = word_of_nat (l - n)"
    using assms(3) by (simp add: lev of_nat_diff)
  have c: "\<not> pl_xp_level p <s word_of_nat n" and nn: "nat (sint (word_of_nat n :: i32)) = n"
    using assms(2,3) n by (simp_all add: word_sless_alt)
  define q where "q = p\<lparr>pl_xp_total := word_of_int t, pl_xp_level := word_of_nat (l - n),
    pl_xp_bar := xp_bar_of (word_of_nat (l - n)) (word_of_int t)\<rparr>"
  define pm1 where "pm1 = send_state u (XpUpdate (pl_xp_bar q) (pl_xp_level q) (pl_xp_total q)) (put_player u q pm)"
  have r: "remove_xp_levels u (word_of_nat n) pm = Ok pm1" "find_player pm1 u = Some q"
    "pl_xp_level q = word_of_nat (l - n)" "pl_xp_total q = word_of_int t"
    using assms(1) by (simp_all add: remove_xp_levels_def Let_def c nn tot lv pm1_def q_def)
  have "sint (word_of_nat (l - n) :: i32) = int (l - n)"
    using assms(4) by (intro sint_word_of_nat) simp_all
  moreover from r(2) obtain pm2 p2 level where a: "add_xp u 0 pm1 = Ok pm2" "find_player pm2 u = Some p2"
    "sint (pl_xp_level p2) = int level" "xp_to_level level \<le> t"
    by (rule add_xp_level [where amount = 0]) (use r(4) st t in simp_all)
  moreover have "level < l - n"
    using a(4) assms(7) by (intro xp_to_level_inverse [of _ t]) (simp_all add: t_def)
  ultimately show ?thesis using r(1-3) by auto
qed

theorem paid_levels_cost_more_witness:
  "let pm = new_player_manager\<lparr>pm_players := [(7, (new_player 0 7 [])\<lparr>pl_xp_level := 30, pl_xp_total := 1395\<rparr>)]\<rparr>
   in \<exists>pm1 pm2 p1 p2. remove_xp_levels 7 3 pm = Ok pm1 \<and> find_player pm1 7 = Some p1 \<and> sint (pl_xp_level p1) = 27 \<and>
    add_xp 7 0 pm1 = Ok pm2 \<and> find_player pm2 7 = Some p2 \<and> sint (pl_xp_level p2) < 27"
proof -
  let ?p = "(new_player 0 7 [])\<lparr>pl_xp_level := 30, pl_xp_total := 1395\<rparr>"
  let ?pm = "new_player_manager\<lparr>pm_players := [(7, ?p)]\<rparr>"
  have "find_player ?pm 7 = Some ?p" by (simp add: find_player_def)
  moreover have "sint (pl_xp_level ?p) = int 30" "sint (pl_xp_total ?p) = xp_to_level 30 + 0"
    by (simp_all add: xp_to_level_def xp_for_next_def upt_rec)
  ultimately show ?thesis
    using paid_levels_cost_more [of ?pm 7 ?p 30 3 0] by simp
qed

section \<open>Reachable states\<close>

lemma flt_through_zero:
  assumes "flt y 0" "flt 0 z"
  shows "flt y (z :: f32)"
proof -
  have z0: "float_value (0 :: f32) = Finite False 0 (exp_least TYPE(32))"
    by (simp add: float_value_def Let_def frac_len_def exp_top_def)
  show ?thesis
  proof (cases "float_value y"; cases "float_value z")
    fix s m e t n f
    assume v: "float_value y = Finite s m e" "float_value z = Finite t n f"
    then have sign: "s" "m > 0" "n > 0" "\<not> t"
      using assms by (auto simp: flt_def z0 value_less_def split: if_splits)
    have "- int m * 2 ^ k < 0" "0 < int n * 2 ^ l" for k l using sign by simp_all
    then have "- int m * 2 ^ k < int n * 2 ^ l" for k l by (rule less_trans)
    then show ?thesis using sign by (simp add: flt_def v value_less_def signed_def Let_def)
  qed (use assms in \<open>auto simp: flt_def z0 value_less_def split: if_splits\<close>)
qed

definition vital :: "uuid \<Rightarrow> Player \<Rightarrow> bool" where
  "vital u p \<longleftrightarrow> pl_uuid p = u \<and> \<not> flt (pl_health p) 0 \<and> 0 \<le> sint (pl_food_level p) \<and> sint (pl_food_level p) \<le> 20"

definition all_vital :: "PlayerManager \<Rightarrow> bool" where
  "all_vital pm \<longleftrightarrow> (\<forall>u p. find_player pm u = Some p \<longrightarrow> vital u p)"

lemma all_vital_put: "all_vital pm \<Longrightarrow> vital u p \<Longrightarrow> all_vital (put_player u p pm)"
  by (auto simp: all_vital_def)

lemma all_vital_send [simp]: "all_vital (send_state u k pm) = all_vital pm"
  by (simp add: all_vital_def)

lemma all_vital_D: "all_vital pm \<Longrightarrow> find_player pm u = Some p \<Longrightarrow> vital u p"
  by (simp add: all_vital_def)

lemma vital_health: "vital u p \<Longrightarrow> vital u (p\<lparr>pl_health := fmax h 0\<rparr>)"
  by (simp add: vital_def)

lemma vital_hurt: "vital u p \<Longrightarrow> vital u (p\<lparr>pl_health := fmax h 0, pl_last_damage_tick := t\<rparr>)"
  by (simp add: vital_def)

lemma vital_effects: "vital u p \<Longrightarrow> vital u (p\<lparr>pl_active_effects := es\<rparr>)"
  by (simp add: vital_def)

lemma vital_xp: "vital u p \<Longrightarrow> vital u (p\<lparr>pl_xp_total := a, pl_xp_level := b, pl_xp_bar := c\<rparr>)"
  by (simp add: vital_def)

lemma vital_D: "vital u p \<Longrightarrow> \<not> flt (pl_health p) 0"
  by (simp add: vital_def)

lemma vital_set: "vital u p \<Longrightarrow> \<not> flt h 0 \<Longrightarrow> vital u (p\<lparr>pl_health := h\<rparr>)"
  by (simp add: vital_def)

text \<open>What the connections and the ticks do to the players.\<close>

inductive player_step :: "(uuid \<Rightarrow> nat) \<Rightarrow> PlayerManager \<Rightarrow> PlayerManager \<Rightarrow> bool" for shard where
  joins: "player_step shard pm (snd (add_player u name pm))"
| leaves: "player_step shard pm (snd (remove_player u pm))"
| healed: "set_health u h pm = Ok pm' \<Longrightarrow> player_step shard pm pm'"
| eats: "get_food_value item = Some (n, s) \<Longrightarrow> add_food u n s pm = Ok pm' \<Longrightarrow> player_step shard pm pm'"
| fed: "set_food u n s pm = Ok pm' \<Longrightarrow> player_step shard pm pm'"
| hurt: "apply_damage_with_enchants shard r1 r2 u raw tick attacker weapon armor pm = Ok (d, pm') \<Longrightarrow>
    player_step shard pm pm'"
| falls: "player_step shard pm (apply_fall_damage u h feather pm)"
| suffers: "player_step shard pm (apply_environmental_damage u kind pm)"
| affected: "add_effect shard u e pm = Ok pm' \<Longrightarrow> player_step shard pm pm'"
| poisoned: "player_step shard pm (tick_effect_damage u pm)"
| effects: "tick_effects shard tick pm = Ok pm' \<Longrightarrow> player_step shard pm pm'"
| hunger: "tick_hunger shard pm = Ok pm' \<Longrightarrow> player_step shard pm pm'"
| moves: "update_position_full u x y z yaw pitch pm = Ok pm' \<Longrightarrow> player_step shard pm pm'"
| learns: "add_xp u n pm = Ok pm' \<Longrightarrow> player_step shard pm pm'"
| pays: "remove_xp_levels u n pm = Ok pm' \<Longrightarrow> player_step shard pm pm'"

inductive player_states :: "(uuid \<Rightarrow> nat) \<Rightarrow> PlayerManager \<Rightarrow> bool" for shard where
  start: "player_states shard new_player_manager"
| step: "player_states shard pm \<Longrightarrow> player_step shard pm pm' \<Longrightarrow> player_states shard pm'"

lemma vital_new: "vital u (new_player e u n)"
  by (simp add: vital_def new_player_def small_integers_positive)

lemma try_player_vital:
  assumes "try_player u f ev pm = Ok pm'" "all_vital pm" "\<And>p. vital u p \<Longrightarrow> vital u (f p)"
  shows "all_vital pm'"
proof -
  have fold: "all_vital (fold (send_state u) es pm) = all_vital pm" for es pm
    by (induction es arbitrary: pm) simp_all
  obtain p where "find_player pm u = Some p" "pm' = fold (send_state u) (ev (f p)) (put_player u (f p) pm)"
    using assms(1) by (auto simp: try_player_def not_found_def split: option.splits)
  then show ?thesis using assms(2,3) by (auto simp: fold intro!: all_vital_put dest: all_vital_D)
qed

lemma sint_signed_min: "sint (signed_min a b) = min (sint a) (sint b)"
  by (simp add: signed_min_def word_sless_alt min_def)

lemma sint_signed_max: "sint (signed_max a b) = max (sint a) (sint b)"
  by (simp add: signed_max_def word_sless_alt max_def)

lemma food_sum:
  assumes "0 \<le> sint a" "sint a \<le> 20" "0 \<le> sint b" "sint b \<le> 255"
  shows "0 \<le> sint (signed_min (a + b) 20) \<and> sint (signed_min (a + b) 20) \<le> 20"
proof -
  have "sint (a + b) = sint a + sint b" using assms by (intro sint_add_inside) simp_all
  then show ?thesis using assms by (simp add: sint_signed_min)
qed

lemma food_value_small: "get_food_value item = Some (n, s) \<Longrightarrow> 0 \<le> sint n \<and> sint n \<le> 255"
proof -
  assume "get_food_value item = Some (n, s)"
  then have "(item, n, s) \<in> set food_values" unfolding get_food_value_def by (rule map_of_SomeD)
  then have "n \<in> (\<lambda>(_, n, _). n) ` set food_values" by force
  then show ?thesis by (auto simp: food_values_def)
qed

lemma all_vital_damage:
  assumes "apply_damage_with_enchants shard r1 r2 u raw tick attacker weapon armor pm = Ok (d, pm')" "all_vital pm"
  shows "all_vital pm'"
proof -
  have th: "all_vital pm'" if "thorns shard r1 r2 u attacker armor pm = Ok pm'" "all_vital pm" for pm pm'
    using that unfolding thorns_def Let_def while_held_def
    by (auto intro!: all_vital_put vital_health dest: all_vital_D split: option.splits if_splits)
  obtain p k h where p: "find_player pm u = Some p"
    and t: "thorns shard r1 r2 u attacker armor
      (send_state u k (put_player u (p\<lparr>pl_health := fmax h 0, pl_last_damage_tick := tick\<rparr>) pm)) = Ok pm'"
    using assms(1) unfolding apply_damage_with_enchants_def Let_def not_found_def
    by (auto simp: and_then_eq_Ok split: option.splits prod.splits)
  show ?thesis
    by (rule th [OF t]) (simp add: all_vital_put vital_hurt all_vital_D [OF assms(2) p] assms(2))
qed

lemma all_vital_damage_ignored:
  assumes "all_vital pm"
  shows "all_vital (damage_ignored u d pm)"
proof -
  define t where "t = (case find_player pm u of Some p \<Rightarrow> pl_last_damage_tick p | None \<Rightarrow> 0) + 1"
  have i: "damage_ignored u d pm = (case apply_damage u d t pm of Ok (_, pm) \<Rightarrow> pm | _ \<Rightarrow> pm)"
    by (simp add: damage_ignored_def Let_def t_def)
  show ?thesis
  proof (cases "apply_damage u d t pm")
    case (Ok r)
    obtain x pm' where r: "r = (x, pm')" by (cases r)
    have "all_vital pm'" using Ok assms unfolding r apply_damage_def by (rule all_vital_damage)
    then show ?thesis by (simp add: i Ok r)
  qed (use assms i in simp_all)
qed

lemma vital_drain_once: "vital u p \<Longrightarrow> vital u (drain_once p)"
proof -
  assume v: "vital u p"
  have "sint (pl_food_level p - 1) = sint (pl_food_level p) - 1" if "0 < sint (pl_food_level p)"
    using that v by (subst sint_diff_inside) (simp_all add: vital_def)
  then show ?thesis using v by (auto simp: drain_once_def vital_def Let_def word_sless_alt)
qed

lemma vital_drain:
  assumes "drain p = Some (q, c)" "vital u p"
  shows "vital u q"
proof -
  have step: "case drain_step of (p, _) \<Rightarrow> vital u p \<Longrightarrow>
      case (case drain_step of (p, _) \<Rightarrow> (drain_once p, True)) of (p, _) \<Rightarrow> vital u p" for drain_step :: "Player \<times> bool"
    by (auto intro: vital_drain_once split: prod.splits)
  have "case (q, c) of (p, _) \<Rightarrow> vital u p"
    by (rule while_option_rule [where P = "\<lambda>(p, _). vital u p", OF _ assms(1) [unfolded drain_def]])
      (use step assms(2) in auto)
  then show ?thesis by simp
qed

lemma level_of_unchanged [simp]: "level_of i (p\<lparr>pl_food_exhaustion := a\<rparr>) = level_of i p"
  by (simp add: level_of_def)

lemma periodic_effects_food: "pl_food_level (periodic_effects tick p) =
    (if level_of 23 p > 0 \<and> tick mod 20 = 0 then signed_min (pl_food_level p + ucast (level_of 23 p)) 20
     else pl_food_level p)"
  by (simp add: periodic_effects_def movement_effects_def food_effects_def Let_def)

lemma vital_periodic: "vital u p \<Longrightarrow> vital u (periodic_effects tick p)"
proof -
  assume v: "vital u p"
  have "sint (ucast (level_of 23 p) :: i32) = uint (level_of 23 p)"
    using unsigned_less [of "level_of 23 p", where 'a = int]
    by (subst sint_of_small) (simp_all add: unsigned_ucast_eq take_bit_int_eq_self)
  then have "0 \<le> sint (signed_min (pl_food_level p + ucast (level_of 23 p)) 20) \<and>
      sint (signed_min (pl_food_level p + ucast (level_of 23 p)) 20) \<le> 20"
    using v unsigned_less [of "level_of 23 p", where 'a = int] by (intro food_sum) (simp_all add: vital_def)
  then show ?thesis using v by (simp add: vital_def periodic_effects_food)
qed

lemma all_vital_effects_step: "effects_step shard tick u pm = Ok pm' \<Longrightarrow> all_vital pm \<Longrightarrow> all_vital pm'"
proof -
  assume s: "effects_step shard tick u pm = Ok pm'" and v: "all_vital pm"
  have keep: "vital u p \<Longrightarrow> vital u (periodic_effects tick p\<lparr>pl_active_effects := es\<rparr>)"
    "vital u p \<Longrightarrow> vital u (periodic_effects tick p\<lparr>pl_position := pos, pl_absorption_health := a, pl_active_effects := es\<rparr>)"
    "vital u p \<Longrightarrow> vital u (periodic_effects tick p\<lparr>pl_position := pos, pl_active_effects := es\<rparr>)"
    for p es pos a
    using vital_periodic [of u p tick] by (auto simp: vital_def)
  show ?thesis
    using s v by (auto simp: effects_step_def Let_def intro!: all_vital_put keep dest: all_vital_D
        split: option.splits if_splits)
qed

lemma all_vital_effects: "tick_all (effects_step shard tick) us pm = Ok pm' \<Longrightarrow> all_vital pm \<Longrightarrow> all_vital pm'"
  by (induction us arbitrary: pm) (auto simp: and_then_eq_Ok dest: all_vital_effects_step)

lemma all_vital_hunger_step: "hunger_step shard u pm = Ok (pm', es, c) \<Longrightarrow> all_vital pm \<Longrightarrow> all_vital pm'"
proof -
  assume s: "hunger_step shard u pm = Ok (pm', es, c)" and v: "all_vital pm"
  show ?thesis
  proof (cases "find_player pm u")
    case (Some p)
    let ?e = "p\<lparr>pl_food_exhaustion := fadd (pl_food_exhaustion p) (activity_exhaustion p)\<rparr>"
    have p: "vital u p" using v Some by (rule all_vital_D)
    then have e: "vital u ?e" by (simp add: vital_def)
    have q: "vital u q \<and> vital u (q\<lparr>pl_food_exhaustion := 0, pl_health := fmax h 0\<rparr>) \<and> pl_uuid q = u"
      if "drain ?e = Some (q, b)" for q b h
      using vital_drain [OF that e] by (simp add: vital_def)
    show ?thesis
      using s v p q unfolding hunger_step_def Some Let_def
      by (auto intro!: all_vital_put split: option.splits if_splits)
  qed (use s v in \<open>auto simp: hunger_step_def\<close>)
qed

lemma all_vital_hunger: "hunger_loop shard us pm es = Ok pm' \<Longrightarrow> all_vital pm \<Longrightarrow> all_vital pm'"
proof (induction us arbitrary: pm es)
  case Nil
  have "all_vital (fold (\<lambda>(u, k). send_state u k) es pm) = all_vital pm" for pm
    by (induction es arbitrary: pm) (simp_all add: split_def)
  with Nil show ?case by auto
next
  case (Cons u us)
  have fold: "all_vital (fold (\<lambda>(u, k). send_state u k) es pm) = all_vital pm" for es pm
    by (induction es arbitrary: pm) (simp_all add: split_def)
  from Cons show ?case
    by (auto simp: and_then_eq_Ok fold dest!: all_vital_hunger_step split: if_splits prod.splits)
qed

lemma player_step_vital: "player_step shard pm pm' \<Longrightarrow> all_vital pm \<Longrightarrow> all_vital pm'"
proof (induction rule: player_step.induct)
  case (joins pm u name)
  then show ?case by (auto simp: all_vital_def vital_new)
next
  case (leaves pm u)
  have "find_player (snd (remove_player u pm)) v = (if v = u then None else find_player pm v)" for v
    by (auto simp: remove_player_def Let_def find_player_def remove_player_chunk_def delete_conv' split: option.split)
  with leaves show ?case by (auto simp: all_vital_def)
next
  case (healed u h pm pm')
  then show ?case unfolding set_health_def by (rule try_player_vital) (simp add: vital_def)
next
  case (eats item n s u pm pm')
  show ?case
    using eats.hyps(2) eats.prems unfolding add_food_def
    by (rule try_player_vital) (use food_value_small [OF eats.hyps(1)] in \<open>simp add: vital_def Let_def food_sum\<close>)
next
  case (fed u n s pm pm')
  then show ?case unfolding set_food_def
    by (rule try_player_vital) (simp add: vital_def sint_signed_min sint_signed_max)
next
  case (falls pm u h feather)
  then show ?case by (simp add: apply_fall_damage_def Let_def all_vital_damage_ignored)
next
  case (suffers pm u kind)
  then show ?case by (simp add: apply_environmental_damage_def Let_def all_vital_damage_ignored)
next
  case (affected u e pm pm')
  then show ?case
    by (auto simp: add_effect_def Let_def not_found_def intro!: all_vital_put vital_effects dest: all_vital_D
        split: option.splits if_splits)
next
  case (poisoned pm u)
  have h: "\<not> flt (poison_and_wither a b h) 0" if "\<not> flt h 0" for a b h
  proof -
    have "\<not> flt (fmax x (float_of_int 1)) 0" for x :: f32
      using flt_through_zero [of "fmax x (float_of_int 1)" "float_of_int 1"] small_integers_positive(1) fmax_not_below
      by blast
    then show ?thesis using that by (simp add: poison_and_wither_def Let_def)
  qed
  have h0: "\<not> flt (poison_and_wither a b (pl_health p)) 0" if "find_player pm u = Some p" for a b p
    using h vital_D all_vital_D [OF poisoned that] by blast
  from h0 show ?case
    using poisoned by (auto simp: tick_effect_damage_def Let_def intro!: all_vital_put vital_set
        dest: all_vital_D split: option.splits)
next
  case (moves u x y z yaw pitch pm pm')
  then show ?case unfolding update_position_full_def by (rule try_player_vital) (simp add: vital_def)
next
  case (learns u n pm pm')
  then show ?case unfolding add_xp_def by (rule try_player_vital) (simp add: vital_def Let_def split: prod.split)
next
  case (pays u n pm pm')
  then show ?case
    by (auto simp: remove_xp_levels_def Let_def not_found_def intro!: all_vital_put vital_xp dest: all_vital_D
        split: option.splits if_splits)
qed (auto dest: all_vital_damage all_vital_effects all_vital_hunger simp: tick_effects_def tick_hunger_def)

text \<open>C34. In every state the manager can reach, from joins, damage, food, status effects, hunger,
movement and experience, every player is stored under its own identifier, its health is not
negative and its food lies between 0 and 20.\<close>

theorem players_stay_vital:
  assumes "player_states shard pm" "find_player pm u = Some p"
  shows "pl_uuid p = u \<and> \<not> flt (pl_health p) 0 \<and> 0 \<le> sint (pl_food_level p) \<and> sint (pl_food_level p) \<le> 20"
proof -
  have "all_vital pm"
    using assms(1)
  proof induction
    case start
    then show ?case by (simp add: all_vital_def find_player_def new_player_manager_def)
  qed (rule player_step_vital)
  from all_vital_D [OF this assms(2)] show ?thesis by (simp add: vital_def)
qed

theorem players_stay_vital_witness:
  "\<not> flt (pl_health (new_player 0 7 [])) 0"
proof -
  have "player_states (\<lambda>_. 0) (snd (add_player 7 [] new_player_manager))"
    by (rule player_states.step [OF player_states.start player_step.joins])
  from players_stay_vital [OF this, of 7 "new_player 0 7 []"] show ?thesis
    by (simp add: new_player_manager_def)
qed

end
