(* ===== verification/Mobs.thy ===== *)
theory Mobs
  imports PlayerOps Constants
begin

text \<open>
  \<open>mc-player/src/mob.rs\<close> without the behaviour tick: the mobs the server tracks, their index by chunk,
  the sulfur cubes, the projectiles and their tick, and the tables of health and drops. The two
  concurrent maps are association lists, the index is a function from chunks to identifiers. Random
  numbers, fresh identifiers (\<open>Uuid::new_v4\<close>) and the shard of an identifier are arguments. The
  channel of position events is the list of what was sent.
\<close>

section \<open>Sulfur cubes\<close>

datatype SulfurCubeArchetype =
    Regular | Bouncy | SlowBouncy | SlowFlat | FastFlat | Light | FastSliding | SlowSliding
  | HighResistance | Sticky | Explosive (ex_fuse_ticks: u16) (ex_primed: bool) | Hot

fun speed_mult :: "SulfurCubeArchetype \<Rightarrow> f64" where
  "speed_mult Regular = flit 1 1"
| "speed_mult Bouncy = flit 15 10"
| "speed_mult SlowBouncy = flit 5 10"
| "speed_mult SlowFlat = flit 5 10"
| "speed_mult FastFlat = flit 15 10"
| "speed_mult Light = flit 5 10"
| "speed_mult FastSliding = flit 2 1"
| "speed_mult SlowSliding = flit 5 10"
| "speed_mult HighResistance = flit 2 10"
| "speed_mult Sticky = flit 3 10"
| "speed_mult (Explosive _ _) = flit 0 1"
| "speed_mult Hot = flit 1 1"

fun bounce_factor :: "SulfurCubeArchetype \<Rightarrow> f64" where
  "bounce_factor Regular = flit 6 10"
| "bounce_factor Bouncy = flit 9 10"
| "bounce_factor SlowBouncy = flit 9 10"
| "bounce_factor SlowFlat = flit 1 10"
| "bounce_factor FastFlat = flit 1 10"
| "bounce_factor Light = flit 9 10"
| "bounce_factor FastSliding = flit 0 1"
| "bounce_factor SlowSliding = flit 0 1"
| "bounce_factor HighResistance = flit 1 10"
| "bounce_factor Sticky = flit 0 1"
| "bounce_factor (Explosive _ _) = flit 0 1"
| "bounce_factor Hot = flit 6 10"

fun friction :: "SulfurCubeArchetype \<Rightarrow> f64" where
  "friction Regular = flit 6 10"
| "friction Bouncy = flit 5 10"
| "friction SlowBouncy = flit 5 10"
| "friction SlowFlat = flit 6 10"
| "friction FastFlat = flit 4 10"
| "friction Light = flit 7 10"
| "friction FastSliding = flit 5 100"
| "friction SlowSliding = flit 1 10"
| "friction HighResistance = flit 9 10"
| "friction Sticky = flit 1 1"
| "friction (Explosive _ _) = flit 1 1"
| "friction Hot = flit 6 10"

definition air_drag :: "SulfurCubeArchetype \<Rightarrow> f64" where
  "air_drag a = (case a of Light \<Rightarrow> flit 2 1 | _ \<Rightarrow> flit 1 1)"

definition is_buoyant :: "SulfurCubeArchetype \<Rightarrow> bool" where
  "is_buoyant a = (case a of Regular \<Rightarrow> True | Bouncy \<Rightarrow> True | Light \<Rightarrow> True | _ \<Rightarrow> False)"

definition can_bucket :: "SulfurCubeArchetype \<Rightarrow> bool" where
  "can_bucket a = (case a of Explosive _ primed \<Rightarrow> \<not> primed | _ \<Rightarrow> True)"

definition can_shear :: "SulfurCubeArchetype \<Rightarrow> bool" where
  "can_shear a = (case a of Explosive _ primed \<Rightarrow> \<not> primed | _ \<Rightarrow> True)"

text \<open>The arms of the match in their order; the first that fits counts.\<close>

definition sulfur_cube_archetype_from_block :: "u32 \<Rightarrow> SulfurCubeArchetype option" where
  "sulfur_cube_archetype_from_block block_id =
     (if block_id = 25 then Some (Explosive 0 False)
      else if block_id = 312 then Some Hot
      else if block_id = 1257 then Some Sticky
      else if block_id \<in> {961, 962} then Some HighResistance
      else if 47 \<le> block_id \<and> block_id \<le> 49 then Some FastSliding
      else if 80 \<le> block_id \<and> block_id \<le> 95 then Some Light
      else if block_id \<in> {101, 102, 103, 135, 136, 164} then Some SlowSliding
      else if 13 \<le> block_id \<and> block_id \<le> 22 then Some Bouncy
      else if block_id \<in> {1, 2, 3, 4, 5, 6, 7, 12, 27, 28, 29, 30, 31, 32, 33, 34}
        \<or> 269 \<le> block_id \<and> block_id \<le> 318 then Some SlowBouncy
      else if 40 \<le> block_id \<and> block_id \<le> 46 then Some SlowFlat
      else if block_id \<in> {8, 9, 10, 11, 24, 26, 52, 53, 54, 55, 56, 57, 58, 59, 60, 61, 62, 63, 64, 65,
          66, 67, 68, 69, 70, 71, 72, 73, 74, 75, 76, 77, 78, 79} then Some FastFlat
      else if block_id \<in> {0, 267, 268} then None
      else Some Regular)"

section \<open>Mobs\<close>

datatype MobAiState =
    Idle
  | Wandering (wa_x: f64) (wa_z: f64)
  | Chasing (ch_target: uuid)
  | AboutToExplode (ab_fuse: u8)

record TrackedMob =
  mob_entity_id :: i32
  mob_uuid :: uuid
  mob_type :: i32
  mob_position :: Position
  mob_health :: f32
  mob_max_hp :: f32
  mob_age_ticks :: u64
  mob_ai_timer :: u64
  mob_ai_state :: MobAiState
  mob_attack_cooldown :: u8
  mob_last_sync_tick :: u64
  mob_owner_uuid :: "uuid option"
  mob_is_tamed :: bool
  mob_is_sitting :: bool
  mob_tame_attempts :: u8
  mob_is_baby :: bool
  mob_in_love_ticks :: u16
  mob_breed_cooldown :: u16
  mob_is_sheared :: bool
  mob_path :: "(f64 \<times> f64 \<times> f64) list"
  mob_path_last_tick :: u64
  mob_is_on_fire :: bool
  mob_is_in_water :: bool
  mob_archetype :: "SulfurCubeArchetype option"
  mob_absorbed_block :: "u32 option"
  mob_is_small_cube :: bool
  mob_dirty_flags :: u8
  mob_is_dormant :: bool

definition DIRTY_POSITION :: u8 where "DIRTY_POSITION = 1"
definition DIRTY_METADATA :: u8 where "DIRTY_METADATA = 2"
definition DIRTY_ALL :: u8 where "DIRTY_ALL = DIRTY_POSITION OR DIRTY_METADATA"

definition position_dirty :: "TrackedMob \<Rightarrow> bool" where
  "position_dirty m = (mob_dirty_flags m AND DIRTY_POSITION \<noteq> 0)"

definition metadata_dirty :: "TrackedMob \<Rightarrow> bool" where
  "metadata_dirty m = (mob_dirty_flags m AND DIRTY_METADATA \<noteq> 0)"

definition is_dirty :: "TrackedMob \<Rightarrow> bool" where
  "is_dirty m = (mob_dirty_flags m \<noteq> 0)"

definition mark_position_dirty :: "TrackedMob \<Rightarrow> TrackedMob" where
  "mark_position_dirty m = m\<lparr>mob_dirty_flags := mob_dirty_flags m OR DIRTY_POSITION\<rparr>"

definition mark_metadata_dirty :: "TrackedMob \<Rightarrow> TrackedMob" where
  "mark_metadata_dirty m = m\<lparr>mob_dirty_flags := mob_dirty_flags m OR DIRTY_METADATA\<rparr>"

definition clear_dirty :: "TrackedMob \<Rightarrow> TrackedMob" where
  "clear_dirty m = m\<lparr>mob_dirty_flags := 0\<rparr>"

section \<open>Projectiles\<close>

datatype ProjectileType =
    Arrow | Fireball | SmallFireball | Snowball | Egg | EnderPearl | Trident | SplashPotion
  | LingeringPotion | WindCharge | WitherSkull | Firework

fun entity_type_id :: "ProjectileType \<Rightarrow> i32" where
  "entity_type_id Arrow = 7"
| "entity_type_id Fireball = 34"
| "entity_type_id SmallFireball = 89"
| "entity_type_id Snowball = 86"
| "entity_type_id Egg = 87"
| "entity_type_id EnderPearl = 79"
| "entity_type_id Trident = 94"
| "entity_type_id SplashPotion = 88"
| "entity_type_id LingeringPotion = 93"
| "entity_type_id WindCharge = 95"
| "entity_type_id WitherSkull = 91"
| "entity_type_id Firework = 72"

definition has_gravity :: "ProjectileType \<Rightarrow> bool" where
  "has_gravity t = (t \<in> {Arrow, Snowball, Egg, EnderPearl, Trident, SplashPotion, LingeringPotion, Firework})"

definition max_ticks :: "ProjectileType \<Rightarrow> u16" where
  "max_ticks t = (case t of Arrow \<Rightarrow> 1200 | Trident \<Rightarrow> 1200
     | Fireball \<Rightarrow> 200 | SmallFireball \<Rightarrow> 200 | WitherSkull \<Rightarrow> 200
     | WindCharge \<Rightarrow> 60 | Firework \<Rightarrow> 600 | _ \<Rightarrow> 600)"

record Projectile =
  pr_entity_id :: i32
  pr_owner_uuid :: uuid
  pr_owner_entity_id :: i32
  pr_type :: ProjectileType
  pr_position :: Position
  pr_vel_x :: f64
  pr_vel_y :: f64
  pr_vel_z :: f64
  pr_damage :: f32
  pr_ticks_alive :: u16
  pr_max_ticks :: u16
  pr_in_ground :: bool
  pr_loyalty_level :: u8
  pr_launch_y :: f64
  pr_power_level :: u8
  pr_flame_level :: u8
  pr_punch_level :: u8
  pr_piercing_level :: u8

datatype ProjectileEvent =
    Despawned i32
  | HitEntity i32 i32
  | HitBlock i32 i32 i32 i32
  | ReturnToOwner i32 uuid
  | Explode i32 f64 f64 f64 f32

record MobPositionEvent =
  mpe_entity_id :: i32
  mpe_x :: f64
  mpe_y :: f64
  mpe_z :: f64

record MobManager =
  mm_mobs :: "(i32 \<times> TrackedMob) list"
  mm_chunk_mobs :: "i32 \<times> i32 \<Rightarrow> i32 list"
  mm_positions :: "MobPositionEvent list"
  mm_projectiles :: "(i32 \<times> Projectile) list"
  mm_next_entity_id :: i32

definition new_mob_manager :: MobManager where
  "new_mob_manager = \<lparr>mm_mobs = [], mm_chunk_mobs = (\<lambda>_. []), mm_positions = [], mm_projectiles = [],
     mm_next_entity_id = 100000\<rparr>"

section \<open>The map of mobs\<close>

definition find_mob :: "MobManager \<Rightarrow> i32 \<Rightarrow> TrackedMob option" where
  "find_mob mm = map_of (mm_mobs mm)"

definition put_mob :: "i32 \<Rightarrow> TrackedMob \<Rightarrow> MobManager \<Rightarrow> MobManager" where
  "put_mob eid m mm = mm\<lparr>mm_mobs := AList.update eid m (mm_mobs mm)\<rparr>"

text \<open>\<open>self.mobs.get_mut(&id).map(..)\<close>: a change of one mob, where it exists.\<close>

definition change_mob :: "i32 \<Rightarrow> (TrackedMob \<Rightarrow> TrackedMob) \<Rightarrow> MobManager \<Rightarrow> MobManager" where
  "change_mob eid f mm = (case find_mob mm eid of Some m \<Rightarrow> put_mob eid (f m) mm | None \<Rightarrow> mm)"

text \<open>\<open>(position.x.floor() as i32).div_euclid(16)\<close>.\<close>

definition mob_chunk :: "Position \<Rightarrow> i32 \<times> i32" where
  "mob_chunk pos = (div_euclid16 (floor_i32 (pos_x pos)), div_euclid16 (floor_i32 (pos_z pos)))"

definition index_mob :: "i32 \<times> i32 \<Rightarrow> i32 \<Rightarrow> MobManager \<Rightarrow> MobManager" where
  "index_mob c eid mm = mm\<lparr>mm_chunk_mobs := (mm_chunk_mobs mm)(c := mm_chunk_mobs mm c @ [eid])\<rparr>"

definition insert_mob :: "TrackedMob \<Rightarrow> MobManager \<Rightarrow> MobManager" where
  "insert_mob m mm = put_mob (mob_entity_id m) m (index_mob (mob_chunk (mob_position m)) (mob_entity_id m) mm)"

definition register_mob :: "TrackedMob \<Rightarrow> MobManager \<Rightarrow> MobManager" where
  "register_mob m mm =
     (let eid = mob_entity_id m; c = mob_chunk (mob_position m) in put_mob eid m (index_mob c eid mm))"

definition remove_mob :: "i32 \<Rightarrow> MobManager \<Rightarrow> TrackedMob option \<times> MobManager" where
  "remove_mob eid mm =
     (case find_mob mm eid of
        None \<Rightarrow> (None, mm)
      | Some m \<Rightarrow>
          let c = mob_chunk (mob_position m)
          in (Some m, mm\<lparr>mm_mobs := AList.delete eid (mm_mobs mm),
                mm_chunk_mobs := (mm_chunk_mobs mm)(c := filter (\<lambda>e. e \<noteq> eid) (mm_chunk_mobs mm c))\<rparr>))"

definition set_path :: "i32 \<Rightarrow> (f64 \<times> f64 \<times> f64) list \<Rightarrow> u64 \<Rightarrow> MobManager \<Rightarrow> MobManager" where
  "set_path eid path tick = change_mob eid (\<lambda>m. m\<lparr>mob_path := path, mob_path_last_tick := tick\<rparr>)"

definition near_still :: "Position \<Rightarrow> f64 \<Rightarrow> f64 \<Rightarrow> f64 \<Rightarrow> bool" where
  "near_still pos x y z =
     (flt (fabs (fsub (pos_x pos) x)) (flit 1 100) \<and> flt (fabs (fsub (pos_y pos) y)) (flit 1 100) \<and>
      flt (fabs (fsub (pos_z pos) z)) (flit 1 100))"

definition send_position :: "i32 \<Rightarrow> f64 \<Rightarrow> f64 \<Rightarrow> f64 \<Rightarrow> MobManager \<Rightarrow> MobManager" where
  "send_position eid x y z mm =
     (let event = \<lparr>mpe_entity_id = eid, mpe_x = x, mpe_y = y, mpe_z = z\<rparr>;
          sent = (\<lambda>mm. mm\<lparr>mm_positions := mm_positions mm @ [event]\<rparr>)
      in case find_mob mm eid of
           None \<Rightarrow> sent mm
         | Some m \<Rightarrow>
             if near_still (mob_position m) x y z then mm
             else sent (put_mob eid (mark_position_dirty (m\<lparr>mob_position :=
               (mob_position m)\<lparr>pos_x := x, pos_y := y, pos_z := z\<rparr>\<rparr>)) mm))"

definition damage_mob :: "i32 \<Rightarrow> f32 \<Rightarrow> MobManager \<Rightarrow> f32 option \<times> MobManager" where
  "damage_mob eid amount mm =
     (case find_mob mm eid of
        None \<Rightarrow> (None, mm)
      | Some m \<Rightarrow>
          let m = mark_metadata_dirty (m\<lparr>mob_health := fmax (fsub (mob_health m) amount) 0\<rparr>)
          in (Some (mob_health m), put_mob eid m mm))"

section \<open>Sulfur cubes in the world\<close>

definition sulfur_cube_absorb :: "i32 \<Rightarrow> u32 \<Rightarrow> MobManager \<Rightarrow> SulfurCubeArchetype option \<times> MobManager" where
  "sulfur_cube_absorb eid block_id mm =
     (case sulfur_cube_archetype_from_block block_id of
        None \<Rightarrow> (None, mm)
      | Some archetype \<Rightarrow>
          (case find_mob mm eid of
             None \<Rightarrow> (None, mm)
           | Some m \<Rightarrow> (Some archetype, put_mob eid (m\<lparr>mob_archetype := Some archetype,
               mob_absorbed_block := Some block_id, mob_ai_state := Idle\<rparr>) mm)))"

definition sulfur_cube_shear :: "i32 \<Rightarrow> MobManager \<Rightarrow> u32 option \<times> MobManager" where
  "sulfur_cube_shear eid mm =
     (case find_mob mm eid of
        None \<Rightarrow> (None, mm)
      | Some m \<Rightarrow>
          (case mob_archetype m of
             None \<Rightarrow> (None, mm)
           | Some archetype \<Rightarrow>
               if \<not> can_shear archetype then (None, mm)
               else (mob_absorbed_block m, put_mob eid (m\<lparr>mob_absorbed_block := None, mob_archetype := None\<rparr>) mm)))"

definition sulfur_cube_bucket :: "i32 \<Rightarrow> MobManager \<Rightarrow> bool \<times> MobManager" where
  "sulfur_cube_bucket eid mm =
     (case find_mob mm eid of
        None \<Rightarrow> (False, mm)
      | Some m \<Rightarrow>
          if mob_is_small_cube m then (False, mm)
          else if (case mob_archetype m of Some arch \<Rightarrow> \<not> can_bucket arch | None \<Rightarrow> False) then (False, mm)
          else (True, snd (remove_mob eid mm)))"

definition sulfur_cube_feed_slimeball :: "i32 \<Rightarrow> MobManager \<Rightarrow> bool \<times> MobManager" where
  "sulfur_cube_feed_slimeball eid mm =
     (case find_mob mm eid of
        None \<Rightarrow> (False, mm)
      | Some m \<Rightarrow>
          if mob_is_small_cube m then
            (True, put_mob eid (m\<lparr>mob_is_small_cube := False, mob_health := mob_max_hp m\<rparr>) mm)
          else (False, mm))"

definition prime_explosive :: "i32 \<Rightarrow> u16 \<Rightarrow> MobManager \<Rightarrow> bool \<times> MobManager" where
  "prime_explosive eid fuse mm =
     (case find_mob mm eid of
        None \<Rightarrow> (False, mm)
      | Some m \<Rightarrow>
          (case mob_archetype m of
             Some (Explosive _ _) \<Rightarrow> (True, put_mob eid (m\<lparr>mob_archetype := Some (Explosive fuse True)\<rparr>) mm)
           | _ \<Rightarrow> (False, mm)))"

definition is_sulfur_cube :: "i32 \<Rightarrow> MobManager \<Rightarrow> bool" where
  "is_sulfur_cube eid mm = (case find_mob mm eid of Some m \<Rightarrow> mob_type m = ET_SULFUR_CUBE | None \<Rightarrow> False)"

definition plain_position :: "f64 \<Rightarrow> f64 \<Rightarrow> f64 \<Rightarrow> Position" where
  "plain_position x y z = \<lparr>pos_x = x, pos_y = y, pos_z = z, pos_yaw = 0, pos_pitch = 0\<rparr>"

text \<open>A mob as the literals of the program build it, with the fields that they all set alike.\<close>

definition fresh_mob :: "i32 \<Rightarrow> uuid \<Rightarrow> i32 \<Rightarrow> Position \<Rightarrow> f32 \<Rightarrow> u64 \<Rightarrow> TrackedMob" where
  "fresh_mob eid u t pos hp timer =
     \<lparr>mob_entity_id = eid, mob_uuid = u, mob_type = t, mob_position = pos, mob_health = hp, mob_max_hp = hp,
      mob_age_ticks = 0, mob_ai_timer = timer, mob_ai_state = Idle, mob_attack_cooldown = 0,
      mob_last_sync_tick = 0, mob_owner_uuid = None, mob_is_tamed = False, mob_is_sitting = False,
      mob_tame_attempts = 0, mob_is_baby = False, mob_in_love_ticks = 0, mob_breed_cooldown = 0,
      mob_is_sheared = False, mob_path = [], mob_path_last_tick = 0, mob_is_on_fire = False,
      mob_is_in_water = False, mob_archetype = None, mob_absorbed_block = None, mob_is_small_cube = False,
      mob_dirty_flags = 3, mob_is_dormant = False\<rparr>"

definition sulfur_cube_spawn_small ::
  "uuid \<Rightarrow> f64 \<Rightarrow> f64 \<Rightarrow> TrackedMob \<Rightarrow> i32 \<Rightarrow> MobManager \<Rightarrow> i32 \<times> i32 \<times> MobManager" where
  "sulfur_cube_spawn_small u random_x random_z parent next_eid mm =
     (let eid = next_eid; half = flit 5 10; pp = mob_position parent;
          pos = plain_position (fadd (pos_x pp) (fmul (fsub random_x half) half)) (pos_y pp)
                  (fadd (pos_z pp) (fmul (fsub random_z half) half));
          small = (fresh_mob eid u ET_SULFUR_CUBE pos (flit 4 1) 0)\<lparr>mob_is_small_cube := True\<rparr>
      in (eid, next_eid + 1, index_mob (mob_chunk pos) eid (put_mob eid small mm)))"

section \<open>Queries\<close>

definition get_in_chunk :: "i32 \<Rightarrow> i32 \<Rightarrow> MobManager \<Rightarrow> TrackedMob list" where
  "get_in_chunk cx cz mm = List.map_filter (find_mob mm) (mm_chunk_mobs mm (cx, cz))"

definition all_mobs :: "MobManager \<Rightarrow> TrackedMob list" where
  "all_mobs mm = map snd (mm_mobs mm)"

definition all_entity_ids :: "MobManager \<Rightarrow> i32 list" where
  "all_entity_ids mm = map fst (mm_mobs mm)"

definition mob_count :: "MobManager \<Rightarrow> nat" where
  "mob_count mm = length (mm_mobs mm)"

definition hostile_numbers :: "i32 list" where
  "hostile_numbers = [25, 33, 34, 35, 36, 37, 38, 43, 44, 45, 46, 47, 48, 49, 50, 51, 52, 53, 54, 55, 56, 57,
     58, 59, 60, 61, 63, 71, 72, 105, 106]"

definition count_hostile :: "MobManager \<Rightarrow> nat" where
  "count_hostile mm = length (filter (\<lambda>m. mob_type m \<in> set hostile_numbers) (all_mobs mm))"

text \<open>The chunks of a square around one, row by row.\<close>

definition chunks_around :: "i32 \<Rightarrow> i32 \<Rightarrow> i32 \<Rightarrow> (i32 \<times> i32) list" where
  "chunks_around r cx cz = concat (map (\<lambda>dcx. map (\<lambda>dcz. (cx + dcx, cz + dcz)) (chunk_offsets r)) (chunk_offsets r))"

definition count_near :: "i32 \<Rightarrow> i32 \<Rightarrow> MobManager \<Rightarrow> i32" where
  "count_near cx cz mm =
     of_nat (length (filter (\<lambda>eid. case find_mob mm eid of Some m \<Rightarrow> is_hostile (mob_type m) | None \<Rightarrow> False)
       (concat (map (mm_chunk_mobs mm) (chunks_around 1 cx cz)))))"

definition mob_distance :: "Position \<Rightarrow> f64 \<Rightarrow> f64 \<Rightarrow> f64 \<Rightarrow> f64" where
  "mob_distance pos x y z =
     (let dx = fsub (pos_x pos) x; dy = fsub (pos_y pos) y; dz = fsub (pos_z pos) z
      in fadd (fadd (fmul dx dx) (fmul dy dy)) (fmul dz dz))"

text \<open>A stable sort whose comparison calls incomparable distances equal.\<close>

fun insert_by_distance :: "i32 \<times> f64 \<Rightarrow> (i32 \<times> f64) list \<Rightarrow> (i32 \<times> f64) list" where
  "insert_by_distance a [] = [a]"
| "insert_by_distance a (b # bs) = (if flt (snd b) (snd a) then b # insert_by_distance a bs else a # b # bs)"

definition sort_by_distance :: "(i32 \<times> f64) list \<Rightarrow> (i32 \<times> f64) list" where
  "sort_by_distance xs = foldr insert_by_distance xs []"

definition search_chunks :: "f64 \<Rightarrow> f64 \<Rightarrow> f64 \<Rightarrow> (i32 \<times> i32) list" where
  "search_chunks x z radius =
     chunks_around (chunk_radius radius) (div_euclid16 (floor_i32 x)) (div_euclid16 (floor_i32 z))"

definition entities_in_range :: "f64 \<Rightarrow> f64 \<Rightarrow> f64 \<Rightarrow> f64 \<Rightarrow> MobManager \<Rightarrow> (i32 \<times> f64) list" where
  "entities_in_range x y z radius mm =
     (let r2 = fmul radius radius in
      sort_by_distance (List.map_filter (\<lambda>eid. case find_mob mm eid of
          None \<Rightarrow> None
        | Some m \<Rightarrow> let d2 = mob_distance (mob_position m) x y z in if fle d2 r2 then Some (eid, fsqrt d2) else None)
        (concat (map (mm_chunk_mobs mm) (search_chunks x z radius)))))"

definition count_in_range :: "f64 \<Rightarrow> f64 \<Rightarrow> f64 \<Rightarrow> f64 \<Rightarrow> MobManager \<Rightarrow> nat" where
  "count_in_range x y z radius mm = sum_list (map (\<lambda>c. length (mm_chunk_mobs mm c)) (search_chunks x z radius))"

definition get_chasing :: "MobManager \<Rightarrow> TrackedMob list" where
  "get_chasing mm = filter (\<lambda>m. case mob_ai_state m of Chasing _ \<Rightarrow> True | AboutToExplode _ \<Rightarrow> True | _ \<Rightarrow> False) (all_mobs mm)"

definition remove_dead :: "MobManager \<Rightarrow> TrackedMob list \<times> MobManager" where
  "remove_dead mm =
     (let dead = filter (\<lambda>m. fle (mob_health m) 0) (all_mobs mm)
      in (dead, fold (\<lambda>d mm. snd (remove_mob (mob_entity_id d) mm)) dead mm))"

section \<open>Projectiles in flight\<close>

definition spawn_projectile_enchanted ::
  "uuid \<Rightarrow> i32 \<Rightarrow> ProjectileType \<Rightarrow> f64 \<Rightarrow> f64 \<Rightarrow> f64 \<Rightarrow> f64 \<Rightarrow> f64 \<Rightarrow> f64 \<Rightarrow> f32 \<Rightarrow> u8 \<Rightarrow> f64 \<Rightarrow> MobManager \<Rightarrow> i32 \<times> MobManager" where
  "spawn_projectile_enchanted owner owner_eid t x y z vx vy vz damage loyalty launch_y mm =
     (let eid = mm_next_entity_id mm;
          proj = \<lparr>pr_entity_id = eid, pr_owner_uuid = owner, pr_owner_entity_id = owner_eid, pr_type = t,
            pr_position = plain_position x y z, pr_vel_x = vx, pr_vel_y = vy, pr_vel_z = vz, pr_damage = damage,
            pr_ticks_alive = 0, pr_max_ticks = max_ticks t, pr_in_ground = False, pr_loyalty_level = loyalty,
            pr_launch_y = launch_y, pr_power_level = 0, pr_flame_level = 0, pr_punch_level = 0,
            pr_piercing_level = 0\<rparr>
      in (eid, mm\<lparr>mm_next_entity_id := eid + 1, mm_projectiles := AList.update eid proj (mm_projectiles mm)\<rparr>))"

definition spawn_projectile ::
  "uuid \<Rightarrow> i32 \<Rightarrow> ProjectileType \<Rightarrow> f64 \<Rightarrow> f64 \<Rightarrow> f64 \<Rightarrow> f64 \<Rightarrow> f64 \<Rightarrow> f64 \<Rightarrow> f32 \<Rightarrow> MobManager \<Rightarrow> i32 \<times> MobManager" where
  "spawn_projectile owner owner_eid t x y z vx vy vz damage =
     spawn_projectile_enchanted owner owner_eid t x y z vx vy vz damage 0 y"

text \<open>\<open>(5 - loyalty_level as u16).max(1) * 20\<close>, which wraps above level 5.\<close>

definition return_delay :: "u8 \<Rightarrow> u16" where
  "return_delay loyalty = max (5 - ucast loyalty) 1 * 20"

text \<open>One projectile: how it goes on, and the events; \<open>None\<close> takes it out of the map.\<close>

definition projectile_step :: "Projectile \<Rightarrow> Projectile option \<times> ProjectileEvent list" where
  "projectile_step p =
     (let p = p\<lparr>pr_ticks_alive := pr_ticks_alive p + 1\<rparr> in
      if pr_ticks_alive p > pr_max_ticks p then (None, [Despawned (pr_entity_id p)])
      else if pr_in_ground p then
        (if pr_type p = Trident \<and> pr_loyalty_level p > 0 then
           (if pr_ticks_alive p > return_delay (pr_loyalty_level p)
            then (None, [ReturnToOwner (pr_entity_id p) (pr_owner_uuid p)]) else (Some p, []))
         else if pr_ticks_alive p > 100 then (None, [Despawned (pr_entity_id p)])
         else (Some p, []))
      else if pr_type p = Firework \<and> fle (pr_vel_y p) 0 \<and> flt (pos_y (pr_position p)) (pr_launch_y p) then
        (None, [Explode (pr_entity_id p) (pos_x (pr_position p)) (pos_y (pr_position p)) (pos_z (pr_position p)) (pr_damage p)])
      else
        let p = (if has_gravity (pr_type p) then p\<lparr>pr_vel_y := fsub (pr_vel_y p) (flit 5 100)\<rparr> else p);
            pos = pr_position p;
            p = p\<lparr>pr_position := pos\<lparr>pos_x := fadd (pos_x pos) (pr_vel_x p), pos_y := fadd (pos_y pos) (pr_vel_y p),
              pos_z := fadd (pos_z pos) (pr_vel_z p)\<rparr>\<rparr>
        in if flt (pos_y (pr_position p)) (flit (- 64) 1) then (None, [Despawned (pr_entity_id p)]) else (Some p, []))"

text \<open>The map is changed in place, and what is done is taken out of it afterwards, by the number the
projectile carries.\<close>

definition moved :: "i32 \<times> Projectile \<Rightarrow> i32 \<times> Projectile" where
  "moved kp = (fst kp, case fst (projectile_step (snd kp)) of Some p \<Rightarrow> p | None \<Rightarrow> snd kp)"

definition finished :: "(i32 \<times> Projectile) list \<Rightarrow> i32 list" where
  "finished ps = map (\<lambda>(k, p). pr_entity_id p) (filter (\<lambda>(k, p). fst (projectile_step p) = None) ps)"

definition tick_projectiles :: "MobManager \<Rightarrow> ProjectileEvent list \<times> MobManager" where
  "tick_projectiles mm =
     (let ps = mm_projectiles mm
      in (concat (map (\<lambda>(k, p). snd (projectile_step p)) ps),
          mm\<lparr>mm_projectiles := fold AList.delete (finished ps) (map moved ps)\<rparr>))"

section \<open>Slimes, taming, breeding\<close>

text \<open>What one new slime draws: its number, its identifier and two offsets.\<close>

record slime_draw =
  sd_entity_id :: i32
  sd_uuid :: uuid
  sd_x :: f64
  sd_z :: f64

definition baby_slime :: "TrackedMob \<Rightarrow> slime_draw \<Rightarrow> TrackedMob" where
  "baby_slime m d =
     (let half = fdiv (mob_max_hp m) (flit 2 1); pos = mob_position m;
          spread = (\<lambda>r. fmul (fsub r (flit 5 10)) (flit 2 1))
      in m\<lparr>mob_entity_id := sd_entity_id d, mob_uuid := sd_uuid d, mob_health := half, mob_max_hp := half,
           mob_position := pos\<lparr>pos_x := fadd (pos_x pos) (spread (sd_x d)), pos_z := fadd (pos_z pos) (spread (sd_z d))\<rparr>,
           mob_ai_state := Idle\<rparr>)"

text \<open>The guard of the slime is held while its parts are put into the same map: an insertion into
its own shard waits for ever.\<close>

fun split_into :: "(i32 \<Rightarrow> nat) \<Rightarrow> i32 \<Rightarrow> TrackedMob \<Rightarrow> slime_draw list \<Rightarrow> MobManager \<Rightarrow> (manager_error, TrackedMob list \<times> MobManager) outcome" where
  "split_into shard eid m [] mm = Ok ([], mm)"
| "split_into shard eid m (d # ds) mm =
     (if shard (sd_entity_id d) = shard eid then Err Deadlock
      else
        let baby = baby_slime m d in
        and_then (split_into shard eid m ds (put_mob (sd_entity_id d) baby mm)) (\<lambda>(babies, mm). Ok (baby # babies, mm)))"

definition split_slime :: "(i32 \<Rightarrow> nat) \<Rightarrow> u32 \<Rightarrow> (nat \<Rightarrow> slime_draw) \<Rightarrow> i32 \<Rightarrow> MobManager \<Rightarrow> (manager_error, TrackedMob list \<times> MobManager) outcome" where
  "split_slime shard random draw eid mm =
     (case find_mob mm eid of
        None \<Rightarrow> Ok ([], mm)
      | Some m \<Rightarrow>
          if mob_type m = 34 \<and> flt (flit 2 1) (mob_max_hp m)
          then split_into shard eid m (map draw [0..<2 + unat (random mod 3)]) mm
          else Ok ([], mm))"

definition toggle_sitting :: "i32 \<Rightarrow> MobManager \<Rightarrow> bool \<times> MobManager" where
  "toggle_sitting eid mm = (find_mob mm eid \<noteq> None, change_mob eid (\<lambda>m. m\<lparr>mob_is_sitting := \<not> mob_is_sitting m\<rparr>) mm)"

definition set_tamed :: "i32 \<Rightarrow> uuid \<Rightarrow> MobManager \<Rightarrow> bool \<times> MobManager" where
  "set_tamed eid owner mm = (find_mob mm eid \<noteq> None,
     change_mob eid (\<lambda>m. m\<lparr>mob_is_tamed := True, mob_owner_uuid := Some owner, mob_ai_state := Idle\<rparr>) mm)"

definition enter_love :: "i32 \<Rightarrow> MobManager \<Rightarrow> bool \<times> MobManager" where
  "enter_love eid mm =
     (case find_mob mm eid of
        None \<Rightarrow> (False, mm)
      | Some m \<Rightarrow> if mob_breed_cooldown m = 0 then (True, put_mob eid (m\<lparr>mob_in_love_ticks := 100\<rparr>) mm) else (False, mm))"

definition find_love_mates :: "i32 \<Rightarrow> i32 \<Rightarrow> MobManager \<Rightarrow> i32 list" where
  "find_love_mates t exclude mm =
     map mob_entity_id (filter (\<lambda>m. mob_type m = t \<and> mob_entity_id m \<noteq> exclude \<and> mob_in_love_ticks m > 0 \<and> \<not> mob_is_baby m)
       (all_mobs mm))"

definition breed_cooldown :: "i32 \<Rightarrow> i32 \<Rightarrow> MobManager \<Rightarrow> bool \<times> MobManager" where
  "breed_cooldown eid t mm = (find_mob mm eid \<noteq> None,
     change_mob eid (\<lambda>m. m\<lparr>mob_in_love_ticks := 0, mob_breed_cooldown := 6000\<rparr>) mm)"

definition shear_sheep :: "i32 \<Rightarrow> MobManager \<Rightarrow> bool \<times> MobManager" where
  "shear_sheep eid mm = (find_mob mm eid \<noteq> None, change_mob eid (\<lambda>m. m\<lparr>mob_is_sheared := True\<rparr>) mm)"

section \<open>Tables\<close>

text \<open>Numbers that the match names, the first arm of a number first, and the greatest health.\<close>

definition health_rows :: "(i32 \<times> int) list" where
  "health_rows = [(11, 10), (12, 10), (13, 10), (14, 10), (15, 10), (16, 10), (17, 10), (18, 10),
     (19, 30), (20, 10), (21, 6), (22, 20), (23, 10), (24, 10), (25, 300), (26, 30), (27, 20),
     (28, 15), (29, 10), (30, 4), (31, 4), (32, 4), (33, 20), (34, 16), (35, 16), (36, 20),
     (37, 20), (38, 40), (43, 20), (44, 20), (45, 26), (46, 12), (47, 8), (48, 20), (49, 30),
     (50, 100), (51, 14), (52, 24), (53, 200), (54, 24), (55, 16), (56, 10), (57, 20), (58, 40),
     (59, 40), (60, 50), (61, 16), (62, 20), (63, 500), (64, 10), (65, 6), (66, 20), (67, 14),
     (68, 32), (69, 14), (70, 10), (71, 30), (72, 16), (10, 6), (40, 6), (41, 6), (42, 6),
     (107, 6), (80, 90), (92, 20), (95, 8), (98, 4), (99, 100), (100, 15), (101, 20), (102, 15),
     (103, 10), (104, 20), (105, 30), (106, 14), (108, 16), (111, 20), (112, 20), (113, 14),
     (114, 8), (115, 8), (116, 8), (117, 6), (118, 30), (119, 30), (120, 30), (121, 30), (123, 14),
     (124, 10), (125, 20), (126, 30), (127, 30), (128, 10), (129, 80)]"

definition mob_max_health :: "i32 \<Rightarrow> f32" where
  "mob_max_health t = flit (case map_of health_rows t of Some h \<Rightarrow> h | None \<Rightarrow> 10) 1"

definition drop_rows :: "(i32 \<times> u32) list" where
  "drop_rows = [(11, 831), (12, 833), (13, 834), (14, 64), (15, 414), (16, 0), (17, 856),
     (18, 857), (19, 858), (20, 859), (21, 860), (22, 861), (25, 862), (26, 863), (27, 864),
     (28, 865), (29, 866), (33, 954), (34, 837), (35, 838), (36, 835), (37, 836), (38, 839),
     (43, 840), (44, 414), (45, 838), (46, 838), (47, 0), (48, 841), (49, 842), (50, 835), (51, 0),
     (52, 839), (53, 867), (54, 835), (55, 957), (56, 843), (57, 844), (58, 833), (59, 958),
     (60, 958), (61, 835), (62, 838), (63, 959), (64, 0), (65, 0), (66, 0), (67, 960), (68, 0),
     (69, 0), (70, 0), (71, 961), (72, 836), (92, 845), (95, 835), (98, 0), (99, 0), (100, 0),
     (101, 839), (102, 865), (103, 0), (105, 0), (106, 835), (108, 0), (111, 835), (112, 836),
     (113, 0), (114, 0), (115, 0), (116, 0), (117, 836), (118, 831), (119, 831), (120, 831),
     (121, 831), (123, 858), (124, 0), (125, 838), (126, 836), (127, 835), (128, 831), (129, 1092)]"

definition mob_drop_item :: "i32 \<Rightarrow> u32" where
  "mob_drop_item t = (case map_of drop_rows t of Some i \<Rightarrow> i | None \<Rightarrow> 0)"

definition mob_drop_count :: "i32 \<Rightarrow> u8" where
  "mob_drop_count t = (if t = 33 \<or> t = 36 \<or> t = 37 then 1 else if t = 35 then 2 else 1)"

text \<open>\<open>bonus\<close> is drawn from 0 to the level.\<close>

definition mob_drop_count_with_looting :: "(u8 \<Rightarrow> u8) \<Rightarrow> i32 \<Rightarrow> u8 \<Rightarrow> u8" where
  "mob_drop_count_with_looting bonus t looting =
     (if looting = 0 then mob_drop_count t else mob_drop_count t + bonus looting)"

definition mob_xp_drop :: "i32 \<Rightarrow> i32 \<Rightarrow> i32" where
  "mob_xp_drop random t =
     (if t \<in> {11, 12, 13, 14} then 1 + random else if t = 33 \<or> t = 36 \<or> t = 37 then 5 else 1)"

end
