(* ===== verification/MobFacts.thy ===== *)
theory MobFacts
  imports Mobs FloatFacts
begin

text \<open>
  Facts on the mobs of \<open>Mobs\<close>: every projectile ends, a sulfur cube gives back what it took, a mob that
  moved stays in the index of its first chunk for ever, the part of a slime may wait for the guard of the slime, and the
  program's own numbers of the mobs disagree.
\<close>

section \<open>Projectiles\<close>

lemma projectile_step_survives:
  assumes "fst (projectile_step p) = Some q"
  shows "pr_ticks_alive q = pr_ticks_alive p + 1" and "pr_ticks_alive q \<le> pr_max_ticks q"
    and "pr_max_ticks q = pr_max_ticks p" and "pr_entity_id q = pr_entity_id p"
  using assms by (auto simp: projectile_step_def Let_def not_less split: if_splits)

text \<open>What every map of projectiles keeps: a projectile is stored under its own number, and has
lived no longer than it may.\<close>

definition in_flight :: "(i32 \<times> Projectile) list \<Rightarrow> bool" where
  "in_flight ps = (\<forall>(k, p) \<in> set ps. pr_entity_id p = k \<and> pr_ticks_alive p \<le> pr_max_ticks p \<and> pr_max_ticks p \<le> 1200)"

lemma in_fold_delete: "kp \<in> set (fold AList.delete ks ps) \<Longrightarrow> kp \<in> set ps \<and> fst kp \<notin> set ks"
  by (induction ks arbitrary: ps) (fastforce simp: AList.delete_eq)+

lemma tick_projectiles_in:
  assumes "in_flight (mm_projectiles mm)" "(k, q) \<in> set (mm_projectiles (snd (tick_projectiles mm)))"
  obtains p where "(k, p) \<in> set (mm_projectiles mm)" "fst (projectile_step p) = Some q"
proof -
  let ?ps = "mm_projectiles mm"
  from assms(2) have in_map: "(k, q) \<in> set (map moved ?ps)" and k: "k \<notin> set (finished ?ps)"
    using in_fold_delete [of "(k, q)" "finished ?ps" "map moved ?ps"] by (simp_all add: tick_projectiles_def Let_def)
  from in_map obtain p where p: "(k, p) \<in> set ?ps"
      and q: "q = (case fst (projectile_step p) of Some p \<Rightarrow> p | None \<Rightarrow> p)"
    by (force simp: moved_def split: option.splits)
  have "pr_entity_id p = k" using assms(1) p by (auto simp: in_flight_def)
  with k p have "fst (projectile_step p) \<noteq> None" by (auto simp: finished_def image_iff)
  with q p show thesis by (auto intro: that)
qed

lemma tick_in_flight:
  assumes "in_flight (mm_projectiles mm)"
  shows "in_flight (mm_projectiles (snd (tick_projectiles mm)))"
  unfolding in_flight_def
proof clarify
  fix k q assume q: "(k, q) \<in> set (mm_projectiles (snd (tick_projectiles mm)))"
  from tick_projectiles_in [OF assms q] obtain p where
    p: "(k, p) \<in> set (mm_projectiles mm)" "fst (projectile_step p) = Some q" .
  with assms projectile_step_survives [OF p(2)]
  show "pr_entity_id q = k \<and> pr_ticks_alive q \<le> pr_max_ticks q \<and> pr_max_ticks q \<le> 1200"
    by (auto simp: in_flight_def)
qed

definition flown :: "nat \<Rightarrow> (i32 \<times> Projectile) list \<Rightarrow> bool" where
  "flown n ps = (\<forall>(k, p) \<in> set ps. n \<le> unat (pr_ticks_alive p))"

lemma tick_flown:
  assumes "in_flight (mm_projectiles mm)" "flown n (mm_projectiles mm)"
  shows "flown (Suc n) (mm_projectiles (snd (tick_projectiles mm)))"
  unfolding flown_def
proof clarify
  fix k q assume q: "(k, q) \<in> set (mm_projectiles (snd (tick_projectiles mm)))"
  from tick_projectiles_in [OF assms(1) q] obtain p where
    p: "(k, p) \<in> set (mm_projectiles mm)" "fst (projectile_step p) = Some q" .
  then have "unat (pr_ticks_alive p) \<le> 1200" "n \<le> unat (pr_ticks_alive p)"
    using assms unfolding in_flight_def flown_def
    by (fastforce simp: word_le_nat_alt dest!: order_trans [of "unat (pr_ticks_alive p)" _ 1200])+
  then have "unat (pr_ticks_alive p + 1) = unat (pr_ticks_alive p) + 1"
    by (subst unat_plus_simple [THEN iffD1]) (auto simp: word_le_nat_alt unat_word_ariths)
  with projectile_step_survives(1) [OF p(2)] \<open>n \<le> unat (pr_ticks_alive p)\<close>
  show "Suc n \<le> unat (pr_ticks_alive q)" by simp
qed

definition projectile_ticks :: "nat \<Rightarrow> MobManager \<Rightarrow> MobManager" where
  "projectile_ticks n mm = ((\<lambda>mm. snd (tick_projectiles mm)) ^^ n) mm"

lemma projectile_ticks_flown:
  assumes "in_flight (mm_projectiles mm)"
  shows "in_flight (mm_projectiles (projectile_ticks n mm)) \<and> flown n (mm_projectiles (projectile_ticks n mm))"
proof (induction n)
  case 0
  then show ?case using assms by (simp add: projectile_ticks_def flown_def)
next
  case (Suc n)
  then show ?case using tick_in_flight tick_flown by (simp add: projectile_ticks_def)
qed

lemma nothing_flies_longer:
  assumes "in_flight ps" "flown n ps" "1200 < n"
  shows "ps = []"
proof (rule ccontr)
  assume "ps \<noteq> []"
  then obtain k p where "(k, p) \<in> set ps" by (cases ps) auto
  then have "unat (pr_ticks_alive p) \<le> 1200" "n \<le> unat (pr_ticks_alive p)"
    using assms(1,2) unfolding in_flight_def flown_def
    by (fastforce simp: word_le_nat_alt dest!: order_trans [of "unat (pr_ticks_alive p)" _ 1200])+
  with assms(3) show False by simp
qed

text \<open>The states of a manager between launches and ticks.\<close>

inductive projectile_states :: "MobManager \<Rightarrow> bool" where
  start: "mm_projectiles mm = [] \<Longrightarrow> projectile_states mm"
| launch: "projectile_states mm \<Longrightarrow>
    projectile_states (snd (spawn_projectile_enchanted u e t x y z vx vy vz d l ly mm))"
| tick: "projectile_states mm \<Longrightarrow> projectile_states (snd (tick_projectiles mm))"

lemma in_update: "x \<in> set (AList.update k v ps) \<Longrightarrow> x = (k, v) \<or> x \<in> set ps"
  by (induction ps) (auto split: if_splits)

lemma max_ticks_le: "max_ticks t \<le> 1200"
  by (cases t) (simp_all add: max_ticks_def)

lemma projectile_states_in_flight: "projectile_states mm \<Longrightarrow> in_flight (mm_projectiles mm)"
proof (induction rule: projectile_states.induct)
  case (launch mm u e t x y z vx vy vz d l ly)
  then show ?case
    using max_ticks_le [of t]
    by (fastforce simp: spawn_projectile_enchanted_def Let_def in_flight_def dest: in_update)
qed (auto simp: in_flight_def tick_in_flight [unfolded in_flight_def])



section \<open>The index by chunk\<close>

lemma find_put_mob [simp]: "find_mob (put_mob k m mm) j = (if j = k then Some m else find_mob mm j)"
  by (simp add: find_mob_def put_mob_def update_conv')

lemma put_mob_index [simp]: "mm_chunk_mobs (put_mob k m mm) = mm_chunk_mobs mm"
  by (simp add: put_mob_def)

text \<open>A mob that moves to another chunk stays in the index of the chunk it came from and is not in that of the
chunk it reached, so it is not found there; and when it is removed, its number stays in the index of its
first chunk.\<close>

theorem moved_mob_left_in_index:
  assumes "find_mob mm eid = Some m" "old = mob_chunk (mob_position m)"
    and "eid \<in> set (mm_chunk_mobs mm old)" "\<forall>c. c \<noteq> old \<longrightarrow> eid \<notin> set (mm_chunk_mobs mm c)"
    and "\<not> near_still (mob_position m) x y z" "mob_chunk (plain_position x y z) \<noteq> old"
  shows "let mm1 = send_position eid x y z mm; mm2 = snd (remove_mob eid mm1); new = mob_chunk (plain_position x y z) in
    eid \<notin> set (mm_chunk_mobs mm1 new) \<and> find_mob mm2 eid = None \<and> eid \<in> set (mm_chunk_mobs mm2 old)"
proof -
  let ?m = "mark_position_dirty (m\<lparr>mob_position := (mob_position m)\<lparr>pos_x := x, pos_y := y, pos_z := z\<rparr>\<rparr>)"
  let ?mm = "send_position eid x y z mm"
  have moved: "mob_chunk (mob_position ?m) = mob_chunk (plain_position x y z)"
    by (simp add: mark_position_dirty_def mob_chunk_def plain_position_def)
  have mob: "find_mob ?mm eid = Some ?m" and index: "mm_chunk_mobs ?mm = mm_chunk_mobs mm"
    using assms(1,5) by (simp_all add: send_position_def Let_def put_mob_def find_mob_def update_conv')
  have "eid \<notin> set (mm_chunk_mobs mm (mob_chunk (plain_position x y z)))"
    using assms(4,6) by blast
  then show ?thesis
    using assms(3,6) mob index
    by (simp add: Let_def remove_mob_def moved find_mob_def delete_conv')
qed

theorem moved_mob_left_in_index_witness:
  "let mm = register_mob (fresh_mob 5 9 ET_COW (plain_position 0 0 0) 0 0) new_mob_manager;
     mm2 = snd (remove_mob 5 (send_position 5 (float_of_int 1000) 0 0 mm))
   in find_mob mm2 5 = None \<and> 5 \<in> set (mm_chunk_mobs mm2 (0, 0))"
proof -
  let ?m = "fresh_mob 5 9 ET_COW (plain_position 0 0 0) 0 0"
  let ?mm = "register_mob ?m new_mob_manager"
  have c0: "mob_chunk (mob_position ?m) = (0, 0)"
    by (simp add: fresh_mob_def plain_position_def mob_chunk_def floor_0 div_euclid16_def)
  have c1: "mob_chunk (plain_position (float_of_int 1000) 0 0) = (62, 0)"
    by (simp add: plain_position_def mob_chunk_def floor_0 floor_1000 div_euclid16_def)
  have still: "\<not> near_still (mob_position ?m) (float_of_int 1000) 0 0"
    using far_apart by (simp add: near_still_def fresh_mob_def plain_position_def)
  have eid: "mob_entity_id ?m = 5" by (simp add: fresh_mob_def)
  have "mm_chunk_mobs ?mm = (\<lambda>_. [])((0, 0) := [5])"
    using c0 eid by (simp add: register_mob_def Let_def index_mob_def new_mob_manager_def)
  moreover have "find_mob ?mm 5 = Some ?m"
    using eid by (simp add: register_mob_def Let_def)
  ultimately show ?thesis
    using moved_mob_left_in_index [of ?mm 5 ?m "(0, 0)" "float_of_int 1000" 0 0] c0 c1 still
    by (simp add: Let_def)
qed

section \<open>Sulfur cubes\<close>

text \<open>What a sulfur cube takes it gives back: a block that a cube of the world absorbs is what shearing it
returns, and afterwards the cube holds nothing.\<close>

theorem absorbed_block_sheared:
  assumes "find_mob mm eid = Some m" "sulfur_cube_archetype_from_block block_id = Some a"
  shows "let (r, mm1) = sulfur_cube_absorb eid block_id mm; (back, mm2) = sulfur_cube_shear eid mm1 in
    r = Some a \<and> back = Some block_id \<and>
    find_mob mm2 eid = Some (m\<lparr>mob_archetype := None, mob_absorbed_block := None, mob_ai_state := Idle\<rparr>)"
proof -
  have "can_shear a"
    using assms(2) by (auto simp: sulfur_cube_archetype_from_block_def can_shear_def split: if_splits)
  then show ?thesis
    using assms by (simp add: sulfur_cube_absorb_def sulfur_cube_shear_def)
qed

theorem absorbed_block_sheared_witness:
  "fst (sulfur_cube_shear 5 (snd (sulfur_cube_absorb 5 25
     (register_mob (fresh_mob 5 9 ET_SULFUR_CUBE (plain_position 0 0 0) 0 0) new_mob_manager)))) = Some 25"
proof -
  let ?m = "fresh_mob 5 9 ET_SULFUR_CUBE (plain_position 0 0 0) 0 0"
  have "find_mob (register_mob ?m new_mob_manager) 5 = Some ?m"
    by (simp add: register_mob_def Let_def fresh_mob_def)
  from absorbed_block_sheared [OF this, of 25] show ?thesis
    by (simp add: sulfur_cube_archetype_from_block_def split_beta Let_def)
qed

section \<open>Slimes\<close>

lemma split_into_deadlock:
  "split_into shard eid m ds mm = Err Deadlock \<longleftrightarrow> (\<exists>d \<in> set ds. shard (sd_entity_id d) = shard eid)"
  "split_into shard eid m ds mm \<noteq> Panic"
proof (induction ds arbitrary: mm)
  case (Cons d ds)
  {
    case 1
    then show ?case
      using Cons [of "put_mob (sd_entity_id d) (baby_slime m d) mm"]
      by (cases "split_into shard eid m ds (put_mob (sd_entity_id d) (baby_slime m d) mm)")
        (auto simp: Let_def split_beta)
  next
    case 2
    then show ?case
      using Cons(2) [of "put_mob (sd_entity_id d) (baby_slime m d) mm"]
      by (cases "split_into shard eid m ds (put_mob (sd_entity_id d) (baby_slime m d) mm)")
        (auto simp: Let_def split_beta)
  }
qed simp_all

text \<open>A slime that dies splits into two to four; the thread waits for its own guard exactly when
one of them draws a number of the same shard of the map.\<close>

theorem split_slime_deadlocks_iff:
  assumes "find_mob mm eid = Some m" "mob_type m = 34" "flt (flit 2 1) (mob_max_hp m)"
  shows "split_slime shard random draw eid mm = Err Deadlock \<longleftrightarrow>
    (\<exists>i < 2 + unat (random mod 3). shard (sd_entity_id (draw i)) = shard eid)"
  using assms by (simp add: split_slime_def split_into_deadlock image_iff Bex_def del: upt_Suc add_2_eq_Suc) blast

theorem split_slime_deadlocks_iff_witness:
  "split_slime (\<lambda>i. unat i mod 16) 0 (\<lambda>_. \<lparr>sd_entity_id = 21, sd_uuid = 1, sd_x = 0, sd_z = 0\<rparr>) 5
     (register_mob (fresh_mob 5 9 34 (plain_position 0 0 0) (flit 4 1) 0) new_mob_manager) = Err Deadlock"
proof -
  let ?m = "fresh_mob 5 9 34 (plain_position 0 0 0) (flit 4 1) 0"
  have f: "find_mob (register_mob ?m new_mob_manager) 5 = Some ?m"
    by (simp add: register_mob_def Let_def fresh_mob_def)
  show ?thesis
    by (subst split_slime_deadlocks_iff [OF f]) (simp_all add: fresh_mob_def slime_sizes exI [of _ 0])
qed

text \<open>The manager and the table of constants disagree on the numbers of the mobs: a zombie is hostile
by the constants and not counted as one, a dolphin is counted and not hostile, and a slime is never
split.\<close>

theorem mob_numbers_disagree:
  "is_hostile ET_ZOMBIE \<and> ET_ZOMBIE \<notin> set hostile_numbers \<and> \<not> is_hostile ET_DOLPHIN \<and>
   ET_DOLPHIN \<in> set hostile_numbers \<and>
   split_slime shard random draw 5 (register_mob (fresh_mob 5 u ET_SLIME pos hp t) mm) =
     Ok ([], register_mob (fresh_mob 5 u ET_SLIME pos hp t) mm)"
proof -
  have "find_mob (register_mob (fresh_mob 5 u ET_SLIME pos hp t) mm) 5 = Some (fresh_mob 5 u ET_SLIME pos hp t)"
    by (simp add: register_mob_def Let_def fresh_mob_def)
  then show ?thesis
    by (simp add: is_hostile_def hostile_numbers_def split_slime_def) (simp add: fresh_mob_def)
qed

end
