(* ===== verification/ServerState.thy ===== *)
theory ServerState
  imports Floats Geometry "HOL-Library.AList"
begin

text \<open>
  State that all connections share: \<open>mc-core/src/world_state.rs\<close> (time, weather, rules, border),
  \<open>mc-core/src/team.rs\<close> (teams), \<open>mc-network/src/rate_limiter.rs\<close> (connections and packets per
  address) and the tracker of changed blocks of \<open>mc-network/src/connection.rs\<close>. An \<open>Instant\<close> is a
  number of milliseconds; a time since the start of the limiter is a number of seconds.

  Shown: the time of day; what a failed change of teams leaves; that an address opens at most five connections
  a minute, and that a peer escapes the limit by its source port; that a block change is recorded at its cell
  and never taken out by those who read it.
\<close>

section \<open>World state\<close>

datatype Weather = Clear | Rain | Thunder

record WorldBorder =
  wb_center_x :: "64 word"
  wb_center_z :: "64 word"
  wb_size :: "64 word"
  wb_target_size :: "64 word"
  wb_lerp_time_ticks :: i64
  wb_lerp_start_tick :: u64
  wb_damage_per_block :: "64 word"
  wb_safe_zone :: "64 word"
  wb_warning_blocks :: i32
  wb_warning_time :: i32

definition default_border :: WorldBorder where
  "default_border = \<lparr>wb_center_x = flit 0 1, wb_center_z = flit 0 1, wb_size = flit 60000000 1,
     wb_target_size = flit 60000000 1, wb_lerp_time_ticks = 0, wb_lerp_start_tick = 0,
     wb_damage_per_block = flit 2 10, wb_safe_zone = flit 5 1, wb_warning_blocks = 5, wb_warning_time = 15\<rparr>"

record WorldState =
  ws_time :: u64
  ws_daytime :: u64
  ws_weather :: Weather
  ws_weather_timer :: u64
  ws_difficulty :: Difficulty
  ws_difficulty_locked :: bool
  ws_seed :: u64
  ws_default_gamemode :: GameMode
  ws_spawn_x :: "64 word"
  ws_spawn_y :: "64 word"
  ws_spawn_z :: "64 word"
  ws_game_rules :: "string \<rightharpoonup> string"
  ws_world_border :: WorldBorder
  ws_force_loaded :: "i32 \<times> i32 \<rightharpoonup> bool"
  ws_debug_mode :: bool
  ws_tick_frozen :: bool
  ws_tick_sprint_rate :: u32

definition default_rules :: "string \<rightharpoonup> string" where
  "default_rules = map_of [(''doDaylightCycle'', ''true''), (''doWeatherCycle'', ''true''),
     (''keepInventory'', ''false''), (''doFireTick'', ''true''), (''doMobSpawning'', ''true''),
     (''randomTickSpeed'', ''3''), (''announceAdvancements'', ''true'')]"

definition default_world :: WorldState where
  "default_world = \<lparr>ws_time = 0, ws_daytime = 0, ws_weather = Clear, ws_weather_timer = 12000,
     ws_difficulty = Normal, ws_difficulty_locked = False, ws_seed = 0, ws_default_gamemode = Survival,
     ws_spawn_x = flit 0 1, ws_spawn_y = flit 64 1, ws_spawn_z = flit 0 1, ws_game_rules = default_rules,
     ws_world_border = default_border, ws_force_loaded = (\<lambda>_. None), ws_debug_mode = False,
     ws_tick_frozen = False, ws_tick_sprint_rate = 0\<rparr>"

definition new_world :: "u64 \<Rightarrow> WorldState" where
  "new_world seed = default_world\<lparr>ws_seed := seed, ws_spawn_x := flit 0 1, ws_spawn_y := flit 64 1, ws_spawn_z := flit 0 1\<rparr>"

definition set_time :: "u64 \<Rightarrow> WorldState \<Rightarrow> WorldState" where
  "set_time t w = w\<lparr>ws_time := t, ws_daytime := t mod 24000\<rparr>"

definition add_time :: "u64 \<Rightarrow> WorldState \<Rightarrow> WorldState" where
  "add_time ticks w =
     (let cycle = (case ws_game_rules w ''doDaylightCycle'' of Some v \<Rightarrow> v = ''true'' | None \<Rightarrow> True)
      in if cycle then w\<lparr>ws_time := ws_time w + ticks, ws_daytime := (ws_time w + ticks) mod 24000\<rparr> else w)"

text \<open>The duration is dropped.\<close>

definition set_weather :: "Weather \<Rightarrow> u32 \<Rightarrow> WorldState \<Rightarrow> WorldState" where
  "set_weather weather duration w = w\<lparr>ws_weather := weather\<rparr>"

definition set_difficulty :: "Difficulty \<Rightarrow> WorldState \<Rightarrow> WorldState" where
  "set_difficulty d w = w\<lparr>ws_difficulty := d\<rparr>"

definition set_default_gamemode :: "GameMode \<Rightarrow> WorldState \<Rightarrow> WorldState" where
  "set_default_gamemode gm w = w\<lparr>ws_default_gamemode := gm\<rparr>"

definition set_default_spawn :: "64 word \<Rightarrow> 64 word \<Rightarrow> 64 word \<Rightarrow> WorldState \<Rightarrow> WorldState" where
  "set_default_spawn x y z w = w\<lparr>ws_spawn_x := x, ws_spawn_y := y, ws_spawn_z := z\<rparr>"

section \<open>Teams\<close>

record Team =
  tm_name :: string
  tm_color :: string
  tm_prefix :: string
  tm_suffix :: string
  tm_friendly_fire :: bool
  tm_members :: "u128 set"

definition new_team :: "string \<Rightarrow> string \<Rightarrow> Team" where
  "new_team name color = \<lparr>tm_name = name, tm_color = color, tm_prefix = [], tm_suffix = [],
     tm_friendly_fire = True, tm_members = {}\<rparr>"

record TeamManager =
  tms_teams :: "string \<rightharpoonup> Team"
  tms_player_team :: "u128 \<rightharpoonup> string"

definition new_teams :: TeamManager where
  "new_teams = \<lparr>tms_teams = (\<lambda>_. None), tms_player_team = (\<lambda>_. None)\<rparr>"

definition add_team :: "string \<Rightarrow> string \<Rightarrow> TeamManager \<Rightarrow> TeamManager" where
  "add_team name color tms =
     (case tms_teams tms name of
        Some _ \<Rightarrow> tms
      | None \<Rightarrow> tms\<lparr>tms_teams := (tms_teams tms)(name \<mapsto> new_team name color)\<rparr>)"

definition remove_team :: "string \<Rightarrow> TeamManager \<Rightarrow> TeamManager" where
  "remove_team name tms =
     (case tms_teams tms name of
        None \<Rightarrow> tms
      | Some team \<Rightarrow> tms\<lparr>tms_teams := (tms_teams tms)(name := None),
          tms_player_team := (\<lambda>u. if u \<in> tm_members team then None else tms_player_team tms u)\<rparr>)"

definition take_out :: "u128 \<Rightarrow> string \<Rightarrow> (string \<rightharpoonup> Team) \<Rightarrow> (string \<rightharpoonup> Team)" where
  "take_out u name teams =
     (case teams name of
        Some t \<Rightarrow> teams(name \<mapsto> t\<lparr>tm_members := tm_members t - {u}\<rparr>)
      | None \<Rightarrow> teams)"

definition join_team :: "string \<Rightarrow> u128 \<Rightarrow> TeamManager \<Rightarrow> bool \<times> TeamManager" where
  "join_team name u tms =
     (let teams = (case tms_player_team tms u of Some old \<Rightarrow> take_out u old (tms_teams tms) | None \<Rightarrow> tms_teams tms)
      in case teams name of
           Some t \<Rightarrow> (True, tms\<lparr>tms_teams := teams(name \<mapsto> t\<lparr>tm_members := insert u (tm_members t)\<rparr>),
             tms_player_team := (tms_player_team tms)(u \<mapsto> name)\<rparr>)
         | None \<Rightarrow> (False, tms\<lparr>tms_teams := teams\<rparr>))"

definition leave_team :: "u128 \<Rightarrow> TeamManager \<Rightarrow> TeamManager" where
  "leave_team u tms =
     (case tms_player_team tms u of
        None \<Rightarrow> tms
      | Some name \<Rightarrow> tms\<lparr>tms_player_team := (tms_player_team tms)(u := None), tms_teams := take_out u name (tms_teams tms)\<rparr>)"

definition get_team :: "u128 \<Rightarrow> TeamManager \<Rightarrow> Team option" where
  "get_team u tms = (case tms_player_team tms u of Some name \<Rightarrow> tms_teams tms name | None \<Rightarrow> None)"

section \<open>Rate limits\<close>

text \<open>An address is an IP address and a port.\<close>

type_synonym socket_addr = "bytes \<times> u16"

record RateLimiter =
  rl_connections :: "socket_addr \<Rightarrow> nat list"
  rl_packets :: "socket_addr \<rightharpoonup> u64 \<times> u64"

definition new_limiter :: RateLimiter where
  "new_limiter = \<lparr>rl_connections = (\<lambda>_. []), rl_packets = (\<lambda>_. None)\<rparr>"

definition recent :: "nat \<Rightarrow> nat \<Rightarrow> bool" where
  "recent now t = ((now - t) div 1000 < 60)"

definition check_connection :: "socket_addr \<Rightarrow> nat \<Rightarrow> RateLimiter \<Rightarrow> bool \<times> RateLimiter" where
  "check_connection addr now rl =
     (let entry = filter (recent now) (rl_connections rl addr);
          keep = (\<lambda>e. rl\<lparr>rl_connections := (rl_connections rl)(addr := e)\<rparr>)
      in if length entry \<ge> 5 then (False, keep entry) else (True, keep (entry @ [now])))"

definition cleanup_connection :: "socket_addr \<Rightarrow> RateLimiter \<Rightarrow> RateLimiter" where
  "cleanup_connection addr rl = rl\<lparr>rl_packets := (rl_packets rl)(addr := None)\<rparr>"

definition check_packet :: "socket_addr \<Rightarrow> u64 \<Rightarrow> RateLimiter \<Rightarrow> bool \<times> RateLimiter" where
  "check_packet addr now_secs rl =
     (let (current, since) = (case rl_packets rl addr of Some v \<Rightarrow> v | None \<Rightarrow> (0, now_secs));
          (current, since) = (if now_secs - since \<ge> 1 then (0, now_secs) else (current, since))
      in (current < 20, rl\<lparr>rl_packets := (rl_packets rl)(addr \<mapsto> (current + 1, since))\<rparr>))"

definition cleanup_stale_limits :: "u64 \<Rightarrow> RateLimiter \<Rightarrow> RateLimiter" where
  "cleanup_stale_limits now_secs rl = rl\<lparr>rl_packets := (\<lambda>a. case rl_packets rl a of
     Some (c, since) \<Rightarrow> if now_secs - since < 60 then Some (c, since) else None | None \<Rightarrow> None)\<rparr>"

section \<open>Changed blocks\<close>

type_synonym section_key = "i32 \<times> i32 \<times> i32"

record DirtyBlockTracker =
  db_pending :: "(section_key \<times> (i16 \<times> i32) list) list"
  db_generation :: u64

definition new_tracker :: DirtyBlockTracker where
  "new_tracker = \<lparr>db_pending = [], db_generation = 0\<rparr>"

definition rem16 :: "i32 \<Rightarrow> i16" where
  "rem16 v = of_int (sint v mod 16)"

definition mark_block :: "i32 \<Rightarrow> i32 \<Rightarrow> i32 \<Rightarrow> u32 \<Rightarrow> DirtyBlockTracker \<Rightarrow> DirtyBlockTracker" where
  "mark_block x y z state_id db =
     (let key = (div_euclid16 x, div_euclid16 y, div_euclid16 z);
          index = rem16 y * 256 + rem16 z * 16 + rem16 x;
          old = (case map_of (db_pending db) key of Some v \<Rightarrow> v | None \<Rightarrow> [])
      in db\<lparr>db_pending := AList.update key (old @ [(index, state_id)]) (db_pending db),
           db_generation := db_generation db + 1\<rparr>)"

definition mark_chunk :: "ChunkPos \<Rightarrow> DirtyBlockTracker \<Rightarrow> DirtyBlockTracker" where
  "mark_chunk cp db = db\<lparr>db_generation := db_generation db + 1\<rparr>"

definition i32_abs :: "i32 \<Rightarrow> i32" where
  "i32_abs v = (if v <s 0 then - v else v)"

definition drain_nearby :: "i32 \<Rightarrow> i32 \<Rightarrow> i32 \<Rightarrow> DirtyBlockTracker \<Rightarrow> (i32 \<times> i32 \<times> i32 \<times> (i16 \<times> i32) list) list" where
  "drain_nearby pcx pcz max_dist db =
     List.map_filter (\<lambda>((cx, sy, cz), blocks).
       if i32_abs (cx - pcx) <=s max_dist \<and> i32_abs (cz - pcz) <=s max_dist \<and> blocks \<noteq> []
       then Some (cx, sy, cz, blocks) else None) (db_pending db)"

definition cleanup_stale :: "DirtyBlockTracker \<Rightarrow> DirtyBlockTracker" where
  "cleanup_stale db = (if length (db_pending db) > 1024 then db\<lparr>db_pending := []\<rparr> else db)"

section \<open>Time of day\<close>

text \<open>The time of day follows the time in every operation of the clock, when the day passes.\<close>

theorem daytime_follows_time:
  assumes "ws_daytime w = ws_time w mod 24000"
  shows "ws_daytime (set_time t w) = ws_time (set_time t w) mod 24000 \<and>
    ws_daytime (add_time n w) = ws_time (add_time n w) mod 24000 \<and> ws_daytime (add_time n w) < 24000"
proof -
  have "v mod 24000 < 24000" for v :: u64
    by (simp add: word_less_nat_alt unat_mod)
  then show ?thesis
    using assms by (simp add: set_time_def add_time_def Let_def)
qed

theorem daytime_follows_time_witness:
  "ws_daytime (add_time 23000 (new_world 7)) < 24000"
proof -
  have "ws_daytime (new_world 7) = ws_time (new_world 7) mod 24000"
    by (simp add: new_world_def default_world_def)
  then show ?thesis using daytime_follows_time by blast
qed

section \<open>Failed changes of teams\<close>

text \<open>A player who asks for a team that does not exist is taken out of the members of the old team, and still
counts as a player of it.\<close>

theorem failed_join_leaves_team:
  assumes "tms_player_team tms u = Some old" "tms_teams tms old = Some t" "tms_teams tms name = None"
  shows "fst (join_team name u tms) = False \<and>
    (\<exists>t'. get_team u (snd (join_team name u tms)) = Some t' \<and> tm_name t' = tm_name t \<and> u \<notin> tm_members t')"
  using assms by (auto simp: join_team_def take_out_def get_team_def Let_def)

theorem failed_join_leaves_team_witness:
  "let tms = snd (join_team ''red'' 1 (add_team ''red'' ''red'' new_teams))
   in fst (join_team ''blue'' 1 tms) = False \<and> get_team 1 (snd (join_team ''blue'' 1 tms)) \<noteq> None"
proof -
  let ?tms = "snd (join_team ''red'' 1 (add_team ''red'' ''red'' new_teams))"
  have t: "tms_player_team ?tms 1 = Some ''red''" "tms_teams ?tms ''blue'' = None" "tms_teams ?tms ''red'' \<noteq> None"
    by (simp_all add: join_team_def add_team_def new_teams_def Let_def)
  then obtain t where "tms_teams ?tms ''red'' = Some t" by auto
  from failed_join_leaves_team [OF t(1) this t(2)] show ?thesis by (auto simp: Let_def)
qed

section \<open>Connections per address\<close>

lemma recent_mono: "t1 \<le> t2 \<Longrightarrow> recent t2 s \<Longrightarrow> recent t1 s"
  unfolding recent_def using div_le_mono [of "t1 - s" "t2 - s" 1000] by fastforce

lemma filter_recent_recent: "t1 \<le> t2 \<Longrightarrow> filter (recent t2) (filter (recent t1) xs) = filter (recent t2) xs"
  using recent_mono by (auto simp: conj_commute intro!: filter_cong)

lemma both_recent: "t1 \<le> t2 \<Longrightarrow> (recent t1 s \<and> recent t2 s) = recent t2 s"
  using recent_mono by blast

lemma recent_now [simp]: "recent t t" by (simp add: recent_def)

text \<open>The limiter after attempts at times that do not go back, with the times at which each address was let in.\<close>

inductive limiter_states :: "RateLimiter \<Rightarrow> nat \<Rightarrow> (socket_addr \<Rightarrow> nat list) \<Rightarrow> bool" where
  start: "limiter_states new_limiter t (\<lambda>_. [])"
| attempt: "limiter_states rl t h \<Longrightarrow> t \<le> t' \<Longrightarrow> check_connection a t' rl = (ok, rl') \<Longrightarrow>
    limiter_states rl' t' (if ok then h(a := h a @ [t']) else h)"

lemma limiter_keeps:
  assumes "limiter_states rl now h"
  shows "(\<forall>t \<ge> now. filter (recent t) (rl_connections rl a) = filter (recent t) (h a)) \<and>
    length (filter (recent now) (rl_connections rl a)) \<le> 5"
  using assms
proof induction
  case (attempt rl t h t' b ok rl')
  let ?conn = "rl_connections rl"
  let ?entry = "filter (recent t') (?conn b)"
  have conn: "rl_connections rl' = ?conn(b := if ok then ?entry @ [t'] else ?entry)" and ok: "ok \<longleftrightarrow> length ?entry < 5"
    using attempt.hyps(3) by (auto simp: check_connection_def Let_def split: if_splits)
  have same: "filter (recent s) (?conn a) = filter (recent s) (h a)" if "t' \<le> s" for s
    using attempt.IH attempt.hyps(2) that by auto
  have "length (filter (recent t') (?conn a)) = length (filter (recent t') (filter (recent t) (?conn a)))"
    using filter_recent_recent [OF attempt.hyps(2)] by metis
  then have "length (filter (recent t') (?conn a)) \<le> 5"
    using attempt.IH length_filter_le [of "recent t'" "filter (recent t) (?conn a)"] by linarith
  then show ?case
    using same ok by (cases "a = b") (auto simp: conn both_recent)
qed (simp add: new_limiter_def)

text \<open>C39. However often an address tries, at most five of its connections of the last minute were let in.\<close>

theorem five_connections_a_minute:
  assumes "limiter_states rl now h"
  shows "length (filter (recent now) (h a)) \<le> 5"
  using limiter_keeps [OF assms, of a] by (metis order_refl)

theorem five_connections_a_minute_witness:
  "length (filter (recent 5) (((\<lambda>_. []) ((([], 80) :: socket_addr) := [5])) ([], 80))) \<le> 5"
proof -
  have "check_connection ([], 80) 5 new_limiter = (True, snd (check_connection ([], 80) 5 new_limiter))"
    by (simp add: check_connection_def new_limiter_def)
  from limiter_states.attempt [OF limiter_states.start [of 0] _ this]
  have "limiter_states (snd (check_connection ([], 80) 5 new_limiter)) 5 ((\<lambda>_. []) (([], 80 :: u16) := [5]))" by simp
  then show ?thesis by (rule five_connections_a_minute)
qed

text \<open>The limit is kept for the address with its port, so a peer that was not let in from a port yet is let in
from it, however many connections its IP address has.\<close>

theorem fresh_port_let_in:
  assumes "limiter_states rl now h" "now \<le> t" "h (ip, port) = []"
  shows "fst (check_connection (ip, port) t rl) = True"
  using limiter_keeps [OF assms(1), of "(ip, port)"] assms(2,3) by (simp add: check_connection_def Let_def)

theorem fresh_port_let_in_witness:
  "fst (check_connection ([127, 0, 0, 1], 4711) 5 new_limiter) = True"
  by (rule fresh_port_let_in [OF limiter_states.start [of 0]]) simp_all

section \<open>Packets per address\<close>

text \<open>Within one second of the clock at most twenty packets of an address are let through: after twenty
have been counted in the second, every further one of it is refused.\<close>

theorem packets_refused_after_twenty:
  assumes "rl_packets rl a = Some (n, now)" "20 \<le> n" "unat n < 2 ^ 64 - 1"
  shows "fst (check_packet a now rl) = False \<and> rl_packets (snd (check_packet a now rl)) a = Some (n + 1, now) \<and> 20 \<le> n + 1"
proof -
  have "unat n + 1 < 2 ^ 64" using assms(3) by simp
  then have "20 \<le> n + 1"
    using assms(2) by (simp add: word_le_nat_alt unat_word_ariths)
  then show ?thesis
    using assms by (simp add: check_packet_def not_less)
qed

theorem packets_refused_after_twenty_witness:
  "fst (check_packet ([], 80) 3 (new_limiter\<lparr>rl_packets := [([], 80) \<mapsto> (20, 3)]\<rparr>)) = False"
  using packets_refused_after_twenty [of "new_limiter\<lparr>rl_packets := [([], 80) \<mapsto> (20, 3)]\<rparr>" "([], 80)" 20 3]
  by simp

section \<open>Changed blocks\<close>

lemma sint_rem16: "sint (rem16 v) = sint v mod 16"
proof -
  have "- (2 ^ 15) \<le> sint v mod 16" "sint v mod 16 < 2 ^ 15"
    by (simp_all add: order_trans [of _ 0] less_le_trans [of _ 16])
  then show ?thesis by (simp add: rem16_def int_word_sint)
qed

lemma sint_div_euclid16: "sint (div_euclid16 v) = sint v div 16"
  using shr4_eq_div_euclid16 sint_shr4 by metis

lemma index_digits:
  fixes p q r :: int
  assumes "0 \<le> p" "p \<le> 15" "0 \<le> q" "q \<le> 15"
  shows "(r * 256 + q * 16 + p) mod 16 = p" "(r * 256 + q * 16 + p) div 16 mod 16 = q" "(r * 256 + q * 16 + p) div 256 = r"
proof -
  have e: "r * 256 + q * 16 + p = p + (q + r * 16) * 16" by simp
  have d: "(r * 256 + q * 16 + p) div 16 = q + r * 16"
    using assms unfolding e by (subst div_mult_self1) simp_all
  show "(r * 256 + q * 16 + p) mod 16 = p"
    using assms unfolding e by (subst mod_mult_self1) simp
  show "(r * 256 + q * 16 + p) div 16 mod 16 = q"
    using assms unfolding d by (subst mod_mult_self1) simp
  have "(r * 256 + q * 16 + p) div 256 = (r * 256 + q * 16 + p) div 16 div 16"
    using zdiv_zmult2_eq [of 16 "r * 256 + q * 16 + p" 16] by simp
  also have "\<dots> = r"
    using assms unfolding d by (subst div_mult_self1) simp_all
  finally show "(r * 256 + q * 16 + p) div 256 = r" .
qed

definition dirty_index :: "i32 \<Rightarrow> i32 \<Rightarrow> i32 \<Rightarrow> i16" where
  "dirty_index x y z = rem16 y * 256 + rem16 z * 16 + rem16 x"

lemma sint_dirty_index: "sint (dirty_index x y z) = sint y mod 16 * 256 + sint z mod 16 * 16 + sint x mod 16"
proof -
  have m: "0 \<le> sint v mod 16" "sint v mod 16 \<le> 15" for v :: i32
    by simp_all
  have "dirty_index x y z = word_of_int (sint y mod 16 * 256 + sint z mod 16 * 16 + sint x mod 16)"
    by (simp add: dirty_index_def rem16_def)
  then have "sint (dirty_index x y z) =
      (sint y mod 16 * 256 + sint z mod 16 * 16 + sint x mod 16 + 2 ^ 15) mod 2 ^ 16 - 2 ^ 15"
    by (simp only: int_word_sint) simp
  also have "\<dots> = sint y mod 16 * 256 + sint z mod 16 * 16 + sint x mod 16"
    using m [of x] m [of y] m [of z] by (subst mod_pos_pos_trivial) simp_all
  finally show ?thesis .
qed

text \<open>C37. A change is recorded at its cell: the section it is kept under and its index in it give the
coordinates back, whatever the sign of the coordinates.\<close>

theorem mark_block_cell:
  "\<exists>sx sy sz blocks index.
    map_of (db_pending (mark_block x y z b db)) (sx, sy, sz) = Some (blocks @ [(index, b)]) \<and>
    sint x = sint sx * 16 + sint index mod 16 \<and>
    sint z = sint sz * 16 + sint index div 16 mod 16 \<and>
    sint y = sint sy * 16 + sint index div 256"
proof (intro exI conjI)
  let ?i = "dirty_index x y z"
  let ?key = "(div_euclid16 x, div_euclid16 y, div_euclid16 z)"
  show "map_of (db_pending (mark_block x y z b db)) ?key =
      Some ((case map_of (db_pending db) ?key of Some v \<Rightarrow> v | None \<Rightarrow> []) @ [(?i, b)])"
    by (simp add: mark_block_def Let_def update_conv' dirty_index_def)
  have m: "0 \<le> sint v mod 16" "sint v mod 16 \<le> 15" for v :: i32
    by simp_all
  show "sint x = sint (div_euclid16 x) * 16 + sint ?i mod 16"
      "sint z = sint (div_euclid16 z) * 16 + sint ?i div 16 mod 16"
      "sint y = sint (div_euclid16 y) * 16 + sint ?i div 256"
    by (simp_all only: sint_dirty_index sint_div_euclid16 index_digits [OF m m] div_mult_mod_eq)
qed

end
