(* ===== verification/Streaming.thy ===== *)
theory Streaming
  imports ChunkStore PlayPackets Mobs ServerState
begin

text \<open>
  Sending chunks: \<open>to_chunk_data\<close> of \<open>mc-world/src/chunk.rs\<close>, and from \<open>mc-network/src/connection.rs\<close> the
  view distance, the streaming of chunks when a player crosses a chunk border, and the tables of sounds and weapons. The terrain generator is the parameter \<open>gen\<close>, saving a chunk the
  parameter \<open>save\<close>; a packet is its number with its payload. The random numbers of the mobs that
  come with a chunk are an argument, the order of a list stands for the iteration order of a hash set. \<open>None\<close> is a
  panic. Sending may fail, which these functions ignore.
\<close>

section \<open>Chunk data\<close>

definition chunk_section_data :: "Section \<Rightarrow> ChunkSectionData option" where
  "chunk_section_data s = map_option (\<lambda>non_air. \<lparr>csd_block_count = of_nat non_air,
     csd_blocks = encode_network (sec_blocks s), csd_biomes = encode_network (sec_biomes s)\<rparr>) (count_non_air s)"

definition section_mask :: "Section option list \<Rightarrow> i64" where
  "section_mask secs = fold (\<lambda>(i, s) m. case s of None \<Rightarrow> m | Some _ \<Rightarrow> m OR push_bit i 1) (enumerate 0 secs) 0"

definition to_chunk_data :: "Chunk \<Rightarrow> ChunkData option" where
  "to_chunk_data c =
     (let present = List.map_filter id (ck_sections c);
          mask = section_mask (ck_sections c);
          masks = (if mask \<noteq> 0 then [mask] else [])
      in map_option (\<lambda>sections.
           \<lparr>chda_chunk_x = cp_x (ck_position c), chda_chunk_z = cp_z (ck_position c), chda_heightmaps = [0],
            chda_sections = sections, chda_block_entities = [], chda_sky_light_mask = masks,
            chda_block_light_mask = masks, chda_empty_sky_light_mask = [], chda_empty_block_light_mask = [],
            chda_sky_light_arrays = map sec_sky present, chda_block_light_arrays = map sec_light present\<rparr>)
         (those (map chunk_section_data present)))"

text \<open>The bytes of a chunk are kept in it when they are sent the first time.\<close>

definition chunk_packet :: "Chunk \<Rightarrow> (i32 \<times> bytes) option" where
  "chunk_packet c = map_option encode_ChunkData (to_chunk_data c)"

definition send_chunk_data_cached :: "(i32 \<times> bytes \<Rightarrow> bytes) \<Rightarrow> Chunk \<Rightarrow> (bytes \<times> Chunk) option" where
  "send_chunk_data_cached frame c =
     (case ck_cached c of
        Some cached \<Rightarrow> Some (cached, c)
      | None \<Rightarrow> map_option (\<lambda>p. (frame p, set_cached_bytes (frame p) c)) (chunk_packet c))"

section \<open>View distance and surface\<close>

definition saturating_sub_min4 :: "u8 \<Rightarrow> u8 \<Rightarrow> u8" where
  "saturating_sub_min4 m n = max (saturating_sub8 m n) 4"

definition effective_view_distance :: "u8 \<Rightarrow> nat \<Rightarrow> u8" where
  "effective_view_distance max_view online =
     (if online \<le> 1 then max_view
      else if online \<le> 3 then saturating_sub_min4 max_view 1
      else if online \<le> 6 then saturating_sub_min4 max_view 2
      else saturating_sub_min4 max_view 3)"

text \<open>The highest block of a column of a section that is neither air nor the block 267.\<close>

fun surface_in :: "ContainerMode \<Rightarrow> nat \<Rightarrow> nat \<Rightarrow> nat list \<Rightarrow> nat option option" where
  "surface_in c x z [] = Some None"
| "surface_in c x z (y # ys) =
     Option.bind (paletted_get c x y z) (\<lambda>b. if \<not> is_air b \<and> bs_id b \<noteq> 267 then Some (Some y) else surface_in c x z ys)"

fun find_surface_from :: "(nat \<times> Section option) list \<Rightarrow> nat \<Rightarrow> nat \<Rightarrow> f64 option" where
  "find_surface_from [] x z = Some (flit 64 1)"
| "find_surface_from ((i, None) # secs) x z = find_surface_from secs x z"
| "find_surface_from ((i, Some s) # secs) x z =
     (case surface_in (sec_blocks s) x z (rev [0..<16]) of
        None \<Rightarrow> None
      | Some (Some sub_y) \<Rightarrow> Some (float_of_int ((int i - 4) * 16 + int sub_y + 1))
      | Some None \<Rightarrow> find_surface_from secs x z)"

definition find_surface_y :: "Chunk \<Rightarrow> nat \<Rightarrow> nat \<Rightarrow> f64 option" where
  "find_surface_y c = find_surface_from (rev (enumerate 0 (ck_sections c)))"

section \<open>Tables\<close>

definition resolve_sound_id :: "string \<Rightarrow> i32" where
  "resolve_sound_id name =
     (let n = (if take 10 name = ''minecraft:'' then drop 10 name else name)
      in if n = ''block.note_block.pling'' then 400
         else if n = ''block.note_block.harp'' then 401
         else if n = ''entity.player.levelup'' then 500
         else if n = ''entity.experience_orb.pickup'' then 501
         else if n = ''entity.generic.explode'' then 52
         else if n = ''entity.player.hurt'' then 100
         else if n = ''entity.generic.hurt'' then 50
         else 1)"

definition weapon_damage :: "u32 \<Rightarrow> f32" where
  "weapon_damage item =
     flit (case map_of [(686, 4), (712, 5), (723, 6), (743, 7), (755, 8), (691, 7), (716, 9), (727, 9), (747, 10), (756, 11)] item
           of Some d \<Rightarrow> d | None \<Rightarrow> 1) 1"

definition break_sound_for_block :: "u32 \<Rightarrow> i32" where
  "break_sound_for_block b =
     (if b = 25 then 9 else if 8 \<le> b \<and> b \<le> 11 then 4 else if 56 \<le> b \<and> b \<le> 65 then 2
      else if 1240 \<le> b \<and> b \<le> 1252 then 522 else if 1253 \<le> b \<and> b \<le> 1269 then 525 else 1)"

section \<open>What is sent and dropped\<close>

definition chunk_square :: "i32 \<Rightarrow> ChunkPos \<Rightarrow> ChunkPos list" where
  "chunk_square r c = concat (map (\<lambda>dx. map (\<lambda>dz. chunk_pos (cp_x c + dx) (cp_z c + dz)) (chunk_offsets r)) (chunk_offsets r))"

definition visible_chunks :: "i32 \<Rightarrow> ChunkPos \<Rightarrow> ChunkPos list" where
  "visible_chunks r c = remdups (chunk_square r c)"

definition new_chunks :: "i32 \<Rightarrow> ChunkPos \<Rightarrow> ChunkPos list \<Rightarrow> ChunkPos list" where
  "new_chunks r c loaded = filter (\<lambda>cp. cp \<notin> set loaded) (visible_chunks r c)"

definition chebyshev :: "ChunkPos \<Rightarrow> ChunkPos \<Rightarrow> i32" where
  "chebyshev a b = (let dx = i32_abs (cp_x a - cp_x b); dz = i32_abs (cp_z a - cp_z b) in if dx <s dz then dz else dx)"

definition MAX_CHUNKS_PER_SEND :: nat where "MAX_CHUNKS_PER_SEND = 6"

definition to_send :: "i32 \<Rightarrow> ChunkPos \<Rightarrow> ChunkPos list \<Rightarrow> ChunkPos list" where
  "to_send r c loaded = take MAX_CHUNKS_PER_SEND (sort_key (\<lambda>cp. sint (chebyshev cp c)) (new_chunks r c loaded))"

definition evicted_chunks :: "i32 \<Rightarrow> ChunkPos \<Rightarrow> ChunkPos list \<Rightarrow> ChunkPos list" where
  "evicted_chunks r c loaded = filter (\<lambda>cp. cp \<notin> set (visible_chunks r c)) loaded"

definition loaded_after :: "i32 \<Rightarrow> ChunkPos \<Rightarrow> ChunkPos list \<Rightarrow> ChunkPos list" where
  "loaded_after r c loaded = filter (\<lambda>cp. cp \<in> set (visible_chunks r c)) loaded @ new_chunks r c loaded"

section \<open>Mobs that come with a chunk\<close>

text \<open>What one mob draws: its identifier, one of four types, its place in the chunk, its direction and the time
of its behaviour.\<close>

record mob_draw =
  md_uuid :: uuid
  md_type :: nat
  md_x :: i32
  md_z :: i32
  md_yaw :: u8
  md_timer :: u64

record stream_state =
  ss_store :: ChunkStore
  ss_mobs :: MobManager
  ss_next_entity :: i32
  ss_sent :: "(i32 \<times> bytes) list"
  ss_written :: "Chunk list"
  ss_player_chunk :: ChunkPos
  ss_loaded :: "ChunkPos list"

definition passive_types :: "i32 list" where
  "passive_types = [11, 12, 13, 14, 15, 16]"

text \<open>\<open>(cp.x * 16 + r) as f64 + 0.5\<close>, and the column that \<open>mx as i32 & 0xF\<close> reads.\<close>

definition mob_coord :: "i32 \<Rightarrow> i32 \<Rightarrow> f64" where
  "mob_coord c r = fadd (float_of_signed (c * 16 + r)) (flit 5 10)"

definition column_of :: "f64 \<Rightarrow> nat" where
  "column_of m = unat (trunc_i32 m AND 0xF)"

definition spawn_mob :: "ChunkPos \<Rightarrow> Chunk \<Rightarrow> mob_draw \<Rightarrow> stream_state \<Rightarrow> stream_state option" where
  "spawn_mob cp chunk d s =
     (let eid = ss_next_entity s;
          t = passive_types ! md_type d;
          mx = mob_coord (cp_x cp) (md_x d); mz = mob_coord (cp_z cp) (md_z d)
      in map_option (\<lambda>my.
           let pkt = \<lparr>se_entity_id = eid, se_entity_uuid = md_uuid d, se_entity_type = t, se_x = mx, se_y = my, se_z = mz,
                 se_pitch = 0, se_yaw = md_yaw d, se_head_yaw = 0, se_data = 0, se_vel_x = 0, se_vel_y = 0, se_vel_z = 0\<rparr>;
               mob = fresh_mob eid (md_uuid d) t (plain_position mx my mz) (mob_max_health t) (40 + md_timer d mod 61)
           in s\<lparr>ss_next_entity := eid + 1,
                ss_sent := ss_sent s @ [encode_SpawnEntity pkt, encode_SetEntityMetadata (mob_defaults eid)],
                ss_mobs := register_mob mob (ss_mobs s)\<rparr>)
         (find_surface_y chunk (column_of mx) (column_of mz)))"

fun spawn_mobs :: "ChunkPos \<Rightarrow> Chunk \<Rightarrow> mob_draw list \<Rightarrow> stream_state \<Rightarrow> stream_state option" where
  "spawn_mobs cp chunk [] s = Some s"
| "spawn_mobs cp chunk (d # ds) s = Option.bind (spawn_mob cp chunk d s) (spawn_mobs cp chunk ds)"

section \<open>Crossing a border\<close>

definition put_chunk :: "(Chunk \<Rightarrow> bool) \<Rightarrow> ChunkPos \<Rightarrow> Chunk \<Rightarrow> stream_state \<Rightarrow> stream_state" where
  "put_chunk save cp chunk s = s\<lparr>ss_store := fst (store_insert save cp chunk (ss_store s))\<rparr>"

definition send :: "i32 \<times> bytes \<Rightarrow> stream_state \<Rightarrow> stream_state" where
  "send p s = s\<lparr>ss_sent := ss_sent s @ [p]\<rparr>"

definition signum :: "i32 \<Rightarrow> i32" where
  "signum v = (if v <s 0 then - 1 else if v = 0 then 0 else 1)"

text \<open>The chunk ahead is generated and stored before the player gets there.\<close>

definition pre_send :: "(ChunkPos \<Rightarrow> Chunk) \<Rightarrow> (Chunk \<Rightarrow> bool) \<Rightarrow> i32 \<Rightarrow> ChunkPos \<Rightarrow> ChunkPos \<Rightarrow> stream_state \<Rightarrow> stream_state" where
  "pre_send gen save r old new s =
     (let dx = signum (cp_x new - cp_x old); dz = signum (cp_z new - cp_z old);
          predicted = chunk_pos (cp_x new + dx * (r + 1)) (cp_z new + dz * (r + 1))
      in if (dx \<noteq> 0 \<or> dz \<noteq> 0) \<and> predicted \<notin> set (ss_loaded s) then put_chunk save predicted (gen predicted) s else s)"

fun send_chunks :: "(ChunkPos \<Rightarrow> Chunk) \<Rightarrow> (Chunk \<Rightarrow> bool) \<Rightarrow> (ChunkPos \<Rightarrow> mob_draw list) \<Rightarrow> ChunkPos list \<Rightarrow> stream_state \<Rightarrow> stream_state option" where
  "send_chunks gen save draws [] s = Some s"
| "send_chunks gen save draws (cp # cps) s =
     (let chunk = gen cp in
      Option.bind (chunk_packet chunk) (\<lambda>p.
      Option.bind (spawn_mobs cp chunk (draws cp) (send p s)) (\<lambda>s.
      send_chunks gen save draws cps (put_chunk save cp chunk s))))"

definition send_new :: "(ChunkPos \<Rightarrow> Chunk) \<Rightarrow> (Chunk \<Rightarrow> bool) \<Rightarrow> (ChunkPos \<Rightarrow> mob_draw list) \<Rightarrow> i32 \<Rightarrow> ChunkPos \<Rightarrow> ChunkPos \<Rightarrow> stream_state \<Rightarrow> stream_state option" where
  "send_new gen save draws r old new s =
     (let cps = to_send r new (ss_loaded s) in
      if new_chunks r new (ss_loaded s) = [] then Some s
      else map_option (send (encode_ChunkBatchFinished \<lparr>cbf_batch_size = usize_as_i32 (length cps)\<rparr>))
             (send_chunks gen save draws cps (send (encode_ChunkBatchStart ChunkBatchStart) (pre_send gen save r old new s))))"

definition forget_chunk :: "ChunkPos \<Rightarrow> stream_state \<Rightarrow> stream_state" where
  "forget_chunk cp s =
     (let s = send (encode_ForgetLevelChunk \<lparr>flc_chunk_x = cp_x cp, flc_chunk_z = cp_z cp\<rparr>) s
      in s\<lparr>ss_store := fst (store_remove cp (ss_store s))\<rparr>)"

text \<open>\<open>write\<close> tells whether the region file could be written.\<close>

definition forget_chunks :: "bool \<Rightarrow> ChunkPos list \<Rightarrow> stream_state \<Rightarrow> stream_state" where
  "forget_chunks write evicted s =
     (let dirty = filter ck_dirty (List.map_filter (\<lambda>cp. store_get cp (ss_store s)) evicted);
          s = (if write then s\<lparr>ss_written := ss_written s @ dirty\<rparr> else s)
      in fold forget_chunk evicted s)"

definition stream_new_chunks ::
  "(ChunkPos \<Rightarrow> Chunk) \<Rightarrow> (Chunk \<Rightarrow> bool) \<Rightarrow> (ChunkPos \<Rightarrow> mob_draw list) \<Rightarrow> bool \<Rightarrow> i32 \<Rightarrow> ChunkPos \<Rightarrow> stream_state \<Rightarrow> stream_state option" where
  "stream_new_chunks gen save draws write r new s =
     (let old = ss_player_chunk s; s = s\<lparr>ss_player_chunk := new\<rparr> in
      if r <=s 0 then Some s
      else map_option (\<lambda>s'.
             (forget_chunks write (evicted_chunks r new (ss_loaded s)) s')\<lparr>ss_loaded := loaded_after r new (ss_loaded s)\<rparr>)
           (send_new gen save draws r old new s))"

end
