(* ===== verification/StreamFacts.thy ===== *)
theory StreamFacts
  imports Streaming
begin

text \<open>
  Facts on \<open>Streaming\<close>: a chunk packet does not say at which height its sections lie; a chunk that was put off is
  never sent while it stays in view; a chunk that comes into the view of a player is generated anew, whatever
  others have built in it; and when the view distance exceeds its maximum.
\<close>

section \<open>Chunk packets\<close>

lemma encode_without_masks:
  "encode_ChunkData (d\<lparr>chda_sky_light_mask := m1, chda_block_light_mask := m2\<rparr>) = encode_ChunkData d"
  by (simp add: encode_ChunkData_def)

text \<open>The packet of a chunk depends on the sections that are there, and not on where they are: two chunks with the
same sections at different heights are sent as the same bytes.\<close>

theorem section_height_not_sent:
  assumes "ck_position a = ck_position b"
    and "List.map_filter id (ck_sections a) = List.map_filter id (ck_sections b)"
  shows "chunk_packet a = chunk_packet b"
  using assms by (cases "those (map chunk_section_data (List.map_filter id (ck_sections b)))")
    (simp_all add: chunk_packet_def to_chunk_data_def Let_def encode_ChunkData_def)

theorem section_height_not_sent_witness:
  "let c = snd (new_chunk 0 (chunk_pos 3 4)); s = new_section \<lparr>sp_chunk = chunk_pos 3 4, sp_y = 0\<rparr>;
       low = c\<lparr>ck_sections := (replicate 24 None)[4 := Some s]\<rparr>; high = c\<lparr>ck_sections := (replicate 24 None)[20 := Some s]\<rparr>
   in chunk_packet low = chunk_packet high"
  unfolding Let_def by (rule section_height_not_sent) (simp_all add: numeral_eq_Suc)

section \<open>Chunks that are put off\<close>

lemma to_send_new: "set (to_send r c loaded) \<subseteq> set (new_chunks r c loaded)"
  by (auto simp: to_send_def dest: in_set_takeD)

lemma length_to_send: "length (to_send r c loaded) \<le> 6"
  by (simp add: to_send_def MAX_CHUNKS_PER_SEND_def)

lemma loaded_not_sent: "cp \<in> set loaded \<Longrightarrow> cp \<notin> set (to_send r c loaded)"
  using to_send_new [of r c loaded] by (auto simp: new_chunks_def)

lemma visible_loaded_after: "cp \<in> set (visible_chunks r c) \<Longrightarrow> cp \<in> set (loaded_after r c loaded)"
  by (auto simp: loaded_after_def new_chunks_def)

text \<open>The chunks sent along a way of centres, each with its view distance.\<close>

primrec sent_chunks :: "(i32 \<times> ChunkPos) list \<Rightarrow> ChunkPos list \<Rightarrow> ChunkPos list" where
  "sent_chunks [] loaded = []"
| "sent_chunks (m # ms) loaded =
     to_send (fst m) (snd m) loaded @ sent_chunks ms (loaded_after (fst m) (snd m) loaded)"

lemma loaded_never_sent:
  "cp \<in> set loaded \<Longrightarrow> \<forall>m \<in> set ms. cp \<in> set (visible_chunks (fst m) (snd m)) \<Longrightarrow> cp \<notin> set (sent_chunks ms loaded)"
  by (induction ms arbitrary: loaded) (auto simp: loaded_not_sent visible_loaded_after)

text \<open>Of the chunks that come into view at a border at most six are sent; the others count as loaded, and are not
sent at any later border while they stay in view.\<close>

theorem deferred_chunk_never_sent:
  assumes "cp \<in> set (new_chunks r c loaded)" "cp \<notin> set (to_send r c loaded)"
    and "\<forall>m \<in> set ms. cp \<in> set (visible_chunks (fst m) (snd m))"
  shows "length (to_send r c loaded) \<le> 6 \<and> cp \<in> set (loaded_after r c loaded) \<and> cp \<notin> set (sent_chunks ((r, c) # ms) loaded)"
  using assms loaded_never_sent length_to_send by (auto simp: loaded_after_def)

theorem deferred_chunk_never_sent_witness:
  "let loaded = visible_chunks 1 (chunk_pos 50 0); way = [(1, chunk_pos 0 0), (1, chunk_pos 1 0), (1, chunk_pos 2 0)]
   in chunk_pos 1 1 \<notin> set (sent_chunks way loaded)"
proof -
  let ?l = "visible_chunks 1 (chunk_pos 50 0)"
  have "chunk_pos 1 1 \<in> set (new_chunks 1 (chunk_pos 0 0) ?l)" "chunk_pos 1 1 \<notin> set (to_send 1 (chunk_pos 0 0) ?l)"
    by code_simp+
  moreover have "\<forall>m \<in> set [(1, chunk_pos 1 0), (1, chunk_pos 2 0)]. chunk_pos 1 1 \<in> set (visible_chunks (fst m) (snd m))"
    by code_simp
  ultimately show ?thesis
    using deferred_chunk_never_sent [of "chunk_pos 1 1" 1 "chunk_pos 0 0" ?l "[(1, chunk_pos 1 0), (1, chunk_pos 2 0)]"]
    by (simp only: Let_def simp_thms)
qed

section \<open>Generated anew\<close>

lemma get_remove_counted: "store_get q (remove_counted k s) = Some d \<Longrightarrow> store_get q s = Some d"
  by (auto simp: remove_counted_def store_get_def map_of_delete split: if_splits)

lemma get_fold_remove: "store_get q (fold remove_counted ks s) = Some d \<Longrightarrow> store_get q s = Some d"
  by (induction ks arbitrary: s) (auto dest: get_remove_counted)

lemma get_evict: "store_get q (fst (evict_lru save n s)) = Some d \<Longrightarrow> store_get q s = Some d"
  by (auto simp: evict_lru_def flush_dirty_lru_def Let_def fst_flush dest!: get_fold_remove split: if_splits)

lemma get_insert:
  "store_get q (fst (store_insert save p c s)) = Some d \<Longrightarrow> (if q = p then d = c else store_get q s = Some d)"
  by (auto simp: store_insert_def Let_def dest!: get_evict split: if_splits) (auto simp: store_get_def update_conv')

lemma get_remove: "store_get q (fst (store_remove p s)) = Some d \<Longrightarrow> store_get q s = Some d"
  by (auto simp: store_remove_def store_get_def Let_def map_of_delete split: if_splits option.splits prod.splits)

text \<open>What a chunk of the store can become: nothing, or the generated one.\<close>

definition fresh_at :: "(ChunkPos \<Rightarrow> Chunk) \<Rightarrow> ChunkPos \<Rightarrow> stream_state \<Rightarrow> bool" where
  "fresh_at gen q s = (\<forall>d. store_get q (ss_store s) = Some d \<longrightarrow> d = gen q)"

lemma fresh_put: "fresh_at gen q s \<Longrightarrow> fresh_at gen q (put_chunk save cp (gen cp) s)"
  by (auto simp: fresh_at_def put_chunk_def dest!: get_insert split: if_splits)

lemma fresh_put_self: "fresh_at gen cp (put_chunk save cp (gen cp) s)"
  by (auto simp: fresh_at_def put_chunk_def dest!: get_insert split: if_splits)

lemma store_send [simp]: "ss_store (send p s) = ss_store s"
  by (simp add: send_def)

lemma store_spawn: "spawn_mobs cp chunk ds s = Some s' \<Longrightarrow> ss_store s' = ss_store s"
proof (induction ds arbitrary: s)
  case (Cons d ds)
  then show ?case
    by (auto simp: bind_eq_Some_conv spawn_mob_def Let_def)
qed simp

lemma fresh_send_chunks:
  "send_chunks gen save draws cps s = Some s' \<Longrightarrow> q \<in> set cps \<or> fresh_at gen q s \<Longrightarrow> fresh_at gen q s'"
proof (induction cps arbitrary: s)
  case (Cons cp cps)
  then obtain p s1 where s1: "spawn_mobs cp (gen cp) (draws cp) (send p s) = Some s1"
      and rest: "send_chunks gen save draws cps (put_chunk save cp (gen cp) s1) = Some s'"
    by (auto simp: Let_def bind_eq_Some_conv)
  have "fresh_at gen q s \<Longrightarrow> fresh_at gen q s1"
    using store_spawn [OF s1] by (simp add: fresh_at_def)
  then have "q \<in> set cps \<or> fresh_at gen q (put_chunk save cp (gen cp) s1)"
    using Cons.prems(2) fresh_put_self [of gen cp save s1] fresh_put [of gen q s1 save cp] by auto
  then show ?case by (rule Cons.IH [OF rest])
qed simp

lemma fresh_forget: "fresh_at gen q s \<Longrightarrow> fresh_at gen q (forget_chunk cp s)"
  by (auto simp: forget_chunk_def Let_def fresh_at_def dest!: get_remove)

lemma fresh_written [simp]: "fresh_at gen q (s\<lparr>ss_written := w\<rparr>) = fresh_at gen q s"
  by (simp add: fresh_at_def)

lemma fresh_forget_chunks: "fresh_at gen q s \<Longrightarrow> fresh_at gen q (forget_chunks w ev s)"
proof -
  have "fresh_at gen q s \<Longrightarrow> fresh_at gen q (fold forget_chunk ev s)" for s
    by (induction ev arbitrary: s) (simp_all add: fresh_forget)
  then show "fresh_at gen q s \<Longrightarrow> ?thesis" by (simp add: forget_chunks_def Let_def)
qed

text \<open>A chunk that is sent to a player who walks into its sight is generated anew and replaces the chunk of the
store: what anyone built there, or what a file holds of it, is gone.\<close>

theorem entering_view_regenerates:
  assumes "stream_new_chunks gen save draws write r new s = Some s'" "0 <s r"
    and "cp \<in> set (to_send r new (ss_loaded s))" "store_get cp (ss_store s') = Some chunk"
  shows "chunk = gen cp"
proof -
  have "\<not> r <=s 0" using assms(2) by (simp add: word_sle_eq word_sless_alt)
  with assms(1) obtain s1 where s1: "send_new gen save draws r (ss_player_chunk s) new (s\<lparr>ss_player_chunk := new\<rparr>) = Some s1"
      and s': "s' = (forget_chunks write (evicted_chunks r new (ss_loaded s)) s1)\<lparr>ss_loaded := loaded_after r new (ss_loaded s)\<rparr>"
    by (auto simp: stream_new_chunks_def Let_def)
  have "new_chunks r new (ss_loaded s) \<noteq> []"
    using assms(3) to_send_new by fastforce
  then obtain s2 where "send_chunks gen save draws (to_send r new (ss_loaded s))
      (send (encode_ChunkBatchStart ChunkBatchStart) (pre_send gen save r (ss_player_chunk s) new (s\<lparr>ss_player_chunk := new\<rparr>))) = Some s2"
      and "ss_store s1 = ss_store s2"
    using s1 by (auto simp: send_new_def Let_def)
  then have "fresh_at gen cp s1"
    using fresh_send_chunks assms(3) by (fastforce simp: fresh_at_def)
  then have "fresh_at gen cp s'"
    using fresh_forget_chunks [of gen cp s1] by (simp add: s' fresh_at_def)
  with assms(4) show ?thesis by (simp add: fresh_at_def)
qed

definition built_state :: stream_state where
  "built_state = \<lparr>ss_store = new_store\<lparr>cs_chunks := [(chunk_pos 0 0, snd (new_chunk 9 (chunk_pos 0 0)))], cs_count := 1\<rparr>,
     ss_mobs = new_mob_manager, ss_next_entity = 1, ss_sent = [], ss_written = [], ss_player_chunk = chunk_pos 1 1,
     ss_loaded = tl (visible_chunks 1 (chunk_pos 1 1))\<rparr>"

lemma empty_chunk_packet: "chunk_packet (snd (new_chunk lru p)) \<noteq> None"
proof -
  have "List.map_filter id (replicate n None) = ([] :: Section list)" for n
    by (induction n) (simp_all add: List.map_filter_simps)
  then show ?thesis by (simp add: chunk_packet_def to_chunk_data_def new_chunk_def Let_def)
qed

theorem entering_view_regenerates_witness:
  "\<exists>s'. stream_new_chunks (\<lambda>p. snd (new_chunk 0 p)) (\<lambda>_. True) (\<lambda>_. []) True 1 (chunk_pos 1 1) built_state = Some s' \<and>
     store_get (chunk_pos 0 0) (ss_store s') = Some (snd (new_chunk 0 (chunk_pos 0 0)))"
proof -
  let ?l = "tl (visible_chunks 1 (chunk_pos 1 1))"
  let ?g = "\<lambda>p. snd (new_chunk 0 p)"
  have l: "new_chunks 1 (chunk_pos 1 1) ?l = [chunk_pos 0 0]" "to_send 1 (chunk_pos 1 1) ?l = [chunk_pos 0 0]"
      "evicted_chunks 1 (chunk_pos 1 1) ?l = []"
    by code_simp+
  obtain p where p: "chunk_packet (?g (chunk_pos 0 0)) = Some p"
    using empty_chunk_packet [of 0 "chunk_pos 0 0"] by auto
  let ?save = "\<lambda>_. True" and ?draws = "\<lambda>_. []" and ?S = "built_state\<lparr>ss_player_chunk := chunk_pos 1 1\<rparr>"
  let ?T = "send p (send (encode_ChunkBatchStart ChunkBatchStart) ?S)"
  have loaded: "ss_loaded ?S = ?l" "ss_loaded built_state = ?l" "ss_player_chunk built_state = chunk_pos 1 1"
    by (simp_all add: built_state_def)
  have ahead: "pre_send ?g ?save 1 (chunk_pos 1 1) (chunk_pos 1 1) ?S = ?S"
    by (simp add: pre_send_def signum_def Let_def)
  have chunks: "send_chunks ?g ?save ?draws [chunk_pos 0 0] (send (encode_ChunkBatchStart ChunkBatchStart) ?S) =
      Some (put_chunk ?save (chunk_pos 0 0) (?g (chunk_pos 0 0)) ?T)"
    by (simp add: p Let_def)
  have "\<exists>q. send_new ?g ?save ?draws 1 (chunk_pos 1 1) (chunk_pos 1 1) ?S =
      Some (send q (put_chunk ?save (chunk_pos 0 0) (?g (chunk_pos 0 0)) ?T))"
    unfolding send_new_def loaded l Let_def ahead chunks by (simp del: split_paired_Ex) (rule exI, rule refl)
  then obtain q where "send_new ?g ?save ?draws 1 (chunk_pos 1 1) (chunk_pos 1 1) ?S =
      Some (send q (put_chunk ?save (chunk_pos 0 0) (?g (chunk_pos 0 0)) ?T))" ..
  then obtain s' where s': "stream_new_chunks ?g ?save ?draws True 1 (chunk_pos 1 1) built_state = Some s'"
      and store: "ss_store s' = ss_store (put_chunk ?save (chunk_pos 0 0) (?g (chunk_pos 0 0)) ?T)"
    by (simp add: stream_new_chunks_def Let_def loaded l forget_chunks_def List.map_filter_simps word_sle_eq)
  have "store_get (chunk_pos 0 0) (ss_store s') \<noteq> None"
    unfolding store
    by (simp add: put_chunk_def store_insert_def built_state_def new_store_def DEFAULT_MAX_CHUNKS_def store_get_def usize_add_def)
  then obtain c where c: "store_get (chunk_pos 0 0) (ss_store s') = Some c" by auto
  have "chunk_pos 0 0 \<in> set (to_send 1 (chunk_pos 1 1) (ss_loaded built_state))"
    unfolding loaded l by simp
  from entering_view_regenerates [OF s' _ this c] s' c show ?thesis by (simp add: word_sless_alt)
qed

section \<open>View distance\<close>

text \<open>The view distance stays within the configured maximum for one player, and for any number of them when the
maximum is at least 4; below, a second player raises it to 4.\<close>

theorem view_distance_bounded_iff:
  "effective_view_distance m n \<le> m \<longleftrightarrow> n \<le> 1 \<or> 4 \<le> m"
  using saturating_sub8_le [of m 1] saturating_sub8_le [of m 2] saturating_sub8_le [of m 3]
  by (auto simp: effective_view_distance_def saturating_sub_min4_def)

end
