(* ===== verification/Session.thy ===== *)
theory Session
  imports PacketIo LoginPackets PlayerOps ServerState
begin

text \<open>
  The life of a connection up to the play state, \<open>mc-network/src/connection.rs\<close>: handshake, status, login and
  configuration, with the key exchange of \<open>mc-network/src/encryption.rs\<close> and the identifiers of \<open>mc-core/src/auth.rs\<close>.

  A connection holds what its peer will send, each piece with the time (in milliseconds) at which it arrives; a
  peer that has nothing left to send has closed. Reading waits for the next piece, or until a deadline; a read that is
  given up loses the bytes it had taken. The socket takes a number of writes and then fails. What the code gets from
  outside (the block cipher, zlib, RSA, SHA-1, the session server, JSON, the hash of a name) is the record \<open>outside\<close>.
  A handler returns \<open>None\<close> when it panics; otherwise the connection, with a value where it went on.
\<close>

record MojangProperty =
  mp_name :: bytes
  mp_value :: bytes
  mp_signature :: "bytes option"

record MojangProfile =
  mpr_id :: bytes
  mpr_name :: bytes
  mpr_properties :: "MojangProperty list"

record EncryptionKeys =
  ek_private :: "bytes \<Rightarrow> bytes option"
  ek_public_key_der :: bytes
  ek_verify_token :: bytes

text \<open>The private key is what it decrypts. \<open>session\<close> answers the attempt of a number.\<close>

record outside =
  ou_aes :: "bytes \<Rightarrow> bytes \<Rightarrow> bytes"
  ou_deflate :: "bytes \<Rightarrow> string + bytes"
  ou_json :: "StatusResponse \<Rightarrow> bytes option"
  ou_new_v4 :: uuid
  ou_new_v3 :: "uuid \<Rightarrow> bytes \<Rightarrow> uuid"
  ou_parse_uuid :: "bytes \<Rightarrow> uuid option"
  ou_keys :: "EncryptionKeys option"
  ou_sha1 :: "bytes \<Rightarrow> bytes"
  ou_session :: "nat \<Rightarrow> bytes \<Rightarrow> bytes \<Rightarrow> MojangProfile option"

record conn =
  cn_stream :: PacketStream
  cn_buffer :: bytes
  cn_incoming :: "(nat \<times> bytes) list"
  cn_now :: nat
  cn_written :: "bytes list"
  cn_writes_left :: nat

section \<open>Reading and writing\<close>

datatype read_result = Frame bytes | Failed io_error | TimedOut

text \<open>What is left of the buffer after a length that was refused.\<close>

definition refused_rest :: "bytes \<Rightarrow> bytes" where
  "refused_rest buf = (case read_length 0 0 buf of Ok (_, rest) \<Rightarrow> rest | _ \<Rightarrow> drop 5 buf)"

fun await_from ::
  "(bytes \<Rightarrow> bytes \<Rightarrow> bytes) \<Rightarrow> nat option \<Rightarrow> PacketStream \<Rightarrow> bytes \<Rightarrow> nat \<Rightarrow> (nat \<times> bytes) list
    \<Rightarrow> read_result \<times> PacketStream \<times> bytes \<times> nat \<times> (nat \<times> bytes) list" where
  "await_from aes deadline ps buf now incoming =
     (case read_frame aes ps buf of
        Ok (frame, ps, rest) \<Rightarrow> (Frame frame, ps, rest, now, incoming)
      | Err InvalidData \<Rightarrow> (Failed InvalidData, ps, refused_rest buf, now, incoming)
      | _ \<Rightarrow>
          (case incoming of
             [] \<Rightarrow> (Failed UnexpectedEof, ps, [], now, [])
           | (t, bs) # later \<Rightarrow>
               (case deadline of
                  Some limit \<Rightarrow>
                    if limit < t then (TimedOut, ps, [], max now limit, incoming)
                    else await_from aes deadline ps (buf @ bs) (max now t) later
                | None \<Rightarrow> await_from aes deadline ps (buf @ bs) (max now t) later)))"

declare await_from.simps [simp del]

text \<open>\<open>io.read_frame()\<close>, alone or under a timeout.\<close>

definition await_frame :: "outside \<Rightarrow> nat option \<Rightarrow> conn \<Rightarrow> read_result \<times> conn" where
  "await_frame ou wait c =
     (let (r, ps, buf, now, incoming) =
        await_from (ou_aes ou) (map_option (\<lambda>w. cn_now c + w) wait) (cn_stream c) (cn_buffer c) (cn_now c) (cn_incoming c)
      in (r, c\<lparr>cn_stream := ps, cn_buffer := buf, cn_now := now, cn_incoming := incoming\<rparr>))"

abbreviation conn_codec :: "conn \<Rightarrow> MinecraftCodec" where
  "conn_codec c \<equiv> ps_codec (cn_stream c)"

definition write_data :: "outside \<Rightarrow> bytes \<Rightarrow> conn \<Rightarrow> bool \<times> conn" where
  "write_data ou data c =
     (case write_frame (ou_aes ou) (cn_stream c) data of
        Ok (out, ps) \<Rightarrow>
          (let c = c\<lparr>cn_stream := ps\<rparr> in
           case cn_writes_left c of
             0 \<Rightarrow> (False, c)
           | Suc n \<Rightarrow> (True, c\<lparr>cn_written := cn_written c @ [out], cn_writes_left := n\<rparr>))
      | _ \<Rightarrow> (False, c))"

definition send_packet :: "outside \<Rightarrow> i32 \<times> bytes \<Rightarrow> conn \<Rightarrow> bool \<times> conn" where
  "send_packet ou p c =
     (case encode_frame (ou_deflate ou) (conn_codec c) \<lparr>packet_id = fst p, encode_payload = snd p\<rparr> of
        Ok data \<Rightarrow> write_data ou data c
      | _ \<Rightarrow> (False, c))"

text \<open>\<open>let _ = send_packet(...)\<close>, for packets one after the other.\<close>

definition send_anyway :: "outside \<Rightarrow> (i32 \<times> bytes) list \<Rightarrow> conn \<Rightarrow> conn" where
  "send_anyway ou ps c = fold (\<lambda>p c. snd (send_packet ou p c)) ps c"

text \<open>What a handler does next: it goes on with a value, returns, or panics.\<close>

type_synonym 'a handled = "('a option \<times> conn) option"

definition go_on :: "'a handled \<Rightarrow> ('a \<Rightarrow> conn \<Rightarrow> 'b handled) \<Rightarrow> 'b handled" where
  "go_on r k =
     (case r of None \<Rightarrow> None | Some (None, c) \<Rightarrow> Some (None, c) | Some (Some x, c) \<Rightarrow> k x c)"

definition return_now :: "conn \<Rightarrow> 'a handled" where
  "return_now c = Some (None, c)"

definition read_or_return :: "outside \<Rightarrow> nat option \<Rightarrow> conn \<Rightarrow> bytes handled" where
  "read_or_return ou wait c =
     (case await_frame ou wait c of (Frame f, c) \<Rightarrow> Some (Some f, c) | (_, c) \<Rightarrow> Some (None, c))"

definition decoded_or_return :: "(CodecError, 'a) outcome \<Rightarrow> conn \<Rightarrow> 'a handled" where
  "decoded_or_return r c = (case r of Ok x \<Rightarrow> Some (Some x, c) | Err _ \<Rightarrow> Some (None, c) | Panic \<Rightarrow> None)"

definition send_or_return :: "outside \<Rightarrow> i32 \<times> bytes \<Rightarrow> conn \<Rightarrow> unit handled" where
  "send_or_return ou p c = (let (ok, c) = send_packet ou p c in Some (if ok then Some () else None, c))"

definition decode_as :: "i32 \<Rightarrow> (bytes \<Rightarrow> (CodecError, 'p) outcome) \<Rightarrow> bytes \<Rightarrow> conn \<Rightarrow> (CodecError, 'p) outcome" where
  "decode_as pid d frame c = decode_packet (conn_codec c) \<lparr>expected_id = pid, decode_payload = d\<rparr> frame"

definition refuse :: "outside \<Rightarrow> bytes \<Rightarrow> conn \<Rightarrow> 'a handled" where
  "refuse ou reason c = return_now (snd (send_packet ou (encode_LoginDisconnect \<lparr>ld_reason = reason\<rparr>) c))"

lemma go_on_eq_Some: "go_on r k = Some (Some y, c') \<longleftrightarrow> (\<exists>x c. r = Some (Some x, c) \<and> k x c = Some (Some y, c'))"
  by (auto simp: go_on_def split: option.splits)

lemma go_on_simps [simp]:
  "go_on (Some (Some x, c)) k = k x c" "go_on (Some (None, c)) k = Some (None, c)" "go_on None k = None"
  by (simp_all add: go_on_def)

section \<open>Reading uses up what arrives\<close>

definition pending_bytes :: "bytes \<Rightarrow> (nat \<times> bytes) list \<Rightarrow> nat" where
  "pending_bytes buf incoming = length buf + sum_list (map (length \<circ> snd) incoming)"

abbreviation cn_pending :: "conn \<Rightarrow> nat" where
  "cn_pending c \<equiv> pending_bytes (cn_buffer c) (cn_incoming c)"

lemma read_length_shorter: "read_length l s buf = Ok (len, rest) \<Longrightarrow> length rest < length buf"
proof (induction l s buf rule: read_length.induct)
  case (2 l s b buf)
  then show ?case
    by (cases "b AND 0x80 = 0") (fastforce simp: Let_def split: if_splits)+
qed simp

lemma read_frame_shorter: "read_frame aes ps buf = Ok (frame, ps', rest) \<Longrightarrow> length rest < length buf"
  by (fastforce simp: read_frame_def and_then_eq_Ok Let_def dest!: read_length_shorter split: if_splits option.splits prod.splits)

lemma refused_shorter: "length (refused_rest buf) \<le> length buf"
  by (auto simp: refused_rest_def dest!: read_length_shorter split: outcome.splits)

lemma read_length_not_Panic: "read_length l s buf \<noteq> Panic"
  by (induction l s buf rule: read_length.induct) (auto simp: Let_def)

lemma read_frame_not_Panic: "read_frame aes ps buf \<noteq> Panic"
  by (auto simp: read_frame_def and_then_eq_Panic read_length_not_Panic Let_def split: option.splits prod.splits)

lemma read_frame_cases:
  obtains (ready) f p rest where "read_frame aes ps buf = Ok (f, p, rest)"
  | (refused) "read_frame aes ps buf = Err InvalidData"
  | (short) "read_frame aes ps buf = Err UnexpectedEof"
proof (cases "read_frame aes ps buf")
  case (Err e)
  then show ?thesis
    using that by (cases e) auto
qed (use that read_frame_not_Panic [of aes ps buf] in auto)

lemma await_ready:
  "read_frame aes ps buf = Ok (f, ps', rest) \<Longrightarrow> await_from aes limit ps buf now incoming = (Frame f, ps', rest, now, incoming)"
  by (subst await_from.simps) simp

lemma await_refused:
  "read_frame aes ps buf = Err InvalidData \<Longrightarrow>
    await_from aes limit ps buf now incoming = (Failed InvalidData, ps, refused_rest buf, now, incoming)"
  by (subst await_from.simps) simp

lemma await_closed:
  "read_frame aes ps buf = Err UnexpectedEof \<Longrightarrow> await_from aes limit ps buf now [] = (Failed UnexpectedEof, ps, [], now, [])"
  by (subst await_from.simps) simp

lemma await_late:
  "read_frame aes ps buf = Err UnexpectedEof \<Longrightarrow> d < t \<Longrightarrow>
    await_from aes (Some d) ps buf now ((t, bs) # later) = (TimedOut, ps, [], max now d, (t, bs) # later)"
  by (subst await_from.simps) simp

lemma await_more:
  "read_frame aes ps buf = Err UnexpectedEof \<Longrightarrow> \<forall>d. limit = Some d \<longrightarrow> t \<le> d \<Longrightarrow>
    await_from aes limit ps buf now ((t, bs) # later) = await_from aes limit ps (buf @ bs) (max now t) later"
  by (subst await_from.simps) (auto split: option.splits)

definition read_uses :: "nat option \<Rightarrow> nat \<Rightarrow> nat \<Rightarrow> read_result \<Rightarrow> nat \<Rightarrow> nat \<Rightarrow> bool" where
  "read_uses limit before now r after now' \<longleftrightarrow>
     after \<le> before \<and> now \<le> now' \<and>
     (case r of
        Frame _ \<Rightarrow> after < before
      | TimedOut \<Rightarrow> (\<exists>d. limit = Some d \<and> d \<le> now')
      | Failed _ \<Rightarrow> True)"

lemma await_from_uses:
  "await_from aes limit ps buf now incoming = (r, ps', buf', now', incoming') \<Longrightarrow>
     read_uses limit (pending_bytes buf incoming) now r (pending_bytes buf' incoming') now'"
proof (induction incoming arbitrary: buf now)
  case Nil
  then show ?case
    using refused_shorter [of buf]
    by (cases rule: read_frame_cases [of aes ps buf])
      (auto simp: await_ready await_refused await_closed read_uses_def pending_bytes_def dest: read_frame_shorter)
next
  case (Cons a later)
  obtain t bs where a: "a = (t, bs)"
    by (cases a)
  show ?case
  proof (cases rule: read_frame_cases [of aes ps buf])
    case short
    show ?thesis
    proof (cases "\<exists>d. limit = Some d \<and> d < t")
      case True
      then show ?thesis
        using Cons short by (auto simp: a await_late read_uses_def pending_bytes_def)
    next
      case False
      then have "\<forall>d. limit = Some d \<longrightarrow> t \<le> d"
        by auto
      then have "read_uses limit (pending_bytes (buf @ bs) later) (max now t) r (pending_bytes buf' incoming') now'"
        using Cons short by (simp add: a await_more)
      then show ?thesis
        by (simp add: read_uses_def a pending_bytes_def add.assoc)
    qed
  qed (use Cons a refused_shorter [of buf] in
      \<open>auto simp: await_ready await_refused read_uses_def pending_bytes_def dest: read_frame_shorter\<close>)
qed

lemma await_frame_uses:
  "await_frame ou wait c = (r, c') \<Longrightarrow>
     read_uses (map_option (\<lambda>w. cn_now c + w) wait) (cn_pending c) (cn_now c) r (cn_pending c') (cn_now c')"
  by (auto simp: await_frame_def dest!: await_from_uses split: prod.splits)

section \<open>Handshake and status\<close>

definition read_handshake :: "outside \<Rightarrow> conn \<Rightarrow> HandshakePacket handled" where
  "read_handshake ou c =
     go_on (read_or_return ou None c) (\<lambda>frame c. decoded_or_return (decode_as 0 decode_HandshakePacket frame c) c)"

record server_conf =
  sc_motd :: bytes
  sc_max_players :: u32
  sc_protocol_version :: i32
  sc_version_name :: bytes
  sc_online_mode :: bool
  sc_compression_threshold :: u32

definition status_response :: "server_conf \<Rightarrow> PlayerManager \<Rightarrow> StatusResponse" where
  "status_response conf pm =
     \<lparr>stre_version = \<lparr>vi_name = sc_version_name conf, vi_protocol = sc_protocol_version conf\<rparr>,
      stre_players = \<lparr>plin_max = sc_max_players conf, plin_online = of_nat (online_count pm), plin_sample = []\<rparr>,
      stre_description = \<lparr>des_text = sc_motd conf\<rparr>, stre_favicon = None, stre_enforces_secure_chat = False,
      stre_previews_chat = Some False\<rparr>"

lemma read_or_return_pending: "read_or_return ou wait c = Some (Some f, c') \<Longrightarrow> cn_pending c' < cn_pending c"
  by (auto simp: read_or_return_def read_uses_def dest!: await_frame_uses split: prod.splits read_result.splits)

lemma write_keeps: "cn_buffer (snd (write_data ou data c)) = cn_buffer c" "cn_incoming (snd (write_data ou data c)) = cn_incoming c"
  "cn_now (snd (write_data ou data c)) = cn_now c"
  by (auto simp: write_data_def Let_def split: outcome.splits nat.splits)

lemma send_keeps [simp]: "cn_buffer (snd (send_packet ou p c)) = cn_buffer c" "cn_incoming (snd (send_packet ou p c)) = cn_incoming c"
  "cn_now (snd (send_packet ou p c)) = cn_now c"
  by (auto simp: send_packet_def write_keeps split: outcome.splits)

lemma send_or_return_keeps:
  "send_or_return ou p c = Some (Some x, c') \<Longrightarrow> cn_buffer c' = cn_buffer c \<and> cn_incoming c' = cn_incoming c \<and> cn_now c' = cn_now c"
  using send_keeps [of ou p c]
  by (cases "send_packet ou p c") (auto simp: send_or_return_def split: if_splits simp del: send_keeps)

function handle_status :: "outside \<Rightarrow> server_conf \<Rightarrow> PlayerManager \<Rightarrow> conn \<Rightarrow> unit handled" where
  "handle_status ou conf pm c =
     (case read_or_return ou None c of
        None \<Rightarrow> None
      | Some (None, c) \<Rightarrow> return_now c
      | Some (Some frame, c) \<Rightarrow>
          (case parse_packet_id_and_payload (conn_codec c) frame of
             Panic \<Rightarrow> None
           | Err _ \<Rightarrow> return_now c
           | Ok (pid, _) \<Rightarrow>
               if pid = 0 then
                 (case send_or_return ou (encode_StatusResponse (ou_json ou) (status_response conf pm)) c of
                    None \<Rightarrow> None
                  | Some (None, c) \<Rightarrow> return_now c
                  | Some (Some _, c) \<Rightarrow> handle_status ou conf pm c)
               else if pid = 1 then
                 go_on (decoded_or_return (decode_as 1 decode_PingRequest frame c) c) (\<lambda>ping c.
                 go_on (send_or_return ou (encode_PongResponse \<lparr>pore_payload = pire_payload ping\<rparr>) c) (\<lambda>_ c.
                 return_now c))
               else handle_status ou conf pm c))"
  by pat_completeness auto
termination
  by (relation "measure (\<lambda>(ou, conf, pm, c). cn_pending c)")
    (auto dest!: read_or_return_pending send_or_return_keeps)

declare handle_status.simps [simp del]

section \<open>Login\<close>

definition sized :: "nat \<Rightarrow> bytes option \<Rightarrow> bytes option" where
  "sized n r = (case r of Some bs \<Rightarrow> if length bs = n then Some bs else None | None \<Rightarrow> None)"

definition decrypt_client_secrets :: "(bytes \<Rightarrow> bytes option) \<Rightarrow> bytes \<Rightarrow> bytes \<Rightarrow> (bytes \<times> bytes) option" where
  "decrypt_client_secrets private encrypted_secret encrypted_token =
     Option.bind (sized 16 (private encrypted_secret)) (\<lambda>shared_secret.
     Option.bind (sized 4 (private encrypted_token)) (\<lambda>token. Some (shared_secret, token)))"

definition hex_char :: "u8 \<Rightarrow> u8" where
  "hex_char d = (if d < 10 then 0x30 + d else 0x57 + d)"

definition compute_server_hash :: "(bytes \<Rightarrow> bytes) \<Rightarrow> bytes \<Rightarrow> bytes \<Rightarrow> bytes \<Rightarrow> bytes" where
  "compute_server_hash sha1 server_id shared_secret public_key =
     concat (map (\<lambda>b. [hex_char (drop_bit 4 b), hex_char (b AND 0xF)]) (sha1 (server_id @ shared_secret @ public_key)))"

definition NAMESPACE_OID :: uuid where "NAMESPACE_OID = 0x6ba7b8129dad11d180b400c04fd430c8"

definition offline_uuid :: "(uuid \<Rightarrow> bytes \<Rightarrow> uuid) \<Rightarrow> bytes \<Rightarrow> uuid" where
  "offline_uuid new_v3 username = new_v3 NAMESPACE_OID (utf8 ''OfflinePlayer:'' @ username)"

text \<open>The session server is asked three times, half a second apart.\<close>

fun ask_session :: "(nat \<Rightarrow> MojangProfile option) \<Rightarrow> nat list \<Rightarrow> conn \<Rightarrow> MojangProfile option \<times> conn" where
  "ask_session session [] c = (None, c)"
| "ask_session session (attempt # attempts) c =
     (case session attempt of
        Some p \<Rightarrow> (Some p, c)
      | None \<Rightarrow> ask_session session attempts (if attempt < 2 then c\<lparr>cn_now := cn_now c + 500\<rparr> else c))"

definition enable_conn_encryption :: "bytes \<Rightarrow> conn \<Rightarrow> conn" where
  "enable_conn_encryption key c = c\<lparr>cn_stream := enable_encryption key (cn_stream c)\<rparr>"

definition login_property :: "MojangProperty \<Rightarrow> Property" where
  "login_property p = \<lparr>pro_name = mp_name p, pro_value = mp_value p, pro_signature = mp_signature p\<rparr>"

definition check_secrets :: "outside \<Rightarrow> EncryptionKeys \<Rightarrow> bytes \<Rightarrow> EncryptionResponse \<Rightarrow> conn \<Rightarrow> (uuid \<times> Property list) handled" where
  "check_secrets ou keys username r c =
     (case decrypt_client_secrets (ek_private keys) (enre_shared_secret r) (enre_verify_token r) of
        None \<Rightarrow> refuse ou (utf8 ''{\"text\":\"Encryption verification failed\"}'') c
      | Some (shared_secret, token) \<Rightarrow>
          if token \<noteq> ek_verify_token keys then refuse ou (utf8 ''{\"text\":\"Token verification failed\"}'') c
          else
            let c = enable_conn_encryption shared_secret c;
                server_hash = compute_server_hash (ou_sha1 ou) [] shared_secret (ek_public_key_der keys);
                (profile, c) = ask_session (\<lambda>n. ou_session ou n username server_hash) [0..<3] c
            in case profile of
                 None \<Rightarrow> refuse ou (utf8 ''{\"text\":\"Mojang authentication failed. Are you logged in?\"}'') c
               | Some p \<Rightarrow>
                   Some (Some (case ou_parse_uuid ou (mpr_id p) of
                                 Some u \<Rightarrow> u | None \<Rightarrow> offline_uuid (ou_new_v3 ou) username,
                               map login_property (mpr_properties p)), c))"

definition authenticate :: "outside \<Rightarrow> bytes \<Rightarrow> conn \<Rightarrow> (uuid \<times> Property list) handled" where
  "authenticate ou username c =
     (case ou_keys ou of
        None \<Rightarrow> refuse ou (utf8 ''{\"text\":\"Server error during encryption setup\"}'') c
      | Some keys \<Rightarrow>
          go_on (send_or_return ou (encode_EncryptionRequest
              \<lparr>er_server_id = [], er_public_key = ek_public_key_der keys, er_verify_token = ek_verify_token keys\<rparr>) c) (\<lambda>_ c.
          go_on (read_or_return ou (Some 30000) c) (\<lambda>frame c.
          go_on (decoded_or_return (decode_as 1 decode_EncryptionResponse frame c) c) (check_secrets ou keys username))))"

definition offline_identity :: "outside \<Rightarrow> LoginStart \<Rightarrow> uuid" where
  "offline_identity ou ls =
     (case ls_player_uuid ls of Some u \<Rightarrow> u | None \<Rightarrow> offline_uuid (ou_new_v3 ou) (ls_username ls))"

definition identify :: "outside \<Rightarrow> server_conf \<Rightarrow> LoginStart \<Rightarrow> conn \<Rightarrow> (uuid \<times> Property list) handled" where
  "identify ou conf ls c =
     (if sc_online_mode conf then authenticate ou (ls_username ls) c else Some (Some (offline_identity ou ls, []), c))"

definition start_compression :: "outside \<Rightarrow> server_conf \<Rightarrow> conn \<Rightarrow> unit handled" where
  "start_compression ou conf c =
     (if sc_compression_threshold conf > 0 then
        go_on (send_or_return ou (encode_SetCompression \<lparr>seco_threshold = sc_compression_threshold conf\<rparr>) c) (\<lambda>_ c.
          Some (Some (), c\<lparr>cn_stream := (cn_stream c)\<lparr>ps_codec := new_codec (sc_compression_threshold conf)\<rparr>\<rparr>))
      else Some (Some (), c))"

text \<open>The acknowledgement is read, and whatever it is the connection goes on.\<close>

definition read_acknowledged :: "outside \<Rightarrow> conn \<Rightarrow> conn" where
  "read_acknowledged ou c = snd (await_frame ou None c)"

definition read_login_start :: "outside \<Rightarrow> conn \<Rightarrow> LoginStart handled" where
  "read_login_start ou c =
     go_on (read_or_return ou None c) (\<lambda>frame c.
     go_on (decoded_or_return (parse_packet_id_and_payload (conn_codec c) frame) c) (\<lambda>(packet_id, _) c.
       if packet_id \<noteq> 0 then return_now c else decoded_or_return (decode_as 0 decode_LoginStart frame c) c))"

definition admit :: "outside \<Rightarrow> server_conf \<Rightarrow> PlayerManager \<Rightarrow> bytes \<Rightarrow> uuid \<Rightarrow> Property list \<Rightarrow> conn \<Rightarrow> unit handled" where
  "admit ou conf pm username u properties c =
     (if is_banned u pm then refuse ou (utf8 ''{\"text\":\"You are banned from this server\"}'') c
      else if \<not> is_whitelisted u pm then refuse ou (utf8 ''{\"text\":\"You are not whitelisted on this server\"}'') c
      else
        go_on (send_or_return ou (encode_LoginSuccess (ou_new_v4 ou)
            \<lparr>losu_uuid = u, losu_username = username, losu_properties = properties\<rparr>) c) (\<lambda>_ c.
        go_on (start_compression ou conf c) (\<lambda>_ c.
        Some (Some (), read_acknowledged ou c))))"

section \<open>Configuration\<close>

definition registry :: "string \<Rightarrow> string list \<Rightarrow> RegistryData" where
  "registry name keys = \<lparr>rd_registry_id = utf8 name, rd_entries = map (\<lambda>k. \<lparr>reen_key = utf8 k, reen_data = None\<rparr>) keys\<rparr>"

definition config_packets :: "(i32 \<times> bytes) list" where
  "config_packets =
     [encode_ConfigPluginMessage \<lparr>cpm_channel = utf8 ''minecraft:brand'', cpm_data = utf8 ''Minecraft LAN Server'' @ [0]\<rparr>,
      encode_KnownPacks \<lparr>kp_known_packs = []\<rparr>,
      encode_RegistryData (registry ''minecraft:dimension_type''
        [''minecraft:overworld'', ''minecraft:the_nether'', ''minecraft:the_end'']),
      encode_RegistryData (registry ''minecraft:worldgen/biome''
        [''minecraft:plains'', ''minecraft:the_void'', ''minecraft:forest'', ''minecraft:ocean'', ''minecraft:desert'',
         ''minecraft:nether_wastes'', ''minecraft:soul_sand_valley'', ''minecraft:crimson_forest'',
         ''minecraft:warped_forest'', ''minecraft:basalt_deltas'', ''minecraft:the_end'', ''minecraft:end_highlands'',
         ''minecraft:end_midlands'', ''minecraft:small_end_islands'', ''minecraft:end_barrens'']),
      encode_FeatureFlags \<lparr>ff_flags = []\<rparr>]"

text \<open>A packet of the client: the client information and the known packs are noted, the others decoded at most.\<close>

definition config_frame :: "bytes \<Rightarrow> bool \<times> bool \<Rightarrow> conn \<Rightarrow> (bool \<times> bool) option" where
  "config_frame frame got c =
     (let (got_client_info, got_known_packs) = got in
      case parse_packet_id_and_payload (conn_codec c) frame of
        Panic \<Rightarrow> None
      | Err _ \<Rightarrow> Some got
      | Ok (pid, _) \<Rightarrow>
          if pid = 0 then
            (case decode_as 0 decode_ConfigClientInformation frame c of
               Ok _ \<Rightarrow> Some (True, got_known_packs) | Err _ \<Rightarrow> Some got | Panic \<Rightarrow> None)
          else if pid = 7 then
            (case decode_as 7 decode_ServerboundKnownPacks frame c of
               Ok _ \<Rightarrow> Some (got_client_info, True) | Err _ \<Rightarrow> Some got | Panic \<Rightarrow> None)
          else if pid = 2 then
            (case decode_as 0x16 decode_CookieResponse frame c of Panic \<Rightarrow> None | _ \<Rightarrow> Some got)
          else Some got)"

text \<open>After a frame that cannot be decoded the loop starts again without the test at its end, which could only fail.\<close>

function config_loop :: "outside \<Rightarrow> nat \<Rightarrow> bool \<times> bool \<Rightarrow> conn \<Rightarrow> conn option" where
  "config_loop ou start got c =
     (if cn_now c - start > 30000 then Some c
      else case await_frame ou (Some 5000) c of
        (Failed _, c) \<Rightarrow> Some c
      | (TimedOut, c) \<Rightarrow> config_loop ou start got (snd (send_packet ou (encode_ConfigKeepAlive \<lparr>cka_id = 42\<rparr>) c))
      | (Frame frame, c) \<Rightarrow>
          (case config_frame frame got c of
             None \<Rightarrow> None
           | Some got \<Rightarrow> if got = (True, True) then Some c else config_loop ou start got c))"
  by pat_completeness auto
termination
  by (relation "measure (\<lambda>(ou, start, got, c). cn_pending c + (30001 + start - cn_now c))")
    (auto simp: read_uses_def dest!: await_frame_uses [OF sym])

declare config_loop.simps [simp del]

definition finish_configuration :: "outside \<Rightarrow> conn \<Rightarrow> conn option" where
  "finish_configuration ou c =
     (let c = snd (send_packet ou (encode_FinishConfiguration FinishConfiguration) c) in
      case await_frame ou (Some 10000) c of
        (Frame frame, c) \<Rightarrow> (case parse_packet_id_and_payload (conn_codec c) frame of Panic \<Rightarrow> None | _ \<Rightarrow> Some c)
      | (_, c) \<Rightarrow> Some c)"

definition handle_configuration :: "outside \<Rightarrow> conn \<Rightarrow> conn option" where
  "handle_configuration ou c =
     (let c = send_anyway ou config_packets c in
      Option.bind (config_loop ou (cn_now c) (False, False) c) (finish_configuration ou))"

text \<open>The login up to the play state, which the player enters with a name and an identifier.\<close>

definition configure :: "outside \<Rightarrow> server_conf \<Rightarrow> conn \<Rightarrow> unit handled" where
  "configure ou conf c =
     (if 764 \<le>s sc_protocol_version conf then map_option (\<lambda>c. (Some (), c)) (handle_configuration ou c)
      else Some (Some (), c))"

definition handle_login :: "outside \<Rightarrow> server_conf \<Rightarrow> PlayerManager \<Rightarrow> conn \<Rightarrow> (bytes \<times> uuid) handled" where
  "handle_login ou conf pm c =
     go_on (read_login_start ou c) (\<lambda>ls c.
     go_on (identify ou conf ls c) (\<lambda>(u, properties) c.
     go_on (admit ou conf pm (ls_username ls) u properties c) (\<lambda>_ c.
     go_on (configure ou conf c) (\<lambda>_ c.
     Some (Some (ls_username ls, u), c)))))"

section \<open>A connection\<close>

definition MIN_PROTOCOL :: i32 where "MIN_PROTOCOL = 766"
definition MAX_PROTOCOL :: i32 where "MAX_PROTOCOL = 776"

definition unsupported_version :: "i32 \<Rightarrow> bytes" where
  "unsupported_version v =
     utf8 (''{\"text\":\"Unsupported version!'' @ [char_of (92 :: nat)] @ ''nServer: 26.x (protocol '' @ show_int (sint MIN_PROTOCOL)
       @ ''-'' @ show_int (sint MAX_PROTOCOL) @ '')'' @ [char_of (92 :: nat)] @ ''nYour client: protocol '' @ show_int (sint v) @ ''\"}'')"

definition version_ok :: "i32 \<Rightarrow> bool" where
  "version_ok v \<longleftrightarrow> MIN_PROTOCOL \<le>s v \<and> v \<le>s MAX_PROTOCOL"

definition new_conn :: "(nat \<times> bytes) list \<Rightarrow> nat \<Rightarrow> nat \<Rightarrow> conn" where
  "new_conn incoming now writes =
     \<lparr>cn_stream = new_stream 0, cn_buffer = [], cn_incoming = incoming, cn_now = now, cn_written = [], cn_writes_left = writes\<rparr>"

definition next_phase :: "outside \<Rightarrow> server_conf \<Rightarrow> PlayerManager \<Rightarrow> HandshakePacket \<Rightarrow> conn \<Rightarrow> (bytes \<times> uuid) handled" where
  "next_phase ou conf pm h c =
     (if \<not> version_ok (hp_protocol_version h) \<and> hp_next_state h = Login
      then refuse ou (unsupported_version (hp_protocol_version h)) c
      else case hp_next_state h of
             Status \<Rightarrow> go_on (handle_status ou conf pm c) (\<lambda>_ c. return_now c)
           | Login \<Rightarrow> handle_login ou conf pm c
           | _ \<Rightarrow> return_now c)"

definition handle_connection ::
  "outside \<Rightarrow> server_conf \<Rightarrow> PlayerManager \<Rightarrow> socket_addr option \<Rightarrow> conn \<Rightarrow> RateLimiter \<Rightarrow> (bytes \<times> uuid) handled \<times> RateLimiter" where
  "handle_connection ou conf pm peer c rl =
     (let (allowed, rl) = (case peer of Some addr \<Rightarrow> check_connection addr (cn_now c) rl | None \<Rightarrow> (True, rl)) in
      (if \<not> allowed then return_now c
       else go_on (read_handshake ou c) (next_phase ou conf pm), rl))"

end
