(* ===== verification/Joining.thy ===== *)
theory Joining
  imports Session Streaming Recipes
begin

text \<open>
  Entering and leaving the play state, \<open>handle_play\<close> of \<open>mc-network/src/connection.rs\<close>, around the play loop. The
  terrain generator, saving a chunk and the random draws of the mobs are parameters as in \<open>Streaming\<close>; the
  saved players are those of the database when the server started; the scoreboard, the boss bars and
  the names of the commands, which the commands keep, are part of the server. The notifications of plugins are left out.
\<close>

record PlayerRow =
  pr_username :: bytes
  pr_health :: f32
  pr_food :: i32
  pr_saturation :: f32
  pr_gamemode :: u8
  pr_x :: f64
  pr_y :: f64
  pr_z :: f64
  pr_yaw :: f32
  pr_pitch :: f32
  pr_is_op :: bool
  pr_inventory :: "bytes option"

record game_server =
  gs_conf :: server_conf
  gs_view_distance :: u8
  gs_max_view_distance :: u8
  gs_players :: PlayerManager
  gs_store :: ChunkStore
  gs_mobs :: MobManager
  gs_next_entity :: i32
  gs_world :: WorldState
  gs_saved :: "uuid \<rightharpoonup> PlayerRow"
  gs_recipes :: recipe_registry
  gs_links :: "(bytes \<times> bytes) list"
  gs_commands :: "string list"
  gs_objectives :: "(bytes \<times> bytes) list"
  gs_scores :: "(bytes \<times> bytes \<times> i32) list"
  gs_bossbars :: "(bytes \<times> bytes \<times> f32 \<times> i32 \<times> i32 \<times> u8) list"

section \<open>The saved state\<close>

text \<open>\<open>let _ = ...\<close>: an error leaves the manager as it was.\<close>

definition or_keep :: "(PlayerManager \<Rightarrow> (manager_error, PlayerManager) outcome) \<Rightarrow> PlayerManager \<Rightarrow> PlayerManager" where
  "or_keep f pm = (case f pm of Ok pm \<Rightarrow> pm | _ \<Rightarrow> pm)"

definition restore_inventory :: "uuid \<Rightarrow> bytes option \<Rightarrow> PlayerManager \<Rightarrow> PlayerManager" where
  "restore_inventory u blob pm =
     (case blob of
        Some b \<Rightarrow> if b = [] then pm
          else (case inv_deserialize b of Some bag \<Rightarrow> or_keep (set_inventory u bag) pm | None \<Rightarrow> pm)
      | None \<Rightarrow> pm)"

definition restore_player :: "uuid \<Rightarrow> PlayerRow \<Rightarrow> PlayerManager \<Rightarrow> PlayerManager" where
  "restore_player u row pm =
     (let pm = or_keep (update_position_full u (pr_x row) (pr_y row) (pr_z row) (pr_yaw row) (pr_pitch row)) pm;
          pm = or_keep (set_health u (pr_health row)) pm;
          pm = (if 0 <s pr_food row then or_keep (set_food u (pr_food row) (pr_saturation row)) pm else pm);
          pm = (case gamemode_from_id (pr_gamemode row) of Some gm \<Rightarrow> or_keep (set_gamemode u gm) pm | None \<Rightarrow> pm);
          pm = (if pr_is_op row then or_keep (set_op u True) pm else pm)
      in restore_inventory u (pr_inventory row) pm)"

definition join_player :: "uuid \<Rightarrow> bytes \<Rightarrow> (uuid \<rightharpoonup> PlayerRow) \<Rightarrow> PlayerManager \<Rightarrow> i32 \<times> PlayerManager" where
  "join_player u username saved pm =
     (let (player, pm) = add_player u username pm
      in (pl_entity_id player, case saved u of Some row \<Rightarrow> restore_player u row pm | None \<Rightarrow> pm))"

section \<open>What a new player is told\<close>

definition network_recipes :: "recipe_registry \<Rightarrow> UpdateRecipes" where
  "network_recipes reg = \<lparr>ur_recipes =
     map (\<lambda>(t, i, d). \<lparr>nr_recipe_type = utf8 t, nr_recipe_id = utf8 i, nr_data = d\<rparr>) (build_update_recipes reg)\<rparr>"

definition server_links :: "(bytes \<times> bytes) list \<Rightarrow> ServerLink list" where
  "server_links links =
     (if links = [] then [\<lparr>seli_label = utf8 ''Project'', seli_url = utf8 ''https://github.com/antifield26/MinecraftServer''\<rparr>]
      else map (\<lambda>(label, url). \<lparr>seli_label = label, seli_url = url\<rparr>) links)"

definition attribute :: "string \<Rightarrow> f64 \<Rightarrow> Attribute" where
  "attribute key v = \<lparr>att_key = utf8 (''minecraft:'' @ key), att_value = v, att_modifiers = []\<rparr>"

definition join_attributes :: "Attribute list" where
  "join_attributes =
     [attribute ''generic.max_health'' (flit 20 1), attribute ''generic.armor'' (flit 0 1),
      attribute ''generic.armor_toughness'' (flit 0 1), attribute ''generic.attack_damage'' (flit 1 1),
      attribute ''generic.movement_speed'' (flit 1 10), attribute ''generic.attack_speed'' (flit 4 1),
      attribute ''generic.knockback_resistance'' (flit 0 1), attribute ''generic.luck'' (flit 0 1),
      attribute ''player.block_interaction_range'' (flit 45 10), attribute ''player.entity_interaction_range'' (flit 3 1),
      attribute ''generic.bounciness'' (flit 0 1), attribute ''generic.friction_modifier'' (flit 1 1),
      attribute ''generic.air_drag_modifier'' (flit 1 1), attribute ''generic.nameplate_distance'' (flit 64 1),
      attribute ''generic.below_name_distance'' (flit 10 1)]"

definition trunc_i64 :: "f64 \<Rightarrow> i64" where
  "trunc_i64 x = (case float_value x of NotANumber \<Rightarrow> 0
     | Infinite s \<Rightarrow> word_of_int (if s then - (2 ^ 63) else 2 ^ 63 - 1)
     | Finite s m e \<Rightarrow> word_of_int (saturate (- (2 ^ 63)) (2 ^ 63 - 1) (trunc_value s m e)))"

definition border_speed :: "WorldBorder \<Rightarrow> i64" where
  "border_speed wb =
     (if 0 <s wb_lerp_time_ticks wb
      then trunc_i64 (fmul (fdiv (fabs (fsub (wb_size wb) (wb_target_size wb))) (float_of_signed (wb_lerp_time_ticks wb))) (flit 1000 1))
      else 0)"

definition border_packet :: "WorldBorder \<Rightarrow> InitializeWorldBorder" where
  "border_packet wb =
     \<lparr>iwb_x = wb_center_x wb, iwb_z = wb_center_z wb, iwb_old_diameter = wb_size wb, iwb_new_diameter = wb_target_size wb,
      iwb_speed = border_speed wb, iwb_portal_teleport_boundary = signed_min (trunc_i32 (wb_size wb)) 29999984,
      iwb_warning_blocks = wb_warning_blocks wb, iwb_warning_time = wb_warning_time wb\<rparr>"

text \<open>The packets up to the position, whose failures are ignored.\<close>

definition join_packets :: "game_server \<Rightarrow> i32 \<Rightarrow> (i32 \<times> bytes) list" where
  "join_packets s eid =
     (let w = gs_world s in
      [encode_SetChunkCacheCenter \<lparr>sccc_chunk_x = 0, sccc_chunk_z = 0\<rparr>,
       encode_SetChunkCacheRadius \<lparr>sccr_radius = ucast (gs_view_distance s)\<rparr>,
       encode_PlayerAbilities abilities_survival,
       encode_UpdateRecipes (network_recipes (gs_recipes s)),
       encode_ServerLinks \<lparr>sl_links = server_links (gs_links s)\<rparr>,
       encode_UpdateEnabledFeatures \<lparr>uef_features = [utf8 ''minecraft:update_1_21'']\<rparr>,
       encode_UpdateAttributes \<lparr>ua_entity_id = eid, ua_attributes = join_attributes\<rparr>,
       encode_SetDefaultSpawnPosition \<lparr>sdsp_x = trunc_i32 (ws_spawn_x w), sdsp_y = trunc_i32 (ws_spawn_y w),
         sdsp_z = trunc_i32 (ws_spawn_z w), sdsp_angle = 0\<rparr>,
       encode_InitializeWorldBorder (border_packet (ws_world_border w)),
       encode_UpdateAdvancements \<lparr>upad_reset = True, upad_advancement_ids = [], upad_progress_map = []\<rparr>])"

definition position_packet :: "PlayerRow option \<Rightarrow> PlayerPosition" where
  "position_packet row =
     (let (x, y, z, yaw, pitch) =
        (case row of Some r \<Rightarrow> (pr_x r, pr_y r, pr_z r, pr_yaw r, pr_pitch r) | None \<Rightarrow> (flit 0 1, flit 64 1, flit 0 1, 0, 0))
      in \<lparr>pp_teleport_id = 42, pp_x = x, pp_y = y, pp_z = z, pp_dx = flit 0 1, pp_dy = flit 0 1, pp_dz = flit 0 1,
          pp_yaw = yaw, pp_pitch = pitch, pp_flags = 0\<rparr>)"

definition existing_packets :: "(f32 \<Rightarrow> u8) \<Rightarrow> Player \<Rightarrow> (i32 \<times> bytes) list" where
  "existing_packets angle p =
     [encode_PlayerInfoUpdate \<lparr>piu_actions = 1 OR 2 OR 4 OR 8,
        piu_entries = [\<lparr>pie_uuid = pl_uuid p, pie_username = pl_username p, pie_gamemode = ucast (gamemode_id (pl_gamemode p)),
          pie_ping = 0, pie_listed = True\<rparr>]\<rparr>,
      encode_SpawnPlayer angle \<lparr>sp_entity_id = pl_entity_id p, sp_player_uuid = pl_uuid p, sp_x = pos_x (pl_position p),
        sp_y = pos_y (pl_position p), sp_z = pos_z (pl_position p), sp_yaw = pos_yaw (pl_position p),
        sp_pitch = pos_pitch (pl_position p)\<rparr>,
      encode_SetEntityMetadata (player_defaults (pl_entity_id p))]"

definition objective_packet :: "bytes \<times> bytes \<Rightarrow> i32 \<times> bytes" where
  "objective_packet ob =
     encode_ScoreboardObjective \<lparr>so_name = fst ob, so_mode = 0,
       so_objective_value = utf8 ''{\"text\":\"'' @ snd ob @ utf8 ''\"}'', so_objective_type = 0, so_number_format = 0\<rparr>"

definition score_packet :: "bytes \<times> bytes \<times> i32 \<Rightarrow> i32 \<times> bytes" where
  "score_packet s =
     (let (objective, player, v) = s in
      encode_UpdateScore \<lparr>us_entity_name = player, us_objective_name = objective, us_value = v,
        us_display_name = Some player, us_number_format = 0\<rparr>)"

definition bossbar_packet :: "outside \<Rightarrow> bytes \<times> bytes \<times> f32 \<times> i32 \<times> i32 \<times> u8 \<Rightarrow> i32 \<times> bytes" where
  "bossbar_packet ou b =
     (let (ident, title, health, color, division, flags) = b in
      encode_BossBar \<lparr>bb_uuid = (case ou_parse_uuid ou ident of Some u \<Rightarrow> u | None \<Rightarrow> 0), bb_action = 0, bb_title = Some title,
        bb_health = Some health, bb_color = Some color, bb_division = Some division, bb_flags = Some flags\<rparr>)"

section \<open>Entering and leaving\<close>

definition spawn_positions :: "game_server \<Rightarrow> ChunkPos list" where
  "spawn_positions s =
     chunk_square (ucast (effective_view_distance (gs_max_view_distance s) (online_count (gs_players s)))) (chunk_pos 0 0)"

text \<open>The chunks around the origin are generated and stored, whatever the store held there.\<close>

definition generate_spawn :: "(ChunkPos \<Rightarrow> Chunk) \<Rightarrow> (Chunk \<Rightarrow> bool) \<Rightarrow> game_server \<Rightarrow> game_server" where
  "generate_spawn gen save s =
     s\<lparr>gs_store := fold (\<lambda>pos st. fst (store_insert save pos (gen pos) st)) (spawn_positions s) (gs_store s)\<rparr>"

definition full_reason :: "u32 \<Rightarrow> u32 \<Rightarrow> bytes" where
  "full_reason online most =
     utf8 (''{\"text\":\"Server is full ('' @ show_int (uint online) @ '' / '' @ show_int (uint most) @ '')\",\"color\":\"red\"}'')"

definition mob_stream :: "game_server \<Rightarrow> ChunkPos \<Rightarrow> stream_state" where
  "mob_stream s cp = \<lparr>ss_store = gs_store s, ss_mobs = gs_mobs s, ss_next_entity = gs_next_entity s, ss_sent = [],
     ss_written = [], ss_player_chunk = cp, ss_loaded = []\<rparr>"

text \<open>Whether all the chunks could be sent; \<open>None\<close> is a panic.\<close>

fun send_spawn_chunks ::
  "outside \<Rightarrow> (ChunkPos \<Rightarrow> mob_draw list) \<Rightarrow> Chunk list \<Rightarrow> conn \<Rightarrow> game_server \<Rightarrow> (bool \<times> conn \<times> game_server) option" where
  "send_spawn_chunks ou draws [] c s = Some (True, c, s)"
| "send_spawn_chunks ou draws (chunk # rest) c s =
     (let cp = ck_position chunk in
      Option.bind (chunk_packet chunk) (\<lambda>p.
      let (ok, c) = send_packet ou p c in
      if \<not> ok then Some (False, c, s)
      else Option.bind (spawn_mobs cp chunk (draws cp) (mob_stream s cp)) (\<lambda>st.
        send_spawn_chunks ou draws rest (send_anyway ou (ss_sent st) c)
          (s\<lparr>gs_mobs := ss_mobs st, gs_next_entity := ss_next_entity st\<rparr>))))"

definition cleanup_player_join :: "uuid \<Rightarrow> game_server \<Rightarrow> game_server" where
  "cleanup_player_join u s = s\<lparr>gs_players := snd (remove_player u (gs_players s))\<rparr>"

definition announce_player :: "uuid \<Rightarrow> bytes \<Rightarrow> i32 \<Rightarrow> game_server \<Rightarrow> game_server" where
  "announce_player u username eid s =
     s\<lparr>gs_players := broadcast_entity_spawn eid u username (flit 0 1) (flit 64 1) (flit 0 1) 0 0
         (broadcast_join username (gs_players s))\<rparr>"

definition state_packets :: "outside \<Rightarrow> (f32 \<Rightarrow> u8) \<Rightarrow> uuid \<Rightarrow> game_server \<Rightarrow> (i32 \<times> bytes) list" where
  "state_packets ou angle u s =
     concat (map (existing_packets angle) (others u (gs_players s))) @ map objective_packet (gs_objectives s) @
     map score_packet (gs_scores s) @ map (bossbar_packet ou) (gs_bossbars s)"

type_synonym entered = "((i32 \<times> ChunkPos list) option \<times> conn \<times> game_server) option"

definition give_up :: "uuid \<Rightarrow> conn \<Rightarrow> game_server \<Rightarrow> entered" where
  "give_up u c s = Some (None, c, cleanup_player_join u s)"

definition show_world :: "outside \<Rightarrow> (f32 \<Rightarrow> u8) \<Rightarrow> (ChunkPos \<Rightarrow> mob_draw list) \<Rightarrow> Chunk list \<Rightarrow> bytes \<Rightarrow> uuid \<Rightarrow> i32
    \<Rightarrow> conn \<Rightarrow> game_server \<Rightarrow> entered" where
  "show_world ou angle draws area username u eid c s =
     (let (ok, c) = send_packet ou (encode_PlayerPosition (position_packet (gs_saved s u))) (send_anyway ou (join_packets s eid) c)
      in if \<not> ok then give_up u c s
         else
           let c = send_anyway ou [encode_DeclareCommands (from_command_names (gs_commands s))] c
           in Option.bind (send_spawn_chunks ou draws area c s) (\<lambda>(ok, c, s).
                if \<not> ok then give_up u c s
                else
                  let s = announce_player u username eid s
                  in Some (Some (eid, remdups (map ck_position area)), send_anyway ou (state_packets ou angle u s) c, s)))"

definition enter_play ::
  "outside \<Rightarrow> (f32 \<Rightarrow> u8) \<Rightarrow> (ChunkPos \<Rightarrow> Chunk) \<Rightarrow> (Chunk \<Rightarrow> bool) \<Rightarrow> (ChunkPos \<Rightarrow> mob_draw list) \<Rightarrow> bytes \<Rightarrow> uuid
    \<Rightarrow> conn \<Rightarrow> game_server \<Rightarrow> entered" where
  "enter_play ou angle gen save draws username u c s =
     (let area = map gen (spawn_positions s);
          s = generate_spawn gen save s;
          online = of_nat (online_count (gs_players s));
          most = sc_max_players (gs_conf s)
      in if most \<le> online
         then Some (None, snd (send_packet ou (encode_LoginDisconnect \<lparr>ld_reason = full_reason online most\<rparr>) c), s)
         else
           let (eid, pm) = join_player u username (gs_saved s) (gs_players s)
           in show_world ou angle draws area username u eid c (s\<lparr>gs_players := pm\<rparr>))"

definition leave_play :: "uuid \<Rightarrow> bytes \<Rightarrow> i32 \<Rightarrow> game_server \<Rightarrow> game_server" where
  "leave_play u username eid s =
     s\<lparr>gs_players := snd (remove_player u (broadcast_entity_despawn eid u (broadcast_leave username (gs_players s))))\<rparr>"

text \<open>The play loop in between is the parameter \<open>play\<close>.\<close>

definition handle_play where
  "handle_play play ou angle gen save draws username u c s =
     Option.bind (enter_play ou angle gen save draws username u c s) (\<lambda>(r, c, s).
       case r of
         None \<Rightarrow> Some (c, s)
       | Some (eid, loaded) \<Rightarrow> map_option (\<lambda>(c, s). (c, leave_play u username eid s)) (play eid loaded c s))"

end
