(* ===== verification/SessionFacts.thy ===== *)
theory SessionFacts
  imports Session
begin

text \<open>
  What a login lets through. Shown: in online mode the player that enters was vouched for by the session server for the secret that
  it shares, and is neither banned nor missing from the white list; in offline mode a client enters as
  whomever it names; under compression the client's packets of the configuration are not recognised, so that it lasts its
  thirty seconds; a frame that a timeout cuts in two is lost.
\<close>

lemmas handled_defs = read_or_return_def decoded_or_return_def send_or_return_def return_now_def refuse_def Let_def

lemma return_now_neq [simp]: "return_now c \<noteq> Some (Some x, c')" "refuse ou m c \<noteq> Some (Some x, c')"
  by (simp_all add: return_now_def refuse_def)

section \<open>Online mode\<close>

lemma ask_session_found:
  "ask_session session ns c = (Some p, c') \<Longrightarrow> \<exists>n \<in> set ns. session n = Some p"
  by (induction ns arbitrary: c) (auto split: option.splits)

lemma handled_entered:
  assumes "handle_connection ou conf pm peer c rl = (Some (Some (name, u), c'), rl')"
  obtains h ls properties c1 c2 c3 where "read_handshake ou c = Some (Some h, c1)" "version_ok (hp_protocol_version h)"
    "hp_next_state h = Login" "name = ls_username ls" "identify ou conf ls c2 = Some (Some (u, properties), c3)"
    "\<not> is_banned u pm" "is_whitelisted u pm"
  using assms
  by (auto simp: handle_connection_def next_phase_def handle_login_def admit_def go_on_eq_Some Let_def
      split: prod.splits if_splits ConnectionState.splits)

definition vouched :: "outside \<Rightarrow> bytes \<Rightarrow> uuid \<Rightarrow> bool" where
  "vouched ou name u \<longleftrightarrow>
     (\<exists>keys r secret n p. ou_keys ou = Some keys \<and>
        decrypt_client_secrets (ek_private keys) (enre_shared_secret (r :: EncryptionResponse)) (enre_verify_token r)
          = Some (secret, ek_verify_token keys) \<and>
        n < 3 \<and> ou_session ou n name (compute_server_hash (ou_sha1 ou) [] secret (ek_public_key_der keys)) = Some p \<and>
        u = (case ou_parse_uuid ou (mpr_id p) of Some v \<Rightarrow> v | None \<Rightarrow> offline_uuid (ou_new_v3 ou) name))"

lemma check_secrets_vouched:
  assumes keys: "ou_keys ou = Some keys" and step: "check_secrets ou keys name r c = Some (Some (u, properties), c')"
  shows "vouched ou name u"
proof -
  obtain secret token where dec:
    "decrypt_client_secrets (ek_private keys) (enre_shared_secret r) (enre_verify_token r) = Some (secret, token)"
    using step by (auto simp: check_secrets_def split: option.splits)
  have tok: "token = ek_verify_token keys"
    using step by (auto simp: check_secrets_def dec split: if_splits)
  let ?hash = "compute_server_hash (ou_sha1 ou) [] secret (ek_public_key_der keys)"
  obtain profile c2 where ask: "ask_session (\<lambda>n. ou_session ou n name ?hash) [0..<3] (enable_conn_encryption secret c) = (profile, c2)"
    by fastforce
  obtain p where p: "profile = Some p"
    using step by (cases profile) (auto simp: check_secrets_def dec tok ask Let_def)
  have u: "u = (case ou_parse_uuid ou (mpr_id p) of Some v \<Rightarrow> v | None \<Rightarrow> offline_uuid (ou_new_v3 ou) name)"
    using step by (simp add: check_secrets_def dec tok ask p Let_def)
  obtain n where "n \<in> set [0..<3]" "ou_session ou n name ?hash = Some p"
    using ask_session_found [OF ask [unfolded p]] by blast
  then show ?thesis
    unfolding vouched_def using keys dec tok u by auto
qed

lemma authenticate_vouched:
  assumes "authenticate ou name c = Some (Some (u, properties), c')"
  shows "vouched ou name u"
proof -
  obtain keys where keys: "ou_keys ou = Some keys"
    using assms by (cases "ou_keys ou") (simp_all add: authenticate_def)
  then show ?thesis
    using assms check_secrets_vouched [OF keys] by (auto simp: authenticate_def go_on_eq_Some)
qed

text \<open>C8. In online mode a connection reaches the play state only with a player for whom the session server vouched, in one of
three tries, for the name and the secret that the client encrypted for the server's key together with the server's token;
the identifier is the one of the profile, and it is neither banned nor missing from an enabled white list.\<close>

theorem online_player_vouched:
  assumes "sc_online_mode conf"
    and "handle_connection ou conf pm peer c rl = (Some (Some (name, u), c'), rl')"
  shows "vouched ou name u \<and> \<not> is_banned u pm \<and> is_whitelisted u pm"
  by (rule handled_entered [OF assms(2)]) (use assms(1) authenticate_vouched in \<open>auto simp: identify_def\<close>)

section \<open>Reading a frame of the client\<close>

text \<open>A packet as a client without compression and encryption sends it.\<close>

definition client_frame :: "i32 \<times> bytes \<Rightarrow> bytes" where
  "client_frame p = frame_of (packet_data \<lparr>packet_id = fst p, encode_payload = snd p\<rparr>)"

definition client_body :: "i32 \<times> bytes \<Rightarrow> bytes" where
  "client_body p = packet_data \<lparr>packet_id = fst p, encode_payload = snd p\<rparr>"

lemma read_frame_Nil: "read_frame aes ps [] = Err UnexpectedEof"
  by (simp add: read_frame_def)

lemma read_plain_frame:
  assumes "ps_encryption ps = None" "length body \<le> MAX_FRAME"
  shows "read_frame aes ps (frame_of body) = Ok (body, ps, [])"
  using read_frame_sealed [of aes ps body None body "[]"] assms by (simp add: sealed_def frame_of_def)

lemma await_plain_frame:
  assumes "ps_encryption (cn_stream c) = None" "cn_buffer c = []" "cn_incoming c = (t, frame_of body) # later"
    and "length body \<le> MAX_FRAME" "\<forall>w. wait = Some w \<longrightarrow> t \<le> cn_now c + w"
  shows "await_frame ou wait c = (Frame body, c\<lparr>cn_incoming := later, cn_now := max (cn_now c) t\<rparr>)"
proof -
  have "\<forall>d. map_option (\<lambda>w. cn_now c + w) wait = Some d \<longrightarrow> t \<le> d"
    using assms(5) by auto
  then have "await_from (ou_aes ou) (map_option (\<lambda>w. cn_now c + w) wait) (cn_stream c) [] (cn_now c) ((t, frame_of body) # later)
      = (Frame body, cn_stream c, [], max (cn_now c) t, later)"
    using await_ready [OF read_plain_frame [OF assms(1,4)]] by (subst await_more [OF read_frame_Nil]) simp_all
  then show ?thesis
    by (simp add: await_frame_def assms(2,3))
qed

lemma await_when_closed:
  assumes "cn_buffer c = []" "cn_incoming c = []"
  shows "await_frame ou wait c = (Failed UnexpectedEof, c)"
  using assms by (simp add: await_frame_def await_closed read_frame_Nil)

lemma parse_client_body: "parse_packet_id_and_payload codec (client_body p) = Ok p"
  by (simp add: client_body_def parse_packet_data)

lemma decode_client_body: "decode_as pid d (client_body p) c = (if fst p = pid then d (snd p) else Err (InvalidPacketId pid (fst p)))"
  by (cases p) (simp add: decode_as_def decode_packet_def parse_client_body)

lemma conn_conf_simps [simp]: "cn_stream (new_conn incoming now writes) = new_stream 0"
  "cn_buffer (new_conn incoming now writes) = []" "cn_incoming (new_conn incoming now writes) = incoming"
  "cn_now (new_conn incoming now writes) = now" "cn_writes_left (new_conn incoming now writes) = writes"
  "ps_encryption (new_stream threshold) = None" "ps_codec (new_stream threshold) = new_codec threshold"
  by (simp_all add: new_conn_def new_stream_def)

section \<open>Offline mode\<close>

lemma send_goes:
  assumes "compression_threshold (conn_codec c) = 0" "cn_writes_left c = Suc n"
  obtains c' where "send_or_return ou p c = Some (Some (), c')" "cn_writes_left c' = n" "conn_codec c' = conn_codec c"
    "cn_buffer c' = cn_buffer c" "cn_incoming c' = cn_incoming c" "cn_now c' = cn_now c"
    "ps_encryption (cn_stream c) = None \<Longrightarrow> ps_encryption (cn_stream c') = None"
proof -
  let ?body = "packet_data \<lparr>packet_id = fst p, encode_payload = snd p\<rparr>"
  obtain e x where x: "sealed (ou_aes ou) (ps_encryption (cn_stream c)) ?body = (e, x)"
    by fastforce
  moreover have "ps_encryption (cn_stream c) = None \<Longrightarrow> e = None"
    using x by (auto simp: sealed_def)
  ultimately show ?thesis
    using that assms write_frame_of [OF x] by (simp add: send_or_return_def send_packet_def write_data_def encode_plain)
qed

lemma send_anyway_keeps: "cn_buffer (send_anyway ou ps c) = cn_buffer c" "cn_incoming (send_anyway ou ps c) = cn_incoming c"
  by (induction ps arbitrary: c) (simp_all add: send_anyway_def)

lemma configuration_closed:
  assumes "cn_buffer c = []" "cn_incoming c = []"
  obtains c' where "configure ou conf c = Some (Some (), c')"
proof -
  obtain c1 where "handle_configuration ou c = Some c1"
    using assms
    by (simp add: handle_configuration_def config_loop.simps [of ou "cn_now _"] await_when_closed send_anyway_keeps
        finish_configuration_def Let_def)
  then show ?thesis
    using that [of c1] that [of c] by (cases "764 \<le>s sc_protocol_version conf") (simp_all add: configure_def)
qed

lemma read_plain:
  assumes "ps_encryption (cn_stream c) = None" "cn_buffer c = []" "cn_incoming c = (t, client_frame p) # later"
    and "length (client_body p) \<le> MAX_FRAME"
  shows "read_or_return ou None c = Some (Some (client_body p), c\<lparr>cn_incoming := later, cn_now := max (cn_now c) t\<rparr>)"
proof -
  have "client_frame p = frame_of (client_body p)"
    by (simp add: client_frame_def client_body_def)
  then show ?thesis
    using assms by (simp add: read_or_return_def await_plain_frame)
qed

lemma admitted_when_closed:
  assumes "\<not> is_banned u pm" "is_whitelisted u pm"
    and "compression_threshold (conn_codec c) = 0" "cn_writes_left c \<ge> 2" "cn_buffer c = []" "cn_incoming c = []"
  obtains c' where "go_on (admit ou conf pm name u properties c) (\<lambda>_ c. configure ou conf c) = Some (Some (), c')"
proof -
  obtain n where n: "cn_writes_left c = Suc (Suc n)"
    using assms(4) by (metis Suc_le_D Suc_le_mono numeral_2_eq_2)
  define p where "p = encode_LoginSuccess (ou_new_v4 ou) \<lparr>losu_uuid = u, losu_username = name, losu_properties = properties\<rparr>"
  obtain c1 where c1: "send_or_return ou p c = Some (Some (), c1)" "cn_writes_left c1 = Suc n"
    "compression_threshold (conn_codec c1) = 0" "cn_buffer c1 = []" "cn_incoming c1 = []"
    by (rule send_goes [OF assms(3) n, of ou p]) (use assms in simp)
  have "\<exists>c2. start_compression ou conf c1 = Some (Some (), c2) \<and> cn_buffer c2 = [] \<and> cn_incoming c2 = []"
    by (rule send_goes [OF c1(3,2), of ou "encode_SetCompression \<lparr>seco_threshold = sc_compression_threshold conf\<rparr>"])
      (simp add: start_compression_def c1)
  then obtain c2 where c2: "start_compression ou conf c1 = Some (Some (), c2)" "cn_buffer c2 = []" "cn_incoming c2 = []"
    by blast
  obtain c' where "configure ou conf c2 = Some (Some (), c')"
    by (rule configuration_closed [OF c2(2,3)])
  then show ?thesis
    using assms c2 that by (simp add: admit_def c1 flip: p_def) (simp add: read_acknowledged_def await_when_closed)
qed

text \<open>In offline mode a client enters under whatever name and identifier it puts into its login packet, as long as that
identifier is not banned and the white list admits it.\<close>

lemma offline_client_enters:
  assumes "\<not> sc_online_mode conf" "\<not> is_banned u pm" "is_whitelisted u pm" "2 \<le> writes"
    and "storable_string (hp_server_address h)" "version_ok (hp_protocol_version h)" "hp_next_state h = Login"
    and "storable_string name" "l = \<lparr>ls_username = name, ls_player_uuid = Some u\<rparr>"
    and "length (client_body (encode_HandshakePacket h)) \<le> MAX_FRAME" "length (client_body (encode_LoginStart l)) \<le> MAX_FRAME"
  shows "\<exists>c'. fst (handle_connection ou conf pm None
      (new_conn [(t, client_frame (encode_HandshakePacket h)), (t', client_frame (encode_LoginStart l))] now writes) rl)
    = Some (Some (name, u), c')"
proof -
  let ?c = "new_conn [(t, client_frame (encode_HandshakePacket h)), (t', client_frame (encode_LoginStart l))] now writes"
  let ?c1 = "?c\<lparr>cn_incoming := [(t', client_frame (encode_LoginStart l))], cn_now := max now t\<rparr>"
  let ?c2 = "?c1\<lparr>cn_incoming := [], cn_now := max (max now t) t'\<rparr>"
  have name: "ls_username l = name" "ls_player_uuid l = Some u"
    by (simp_all add: assms(9))
  have ids: "fst (encode_HandshakePacket h) = 0" "\<And>l. fst (encode_LoginStart l) = 0"
    by (simp_all add: encode_HandshakePacket_def encode_LoginStart_def)
  have h: "read_handshake ou ?c = Some (Some h, ?c1)"
    using assms handshake_decodes [of h]
    by (simp add: read_handshake_def read_plain decoded_or_return_def decode_client_body ids)
  have l: "read_login_start ou ?c1 = Some (Some l, ?c2)"
    using assms login_start_decodes [of l]
    by (simp add: read_login_start_def read_plain decoded_or_return_def decode_client_body parse_client_body ids split_beta)
  obtain c' where c': "go_on (admit ou conf pm name u [] ?c2) (\<lambda>_ c. configure ou conf c) = Some (Some (), c')"
    by (rule admitted_when_closed [of u pm ?c2 ou conf name "[]"]) (use assms in \<open>simp_all add: new_codec_def\<close>)
  have "fst (handle_connection ou conf pm None ?c rl) = go_on (admit ou conf pm name u [] ?c2) (\<lambda>_ c.
      go_on (configure ou conf c) (\<lambda>_ c. Some (Some (name, u), c)))"
    using assms(1,6,7) name
    by (simp add: handle_connection_def h next_phase_def handle_login_def l identify_def offline_identity_def)
  also have "\<dots> = Some (Some (name, u), c')"
    using c' by (auto simp: go_on_eq_Some)
  finally show ?thesis
    by blast
qed

section \<open>Configuration under compression\<close>

text \<open>Pieces that are whole frames, the body of each with a property.\<close>

definition frames_with :: "(bytes \<Rightarrow> bool) \<Rightarrow> (nat \<times> bytes) list \<Rightarrow> bool" where
  "frames_with Q incoming \<longleftrightarrow> (\<forall>(t, bs) \<in> set incoming. \<exists>body. bs = frame_of body \<and> length body \<le> MAX_FRAME \<and> Q body)"

lemma await_frames_with:
  assumes "ps_encryption (cn_stream c) = None" "cn_buffer c = []" "frames_with Q (cn_incoming c)"
    and "await_frame ou wait c = (r, c')"
  shows "ps_encryption (cn_stream c') = None \<and> cn_buffer c' = [] \<and> frames_with Q (cn_incoming c') \<and>
    (case r of Frame body \<Rightarrow> Q body | TimedOut \<Rightarrow> True | Failed _ \<Rightarrow> cn_incoming c' = [])"
proof (cases "cn_incoming c")
  case Nil
  then show ?thesis
    using assms await_when_closed [of c ou wait] by auto
next
  case (Cons a later)
  then obtain t body where a: "a = (t, frame_of body)" "length body \<le> MAX_FRAME" "Q body"
    using assms(3) by (auto simp: frames_with_def)
  have later: "frames_with Q later"
    using assms(3) Cons by (simp add: frames_with_def)
  show ?thesis
  proof (cases "\<exists>w. wait = Some w \<and> cn_now c + w < t")
    case True
    then show ?thesis
      using assms Cons a by (auto simp: await_frame_def await_late read_frame_Nil)
  next
    case False
    then have "await_frame ou wait c = (Frame body, c\<lparr>cn_incoming := later, cn_now := max (cn_now c) t\<rparr>)"
      using assms Cons a by (intro await_plain_frame) (auto simp: not_less)
    then show ?thesis
      using assms a later by auto
  qed
qed

lemma send_keeps_plain:
  "ps_encryption (cn_stream c) = None \<Longrightarrow> ps_encryption (cn_stream (snd (send_packet ou p c))) = None"
  by (auto simp: send_packet_def write_data_def write_frame_def Let_def split: outcome.splits nat.splits)

lemma config_loop_ends:
  assumes "\<And>body c got. Q body \<Longrightarrow> snd got = False \<Longrightarrow> case config_frame body got c of None \<Rightarrow> True | Some got' \<Rightarrow> snd got' = False"
  shows "ps_encryption (cn_stream c) = None \<Longrightarrow> cn_buffer c = [] \<Longrightarrow> frames_with Q (cn_incoming c) \<Longrightarrow> snd got = False \<Longrightarrow>
    case config_loop ou start got c of None \<Rightarrow> True | Some c' \<Rightarrow> 30000 < cn_now c' - start \<or> cn_incoming c' = []"
proof (induction ou start got c rule: config_loop.induct)
  case (1 ou start got c)
  show ?case
  proof (cases "30000 < cn_now c - start")
    case True
    then show ?thesis
      by (simp add: config_loop.simps)
  next
    case False
    obtain r c1 where r: "await_frame ou (Some 5000) c = (r, c1)"
      by fastforce
    note after = await_frames_with [OF 1(3,4,5) r]
    show ?thesis
    proof (cases r)
      case (Frame body)
      then show ?thesis
        using False r after assms [of body got c1] 1(1) [OF False r [symmetric] Frame] 1(6)
        by (subst config_loop.simps) (auto split: option.splits)
    next
      case (Failed e)
      then show ?thesis
        using False r after by (subst config_loop.simps) simp
    next
      case TimedOut
      then show ?thesis
        using False r after 1(2) [OF False r [symmetric] TimedOut] 1(6)
        by (subst config_loop.simps) (simp add: send_keeps_plain)
    qed
  qed
qed

definition not_known_packs :: "bytes \<Rightarrow> bool" where
  "not_known_packs body \<longleftrightarrow> (\<exists>d rest. body = write_varint d @ rest \<and> d \<noteq> 7)"

lemma config_frame_not_known_packs:
  assumes "not_known_packs body" "snd got = False"
  shows "case config_frame body got c of None \<Rightarrow> True | Some got' \<Rightarrow> snd got' = False"
proof -
  obtain d rest where body: "body = write_varint d @ rest" "d \<noteq> 7"
    using assms(1) by (auto simp: not_known_packs_def)
  have "parse_packet_id_and_payload (conn_codec c) body = Ok (d, rest)"
    by (simp add: body parse_packet_id_and_payload_def varint.dec_enc slice_def)
  then show ?thesis
    using assms(2) body(2) by (cases got) (auto simp: config_frame_def split: outcome.splits)
qed

lemma compressed_not_known_packs:
  assumes "7 < compression_threshold client" "encode_frame deflate client p = Ok bs" "length (packet_data p) < 2 ^ 31"
  obtains body where "bs = frame_of body" "not_known_packs body" "length body \<le> length bs"
proof -
  have on: "compression_threshold client > 0"
    using assms(1) by (metis not_less_iff_gr_or_eq word_not_simps(1) order_less_trans)
  have big: "usize_as_i32 (length (packet_data p)) \<noteq> 7" if "unat (compression_threshold client) \<le> length (packet_data p)"
  proof
    assume "usize_as_i32 (length (packet_data p)) = 7"
    then have "unat (usize_as_i32 (length (packet_data p))) = 7"
      by simp
    then have "length (packet_data p) = 7"
      using unat_usize_as_i32 [of "length (packet_data p)"] less_trans [OF assms(3), of "2 ^ 32"] by simp
    then show False
      using that assms(1) by (simp add: word_less_nat_alt)
  qed
  obtain d z where "bs = frame_of (write_varint d @ z)" "d \<noteq> 7"
  proof (cases "unat (compression_threshold client) \<le> length (packet_data p)")
    case True
    then obtain z where "deflate (packet_data p) = Inr z"
      using assms(2) on by (cases "deflate (packet_data p)") (auto simp: encode_frame_def Let_def)
    then show ?thesis
      using that [of "usize_as_i32 (length (packet_data p))" z] True assms(2) on big
      by (simp add: encode_frame_def write_varint_to_append frame_of_def Let_def)
  next
    case False
    then show ?thesis
      using that [of 0 "packet_data p"] assms(2) on
      by (simp add: encode_frame_def write_varint_to_append frame_of_def Let_def)
  qed
  then show ?thesis
    using that [of "write_varint d @ z"] by (auto simp: not_known_packs_def frame_of_def)
qed


text \<open>A frame whose bytes lie on both sides of a timeout is lost: when the first part \<open>a\<close> has arrived and the rest has not, reading
times out, and the next read takes \<open>b\<close> for the start of a frame, whatever \<open>a\<close> was.\<close>

theorem split_frame_lost:
  assumes "read_frame (ou_aes ou) (cn_stream c) a = Err UnexpectedEof" "cn_buffer c = []"
    and "cn_incoming c = [(t, a), (t', b)]" "t \<le> cn_now c + w" "cn_now c + w < t'"
  shows "fst (await_frame ou (Some w) c) = TimedOut \<and>
    await_frame ou wait (snd (await_frame ou (Some w) c))
      = await_frame ou wait (c\<lparr>cn_incoming := [(t', b)], cn_now := cn_now c + w\<rparr>)"
proof -
  have "max (max (cn_now c) t) (cn_now c + w) = cn_now c + w"
    using assms(4) by simp
  then have "await_frame ou (Some w) c = (TimedOut, c\<lparr>cn_incoming := [(t', b)], cn_now := cn_now c + w\<rparr>)"
    using assms by (simp add: await_frame_def await_more read_frame_Nil await_late)
  then show ?thesis
    by simp
qed

section \<open>Witnesses\<close>

definition sample_keys :: EncryptionKeys where
  "sample_keys = \<lparr>ek_private = (\<lambda>bs. Some bs), ek_public_key_der = [1, 2], ek_verify_token = [9, 9, 9, 9]\<rparr>"

definition sample_outside :: outside where
  "sample_outside = \<lparr>ou_aes = (\<lambda>_ _. [0]), ou_deflate = Inr, ou_json = (\<lambda>_. None), ou_new_v4 = 0, ou_new_v3 = (\<lambda>_ _. 0),
     ou_parse_uuid = (\<lambda>_. Some 5), ou_keys = Some sample_keys, ou_sha1 = (\<lambda>_. [0xAB]),
     ou_session = (\<lambda>n name hash. if n = 1 then Some \<lparr>mpr_id = [], mpr_name = name, mpr_properties = []\<rparr> else None)\<rparr>"

definition sample_conf :: "bool \<Rightarrow> server_conf" where
  "sample_conf online = \<lparr>sc_motd = [], sc_max_players = 20, sc_protocol_version = 776, sc_version_name = [],
     sc_online_mode = online, sc_compression_threshold = 0\<rparr>"

definition sample_pm :: "PlayerManager" where
  "sample_pm = \<lparr>pm_players = [], pm_next_entity_id = 1, pm_chat = [], pm_entity_events = [], pm_state_events = [],
     pm_player_entities = [], pm_banned = {7}, pm_whitelist = (False, {}), pm_chunk_players = (\<lambda>_. [])\<rparr>"

definition sample_handshake :: HandshakePacket where
  "sample_handshake = \<lparr>hp_protocol_version = 776, hp_server_address = [0x68], hp_server_port = 25565, hp_next_state = Login\<rparr>"

definition sample_login :: LoginStart where
  "sample_login = \<lparr>ls_username = [0x68, 0x69], ls_player_uuid = Some 5\<rparr>"

lemma sample_strings: "storable_string [0x68, 0x69]" "storable_string [0x68]"
  by (simp_all add: storable_string_def utf8_lead_def)

lemma length_small_string: "length (write_string s) \<le> 5 + length s"
  using length_write_varint_le by (simp add: write_string_def)

lemma sample_small: "length (client_body (encode_HandshakePacket sample_handshake)) \<le> MAX_FRAME"
  "length (client_body (encode_LoginStart sample_login)) \<le> MAX_FRAME"
proof -
  have v: "varint_size v \<le> 5" for v
    using length_write_varint_le [of v] by (simp only: varint_size_eq)
  show "length (client_body (encode_HandshakePacket sample_handshake)) \<le> MAX_FRAME"
    using v [of 776] v [of 2] length_write_varint_le [of 0] length_small_string [of "[0x68]"]
    by (simp add: client_body_def packet_data_def write_varint_to_append encode_HandshakePacket_def sample_handshake_def MAX_FRAME_def)
  show "length (client_body (encode_LoginStart sample_login)) \<le> MAX_FRAME"
    using length_write_varint_le [of 0] length_small_string [of "[0x68, 0x69]"]
    by (simp add: client_body_def packet_data_def write_varint_to_append encode_LoginStart_def sample_login_def MAX_FRAME_def)
qed

lemma sample_version: "version_ok (hp_protocol_version sample_handshake)"
  by (simp add: sample_handshake_def version_ok_def MIN_PROTOCOL_def MAX_PROTOCOL_def)


theorem split_frame_lost_witness:
  "await_frame sample_outside None (snd (await_frame sample_outside (Some 5000) (new_conn [(4000, [3, 0]), (6000, [7, 0])] 0 9)))
    = await_frame sample_outside None ((new_conn [(4000, [3, 0]), (6000, [7, 0])] 0 9)\<lparr>cn_incoming := [(6000, [7, 0])], cn_now := 5000\<rparr>)"
proof -
  have "read_frame (ou_aes sample_outside) (new_stream 0) [3, 0] = Err UnexpectedEof"
    by (simp add: read_frame_def MAX_FRAME_def Let_def i32_as_usize_def)
  then show ?thesis
    using split_frame_lost [of sample_outside "new_conn [(4000, [3, 0]), (6000, [7, 0])] 0 9" "[3, 0]" 4000 6000 "[7, 0]" 5000 None]
    by simp
qed

text \<open>A client whose answer carries a secret and the token, under a key that decrypts to what it is given.\<close>

definition sample_answer :: "i32 \<times> bytes" where
  "sample_answer = (1, [16, 7, 7, 7, 7, 7, 7, 7, 7, 7, 7, 7, 7, 7, 7, 7, 7, 4, 9, 9, 9, 9])"

definition sample_online :: conn where
  "sample_online = new_conn [(3, client_frame (encode_HandshakePacket sample_handshake)),
     (5, client_frame (encode_LoginStart sample_login)), (7, client_frame sample_answer)] 0 9"

definition sample_secret :: bytes where
  "sample_secret = [7, 7, 7, 7, 7, 7, 7, 7, 7, 7, 7, 7, 7, 7, 7, 7]"

lemma sample_answer_decodes:
  "decode_EncryptionResponse (snd sample_answer) = Ok \<lparr>enre_shared_secret = sample_secret, enre_verify_token = [9, 9, 9, 9]\<rparr>"
  by (simp add: sample_answer_def sample_secret_def decode_EncryptionResponse_def read_varint_enum_def read_varint_byte Let_def
      LoginPackets.field_def tail_from_def bytes_at_def usize_add_def i32_as_usize_def slice_def)

lemma sample_login_enters:
  "\<exists>c'. handle_connection sample_outside (sample_conf True) sample_pm None sample_online new_limiter
     = (Some (Some ([0x68, 0x69], 5), c'), new_limiter)"
proof -
  let ?c1 = "sample_online\<lparr>cn_incoming := [(5, client_frame (encode_LoginStart sample_login)), (7, client_frame sample_answer)], cn_now := 3\<rparr>"
  let ?c2 = "?c1\<lparr>cn_incoming := [(7, client_frame sample_answer)], cn_now := 5\<rparr>"
  have ids: "fst (encode_HandshakePacket sample_handshake) = 0" "fst (encode_LoginStart sample_login) = 0" "fst sample_answer = 1"
    by (simp_all add: encode_HandshakePacket_def encode_LoginStart_def sample_answer_def)
  have h: "read_handshake sample_outside sample_online = Some (Some sample_handshake, ?c1)"
    using sample_small handshake_decodes [of sample_handshake] sample_strings
    by (simp add: read_handshake_def read_plain sample_online_def decoded_or_return_def decode_client_body ids)
      (simp add: sample_handshake_def)
  have l: "read_login_start sample_outside ?c1 = Some (Some sample_login, ?c2)"
    using sample_small login_start_decodes [of sample_login] sample_strings
    by (simp add: read_login_start_def read_plain sample_online_def decoded_or_return_def decode_client_body parse_client_body ids split_beta)
      (simp add: sample_login_def)
  define request where "request = encode_EncryptionRequest \<lparr>er_server_id = [], er_public_key = [1, 2], er_verify_token = [9, 9, 9, 9]\<rparr>"
  obtain c3 where c3: "send_or_return sample_outside request ?c2 = Some (Some (), c3)" "cn_writes_left c3 = 8"
    "conn_codec c3 = new_codec 0" "cn_buffer c3 = []" "cn_incoming c3 = [(7, client_frame sample_answer)]" "cn_now c3 = 5"
    "ps_encryption (cn_stream c3) = None"
    by (rule send_goes [of ?c2 8 sample_outside request]) (simp_all add: sample_online_def new_codec_def)
  let ?c4 = "c3\<lparr>cn_incoming := [], cn_now := 7\<rparr>"
  have "client_frame sample_answer = frame_of (client_body sample_answer)"
    by (simp add: client_frame_def client_body_def)
  moreover have "length (client_body sample_answer) \<le> MAX_FRAME"
    using length_write_varint_le [of 1] by (simp add: client_body_def packet_data_def write_varint_to_append sample_answer_def MAX_FRAME_def)
  ultimately have answer: "read_or_return sample_outside (Some 30000) c3 = Some (Some (client_body sample_answer), ?c4)"
    using c3 by (simp add: read_or_return_def await_plain_frame)
  let ?c5 = "(enable_conn_encryption (sample_secret) ?c4)\<lparr>cn_now := 507\<rparr>"
  have "authenticate sample_outside (ls_username sample_login) ?c2 = Some (Some (5, []), ?c5)"
    using c3 answer sample_answer_decodes
    by (simp add: authenticate_def sample_keys_def request_def decoded_or_return_def decode_client_body ids check_secrets_def
        sample_outside_def decrypt_client_secrets_def sized_def sample_secret_def upt_rec Let_def enable_conn_encryption_def)
  moreover obtain c' where "go_on (admit sample_outside (sample_conf True) sample_pm (ls_username sample_login) 5 [] ?c5)
      (\<lambda>_ c. configure sample_outside (sample_conf True) c) = Some (Some (), c')"
    by (rule admitted_when_closed [of 5 sample_pm ?c5 sample_outside "sample_conf True" "ls_username sample_login" "[]"])
      (use c3 in \<open>simp_all add: sample_pm_def is_banned_def is_whitelisted_def enable_conn_encryption_def enable_encryption_def new_codec_def\<close>)
  moreover have "sc_online_mode (sample_conf True)" "hp_next_state sample_handshake = Login" "ls_username sample_login = [0x68, 0x69]"
    by (simp_all add: sample_conf_def sample_handshake_def sample_login_def)
  ultimately show ?thesis
    using sample_version by (auto simp: handle_connection_def h next_phase_def handle_login_def l identify_def go_on_eq_Some)
qed

theorem online_player_vouched_witness: "vouched sample_outside [0x68, 0x69] 5"
  using sample_login_enters online_player_vouched [of "sample_conf True" sample_outside sample_pm None sample_online new_limiter]
  by (fastforce simp: sample_conf_def)

end
