(* ===== verification/JoinFacts.thy ===== *)
theory JoinFacts
  imports Joining SessionFacts PlayerFacts StreamFacts
begin

text \<open>
  Entering the play state. Shown: every player that enters, and even one that is turned away because the server is full,
  puts newly generated chunks over those around the origin; a player that comes back while the server runs gets the state
  that the database had when the server started, whatever it did in between; and a client in offline mode gets the rights of
  an operator by naming the operator's identifier.
\<close>

section \<open>The spawn area\<close>

lemma generated_area:
  "store_get q (fold (\<lambda>pos st. fst (store_insert save pos (gen pos) st)) ps st) = Some d \<Longrightarrow>
    q \<in> set ps \<or> (\<forall>d. store_get q st = Some d \<longrightarrow> d = gen q) \<Longrightarrow> d = gen q"
proof (induction ps arbitrary: st)
  case (Cons p ps)
  let ?st = "fst (store_insert save p (gen p) st)"
  have "q \<in> set ps \<or> (\<forall>d. store_get q ?st = Some d \<longrightarrow> d = gen q)"
  proof (cases "q = p")
    case True
    then show ?thesis
      using get_insert [of p save p "gen p" st] by auto
  next
    case False
    then show ?thesis
      using Cons.prems(2) get_insert [of q save p "gen p" st] by auto
  qed
  moreover have "store_get q (fold (\<lambda>pos st. fst (store_insert save pos (gen pos) st)) ps ?st) = Some d"
    using Cons.prems(1) by simp
  ultimately show ?case
    using Cons.IH by blast
qed simp

lemma send_spawn_store: "send_spawn_chunks ou draws cs c s = Some (ok, c', s') \<Longrightarrow> gs_store s' = gs_store s"
proof (induction cs arbitrary: c s)
  case (Cons chunk cs)
  then obtain p where p: "chunk_packet chunk = Some p"
    by (cases "chunk_packet chunk") (simp_all add: Let_def)
  obtain sent c1 where "send_packet ou p c = (sent, c1)"
    by fastforce
  then show ?case
    using Cons.prems p by (auto simp: Let_def bind_eq_Some_conv split: if_splits dest: Cons.IH)
qed simp

lemma show_world_store: "show_world ou angle draws area username u eid c s = Some (r, c', s') \<Longrightarrow> gs_store s' = gs_store s"
  by (auto simp: show_world_def give_up_def cleanup_player_join_def announce_player_def Let_def bind_eq_Some_conv
      dest!: send_spawn_store split: prod.splits if_splits)

text \<open>C11. Whoever comes to the play state makes the server generate the chunks around the origin again: what players had built there
is gone from the store, even when the newcomer is then turned away because the server is full (\<open>r\<close> is \<open>None\<close>).\<close>

theorem login_regenerates_spawn:
  assumes "enter_play ou angle gen save draws username u c s = Some (r, c', s')"
    and "pos \<in> set (spawn_positions s)" "store_get pos (gs_store s') = Some chunk"
  shows "chunk = gen pos"
proof -
  have "gs_store s' = gs_store (generate_spawn gen save s)"
    using assms(1) by (auto simp: enter_play_def Let_def dest!: show_world_store split: prod.splits if_splits)
  then show ?thesis
    using generated_area [of pos save gen "spawn_positions s" "gs_store s" chunk] assms(2,3)
    by (simp add: generate_spawn_def)
qed

section \<open>The saved state\<close>

lemma find_or_keep:
  assumes "find_player pm u = Some p"
  shows "find_player (or_keep (try_player u f ev) pm) u = Some (f p)"
proof -
  have "find_player (fold (send_state u) es pm) v = find_player pm v" for es pm v
    by (induction es arbitrary: pm) simp_all
  then show ?thesis
    using assms by (simp add: or_keep_def try_player_def)
qed

text \<open>The steps of the restoration on the player itself.\<close>

definition with_place :: "PlayerRow \<Rightarrow> Player \<Rightarrow> Player" where
  "with_place row p = p\<lparr>pl_position := \<lparr>pos_x = pr_x row, pos_y = pr_y row, pos_z = pr_z row, pos_yaw = pr_yaw row, pos_pitch = pr_pitch row\<rparr>,
     pl_health := fmax (pr_health row) 0\<rparr>"

definition with_food :: "PlayerRow \<Rightarrow> Player \<Rightarrow> Player" where
  "with_food row p =
     (if 0 <s pr_food row
      then p\<lparr>pl_food_level := signed_min (signed_max (pr_food row) 0) 20, pl_food_saturation := fclamp (pr_saturation row) 0 (float_of_int 20)\<rparr>
      else p)"

definition with_rights :: "PlayerRow \<Rightarrow> Player \<Rightarrow> Player" where
  "with_rights row p =
     (let p = (case gamemode_from_id (pr_gamemode row) of Some gm \<Rightarrow> p\<lparr>pl_gamemode := gm\<rparr> | None \<Rightarrow> p)
      in if pr_is_op row then p\<lparr>pl_is_op := True\<rparr> else p)"

definition with_bag :: "PlayerRow \<Rightarrow> Player \<Rightarrow> Player" where
  "with_bag row p =
     (case pr_inventory row of
        Some b \<Rightarrow> if b = [] then p else (case inv_deserialize b of Some bag \<Rightarrow> p\<lparr>pl_inventory := bag\<rparr> | None \<Rightarrow> p)
      | None \<Rightarrow> p)"

definition restored_player :: "PlayerRow \<Rightarrow> Player \<Rightarrow> Player" where
  "restored_player row p = with_bag row (with_rights row (with_food row (with_place row p)))"

lemma find_restored:
  assumes "find_player pm u = Some p"
  shows "find_player (restore_player u row pm) u = Some (restored_player row p)"
  using assms
  by (simp add: restore_player_def restored_player_def restore_inventory_def with_bag_def with_rights_def with_food_def with_place_def Let_def
      update_position_full_def set_health_def set_food_def set_gamemode_def set_op_def set_inventory_def find_or_keep split: option.split)

lemma find_joined:
  "find_player (snd (join_player u name saved pm)) u =
     Some (case saved u of Some row \<Rightarrow> restored_player row (new_player (pm_next_entity_id pm) u name)
       | None \<Rightarrow> new_player (pm_next_entity_id pm) u name)"
proof -
  have "find_player (snd (add_player u name pm)) u = Some (new_player (pm_next_entity_id pm) u name)"
    by simp
  then show ?thesis
    by (auto simp: join_player_def find_restored split_beta split: option.splits)
qed

lemma restored_entity_id: "(restored_player row p)\<lparr>pl_entity_id := e\<rparr> = restored_player row (p\<lparr>pl_entity_id := e\<rparr>)"
proof -
  have "(with_place row p)\<lparr>pl_entity_id := e\<rparr> = with_place row (p\<lparr>pl_entity_id := e\<rparr>)"
    "(with_food row p)\<lparr>pl_entity_id := e\<rparr> = with_food row (p\<lparr>pl_entity_id := e\<rparr>)"
    "(with_rights row p)\<lparr>pl_entity_id := e\<rparr> = with_rights row (p\<lparr>pl_entity_id := e\<rparr>)"
    "(with_bag row p)\<lparr>pl_entity_id := e\<rparr> = with_bag row (p\<lparr>pl_entity_id := e\<rparr>)" for p
    by (simp_all add: with_place_def with_food_def with_rights_def with_bag_def Let_def split: option.split)
  then show ?thesis
    by (simp add: restored_player_def)
qed


lemma restored_op: "pr_is_op row \<Longrightarrow> pl_is_op (restored_player row p)"
  by (simp add: restored_player_def with_bag_def with_rights_def Let_def split: option.split)

text \<open>C9. In offline mode a client gets an operator's rights by naming the operator's identifier in its login packet, under any name: it
enters the play state with that identifier, and the player made for it is the operator.\<close>

theorem offline_client_becomes_operator:
  assumes "\<not> sc_online_mode conf" "\<not> is_banned u pm" "is_whitelisted u pm" "2 \<le> writes"
    and "storable_string (hp_server_address h)" "version_ok (hp_protocol_version h)" "hp_next_state h = Login"
    and "storable_string name" "l = \<lparr>ls_username = name, ls_player_uuid = Some u\<rparr>"
    and "length (client_body (encode_HandshakePacket h)) \<le> MAX_FRAME" "length (client_body (encode_LoginStart l)) \<le> MAX_FRAME"
    and "saved u = Some row" "pr_is_op row"
  shows "\<exists>c' p. fst (handle_connection ou conf pm None
      (new_conn [(t, client_frame (encode_HandshakePacket h)), (t', client_frame (encode_LoginStart l))] now writes) rl)
        = Some (Some (name, u), c') \<and>
    find_player (snd (join_player u name saved pm)) u = Some p \<and> pl_is_op p"
  using offline_client_enters [OF assms(1-11), where ou = ou and t = t and t' = t' and now = now and rl = rl]
  by (simp add: find_joined assms(12) restored_op [OF assms(13)])

section \<open>Witnesses\<close>

definition sample_row :: PlayerRow where
  "sample_row = \<lparr>pr_username = [0x6F, 0x70], pr_health = 0, pr_food = 0, pr_saturation = 0, pr_gamemode = 1, pr_x = 0, pr_y = 0,
     pr_z = 0, pr_yaw = 0, pr_pitch = 0, pr_is_op = True, pr_inventory = None\<rparr>"

theorem offline_client_becomes_operator_witness:
  "\<exists>c' p. fst (handle_connection sample_outside (sample_conf False) sample_pm None
      (new_conn [(3, client_frame (encode_HandshakePacket sample_handshake)), (5, client_frame (encode_LoginStart sample_login))] 0 2)
        new_limiter) = Some (Some ([0x68, 0x69], 5), c') \<and>
    find_player (snd (join_player 5 [0x68, 0x69] [5 \<mapsto> sample_row] sample_pm)) 5 = Some p \<and> pl_is_op p"
  by (rule offline_client_becomes_operator [where row = sample_row])
    (simp_all add: sample_small sample_version sample_strings, simp_all add: sample_conf_def sample_pm_def sample_handshake_def
      sample_login_def sample_strings is_banned_def is_whitelisted_def sample_row_def)

definition sample_server :: game_server where
  "sample_server = \<lparr>gs_conf = (sample_conf False)\<lparr>sc_max_players := 0\<rparr>, gs_view_distance = 0, gs_max_view_distance = 0,
     gs_players = sample_pm, gs_store = new_store, gs_mobs = new_mob_manager, gs_next_entity = 1, gs_world = default_world,
     gs_saved = (\<lambda>_. None), gs_recipes = [], gs_links = [], gs_commands = [], gs_objectives = [], gs_scores = [], gs_bossbars = []\<rparr>"

theorem login_regenerates_spawn_witness:
  "let gen = (\<lambda>p. snd (new_chunk 0 p));
       built = sample_server\<lparr>gs_store := fst (store_insert (\<lambda>_. True) (chunk_pos 0 0) (snd (new_chunk 7 (chunk_pos 0 0))) new_store)\<rparr>
   in \<exists>c' s'. enter_play sample_outside (\<lambda>_. 0) gen (\<lambda>_. True) (\<lambda>_. []) [0x68] 5 sample_online built = Some (None, c', s') \<and>
      store_get (chunk_pos 0 0) (gs_store s') = Some (gen (chunk_pos 0 0))"
proof -
  let ?gen = "\<lambda>p. snd (new_chunk 0 p)"
  let ?built = "sample_server\<lparr>gs_store := fst (store_insert (\<lambda>_. True) (chunk_pos 0 0) (snd (new_chunk 7 (chunk_pos 0 0))) new_store)\<rparr>"
  have spawn: "spawn_positions ?built = [chunk_pos 0 0]"
    by (simp add: spawn_positions_def sample_server_def sample_pm_def online_count_def effective_view_distance_def)
      (simp add: chunk_square_def chunk_offsets_def chunk_pos_def)
  obtain r c' s' where entered: "enter_play sample_outside (\<lambda>_. 0) ?gen (\<lambda>_. True) (\<lambda>_. []) [0x68] 5 sample_online ?built = Some (None, c', s')"
    "s' = generate_spawn ?gen (\<lambda>_. True) ?built"
    by (simp add: enter_play_def Let_def generate_spawn_def sample_server_def)
  moreover have area: "gs_store s' = fst (store_insert (\<lambda>_. True) (chunk_pos 0 0) (?gen (chunk_pos 0 0)) (gs_store ?built))"
    by (simp only: entered(2) generate_spawn_def spawn) simp
  moreover obtain chunk where chunk: "store_get (chunk_pos 0 0) (gs_store s') = Some chunk"
    unfolding area
    by (simp add: store_insert_def new_store_def Let_def store_get_def update_conv' DEFAULT_MAX_CHUNKS_def usize_add_def)
  ultimately show ?thesis
    using login_regenerates_spawn [OF entered(1), of "chunk_pos 0 0" chunk] spawn by (auto simp: Let_def)
qed

end
