(* ===== verification/C2SHandlers.thy ===== *)
theory C2SHandlers
  imports Session Streaming Lighting Container Redstone PlayerTicks
begin

text \<open>
  What the server does with the packets of a player, \<open>mc-network/src/c2s_handlers.rs\<close>: digging, containers, renaming, boats, picking
  blocks, recipes, suggestions, trades, the difficulty lock and books. A handler takes the frame and the
  state the connection shares with the others; \<open>Err Blocked\<close> is a task that waits for a lock it holds, \<open>Panic\<close> ends
  the process. The shard of a chunk in the store, which comes from a random hash seed, and the random draws are parameters.
\<close>

record hstate =
  hs_conn :: conn
  hs_players :: PlayerManager
  hs_world :: world
  hs_containers :: ContainerManager
  hs_dirty_chunks :: "ChunkPos set"
  hs_dirty_blocks :: DirtyBlockTracker
  hs_vibrations :: "(pos \<times> u8) set"
  hs_dropped :: "(i32 \<times> u32 \<times> f64 \<times> f64 \<times> f64) list"
  hs_next_entity :: i32
  hs_world_state :: WorldState

type_synonym 's acted = "(blocked, 's) outcome"

section \<open>Common steps\<close>

definition on_payload :: "bytes \<Rightarrow> hstate \<Rightarrow> (bytes \<Rightarrow> hstate acted) \<Rightarrow> hstate acted" where
  "on_payload frame s k =
     (case parse_packet_id_and_payload (conn_codec (hs_conn s)) frame of
        Ok (_, payload) \<Rightarrow> k payload | Err _ \<Rightarrow> Ok s | Panic \<Rightarrow> Panic)"

text \<open>\<open>read_varint_enum(&payload).unwrap_or((0, 0))\<close>.\<close>

definition varint_or_0 :: "bytes \<Rightarrow> i32 \<times> nat" where
  "varint_or_0 payload = (case read_varint_enum payload of Ok v \<Rightarrow> v | _ \<Rightarrow> (0, 0))"

definition tell :: "outside \<Rightarrow> (i32 \<times> bytes) list \<Rightarrow> hstate \<Rightarrow> hstate" where
  "tell ou ps s = s\<lparr>hs_conn := send_anyway ou ps (hs_conn s)\<rparr>"

definition players_or_keep :: "(manager_error, PlayerManager) outcome \<Rightarrow> hstate \<Rightarrow> hstate acted" where
  "players_or_keep r s = (case r of Ok pm \<Rightarrow> Ok (s\<lparr>hs_players := pm\<rparr>) | Err Deadlock \<Rightarrow> Err Blocked | Err _ \<Rightarrow> Ok s | Panic \<Rightarrow> Panic)"

text \<open>\<open>String::from_utf8_lossy\<close>: how many bytes belong to the character that a first byte opens, and the text with every
longest broken part replaced.\<close>

definition good_tail :: "nat \<Rightarrow> u8 \<Rightarrow> u8 \<Rightarrow> bytes \<Rightarrow> nat" where
  "good_tail n lo hi bs =
     (case bs of
        [] \<Rightarrow> 0
      | b # bs \<Rightarrow> if n \<ge> 2 \<and> in_range lo hi b then Suc (length (takeWhile utf8_tail (take (n - 2) bs))) else 0)"

function utf8_lossy :: "bytes \<Rightarrow> bytes" where
  "utf8_lossy [] = []"
| "utf8_lossy (b # bs) =
     (case utf8_lead b of
        None \<Rightarrow> [0xEF, 0xBF, 0xBD] @ utf8_lossy bs
      | Some (n, lo, hi) \<Rightarrow>
          let k = good_tail n lo hi bs in
          if k = n - 1 then b # take k bs @ utf8_lossy (drop k bs)
          else [0xEF, 0xBF, 0xBD] @ utf8_lossy (drop k bs))"
  by pat_completeness auto
termination
  by (relation "measure length") auto

definition slot_data :: "ItemStack \<Rightarrow> SlotData" where
  "slot_data st = \<lparr>slda_item_id = bs_id (it_item st), slda_count = it_count st, slda_nbt = it_nbt st\<rparr>"

definition build_height :: "i32 \<Rightarrow> bool" where
  "build_height y \<longleftrightarrow> - 64 \<le>s y \<and> y \<le>s 319"

section \<open>Breaking a block\<close>

record break_draw =
  bd_seed :: i64
  bd_wear :: u32
  bd_extra :: u32
  bd_uuid :: "nat \<Rightarrow> uuid"

definition is_ore_block :: "u32 \<Rightarrow> bool" where
  "is_ore_block i \<longleftrightarrow> i \<in> {31, 29, 27, 47, 300, 117, 59, 303, 337, 338, 339, 340, 341, 342, 343}"

text \<open>The chunk is sent from its cache, or encoded and cached.\<close>

definition send_cached :: "outside \<Rightarrow> Chunk \<Rightarrow> conn \<Rightarrow> (conn \<times> Chunk) option" where
  "send_cached ou chunk c =
     (case ck_cached chunk of
        Some data \<Rightarrow> Some (snd (write_data ou data c), chunk)
      | None \<Rightarrow>
          Option.bind (chunk_packet chunk) (\<lambda>p.
            case encode_frame (ou_deflate ou) (conn_codec c) \<lparr>packet_id = fst p, encode_payload = snd p\<rparr> of
              Ok data \<Rightarrow> Some (snd (write_data ou data c), set_cached_bytes data chunk)
            | _ \<Rightarrow> Some (c, chunk)))"

text \<open>The block removed, with the light of its column and of the chunk.\<close>

definition broken_chunk :: "u64 \<Rightarrow> Chunk \<Rightarrow> nat \<Rightarrow> i32 \<Rightarrow> nat \<Rightarrow> (u64 \<times> Chunk) option" where
  "broken_chunk lru chunk x y z =
     Option.bind (set_block lru chunk x y z AIR) (\<lambda>(lru, c).
     Option.bind (recalc_sky_light_on_remove c x y z) (\<lambda>c.
     map_option (\<lambda>c. (lru, c)) (propagate_block_light c)))"

text \<open>The neighbours that the light of a border block reaches, each taken out of the store while the chunk itself is held.\<close>

definition border_neighbours :: "ChunkPos \<Rightarrow> nat \<Rightarrow> nat \<Rightarrow> ChunkPos list" where
  "border_neighbours cp x z =
     (if x = 0 then [chunk_pos (cp_x cp - 1) (cp_z cp)] else []) @ (if x = 15 then [chunk_pos (cp_x cp + 1) (cp_z cp)] else []) @
     (if z = 0 then [chunk_pos (cp_x cp) (cp_z cp - 1)] else []) @ (if z = 15 then [chunk_pos (cp_x cp) (cp_z cp + 1)] else [])"

definition middle :: "i32 \<Rightarrow> f64" where
  "middle x = fadd (float_of_signed x) (flit 5 10)"

definition break_packets :: "break_draw \<Rightarrow> BlockState \<Rightarrow> i32 \<Rightarrow> i32 \<Rightarrow> i32 \<Rightarrow> (i32 \<times> bytes) list" where
  "break_packets d old x y z =
     [encode_SoundEffect \<lparr>soef_sound_id = break_sound_for_block (bs_id old), soef_category = 4, soef_x = x * 8, soef_y = y * 8,
        soef_z = z * 8, soef_volume = flit 1 1, soef_pitch = flit 1 1, soef_seed = bd_seed d\<rparr>,
      encode_Particle \<lparr>pa_particle_id = 0, pa_long_distance = False, pa_x = middle x, pa_y = middle y, pa_z = middle z,
        pa_offset_x = flit 2 10, pa_offset_y = flit 2 10, pa_offset_z = flit 2 10, pa_max_speed = flit 1 10, pa_count = 10\<rparr>]"

definition held_enchants :: "uuid \<Rightarrow> PlayerManager \<Rightarrow> (bytes \<times> u8) list option" where
  "held_enchants u pm =
     (case get_held_item u pm of
        Some st \<Rightarrow> (case it_nbt st of Some nbt \<Rightarrow> parse_item_enchants (Some nbt) | None \<Rightarrow> Some [])
      | None \<Rightarrow> Some [])"

definition wear_tool :: "uuid \<Rightarrow> break_draw \<Rightarrow> (bytes \<times> u8) list \<Rightarrow> hstate \<Rightarrow> hstate" where
  "wear_tool u d enchants s =
     (let unbreaking = level_in enchants ''unbreaking'' in
      if unbreaking > 0 \<and> bd_wear d \<le> 100 div (ucast unbreaking + 1) then s
      else s\<lparr>hs_players := snd (damage_held_item u 1 (hs_players s))\<rparr>)"

definition drop_item :: "outside \<Rightarrow> u32 \<Rightarrow> uuid \<Rightarrow> i32 \<Rightarrow> i32 \<Rightarrow> i32 \<Rightarrow> hstate \<Rightarrow> hstate" where
  "drop_item ou item new x y z s =
     (let eid = hs_next_entity s;
          s = tell ou [encode_SpawnEntity \<lparr>se_entity_id = eid, se_entity_uuid = new, se_entity_type = 54, se_x = middle x,
            se_y = middle y, se_z = middle z, se_pitch = 0, se_yaw = 0, se_head_yaw = 0, se_data = 1, se_vel_x = 0, se_vel_y = 150,
            se_vel_z = 0\<rparr>] (s\<lparr>hs_next_entity := eid + 1\<rparr>)
      in s\<lparr>hs_dropped := AList.update eid (item, middle x, middle y, middle z) (hs_dropped s)\<rparr>)"

definition extra_drops :: "break_draw \<Rightarrow> (bytes \<times> u8) list \<Rightarrow> u32 \<Rightarrow> nat" where
  "extra_drops d enchants item =
     (let fortune = level_in enchants ''fortune'' in
      if fortune > 0 \<and> is_ore_block item then unat (bd_extra d mod (ucast fortune + 1)) else 0)"

definition drop_items :: "outside \<Rightarrow> break_draw \<Rightarrow> (bytes \<times> u8) list \<Rightarrow> BlockState \<Rightarrow> i32 \<Rightarrow> i32 \<Rightarrow> i32 \<Rightarrow> hstate \<Rightarrow> hstate" where
  "drop_items ou d enchants old x y z s =
     (if is_air old then s
      else fold (\<lambda>i. drop_item ou (bs_id old) (bd_uuid d i) x y z) [0..<Suc (extra_drops d enchants (bs_id old))] s)"

definition after_break :: "outside \<Rightarrow> break_draw \<Rightarrow> uuid \<Rightarrow> BlockState \<Rightarrow> i32 \<Rightarrow> i32 \<Rightarrow> i32 \<Rightarrow> hstate \<Rightarrow> hstate acted" where
  "after_break ou d u old x y z s =
     (let s = tell ou (break_packets d old x y z) s in
      case held_enchants u (hs_players s) of
        None \<Rightarrow> Panic
      | Some enchants \<Rightarrow> Ok (drop_items ou d enchants old x y z (wear_tool u d enchants s)))"

definition note_break :: "ChunkPos \<Rightarrow> i32 \<Rightarrow> i32 \<Rightarrow> i32 \<Rightarrow> u64 \<Rightarrow> Chunk \<Rightarrow> conn \<Rightarrow> hstate \<Rightarrow> hstate" where
  "note_break cp x y z lru chunk c s =
     s\<lparr>hs_conn := c, hs_world := \<lparr>w_lru = lru, w_chunks = AList.update cp chunk (w_chunks (hs_world s))\<rparr>,
       hs_dirty_chunks := insert cp (hs_dirty_chunks s), hs_dirty_blocks := mark_block x y z 0 (hs_dirty_blocks s),
       hs_vibrations := register_vibration (x, y, z) 3 (hs_vibrations s)\<rparr>"

definition block_break :: "outside \<Rightarrow> (ChunkPos \<Rightarrow> nat) \<Rightarrow> break_draw \<Rightarrow> uuid \<Rightarrow> i32 \<Rightarrow> i32 \<Rightarrow> i32 \<Rightarrow> hstate \<Rightarrow> hstate acted" where
  "block_break ou shard d u x y z s =
     (let cp = chunk_pos (shr4 x) (shr4 z); lx = low4 x; lz = low4 z in
      case map_of (w_chunks (hs_world s)) cp of
        None \<Rightarrow> Ok s
      | Some chunk \<Rightarrow>
          (case (get_block chunk lx y lz, broken_chunk (w_lru (hs_world s)) chunk lx y lz) of
             (Some old, Some (lru, chunk)) \<Rightarrow>
               (case send_cached ou chunk (hs_conn s) of
                  None \<Rightarrow> Panic
                | Some (c, chunk) \<Rightarrow>
                    let s = note_break cp x y z lru chunk c s in
                    if list_ex (\<lambda>n. shard n = shard cp) (border_neighbours cp lx lz) then Err Blocked
                    else case propagate_lighting_cross_chunk cp lx y lz True (hs_world s) of
                      None \<Rightarrow> Panic
                    | Some w \<Rightarrow> after_break ou d u old x y z (s\<lparr>hs_world := w\<rparr>))
           | _ \<Rightarrow> Panic))"

definition handle_player_action :: "outside \<Rightarrow> (ChunkPos \<Rightarrow> nat) \<Rightarrow> break_draw \<Rightarrow> uuid \<Rightarrow> bytes \<Rightarrow> hstate \<Rightarrow> hstate acted" where
  "handle_player_action ou shard d u frame s =
     on_payload frame s (\<lambda>payload.
       if length payload < 9 then Ok s
       else
         let (x, y, z) = unpack_position (from_be (take 8 (drop 1 payload)))
         in if \<not> build_height y then Ok s
            else if payload ! 0 = 2 then block_break ou shard d u x y z s else Ok s)"

section \<open>Containers\<close>

definition open_container_packets :: "u8 \<Rightarrow> u32 \<Rightarrow> uuid \<Rightarrow> hstate \<Rightarrow> (i32 \<times> bytes) list" where
  "open_container_packets window_id block_id u s =
     [encode_OpenScreen \<lparr>os_window_id = ucast window_id, os_window_type = container_window_type block_id,
        os_title = utf8 ''{\"text\":\"Container\"}''\<rparr>,
      encode_ContainerSetContent \<lparr>csc_window_id = window_id, csc_state_id = get_state_id window_id (hs_containers s),
        csc_items = map (map_option slot_data) (all_slots window_id (hs_containers s)),
        csc_carried_item = map_option slot_data (get_cursor_item u (hs_players s))\<rparr>]"

definition open_at :: "outside \<Rightarrow> uuid \<Rightarrow> i32 \<Rightarrow> i32 \<Rightarrow> i32 \<Rightarrow> hstate \<Rightarrow> hstate acted" where
  "open_at ou u x y z s =
     (case map_of (w_chunks (hs_world s)) (chunk_pos (shr4 x) (shr4 z)) of
        None \<Rightarrow> Ok s
      | Some chunk \<Rightarrow>
          (case get_block chunk (low4 x) y (low4 z) of
             None \<Rightarrow> Panic
           | Some target \<Rightarrow>
               (case container_slot_count (bs_id target) of
                  None \<Rightarrow> Ok s
                | Some n \<Rightarrow>
                    let (cm, window_id) = open_container u (x, y, z) n (hs_containers s);
                        s = s\<lparr>hs_containers := cm\<rparr>
                    in Ok (tell ou (open_container_packets window_id (bs_id target) u s) s))))"

definition handle_use_item_on :: "outside \<Rightarrow> uuid \<Rightarrow> bytes \<Rightarrow> hstate \<Rightarrow> hstate acted" where
  "handle_use_item_on ou u frame s =
     on_payload frame s (\<lambda>payload.
       let off = varint_size (fst (varint_or_0 payload)) in
       if off + 8 > length payload then Ok s
       else
         let (x, y, z) = unpack_position (from_be (take 8 (drop off payload)))
         in if build_height y then open_at ou u x y z s else Ok s)"

definition handle_container_close :: "uuid \<Rightarrow> bytes \<Rightarrow> hstate \<Rightarrow> hstate acted" where
  "handle_container_close u frame s =
     (case decode_as 0x0F decode_ContainerClose frame (hs_conn s) of
        Ok c \<Rightarrow> Ok (s\<lparr>hs_containers := fst (close_container u (conclo_window_id c) (hs_containers s))\<rparr>)
      | Err _ \<Rightarrow> Ok s | Panic \<Rightarrow> Panic)"

section \<open>Items\<close>

text \<open>Renaming at an anvil, and writing a book: the text of the client becomes the text of the item.\<close>

definition handle_rename_item :: "uuid \<Rightarrow> bytes \<Rightarrow> hstate \<Rightarrow> hstate acted" where
  "handle_rename_item u frame s =
     on_payload frame s (\<lambda>payload.
       let (name_len, off) = varint_or_0 payload in
       if 0 <s name_len \<and> name_len <s 64 \<and> off + i32_as_usize name_len \<le> length payload
       then players_or_keep (set_held_item_name u (utf8_lossy (take (i32_as_usize name_len) (drop off payload))) (hs_players s)) s
       else Ok s)"

definition handle_edit_book :: "uuid \<Rightarrow> bytes \<Rightarrow> hstate \<Rightarrow> hstate acted" where
  "handle_edit_book u frame s =
     on_payload frame s (\<lambda>payload.
       let (slot, off) = varint_or_0 payload
       in players_or_keep (update_item_nbt_at_slot u slot (utf8_lossy (drop off payload)) (hs_players s)) s)"

definition give_block :: "uuid \<Rightarrow> BlockState \<Rightarrow> hstate \<Rightarrow> hstate acted" where
  "give_block u b s = players_or_keep (map_outcome id snd (add_item_to_player u b 1 (hs_players s))) s"

definition handle_pick_from_block :: "uuid \<Rightarrow> bytes \<Rightarrow> hstate \<Rightarrow> hstate acted" where
  "handle_pick_from_block u frame s =
     on_payload frame s (\<lambda>payload. give_block u (block (fst (varint_or_0 payload))) s)"

definition player_cell :: "uuid \<Rightarrow> PlayerManager \<Rightarrow> i32 \<times> i32 \<times> i32" where
  "player_cell u pm =
     (case find_player pm u of
        Some p \<Rightarrow> (trunc_i32 (pos_x (pl_position p)), trunc_i32 (pos_y (pl_position p)), trunc_i32 (pos_z (pl_position p)))
      | None \<Rightarrow> (0, 64, 0))"

definition handle_pick_item :: "uuid \<Rightarrow> bytes \<Rightarrow> hstate \<Rightarrow> hstate acted" where
  "handle_pick_item u frame s =
     on_payload frame s (\<lambda>payload.
       if payload = [] \<or> 8 < payload ! 0 then Ok s
       else
         let (px, py, pz) = player_cell u (hs_players s) in
         case map_of (w_chunks (hs_world s)) (chunk_pos (shr4 px) (shr4 pz)) of
           None \<Rightarrow> Ok s
         | Some chunk \<Rightarrow>
             (case get_block chunk (low4 px) (py - 1) (low4 pz) of
                None \<Rightarrow> Panic
              | Some b \<Rightarrow> if is_air b then Ok s else give_block u b s))"

section \<open>The other packets\<close>

definition handle_paddle_boat :: "(uuid \<Rightarrow> nat) \<Rightarrow> (f32 \<Rightarrow> f64 \<times> f64) \<Rightarrow> uuid \<Rightarrow> bytes \<Rightarrow> hstate \<Rightarrow> hstate acted" where
  "handle_paddle_boat shard sin_cos u frame s =
     on_payload frame s (\<lambda>payload.
       if length payload < 2 \<or> payload ! 0 = 0 \<and> payload ! 1 = 0 then Ok s
       else
         let eid = (case get_entity_id u (hs_players s) of Some e \<Rightarrow> e | None \<Rightarrow> 0)
         in players_or_keep (apply_boat_paddle shard sin_cos u eid (payload ! 0 \<noteq> 0) (payload ! 1 \<noteq> 0) (hs_players s)) s)"

definition handle_resource_pack :: "bytes \<Rightarrow> hstate \<Rightarrow> hstate acted" where
  "handle_resource_pack frame s =
     (case decode_as 0x24 decode_ResourcePackResponse frame (hs_conn s) of Panic \<Rightarrow> Panic | _ \<Rightarrow> Ok s)"

definition handle_recipe_book_data :: "uuid \<Rightarrow> bytes \<Rightarrow> hstate \<Rightarrow> hstate acted" where
  "handle_recipe_book_data u frame s =
     on_payload frame s (\<lambda>payload.
       if length payload < 2 then Ok s
       else Ok (s\<lparr>hs_players := add_known_recipe u (from_be (take 2 payload)) (hs_players s)\<rparr>))"

definition handle_command_suggestions :: "outside \<Rightarrow> bytes \<Rightarrow> hstate \<Rightarrow> hstate acted" where
  "handle_command_suggestions ou frame s =
     on_payload frame s (\<lambda>payload.
       let (tx_id, off) = varint_or_0 payload
       in Ok (tell ou [encode_CommandSuggestionsResponse \<lparr>csr_transaction_id = tx_id, csr_start = 0,
            csr_length = usize_as_i32 (length (utf8_lossy (drop off payload))), csr_matches = []\<rparr>] s))"

text \<open>Whether the packet is handled any further, with the state.\<close>

definition handle_select_trade :: "bytes \<Rightarrow> hstate \<Rightarrow> (bool \<times> hstate) acted" where
  "handle_select_trade frame s =
     (case parse_packet_id_and_payload (conn_codec (hs_conn s)) frame of
        Ok (_, payload) \<Rightarrow> let slot = fst (varint_or_0 payload) in Ok (0 \<le>s slot \<and> slot \<le>s 9, s)
      | Err _ \<Rightarrow> Ok (True, s) | Panic \<Rightarrow> Panic)"

definition handle_lock_difficulty :: "uuid \<Rightarrow> bytes \<Rightarrow> hstate \<Rightarrow> (bool \<times> hstate) acted" where
  "handle_lock_difficulty u frame s =
     (case find_player (hs_players s) u of
        None \<Rightarrow> Ok (False, s)
      | Some p \<Rightarrow>
          if \<not> pl_is_op p then Ok (False, s)
          else map_outcome id (\<lambda>s. (True, s)) (on_payload frame s (\<lambda>payload.
            if payload = [] then Ok s
            else Ok (s\<lparr>hs_world_state := (hs_world_state s)\<lparr>ws_difficulty_locked := payload ! 0 \<noteq> 0\<rparr>\<rparr>))))"

definition handle_cookie_response :: "bytes \<Rightarrow> hstate \<Rightarrow> hstate acted" where
  "handle_cookie_response frame s =
     (case decode_as 0x16 decode_CookieResponse frame (hs_conn s) of Panic \<Rightarrow> Panic | _ \<Rightarrow> Ok s)"

definition handle_advancement_tab :: "bytes \<Rightarrow> hstate \<Rightarrow> hstate acted" where
  "handle_advancement_tab frame s = on_payload frame s (\<lambda>_. Ok s)"

end
