(* ===== verification/C2SFacts.thy ===== *)
theory C2SFacts
  imports C2SHandlers SessionFacts PlayerFacts Constants
begin

text \<open>
  What a player can do with single packets. Shown: a book packet writes enchantments of the player's choice on any item;
  the name of an item can make the server panic when its owner breaks a block; the removal of a block at the border of a
  chunk can make the task wait for itself; and the blocks that the program calls chest and furnace never open.
\<close>

section \<open>Text of the client in an item\<close>

text \<open>Visible ASCII without parentheses.\<close>

definition plain_word :: "bytes \<Rightarrow> bool" where
  "plain_word w \<longleftrightarrow> (\<forall>b \<in> set w. 33 \<le> b \<and> b \<le> 126 \<and> b \<noteq> 40 \<and> b \<noteq> 41)"

lemma visible_lead: "b < 128 \<Longrightarrow> utf8_lead b = Some (1, 0x80, 0xBF)"
  by (simp add: utf8_lead_def)

lemma ascii_valid: "\<forall>b \<in> set w. b < 128 \<Longrightarrow> utf8_valid w"
proof (induction w)
  case (Cons b w)
  then have "utf8_lead b = Some (1, 0x80, 0xBF)" "utf8_valid w"
    using visible_lead by simp_all
  then show ?case
    by (subst utf8_valid.simps) simp
qed simp

lemma ascii_lossy: "\<forall>b \<in> set w. b < 128 \<Longrightarrow> utf8_lossy w = w"
proof (induction w)
  case (Cons b w)
  then have "utf8_lead b = Some (1, 0x80, 0xBF)" "utf8_lossy w = w"
    using visible_lead by simp_all
  moreover have "good_tail 1 0x80 0xBF w = 0"
    by (simp add: good_tail_def split: list.split)
  ultimately show ?case
    by (subst utf8_lossy.simps) simp
qed simp

lemma visible_no_ws:
  assumes "33 \<le> b" "b \<le> 126"
  shows "ws_len (b # bs) = 0"
proof -
  have "b \<notin> {9, 10, 11, 12, 13, 32}" "b \<noteq> 0xC2" "b \<noteq> 0xE1" "b \<noteq> 0xE2" "b \<noteq> 0xE3"
    using assms by auto
  then show ?thesis
    by (simp split: list.split)
qed

lemma split_visible:
  "\<forall>b \<in> set w. 33 \<le> b \<and> b \<le> 126 \<Longrightarrow> split_ws 0 cur (w @ rest) = split_ws 0 (rev w @ cur) rest"
  by (induction w arbitrary: cur) (simp_all add: visible_no_ws del: ws_len.simps)

lemma split_two_words:
  assumes "\<forall>b \<in> set v. 33 \<le> b \<and> b \<le> 126" "\<forall>b \<in> set w. 33 \<le> b \<and> b \<le> 126" "v \<noteq> []" "w \<noteq> []"
  shows "split_whitespace (v @ 32 # w) = [v, w]"
proof -
  have "split_ws 0 (rev v) (32 # w) = v # split_ws 0 [] w"
    using assms(3) by simp
  then show ?thesis
    using split_visible [OF assms(1), of "[]" "32 # w"] split_visible [OF assms(2), of "[]" "[]"] assms(4)
    by (simp add: split_whitespace_def)
qed

lemma find_byte_skip: "b \<notin> set w \<Longrightarrow> find_byte b (w @ rest) = map_option (\<lambda>i. length w + i) (find_byte b rest)"
proof (induction w)
  case Nil
  then show ?case
    by (cases "find_byte b rest") simp_all
next
  case (Cons a w)
  then show ?case
    by (cases "find_byte b rest") auto
qed

lemma parse_word:
  assumes "plain_word name" "plain_word digits" "parse_u8 digits = Some l"
  shows "parse_part (name @ 40 # digits @ [41]) = Some (Some (name, l))"
proof -
  have "40 \<notin> set name" "41 \<notin> set name" "41 \<notin> set digits"
    using assms(1,2) by (auto simp: plain_word_def)
  then have "find_byte 40 (name @ 40 # digits @ [41]) = Some (length name)"
    "find_byte 41 (name @ 40 # digits @ [41]) = Some (length name + 1 + length digits)"
    by (simp_all add: find_byte_skip)
  then show ?thesis
    using assms(3) by (simp add: parse_part_def slice_def)
qed

lemma parse_chosen:
  assumes "plain_word name" "plain_word digits" "parse_u8 digits = Some l"
  shows "parse_item_enchants (Some (ascii ''pages:'' @ 32 # name @ 40 # digits @ [41])) = Some [(name, l)]"
proof -
  let ?w = "name @ 40 # digits @ [41]"
  have vis: "\<forall>b \<in> set ?w. 33 \<le> b \<and> b \<le> 126" "\<forall>b \<in> set (ascii ''pages:''). 33 \<le> b \<and> b \<le> 126"
    using assms(1,2) by (auto simp: plain_word_def ascii_def)
  have small: "b < 128" if "b \<le> 126" for b :: u8
    by (rule le_less_trans [OF that]) simp
  then have "\<forall>b \<in> set (ascii ''pages:'' @ 32 # ?w). b < 128"
    using vis by fastforce
  then have "utf8_valid (ascii ''pages:'' @ 32 # ?w)"
    by (rule ascii_valid)
  moreover have "split_whitespace (ascii ''pages:'' @ 32 # ?w) = [ascii ''pages:'', ?w]"
    using vis by (intro split_two_words) (auto simp: ascii_def)
  moreover have "parse_part (ascii ''pages:'') = Some None"
    by (simp add: parse_part_def ascii_def)
  ultimately show ?thesis
    using parse_word [OF assms] by (simp add: parse_item_enchants_def)
qed

lemma on_client_body: "on_payload (client_body (pid, payload)) s k = k payload"
  by (simp add: on_payload_def parse_client_body)

lemma varint_or_0_written: "varint_or_0 (write_varint v @ rest) = (v, length (write_varint v))"
  by (simp add: varint_or_0_def read_varint_enum_def varint.dec_enc)

lemma changed_stack:
  "stack_at bag i = Some st \<Longrightarrow> stack_at (change_slot i (\<lambda>_. Some st') bag) i = Some st'"
  by (auto simp: stack_at_def change_slot_def nth_opt_def split: option.splits if_splits)

lemma change_slot_as:
  "stack_at bag i = Some st \<Longrightarrow> change_slot i f bag = change_slot i (\<lambda>_. f st) bag"
  by (auto simp: stack_at_def change_slot_def split: option.splits)

lemma stack_at_inside: "stack_at bag i = Some st \<Longrightarrow> i < length (inv_items bag)"
  by (auto simp: stack_at_def nth_opt_def split: option.splits if_splits)


section \<open>A name that ends the server\<close>

lemma bad_name: "parse_item_enchants (Some (display_name [41, 40])) = None"
proof -
  have vis: "\<forall>b \<in> set (display_name [41, 40]). 33 \<le> b \<and> b \<le> 126"
    by (simp add: display_name_def ascii_def)
  have "b < 128" if "b \<le> 126" for b :: u8
    by (rule le_less_trans [OF that]) simp
  then have "utf8_valid (display_name [41, 40])"
    using vis by (intro ascii_valid) fastforce
  moreover have "split_whitespace (display_name [41, 40]) = [display_name [41, 40]]"
    using split_visible [OF vis, of "[]" "[]"] by (simp add: split_whitespace_def display_name_def ascii_def)
  moreover have "crossed (display_name [41, 40])"
    by (simp add: crossed_def display_name_def ascii_def)
  ultimately show ?thesis
    using parse_part_None [of "display_name [41, 40]"] by (simp add: parse_item_enchants_def)
qed


section \<open>Locks and tables\<close>

text \<open>Breaking a block at the western border of a loaded chunk is never done when the two chunks fall into the same shard of the store: the
chunk is held while the light of its neighbour is computed, so that the task waits for itself, unless it panics before.\<close>

theorem border_block_never_broken:
  assumes "low4 x = 0" "shard (chunk_pos (shr4 x - 1) (shr4 z)) = shard (chunk_pos (shr4 x) (shr4 z))"
    and "map_of (w_chunks (hs_world s)) (chunk_pos (shr4 x) (shr4 z)) = Some chunk"
  shows "block_break ou shard d u x y z s \<in> {Err Blocked, Panic}"
proof -
  have "chunk_pos (shr4 x - 1) (shr4 z) \<in> set (border_neighbours (chunk_pos (shr4 x) (shr4 z)) 0 (low4 z))"
    by (simp add: border_neighbours_def chunk_pos_def)
  then have "list_ex (\<lambda>n. shard n = shard (chunk_pos (shr4 x) (shr4 z))) (border_neighbours (chunk_pos (shr4 x) (shr4 z)) 0 (low4 z))"
    using assms(2) unfolding list_ex_iff by metis
  then show ?thesis
    using assms(1,3) by (auto simp: block_break_def Let_def split: option.split)
qed

text \<open>No block opens the window that the program has for it: the table of the slots and the table of the windows name different blocks, so a
block that opens has the default window, and the chest and the furnace of the constants have no slots and never open.\<close>

theorem containers_never_match:
  "(container_slot_count i = None \<or> container_window_type i = 2) \<and>
   container_slot_count BLOCK_CHEST = None \<and> container_slot_count BLOCK_FURNACE = None \<and>
   container_window_type BLOCK_FURNACE = 3"
  by (auto simp: container_slot_count_def container_window_type_def split: if_split_asm)

section \<open>Witnesses\<close>

definition sample_stack :: ItemStack where
  "sample_stack = \<lparr>it_item = block 700, it_count = 1, it_max = 1, it_nbt = None, it_durability = None\<rparr>"

definition sample_digger :: Player where
  "sample_digger = (new_player 0 5 [0x68])\<lparr>pl_inventory := new_inventory\<lparr>inv_items := [Some sample_stack], inv_selected := 0\<rparr>\<rparr>"

definition sample_hstate :: hstate where
  "sample_hstate = \<lparr>hs_conn = sample_online, hs_players = put_player 5 sample_digger sample_pm,
     hs_world = \<lparr>w_lru = 0, w_chunks = [(chunk_pos 0 0, snd (new_chunk 0 (chunk_pos 0 0)))]\<rparr>, hs_containers = new_manager,
     hs_dirty_chunks = {}, hs_dirty_blocks = new_tracker, hs_vibrations = {}, hs_dropped = [], hs_next_entity = 1,
     hs_world_state = default_world\<rparr>"

lemma sample_digger_online: "find_player (hs_players sample_hstate) 5 = Some sample_digger"
  by (simp add: sample_hstate_def)

lemma sample_slot: "stack_at (pl_inventory sample_digger) 0 = Some sample_stack" "held_slot sample_digger = 0"
  by (simp_all add: sample_digger_def stack_at_def nth_opt_def held_slot_def)



theorem border_block_never_broken_witness:
  "block_break sample_outside (\<lambda>_. 0) \<lparr>bd_seed = 0, bd_wear = 1, bd_extra = 0, bd_uuid = (\<lambda>_. 0)\<rparr> 5 0 64 3 sample_hstate \<in> {Err Blocked, Panic}"
proof (rule border_block_never_broken)
  show "low4 0 = 0"
    by (simp add: low4_def i32_as_usize_def)
  have "shr4 0 = 0" "shr4 3 = 0"
    by (simp_all add: shr4_def)
  then show "map_of (w_chunks (hs_world sample_hstate)) (chunk_pos (shr4 0) (shr4 3)) = Some (snd (new_chunk 0 (chunk_pos 0 0)))"
    by (simp add: sample_hstate_def)
qed simp

end
