(* ===== verification/Brewing.thy ===== *)
theory Brewing
  imports Rust_Base "HOL-Library.AList"
begin

text \<open>
  Brewing stands, \<open>mc-player/src/brewing.rs\<close>: the recipes, the stands by position and their tick. A hash map is an
  association list in its iteration order.

  Shown: a stand with fuel, an ingredient and a bottle that it changes brews for exactly 400 ticks, in which
  only its counter moves, then uses up the ingredient and one unit of fuel and rests until something is put in.
\<close>

section \<open>Recipes\<close>

record BrewingRecipe =
  br_input :: u32
  br_ingredient :: u32
  br_output :: u32

definition recipe_of :: "u32 \<Rightarrow> u32 \<Rightarrow> u32 \<Rightarrow> BrewingRecipe" where
  "recipe_of input ingredient out = \<lparr>br_input = input, br_ingredient = ingredient, br_output = out\<rparr>"

definition brewing_registry :: "BrewingRecipe list" where
  "brewing_registry =
     [recipe_of 1003 1031 1008, recipe_of 1003 906 1022, recipe_of 1008 1032 1011,
      recipe_of 1008 885 1012, recipe_of 1008 904 1013, recipe_of 1008 906 1014,
      recipe_of 1008 905 1015, recipe_of 1008 902 1016, recipe_of 1008 871 1017,
      recipe_of 1008 854 1018, recipe_of 1008 868 1019, recipe_of 1011 907 1021,
      recipe_of 1012 907 1020, recipe_of 1017 907 1023, recipe_of 1011 803 1024,
      recipe_of 1012 803 1025, recipe_of 1013 803 1026, recipe_of 1014 803 1027,
      recipe_of 1015 803 1039, recipe_of 1016 803 1040, recipe_of 1011 993 1041,
      recipe_of 1012 993 1042, recipe_of 1013 993 1043, recipe_of 1015 993 1044,
      recipe_of 1016 993 1045, recipe_of 1017 993 1046, recipe_of 1018 993 1047,
      recipe_of 1019 993 1048, recipe_of 1011 903 1049, recipe_of 1012 903 1050,
      recipe_of 1013 903 1051, recipe_of 1015 903 1052, recipe_of 1019 903 1053,
      recipe_of 1024 1028 1054, recipe_of 1025 1028 1055, recipe_of 1026 1028 1056,
      recipe_of 1027 1028 1057, recipe_of 1039 1028 1058, recipe_of 1040 1028 1059,
      recipe_of 1054 773 1060, recipe_of 1055 773 1061, recipe_of 1056 773 1062,
      recipe_of 1057 773 1063, recipe_of 1058 773 1064, recipe_of 1059 773 1065,
      recipe_of 1022 773 1066, recipe_of 1020 773 1067, recipe_of 1023 773 1068,
      recipe_of 1018 773 1069, recipe_of 1019 773 1070, recipe_of 1017 773 1071,
      recipe_of 1021 773 1072]"

definition find_brewing :: "u32 \<Rightarrow> u32 \<Rightarrow> BrewingRecipe list \<Rightarrow> BrewingRecipe option" where
  "find_brewing input ingredient reg = List.find (\<lambda>r. br_input r = input \<and> br_ingredient r = ingredient) reg"

section \<open>Stands\<close>

type_synonym stand_pos = "i32 \<times> i32 \<times> i32"

record BrewingStandData =
  bsd_pos :: stand_pos
  bsd_fuel :: u32
  bsd_brew_ticks :: u32
  bsd_ingredient :: "u32 option"
  bsd_bottles :: "u32 option list"

definition new_stand :: "stand_pos \<Rightarrow> BrewingStandData" where
  "new_stand p = \<lparr>bsd_pos = p, bsd_fuel = 0, bsd_brew_ticks = 0, bsd_ingredient = None, bsd_bottles = [None, None, None]\<rparr>"

definition can_brew :: "BrewingRecipe list \<Rightarrow> BrewingStandData \<Rightarrow> bool" where
  "can_brew reg st =
     (case bsd_ingredient st of
        None \<Rightarrow> False
      | Some ingredient \<Rightarrow>
          list_ex (\<lambda>slot. case slot of Some input \<Rightarrow> find_brewing input ingredient reg \<noteq> None | None \<Rightarrow> False) (bsd_bottles st))"

record BrewCompletion =
  bc_position :: stand_pos
  bc_output :: u32

record BrewingStandManager =
  bsm_stands :: "(stand_pos \<times> BrewingStandData) list"
  bsm_completed :: "BrewCompletion list"

definition new_brewing :: BrewingStandManager where
  "new_brewing = \<lparr>bsm_stands = [], bsm_completed = []\<rparr>"

definition take_brew_completions :: "BrewingStandManager \<Rightarrow> BrewCompletion list \<times> BrewingStandManager" where
  "take_brew_completions m = (bsm_completed m, m\<lparr>bsm_completed := []\<rparr>)"

definition get_or_create_stand :: "stand_pos \<Rightarrow> BrewingStandManager \<Rightarrow> BrewingStandData \<times> BrewingStandManager" where
  "get_or_create_stand p m =
     (case map_of (bsm_stands m) p of
        Some st \<Rightarrow> (st, m)
      | None \<Rightarrow> (new_stand p, m\<lparr>bsm_stands := AList.update p (new_stand p) (bsm_stands m)\<rparr>))"

definition remove_stand :: "stand_pos \<Rightarrow> BrewingStandManager \<Rightarrow> BrewingStandManager" where
  "remove_stand p m = m\<lparr>bsm_stands := AList.delete p (bsm_stands m)\<rparr>"

definition get_brew_ticks :: "stand_pos \<Rightarrow> BrewingStandManager \<Rightarrow> u32" where
  "get_brew_ticks p m = (case map_of (bsm_stands m) p of Some st \<Rightarrow> bsd_brew_ticks st | None \<Rightarrow> 0)"

definition get_brew_fuel :: "stand_pos \<Rightarrow> BrewingStandManager \<Rightarrow> u32" where
  "get_brew_fuel p m = (case map_of (bsm_stands m) p of Some st \<Rightarrow> bsd_fuel st | None \<Rightarrow> 0)"

section \<open>Brewing\<close>

definition brewed_bottle :: "BrewingRecipe list \<Rightarrow> u32 \<Rightarrow> u32 option \<Rightarrow> u32 option" where
  "brewed_bottle reg ingredient slot =
     (case slot of
        Some input \<Rightarrow> (case find_brewing input ingredient reg of Some r \<Rightarrow> Some (br_output r) | None \<Rightarrow> slot)
      | None \<Rightarrow> None)"

text \<open>The end of a brewing, and what it reports: all the bottles in the stand.\<close>

definition finish_brew :: "BrewingRecipe list \<Rightarrow> BrewingStandData \<Rightarrow> BrewingStandData" where
  "finish_brew reg st =
     (let ingredient = (case bsd_ingredient st of Some i \<Rightarrow> i | None \<Rightarrow> 0)
      in st\<lparr>bsd_ingredient := None, bsd_bottles := map (brewed_bottle reg ingredient) (bsd_bottles st),
           bsd_fuel := saturating_sub32 (bsd_fuel st) 1, bsd_brew_ticks := 0\<rparr>)"

definition completions :: "BrewingStandData \<Rightarrow> BrewCompletion list" where
  "completions st = List.map_filter (map_option (\<lambda>out. \<lparr>bc_position = bsd_pos st, bc_output = out\<rparr>)) (bsd_bottles st)"

definition brew_step :: "BrewingRecipe list \<Rightarrow> BrewingStandData \<Rightarrow> BrewingStandData \<times> BrewCompletion list" where
  "brew_step reg st =
     (if bsd_fuel st > 0 \<and> can_brew reg st then
        let st = st\<lparr>bsd_brew_ticks := saturating_inc32 (bsd_brew_ticks st)\<rparr> in
        if bsd_brew_ticks st \<ge> 400 then let st = finish_brew reg st in (st, completions st)
        else (st, [])
      else (st, []))"

definition brewing_tick :: "BrewingRecipe list \<Rightarrow> BrewingStandManager \<Rightarrow> BrewingStandManager" where
  "brewing_tick reg m =
     m\<lparr>bsm_stands := map (\<lambda>(p, st). (p, fst (brew_step reg st))) (bsm_stands m),
       bsm_completed := bsm_completed m @ concat (map (\<lambda>(p, st). snd (brew_step reg st)) (bsm_stands m))\<rparr>"

section \<open>The time a brewing takes\<close>

lemma can_brew_ticks [simp]: "can_brew reg (st\<lparr>bsd_brew_ticks := n\<rparr>) = can_brew reg st"
  by (cases "bsd_ingredient st") (simp_all add: can_brew_def)

lemma stand_after_tick:
  "map_of (bsm_stands (brewing_tick reg m)) p = map_option (\<lambda>st. fst (brew_step reg st)) (map_of (bsm_stands m) p)"
  by (simp add: brewing_tick_def map_of_map)

lemma stand_after_ticks:
  "map_of (bsm_stands ((brewing_tick reg ^^ n) m)) p = map_option ((\<lambda>st. fst (brew_step reg st)) ^^ n) (map_of (bsm_stands m) p)"
  by (induction n) (simp_all add: stand_after_tick option.map_comp comp_def option.map_ident)

lemma brewing_counts:
  assumes "bsd_fuel st > 0" "can_brew reg st" "bsd_brew_ticks st = 0" "n < 400"
  shows "((\<lambda>st. fst (brew_step reg st)) ^^ n) st = st\<lparr>bsd_brew_ticks := word_of_nat n\<rparr>"
  using assms(4)
proof (induction n)
  case 0
  then show ?case
    using assms(3) by simp
next
  case (Suc n)
  have "word_of_nat n \<noteq> (- 1 :: u32)"
  proof
    assume "word_of_nat n = (- 1 :: u32)"
    then have "unat (word_of_nat n :: u32) = unat (- 1 :: u32)"
      by simp
    then show False
      using Suc.prems by (simp add: unat_of_nat unsigned_minus_1_eq_mask mask_eq_exp_minus_1)
  qed
  moreover have "\<not> (400 :: u32) \<le> 1 + word_of_nat n"
    using Suc.prems by (simp add: word_le_nat_alt unat_word_ariths unat_of_nat)
  ultimately show ?case
    using Suc assms(1,2) by (simp add: brew_step_def saturating_inc32_def Let_def add.commute)
qed

text \<open>C0. Brewing takes 400 ticks: a stand that has fuel, an ingredient and a bottle that it changes keeps everything but its counter for
399 ticks; the next one changes every bottle that has a recipe with the ingredient, takes the ingredient and one unit of fuel
away and sets the counter back, and from then on nothing changes until something is put in.\<close>

theorem brewing_takes_400_ticks:
  assumes "map_of (bsm_stands m) p = Some st" "bsd_fuel st > 0" "can_brew reg st" "bsd_brew_ticks st = 0"
  shows "(n < 400 \<longrightarrow> map_of (bsm_stands ((brewing_tick reg ^^ n) m)) p = Some (st\<lparr>bsd_brew_ticks := word_of_nat n\<rparr>)) \<and>
    map_of (bsm_stands ((brewing_tick reg ^^ (400 + n)) m)) p = Some (finish_brew reg st)"
proof -
  let ?step = "\<lambda>st. fst (brew_step reg st)"
  have "(?step ^^ 399) st = st\<lparr>bsd_brew_ticks := 399\<rparr>"
    using brewing_counts [OF assms(2-4), of 399] by simp
  then have "(?step ^^ 400) st = finish_brew reg st"
    using assms(2,3) funpow.simps(2) [of 399 ?step]
    by (simp add: brew_step_def saturating_inc32_def Let_def finish_brew_def)
  moreover have "?step (finish_brew reg st) = finish_brew reg st"
    by (simp add: brew_step_def can_brew_def finish_brew_def)
  then have "(?step ^^ n) (finish_brew reg st) = finish_brew reg st"
    by (induction n) simp_all
  ultimately have "(?step ^^ (400 + n)) st = finish_brew reg st"
    by (simp add: funpow_add add.commute [of 400 n])
  then show ?thesis
    using brewing_counts [OF assms(2-4), of n] by (simp add: stand_after_ticks assms(1) del: funpow.simps)
qed

theorem brewing_takes_400_ticks_witness:
  "map_of (bsm_stands ((brewing_tick brewing_registry ^^ (400 + 3))
      \<lparr>bsm_stands = [((1, 2, 3), \<lparr>bsd_pos = (1, 2, 3), bsd_fuel = 5, bsd_brew_ticks = 0, bsd_ingredient = Some 1031,
         bsd_bottles = [Some 1003, None, Some 7]\<rparr>)], bsm_completed = []\<rparr>)) (1, 2, 3)
    = Some \<lparr>bsd_pos = (1, 2, 3), bsd_fuel = 4, bsd_brew_ticks = 0, bsd_ingredient = None, bsd_bottles = [Some 1008, None, Some 7]\<rparr>"
proof -
  let ?st = "\<lparr>bsd_pos = (1, 2, 3), bsd_fuel = 5, bsd_brew_ticks = 0, bsd_ingredient = Some 1031, bsd_bottles = [Some 1003, None, Some 7]\<rparr>"
  have "find_brewing 1003 1031 brewing_registry = Some (recipe_of 1003 1031 1008)"
    by (simp add: find_brewing_def brewing_registry_def recipe_of_def)
  moreover have "find_brewing 7 1031 brewing_registry = None"
    by (simp add: find_brewing_def brewing_registry_def recipe_of_def)
  ultimately have "can_brew brewing_registry ?st"
    and brewed: "finish_brew brewing_registry ?st = \<lparr>bsd_pos = (1, 2, 3), bsd_fuel = 4, bsd_brew_ticks = 0, bsd_ingredient = None,
      bsd_bottles = [Some 1008, None, Some 7]\<rparr>"
    by (simp_all add: can_brew_def finish_brew_def brewed_bottle_def recipe_of_def saturating_sub32_def)
  then show ?thesis
    using brewing_takes_400_ticks [of "\<lparr>bsm_stands = [((1, 2, 3), ?st)], bsm_completed = []\<rparr>" "(1, 2, 3)" ?st brewing_registry 3]
    by (simp del: funpow.simps)
qed

end
