(* ===== verification/Raids.thy ===== *)
theory Raids
  imports Players Effects FloatFacts "HOL-Library.AList"
begin

text \<open>
  Raids on villages, \<open>mc-player/src/raid.rs\<close>, and their start by the tick task (\<open>mc-server/src/main.rs\<close>). A village and a raid are
  named by the coordinates of their centre; sine and cosine and the random numbers of a wave are parameters.

  Shown: in every history of the manager the wave of a raid stays within the five waves of the normal table, so
  that a hard raid, which counts seven, is never won; and a village is taken for a duplicate of one that is far away.
\<close>

section \<open>Waves\<close>

type_synonym centre = "i32 \<times> i32 \<times> i32"

record RaidWave =
  rw_mob_types :: "(i32 \<times> u32) list"

definition wave :: "(i32 \<times> u32) list \<Rightarrow> RaidWave" where
  "wave ms = \<lparr>rw_mob_types = ms\<rparr>"

definition waves_for_difficulty :: "u8 \<Rightarrow> RaidWave list" where
  "waves_for_difficulty d =
     (if d = 0 then []
      else if d = 1 then [wave [(59, 3)], wave [(59, 2), (51, 1)], wave [(59, 2), (51, 1), (48, 1)]]
      else if d = 2 then
        [wave [(59, 3)], wave [(59, 3), (51, 1)], wave [(59, 2), (51, 1), (48, 1)], wave [(59, 3), (51, 2), (48, 1)],
         wave [(59, 3), (51, 2), (61, 1)]]
      else
        [wave [(59, 4)], wave [(59, 3), (51, 2)], wave [(59, 3), (51, 1), (48, 1)], wave [(59, 4), (51, 2), (48, 1)],
         wave [(59, 4), (51, 2), (48, 2)], wave [(59, 3), (51, 2), (61, 2)], wave [(59, 2), (51, 2), (61, 1), (52, 1)]])"

section \<open>The raids\<close>

record RaidState =
  rst_centre :: centre
  rst_current_wave :: u32
  rst_total_waves :: u32
  rst_mobs_alive :: "i32 set"
  rst_participants :: "uuid set"
  rst_active :: bool
  rst_ticks :: u32

record RaidManager =
  rm_raids :: "(centre \<times> RaidState) list"
  rm_villages :: "centre list"
  rm_completed :: "centre list"

definition new_raids :: RaidManager where
  "new_raids = \<lparr>rm_raids = [], rm_villages = [], rm_completed = []\<rparr>"

definition take_completed_raids :: "RaidManager \<Rightarrow> centre list \<times> RaidManager" where
  "take_completed_raids m = (rm_completed m, m\<lparr>rm_completed := []\<rparr>)"

definition near_centre :: "Position \<Rightarrow> centre \<Rightarrow> bool" where
  "near_centre p c =
     (let dx = fsub (pos_x p) (float_of_signed (fst c)); dz = fsub (pos_z p) (float_of_signed (snd (snd c)))
      in flt (fadd (fmul dx dx) (fmul dz dz)) (flit 4096 1))"

definition try_start_raid :: "uuid \<Rightarrow> Position \<Rightarrow> bool \<Rightarrow> u8 \<Rightarrow> RaidManager \<Rightarrow> u32 option \<times> RaidManager" where
  "try_start_raid u p has_bad_omen difficulty m =
     (if \<not> has_bad_omen \<or> difficulty = 0 then (None, m)
      else case List.find (near_centre p) (rm_villages m) of
        None \<Rightarrow> (None, m)
      | Some c \<Rightarrow>
          if map_of (rm_raids m) c \<noteq> None \<or> waves_for_difficulty difficulty = [] then (None, m)
          else
            let total = word_of_nat (length (waves_for_difficulty difficulty)) in
            (Some total,
             m\<lparr>rm_raids := AList.update c \<lparr>rst_centre = c, rst_current_wave = 0, rst_total_waves = total, rst_mobs_alive = {},
               rst_participants = {u}, rst_active = True, rst_ticks = 0\<rparr> (rm_raids m)\<rparr>))"

definition tau :: f64 where
  "tau = flit 6283185307179586 1000000000000000"

text \<open>The place of a mob: two random numbers give an angle and a distance from 5 to 25.\<close>

definition raid_place :: "(f64 \<Rightarrow> f64 \<times> f64) \<Rightarrow> f64 \<times> f64 \<Rightarrow> centre \<Rightarrow> Position" where
  "raid_place sin_cos random c =
     (let (sin, cos) = sin_cos (fmul (fst random) tau);
          dist = fadd (flit 5 1) (fmul (snd random) (flit 20 1));
          (cx, cy, cz) = c
      in \<lparr>pos_x = fadd (float_of_signed cx) (fmul cos dist), pos_y = float_of_signed cy,
          pos_z = fadd (float_of_signed cz) (fmul sin dist), pos_yaw = 0, pos_pitch = 0\<rparr>)"

definition wave_mobs :: "RaidWave \<Rightarrow> i32 list" where
  "wave_mobs w = concat (map (\<lambda>(t, n). replicate (unat n) t) (rw_mob_types w))"

definition spawn_wave :: "(f64 \<Rightarrow> f64 \<times> f64) \<Rightarrow> (nat \<Rightarrow> f64 \<times> f64) \<Rightarrow> centre \<Rightarrow> RaidManager \<Rightarrow> (i32 \<times> Position) list \<times> RaidManager" where
  "spawn_wave sin_cos random c m =
     (case map_of (rm_raids m) c of
        None \<Rightarrow> ([], m)
      | Some r \<Rightarrow>
          if rst_current_wave r \<ge> rst_total_waves r \<or> unat (rst_current_wave r) \<ge> length (waves_for_difficulty 2) then ([], m)
          else
            let mobs = wave_mobs (waves_for_difficulty 2 ! unat (rst_current_wave r)) in
            (map (\<lambda>(i, t). (t, raid_place sin_cos (random i) c)) (enumerate 0 mobs),
             m\<lparr>rm_raids := AList.update c (r\<lparr>rst_current_wave := rst_current_wave r + 1, rst_ticks := 0\<rparr>) (rm_raids m)\<rparr>))"

definition check_wave_complete :: "centre \<Rightarrow> RaidManager \<Rightarrow> bool" where
  "check_wave_complete c m =
     (case map_of (rm_raids m) c of Some r \<Rightarrow> rst_mobs_alive r = {} \<and> rst_ticks r > 60 | None \<Rightarrow> False)"

definition complete_raid :: "centre \<Rightarrow> RaidManager \<Rightarrow> uuid set option \<times> RaidManager" where
  "complete_raid c m =
     (case map_of (rm_raids m) c of
        Some r \<Rightarrow> (if rst_current_wave r \<ge> rst_total_waves r then Some (rst_participants r) else None,
                  m\<lparr>rm_raids := AList.delete c (rm_raids m)\<rparr>)
      | None \<Rightarrow> (None, m))"

definition update_raid :: "centre \<Rightarrow> (RaidState \<Rightarrow> RaidState) \<Rightarrow> RaidManager \<Rightarrow> RaidManager" where
  "update_raid c f m =
     (case map_of (rm_raids m) c of Some r \<Rightarrow> m\<lparr>rm_raids := AList.update c (f r) (rm_raids m)\<rparr> | None \<Rightarrow> m)"

definition register_raid_mob :: "centre \<Rightarrow> i32 \<Rightarrow> RaidManager \<Rightarrow> RaidManager" where
  "register_raid_mob c e = update_raid c (\<lambda>r. r\<lparr>rst_mobs_alive := insert e (rst_mobs_alive r)\<rparr>)"

definition remove_raid_mob :: "centre \<Rightarrow> i32 \<Rightarrow> RaidManager \<Rightarrow> RaidManager" where
  "remove_raid_mob c e = update_raid c (\<lambda>r. r\<lparr>rst_mobs_alive := rst_mobs_alive r - {e}\<rparr>)"

definition add_participant :: "centre \<Rightarrow> uuid \<Rightarrow> RaidManager \<Rightarrow> RaidManager" where
  "add_participant c u = update_raid c (\<lambda>r. r\<lparr>rst_participants := insert u (rst_participants r)\<rparr>)"

definition raid_tick :: "RaidState \<Rightarrow> RaidState" where
  "raid_tick r = (if rst_active r then r\<lparr>rst_ticks := rst_ticks r + 1\<rparr> else r)"

definition wave_ready :: "RaidState \<Rightarrow> bool" where
  "wave_ready r \<longleftrightarrow> rst_active r \<and> rst_ticks r \<ge> (if rst_current_wave r = 0 then 0 else 200) \<and> rst_mobs_alive r = {}"

definition tick_raids :: "RaidManager \<Rightarrow> centre list \<times> RaidManager" where
  "tick_raids m =
     (let raids = map (\<lambda>(c, r). (c, raid_tick r)) (rm_raids m)
      in (map fst (filter (\<lambda>(c, r). wave_ready r) raids), m\<lparr>rm_raids := raids\<rparr>))"

definition cancel_raid :: "centre \<Rightarrow> RaidManager \<Rightarrow> RaidManager" where
  "cancel_raid c m = m\<lparr>rm_raids := AList.delete c (rm_raids m)\<rparr>"

text \<open>The squared distance is computed in 32 bits.\<close>

definition same_village :: "centre \<Rightarrow> centre \<Rightarrow> bool" where
  "same_village c e =
     (let dx = fst e - fst c; dz = snd (snd e) - snd (snd c) in dx * dx + dz * dz <s 4096)"

definition register_village :: "centre \<Rightarrow> RaidManager \<Rightarrow> RaidManager" where
  "register_village c m = (if list_ex (same_village c) (rm_villages m) then m else m\<lparr>rm_villages := rm_villages m @ [c]\<rparr>)"

text \<open>How the tick task finds the omen among the effects of a player.\<close>

definition has_omen :: "ActiveEffect list \<Rightarrow> bool" where
  "has_omen effects = list_ex (\<lambda>e. effect_id (ae_effect e) = 31) effects"

text \<open>What the tick task does for a player with the omen: the first wave is asked for at the block of the player.\<close>

definition raid_for_player :: "(f64 \<Rightarrow> f64 \<times> f64) \<Rightarrow> (nat \<Rightarrow> f64 \<times> f64) \<Rightarrow> uuid \<Rightarrow> Position \<Rightarrow> RaidManager \<Rightarrow>
    (i32 \<times> Position) list \<times> RaidManager" where
  "raid_for_player sin_cos random u p m =
     (case try_start_raid u p True 2 m of
        (Some waves, m) \<Rightarrow> spawn_wave sin_cos random (trunc_i32 (pos_x p), trunc_i32 (pos_y p), trunc_i32 (pos_z p)) m
      | (None, m) \<Rightarrow> ([], m))"

section \<open>Histories of the manager\<close>

inductive raid_states :: "RaidManager \<Rightarrow> bool" where
  raids_new: "raid_states new_raids"
| raids_start: "raid_states m \<Longrightarrow> raid_states (snd (try_start_raid u p omen d m))"
| raids_wave: "raid_states m \<Longrightarrow> raid_states (snd (spawn_wave sin_cos random c m))"
| raids_complete: "raid_states m \<Longrightarrow> raid_states (snd (complete_raid c m))"
| raids_mob: "raid_states m \<Longrightarrow> raid_states (register_raid_mob c e m)"
| raids_killed: "raid_states m \<Longrightarrow> raid_states (remove_raid_mob c e m)"
| raids_join: "raid_states m \<Longrightarrow> raid_states (add_participant c u m)"
| raids_tick: "raid_states m \<Longrightarrow> raid_states (snd (tick_raids m))"
| raids_cancel: "raid_states m \<Longrightarrow> raid_states (cancel_raid c m)"
| raids_village: "raid_states m \<Longrightarrow> raid_states (register_village c m)"

definition within_waves :: "RaidState \<Rightarrow> bool" where
  "within_waves r \<longleftrightarrow> unat (rst_current_wave r) \<le> 5 \<and> rst_total_waves r \<in> {3, 5, 7}"

definition raids_within :: "RaidManager \<Rightarrow> bool" where
  "raids_within m \<longleftrightarrow> (\<forall>c r. map_of (rm_raids m) c = Some r \<longrightarrow> within_waves r)"

lemma raids_withinD: "raids_within m \<Longrightarrow> map_of (rm_raids m) c = Some r \<Longrightarrow> within_waves r"
  unfolding raids_within_def by blast

lemma normal_waves [simp]: "length (waves_for_difficulty 2) = 5"
  by (simp add: waves_for_difficulty_def)

lemma wave_counts: "d \<noteq> 0 \<Longrightarrow> word_of_nat (length (waves_for_difficulty d)) \<in> {3, 5, 7 :: u32}"
  by (simp add: waves_for_difficulty_def)

lemma raids_within_update:
  "raids_within m \<Longrightarrow> within_waves r \<Longrightarrow> raids_within (m\<lparr>rm_raids := AList.update c r (rm_raids m)\<rparr>)"
  by (simp add: raids_within_def update_conv')

lemma raids_within_update_raid:
  "raids_within m \<Longrightarrow> (\<And>r. within_waves r \<Longrightarrow> within_waves (f r)) \<Longrightarrow> raids_within (update_raid c f m)"
  by (auto simp: update_raid_def intro: raids_within_update dest: raids_withinD split: option.split)

lemma raids_within_delete: "raids_within m \<Longrightarrow> raids_within (m\<lparr>rm_raids := AList.delete c (rm_raids m)\<rparr>)"
  by (auto simp: raids_within_def delete_conv' restrict_map_def split: if_split_asm)

lemma next_wave_within: "within_waves r \<Longrightarrow> unat (rst_current_wave r) < 5 \<Longrightarrow> within_waves (r\<lparr>rst_current_wave := rst_current_wave r + 1, rst_ticks := 0\<rparr>)"
  by (simp add: within_waves_def unat_word_ariths)

lemma within_waves_tick [simp]: "within_waves (raid_tick r) = within_waves r"
  by (simp add: within_waves_def raid_tick_def)

lemma raids_stay_within: "raid_states m \<Longrightarrow> raids_within m"
proof (induction rule: raid_states.induct)
  case raids_new
  then show ?case
    by (simp add: raids_within_def new_raids_def)
next
  case (raids_start m u p omen d)
  then show ?case
    using wave_counts [of d]
    by (auto simp: try_start_raid_def Let_def within_waves_def intro!: raids_within_update split: option.split)
next
  case (raids_wave m sin_cos random c)
  show ?case
  proof (cases "map_of (rm_raids m) c")
    case (Some r)
    then have "within_waves r"
      using raids_wave.IH raids_withinD by blast
    then show ?thesis
      using Some raids_wave.IH next_wave_within by (auto simp: spawn_wave_def Let_def intro: raids_within_update)
  qed (use raids_wave.IH in \<open>simp add: spawn_wave_def\<close>)
next
  case (raids_complete m c)
  then show ?case
    by (auto simp: complete_raid_def raids_within_delete split: option.split)
next
  case (raids_tick m)
  have "within_waves r" if found: "map_of (rm_raids (snd (tick_raids m))) c = Some r" for c r
  proof -
    obtain r' where "map_of (rm_raids m) c = Some r'" "r = raid_tick r'"
      using found by (auto simp: tick_raids_def Let_def map_of_map)
    then show ?thesis
      using raids_withinD [OF raids_tick.IH] by simp
  qed
  then show ?case
    unfolding raids_within_def by blast
qed (auto simp: register_raid_mob_def remove_raid_mob_def add_participant_def cancel_raid_def register_village_def
      within_waves_def raids_within_delete intro!: raids_within_update_raid split: if_splits, simp_all add: raids_within_def within_waves_def)

text \<open>C0. A hard raid is never won: whatever happened since the start of the server, a raid that counts seven waves spawns at most the five
of the normal table, and completing it rewards nobody; every raid that rewards its participants has three or five waves, although an easy
one fights the waves of the normal table too.\<close>

theorem hard_raid_never_won:
  assumes "raid_states m" "map_of (rm_raids m) c = Some r"
  shows "(rst_total_waves r = 7 \<longrightarrow> fst (complete_raid c m) = None) \<and>
    (fst (complete_raid c m) \<noteq> None \<longrightarrow> rst_total_waves r \<in> {3, 5}) \<and>
    (unat (rst_current_wave r) = 5 \<longrightarrow> spawn_wave sin_cos random c m = ([], m))"
proof -
  have within: "unat (rst_current_wave r) \<le> 5" "rst_total_waves r \<in> {3, 5, 7}"
    using raids_withinD [OF raids_stay_within [OF assms(1)] assms(2)] by (simp_all add: within_waves_def)
  then have "\<not> (7 :: u32) \<le> rst_current_wave r"
    by (simp add: word_le_nat_alt)
  then show ?thesis
    using within(2) assms(2) by (auto simp: complete_raid_def spawn_wave_def)
qed

text \<open>Without a village no raid ever starts, and the operation that registers villages has no caller in the server.\<close>

lemma raids_never_start:
  "fold (\<lambda>(sin_cos, random, u, p) m. snd (raid_for_player sin_cos random u p m)) players new_raids = new_raids"
proof (induction players)
  case (Cons x players)
  have "snd (raid_for_player sin_cos random u p new_raids) = new_raids" for sin_cos random u p
    by (simp add: raid_for_player_def try_start_raid_def new_raids_def)
  then show ?case
    using Cons.IH by (cases x) simp
qed simp

text \<open>The number by which the omen is looked for is the one of the heroes of the village.\<close>

lemma omen_is_hero: "has_omen effects \<longleftrightarrow> HeroOfTheVillage \<in> ae_effect ` set effects"
proof -
  have "effect_id e = 31 \<longleftrightarrow> e = HeroOfTheVillage" for e
    by (cases e) (simp_all add: effect_id_def effect_ids_def)
  then show ?thesis
    by (force simp: has_omen_def list_ex_iff)
qed

text \<open>C0. A village whose distance from a known one is a multiple of 65536 blocks to the east or west is taken for the same village: it is not
registered, and no raid starts in it.\<close>

theorem far_village_refused:
  assumes "(x, y, z) \<in> set (rm_villages m)"
  shows "register_village (x + 65536 * k, y', z) m = m"
proof -
  have "(4294967296 :: i32) = 0"
    using word_exp_length_eq_0 [where 'a = 32] by simp
  then have "4294967296 * (k * k) = 0"
    by (metis mult_zero_left)
  moreover have "(0 :: i32) <s 4096"
    by (simp add: word_sless_alt)
  ultimately have "same_village (x + 65536 * k, y', z) (x, y, z)"
    by (simp add: same_village_def)
  then show ?thesis
    using assms by (auto simp: register_village_def list_ex_iff)
qed

section \<open>A history\<close>

definition sample_raids :: RaidManager where
  "sample_raids = snd (try_start_raid 9 (Position.make 0 0 0 0 0) True 3 (register_village (0, 64, 0) new_raids))"

lemma sample_raids_eq:
  "sample_raids = \<lparr>rm_raids = [((0, 64, 0), \<lparr>rst_centre = (0, 64, 0), rst_current_wave = 0, rst_total_waves = 7, rst_mobs_alive = {},
     rst_participants = {9}, rst_active = True, rst_ticks = 0\<rparr>)], rm_villages = [(0, 64, 0)], rm_completed = []\<rparr>"
proof -
  have "near_centre (Position.make 0 0 0 0 0) (0, 64, 0)"
    by code_simp
  then show ?thesis
    by (simp add: sample_raids_def try_start_raid_def register_village_def new_raids_def waves_for_difficulty_def Let_def)
qed

theorem hard_raid_never_won_witness:
  "rst_total_waves (snd (hd (rm_raids sample_raids))) = 7 \<and> fst (complete_raid (0, 64, 0) sample_raids) = None"
proof -
  have "raid_states sample_raids"
    unfolding sample_raids_def by (intro raid_states.intros)
  from hard_raid_never_won [OF this, of "(0, 64, 0)" "snd (hd (rm_raids sample_raids))" "\<lambda>_. (0, 0)" "\<lambda>_. (0, 0)"] show ?thesis
    by (simp add: sample_raids_eq)
qed

theorem far_village_refused_witness:
  "register_village (196608, 70, 5) \<lparr>rm_raids = [], rm_villages = [(0, 64, 5)], rm_completed = []\<rparr>
    = \<lparr>rm_raids = [], rm_villages = [(0, 64, 5)], rm_completed = []\<rparr>"
  using far_village_refused [of 0 64 5 "\<lparr>rm_raids = [], rm_villages = [(0, 64, 5)], rm_completed = []\<rparr>" 3 70] by simp

end
