(* ===== verification/Fishing.thy ===== *)
theory Fishing
  imports Players Inventory "HOL-Library.AList"
begin

text \<open>
  Fishing, \<open>mc-player/src/fishing.rs\<close>: bobbers, bites and the table of loot. The random numbers are arguments.

  Shown: a reeled item is always one of the table, with its counts, so the two items kept in reserve never appear; and a
  bobber bites at exactly the tick that was drawn and then stays until it is reeled in.
\<close>

section \<open>The loot\<close>

datatype LootCategory = Fish | Junk | Treasure

record FishingLoot =
  fl_item :: u32
  fl_weight :: u32
  fl_min :: u8
  fl_max :: u8
  fl_category :: LootCategory

definition loot :: "LootCategory \<Rightarrow> u32 \<Rightarrow> u32 \<Rightarrow> u8 \<Rightarrow> FishingLoot" where
  "loot c item weight most = \<lparr>fl_item = item, fl_weight = weight, fl_min = 1, fl_max = most, fl_category = c\<rparr>"

definition loot_table :: "FishingLoot list" where
  "loot_table =
     [loot Fish 854 60 1, loot Fish 855 25 1, loot Fish 853 13 1, loot Fish 82 2 1,
      loot Junk 1051 15 1, loot Junk 844 10 1, loot Junk 835 10 1, loot Junk 836 10 1, loot Junk 81 5 3,
      loot Junk 829 5 2, loot Junk 841 2 1,
      loot Treasure 1045 5 1, loot Treasure 1043 4 1, loot Treasure 1042 4 1, loot Treasure 1000 2 1, loot Treasure 831 2 1]"

definition loot_weight :: "u8 \<Rightarrow> FishingLoot \<Rightarrow> u32" where
  "loot_weight luck l =
     (case fl_category l of
        Treasure \<Rightarrow> fl_weight l + ucast luck * 2
      | Junk \<Rightarrow> saturating_sub32 (fl_weight l) (ucast luck)
      | Fish \<Rightarrow> fl_weight l)"

definition simple_item :: "u32 \<Rightarrow> u8 \<Rightarrow> ItemStack" where
  "simple_item i count = new_stack (block i) count"

fun pick_loot :: "u8 \<Rightarrow> u32 \<Rightarrow> FishingLoot list \<Rightarrow> FishingLoot option" where
  "pick_loot luck roll [] = None"
| "pick_loot luck roll (l # ls) = (if roll < loot_weight luck l then Some l else pick_loot luck (roll - loot_weight luck l) ls)"

definition loot_count :: "u32 \<Rightarrow> FishingLoot \<Rightarrow> u8" where
  "loot_count random l =
     (if fl_min l = fl_max l then fl_min l else fl_min l + ucast (random mod ucast (fl_max l - fl_min l + 1)))"

definition roll_loot :: "u32 \<Rightarrow> u32 \<Rightarrow> u8 \<Rightarrow> FishingLoot list \<Rightarrow> ItemStack" where
  "roll_loot random random' luck table =
     (let candidates = filter (\<lambda>l. loot_weight luck l > 0) table;
          total = sum_list (map (loot_weight luck) candidates)
      in if total = 0 then simple_item 854 1
         else case pick_loot luck (random mod total) candidates of
           Some l \<Rightarrow> simple_item (fl_item l) (loot_count random' l)
         | None \<Rightarrow> simple_item 854 1)"

section \<open>The bobbers\<close>

record FishingManager =
  fm_bobbers :: "(i32 \<times> FishingState) list"
  fm_table :: "FishingLoot list"

definition new_fishing :: FishingManager where
  "new_fishing = \<lparr>fm_bobbers = [], fm_table = loot_table\<rparr>"

text \<open>The wait drawn for a bobber, from a number of 100 to 599.\<close>

definition bobber_wait :: "u32 \<Rightarrow> u8 \<Rightarrow> u32" where
  "bobber_wait random lure = max (saturating_sub32 (100 + random) (ucast lure * 100)) 20"

definition cast_bobber :: "u32 \<Rightarrow> i32 \<Rightarrow> f64 \<Rightarrow> f64 \<Rightarrow> f64 \<Rightarrow> u8 \<Rightarrow> FishingManager \<Rightarrow> FishingState \<times> FishingManager" where
  "cast_bobber random eid x y z lure m =
     (let st = \<lparr>fs_bobber_entity_id = eid, fs_wait_ticks = bobber_wait random lure, fs_bites = False, fs_x = x, fs_y = y, fs_z = z\<rparr>
      in (st, m\<lparr>fm_bobbers := AList.update eid st (fm_bobbers m)\<rparr>))"

definition reel_in :: "u32 \<Rightarrow> u32 \<Rightarrow> i32 \<Rightarrow> u8 \<Rightarrow> FishingManager \<Rightarrow> (ItemStack option \<times> bool) \<times> FishingManager" where
  "reel_in random random' eid luck m =
     (case map_of (fm_bobbers m) eid of
        None \<Rightarrow> ((None, False), m)
      | Some st \<Rightarrow>
          let m = m\<lparr>fm_bobbers := AList.delete eid (fm_bobbers m)\<rparr> in
          if \<not> fs_bites st then ((None, False), m)
          else ((Some (roll_loot random random' luck (fm_table m)), True), m))"

definition cancel_fishing :: "i32 \<Rightarrow> FishingManager \<Rightarrow> FishingManager" where
  "cancel_fishing eid m = m\<lparr>fm_bobbers := AList.delete eid (fm_bobbers m)\<rparr>"

definition get_bobber :: "i32 \<Rightarrow> FishingManager \<Rightarrow> FishingState option" where
  "get_bobber eid m = map_of (fm_bobbers m) eid"

datatype FishingTickEvent = Bite i32 | Expire i32

definition bobber_step :: "FishingState \<Rightarrow> FishingState" where
  "bobber_step st =
     (if fs_bites st then st
      else if fs_wait_ticks st > 0 then
        let st = st\<lparr>fs_wait_ticks := fs_wait_ticks st - 1\<rparr> in st\<lparr>fs_bites := fs_wait_ticks st = 0\<rparr>
      else st)"

definition now_bites :: "FishingState \<Rightarrow> bool" where
  "now_bites st \<longleftrightarrow> \<not> fs_bites st \<and> fs_bites (bobber_step st)"

text \<open>The list of bobbers that have expired is never filled.\<close>

definition tick_fishing :: "FishingManager \<Rightarrow> FishingTickEvent list \<times> FishingManager" where
  "tick_fishing m =
     (let to_bite = map fst (filter (\<lambda>(eid, st). now_bites st) (fm_bobbers m)); to_expire = [] :: i32 list;
          bobbers = map (\<lambda>(eid, st). (eid, bobber_step st)) (fm_bobbers m)
      in (map Bite to_bite @ map Expire to_expire,
          m\<lparr>fm_bobbers := fold AList.delete to_expire bobbers\<rparr>))"

section \<open>Every catch is in the table\<close>

lemma unat_sum_list:
  fixes f :: "'a \<Rightarrow> u32"
  assumes "(\<Sum>x\<leftarrow>xs. unat (f x)) < 2 ^ 32"
  shows "unat (sum_list (map f xs)) = (\<Sum>x\<leftarrow>xs. unat (f x))"
  using assms by (induction xs) (simp_all add: unat_word_ariths)

lemma pick_loot_found:
  "unat roll < (\<Sum>l\<leftarrow>ls. unat (loot_weight luck l)) \<Longrightarrow> \<exists>l \<in> set ls. pick_loot luck roll ls = Some l"
proof (induction ls arbitrary: roll)
  case (Cons l ls)
  show ?case
  proof (cases "roll < loot_weight luck l")
    case False
    then have "unat (roll - loot_weight luck l) < (\<Sum>l\<leftarrow>ls. unat (loot_weight luck l))"
      using Cons.prems by (auto simp: unat_sub not_less word_le_nat_alt)
    then show ?thesis
      using Cons.IH False by auto
  qed simp
qed simp

lemma loot_weight_bound: "fl_weight l \<le> 60 \<Longrightarrow> unat (loot_weight luck l) \<le> 600"
proof -
  assume le: "fl_weight l \<le> 60"
  have "unat (ucast luck :: u32) < 256"
    using unsigned_less [where 'a = nat, of luck] by (simp add: unsigned_ucast_eq take_bit_nat_eq_self)
  then show ?thesis
    using le by (cases "fl_category l") (auto simp: loot_weight_def saturating_sub32_def word_le_nat_alt word_less_nat_alt unat_word_ariths unat_sub)
qed

lemma table_weights: "l \<in> set loot_table \<Longrightarrow> fl_weight l \<le> 60"
  by (auto simp: loot_table_def loot_def)

lemma sum_bound: "(\<And>x. x \<in> set xs \<Longrightarrow> f x \<le> (k :: nat)) \<Longrightarrow> (\<Sum>x\<leftarrow>xs. f x) \<le> k * length xs"
  by (induction xs) (simp_all add: add_le_mono)

lemma roll_finds:
  assumes "table \<noteq> []" "length table \<le> 16" "\<And>l. l \<in> set table \<Longrightarrow> fl_weight l \<le> 60 \<and> loot_weight luck l > 0"
  shows "\<exists>l \<in> set table. roll_loot random random' luck table = simple_item (fl_item l) (loot_count random' l)"
proof -
  let ?sum = "\<Sum>l\<leftarrow>table. unat (loot_weight luck l)"
  have "?sum \<le> 600 * length table"
    by (rule sum_bound) (use assms(3) loot_weight_bound in blast)
  then have "?sum < 2 ^ 32"
    using assms(2) by simp
  then have total: "unat (sum_list (map (loot_weight luck) table)) = ?sum"
    by (rule unat_sum_list)
  obtain l where "l \<in> set table"
    using assms(1) by (cases table) auto
  then have "0 < ?sum"
    using assms(3) [of l] member_le_sum_list [of "unat (loot_weight luck l)" "map (\<lambda>l. unat (loot_weight luck l)) table"]
    by (auto simp: word_less_nat_alt)
  then have "unat (random mod sum_list (map (loot_weight luck) table)) < ?sum"
    by (simp add: total unat_mod)
  moreover have "sum_list (map (loot_weight luck) table) \<noteq> 0"
    using total \<open>0 < ?sum\<close> by (metis less_numeral_extra(3) unsigned_0)
  moreover have "filter (\<lambda>l. loot_weight luck l > 0) table = table"
    using assms(3) by (simp add: filter_id_conv)
  ultimately show ?thesis
    using pick_loot_found [of "random mod sum_list (map (loot_weight luck) table)" luck table]
    by (auto simp: roll_loot_def Let_def)
qed

lemma roll_filtered: "roll_loot random random' luck (filter (\<lambda>l. loot_weight luck l > 0) table) = roll_loot random random' luck table"
  by (simp add: roll_loot_def)

lemma small_draw:
  fixes k :: u32
  assumes "0 < k" "k \<le> 3"
  shows "1 \<le> (1 + ucast (random mod k) :: u8) \<and> (1 + ucast (random mod k) :: u8) \<le> ucast k"
proof -
  have k: "0 < unat k" "unat k \<le> 3" "unat (random mod k) < unat k"
    using assms by (simp_all add: word_less_nat_alt word_le_nat_alt unat_mod)
  have "unat (ucast (random mod k) :: u8) = unat (random mod k)" "unat (ucast k :: u8) = unat k"
    using k by (simp_all add: unsigned_ucast_eq take_bit_nat_eq_self)
  then show ?thesis
    using k by (simp add: word_le_nat_alt unat_word_ariths)
qed

lemma counts_in_range:
  assumes "l \<in> set loot_table"
  shows "fl_min l \<le> loot_count random l \<and> loot_count random l \<le> fl_max l"
proof -
  have "fl_min l = 1 \<and> (fl_max l = 1 \<or> fl_max l = 2 \<or> fl_max l = 3)"
    using assms by (auto simp: loot_table_def loot_def)
  then show ?thesis
    using small_draw [of 2 random] small_draw [of 3 random] by (auto simp: loot_count_def)
qed

text \<open>C0. Whatever the luck and the random numbers, what a player reels in is an entry of the loot table whose weight is not zero for that luck, in a
number that the entry allows; the cod kept for an empty table or a roll past its end never appears on its own.\<close>

theorem catch_is_in_table:
  "\<exists>l. l \<in> set loot_table \<and> loot_weight luck l > 0 \<and>
    roll_loot random random' luck loot_table = simple_item (fl_item l) (loot_count random' l) \<and>
    fl_min l \<le> loot_count random' l \<and> loot_count random' l \<le> fl_max l"
proof -
  let ?table = "filter (\<lambda>l. loot_weight luck l > 0) loot_table"
  have "loot Fish 854 60 1 \<in> set loot_table" "loot_weight luck (loot Fish 854 60 1) = 60"
    by (simp_all add: loot_table_def loot_weight_def) (simp_all add: loot_def)
  then have "loot Fish 854 60 1 \<in> set ?table"
    by simp
  then have "?table \<noteq> []"
    by (metis empty_iff list.set(1))
  moreover have "length ?table \<le> 16"
    using length_filter_le [of "\<lambda>l. loot_weight luck l > 0" loot_table] by (simp add: loot_table_def)
  ultimately have "\<exists>l \<in> set ?table. roll_loot random random' luck ?table = simple_item (fl_item l) (loot_count random' l)"
    by (rule roll_finds) (use table_weights in auto)
  then show ?thesis
    using counts_in_range by (auto simp: roll_filtered)
qed

section \<open>When a bobber bites\<close>

lemma bobber_after_tick: "get_bobber eid (snd (tick_fishing m)) = map_option bobber_step (get_bobber eid m)"
  by (simp add: get_bobber_def tick_fishing_def map_of_map)

lemma bobber_after_ticks:
  "get_bobber eid (((\<lambda>m. snd (tick_fishing m)) ^^ n) m) = map_option (bobber_step ^^ n) (get_bobber eid m)"
  by (induction n) (simp_all add: bobber_after_tick option.map_comp comp_def option.map_ident)

lemma bobber_counts:
  assumes "\<not> fs_bites st" "n \<le> unat (fs_wait_ticks st)" "0 < unat (fs_wait_ticks st)"
  shows "(bobber_step ^^ n) st = st\<lparr>fs_wait_ticks := fs_wait_ticks st - word_of_nat n, fs_bites := n = unat (fs_wait_ticks st)\<rparr>"
  using assms(2)
proof (induction n)
  case 0
  then show ?case
    using assms by (cases st) simp
next
  case (Suc n)
  have small: "unat (word_of_nat n :: u32) = n"
    using Suc.prems unsigned_less [where 'a = nat, of "fs_wait_ticks st"] by (simp add: unat_of_nat)
  have left: "unat (fs_wait_ticks st - word_of_nat n) = unat (fs_wait_ticks st) - n"
    using Suc.prems small by (subst unat_sub) (simp_all add: word_le_nat_alt)
  have "unat (fs_wait_ticks st - word_of_nat n - 1) = unat (fs_wait_ticks st) - Suc n"
    using Suc.prems left by (subst unat_sub) (simp_all add: word_le_nat_alt)
  then have "fs_wait_ticks st - word_of_nat n - 1 = 0 \<longleftrightarrow> Suc n = unat (fs_wait_ticks st)"
    using Suc.prems by (auto simp: unat_eq_zero [symmetric] simp del: unat_eq_zero)
  moreover have "0 < fs_wait_ticks st - word_of_nat n"
    using Suc.prems left by (simp add: word_less_nat_alt)
  ultimately show ?case
    using Suc by (simp add: bobber_step_def Let_def algebra_simps)
qed

lemma bites_for_good: "fs_bites st \<Longrightarrow> (bobber_step ^^ n) st = st"
  by (induction n) (simp_all add: bobber_step_def)

lemma bobber_wait_range:
  "20 \<le> unat (bobber_wait random lure)"
  by (simp add: bobber_wait_def max_def word_le_nat_alt)

text \<open>C0. A bobber that is cast bites at exactly the tick that was drawn for it, at the twentieth at the earliest, and then waits for its
player however long it takes: no bobber ever expires.\<close>

theorem bobber_bites_on_time:
  assumes "cast_bobber random eid x y z lure m = (st, m')"
  shows "20 \<le> unat (bobber_wait random lure) \<and>
    map_option fs_bites (get_bobber eid (((\<lambda>m. snd (tick_fishing m)) ^^ n) m')) = Some (unat (bobber_wait random lure) \<le> n) \<and>
    Expire e \<notin> set (fst (tick_fishing m'))"
proof -
  let ?wait = "unat (bobber_wait random lure)"
  have st: "get_bobber eid m' = Some st" "\<not> fs_bites st" "fs_wait_ticks st = bobber_wait random lure"
    using assms by (auto simp: cast_bobber_def get_bobber_def Let_def update_conv')
  have wait: "20 \<le> ?wait"
    by (rule bobber_wait_range)
  have "fs_bites ((bobber_step ^^ n) st) \<longleftrightarrow> ?wait \<le> n"
  proof (cases "n \<le> ?wait")
    case True
    then show ?thesis
      using bobber_counts [OF st(2), of n] st(3) wait by auto
  next
    case False
    have "fs_bites ((bobber_step ^^ ?wait) st)"
      using bobber_counts [OF st(2), of ?wait] st(3) wait by simp
    then have "(bobber_step ^^ (n - ?wait)) ((bobber_step ^^ ?wait) st) = (bobber_step ^^ ?wait) st"
      by (rule bites_for_good)
    then have "(bobber_step ^^ n) st = (bobber_step ^^ ?wait) st"
      using False funpow_add [of "n - ?wait" ?wait bobber_step] by simp
    then show ?thesis
      using False \<open>fs_bites ((bobber_step ^^ ?wait) st)\<close> by simp
  qed
  moreover have "Expire e \<notin> set (fst (tick_fishing m'))"
    by (auto simp: tick_fishing_def)
  ultimately show ?thesis
    using wait by (simp add: bobber_after_ticks st(1))
qed

theorem bobber_bites_on_time_witness:
  "map_option fs_bites (get_bobber 7 (((\<lambda>m. snd (tick_fishing m)) ^^ 300) (snd (cast_bobber 200 7 0 0 0 0 new_fishing)))) = Some True \<and>
   map_option fs_bites (get_bobber 7 (((\<lambda>m. snd (tick_fishing m)) ^^ 299) (snd (cast_bobber 200 7 0 0 0 0 new_fishing)))) = Some False"
proof -
  have wait: "unat (bobber_wait 200 0) = 300"
    by (simp add: bobber_wait_def saturating_sub32_def)
  show ?thesis
    using bobber_bites_on_time [of 200 7 0 0 0 0 new_fishing "fst (cast_bobber 200 7 0 0 0 0 new_fishing)"
        "snd (cast_bobber 200 7 0 0 0 0 new_fishing)" 300 0]
      bobber_bites_on_time [of 200 7 0 0 0 0 new_fishing "fst (cast_bobber 200 7 0 0 0 0 new_fishing)"
        "snd (cast_bobber 200 7 0 0 0 0 new_fishing)" 299 0]
    by (simp add: wait del: funpow.simps)
qed

end
