(* ===== verification/Villagers.thy ===== *)
theory Villagers
  imports Players Inventory Floats ServerState "HOL-Library.AList"
begin

text \<open>
  Villagers, \<open>mc-player/src/villager.rs\<close>: professions and their offers, levels and restocking, and the gossip
  from which prices follow. The global gossip is an association list by the number of the villager.

  Shown: what a villager remembers of a player after some trades or hurts, and when a player can pay an offer.
\<close>

section \<open>Offers\<close>

record TradeOffer =
  to_input_item :: u32
  to_input_count :: u8
  to_input_item2 :: "u32 option"
  to_input_count2 :: "u8 option"
  to_output_item :: u32
  to_output_count :: u8
  to_max_uses :: u8
  to_uses :: u8
  to_required_level :: u8

datatype Profession =
  Farmer | Librarian | Blacksmith | Butcher | Cleric | Armorer | Weaponsmith | Toolsmith | Fletcher | Shepherd | Leatherworker
  | Mason | Cartographer | Fisherman

definition profession_from_id :: "i32 \<Rightarrow> Profession" where
  "profession_from_id i =
     (if i = 0 then Farmer else if i = 1 then Librarian else if i = 2 then Blacksmith else if i = 3 then Butcher
      else if i = 4 then Cleric else if i = 5 then Armorer else if i = 6 then Weaponsmith else if i = 7 then Toolsmith
      else if i = 8 then Fletcher else if i = 9 then Shepherd else if i = 10 then Leatherworker else if i = 11 then Mason
      else if i = 12 then Cartographer else Fisherman)"

definition profession_name :: "Profession \<Rightarrow> string" where
  "profession_name p =
     (case p of Farmer \<Rightarrow> ''Farmer'' | Librarian \<Rightarrow> ''Librarian'' | Blacksmith \<Rightarrow> ''Blacksmith'' | Butcher \<Rightarrow> ''Butcher''
      | Cleric \<Rightarrow> ''Cleric'' | Armorer \<Rightarrow> ''Armorer'' | Weaponsmith \<Rightarrow> ''Weaponsmith'' | Toolsmith \<Rightarrow> ''Toolsmith''
      | Fletcher \<Rightarrow> ''Fletcher'' | Shepherd \<Rightarrow> ''Shepherd'' | Leatherworker \<Rightarrow> ''Leatherworker'' | Mason \<Rightarrow> ''Mason''
      | Cartographer \<Rightarrow> ''Cartographer'' | Fisherman \<Rightarrow> ''Fisherman'')"

text \<open>An offer: what is asked, the second thing asked, what is given, how often and from which level.\<close>

definition trade_offer :: "u32 \<Rightarrow> u8 \<Rightarrow> u32 option \<Rightarrow> u8 option \<Rightarrow> u32 \<Rightarrow> u8 \<Rightarrow> u8 \<Rightarrow> u8 \<Rightarrow> TradeOffer" where
  "trade_offer i n i2 n2 out k uses level =
     \<lparr>to_input_item = i, to_input_count = n, to_input_item2 = i2, to_input_count2 = n2, to_output_item = out,
      to_output_count = k, to_max_uses = uses, to_uses = 0, to_required_level = level\<rparr>"

definition profession_trades :: "Profession \<Rightarrow> TradeOffer list" where
  "profession_trades p =
     (case p of
        Farmer \<Rightarrow>
         [trade_offer 809 20 None None 839 1 16 1,
          trade_offer 839 1 None None 810 6 12 1,
          trade_offer 124 6 None None 839 1 12 2,
          trade_offer 839 1 None None 880 1 12 2,
          trade_offer 839 3 None None 871 3 12 3]
      | Librarian \<Rightarrow>
         [trade_offer 891 24 None None 839 1 16 1,
          trade_offer 839 5 (Some 892) (Some 1) 1050 1 12 1,
          trade_offer 839 1 None None 105 1 12 2,
          trade_offer 839 4 None None 893 1 12 3]
      | Blacksmith \<Rightarrow>
         [trade_offer 775 15 None None 839 1 16 1,
          trade_offer 839 3 None None 780 1 12 2,
          trade_offer 839 8 None None 792 1 8 3]
      | Weaponsmith \<Rightarrow>
         [trade_offer 775 15 None None 839 1 16 1,
          trade_offer 839 3 None None 780 1 12 2,
          trade_offer 839 8 None None 792 1 8 3]
      | Armorer \<Rightarrow>
         [trade_offer 775 15 None None 839 1 16 1,
          trade_offer 839 4 None None 820 1 12 2,
          trade_offer 839 10 None None 824 1 8 3]
      | Toolsmith \<Rightarrow>
         [trade_offer 775 15 None None 839 1 16 1,
          trade_offer 839 3 None None 769 1 12 2,
          trade_offer 839 8 None None 790 1 8 3]
      | Butcher \<Rightarrow>
         [trade_offer 863 14 None None 839 1 16 1,
          trade_offer 859 10 None None 839 1 16 1,
          trade_offer 839 1 None None 858 5 12 2]
      | Cleric \<Rightarrow>
         [trade_offer 903 32 None None 839 1 16 1,
          trade_offer 839 1 None None 993 2 12 1,
          trade_offer 839 5 None None 908 1 12 2,
          trade_offer 839 3 None None 903 1 12 3]
      | Fletcher \<Rightarrow>
         [trade_offer 794 32 None None 839 1 16 1,
          trade_offer 839 1 None None 774 16 12 1,
          trade_offer 838 14 None None 839 1 16 2,
          trade_offer 839 2 None None 773 1 8 2]
      | Shepherd \<Rightarrow>
         [trade_offer 64 18 None None 839 1 16 1,
          trade_offer 839 2 None None 845 1 12 1,
          trade_offer 839 1 None None 64 1 12 2,
          trade_offer 839 1 None None 60 1 12 3]
      | Leatherworker \<Rightarrow>
         [trade_offer 831 6 None None 839 1 16 1,
          trade_offer 839 3 None None 814 1 12 2,
          trade_offer 839 5 None None 812 1 12 3]
      | Mason \<Rightarrow>
         [trade_offer 72 10 None None 839 1 16 1,
          trade_offer 839 1 None None 250 10 12 1,
          trade_offer 1 20 None None 839 1 16 2,
          trade_offer 839 1 None None 155 1 12 3]
      | Cartographer \<Rightarrow>
         [trade_offer 891 24 None None 839 1 16 1,
          trade_offer 839 7 (Some 894) (Some 1) 895 1 12 2,
          trade_offer 839 3 None None 898 1 12 3]
      | Fisherman \<Rightarrow>
         [trade_offer 838 20 None None 839 1 16 1,
          trade_offer 875 6 None None 839 1 16 1,
          trade_offer 839 1 None None 874 6 12 2,
          trade_offer 839 6 None None 844 1 8 3])"

definition get_trade_offers :: "i32 \<Rightarrow> TradeOffer list" where
  "get_trade_offers i = profession_trades (profession_from_id i)"

definition pay_with :: "TradeOffer \<Rightarrow> ItemStack \<Rightarrow> u32 \<times> u32 \<Rightarrow> u32 \<times> u32" where
  "pay_with offer st needed =
     (if bs_id (it_item st) = to_input_item offer then saturating_sub32 (fst needed) (ucast (it_count st)) else fst needed,
      if Some (bs_id (it_item st)) = to_input_item2 offer then saturating_sub32 (snd needed) (ucast (it_count st)) else snd needed)"

definition can_trade :: "TradeOffer \<Rightarrow> ItemStack option list \<Rightarrow> bool" where
  "can_trade offer inventory =
     (fold (pay_with offer) (List.map_filter id inventory)
        (ucast (to_input_count offer), case to_input_count2 offer of Some n \<Rightarrow> ucast n | None \<Rightarrow> 0) = (0, 0))"

section \<open>Levels\<close>

record VillagerData =
  vd_profession :: u8
  vd_level :: u8
  vd_xp :: u32
  vd_restock_timer :: u32
  vd_last_work_tick :: u64

definition new_villager :: "u8 \<Rightarrow> VillagerData" where
  "new_villager p = \<lparr>vd_profession = p, vd_level = 1, vd_xp = 0, vd_restock_timer = 0, vd_last_work_tick = 0\<rparr>"

definition villager_add_xp :: "u32 \<Rightarrow> VillagerData \<Rightarrow> bool \<times> VillagerData" where
  "villager_add_xp amount v =
     (let v = v\<lparr>vd_xp := vd_xp v + amount\<rparr> in
      if vd_xp v \<ge> ucast (vd_level v) * 10 \<and> vd_level v < 5 then (True, v\<lparr>vd_level := vd_level v + 1, vd_xp := 0\<rparr>)
      else (False, v))"

definition tick_restock :: "u64 \<Rightarrow> VillagerData \<Rightarrow> bool \<times> VillagerData" where
  "tick_restock now v =
     (if vd_restock_timer v > 0 then (False, v\<lparr>vd_restock_timer := saturating_sub32 (vd_restock_timer v) 1\<rparr>)
      else
        let v = v\<lparr>vd_restock_timer := 12000\<rparr> in
        if now - vd_last_work_tick v \<ge> 2400 then (True, v\<lparr>vd_last_work_tick := now\<rparr>) else (False, v))"

definition restock_amount :: "VillagerData \<Rightarrow> u8" where
  "restock_amount v = (if vd_level v \<in> {1, 2} then 2 else if vd_level v \<in> {3, 4} then 3 else 4)"

section \<open>Gossip\<close>

datatype GossipType = MajorPositive | MinorPositive | Trade | MinorNegative | MajorNegative

fun gossip_base :: "GossipType \<Rightarrow> i32" where
  "gossip_base MajorPositive = 20"
| "gossip_base MinorPositive = 1"
| "gossip_base Trade = 1"
| "gossip_base MinorNegative = - 1"
| "gossip_base MajorNegative = - 25"

fun gossip_decay :: "GossipType \<Rightarrow> u32" where
  "gossip_decay MajorPositive = 24000"
| "gossip_decay MinorPositive = 6000"
| "gossip_decay Trade = 1200"
| "gossip_decay MinorNegative = 6000"
| "gossip_decay MajorNegative = 24000"

fun gossip_max :: "GossipType \<Rightarrow> i32" where
  "gossip_max MajorPositive = 100"
| "gossip_max Trade = 200"
| "gossip_max _ = 25"

record GossipEntry =
  ge_target :: uuid
  ge_type :: GossipType
  ge_value :: i32
  ge_age :: u32

type_synonym VillagerGossip = "GossipEntry list"

definition smin :: "i32 \<Rightarrow> i32 \<Rightarrow> i32" where
  "smin a b = (if b <s a then b else a)"

definition smax :: "i32 \<Rightarrow> i32 \<Rightarrow> i32" where
  "smax a b = (if a <s b then b else a)"

fun update_first :: "('a \<Rightarrow> bool) \<Rightarrow> ('a \<Rightarrow> 'a) \<Rightarrow> 'a list \<Rightarrow> 'a list option" where
  "update_first P f [] = None"
| "update_first P f (x # xs) = (if P x then Some (f x # xs) else map_option ((#) x) (update_first P f xs))"

definition add_gossip :: "uuid \<Rightarrow> GossipType \<Rightarrow> VillagerGossip \<Rightarrow> VillagerGossip" where
  "add_gossip u t g =
     (case update_first (\<lambda>e. ge_target e = u \<and> ge_type e = t)
             (\<lambda>e. e\<lparr>ge_value := smin (ge_value e + gossip_base t) (gossip_max t), ge_age := 0\<rparr>) g of
        Some g \<Rightarrow> g
      | None \<Rightarrow> g @ [\<lparr>ge_target = u, ge_type = t, ge_value = smin (smax (gossip_base t) 0) (gossip_max t), ge_age = 0\<rparr>])"

definition gossip_kept :: "GossipEntry \<Rightarrow> bool" where
  "gossip_kept e \<longleftrightarrow> ge_age e < gossip_decay (ge_type e) * 2 \<and> 2 <s i32_abs (ge_value e)"

definition tick_gossip :: "VillagerGossip \<Rightarrow> VillagerGossip" where
  "tick_gossip g = filter gossip_kept (map (\<lambda>e. e\<lparr>ge_age := saturating_inc32 (ge_age e)\<rparr>) g)"

definition reputation_for :: "uuid \<Rightarrow> VillagerGossip \<Rightarrow> i32" where
  "reputation_for u g = sum_list (map ge_value (filter (\<lambda>e. ge_target e = u) g))"

definition trade_discount :: "uuid \<Rightarrow> VillagerGossip \<Rightarrow> f64" where
  "trade_discount u g =
     (let rep = reputation_for u g in
      if 0 <s rep then fmin (fmul (float_of_signed rep) (flit 1 100)) (flit 3 10)
      else if rep <s 0 then fmax (fmul (float_of_signed rep) (flit 2 100)) (flit (- 5) 10)
      else 0)"

definition spread_to :: "VillagerGossip \<Rightarrow> VillagerGossip \<Rightarrow> VillagerGossip" where
  "spread_to g other =
     fold (\<lambda>e other. if ge_type e = Trade \<or> ge_type e = MinorPositive then add_gossip (ge_target e) Trade other else other) g other"

type_synonym GossipManager = "(i32 \<times> VillagerGossip) list"

definition gossip_of :: "i32 \<Rightarrow> GossipManager \<Rightarrow> VillagerGossip" where
  "gossip_of eid gm = (case map_of gm eid of Some g \<Rightarrow> g | None \<Rightarrow> [])"

definition tick_gossips :: "GossipManager \<Rightarrow> GossipManager" where
  "tick_gossips gm = map (\<lambda>(eid, g). (eid, tick_gossip g)) gm"

definition record_trade :: "i32 \<Rightarrow> uuid \<Rightarrow> GossipManager \<Rightarrow> GossipManager" where
  "record_trade eid u gm = AList.update eid (add_gossip u MinorPositive (add_gossip u Trade (gossip_of eid gm))) gm"

definition record_villager_hurt :: "i32 \<Rightarrow> uuid \<Rightarrow> GossipManager \<Rightarrow> GossipManager" where
  "record_villager_hurt eid u gm = AList.update eid (add_gossip u MinorNegative (gossip_of eid gm)) gm"

section \<open>What is remembered\<close>

lemma gossip_of_update [simp]: "gossip_of eid (AList.update eid g gm) = g"
  by (simp add: gossip_of_def update_conv')

lemma gossip_of_tick [simp]: "gossip_of eid (tick_gossips gm) = tick_gossip (gossip_of eid gm)"
  by (simp add: gossip_of_def tick_gossips_def map_of_map tick_gossip_def split: option.split)

lemma sint_small: "- 1000 \<le> k \<Longrightarrow> k \<le> 1000 \<Longrightarrow> sint (word_of_int k :: i32) = k"
  by (simp add: signed_of_int signed_take_bit_int_eq_self)

lemma kept_small: "- 1000 \<le> k \<Longrightarrow> k \<le> 1000 \<Longrightarrow> 2 <s i32_abs (word_of_int k) \<longleftrightarrow> 2 < \<bar>k\<bar>"
  using sint_small [of k] sint_small [of "- k"] by (auto simp: i32_abs_def word_sless_alt)

definition entry :: "uuid \<Rightarrow> GossipType \<Rightarrow> int \<Rightarrow> GossipEntry" where
  "entry u t k = \<lparr>ge_target = u, ge_type = t, ge_value = word_of_int k, ge_age = 0\<rparr>"

lemma entry_simps [simp]:
  "ge_target (entry u t k) = u" "ge_type (entry u t k) = t" "ge_value (entry u t k) = word_of_int k" "ge_age (entry u t k) = 0"
  by (simp_all add: entry_def)

lemma smin_small: "- 1000 \<le> k \<Longrightarrow> k < 1000 \<Longrightarrow> 0 \<le> m \<Longrightarrow> m \<le> 1000 \<Longrightarrow> smin (word_of_int k) (word_of_int m) = word_of_int (min k m)"
  using sint_small [of k] sint_small [of m] by (auto simp: smin_def word_sless_alt min_def)

lemma add_new_gossip:
  "add_gossip u Trade [] = [entry u Trade 1]"
  "add_gossip u MinorNegative [] = [entry u MinorNegative 0]"
  "add_gossip u MinorPositive [entry u Trade k] = [entry u Trade k, entry u MinorPositive 1]"
  by (simp_all add: add_gossip_def entry_def smin_def smax_def word_sless_alt)

lemma add_to_gossip:
  assumes "- 1000 \<le> k + sint (gossip_base t)" "k + sint (gossip_base t) < 1000" "ge_type e \<noteq> t"
  shows "add_gossip u t (entry u t k # g) = entry u t (min (k + sint (gossip_base t)) (sint (gossip_max t))) # g"
    and "add_gossip u t (e # entry u t k # g) = e # entry u t (min (k + sint (gossip_base t)) (sint (gossip_max t))) # g"
proof -
  have "smin (word_of_int k + gossip_base t) (gossip_max t) = word_of_int (min (k + sint (gossip_base t)) (sint (gossip_max t)))"
    using smin_small [of "k + sint (gossip_base t)" "sint (gossip_max t)"] assms(1,2)
    by (cases t) simp_all
  then show "add_gossip u t (entry u t k # g) = entry u t (min (k + sint (gossip_base t)) (sint (gossip_max t))) # g"
    and "add_gossip u t (e # entry u t k # g) = e # entry u t (min (k + sint (gossip_base t)) (sint (gossip_max t))) # g"
    using assms(3) by (simp_all add: add_gossip_def entry_def)
qed

lemma trades_recorded:
  assumes "gossip_of eid gm = []"
  shows "gossip_of eid ((record_trade eid u ^^ Suc n) gm)
    = [entry u Trade (min (int (Suc n)) 200), entry u MinorPositive (min (int (Suc n)) 25)]"
proof (induction n)
  case 0
  then show ?case
    using assms by (simp add: record_trade_def add_new_gossip)
next
  case (Suc n)
  let ?n = "int (Suc n)"
  have "gossip_of eid ((record_trade eid u ^^ Suc (Suc n)) gm)
      = add_gossip u MinorPositive (add_gossip u Trade (gossip_of eid ((record_trade eid u ^^ Suc n) gm)))"
    by (simp add: record_trade_def)
  also have "\<dots> = add_gossip u MinorPositive (entry u Trade (min (?n + 1) 200) # [entry u MinorPositive (min ?n 25)])"
  proof -
    have "min (min ?n 200 + 1) 200 = min (?n + 1) 200"
      by simp
    then show ?thesis
      unfolding Suc.IH using add_to_gossip(1) [of "min ?n 200" Trade "entry u MinorPositive (min ?n 25)" u] by simp
  qed
  also have "\<dots> = [entry u Trade (min (?n + 1) 200), entry u MinorPositive (min (?n + 1) 25)]"
  proof -
    have "min (min ?n 25 + 1) 25 = min (?n + 1) 25"
      by simp
    then show ?thesis
      using add_to_gossip(2) [of "min ?n 25" MinorPositive "entry u Trade (min (?n + 1) 200)" u "[]"] by simp
  qed
  finally show ?case
    by simp
qed

lemma hurts_recorded:
  assumes "gossip_of eid gm = []" and "n < 900"
  shows "gossip_of eid ((record_villager_hurt eid u ^^ Suc n) gm) = [entry u MinorNegative (- int n)]"
  using assms(2)
proof (induction n)
  case 0
  then show ?case
    using assms(1) by (simp add: record_villager_hurt_def add_new_gossip)
next
  case (Suc n)
  have "gossip_of eid ((record_villager_hurt eid u ^^ Suc (Suc n)) gm)
      = add_gossip u MinorNegative (gossip_of eid ((record_villager_hurt eid u ^^ Suc n) gm))"
    by (simp add: record_villager_hurt_def)
  also have "\<dots> = [entry u MinorNegative (- int n - 1)]"
    using Suc add_to_gossip(1) [of "- int n" MinorNegative "entry u Trade 0" u "[]"] by simp
  finally show ?case
    by simp
qed

lemma tick_entry: "tick_gossip (map (\<lambda>(t, k). entry u t k) tks) = map (\<lambda>(t, k). entry u t k\<lparr>ge_age := 1\<rparr>)
    (filter (\<lambda>(t, k). 2 <s i32_abs (word_of_int k)) tks)"
proof -
  have "gossip_kept (entry u t k\<lparr>ge_age := 1\<rparr>) \<longleftrightarrow> 2 <s i32_abs (word_of_int k)" for t k
    by (cases t) (simp_all add: gossip_kept_def)
  then show ?thesis
    by (induction tks) (simp_all add: tick_gossip_def saturating_inc32_def split: prod.split)
qed

lemma trades_kept:
  "reputation_for u (tick_gossip [entry u Trade (min (int n) 200), entry u MinorPositive (min (int n) 25)])
    = (if n \<le> 2 then 0 else word_of_nat (min n 200 + min n 25))"
proof -
  have int: "min (int n) 200 = int (min n 200)" "min (int n) 25 = int (min n 25)"
    by simp_all
  have "2 <s i32_abs (word_of_nat (min n 200)) \<longleftrightarrow> 2 < n" "2 <s i32_abs (word_of_nat (min n 25)) \<longleftrightarrow> 2 < n"
    using kept_small [of "int (min n 200)"] kept_small [of "int (min n 25)"] by simp_all
  then have "tick_gossip [entry u Trade (int (min n 200)), entry u MinorPositive (int (min n 25))]
      = (if n \<le> 2 then [] else [entry u Trade (int (min n 200))\<lparr>ge_age := 1\<rparr>, entry u MinorPositive (int (min n 25))\<lparr>ge_age := 1\<rparr>])"
    using tick_entry [of u "[(Trade, int (min n 200)), (MinorPositive, int (min n 25))]"]
    by (cases "n \<le> 2") (simp_all del: of_nat_min)
  then show ?thesis
    unfolding int by (simp add: reputation_for_def del: of_nat_min)
qed

lemma hurts_kept:
  "n < 900 \<Longrightarrow> reputation_for u (tick_gossip [entry u MinorNegative (- int n)]) = (if n \<le> 2 then 0 else - word_of_nat n)"
  using tick_entry [of u "[(MinorNegative, - int n)]"] kept_small [of "- int n"] by (simp add: reputation_for_def)

text \<open>C0. A villager who does not know a player forgets one or two trades, and up to three hurts, at its next tick of gossip; only from the
third trade and the fourth hurt between two ticks on does anything stay, and a hurt counts one less than it should.\<close>

theorem gossip_needs_three_trades:
  assumes "gossip_of eid gm = []" "n < 900"
  shows "reputation_for u (gossip_of eid (tick_gossips ((record_trade eid u ^^ Suc n) gm)))
      = (if Suc n \<le> 2 then 0 else word_of_nat (min (Suc n) 200 + min (Suc n) 25)) \<and>
    reputation_for u (gossip_of eid (tick_gossips ((record_villager_hurt eid u ^^ Suc n) gm)))
      = (if Suc n \<le> 3 then 0 else - word_of_nat n)"
  using trades_kept [of u "Suc n"] hurts_kept [OF assms(2), of u]
  by (simp only: gossip_of_tick trades_recorded [OF assms(1)] hurts_recorded [OF assms]) auto

theorem gossip_needs_three_trades_witness:
  "reputation_for 5 (gossip_of 8 (tick_gossips ((record_trade 8 5 ^^ Suc 1) []))) = 0"
  using gossip_needs_three_trades [of 8 "[]" 1 5] by (simp add: gossip_of_def del: funpow.simps)

section \<open>Who can pay\<close>

definition count_of :: "u32 \<Rightarrow> ItemStack option list \<Rightarrow> nat" where
  "count_of i inventory = (\<Sum>st\<leftarrow>List.map_filter id inventory. if bs_id (it_item st) = i then unat (it_count st) else 0)"

lemma pay_fold:
  "unat (fst (fold (pay_with offer) sts needed))
      = unat (fst needed) - (\<Sum>st\<leftarrow>sts. if bs_id (it_item st) = to_input_item offer then unat (it_count st) else 0) \<and>
   unat (snd (fold (pay_with offer) sts needed))
      = unat (snd needed) - (\<Sum>st\<leftarrow>sts. if Some (bs_id (it_item st)) = to_input_item2 offer then unat (it_count st) else 0)"
  by (induction sts arbitrary: needed)
    (auto simp: pay_with_def saturating_sub32_unat unsigned_ucast_eq take_bit_nat_eq_self order_less_trans [OF unsigned_less])

text \<open>C0. A player can pay an offer exactly when the stacks of the inventory hold, together, as many of each thing as the offer asks for.\<close>

theorem can_trade_iff:
  "can_trade offer inventory \<longleftrightarrow>
    unat (to_input_count offer) \<le> count_of (to_input_item offer) inventory \<and>
    (case to_input_count2 offer of None \<Rightarrow> True | Some n \<Rightarrow>
       unat n \<le> (case to_input_item2 offer of Some i \<Rightarrow> count_of i inventory | None \<Rightarrow> 0))"
proof -
  have unat8: "unat (ucast (n :: u8) :: u32) = unat n" for n
    by (simp add: unsigned_ucast_eq take_bit_nat_eq_self order_less_trans [OF unsigned_less])
  let ?r = "fold (pay_with offer) (List.map_filter id inventory)
    (ucast (to_input_count offer), case to_input_count2 offer of Some n \<Rightarrow> ucast n | None \<Rightarrow> 0)"
  have "can_trade offer inventory \<longleftrightarrow> unat (fst ?r) = 0 \<and> unat (snd ?r) = 0"
    by (cases ?r) (auto simp: can_trade_def unat_eq_zero)
  then show ?thesis
    unfolding pay_fold [THEN conjunct1] pay_fold [THEN conjunct2] by (auto simp: count_of_def unat8 split: option.splits)
qed

end
