(* ===== verification/Spec2Isabelle.thy ===== *)
theory Spec2Isabelle
  imports Varint Codec Geometry Constants Blocks ItemRegistry Packed Paletted PalettedFormat Chunks
    ChunkFormat ChunkStore WorldBlocks Fluid Lighting RecipeTable Crafting Inventory Redstone Container
    Furnace Encryption PacketIo Region AnvilChunk PlayPackets LoginPackets PlayerFacts MobFacts ServerState StreamFacts JoinFacts C2SFacts
    Brewing Raids Fishing Villagers
begin

text \<open>
  A verification development for Apoptotic, a Minecraft server written in Rust (protocol 776).

  \<^bold>\<open>How the program works.\<close> A client connects over TCP; its connection task (\<open>mc-network\<close>) reads
  frames from an optionally encrypted stream, decodes packets (\<open>mc-protocol\<close>), and goes
  through handshake, status or login, configuration and play. All connections share one server: the players
  and mobs with their inventories, containers, furnaces and recipes (\<open>mc-player\<close>), and the chunks
  with their block palettes, light, fluids and redstone (\<open>mc-world\<close>). A tick loop (\<open>mc-server\<close>)
  advances the world, and the chunks are kept in memory by an LRU store and saved to region files.

  \<^bold>\<open>Conventions.\<close> Integers have their width and wrap, as in the release profile of the workspace; a
  \<open>usize\<close> used as a count or an index is a \<open>nat\<close>. A panic aborts the process and is a value of its
  own (\<open>Panic\<close>, or \<open>None\<close> where a component has no other error). A string is its UTF-8 bytes. A
  concurrent map is an association list whose order is the iteration order, and an operation is atomic; where the
  code asks for a lock it holds itself, the result is the value \<open>Blocked\<close> or \<open>Deadlock\<close>, with the
  assignment of keys to shards as a parameter. Compression, AES, NBT, JSON, the file system, the
  clock and random numbers are parameters. Floating-point numbers are bit patterns, with the
  arithmetic of IEEE 754 written out in \<open>Floats\<close>.

  \<^bold>\<open>The theories, in the order of their dependencies.\<close>
  \<^item> \<open>Rust_Base\<close>: machine integers, outcomes, byte orders, and the two interfaces of the library:
    \<open>wire_format\<close> (a decoder that consumes exactly what its encoder wrote) and \<open>cell_store\<close> (what is
    read after a write), each interpreted on the codecs, palettes, chunks, light arrays and inventories.
    \<open>Floats\<close> and \<open>FloatFacts\<close>: binary floating point, and its values at the numbers used.
  \<^item> \<open>Varint\<close>, \<open>Codec\<close>, \<open>PlayPackets\<close>, \<open>LoginPackets\<close> (\<open>mc-protocol\<close>): variable-length numbers,
    fields, frames, and the packets of every state, with round trips and the inputs on which decoding panics.
  \<^item> \<open>Encryption\<close>, \<open>PacketIo\<close> (\<open>mc-network/src/encryption.rs\<close>, \<open>packet_io.rs\<close>): CFB8 and the frames on
    the encrypted stream.
  \<^item> \<open>Geometry\<close>, \<open>Constants\<close>, \<open>Blocks\<close>, \<open>ItemRegistry\<close>, \<open>Effects\<close> (\<open>mc-core\<close>): coordinates, numbers of
    things, block states, the names of items, status effects.
  \<^item> \<open>Packed\<close>, \<open>Paletted\<close>, \<open>PalettedFormat\<close>, \<open>Chunks\<close>, \<open>ChunkFormat\<close>, \<open>ChunkStore\<close>, \<open>WorldBlocks\<close>,
    \<open>Fluid\<close>, \<open>Lighting\<close>, \<open>Redstone\<close>, \<open>Region\<close>, \<open>AnvilChunk\<close> (\<open>mc-world\<close>): the blocks of a section,
    their bit-packed storage and formats, the store, the world as a map from coordinates to blocks
    (the refinement \<open>world_refines_cells\<close>), and what moves in it.
  \<^item> \<open>Inventory\<close>, \<open>Container\<close>, \<open>Furnace\<close>, \<open>Recipes\<close>, \<open>RecipeTable\<close>, \<open>Crafting\<close>, \<open>Enchant\<close>,
    \<open>Players\<close>, \<open>PlayerOps\<close>, \<open>PlayerTicks\<close>, \<open>PlayerFacts\<close>, \<open>Mobs\<close>, \<open>MobFacts\<close> (\<open>mc-player\<close>): items and who
    holds them, players and mobs with their index by chunk, damage, effects, hunger, experience, projectiles.
  \<^item> \<open>ServerState\<close> (\<open>mc-core/src/world_state.rs\<close>, \<open>team.rs\<close>, \<open>mc-network/src/rate_limiter.rs\<close>, the changed
    blocks of \<open>connection.rs\<close>): what all connections share.
  \<^item> \<open>Session\<close>, \<open>SessionFacts\<close> (\<open>mc-network/src/connection.rs\<close>): a connection from its first frame to the
    state of play, with the timeouts of its reads, the key exchange and the session server. Its input is the list of
    byte blocks with their times of arrival, so every loop ends with the input or the clock.
  \<^item> \<open>Joining\<close>, \<open>JoinFacts\<close>, \<open>Streaming\<close>, \<open>StreamFacts\<close> (\<open>connection.rs\<close>): entering and leaving play, and
    the chunks a player is sent as it moves.
  \<^item> \<open>C2SHandlers\<close>, \<open>C2SFacts\<close> (\<open>mc-network/src/c2s_handlers.rs\<close>): what a packet of a player does.

  \<^bold>\<open>Bounds.\<close> No definition of the model runs on fuel where the code does not: loops with a budget in
  the code (4096 components of a redstone propagation, 3 chunks of light) have that budget, the others
  are structural or have a termination proof, and the fluid loop, which the code runs until nothing changes, is proved
  to come to rest.

  \<^bold>\<open>Not modelled.\<close> Terrain generation (noise in floating point), the goals of the mobs' behaviour, the texts of most
  commands, WebAssembly plugins, the data pack loader, the SQLite persistence, metrics, the console and RCON, the LAN broadcast, configuration
  files, and the concurrency of the tick loop with the connection tasks beyond the locks above.
\<close>

end
